(* ===== verification/Json.thy ===== *)
theory Json
  imports RustStr
begin

text \<open>
  The JSON document the code inspects (\<open>serde_json::Value\<close>): six constructors and the
  documented projections \<open>get\<close>, \<open>pointer\<close>, \<open>as_str\<close>, \<open>as_bool\<close>, \<open>as_i64\<close>,
  \<open>as_u64\<close>, \<open>as_array\<close>, \<open>as_object\<close>.  A number is an integer or a float kept as
  its literal, which no modelled definition computes with.  An object is a list of
  entries; a pointer is its list of object keys (none of the paths of the code is a
  number, so it never indexes an array).
\<close>

datatype json_number = NumInt int | NumFloat string

datatype json =
    JNull
  | JBool bool
  | JNumber json_number
  | JString string
  | JArray "json list"
  | JObject "(string \<times> json) list"

definition jget :: "json \<Rightarrow> string \<Rightarrow> json option" where
  "jget j k = (case j of JObject es \<Rightarrow> map_of es k | _ \<Rightarrow> None)"

fun jpointer :: "json \<Rightarrow> string list \<Rightarrow> json option" where
  "jpointer j [] = Some j"
| "jpointer j (k # ks) = (case jget j k of None \<Rightarrow> None | Some v \<Rightarrow> jpointer v ks)"

definition as_str :: "json \<Rightarrow> string option" where
  "as_str j = (case j of JString s \<Rightarrow> Some s | _ \<Rightarrow> None)"

definition as_bool :: "json \<Rightarrow> bool option" where
  "as_bool j = (case j of JBool b \<Rightarrow> Some b | _ \<Rightarrow> None)"

definition as_i64 :: "json \<Rightarrow> int option" where
  "as_i64 j = (case j of
     JNumber (NumInt n) \<Rightarrow> if - (2 ^ 63) \<le> n \<and> n < 2 ^ 63 then Some n else None
   | _ \<Rightarrow> None)"

definition as_u64 :: "json \<Rightarrow> nat option" where
  "as_u64 j = (case j of
     JNumber (NumInt n) \<Rightarrow> if 0 \<le> n \<and> n < 2 ^ 64 then Some (nat n) else None
   | _ \<Rightarrow> None)"

definition as_array :: "json \<Rightarrow> json list option" where
  "as_array j = (case j of JArray xs \<Rightarrow> Some xs | _ \<Rightarrow> None)"

definition as_object :: "json \<Rightarrow> (string \<times> json) list option" where
  "as_object j = (case j of JObject es \<Rightarrow> Some es | _ \<Rightarrow> None)"

lemma jget_simps [simp]:
  "jget (JObject es) k = map_of es k"
  "jget JNull k = None" "jget (JBool b) k = None" "jget (JNumber n) k = None"
  "jget (JString s) k = None" "jget (JArray xs) k = None"
  by (simp_all add: jget_def)

lemma as_str_simps [simp]:
  "as_str (JString s) = Some s" "as_str (JObject es) = None" "as_str (JArray xs) = None"
  "as_str JNull = None" "as_str (JBool b) = None" "as_str (JNumber n) = None"
  by (simp_all add: as_str_def)

lemma as_array_simps [simp]:
  "as_array (JArray xs) = Some xs" "as_array (JObject es) = None" "as_array (JString s) = None"
  by (simp_all add: as_array_def)

text \<open>The parts of a document are smaller than it, so recursion over a document ends.\<close>

lemma size_entry: "(k, v) \<in> set es \<Longrightarrow> size (v :: json) < Suc (size_list (size_prod (\<lambda>_. 0) size) es)"
  by (induction es) auto

lemma size_element: "v \<in> set vs \<Longrightarrow> size (v :: json) < Suc (size_list size vs)"
  by (induction vs) auto

lemma in_set_enumerateD: "(i, v) \<in> set (enumerate n vs) \<Longrightarrow> v \<in> set vs"
  by (auto simp: in_set_enumerate_eq)

end
