(* ===== verification/Resource.thy ===== *)
theory Resource
  imports Json
begin

text \<open>
  \<open>crates/core/src/resource.rs\<close> and \<open>health.rs\<close>: what a resource kind is, the actions
  it may offer with their API names, and the readers of \<open>status.conditions\<close> from which
  the life cycle of a job is decided.
\<close>

section \<open>Categories\<close>

datatype category =
    Workloads | Config | Network | Storage | Rbac | Flux | ExternalSecrets | CertManager
  | Rook | CloudNativePg | PrometheusOperator | Cluster | Custom string

fun category_label :: "category \<Rightarrow> string" where
  "category_label Workloads = ''Workloads''"
| "category_label Config = ''Config''"
| "category_label Network = ''Network''"
| "category_label Storage = ''Storage''"
| "category_label Rbac = ''RBAC''"
| "category_label Flux = ''Flux''"
| "category_label ExternalSecrets = ''External Secrets''"
| "category_label CertManager = ''cert-manager''"
| "category_label Rook = ''Rook Ceph''"
| "category_label CloudNativePg = ''CloudNativePG''"
| "category_label PrometheusOperator = ''Prometheus Operator''"
| "category_label Cluster = ''Cluster''"
| "category_label (Custom name) = name"

fun category_order :: "category \<Rightarrow> nat" where
  "category_order Cluster = 0"
| "category_order Workloads = 1"
| "category_order Config = 2"
| "category_order Network = 3"
| "category_order Storage = 4"
| "category_order Rbac = 5"
| "category_order Flux = 6"
| "category_order ExternalSecrets = 7"
| "category_order CertManager = 8"
| "category_order Rook = 9"
| "category_order CloudNativePg = 10"
| "category_order PrometheusOperator = 11"
| "category_order (Custom _) = 12"

fun category_is_dynamic :: "category \<Rightarrow> bool" where
  "category_is_dynamic (Custom _) = True"
| "category_is_dynamic _ = False"

lemma category_order_inj:
  "category_order a = category_order b \<Longrightarrow> \<not> category_is_dynamic a \<Longrightarrow> a = b"
  by (cases a; cases b) simp_all

lemma category_dynamic_last: "category_is_dynamic a \<longleftrightarrow> (\<forall>b. category_order b \<le> category_order a)"
proof
  assume "category_is_dynamic a"
  then have "category_order a = 12" by (cases a) simp_all
  moreover have "category_order b \<le> 12" for b by (cases b) simp_all
  ultimately show "\<forall>b. category_order b \<le> category_order a" by simp
next
  assume "\<forall>b. category_order b \<le> category_order a"
  then have "category_order (Custom []) \<le> category_order a" by blast
  then show "category_is_dynamic a" by (cases a) simp_all
qed

section \<open>Actions\<close>

datatype resource_action =
    Delete | Evict | Scale | Restart | Cordon | Drain | Logs | Exec | DebugExec | NodeShell
  | FluxReconcile | FluxReconcileWithSource | FluxSuspend | FluxForce | FluxReset
  | ExternalSecretsRefresh | CertificateRenew | CronJobTrigger | JobRerun
  | KopiurSnapshotNow | CnpgBackup | CnpgSuspend

definition all_actions :: "resource_action list" where
  "all_actions =
     [Delete, Evict, Scale, Restart, Cordon, Drain, Logs, Exec, DebugExec, NodeShell,
      FluxReconcile, FluxReconcileWithSource, FluxSuspend, FluxForce, FluxReset,
      ExternalSecretsRefresh, CertificateRenew, CronJobTrigger, JobRerun,
      KopiurSnapshotNow, CnpgBackup, CnpgSuspend]"

text \<open>The discriminant of the \<open>repr(u8)\<close> enumeration (\<open>action as u8\<close>).\<close>

fun action_index :: "resource_action \<Rightarrow> nat" where
  "action_index Delete = 0"
| "action_index Evict = 1"
| "action_index Scale = 2"
| "action_index Restart = 3"
| "action_index Cordon = 4"
| "action_index Drain = 5"
| "action_index Logs = 6"
| "action_index Exec = 7"
| "action_index DebugExec = 8"
| "action_index NodeShell = 9"
| "action_index FluxReconcile = 10"
| "action_index FluxReconcileWithSource = 11"
| "action_index FluxSuspend = 12"
| "action_index FluxForce = 13"
| "action_index FluxReset = 14"
| "action_index ExternalSecretsRefresh = 15"
| "action_index CertificateRenew = 16"
| "action_index CronJobTrigger = 17"
| "action_index JobRerun = 18"
| "action_index KopiurSnapshotNow = 19"
| "action_index CnpgBackup = 20"
| "action_index CnpgSuspend = 21"

fun api_name :: "resource_action \<Rightarrow> string" where
  "api_name Delete = ''delete''"
| "api_name Evict = ''evict''"
| "api_name Scale = ''scale''"
| "api_name Restart = ''restart''"
| "api_name Cordon = ''cordon''"
| "api_name Drain = ''drain''"
| "api_name Logs = ''logs''"
| "api_name Exec = ''exec''"
| "api_name DebugExec = ''debug-exec''"
| "api_name NodeShell = ''node-shell''"
| "api_name FluxReconcile = ''flux-reconcile''"
| "api_name FluxReconcileWithSource = ''flux-reconcile-with-source''"
| "api_name FluxSuspend = ''flux-suspend''"
| "api_name FluxForce = ''flux-force''"
| "api_name FluxReset = ''flux-reset''"
| "api_name ExternalSecretsRefresh = ''eso-refresh''"
| "api_name CertificateRenew = ''certificate-renew''"
| "api_name CronJobTrigger = ''cronjob-trigger''"
| "api_name JobRerun = ''job-rerun''"
| "api_name KopiurSnapshotNow = ''kopiur-snapshot-now''"
| "api_name CnpgBackup = ''cnpg-backup''"
| "api_name CnpgSuspend = ''cnpg-suspend''"

definition from_api_name :: "string \<Rightarrow> resource_action option" where
  "from_api_name name =
     (if name = ''delete'' then Some Delete
      else if name = ''evict'' then Some Evict
      else if name = ''scale'' then Some Scale
      else if name = ''restart'' then Some Restart
      else if name = ''cordon'' \<or> name = ''uncordon'' then Some Cordon
      else if name = ''drain'' then Some Drain
      else if name = ''flux-reconcile'' then Some FluxReconcile
      else if name = ''flux-reconcile-with-source'' then Some FluxReconcileWithSource
      else if name = ''flux-suspend'' \<or> name = ''flux-resume'' then Some FluxSuspend
      else if name = ''flux-force'' then Some FluxForce
      else if name = ''flux-reset'' then Some FluxReset
      else if name = ''eso-refresh'' then Some ExternalSecretsRefresh
      else if name = ''certificate-renew'' then Some CertificateRenew
      else if name = ''cronjob-trigger'' then Some CronJobTrigger
      else if name = ''job-rerun'' then Some JobRerun
      else if name = ''kopiur-snapshot-now'' then Some KopiurSnapshotNow
      else if name = ''cnpg-backup'' then Some CnpgBackup
      else if name = ''cnpg-suspend'' \<or> name = ''cnpg-resume'' then Some CnpgSuspend
      else None)"

lemma all_actions_complete: "a \<in> set all_actions"
  by (cases a) (simp_all add: all_actions_def)

lemma distinct_all_actions: "distinct all_actions"
  by (simp add: all_actions_def)

lemma action_index_less: "action_index a < 32"
  by (cases a) simp_all

lemma action_index_inject [simp]: "action_index a = action_index b \<longleftrightarrow> a = b"
  by (cases a; cases b) simp_all

lemma all_actions_index: "map action_index all_actions = [0..<22]"
  by (simp add: all_actions_def upt_rec)

text \<open>The four actions that the API endpoint does not accept: they have routes of their own.\<close>

definition interactive_action :: "resource_action \<Rightarrow> bool" where
  "interactive_action a \<longleftrightarrow> a \<in> {Logs, Exec, DebugExec, NodeShell}"

lemma from_api_name_api_name:
  "from_api_name (api_name a) = (if interactive_action a then None else Some a)"
  by (cases a) (simp_all add: from_api_name_def interactive_action_def)

lemma api_name_inject: "api_name a = api_name b \<Longrightarrow> a = b"
  by (cases a; cases b) simp_all

lemma from_api_name_Some:
  "from_api_name n = Some a \<longleftrightarrow>
     n = api_name a \<and> \<not> interactive_action a
     \<or> (n, a) \<in> {(''uncordon'', Cordon), (''flux-resume'', FluxSuspend), (''cnpg-resume'', CnpgSuspend)}"
  unfolding from_api_name_def interactive_action_def by (cases a) auto

section \<open>Kinds\<close>

record resource_kind =
  rk_key :: string
  rk_group :: string
  rk_version :: string
  rk_kind :: string
  rk_plural :: string
  rk_namespaced :: bool
  rk_category :: category

definition make_key :: "string \<Rightarrow> string \<Rightarrow> string \<Rightarrow> string" where
  "make_key grp version kind = grp @ ''/'' @ version @ ''/'' @ kind"

lemma make_key_split:
  assumes "CHR ''/'' \<notin> set grp" "CHR ''/'' \<notin> set version"
  shows "split_once (CHR ''/'') (make_key grp version kind) = Some (grp, version @ ''/'' @ kind)"
  using assms by (auto simp: make_key_def split_once_Some)

lemma make_key_inject:
  assumes "CHR ''/'' \<notin> set g1" "CHR ''/'' \<notin> set v1" "CHR ''/'' \<notin> set g2" "CHR ''/'' \<notin> set v2"
    and eq: "make_key g1 v1 k1 = make_key g2 v2 k2"
  shows "g1 = g2 \<and> v1 = v2 \<and> k1 = k2"
proof -
  from eq make_key_split [OF assms(1,2), of k1] make_key_split [OF assms(3,4), of k2]
  have g: "g1 = g2" and r: "v1 @ ''/'' @ k1 = v2 @ ''/'' @ k2" by auto
  have "split_once (CHR ''/'') (v1 @ ''/'' @ k1) = Some (v1, k1)"
    and "split_once (CHR ''/'') (v2 @ ''/'' @ k2) = Some (v2, k2)"
    using assms(2,4) by (auto simp: split_once_Some)
  with r have "v1 = v2 \<and> k1 = k2" by auto
  with g show ?thesis by simp
qed

section \<open>Conditions and the life cycle of a job\<close>

datatype job_lifecycle = Complete | Failed | Failing | Suspended | Completing | Running

fun lifecycle_is_terminal :: "job_lifecycle \<Rightarrow> bool" where
  "lifecycle_is_terminal Complete = True"
| "lifecycle_is_terminal Failed = True"
| "lifecycle_is_terminal _ = False"

definition status_generation_is_stale :: "json \<Rightarrow> bool" where
  "status_generation_is_stale data =
     (case (Option.bind (jpointer data [''metadata'', ''generation'']) as_i64,
            Option.bind (jpointer data [''status'', ''observedGeneration'']) as_i64) of
        (Some generation, Some observed) \<Rightarrow> observed < generation
      | _ \<Rightarrow> False)"

definition has_type :: "string \<Rightarrow> json \<Rightarrow> bool" where
  "has_type ty c \<longleftrightarrow> Option.bind (jget c ''type'') as_str = Some ty"

definition current_condition_from :: "json list \<Rightarrow> int option \<Rightarrow> string \<Rightarrow> json option" where
  "current_condition_from conditions generation ty =
     (let matching = filter (has_type ty) (rev conditions)
      in case generation of
           None \<Rightarrow> find (\<lambda>_. True) matching
         | Some g \<Rightarrow>
             (case find (\<lambda>c. Option.bind (jget c ''observedGeneration'') as_i64 = Some g) matching of
                Some c \<Rightarrow> Some c
              | None \<Rightarrow> find (\<lambda>c. jget c ''observedGeneration'' = None) matching))"

definition current_condition :: "json \<Rightarrow> string \<Rightarrow> json option" where
  "current_condition data ty =
     (let generation = Option.bind (jpointer data [''metadata'', ''generation'']) as_i64
      in case Option.bind (jpointer data [''status'', ''conditions'']) as_array of
           None \<Rightarrow> None
         | Some conditions \<Rightarrow>
             (case current_condition_from conditions generation ty of
                None \<Rightarrow> None
              | Some c \<Rightarrow>
                  if jget c ''observedGeneration'' = None \<and> status_generation_is_stale data
                  then None else Some c))"

definition condition_is :: "json \<Rightarrow> string \<Rightarrow> string \<Rightarrow> bool" where
  "condition_is data ty status \<longleftrightarrow>
     Option.bind (Option.bind (current_condition data ty) (\<lambda>c. jget c ''status'')) as_str = Some status"

definition job_lifecycle_of :: "json \<Rightarrow> job_lifecycle" where
  "job_lifecycle_of data =
     (if condition_is data ''Failed'' ''True'' then Failed
      else if condition_is data ''FailureTarget'' ''True'' then Failing
      else if condition_is data ''Complete'' ''True'' then Complete
      else if Option.bind (jpointer data [''spec'', ''suspend'']) as_bool = Some True
              \<or> condition_is data ''Suspended'' ''True'' then Suspended
      else if condition_is data ''SuccessCriteriaMet'' ''True'' then Completing
      else Running)"

lemma current_condition_from_sound:
  assumes cc: "current_condition_from cs generation t = Some c"
  shows "c \<in> set cs \<and> has_type t c \<and>
    (\<forall>g. generation = Some g \<longrightarrow>
       Option.bind (jget c ''observedGeneration'') as_i64 = Some g \<or> jget c ''observedGeneration'' = None)"
proof (cases generation)
  case None
  with cc have "find (\<lambda>_. True) (filter (has_type t) (rev cs)) = Some c"
    by (simp add: current_condition_from_def)
  then show ?thesis using None by (auto dest: find_Some_in_set)
next
  case (Some g)
  with cc have "find (\<lambda>c. Option.bind (jget c ''observedGeneration'') as_i64 = Some g)
      (filter (has_type t) (rev cs)) = Some c
    \<or> find (\<lambda>c. jget c ''observedGeneration'' = None) (filter (has_type t) (rev cs)) = Some c"
    by (auto simp: current_condition_from_def Let_def split: option.splits)
  then show ?thesis using Some by (auto dest: find_Some_in_set)
qed

text \<open>A condition reported for another generation than the object's never counts.\<close>

lemma current_condition_generation:
  assumes cc: "current_condition data t = Some c"
    and gen: "Option.bind (jpointer data [''metadata'', ''generation'']) as_i64 = Some g"
  shows "Option.bind (jget c ''observedGeneration'') as_i64 = Some g
     \<or> jget c ''observedGeneration'' = None \<and> \<not> status_generation_is_stale data"
proof -
  from cc gen obtain cs where "current_condition_from cs (Some g) t = Some c"
    and "jget c ''observedGeneration'' = None \<longrightarrow> \<not> status_generation_is_stale data"
    by (auto simp: current_condition_def Let_def split: option.splits if_splits)
  with current_condition_from_sound [of cs "Some g" t c] show ?thesis
    by (cases "jget c ''observedGeneration''") simp_all
qed

end
