(* ===== verification/Permissions.thy ===== *)
theory Permissions
  imports Resource
begin

unbundle bit_operations_syntax

text \<open>
  \<open>crates/core/src/permissions.rs\<close>: the static capabilities of a group/version/kind as a
  32-bit set, and the per-object permissions the server computed.
\<close>

section \<open>The capability bit set\<close>

type_synonym resource_capabilities = "32 word"

definition bit_of :: "resource_action \<Rightarrow> resource_capabilities" where
  "bit_of action = push_bit (action_index action) 1"

definition bits_for :: "resource_action list \<Rightarrow> resource_capabilities" where
  "bits_for actions = foldl (\<lambda>bits action. bits OR bit_of action) 0 actions"

definition flux_reconcile_kind :: "string \<Rightarrow> string \<Rightarrow> bool" where
  "flux_reconcile_kind grp kind \<longleftrightarrow> (grp, kind) \<in> set
     [(''kustomize.toolkit.fluxcd.io'', ''Kustomization''),
      (''helm.toolkit.fluxcd.io'', ''HelmRelease''),
      (''source.toolkit.fluxcd.io'', ''GitRepository''),
      (''source.toolkit.fluxcd.io'', ''OCIRepository''),
      (''source.toolkit.fluxcd.io'', ''HelmRepository''),
      (''source.toolkit.fluxcd.io'', ''Bucket''),
      (''source.toolkit.fluxcd.io'', ''HelmChart''),
      (''image.toolkit.fluxcd.io'', ''ImageRepository''),
      (''image.toolkit.fluxcd.io'', ''ImagePolicy''),
      (''image.toolkit.fluxcd.io'', ''ImageUpdateAutomation''),
      (''notification.toolkit.fluxcd.io'', ''Receiver'')]"

definition flux_suspend_kind :: "string \<Rightarrow> string \<Rightarrow> bool" where
  "flux_suspend_kind grp kind \<longleftrightarrow>
     flux_reconcile_kind grp kind
     \<or> (grp, kind) \<in> set
         [(''notification.toolkit.fluxcd.io'', ''Alert''),
          (''notification.toolkit.fluxcd.io'', ''Provider'')]"

definition for_gvk :: "string \<Rightarrow> string \<Rightarrow> string \<Rightarrow> resource_capabilities" where
  "for_gvk grp version kind =
     (let bits = bit_of Delete;
          bits = bits OR (if grp = [] \<and> kind = ''Pod''
                          then bits_for [Evict, Logs, Exec, DebugExec] else 0);
          bits = bits OR (if grp = [] \<and> kind = ''Node''
                          then bits_for [Cordon, Drain, NodeShell] else 0);
          bits = bits OR (if grp = ''apps''
                             \<and> kind \<in> set [''Deployment'', ''StatefulSet'', ''DaemonSet'', ''ReplicaSet'']
                          then bits_for [Restart, Logs] else 0);
          bits = bits OR (if grp = ''apps''
                             \<and> kind \<in> set [''Deployment'', ''StatefulSet'', ''ReplicaSet'']
                          then bit_of Scale else 0);
          bits = bits OR (if grp = ''batch'' \<and> kind = ''Job''
                          then bits_for [JobRerun, Logs] else 0);
          bits = bits OR (if grp = ''batch'' \<and> kind = ''CronJob''
                          then bit_of CronJobTrigger else 0);
          bits = bits OR (if flux_reconcile_kind grp kind then bit_of FluxReconcile else 0);
          bits = bits OR (if flux_suspend_kind grp kind then bit_of FluxSuspend else 0);
          bits = bits OR (if (grp, kind) \<in> set
                               [(''kustomize.toolkit.fluxcd.io'', ''Kustomization''),
                                (''helm.toolkit.fluxcd.io'', ''HelmRelease'')]
                          then bit_of FluxReconcileWithSource else 0);
          bits = bits OR (if grp = ''helm.toolkit.fluxcd.io'' \<and> kind = ''HelmRelease''
                          then bits_for [FluxForce, FluxReset] else 0);
          bits = bits OR (if grp = ''external-secrets.io''
                             \<and> kind \<in> set [''ExternalSecret'', ''ClusterExternalSecret'']
                          then bit_of ExternalSecretsRefresh else 0);
          bits = bits OR (if grp = ''cert-manager.io'' \<and> kind = ''Certificate''
                          then bit_of CertificateRenew else 0);
          bits = bits OR (if grp = ''kopiur.home-operations.com'' \<and> kind = ''SnapshotPolicy''
                          then bit_of KopiurSnapshotNow else 0);
          bits = bits OR (if grp = ''postgresql.cnpg.io'' \<and> kind = ''Cluster''
                          then bit_of CnpgBackup else 0);
          bits = bits OR (if grp = ''postgresql.cnpg.io'' \<and> kind = ''ScheduledBackup''
                          then bit_of CnpgSuspend else 0)
      in bits)"

definition supports :: "resource_capabilities \<Rightarrow> resource_action \<Rightarrow> bool" where
  "supports caps action \<longleftrightarrow> caps AND bit_of action \<noteq> 0"

definition capabilities :: "resource_kind \<Rightarrow> resource_capabilities" where
  "capabilities k = for_gvk (rk_group k) (rk_version k) (rk_kind k)"

definition kind_supports :: "resource_kind \<Rightarrow> resource_action \<Rightarrow> bool" where
  "kind_supports k action = supports (capabilities k) action"

text \<open>
  The specification: what a kind is meant to offer, action by action, with no bits.
\<close>

fun offers :: "string \<Rightarrow> string \<Rightarrow> resource_action \<Rightarrow> bool" where
  "offers g k Delete = True"
| "offers g k Evict = (g = [] \<and> k = ''Pod'')"
| "offers g k Exec = (g = [] \<and> k = ''Pod'')"
| "offers g k DebugExec = (g = [] \<and> k = ''Pod'')"
| "offers g k Cordon = (g = [] \<and> k = ''Node'')"
| "offers g k Drain = (g = [] \<and> k = ''Node'')"
| "offers g k NodeShell = (g = [] \<and> k = ''Node'')"
| "offers g k Restart =
     (g = ''apps'' \<and> k \<in> set [''Deployment'', ''StatefulSet'', ''DaemonSet'', ''ReplicaSet''])"
| "offers g k Scale = (g = ''apps'' \<and> k \<in> set [''Deployment'', ''StatefulSet'', ''ReplicaSet''])"
| "offers g k Logs =
     (g = [] \<and> k = ''Pod''
      \<or> g = ''apps'' \<and> k \<in> set [''Deployment'', ''StatefulSet'', ''DaemonSet'', ''ReplicaSet'']
      \<or> g = ''batch'' \<and> k = ''Job'')"
| "offers g k JobRerun = (g = ''batch'' \<and> k = ''Job'')"
| "offers g k CronJobTrigger = (g = ''batch'' \<and> k = ''CronJob'')"
| "offers g k FluxReconcile = flux_reconcile_kind g k"
| "offers g k FluxSuspend = flux_suspend_kind g k"
| "offers g k FluxReconcileWithSource =
     ((g, k) = (''kustomize.toolkit.fluxcd.io'', ''Kustomization'')
      \<or> (g, k) = (''helm.toolkit.fluxcd.io'', ''HelmRelease''))"
| "offers g k FluxForce = (g = ''helm.toolkit.fluxcd.io'' \<and> k = ''HelmRelease'')"
| "offers g k FluxReset = (g = ''helm.toolkit.fluxcd.io'' \<and> k = ''HelmRelease'')"
| "offers g k ExternalSecretsRefresh =
     (g = ''external-secrets.io'' \<and> k \<in> set [''ExternalSecret'', ''ClusterExternalSecret''])"
| "offers g k CertificateRenew = (g = ''cert-manager.io'' \<and> k = ''Certificate'')"
| "offers g k KopiurSnapshotNow = (g = ''kopiur.home-operations.com'' \<and> k = ''SnapshotPolicy'')"
| "offers g k CnpgBackup = (g = ''postgresql.cnpg.io'' \<and> k = ''Cluster'')"
| "offers g k CnpgSuspend = (g = ''postgresql.cnpg.io'' \<and> k = ''ScheduledBackup'')"

lemma supports_iff_bit: "supports w a \<longleftrightarrow> bit w (action_index a)"
  unfolding supports_def bit_of_def
  by (simp add: push_bit_eq_mult and_exp_eq_0_iff_not_bit)

lemma supports_bit_of [simp]: "supports (bit_of b) a \<longleftrightarrow> a = b"
  by (auto simp: supports_iff_bit bit_of_def bit_exp_iff action_index_less)

lemma supports_zero [simp]: "\<not> supports 0 a"
  by (simp add: supports_def)

lemma supports_or [simp]: "supports (v OR w) a \<longleftrightarrow> supports v a \<or> supports w a"
  by (simp add: supports_iff_bit bit_or_iff)

lemma supports_if [simp]: "supports (if c then v else w) a = (if c then supports v a else supports w a)"
  by simp

lemma supports_foldl:
  "supports (foldl (\<lambda>bits action. bits OR bit_of action) w as) a \<longleftrightarrow> supports w a \<or> a \<in> set as"
  by (induction as arbitrary: w) auto

lemma supports_bits_for [simp]: "supports (bits_for as) a \<longleftrightarrow> a \<in> set as"
  by (simp add: bits_for_def supports_foldl)

lemma supports_for_gvk: "supports (for_gvk g v k) a \<longleftrightarrow> offers g k a"
  unfolding for_gvk_def Let_def
  by (cases a; simp only: supports_or supports_if supports_bit_of supports_bits_for supports_zero
        resource_action.simps list.set insert_iff empty_iff simp_thms if_True if_False if_cancel
        offers.simps; argo?)

section \<open>Permissions of one object\<close>

record action_permissions =
  ap_apply :: bool
  ap_actions :: "(string, bool) hmap"

definition allows :: "action_permissions \<Rightarrow> resource_action \<Rightarrow> bool" where
  "allows p action = (case hm_get (ap_actions p) (api_name action) of None \<Rightarrow> False | Some b \<Rightarrow> b)"

definition allows_api_name :: "action_permissions \<Rightarrow> string \<Rightarrow> bool" where
  "allows_api_name p name =
     (case from_api_name name of None \<Rightarrow> False | Some action \<Rightarrow> allows p action)"

record action_summary =
  attempted :: nat
  succeeded :: nat
  forbidden :: nat
  failed_count :: nat

definition summary_merge :: "action_summary \<Rightarrow> action_summary \<Rightarrow> action_summary" where
  "summary_merge s other =
     s\<lparr>attempted := attempted s + attempted other,
       succeeded := succeeded s + succeeded other,
       forbidden := forbidden s + forbidden other,
       failed_count := failed_count s + failed_count other\<rparr>"

definition summary_balanced :: "action_summary \<Rightarrow> bool" where
  "summary_balanced s \<longleftrightarrow> attempted s = succeeded s + forbidden s + failed_count s"

lemma summary_merge_balanced [inv_intros]:
  "summary_balanced s \<Longrightarrow> summary_balanced t \<Longrightarrow> summary_balanced (summary_merge s t)"
  by (simp add: summary_balanced_def summary_merge_def)

lemma allows_api_name_iff:
  "allows_api_name p n \<longleftrightarrow> (\<exists>a. from_api_name n = Some a \<and> hm_get (ap_actions p) (api_name a) = Some True)"
  by (auto simp: allows_api_name_def allows_def split: option.splits)

end
