(* ===== verification/CoreProps.thy ===== *)
theory CoreProps
  imports Permissions
begin

text \<open>
  The properties of the core vocabulary: action names, capabilities, resource keys and the
  conditions from which the life cycle of a job is read.
\<close>

text \<open>C7: the 32-bit capability set of a group, version and kind holds exactly the actions that
  kind offers, action by action, so no action's bit is clobbered by another's.\<close>

theorem capabilities_are_what_the_kind_offers:
  "supports (for_gvk g v k) a \<longleftrightarrow> offers g k a"
  by (rule supports_for_gvk)

text \<open>The action names of the API and the actions correspond: every accepted name belongs to
  one action, an action is reached by its own name unless it has a route of its own
  (logs, exec, debug exec, node shell), and the only other names are the three inverse
  spellings.\<close>

theorem api_names_correspond:
  "(from_api_name n = Some a \<longleftrightarrow>
      n = api_name a \<and> \<not> interactive_action a
      \<or> (n, a) \<in> {(''uncordon'', Cordon), (''flux-resume'', FluxSuspend), (''cnpg-resume'', CnpgSuspend)})
   \<and> from_api_name (api_name b) = (if interactive_action b then None else Some b)"
  using from_api_name_Some from_api_name_api_name by blast

text \<open>A job is called complete or failed only on current evidence: there is a condition of that
  type in its status, with status True, reported for the generation the object has, or for none
  while the status as a whole is not behind.\<close>

theorem job_ends_on_current_evidence:
  assumes "lifecycle_is_terminal (job_lifecycle_of data)"
    and "Option.bind (jpointer data [''metadata'', ''generation'']) as_i64 = Some g"
  shows "\<exists>ty c. current_condition data ty = Some c
    \<and> (job_lifecycle_of data = Failed \<and> ty = ''Failed'' \<or> job_lifecycle_of data = Complete \<and> ty = ''Complete'')
    \<and> Option.bind (jget c ''status'') as_str = Some ''True''
    \<and> (Option.bind (jget c ''observedGeneration'') as_i64 = Some g
       \<or> jget c ''observedGeneration'' = None \<and> \<not> status_generation_is_stale data)"
proof -
  have is_True: "\<exists>c. current_condition data ty = Some c \<and> Option.bind (jget c ''status'') as_str = Some ''True''"
    if "condition_is data ty ''True''" for ty
    using that by (cases "current_condition data ty") (simp_all add: condition_is_def)
  have "job_lifecycle_of data = Failed \<and> condition_is data ''Failed'' ''True''
      \<or> job_lifecycle_of data = Complete \<and> condition_is data ''Complete'' ''True''"
    using assms(1) by (simp add: job_lifecycle_of_def split: if_splits)
  then show ?thesis
    using is_True current_condition_generation[OF _ assms(2)] by metis
qed

definition done_job :: json where
  "done_job = JObject [(''metadata'', JObject [(''generation'', JNumber (NumInt 2))]),
     (''status'', JObject [(''conditions'', JArray [JObject [(''type'', JString ''Complete''),
        (''status'', JString ''True''), (''observedGeneration'', JNumber (NumInt 2))]])])]"

theorem job_ends_on_current_evidence_witness:
  "job_lifecycle_of done_job = Complete
   \<and> (\<exists>ty c. current_condition done_job ty = Some c \<and> Option.bind (jget c ''status'') as_str = Some ''True'')"
proof -
  have c: "job_lifecycle_of done_job = Complete"
    by (simp add: job_lifecycle_of_def condition_is_def current_condition_def current_condition_from_def
        done_job_def has_type_def as_i64_def Let_def as_bool_def)
  moreover have "Option.bind (jpointer done_job [''metadata'', ''generation'']) as_i64 = Some 2"
    by (simp add: done_job_def as_i64_def)
  ultimately show ?thesis using job_ends_on_current_evidence[of done_job 2] by auto
qed

text \<open>Permission for an API name is permission for its action: what the server reported for
  the action under its own name.\<close>

theorem allowed_only_if_reported:
  "allows_api_name p n \<longleftrightarrow>
     (\<exists>a. from_api_name n = Some a \<and> hm_get (ap_actions p) (api_name a) = Some True)"
  by (rule allows_api_name_iff)

end
