(* ===== verification/KubeTypes.thy ===== *)
theory KubeTypes
  imports Prelude RustStr
begin

text \<open>
  The parts of the Kubernetes objects (\<open>k8s-openapi\<close>) that the modelled code reads, with the
  \<open>Option\<close>s of the generated types, and the classification of request errors of
  \<open>crates/k8s/src/backend/mod.rs\<close>.
\<close>

section \<open>Objects\<close>

record owner_reference =
  or_api_version :: string
  or_kind :: string
  or_name :: string
  or_uid :: string

record object_meta =
  om_name :: "string option"
  om_namespace :: "string option"
  om_uid :: "string option"
  om_resource_version :: "string option"
  om_deletion_timestamp :: "string option"
  om_owner_references :: "owner_reference list option"
  om_annotations :: "(string, string) hmap option"
  om_labels :: "(string, string) hmap option"

text \<open>A status condition of a pod or a node, a volume (\<open>empty_dir.is_some()\<close>).\<close>

record kube_condition =
  kc_type :: string
  kc_status :: string

record volume =
  vol_name :: string
  vol_empty_dir :: bool

record pod_spec =
  ps_node_name :: "string option"
  ps_volumes :: "volume list option"

record pod_status =
  pst_phase :: "string option"
  pst_pod_ip :: "string option"
  pst_conditions :: "kube_condition list option"

record pod =
  pod_metadata :: object_meta
  pod_spec_of :: "pod_spec option"
  pod_status_of :: "pod_status option"

record node_status =
  ns_conditions :: "kube_condition list option"
  ns_boot_id :: "string option"

record node =
  node_metadata :: object_meta
  node_status_of :: "node_status option"

section \<open>Request errors\<close>

text \<open>
  \<open>kube::Error\<close> as the code distinguishes it: an API status with its code and its message, a
  transport error, or anything else; every error has its \<open>to_string\<close>.
\<close>

datatype kube_error =
    ErrApi nat string
  | ErrHyper string
  | ErrService string
  | ErrOther string

fun kube_error_to_string :: "kube_error \<Rightarrow> string" where
  "kube_error_to_string (ErrApi c m) = m"
| "kube_error_to_string (ErrHyper m) = m"
| "kube_error_to_string (ErrService m) = m"
| "kube_error_to_string (ErrOther m) = m"

datatype k8s_error =
    K8sConfig string
  | K8sBuild string
  | K8sApi string
  | K8sContainer string

fun k8s_error_to_string :: "k8s_error \<Rightarrow> string" where
  "k8s_error_to_string (K8sConfig s) = ''failed to load Kubernetes config: '' @ s"
| "k8s_error_to_string (K8sBuild s) = ''failed to build Kubernetes client: '' @ s"
| "k8s_error_to_string (K8sApi s) = ''Kubernetes API error: '' @ s"
| "k8s_error_to_string (K8sContainer s) = s"

definition api_err :: "kube_error \<Rightarrow> k8s_error" where
  "api_err e = K8sApi (kube_error_to_string e)"

datatype api_error_disposition = NotFound | Retryable | Permanent

definition classify_status :: "nat \<Rightarrow> api_error_disposition" where
  "classify_status c =
     (if c = 404 then NotFound
      else if c = 429 \<or> 500 \<le> c \<and> c \<le> 599 then Retryable
      else Permanent)"

fun classify_kube_error :: "kube_error \<Rightarrow> api_error_disposition" where
  "classify_kube_error (ErrApi c m) = classify_status c"
| "classify_kube_error (ErrHyper m) = Retryable"
| "classify_kube_error (ErrService m) = Retryable"
| "classify_kube_error (ErrOther m) = Permanent"

end
