(* ===== verification/Drain.thy ===== *)
theory Drain
  imports KubeTypes
begin

text \<open>
  The vocabulary of a node drain: \<open>crates/core/src/drain.rs\<close> (options, summary, events) and
  the predicates on pods of \<open>crates/k8s/src/backend/drain.rs\<close> that decide which pods a drain
  removes, which it waits for and which block it.
\<close>

section \<open>Options, summary, events\<close>

record drain_summary =
  ds_evicted :: nat
  ds_skipped :: nat
  ds_failed :: "string list"

definition drain_summary_default :: drain_summary where
  "drain_summary_default = \<lparr>ds_evicted = 0, ds_skipped = 0, ds_failed = []\<rparr>"

definition DRAIN_TIMEOUT_MAX_SECS :: nat where
  "DRAIN_TIMEOUT_MAX_SECS = 3600"

definition DRAIN_GRACE_PERIOD_MAX_SECS :: nat where
  "DRAIN_GRACE_PERIOD_MAX_SECS = 86400"

record drain_options =
  force :: bool
  delete_emptydir_data :: bool
  ignore_daemonsets :: bool
  disable_eviction :: bool
  grace_period :: "nat option"
  timeout_secs :: nat

definition drain_validate :: "drain_options \<Rightarrow> string + unit" where
  "drain_validate opts =
     (if timeout_secs opts > DRAIN_TIMEOUT_MAX_SECS
      then Inl ''timeout must not exceed 3600 seconds''
      else if (case grace_period opts of None \<Rightarrow> False
               | Some seconds \<Rightarrow> seconds > DRAIN_GRACE_PERIOD_MAX_SECS)
      then Inl ''grace period must not exceed 86400 seconds''
      else Inr ())"

lemma drain_validate_ok:
  "drain_validate opts = Inr () \<longleftrightarrow>
     timeout_secs opts \<le> 3600 \<and> (\<forall>g. grace_period opts = Some g \<longrightarrow> g \<le> 86400)"
  by (auto simp: drain_validate_def DRAIN_TIMEOUT_MAX_SECS_def DRAIN_GRACE_PERIOD_MAX_SECS_def
      split: option.splits if_splits)

record drain_blocker =
  db_pod :: string
  db_reason :: string
  db_clearable_by :: string

datatype drain_event_kind =
    Started nat
  | Cordoned
  | Evicted string nat nat
  | EvictFailed string string
  | Blocked "drain_blocker list"
  | WaitingTermination "string list"
  | PowerRequested string
  | NodeReady
  | Done drain_summary
  | DrainError string
  | Cancelled

record drain_event =
  de_seq :: nat
  de_kind :: drain_event_kind

record active_drain_job =
  aj_job :: nat
  aj_executor :: "string option"
  aj_started_at :: nat
  aj_key :: string
  aj_name :: string
  aj_power :: "string option"

section \<open>Which pods\<close>

definition is_daemonset :: "pod \<Rightarrow> bool" where
  "is_daemonset p =
     (case om_owner_references (pod_metadata p) of None \<Rightarrow> False
      | Some refs \<Rightarrow> list_ex (\<lambda>owner. or_kind owner = ''DaemonSet'') refs)"

definition is_mirror :: "pod \<Rightarrow> bool" where
  "is_mirror p =
     (case om_annotations (pod_metadata p) of None \<Rightarrow> False
      | Some annotations \<Rightarrow> hm_get annotations ''kubernetes.io/config.mirror'' \<noteq> None)"

definition pod_phase :: "pod \<Rightarrow> string option" where
  "pod_phase p = (case pod_status_of p of None \<Rightarrow> None | Some st \<Rightarrow> pst_phase st)"

definition is_terminal :: "pod \<Rightarrow> bool" where
  "is_terminal p =
     (case pod_phase p of None \<Rightarrow> False
      | Some phase \<Rightarrow> phase = ''Succeeded'' \<or> phase = ''Failed'')"

definition is_deleting :: "pod \<Rightarrow> bool" where
  "is_deleting p = (om_deletion_timestamp (pod_metadata p) \<noteq> None)"

definition is_evictable :: "pod \<Rightarrow> bool" where
  "is_evictable p =
     (if is_deleting p then False
      else if is_mirror p then False
      else if is_daemonset p then False
      else \<not> is_terminal p)"

definition is_waitable_terminating :: "pod \<Rightarrow> bool" where
  "is_waitable_terminating p \<longleftrightarrow>
     is_deleting p \<and> \<not> is_daemonset p \<and> \<not> is_mirror p \<and> \<not> is_terminal p"

definition skipped_pod_count :: "pod list \<Rightarrow> nat" where
  "skipped_pod_count pods = length (filter (\<lambda>p. \<not> is_evictable p) pods)"

definition or_default :: "string option \<Rightarrow> string" where
  "or_default x = (case x of None \<Rightarrow> [] | Some s \<Rightarrow> s)"

definition drain_blockers :: "drain_options \<Rightarrow> pod \<Rightarrow> drain_blocker list" where
  "drain_blockers opts p =
     (let name = (case om_name (pod_metadata p) of Some n \<Rightarrow> n | None \<Rightarrow> ''unknown pod'')
      in if is_terminal p \<or> is_mirror p \<or> is_deleting p then []
         else if is_daemonset p then
           (if ignore_daemonsets opts then []
            else [\<lparr>db_pod = name, db_reason = ''DaemonSet-managed pod'',
                   db_clearable_by = ''ignore_daemonsets''\<rparr>])
         else
           (if (case om_owner_references (pod_metadata p) of None \<Rightarrow> True | Some refs \<Rightarrow> refs = [])
                \<and> \<not> force opts
            then [\<lparr>db_pod = name, db_reason = ''unmanaged pod'', db_clearable_by = ''force''\<rparr>]
            else [])
           @ (if \<not> delete_emptydir_data opts
                 \<and> (case pod_spec_of p of None \<Rightarrow> False
                    | Some sp \<Rightarrow> (case ps_volumes sp of None \<Rightarrow> False
                                 | Some vs \<Rightarrow> list_ex vol_empty_dir vs))
              then [\<lparr>db_pod = name, db_reason = ''uses emptyDir storage'',
                     db_clearable_by = ''delete_emptydir_data''\<rparr>]
              else []))"

section \<open>Pod identities\<close>

record pod_identity =
  pi_namespace :: string
  pi_name :: string
  pi_uid :: "string option"

definition pod_identity_of :: "pod \<Rightarrow> pod_identity" where
  "pod_identity_of p =
     \<lparr>pi_namespace = or_default (om_namespace (pod_metadata p)),
      pi_name = or_default (om_name (pod_metadata p)),
      pi_uid = om_uid (pod_metadata p)\<rparr>"

definition identity_matches :: "pod_identity \<Rightarrow> pod \<Rightarrow> bool" where
  "identity_matches i p =
     (case pi_uid i of
        Some uid \<Rightarrow> om_uid (pod_metadata p) = Some uid
      | None \<Rightarrow> or_default (om_namespace (pod_metadata p)) = pi_namespace i
                \<and> or_default (om_name (pod_metadata p)) = pi_name i)"

definition pod_names :: "pod list \<Rightarrow> string list" where
  "pod_names pods = List.map_filter (\<lambda>p. om_name (pod_metadata p)) pods"

text \<open>\<open>sort\<close> on strings is the byte order (\<open>List_Lexorder\<close> over \<open>Char_ord\<close>).\<close>

definition remaining_terminating_pods :: "pod list \<Rightarrow> pod_identity list \<Rightarrow> string list" where
  "remaining_terminating_pods pods terminating =
     sort (pod_names (filter (\<lambda>p. list_ex (\<lambda>i. identity_matches i p) terminating) pods))"

section \<open>Facts\<close>

lemma evictable_iff:
  "is_evictable p \<longleftrightarrow> \<not> is_deleting p \<and> \<not> is_mirror p \<and> \<not> is_daemonset p \<and> \<not> is_terminal p"
  by (simp add: is_evictable_def)

text \<open>Every pod is of exactly one sort: evicted, waited for, or left alone.\<close>

lemma evictable_not_waitable: "is_evictable p \<Longrightarrow> \<not> is_waitable_terminating p"
  by (simp add: evictable_iff is_waitable_terminating_def)

lemma skipped_plus_evictable:
  "skipped_pod_count pods + length (filter is_evictable pods) = length pods"
  unfolding skipped_pod_count_def using sum_length_filter_compl[of is_evictable pods] by simp

text \<open>A pod is the object whose identity was taken, as long as it keeps its uid.\<close>

lemma identity_matches_self [simp]: "identity_matches (pod_identity_of p) p"
  by (simp add: identity_matches_def pod_identity_of_def split: option.splits)

lemma identity_uid:
  "pi_uid i = Some u \<Longrightarrow> identity_matches i p \<Longrightarrow> om_uid (pod_metadata p) = Some u"
  by (simp add: identity_matches_def)

lemma set_pod_names: "n \<in> set (pod_names ps) \<longleftrightarrow> (\<exists>p\<in>set ps. om_name (pod_metadata p) = Some n)"
  by (induction ps) (auto simp: pod_names_def map_filter_simps split: option.splits)

lemma set_remaining:
  "n \<in> set (remaining_terminating_pods pods ts) \<longleftrightarrow>
     (\<exists>p\<in>set pods. om_name (pod_metadata p) = Some n \<and> (\<exists>i\<in>set ts. identity_matches i p))"
  by (auto simp: remaining_terminating_pods_def set_pod_names list_ex_iff)

lemma remaining_Nil_iff:
  "remaining_terminating_pods pods ts = [] \<longleftrightarrow>
     (\<forall>p\<in>set pods. om_name (pod_metadata p) \<noteq> None \<longrightarrow> (\<forall>i\<in>set ts. \<not> identity_matches i p))"
proof -
  have "remaining_terminating_pods pods ts = [] \<longleftrightarrow> (\<forall>n. n \<notin> set (remaining_terminating_pods pods ts))"
    by (metis list.set_intros(1) list.exhaust empty_iff list.set(1))
  then show ?thesis by (auto simp: set_remaining)
qed

text \<open>
  The contract of the blockers: a pod that would be evicted is free to go exactly when it
  has an owner or \<open>force\<close> is set, and holds no \<open>emptyDir\<close> or its loss is accepted; a
  DaemonSet pod blocks exactly when DaemonSets are not ignored; no other pod blocks.
\<close>

definition owned :: "pod \<Rightarrow> bool" where
  "owned p \<longleftrightarrow> (\<exists>refs. om_owner_references (pod_metadata p) = Some refs \<and> refs \<noteq> [])"

definition uses_empty_dir :: "pod \<Rightarrow> bool" where
  "uses_empty_dir p \<longleftrightarrow>
     (\<exists>sp vs. pod_spec_of p = Some sp \<and> ps_volumes sp = Some vs \<and> (\<exists>v\<in>set vs. vol_empty_dir v))"

definition pod_display :: "pod \<Rightarrow> string" where
  "pod_display p = (case om_name (pod_metadata p) of Some n \<Rightarrow> n | None \<Rightarrow> ''unknown pod'')"

lemma drain_blockers_eq:
  "drain_blockers opts p =
     (if is_terminal p \<or> is_mirror p \<or> is_deleting p then []
      else if is_daemonset p then
        (if ignore_daemonsets opts then []
         else [\<lparr>db_pod = pod_display p, db_reason = ''DaemonSet-managed pod'',
                db_clearable_by = ''ignore_daemonsets''\<rparr>])
      else
        (if \<not> owned p \<and> \<not> force opts
         then [\<lparr>db_pod = pod_display p, db_reason = ''unmanaged pod'', db_clearable_by = ''force''\<rparr>]
         else [])
        @ (if \<not> delete_emptydir_data opts \<and> uses_empty_dir p
           then [\<lparr>db_pod = pod_display p, db_reason = ''uses emptyDir storage'',
                  db_clearable_by = ''delete_emptydir_data''\<rparr>]
           else []))"
proof -
  have own: "(case om_owner_references (pod_metadata p) of None \<Rightarrow> True | Some refs \<Rightarrow> refs = [])
      \<longleftrightarrow> \<not> owned p"
    by (simp add: owned_def split: option.splits)
  have vol: "(case pod_spec_of p of None \<Rightarrow> False
       | Some sp \<Rightarrow> (case ps_volumes sp of None \<Rightarrow> False | Some vs \<Rightarrow> list_ex vol_empty_dir vs))
      \<longleftrightarrow> uses_empty_dir p"
    by (simp add: uses_empty_dir_def list_ex_iff split: option.splits)
  show ?thesis
    unfolding drain_blockers_def Let_def own vol pod_display_def [symmetric] by (rule refl)
qed

lemma drain_blockers_evictable:
  assumes "is_evictable p"
  shows "drain_blockers opts p = [] \<longleftrightarrow>
     (owned p \<or> force opts) \<and> (\<not> uses_empty_dir p \<or> delete_emptydir_data opts)"
  using assms by (simp add: drain_blockers_eq evictable_iff)

lemma drain_blockers_daemonset:
  "is_daemonset p \<Longrightarrow> \<not> is_terminal p \<Longrightarrow> \<not> is_mirror p \<Longrightarrow> \<not> is_deleting p \<Longrightarrow>
     drain_blockers opts p = [] \<longleftrightarrow> ignore_daemonsets opts"
  by (simp add: drain_blockers_def Let_def)

lemma drain_blockers_other:
  "is_terminal p \<or> is_mirror p \<or> is_deleting p \<Longrightarrow> drain_blockers opts p = []"
  by (simp add: drain_blockers_def Let_def)

text \<open>Setting the option a blocker names removes that blocker.\<close>

definition clear_option :: "string \<Rightarrow> drain_options \<Rightarrow> drain_options" where
  "clear_option c opts =
     (if c = ''force'' then opts\<lparr>force := True\<rparr>
      else if c = ''delete_emptydir_data'' then opts\<lparr>delete_emptydir_data := True\<rparr>
      else if c = ''ignore_daemonsets'' then opts\<lparr>ignore_daemonsets := True\<rparr>
      else opts)"

lemma drain_blockers_clear:
  "drain_blockers (clear_option c opts) p =
     filter (\<lambda>b. db_clearable_by b \<noteq> c) (drain_blockers opts p)"
proof -
  consider "c = ''force''" | "c = ''delete_emptydir_data''" | "c = ''ignore_daemonsets''"
    | "c \<noteq> ''force''" "c \<noteq> ''delete_emptydir_data''" "c \<noteq> ''ignore_daemonsets''" by blast
  then show ?thesis
  proof cases
    case 4
    then have "clear_option c opts = opts" by (simp add: clear_option_def)
    then show ?thesis
      unfolding drain_blockers_eq using 4 [symmetric] by simp
  qed (simp_all add: drain_blockers_eq clear_option_def)
qed

end
