(* ===== verification/Effects.thy ===== *)
theory Effects
  imports Prelude "HOL-Library.State_Monad"
begin

text \<open>
  Effectful code is a state transformer of \<open>HOL-Library.State_Monad\<close>: the code's \<open>await\<close>s
  are the steps of a \<open>do\<close> block.  \<open>wp m Q s\<close> says that running \<open>m\<close> from \<open>s\<close> ends in a
  result and a state that satisfy \<open>Q\<close>; the rules of \<open>wp_rules\<close> push it through a block.
\<close>

abbreviation ret :: "'a \<Rightarrow> ('s, 'a) state" where
  "ret \<equiv> State_Monad.return"

definition wp :: "('s, 'a) state \<Rightarrow> ('a \<Rightarrow> 's \<Rightarrow> bool) \<Rightarrow> 's \<Rightarrow> bool" where
  "wp m Q s = (case run_state m s of (a, s') \<Rightarrow> Q a s')"

named_theorems wp_rules "weakest preconditions of the combinators and primitives"

lemma wp_return [wp_rules, simp]: "wp (ret a) Q s = Q a s"
  by (simp add: wp_def)

lemma wp_bind [wp_rules]: "wp (State_Monad.bind m f) Q s = wp m (\<lambda>a. wp (f a) Q) s"
  by (simp add: wp_def split: prod.splits)

lemma wp_State [wp_rules]: "wp (State f) Q s = Q (fst (f s)) (snd (f s))"
  by (simp add: wp_def split: prod.splits)

lemma wp_if [wp_rules]: "wp (if c then m else n) Q s = (if c then wp m Q s else wp n Q s)"
  by simp

lemma wp_mono: "wp m P s \<Longrightarrow> (\<And>a s'. P a s' \<Longrightarrow> Q a s') \<Longrightarrow> wp m Q s"
  by (simp add: wp_def split: prod.splits)

lemma wp_conj: "wp m P s \<Longrightarrow> wp m Q s \<Longrightarrow> wp m (\<lambda>a s'. P a s' \<and> Q a s') s"
  by (simp add: wp_def split: prod.splits)

lemma wp_run: "wp m Q s \<Longrightarrow> run_state m s = (a, s') \<Longrightarrow> Q a s'"
  by (simp add: wp_def)

lemma wp_cases:
  assumes "\<And>a s'. run_state m s = (a, s') \<Longrightarrow> Q a s'"
  shows "wp m Q s"
  using assms by (simp add: wp_def split: prod.splits)

lemma wp_sum [wp_rules]:
  "wp (case r of Inl e \<Rightarrow> f e | Inr x \<Rightarrow> g x) Q s =
    (case r of Inl e \<Rightarrow> wp (f e) Q s | Inr x \<Rightarrow> wp (g x) Q s)"
  by (simp split: sum.splits)

lemma wp_option [wp_rules]:
  "wp (case r of None \<Rightarrow> f | Some x \<Rightarrow> g x) Q s =
    (case r of None \<Rightarrow> wp f Q s | Some x \<Rightarrow> wp (g x) Q s)"
  by (simp split: option.splits)

text \<open>A loop that collects the results of its steps, and futures that are joined one after the other.\<close>

fun map_state :: "('a \<Rightarrow> ('s, 'b) state) \<Rightarrow> 'a list \<Rightarrow> ('s, 'b list) state" where
  "map_state f [] = ret []"
| "map_state f (x # xs) = do { y \<leftarrow> f x; ys \<leftarrow> map_state f xs; ret (y # ys) }"

lemma wp_map_state:
  assumes "P s" and "\<And>x s. x \<in> set xs \<Longrightarrow> P s \<Longrightarrow> wp (f x) (\<lambda>y s'. R x y \<and> P s') s"
  shows "wp (map_state f xs) (\<lambda>ys s'. list_all2 R xs ys \<and> P s') s"
  using assms
proof (induction xs arbitrary: s)
  case (Cons x xs)
  have "wp (f x) (\<lambda>y s'. R x y \<and> P s') s"
    using Cons.prems by simp
  then show ?case
    unfolding map_state.simps wp_bind
  proof (rule wp_mono, goal_cases)
    case (1 y s')
    then have "wp (map_state f xs) (\<lambda>ys s'. list_all2 R xs ys \<and> P s') s'"
      using Cons.prems(2) by (intro Cons.IH) auto
    then show ?case
      by (rule wp_mono) (use 1 in simp)
  qed
qed simp

end
