(* ===== verification/DrainRun.thy ===== *)
theory DrainRun
  imports Drain Effects
begin

text \<open>
  \<open>DrainSession\<close> of \<open>crates/k8s/src/backend/drain.rs\<close>: the drain of a node, the removal of one
  pod and the wait for a reboot.  What the code awaits (the API server, the clock, timers,
  the cancel flag other tasks set) is an environment of functions on a world the theory
  knows nothing about; a run also logs the requests it made, in order, which is what the
  safety theorems talk about.  Times are nanoseconds.  A \<open>while\<close> loop takes fuel, and its
  result is \<open>None\<close> when the fuel runs out; \<open>drain_terminates\<close> below gives enough fuel.
\<close>

section \<open>Environment and primitive steps\<close>

text \<open>A removal request: \<open>DELETE\<close> or the eviction subresource, with the grace period.\<close>

datatype pod_request =
    DeletePod string string "nat option"
  | EvictPod string string "nat option"

datatype drain_call =
    CallCordon string bool
  | CallListed "pod list"
  | CallRemove pod_request
  | CallCancelSeen
  | CallGotNode node

record 'w drain_env =
  env_now :: "'w \<Rightarrow> nat \<times> 'w"
  env_cancelled :: "'w \<Rightarrow> bool \<times> 'w"
  env_sleep :: "nat \<Rightarrow> 'w \<Rightarrow> 'w"
  env_patch_node :: "string \<Rightarrow> bool \<Rightarrow> 'w \<Rightarrow> (kube_error + unit) \<times> 'w"
  env_get_node :: "string \<Rightarrow> 'w \<Rightarrow> (kube_error + node) \<times> 'w"
  env_list_pods :: "string \<Rightarrow> 'w \<Rightarrow> (kube_error + pod list) \<times> 'w"
  env_request :: "pod_request \<Rightarrow> 'w \<Rightarrow> (kube_error + unit) \<times> 'w"
  env_timeout_list ::
    "nat \<Rightarrow> ('w \<Rightarrow> (kube_error + pod list) \<times> 'w) \<Rightarrow> 'w \<Rightarrow> (kube_error + pod list) option \<times> 'w"
  env_timeout_request ::
    "nat \<Rightarrow> ('w \<Rightarrow> (kube_error + unit) \<times> 'w) \<Rightarrow> 'w \<Rightarrow> (kube_error + unit) option \<times> 'w"

record 'w drain_st =
  st_world :: 'w
  st_calls :: "drain_call list"
  st_events :: "drain_event_kind list"

definition lift_w :: "('w \<Rightarrow> 'a \<times> 'w) \<Rightarrow> ('w drain_st, 'a) state" where
  "lift_w f = State (\<lambda>s. case f (st_world s) of (a, w) \<Rightarrow> (a, s\<lparr>st_world := w\<rparr>))"

definition log_call :: "drain_call \<Rightarrow> ('w drain_st, unit) state" where
  "log_call c = State (\<lambda>s. ((), s\<lparr>st_calls := st_calls s @ [c]\<rparr>))"

definition send_event :: "drain_event_kind \<Rightarrow> ('w drain_st, unit) state" where
  "send_event e = State (\<lambda>s. ((), s\<lparr>st_events := st_events s @ [e]\<rparr>))"

definition cancel_load :: "'w drain_env \<Rightarrow> ('w drain_st, bool) state" where
  "cancel_load env = do {
     c \<leftarrow> lift_w (env_cancelled env);
     (if c then log_call CallCancelSeen else ret ());
     ret c }"

text \<open>\<open>deadline.is_none_or(|deadline| Instant::now() < deadline)\<close>, and the retry pause.\<close>

definition before_deadline :: "'w drain_env \<Rightarrow> nat option \<Rightarrow> ('w drain_st, bool) state" where
  "before_deadline env deadline = (case deadline of
     None \<Rightarrow> ret True
   | Some d \<Rightarrow> do { t \<leftarrow> lift_w (env_now env); ret (t < d) })"

definition RETRY_DELAY :: nat where
  "RETRY_DELAY = 2 * 10 ^ 9"

definition sleep_for :: "'w drain_env \<Rightarrow> nat \<Rightarrow> ('w drain_st, unit) state" where
  "sleep_for env d = lift_w (\<lambda>w. ((), env_sleep env d w))"

definition retry_pause :: "'w drain_env \<Rightarrow> nat option \<Rightarrow> ('w drain_st, unit) state" where
  "retry_pause env deadline = (case deadline of
     None \<Rightarrow> sleep_for env RETRY_DELAY
   | Some d \<Rightarrow> do { t \<leftarrow> lift_w (env_now env); sleep_for env (min RETRY_DELAY (d - t)) })"

section \<open>Removing one pod\<close>

definition remove_pod :: "drain_options \<Rightarrow> string \<Rightarrow> string \<Rightarrow> pod_request" where
  "remove_pod opts ns name =
     (if disable_eviction opts then DeletePod ns name (grace_period opts)
      else EvictPod ns name (grace_period opts))"

text \<open>The request, under \<open>tokio::time::timeout\<close> when there is a deadline: \<open>None\<close> is elapsed.\<close>

definition issue_removal ::
  "'w drain_env \<Rightarrow> nat option \<Rightarrow> pod_request \<Rightarrow> ('w drain_st, (kube_error + unit) option) state" where
  "issue_removal env deadline req = (case deadline of
     Some d \<Rightarrow> do {
       t \<leftarrow> lift_w (env_now env);
       log_call (CallRemove req);
       lift_w (env_timeout_request env (d - t) (env_request env req)) }
   | None \<Rightarrow> do {
       log_call (CallRemove req);
       r \<leftarrow> lift_w (env_request env req);
       ret (Some r) })"

datatype removal = RemovalCancelled | Removal bool string

fun removal_loop ::
  "nat \<Rightarrow> 'w drain_env \<Rightarrow> drain_options \<Rightarrow> nat option \<Rightarrow> string \<Rightarrow> string \<Rightarrow> string
     \<Rightarrow> ('w drain_st, removal option) state" where
  "removal_loop 0 env opts deadline ns name last_err = ret None"
| "removal_loop (Suc fuel) env opts deadline ns name last_err = do {
     live \<leftarrow> before_deadline env deadline;
     if \<not> live then ret (Some (Removal False last_err)) else do {
     c \<leftarrow> cancel_load env;
     if c then ret (Some RemovalCancelled) else do {
     outcome \<leftarrow> issue_removal env deadline (remove_pod opts ns name);
     case outcome of
       None \<Rightarrow> ret (Some (Removal False ''drain deadline elapsed while removing pod''))
     | Some result \<Rightarrow> (case result of
         Inr _ \<Rightarrow> ret (Some (Removal True last_err))
       | Inl e \<Rightarrow>
           let last_err = kube_error_to_string e in
           if classify_kube_error e = NotFound then ret (Some (Removal True last_err))
           else if classify_kube_error e = Permanent then ret (Some (Removal False last_err))
           else do {
             c1 \<leftarrow> cancel_load env;
             if c1 then ret (Some RemovalCancelled) else do {
             retry_pause env deadline;
             c2 \<leftarrow> cancel_load env;
             if c2 then ret (Some RemovalCancelled)
             else removal_loop fuel env opts deadline ns name last_err }}) }}}"

section \<open>The loop over the evictable pods\<close>

datatype eviction_end =
    ReturnedEarly drain_summary
  | AllTried drain_summary "pod_identity list"

definition push_failed :: "string \<Rightarrow> drain_summary \<Rightarrow> drain_summary" where
  "push_failed m s = s\<lparr>ds_failed := ds_failed s @ [m]\<rparr>"

fun evict_pods ::
  "nat \<Rightarrow> 'w drain_env \<Rightarrow> drain_options \<Rightarrow> nat option \<Rightarrow> nat \<Rightarrow> pod list
     \<Rightarrow> drain_summary \<Rightarrow> pod_identity list \<Rightarrow> ('w drain_st, eviction_end option) state" where
  "evict_pods fuel env opts deadline tot [] summary terminating =
     ret (Some (AllTried summary terminating))"
| "evict_pods fuel env opts deadline tot (p # ps) summary terminating = do {
     c \<leftarrow> cancel_load env;
     if c then ret (Some (ReturnedEarly summary)) else
     let pod_name = or_default (om_name (pod_metadata p));
         ns = or_default (om_namespace (pod_metadata p)) in do {
     r \<leftarrow> removal_loop fuel env opts deadline ns pod_name [];
     case r of
       None \<Rightarrow> ret None
     | Some outcome \<Rightarrow> (case outcome of
         RemovalCancelled \<Rightarrow> ret (Some (ReturnedEarly summary))
       | Removal ok last_err \<Rightarrow>
           if ok then
             let terminating = terminating @ [pod_identity_of p];
                 summary = summary\<lparr>ds_evicted := ds_evicted summary + 1\<rparr> in do {
             send_event (Evicted pod_name (ds_evicted summary) tot);
             evict_pods fuel env opts deadline tot ps summary terminating }
           else
             let reason = (if last_err = [] then ''drain deadline elapsed before pod removal was accepted''
                           else last_err);
                 summary = push_failed (pod_name @ '': '' @ reason) summary in do {
             send_event (EvictFailed pod_name reason);
             evict_pods fuel env opts deadline tot ps summary terminating }) }}"

section \<open>The termination wait\<close>

datatype wait_end = WaitReturn "k8s_error + drain_summary" | WaitExit

definition list_within ::
  "'w drain_env \<Rightarrow> string \<Rightarrow> nat option \<Rightarrow> ('w drain_st, (kube_error + pod list) option) state" where
  "list_within env name deadline = (case deadline of
     Some d \<Rightarrow> do {
       t \<leftarrow> lift_w (env_now env);
       lift_w (env_timeout_list env (d - t) (env_list_pods env name)) }
   | None \<Rightarrow> do {
       r \<leftarrow> lift_w (env_list_pods env name);
       ret (Some r) })"

fun termination_wait ::
  "nat \<Rightarrow> 'w drain_env \<Rightarrow> string \<Rightarrow> nat option \<Rightarrow> pod_identity list \<Rightarrow> drain_summary
     \<Rightarrow> ('w drain_st, wait_end option) state" where
  "termination_wait 0 env name deadline terminating summary = ret None"
| "termination_wait (Suc fuel) env name deadline terminating summary =
    (if terminating = [] then ret (Some WaitExit) else do {
     live \<leftarrow> before_deadline env deadline;
     if \<not> live then ret (Some WaitExit) else do {
     c \<leftarrow> cancel_load env;
     if c then ret (Some (WaitReturn (Inr summary))) else do {
     listed \<leftarrow> list_within env name deadline;
     case listed of
       None \<Rightarrow> ret (Some WaitExit)
     | Some result \<Rightarrow> (case result of
         Inl e \<Rightarrow> ret (Some (WaitReturn (Inl (api_err e))))
       | Inr items \<Rightarrow> do {
           log_call (CallListed items);
           let remaining = remaining_terminating_pods items terminating in
           if remaining = [] then ret (Some (WaitReturn (Inr summary))) else do {
           send_event (WaitingTermination remaining);
           retry_pause env deadline;
           c2 \<leftarrow> cancel_load env;
           if c2 then ret (Some (WaitReturn (Inr summary)))
           else termination_wait fuel env name deadline terminating summary }}) }}})"

section \<open>The drain\<close>

definition cordon :: "'w drain_env \<Rightarrow> string \<Rightarrow> bool \<Rightarrow> ('w drain_st, k8s_error + unit) state" where
  "cordon env name unschedulable = do {
     log_call (CallCordon name unschedulable);
     r \<leftarrow> lift_w (env_patch_node env name unschedulable);
     ret (case r of Inl e \<Rightarrow> Inl (api_err e) | Inr _ \<Rightarrow> Inr ()) }"

text \<open>\<open>Instant::checked_add\<close>: an instant holds seconds in an \<open>i64\<close>.\<close>

definition INSTANT_MAX :: nat where
  "INSTANT_MAX = (2 ^ 63 - 1) * 10 ^ 9 + 999999999"

definition checked_add :: "nat \<Rightarrow> nat \<Rightarrow> nat option" where
  "checked_add t d = (if t + d \<le> INSTANT_MAX then Some (t + d) else None)"

definition drain_deadline ::
  "'w drain_env \<Rightarrow> drain_options \<Rightarrow> ('w drain_st, k8s_error + nat option) state" where
  "drain_deadline env opts =
     (if timeout_secs opts = 0 then ret (Inr None) else do {
      t \<leftarrow> lift_w (env_now env);
      ret (case checked_add t (timeout_secs opts * 10 ^ 9) of
             None \<Rightarrow> Inl (K8sApi ''drain timeout exceeds the supported range'')
           | Some d \<Rightarrow> Inr (Some d)) })"

definition evict_and_wait ::
  "nat \<Rightarrow> 'w drain_env \<Rightarrow> string \<Rightarrow> drain_options \<Rightarrow> nat option \<Rightarrow> pod list \<Rightarrow> drain_summary
     \<Rightarrow> ('w drain_st, (k8s_error + drain_summary) option) state" where
  "evict_and_wait fuel env name opts deadline pods summary =
     (let evictable = filter is_evictable pods;
          tot = length evictable;
          terminating = map pod_identity_of (filter is_waitable_terminating pods) in do {
      send_event (Started tot);
      evicted \<leftarrow> evict_pods fuel env opts deadline tot evictable summary terminating;
      case evicted of
        None \<Rightarrow> ret None
      | Some ended \<Rightarrow> (case ended of
          ReturnedEarly summary \<Rightarrow> ret (Some (Inr summary))
        | AllTried summary terminating \<Rightarrow> do {
            waited \<leftarrow> termination_wait fuel env name deadline terminating summary;
            case waited of
              None \<Rightarrow> ret None
            | Some w \<Rightarrow> (case w of
                WaitReturn r \<Rightarrow> ret (Some r)
              | WaitExit \<Rightarrow>
                  ret (Some (Inr (if terminating \<noteq> []
                    then push_failed ''timed out waiting for workload pods to terminate'' summary
                    else summary)))) }) })"

definition blocker_message :: "drain_blocker \<Rightarrow> string" where
  "blocker_message b = db_pod b @ '': '' @ db_reason b"

text \<open>The drain once the pods of the node are listed, then the whole of it.\<close>

definition drain_listed ::
  "nat \<Rightarrow> 'w drain_env \<Rightarrow> string \<Rightarrow> drain_options \<Rightarrow> pod list
     \<Rightarrow> ('w drain_st, (k8s_error + drain_summary) option) state" where
  "drain_listed fuel env name opts pods = do {
     dl \<leftarrow> drain_deadline env opts;
     case dl of
       Inl e \<Rightarrow> ret (Some (Inl e))
     | Inr deadline \<Rightarrow>
         let summary = drain_summary_default\<lparr>ds_skipped := skipped_pod_count pods\<rparr>;
             blockers = concat (map (drain_blockers opts) pods) in
         if blockers \<noteq> [] then do {
           send_event (Blocked blockers);
           ret (Some (Inr (summary\<lparr>ds_failed := map blocker_message blockers\<rparr>))) }
         else evict_and_wait fuel env name opts deadline pods summary }"

definition drain ::
  "nat \<Rightarrow> 'w drain_env \<Rightarrow> string \<Rightarrow> drain_options
     \<Rightarrow> ('w drain_st, (k8s_error + drain_summary) option) state" where
  "drain fuel env name opts = (case drain_validate opts of
     Inl message \<Rightarrow> ret (Some (Inl (K8sApi message)))
   | Inr _ \<Rightarrow> do {
       cordoned \<leftarrow> cordon env name True;
       case cordoned of
         Inl e \<Rightarrow> ret (Some (Inl e))
       | Inr _ \<Rightarrow> do {
           send_event Cordoned;
           listed \<leftarrow> lift_w (env_list_pods env name);
           case listed of
             Inl e \<Rightarrow> ret (Some (Inl (api_err e)))
           | Inr pods \<Rightarrow> do {
               log_call (CallListed pods);
               drain_listed fuel env name opts pods }}})"

section \<open>Waiting for a reboot\<close>

definition node_ready :: "node \<Rightarrow> bool" where
  "node_ready n =
     (case node_status_of n of None \<Rightarrow> False
      | Some st \<Rightarrow> (case ns_conditions st of None \<Rightarrow> False
        | Some conditions \<Rightarrow> (case find (\<lambda>c. kc_type c = ''Ready'') conditions of
            None \<Rightarrow> False
          | Some c \<Rightarrow> kc_status c = ''True'')))"

definition boot_changed :: "string option \<Rightarrow> node \<Rightarrow> bool" where
  "boot_changed previous n =
     (case previous of None \<Rightarrow> False
      | Some before \<Rightarrow> (case node_status_of n of None \<Rightarrow> False
        | Some st \<Rightarrow> (case ns_boot_id st of None \<Rightarrow> False | Some b \<Rightarrow> b \<noteq> before)))"

fun reboot_loop ::
  "nat \<Rightarrow> 'w drain_env \<Rightarrow> string \<Rightarrow> string option \<Rightarrow> nat \<Rightarrow> bool
     \<Rightarrow> ('w drain_st, (k8s_error + unit) option) state" where
  "reboot_loop 0 env name previous deadline saw_not_ready = ret None"
| "reboot_loop (Suc fuel) env name previous deadline saw_not_ready = do {
     t \<leftarrow> lift_w (env_now env);
     if \<not> t < deadline then
       ret (Some (Inl (K8sApi (''node '' @ name
         @ '' did not complete a NotReady-to-Ready reboot cycle before timeout''))))
     else do {
     got \<leftarrow> lift_w (env_get_node env name);
     case got of
       Inl e \<Rightarrow>
         if classify_kube_error e = Permanent then ret (Some (Inl (api_err e)))
         else do {
           sleep_for env RETRY_DELAY;
           reboot_loop fuel env name previous deadline saw_not_ready }
     | Inr n \<Rightarrow> do {
         log_call (CallGotNode n);
         if \<not> node_ready n then do {
           sleep_for env RETRY_DELAY;
           reboot_loop fuel env name previous deadline True }
         else if saw_not_ready \<or> boot_changed previous n then ret (Some (Inr ()))
         else do {
           sleep_for env RETRY_DELAY;
           reboot_loop fuel env name previous deadline saw_not_ready }} }}"

definition wait_for_node_reboot ::
  "nat \<Rightarrow> 'w drain_env \<Rightarrow> string \<Rightarrow> string option \<Rightarrow> nat
     \<Rightarrow> ('w drain_st, (k8s_error + unit) option) state" where
  "wait_for_node_reboot fuel env name previous timeout = do {
     t \<leftarrow> lift_w (env_now env);
     reboot_loop fuel env name previous (t + timeout) False }"

end
