(* ===== verification/DrainProofs.thy ===== *)
theory DrainProofs
  imports DrainRun
begin

text \<open>
  What a drain guarantees: which requests it may make (safety), what its summary counts, what
  an all-clear summary means for the node, and that it ends when it has a deadline.
\<close>

section \<open>Rules of the primitive steps\<close>

lemma wp_lift_w [wp_rules]:
  "wp (lift_w f) Q s =
     Q (fst (f (st_world s))) (s\<lparr>st_world := snd (f (st_world s))\<rparr>)"
  by (simp add: lift_w_def wp_State split: prod.splits)

lemma wp_log_call [wp_rules]:
  "wp (log_call c) Q s = Q () (s\<lparr>st_calls := st_calls s @ [c]\<rparr>)"
  by (simp add: log_call_def wp_State)

lemma wp_send_event [wp_rules]:
  "wp (send_event e) Q s = Q () (s\<lparr>st_events := st_events s @ [e]\<rparr>)"
  by (simp add: send_event_def wp_State)

text \<open>A step appends calls that satisfy \<open>P\<close> and events that satisfy \<open>E\<close>, nothing else.\<close>

definition grows ::
  "(drain_call \<Rightarrow> bool) \<Rightarrow> (drain_event_kind \<Rightarrow> bool) \<Rightarrow> 'w drain_st \<Rightarrow> 'w drain_st \<Rightarrow> bool" where
  "grows P E s s' \<longleftrightarrow>
     (\<exists>cs es. st_calls s' = st_calls s @ cs \<and> st_events s' = st_events s @ es
        \<and> (\<forall>c\<in>set cs. P c) \<and> (\<forall>e\<in>set es. E e))"

lemma grows_refl: "grows P E s s"
  by (simp add: grows_def)

lemma grows_trans:
  assumes "grows P E s t" "grows P E t u"
  shows "grows P E s u"
proof -
  obtain cs es where 1: "st_calls t = st_calls s @ cs" "st_events t = st_events s @ es"
    "\<forall>c\<in>set cs. P c" "\<forall>e\<in>set es. E e"
    using assms(1) by (auto simp: grows_def)
  obtain cs' es' where 2: "st_calls u = st_calls t @ cs'" "st_events u = st_events t @ es'"
    "\<forall>c\<in>set cs'. P c" "\<forall>e\<in>set es'. E e"
    using assms(2) by (auto simp: grows_def)
  show ?thesis
    unfolding grows_def using 1 2 by (intro exI[of _ "cs @ cs'"] exI[of _ "es @ es'"]) auto
qed

lemma grows_mono:
  "grows P E s t \<Longrightarrow> (\<And>c. P c \<Longrightarrow> P' c) \<Longrightarrow> (\<And>e. E e \<Longrightarrow> E' e) \<Longrightarrow> grows P' E' s t"
  by (fastforce simp: grows_def)

definition only ::
  "(drain_call \<Rightarrow> bool) \<Rightarrow> (drain_event_kind \<Rightarrow> bool) \<Rightarrow> ('w drain_st, 'a) state \<Rightarrow> bool" where
  "only P E m \<longleftrightarrow> (\<forall>s. wp m (\<lambda>_ s'. grows P E s s') s)"

named_theorems only_intros "steps that append only allowed calls and events"

lemma onlyD: "only P E m \<Longrightarrow> run_state m s = (a, s') \<Longrightarrow> grows P E s s'"
  by (auto simp: only_def wp_def split: prod.splits)

lemma only_mono: "only P E m \<Longrightarrow> (\<And>c. P c \<Longrightarrow> P' c) \<Longrightarrow> (\<And>e. E e \<Longrightarrow> E' e) \<Longrightarrow> only P' E' m"
  unfolding only_def by (blast intro: wp_mono grows_mono)

lemma only_return [only_intros]: "only P E (ret a)"
  by (simp add: only_def grows_refl)

lemma only_bind [only_intros]:
  assumes "only P E m" "\<And>a. only P E (f a)"
  shows "only P E (State_Monad.bind m f)"
  unfolding only_def wp_bind
proof
  fix s
  show "wp m (\<lambda>a. wp (f a) (\<lambda>_. grows P E s)) s"
  proof (rule wp_mono)
    show "wp m (\<lambda>_ s'. grows P E s s') s" using assms(1) by (simp add: only_def)
    fix a t assume "grows P E s t"
    then show "wp (f a) (\<lambda>_. grows P E s) t"
      using assms(2)[of a] unfolding only_def by (auto intro: wp_mono grows_trans)
  qed
qed

lemma only_lift [only_intros]: "only P E (lift_w f)"
  by (simp add: only_def wp_lift_w grows_def)

lemma only_log [only_intros]: "P c \<Longrightarrow> only P E (log_call c)"
  by (simp add: only_def wp_log_call grows_def)

lemma only_send [only_intros]: "E e \<Longrightarrow> only P E (send_event e)"
  by (simp add: only_def wp_send_event grows_def)

lemma only_sleep [only_intros]: "only P E (sleep_for env d)"
  by (simp add: sleep_for_def only_lift)

lemma only_if [only_intros]: "(c \<Longrightarrow> only P E m) \<Longrightarrow> (\<not> c \<Longrightarrow> only P E n) \<Longrightarrow> only P E (if c then m else n)"
  by simp

lemma only_option [only_intros]:
  "only P E f \<Longrightarrow> (\<And>x. only P E (g x)) \<Longrightarrow> only P E (case r of None \<Rightarrow> f | Some x \<Rightarrow> g x)"
  by (cases r) auto

lemma only_sum [only_intros]:
  "(\<And>e. only P E (f e)) \<Longrightarrow> (\<And>x. only P E (g x)) \<Longrightarrow> only P E (case r of Inl e \<Rightarrow> f e | Inr x \<Rightarrow> g x)"
  by (cases r) auto

lemma only_removal_case [only_intros]:
  "only P E f \<Longrightarrow> (\<And>ok e. only P E (g ok e)) \<Longrightarrow>
   only P E (case r of RemovalCancelled \<Rightarrow> f | Removal ok e \<Rightarrow> g ok e)"
  by (cases r) auto

lemma only_eviction_case [only_intros]:
  "(\<And>x. only P E (f x)) \<Longrightarrow> (\<And>x ts. only P E (g x ts)) \<Longrightarrow>
   only P E (case r of ReturnedEarly x \<Rightarrow> f x | AllTried x ts \<Rightarrow> g x ts)"
  by (cases r) auto

lemma only_wait_case [only_intros]:
  "(\<And>x. only P E (f x)) \<Longrightarrow> only P E g \<Longrightarrow>
   only P E (case r of WaitReturn x \<Rightarrow> f x | WaitExit \<Rightarrow> g)"
  by (cases r) auto

lemma only_pause [only_intros]: "only P E (retry_pause env d)"
  unfolding retry_pause_def by (intro only_intros)

lemma only_before [only_intros]: "only P E (before_deadline env d)"
  unfolding before_deadline_def by (intro only_intros)

lemma only_list_within [only_intros]: "only P E (list_within env name d)"
  unfolding list_within_def by (intro only_intros)

lemma only_cancel_load [only_intros]: "P CallCancelSeen \<Longrightarrow> only P E (cancel_load env)"
  unfolding cancel_load_def by (intro only_intros)

lemma only_issue [only_intros]: "P (CallRemove req) \<Longrightarrow> only P E (issue_removal env d req)"
  unfolding issue_removal_def by (intro only_intros)

lemma only_deadline [only_intros]: "only P E (drain_deadline env opts)"
  unfolding drain_deadline_def by (intro only_intros)

section \<open>Which requests a drain makes\<close>

definition removal_of :: "drain_options \<Rightarrow> pod \<Rightarrow> pod_request" where
  "removal_of opts p =
     remove_pod opts (or_default (om_namespace (pod_metadata p))) (or_default (om_name (pod_metadata p)))"

lemma only_removal_loop:
  "only (\<lambda>c. c = CallCancelSeen \<or> c = CallRemove (remove_pod opts ns name)) (\<lambda>_. False)
     (removal_loop fuel env opts d ns name err)"
proof (induction fuel arbitrary: err)
  case 0
  show ?case by (simp add: only_return)
next
  case (Suc fuel)
  show ?case
    unfolding removal_loop.simps Let_def
    by (intro only_intros Suc.IH) simp_all
qed

fun is_progress :: "drain_event_kind \<Rightarrow> bool" where
  "is_progress (Evicted _ _ _) = True"
| "is_progress (EvictFailed _ _) = True"
| "is_progress (WaitingTermination _) = True"
| "is_progress _ = False"

lemma only_evict_pods:
  "only (\<lambda>c. c = CallCancelSeen \<or> (\<exists>p\<in>set ps. c = CallRemove (removal_of opts p))) is_progress
     (evict_pods fuel env opts d tot ps summary ts)"
proof (induction ps arbitrary: summary ts)
  case Nil
  show ?case by (simp add: only_return)
next
  case (Cons p ps)
  have loop: "only (\<lambda>c. c = CallCancelSeen \<or> (\<exists>q\<in>set (p # ps). c = CallRemove (removal_of opts q)))
      is_progress (removal_loop fuel env opts d (or_default (om_namespace (pod_metadata p)))
        (or_default (om_name (pod_metadata p))) [])"
    by (rule only_mono[OF only_removal_loop]) (auto simp: removal_of_def)
  have IH: "only (\<lambda>c. c = CallCancelSeen \<or> (\<exists>q\<in>set (p # ps). c = CallRemove (removal_of opts q)))
      is_progress (evict_pods fuel env opts d tot ps summary ts)" for summary ts
    by (rule only_mono[OF Cons.IH]) auto
  show ?case
    unfolding evict_pods.simps Let_def
    by (intro only_intros loop IH) simp_all
qed

lemma only_termination_wait:
  "only (\<lambda>c. c = CallCancelSeen \<or> (\<exists>items. c = CallListed items)) (\<lambda>e. \<exists>ns. e = WaitingTermination ns)
     (termination_wait fuel env name d ts summary)"
proof (induction fuel)
  case 0
  show ?case by (simp add: only_return)
next
  case (Suc fuel)
  show ?case
    unfolding termination_wait.simps Let_def by (intro only_intros Suc.IH) auto
qed

lemma only_evict_and_wait:
  "only (\<lambda>c. c = CallCancelSeen \<or> (\<exists>items. c = CallListed items)
          \<or> (\<exists>p\<in>set pods. is_evictable p \<and> c = CallRemove (removal_of opts p)))
     (\<lambda>e. is_progress e \<or> e = Started (length (filter is_evictable pods)))
     (evict_and_wait fuel env name opts d pods summary)"
proof -
  have ev: "only (\<lambda>c. c = CallCancelSeen \<or> (\<exists>items. c = CallListed items)
          \<or> (\<exists>p\<in>set pods. is_evictable p \<and> c = CallRemove (removal_of opts p)))
     (\<lambda>e. is_progress e \<or> e = Started (length (filter is_evictable pods)))
     (evict_pods fuel env opts d tot (filter is_evictable pods) summary ts)" for tot summary ts
    by (rule only_mono[OF only_evict_pods]) auto
  have tw: "only (\<lambda>c. c = CallCancelSeen \<or> (\<exists>items. c = CallListed items)
          \<or> (\<exists>p\<in>set pods. is_evictable p \<and> c = CallRemove (removal_of opts p)))
     (\<lambda>e. is_progress e \<or> e = Started (length (filter is_evictable pods)))
     (termination_wait fuel env name d ts summary)" for summary ts
    by (rule only_mono[OF only_termination_wait]) auto
  show ?thesis
    unfolding evict_and_wait_def Let_def
    by (intro only_intros ev tw) simp_all
qed

section \<open>What the loops return\<close>

definition cancel_seen :: "'w drain_st \<Rightarrow> bool" where
  "cancel_seen s \<longleftrightarrow> CallCancelSeen \<in> set (st_calls s)"

lemma grows_cancel_seen: "grows P E s t \<Longrightarrow> cancel_seen s \<Longrightarrow> cancel_seen t"
  by (auto simp: grows_def cancel_seen_def)

lemma wp_cancel_load [wp_rules]:
  "wp (cancel_load env) Q s =
     (let r = env_cancelled env (st_world s);
          t = s\<lparr>st_world := snd r\<rparr>
      in Q (fst r) (if fst r then t\<lparr>st_calls := st_calls t @ [CallCancelSeen]\<rparr> else t))"
  by (simp add: cancel_load_def wp_rules Let_def)

lemma wp_onlyI: "only P E m \<Longrightarrow> wp m (\<lambda>_. grows P E s) s"
  by (simp add: only_def)

lemma wp_trivial: "(\<And>a t. Q a t) \<Longrightarrow> wp m Q s"
  by (simp add: wp_def split: prod.splits)

lemmas drain_steps = before_deadline_def issue_removal_def retry_pause_def sleep_for_def list_within_def

lemma removal_loop_cancelled:
  "wp (removal_loop fuel env opts d ns name err)
      (\<lambda>r t. r = Some RemovalCancelled \<longrightarrow> cancel_seen t) s"
proof (induction fuel arbitrary: err s d)
  case (Suc fuel)
  show ?case
    unfolding removal_loop.simps
    by (simp add: wp_rules drain_steps Let_def cancel_seen_def Suc.IH[unfolded cancel_seen_def]
        split: option.split sum.split)
qed simp

text \<open>The summary after the loop, against the one before it.\<close>

definition evict_result ::
  "pod list \<Rightarrow> drain_summary \<Rightarrow> pod_identity list \<Rightarrow> drain_summary \<Rightarrow> pod_identity list \<Rightarrow> bool" where
  "evict_result ps S ts S' ts' \<longleftrightarrow>
     (\<exists>oks fs. ds_skipped S' = ds_skipped S \<and> ds_evicted S' = ds_evicted S + length oks
        \<and> ds_failed S' = ds_failed S @ fs \<and> ts' = ts @ map pod_identity_of oks
        \<and> length oks + length fs = length ps \<and> set oks \<subseteq> set ps \<and> (fs = [] \<longrightarrow> oks = ps))"

lemma evict_result_Nil: "evict_result [] S ts S ts"
  by (simp add: evict_result_def)

lemma evict_result_ok:
  assumes "evict_result ps (S\<lparr>ds_evicted := ds_evicted S + 1\<rparr>) (ts @ [pod_identity_of p]) S' ts'"
  shows "evict_result (p # ps) S ts S' ts'"
proof -
  obtain oks fs where o: "ds_skipped S' = ds_skipped S" "ds_evicted S' = ds_evicted S + 1 + length oks"
    "ds_failed S' = ds_failed S @ fs" "ts' = ts @ pod_identity_of p # map pod_identity_of oks"
    "length oks + length fs = length ps" "set oks \<subseteq> set ps" "fs = [] \<longrightarrow> oks = ps"
    using assms by (auto simp: evict_result_def)
  show ?thesis
    unfolding evict_result_def by (intro exI[of _ "p # oks"] exI[of _ fs]) (use o in auto)
qed

lemma evict_result_failed:
  assumes "evict_result ps (push_failed m S) ts S' ts'"
  shows "evict_result (p # ps) S ts S' ts'"
proof -
  obtain oks fs where o: "ds_skipped S' = ds_skipped S" "ds_evicted S' = ds_evicted S + length oks"
    "ds_failed S' = ds_failed S @ m # fs" "ts' = ts @ map pod_identity_of oks"
    "length oks + length fs = length ps" "set oks \<subseteq> set ps"
    using assms by (auto simp: evict_result_def push_failed_def)
  show ?thesis
    unfolding evict_result_def by (intro exI[of _ oks] exI[of _ "m # fs"]) (use o in auto)
qed

fun evict_post ::
  "pod list \<Rightarrow> drain_summary \<Rightarrow> pod_identity list \<Rightarrow> eviction_end option \<Rightarrow> 'w drain_st \<Rightarrow> bool" where
  "evict_post ps S ts None t = True"
| "evict_post ps S ts (Some (ReturnedEarly S')) t = cancel_seen t"
| "evict_post ps S ts (Some (AllTried S' ts')) t = evict_result ps S ts S' ts'"

lemma evict_post_step:
  "(\<And>S' ts'. evict_result ps S1 ts1 S' ts' \<Longrightarrow> evict_result (p # ps) S ts S' ts') \<Longrightarrow>
   evict_post ps S1 ts1 r t \<Longrightarrow> evict_post (p # ps) S ts r t"
  by (cases "(ps, S1, ts1, r, t)" rule: evict_post.cases) auto

lemma evict_pods_result:
  "wp (evict_pods fuel env opts d tot ps S ts) (evict_post ps S ts) s"
proof (induction ps arbitrary: S ts s)
  case Nil
  show ?case by (simp add: evict_result_Nil)
next
  case (Cons p ps)
  have ok: "wp (evict_pods fuel env opts d tot ps (S\<lparr>ds_evicted := Suc (ds_evicted S)\<rparr>)
      (ts @ [pod_identity_of p])) (evict_post (p # ps) S ts) s" for s
    by (rule wp_mono[OF Cons.IH], erule evict_post_step[rotated]) (simp add: evict_result_ok)
  have bad: "wp (evict_pods fuel env opts d tot ps (push_failed m S) ts) (evict_post (p # ps) S ts) s"
    for m s
    by (rule wp_mono[OF Cons.IH], erule evict_post_step[rotated]) (rule evict_result_failed)
  show ?case
    unfolding evict_pods.simps Let_def
    apply (simp add: wp_rules Let_def cancel_seen_def)
    apply (intro impI wp_mono[OF removal_loop_cancelled])
    subgoal for r t
      by (simp add: wp_rules ok bad cancel_seen_def split: option.split removal.split)
    done
qed

fun wait_post ::
  "nat \<Rightarrow> pod_identity list \<Rightarrow> drain_summary \<Rightarrow> wait_end option \<Rightarrow> 'w drain_st \<Rightarrow> bool" where
  "wait_post n ts S (Some (WaitReturn (Inr S'))) t \<longleftrightarrow>
     S' = S \<and> (CallCancelSeen \<in> set (st_calls t)
       \<or> (\<exists>cs items. st_calls t = cs @ [CallListed items] \<and> n \<le> length cs
            \<and> remaining_terminating_pods items ts = []))"
| "wait_post n ts S (Some WaitExit) t = True"
| "wait_post n ts S (Some (WaitReturn (Inl e))) t = True"
| "wait_post n ts S None t = True"

lemma termination_wait_result:
  "n \<le> length (st_calls s) \<Longrightarrow> wp (termination_wait fuel env name d ts S) (wait_post n ts S) s"
proof (induction fuel arbitrary: s d)
  case (Suc fuel)
  then show ?case
    unfolding termination_wait.simps
    by (simp add: wp_rules drain_steps Let_def split: option.split sum.split)
qed simp

section \<open>The whole drain\<close>

lemma wp_drain:
  assumes invalid: "\<And>m. drain_validate opts = Inl m \<Longrightarrow> Q (Some (Inl (K8sApi m))) s"
    and no_cordon: "\<And>e t. drain_validate opts = Inr () \<Longrightarrow>
      st_calls t = st_calls s @ [CallCordon name True] \<Longrightarrow> st_events t = st_events s \<Longrightarrow>
      Q (Some (Inl e)) t"
    and no_list: "\<And>e t. drain_validate opts = Inr () \<Longrightarrow>
      st_calls t = st_calls s @ [CallCordon name True] \<Longrightarrow> st_events t = st_events s @ [Cordoned] \<Longrightarrow>
      Q (Some (Inl e)) t"
    and no_deadline: "\<And>pods e t. drain_validate opts = Inr () \<Longrightarrow>
      st_calls t = st_calls s @ [CallCordon name True, CallListed pods] \<Longrightarrow>
      st_events t = st_events s @ [Cordoned] \<Longrightarrow> Q (Some (Inl e)) t"
    and blocked: "\<And>pods bs t. drain_validate opts = Inr () \<Longrightarrow>
      bs = concat (map (drain_blockers opts) pods) \<Longrightarrow> bs \<noteq> [] \<Longrightarrow>
      st_calls t = st_calls s @ [CallCordon name True, CallListed pods] \<Longrightarrow>
      st_events t = st_events s @ [Cordoned, Blocked bs] \<Longrightarrow>
      Q (Some (Inr \<lparr>ds_evicted = 0, ds_skipped = skipped_pod_count pods,
                    ds_failed = map blocker_message bs\<rparr>)) t"
    and evicting: "\<And>pods deadline t. drain_validate opts = Inr () \<Longrightarrow>
      \<forall>p\<in>set pods. drain_blockers opts p = [] \<Longrightarrow>
      st_calls t = st_calls s @ [CallCordon name True, CallListed pods] \<Longrightarrow>
      st_events t = st_events s @ [Cordoned] \<Longrightarrow>
      wp (evict_and_wait fuel env name opts deadline pods
            \<lparr>ds_evicted = 0, ds_skipped = skipped_pod_count pods, ds_failed = []\<rparr>) Q t"
  shows "wp (drain fuel env name opts) Q s"
proof (cases "drain_validate opts")
  case (Inl m)
  then show ?thesis using invalid by (simp add: drain_def)
next
  case (Inr u)
  then have ok: "drain_validate opts = Inr ()" by simp
  have rest: "wp (drain_listed fuel env name opts pods) Q t"
    if "st_calls t = st_calls s @ [CallCordon name True, CallListed pods]"
      "st_events t = st_events s @ [Cordoned]" for pods t
    using that ok unfolding drain_listed_def
    by (auto simp: wp_rules drain_deadline_def drain_summary_default_def Let_def split: option.split
        intro: no_deadline evicting blocked[OF ok refl])
  show ?thesis
    unfolding drain_def cordon_def using ok
    by (simp add: wp_rules no_cordon no_list rest split: sum.split)
qed

lemma wp_evict_and_wait:
  fixes pods and env :: "'w drain_env"
  defines "E \<equiv> filter is_evictable pods" and "W \<equiv> map pod_identity_of (filter is_waitable_terminating pods)"
  assumes "\<And>t. Q None t"
    and "\<And>S' t. cancel_seen t \<Longrightarrow> Q (Some (Inr S')) t"
    and "\<And>e t. Q (Some (Inl e)) t"
    and gone: "\<And>S' ts' cs items t. evict_result E S W S' ts' \<Longrightarrow> st_calls t = cs @ [CallListed items] \<Longrightarrow>
      length (st_calls s) \<le> length cs \<Longrightarrow> remaining_terminating_pods items ts' = [] \<Longrightarrow> Q (Some (Inr S')) t"
    and none_left: "\<And>S' t. evict_result E S W S' [] \<Longrightarrow> Q (Some (Inr S')) t"
    and failed: "\<And>S' ts' m t. evict_result E S W S' ts' \<Longrightarrow> Q (Some (Inr (push_failed m S'))) t"
  shows "wp (evict_and_wait fuel env name opts d pods S) Q s"
proof -
  have fin: "wp (termination_wait fuel env name d ts' S') (\<lambda>w. wp (case w of None \<Rightarrow> ret None
       | Some w \<Rightarrow> (case w of WaitReturn r \<Rightarrow> ret (Some r)
         | WaitExit \<Rightarrow> ret (Some (Inr (if ts' \<noteq> []
             then push_failed ''timed out waiting for workload pods to terminate'' S' else S'))))) Q) t"
    if "evict_result E S W S' ts'" "length (st_calls s) \<le> length (st_calls t)"
    for S' ts' and t :: "'w drain_st"
  proof (rule wp_mono[OF termination_wait_result[OF that(2)]])
    fix w and t' :: "'w drain_st" assume "wait_post (length (st_calls s)) ts' S' w t'"
    then show "wp (case w of None \<Rightarrow> ret None
       | Some w \<Rightarrow> (case w of WaitReturn r \<Rightarrow> ret (Some r)
         | WaitExit \<Rightarrow> ret (Some (Inr (if ts' \<noteq> []
             then push_failed ''timed out waiting for workload pods to terminate'' S' else S'))))) Q t'"
    proof (cases w)
      case None
      then show ?thesis using assms(3) by simp
    next
      case (Some x)
      show ?thesis
      proof (cases x)
        case (WaitReturn y)
        show ?thesis
        proof (cases y)
          case (Inl e)
          then show ?thesis using Some WaitReturn assms(5) by simp
        next
          case (Inr z)
          then have "z = S'" "cancel_seen t' \<or> (\<exists>cs items. st_calls t' = cs @ [CallListed items]
              \<and> length (st_calls s) \<le> length cs \<and> remaining_terminating_pods items ts' = [])"
            using \<open>wait_post _ ts' S' w t'\<close> Some WaitReturn by (simp_all add: cancel_seen_def)
          then show ?thesis
            using Some WaitReturn Inr assms(4) gone[OF that(1)] by auto
        qed
      next
        case WaitExit
        show ?thesis
        proof (cases "ts' = []")
          case True
          with that(1) have "evict_result E S W S' []" by simp
          then have "Q (Some (Inr S')) t'" by (rule none_left)
          then show ?thesis using Some WaitExit True by simp
        next
          case False
          then show ?thesis using Some WaitExit failed[OF that(1)] by simp
        qed
      qed
    qed
  qed
  show ?thesis
    unfolding evict_and_wait_def Let_def wp_bind wp_send_event E_def [symmetric] W_def [symmetric]
  proof (rule wp_mono[OF wp_conj[OF evict_pods_result wp_onlyI[OF only_evict_pods]]])
    fix r and t :: "'w drain_st"
    assume "evict_post E S W r t \<and> grows (\<lambda>c. c = CallCancelSeen \<or> (\<exists>p\<in>set E. c = CallRemove (removal_of opts p)))
      is_progress (s\<lparr>st_events := st_events s @ [Started (length E)]\<rparr>) t"
    then have "evict_post E S W r t" and "length (st_calls s) \<le> length (st_calls t)"
      by (auto simp: grows_def)
    then show "wp (case r of None \<Rightarrow> ret None | Some ended \<Rightarrow> (case ended of
          ReturnedEarly summary \<Rightarrow> ret (Some (Inr summary))
        | AllTried summary terminating \<Rightarrow> do {
            waited \<leftarrow> termination_wait fuel env name d terminating summary;
            case waited of None \<Rightarrow> ret None
            | Some w \<Rightarrow> (case w of WaitReturn r \<Rightarrow> ret (Some r)
              | WaitExit \<Rightarrow> ret (Some (Inr (if terminating \<noteq> []
                    then push_failed ''timed out waiting for workload pods to terminate'' summary
                    else summary)))) })) Q t"
      using assms(3-4) fin
      by (cases "(E, S, W, r, t)" rule: evict_post.cases) (auto simp: wp_bind)
  qed
qed

section \<open>Progress numbers\<close>

definition dones :: "drain_event_kind list \<Rightarrow> (nat \<times> nat) list" where
  "dones es = List.map_filter (\<lambda>e. case e of Evicted _ d n \<Rightarrow> Some (d, n) | _ \<Rightarrow> None) es"

lemma dones_simps [simp]:
  "dones [] = []"
  "dones (e # es) = (case e of Evicted _ d n \<Rightarrow> [(d, n)] | _ \<Rightarrow> []) @ dones es"
  "dones (es @ fs) = dones es @ dones fs"
  by (auto simp: dones_def List.map_filter_def split: drain_event_kind.splits)

lemma grows_dones:
  assumes "grows P E s t" "\<And>e. E e \<Longrightarrow> dones [e] = []"
  shows "dones (st_events t) = dones (st_events s)"
proof -
  obtain es where es: "st_events t = st_events s @ es" "\<forall>e\<in>set es. E e"
    using assms(1) by (auto simp: grows_def)
  have "dones es = []" using es(2)
  proof (induction es)
    case (Cons e es)
    then show ?case using assms(2)[of e] by simp
  qed simp
  then show ?thesis using es(1) by simp
qed

fun numbered :: "nat \<Rightarrow> nat \<Rightarrow> drain_summary \<Rightarrow> (nat \<times> nat) list \<Rightarrow> eviction_end option \<Rightarrow> 'w drain_st \<Rightarrow> bool" where
  "numbered n tot S ds None t = True"
| "numbered n tot S ds (Some (ReturnedEarly S')) t \<longleftrightarrow>
     ds_evicted S \<le> ds_evicted S' \<and> ds_evicted S' \<le> ds_evicted S + n
     \<and> dones (st_events t) = ds @ map (\<lambda>d. (d, tot)) [Suc (ds_evicted S)..<Suc (ds_evicted S')]"
| "numbered n tot S ds (Some (AllTried S' ts)) t \<longleftrightarrow>
     ds_evicted S \<le> ds_evicted S' \<and> ds_evicted S' \<le> ds_evicted S + n
     \<and> dones (st_events t) = ds @ map (\<lambda>d. (d, tot)) [Suc (ds_evicted S)..<Suc (ds_evicted S')]"

lemma numbered_ok:
  assumes "numbered n tot (S\<lparr>ds_evicted := Suc (ds_evicted S)\<rparr>) (ds @ [(Suc (ds_evicted S), tot)]) r t"
  shows "numbered (Suc n) tot S ds r t"
  using assms
  by (cases "(n, tot, S, ds, r, t)" rule: numbered.cases) (auto simp: upt_conv_Cons)

lemma numbered_failed:
  assumes "numbered n tot (push_failed m S) ds r t"
  shows "numbered (Suc n) tot S ds r t"
  using assms
  by (cases "(n, tot, S, ds, r, t)" rule: numbered.cases) (auto simp: push_failed_def)

lemma evict_pods_numbered:
  "wp (evict_pods fuel env opts d tot ps S ts) (numbered (length ps) tot S (dones (st_events s))) s"
proof (induction ps arbitrary: S ts s)
  case (Cons p ps)
  have ok: "wp (evict_pods fuel env opts d tot ps (S\<lparr>ds_evicted := Suc (ds_evicted S)\<rparr>) ts)
      (numbered (Suc (length ps)) tot S ds) t"
    if "dones (st_events t) = ds @ [(Suc (ds_evicted S), tot)]" for ds t ts
    by (rule wp_mono[OF Cons.IH]) (use that in \<open>simp add: numbered_ok\<close>)
  have bad: "wp (evict_pods fuel env opts d tot ps (push_failed m S) ts)
      (numbered (Suc (length ps)) tot S ds) t"
    if "dones (st_events t) = ds" for ds t ts m
    by (rule wp_mono[OF Cons.IH]) (use that in \<open>simp add: numbered_failed\<close>)
  have quiet: "wp (removal_loop fuel env opts d ns n err)
      (\<lambda>_ t'. dones (st_events t') = dones (st_events t)) t" for ns n err t
    by (rule wp_mono[OF wp_onlyI[OF only_removal_loop]]) (rule grows_dones, assumption, simp)
  show ?case
    unfolding evict_pods.simps Let_def
    apply (simp add: wp_rules Let_def)
    apply (intro impI wp_mono[OF quiet])
    subgoal for r t
      by (simp add: wp_rules ok bad split: option.split removal.split)
    done
qed simp

lemma evict_and_wait_numbered:
  fixes env :: "'w drain_env"
  assumes "ds_evicted S0 = 0"
  shows "wp (evict_and_wait fuel env name opts d pods S0)
    (\<lambda>r t. \<forall>S. r = Some (Inr S) \<longrightarrow> ds_evicted S \<le> length (filter is_evictable pods)
       \<and> dones (st_events t) = dones (st_events s)
           @ map (\<lambda>k. (k, length (filter is_evictable pods))) [1..<Suc (ds_evicted S)]) s"
    (is "wp _ ?Q s")
proof -
  let ?n = "length (filter is_evictable pods)"
  have tw: "wp (termination_wait fuel env name d ts S) (\<lambda>w. wp (case w of None \<Rightarrow> ret None
       | Some w \<Rightarrow> (case w of WaitReturn r \<Rightarrow> ret (Some r)
         | WaitExit \<Rightarrow> ret (Some (Inr (if ts \<noteq> []
             then push_failed ''timed out waiting for workload pods to terminate'' S else S))))) ?Q) t"
    if "ds_evicted S \<le> ?n" "dones (st_events t) = dones (st_events s)
           @ map (\<lambda>k. (k, ?n)) [1..<Suc (ds_evicted S)]" for S ts and t :: "'w drain_st"
  proof (rule wp_mono[OF wp_conj[OF termination_wait_result[OF order_refl] wp_onlyI[OF only_termination_wait]]])
    fix w and t' :: "'w drain_st"
    assume a: "wait_post (length (st_calls t)) ts S w t' \<and>
      grows (\<lambda>c. c = CallCancelSeen \<or> (\<exists>items. c = CallListed items)) (\<lambda>e. \<exists>ns. e = WaitingTermination ns) t t'"
    then have "dones (st_events t') = dones (st_events t)" by (auto intro: grows_dones)
    with that a show "wp (case w of None \<Rightarrow> ret None
       | Some w \<Rightarrow> (case w of WaitReturn r \<Rightarrow> ret (Some r)
         | WaitExit \<Rightarrow> ret (Some (Inr (if ts \<noteq> []
             then push_failed ''timed out waiting for workload pods to terminate'' S else S))))) ?Q t'"
      by (cases "(length (st_calls t), ts, S, w, t')" rule: wait_post.cases)
        (auto simp: push_failed_def simp del: upt_Suc)
  qed
  show ?thesis
    unfolding evict_and_wait_def Let_def wp_bind wp_send_event
  proof (rule wp_mono[OF evict_pods_numbered])
    fix r and t :: "'w drain_st"
    assume num: "numbered ?n ?n S0 (dones (st_events (s\<lparr>st_events := st_events s @ [Started ?n]\<rparr>))) r t"
    show "wp (case r of None \<Rightarrow> ret None | Some ended \<Rightarrow> (case ended of
          ReturnedEarly summary \<Rightarrow> ret (Some (Inr summary))
        | AllTried summary terminating \<Rightarrow> do {
            waited \<leftarrow> termination_wait fuel env name d terminating summary;
            case waited of None \<Rightarrow> ret None
            | Some w \<Rightarrow> (case w of WaitReturn r \<Rightarrow> ret (Some r)
              | WaitExit \<Rightarrow> ret (Some (Inr (if terminating \<noteq> []
                    then push_failed ''timed out waiting for workload pods to terminate'' summary
                    else summary)))) })) ?Q t"
    proof (cases r)
      case (Some x)
      show ?thesis
      proof (cases x)
        case (ReturnedEarly S)
        then show ?thesis using Some num assms by (simp del: upt_Suc)
      next
        case (AllTried S ts)
        then show ?thesis
          using Some num assms tw[of S t ts] by (simp del: upt_Suc add: wp_bind)
      qed
    qed simp
  qed
qed

section \<open>Termination\<close>

text \<open>
  What the clock promises: instants do not go back, and a sleep takes at least its duration.
  \<open>clock\<close> reads the time off the world.
\<close>

definition clock_ok :: "'w drain_env \<Rightarrow> ('w \<Rightarrow> nat) \<Rightarrow> bool" where
  "clock_ok env clock \<longleftrightarrow>
     (\<forall>w. clock w \<le> fst (env_now env w) \<and> fst (env_now env w) \<le> clock (snd (env_now env w)))
   \<and> (\<forall>w. clock w \<le> clock (snd (env_cancelled env w)))
   \<and> (\<forall>d w. clock w + d \<le> clock (env_sleep env d w))
   \<and> (\<forall>n w. clock w \<le> clock (snd (env_list_pods env n w)))
   \<and> (\<forall>n w. clock w \<le> clock (snd (env_get_node env n w)))
   \<and> (\<forall>r w. clock w \<le> clock (snd (env_request env r w)))
   \<and> (\<forall>n d w. clock w \<le> clock (snd (env_timeout_list env d (env_list_pods env n) w)))
   \<and> (\<forall>r d w. clock w \<le> clock (snd (env_timeout_request env d (env_request env r) w)))"

lemma clock_okD:
  assumes "clock_ok env clock"
  shows "clock w \<le> fst (env_now env w)" "fst (env_now env w) \<le> clock (snd (env_now env w))"
    "clock w \<le> clock (snd (env_now env w))"
    "clock w \<le> clock (snd (env_cancelled env w))" "clock w + d \<le> clock (env_sleep env d w)"
    "clock w \<le> clock (snd (env_list_pods env n w))" "clock w \<le> clock (snd (env_get_node env n w))"
    "clock w \<le> clock (snd (env_request env r w))"
    "clock w \<le> clock (snd (env_timeout_list env d (env_list_pods env n) w))"
    "clock w \<le> clock (snd (env_timeout_request env d (env_request env r) w))"
  using assms by (auto simp: clock_ok_def intro: order_trans)

text \<open>The steps as they move the clock.\<close>

named_theorems tick_intros "weakest preconditions in terms of the clock"

lemma tick_bind [tick_intros]: "wp m (\<lambda>a. wp (f a) Q) s \<Longrightarrow> wp (State_Monad.bind m f) Q s"
  by (simp add: wp_bind)

lemma tick_return [tick_intros]: "Q a s \<Longrightarrow> wp (ret a) Q s"
  by simp

lemma tick_if [tick_intros]: "(c \<Longrightarrow> wp m Q s) \<Longrightarrow> (\<not> c \<Longrightarrow> wp n Q s) \<Longrightarrow> wp (if c then m else n) Q s"
  by simp

lemma tick_option [tick_intros]:
  "(r = None \<Longrightarrow> wp f Q s) \<Longrightarrow> (\<And>x. r = Some x \<Longrightarrow> wp (g x) Q s) \<Longrightarrow>
   wp (case r of None \<Rightarrow> f | Some x \<Rightarrow> g x) Q s"
  by (cases r) simp_all

lemma tick_sum [tick_intros]:
  "(\<And>e. r = Inl e \<Longrightarrow> wp (f e) Q s) \<Longrightarrow> (\<And>x. r = Inr x \<Longrightarrow> wp (g x) Q s) \<Longrightarrow>
   wp (case r of Inl e \<Rightarrow> f e | Inr x \<Rightarrow> g x) Q s"
  by (cases r) simp_all

abbreviation time :: "('w \<Rightarrow> nat) \<Rightarrow> 'w drain_st \<Rightarrow> nat" where
  "time clock s \<equiv> clock (st_world s)"

lemma tick_log [tick_intros]:
  "(\<And>s'. st_world s' = st_world s \<Longrightarrow> Q () s') \<Longrightarrow> wp (log_call c) Q s"
  by (simp add: wp_log_call)

lemma tick_send [tick_intros]:
  "(\<And>s'. st_world s' = st_world s \<Longrightarrow> Q () s') \<Longrightarrow> wp (send_event e) Q s"
  by (simp add: wp_send_event)

lemma tick_now:
  assumes "clock_ok env clock"
    and "\<And>t s'. time clock s \<le> t \<Longrightarrow> t \<le> time clock s' \<Longrightarrow> Q t s'"
  shows "wp (lift_w (env_now env)) Q s"
  using assms(2) by (simp add: wp_lift_w clock_okD[OF assms(1)])

lemma tick_cancel:
  assumes "clock_ok env clock" and "\<And>c s'. time clock s \<le> time clock s' \<Longrightarrow> Q c s'"
  shows "wp (cancel_load env) Q s"
  using assms(2) by (simp add: wp_cancel_load clock_okD[OF assms(1)] Let_def)

lemma tick_sleep:
  assumes "clock_ok env clock" and "\<And>s'. time clock s + d \<le> time clock s' \<Longrightarrow> Q () s'"
  shows "wp (sleep_for env d) Q s"
  using assms(2) by (simp add: sleep_for_def wp_lift_w clock_okD[OF assms(1)])

lemma tick_get:
  assumes "clock_ok env clock" and "\<And>r s'. time clock s \<le> time clock s' \<Longrightarrow> Q r s'"
  shows "wp (lift_w (env_get_node env n)) Q s"
  using assms(2) by (simp add: wp_lift_w clock_okD[OF assms(1)])

lemmas clock_steps = tick_now tick_cancel tick_sleep tick_get

lemma tick_before:
  assumes "clock_ok env clock"
    and "\<And>t s'. time clock s \<le> t \<Longrightarrow> t \<le> time clock s' \<Longrightarrow> Q (t < d) s'"
  shows "wp (before_deadline env (Some d)) Q s"
  unfolding before_deadline_def option.case
  by (intro tick_intros clock_steps[OF assms(1)] assms(2))

lemma tick_pause:
  assumes "clock_ok env clock"
    and "\<And>s'. time clock s \<le> time clock s' \<Longrightarrow>
      time clock s + RETRY_DELAY \<le> time clock s' \<or> d \<le> time clock s' \<Longrightarrow> Q () s'"
  shows "wp (retry_pause env (Some d)) Q s"
  unfolding retry_pause_def option.case
  by (intro tick_intros clock_steps[OF assms(1)] assms(2)) (auto simp: min_def split: if_splits)

lemma tick_issue:
  assumes ok: "clock_ok env clock" and Q: "\<And>r s'. time clock s \<le> time clock s' \<Longrightarrow> Q r s'"
  shows "wp (issue_removal env (Some d) req) Q s"
  unfolding issue_removal_def option.case
proof (intro tick_intros clock_steps[OF ok])
  fix t and s' s'' :: "'a drain_st"
  assume "time clock s \<le> t" "t \<le> time clock s'" "st_world s'' = st_world s'"
  then show "wp (lift_w (env_timeout_request env (d - t) (env_request env req))) Q s''"
    using clock_okD(10)[OF ok, of "st_world s'"] by (auto simp: wp_lift_w intro!: Q intro: order_trans)
qed

lemma tick_list_within:
  assumes ok: "clock_ok env clock" and Q: "\<And>r s'. time clock s \<le> time clock s' \<Longrightarrow> Q r s'"
  shows "wp (list_within env name (Some d)) Q s"
  unfolding list_within_def option.case
proof (intro tick_intros clock_steps[OF ok])
  fix t and s' :: "'a drain_st"
  assume "time clock s \<le> t" "t \<le> time clock s'"
  then show "wp (lift_w (env_timeout_list env (d - t) (env_list_pods env name))) Q s'"
    using clock_okD(9)[OF ok, of "st_world s'"] by (auto simp: wp_lift_w intro!: Q intro: order_trans)
qed

lemmas loop_steps = clock_steps tick_before tick_pause tick_issue tick_list_within

lemma removal_loop_terminates:
  assumes ok: "clock_ok env clock"
  shows "d \<le> time clock s + n * RETRY_DELAY \<Longrightarrow>
   wp (removal_loop (Suc n) env opts (Some d) ns name err)
     (\<lambda>r t. r \<noteq> None \<and> time clock s \<le> time clock t) s"
proof (induction n arbitrary: s err)
  case 0
  then show ?case
    unfolding removal_loop.simps Let_def by (intro tick_intros loop_steps[OF ok]) auto
next
  case (Suc n)
  have again: "wp (removal_loop (Suc n) env opts (Some d) ns name err)
      (\<lambda>r t. r \<noteq> None \<and> time clock s \<le> time clock t) t"
    if "time clock s \<le> time clock t" "time clock s + RETRY_DELAY \<le> time clock t \<or> d \<le> time clock t"
    for t err
  proof (rule wp_mono[OF Suc.IH])
    show "d \<le> time clock t + n * RETRY_DELAY" using Suc.prems that by auto
  qed (use that in auto)
  show ?case
    unfolding removal_loop.simps(2)[of "Suc n"] Let_def
    by (intro tick_intros loop_steps[OF ok] again) auto
qed

lemma tick_removal_case [tick_intros]:
  "(r = RemovalCancelled \<Longrightarrow> wp f Q s) \<Longrightarrow> (\<And>b e. r = Removal b e \<Longrightarrow> wp (g b e) Q s) \<Longrightarrow>
   wp (case r of RemovalCancelled \<Rightarrow> f | Removal b e \<Rightarrow> g b e) Q s"
  by (cases r) simp_all

lemma tick_eviction_case [tick_intros]:
  "(\<And>x. r = ReturnedEarly x \<Longrightarrow> wp (f x) Q s) \<Longrightarrow> (\<And>x ts. r = AllTried x ts \<Longrightarrow> wp (g x ts) Q s) \<Longrightarrow>
   wp (case r of ReturnedEarly x \<Rightarrow> f x | AllTried x ts \<Rightarrow> g x ts) Q s"
  by (cases r) simp_all

lemma tick_wait_case [tick_intros]:
  "(\<And>x. r = WaitReturn x \<Longrightarrow> wp (f x) Q s) \<Longrightarrow> (r = WaitExit \<Longrightarrow> wp g Q s) \<Longrightarrow>
   wp (case r of WaitReturn x \<Rightarrow> f x | WaitExit \<Rightarrow> g) Q s"
  by (cases r) simp_all

text \<open>A loop that ends within the fuel moves the clock forward only.\<close>

definition ends :: "('w \<Rightarrow> nat) \<Rightarrow> 'w drain_st \<Rightarrow> 'a option \<Rightarrow> 'w drain_st \<Rightarrow> bool" where
  "ends clock s r t \<longleftrightarrow> r \<noteq> None \<and> time clock s \<le> time clock t"

lemma evict_pods_terminates:
  assumes ok: "clock_ok env clock"
  shows "d \<le> time clock s + n * RETRY_DELAY \<Longrightarrow>
   wp (evict_pods (Suc n) env opts (Some d) tot ps S ts) (ends clock s) s"
proof (induction ps arbitrary: s S ts)
  case Nil
  show ?case by (simp add: ends_def)
next
  case (Cons p ps)
  have later: "wp (evict_pods (Suc n) env opts (Some d) tot ps S ts) (ends clock s) t"
    if "time clock s \<le> time clock t" for t S ts
    by (rule wp_mono[OF Cons.IH]) (use Cons.prems that in \<open>auto simp: ends_def\<close>)
  have loop: "wp (removal_loop (Suc n) env opts (Some d) ns name err) Q t"
    if "time clock s \<le> time clock t" and "\<And>r t'. time clock s \<le> time clock t' \<Longrightarrow> r \<noteq> None \<Longrightarrow> Q r t'"
    for ns name err Q t
    by (rule wp_mono[OF removal_loop_terminates[OF ok]]) (use Cons.prems that in auto)
  show ?case
    unfolding evict_pods.simps Let_def
    by (intro tick_intros loop_steps[OF ok] loop later) (auto simp: ends_def)
qed

lemma termination_wait_terminates:
  assumes ok: "clock_ok env clock"
  shows "d \<le> time clock s + n * RETRY_DELAY \<Longrightarrow>
   wp (termination_wait (Suc n) env name (Some d) ts S) (ends clock s) s"
proof (induction n arbitrary: s)
  case 0
  then show ?case
    unfolding termination_wait.simps Let_def
    by (intro tick_intros loop_steps[OF ok]) (auto simp: ends_def)
next
  case (Suc n)
  have again: "wp (termination_wait (Suc n) env name (Some d) ts S) (ends clock s) t"
    if "time clock s \<le> time clock t" "time clock s + RETRY_DELAY \<le> time clock t \<or> d \<le> time clock t" for t
  proof (rule wp_mono[OF Suc.IH])
    show "d \<le> time clock t + n * RETRY_DELAY" using Suc.prems that by auto
  qed (use that in \<open>auto simp: ends_def\<close>)
  show ?case
    unfolding termination_wait.simps(2)[of "Suc n"] Let_def
    by (intro tick_intros loop_steps[OF ok] again) (auto simp: ends_def)
qed

lemma evict_and_wait_terminates:
  assumes ok: "clock_ok env clock" and d: "d \<le> time clock s + n * RETRY_DELAY"
  shows "wp (evict_and_wait (Suc n) env name opts (Some d) pods S) (\<lambda>r _. r \<noteq> None) s"
proof -
  have ev: "wp (evict_pods (Suc n) env opts (Some d) tot ps S ts) Q t"
    if "time clock t = time clock s" and "\<And>r t'. time clock s \<le> time clock t' \<Longrightarrow> r \<noteq> None \<Longrightarrow> Q r t'"
    for tot ps S ts Q t
    by (rule wp_mono[OF evict_pods_terminates[OF ok]]) (use d that in \<open>auto simp: ends_def\<close>)
  have tw: "wp (termination_wait (Suc n) env name (Some d) ts S) Q t"
    if "time clock s \<le> time clock t" and "\<And>r t'. r \<noteq> None \<Longrightarrow> Q r t'" for ts S Q t
    by (rule wp_mono[OF termination_wait_terminates[OF ok]]) (use d that in \<open>auto simp: ends_def\<close>)
  show ?thesis
    unfolding evict_and_wait_def Let_def by (intro tick_intros ev tw) auto
qed

lemma drain_listed_terminates:
  assumes ok: "clock_ok env clock" and t: "0 < timeout_secs opts" "timeout_secs opts \<le> 2 * n"
  shows "wp (drain_listed (Suc n) env name opts pods) (\<lambda>r _. r \<noteq> None) s"
proof -
  have wait: "wp (evict_and_wait (Suc n) env name opts deadline pods S) (\<lambda>r _. r \<noteq> None) s'"
    if dl: "(case checked_add t (timeout_secs opts * 10 ^ 9) of
             None \<Rightarrow> Inl e | Some d \<Rightarrow> Inr (Some d)) = Inr deadline" and le: "t \<le> time clock s'"
    for t e deadline S s'
  proof -
    from dl have "deadline = Some (t + timeout_secs opts * 10 ^ 9)"
      by (auto simp: checked_add_def split: if_splits)
    moreover have "t + timeout_secs opts * 10 ^ 9 \<le> time clock s' + n * RETRY_DELAY"
      using le t by (simp add: RETRY_DELAY_def)
    ultimately show ?thesis using evict_and_wait_terminates[OF ok] by metis
  qed
  show ?thesis
    unfolding drain_listed_def drain_deadline_def Let_def using t
    by (intro tick_intros loop_steps[OF ok] wait) auto
qed

lemma drain_ends:
  assumes ok: "clock_ok env clock" and t: "0 < timeout_secs opts"
  shows "wp (drain 1802 env name opts) (\<lambda>r _. r \<noteq> None) s"
proof (cases "drain_validate opts")
  case (Inl m)
  then show ?thesis by (simp add: drain_def)
next
  case (Inr u)
  then have "timeout_secs opts \<le> 2 * 1801" using drain_validate_ok[of opts] by simp
  then have all_end: "wp (drain_listed (Suc 1801) env name opts pods) (\<lambda>r _. r \<noteq> None) s" for pods s
    by (rule drain_listed_terminates[OF ok t])
  then show ?thesis
    unfolding drain_def cordon_def by (simp add: wp_rules Inr split: sum.split)
qed

text \<open>A wait for a reboot succeeds only on the evidence it saw.\<close>

definition rebooted :: "string option \<Rightarrow> bool \<Rightarrow> drain_call list \<Rightarrow> bool" where
  "rebooted previous saw calls \<longleftrightarrow>
     (\<exists>cs n. calls = cs @ [CallGotNode n] \<and> node_ready n
        \<and> (saw \<or> boot_changed previous n \<or> (\<exists>m. CallGotNode m \<in> set cs \<and> \<not> node_ready m)))"

lemma rebooted_snoc: "node_ready n \<Longrightarrow> saw \<or> boot_changed previous n \<Longrightarrow> rebooted previous saw [CallGotNode n]"
  by (auto simp: rebooted_def)

lemma rebooted_Cons:
  "rebooted previous saw cs \<Longrightarrow> rebooted previous saw (c # cs)"
  unfolding rebooted_def by (metis append_Cons list.set_intros(2))

lemma rebooted_not_ready:
  "rebooted previous True cs \<Longrightarrow> \<not> node_ready n \<Longrightarrow> rebooted previous saw (CallGotNode n # cs)"
  unfolding rebooted_def by (metis append_Cons list.set_intros(1))

definition reboot_post :: "string option \<Rightarrow> bool \<Rightarrow> drain_call list \<Rightarrow> (k8s_error + unit) option \<Rightarrow> 'w drain_st \<Rightarrow> bool" where
  "reboot_post previous saw cs r t \<longleftrightarrow>
     (r = Some (Inr ()) \<longrightarrow> (\<exists>new. st_calls t = cs @ new \<and> rebooted previous saw new))"

lemma reboot_post_simps [simp]:
  "reboot_post p saw cs None t" "reboot_post p saw cs (Some (Inl e)) t"
  by (simp_all add: reboot_post_def)

lemma reboot_loop_result:
  "wp (reboot_loop fuel env name previous d saw) (reboot_post previous saw (st_calls s)) s"
proof (induction fuel arbitrary: s saw)
  case (Suc fuel)
  have skip: "wp (reboot_loop fuel env name previous d saw) (reboot_post previous saw cs) t"
    if "st_calls t = cs" for t cs saw
    using Suc.IH[of saw t] that by simp
  have again: "wp (reboot_loop fuel env name previous d saw') (reboot_post previous saw (st_calls s))
      (s\<lparr>st_calls := st_calls s @ [CallGotNode n], st_world := w\<rparr>)"
    if "saw' = saw \<or> saw' \<and> \<not> node_ready n" for n saw' w
    by (rule wp_mono[OF Suc.IH]) (use that in \<open>auto simp: reboot_post_def intro: rebooted_Cons rebooted_not_ready\<close>)
  have hit: "reboot_post previous saw (st_calls s) (Some (Inr ()))
      (s\<lparr>st_world := w, st_calls := st_calls s @ [CallGotNode n]\<rparr>)"
    if "node_ready n" "saw \<or> boot_changed previous n" for n w
    using that rebooted_snoc by (auto simp: reboot_post_def)
  show ?case
    unfolding reboot_loop.simps
    by (cases saw) (use skip again hit in \<open>simp_all add: wp_rules sleep_for_def split: sum.split\<close>)
qed simp

lemma reboot_loop_terminates:
  assumes ok: "clock_ok env clock"
  shows "d \<le> time clock s + n * RETRY_DELAY \<Longrightarrow>
   wp (reboot_loop (Suc n) env name prev d saw) (\<lambda>r _. r \<noteq> None) s"
proof (induction n arbitrary: s saw)
  case 0
  then show ?case
    unfolding reboot_loop.simps by (intro tick_intros loop_steps[OF ok]) auto
next
  case (Suc n)
  show ?case
    unfolding reboot_loop.simps(2)[of "Suc n"] using Suc.prems
    by (intro tick_intros loop_steps[OF ok] Suc.IH) auto
qed

end
