(* ===== verification/DrainProps.thy ===== *)
theory DrainProps
  imports DrainProofs
begin

text \<open>
  The theorems a user of the drain relies on, each with a witness on a small simulated
  cluster: its world is the clock and the list of pods, a removal deletes the pod at once.
\<close>

definition fresh :: "'w \<Rightarrow> 'w drain_st" where
  "fresh w = \<lparr>st_world = w, st_calls = [], st_events = []\<rparr>"

lemma fresh_simps [simp]: "st_world (fresh w) = w" "st_calls (fresh w) = []" "st_events (fresh w) = []"
  by (simp_all add: fresh_def)

section \<open>A simulated cluster\<close>

type_synonym sim = "nat \<times> pod list"

fun sim_remove :: "pod_request \<Rightarrow> sim \<Rightarrow> (kube_error + unit) \<times> sim" where
  "sim_remove (DeletePod ns n g) (t, ps) =
     (Inr (), (t, filter (\<lambda>p. om_name (pod_metadata p) \<noteq> Some n) ps))"
| "sim_remove (EvictPod ns n g) (t, ps) =
     (Inr (), (t, filter (\<lambda>p. om_name (pod_metadata p) \<noteq> Some n) ps))"

definition sim_env :: "sim drain_env" where
  "sim_env = \<lparr>env_now = (\<lambda>w. (fst w, w)), env_cancelled = (\<lambda>w. (False, w)),
     env_sleep = (\<lambda>d w. (fst w + d, snd w)), env_patch_node = (\<lambda>_ _ w. (Inr (), w)),
     env_get_node = (\<lambda>_ w. (Inl (ErrApi 404 ''not found''), w)),
     env_list_pods = (\<lambda>_ w. (Inr (snd w), w)), env_request = sim_remove,
     env_timeout_list = (\<lambda>_ f w. (Some (fst (f w)), snd (f w))),
     env_timeout_request = (\<lambda>_ f w. (Some (fst (f w)), snd (f w)))\<rparr>"

definition sim_pod :: "string \<Rightarrow> string \<Rightarrow> pod" where
  "sim_pod n owner = \<lparr>pod_metadata = \<lparr>om_name = Some n, om_namespace = Some ''default'', om_uid = Some n,
     om_resource_version = None, om_deletion_timestamp = None,
     om_owner_references = Some [\<lparr>or_api_version = ''apps/v1'', or_kind = owner, or_name = ''o'', or_uid = ''u''\<rparr>],
     om_annotations = None, om_labels = None\<rparr>, pod_spec_of = None, pod_status_of = None\<rparr>"

definition sim_opts :: drain_options where
  "sim_opts = \<lparr>force = False, delete_emptydir_data = False, ignore_daemonsets = True,
     disable_eviction = False, grace_period = None, timeout_secs = 4\<rparr>"

definition sim_world :: sim where
  "sim_world = (0, [sim_pod ''web'' ''ReplicaSet'', sim_pod ''logs'' ''DaemonSet''])"

lemma sim_env_simps [simp]:
  "env_now sim_env w = (fst w, w)" "env_cancelled sim_env w = (False, w)"
  "env_sleep sim_env d w = (fst w + d, snd w)" "env_patch_node sim_env n b w = (Inr (), w)"
  "env_list_pods sim_env n w = (Inr (snd w), w)" "env_request sim_env = sim_remove"
  "env_get_node sim_env n w = (Inl (ErrApi 404 ''not found''), w)"
  "env_timeout_list sim_env d f w = (Some (fst (f w)), snd (f w))"
  "env_timeout_request sim_env d g w = (Some (fst (g w)), snd (g w))"
  by (simp_all add: sim_env_def)

lemma sim_clock: "clock_ok sim_env fst"
proof -
  have "fst w \<le> fst (snd (sim_remove r w))" for r w
    by (cases "(r, w)" rule: sim_remove.cases) auto
  then show ?thesis by (simp add: clock_ok_def)
qed

lemma sim_pods [simp]:
  "is_evictable (sim_pod n ''ReplicaSet'')" "\<not> is_evictable (sim_pod n ''DaemonSet'')"
  "\<not> is_waitable_terminating (sim_pod n k)" "drain_blockers sim_opts (sim_pod n k) = []"
  "om_name (pod_metadata (sim_pod n k)) = Some n"
  "om_namespace (pod_metadata (sim_pod n k)) = Some ''default''"
  "pod_identity_of (sim_pod n k) = \<lparr>pi_namespace = ''default'', pi_name = n, pi_uid = Some n\<rparr>"
  "identity_matches \<lparr>pi_namespace = a, pi_name = b, pi_uid = Some u\<rparr> (sim_pod n k) = (n = u)"
  by (simp_all add: sim_pod_def is_evictable_def is_deleting_def is_mirror_def is_daemonset_def
      is_terminal_def pod_phase_def is_waitable_terminating_def drain_blockers_def sim_opts_def
      pod_identity_of_def or_default_def identity_matches_def)

lemma sim_opts_simps [simp]:
  "timeout_secs sim_opts = 4" "drain_validate sim_opts = Inr ()"
  "remove_pod sim_opts ns n = EvictPod ns n None"
  by (simp_all add: sim_opts_def drain_validate_ok remove_pod_def)

lemma run_prims [simp]:
  "run_state (lift_w f) s = (case f (st_world s) of (a, w) \<Rightarrow> (a, s\<lparr>st_world := w\<rparr>))"
  "run_state (log_call c) s = ((), s\<lparr>st_calls := st_calls s @ [c]\<rparr>)"
  "run_state (send_event e) s = ((), s\<lparr>st_events := st_events s @ [e]\<rparr>)"
  by (simp_all add: lift_w_def log_call_def send_event_def)

definition sim_after :: "sim drain_st" where
  "sim_after = \<lparr>st_world = (0, [sim_pod ''logs'' ''DaemonSet'']),
     st_calls = [CallCordon ''n1'' True, CallListed (snd sim_world),
       CallRemove (EvictPod ''default'' ''web'' None), CallListed [sim_pod ''logs'' ''DaemonSet'']],
     st_events = [Cordoned, Started 1, Evicted ''web'' 1 1]\<rparr>"

lemma sim_run:
  "run_state (drain 3 sim_env ''n1'' sim_opts) (fresh sim_world) =
     (Some (Inr \<lparr>ds_evicted = 1, ds_skipped = 1, ds_failed = []\<rparr>), sim_after)"
proof -
  have "checked_add 0 4000000000 = Some 4000000000"
    by (simp add: checked_add_def INSTANT_MAX_def)
  moreover have "3 = Suc (Suc (Suc 0))" by simp
  ultimately show ?thesis
    unfolding fresh_def sim_world_def sim_after_def
    by (simp only:) (simp add: drain_def drain_listed_def drain_deadline_def cordon_def evict_and_wait_def
        Let_def drain_summary_default_def cancel_load_def before_deadline_def or_default_def
        issue_removal_def list_within_def remaining_terminating_pods_def pod_names_def
        map_filter_simps skipped_pod_count_def)
qed

section \<open>Safety\<close>

definition running_workload :: "pod \<Rightarrow> bool" where
  "running_workload p \<longleftrightarrow> \<not> is_deleting p \<and> \<not> is_mirror p \<and> \<not> is_daemonset p \<and> \<not> is_terminal p"

lemma is_evictable_iff: "is_evictable p \<longleftrightarrow> running_workload p"
  by (auto simp: is_evictable_def running_workload_def)

text \<open>C1: a drain removes a pod only after it cordoned the node and listed its pods, only a
  pod of that listing that is neither being deleted nor finished, no mirror pod and not a
  DaemonSet's, and only when every pod of the listing that would be
  removed is owned (or \<open>force\<close>) and loses no \<open>emptyDir\<close> data (or that is accepted), and every
  live DaemonSet pod is ignored by choice; the request honours \<open>disable_eviction\<close> and the
  grace period.\<close>

theorem drain_removes_only_safe_pods:
  assumes "run_state (drain fuel env name opts) (fresh w) = (r, t)"
    and "CallRemove req \<in> set (st_calls t)"
  shows "\<exists>pods rest. st_calls t = CallCordon name True # CallListed pods # rest
    \<and> (\<exists>p\<in>set pods. running_workload p \<and> req = removal_of opts p)
    \<and> (\<forall>p\<in>set pods. running_workload p \<longrightarrow>
         (owned p \<or> force opts) \<and> (\<not> uses_empty_dir p \<or> delete_emptydir_data opts))
    \<and> (\<forall>p\<in>set pods. is_daemonset p \<and> \<not> is_terminal p \<and> \<not> is_mirror p \<and> \<not> is_deleting p \<longrightarrow>
         ignore_daemonsets opts)"
proof -
  let ?Q = "\<lambda>r t. CallRemove req \<in> set (st_calls t) \<longrightarrow>
    (\<exists>pods rest. st_calls t = CallCordon name True # CallListed pods # rest
       \<and> (\<exists>p\<in>set pods. is_evictable p \<and> req = removal_of opts p)
       \<and> (\<forall>p\<in>set pods. drain_blockers opts p = []))"
  have "wp (drain fuel env name opts) ?Q (fresh w)"
  proof (rule wp_drain)
    fix pods deadline and t :: "'a drain_st"
    assume safe: "\<forall>p\<in>set pods. drain_blockers opts p = []"
      and t: "st_calls t = st_calls (fresh w) @ [CallCordon name True, CallListed pods]"
    show "wp (evict_and_wait fuel env name opts deadline pods
            \<lparr>ds_evicted = 0, ds_skipped = skipped_pod_count pods, ds_failed = []\<rparr>) ?Q t"
      by (rule wp_mono[OF wp_onlyI[OF only_evict_and_wait]]) (use safe t in \<open>fastforce simp: grows_def\<close>)
  qed auto
  then have "?Q r t" by (rule wp_run[where Q = ?Q, OF _ assms(1)])
  with assms(2) obtain pods rest where
    p: "st_calls t = CallCordon name True # CallListed pods # rest"
      "\<exists>p\<in>set pods. is_evictable p \<and> req = removal_of opts p"
      "\<forall>p\<in>set pods. drain_blockers opts p = []" by blast
  have e: "\<forall>p\<in>set pods. is_evictable p \<longrightarrow>
      (owned p \<or> force opts) \<and> (\<not> uses_empty_dir p \<or> delete_emptydir_data opts)"
    using p(3) drain_blockers_evictable by blast
  have d: "\<forall>p\<in>set pods. is_daemonset p \<and> \<not> is_terminal p \<and> \<not> is_mirror p \<and> \<not> is_deleting p \<longrightarrow>
      ignore_daemonsets opts"
    using p(3) drain_blockers_daemonset by blast
  show ?thesis using p(1,2) e d unfolding is_evictable_iff by blast
qed

theorem drain_removes_only_safe_pods_witness:
  "\<exists>pods rest. st_calls sim_after = CallCordon ''n1'' True # CallListed pods # rest
    \<and> (\<exists>p\<in>set pods. running_workload p \<and> EvictPod ''default'' ''web'' None = removal_of sim_opts p)"
proof -
  have "CallRemove (EvictPod ''default'' ''web'' None) \<in> set (st_calls sim_after)"
    by (simp add: sim_after_def)
  from drain_removes_only_safe_pods[OF sim_run this] show ?thesis by blast
qed

text \<open>When a pod of the first listing blocks the drain, the drain returns no evicted pod, one
  failure per blocker, and makes no request after the listing; the client sees exactly the cordon
  and the blockers.\<close>

theorem drain_blocked_touches_nothing:
  assumes "run_state (drain fuel env name opts) (fresh w) = (Some (Inr S), t)"
    and "st_calls t = CallCordon name True # CallListed pods # rest"
    and "p \<in> set pods" "drain_blockers opts p \<noteq> []"
  shows "rest = [] \<and> ds_evicted S = 0 \<and> ds_skipped S = skipped_pod_count pods
    \<and> ds_failed S = map blocker_message (concat (map (drain_blockers opts) pods))
    \<and> st_events t = [Cordoned, Blocked (concat (map (drain_blockers opts) pods))]"
proof -
  let ?Q = "\<lambda>(r :: (k8s_error + drain_summary) option) t. \<forall>S. r = Some (Inr S) \<longrightarrow> (\<exists>pods rest. st_calls t = CallCordon name True # CallListed pods # rest
       \<and> ((\<forall>p\<in>set pods. drain_blockers opts p = []) \<or>
          rest = [] \<and> ds_evicted S = 0 \<and> ds_skipped S = skipped_pod_count pods
          \<and> ds_failed S = map blocker_message (concat (map (drain_blockers opts) pods))
          \<and> st_events t = [Cordoned, Blocked (concat (map (drain_blockers opts) pods))]))"
  have "wp (drain fuel env name opts) ?Q (fresh w)"
  proof (rule wp_drain)
    fix pods deadline and t :: "'a drain_st"
    assume safe: "\<forall>p\<in>set pods. drain_blockers opts p = []"
      and t: "st_calls t = st_calls (fresh w) @ [CallCordon name True, CallListed pods]"
    show "wp (evict_and_wait fuel env name opts deadline pods
            \<lparr>ds_evicted = 0, ds_skipped = skipped_pod_count pods, ds_failed = []\<rparr>) ?Q t"
      by (rule wp_mono[OF wp_onlyI[OF only_evict_and_wait]]) (use safe t in \<open>auto simp: grows_def\<close>)
  qed auto
  then have "?Q (Some (Inr S)) t" by (rule wp_run[where Q = ?Q, OF _ assms(1)])
  with assms(2-4) show ?thesis by auto
qed

definition strict_opts :: drain_options where
  "strict_opts = sim_opts\<lparr>ignore_daemonsets := False\<rparr>"

definition ds_block :: drain_blocker where
  "ds_block = \<lparr>db_pod = ''logs'', db_reason = ''DaemonSet-managed pod'',
     db_clearable_by = ''ignore_daemonsets''\<rparr>"

lemma strict_simps [simp]:
  "drain_validate strict_opts = Inr ()" "timeout_secs strict_opts = 4"
  "drain_blockers strict_opts (sim_pod ''web'' ''ReplicaSet'') = []"
  "drain_blockers strict_opts (sim_pod ''logs'' ''DaemonSet'') = [ds_block]"
  by (simp_all add: strict_opts_def drain_validate_ok drain_blockers_def sim_pod_def ds_block_def
      is_terminal_def is_mirror_def is_deleting_def is_daemonset_def pod_phase_def sim_opts_def)

definition sim_blocked :: "sim drain_st" where
  "sim_blocked = \<lparr>st_world = sim_world, st_calls = [CallCordon ''n1'' True, CallListed (snd sim_world)],
     st_events = [Cordoned, Blocked [ds_block]]\<rparr>"

lemma sim_run_blocked:
  "run_state (drain 3 sim_env ''n1'' strict_opts) (fresh sim_world) =
     (Some (Inr \<lparr>ds_evicted = 0, ds_skipped = 1, ds_failed = [''logs: DaemonSet-managed pod'']\<rparr>), sim_blocked)"
proof -
  have "checked_add 0 4000000000 = Some 4000000000"
    by (simp add: checked_add_def INSTANT_MAX_def)
  then show ?thesis
    by (simp add: drain_def drain_listed_def drain_deadline_def cordon_def Let_def fresh_def sim_world_def
        sim_blocked_def drain_summary_default_def blocker_message_def ds_block_def skipped_pod_count_def)
qed

theorem drain_blocked_touches_nothing_witness:
  "st_events sim_blocked = [Cordoned, Blocked [ds_block]]"
  using drain_blocked_touches_nothing[OF sim_run_blocked, of "snd sim_world" "[]" "sim_pod ''logs'' ''DaemonSet''"]
  by (simp add: sim_blocked_def sim_world_def)

text \<open>C2: an all-clear drain means the node is empty of work.  When a drain returns a summary
  with no failure, and no cancellation was seen, then every evictable pod of the listing was
  evicted, and either there was nothing to remove or wait for, or the last request is a listing
  in which none of the removed or already terminating workload pods appears any more (under its
  uid, or its name where it has no uid).\<close>

theorem drain_clean_means_gone:
  assumes "run_state (drain fuel env name opts) (fresh w) = (Some (Inr S), t)"
    and "ds_failed S = []" and "CallCancelSeen \<notin> set (st_calls t)"
  shows "\<exists>pods rest. st_calls t = CallCordon name True # CallListed pods # rest
    \<and> ds_evicted S = length (filter is_evictable pods) \<and> ds_skipped S = skipped_pod_count pods
    \<and> ((\<forall>p\<in>set pods. \<not> is_evictable p \<and> \<not> is_waitable_terminating p)
       \<or> (\<exists>items. last (st_calls t) = CallListed items \<and> rest \<noteq> []
            \<and> (\<forall>p\<in>set pods. is_evictable p \<or> is_waitable_terminating p \<longrightarrow>
                (\<forall>q\<in>set items. om_name (pod_metadata q) \<noteq> None \<longrightarrow>
                   \<not> identity_matches (pod_identity_of p) q))))"
proof -
  let ?G = "\<lambda>pods S (t :: 'a drain_st). ds_evicted S = length (filter is_evictable pods)
    \<and> ds_skipped S = skipped_pod_count pods
    \<and> ((\<forall>p\<in>set pods. \<not> is_evictable p \<and> \<not> is_waitable_terminating p)
       \<or> (\<exists>cs items. st_calls t = cs @ [CallListed items] \<and> 2 \<le> length cs
            \<and> (\<forall>p\<in>set pods. is_evictable p \<or> is_waitable_terminating p \<longrightarrow>
                (\<forall>q\<in>set items. om_name (pod_metadata q) \<noteq> None \<longrightarrow>
                   \<not> identity_matches (pod_identity_of p) q))))"
  let ?Q = "\<lambda>(r :: (k8s_error + drain_summary) option) t. \<forall>S. r = Some (Inr S) \<longrightarrow> ds_failed S = [] \<longrightarrow> \<not> cancel_seen t \<longrightarrow>
     (\<exists>pods rest. st_calls t = CallCordon name True # CallListed pods # rest \<and> ?G pods S t)"
  have "wp (drain fuel env name opts) ?Q (fresh w)"
  proof (rule wp_drain)
    fix pods deadline and t :: "'a drain_st"
    let ?S0 = "\<lparr>ds_evicted = 0, ds_skipped = skipped_pod_count pods, ds_failed = []\<rparr>"
    let ?E = "filter is_evictable pods" and ?W = "map pod_identity_of (filter is_waitable_terminating pods)"
    assume t: "st_calls t = st_calls (fresh w) @ [CallCordon name True, CallListed pods]"
    let ?R = "\<lambda>(r :: (k8s_error + drain_summary) option) t. \<forall>S. r = Some (Inr S) \<longrightarrow> ds_failed S = [] \<longrightarrow> \<not> cancel_seen t \<longrightarrow> ?G pods S t"
    have all: "S' = ?S0\<lparr>ds_evicted := length ?E\<rparr> \<and> ts' = ?W @ map pod_identity_of ?E"
      if "evict_result ?E ?S0 ?W S' ts'" "ds_failed S' = []" for S' ts'
      using that by (auto simp: evict_result_def intro!: drain_summary.equality)
    have "wp (evict_and_wait fuel env name opts deadline pods ?S0) ?R t"
    proof (rule wp_evict_and_wait)
      fix S' ts' cs items and t' :: "'a drain_st"
      assume r: "evict_result ?E ?S0 ?W S' ts'" and l: "st_calls t' = cs @ [CallListed items]"
        and two: "length (st_calls t) \<le> length cs"
        and n: "remaining_terminating_pods items ts' = []"
      show "?R (Some (Inr S')) t'"
        using all[OF r] l n two t by (auto simp: remaining_Nil_iff)
    next
      fix S' and t :: "'a drain_st"
      assume r: "evict_result ?E ?S0 ?W S' []"
      show "?R (Some (Inr S')) t"
        using all[OF r] by (auto simp: filter_empty_conv)
    qed (auto simp: push_failed_def)
    from wp_conj[OF this wp_onlyI[OF only_evict_and_wait]]
    show "wp (evict_and_wait fuel env name opts deadline pods ?S0) ?Q t"
      by (rule wp_mono) (use t in \<open>auto simp: grows_def\<close>)
  qed auto
  then have "?Q (Some (Inr S)) t" by (rule wp_run[where Q = ?Q, OF _ assms(1)])
  with assms(2,3) obtain pods rest where
    t: "st_calls t = CallCordon name True # CallListed pods # rest" and g: "?G pods S t"
    unfolding cancel_seen_def by blast
  have "rest \<noteq> [] \<and> last (st_calls t) = c" if "st_calls t = cs @ [c]" "2 \<le> length cs" for cs c
  proof -
    have "length (cs @ [c]) = 2 + length rest" using t that by (metis length_Cons add_2_eq_Suc)
    with that show ?thesis by auto
  qed
  then show ?thesis using t g by metis
qed

theorem drain_clean_means_gone_witness:
  "\<exists>pods rest. st_calls sim_after = CallCordon ''n1'' True # CallListed pods # rest
     \<and> length (filter is_evictable pods) = 1"
  using drain_clean_means_gone[OF sim_run] by (auto simp: sim_after_def)

text \<open>The progress a client sees is sound: the \<open>Evicted\<close> events carry the numbers
  1, 2, ... in order, up to the number of evicted pods of the summary, each with the same total,
  the number of evictable pods of the listing, which they never exceed.\<close>

theorem drain_progress_numbers:
  assumes "run_state (drain fuel env name opts) (fresh w) = (Some (Inr S), t)"
  shows "\<exists>pods rest. st_calls t = CallCordon name True # CallListed pods # rest
    \<and> ds_evicted S \<le> length (filter is_evictable pods)
    \<and> dones (st_events t) =
        map (\<lambda>k. (k, length (filter is_evictable pods))) [1..<Suc (ds_evicted S)]"
proof -
  let ?Q = "\<lambda>(r :: (k8s_error + drain_summary) option) t. \<forall>S. r = Some (Inr S) \<longrightarrow>
    (\<exists>pods rest. st_calls t = CallCordon name True # CallListed pods # rest
    \<and> ds_evicted S \<le> length (filter is_evictable pods)
    \<and> dones (st_events t) =
        map (\<lambda>k. (k, length (filter is_evictable pods))) [1..<Suc (ds_evicted S)])"
  have "wp (drain fuel env name opts) ?Q (fresh w)"
  proof (rule wp_drain)
    fix pods deadline and t :: "'a drain_st"
    assume t: "st_calls t = st_calls (fresh w) @ [CallCordon name True, CallListed pods]"
      "st_events t = st_events (fresh w) @ [Cordoned]"
    show "wp (evict_and_wait fuel env name opts deadline pods
            \<lparr>ds_evicted = 0, ds_skipped = skipped_pod_count pods, ds_failed = []\<rparr>) ?Q t"
      by (rule wp_mono[OF wp_conj[OF evict_and_wait_numbered wp_onlyI[OF only_evict_and_wait]]])
        (use t in \<open>auto simp: grows_def\<close>)
  qed auto
  then have "?Q (Some (Inr S)) t" by (rule wp_run[where Q = ?Q, OF _ assms(1)])
  then show ?thesis by blast
qed

theorem drain_progress_numbers_witness: "dones (st_events sim_after) = [(1, 1)]"
  using drain_progress_numbers[OF sim_run] by (auto simp: sim_after_def)

text \<open>C6: a drain with a deadline ends: with a clock that does not go back and sleeps that last
  as long as asked, two seconds of timeout need one unit of fuel, so 1802 is enough for
  every timeout the options may ask for.\<close>

theorem drain_terminates:
  assumes "clock_ok env clock" and "0 < timeout_secs opts"
  shows "\<exists>result. fst (run_state (drain 1802 env name opts) s) = Some result"
  using drain_ends[OF assms, of name s] by (auto simp: wp_def split: prod.splits)

theorem drain_terminates_witness:
  "\<exists>result. fst (run_state (drain 1802 sim_env ''n1'' sim_opts) (fresh sim_world)) = Some result"
  using drain_terminates[OF sim_clock, of sim_opts] by simp

text \<open>A wait for a reboot ends well only on evidence: the last node it read was ready, and
  either it had read the node not ready before, or its boot id differs from the one before the
  reboot.\<close>

theorem reboot_needs_evidence:
  assumes "run_state (wait_for_node_reboot fuel env name previous timeout) (fresh w) = (Some (Inr ()), t)"
  shows "\<exists>cs n. st_calls t = cs @ [CallGotNode n] \<and> node_ready n
    \<and> (boot_changed previous n \<or> (\<exists>m. CallGotNode m \<in> set cs \<and> \<not> node_ready m))"
proof -
  have "wp (wait_for_node_reboot fuel env name previous timeout) (reboot_post previous False []) (fresh w)"
    unfolding wait_for_node_reboot_def wp_bind wp_lift_w
    by (rule wp_mono[OF reboot_loop_result]) simp
  from wp_run[OF this assms] show ?thesis by (simp add: reboot_post_def rebooted_def)
qed

definition boot_env :: "sim drain_env" where
  "boot_env = sim_env\<lparr>env_get_node := (\<lambda>_ w.
     (Inr \<lparr>node_metadata = pod_metadata (sim_pod ''n1'' []),
           node_status_of = Some \<lparr>ns_conditions = Some [\<lparr>kc_type = ''Ready'',
              kc_status = if fst w = 0 then ''False'' else ''True''\<rparr>], ns_boot_id = None\<rparr>\<rparr>, w))\<rparr>"

lemma sim_reboot:
  "run_state (wait_for_node_reboot 3 boot_env ''n1'' None 10000000000) (fresh sim_world) =
     (Some (Inr ()), snd (run_state (wait_for_node_reboot 3 boot_env ''n1'' None 10000000000) (fresh sim_world)))"
proof -
  have "3 = Suc (Suc (Suc 0))" by simp
  then show ?thesis
    unfolding wait_for_node_reboot_def fresh_def sim_world_def boot_env_def
    by (simp only:) (simp add: node_ready_def sleep_for_def RETRY_DELAY_def boot_changed_def)
qed

theorem reboot_needs_evidence_witness:
  "\<exists>cs n. st_calls (snd (run_state (wait_for_node_reboot 3 boot_env ''n1'' None 10000000000) (fresh sim_world)))
     = cs @ [CallGotNode n] \<and> node_ready n"
  using reboot_needs_evidence[OF sim_reboot] by blast

end
