(* ===== verification/DrainJobs.thy ===== *)
theory DrainJobs
  imports Drain
begin

text \<open>
  \<open>src/src/server/drain_jobs.rs\<close>: the registry of drain jobs.  Every operation of the code
  runs under one mutex, so it is a function on the registry; the operations of requests, of the
  job's own task and of timers interleave as steps of a transition system.  The values sent on
  a job's broadcast channel are logged in the entry (\<open>en_sent\<close>); ids are natural numbers (the
  code's counter is a \<open>u64\<close>, which no server reaches).
\<close>

section \<open>The contract of a replay buffer\<close>

text \<open>
  The contract between the buffer of a job and whoever streams it: the items are numbered
  0, 1, 2, ... and a replay after a number returns the later ones.  A client that has seen a
  prefix needs nothing but the number of the last item it saw to complete it.
\<close>

locale replay_buffer =
  fixes ok :: "'b \<Rightarrow> bool"
    and items :: "'b \<Rightarrow> 'e list"
    and replay :: "'b \<Rightarrow> nat option \<Rightarrow> 'e list"
    and number :: "'e \<Rightarrow> nat"
  assumes numbered: "ok b \<Longrightarrow> map number (items b) = [0..<length (items b)]"
    and replayed: "ok b \<Longrightarrow> replay b after =
      filter (\<lambda>e. case after of None \<Rightarrow> True | Some s \<Rightarrow> s < number e) (items b)"
begin

lemma number_nth: "ok b \<Longrightarrow> i < length (items b) \<Longrightarrow> number (items b ! i) = i"
  using numbered by (metis add_0 length_map nth_map nth_upt)

lemma replay_all: "ok b \<Longrightarrow> replay b None = items b"
  by (simp add: replayed)

lemma replay_later:
  assumes "ok b"
  shows "replay b (Some s) = drop (Suc s) (items b)"
proof -
  have "filter (\<lambda>e. s < number e) (take (Suc s) (items b)) = []"
    by (auto simp: filter_empty_conv in_set_conv_nth number_nth[OF assms])
  moreover have "filter (\<lambda>e. s < number e) (drop (Suc s) (items b)) = drop (Suc s) (items b)"
    by (rule filter_True) (auto simp: in_set_conv_nth number_nth[OF assms])
  ultimately have "filter (\<lambda>e. s < number e) (take (Suc s) (items b) @ drop (Suc s) (items b))
      = drop (Suc s) (items b)" by (simp only: filter_append append_Nil)
  then show ?thesis by (simp add: replayed[OF assms])
qed

definition last_number :: "'e list \<Rightarrow> nat option" where
  "last_number es = (if es = [] then None else Some (number (last es)))"

lemma last_number_Nil [simp]: "last_number [] = None"
  by (simp add: last_number_def)

lemma last_number_take:
  assumes "ok b" "k \<le> length (items b)"
  shows "last_number (take k (items b)) = (if k = 0 then None else Some (k - 1))"
  using assms by (auto simp: last_number_def last_conv_nth number_nth)

lemma resume:
  assumes "ok b" "k \<le> length (items b)"
  shows "replay b (last_number (take k (items b))) = drop k (items b)"
  using assms by (cases k) (simp_all add: last_number_take replay_all replay_later)

end

section \<open>State\<close>

record entry =
  en_owner :: string
  en_target :: string
  en_key :: string
  en_power :: "string option"
  en_events :: "drain_event list"
  en_sent :: "drain_event list"
  en_cancel :: bool
  en_cancellable :: bool
  en_done :: bool
  en_started_at :: nat

record drain_jobs =
  dj_entries :: "(nat, entry) hmap"
  dj_next_id :: nat
  dj_executor :: "string option"

datatype create_error = TargetBusy
datatype cancel_result = Accepted | CancelNotFound | NotCancellable

section \<open>Operations\<close>

definition jobs_new :: "string option \<Rightarrow> drain_jobs" where
  "jobs_new executor = \<lparr>dj_entries = [], dj_next_id = 0, dj_executor = executor\<rparr>"

definition target_busy :: "string \<Rightarrow> drain_jobs \<Rightarrow> bool" where
  "target_busy target j = hm_any (\<lambda>e. \<not> en_done e \<and> en_target e = target) (dj_entries j)"

definition create_for ::
  "string \<Rightarrow> string \<Rightarrow> string \<Rightarrow> string option \<Rightarrow> nat \<Rightarrow> drain_jobs \<Rightarrow> (create_error + nat) \<times> drain_jobs" where
  "create_for owner key target pwr now_ms j =
     (if target_busy target j then (Inl TargetBusy, j)
      else let jid = dj_next_id j;
               e = \<lparr>en_owner = owner, en_target = target, en_key = key, en_power = pwr,
                    en_events = [], en_sent = [], en_cancel = False, en_cancellable = True,
                    en_done = False, en_started_at = now_ms\<rparr>
           in (Inr jid, j\<lparr>dj_next_id := jid + 1, dj_entries := hm_insert jid e (dj_entries j)\<rparr>))"

definition create :: "string \<Rightarrow> string \<Rightarrow> nat \<Rightarrow> drain_jobs \<Rightarrow> (create_error + nat) \<times> drain_jobs" where
  "create owner target now_ms j = create_for owner [] target None now_ms j"

text \<open>\<open>max_by_key\<close> on the jid: the last of the greatest.\<close>

fun newest :: "(nat \<times> entry) option \<Rightarrow> (nat, entry) hmap \<Rightarrow> (nat \<times> entry) option" where
  "newest best [] = best"
| "newest None (x # xs) = newest (Some x) xs"
| "newest (Some b) (x # xs) = newest (Some (if fst b \<le> fst x then x else b)) xs"

definition active :: "string \<Rightarrow> drain_jobs \<Rightarrow> active_drain_job option" where
  "active owner j =
     map_option (\<lambda>(jid, e). \<lparr>aj_job = jid, aj_executor = dj_executor j, aj_started_at = en_started_at e,
        aj_key = en_key e, aj_name = en_target e, aj_power = en_power e\<rparr>)
       (newest None (filter (\<lambda>(_, e). en_owner e = owner \<and> \<not> en_done e) (dj_entries j)))"

text \<open>The receiver a subscription returns starts after the values sent so far.\<close>

definition subscribe :: "string \<Rightarrow> nat \<Rightarrow> drain_jobs \<Rightarrow> (drain_event list \<times> nat \<times> bool) option" where
  "subscribe owner jid j = (case hm_get (dj_entries j) jid of
     None \<Rightarrow> None
   | Some e \<Rightarrow> if en_owner e \<noteq> owner then None
               else Some (en_events e, length (en_sent e), en_done e))"

definition newer :: "nat option \<Rightarrow> drain_event \<Rightarrow> bool" where
  "newer after ev = (case after of None \<Rightarrow> True | Some s \<Rightarrow> de_seq ev > s)"

definition replay_after :: "string \<Rightarrow> nat \<Rightarrow> nat option \<Rightarrow> drain_jobs \<Rightarrow> drain_event list option" where
  "replay_after owner jid after j = (case hm_get (dj_entries j) jid of
     None \<Rightarrow> None
   | Some e \<Rightarrow> if en_owner e \<noteq> owner then None else Some (filter (newer after) (en_events e)))"

definition put_entry :: "nat \<Rightarrow> entry \<Rightarrow> drain_jobs \<Rightarrow> drain_jobs" where
  "put_entry jid e j = j\<lparr>dj_entries := hm_insert jid e (dj_entries j)\<rparr>"

definition cancel :: "string \<Rightarrow> nat \<Rightarrow> drain_jobs \<Rightarrow> cancel_result \<times> drain_jobs" where
  "cancel owner jid j = (case hm_get (dj_entries j) jid of
     None \<Rightarrow> (CancelNotFound, j)
   | Some e \<Rightarrow>
       if en_owner e \<noteq> owner then (CancelNotFound, j)
       else if \<not> en_cancellable e then (NotCancellable, j)
       else (Accepted, put_entry jid (e\<lparr>en_cancel := True\<rparr>) j))"

definition begin_non_cancellable :: "nat \<Rightarrow> drain_jobs \<Rightarrow> bool \<times> drain_jobs" where
  "begin_non_cancellable jid j = (case hm_get (dj_entries j) jid of
     None \<Rightarrow> (False, j)
   | Some e \<Rightarrow>
       if en_done e \<or> \<not> en_cancellable e \<or> en_cancel e then (False, j)
       else (True, put_entry jid (e\<lparr>en_cancellable := False\<rparr>) j))"

definition push_event :: "drain_event_kind \<Rightarrow> entry \<Rightarrow> entry" where
  "push_event kind e =
     (let ev = \<lparr>de_seq = length (en_events e), de_kind = kind\<rparr>
      in e\<lparr>en_events := en_events e @ [ev], en_sent := en_sent e @ [ev]\<rparr>)"

definition emit :: "nat \<Rightarrow> drain_event_kind \<Rightarrow> drain_jobs \<Rightarrow> drain_jobs" where
  "emit jid kind j = (case hm_get (dj_entries j) jid of
     None \<Rightarrow> j
   | Some e \<Rightarrow> if en_done e then j else put_entry jid (push_event kind e) j)"

definition finish :: "nat \<Rightarrow> drain_event_kind \<Rightarrow> drain_jobs \<Rightarrow> drain_jobs" where
  "finish jid kind j = (case hm_get (dj_entries j) jid of
     None \<Rightarrow> j
   | Some e \<Rightarrow> if en_done e then j
       else put_entry jid ((push_event kind e)\<lparr>en_cancellable := False, en_done := True\<rparr>) j)"

text \<open>The expiry task of a finished job, and the cancel flag set from outside (a lost lease).\<close>

definition expire :: "nat \<Rightarrow> drain_jobs \<Rightarrow> drain_jobs" where
  "expire jid j = j\<lparr>dj_entries := hm_remove jid (dj_entries j)\<rparr>"

definition set_cancel_flag :: "nat \<Rightarrow> drain_jobs \<Rightarrow> drain_jobs" where
  "set_cancel_flag jid j = (case hm_get (dj_entries j) jid of
     None \<Rightarrow> j
   | Some e \<Rightarrow> put_entry jid (e\<lparr>en_cancel := True\<rparr>) j)"

fun is_terminal_kind :: "drain_event_kind \<Rightarrow> bool" where
  "is_terminal_kind (Done _) = True"
| "is_terminal_kind (DrainError _) = True"
| "is_terminal_kind Cancelled = True"
| "is_terminal_kind _ = False"

section \<open>Steps\<close>

datatype job_op =
    OpCreate string string string "string option" nat
  | OpCancel string nat
  | OpBegin nat
  | OpEmit nat drain_event_kind
  | OpFinish nat drain_event_kind
  | OpLoseLease nat
  | OpExpire nat

text \<open>
  \<open>finish\<close> is called with a terminal event (its \<open>debug_assert\<close>) and \<open>emit\<close> with another one;
  the expiry task of a job exists once the job is finished.
\<close>

inductive job_step :: "drain_jobs \<Rightarrow> job_op \<Rightarrow> drain_jobs \<Rightarrow> bool" where
  step_create: "job_step j (OpCreate owner key target pwr t) (snd (create_for owner key target pwr t j))"
| step_cancel: "job_step j (OpCancel owner jid) (snd (cancel owner jid j))"
| step_begin: "job_step j (OpBegin jid) (snd (begin_non_cancellable jid j))"
| step_emit: "\<not> is_terminal_kind kind \<Longrightarrow> job_step j (OpEmit jid kind) (emit jid kind j)"
| step_finish: "is_terminal_kind kind \<Longrightarrow> job_step j (OpFinish jid kind) (finish jid kind j)"
| step_lose: "job_step j (OpLoseLease jid) (set_cancel_flag jid j)"
| step_expire: "hm_get (dj_entries j) jid = Some e \<Longrightarrow> en_done e \<Longrightarrow> job_step j (OpExpire jid) (expire jid j)"

inductive_cases job_stepE: "job_step j op j'"

inductive job_steps :: "drain_jobs \<Rightarrow> job_op list \<Rightarrow> drain_jobs \<Rightarrow> bool" where
  steps_refl: "job_steps j [] j"
| steps_step: "job_step j op j1 \<Longrightarrow> job_steps j1 ops j2 \<Longrightarrow> job_steps j (op # ops) j2"

inductive_cases job_steps_ConsE: "job_steps j (op # ops) j'"
inductive_simps job_steps_Nil [simp]: "job_steps j [] j'"

section \<open>The invariant\<close>

definition entry_ok :: "entry \<Rightarrow> bool" where
  "entry_ok e \<longleftrightarrow>
     map de_seq (en_events e) = [0..<length (en_events e)]
   \<and> en_sent e = en_events e
   \<and> (en_done e \<longleftrightarrow> (\<exists>ev\<in>set (en_events e). is_terminal_kind (de_kind ev)))
   \<and> (\<forall>ev\<in>set (butlast (en_events e)). \<not> is_terminal_kind (de_kind ev))
   \<and> (en_done e \<longrightarrow> \<not> en_cancellable e)"

definition jobs_ok :: "drain_jobs \<Rightarrow> bool" where
  "jobs_ok j \<longleftrightarrow>
     hm_ok (dj_entries j)
   \<and> (\<forall>jid e. hm_get (dj_entries j) jid = Some e \<longrightarrow> jid < dj_next_id j \<and> entry_ok e)
   \<and> (\<forall>jid e jid' e'. hm_get (dj_entries j) jid = Some e \<longrightarrow> hm_get (dj_entries j) jid' = Some e' \<longrightarrow>
        \<not> en_done e \<longrightarrow> \<not> en_done e' \<longrightarrow> en_target e = en_target e' \<longrightarrow> jid = jid')"

lemma entry_ok_fresh [simp]:
  "entry_ok \<lparr>en_owner = ow, en_target = t, en_key = k, en_power = p, en_events = [], en_sent = [],
     en_cancel = False, en_cancellable = True, en_done = False, en_started_at = n\<rparr>"
  by (simp add: entry_ok_def)

lemma entry_ok_cancel [simp]: "entry_ok (e\<lparr>en_cancel := b\<rparr>) = entry_ok e"
  by (simp add: entry_ok_def)

lemma entry_ok_close: "entry_ok e \<Longrightarrow> entry_ok (e\<lparr>en_cancellable := False\<rparr>)"
  by (simp add: entry_ok_def)

lemma push_event_fields [simp]:
  "en_owner (push_event k e) = en_owner e" "en_target (push_event k e) = en_target e"
  "en_done (push_event k e) = en_done e" "en_cancellable (push_event k e) = en_cancellable e"
  "en_cancel (push_event k e) = en_cancel e"
  "en_events (push_event k e) = en_events e @ [\<lparr>de_seq = length (en_events e), de_kind = k\<rparr>]"
  "en_sent (push_event k e) = en_sent e @ [\<lparr>de_seq = length (en_events e), de_kind = k\<rparr>]"
  by (simp_all add: push_event_def Let_def)

lemma entry_ok_push:
  assumes "entry_ok e" "\<not> en_done e" "\<not> is_terminal_kind k"
  shows "entry_ok (push_event k e)"
  using assms by (auto simp: entry_ok_def)

lemma entry_ok_finish:
  assumes "entry_ok e" "\<not> en_done e" "is_terminal_kind k"
  shows "entry_ok ((push_event k e)\<lparr>en_cancellable := False, en_done := True\<rparr>)"
  using assms by (auto simp: entry_ok_def)

lemma put_entry_fields [simp]:
  "dj_entries (put_entry jid e j) = hm_insert jid e (dj_entries j)"
  "dj_next_id (put_entry jid e j) = dj_next_id j" "dj_executor (put_entry jid e j) = dj_executor j"
  by (simp_all add: put_entry_def)

text \<open>Replacing an entry by one of the same target that is unfinished only if the old one was.\<close>

lemma jobs_ok_put:
  assumes "jobs_ok j" "hm_get (dj_entries j) jid = Some e" "entry_ok e'"
    and "en_target e' = en_target e" "en_done e \<Longrightarrow> en_done e'"
  shows "jobs_ok (put_entry jid e' j)"
proof -
  have old: "hm_ok (dj_entries j)" and
    each: "\<And>i x. hm_get (dj_entries j) i = Some x \<Longrightarrow> i < dj_next_id j \<and> entry_ok x" and
    uniq: "\<And>i x k y. hm_get (dj_entries j) i = Some x \<Longrightarrow> hm_get (dj_entries j) k = Some y \<Longrightarrow>
      \<not> en_done x \<Longrightarrow> \<not> en_done y \<Longrightarrow> en_target x = en_target y \<Longrightarrow> i = k"
    using assms(1) unfolding jobs_ok_def by blast+
  have live: "\<not> en_done e' \<Longrightarrow> \<not> en_done e" using assms(5) by blast
  show ?thesis
    unfolding jobs_ok_def
  proof (intro conjI allI impI)
    fix i x k y
    assume g: "hm_get (dj_entries (put_entry jid e' j)) i = Some x"
      "hm_get (dj_entries (put_entry jid e' j)) k = Some y"
      and d: "\<not> en_done x" "\<not> en_done y" and t: "en_target x = en_target y"
    have old_i: "\<exists>x0. hm_get (dj_entries j) i = Some x0 \<and> \<not> en_done x0 \<and> en_target x0 = en_target x"
      if "hm_get (dj_entries (put_entry jid e' j)) i = Some x" "\<not> en_done x" for i x
      using that assms(2,4) live by (cases "i = jid") auto
    from old_i[OF g(1) d(1)] old_i[OF g(2) d(2)] t show "i = k"
      using uniq by metis
  qed (use assms(2,3) old each in \<open>auto split: if_splits\<close>)
qed

lemma jobs_okD:
  assumes "jobs_ok j" "hm_get (dj_entries j) jid = Some e"
  shows "entry_ok e" "jid < dj_next_id j"
  using assms by (auto simp: jobs_ok_def)

lemma target_busy_iff:
  "hm_ok (dj_entries j) \<Longrightarrow> target_busy t j \<longleftrightarrow>
     (\<exists>jid e. hm_get (dj_entries j) jid = Some e \<and> \<not> en_done e \<and> en_target e = t)"
  by (simp add: target_busy_def hm_any_get)

lemma jobs_ok_new [inv_intros]: "jobs_ok (jobs_new x)"
  by (simp add: jobs_ok_def jobs_new_def)

lemma jobs_ok_create [inv_intros]:
  assumes "jobs_ok j" shows "jobs_ok (snd (create_for ow k t p n j))"
proof (cases "target_busy t j")
  case False
  have ok: "hm_ok (dj_entries j)" using assms by (simp add: jobs_ok_def)
  from False have "hm_get (dj_entries j) jid = Some e \<Longrightarrow> en_done e \<or> en_target e \<noteq> t" for jid e
    by (auto simp: target_busy_iff[OF ok])
  with False assms show ?thesis
    unfolding jobs_ok_def create_for_def
    by (auto simp: Let_def less_Suc_eq)
qed (use assms in \<open>simp add: create_for_def\<close>)

lemma jobs_ok_cancel [inv_intros]: "jobs_ok j \<Longrightarrow> jobs_ok (snd (cancel ow jid j))"
  unfolding cancel_def by (auto split: option.split intro!: jobs_ok_put dest: jobs_okD)

lemma jobs_ok_begin [inv_intros]: "jobs_ok j \<Longrightarrow> jobs_ok (snd (begin_non_cancellable jid j))"
  unfolding begin_non_cancellable_def
  by (auto split: option.split intro!: jobs_ok_put entry_ok_close dest: jobs_okD)

lemma jobs_ok_emit [inv_intros]: "jobs_ok j \<Longrightarrow> \<not> is_terminal_kind k \<Longrightarrow> jobs_ok (emit jid k j)"
  unfolding emit_def by (auto split: option.split intro!: jobs_ok_put entry_ok_push dest: jobs_okD)

lemma jobs_ok_finish [inv_intros]: "jobs_ok j \<Longrightarrow> is_terminal_kind k \<Longrightarrow> jobs_ok (finish jid k j)"
  unfolding finish_def by (auto split: option.split intro!: jobs_ok_put entry_ok_finish dest: jobs_okD)

lemma jobs_ok_lose [inv_intros]: "jobs_ok j \<Longrightarrow> jobs_ok (set_cancel_flag jid j)"
  unfolding set_cancel_flag_def by (auto split: option.split intro!: jobs_ok_put dest: jobs_okD)

lemma jobs_ok_expire [inv_intros]: "jobs_ok j \<Longrightarrow> jobs_ok (expire jid j)"
  unfolding jobs_ok_def expire_def by auto

lemma jobs_ok_step: "job_step j op j' \<Longrightarrow> jobs_ok j \<Longrightarrow> jobs_ok j'"
  by (induction rule: job_step.induct) (auto intro: inv_intros)

lemma jobs_ok_steps: "job_steps j ops j' \<Longrightarrow> jobs_ok j \<Longrightarrow> jobs_ok j'"
  by (induction rule: job_steps.induct) (auto dest: jobs_ok_step)

lemma jobs_ok_reachable: "job_steps (jobs_new x) ops j \<Longrightarrow> jobs_ok j"
  using jobs_ok_steps jobs_ok_new by blast

text \<open>The event list of a well-formed entry: the n-th event has number n; only a finished job has
  a terminal event, and it is the last.\<close>

lemma entry_seq: "entry_ok e \<Longrightarrow> i < length (en_events e) \<Longrightarrow> de_seq (en_events e ! i) = i"
  unfolding entry_ok_def by (metis add_0 length_map nth_map nth_upt)

lemma entry_done_iff:
  assumes "entry_ok e"
  shows "en_done e \<longleftrightarrow> en_events e \<noteq> [] \<and> is_terminal_kind (de_kind (last (en_events e)))"
proof (cases "en_events e" rule: rev_cases)
  case Nil
  then show ?thesis using assms by (simp add: entry_ok_def)
next
  case (snoc es ev)
  then show ?thesis using assms by (auto simp: entry_ok_def)
qed

section \<open>The gate between cancellation and commitment\<close>

text \<open>A job whose cancellation is closed stays closed, and its jid is never given out again.\<close>

definition closed :: "nat \<Rightarrow> drain_jobs \<Rightarrow> bool" where
  "closed jid j \<longleftrightarrow> jid < dj_next_id j
     \<and> (\<forall>e. hm_get (dj_entries j) jid = Some e \<longrightarrow> \<not> en_cancellable e)"

lemma closed_not_accepted: "closed jid j \<Longrightarrow> fst (cancel ow jid j) \<noteq> Accepted"
  by (auto simp: closed_def cancel_def split: option.splits)

lemma closed_step: "job_step j op j' \<Longrightarrow> closed jid j \<Longrightarrow> closed jid j'"
  by (induction rule: job_step.induct)
    (auto simp: closed_def create_for_def cancel_def begin_non_cancellable_def emit_def finish_def
      set_cancel_flag_def expire_def Let_def split: option.split)

lemma closed_steps: "job_steps j ops j' \<Longrightarrow> closed jid j \<Longrightarrow> closed jid j'"
  by (induction rule: job_steps.induct) (auto dest: closed_step)

lemma begin_True:
  assumes "jobs_ok j" "begin_non_cancellable jid j = (True, j')"
  obtains e where "hm_get (dj_entries j) jid = Some e" "\<not> en_cancel e" "\<not> en_done e" "closed jid j'"
  using assms
  by (auto simp: begin_non_cancellable_def closed_def jobs_ok_def split: option.splits if_splits)

section \<open>The buffer contract\<close>

interpretation buf: replay_buffer entry_ok en_events "\<lambda>e after. filter (newer after) (en_events e)" de_seq
  by unfold_locales (simp_all add: entry_ok_def newer_def [abs_def])

interpretation evs: replay_buffer "\<lambda>es. map de_seq es = [0..<length es]" "\<lambda>es. es"
    "\<lambda>es after. filter (newer after) es" de_seq
  by unfold_locales (simp_all add: newer_def [abs_def])

lemma replay_after_entry:
  "hm_get (dj_entries j) jid = Some e \<Longrightarrow>
   replay_after (en_owner e) jid after j = Some (filter (newer after) (en_events e))"
  by (simp add: replay_after_def)

lemma newest_in: "newest best xs = Some x \<Longrightarrow> Some x = best \<or> x \<in> set xs"
  by (induction best xs rule: newest.induct) (auto split: if_splits)

lemma active_own:
  assumes "active caller j = Some job"
  shows "\<exists>e. (aj_job job, e) \<in> set (dj_entries j) \<and> en_owner e = caller \<and> \<not> en_done e"
proof -
  obtain x where x: "newest None (filter (\<lambda>(_, e). en_owner e = caller \<and> \<not> en_done e) (dj_entries j)) = Some x"
    and job: "aj_job job = fst x"
    using assms by (auto simp: active_def split: prod.splits)
  from newest_in[OF x] show ?thesis
    unfolding job by (auto intro: exI[of _ "snd x"])
qed

section \<open>Properties\<close>

text \<open>C4: whatever the order in which requests, job tasks, lost leases and timers act on a new
  registry, at any time: ids are unique and below the next one; the events of each job are
  numbered 0, 1, 2, ... and were all sent to its subscribers; a job is done exactly when it has a
  terminal event, which is its last and only one, and then it cannot be cancelled; and no two
  unfinished jobs work on the same node.\<close>

theorem jobs_invariant:
  assumes "job_steps (jobs_new executor) ops j"
  shows "hm_ok (dj_entries j)
    \<and> (\<forall>jid e. hm_get (dj_entries j) jid = Some e \<longrightarrow> jid < dj_next_id j
        \<and> map de_seq (en_events e) = [0..<length (en_events e)] \<and> en_sent e = en_events e
        \<and> (en_done e \<longleftrightarrow> en_events e \<noteq> [] \<and> is_terminal_kind (de_kind (last (en_events e))))
        \<and> (\<forall>ev\<in>set (butlast (en_events e)). \<not> is_terminal_kind (de_kind ev))
        \<and> (en_done e \<longrightarrow> \<not> en_cancellable e))
    \<and> (\<forall>jid e jid' e'. hm_get (dj_entries j) jid = Some e \<longrightarrow> hm_get (dj_entries j) jid' = Some e' \<longrightarrow>
        \<not> en_done e \<longrightarrow> \<not> en_done e' \<longrightarrow> en_target e = en_target e' \<longrightarrow> jid = jid')"
proof -
  have ok: "jobs_ok j" using assms by (rule jobs_ok_reachable)
  have each: "jid < dj_next_id j
        \<and> map de_seq (en_events e) = [0..<length (en_events e)] \<and> en_sent e = en_events e
        \<and> (en_done e \<longleftrightarrow> en_events e \<noteq> [] \<and> is_terminal_kind (de_kind (last (en_events e))))
        \<and> (\<forall>ev\<in>set (butlast (en_events e)). \<not> is_terminal_kind (de_kind ev))
        \<and> (en_done e \<longrightarrow> \<not> en_cancellable e)"
    if "hm_get (dj_entries j) jid = Some e" for jid e
    using jobs_okD[OF ok that] entry_done_iff[of e] unfolding entry_ok_def by simp
  show ?thesis
    using ok each unfolding jobs_ok_def by simp
qed

definition demo_ops :: "job_op list" where
  "demo_ops = [OpCreate ''alice'' ''v1/Node'' ''n1'' None 5, OpEmit 0 Cordoned,
     OpFinish 0 (Done drain_summary_default)]"

definition demo_jobs :: drain_jobs where
  "demo_jobs = finish 0 (Done drain_summary_default)
     (emit 0 Cordoned (snd (create_for ''alice'' ''v1/Node'' ''n1'' None 5 (jobs_new None))))"

lemma demo_steps: "job_steps (jobs_new None) demo_ops demo_jobs"
  unfolding demo_ops_def demo_jobs_def
  by (rule steps_step[OF step_create], rule steps_step[OF step_emit], simp,
      rule steps_step[OF step_finish], simp, rule steps_refl)

lemma demo_entry:
  "hm_get (dj_entries demo_jobs) 0 = Some \<lparr>en_owner = ''alice'', en_target = ''n1'', en_key = ''v1/Node'',
     en_power = None, en_events = [\<lparr>de_seq = 0, de_kind = Cordoned\<rparr>, \<lparr>de_seq = 1, de_kind = Done drain_summary_default\<rparr>],
     en_sent = [\<lparr>de_seq = 0, de_kind = Cordoned\<rparr>, \<lparr>de_seq = 1, de_kind = Done drain_summary_default\<rparr>],
     en_cancel = False, en_cancellable = False, en_done = True, en_started_at = 5\<rparr>"
  by (simp add: demo_jobs_def finish_def emit_def create_for_def jobs_new_def target_busy_def hm_any_def
      push_event_def Let_def del: hm_in_set)

theorem jobs_invariant_witness: "hm_ok (dj_entries demo_jobs) \<and> (0::nat) < dj_next_id demo_jobs"
  using jobs_invariant[OF demo_steps] demo_entry by blast

text \<open>Cancellation and commitment exclude each other.  If \<open>begin_non_cancellable\<close> returns true
  for a job, no cancellation of it was pending, and whatever happens afterwards no request to cancel
  it is ever accepted.\<close>

theorem commit_excludes_cancel:
  assumes "job_steps (jobs_new executor) ops j"
    and "begin_non_cancellable jid j = (True, j')"
    and "job_steps j' later j''"
  shows "(\<exists>e. hm_get (dj_entries j) jid = Some e \<and> \<not> en_cancel e \<and> \<not> en_done e)
    \<and> fst (cancel owner jid j'') \<noteq> Accepted"
proof -
  have "jobs_ok j" using assms(1) by (rule jobs_ok_reachable)
  then obtain e where "hm_get (dj_entries j) jid = Some e" "\<not> en_cancel e" "\<not> en_done e" "closed jid j'"
    using assms(2) by (rule begin_True)
  then show ?thesis using closed_steps[OF assms(3)] closed_not_accepted by blast
qed

definition open_jobs :: drain_jobs where
  "open_jobs = snd (create_for ''alice'' ''v1/Node'' ''n1'' None 5 (jobs_new None))"

theorem commit_excludes_cancel_witness:
  "fst (cancel ''alice'' 0 (snd (begin_non_cancellable 0 open_jobs))) \<noteq> Accepted"
proof -
  have "job_steps (jobs_new None) [OpCreate ''alice'' ''v1/Node'' ''n1'' None 5] open_jobs"
    unfolding open_jobs_def by (rule steps_step[OF step_create steps_refl])
  moreover have "begin_non_cancellable 0 open_jobs = (True, snd (begin_non_cancellable 0 open_jobs))"
    by (simp add: open_jobs_def begin_non_cancellable_def create_for_def jobs_new_def target_busy_def
        hm_any_def Let_def del: hm_in_set)
  ultimately show ?thesis using commit_excludes_cancel steps_refl by blast
qed

text \<open>A job belongs to its owner.  For anyone else it does not exist: looking, replaying and
  cancelling give the answer they give for an unknown id and change nothing, and the job is
  never offered as the caller's active one.\<close>

theorem jobs_isolated_by_owner:
  assumes "hm_get (dj_entries j) jid = Some e" and "en_owner e \<noteq> caller" and "hm_ok (dj_entries j)"
  shows "subscribe caller jid j = None \<and> replay_after caller jid after j = None
    \<and> cancel caller jid j = (CancelNotFound, j)
    \<and> subscribe caller jid j = subscribe caller jid (expire jid j)
    \<and> fst (cancel caller jid j) = fst (cancel caller jid (expire jid j))
    \<and> (\<forall>job. active caller j = Some job \<longrightarrow> aj_job job \<noteq> jid)"
proof -
  have "aj_job job \<noteq> jid" if "active caller j = Some job" for job
    using active_own[OF that] assms(1,2) eq_key_imp_eq_value[OF assms(3)]
    by (metis hm_in_set[OF assms(3)])
  then show ?thesis
    using assms(1,2) by (auto simp: subscribe_def replay_after_def cancel_def expire_def)
qed

theorem jobs_isolated_by_owner_witness:
  "subscribe ''bob'' 0 demo_jobs = None \<and> cancel ''bob'' 0 demo_jobs = (CancelNotFound, demo_jobs)"
  using jobs_isolated_by_owner[OF demo_entry, of "''bob''" None]
    jobs_ok_reachable[OF demo_steps] by (simp add: jobs_ok_def)

end
