(* ===== verification/DrainStream.thy ===== *)
theory DrainStream
  imports DrainJobs
begin

text \<open>
  The event stream of a drain job, \<open>drain_progress\<close> and \<open>live_events\<close> of
  \<open>src/src/server/api/drain.rs\<close>: the buffered events first, then what the job's broadcast
  channel delivers, with the gaps a slow subscriber suffers filled from the registry.

  A receive of the channel has one of three outcomes, together with the registry as it is when
  the stream looks at it.  What \<open>tokio\<close> promises of a receiver is the relation \<open>feed\<close>: the next value
  sent, or a skip ahead to a value still in the channel, or closed.
\<close>

section \<open>The stream\<close>

datatype received = RecvOk drain_event | RecvLagged | RecvClosed

datatype stream_end = StoppedAtTerminal | StreamClosed | StreamPending

definition seq_covered :: "nat option \<Rightarrow> drain_event \<Rightarrow> bool" where
  "seq_covered last_seq ev = (case last_seq of None \<Rightarrow> False | Some s \<Rightarrow> de_seq ev \<le> s)"

function (sequential) live_events ::
  "string \<Rightarrow> nat \<Rightarrow> (received \<times> drain_jobs) list \<Rightarrow> nat option \<Rightarrow> drain_event list
     \<Rightarrow> drain_event list \<times> stream_end" where
  "live_events owner jid input last_seq (ev # pending) =
     (if is_terminal_kind (de_kind ev) then ([ev], StoppedAtTerminal)
      else case live_events owner jid input (Some (de_seq ev)) pending of (out, st) \<Rightarrow> (ev # out, st))"
| "live_events owner jid [] last_seq [] = ([], StreamPending)"
| "live_events owner jid ((RecvOk ev, j) # input) last_seq [] =
     (if seq_covered last_seq ev then live_events owner jid input last_seq []
      else if is_terminal_kind (de_kind ev) then ([ev], StoppedAtTerminal)
      else case live_events owner jid input (Some (de_seq ev)) [] of (out, st) \<Rightarrow> (ev # out, st))"
| "live_events owner jid ((RecvLagged, j) # input) last_seq [] =
     (case replay_after owner jid last_seq j of
        None \<Rightarrow> ([], StreamClosed)
      | Some recovered \<Rightarrow> live_events owner jid input last_seq recovered)"
| "live_events owner jid ((RecvClosed, j) # input) last_seq [] = ([], StreamClosed)"
  by pat_completeness auto
termination
  by (relation "measures [\<lambda>(_, _, input, _, _). length input, \<lambda>(_, _, _, _, pending). length pending]") auto

text \<open>The events of the response body before its \<open>eof\<close>; \<open>None\<close> is 404.\<close>

definition drain_progress ::
  "string \<Rightarrow> nat \<Rightarrow> drain_jobs \<Rightarrow> (received \<times> drain_jobs) list \<Rightarrow> (drain_event list \<times> stream_end) option" where
  "drain_progress owner jid j input = (case subscribe owner jid j of
     None \<Rightarrow> None
   | Some (replay, rx, done_flag) \<Rightarrow>
       if done_flag then Some (replay, StoppedAtTerminal)
       else (case live_events owner jid input (buf.last_number replay) [] of
               (out, st) \<Rightarrow> Some (replay @ out, st)))"

section \<open>What the channel and the registry may do meanwhile\<close>

text \<open>
  \<open>feed e jid pos n fin input\<close>: the job goes through the events of its final entry \<open>e\<close>; \<open>n\<close> of
  them exist so far, the receiver stands before the one at \<open>pos\<close>, and stands before the one at
  \<open>fin\<close> after the input.
\<close>

definition holds_prefix :: "entry \<Rightarrow> nat \<Rightarrow> nat \<Rightarrow> drain_jobs \<Rightarrow> bool" where
  "holds_prefix e n jid j \<longleftrightarrow>
     (hm_get (dj_entries j) jid = None
      \<or> (\<exists>e'. hm_get (dj_entries j) jid = Some e' \<and> en_owner e' = en_owner e
           \<and> en_events e' = take n (en_events e)))"

inductive feed :: "entry \<Rightarrow> nat \<Rightarrow> nat \<Rightarrow> nat \<Rightarrow> nat \<Rightarrow> (received \<times> drain_jobs) list \<Rightarrow> bool" for e jid where
  feed_nil: "pos \<le> n \<Longrightarrow> n \<le> length (en_events e) \<Longrightarrow> feed e jid pos n pos []"
| feed_ok: "pos < n' \<Longrightarrow> n \<le> n' \<Longrightarrow> n' \<le> length (en_events e) \<Longrightarrow> feed e jid (Suc pos) n' fin input \<Longrightarrow>
    feed e jid pos n fin ((RecvOk (en_events e ! pos), j) # input)"
| feed_lagged: "pos \<le> pos' \<Longrightarrow> pos' \<le> n' \<Longrightarrow> n \<le> n' \<Longrightarrow> n' \<le> length (en_events e) \<Longrightarrow>
    holds_prefix e n' jid j \<Longrightarrow> feed e jid pos' n' fin input \<Longrightarrow>
    feed e jid pos n fin ((RecvLagged, j) # input)"
| feed_closed: "feed e jid pos n pos ((RecvClosed, j) # input)"

inductive_cases feed_okE: "feed e jid pos n fin ((RecvOk ev, j) # input)"
inductive_cases feed_laggedE: "feed e jid pos n fin ((RecvLagged, j) # input)"
inductive_simps feed_Nil [simp]: "feed e jid pos n fin []"

section \<open>Lossless delivery\<close>

text \<open>
  From a client that has the first \<open>k\<close> events, with the receiver at most there: the stream delivers
  the following events in order, without gap or repetition, and stops exactly after the terminal
  one; as long as it is open it has delivered everything the receiver went past.
\<close>

definition delivered :: "entry \<Rightarrow> nat \<Rightarrow> nat \<Rightarrow> drain_event list \<Rightarrow> stream_end \<Rightarrow> bool" where
  "delivered e k fin out st \<longleftrightarrow>
     out = take (length out) (drop k (en_events e))
   \<and> (st = StoppedAtTerminal \<longrightarrow> k + length out = length (en_events e) \<and> en_done e)
   \<and> (st = StreamPending \<longrightarrow> fin \<le> k + length out)"

lemma delivered_Nil:
  "st \<noteq> StoppedAtTerminal \<Longrightarrow> (st = StreamPending \<Longrightarrow> fin \<le> k) \<Longrightarrow> delivered e k fin [] st"
  by (simp add: delivered_def)

lemma delivered_Cons:
  assumes "delivered e (Suc k) fin out st" "k < length (en_events e)"
  shows "delivered e k fin (en_events e ! k # out) st"
proof -
  have "drop k (en_events e) = en_events e ! k # drop (Suc k) (en_events e)"
    using assms(2) by (simp add: Cons_nth_drop_Suc)
  with assms show ?thesis by (simp add: delivered_def)
qed

lemma terminal_is_last:
  assumes "entry_ok e" "k < length (en_events e)" "is_terminal_kind (de_kind (en_events e ! k))"
  shows "Suc k = length (en_events e) \<and> en_done e"
proof (rule conjI)
  show "en_done e" using assms unfolding entry_ok_def by (metis nth_mem)
  show "Suc k = length (en_events e)"
  proof (rule ccontr)
    assume "Suc k \<noteq> length (en_events e)"
    with assms(2) have "k < length (butlast (en_events e))" by simp
    moreover from this have "butlast (en_events e) ! k = en_events e ! k" by (rule nth_butlast)
    ultimately have "en_events e ! k \<in> set (butlast (en_events e))" by (metis nth_mem)
    with assms show False by (simp add: entry_ok_def)
  qed
qed

lemma delivered_last:
  assumes "entry_ok e" "k < length (en_events e)" "is_terminal_kind (de_kind (en_events e ! k))"
  shows "delivered e k fin [en_events e ! k] StoppedAtTerminal"
  using terminal_is_last[OF assms] assms(2) by (simp add: delivered_def Cons_nth_drop_Suc[symmetric])

text \<open>A replay from the registry as it was: the buffer contract on a prefix of the events.\<close>

lemma replay_prefix:
  assumes "entry_ok e" "k \<le> length (en_events e)" "holds_prefix e n jid j"
    and "replay_after (en_owner e) jid (buf.last_number (take k (en_events e))) j = Some recovered"
  shows "recovered = drop k (take n (en_events e))"
proof -
  have r: "recovered = filter (newer (buf.last_number (take k (en_events e)))) (take n (en_events e))"
    using assms(3,4) by (auto simp: holds_prefix_def replay_after_def split: option.splits if_splits)
  have "map de_seq (take n (en_events e)) = take n [0..<length (en_events e)]"
    using assms(1) by (simp add: entry_ok_def take_map[symmetric])
  also have "\<dots> = [0..<length (take n (en_events e))]"
    by (cases "n \<le> length (en_events e)") (simp_all add: min_def)
  finally have "map de_seq (take n (en_events e)) = [0..<length (take n (en_events e))]" .
  then show ?thesis
    unfolding r using assms(1,2)
    by (cases k) (simp_all add: buf.last_number_take evs.replay_all evs.replay_later)
qed

lemma seq_covered_iff:
  assumes "entry_ok e" "k \<le> length (en_events e)" "i < length (en_events e)"
  shows "seq_covered (buf.last_number (take k (en_events e))) (en_events e ! i) \<longleftrightarrow> i < k"
  using assms by (auto simp: seq_covered_def buf.last_number_take entry_seq)

lemma last_number_Suc:
  assumes "entry_ok e" "k < length (en_events e)"
  shows "Some (de_seq (en_events e ! k)) = buf.last_number (take (Suc k) (en_events e))"
  using assms by (simp add: buf.last_number_take entry_seq)

lemma live_events_delivers:
  assumes ok: "entry_ok e"
  shows "feed e jid pos n fin input \<Longrightarrow> pending = take (length pending) (drop k (en_events e)) \<Longrightarrow>
    k + length pending \<le> length (en_events e) \<Longrightarrow> pos \<le> k + length pending \<Longrightarrow>
    live_events (en_owner e) jid input (buf.last_number (take k (en_events e))) pending = (out, st) \<Longrightarrow>
    delivered e k fin out st"
proof (induction "en_owner e" jid input "buf.last_number (take k (en_events e))" pending
    arbitrary: k pos n out st rule: live_events.induct)
  case (1 jid input ev pending)
  have k: "k < length (en_events e)" using 1(4) by simp
  then have d: "drop k (en_events e) = en_events e ! k # drop (Suc k) (en_events e)"
    by (simp add: Cons_nth_drop_Suc)
  have ev: "ev = en_events e ! k" and rest: "pending = take (length pending) (drop (Suc k) (en_events e))"
    using 1(3) unfolding d by simp_all
  show ?case
  proof (cases "is_terminal_kind (de_kind ev)")
    case True
    then show ?thesis using 1(6) delivered_last[OF ok k] ev by simp
  next
    case False
    then obtain out' where o: "live_events (en_owner e) jid input (Some (de_seq ev)) pending = (out', st)"
      "out = ev # out'"
      using 1(6) by (auto split: prod.splits)
    have "delivered e (Suc k) fin out' st"
      by (rule 1(1)[OF False _ 1(2)]) (use o(1) rest 1(4,5) ev last_number_Suc[OF ok k] in auto)
    then show ?thesis unfolding o(2) ev by (rule delivered_Cons) (rule k)
  qed
next
  case (2 jid)
  then show ?case by (auto simp: delivered_def)
next
  case (3 jid ev j input)
  from 3(3) obtain n' where f: "pos < n'" "n' \<le> length (en_events e)" "ev = en_events e ! pos"
    "feed e jid (Suc pos) n' fin input" by (rule feed_okE) auto
  have kle: "k \<le> length (en_events e)" and pk: "pos \<le> k" and plt: "pos < length (en_events e)"
    using 3(5,6) f by auto
  have cov: "seq_covered (buf.last_number (take k (en_events e))) ev \<longleftrightarrow> pos < k"
    unfolding f(3) by (rule seq_covered_iff[OF ok kle plt])
  show ?case
  proof (cases "pos < k")
    case True
    then show ?thesis using 3(1)[OF _ _ f(4)] 3(4-7) cov by auto
  next
    case False
    then have eq: "pos = k" using pk by simp
    then have k: "k < length (en_events e)" and ev: "ev = en_events e ! k" using plt f(3) by simp_all
    show ?thesis
    proof (cases "is_terminal_kind (de_kind ev)")
      case True
      then show ?thesis using 3(7) cov eq delivered_last[OF ok k] ev by simp
    next
      case nt: False
      then obtain out' where o: "live_events (en_owner e) jid input (Some (de_seq ev)) [] = (out', st)"
        "out = ev # out'"
        using 3(7) cov eq by (auto split: prod.splits)
      have "delivered e (Suc k) fin out' st"
        by (rule 3(2)[OF _ nt _ f(4)]) (use o(1) cov eq ev last_number_Suc[OF ok k] k in auto)
      then show ?thesis unfolding o(2) ev by (rule delivered_Cons) (rule k)
    qed
  qed
next
  case (4 jid j input)
  from 4(2) obtain pos' n' where f: "pos \<le> pos'" "pos' \<le> n'" "n' \<le> length (en_events e)"
    "holds_prefix e n' jid j" "feed e jid pos' n' fin input" by (rule feed_laggedE) auto
  have kle: "k \<le> length (en_events e)" using 4(4) by simp
  show ?case
  proof (cases "replay_after (en_owner e) jid (buf.last_number (take k (en_events e))) j")
    case None
    then show ?thesis using 4(6) by (auto simp: delivered_def)
  next
    case (Some recovered)
    have rec: "recovered = drop k (take n' (en_events e))"
      by (rule replay_prefix[OF ok kle f(4) Some])
    have "live_events (en_owner e) jid input (buf.last_number (take k (en_events e))) recovered = (out, st)"
      using 4(6) Some by simp
    then show ?thesis
      by (intro 4(1)[OF Some _ f(5)]) (use rec f(2,3) kle in \<open>auto simp: drop_take\<close>)
  qed
next
  case (5 jid j input)
  then show ?case by (auto simp: delivered_def)
qed

text \<open>A stream closes without the terminal event only when the channel was closed, or when it lagged and the
  registry no longer had the job.\<close>

definition given_up :: "nat \<Rightarrow> (received \<times> drain_jobs) list \<Rightarrow> bool" where
  "given_up jid input \<longleftrightarrow>
     (\<exists>j. (RecvClosed, j) \<in> set input \<or> ((RecvLagged, j) \<in> set input \<and> hm_get (dj_entries j) jid = None))"

lemma given_up_Cons: "given_up jid input \<Longrightarrow> given_up jid (x # input)"
  by (auto simp: given_up_def)

lemma live_events_closed:
  "\<forall>j. (RecvLagged, j) \<in> set input \<longrightarrow> (\<forall>e. hm_get (dj_entries j) jid = Some e \<longrightarrow> en_owner e = owner) \<Longrightarrow>
   snd (live_events owner jid input last_seq pending) = StreamClosed \<Longrightarrow> given_up jid input"
proof (induction owner jid input last_seq pending rule: live_events.induct)
  case (4 owner jid j input last_seq)
  then show ?case
    by (auto simp: replay_after_def given_up_def split: option.splits if_splits)
qed (auto simp: given_up_def split: if_splits prod.splits)

lemma feed_owner:
  "feed e jid pos n fin input \<Longrightarrow> \<forall>i. (RecvClosed, i) \<notin> set input \<Longrightarrow> (RecvLagged, j) \<in> set input \<Longrightarrow> hm_get (dj_entries j) jid = Some e' \<Longrightarrow>
   en_owner e' = en_owner e"
  by (induction arbitrary: j rule: feed.induct) (auto simp: holds_prefix_def)

section \<open>The whole response\<close>

lemma response_is_prefix:
  assumes "entry_ok e" and "m \<le> length (en_events e)"
    and "hm_get (dj_entries j) jid = Some (e\<lparr>en_events := take m (en_events e),
           en_sent := take m (en_events e), en_done := (en_done e \<and> m = length (en_events e))\<rparr>)"
    and "feed e jid m m fin input"
    and "drain_progress (en_owner e) jid j input = Some (body, st)"
  shows "body = take (length body) (en_events e)
    \<and> (st = StoppedAtTerminal \<longrightarrow> body = en_events e \<and> is_terminal_kind (de_kind (last body)))
    \<and> (st = StreamPending \<longrightarrow> fin \<le> length body)"
proof (cases "en_done e \<and> m = length (en_events e)")
  case True
  then have "body = en_events e" "st = StoppedAtTerminal"
    using assms(3,5) by (auto simp: drain_progress_def subscribe_def)
  then show ?thesis using entry_done_iff[OF assms(1)] True by simp
next
  case False
  let ?r = "take m (en_events e)"
  have sub: "subscribe (en_owner e) jid j = Some (?r, m, False)"
    using assms(2,3) False by (auto simp: subscribe_def)
  obtain out where o: "live_events (en_owner e) jid input (buf.last_number ?r) [] = (out, st)"
    "body = ?r @ out"
    using assms(5) sub by (auto simp: drain_progress_def split: prod.splits)
  have d: "delivered e m fin out st"
    by (rule live_events_delivers[OF assms(1,4) _ _ _ o(1)]) (use assms(2) in simp_all)
  have len: "length body = m + length out" using o(2) assms(2) by simp
  have body: "body = take (length body) (en_events e)"
    unfolding len take_add using d o(2) by (simp add: delivered_def)
  moreover have "st = StoppedAtTerminal \<Longrightarrow> body = en_events e \<and> is_terminal_kind (de_kind (last body))"
    using d body len entry_done_iff[OF assms(1)] by (auto simp: delivered_def)
  ultimately show ?thesis using d len by (simp add: delivered_def)
qed

lemma response_exists:
  assumes "hm_get (dj_entries j) jid = Some e'" "en_owner e' = owner"
  shows "\<exists>body st. drain_progress owner jid j input = Some (body, st)"
  using assms by (auto simp: drain_progress_def subscribe_def split: prod.split)

lemma response_closed:
  assumes "feed e jid m m fin input" and "drain_progress (en_owner e) jid j input = Some (body, StreamClosed)"
  shows "given_up jid input"
proof (cases "\<exists>i. (RecvClosed, i) \<in> set input")
  case False
  show ?thesis
  proof (rule live_events_closed)
    show "\<forall>j. (RecvLagged, j) \<in> set input \<longrightarrow> (\<forall>e'. hm_get (dj_entries j) jid = Some e' \<longrightarrow> en_owner e' = en_owner e)"
      using feed_owner[OF assms(1)] False by blast
    show "snd (live_events (en_owner e) jid input (buf.last_number (fst (the (subscribe (en_owner e) jid j)))) []) = StreamClosed"
      using assms(2) by (auto simp: drain_progress_def split: option.splits prod.splits if_splits)
  qed
qed (auto simp: given_up_def)

text \<open>A subscriber loses nothing.  Take a job whose life ends with the entry \<open>e\<close>, of which
  the registry held the first \<open>m\<close> events when its owner subscribed, and any behaviour of the
  channel afterwards, lagging included.  The owner gets a response, and what it carries is an initial part of the
  job's events, in order and without repetition; it stops at the terminal event,
  and then it is all of them; while it is open it holds everything the receiver went past; and it closes
  early only when the channel was closed, or when it lagged after the registry had dropped the job.\<close>

theorem drain_progress_lossless:
  assumes "entry_ok e" and "m \<le> length (en_events e)"
    and "hm_get (dj_entries j) jid = Some (e\<lparr>en_events := take m (en_events e),
           en_sent := take m (en_events e), en_done := (en_done e \<and> m = length (en_events e))\<rparr>)"
    and "feed e jid m m fin input"
  shows "\<exists>body st. drain_progress (en_owner e) jid j input = Some (body, st)
    \<and> body = take (length body) (en_events e)
    \<and> (st = StoppedAtTerminal \<longrightarrow> body = en_events e \<and> is_terminal_kind (de_kind (last body)))
    \<and> (st = StreamPending \<longrightarrow> fin \<le> length body)
    \<and> (st = StreamClosed \<longrightarrow> (\<exists>j. (RecvClosed, j) \<in> set input
         \<or> ((RecvLagged, j) \<in> set input \<and> hm_get (dj_entries j) jid = None)))"
proof -
  obtain body st where run: "drain_progress (en_owner e) jid j input = Some (body, st)"
    using response_exists[OF assms(3), of "en_owner e" input] by auto
  with response_is_prefix[OF assms run] response_closed[OF assms(4)] show ?thesis
    unfolding given_up_def by blast
qed

definition demo_entry :: entry where
  "demo_entry = \<lparr>en_owner = ''alice'', en_target = ''n1'', en_key = ''v1/Node'', en_power = None,
     en_events = [\<lparr>de_seq = 0, de_kind = Cordoned\<rparr>, \<lparr>de_seq = 1, de_kind = Started 0\<rparr>,
                  \<lparr>de_seq = 2, de_kind = Done drain_summary_default\<rparr>],
     en_sent = [\<lparr>de_seq = 0, de_kind = Cordoned\<rparr>, \<lparr>de_seq = 1, de_kind = Started 0\<rparr>,
                  \<lparr>de_seq = 2, de_kind = Done drain_summary_default\<rparr>],
     en_cancel = False, en_cancellable = False, en_done = True, en_started_at = 5\<rparr>"

definition with_events :: "nat \<Rightarrow> drain_jobs" where
  "with_events n = \<lparr>dj_entries = [(0, demo_entry\<lparr>en_events := take n (en_events demo_entry),
      en_sent := take n (en_events demo_entry), en_done := n = 3\<rparr>)], dj_next_id = 1, dj_executor = None\<rparr>"

text \<open>The receiver lags past the second event; both missing events come from the registry.\<close>

theorem drain_progress_lossless_witness:
  "drain_progress ''alice'' 0 (with_events 1) [(RecvLagged, with_events 3)]
     = Some (en_events demo_entry, StoppedAtTerminal)
   \<and> is_terminal_kind (de_kind (last (en_events demo_entry)))"
proof -
  have run: "drain_progress (en_owner demo_entry) 0 (with_events 1) [(RecvLagged, with_events 3)]
      = Some (en_events demo_entry, StoppedAtTerminal)"
    by (simp add: drain_progress_def subscribe_def with_events_def demo_entry_def replay_after_def
        buf.last_number_def newer_def)
  have ok: "entry_ok demo_entry" by (simp add: entry_ok_def demo_entry_def upt_rec)
  have at1: "hm_get (dj_entries (with_events 1)) 0 = Some (demo_entry\<lparr>en_events := take 1 (en_events demo_entry),
      en_sent := take 1 (en_events demo_entry), en_done := (en_done demo_entry \<and> 1 = length (en_events demo_entry))\<rparr>)"
    by (simp add: with_events_def demo_entry_def)
  have feed: "feed demo_entry 0 1 1 3 [(RecvLagged, with_events 3)]"
    by (rule feed_lagged[where pos' = 3 and n' = 3])
      (simp_all add: demo_entry_def holds_prefix_def with_events_def)
  show ?thesis
    using drain_progress_lossless[OF ok _ at1 feed] run by (simp add: demo_entry_def)
qed

end
