(* ===== verification/DrainTask.thy ===== *)
theory DrainTask
  imports DrainJobs DrainProofs
begin

text \<open>
  The task behind a drain job: \<open>spawn_drain_job\<close> and \<open>finish_with\<close> of
  \<open>src/src/server/api/drain.rs\<close>.  It runs the drain, closes cancellation, and then powers the node
  off or reboots it when that was asked for and the drain was clean; it ends with one
  terminal event and releases the node's lease.

  The registry is the model of \<open>DrainJobs\<close>; other tasks use it between any two of its operations
  here (\<open>je_interfere\<close>).  The drain, the cordon and the wait for a reboot are those of \<open>DrainRun\<close>,
  whose record of calls to the API server stays with them (\<open>st_calls\<close>); a log keeps the other acts in order.

  Every awaited part of the task, a stage, may panic at any of its points (\<open>je_panic\<close>): before its first call,
  after any number of its calls and events, or at its end; what it did until then remains done, and the task catches
  the panic.  The pump runs beside the drain in the code.  It only appends the drain's events to the job, in
  their order, and the drain reads nothing of the registry but its cancel flag, which is an answer of its
  environment; so the events are pumped after the drain's calls here, with every use others make of
  the registry in between.
\<close>

section \<open>State and environment\<close>

record power_phase =
  pp_action :: string
  pp_was_cordoned :: bool
  pp_previous_boot_id :: "string option"

record drain_job_request =
  jr_owner :: string
  jr_key :: string
  jr_name :: string
  jr_options :: drain_options
  jr_power :: "power_phase option"
  jr_lease :: bool

datatype job_act =
    ActDrained "k8s_error + drain_summary"
  | ActBegin bool
  | ActPower string string
  | ActPanic "string option"
  | ActFinish drain_event_kind
  | ActReleaseLease

text \<open>A panic: its payload, and how many calls and events of its stage came before it.\<close>

record unwinding =
  uw_payload :: "string option"
  uw_calls :: nat
  uw_events :: nat

record 'w job_env =
  je_drain :: "'w drain_env"
  je_interfere :: "drain_jobs \<Rightarrow> 'w \<Rightarrow> drain_jobs \<times> 'w"
  je_panic :: "'w \<Rightarrow> unwinding option \<times> 'w"
  je_power :: "string \<Rightarrow> string \<Rightarrow> 'w \<Rightarrow> (string + unit) \<times> 'w"

record 'w job_st =
  js_drain :: "'w drain_st"
  js_jobs :: drain_jobs
  js_log :: "job_act list"

definition lift_drain :: "('w drain_st, 'a) state \<Rightarrow> ('w job_st, 'a) state" where
  "lift_drain m = State (\<lambda>s. case run_state m (js_drain s) of (a, d) \<Rightarrow> (a, s\<lparr>js_drain := d\<rparr>))"

definition act :: "job_act \<Rightarrow> ('w job_st, unit) state" where
  "act a = State (\<lambda>s. ((), s\<lparr>js_log := js_log s @ [a]\<rparr>))"

text \<open>An operation on the registry: first whatever others did to it, then the operation.\<close>

definition on_jobs :: "'w job_env \<Rightarrow> (drain_jobs \<Rightarrow> 'a \<times> drain_jobs) \<Rightarrow> ('w job_st, 'a) state" where
  "on_jobs env f = State (\<lambda>s.
     case je_interfere env (js_jobs s) (st_world (js_drain s)) of (j, w) \<Rightarrow>
     case f j of (a, j') \<Rightarrow> (a, s\<lparr>js_jobs := j', js_drain := (js_drain s)\<lparr>st_world := w\<rparr>\<rparr>))"

definition emit_event :: "'w job_env \<Rightarrow> nat \<Rightarrow> drain_event_kind \<Rightarrow> ('w job_st, unit) state" where
  "emit_event env jid k = on_jobs env (\<lambda>j. ((), emit jid k j))"

text \<open>The pump: the drain's events reach the registry in the order they were sent.\<close>

fun pump :: "'w job_env \<Rightarrow> nat \<Rightarrow> drain_event_kind list \<Rightarrow> ('w job_st, unit) state" where
  "pump env jid [] = ret ()"
| "pump env jid (k # ks) = do { emit_event env jid k; pump env jid ks }"

text \<open>A part of the drain session that unwinds: its calls and events up to the panic.\<close>

definition cut :: "unwinding \<Rightarrow> ('w drain_st, 'a) state \<Rightarrow> ('w drain_st, unit) state" where
  "cut u m = State (\<lambda>s. case run_state m s of (_, t) \<Rightarrow>
     ((), t\<lparr>st_calls := take (length (st_calls s) + uw_calls u) (st_calls t),
            st_events := take (length (st_events s) + uw_events u) (st_events t)\<rparr>))"

text \<open>The outcome of the future: it is not done, it panicked with a payload, or it gave the job's last event.\<close>

type_synonym outcome = "(string option + drain_event_kind) option"

definition may_panic :: "'w job_env \<Rightarrow> ('w job_st, unwinding option) state" where
  "may_panic env = lift_drain (lift_w (je_panic env))"

definition unwind :: "unwinding \<Rightarrow> ('w job_st, outcome) state" where
  "unwind u = do { act (ActPanic (uw_payload u)); ret (Some (Inl (uw_payload u))) }"

text \<open>A stage of the future: it may panic on its way, else the rest goes on with its result.\<close>

definition stage ::
  "'w job_env \<Rightarrow> ('w drain_st, 'a) state \<Rightarrow> ('a \<Rightarrow> ('w job_st, outcome) state) \<Rightarrow> ('w job_st, outcome) state" where
  "stage env m k = do {
     p \<leftarrow> may_panic env;
     case p of
       Some u \<Rightarrow> do { lift_drain (cut u m); unwind u }
     | None \<Rightarrow> do { a \<leftarrow> lift_drain m; k a } }"

definition finish_kind ::
  "drain_event_kind \<Rightarrow> ('w job_st, outcome) state" where
  "finish_kind k = ret (Some (Inr k))"

section \<open>The task\<close>

definition begin_step :: "'w job_env \<Rightarrow> nat \<Rightarrow> ('w job_st, bool) state" where
  "begin_step env jid = do {
     b \<leftarrow> on_jobs env (begin_non_cancellable jid);
     act (ActBegin b);
     ret b }"

text \<open>\<open>if !was_cordoned { let _ = session.cordon(&name, false).await; }\<close>\<close>

definition restore_cordon ::
  "'w job_env \<Rightarrow> string \<Rightarrow> bool \<Rightarrow> ('w job_st, outcome) state
     \<Rightarrow> ('w job_st, outcome) state" where
  "restore_cordon env name was_cordoned k =
     (if was_cordoned then k else stage env (cordon (je_drain env) name False) (\<lambda>_. k))"

definition REBOOT_TIMEOUT :: nat where
  "REBOOT_TIMEOUT = 300 * 10 ^ 9"

text \<open>The request to Talos: a panic before its only call leaves it unsent.\<close>

definition request_power :: "'w job_env \<Rightarrow> string \<Rightarrow> string \<Rightarrow> ('w job_st, string + unit) state" where
  "request_power env name action = do {
     act (ActPower name action);
     lift_drain (lift_w (je_power env name action)) }"

definition power_stage ::
  "'w job_env \<Rightarrow> string \<Rightarrow> string \<Rightarrow> (string + unit \<Rightarrow> ('w job_st, outcome) state) \<Rightarrow> ('w job_st, outcome) state" where
  "power_stage env name action k = do {
     p \<leftarrow> may_panic env;
     case p of
       Some u \<Rightarrow> do {
         (if uw_calls u = 0 then ret () else do { request_power env name action; ret () });
         unwind u }
     | None \<Rightarrow> do { r \<leftarrow> request_power env name action; k r } }"

definition run_power ::
  "nat \<Rightarrow> 'w job_env \<Rightarrow> nat \<Rightarrow> string \<Rightarrow> power_phase \<Rightarrow> drain_summary
     \<Rightarrow> ('w job_st, outcome) state" where
  "run_power fuel env jid name p summary = do {
     emit_event env jid (PowerRequested (pp_action p));
     power_stage env name (pp_action p) (\<lambda>requested.
     case requested of
       Inl e \<Rightarrow> restore_cordon env name (pp_was_cordoned p) (finish_kind (DrainError e))
     | Inr _ \<Rightarrow>
         if pp_action p = ''reboot'' then
           stage env (wait_for_node_reboot fuel (je_drain env) name
             (pp_previous_boot_id p) REBOOT_TIMEOUT) (\<lambda>waited.
           case waited of
             None \<Rightarrow> ret None
           | Some w \<Rightarrow> (case w of
               Inr _ \<Rightarrow> do {
                 emit_event env jid NodeReady;
                 if pp_was_cordoned p then finish_kind (Done summary)
                 else stage env (cordon (je_drain env) name False) (\<lambda>r. case r of
                     Inl e \<Rightarrow> finish_kind (DrainError (k8s_error_to_string e))
                   | Inr _ \<Rightarrow> finish_kind (Done summary)) }
             | Inl e \<Rightarrow> restore_cordon env name (pp_was_cordoned p)
                 (finish_kind (DrainError (k8s_error_to_string e)))))
         else finish_kind (Done summary)) }"

definition after_drain ::
  "nat \<Rightarrow> 'w job_env \<Rightarrow> nat \<Rightarrow> string \<Rightarrow> power_phase option \<Rightarrow> k8s_error + drain_summary
     \<Rightarrow> ('w job_st, outcome) state" where
  "after_drain fuel env jid name pwr result = (case result of
     Inr summary \<Rightarrow> do {
       committed \<leftarrow> begin_step env jid;
       if \<not> committed then finish_kind Cancelled
       else if ds_failed summary = [] then (case pwr of
           Some p \<Rightarrow> run_power fuel env jid name p summary
         | None \<Rightarrow> finish_kind (Done summary))
       else (case pwr of
           Some p \<Rightarrow> restore_cordon env name (pp_was_cordoned p) (finish_kind (Done summary))
         | None \<Rightarrow> finish_kind (Done summary)) }
   | Inl e \<Rightarrow> do {
       committed \<leftarrow> begin_step env jid;
       if \<not> committed then finish_kind Cancelled
       else (case pwr of
           Some p \<Rightarrow> restore_cordon env name (pp_was_cordoned p)
                       (finish_kind (DrainError (k8s_error_to_string e)))
         | None \<Rightarrow> finish_kind (DrainError (k8s_error_to_string e))) })"

text \<open>The drain beside the pump: the events it sent, in order, and then the rest of the future.\<close>

definition sent_by :: "('w drain_st, 'a) state \<Rightarrow> ('w drain_st, 'a \<times> drain_event_kind list) state" where
  "sent_by m = State (\<lambda>s. case run_state m s of (a, t) \<Rightarrow> ((a, drop (length (st_events s)) (st_events t)), t))"

definition drain_stage ::
  "nat \<Rightarrow> 'w job_env \<Rightarrow> drain_job_request \<Rightarrow> nat \<Rightarrow> ('w job_st, outcome) state" where
  "drain_stage fuel env req jid =
     (let work = drain fuel (je_drain env) (jr_name req) (jr_options req) in do {
      p \<leftarrow> may_panic env;
      case p of
        Some u \<Rightarrow> do {
          r \<leftarrow> lift_drain (sent_by (cut u work));
          pump env jid (snd r);
          unwind u }
      | None \<Rightarrow> do {
          r \<leftarrow> lift_drain (sent_by work);
          pump env jid (snd r);
          case fst r of
            None \<Rightarrow> ret None
          | Some result \<Rightarrow> do {
              act (ActDrained result);
              after_drain fuel env jid (jr_name req) (jr_power req) result } } })"

definition panic_message :: "string option \<Rightarrow> string" where
  "panic_message payload = (case payload of
     Some msg \<Rightarrow> ''drain job panicked: '' @ msg
   | None \<Rightarrow> ''drain job panicked'')"

text \<open>\<open>None\<close>: the future never completes (only a drain without a timeout, or fuel too small).\<close>

definition finish_with ::
  "'w job_env \<Rightarrow> nat \<Rightarrow> ('w job_st, outcome) state
     \<Rightarrow> ('w job_st, drain_event_kind option) state" where
  "finish_with env jid fut = do {
     r \<leftarrow> fut;
     case r of
       None \<Rightarrow> ret None
     | Some outcome \<Rightarrow>
         let kind = (case outcome of Inr k \<Rightarrow> k | Inl payload \<Rightarrow> DrainError (panic_message payload)) in do {
         on_jobs env (\<lambda>j. ((), finish jid kind j));
         act (ActFinish kind);
         ret (Some kind) } }"

definition drain_task ::
  "nat \<Rightarrow> 'w job_env \<Rightarrow> drain_job_request \<Rightarrow> nat \<Rightarrow> ('w job_st, drain_event_kind option) state" where
  "drain_task fuel env req jid = do {
     kind \<leftarrow> finish_with env jid (drain_stage fuel env req jid);
     case kind of
       None \<Rightarrow> ret None
     | Some k \<Rightarrow> do {
         (if jr_lease req then act ActReleaseLease else ret ());
         ret (Some k) } }"

text \<open>The request's part: the job is registered before its task starts.\<close>

definition spawn_drain_job ::
  "nat \<Rightarrow> 'w job_env \<Rightarrow> drain_job_request \<Rightarrow> nat
     \<Rightarrow> ('w job_st, create_error + (nat \<times> drain_event_kind option)) state" where
  "spawn_drain_job fuel env req now_ms = do {
     created \<leftarrow> on_jobs env (create_for (jr_owner req) (jr_key req) (jr_name req)
        (map_option pp_action (jr_power req)) now_ms);
     case created of
       Inl e \<Rightarrow> ret (Inl e)
     | Inr jid \<Rightarrow> do {
         k \<leftarrow> drain_task fuel env req jid;
         ret (Inr (jid, k)) } }"

end
