(* ===== verification/DrainTaskProps.thy ===== *)
theory DrainTaskProps
  imports DrainTask DrainProps
begin

text \<open>
  What the task of a drain job guarantees: power is touched only behind a clean drain and a closed
  cancellation, the node's cordon is restored, and the job ends once and for all.
\<close>

section \<open>Reading the log\<close>

text \<open>\<open>lw m R new\<close>: after the acts \<open>new\<close>, running \<open>m\<close> appends acts such that \<open>R\<close> holds of its
  result and all acts.\<close>

definition lw :: "('w job_st, 'a) state \<Rightarrow> ('a \<Rightarrow> job_act list \<Rightarrow> bool) \<Rightarrow> job_act list \<Rightarrow> bool" where
  "lw m R new \<longleftrightarrow>
     (\<forall>s. js_log s = new \<longrightarrow> wp m (\<lambda>a t. R a (js_log t)) s)"

named_theorems lw_intros "acts of the combinators of a job task"

lemma lw_ret [lw_intros]: "R a new \<Longrightarrow> lw (ret a) R new"
  by (simp add: lw_def)

lemma lw_bind [lw_intros]:
  assumes "lw m (\<lambda>a n. lw (f a) R n) new"
  shows "lw (State_Monad.bind m f) R new"
  unfolding lw_def wp_bind
proof (intro allI impI)
  fix s :: "'a job_st" assume "js_log s = new"
  with assms have "wp m (\<lambda>a t. lw (f a) R (js_log t)) s" by (simp add: lw_def)
  then show "wp m (\<lambda>a. wp (f a) (\<lambda>a t. R a (js_log t))) s"
    by (rule wp_mono) (simp add: lw_def)
qed

lemma lw_act [lw_intros]: "R () (new @ [x]) \<Longrightarrow> lw (act x) R new"
  by (simp add: lw_def act_def wp_State)

lemma lw_on_jobs [lw_intros]: "(\<And>a. R a new) \<Longrightarrow> lw (on_jobs env f) R new"
  by (simp add: lw_def on_jobs_def wp_State split: prod.split)

lemma lw_lift [lw_intros]: "(\<And>a. R a new) \<Longrightarrow> lw (lift_drain m) R new"
  by (simp add: lw_def lift_drain_def wp_State split: prod.split)

lemma lw_if [lw_intros]: "(c \<Longrightarrow> lw m R n) \<Longrightarrow> (\<not> c \<Longrightarrow> lw k R n) \<Longrightarrow> lw (if c then m else k) R n"
  by simp

lemma lw_option [lw_intros]:
  "(r = None \<Longrightarrow> lw f R n) \<Longrightarrow> (\<And>x. r = Some x \<Longrightarrow> lw (g x) R n) \<Longrightarrow>
   lw (case r of None \<Rightarrow> f | Some x \<Rightarrow> g x) R n"
  by (cases r) simp_all

lemma lw_sum [lw_intros]:
  "(\<And>x. r = Inl x \<Longrightarrow> lw (f x) R n) \<Longrightarrow> (\<And>x. r = Inr x \<Longrightarrow> lw (g x) R n) \<Longrightarrow>
   lw (case r of Inl x \<Rightarrow> f x | Inr x \<Rightarrow> g x) R n"
  by (cases r) simp_all

lemma lw_prod [lw_intros]:
  "(\<And>x y. r = (x, y) \<Longrightarrow> lw (f x y) R n) \<Longrightarrow> lw (case r of (x, y) \<Rightarrow> f x y) R n"
  by (cases r) simp_all

lemma lw_may_panic [lw_intros]: "(\<And>p. R p new) \<Longrightarrow> lw (may_panic env) R new"
  unfolding may_panic_def by (intro lw_intros)

lemma lw_unwind [lw_intros]: "R (Some (Inl (uw_payload u))) (new @ [ActPanic (uw_payload u)]) \<Longrightarrow> lw (unwind u) R new"
  unfolding unwind_def by (intro lw_intros)

lemma lw_stage [lw_intros]:
  "(\<And>u. R (Some (Inl u)) (new @ [ActPanic u])) \<Longrightarrow> (\<And>a. lw (k a) R new) \<Longrightarrow> lw (stage env m k) R new"
  unfolding stage_def by (intro lw_intros)

lemma lw_request [lw_intros]:
  "(\<And>r. R r (new @ [ActPower name action])) \<Longrightarrow> lw (request_power env name action) R new"
  unfolding request_power_def by (intro lw_intros)

lemma lw_power_stage [lw_intros]:
  "(\<And>u. R (Some (Inl u)) (new @ [ActPanic u])) \<Longrightarrow>
   (\<And>u. R (Some (Inl u)) ((new @ [ActPower name action]) @ [ActPanic u])) \<Longrightarrow>
   (\<And>r. lw (k r) R (new @ [ActPower name action])) \<Longrightarrow> lw (power_stage env name action k) R new"
  unfolding power_stage_def by (intro lw_intros)

lemma lw_emit [lw_intros]: "R () new \<Longrightarrow> lw (emit_event env jid k) R new"
  unfolding emit_event_def by (intro lw_intros) auto

lemma lw_pump [lw_intros]: "R () new \<Longrightarrow> lw (pump env jid ks) R new"
  by (induction ks) (auto intro!: lw_intros)

lemma lw_finish [lw_intros]: "R (Some (Inr k)) new \<Longrightarrow> lw (finish_kind k) R new"
  unfolding finish_kind_def by (intro lw_intros)

lemma lw_begin [lw_intros]: "(\<And>b. R b (new @ [ActBegin b])) \<Longrightarrow> lw (begin_step env jid) R new"
  unfolding begin_step_def by (intro lw_intros)

lemma lw_restore [lw_intros]:
  "(\<And>u. \<not> c \<Longrightarrow> R (Some (Inl u)) (new @ [ActPanic u])) \<Longrightarrow> lw k R new \<Longrightarrow> lw (restore_cordon env name c k) R new"
  unfolding restore_cordon_def by (intro lw_intros)

lemmas task_defs = drain_task_def finish_with_def Let_def drain_stage_def after_drain_def run_power_def

lemma lw_run: "lw m R (js_log s) \<Longrightarrow> run_state m s = (a, t) \<Longrightarrow> R a (js_log t)"
  unfolding lw_def using wp_run by fastforce

section \<open>The acts of a task\<close>

text \<open>The log of a task: what a run may look like, in one predicate.\<close>

definition power_guarded :: "drain_job_request \<Rightarrow> job_act list \<Rightarrow> bool" where
  "power_guarded req l \<longleftrightarrow>
     (\<forall>n a. ActPower n a \<in> set l \<longrightarrow>
        (\<exists>S p rest. l = ActDrained (Inr S) # ActBegin True # ActPower n a # rest
           \<and> ds_failed S = [] \<and> jr_power req = Some p \<and> n = jr_name req \<and> a = pp_action p
           \<and> (\<forall>x\<in>set rest. \<forall>n a. x \<noteq> ActPower n a)))"

lemma task_power_guarded: "lw (drain_task fuel env req jid) (\<lambda>_. power_guarded req) []"
  unfolding task_defs
  by (intro lw_intros) (simp_all add: power_guarded_def)

definition ends_once :: "drain_job_request \<Rightarrow> drain_event_kind option \<Rightarrow> job_act list \<Rightarrow> bool" where
  "ends_once req r l \<longleftrightarrow>
     (\<forall>k. r = Some k \<longrightarrow> is_terminal_kind k
        \<and> (\<exists>before. l = before @ [ActFinish k] @ (if jr_lease req then [ActReleaseLease] else [])
             \<and> (\<forall>x\<in>set before. (\<forall>k'. x \<noteq> ActFinish k') \<and> x \<noteq> ActReleaseLease)
             \<and> (\<forall>p. ActPanic p \<in> set before \<longrightarrow> k = DrainError (panic_message p))))"

lemma task_ends_once: "lw (drain_task fuel env req jid) (ends_once req) []"
  unfolding task_defs
  by (intro lw_intros) (auto simp: ends_once_def)

section \<open>The calls that cordon\<close>

text \<open>\<open>cw m R cs\<close>: after the cordon calls \<open>cs\<close>, running \<open>m\<close> makes some such that \<open>R\<close> holds of its result
  and all of them.\<close>

definition cordons_of :: "drain_call list \<Rightarrow> (string \<times> bool) list" where
  "cordons_of cs = List.map_filter (\<lambda>c. case c of CallCordon n b \<Rightarrow> Some (n, b) | _ \<Rightarrow> None) cs"

lemma cordons_of_simps [simp]:
  "cordons_of [] = []" "cordons_of (xs @ ys) = cordons_of xs @ cordons_of ys"
  "cordons_of [CallCordon n b] = [(n, b)]"
  by (simp_all add: cordons_of_def List.map_filter_def)

lemma cordons_of_iff: "(n, b) \<in> set (cordons_of cs) \<longleftrightarrow> CallCordon n b \<in> set cs"
  by (induction cs) (auto simp: cordons_of_def map_filter_simps split: drain_call.splits)

definition cw :: "('w job_st, 'a) state \<Rightarrow> ('a \<Rightarrow> (string \<times> bool) list \<Rightarrow> bool) \<Rightarrow> (string \<times> bool) list \<Rightarrow> bool" where
  "cw m R cs \<longleftrightarrow> (\<forall>s. cordons_of (st_calls (js_drain s)) = cs \<longrightarrow>
     wp m (\<lambda>a t. R a (cordons_of (st_calls (js_drain t)))) s)"

named_theorems cw_intros "cordon calls of the combinators of a job task"

lemma cw_ret [cw_intros]: "R a cs \<Longrightarrow> cw (ret a) R cs"
  by (simp add: cw_def)

lemma cw_bind [cw_intros]:
  assumes "cw m (\<lambda>a n. cw (f a) R n) cs"
  shows "cw (State_Monad.bind m f) R cs"
  unfolding cw_def wp_bind
proof (intro allI impI)
  fix s :: "'a job_st" assume "cordons_of (st_calls (js_drain s)) = cs"
  with assms have "wp m (\<lambda>a t. cw (f a) R (cordons_of (st_calls (js_drain t)))) s" by (simp add: cw_def)
  then show "wp m (\<lambda>a. wp (f a) (\<lambda>a t. R a (cordons_of (st_calls (js_drain t))))) s"
    by (rule wp_mono) (simp add: cw_def)
qed

lemma cw_mono: "cw m P cs \<Longrightarrow> (\<And>a n. P a n \<Longrightarrow> Q a n) \<Longrightarrow> cw m Q cs"
  unfolding cw_def by (blast intro: wp_mono)

lemma cw_if [cw_intros]: "(c \<Longrightarrow> cw m R n) \<Longrightarrow> (\<not> c \<Longrightarrow> cw k R n) \<Longrightarrow> cw (if c then m else k) R n"
  by simp

lemma cw_option [cw_intros]:
  "(r = None \<Longrightarrow> cw f R n) \<Longrightarrow> (\<And>x. r = Some x \<Longrightarrow> cw (g x) R n) \<Longrightarrow>
   cw (case r of None \<Rightarrow> f | Some x \<Rightarrow> g x) R n"
  by (cases r) simp_all

lemma cw_sum [cw_intros]:
  "(\<And>x. r = Inl x \<Longrightarrow> cw (f x) R n) \<Longrightarrow> (\<And>x. r = Inr x \<Longrightarrow> cw (g x) R n) \<Longrightarrow>
   cw (case r of Inl x \<Rightarrow> f x | Inr x \<Rightarrow> g x) R n"
  by (cases r) simp_all

lemma cw_act [cw_intros]: "R () cs \<Longrightarrow> cw (act x) R cs"
  by (simp add: cw_def act_def wp_State)

lemma cw_on_jobs [cw_intros]: "(\<And>a. R a cs) \<Longrightarrow> cw (on_jobs env f) R cs"
  by (simp add: cw_def on_jobs_def wp_State split: prod.split)

lemma wp_lift_drain:
  "wp (lift_drain m) Q s = wp m (\<lambda>a d. Q a (s\<lparr>js_drain := d\<rparr>)) (js_drain s)"
  by (simp add: lift_drain_def wp_def split: prod.splits)

text \<open>A part of the drain session whose cordon calls are known, complete or cut short by a panic.\<close>

definition cordons_by :: "((string \<times> bool) list \<Rightarrow> bool) \<Rightarrow> ('w drain_st, 'a) state \<Rightarrow> bool" where
  "cordons_by N m \<longleftrightarrow> (\<forall>s. wp m (\<lambda>_ t. \<exists>cs. st_calls t = st_calls s @ cs \<and> N (cordons_of cs)) s)"

lemma cordons_byD:
  assumes "cordons_by N m" "run_state m s = (a, t)"
  obtains cs where "st_calls t = st_calls s @ cs" "N (cordons_of cs)"
  using assms by (auto simp: cordons_by_def wp_def dest!: spec[of _ s])

lemma cordons_of_take: "\<exists>n. cordons_of (take k cs) = take n (cordons_of cs)"
proof -
  have "cordons_of (take k cs @ drop k cs) = cordons_of (take k cs) @ cordons_of (drop k cs)"
    by (rule cordons_of_simps)
  then have "cordons_of (take k cs) = take (length (cordons_of (take k cs))) (cordons_of cs)" by simp
  then show ?thesis ..
qed

lemma cw_lift:
  assumes m: "cordons_by N m" and R: "\<And>a new. N new \<Longrightarrow> R a (cs @ new)"
  shows "cw (lift_drain m) R cs"
  unfolding cw_def wp_lift_drain
proof (intro allI impI wp_cases)
  fix s :: "'a job_st" and a t
  assume cs: "cordons_of (st_calls (js_drain s)) = cs" and run: "run_state m (js_drain s) = (a, t)"
  from m run obtain ds where "st_calls t = st_calls (js_drain s) @ ds" "N (cordons_of ds)" by (rule cordons_byD)
  with R cs show "R a (cordons_of (st_calls (js_drain (s\<lparr>js_drain := t\<rparr>))))" by simp
qed

lemma cordons_by_cut:
  assumes m: "cordons_by N m"
  shows "cordons_by (\<lambda>new. \<exists>n old. N old \<and> new = take n old) (cut u m)"
  unfolding cordons_by_def
proof (intro allI)
  fix s :: "'a drain_st"
  obtain a t where run: "run_state m s = (a, t)" by fastforce
  with m obtain ds where ds: "st_calls t = st_calls s @ ds" "N (cordons_of ds)" by (rule cordons_byD)
  obtain n where "cordons_of (take (uw_calls u) ds) = take n (cordons_of ds)"
    using cordons_of_take by blast
  then show "wp (cut u m) (\<lambda>_ t. \<exists>cs. st_calls t = st_calls s @ cs \<and> (\<exists>n old. N old \<and> cordons_of cs = take n old)) s"
    using ds by (auto simp: cut_def wp_State run)
qed

lemma cordons_by_sent: "cordons_by N m \<Longrightarrow> cordons_by N (sent_by m)"
  unfolding cordons_by_def sent_by_def wp_State by (auto simp: wp_def split: prod.splits)

lemma cw_lift_w [cw_intros]: "(\<And>a. R a cs) \<Longrightarrow> cw (lift_drain (lift_w f)) R cs"
  by (rule cw_lift[of "\<lambda>new. new = []"]) (simp_all add: cordons_by_def wp_lift_w)

lemma no_cordons: "\<forall>c\<in>set cs. \<forall>n b. c \<noteq> CallCordon n b \<Longrightarrow> cordons_of cs = []"
  by (induction cs) (auto simp: cordons_of_def map_filter_simps split: drain_call.splits)

lemma cordons_by_only:
  assumes "only P E m" "\<And>n b. \<not> P (CallCordon n b)"
  shows "cordons_by (\<lambda>new. new = []) m"
  unfolding cordons_by_def
proof
  fix s show "wp m (\<lambda>_ t. \<exists>cs. st_calls t = st_calls s @ cs \<and> cordons_of cs = []) s"
    by (rule wp_mono[OF wp_onlyI[OF assms(1)]]) (use assms(2) in \<open>auto simp: grows_def intro!: no_cordons\<close>)
qed

lemma cordons_by_cordon: "cordons_by (\<lambda>new. new = [(name, b)]) (cordon env name b)"
  by (simp add: cordons_by_def cordon_def wp_rules)

lemma only_reboot_loop: "only (\<lambda>c. \<exists>n. c = CallGotNode n) (\<lambda>_. False) (reboot_loop fuel env name previous d saw)"
proof (induction fuel arbitrary: saw)
  case (Suc fuel)
  show ?case
    unfolding reboot_loop.simps by (intro only_intros Suc.IH) auto
qed (simp add: only_return)

lemma cordons_by_wait: "cordons_by (\<lambda>new. new = []) (wait_for_node_reboot fuel env name previous d)"
  unfolding wait_for_node_reboot_def
  by (rule cordons_by_only[of "\<lambda>c. \<exists>n. c = CallGotNode n" "\<lambda>_. False"]) (auto intro!: only_intros only_reboot_loop)

lemma cordons_by_drain: "cordons_by (\<lambda>new. new = [] \<or> new = [(name, True)]) (drain fuel env name opts)"
  unfolding cordons_by_def
proof (intro allI wp_drain)
  fix s :: "'a drain_st" and pods deadline and t :: "'a drain_st"
  assume t: "st_calls t = st_calls s @ [CallCordon name True, CallListed pods]"
  show "wp (evict_and_wait fuel env name opts deadline pods
     \<lparr>ds_evicted = 0, ds_skipped = skipped_pod_count pods, ds_failed = []\<rparr>)
     (\<lambda>_ t. \<exists>cs. st_calls t = st_calls s @ cs \<and> (cordons_of cs = [] \<or> cordons_of cs = [(name, True)])) t"
    by (rule wp_mono[OF wp_onlyI[OF only_evict_and_wait]])
      (use t in \<open>auto simp: grows_def cordons_of_def map_filter_simps intro!: no_cordons[unfolded cordons_of_def]\<close>)
qed (simp_all add: cordons_of_def map_filter_simps)

section \<open>The cordon of a task\<close>

lemma cw_may_panic [cw_intros]: "(\<And>p. R p cs) \<Longrightarrow> cw (may_panic env) R cs"
  unfolding may_panic_def by (intro cw_intros)

lemma cw_unwind [cw_intros]: "R (Some (Inl (uw_payload u))) cs \<Longrightarrow> cw (unwind u) R cs"
  unfolding unwind_def by (intro cw_intros)

lemma cw_stage:
  assumes m: "cordons_by N m"
    and "\<And>u n old. N old \<Longrightarrow> R (Some (Inl u)) (cs @ take n old)"
    and "\<And>a new. N new \<Longrightarrow> cw (k a) R (cs @ new)"
  shows "cw (stage env m k) R cs"
  unfolding stage_def
  by (intro cw_intros cw_lift[OF m] cw_lift[OF cordons_by_cut[OF m]]) (use assms(2,3) in auto)

lemma cw_request [cw_intros]: "(\<And>r. R r cs) \<Longrightarrow> cw (request_power env name action) R cs"
  unfolding request_power_def by (intro cw_intros)

lemma cw_power_stage [cw_intros]:
  "(\<And>u. R (Some (Inl u)) cs) \<Longrightarrow> (\<And>r. cw (k r) R cs) \<Longrightarrow> cw (power_stage env name action k) R cs"
  unfolding power_stage_def by (intro cw_intros)

lemma cw_emit [cw_intros]: "R () cs \<Longrightarrow> cw (emit_event env jid k) R cs"
  unfolding emit_event_def by (intro cw_intros) auto

lemma cw_pump [cw_intros]: "R () cs \<Longrightarrow> cw (pump env jid ks) R cs"
  by (induction ks) (auto intro!: cw_intros)

lemma cw_finish [cw_intros]: "R (Some (Inr k)) cs \<Longrightarrow> cw (finish_kind k) R cs"
  unfolding finish_kind_def by (intro cw_intros)

lemma cw_begin [cw_intros]: "(\<And>b. R b cs) \<Longrightarrow> cw (begin_step env jid) R cs"
  unfolding begin_step_def by (intro cw_intros)

lemma cw_uncordon:
  "(\<And>u n. R (Some (Inl u)) (cs @ take n [(name, False)])) \<Longrightarrow> (\<And>a. cw (k a) R (cs @ [(name, False)])) \<Longrightarrow>
   cw (stage env (cordon (je_drain env) name False) k) R cs"
  by (rule cw_stage[OF cordons_by_cordon]) auto

lemma cw_wait:
  "(\<And>u. R (Some (Inl u)) cs) \<Longrightarrow> (\<And>a. cw (k a) R cs) \<Longrightarrow>
   cw (stage env (wait_for_node_reboot fuel (je_drain env) name previous d) k) R cs"
  by (rule cw_stage[OF cordons_by_wait]) auto

lemma cw_restore:
  "(c \<Longrightarrow> cw k R cs) \<Longrightarrow> (\<And>u n. \<not> c \<Longrightarrow> R (Some (Inl u)) (cs @ take n [(name, False)])) \<Longrightarrow>
   (\<not> c \<Longrightarrow> cw k R (cs @ [(name, False)])) \<Longrightarrow> cw (restore_cordon env name c k) R cs"
  unfolding restore_cordon_def by (intro cw_intros cw_uncordon)

definition panicked :: "drain_event_kind \<Rightarrow> bool" where
  "panicked k \<longleftrightarrow> (\<exists>p. k = DrainError (panic_message p))"

definition cordon_restored :: "drain_job_request \<Rightarrow> drain_event_kind \<Rightarrow> (string \<times> bool) list \<Rightarrow> bool" where
  "cordon_restored req k cs \<longleftrightarrow>
     (case jr_power req of
       None \<Rightarrow> set cs \<subseteq> {(jr_name req, True)}
     | Some p \<Rightarrow>
         if pp_was_cordoned p then set cs \<subseteq> {(jr_name req, True)}
         else fst ` set cs \<subseteq> {jr_name req}
           \<and> (panicked k \<or> k = Cancelled \<or> (\<exists>S. k = Done S \<and> ds_failed S = [] \<and> pp_action p \<noteq> ''reboot'')
              \<or> (cs \<noteq> [] \<and> last cs = (jr_name req, False))))"

lemma after_drain_cordons:
  assumes "cs = [] \<or> cs = [(jr_name req, True)]"
  shows "cw (after_drain fuel env jid (jr_name req) (jr_power req) result)
    (\<lambda>r cs. case r of None \<Rightarrow> True
      | Some outcome \<Rightarrow> cordon_restored req (case outcome of Inr k \<Rightarrow> k | Inl u \<Rightarrow> DrainError (panic_message u)) cs) cs"
  using assms unfolding after_drain_def run_power_def
  by (cases "jr_power req"; intro cw_intros cw_restore cw_uncordon cw_wait)
    (auto simp: cordon_restored_def panicked_def take_Cons split: nat.splits)

lemma task_cordons:
  "cw (drain_task fuel env req jid) (\<lambda>r cs. case r of None \<Rightarrow> True | Some k \<Rightarrow> cordon_restored req k cs) []"
proof -
  have cut: "cordon_restored req (DrainError (panic_message u)) (take n old)"
    if "old = [] \<or> old = [(jr_name req, True)]" for u n old
    using that by (auto simp: cordon_restored_def panicked_def take_Cons split: nat.splits option.splits)
  have "cw (drain_stage fuel env req jid)
    (\<lambda>r cs. case r of None \<Rightarrow> True
      | Some outcome \<Rightarrow> cordon_restored req (case outcome of Inr k \<Rightarrow> k | Inl u \<Rightarrow> DrainError (panic_message u)) cs) []"
    unfolding drain_stage_def Let_def
    by (intro cw_intros cw_lift[OF cordons_by_sent[OF cordons_by_drain]]
        cw_lift[OF cordons_by_sent[OF cordons_by_cut[OF cordons_by_drain]]])
      (auto intro!: cut after_drain_cordons)
  note stage = this
  show ?thesis
    unfolding drain_task_def finish_with_def Let_def
    by (rule cw_bind, rule cw_bind, rule cw_mono[OF stage]) (intro cw_intros; simp)
qed

section \<open>The registry under a task\<close>

text \<open>Everything a task does to the registry is a sequence of the registry's steps, if what the others
  do meanwhile is; and the others leave the finishing of the job to its task.\<close>

definition others_fair :: "'w job_env \<Rightarrow> nat \<Rightarrow> bool" where
  "others_fair env jid \<longleftrightarrow> (\<forall>j w. \<exists>ops. job_steps j ops (fst (je_interfere env j w)) \<and> (\<forall>k. OpFinish jid k \<notin> set ops))"

definition steps_to :: "nat \<Rightarrow> 'w job_st \<Rightarrow> 'w job_st \<Rightarrow> bool" where
  "steps_to jid s t \<longleftrightarrow> (\<exists>ops. job_steps (js_jobs s) ops (js_jobs t) \<and> (\<forall>k. OpFinish jid k \<notin> set ops))"

lemma steps_to_refl: "js_jobs t = js_jobs s \<Longrightarrow> steps_to jid s t"
  unfolding steps_to_def by (metis empty_iff empty_set steps_refl)

lemma job_steps_append: "job_steps j ops j1 \<Longrightarrow> job_steps j1 ops' j2 \<Longrightarrow> job_steps j (ops @ ops') j2"
  by (induction rule: job_steps.induct) (auto intro: steps_step)

lemma steps_to_trans: "steps_to jid s t \<Longrightarrow> steps_to jid t u \<Longrightarrow> steps_to jid s u"
  unfolding steps_to_def using job_steps_append by (metis UnE set_append)

definition reg :: "nat \<Rightarrow> ('w job_st, 'a) state \<Rightarrow> bool" where
  "reg jid m \<longleftrightarrow> (\<forall>s. wp m (\<lambda>_. steps_to jid s) s)"

named_theorems reg_intros "steps that act on the registry by its operations only"

lemma reg_ret [reg_intros]: "reg jid (ret a)"
  by (simp add: reg_def steps_to_refl)

lemma wp_steps:
  assumes "reg jid m" "steps_to jid s t"
  shows "wp m (\<lambda>_. steps_to jid s) t"
  using assms unfolding reg_def by (blast intro: wp_mono steps_to_trans)

lemma reg_bind [reg_intros]:
  assumes "reg jid m" "\<And>a. reg jid (f a)"
  shows "reg jid (State_Monad.bind m f)"
  unfolding reg_def wp_bind
  by (intro allI wp_mono[OF assms(1)[unfolded reg_def, rule_format]] wp_steps[OF assms(2)])

lemma reg_act [reg_intros]: "reg jid (act x)"
  by (simp add: reg_def act_def wp_State steps_to_refl)

lemma reg_lift [reg_intros]: "reg jid (lift_drain m)"
  by (simp add: reg_def lift_drain_def wp_State steps_to_refl split: prod.split)

lemma reg_if [reg_intros]: "(c \<Longrightarrow> reg jid m) \<Longrightarrow> (\<not> c \<Longrightarrow> reg jid n) \<Longrightarrow> reg jid (if c then m else n)"
  by simp

lemma reg_option [reg_intros]:
  "reg jid f \<Longrightarrow> (\<And>x. reg jid (g x)) \<Longrightarrow> reg jid (case r of None \<Rightarrow> f | Some x \<Rightarrow> g x)"
  by (cases r) simp_all

lemma reg_sum [reg_intros]:
  "(\<And>x. reg jid (f x)) \<Longrightarrow> (\<And>x. reg jid (g x)) \<Longrightarrow> reg jid (case r of Inl x \<Rightarrow> f x | Inr x \<Rightarrow> g x)"
  by (cases r) simp_all

lemma reg_unwind [reg_intros]: "reg jid (unwind u)"
  unfolding unwind_def by (intro reg_intros)

lemma reg_may_panic [reg_intros]: "reg jid (may_panic env)"
  unfolding may_panic_def by (intro reg_intros)

lemma reg_stage [reg_intros]: "(\<And>a. reg jid (k a)) \<Longrightarrow> reg jid (stage env m k)"
  unfolding stage_def by (intro reg_intros)

lemma reg_power_stage [reg_intros]: "(\<And>a. reg jid (k a)) \<Longrightarrow> reg jid (power_stage env name action k)"
  unfolding power_stage_def request_power_def by (intro reg_intros)

lemma reg_finish_kind [reg_intros]: "reg jid (finish_kind k)"
  unfolding finish_kind_def by (intro reg_intros)

lemma reg_restore [reg_intros]: "reg jid k \<Longrightarrow> reg jid (restore_cordon env name c k)"
  unfolding restore_cordon_def by (intro reg_intros)

lemma interfered:
  assumes "others_fair env jid" "je_interfere env j w = (j', w')"
  obtains ops where "job_steps j ops j'" "\<forall>k. OpFinish jid k \<notin> set ops"
  using assms unfolding others_fair_def by (metis fst_conv)

lemma reg_on_jobs:
  assumes fair: "others_fair env jid" and op: "\<And>j. \<exists>op. job_step j op (snd (f j)) \<and> (\<forall>k. op \<noteq> OpFinish jid k)"
  shows "reg jid (on_jobs env f)"
  unfolding reg_def on_jobs_def wp_State
proof
  fix s :: "'a job_st"
  obtain j w where jw: "je_interfere env (js_jobs s) (st_world (js_drain s)) = (j, w)" by fastforce
  then obtain ops where ops: "job_steps (js_jobs s) ops j" "\<forall>k. OpFinish jid k \<notin> set ops"
    by (rule interfered[OF fair])
  obtain x where x: "job_step j x (snd (f j))" "\<forall>k. x \<noteq> OpFinish jid k" using op by blast
  have "job_steps (js_jobs s) (ops @ [x]) (snd (f j))"
    using ops(1) x(1) by (auto intro: job_steps_append steps_step steps_refl)
  moreover have "\<forall>k. OpFinish jid k \<notin> set (ops @ [x])" using ops(2) x(2) by auto
  ultimately show "steps_to jid s (snd (case je_interfere env (js_jobs s) (st_world (js_drain s)) of (j, w) \<Rightarrow>
     case f j of (a, j') \<Rightarrow> (a, s\<lparr>js_jobs := j', js_drain := (js_drain s)\<lparr>st_world := w\<rparr>\<rparr>)))"
    by (auto simp: jw steps_to_def split: prod.split)
qed

lemma reg_emit:
  "others_fair env jid \<Longrightarrow> \<not> is_terminal_kind k \<Longrightarrow> reg jid (emit_event env jid k)"
  unfolding emit_event_def by (rule reg_on_jobs) (auto intro!: exI[of _ "OpEmit jid k"] step_emit)

lemma reg_pump:
  "others_fair env jid \<Longrightarrow> \<forall>k\<in>set ks. \<not> is_terminal_kind k \<Longrightarrow> reg jid (pump env jid ks)"
  by (induction ks) (auto intro!: reg_intros reg_emit)

lemma reg_begin: "others_fair env jid \<Longrightarrow> reg jid (begin_step env jid)"
  unfolding begin_step_def
  by (intro reg_intros reg_on_jobs) (auto intro!: exI[of _ "OpBegin jid"] step_begin)

lemma reg_after_drain:
  assumes "others_fair env jid"
  shows "reg jid (after_drain fuel env jid name pwr result)"
  unfolding after_drain_def run_power_def
  by (intro reg_intros reg_begin[OF assms] reg_emit[OF assms]) simp_all

section \<open>The end of a task\<close>

text \<open>What the drain sends is never a terminal event, nor is what it sent before a panic.\<close>

definition sends_open :: "('w drain_st, 'a) state \<Rightarrow> bool" where
  "sends_open m \<longleftrightarrow>
     (\<forall>s. wp m (\<lambda>_ t. \<exists>ks. st_events t = st_events s @ ks \<and> (\<forall>k\<in>set ks. \<not> is_terminal_kind k)) s)"

lemma progress_open: "is_progress k \<Longrightarrow> \<not> is_terminal_kind k"
  by (cases k) simp_all

lemma sends_open_drain: "sends_open (drain fuel env name opts)"
  unfolding sends_open_def
proof (intro allI wp_drain)
  fix s :: "'a drain_st" and pods deadline and t :: "'a drain_st"
  assume t: "st_events t = st_events s @ [Cordoned]"
  show "wp (evict_and_wait fuel env name opts deadline pods
     \<lparr>ds_evicted = 0, ds_skipped = skipped_pod_count pods, ds_failed = []\<rparr>)
     (\<lambda>_ t. \<exists>ks. st_events t = st_events s @ ks \<and> (\<forall>k\<in>set ks. \<not> is_terminal_kind k)) t"
    by (rule wp_mono[OF wp_onlyI[OF only_evict_and_wait]])
      (use t in \<open>fastforce simp: grows_def dest: progress_open\<close>)
qed auto

lemma sends_open_cut:
  assumes "sends_open m"
  shows "sends_open (cut u m)"
  unfolding sends_open_def
proof
  fix s :: "'a drain_st"
  obtain a t where run: "run_state m s = (a, t)" by fastforce
  with assms obtain ks where ks: "st_events t = st_events s @ ks" "\<forall>k\<in>set ks. \<not> is_terminal_kind k"
    by (auto simp: sends_open_def wp_def dest!: spec[of _ s])
  show "wp (cut u m) (\<lambda>_ t. \<exists>ks. st_events t = st_events s @ ks \<and> (\<forall>k\<in>set ks. \<not> is_terminal_kind k)) s"
    using ks by (auto simp: cut_def wp_State run dest: in_set_takeD)
qed

lemma wp_sent: "wp (sent_by m) Q s = wp m (\<lambda>a t. Q (a, drop (length (st_events s)) (st_events t)) t) s"
  by (simp add: sent_by_def wp_def split: prod.splits)

lemma sent_open:
  assumes "sends_open m"
  shows "wp (sent_by m) (\<lambda>r _. \<forall>k\<in>set (snd r). \<not> is_terminal_kind k) s"
  using assms by (auto simp: sends_open_def sent_by_def wp_State wp_def dest!: spec[of _ s] split: prod.splits)

lemma reg_sent:
  assumes "sends_open m" and "\<And>r. \<forall>k\<in>set (snd r). \<not> is_terminal_kind k \<Longrightarrow> reg jid (f r)"
  shows "reg jid (do { r \<leftarrow> lift_drain (sent_by m); f r })"
  unfolding reg_def wp_bind wp_lift_drain
proof
  fix s :: "'a job_st"
  show "wp (sent_by m) (\<lambda>r d. wp (f r) (\<lambda>_. steps_to jid s) (s\<lparr>js_drain := d\<rparr>)) (js_drain s)"
    by (rule wp_mono[OF sent_open[OF assms(1)]]) (auto intro!: wp_steps assms(2) steps_to_refl)
qed

lemma reg_drain_stage:
  assumes "others_fair env jid"
  shows "reg jid (drain_stage fuel env req jid)"
  unfolding drain_stage_def Let_def
  by (intro reg_bind reg_option reg_may_panic reg_sent sends_open_drain sends_open_cut)
    (intro reg_intros reg_pump[OF assms] reg_after_drain[OF assms]; assumption)+

text \<open>The whole task: the registry's steps, and then the one that finishes the job.\<close>

definition finished_by :: "nat \<Rightarrow> drain_event_kind \<Rightarrow> 'w job_st \<Rightarrow> 'w job_st \<Rightarrow> bool" where
  "finished_by jid k s t \<longleftrightarrow>
     (\<exists>ops j. job_steps (js_jobs s) ops j \<and> (\<forall>k. OpFinish jid k \<notin> set ops) \<and> js_jobs t = finish jid k j)"

lemma finish_after:
  assumes fair: "others_fair env jid" and st: "steps_to jid s t"
  shows "wp (on_jobs env (\<lambda>j. ((), finish jid k j))) (\<lambda>_. finished_by jid k s) t"
proof -
  obtain j w where jw: "je_interfere env (js_jobs t) (st_world (js_drain t)) = (j, w)" by fastforce
  then obtain ops where ops: "job_steps (js_jobs t) ops j" "\<forall>k. OpFinish jid k \<notin> set ops"
    by (rule interfered[OF fair])
  from st obtain ops' where "job_steps (js_jobs s) ops' (js_jobs t)" "\<forall>k. OpFinish jid k \<notin> set ops'"
    by (auto simp: steps_to_def)
  with ops have "job_steps (js_jobs s) (ops' @ ops) j" "\<forall>k. OpFinish jid k \<notin> set (ops' @ ops)"
    by (auto intro: job_steps_append)
  then have "finished_by jid k s (t\<lparr>js_jobs := finish jid k j, js_drain := (js_drain t)\<lparr>st_world := w\<rparr>\<rparr>)"
    unfolding finished_by_def by (intro exI[of _ "ops' @ ops"] exI[of _ j]) simp
  then show ?thesis by (simp add: on_jobs_def wp_State jw)
qed

lemma finished_by_same: "js_jobs t' = js_jobs t \<Longrightarrow> finished_by jid k s t \<Longrightarrow> finished_by jid k s t'"
  by (simp add: finished_by_def)

lemma wp_act: "wp (act a) Q s = Q () (s\<lparr>js_log := js_log s @ [a]\<rparr>)"
  by (simp add: act_def wp_State)

lemma task_finishes:
  assumes fair: "others_fair env jid"
  shows "wp (drain_task fuel env req jid) (\<lambda>r t. \<forall>k. r = Some k \<longrightarrow> finished_by jid k s t) s"
  unfolding drain_task_def finish_with_def Let_def wp_bind
proof (rule wp_mono[OF reg_drain_stage[OF fair, unfolded reg_def, rule_format]])
  fix r and t :: "'a job_st" assume st: "steps_to jid s t"
  show "wp (case r of None \<Rightarrow> ret None
      | Some outcome \<Rightarrow> do {
          on_jobs env (\<lambda>j. ((), finish jid (case outcome of Inl payload \<Rightarrow> DrainError (panic_message payload) | Inr k \<Rightarrow> k) j));
          act (ActFinish (case outcome of Inl payload \<Rightarrow> DrainError (panic_message payload) | Inr k \<Rightarrow> k));
          ret (Some (case outcome of Inl payload \<Rightarrow> DrainError (panic_message payload) | Inr k \<Rightarrow> k)) })
      (\<lambda>a. wp (case a of None \<Rightarrow> ret None
        | Some k \<Rightarrow> do { (if jr_lease req then act ActReleaseLease else ret ()); ret (Some k) })
        (\<lambda>r t. \<forall>k. r = Some k \<longrightarrow> finished_by jid k s t)) t"
  proof (cases r)
    case (Some outcome)
    show ?thesis
      unfolding Some option.case wp_bind
      by (rule wp_mono[OF finish_after[OF fair st]]) (auto simp: wp_act wp_bind elim: finished_by_same[rotated])
  qed simp
qed

section \<open>The task completes\<close>

text \<open>With the drain's deadline and a clock that moves, every stage ends, by its result or by a panic.\<close>

definition completes :: "('w job_st, outcome) state \<Rightarrow> bool" where
  "completes m \<longleftrightarrow> (\<forall>s. wp m (\<lambda>r _. r \<noteq> None) s)"

lemma completes_bind: "(\<And>a. completes (f a)) \<Longrightarrow> completes (State_Monad.bind m f)"
  unfolding completes_def wp_bind by (auto intro: wp_trivial)

lemma completes_after:
  assumes "\<And>s. wp m (\<lambda>a _. P a) s" and "\<And>a. P a \<Longrightarrow> completes (f a)"
  shows "completes (State_Monad.bind (lift_drain m) f)"
  unfolding completes_def wp_bind wp_lift_drain
  by (intro allI wp_mono[OF assms(1)]) (use assms(2) in \<open>auto simp: completes_def\<close>)

lemma completes_cases:
  "completes (finish_kind k)" "completes (unwind u)"
  "completes m \<Longrightarrow> completes n \<Longrightarrow> completes (if c then m else n)"
  "completes m' \<Longrightarrow> (\<And>x. completes (g x)) \<Longrightarrow> completes (case r of None \<Rightarrow> m' | Some x \<Rightarrow> g x)"
  "(\<And>x. completes (f' x)) \<Longrightarrow> (\<And>x. completes (g' x)) \<Longrightarrow> completes (case q of Inl x \<Rightarrow> f' x | Inr x \<Rightarrow> g' x)"
  by (auto simp: completes_def finish_kind_def unwind_def wp_bind wp_act split: option.split sum.split)

lemma completes_stage: "(\<And>a. completes (k a)) \<Longrightarrow> completes (stage env m k)"
  unfolding stage_def by (intro completes_bind completes_cases)

lemma completes_stage_result:
  assumes "\<And>s. wp m (\<lambda>a _. P a) s" "\<And>a. P a \<Longrightarrow> completes (k a)"
  shows "completes (stage env m k)"
  unfolding stage_def by (intro completes_bind completes_cases completes_after[of m P] assms)

lemma completes_power_stage: "(\<And>a. completes (k a)) \<Longrightarrow> completes (power_stage env name action k)"
  unfolding power_stage_def by (intro completes_bind completes_cases)

lemma completes_restore: "completes k \<Longrightarrow> completes (restore_cordon env name c k)"
  unfolding restore_cordon_def by (intro completes_cases completes_stage)

lemma wait_for_node_reboot_ends:
  assumes "clock_ok env clock"
  shows "wp (wait_for_node_reboot 1802 env name previous REBOOT_TIMEOUT) (\<lambda>r _. r \<noteq> None) s"
proof -
  have "wp (reboot_loop (Suc 1801) env name previous (t + REBOOT_TIMEOUT) False) (\<lambda>r _. r \<noteq> None) s'"
    if "t \<le> time clock s'" for t s'
    by (rule reboot_loop_terminates[OF assms]) (use that in \<open>simp add: REBOOT_TIMEOUT_def RETRY_DELAY_def\<close>)
  then have "wp (wait_for_node_reboot (Suc 1801) env name previous REBOOT_TIMEOUT) (\<lambda>r _. r \<noteq> None) s"
    unfolding wait_for_node_reboot_def by (intro tick_intros tick_now[OF assms])
  then show ?thesis by simp
qed

lemma completes_wait:
  assumes ok: "clock_ok (je_drain env) clock" and k: "\<And>w. completes (k (Some w))"
  shows "completes (stage env (wait_for_node_reboot 1802 (je_drain env) name previous REBOOT_TIMEOUT) k)"
  by (rule completes_stage_result[OF wait_for_node_reboot_ends[OF ok]]) (use k in auto)

lemma completes_after_drain:
  assumes "clock_ok (je_drain env) clock"
  shows "completes (after_drain 1802 env jid name pwr result)"
  unfolding after_drain_def run_power_def
  by (intro completes_bind completes_cases(1,3,5) completes_cases(4)[of _ _ pwr] completes_restore
      completes_power_stage completes_stage completes_wait[OF assms] | simp only: option.case)+

lemma drain_stage_completes:
  assumes ok: "clock_ok (je_drain env) clock" and t: "0 < timeout_secs (jr_options req)"
  shows "completes (drain_stage 1802 env req jid)"
proof -
  have "wp (drain 1802 (je_drain env) (jr_name req) (jr_options req)) (\<lambda>r _. r \<noteq> None) s" for s
    by (rule drain_ends[OF ok t])
  then have "wp (sent_by (drain 1802 (je_drain env) (jr_name req) (jr_options req))) (\<lambda>r _. fst r \<noteq> None) s" for s
    by (simp only: wp_sent fst_conv)
  note after = completes_after[OF this]
  have rest: "completes (case fst r of None \<Rightarrow> ret None
      | Some result \<Rightarrow> do { act (ActDrained result); after_drain 1802 env jid (jr_name req) (jr_power req) result })"
    if "fst r \<noteq> None" for r :: "(k8s_error + drain_summary) option \<times> drain_event_kind list"
    using that by (auto intro!: completes_bind completes_after_drain[OF ok])
  show ?thesis
    unfolding drain_stage_def Let_def
    by (rule completes_bind, rule completes_cases(4), rule after)
      (auto intro!: completes_bind completes_cases(2) rest)
qed

lemma task_completes:
  assumes ok: "clock_ok (je_drain env) clock" and t: "0 < timeout_secs (jr_options req)"
  shows "wp (drain_task 1802 env req jid) (\<lambda>r _. r \<noteq> None) s"
  unfolding drain_task_def finish_with_def Let_def wp_bind
  by (rule wp_mono[OF drain_stage_completes[OF assms, unfolded completes_def, rule_format]])
    (auto simp: wp_rules wp_act on_jobs_def split: prod.split)

lemma finish_closes: "hm_get (dj_entries (finish jid k j)) jid = Some e \<Longrightarrow> en_done e"
  by (auto simp: finish_def split: option.splits if_splits)

lemma finish_records:
  "hm_get (dj_entries j) jid = Some e \<and> \<not> en_done e \<Longrightarrow>
   \<exists>e'. hm_get (dj_entries (finish jid k j)) jid = Some e' \<and> map de_kind (en_events e') = map de_kind (en_events e) @ [k]"
  by (auto simp: finish_def)

section \<open>A shutdown on the simulated cluster\<close>

definition demo_env :: "sim job_env" where
  "demo_env = \<lparr>je_drain = sim_env, je_interfere = (\<lambda>j w. (j, w)), je_panic = (\<lambda>w. (None, w)),
     je_power = (\<lambda>_ _ w. (Inr (), w))\<rparr>"

definition demo_req :: drain_job_request where
  "demo_req = \<lparr>jr_owner = ''alice'', jr_key = ''v1/Node'', jr_name = ''n1'', jr_options = sim_opts,
     jr_power = Some \<lparr>pp_action = ''shutdown'', pp_was_cordoned = False, pp_previous_boot_id = None\<rparr>,
     jr_lease = True\<rparr>"

definition demo_state :: "sim job_st" where
  "demo_state = \<lparr>js_drain = fresh sim_world, js_jobs = open_jobs, js_log = []\<rparr>"

abbreviation demo_summary :: drain_summary where
  "demo_summary \<equiv> \<lparr>ds_evicted = 1, ds_skipped = 1, ds_failed = []\<rparr>"

definition demo_end :: "sim job_st" where
  "demo_end = snd (run_state (drain_task 3 demo_env demo_req 0) demo_state)"

lemma demo_env_simps [simp]:
  "je_drain demo_env = sim_env" "je_interfere demo_env j w = (j, w)" "je_panic demo_env w = (None, w)"
  "je_power demo_env n a w = (Inr (), w)"
  by (simp_all add: demo_env_def)

lemma demo_pump:
  "run_state (pump demo_env 0 ks) s =
     ((), s\<lparr>js_jobs := foldl (\<lambda>j k. emit 0 k j) (js_jobs s) ks\<rparr>)"
  by (induction ks arbitrary: s) (simp_all add: emit_event_def on_jobs_def)

definition demo_jobs_at :: "nat \<Rightarrow> drain_jobs" where
  "demo_jobs_at n = emit 0 (Evicted ''web'' n n) (emit 0 (Started n) (emit 0 Cordoned open_jobs))"

lemma demo_committed:
  "begin_non_cancellable 0 (emit 0 (Evicted ''web'' n n) (emit 0 (Started n) (emit 0 Cordoned open_jobs)))
    = (True, snd (begin_non_cancellable 0 (demo_jobs_at n)))"
  by (simp add: demo_jobs_at_def open_jobs_def begin_non_cancellable_def create_for_def jobs_new_def
      target_busy_def hm_any_def Let_def emit_def push_event_def del: hm_in_set)

lemma demo_run:
  "run_state (drain_task 3 demo_env demo_req 0) demo_state = (Some (Done demo_summary), demo_end)"
  "js_log demo_end = [ActDrained (Inr demo_summary), ActBegin True, ActPower ''n1'' ''shutdown'',
     ActFinish (Done demo_summary), ActReleaseLease]"
proof -
  have "fst (run_state (drain_task 3 demo_env demo_req 0) demo_state) = Some (Done demo_summary)
    \<and> js_log demo_end = [ActDrained (Inr demo_summary), ActBegin True, ActPower ''n1'' ''shutdown'',
     ActFinish (Done demo_summary), ActReleaseLease]"
    by (simp add: demo_committed demo_end_def demo_state_def demo_req_def drain_task_def finish_with_def drain_stage_def
        stage_def power_stage_def request_power_def may_panic_def sent_by_def lift_drain_def sim_run sim_after_def demo_pump act_def after_drain_def begin_step_def
        on_jobs_def run_power_def emit_event_def finish_kind_def Let_def)
  then show "run_state (drain_task 3 demo_env demo_req 0) demo_state = (Some (Done demo_summary), demo_end)"
    "js_log demo_end = [ActDrained (Inr demo_summary), ActBegin True, ActPower ''n1'' ''shutdown'',
     ActFinish (Done demo_summary), ActReleaseLease]"
    by (simp_all add: demo_end_def prod_eq_iff)
qed

lemma demo_facts: "js_log demo_state = []" "st_calls (js_drain demo_state) = []" "others_fair demo_env jid" "clock_ok (je_drain demo_env) fst"
    "0 < timeout_secs (jr_options demo_req)"
  by (auto simp: demo_state_def others_fair_def demo_req_def sim_clock intro: steps_refl)

section \<open>Properties\<close>

text \<open>C3: power is touched only behind a clean, committed drain.  If a drain job asks Talos for a
  power action, then its drain returned a summary without failures (so it was neither blocked nor
  timed out), its cancellation had been closed successfully, the action and the node are those
  of the request, and it asks once.\<close>

theorem power_only_after_clean_drain:
  assumes "js_log s = []" and "run_state (drain_task fuel env req jid) s = (r, t)"
    and "ActPower n a \<in> set (js_log t)"
  shows "\<exists>S p rest. js_log t = ActDrained (Inr S) # ActBegin True # ActPower n a # rest
    \<and> ds_failed S = [] \<and> jr_power req = Some p \<and> n = jr_name req \<and> a = pp_action p
    \<and> (\<forall>x\<in>set rest. \<forall>n a. x \<noteq> ActPower n a)"
proof -
  have "power_guarded req (js_log t)"
    by (rule lw_run[OF _ assms(2)]) (use task_power_guarded[of fuel env req jid] assms(1) in simp)
  with assms(3) show ?thesis unfolding power_guarded_def by blast
qed

theorem power_only_after_clean_drain_witness:
  "ActPower ''n1'' ''shutdown'' \<in> set (js_log demo_end)
   \<and> (\<exists>S rest. js_log demo_end = ActDrained (Inr S) # ActBegin True # rest \<and> ds_failed S = [])"
proof -
  have "ActPower ''n1'' ''shutdown'' \<in> set (js_log demo_end)" by (simp add: demo_run)
  with power_only_after_clean_drain[OF demo_facts(1) demo_run(1) this] show ?thesis by blast
qed

text \<open>C5: a drain job ends, and exactly once, panics included.  With a deadline for its drain, a clock
  that moves, and other tasks that use the registry through its operations and leave the finishing
  of this job to its task, the task completes whatever the cluster answers and wherever it panics: its last act is a
  terminal event (before the release of the lease, when it has one) and there is no other; after a panic
  this event is the error that reports the panic; the registry has been reached by its own operations,
  the very last of which finishes this job with that event, which closes a job that was still open.\<close>

theorem job_ends_once:
  assumes "clock_ok (je_drain env) clock" and "0 < timeout_secs (jr_options req)" and "others_fair env jid"
    and "js_log s = []"
  shows "\<exists>k t before ops j. run_state (drain_task 1802 env req jid) s = (Some k, t) \<and> is_terminal_kind k
    \<and> js_log t = before @ [ActFinish k] @ (if jr_lease req then [ActReleaseLease] else [])
    \<and> (\<forall>x\<in>set before. (\<forall>k'. x \<noteq> ActFinish k') \<and> x \<noteq> ActReleaseLease)
    \<and> (\<forall>p. ActPanic p \<in> set before \<longrightarrow> k = DrainError (panic_message p))
    \<and> job_steps (js_jobs s) ops j \<and> (\<forall>k'. OpFinish jid k' \<notin> set ops) \<and> js_jobs t = finish jid k j
    \<and> (\<forall>e. hm_get (dj_entries (js_jobs t)) jid = Some e \<longrightarrow> en_done e)
    \<and> (\<forall>e. hm_get (dj_entries j) jid = Some e \<and> \<not> en_done e \<longrightarrow>
         (\<exists>e'. hm_get (dj_entries (js_jobs t)) jid = Some e' \<and> map de_kind (en_events e') = map de_kind (en_events e) @ [k]))"
proof -
  obtain k t where run: "run_state (drain_task 1802 env req jid) s = (Some k, t)"
    using task_completes[OF assms(1,2), of jid s] by (auto simp: wp_def split: prod.splits)
  have "ends_once req (Some k) (js_log t)"
    by (rule lw_run[OF _ run]) (use task_ends_once[of 1802 env req jid] assms(4) in simp)
  moreover have "finished_by jid k s t" using wp_run[OF task_finishes[OF assms(3)] run] by simp
  ultimately obtain before ops j where
    "is_terminal_kind k" "js_log t = before @ [ActFinish k] @ (if jr_lease req then [ActReleaseLease] else [])"
    "\<forall>x\<in>set before. (\<forall>k'. x \<noteq> ActFinish k') \<and> x \<noteq> ActReleaseLease"
    "\<forall>p. ActPanic p \<in> set before \<longrightarrow> k = DrainError (panic_message p)"
    "job_steps (js_jobs s) ops j" "\<forall>k'. OpFinish jid k' \<notin> set ops" "js_jobs t = finish jid k j"
    unfolding ends_once_def finished_by_def by blast
  then show ?thesis
    by (intro exI[of _ k] exI[of _ t] exI[of _ before] exI[of _ ops] exI[of _ j] conjI run)
      (simp_all add: finish_closes finish_records)
qed

theorem job_ends_once_witness:
  "\<exists>k t before. run_state (drain_task 1802 demo_env demo_req 0) demo_state = (Some k, t) \<and> is_terminal_kind k
     \<and> js_log t = before @ [ActFinish k, ActReleaseLease]"
proof -
  have lease: "jr_lease demo_req" by (simp add: demo_req_def)
  obtain k t before where "run_state (drain_task 1802 demo_env demo_req 0) demo_state = (Some k, t)" "is_terminal_kind k"
    "js_log t = before @ [ActFinish k] @ (if jr_lease demo_req then [ActReleaseLease] else [])"
    using job_ends_once[OF demo_facts(4,5,3,1), of 0] by blast
  then show ?thesis
    unfolding if_P[OF lease] append_Cons append_Nil by blast
qed

text \<open>The cordon is given back.  A drain task only ever cordons or uncordons the node of the job.  It never
  uncordons a node that was cordoned before, nor any node of a job without a power phase.  With a power phase, and a node
  that was not cordoned, its last such call uncordons the node, unless the task panicked, the job was cancelled (which
  leaves it cordoned on purpose), or the node was shut down.\<close>

theorem cordon_given_back:
  assumes "st_calls (js_drain s) = []" and "run_state (drain_task fuel env req jid) s = (Some k, t)"
  shows "cordon_restored req k (cordons_of (st_calls (js_drain t)))"
proof -
  have "wp (drain_task fuel env req jid) (\<lambda>r t. case r of None \<Rightarrow> True
      | Some k \<Rightarrow> cordon_restored req k (cordons_of (st_calls (js_drain t)))) s"
    using task_cordons[of fuel env req jid] assms(1) by (simp add: cw_def)
  from wp_run[OF this assms(2)] show ?thesis by simp
qed

end
