(* ===== verification/Lease.thy ===== *)
theory Lease
  imports KubeTypes Effects
begin

unbundle bit_operations_syntax

text \<open>
  \<open>crates/k8s/src/coordination.rs\<close>: the lease a replica of the server holds on a node while it
  works on it.  The API server is an environment of functions on a world; the calls are logged.
\<close>

section \<open>Replicas\<close>

record roder_pod =
  rp_name :: string
  rp_uid :: string
  rp_node :: string
  rp_ip :: string
  rp_ready :: bool
  rp_tls_fingerprint :: "string option"

definition TLS_FINGERPRINT_ANNOTATION :: string where
  "TLS_FINGERPRINT_ANNOTATION = ''roder.io/tls-fingerprint''"

definition pod_ready :: "object_meta \<Rightarrow> pod_status \<Rightarrow> bool" where
  "pod_ready meta st \<longleftrightarrow>
     om_deletion_timestamp meta = None \<and> pst_phase st = Some ''Running''
     \<and> (case pst_conditions st of None \<Rightarrow> False
        | Some conditions \<Rightarrow> list_ex (\<lambda>c. kc_type c = ''Ready'' \<and> kc_status c = ''True'') conditions)"

definition roder_pod_of :: "pod \<Rightarrow> roder_pod option" where
  "roder_pod_of p = do {
     st \<leftarrow> pod_status_of p;
     let ready = pod_ready (pod_metadata p) st;
     let fingerprint = Option.bind (om_annotations (pod_metadata p))
                         (\<lambda>annotations. hm_get annotations TLS_FINGERPRINT_ANNOTATION);
     name \<leftarrow> om_name (pod_metadata p);
     uid \<leftarrow> om_uid (pod_metadata p);
     node \<leftarrow> Option.bind (pod_spec_of p) ps_node_name;
     ip \<leftarrow> pst_pod_ip st;
     Some \<lparr>rp_name = name, rp_uid = uid, rp_node = node, rp_ip = ip, rp_ready = ready,
           rp_tls_fingerprint = fingerprint\<rparr> }"

definition roder_pods :: "pod list \<Rightarrow> roder_pod list" where
  "roder_pods items = List.map_filter roder_pod_of items"

definition roder_pod_named :: "string \<Rightarrow> pod list \<Rightarrow> roder_pod option" where
  "roder_pod_named name items = find (\<lambda>p. rp_name p = name) (roder_pods items)"

section \<open>Leases\<close>

record lease_spec =
  ls_holder_identity :: "string option"
  ls_duration_seconds :: "int option"
  ls_acquire_time :: "string option"
  ls_renew_time :: "string option"
  ls_transitions :: "32 word option"

record lease =
  l_name :: "string option"
  l_resource_version :: "string option"
  l_target :: "string option"
  l_spec :: "lease_spec option"

definition LEASE_DURATION_SECS :: int where
  "LEASE_DURATION_SECS = 45"

definition lease_holder :: "lease \<Rightarrow> string option" where
  "lease_holder l = (case l_spec l of None \<Rightarrow> None | Some sp \<Rightarrow> ls_holder_identity sp)"

definition new_lease :: "string \<Rightarrow> string \<Rightarrow> string \<Rightarrow> string \<Rightarrow> string \<Rightarrow> lease" where
  "new_lease name target holder acquired renewed =
     \<lparr>l_name = Some name, l_resource_version = None, l_target = Some target,
      l_spec = Some \<lparr>ls_holder_identity = Some holder, ls_duration_seconds = Some LEASE_DURATION_SECS,
        ls_acquire_time = Some acquired, ls_renew_time = Some renewed, ls_transitions = Some 0\<rparr>\<rparr>"

definition holder_pod_exists :: "string \<Rightarrow> roder_pod list \<Rightarrow> bool" where
  "holder_pod_exists holder pods = (case split_once (CHR ''/'') holder of
     None \<Rightarrow> True
   | Some (name, uid) \<Rightarrow> list_ex (\<lambda>p. rp_name p = name \<and> rp_uid p = uid) pods)"

section \<open>The name of a node's lease\<close>

definition fnv_step :: "64 word \<Rightarrow> nat \<Rightarrow> 64 word" where
  "fnv_step hash byte = (hash XOR of_nat byte) * 0x100000001b3"

definition fnv1a :: "string \<Rightarrow> string \<Rightarrow> 64 word" where
  "fnv1a scope target =
     foldl fnv_step 0xcbf29ce484222325 (map code scope @ [0] @ map code target)"

definition hex_digit :: "nat \<Rightarrow> char" where
  "hex_digit d = (if d < 10 then char_of (48 + d) else char_of (87 + d))"

text \<open>\<open>{hash:016x}\<close>: sixteen hexadecimal digits, most significant first.\<close>

definition hex16 :: "64 word \<Rightarrow> string" where
  "hex16 h = map (\<lambda>i. hex_digit (unat (drop_bit (4 * (15 - i)) h) mod 16)) [0..<16]"

definition lease_char :: "string \<Rightarrow> char" where
  "lease_char cp = (case cp of
     [c] \<Rightarrow> if is_ascii_alphanumeric c \<or> c = CHR ''-'' then to_ascii_lower c else CHR ''-''
   | _ \<Rightarrow> CHR ''-'')"

definition lease_name :: "string \<Rightarrow> string \<Rightarrow> string" where
  "lease_name scope target =
     (let suffix = hex16 (fnv1a scope target);
          label = take 220 (map lease_char (code_points target))
      in ''roder-node-'' @ trim_matches (\<lambda>c. c = CHR ''-'') label @ ''-'' @ suffix)"

section \<open>Calls\<close>

datatype lease_patch =
    PatchTake "string option" string string string "32 word"
  | PatchRenew "string option" string
  | PatchRelease "string option"

datatype lease_call =
    LGot string "lease option"
  | LPods "roder_pod list"
  | LCreate lease bool
  | LPatch string lease_patch bool

record 'w lease_env =
  le_get :: "string \<Rightarrow> 'w \<Rightarrow> (kube_error + lease option) \<times> 'w"
  le_create :: "lease \<Rightarrow> 'w \<Rightarrow> (kube_error + unit) \<times> 'w"
  le_patch :: "string \<Rightarrow> lease_patch \<Rightarrow> 'w \<Rightarrow> (kube_error + unit) \<times> 'w"
  le_pods :: "'w \<Rightarrow> (kube_error + pod list) \<times> 'w"
  le_now :: "'w \<Rightarrow> string \<times> 'w"

record coordinator =
  co_holder :: string
  co_scope :: string

record 'w lease_st =
  lst_world :: 'w
  lst_calls :: "lease_call list"

definition ask :: "('w \<Rightarrow> 'a \<times> 'w) \<Rightarrow> ('w lease_st, 'a) state" where
  "ask f = State (\<lambda>s. case f (lst_world s) of (a, w) \<Rightarrow> (a, s\<lparr>lst_world := w\<rparr>))"

definition logged :: "lease_call \<Rightarrow> ('w lease_st, unit) state" where
  "logged c = State (\<lambda>s. ((), s\<lparr>lst_calls := lst_calls s @ [c]\<rparr>))"

definition succeeded_call :: "kube_error + unit \<Rightarrow> bool" where
  "succeeded_call r = (case r of Inl _ \<Rightarrow> False | Inr _ \<Rightarrow> True)"

datatype acquire_error = Busy | Kubernetes kube_error

definition get_lease :: "'w lease_env \<Rightarrow> string \<Rightarrow> ('w lease_st, kube_error + lease option) state" where
  "get_lease env name = do {
     r \<leftarrow> ask (le_get env name);
     (case r of Inl e \<Rightarrow> ret () | Inr l \<Rightarrow> logged (LGot name l));
     ret r }"

definition list_pods :: "'w lease_env \<Rightarrow> ('w lease_st, kube_error + roder_pod list) state" where
  "list_pods env = do {
     r \<leftarrow> ask (le_pods env);
     case r of
       Inl e \<Rightarrow> ret (Inl e)
     | Inr items \<Rightarrow> do { logged (LPods (roder_pods items)); ret (Inr (roder_pods items)) } }"

definition patch_lease :: "'w lease_env \<Rightarrow> string \<Rightarrow> lease_patch \<Rightarrow> ('w lease_st, kube_error + unit) state" where
  "patch_lease env name body = do {
     r \<leftarrow> ask (le_patch env name body);
     logged (LPatch name body (succeeded_call r));
     ret r }"

section \<open>Acquiring\<close>

text \<open>Whether the current holder, if any, still lives: then the lease is busy.\<close>

definition check_holder ::
  "'w lease_env \<Rightarrow> lease option \<Rightarrow> ('w lease_st, acquire_error + unit) state" where
  "check_holder env current = (case current of
     None \<Rightarrow> ret (Inr ())
   | Some l \<Rightarrow> (case lease_holder l of
       None \<Rightarrow> ret (Inr ())
     | Some holder \<Rightarrow> do {
         pods \<leftarrow> list_pods env;
         ret (case pods of
             Inl e \<Rightarrow> Inl (Kubernetes e)
           | Inr ps \<Rightarrow> if holder_pod_exists holder ps then Inl Busy else Inr ()) }))"

definition take_transitions :: "coordinator \<Rightarrow> lease \<Rightarrow> 32 word" where
  "take_transitions c l =
     (case l_spec l of None \<Rightarrow> 0 | Some sp \<Rightarrow> (case ls_transitions sp of None \<Rightarrow> 0 | Some n \<Rightarrow> n))
     + (if lease_holder l \<noteq> Some (co_holder c) then 1 else 0)"

definition write_lease ::
  "'w lease_env \<Rightarrow> coordinator \<Rightarrow> string \<Rightarrow> string \<Rightarrow> lease option \<Rightarrow> ('w lease_st, kube_error + unit) state" where
  "write_lease env c name target current = (case current of
     None \<Rightarrow> do {
       acquired \<leftarrow> ask (le_now env);
       renewed \<leftarrow> ask (le_now env);
       let l = new_lease name target (co_holder c) acquired renewed in do {
       r \<leftarrow> ask (le_create env l);
       logged (LCreate l (succeeded_call r));
       ret r }}
   | Some l \<Rightarrow> do {
       acquired \<leftarrow> ask (le_now env);
       renewed \<leftarrow> ask (le_now env);
       patch_lease env name
         (PatchTake (l_resource_version l) (co_holder c) acquired renewed (take_transitions c l)) })"

text \<open>The attempts left are the first argument; a conflict uses one up.\<close>

fun acquire_loop ::
  "nat \<Rightarrow> 'w lease_env \<Rightarrow> coordinator \<Rightarrow> string \<Rightarrow> string \<Rightarrow> ('w lease_st, acquire_error + string) state" where
  "acquire_loop 0 env c name target = ret (Inl Busy)"
| "acquire_loop (Suc attempts) env c name target = do {
     current \<leftarrow> get_lease env name;
     case current of
       Inl e \<Rightarrow> ret (Inl (Kubernetes e))
     | Inr l \<Rightarrow> do {
         checked \<leftarrow> check_holder env l;
         case checked of
           Inl e \<Rightarrow> ret (Inl e)
         | Inr _ \<Rightarrow> do {
             result \<leftarrow> write_lease env c name target l;
             case result of
               Inr _ \<Rightarrow> ret (Inr name)
             | Inl e \<Rightarrow> (case e of
                 ErrApi status message \<Rightarrow>
                   if status = 409 then acquire_loop attempts env c name target
                   else ret (Inl (Kubernetes e))
               | _ \<Rightarrow> ret (Inl (Kubernetes e))) }}}"

definition acquire :: "'w lease_env \<Rightarrow> coordinator \<Rightarrow> string \<Rightarrow> ('w lease_st, acquire_error + string) state" where
  "acquire env c target = acquire_loop 4 env c (lease_name (co_scope c) target) target"

section \<open>Renewing and releasing\<close>

definition renew :: "'w lease_env \<Rightarrow> coordinator \<Rightarrow> string \<Rightarrow> ('w lease_st, acquire_error + unit) state" where
  "renew env c name = do {
     current \<leftarrow> get_lease env name;
     case current of
       Inl e \<Rightarrow> ret (Inl (Kubernetes e))
     | Inr found \<Rightarrow> (case found of
         None \<Rightarrow> ret (Inl Busy)
       | Some l \<Rightarrow>
           if lease_holder l \<noteq> Some (co_holder c) then ret (Inl Busy)
           else do {
             now \<leftarrow> ask (le_now env);
             r \<leftarrow> patch_lease env name (PatchRenew (l_resource_version l) now);
             ret (case r of Inl e \<Rightarrow> Inl (Kubernetes e) | Inr _ \<Rightarrow> Inr ()) }) }"

text \<open>One tick of the renewal task: the failures in a row, and whether the job is to be cancelled.\<close>

definition renew_tick :: "nat \<times> bool \<Rightarrow> acquire_error + unit \<Rightarrow> nat \<times> bool" where
  "renew_tick st result = (case st of (failures, cancel) \<Rightarrow>
     (case result of
        Inr _ \<Rightarrow> (0, cancel)
      | Inl _ \<Rightarrow> (failures + 1, cancel \<or> failures + 1 \<ge> 3)))"

definition renew_ticks :: "(acquire_error + unit) list \<Rightarrow> nat \<times> bool" where
  "renew_ticks results = foldl renew_tick (0, False) results"

definition release :: "'w lease_env \<Rightarrow> coordinator \<Rightarrow> string \<Rightarrow> ('w lease_st, unit) state" where
  "release env c name = do {
     current \<leftarrow> get_lease env name;
     case current of
       Inl e \<Rightarrow> ret ()
     | Inr found \<Rightarrow> (case found of
         None \<Rightarrow> ret ()
       | Some l \<Rightarrow>
           if lease_holder l = Some (co_holder c) then do {
             r \<leftarrow> patch_lease env name (PatchRelease (l_resource_version l));
             ret () }
           else ret ()) }"

end
