(* ===== verification/LeaseProps.thy ===== *)
theory LeaseProps
  imports Lease
begin

text \<open>
  What a node lease guarantees.  First the calls of one replica: a lease is taken by one
  conditional write on what was just read, never from a live pod.  Then all replicas together:
  any number of tasks that make the calls of this code, interleaved in any way over one store, never
  hold it at the same time while they live.
\<close>

section \<open>Reading the calls\<close>

definition tw :: "('w lease_st, 'a) state \<Rightarrow> ('a \<Rightarrow> lease_call list \<Rightarrow> bool) \<Rightarrow> lease_call list \<Rightarrow> bool" where
  "tw m R calls \<longleftrightarrow> (\<forall>s. lst_calls s = calls \<longrightarrow> wp m (\<lambda>a t. R a (lst_calls t)) s)"

named_theorems tw_intros "calls of the combinators of a lease operation"

lemma tw_ret [tw_intros]: "R a calls \<Longrightarrow> tw (ret a) R calls"
  by (simp add: tw_def)

lemma tw_bind [tw_intros]:
  assumes "tw m (\<lambda>a n. tw (f a) R n) calls"
  shows "tw (State_Monad.bind m f) R calls"
  unfolding tw_def wp_bind
proof (intro allI impI)
  fix s :: "'a lease_st" assume "lst_calls s = calls"
  with assms have "wp m (\<lambda>a t. tw (f a) R (lst_calls t)) s" by (simp add: tw_def)
  then show "wp m (\<lambda>a. wp (f a) (\<lambda>a t. R a (lst_calls t))) s"
    by (rule wp_mono) (simp add: tw_def)
qed

lemma tw_mono: "tw m R calls \<Longrightarrow> (\<And>a cs. R a cs \<Longrightarrow> R' a cs) \<Longrightarrow> tw m R' calls"
  unfolding tw_def by (blast intro: wp_mono)

lemma tw_ask [tw_intros]: "(\<And>a. R a calls) \<Longrightarrow> tw (ask f) R calls"
  by (simp add: tw_def ask_def wp_State split: prod.split)

lemma tw_logged [tw_intros]: "R () (calls @ [c]) \<Longrightarrow> tw (logged c) R calls"
  by (simp add: tw_def logged_def wp_State)

lemma tw_if [tw_intros]: "(c \<Longrightarrow> tw m R n) \<Longrightarrow> (\<not> c \<Longrightarrow> tw k R n) \<Longrightarrow> tw (if c then m else k) R n"
  by simp

lemma tw_option [tw_intros]:
  "(r = None \<Longrightarrow> tw f R n) \<Longrightarrow> (\<And>x. r = Some x \<Longrightarrow> tw (g x) R n) \<Longrightarrow>
   tw (case r of None \<Rightarrow> f | Some x \<Rightarrow> g x) R n"
  by (cases r) simp_all

lemma tw_sum [tw_intros]:
  "(\<And>x. r = Inl x \<Longrightarrow> tw (f x) R n) \<Longrightarrow> (\<And>x. r = Inr x \<Longrightarrow> tw (g x) R n) \<Longrightarrow>
   tw (case r of Inl x \<Rightarrow> f x | Inr x \<Rightarrow> g x) R n"
  by (cases r) simp_all

lemma tw_error [tw_intros]:
  "(\<And>c m. e = ErrApi c m \<Longrightarrow> tw (f c m) R n) \<Longrightarrow> (\<And>m. e = ErrHyper m \<Longrightarrow> tw (g m) R n) \<Longrightarrow>
   (\<And>m. e = ErrService m \<Longrightarrow> tw (h m) R n) \<Longrightarrow> (\<And>m. e = ErrOther m \<Longrightarrow> tw (i m) R n) \<Longrightarrow>
   tw (case e of ErrApi c m \<Rightarrow> f c m | ErrHyper m \<Rightarrow> g m | ErrService m \<Rightarrow> h m | ErrOther m \<Rightarrow> i m) R n"
  by (cases e) simp_all

lemma tw_get [tw_intros]:
  "(\<And>e. R (Inl e) calls) \<Longrightarrow> (\<And>l. R (Inr l) (calls @ [LGot name l])) \<Longrightarrow> tw (get_lease env name) R calls"
  unfolding get_lease_def by (intro tw_intros) simp_all

lemma tw_list [tw_intros]:
  "(\<And>e. R (Inl e) calls) \<Longrightarrow> (\<And>ps. R (Inr ps) (calls @ [LPods ps])) \<Longrightarrow> tw (list_pods env) R calls"
  unfolding list_pods_def by (intro tw_intros) simp_all

lemma tw_patch [tw_intros]:
  "(\<And>e. R (Inl e) (calls @ [LPatch name body False])) \<Longrightarrow>
   (R (Inr ()) (calls @ [LPatch name body True])) \<Longrightarrow> tw (patch_lease env name body) R calls"
  unfolding patch_lease_def
  by (intro tw_intros) (auto simp: succeeded_call_def split: sum.split)

lemma tw_run: "tw m R (lst_calls s) \<Longrightarrow> run_state m s = (a, t) \<Longrightarrow> R a (lst_calls t)"
  unfolding tw_def using wp_run by fastforce

section \<open>Acquiring: one conditional write\<close>

text \<open>Whether nobody alive holds the lease, in a listing of the replicas.\<close>

definition holder_free :: "lease \<Rightarrow> roder_pod list \<Rightarrow> bool" where
  "holder_free l pods \<longleftrightarrow>
     (case lease_holder l of None \<Rightarrow> True | Some h \<Rightarrow> \<not> holder_pod_exists h pods)"

text \<open>The end of a successful acquisition: a read, the check of the holder, the write.\<close>

definition won :: "coordinator \<Rightarrow> string \<Rightarrow> string \<Rightarrow> lease_call list \<Rightarrow> bool" where
  "won c name target calls \<longleftrightarrow>
     (\<exists>cs t1 t2. calls = cs @ [LGot name None, LCreate (new_lease name target (co_holder c) t1 t2) True])
   \<or> (\<exists>cs l t1 t2 mid pods. calls = cs @ LGot name (Some l) # mid @
         [LPatch name (PatchTake (l_resource_version l) (co_holder c) t1 t2 (take_transitions c l)) True]
       \<and> (lease_holder l = None \<and> mid = [] \<or> mid = [LPods pods]) \<and> holder_free l pods)"

fun is_write :: "lease_call \<Rightarrow> bool" where
  "is_write (LCreate _ _) = True"
| "is_write (LPatch _ _ _) = True"
| "is_write _ = False"

fun write_ok :: "lease_call \<Rightarrow> bool" where
  "write_ok (LCreate _ b) = b"
| "write_ok (LPatch _ _ b) = b"
| "write_ok _ = False"

definition writes :: "lease_call list \<Rightarrow> nat" where
  "writes cs = length (filter is_write cs)"

lemma writes_simps [simp]:
  "writes [] = 0" "writes (cs @ ds) = writes cs + writes ds"
  "writes (LGot n l # cs) = writes cs" "writes (LPods ps # cs) = writes cs"
  "writes (LCreate x b # cs) = Suc (writes cs)" "writes (LPatch n p b # cs) = Suc (writes cs)"
  by (simp_all add: writes_def)

definition acquire_post ::
  "coordinator \<Rightarrow> string \<Rightarrow> string \<Rightarrow> nat \<Rightarrow> acquire_error + string \<Rightarrow> lease_call list \<Rightarrow> bool" where
  "acquire_post c name target n r calls \<longleftrightarrow>
     writes calls \<le> n
   \<and> (case r of
        Inr m \<Rightarrow> m = name \<and> won c name target calls \<and> (\<forall>x\<in>set (butlast calls). \<not> write_ok x)
      | Inl _ \<Rightarrow> \<forall>x\<in>set calls. \<not> write_ok x)"

lemma acquire_loop_post:
  "writes calls + n \<le> m \<Longrightarrow> (\<forall>x\<in>set calls. \<not> write_ok x) \<Longrightarrow>
   tw (acquire_loop n env c name target) (acquire_post c name target m) calls"
proof (induction n arbitrary: calls)
  case 0
  then show ?case by (auto intro!: tw_intros simp: acquire_post_def)
next
  case (Suc n)
  have wonC: "won c name target (cs @ [LGot name None, LCreate (new_lease name target (co_holder c) t1 t2) True])"
    for cs t1 t2
    unfolding won_def by blast
  have wonP: "won c name target (cs @ [LGot name (Some l),
      LPatch name (PatchTake (l_resource_version l) (co_holder c) t1 t2 (take_transitions c l)) True])"
    if "lease_holder l = None" for cs l t1 t2
    unfolding won_def using that by (force simp: holder_free_def)
  have wonQ: "won c name target (cs @ [LGot name (Some l), LPods ps,
      LPatch name (PatchTake (l_resource_version l) (co_holder c) t1 t2 (take_transitions c l)) True])"
    if "lease_holder l = Some h" "\<not> holder_pod_exists h ps" for cs l t1 t2 h ps
    unfolding won_def using that by (force simp: holder_free_def)
  show ?case
    unfolding acquire_loop.simps check_holder_def write_lease_def Let_def
    by (intro tw_intros Suc.IH)
      (use Suc.prems wonC wonP wonQ in \<open>auto simp: acquire_post_def butlast_append succeeded_call_def
         split: if_splits sum.splits\<close>)
qed

section \<open>Renewing and releasing: only one's own lease\<close>

definition own_patch :: "coordinator \<Rightarrow> string \<Rightarrow> lease_call list \<Rightarrow> bool" where
  "own_patch c name calls \<longleftrightarrow>
     (\<forall>x\<in>set calls. is_write x \<longrightarrow>
        (\<exists>l body b. calls = [LGot name (Some l), LPatch name body b] \<and> lease_holder l = Some (co_holder c)
           \<and> ((\<exists>t. body = PatchRenew (l_resource_version l) t) \<or> body = PatchRelease (l_resource_version l))))"

lemma renew_own: "tw (renew env c name) (\<lambda>r calls. own_patch c name calls
    \<and> (r = Inr () \<longrightarrow> (\<exists>x\<in>set calls. write_ok x))) []"
  unfolding renew_def by (intro tw_intros) (simp_all add: own_patch_def ex_bool_eq)

lemma release_own: "tw (release env c name) (\<lambda>_. own_patch c name) []"
  unfolding release_def by (intro tw_intros) (simp_all add: own_patch_def ex_bool_eq)

section \<open>What an operation may call next\<close>

text \<open>The three operations on a lease, and their runs: the calls one makes when it is answered by some
  environment, and whether it ends with the lease.  \<open>may_call\<close> is the next call of an unfinished run.\<close>

datatype lease_op = Acquire | Renew | Release

inductive op_run :: "lease_op \<Rightarrow> coordinator \<Rightarrow> string \<Rightarrow> lease_call list \<Rightarrow> bool \<Rightarrow> bool" where
  run_acquire: "run_state (acquire (env :: nat lease_env) c target) \<lparr>lst_world = w, lst_calls = []\<rparr> = (r, t) \<Longrightarrow>
    op_run Acquire c target (lst_calls t) (r = Inr (lease_name (co_scope c) target))"
| run_renew: "run_state (renew (env :: nat lease_env) c (lease_name (co_scope c) target)) \<lparr>lst_world = w, lst_calls = []\<rparr> = (u, t) \<Longrightarrow>
    op_run Renew c target (lst_calls t) True"
| run_release: "run_state (release (env :: nat lease_env) c (lease_name (co_scope c) target)) \<lparr>lst_world = w, lst_calls = []\<rparr> = (v, t) \<Longrightarrow>
    op_run Release c target (lst_calls t) False"

inductive_cases op_run_AcquireE: "op_run Acquire c target cs b"
inductive_cases op_run_RenewE: "op_run Renew c target cs b"
inductive_cases op_run_ReleaseE: "op_run Release c target cs b"

definition may_call :: "lease_op \<Rightarrow> coordinator \<Rightarrow> string \<Rightarrow> lease_call list \<Rightarrow> lease_call \<Rightarrow> bool" where
  "may_call op c target cs x \<longleftrightarrow> (\<exists>post b. op_run op c target (cs @ x # post) b)"

text \<open>What the code guarantees of each call, from the calls before it.\<close>

fun allowed :: "lease_op \<Rightarrow> coordinator \<Rightarrow> string \<Rightarrow> lease_call list \<Rightarrow> lease_call \<Rightarrow> bool" where
  "allowed op c name pre (LGot n l) \<longleftrightarrow> n = name"
| "allowed op c name pre (LPods ps) \<longleftrightarrow> True"
| "allowed Acquire c name pre (LCreate l b) \<longleftrightarrow>
     lease_holder l = Some (co_holder c) \<and> (\<exists>cs. pre = cs @ [LGot name None])"
| "allowed Acquire c name pre (LPatch n (PatchTake v h t1 t2 k) b) \<longleftrightarrow> n = name \<and> h = co_holder c
     \<and> (\<exists>cs l. v = l_resource_version l \<and> (pre = cs @ [LGot name (Some l)] \<and> lease_holder l = None
          \<or> (\<exists>ps. pre = cs @ [LGot name (Some l), LPods ps] \<and> holder_free l ps)))"
| "allowed Renew c name pre (LPatch n (PatchRenew v t) b) \<longleftrightarrow> n = name
     \<and> (\<exists>l. pre = [LGot name (Some l)] \<and> lease_holder l = Some (co_holder c) \<and> v = l_resource_version l)"
| "allowed Release c name pre (LPatch n (PatchRelease v) b) \<longleftrightarrow> n = name
     \<and> (\<exists>l. pre = [LGot name (Some l)] \<and> lease_holder l = Some (co_holder c) \<and> v = l_resource_version l)"
| "allowed op c name pre x \<longleftrightarrow> False"

definition all_allowed :: "lease_op \<Rightarrow> coordinator \<Rightarrow> string \<Rightarrow> lease_call list \<Rightarrow> bool" where
  "all_allowed op c name calls \<longleftrightarrow>
     (\<forall>pre x post. calls = pre @ x # post \<longrightarrow> allowed op c name pre x \<and> (\<forall>y\<in>set pre. \<not> write_ok y))"

lemma all_allowed_Nil [simp]: "all_allowed op c name []"
  by (simp add: all_allowed_def)

lemma all_allowed_snoc [simp]:
  "all_allowed op c name (calls @ [x]) \<longleftrightarrow>
     all_allowed op c name calls \<and> allowed op c name calls x \<and> (\<forall>y\<in>set calls. \<not> write_ok y)"
proof
  assume all: "all_allowed op c name (calls @ [x])"
  have "allowed op c name pre y \<and> (\<forall>z\<in>set pre. \<not> write_ok z)" if "calls = pre @ y # post" for pre y post
    using all[unfolded all_allowed_def, rule_format, of pre y "post @ [x]"] that by simp
  moreover have "allowed op c name calls x \<and> (\<forall>y\<in>set calls. \<not> write_ok y)"
    using all[unfolded all_allowed_def, rule_format, of calls x "[]"] by simp
  ultimately show "all_allowed op c name calls \<and> allowed op c name calls x \<and> (\<forall>y\<in>set calls. \<not> write_ok y)"
    unfolding all_allowed_def by blast
next
  assume split: "all_allowed op c name calls \<and> allowed op c name calls x \<and> (\<forall>y\<in>set calls. \<not> write_ok y)"
  show "all_allowed op c name (calls @ [x])"
    unfolding all_allowed_def
  proof (intro allI impI)
    fix pre y post assume "calls @ [x] = pre @ y # post"
    then show "allowed op c name pre y \<and> (\<forall>z\<in>set pre. \<not> write_ok z)"
      using split by (cases post rule: rev_cases) (auto simp: all_allowed_def)
  qed
qed

text \<open>The same for the last calls of an operation, in the form a run appends them.\<close>

lemma all_allowed_more [simp]:
  "all_allowed op c name (calls @ [x, y]) \<longleftrightarrow> all_allowed op c name (calls @ [x])
     \<and> allowed op c name (calls @ [x]) y \<and> (\<forall>z\<in>set (calls @ [x]). \<not> write_ok z)"
  "all_allowed op c name (calls @ [x, y, z]) \<longleftrightarrow> all_allowed op c name (calls @ [x, y])
     \<and> allowed op c name (calls @ [x, y]) z \<and> (\<forall>z\<in>set (calls @ [x, y]). \<not> write_ok z)"
  "all_allowed op c name [x] \<longleftrightarrow> allowed op c name [] x"
  "all_allowed op c name [x, y] \<longleftrightarrow> all_allowed op c name [x] \<and> allowed op c name [x] y \<and> \<not> write_ok x"
  using all_allowed_snoc[of op c name "calls @ [x]" y] all_allowed_snoc[of op c name "calls @ [x, y]" z]
    all_allowed_snoc[of op c name "[]" x] all_allowed_snoc[of op c name "[x]" y]
  by (simp_all del: all_allowed_snoc)

definition acquires :: "coordinator \<Rightarrow> string \<Rightarrow> acquire_error + string \<Rightarrow> lease_call list \<Rightarrow> bool" where
  "acquires c name r calls \<longleftrightarrow> all_allowed Acquire c name calls
     \<and> (case r of Inr m \<Rightarrow> m = name \<and> calls \<noteq> [] \<and> write_ok (last calls) | Inl _ \<Rightarrow> \<forall>x\<in>set calls. \<not> write_ok x)"

lemma acquire_loop_allowed:
  "all_allowed Acquire c name calls \<Longrightarrow> (\<forall>x\<in>set calls. \<not> write_ok x) \<Longrightarrow>
   tw (acquire_loop n env c name target) (acquires c name) calls"
proof (induction n arbitrary: calls)
  case 0
  then show ?case by (auto intro!: tw_intros simp: acquires_def)
next
  case (Suc n)
  have fresh: "lease_holder (new_lease name target (co_holder c) t1 t2) = Some (co_holder c)" for t1 t2
    by (simp add: lease_holder_def new_lease_def)
  show ?case
    unfolding acquire_loop.simps check_holder_def write_lease_def Let_def
    by (intro tw_intros Suc.IH)
      (use Suc.prems fresh in \<open>auto simp: acquires_def succeeded_call_def holder_free_def split: if_splits sum.splits\<close>)
qed

lemma renew_allowed: "tw (renew env c name) (\<lambda>_. all_allowed Renew c name) []"
  unfolding renew_def by (intro tw_intros) simp_all

lemma release_allowed: "tw (release env c name) (\<lambda>_. all_allowed Release c name) []"
  unfolding release_def by (intro tw_intros) simp_all

lemma op_run_allowed:
  assumes "op_run op c target cs b"
  shows "all_allowed op c (lease_name (co_scope c) target) cs"
    and "op = Acquire \<Longrightarrow> if b then cs \<noteq> [] \<and> write_ok (last cs) else \<forall>x\<in>set cs. \<not> write_ok x"
proof -
  let ?name = "lease_name (co_scope c) target"
  have acq: "acquires c ?name r (lst_calls t)"
    if "run_state (acquire env c target) \<lparr>lst_world = w, lst_calls = []\<rparr> = (r, t)" for env :: "nat lease_env" and w r t
    by (rule tw_run[OF _ that[unfolded acquire_def]]) (simp add: acquire_loop_allowed)
  have ren: "all_allowed Renew c ?name (lst_calls t)"
    if "run_state (renew env c ?name) \<lparr>lst_world = w, lst_calls = []\<rparr> = (r, t)" for env :: "nat lease_env" and w r t
    by (rule tw_run[OF _ that]) (simp add: renew_allowed)
  have rel: "all_allowed Release c ?name (lst_calls t)"
    if "run_state (release env c ?name) \<lparr>lst_world = w, lst_calls = []\<rparr> = (r, t)" for env :: "nat lease_env" and w r t
    by (rule tw_run[OF _ that]) (simp add: release_allowed)
  show "all_allowed op c ?name cs" "op = Acquire \<Longrightarrow> if b then cs \<noteq> [] \<and> write_ok (last cs) else \<forall>x\<in>set cs. \<not> write_ok x"
    using assms by (auto elim!: op_run.cases dest!: acq ren rel simp: acquires_def split: sum.splits)
qed

lemma may_call_allowed:
  assumes "may_call op c target cs x"
  shows "allowed op c (lease_name (co_scope c) target) cs x" and "\<forall>y\<in>set cs. \<not> write_ok y"
proof -
  from assms obtain post b where "op_run op c target (cs @ x # post) b" by (auto simp: may_call_def)
  from op_run_allowed(1)[OF this]
  show "allowed op c (lease_name (co_scope c) target) cs x" and "\<forall>y\<in>set cs. \<not> write_ok y"
    unfolding all_allowed_def by blast+
qed

section \<open>All replicas together\<close>

text \<open>
  Any number of tasks work on the lease of one node; task \<open>i\<close> runs in the replica with the identity \<open>hs i\<close>, and several
  may run in one.  A task acquires the lease; while it holds it, it renews it and finally releases or drops it.
  Every call is the next one its code makes after the answers it got, and is answered by the one store of the API server:
  each write stores a new version, a patch that names a version applies to that version only, a created lease must not
  exist, and the answer of an applied write may be lost.  Replicas come and go; an
  identity (name and uid) that is gone does not come back, and a pod is listed before its replica does
  anything.
\<close>

datatype activity = Resting | Held | Running lease_op "lease_call list"

record sys =
  sy_lease :: "lease option"
  sy_used :: "string set"
  sy_pods :: "roder_pod list"
  sy_task :: "nat \<Rightarrow> activity"

fun apply_patch :: "lease_patch \<Rightarrow> lease \<Rightarrow> lease" where
  "apply_patch (PatchTake _ h acquired renewed n) l = l\<lparr>l_spec := Some \<lparr>ls_holder_identity = Some h,
     ls_duration_seconds = Some LEASE_DURATION_SECS, ls_acquire_time = Some acquired, ls_renew_time = Some renewed,
     ls_transitions = Some n\<rparr>\<rparr>"
| "apply_patch (PatchRenew _ now) l = l\<lparr>l_spec := map_option (\<lambda>sp. sp\<lparr>ls_renew_time := Some now\<rparr>) (l_spec l)\<rparr>"
| "apply_patch (PatchRelease _) l = l\<lparr>l_spec := map_option (\<lambda>sp. sp\<lparr>ls_holder_identity := None\<rparr>) (l_spec l)\<rparr>"

fun patch_version :: "lease_patch \<Rightarrow> string option" where
  "patch_version (PatchTake v _ _ _ _) = v" | "patch_version (PatchRenew v _) = v" | "patch_version (PatchRelease v) = v"

definition stored :: "lease \<Rightarrow> string \<Rightarrow> sys \<Rightarrow> sys" where
  "stored l v k = k\<lparr>sy_lease := Some (l\<lparr>l_resource_version := Some v\<rparr>), sy_used := insert v (sy_used k)\<rparr>"

inductive served :: "sys \<Rightarrow> lease_call \<Rightarrow> sys \<Rightarrow> bool" where
  served_get: "served k (LGot n (sy_lease k)) k"
| served_pods: "served k (LPods (sy_pods k)) k"
| served_create: "sy_lease k = None \<Longrightarrow> v \<notin> sy_used k \<Longrightarrow> served k (LCreate l b) (stored l v k)"
| served_no_create: "served k (LCreate l False) k"
| served_patch: "sy_lease k = Some l \<Longrightarrow> patch_version p = l_resource_version l \<Longrightarrow> v \<notin> sy_used k \<Longrightarrow>
    served k (LPatch n p b) (stored (apply_patch p l) v k)"
| served_no_patch: "served k (LPatch n p False) k"

definition alive :: "sys \<Rightarrow> string \<Rightarrow> bool" where
  "alive k h \<longleftrightarrow> holder_pod_exists h (sy_pods k)"

definition unseen :: "(nat \<Rightarrow> string) \<Rightarrow> sys \<Rightarrow> string \<Rightarrow> bool" where
  "unseen hs k h \<longleftrightarrow> (\<forall>i. hs i = h \<longrightarrow> sy_task k i = Resting) \<and> (\<forall>l. sy_lease k = Some l \<longrightarrow> lease_holder l \<noteq> Some h)
     \<and> (\<forall>i op cs n l. sy_task k i = Running op cs \<longrightarrow> LGot n (Some l) \<in> set cs \<longrightarrow> lease_holder l \<noteq> Some h)"

definition doing :: "nat \<Rightarrow> activity \<Rightarrow> sys \<Rightarrow> sys" where
  "doing i a k = k\<lparr>sy_task := (sy_task k)(i := a)\<rparr>"

definition ended :: "lease_op \<Rightarrow> bool \<Rightarrow> activity" where
  "ended op b = (case op of Acquire \<Rightarrow> if b then Held else Resting | Renew \<Rightarrow> Held | Release \<Rightarrow> Resting)"

inductive sys_step :: "(nat \<Rightarrow> string) \<Rightarrow> string \<Rightarrow> string \<Rightarrow> sys \<Rightarrow> sys \<Rightarrow> bool" for hs scope target where
  sys_acquire: "sy_task k i = Resting \<Longrightarrow> sys_step hs scope target k (doing i (Running Acquire []) k)"
| sys_renew: "sy_task k i = Held \<Longrightarrow> sys_step hs scope target k (doing i (Running Renew []) k)"
| sys_release: "sy_task k i = Held \<Longrightarrow> sys_step hs scope target k (doing i (Running Release []) k)"
| sys_drop: "sy_task k i = Held \<Longrightarrow> sys_step hs scope target k (doing i Resting k)"
| sys_call: "sy_task k i = Running op cs \<Longrightarrow> may_call op \<lparr>co_holder = hs i, co_scope = scope\<rparr> target cs x \<Longrightarrow>
    served k x k' \<Longrightarrow> sys_step hs scope target k (doing i (Running op (cs @ [x])) k')"
| sys_end: "sy_task k i = Running op cs \<Longrightarrow> op_run op \<lparr>co_holder = hs i, co_scope = scope\<rparr> target cs b \<Longrightarrow>
    sys_step hs scope target k (doing i (ended op b) k)"
| sys_pods: "(\<And>h. holder_pod_exists h pods \<Longrightarrow> alive k h \<or> unseen hs k h) \<Longrightarrow>
    sys_step hs scope target k (k\<lparr>sy_pods := pods\<rparr>)"

definition sys_start :: "roder_pod list \<Rightarrow> sys" where
  "sys_start pods = \<lparr>sy_lease = None, sy_used = {}, sy_pods = pods, sy_task = (\<lambda>_. Resting)\<rparr>"

text \<open>Who holds the lease: the tasks that acquired it and have not begun to release it.\<close>

definition holds :: "sys \<Rightarrow> nat \<Rightarrow> bool" where
  "holds k i \<longleftrightarrow> sy_task k i = Held \<or> (\<exists>cs. sy_task k i = Running Renew cs)"

text \<open>Who answers for it: those, one whose write has just succeeded, and one that still has to give it back.\<close>

fun answers_for :: "activity \<Rightarrow> bool" where
  "answers_for Resting = False"
| "answers_for Held = True"
| "answers_for (Running Acquire cs) = (cs \<noteq> [] \<and> write_ok (last cs))"
| "answers_for (Running Renew cs) = True"
| "answers_for (Running Release cs) = (\<forall>x\<in>set cs. \<not> is_write x)"

definition held_by :: "sys \<Rightarrow> string \<Rightarrow> bool" where
  "held_by k h \<longleftrightarrow> (\<exists>l. sy_lease k = Some l \<and> lease_holder l = Some h)"

definition owners_ok :: "(nat \<Rightarrow> string) \<Rightarrow> sys \<Rightarrow> bool" where
  "owners_ok hs k \<longleftrightarrow>
     (\<forall>i. answers_for (sy_task k i) \<longrightarrow> alive k (hs i) \<longrightarrow> held_by k (hs i))
   \<and> (\<forall>i j. answers_for (sy_task k i) \<longrightarrow> alive k (hs i) \<longrightarrow> answers_for (sy_task k j) \<longrightarrow> alive k (hs j) \<longrightarrow> i = j)"

definition versions_ok :: "sys \<Rightarrow> bool" where
  "versions_ok k \<longleftrightarrow>
     (\<forall>s. sy_lease k = Some s \<longrightarrow> (\<exists>v\<in>sy_used k. l_resource_version s = Some v))
   \<and> (\<forall>i op cs n l. sy_task k i = Running op cs \<longrightarrow> LGot n (Some l) \<in> set cs \<longrightarrow>
        (\<exists>v\<in>sy_used k. l_resource_version l = Some v) \<and>
        (\<forall>s. sy_lease k = Some s \<longrightarrow> l_resource_version s = l_resource_version l \<longrightarrow> s = l))"

definition checks_ok :: "sys \<Rightarrow> bool" where
  "checks_ok k \<longleftrightarrow> (\<forall>i cs n l ps x. sy_task k i = Running Acquire (cs @ [LGot n (Some l), LPods ps]) \<longrightarrow>
     lease_holder l = Some x \<longrightarrow> \<not> holder_pod_exists x ps \<longrightarrow> \<not> alive k x)"

lemma sys_simps [simp]:
  "sy_lease (doing i a k) = sy_lease k" "sy_used (doing i a k) = sy_used k" "sy_pods (doing i a k) = sy_pods k"
  "sy_task (doing i a k) j = (if j = i then a else sy_task k j)" "alive (doing i a k) h = alive k h"
  "held_by (doing i a k) h = held_by k h"
  "sy_lease (stored l v k) = Some (l\<lparr>l_resource_version := Some v\<rparr>)" "sy_used (stored l v k) = insert v (sy_used k)"
  "sy_pods (stored l v k) = sy_pods k" "sy_task (stored l v k) = sy_task k" "alive (stored l v k) h = alive k h"
  "held_by (stored l v k) h \<longleftrightarrow> lease_holder l = Some h"
  by (auto simp: doing_def stored_def alive_def held_by_def lease_holder_def)

lemma served_rest [simp]: "served k x k' \<Longrightarrow> sy_task k' = sy_task k" "served k x k' \<Longrightarrow> sy_pods k' = sy_pods k"
  by (auto elim: served.cases)

lemma held_patched:
  "lease_holder (apply_patch (PatchTake v h a r n) l) = Some h"
  "lease_holder (apply_patch (PatchRenew v now) l) = lease_holder l"
  "lease_holder (apply_patch (PatchRelease v) l) = None"
  by (auto simp: lease_holder_def split: option.split)

lemma stored_ne [simp]: "v \<notin> sy_used k \<Longrightarrow> stored l v k \<noteq> k" "v \<notin> sy_used k \<Longrightarrow> k \<noteq> stored l v k"
  by (metis insertI1 sys_simps(8))+

lemma taken_by: "allowed Acquire c name cs (LPatch n p b) \<Longrightarrow> lease_holder (apply_patch p l) = Some (co_holder c)"
  by (cases p) (auto simp: lease_holder_def)

text \<open>Fewer tasks that answer for the same lease.\<close>

lemma owners_fewer:
  assumes "owners_ok hs k" "\<And>j. answers_for (sy_task k' j) \<Longrightarrow> answers_for (sy_task k j)"
    "\<And>h. alive k' h = alive k h" "\<And>h. held_by k h \<Longrightarrow> held_by k' h"
  shows "owners_ok hs k'"
  using assms unfolding owners_ok_def by meson

text \<open>A write stores the lease of its own task when nobody alive answers for it.\<close>

lemma owners_taken:
  assumes "\<And>j. answers_for (sy_task k j) \<Longrightarrow> \<not> alive k (hs j)"
    and "\<And>j. j \<noteq> i \<Longrightarrow> sy_task k' j = sy_task k j" "\<And>h. alive k' h = alive k h" "held_by k' (hs i)"
  shows "owners_ok hs k'"
  using assms unfolding owners_ok_def by metis

lemma versions_call:
  assumes "versions_ok k" "served k x k'" "sy_task k i = Running op cs"
  shows "versions_ok (doing i (Running op (cs @ [x])) k')"
  using assms(2)
proof cases
  case (served_get n)
  with assms(1,3) show ?thesis by (fastforce simp: versions_ok_def)
next
  case (served_create v l b)
  with assms(1,3) show ?thesis by (fastforce simp: versions_ok_def)
next
  case (served_patch l p v n b)
  with assms(1,3) show ?thesis by (fastforce simp: versions_ok_def)
qed (use assms(1,3) in \<open>fastforce simp: versions_ok_def\<close>)+

lemma checks_call:
  assumes "checks_ok k" "served k x k'" "sy_task k i = Running op cs"
  shows "checks_ok (doing i (Running op (cs @ [x])) k')"
proof -
  have "\<not> alive k y" if "Running op (cs @ [x]) = Running Acquire (ds @ [LGot n (Some l), LPods ps])"
    "lease_holder l = Some y" "\<not> holder_pod_exists y ps" for ds n l ps y
  proof -
    from that have "x = LPods ps" by (metis activity.inject append_butlast_last_id append_is_Nil_conv butlast_append
        last_appendR last_ConsL last_ConsR list.distinct(1) last_snoc)
    with assms(2) have "ps = sy_pods k" by (auto elim: served.cases)
    with that show ?thesis by (simp add: alive_def)
  qed
  moreover have "alive k' y = alive k y" for y using assms(2) by (simp add: alive_def)
  ultimately show ?thesis
    using assms(1,2) unfolding checks_ok_def by (auto split: if_splits)
qed

text \<open>What a write of the acquisition relies on.\<close>

lemma write_is_free:
  assumes ok: "owners_ok hs k" "versions_ok k" "checks_ok k"
    and task: "sy_task k i = Running Acquire cs" and call: "allowed Acquire c name cs x" "is_write x"
    and served: "served k x k'" "k' \<noteq> k"
    and j: "answers_for (sy_task k j)"
  shows "\<not> alive k (hs j)"
proof
  assume a: "alive k (hs j)"
  with ok(1) j obtain s where s: "sy_lease k = Some s" "lease_holder s = Some (hs j)"
    by (auto simp: owners_ok_def held_by_def)
  from served call(2) s(1) obtain p n b v where x: "x = LPatch n p b" "patch_version p = l_resource_version s"
    by (auto elim!: served.cases)
  with call(1) obtain v h t1 t2 m where p: "p = PatchTake v h t1 t2 m" by (cases p) auto
  with call(1) x obtain ds l where l: "v = l_resource_version l"
    "cs = ds @ [LGot name (Some l)] \<and> lease_holder l = None
       \<or> (\<exists>ps. cs = ds @ [LGot name (Some l), LPods ps] \<and> holder_free l ps)" by auto
  then have "LGot name (Some l) \<in> set cs" by auto
  with ok(2) task s(1) x(2) p l(1) have "s = l" unfolding versions_ok_def by (metis patch_version.simps(1))
  with s l(2) ok(3) task a show False by (fastforce simp: holder_free_def checks_ok_def)
qed

lemma owners_call:
  assumes ok: "owners_ok hs k" "versions_ok k" "checks_ok k"
    and task: "sy_task k i = Running op cs" and call: "allowed op \<lparr>co_holder = hs i, co_scope = scope\<rparr> name cs x"
      "\<forall>y\<in>set cs. \<not> write_ok y"
    and served: "served k x k'"
  shows "owners_ok hs (doing i (Running op (cs @ [x])) k')"
proof (cases "k' = k")
  case True
  have "\<not> write_ok x \<or> op \<noteq> Acquire"
    using served True call(1) by (auto elim!: served.cases)
  then show ?thesis
    using True by (intro owners_fewer[OF ok(1)]) (cases op, auto simp: task split: if_splits)
next
  case False
  then have w: "is_write x" using served by (auto elim: served.cases)
  show ?thesis
  proof (cases op)
    case Acquire
    have "held_by k' (hs i)"
      using served False call(1) Acquire by (auto elim!: served.cases dest: taken_by)
    with write_is_free[OF ok task[unfolded Acquire] call(1)[unfolded Acquire] w served False] show ?thesis
      using served by (intro owners_taken[of k hs i]) (auto simp: alive_def)
  next
    case Renew
    with call(1) w obtain v t n b where x: "x = LPatch n (PatchRenew v t) b" by (auto elim!: allowed.elims)
    with served False obtain s u where s: "sy_lease k = Some s" "k' = stored (apply_patch (PatchRenew v t) s) u k"
      by (auto elim!: served.cases)
    show ?thesis
      by (rule owners_fewer[OF ok(1)])
        (use s Renew task in \<open>auto simp: held_patched held_by_def[of k] simp del: apply_patch.simps split: if_splits\<close>)
  next
    case Release
    with call(1) w obtain v n b l where x: "x = LPatch n (PatchRelease v) b" "cs = [LGot name (Some l)]"
      "lease_holder l = Some (hs i)" "v = l_resource_version l" by (auto elim!: allowed.elims)
    with served False obtain s u where s: "sy_lease k = Some s" "k' = stored (apply_patch (PatchRelease v) s) u k"
      "l_resource_version s = l_resource_version l" by (auto elim!: served.cases)
    with ok(2) task x(2) have "s = l" unfolding versions_ok_def by (metis list.set_intros(1))
    have me: "answers_for (sy_task k i)" using task Release x(2) by simp
    have nobody: "\<not> alive k (hs j)" if "j \<noteq> i" "answers_for (sy_task k j)" for j
    proof
      assume a: "alive k (hs j)"
      with ok(1) that(2) have "held_by k (hs j)" by (simp add: owners_ok_def)
      with s(1) \<open>s = l\<close> x(3) have "hs j = hs i" by (simp add: held_by_def)
      with a ok(1) me that show False unfolding owners_ok_def by metis
    qed
    have "\<not> answers_for (Running op (cs @ [x]))" using Release x(1) by simp
    with nobody s(2) show ?thesis by (auto simp: owners_ok_def)
  qed
qed

definition sys_ok :: "(nat \<Rightarrow> string) \<Rightarrow> sys \<Rightarrow> bool" where
  "sys_ok hs k \<longleftrightarrow> owners_ok hs k \<and> versions_ok k \<and> checks_ok k"

lemma sys_ok_doing:
  assumes "sys_ok hs k" "answers_for a \<Longrightarrow> answers_for (sy_task k i)" "a \<in> {Resting, Held} \<union> range (\<lambda>op. Running op [])"
  shows "sys_ok hs (doing i a k)"
  unfolding sys_ok_def
proof (intro conjI)
  show "owners_ok hs (doing i a k)"
    by (rule owners_fewer[of hs k]) (use assms in \<open>auto simp: sys_ok_def split: if_splits\<close>)
  show "versions_ok (doing i a k)" using assms(1,3) by (fastforce simp: sys_ok_def versions_ok_def)
  show "checks_ok (doing i a k)" using assms(1,3) by (fastforce simp: sys_ok_def checks_ok_def)
qed

lemma sys_ok_step: "sys_step hs scope target k k' \<Longrightarrow> sys_ok hs k \<Longrightarrow> sys_ok hs k'"
proof (induction rule: sys_step.induct)
  case (sys_call k i op cs x k')
  from may_call_allowed[OF sys_call(2)] sys_call(1,3,4) show ?case
    by (auto simp: sys_ok_def intro: owners_call versions_call checks_call)
next
  case (sys_end k i op cs b)
  then show ?case
    using op_run_allowed(2)[OF sys_end(2)]
    by (cases op) (auto intro!: sys_ok_doing simp: ended_def split: if_splits)
next
  case (sys_pods pods k)
  have a: "alive k x" if "alive (k\<lparr>sy_pods := pods\<rparr>) x" "\<not> unseen hs k x" for x
    using sys_pods(1)[of x] that by (auto simp: alive_def)
  have "owners_ok hs (k\<lparr>sy_pods := pods\<rparr>)"
  proof -
    have "alive k (hs i)" if "answers_for (sy_task k i)" "alive (k\<lparr>sy_pods := pods\<rparr>) (hs i)" for i
      by (rule a[OF that(2)]) (use that(1) in \<open>auto simp: unseen_def\<close>)
    with sys_pods(2) show ?thesis by (auto simp: sys_ok_def owners_ok_def held_by_def)
  qed
  moreover have "checks_ok (k\<lparr>sy_pods := pods\<rparr>)"
  proof -
    have "\<not> unseen hs k x" if "sy_task k i = Running Acquire (cs @ [LGot n (Some l), LPods ps])" "lease_holder l = Some x"
      for i cs n l ps x
      using that unfolding unseen_def by fastforce
    with sys_pods(2) a show ?thesis unfolding sys_ok_def checks_ok_def by (metis sys.select_convs(4) sys.surjective sys.update_convs(3))
  qed
  ultimately show ?case using sys_pods(2) by (simp add: sys_ok_def versions_ok_def)
qed (intro sys_ok_doing; simp)+

lemma sys_ok_reachable: "(sys_step hs scope target)\<^sup>*\<^sup>* (sys_start pods) k \<Longrightarrow> sys_ok hs k"
proof (induction rule: rtranclp_induct)
  case base
  show ?case by (simp add: sys_start_def sys_ok_def owners_ok_def versions_ok_def checks_ok_def)
qed (rule sys_ok_step)

section \<open>Properties\<close>

text \<open>A node lease is taken by one conditional write.  An acquisition that succeeds made its
  only successful write last; that write creates the lease, or takes over the very version read just
  before (so the API server refuses it if anyone wrote in between), and a lease that had a holder is
  taken over only if a listing read in between shows no pod of that name and uid.  It makes at most
  four writes; one that fails has written nothing.\<close>

theorem acquire_is_one_conditional_write:
  assumes "lst_calls s = []" and "run_state (acquire env c target) s = (r, t)"
  shows "writes (lst_calls t) \<le> 4
    \<and> (case r of
         Inr name \<Rightarrow> name = lease_name (co_scope c) target \<and> won c name target (lst_calls t)
           \<and> (\<forall>x\<in>set (butlast (lst_calls t)). \<not> write_ok x)
       | Inl _ \<Rightarrow> \<forall>x\<in>set (lst_calls t). \<not> write_ok x)"
proof -
  have "acquire_post c (lease_name (co_scope c) target) target 4 r (lst_calls t)"
    by (rule tw_run[OF _ assms(2)[unfolded acquire_def]])
      (use acquire_loop_post[of "[]" 4 4 env c "lease_name (co_scope c) target" target] assms(1) in simp)
  then show ?thesis by (auto simp: acquire_post_def split: sum.splits)
qed

definition free_env :: "nat lease_env" where
  "free_env = \<lparr>le_get = (\<lambda>_ w. (Inr None, w)), le_create = (\<lambda>_ w. (Inr (), w + 1)),
     le_patch = (\<lambda>_ _ w. (Inr (), w + 1)), le_pods = (\<lambda>w. (Inr [], w)), le_now = (\<lambda>w. (''now'', w))\<rparr>"

definition replica :: coordinator where
  "replica = \<lparr>co_holder = ''roder-0/uid0'', co_scope = ''default''\<rparr>"

lemma free_run:
  "run_state (acquire free_env replica ''n1'') \<lparr>lst_world = 0, lst_calls = []\<rparr> =
     (Inr (lease_name ''default'' ''n1''),
      \<lparr>lst_world = 1, lst_calls = [LGot (lease_name ''default'' ''n1'') None,
         LCreate (new_lease (lease_name ''default'' ''n1'') ''n1'' ''roder-0/uid0'' ''now'' ''now'') True]\<rparr>)"
proof -
  have "4 = Suc 3" by simp
  then show ?thesis
    unfolding acquire_def
    by (simp only: acquire_loop.simps)
      (simp add: free_env_def replica_def get_lease_def ask_def logged_def check_holder_def write_lease_def
        succeeded_call_def Let_def)
qed

theorem acquire_is_one_conditional_write_witness:
  "writes [LGot (lease_name ''default'' ''n1'') None,
     LCreate (new_lease (lease_name ''default'' ''n1'') ''n1'' ''roder-0/uid0'' ''now'' ''now'') True] \<le> 4"
  using acquire_is_one_conditional_write[OF _ free_run] by simp

text \<open>C12: two tasks never hold the lease of a node together while their replicas live, in any interleaving of the calls
  that the code of the acquisitions, renewals and releases of all replicas makes, with answers that get lost and
  replicas that come and go.  The store is the API server's; nobody but the replicas writes
  the lease.\<close>

theorem lease_mutual_exclusion:
  assumes "(sys_step hs scope target)\<^sup>*\<^sup>* (sys_start pods) k"
    and "holds k i" "alive k (hs i)" and "holds k j" "alive k (hs j)"
  shows "i = j"
  using sys_ok_reachable[OF assms(1)] assms(2-5) unfolding sys_ok_def owners_ok_def holds_def
  by (metis answers_for.simps(2,4))

definition pod0 :: roder_pod where
  "pod0 = \<lparr>rp_name = ''roder-0'', rp_uid = ''uid0'', rp_node = ''n1'', rp_ip = ''10.0.0.1'',
     rp_ready = True, rp_tls_fingerprint = None\<rparr>"

definition demo_lease :: lease where
  "demo_lease = new_lease (lease_name ''default'' ''n1'') ''n1'' ''roder-0/uid0'' ''now'' ''now''"

definition held_sys :: sys where
  "held_sys = \<lparr>sy_lease = Some (demo_lease\<lparr>l_resource_version := Some ''1''\<rparr>), sy_used = {''1''}, sy_pods = [pod0],
     sy_task = (\<lambda>_. Resting)(0 := Held)\<rparr>"

lemma held_reachable: "(sys_step (\<lambda>_. ''roder-0/uid0'') ''default'' ''n1'')\<^sup>*\<^sup>* (sys_start [pod0]) held_sys"
proof -
  let ?n = "lease_name ''default'' ''n1''" and ?step = "sys_step (\<lambda>_. ''roder-0/uid0'') ''default'' ''n1''"
  let ?calls = "[LGot ?n None, LCreate demo_lease True]"
  have run: "op_run Acquire replica ''n1'' ?calls True"
    using run_acquire[OF free_run] by (simp add: demo_lease_def replica_def)
  then have may: "may_call Acquire \<lparr>co_holder = ''roder-0/uid0'', co_scope = ''default''\<rparr> ''n1'' [] (LGot ?n None)"
    "may_call Acquire \<lparr>co_holder = ''roder-0/uid0'', co_scope = ''default''\<rparr> ''n1'' [LGot ?n None] (LCreate demo_lease True)"
    unfolding may_call_def replica_def by (metis append_Nil, metis append_Cons append_Nil)
  let ?k1 = "doing 0 (Running Acquire []) (sys_start [pod0])"
  let ?k2 = "doing 0 (Running Acquire [LGot ?n None]) ?k1"
  let ?k3 = "doing 0 (Running Acquire ?calls) (stored demo_lease ''1'' ?k2)"
  have 1: "?step (sys_start [pod0]) ?k1" by (rule sys_acquire) (simp add: sys_start_def)
  have "served ?k1 (LGot ?n (sy_lease ?k1)) ?k1" by (rule served_get)
  then have "served ?k1 (LGot ?n None) ?k1" by (simp add: sys_start_def)
  then have "?step ?k1 (doing 0 (Running Acquire ([] @ [LGot ?n None])) ?k1)"
    by (intro sys_call[where cs = "[]"] may(1)) (simp_all only: sys_simps simp_thms if_True)
  then have 2: "?step ?k1 ?k2" by (simp only: append_Nil)
  have "served ?k2 (LCreate demo_lease True) (stored demo_lease ''1'' ?k2)"
    by (rule served_create) (simp_all add: sys_start_def)
  then have "?step ?k2 (doing 0 (Running Acquire ([LGot ?n None] @ [LCreate demo_lease True])) (stored demo_lease ''1'' ?k2))"
    by (intro sys_call[where cs = "[LGot ?n None]"] may(2)) (simp_all only: sys_simps simp_thms if_True)
  then have 3: "?step ?k2 ?k3" by (simp only: append_Cons append_Nil)
  have 4: "?step ?k3 (doing 0 (ended Acquire True) ?k3)"
    by (rule sys_end) (use run in \<open>simp_all add: replica_def\<close>)
  have "doing 0 (ended Acquire True) ?k3 = held_sys"
    by (simp add: doing_def stored_def sys_start_def held_sys_def ended_def fun_eq_iff)
  with 4 have "?step ?k3 held_sys" by (simp only:)
  with 1 2 3 show ?thesis by (blast intro: converse_rtranclp_into_rtranclp)
qed

theorem lease_mutual_exclusion_witness:
  "holds held_sys 0 \<and> (\<forall>j. \<not> (holds held_sys j \<and> j \<noteq> 0))"
proof -
  have p: "holds held_sys 0" "alive held_sys ''roder-0/uid0''"
    by (simp_all add: holds_def held_sys_def alive_def holder_pod_exists_def pod0_def)
  show ?thesis using lease_mutual_exclusion[OF held_reachable _ p(2) p(1) p(2)] p(1) by blast
qed

text \<open>A replica renews or releases a lease only as its own: it patches only the version it just
  read with itself as the holder, and it makes that one patch at most.\<close>

theorem only_own_lease_patched:
  assumes "lst_calls s = []"
    and "run_state (renew env c name) s = (r, t) \<or> run_state (release env c name) s = (u, t)"
  shows "own_patch c name (lst_calls t)"
  using assms(2)
proof
  assume "run_state (renew env c name) s = (r, t)"
  from tw_run[OF _ this] renew_own[of env c name] assms(1) show ?thesis by fastforce
next
  assume "run_state (release env c name) s = (u, t)"
  from tw_run[OF _ this] release_own[of env c name] assms(1) show ?thesis by fastforce
qed

definition own_lease :: lease where
  "own_lease = (new_lease ''l'' ''n1'' ''roder-0/uid0'' [] [])\<lparr>l_resource_version := Some ''7''\<rparr>"

theorem only_own_lease_patched_witness:
  "own_patch replica ''l'' [LGot ''l'' (Some own_lease), LPatch ''l'' (PatchRelease (Some ''7'')) True]"
proof -
  have "run_state (release (free_env\<lparr>le_get := (\<lambda>_ w. (Inr (Some own_lease), w))\<rparr>) replica ''l'')
      \<lparr>lst_world = 0, lst_calls = []\<rparr> = ((), \<lparr>lst_world = 1,
        lst_calls = [LGot ''l'' (Some own_lease), LPatch ''l'' (PatchRelease (Some ''7'')) True]\<rparr>)"
    by (simp add: release_def get_lease_def ask_def logged_def patch_lease_def free_env_def replica_def
        own_lease_def lease_holder_def new_lease_def succeeded_call_def)
  from only_own_lease_patched[OF _ disjI2[OF this]] show ?thesis by simp
qed

definition failed_run :: "(acquire_error + unit) list \<Rightarrow> bool" where
  "failed_run rs \<longleftrightarrow> (\<exists>before after x y z. rs = before @ [Inl x, Inl y, Inl z] @ after)"

lemma renew_ticks_snoc:
  "renew_ticks (rs @ [r]) = renew_tick (renew_ticks rs) r"
  by (simp add: renew_ticks_def)

lemma failures_are_last:
  "fst (renew_ticks rs) = length (takeWhile (\<lambda>r. \<exists>e. r = Inl e) (rev rs))"
proof (induction rs rule: rev_induct)
  case (snoc r rs)
  then show ?case
    by (cases r) (auto simp: renew_ticks_snoc renew_tick_def split: prod.split)
qed (simp add: renew_ticks_def)

lemma failed_run_snoc:
  "failed_run (rs @ [r]) \<longleftrightarrow> failed_run rs \<or> (\<exists>b x y z. rs @ [r] = b @ [Inl x, Inl y, Inl z])"
proof
  assume "failed_run (rs @ [r])"
  then obtain b af x y z where e: "rs @ [r] = b @ [Inl x, Inl y, Inl z] @ af" by (auto simp: failed_run_def)
  show "failed_run rs \<or> (\<exists>b x y z. rs @ [r] = b @ [Inl x, Inl y, Inl z])"
  proof (cases af rule: rev_cases)
    case Nil
    with e show ?thesis by auto
  next
    case (snoc af' a)
    with e have "rs = b @ [Inl x, Inl y, Inl z] @ af'" by (metis append_assoc butlast_snoc)
    then show ?thesis unfolding failed_run_def by blast
  qed
next
  assume "failed_run rs \<or> (\<exists>b x y z. rs @ [r] = b @ [Inl x, Inl y, Inl z])"
  then show "failed_run (rs @ [r])"
  proof
    assume "failed_run rs"
    then obtain b af x y z where "rs = b @ [Inl x, Inl y, Inl z] @ af" by (auto simp: failed_run_def)
    then have "rs @ [r] = b @ [Inl x, Inl y, Inl z] @ (af @ [r])" by simp
    then show ?thesis unfolding failed_run_def by blast
  next
    assume "\<exists>b x y z. rs @ [r] = b @ [Inl x, Inl y, Inl z]"
    then show ?thesis unfolding failed_run_def by (metis append_Nil2)
  qed
qed

lemma three_failures:
  "(\<exists>b x y z. rs @ [r] = b @ [Inl x, Inl y, Inl z]) \<longleftrightarrow>
     (\<exists>e. r = Inl e) \<and> 2 \<le> length (takeWhile (\<lambda>r. \<exists>e. r = Inl e) (rev rs))"
  by (cases rs rule: rev_cases; cases "butlast rs" rule: rev_cases) (auto split: if_splits)

text \<open>The renewal task gives a job up exactly when three renewals in a row have failed.\<close>

theorem renewal_gives_up_after_three_failures:
  "snd (renew_ticks rs) \<longleftrightarrow> failed_run rs"
proof (induction rs rule: rev_induct)
  case Nil
  show ?case by (simp add: renew_ticks_def failed_run_def)
next
  case (snoc r rs)
  have "snd (renew_ticks (rs @ [r])) \<longleftrightarrow>
      snd (renew_ticks rs) \<or> (\<exists>e. r = Inl e) \<and> 2 \<le> fst (renew_ticks rs)"
    by (cases r) (auto simp: renew_ticks_snoc renew_tick_def split: prod.split)
  then show ?case
    unfolding failed_run_snoc three_failures snoc.IH failures_are_last by blast
qed

section \<open>The name of a lease\<close>

definition label_char :: "char \<Rightarrow> bool" where
  "label_char c \<longleftrightarrow> is_ascii_lowercase c \<or> is_ascii_digit c \<or> c = CHR ''-''"

lemma lease_char_label: "label_char (lease_char cp)"
proof -
  have "label_char (to_ascii_lower c)" if "is_ascii_alphanumeric c \<or> c = CHR ''-''" for c
  proof (cases "is_ascii_uppercase c")
    case True
    then have "code c + 32 < 256" by (simp add: is_ascii_uppercase_def)
    with True show ?thesis
      by (simp add: to_ascii_lower_def label_char_def is_ascii_lowercase_def is_ascii_uppercase_def code_def)
  next
    case False
    with that show ?thesis
      by (auto simp: to_ascii_lower_def label_char_def is_ascii_alphanumeric_def is_ascii_alphabetic_def)
  qed
  then show ?thesis
    by (auto simp: lease_char_def label_char_def split: list.split)
qed

lemma hex_digit_label: "d < 16 \<Longrightarrow> label_char (hex_digit d)"
  by (auto simp: hex_digit_def label_char_def is_ascii_digit_def is_ascii_lowercase_def code_def)

lemma hex_digit_not_dash: "d < 16 \<Longrightarrow> hex_digit d \<noteq> CHR ''-''"
proof
  assume "d < 16" "hex_digit d = CHR ''-''"
  then have "code (hex_digit d) = 45" by (simp add: code_def)
  with \<open>d < 16\<close> show False by (auto simp: hex_digit_def code_def split: if_splits)
qed

lemma hex16_label: "length (hex16 h) = 16 \<and> list_all label_char (hex16 h) \<and> last (hex16 h) \<noteq> CHR ''-''"
proof -
  have "last (hex16 h) \<noteq> CHR ''-''"
    unfolding hex16_def by (subst last_map) (simp_all add: hex_digit_not_dash del: upt.simps)
  moreover have "list_all label_char (hex16 h)"
    unfolding hex16_def list_all_iff set_map by (auto intro: hex_digit_label simp del: upt.simps)
  ultimately show ?thesis by (simp add: hex16_def)
qed

lemma trim_matches_sub:
  "set (trim_matches P s) \<subseteq> set s \<and> length (trim_matches P s) \<le> length s"
proof -
  have "set (trim_matches P s) \<subseteq> set s"
    by (auto simp: trim_matches_def trim_end_matches_def trim_start_matches_def dest!: set_dropWhileD)
  moreover have "length (trim_matches P s) \<le> length s"
    unfolding trim_matches_def trim_end_matches_def trim_start_matches_def
    by (metis length_dropWhile_le length_rev order_trans)
  ultimately show ?thesis ..
qed

text \<open>The name of a node's lease is one the API server accepts, whatever the node and the scope
  are called: at most 253 characters, all of them lower case letters, digits or dashes, the first
  and the last one a letter or a digit.\<close>

theorem lease_name_is_valid:
  "length (lease_name scope target) \<le> 253
   \<and> list_all label_char (lease_name scope target)
   \<and> hd (lease_name scope target) = CHR ''r''
   \<and> last (lease_name scope target) \<noteq> CHR ''-''"
proof -
  let ?t = "trim_matches (\<lambda>c. c = CHR ''-'') (take 220 (map lease_char (code_points target)))"
  let ?h = "hex16 (fnv1a scope target)"
  have sub: "set ?t \<subseteq> set (take 220 (map lease_char (code_points target)))" "length ?t \<le> 220"
    using trim_matches_sub[of "\<lambda>c. c = CHR ''-''" "take 220 (map lease_char (code_points target))"] by auto
  have t: "list_all label_char ?t"
    using sub(1) lease_char_label by (force simp: list_all_iff dest: in_set_takeD)
  have h: "length ?h = 16" "list_all label_char ?h" "last ?h \<noteq> CHR ''-''"
    using hex16_label[of "fnv1a scope target"] by auto
  have "list_all label_char ''roder-node-''"
    by (simp add: label_char_def is_ascii_lowercase_def code_def)
  moreover have "?h \<noteq> []" using h(1) by auto
  ultimately show ?thesis
    unfolding lease_name_def Let_def using sub(2) t h by (simp add: label_char_def)
qed

end
