(* ===== verification/Backends.thy ===== *)
theory Backends
  imports Effects RustStr
begin

text \<open>
  \<open>src/src/server/backends.rs\<close> with the token set of \<open>crates/auth/src/lib.rs\<close>: the registry that
  gives every subject its own cluster backend.  Connecting, refreshing a token at the identity
  provider, the clock and the subscribers of a backend are an environment.  A backend is a
  number.  The per-subject build locks other tasks hold are the environment's \<open>be_building\<close>; a
  task's own lock counts as held while it inserts.  Before every use of the map other tasks may
  have changed it (\<open>be_meanwhile\<close>).
\<close>

section \<open>Tokens\<close>

record identity =
  id_subject :: string
  id_email :: "string option"
  id_name :: "string option"
  id_groups :: "string list"

record tokens =
  tk_id_token :: string
  tk_access_token :: string
  tk_refresh_token :: "string option"
  tk_expires_at :: int
  tk_identity :: identity

text \<open>Times are seconds.\<close>

definition needs_refresh :: "int \<Rightarrow> tokens \<Rightarrow> bool" where
  "needs_refresh now t \<longleftrightarrow> tk_expires_at t - now \<le> 60"

definition is_abandoned :: "int \<Rightarrow> tokens \<Rightarrow> bool" where
  "is_abandoned now t \<longleftrightarrow> now > tk_expires_at t + 24 * 3600"

section \<open>The registry\<close>

record backend_entry =
  be_backend :: nat
  be_tokens :: tokens
  be_last_active :: int

record resolved_backend =
  rb_backend :: nat
  rb_tokens :: tokens

record 'w backend_env =
  be_now :: "'w \<Rightarrow> int \<times> 'w"
  be_refresh :: "string \<Rightarrow> 'w \<Rightarrow> tokens option \<times> 'w"
  be_connect :: "string \<Rightarrow> 'w \<Rightarrow> nat option \<times> 'w"
  be_set_token :: "nat \<Rightarrow> string \<Rightarrow> 'w \<Rightarrow> bool \<times> 'w"
  be_subscribed :: "'w \<Rightarrow> nat \<Rightarrow> bool"
  be_building :: "'w \<Rightarrow> string \<Rightarrow> bool"
  be_meanwhile :: "(string, backend_entry) hmap \<Rightarrow> 'w \<Rightarrow> (string, backend_entry) hmap \<times> 'w"
  be_has_provider :: bool
  be_cap :: nat
  be_idle :: int

record 'w backend_st =
  bs_world :: 'w
  bs_map :: "(string, backend_entry) hmap"

definition env_do :: "('w \<Rightarrow> 'a \<times> 'w) \<Rightarrow> ('w backend_st, 'a) state" where
  "env_do f = State (\<lambda>s. case f (bs_world s) of (a, w) \<Rightarrow> (a, s\<lparr>bs_world := w\<rparr>))"

definition read_map :: "'w backend_env \<Rightarrow> ('w backend_st, (string, backend_entry) hmap) state" where
  "read_map env = State (\<lambda>s. case be_meanwhile env (bs_map s) (bs_world s) of
     (m, w) \<Rightarrow> (m, s\<lparr>bs_map := m, bs_world := w\<rparr>))"

definition write_map :: "(string, backend_entry) hmap \<Rightarrow> ('w backend_st, unit) state" where
  "write_map m = State (\<lambda>s. ((), s\<lparr>bs_map := m\<rparr>))"

definition read_world :: "('w backend_st, 'w) state" where
  "read_world = State (\<lambda>s. (bs_world s, s))"

section \<open>Eviction\<close>

definition evict_locked ::
  "(string \<Rightarrow> bool) \<Rightarrow> string \<Rightarrow> (string, backend_entry) hmap \<Rightarrow> bool \<times> (string, backend_entry) hmap" where
  "evict_locked building subject m =
     (if building subject then (False, m)
      else (hm_get m subject \<noteq> None, hm_remove subject m))"

definition candidates :: "(string, backend_entry) hmap \<Rightarrow> (string, backend_entry) hmap" where
  "candidates m = sort_key (\<lambda>(k, e). be_last_active e) m"

text \<open>One pass over the candidates: the first idle one whose eviction succeeds.\<close>

fun evict_first ::
  "(nat \<Rightarrow> bool) \<Rightarrow> (string \<Rightarrow> bool) \<Rightarrow> (string, backend_entry) hmap \<Rightarrow> (string, backend_entry) hmap
     \<Rightarrow> (string, backend_entry) hmap option" where
  "evict_first subscribed building [] m = None"
| "evict_first subscribed building ((k, e) # cs) m =
     (if subscribed (be_backend e) then evict_first subscribed building cs m
      else case evict_locked building k m of
             (True, m') \<Rightarrow> Some m'
           | (False, m') \<Rightarrow> evict_first subscribed building cs m')"

lemma evict_first_shrinks: "evict_first sub bld cs m = Some m' \<Longrightarrow> length m' < length m"
proof (induction cs arbitrary: m)
  case (Cons c cs)
  obtain k e where c: "c = (k, e)" by force
  have del: "length (hm_remove k m) < length m" if "hm_get m k \<noteq> None"
  proof -
    from that obtain x where "(k, x) \<in> set m" by (auto dest: map_of_SomeD)
    then show ?thesis
      by (induction m) (auto simp: less_Suc_eq_le intro: le_imp_less_Suc length_delete_le)
  qed
  show ?case
    using Cons del unfolding c
    by (cases "hm_get m k") (auto simp: evict_locked_def delete_id map_of_eq_None_iff split: if_splits)
qed simp

function enforce_cap ::
  "nat \<Rightarrow> (nat \<Rightarrow> bool) \<Rightarrow> (string \<Rightarrow> bool) \<Rightarrow> (string, backend_entry) hmap \<Rightarrow> (string, backend_entry) hmap" where
  "enforce_cap cap sub bld m =
     (if length m \<le> cap then m
      else case evict_first sub bld (candidates m) m of
             None \<Rightarrow> m
           | Some m' \<Rightarrow> enforce_cap cap sub bld m')"
  by pat_completeness auto
termination
  by (relation "measure (\<lambda>(_, _, _, m). length m)") (auto dest: evict_first_shrinks)

declare enforce_cap.simps [simp del]

text \<open>One reaper pass: the candidates are taken first, then tried one after the other.\<close>

fun reap_all ::
  "(nat \<Rightarrow> bool) \<Rightarrow> (string \<Rightarrow> bool) \<Rightarrow> (string, backend_entry) hmap \<Rightarrow> (string, backend_entry) hmap
     \<Rightarrow> (string, backend_entry) hmap" where
  "reap_all sub bld [] m = m"
| "reap_all sub bld ((k, e) # cs) m =
     (if sub (be_backend e) then reap_all sub bld cs m
      else reap_all sub bld cs (snd (evict_locked bld k m)))"

definition reap_pass ::
  "int \<Rightarrow> int \<Rightarrow> (nat \<Rightarrow> bool) \<Rightarrow> (string \<Rightarrow> bool) \<Rightarrow> (string, backend_entry) hmap
     \<Rightarrow> (string, backend_entry) hmap" where
  "reap_pass idle now sub bld m =
     reap_all sub bld (filter (\<lambda>(_, e). now - be_last_active e \<ge> idle) m) m"

section \<open>Resolving a caller\<close>

definition warm :: "'w backend_env \<Rightarrow> string \<Rightarrow> ('w backend_st, resolved_backend option) state" where
  "warm env subject = do {
     m \<leftarrow> read_map env;
     case hm_get m subject of
       None \<Rightarrow> ret None
     | Some e \<Rightarrow> do {
         now \<leftarrow> env_do (be_now env);
         if needs_refresh now (be_tokens e) \<or> tk_id_token (be_tokens e) = [] then ret None
         else do {
           now2 \<leftarrow> env_do (be_now env);
           write_map (hm_insert subject (e\<lparr>be_last_active := now2\<rparr>) m);
           ret (Some \<lparr>rb_backend = be_backend e, rb_tokens = be_tokens e\<rparr>) }}}"

definition insert_entry :: "'w backend_env \<Rightarrow> string \<Rightarrow> nat \<Rightarrow> tokens \<Rightarrow> ('w backend_st, unit) state" where
  "insert_entry env subject backend t = do {
     now \<leftarrow> env_do (be_now env);
     m \<leftarrow> read_map env;
     w \<leftarrow> read_world;
     write_map (enforce_cap (be_cap env) (be_subscribed env w)
       (\<lambda>s. s = subject \<or> be_building env w s)
       (hm_insert subject \<lparr>be_backend = backend, be_tokens = t, be_last_active = now\<rparr> m)) }"

definition mint_tokens :: "'w backend_env \<Rightarrow> tokens \<Rightarrow> ('w backend_st, tokens option) state" where
  "mint_tokens env t = do {
     now \<leftarrow> env_do (be_now env);
     if tk_id_token t = [] \<or> needs_refresh now t then
       (if \<not> be_has_provider env then ret None
        else case tk_refresh_token t of
               None \<Rightarrow> ret None
             | Some rt \<Rightarrow> env_do (be_refresh env rt))
     else ret (Some t) }"

text \<open>Giving the cached backend of a subject a new token set, or building one.\<close>

definition update_or_build ::
  "'w backend_env \<Rightarrow> string \<Rightarrow> tokens \<Rightarrow> ('w backend_st, resolved_backend option) state" where
  "update_or_build env subject live = do {
     m \<leftarrow> read_map env;
     case hm_get m subject of
       Some e \<Rightarrow> do {
         ok \<leftarrow> env_do (be_set_token env (be_backend e) (tk_id_token live));
         if \<not> ok then ret None else do {
         now \<leftarrow> env_do (be_now env);
         write_map (hm_insert subject (e\<lparr>be_tokens := live, be_last_active := now\<rparr>) m);
         ret (Some \<lparr>rb_backend = be_backend e, rb_tokens = live\<rparr>) }}
     | None \<Rightarrow> do {
         b \<leftarrow> env_do (be_connect env (tk_id_token live));
         case b of
           None \<Rightarrow> ret None
         | Some backend \<Rightarrow> do {
             insert_entry env subject backend live;
             ret (Some \<lparr>rb_backend = backend, rb_tokens = live\<rparr>) }}}"

definition refresh_or_build ::
  "'w backend_env \<Rightarrow> string \<Rightarrow> tokens \<Rightarrow> ('w backend_st, resolved_backend option) state" where
  "refresh_or_build env subject t = do {
     live \<leftarrow> mint_tokens env t;
     case live of None \<Rightarrow> ret None | Some l \<Rightarrow> update_or_build env subject l }"

definition replace_login ::
  "'w backend_env \<Rightarrow> string \<Rightarrow> tokens \<Rightarrow> ('w backend_st, resolved_backend option) state" where
  "replace_login env subject t = update_or_build env subject t"

definition resolve :: "'w backend_env \<Rightarrow> tokens \<Rightarrow> ('w backend_st, resolved_backend option) state" where
  "resolve env t =
     (let subject = id_subject (tk_identity t) in
      if subject = [] then ret None else do {
      first \<leftarrow> warm env subject;
      case first of
        Some b \<Rightarrow> ret (Some b)
      | None \<Rightarrow> do {
          again \<leftarrow> warm env subject;
          case again of
            Some b \<Rightarrow> ret (Some b)
          | None \<Rightarrow> refresh_or_build env subject t } })"

definition resolve_login :: "'w backend_env \<Rightarrow> tokens \<Rightarrow> ('w backend_st, resolved_backend option) state" where
  "resolve_login env t =
     (let subject = id_subject (tk_identity t) in
      if subject = [] \<or> tk_id_token t = [] then ret None else replace_login env subject t)"

definition evict :: "(string \<Rightarrow> bool) \<Rightarrow> string \<Rightarrow> (string, backend_entry) hmap \<Rightarrow> (string, backend_entry) hmap" where
  "evict building subject m = snd (evict_locked building subject m)"

definition resolved_tokens :: "string \<Rightarrow> (string, backend_entry) hmap \<Rightarrow> tokens option" where
  "resolved_tokens subject m = map_option be_tokens (hm_get m subject)"

end
