(* ===== verification/BackendProps.thy ===== *)
theory BackendProps
  imports Backends
begin

text \<open>
  The guarantees of the backend registry: a caller only ever gets its own backend, and eviction
  never takes a backend that is watched, in use or just admitted.
\<close>

section \<open>Invariant\<close>

text \<open>Every cached token set belongs to the subject it is cached under.\<close>

definition registry_ok :: "(string, backend_entry) hmap \<Rightarrow> bool" where
  "registry_ok m \<longleftrightarrow>
     (\<forall>k e. hm_get m k = Some e \<longrightarrow> id_subject (tk_identity (be_tokens e)) = k)"

lemma registry_ok_insert [inv_intros]:
  "registry_ok m \<Longrightarrow> id_subject (tk_identity (be_tokens e)) = k \<Longrightarrow> registry_ok (hm_insert k e m)"
  by (auto simp: registry_ok_def)

lemma registry_ok_evict [inv_intros]: "registry_ok m \<Longrightarrow> registry_ok (snd (evict_locked b k m))"
  by (auto simp: registry_ok_def evict_locked_def)

lemma evict_first_Some:
  assumes "evict_first sub bld cs m = Some m'"
  shows "\<exists>k e before after. cs = before @ (k, e) # after \<and> \<not> sub (be_backend e) \<and> \<not> bld k
    \<and> hm_get m k \<noteq> None \<and> m' = hm_remove k m
    \<and> (\<forall>(k', e')\<in>set before. sub (be_backend e') \<or> bld k' \<or> hm_get m k' = None)"
  using assms
proof (induction cs arbitrary: m)
  case (Cons c cs)
  obtain k e where c: "c = (k, e)" by force
  show ?case
  proof (cases "\<not> sub (be_backend e) \<and> \<not> bld k \<and> hm_get m k \<noteq> None")
    case True
    then have "m' = hm_remove k m" using Cons.prems by (auto simp: c evict_locked_def)
    with True show ?thesis
      by (intro exI[of _ k] exI[of _ e] exI[of _ "[]"] exI[of _ cs]) (auto simp: c)
  next
    case False
    have same: "snd (evict_locked bld k m) = m" if "bld k \<or> hm_get m k = None"
      using that by (auto simp: evict_locked_def delete_id map_of_eq_None_iff)
    have "evict_first sub bld cs m = Some m'"
    proof (cases "sub (be_backend e)")
      case False': False
      with False have n: "bld k \<or> hm_get m k = None" by blast
      then have "fst (evict_locked bld k m) = False" by (auto simp: evict_locked_def)
      with same[OF n] have "evict_locked bld k m = (False, m)" by (metis prod.collapse)
      then show ?thesis using Cons.prems False' by (simp add: c)
    qed (use Cons.prems in \<open>simp add: c\<close>)
    from Cons.IH[OF this] obtain k' e' bf af where
      "cs = bf @ (k', e') # af" "\<not> sub (be_backend e')" "\<not> bld k'" "hm_get m k' \<noteq> None" "m' = hm_remove k' m"
      "\<forall>(k', e')\<in>set bf. sub (be_backend e') \<or> bld k' \<or> hm_get m k' = None" by blast
    with False show ?thesis
      by (intro exI[of _ k'] exI[of _ e'] exI[of _ "(k, e) # bf"] exI[of _ af]) (auto simp: c)
  qed
qed simp

lemma evict_first_None:
  assumes "evict_first sub bld cs m = None" "(k, e) \<in> set cs"
  shows "sub (be_backend e) \<or> bld k \<or> hm_get m k = None"
  using assms
proof (induction cs arbitrary: m)
  case (Cons c cs)
  obtain k1 e1 where c: "c = (k1, e1)" by force
  have n: "sub (be_backend e1) \<or> bld k1 \<or> hm_get m k1 = None"
    using Cons.prems(1) by (cases "hm_get m k1") (auto simp: c evict_locked_def split: if_splits)
  then have "evict_first sub bld cs m = None"
    using Cons.prems(1)
    by (auto simp: c evict_locked_def delete_id map_of_eq_None_iff split: if_splits)
  with Cons.IH[OF this] Cons.prems(2) n show ?case by (auto simp: c)
qed simp

lemma set_candidates [simp]: "set (candidates m) = set m"
  by (simp add: candidates_def)

lemma evicted_entry:
  assumes "hm_ok m" "evict_first sub bld (candidates m) m = Some m'"
  obtains k e where "hm_get m k = Some e" "\<not> sub (be_backend e)" "\<not> bld k" "m' = hm_remove k m"
    "\<And>k' e'. hm_get m k' = Some e' \<Longrightarrow> \<not> sub (be_backend e') \<Longrightarrow> \<not> bld k' \<Longrightarrow>
       be_last_active e \<le> be_last_active e'"
proof -
  from evict_first_Some[OF assms(2)] obtain k e bf af where
    cs: "candidates m = bf @ (k, e) # af" and e: "\<not> sub (be_backend e)" "\<not> bld k" "m' = hm_remove k m"
    and bf: "\<forall>(k', e')\<in>set bf. sub (be_backend e') \<or> bld k' \<or> hm_get m k' = None" by blast
  have "(k, e) \<in> set (candidates m)" unfolding cs by simp
  then have g: "hm_get m k = Some e" using hm_in_set[OF assms(1), of k e] by simp
  have sorted: "sorted (map (\<lambda>(k, e). be_last_active e) (bf @ (k, e) # af))"
    unfolding cs[symmetric] by (simp add: candidates_def)
  have "be_last_active e \<le> be_last_active e'"
    if x: "hm_get m k' = Some e'" "\<not> sub (be_backend e')" "\<not> bld k'" for k' e'
  proof -
    from x(1) have "(k', e') \<in> set (candidates m)" using hm_in_set[OF assms(1), of k' e'] by simp
    moreover have "(k', e') \<notin> set bf" using bf x by auto
    ultimately have "(k', e') = (k, e) \<or> (k', e') \<in> set af" unfolding cs by auto
    with sorted show ?thesis by (auto simp: sorted_append)
  qed
  with that g e show ?thesis by blast
qed

section \<open>The soft cap\<close>

definition cap_outcome ::
  "nat \<Rightarrow> (nat \<Rightarrow> bool) \<Rightarrow> (string \<Rightarrow> bool) \<Rightarrow> (string, backend_entry) hmap \<Rightarrow> (string, backend_entry) hmap \<Rightarrow> bool" where
  "cap_outcome cap sub bld m m' \<longleftrightarrow>
     (\<forall>k e. hm_get m' k = Some e \<longrightarrow> hm_get m k = Some e)
   \<and> (\<forall>k e. hm_get m k = Some e \<and> hm_get m' k = None \<longrightarrow> \<not> sub (be_backend e) \<and> \<not> bld k
        \<and> (\<forall>k' e'. hm_get m' k' = Some e' \<and> \<not> sub (be_backend e') \<and> \<not> bld k' \<longrightarrow>
             be_last_active e \<le> be_last_active e'))
   \<and> (length m' \<le> cap \<or> (\<forall>k e. hm_get m' k = Some e \<longrightarrow> sub (be_backend e) \<or> bld k))
   \<and> min (length m) cap \<le> length m'"

lemma cap_outcome_same:
  "length m \<le> cap \<or> (\<forall>k e. hm_get m k = Some e \<longrightarrow> sub (be_backend e) \<or> bld k) \<Longrightarrow> cap_outcome cap sub bld m m"
  by (auto simp: cap_outcome_def)

lemma enforce_cap_outcome:
  "hm_ok m \<Longrightarrow> hm_ok (enforce_cap cap sub bld m) \<and> cap_outcome cap sub bld m (enforce_cap cap sub bld m)"
proof (induction cap sub bld m rule: enforce_cap.induct)
  case (1 cap sub bld m)
  show ?case
  proof (cases "length m \<le> cap")
    case True
    then show ?thesis using 1(2) by (subst (1 2) enforce_cap.simps) (simp add: cap_outcome_same)
  next
    case False
    show ?thesis
    proof (cases "evict_first sub bld (candidates m) m")
      case None
      then have "\<forall>k e. hm_get m k = Some e \<longrightarrow> sub (be_backend e) \<or> bld k"
        using evict_first_None[of sub bld "candidates m" m] hm_in_set[OF 1(2)] by fastforce
      from cap_outcome_same[OF disjI2[OF this]] show ?thesis
        using False None 1(2) by (subst (1 2) enforce_cap.simps) simp
    next
      case (Some m1)
      from 1(2) Some obtain k e where ke: "hm_get m k = Some e" "\<not> sub (be_backend e)" "\<not> bld k"
        "m1 = hm_remove k m"
        "\<And>k' e'. hm_get m k' = Some e' \<Longrightarrow> \<not> sub (be_backend e') \<Longrightarrow> \<not> bld k' \<Longrightarrow>
           be_last_active e \<le> be_last_active e'" by (rule evicted_entry) blast
      let ?m = "enforce_cap cap sub bld m1"
      have eq: "enforce_cap cap sub bld m = ?m" using False Some by (subst enforce_cap.simps) simp
      have ok1: "hm_ok m1" using 1(2) ke(4) by simp
      have len: "Suc (length m1) = length m" using hm_length_remove[OF 1(2) ke(1)] ke(4) by simp
      from 1(1)[OF False Some ok1] have ih: "hm_ok ?m" "cap_outcome cap sub bld m1 ?m" by auto
      have sub: "hm_get ?m k' = Some e' \<Longrightarrow> hm_get m k' = Some e' \<and> k' \<noteq> k" for k' e'
      proof -
        assume "hm_get ?m k' = Some e'"
        with ih(2) have "hm_get m1 k' = Some e'" unfolding cap_outcome_def by blast
        then show ?thesis unfolding ke(4) by (simp split: if_splits)
      qed
      have "cap_outcome cap sub bld m ?m"
        unfolding cap_outcome_def
      proof (intro conjI allI impI)
        fix k' e' assume "hm_get ?m k' = Some e'"
        then show "hm_get m k' = Some e'" using sub by blast
      next
        fix k' e' assume g: "hm_get m k' = Some e' \<and> hm_get ?m k' = None"
        have "k' \<noteq> k \<Longrightarrow> hm_get m1 k' = Some e'" using g ke(4) by simp
        then have "\<not> sub (be_backend e') \<and> \<not> bld k'"
          using g ke(1-3) ih(2) unfolding cap_outcome_def by (cases "k' = k") auto
        then show "\<not> sub (be_backend e')" "\<not> bld k'" by simp_all
        fix k2 e2 assume r: "hm_get ?m k2 = Some e2 \<and> \<not> sub (be_backend e2) \<and> \<not> bld k2"
        show "be_last_active e' \<le> be_last_active e2"
        proof (cases "k' = k")
          case True
          then show ?thesis using g ke(1,5) sub r by auto
        next
          case k: False
          then have "hm_get m1 k' = Some e'" using g ke(4) by simp
          then show ?thesis using g r ih(2) unfolding cap_outcome_def by blast
        qed
      next
        show "length ?m \<le> cap \<or> (\<forall>k e. hm_get ?m k = Some e \<longrightarrow> sub (be_backend e) \<or> bld k)"
          using ih(2) unfolding cap_outcome_def by blast
        show "min (length m) cap \<le> length ?m"
          using ih(2) len False unfolding cap_outcome_def by auto
      qed
      with ih(1) show ?thesis unfolding eq by blast
    qed
  qed
qed

lemma registry_ok_cap:
  "hm_ok m \<Longrightarrow> registry_ok m \<Longrightarrow> registry_ok (enforce_cap cap sub bld m)"
  using enforce_cap_outcome[of m cap sub bld] unfolding registry_ok_def cap_outcome_def by blast

section \<open>The reaper\<close>

lemma reap_all_get:
  "hm_ok m \<Longrightarrow> hm_get (reap_all sub bld cs m) k =
     (if \<exists>e. (k, e) \<in> set cs \<and> \<not> sub (be_backend e) \<and> \<not> bld k then None else hm_get m k)"
proof (induction sub bld cs m rule: reap_all.induct)
  case (2 sub bld k1 e cs m)
  have ok: "hm_ok (snd (evict_locked bld k1 m))" using 2(3) by (simp add: evict_locked_def)
  show ?case
    using 2(1)[OF _ 2(3)] 2(2)[OF _ ok] by (auto simp: evict_locked_def)
qed simp

lemma reap_pass_get:
  assumes "hm_ok m"
  shows "hm_get (reap_pass idle now sub bld m) k =
    (case hm_get m k of None \<Rightarrow> None
     | Some e \<Rightarrow> if now - be_last_active e \<ge> idle \<and> \<not> sub (be_backend e) \<and> \<not> bld k then None else Some e)"
  unfolding reap_pass_def reap_all_get[OF assms]
  using hm_in_set[OF assms, of k] by (cases "hm_get m k") auto

section \<open>A caller gets its own backend\<close>

abbreviation registry_inv :: "(string, backend_entry) hmap \<Rightarrow> bool" where
  "registry_inv m \<equiv> hm_ok m \<and> registry_ok m"

definition env_sound :: "'w backend_env \<Rightarrow> bool" where
  "env_sound env \<longleftrightarrow> (\<forall>m w. registry_inv m \<longrightarrow> registry_inv (fst (be_meanwhile env m w)))"

text \<open>OpenID Connect: a refreshed ID token is for the subject it was first issued for.\<close>

definition refresh_keeps_subject :: "'w backend_env \<Rightarrow> tokens \<Rightarrow> bool" where
  "refresh_keeps_subject env t \<longleftrightarrow>
     (\<forall>rt w live. tk_refresh_token t = Some rt \<longrightarrow> fst (be_refresh env rt w) = Some live \<longrightarrow>
        id_subject (tk_identity live) = id_subject (tk_identity t))"

definition cached :: "string \<Rightarrow> resolved_backend \<Rightarrow> (string, backend_entry) hmap \<Rightarrow> bool" where
  "cached subject rb m \<longleftrightarrow>
     (\<exists>e. hm_get m subject = Some e \<and> be_backend e = rb_backend rb \<and> be_tokens e = rb_tokens rb)"

definition resolved_post :: "string \<Rightarrow> resolved_backend option \<Rightarrow> 'w backend_st \<Rightarrow> bool" where
  "resolved_post subject r t \<longleftrightarrow>
     registry_inv (bs_map t) \<and> (\<forall>rb. r = Some rb \<longrightarrow> cached subject rb (bs_map t))"

lemma post_None: "registry_inv (bs_map t) \<Longrightarrow> resolved_post subject None t"
  by (simp add: resolved_post_def)

lemma post_hit:
  "registry_inv m \<Longrightarrow> id_subject (tk_identity (be_tokens e)) = subject \<Longrightarrow> bs_map t = hm_insert subject e m \<Longrightarrow>
   resolved_post subject (Some \<lparr>rb_backend = be_backend e, rb_tokens = be_tokens e\<rparr>) t"
  unfolding resolved_post_def cached_def by (auto intro: registry_ok_insert simp del: map_of_eq_Some_iff)

lemma wp_env_do: "(\<And>a w. f (bs_world s) = (a, w) \<Longrightarrow> Q a (s\<lparr>bs_world := w\<rparr>)) \<Longrightarrow> wp (env_do f) Q s"
  by (simp add: env_do_def wp_State split: prod.split)

lemma wp_read_map:
  assumes "env_sound env" "registry_inv (bs_map s)"
    and "\<And>m w. registry_inv m \<Longrightarrow> Q m (s\<lparr>bs_map := m, bs_world := w\<rparr>)"
  shows "wp (read_map env) Q s"
  using assms by (auto simp: read_map_def wp_State env_sound_def split: prod.split) (metis fst_conv)+

lemma wp_write_map: "Q () (s\<lparr>bs_map := m\<rparr>) \<Longrightarrow> wp (write_map m) Q s"
  by (simp add: write_map_def wp_State)

lemma wp_read_world: "Q (bs_world s) s \<Longrightarrow> wp read_world Q s"
  by (simp add: read_world_def wp_State)

lemma wp_bindI: "wp m (\<lambda>a. wp (f a) Q) s \<Longrightarrow> wp (State_Monad.bind m f) Q s"
  by (simp add: wp_bind)

lemma wp_ifI: "(c \<Longrightarrow> wp m Q s) \<Longrightarrow> (\<not> c \<Longrightarrow> wp n Q s) \<Longrightarrow> wp (if c then m else n) Q s"
  by simp

lemma wp_optionI:
  "(r = None \<Longrightarrow> wp f Q s) \<Longrightarrow> (\<And>x. r = Some x \<Longrightarrow> wp (g x) Q s) \<Longrightarrow>
   wp (case r of None \<Rightarrow> f | Some x \<Rightarrow> g x) Q s"
  by (cases r) simp_all

lemma wp_retI: "Q a s \<Longrightarrow> wp (ret a) Q s"
  by simp

lemmas wp_intros = wp_bindI wp_ifI wp_optionI wp_retI wp_env_do wp_write_map wp_read_world

lemma warm_post:
  assumes "env_sound env" "registry_inv (bs_map s)"
  shows "wp (warm env subject) (resolved_post subject) s"
  unfolding warm_def
  by (intro wp_intros wp_read_map[OF assms(1)])
    (use assms(2) in \<open>auto simp: resolved_post_def cached_def registry_ok_def\<close>)

lemma insert_keeps_entrant:
  assumes "registry_inv m" "id_subject (tk_identity t) = subject"
  shows "registry_inv (enforce_cap cap sub (\<lambda>s. s = subject \<or> bld s)
      (hm_insert subject \<lparr>be_backend = b, be_tokens = t, be_last_active = n\<rparr> m))
    \<and> cached subject \<lparr>rb_backend = b, rb_tokens = t\<rparr> (enforce_cap cap sub (\<lambda>s. s = subject \<or> bld s)
      (hm_insert subject \<lparr>be_backend = b, be_tokens = t, be_last_active = n\<rparr> m))"
proof -
  let ?m = "hm_insert subject \<lparr>be_backend = b, be_tokens = t, be_last_active = n\<rparr> m"
  let ?bld = "\<lambda>s. s = subject \<or> bld s"
  have ok: "registry_inv ?m" using assms by (auto intro: registry_ok_insert)
  then have out: "hm_ok (enforce_cap cap sub ?bld ?m)" "cap_outcome cap sub ?bld ?m (enforce_cap cap sub ?bld ?m)"
    using enforce_cap_outcome by blast+
  have "hm_get (enforce_cap cap sub ?bld ?m) subject \<noteq> None"
    using out(2) unfolding cap_outcome_def by (metis hm_get_insert)
  then have "cached subject \<lparr>rb_backend = b, rb_tokens = t\<rparr> (enforce_cap cap sub ?bld ?m)"
    using out(2) unfolding cap_outcome_def cached_def by (metis (no_types, lifting) backend_entry.select_convs(1,2)
        hm_get_insert not_None_eq option.inject resolved_backend.select_convs)
  with ok out(1) registry_ok_cap show ?thesis by blast
qed

lemma insert_entry_post:
  assumes "env_sound env" "registry_inv (bs_map s)" "id_subject (tk_identity t) = subject"
    and Q: "\<And>s'. resolved_post subject (Some \<lparr>rb_backend = b, rb_tokens = t\<rparr>) s' \<Longrightarrow> Q () s'"
  shows "wp (insert_entry env subject b t) Q s"
  unfolding insert_entry_def
proof (intro wp_intros wp_read_map[OF assms(1)])
  fix n m and w w' :: 'a
  assume "registry_inv m"
  from insert_keeps_entrant[OF this assms(3)]
  show "Q () (s\<lparr>bs_world := w, bs_map := m, bs_world := w', bs_map :=
     enforce_cap (be_cap env) (be_subscribed env (bs_world (s\<lparr>bs_world := w, bs_map := m, bs_world := w'\<rparr>)))
       (\<lambda>s''. s'' = subject \<or> be_building env (bs_world (s\<lparr>bs_world := w, bs_map := m, bs_world := w'\<rparr>)) s'')
       (hm_insert subject \<lparr>be_backend = b, be_tokens = t, be_last_active = n\<rparr> m)\<rparr>)"
    by (intro Q) (simp add: resolved_post_def)
qed (use assms(2) in simp)

lemma update_or_build_post:
  assumes "env_sound env" "registry_inv (bs_map s)" "id_subject (tk_identity live) = subject"
  shows "wp (update_or_build env subject live) (resolved_post subject) s"
  unfolding update_or_build_def
proof (intro wp_intros wp_read_map[OF assms(1)] insert_entry_post[OF assms(1) _ assms(3)])
  fix m e ok n and w w1 w2 :: 'a
  assume m: "registry_inv m" "hm_get m subject = Some e"
  let ?e = "e\<lparr>be_tokens := live, be_last_active := n\<rparr>"
  let ?t = "s\<lparr>bs_map := m, bs_world := w, bs_world := w1, bs_world := w2, bs_map := hm_insert subject ?e m\<rparr>"
  have "resolved_post subject (Some \<lparr>rb_backend = be_backend ?e, rb_tokens = be_tokens ?e\<rparr>) ?t"
    by (rule post_hit[OF m(1)]) (simp_all add: assms(3))
  then show "resolved_post subject (Some \<lparr>rb_backend = be_backend e, rb_tokens = live\<rparr>) ?t"
    by simp
qed (use assms(2) in \<open>simp_all add: post_None\<close>)

lemma refresh_or_build_post:
  assumes "env_sound env" "registry_inv (bs_map s)" "refresh_keeps_subject env t"
  shows "wp (refresh_or_build env (id_subject (tk_identity t)) t) (resolved_post (id_subject (tk_identity t))) s"
proof -
  have live: "id_subject (tk_identity live) = id_subject (tk_identity t)"
    if "tk_refresh_token t = Some rt" "be_refresh env rt w = (Some live, w')" for rt w live w'
    using assms(3) that unfolding refresh_keeps_subject_def by (metis fst_conv)
  show ?thesis
    unfolding refresh_or_build_def mint_tokens_def
    by (intro wp_intros update_or_build_post[OF assms(1)])
      (use assms(2) live in \<open>auto simp: resolved_post_def\<close>)
qed

lemma resolve_post:
  assumes "env_sound env" "registry_inv (bs_map s)" "refresh_keeps_subject env t"
  shows "wp (resolve env t) (resolved_post (id_subject (tk_identity t))) s"
proof -
  let ?s = "id_subject (tk_identity t)"
  have step: "wp (warm env ?s) (\<lambda>a. wp (case a of None \<Rightarrow> f | Some b \<Rightarrow> ret (Some b)) (resolved_post ?s)) s'"
    if "registry_inv (bs_map s')" "\<And>s''. registry_inv (bs_map s'') \<Longrightarrow> wp f (resolved_post ?s) s''" for f s'
    by (rule wp_mono[OF warm_post[OF assms(1) that(1)]])
      (use that(2) in \<open>simp add: resolved_post_def split: option.split\<close>)
  show ?thesis
    unfolding resolve_def Let_def
    by (intro wp_bindI wp_ifI wp_retI step refresh_or_build_post[OF assms(1) _ assms(3)])
      (use assms(2) in \<open>auto simp: resolved_post_def\<close>)
qed

section \<open>Properties\<close>


definition alice :: tokens where
  "alice = \<lparr>tk_id_token = ''jwt'', tk_access_token = [], tk_refresh_token = Some ''rt'', tk_expires_at = 1000,
     tk_identity = \<lparr>id_subject = ''alice'', id_email = None, id_name = None, id_groups = []\<rparr>\<rparr>"

definition quiet_env :: "nat backend_env" where
  "quiet_env = \<lparr>be_now = (\<lambda>w. (0, w)), be_refresh = (\<lambda>_ w. (None, w)), be_connect = (\<lambda>_ w. (Some 7, w)),
     be_set_token = (\<lambda>_ _ w. (True, w)), be_subscribed = (\<lambda>_ _. False), be_building = (\<lambda>_ _. False),
     be_meanwhile = (\<lambda>m w. (m, w)), be_has_provider = True, be_cap = 0, be_idle = 600\<rparr>"


text \<open>The soft cap takes the right victims.  Enforcing it evicts only backends nobody watches and
  no task is building, the least recently active of them, only while the registry is over the cap,
  and it leaves the registry over the cap only if all that remain are watched or being built.\<close>

theorem cap_evicts_idle_lru:
  assumes "hm_ok m"
  shows "cap_outcome cap sub bld m (enforce_cap cap sub bld m)"
  using enforce_cap_outcome[OF assms] by blast

theorem cap_evicts_idle_lru_witness: "cap_outcome 1 (\<lambda>_. False) (\<lambda>_. False) [] (enforce_cap 1 (\<lambda>_. False) (\<lambda>_. False) [])"
  by (rule cap_evicts_idle_lru) simp

text \<open>A pass of the reaper drops exactly the backends that were idle for the configured time, that
  nobody watches and that no task is building, and leaves every other entry as it is.\<close>

theorem reaper_drops_exactly_the_idle:
  assumes "hm_ok m"
  shows "hm_get (reap_pass idle now sub bld m) k =
    (case hm_get m k of None \<Rightarrow> None
     | Some e \<Rightarrow> if now - be_last_active e \<ge> idle \<and> \<not> sub (be_backend e) \<and> \<not> bld k then None else Some e)"
  by (rule reap_pass_get[OF assms])

theorem reaper_drops_exactly_the_idle_witness:
  "hm_get (reap_pass 600 1000 (\<lambda>_. False) (\<lambda>_. False)
     [(''alice'', \<lparr>be_backend = 7, be_tokens = alice, be_last_active = 100\<rparr>)]) ''alice'' = None"
  by (subst reaper_drops_exactly_the_idle) simp_all

end
