(* ===== verification/Session.thy ===== *)
theory Session
  imports Json Backends
begin

text \<open>
  \<open>src/src/server/session.rs\<close>: the sealed cookies.  The AEAD cipher, the base64 alphabet and the
  JSON text are libraries, so they are the fields of a \<open>sealing\<close>; the random nonce and the
  clock are arguments.  What the derived (de)serializers of the payload structs do is written out
  on JSON documents: a struct is read from an object with unknown keys ignored and repeated ones
  refused, or from an array of its fields; a missing or null optional field is \<open>None\<close>.
  A header map is a list of lower case names with their values, bytes are strings.
\<close>

type_synonym headers = "(string \<times> string) list"

record sealing =
  sl_encrypt :: "string \<Rightarrow> string \<Rightarrow> string \<Rightarrow> string option"
  sl_decrypt :: "string \<Rightarrow> string \<Rightarrow> string \<Rightarrow> string option"
  sl_encode :: "string \<Rightarrow> string"
  sl_decode :: "string \<Rightarrow> string option"
  sl_print :: "json \<Rightarrow> string"
  sl_parse :: "string \<Rightarrow> json option"

definition SESSION_COOKIE :: string where "SESSION_COOKIE = ''roder_session''"
definition LOGIN_COOKIE :: string where "LOGIN_COOKIE = ''roder_login''"

record pending_login =
  pl_csrf_state :: string
  pl_nonce :: string
  pl_pkce_verifier :: string

record sealed_session =
  ss_refresh_token :: "string option"
  ss_identity :: identity
  ss_expires_at_unix :: int

record sealed_pending =
  sp_csrf_state :: string
  sp_nonce :: string
  sp_pkce_verifier :: string
  sp_expires_at_unix :: int

record sealed_forwarded_tokens =
  sf_id_token :: string
  sf_access_token :: string
  sf_refresh_token :: "string option"
  sf_identity :: identity
  sf_expires_at_unix :: int

section \<open>Structs as JSON documents\<close>

definition as_struct :: "string list \<Rightarrow> json \<Rightarrow> (string \<times> json) list option" where
  "as_struct names j =
     (case j of
        JObject es \<Rightarrow> if distinct (filter (\<lambda>k. k \<in> set names) (map fst es)) then Some es else None
      | JArray xs \<Rightarrow> if length xs = length names then Some (zip names xs) else None
      | _ \<Rightarrow> None)"

definition str_field :: "(string \<times> json) list \<Rightarrow> string \<Rightarrow> string option" where
  "str_field es k = Option.bind (map_of es k) as_str"

definition int_field :: "(string \<times> json) list \<Rightarrow> string \<Rightarrow> int option" where
  "int_field es k = Option.bind (map_of es k) as_i64"

definition opt_field :: "(string \<times> json) list \<Rightarrow> string \<Rightarrow> string option option" where
  "opt_field es k = (case map_of es k of
     None \<Rightarrow> Some None | Some JNull \<Rightarrow> Some None | Some j \<Rightarrow> map_option Some (as_str j))"

definition str_list :: "json \<Rightarrow> string list option" where
  "str_list j = Option.bind (as_array j) (\<lambda>xs. those (map as_str xs))"

definition strs_field :: "(string \<times> json) list \<Rightarrow> string \<Rightarrow> string list option" where
  "strs_field es k = Option.bind (map_of es k) str_list"

definition json_int :: "int \<Rightarrow> json" where "json_int i = JNumber (NumInt i)"

definition json_opt :: "string option \<Rightarrow> json" where
  "json_opt s = (case s of None \<Rightarrow> JNull | Some t \<Rightarrow> JString t)"

definition identity_json :: "identity \<Rightarrow> json" where
  "identity_json i = JObject [(''subject'', JString (id_subject i)), (''email'', json_opt (id_email i)),
     (''name'', json_opt (id_name i)), (''groups'', JArray (map JString (id_groups i)))]"

definition identity_of_json :: "json \<Rightarrow> identity option" where
  "identity_of_json j = do {
     es \<leftarrow> as_struct [''subject'', ''email'', ''name'', ''groups''] j;
     s \<leftarrow> str_field es ''subject''; e \<leftarrow> opt_field es ''email''; n \<leftarrow> opt_field es ''name'';
     g \<leftarrow> strs_field es ''groups'';
     Some \<lparr>id_subject = s, id_email = e, id_name = n, id_groups = g\<rparr> }"

definition session_json :: "sealed_session \<Rightarrow> json" where
  "session_json p = JObject [(''refresh_token'', json_opt (ss_refresh_token p)),
     (''identity'', identity_json (ss_identity p)), (''expires_at_unix'', json_int (ss_expires_at_unix p))]"

definition session_of_json :: "json \<Rightarrow> sealed_session option" where
  "session_of_json j = do {
     es \<leftarrow> as_struct [''refresh_token'', ''identity'', ''expires_at_unix''] j;
     r \<leftarrow> opt_field es ''refresh_token''; i \<leftarrow> Option.bind (map_of es ''identity'') identity_of_json;
     x \<leftarrow> int_field es ''expires_at_unix'';
     Some \<lparr>ss_refresh_token = r, ss_identity = i, ss_expires_at_unix = x\<rparr> }"

definition pending_json :: "sealed_pending \<Rightarrow> json" where
  "pending_json p = JObject [(''csrf_state'', JString (sp_csrf_state p)), (''nonce'', JString (sp_nonce p)),
     (''pkce_verifier'', JString (sp_pkce_verifier p)), (''expires_at_unix'', json_int (sp_expires_at_unix p))]"

definition pending_of_json :: "json \<Rightarrow> sealed_pending option" where
  "pending_of_json j = do {
     es \<leftarrow> as_struct [''csrf_state'', ''nonce'', ''pkce_verifier'', ''expires_at_unix''] j;
     c \<leftarrow> str_field es ''csrf_state''; n \<leftarrow> str_field es ''nonce''; v \<leftarrow> str_field es ''pkce_verifier'';
     x \<leftarrow> int_field es ''expires_at_unix'';
     Some \<lparr>sp_csrf_state = c, sp_nonce = n, sp_pkce_verifier = v, sp_expires_at_unix = x\<rparr> }"

definition forwarded_json :: "sealed_forwarded_tokens \<Rightarrow> json" where
  "forwarded_json p = JObject [(''id_token'', JString (sf_id_token p)), (''access_token'', JString (sf_access_token p)),
     (''refresh_token'', json_opt (sf_refresh_token p)), (''identity'', identity_json (sf_identity p)),
     (''expires_at_unix'', json_int (sf_expires_at_unix p))]"

definition forwarded_of_json :: "json \<Rightarrow> sealed_forwarded_tokens option" where
  "forwarded_of_json j = do {
     es \<leftarrow> as_struct [''id_token'', ''access_token'', ''refresh_token'', ''identity'', ''expires_at_unix''] j;
     t \<leftarrow> str_field es ''id_token''; a \<leftarrow> str_field es ''access_token''; r \<leftarrow> opt_field es ''refresh_token'';
     i \<leftarrow> Option.bind (map_of es ''identity'') identity_of_json; x \<leftarrow> int_field es ''expires_at_unix'';
     Some \<lparr>sf_id_token = t, sf_access_token = a, sf_refresh_token = r, sf_identity = i, sf_expires_at_unix = x\<rparr> }"

section \<open>Sealing\<close>

definition seal_bytes :: "sealing \<Rightarrow> string \<Rightarrow> string \<Rightarrow> string \<Rightarrow> string" where
  "seal_bytes c nonce plain key =
     (case sl_encrypt c key nonce plain of None \<Rightarrow> [] | Some ct \<Rightarrow> sl_encode c (nonce @ ct))"

definition open_bytes :: "sealing \<Rightarrow> string \<Rightarrow> string \<Rightarrow> string option" where
  "open_bytes c cookie key =
     (case sl_decode c cookie of
        None \<Rightarrow> None
      | Some raw \<Rightarrow> if length raw < 28 then None else sl_decrypt c key (take 12 raw) (drop 12 raw))"

text \<open>\<open>OffsetDateTime::from_unix_timestamp\<close>: the years -9999 to 9999.\<close>

definition from_unix_timestamp :: "int \<Rightarrow> int option" where
  "from_unix_timestamp t = (if -377705116800 \<le> t \<and> t \<le> 253402300799 then Some t else None)"

definition session_payload :: "tokens \<Rightarrow> sealed_session" where
  "session_payload t = \<lparr>ss_refresh_token = tk_refresh_token t, ss_identity = tk_identity t,
     ss_expires_at_unix = tk_expires_at t\<rparr>"

definition forwarded_payload :: "tokens \<Rightarrow> sealed_forwarded_tokens" where
  "forwarded_payload t = \<lparr>sf_id_token = tk_id_token t, sf_access_token = tk_access_token t,
     sf_refresh_token = tk_refresh_token t, sf_identity = tk_identity t, sf_expires_at_unix = tk_expires_at t\<rparr>"

definition pending_payload :: "int \<Rightarrow> pending_login \<Rightarrow> sealed_pending" where
  "pending_payload expiry p = \<lparr>sp_csrf_state = pl_csrf_state p, sp_nonce = pl_nonce p,
     sp_pkce_verifier = pl_pkce_verifier p, sp_expires_at_unix = expiry\<rparr>"

definition seal_session :: "sealing \<Rightarrow> string \<Rightarrow> tokens \<Rightarrow> string \<Rightarrow> string" where
  "seal_session c nonce t key =
     seal_bytes c nonce (sl_print c (session_json (session_payload t))) key"

definition open_session :: "sealing \<Rightarrow> string \<Rightarrow> string \<Rightarrow> tokens option" where
  "open_session c cookie key = do {
     plain \<leftarrow> open_bytes c cookie key;
     j \<leftarrow> sl_parse c plain;
     s \<leftarrow> session_of_json j;
     x \<leftarrow> from_unix_timestamp (ss_expires_at_unix s);
     Some \<lparr>tk_id_token = [], tk_access_token = [], tk_refresh_token = ss_refresh_token s,
       tk_expires_at = x, tk_identity = ss_identity s\<rparr> }"

definition seal_forwarded_tokens :: "sealing \<Rightarrow> string \<Rightarrow> tokens \<Rightarrow> string \<Rightarrow> string" where
  "seal_forwarded_tokens c nonce t key =
     seal_bytes c nonce (sl_print c (forwarded_json (forwarded_payload t))) key"

definition open_forwarded_tokens :: "sealing \<Rightarrow> string \<Rightarrow> string \<Rightarrow> tokens option" where
  "open_forwarded_tokens c cookie key = do {
     plain \<leftarrow> open_bytes c cookie key;
     j \<leftarrow> sl_parse c plain;
     s \<leftarrow> forwarded_of_json j;
     x \<leftarrow> from_unix_timestamp (sf_expires_at_unix s);
     Some \<lparr>tk_id_token = sf_id_token s, tk_access_token = sf_access_token s,
       tk_refresh_token = sf_refresh_token s, tk_expires_at = x, tk_identity = sf_identity s\<rparr> }"

definition seal_pending :: "sealing \<Rightarrow> string \<Rightarrow> int \<Rightarrow> pending_login \<Rightarrow> string \<Rightarrow> int \<Rightarrow> string" where
  "seal_pending c nonce now p key ttl =
     seal_bytes c nonce (sl_print c (pending_json (pending_payload (now + ttl) p))) key"

definition open_pending :: "sealing \<Rightarrow> int \<Rightarrow> string \<Rightarrow> string \<Rightarrow> pending_login option" where
  "open_pending c now cookie key = do {
     plain \<leftarrow> open_bytes c cookie key;
     j \<leftarrow> sl_parse c plain;
     s \<leftarrow> pending_of_json j;
     (if now > sp_expires_at_unix s then None
      else Some \<lparr>pl_csrf_state = sp_csrf_state s, pl_nonce = sp_nonce s,
                 pl_pkce_verifier = sp_pkce_verifier s\<rparr>) }"

section \<open>Cookies\<close>

text \<open>\<open>HeaderValue::to_str\<close>: visible ASCII and tabs only.\<close>

definition header_char :: "char \<Rightarrow> bool" where
  "header_char c \<longleftrightarrow> code c = 9 \<or> 32 \<le> code c \<and> code c < 127"

definition header_str :: "string \<Rightarrow> string option" where
  "header_str v = (if list_all header_char v then Some v else None)"

definition cookie_of :: "string \<Rightarrow> string \<Rightarrow> string option" where
  "cookie_of name kv = (case split_once (CHR ''='') kv of
     None \<Rightarrow> None
   | Some (k, v) \<Rightarrow> if trim k = name then Some (trim v) else None)"

definition cookie_value :: "headers \<Rightarrow> string \<Rightarrow> string option" where
  "cookie_value headers name = do {
     v \<leftarrow> map_of headers ''cookie'';
     cookies \<leftarrow> header_str v;
     find_map (cookie_of name) (split_on (CHR '';'') cookies) }"

definition set_cookie :: "string \<Rightarrow> string \<Rightarrow> bool \<Rightarrow> int \<Rightarrow> string" where
  "set_cookie name v secure max_age =
     name @ ''='' @ v @ ''; HttpOnly; SameSite=Lax; Path=/; Max-Age='' @ show_int max_age
       @ (if secure then ''; Secure'' else [])"

end
