(* ===== verification/Config.thy ===== *)
theory Config
  imports Session
begin

text \<open>
  \<open>src/src/server/config.rs\<close>: the server configuration read from the environment and the
  authorization predicates over a caller's groups.  The environment is a function from names to
  values (an unset or non-Unicode variable is \<open>None\<close>); the two base64 decoders and the JSON
  parser are library functions and therefore arguments.
\<close>

record oidc_settings =
  os_issuer_url :: string
  os_client_id :: string
  os_client_secret :: string
  os_allowed_groups :: "string list"
  os_groups_claim :: string

record server_config =
  cf_dev_mode :: bool
  cf_base_url :: string
  cf_oidc :: "oidc_settings option"
  cf_session_key :: "string option"
  cf_signout_redirect_url :: "string option"
  cf_talos_reader_groups :: "string list"
  cf_talos_operator_groups :: "string list"
  cf_talos_actions_enabled :: bool
  cf_talos_config_groups :: "string list"
  cf_talos_config_enabled :: bool
  cf_alerts_groups :: "string list"
  cf_alerts_actions_enabled :: bool
  cf_alerts_operator_groups :: "string list"
  cf_pod_node_name :: "string option"
  cf_max_user_backends :: nat
  cf_backend_idle_secs :: nat

record decoders =
  dc_b64_standard :: "string \<Rightarrow> string option"
  dc_b64_url :: "string \<Rightarrow> string option"
  dc_parse_json :: "string \<Rightarrow> json option"

type_synonym process_env = "string \<Rightarrow> string option"

section \<open>Reading one variable\<close>

definition require_env :: "process_env \<Rightarrow> string \<Rightarrow> string + string" where
  "require_env env key = (case env key of
     None \<Rightarrow> Inl (''missing required env var '' @ key) | Some v \<Rightarrow> Inr v)"

definition env_bool :: "process_env \<Rightarrow> string \<Rightarrow> bool" where
  "env_bool env key \<longleftrightarrow> env key \<in> {Some ''1'', Some ''true'', Some ''yes''}"

definition split_csv :: "string \<Rightarrow> string list" where
  "split_csv s = filter (\<lambda>p. p \<noteq> []) (map trim (split_on (CHR '','') s))"

definition env_groups :: "decoders \<Rightarrow> process_env \<Rightarrow> string \<Rightarrow> string list" where
  "env_groups d env key = (case env key of
     None \<Rightarrow> []
   | Some v \<Rightarrow> (case Option.bind (dc_parse_json d v) str_list of
                 Some gs \<Rightarrow> gs | None \<Rightarrow> split_csv v))"

definition env_usize :: "process_env \<Rightarrow> string \<Rightarrow> nat \<Rightarrow> nat" where
  "env_usize env key default_value = (case Option.bind (env key) parse_u64 of
     Some n \<Rightarrow> n | None \<Rightarrow> default_value)"

definition env_u64 :: "process_env \<Rightarrow> string \<Rightarrow> nat \<Rightarrow> nat" where
  "env_u64 env key default_value = (case Option.bind (env key) parse_u64 of
     Some n \<Rightarrow> n | None \<Rightarrow> default_value)"

definition hex_value :: "char \<Rightarrow> nat" where
  "hex_value c = (if is_ascii_digit c then code c - 48
     else if is_ascii_uppercase c then code c - 55 else code c - 87)"

fun hex_bytes :: "string \<Rightarrow> string" where
  "hex_bytes (a # b # s) = char_of (16 * hex_value a + hex_value b) # hex_bytes s"
| "hex_bytes s = []"

definition parse_session_key :: "decoders \<Rightarrow> string \<Rightarrow> string + string" where
  "parse_session_key d raw =
     (let s = trim raw;
          bytes = (if length s = 64 \<and> list_all is_ascii_hexdigit s then Some (hex_bytes s)
                   else (case dc_b64_standard d s of
                           Some b \<Rightarrow> Some b
                         | None \<Rightarrow> dc_b64_url d s))
      in case bytes of
           None \<Rightarrow> Inl ''RODER_SESSION_KEY must be 32 bytes encoded as hex or base64''
         | Some b \<Rightarrow> if length b \<noteq> 32
             then Inl (''RODER_SESSION_KEY must decode to 32 bytes, got '' @ show_nat (length b))
             else Inr b)"

section \<open>The configuration\<close>

definition base_config :: "decoders \<Rightarrow> process_env \<Rightarrow> server_config" where
  "base_config d env = \<lparr>
     cf_dev_mode = env_bool env ''RODER_DEV_MODE'',
     cf_base_url = trim_end_matches (\<lambda>c. c = CHR ''/'')
       (case env ''RODER_BASE_URL'' of Some u \<Rightarrow> u | None \<Rightarrow> ''http://0.0.0.0:8080''),
     cf_oidc = None,
     cf_session_key = None,
     cf_signout_redirect_url = env ''RODER_SIGNOUT_REDIRECT_URL'',
     cf_talos_reader_groups = env_groups d env ''RODER_TALOS_READER_GROUPS'',
     cf_talos_operator_groups = env_groups d env ''RODER_TALOS_OPERATOR_GROUPS'',
     cf_talos_actions_enabled = env_bool env ''RODER_TALOS_ACTIONS_ENABLED'',
     cf_talos_config_groups = env_groups d env ''RODER_TALOS_CONFIG_GROUPS'',
     cf_talos_config_enabled = env_bool env ''RODER_TALOS_CONFIG_ENABLED'',
     cf_alerts_groups = env_groups d env ''RODER_ALERTS_GROUPS'',
     cf_alerts_actions_enabled = env_bool env ''RODER_ALERTS_ACTIONS_ENABLED'',
     cf_alerts_operator_groups = env_groups d env ''RODER_ALERTS_OPERATOR_GROUPS'',
     cf_pod_node_name = env ''RODER_POD_NODE_NAME'',
     cf_max_user_backends = env_usize env ''RODER_MAX_USER_BACKENDS'' 200,
     cf_backend_idle_secs = env_u64 env ''RODER_BACKEND_IDLE_SECS'' 1200\<rparr>"

definition oidc_settings_of :: "process_env \<Rightarrow> string + oidc_settings" where
  "oidc_settings_of env =
     (case require_env env ''RODER_OIDC_ISSUER_URL'' of Inl e \<Rightarrow> Inl e | Inr issuer \<Rightarrow>
      case require_env env ''RODER_OIDC_CLIENT_ID'' of Inl e \<Rightarrow> Inl e | Inr client \<Rightarrow>
      case require_env env ''RODER_OIDC_CLIENT_SECRET'' of Inl e \<Rightarrow> Inl e | Inr secret \<Rightarrow>
      Inr \<lparr>os_issuer_url = issuer, os_client_id = client, os_client_secret = secret,
        os_allowed_groups = (case env ''RODER_OIDC_ALLOWED_GROUPS'' of Some s \<Rightarrow> split_csv s | None \<Rightarrow> []),
        os_groups_claim = (case env ''RODER_OIDC_GROUPS_CLAIM'' of Some s \<Rightarrow> s | None \<Rightarrow> ''groups'')\<rparr>)"

definition from_env :: "decoders \<Rightarrow> process_env \<Rightarrow> string + server_config" where
  "from_env d env =
     (let base = base_config d env in
      if cf_dev_mode base then Inr base
      else case require_env env ''RODER_SESSION_KEY'' of Inl e \<Rightarrow> Inl e | Inr raw \<Rightarrow>
           case parse_session_key d raw of Inl e \<Rightarrow> Inl e | Inr key \<Rightarrow>
           case oidc_settings_of env of Inl e \<Rightarrow> Inl e | Inr oidc \<Rightarrow>
           Inr (base\<lparr>cf_oidc := Some oidc, cf_session_key := Some key\<rparr>))"

definition secure_cookies :: "server_config \<Rightarrow> bool" where
  "secure_cookies cf \<longleftrightarrow> \<not> cf_dev_mode cf"

definition redirect_url :: "server_config \<Rightarrow> string" where
  "redirect_url cf = cf_base_url cf @ ''/auth/callback''"

section \<open>Authorization\<close>

definition has_any_group :: "string list \<Rightarrow> string list \<Rightarrow> bool" where
  "has_any_group actual allowed \<longleftrightarrow> allowed \<noteq> [] \<and> list_ex (\<lambda>g. g \<in> set allowed) actual"

definition can_read_talos :: "server_config \<Rightarrow> string list \<Rightarrow> bool" where
  "can_read_talos cf groups \<longleftrightarrow> cf_dev_mode cf \<or> cf_talos_reader_groups cf = []
     \<or> has_any_group groups (cf_talos_reader_groups cf)"

definition can_operate_talos :: "server_config \<Rightarrow> string list \<Rightarrow> bool" where
  "can_operate_talos cf groups \<longleftrightarrow> cf_talos_actions_enabled cf
     \<and> (cf_dev_mode cf \<or> has_any_group groups (cf_talos_operator_groups cf))"

definition can_read_talos_config :: "server_config \<Rightarrow> string list \<Rightarrow> bool" where
  "can_read_talos_config cf groups \<longleftrightarrow> cf_talos_config_enabled cf
     \<and> (cf_dev_mode cf \<or> has_any_group groups (cf_talos_config_groups cf))"

definition can_read_alerts :: "server_config \<Rightarrow> string list \<Rightarrow> bool" where
  "can_read_alerts cf groups \<longleftrightarrow> cf_dev_mode cf \<or> cf_alerts_groups cf = []
     \<or> has_any_group groups (cf_alerts_groups cf)"

definition can_silence_alerts :: "server_config \<Rightarrow> string list \<Rightarrow> bool" where
  "can_silence_alerts cf groups \<longleftrightarrow> cf_alerts_actions_enabled cf
     \<and> (cf_dev_mode cf \<or> has_any_group groups (cf_alerts_operator_groups cf))"

end
