(* ===== verification/Provider.thy ===== *)
theory Provider
  imports Config
begin

text \<open>
  \<open>crates/auth/src/provider.rs\<close>: the OIDC provider after discovery.  The token endpoint and the
  verification of an ID token (signature, issuer, audience, expiry, nonce) are the
  \<open>openidconnect\<close> library's: fields of an \<open>oidc_lib\<close>.
\<close>

record claims =
  cl_subject :: string
  cl_email :: "string option"
  cl_name :: "string option"
  cl_expiration :: int

record token_response =
  tr_id_token :: "string option"
  tr_access_token :: string
  tr_refresh_token :: "string option"

datatype auth_error =
    Discovery string string
  | Config_error string
  | Exchange string
  | Refresh string
  | Verification string
  | MissingIdToken
  | MissingRefreshToken
  | Forbidden

fun auth_error_text :: "auth_error \<Rightarrow> string" where
  "auth_error_text (Discovery issuer e) = ''OIDC discovery failed for issuer '' @ issuer @ '': '' @ e"
| "auth_error_text (Config_error e) = ''invalid OIDC configuration: '' @ e"
| "auth_error_text (Exchange e) = ''token exchange failed: '' @ e"
| "auth_error_text (Refresh e) = ''token refresh failed: '' @ e"
| "auth_error_text (Verification e) = ''ID token verification failed: '' @ e"
| "auth_error_text MissingIdToken = ''provider did not return an ID token''"
| "auth_error_text MissingRefreshToken =
     ''provider did not return a refresh token (is the offline_access scope allowed?)''"
| "auth_error_text Forbidden = ''user is not a member of any allowed group''"

record oidc_provider =
  op_allowed_groups :: "string list"
  op_groups_claim :: string

record oidc_lib =
  ol_exchange :: "string \<Rightarrow> string \<Rightarrow> string + token_response"
  ol_refresh :: "string \<Rightarrow> string + token_response"
  ol_claims :: "string \<Rightarrow> string option \<Rightarrow> string + claims"
  ol_b64_url :: "string \<Rightarrow> string option"
  ol_parse_json :: "string \<Rightarrow> json option"
  ol_now :: int

text \<open>\<open>discover\<close> keeps the groups of the configuration; an empty claim name means the default.\<close>

definition provider_of :: "oidc_settings \<Rightarrow> oidc_provider" where
  "provider_of st = \<lparr>op_allowed_groups = os_allowed_groups st,
     op_groups_claim = (if os_groups_claim st = [] then ''groups'' else os_groups_claim st)\<rparr>"

definition effective_scopes :: "string list \<Rightarrow> string list" where
  "effective_scopes scopes = (if scopes = []
     then [''openid'', ''email'', ''profile'', ''groups'', ''offline_access''] else scopes)"

definition extract_groups :: "oidc_lib \<Rightarrow> string \<Rightarrow> string \<Rightarrow> string list" where
  "extract_groups lib raw_jwt claim =
     (case split_on (CHR ''.'') raw_jwt of
        _ # payload # _ \<Rightarrow>
          (case Option.bind (ol_b64_url lib payload) (ol_parse_json lib) of
             None \<Rightarrow> []
           | Some j \<Rightarrow> (case jget j claim of
                 Some (JArray a) \<Rightarrow> List.map_filter as_str a
               | Some (JString s) \<Rightarrow> [s]
               | _ \<Rightarrow> []))
      | _ \<Rightarrow> [])"

definition assemble :: "oidc_lib \<Rightarrow> oidc_provider \<Rightarrow> token_response \<Rightarrow> string \<Rightarrow> claims \<Rightarrow> auth_error + tokens" where
  "assemble lib p resp raw cl =
     (let groups = extract_groups lib raw (op_groups_claim p);
          who = \<lparr>id_subject = cl_subject cl, id_email = cl_email cl, id_name = cl_name cl, id_groups = groups\<rparr>
      in if op_allowed_groups p \<noteq> [] \<and> \<not> list_ex (\<lambda>g. g \<in> set (op_allowed_groups p)) groups
         then Inl Forbidden
         else Inr \<lparr>tk_id_token = raw, tk_access_token = tr_access_token resp,
           tk_refresh_token = tr_refresh_token resp,
           tk_expires_at = (case from_unix_timestamp (cl_expiration cl) of Some t \<Rightarrow> t | None \<Rightarrow> ol_now lib),
           tk_identity = who\<rparr>)"

text \<open>The nonce to expect: \<open>Some\<close> for a login, \<open>None\<close> (not checked) for a refresh.\<close>

definition verified_tokens ::
  "oidc_lib \<Rightarrow> oidc_provider \<Rightarrow> token_response \<Rightarrow> string option \<Rightarrow> auth_error + tokens" where
  "verified_tokens lib p resp expected =
     (case tr_id_token resp of
        None \<Rightarrow> Inl MissingIdToken
      | Some raw \<Rightarrow> (case ol_claims lib raw expected of
            Inl e \<Rightarrow> Inl (Verification e)
          | Inr cl \<Rightarrow> assemble lib p resp raw cl))"

definition tokens_from_response ::
  "oidc_lib \<Rightarrow> oidc_provider \<Rightarrow> token_response \<Rightarrow> string \<Rightarrow> auth_error + tokens" where
  "tokens_from_response lib p resp nonce = verified_tokens lib p resp (Some nonce)"

definition tokens_from_response_no_nonce ::
  "oidc_lib \<Rightarrow> oidc_provider \<Rightarrow> token_response \<Rightarrow> auth_error + tokens" where
  "tokens_from_response_no_nonce lib p resp = verified_tokens lib p resp None"

definition exchange_code ::
  "oidc_lib \<Rightarrow> oidc_provider \<Rightarrow> string \<Rightarrow> string \<Rightarrow> string \<Rightarrow> auth_error + tokens" where
  "exchange_code lib p auth_code pkce_verifier nonce =
     (case ol_exchange lib auth_code pkce_verifier of
        Inl e \<Rightarrow> Inl (Exchange e)
      | Inr resp \<Rightarrow> tokens_from_response lib p resp nonce)"

definition provider_refresh :: "oidc_lib \<Rightarrow> oidc_provider \<Rightarrow> string \<Rightarrow> auth_error + tokens" where
  "provider_refresh lib p refresh_token =
     (case ol_refresh lib refresh_token of
        Inl e \<Rightarrow> Inl (Refresh e)
      | Inr resp \<Rightarrow> (case tokens_from_response_no_nonce lib p resp of
            Inl e \<Rightarrow> Inl e
          | Inr t \<Rightarrow> Inr (if tk_refresh_token t = None
              then t\<lparr>tk_refresh_token := Some refresh_token\<rparr> else t)))"

end
