(* ===== verification/Web.thy ===== *)
theory Web
  imports Provider
begin

text \<open>
  \<open>src/src/server/handlers\<close>: the guards in front of the handlers (\<open>middleware.rs\<close>) and the login
  endpoints (\<open>oidc.rs\<close>), as state transformers over the backend registry.  A handler is a
  function of the backend and the identity that \<open>require_auth\<close> inserts into the request.
  \<open>nonce\<close> is the random nonce of the one cookie a request seals, \<open>now\<close> the clock.
\<close>

definition INTERNAL_HEADER :: string where "INTERNAL_HEADER = ''x-roder-internal-hop''"
definition FORWARDED_AUTH_HEADER :: string where "FORWARDED_AUTH_HEADER = ''x-roder-forwarded-auth''"

record request =
  rq_path :: string
  rq_headers :: headers

record response =
  rs_status :: nat
  rs_location :: "string option"
  rs_set_cookies :: "string list"
  rs_body :: string

definition status_response :: "nat \<Rightarrow> string \<Rightarrow> response" where
  "status_response st body = \<lparr>rs_status = st, rs_location = None, rs_set_cookies = [], rs_body = body\<rparr>"

definition redirect_to :: "string \<Rightarrow> string list \<Rightarrow> response" where
  "redirect_to url cookies = \<lparr>rs_status = 303, rs_location = Some url, rs_set_cookies = cookies, rs_body = []\<rparr>"

record server =
  sv_config :: server_config
  sv_provider :: "(oidc_lib \<times> oidc_provider) option"
  sv_sealing :: sealing
  sv_dev_backend :: "nat option"

section \<open>Response headers\<close>

definition cache_control :: "string \<Rightarrow> string option" where
  "cache_control path =
     (if ends_with path ''.wasm'' \<or> ends_with path ''.js'' then Some ''no-cache''
      else if ends_with path ''.css'' then Some ''public, max-age=31536000, immutable''
      else if starts_with path ''/fonts/'' \<or> starts_with path ''/icons/''
           \<or> ends_with path ''.svg'' \<or> ends_with path ''.ico''
        then Some ''public, max-age=604800''
      else None)"

definition quoted :: "string \<Rightarrow> string" where
  "quoted s = CHR 0x27 # s @ [CHR 0x27]"

definition connect_src :: "bool \<Rightarrow> string" where
  "connect_src dev_mode = ''connect-src '' @ quoted ''self'' @ (if dev_mode
     then '' ws://127.0.0.1:* ws://localhost:* wss://127.0.0.1:* wss://localhost:*'' else [])"

definition content_security_policy :: "bool \<Rightarrow> string \<Rightarrow> string" where
  "content_security_policy dev_mode path =
     (let self = quoted ''self''; unsafe_inline = quoted ''unsafe-inline'';
          is_terminal = (path = ''/terminal'')
      in ''default-src '' @ self @ ''; script-src '' @ self @ '' '' @ unsafe_inline @
         (if is_terminal then [] else '' '' @ quoted ''wasm-unsafe-eval'') @
         ''; style-src '' @ self @ '' '' @ unsafe_inline @ ''; img-src '' @ self @ '' data:; font-src '' @ self @
         ''; '' @ connect_src dev_mode @ ''; frame-ancestors '' @ (if is_terminal then self else quoted ''none'') @
         ''; base-uri '' @ self)"

text \<open>The headers set on every response, a set header replacing the one the handler gave.\<close>

definition security_headers :: "bool \<Rightarrow> string \<Rightarrow> headers \<Rightarrow> headers" where
  "security_headers dev_mode path h =
     (let h1 = (case cache_control path of None \<Rightarrow> h | Some v \<Rightarrow> hm_insert ''cache-control'' v h);
          h2 = hm_insert ''permissions-policy'' ''geolocation=(), microphone=(), camera=()''
                (hm_insert ''referrer-policy'' ''strict-origin-when-cross-origin''
                  (hm_insert ''x-content-type-options'' ''nosniff'' h1));
          h3 = (if path \<noteq> ''/terminal'' then hm_insert ''x-frame-options'' ''DENY'' h2 else h2)
      in hm_insert ''content-security-policy'' (content_security_policy dev_mode path) h3)"

section \<open>Guards\<close>

definition dev_identity :: identity where
  "dev_identity = \<lparr>id_subject = ''dev'', id_email = None, id_name = Some ''dev mode'', id_groups = []\<rparr>"

definition reject :: "request \<Rightarrow> response" where
  "reject rq = (if starts_with (rq_path rq) ''/api/'' then status_response 401 []
                else redirect_to ''/auth/login'' [])"

text \<open>The tokens a request presents: those of its session cookie, or on an internal hop the
  forwarded set, if it opens and is of the cookie's subject.\<close>

definition forwarded_tokens :: "sealing \<Rightarrow> string \<Rightarrow> headers \<Rightarrow> tokens \<Rightarrow> tokens" where
  "forwarded_tokens c key hs cookie_tokens =
     (if map_of hs INTERNAL_HEADER = None then cookie_tokens
      else case Option.bind (Option.bind (map_of hs FORWARDED_AUTH_HEADER) header_str)
                  (\<lambda>v. open_forwarded_tokens c v key) of
             None \<Rightarrow> cookie_tokens
           | Some f \<Rightarrow> if id_subject (tk_identity f) = id_subject (tk_identity cookie_tokens)
                       then f else cookie_tokens)"

definition presented_tokens :: "sealing \<Rightarrow> string \<Rightarrow> headers \<Rightarrow> tokens option" where
  "presented_tokens c key hs = do {
     cookie \<leftarrow> cookie_value hs SESSION_COOKIE;
     t \<leftarrow> open_session c cookie key;
     Some (forwarded_tokens c key hs t) }"

definition reseal :: "server \<Rightarrow> string \<Rightarrow> string \<Rightarrow> tokens \<Rightarrow> response \<Rightarrow> response" where
  "reseal sv nonce key t resp =
     (if list_ex (\<lambda>v. case header_str v of None \<Rightarrow> False | Some s \<Rightarrow> starts_with s (SESSION_COOKIE @ ''=''))
           (rs_set_cookies resp) then resp
      else case header_str (set_cookie SESSION_COOKIE (seal_session (sv_sealing sv) nonce t key)
                              (secure_cookies (sv_config sv)) 604800) of
             None \<Rightarrow> resp
           | Some v \<Rightarrow> resp\<lparr>rs_set_cookies := rs_set_cookies resp @ [v]\<rparr>)"

definition require_auth ::
  "server \<Rightarrow> 'w backend_env \<Rightarrow> string \<Rightarrow> (nat \<Rightarrow> identity \<Rightarrow> ('w backend_st, response) state)
     \<Rightarrow> request \<Rightarrow> ('w backend_st, response) state" where
  "require_auth sv env nonce handler rq =
     (if cf_dev_mode (sv_config sv) then
        (case sv_dev_backend sv of
           None \<Rightarrow> ret (status_response 503 [])
         | Some b \<Rightarrow> handler b dev_identity)
      else case cf_session_key (sv_config sv) of
        None \<Rightarrow> ret (reject rq)
      | Some key \<Rightarrow> (case presented_tokens (sv_sealing sv) key (rq_headers rq) of
          None \<Rightarrow> ret (reject rq)
        | Some t \<Rightarrow> do {
            r \<leftarrow> resolve env t;
            case r of
              None \<Rightarrow> ret (reject rq)
            | Some rb \<Rightarrow> do {
                resp \<leftarrow> handler (rb_backend rb) (tk_identity (rb_tokens rb));
                ret (reseal sv nonce key (rb_tokens rb) resp) }}))"

definition reject_peer_headers ::
  "(request \<Rightarrow> ('w backend_st, response) state) \<Rightarrow> request \<Rightarrow> ('w backend_st, response) state" where
  "reject_peer_headers handler rq =
     (if map_of (rq_headers rq) INTERNAL_HEADER \<noteq> None \<or> map_of (rq_headers rq) FORWARDED_AUTH_HEADER \<noteq> None
      then ret (status_response 400 []) else handler rq)"

definition require_peer_request ::
  "(request \<Rightarrow> ('w backend_st, response) state) \<Rightarrow> request \<Rightarrow> ('w backend_st, response) state" where
  "require_peer_request handler rq =
     (if map_of (rq_headers rq) INTERNAL_HEADER = Some ''1'' then handler rq
      else ret (status_response 403 []))"

text \<open>The protected routes on the two listeners (\<open>main.rs\<close>).\<close>

definition public_listener ::
  "server \<Rightarrow> 'w backend_env \<Rightarrow> string \<Rightarrow> (nat \<Rightarrow> identity \<Rightarrow> ('w backend_st, response) state)
     \<Rightarrow> request \<Rightarrow> ('w backend_st, response) state" where
  "public_listener sv env nonce handler = reject_peer_headers (require_auth sv env nonce handler)"

definition peer_listener ::
  "server \<Rightarrow> 'w backend_env \<Rightarrow> string \<Rightarrow> (nat \<Rightarrow> identity \<Rightarrow> ('w backend_st, response) state)
     \<Rightarrow> request \<Rightarrow> ('w backend_st, response) state" where
  "peer_listener sv env nonce handler = require_peer_request (require_auth sv env nonce handler)"

section \<open>Login and logout\<close>

record login_start =
  lg_authorize_url :: string
  lg_csrf_state :: string
  lg_nonce :: string
  lg_pkce_verifier :: string

text \<open>\<open>begin_login\<close> draws the values of a login; they are an argument.\<close>

definition login :: "server \<Rightarrow> string \<Rightarrow> int \<Rightarrow> login_start \<Rightarrow> response" where
  "login sv nonce now start =
     (case sv_provider sv of
        None \<Rightarrow> redirect_to ''/'' []
      | Some _ \<Rightarrow> (case cf_session_key (sv_config sv) of
          None \<Rightarrow> status_response 500 ''missing session key''
        | Some key \<Rightarrow> redirect_to (lg_authorize_url start)
            [set_cookie LOGIN_COOKIE (seal_pending (sv_sealing sv) nonce now
               \<lparr>pl_csrf_state = lg_csrf_state start, pl_nonce = lg_nonce start,
                pl_pkce_verifier = lg_pkce_verifier start\<rparr> key 600) (secure_cookies (sv_config sv)) 600]))"

record callback_params =
  cb_code :: "string option"
  cb_state :: "string option"
  cb_error :: "string option"
  cb_error_description :: "string option"

definition callback_success_response :: "sealing \<Rightarrow> string \<Rightarrow> tokens \<Rightarrow> string \<Rightarrow> bool \<Rightarrow> response" where
  "callback_success_response c nonce t key secure =
     redirect_to ''/'' [set_cookie SESSION_COOKIE (seal_session c nonce t key) secure 604800,
                      set_cookie LOGIN_COOKIE [] secure 0]"

definition auth_failure :: "auth_error \<Rightarrow> response" where
  "auth_failure e = (case e of
     Forbidden \<Rightarrow> status_response 403 ''you are not a member of an allowed group''
   | _ \<Rightarrow> status_response 502 (''login failed: '' @ auth_error_text e))"

definition finish_login ::
  "server \<Rightarrow> 'w backend_env \<Rightarrow> string \<Rightarrow> string \<Rightarrow> tokens \<Rightarrow> ('w backend_st, response) state" where
  "finish_login sv env nonce key t = do {
     r \<leftarrow> resolve_login env t;
     case r of
       None \<Rightarrow> ret (status_response 502 ''connected to OIDC but failed to reach the cluster'')
     | Some _ \<Rightarrow> ret (callback_success_response (sv_sealing sv) nonce t key (secure_cookies (sv_config sv))) }"

definition callback ::
  "server \<Rightarrow> 'w backend_env \<Rightarrow> string \<Rightarrow> int \<Rightarrow> headers \<Rightarrow> callback_params \<Rightarrow> ('w backend_st, response) state" where
  "callback sv env nonce now hs params =
     (case sv_provider sv of
        None \<Rightarrow> ret (redirect_to ''/'' [])
      | Some (lib, p) \<Rightarrow>
     (case cb_error params of
        Some err \<Rightarrow> ret (status_response 400 (''OIDC error: '' @ err @ '' '' @
          (case cb_error_description params of None \<Rightarrow> [] | Some d \<Rightarrow> d)))
      | None \<Rightarrow>
     (case cf_session_key (sv_config sv) of
        None \<Rightarrow> ret (status_response 500 ''missing session key'')
      | Some key \<Rightarrow>
     (case cookie_value hs LOGIN_COOKIE of
        None \<Rightarrow> ret (status_response 400 ''missing login cookie'')
      | Some login_cookie \<Rightarrow>
     (case open_pending (sv_sealing sv) now login_cookie key of
        None \<Rightarrow> ret (status_response 400 ''unknown or expired login'')
      | Some pending \<Rightarrow>
     (case (cb_state params, cb_code params) of
        (Some s, code_given) \<Rightarrow>
          if s \<noteq> pl_csrf_state pending then ret (status_response 400 ''state mismatch (possible CSRF)'')
          else (case code_given of
              Some auth_code \<Rightarrow>
                (case exchange_code lib p auth_code (pl_pkce_verifier pending) (pl_nonce pending) of
                   Inr t \<Rightarrow> finish_login sv env nonce key t
                 | Inl e \<Rightarrow> ret (auth_failure e))
            | None \<Rightarrow> ret (status_response 400 ''missing code or state''))
      | (None, _) \<Rightarrow> ret (status_response 400 ''missing code or state'')))))))"

definition session_subject :: "server \<Rightarrow> headers \<Rightarrow> string option" where
  "session_subject sv hs = do {
     key \<leftarrow> cf_session_key (sv_config sv);
     cookie \<leftarrow> cookie_value hs SESSION_COOKIE;
     t \<leftarrow> open_session (sv_sealing sv) cookie key;
     Some (id_subject (tk_identity t)) }"

definition logout :: "server \<Rightarrow> 'w backend_env \<Rightarrow> headers \<Rightarrow> ('w backend_st, response) state" where
  "logout sv env hs = do {
     (case session_subject sv hs of
        None \<Rightarrow> ret ()
      | Some subject \<Rightarrow> do {
          m \<leftarrow> read_map env;
          w \<leftarrow> read_world;
          write_map (evict (be_building env w) subject m) });
     ret (redirect_to (case cf_signout_redirect_url (sv_config sv) of Some u \<Rightarrow> u | None \<Rightarrow> ''/auth/login'')
       [set_cookie SESSION_COOKIE [] (secure_cookies (sv_config sv)) 0]) }"

section \<open>Callers\<close>

record request_caller =
  rc_owner :: string
  rc_audit :: string

definition request_caller_of :: "identity \<Rightarrow> request_caller option" where
  "request_caller_of i = (if id_subject i = [] then None
     else Some \<lparr>rc_owner = id_subject i,
                rc_audit = (case id_email i of Some e \<Rightarrow> e | None \<Rightarrow> id_subject i)\<rparr>)"

definition ns_filter :: "string option \<Rightarrow> string option" where
  "ns_filter ns = (case ns of Some s \<Rightarrow> if s = [] then None else Some s | None \<Rightarrow> None)"

end
