(* ===== verification/SessionProps.thy ===== *)
theory SessionProps
  imports Config Lease
begin

text \<open>
  What the sealed cookies guarantee: what is sealed opens again, for its purpose only, and a
  cookie is found in the request's cookie header.
\<close>

section \<open>The documented behaviour of the libraries\<close>

text \<open>AES-GCM with its 16 byte tag inverts, unpadded URL-safe base64 inverts, and its text has only
  letters, digits, dashes and underscores.\<close>

definition b64_char :: "char \<Rightarrow> bool" where
  "b64_char c \<longleftrightarrow> is_ascii_alphanumeric c \<or> c = CHR ''-'' \<or> c = CHR ''_''"

definition sealing_laws :: "sealing \<Rightarrow> bool" where
  "sealing_laws c \<longleftrightarrow>
     (\<forall>key nonce p. \<exists>ct. sl_encrypt c key nonce p = Some ct \<and> 16 \<le> length ct \<and> sl_decrypt c key nonce ct = Some p)
     \<and> (\<forall>b. sl_decode c (sl_encode c b) = Some b \<and> list_all b64_char (sl_encode c b))"

text \<open>The JSON library reads back a document it printed.\<close>

definition prints :: "sealing \<Rightarrow> json \<Rightarrow> bool" where
  "prints c j \<longleftrightarrow> sl_parse c (sl_print c j) = Some j"

lemma open_seal:
  assumes "sealing_laws c" and "length nonce = 12"
  shows "open_bytes c (seal_bytes c nonce plain key) key = Some plain"
proof -
  obtain ct where ct: "sl_encrypt c key nonce plain = Some ct" "16 \<le> length ct" "sl_decrypt c key nonce ct = Some plain"
    using assms(1) unfolding sealing_laws_def by blast
  have "sl_decode c (sl_encode c (nonce @ ct)) = Some (nonce @ ct)"
    using assms(1) unfolding sealing_laws_def by blast
  with ct assms(2) show ?thesis by (simp add: open_bytes_def seal_bytes_def)
qed

section \<open>Payloads\<close>

lemma those_as_str [simp]: "those (map (as_str \<circ> JString) gs) = Some gs"
  by (induction gs) simp_all

lemma opt_field_simps [simp]:
  "map_of es k = Some (json_opt x) \<Longrightarrow> opt_field es k = Some x"
  by (simp add: opt_field_def json_opt_def split: option.splits)

lemma identity_json_roundtrip [simp]: "identity_of_json (identity_json i) = Some i"
  by (simp add: identity_of_json_def identity_json_def as_struct_def str_field_def strs_field_def str_list_def)

lemma as_i64_int [simp]: "as_i64 (json_int i) = (if - (2 ^ 63) \<le> i \<and> i < 2 ^ 63 then Some i else None)"
  by (simp add: as_i64_def json_int_def)

lemma session_json_roundtrip:
  "from_unix_timestamp (ss_expires_at_unix p) \<noteq> None \<Longrightarrow> session_of_json (session_json p) = Some p"
  by (simp add: session_of_json_def session_json_def as_struct_def int_field_def from_unix_timestamp_def
      split: if_splits)

lemma forwarded_json_roundtrip:
  "from_unix_timestamp (sf_expires_at_unix p) \<noteq> None \<Longrightarrow> forwarded_of_json (forwarded_json p) = Some p"
  by (simp add: forwarded_of_json_def forwarded_json_def as_struct_def int_field_def str_field_def
      from_unix_timestamp_def split: if_splits)

lemma pending_json_roundtrip:
  "- (2 ^ 63) \<le> sp_expires_at_unix p \<Longrightarrow> sp_expires_at_unix p < 2 ^ 63 \<Longrightarrow>
   pending_of_json (pending_json p) = Some p"
  by (simp add: pending_of_json_def pending_json_def as_struct_def int_field_def str_field_def)

lemma not_a_session: "session_of_json (pending_json p) = None"
  by (simp add: session_of_json_def pending_json_def as_struct_def opt_field_def)

lemma not_a_pending: "pending_of_json (session_json p) = None" "pending_of_json (forwarded_json q) = None"
  by (simp_all add: pending_of_json_def session_json_def forwarded_json_def as_struct_def str_field_def)

lemma not_forwarded: "forwarded_of_json (session_json p) = None" "forwarded_of_json (pending_json q) = None"
  by (simp_all add: forwarded_of_json_def session_json_def pending_json_def as_struct_def str_field_def)

section \<open>Cookies in a header\<close>

definition plain_char :: "char \<Rightarrow> bool" where
  "plain_char c \<longleftrightarrow> 33 \<le> code c \<and> code c < 127 \<and> c \<noteq> CHR '';'' \<and> c \<noteq> CHR ''=''"

lemma code_points_ascii: "list_all (\<lambda>c. code c < 128) s \<Longrightarrow> code_points s = map (\<lambda>c. [c]) s"
proof (induction s)
  case (Cons c s)
  then have "takeWhile is_continuation s = []" "dropWhile is_continuation s = s"
    by (cases s; simp add: is_continuation_def)+
  with Cons show ?case by simp
qed simp

lemma plain_ascii: "plain_char c \<Longrightarrow> code c < 128"
  unfolding plain_char_def by linarith

lemma plain_not_space: "plain_char c \<Longrightarrow> \<not> is_white_space [c]"
  by (simp add: plain_char_def is_white_space_def)

lemma trim_plain:
  assumes "list_all plain_char s" and "pre = [] \<or> pre = '' ''"
  shows "trim (pre @ s) = s"
proof -
  have ascii: "list_all (\<lambda>c. code c < 128) s"
    using assms(1) by (rule list.pred_mono_strong) (simp add: plain_ascii)
  have "list_all (\<lambda>c. code c < 128) pre" using assms(2) by (elim disjE) (simp_all add: code_def)
  with ascii have "list_all (\<lambda>c. code c < 128) (pre @ s)" by simp
  then have points: "code_points (pre @ s) = map (\<lambda>c. [c]) pre @ map (\<lambda>c. [c]) s"
    by (simp add: code_points_ascii del: map_append flip: map_append)
  have drop: "dropWhile is_white_space (map (\<lambda>c. [c]) t) = map (\<lambda>c. [c]) t" if "list_all plain_char t" for t
    using that by (cases t) (simp_all add: plain_not_space)
  have "\<not> plain_char CHR '' ''" "is_white_space '' ''"
    by (simp_all add: plain_char_def is_white_space_def code_def)
  then have "dropWhile is_white_space (map (\<lambda>c. [c]) pre @ map (\<lambda>c. [c]) s) = map (\<lambda>c. [c]) s"
    using assms(2) drop[OF assms(1)] by auto
  then have start: "trim_start (pre @ s) = s"
    by (simp only: trim_start_def points concat_map_singleton list.map_ident)
  have "list_all plain_char (rev s)" using assms(1) by simp
  from drop[OF this] have "trim_end s = s"
    by (simp add: trim_end_def code_points_ascii[OF ascii] rev_map concat_map_singleton)
  with start show ?thesis by (simp add: trim_def)
qed

definition jar :: "(string \<times> string) list \<Rightarrow> string" where
  "jar cs = join_with ''; '' (map (\<lambda>(n, v). n @ ''='' @ v) cs)"

definition plain_cookies :: "(string \<times> string) list \<Rightarrow> bool" where
  "plain_cookies cs \<longleftrightarrow> list_all (\<lambda>(n, v). list_all plain_char n \<and> list_all plain_char v) cs"

lemma split_jar:
  "list_all (\<lambda>p. CHR '';'' \<notin> set p) (p # ps) \<Longrightarrow>
   split_on (CHR '';'') (pre @ join_with ''; '' (p # ps)) = (pre @ p) # map (\<lambda>q. '' '' @ q) ps"
  if "CHR '';'' \<notin> set pre"
  using that
proof (induction ps arbitrary: p pre)
  case (Cons q ps)
  have "split_on (CHR '';'') ((pre @ p) @ CHR '';'' # '' '' @ join_with ''; '' (q # ps)) =
      (pre @ p) # split_on (CHR '';'') ('' '' @ join_with ''; '' (q # ps))"
    using Cons.prems by (intro split_on_append) auto
  then show ?case using Cons.IH[of q "'' ''"] Cons.prems by simp
qed (simp add: split_on_single)

lemma plain_no_sep: "list_all plain_char s \<Longrightarrow> CHR '';'' \<notin> set s \<and> CHR ''='' \<notin> set s"
  by (auto simp: list_all_iff plain_char_def)

lemma cookie_of_plain:
  assumes "list_all plain_char n" "list_all plain_char v" "pre = [] \<or> pre = '' ''"
  shows "cookie_of name (pre @ n @ ''='' @ v) = (if n = name then Some v else None)"
proof -
  have "CHR ''='' \<notin> set (pre @ n)" using plain_no_sep[OF assms(1)] assms(3) by auto
  then have "split_once (CHR ''='') ((pre @ n) @ CHR ''='' # v) = Some (pre @ n, v)"
    by (simp only: split_once_Some) simp
  moreover have "trim (pre @ n) = n" "trim v = v"
    using trim_plain[OF assms(1,3)] trim_plain[OF assms(2), of "[]"] by simp_all
  ultimately show ?thesis by (simp add: cookie_of_def)
qed

lemma find_map_jar:
  assumes "plain_cookies cs" "pre = [] \<or> pre = '' ''"
  shows "find_map (cookie_of name) (map (\<lambda>q. pre @ q) (map (\<lambda>(n, v). n @ ''='' @ v) cs)) = map_of cs name"
  using assms(1)
proof (induction cs)
  case (Cons c cs)
  obtain n v where c: "c = (n, v)" by force
  with Cons.prems have "cookie_of name (pre @ n @ ''='' @ v) = (if n = name then Some v else None)"
    by (intro cookie_of_plain assms(2)) (simp_all add: plain_cookies_def)
  with Cons show ?case by (simp add: c plain_cookies_def)
qed simp

lemma plain_header: "plain_char c \<Longrightarrow> header_char c"
  unfolding plain_char_def header_char_def by linarith

lemma header_consts [simp]: "header_char CHR '' ''" "header_char CHR '';''" "header_char CHR ''=''"
  by (simp_all add: header_char_def code_def)

lemma join_header: "list_all (list_all header_char) ps \<Longrightarrow> list_all header_char (join_with ''; '' ps)"
  by (induction "''; ''" ps rule: join_with.induct) simp_all

lemma jar_header:
  assumes "plain_cookies cs"
  shows "header_str (jar cs) = Some (jar cs)"
proof -
  have "list_all header_char (n @ ''='' @ v)" if "(n, v) \<in> set cs" for n v
  proof -
    have "list_all plain_char n" "list_all plain_char v"
      using assms that unfolding plain_cookies_def list_all_iff by blast+
    then show ?thesis
      by (simp add: list.pred_mono_strong[OF \<open>list_all plain_char n\<close>]
          list.pred_mono_strong[OF \<open>list_all plain_char v\<close>] plain_header)
  qed
  then have "list_all header_char (jar cs)" unfolding jar_def
    by (intro join_header) (auto simp: list_all_iff[of _ "map _ _"])
  then show ?thesis by (simp add: header_str_def)
qed

lemma cookie_value_jar:
  assumes "plain_cookies cs" and "map_of hs ''cookie'' = Some (jar cs)"
  shows "cookie_value hs name = map_of cs name"
proof (cases cs)
  case Nil
  then show ?thesis using assms(2) by (simp add: cookie_value_def jar_def header_str_def cookie_of_def)
next
  case (Cons c ds)
  let ?f = "\<lambda>(n, v). n @ ''='' @ v"
  have "list_all (\<lambda>p. CHR '';'' \<notin> set p) (map ?f cs)"
    using assms(1) by (auto simp: plain_cookies_def list_all_iff[of _ cs] list_all_iff[of _ "map _ _"] dest: plain_no_sep)
  with split_jar[of "[]" "?f c" "map ?f ds"]
  have "split_on (CHR '';'') (jar cs) = ?f c # map (\<lambda>q. '' '' @ q) (map ?f ds)"
    by (simp add: jar_def Cons)
  moreover have "plain_cookies [c]" "plain_cookies ds" using assms(1) by (simp_all add: Cons plain_cookies_def)
  from find_map_jar[OF this(1), of "[]"] find_map_jar[OF this(2), of "'' ''"]
  have "find_map (cookie_of name) [?f c] = map_of [c] name"
    "find_map (cookie_of name) (map (\<lambda>q. '' '' @ q) (map ?f ds)) = map_of ds name" by simp_all
  then have "find_map (cookie_of name) (?f c # map (\<lambda>q. '' '' @ q) (map ?f ds)) = map_of cs name"
    by (cases c) (auto simp: Cons split: option.splits if_splits)
  ultimately show ?thesis using assms jar_header[OF assms(1)] by (simp add: cookie_value_def)
qed

section \<open>Hexadecimal text\<close>

definition hex_text :: "string \<Rightarrow> string" where
  "hex_text bs = concat (map (\<lambda>c. [hex_digit (code c div 16), hex_digit (code c mod 16)]) bs)"

lemma hex_value_digit [simp]: "d < 16 \<Longrightarrow> hex_value (hex_digit d) = d"
  by (auto simp: hex_value_def hex_digit_def is_ascii_digit_def is_ascii_uppercase_def code_def)

lemma hex_digit_ok [simp]: "d < 16 \<Longrightarrow> is_ascii_hexdigit (hex_digit d)"
  by (auto simp: is_ascii_hexdigit_def hex_digit_def is_ascii_digit_def code_def)

lemma code_less: "code c < 256"
  by (simp add: code_def)

lemma code_nibbles: "code c div 16 < 16" "code c mod 16 < 16"
  using code_less[of c] by simp_all

lemma char_of_code [simp]: "char_of (code c) = c"
  by (simp add: code_def)

lemma hex_bytes_text [simp]: "hex_bytes (hex_text bs) = bs"
proof (induction bs)
  case (Cons c bs)
  have "char_of (16 * (code c div 16) + code c mod 16) = c"
    by (simp only: mult_div_mod_eq char_of_code)
  with Cons show ?case using code_nibbles[of c] by (simp add: hex_text_def)
qed (simp add: hex_text_def)

lemma hex_text_digits: "list_all is_ascii_hexdigit (hex_text bs)"
  by (induction bs) (simp_all add: hex_text_def code_nibbles)

lemma hex_text_length: "length (hex_text bs) = 2 * length bs"
  by (induction bs) (simp_all add: hex_text_def)

lemma hexdigit_b64: "is_ascii_hexdigit c \<Longrightarrow> b64_char c"
  by (auto simp: is_ascii_hexdigit_def b64_char_def is_ascii_alphanumeric_def is_ascii_alphabetic_def
      is_ascii_uppercase_def is_ascii_lowercase_def)

section \<open>Properties\<close>

lemma open_session_seal:
  assumes "sealing_laws c" "length nonce = 12" "prints c (session_json (session_payload t))"
    and "from_unix_timestamp (tk_expires_at t) = Some x"
  shows "open_session c (seal_session c nonce t key) key = Some (t\<lparr>tk_id_token := [], tk_access_token := []\<rparr>)"
proof -
  have "x = tk_expires_at t" using assms(4) by (simp add: from_unix_timestamp_def split: if_splits)
  then show ?thesis using assms session_json_roundtrip[of "session_payload t"]
    by (simp add: open_session_def seal_session_def open_seal prints_def) (simp add: session_payload_def)
qed

lemma open_forwarded_seal:
  assumes "sealing_laws c" "length nonce = 12" "prints c (forwarded_json (forwarded_payload t))"
    and "from_unix_timestamp (tk_expires_at t) = Some x"
  shows "open_forwarded_tokens c (seal_forwarded_tokens c nonce t key) key = Some t"
proof -
  have "x = tk_expires_at t" using assms(4) by (simp add: from_unix_timestamp_def split: if_splits)
  then show ?thesis using assms forwarded_json_roundtrip[of "forwarded_payload t"]
    by (simp add: open_forwarded_tokens_def seal_forwarded_tokens_def open_seal prints_def)
      (simp add: forwarded_payload_def)
qed

lemma open_pending_seal:
  assumes "sealing_laws c" "length nonce = 12" "prints c (pending_json (pending_payload (now + ttl) p))"
    and "- (2 ^ 63) \<le> now + ttl" "now + ttl < 2 ^ 63"
  shows "open_pending c later (seal_pending c nonce now p key ttl) key = (if later > now + ttl then None else Some p)"
  using assms pending_json_roundtrip[of "pending_payload (now + ttl) p"]
  by (simp add: open_pending_def seal_pending_def open_seal prints_def) (simp add: pending_payload_def)

lemma seal_bytes_plain:
  assumes "sealing_laws c"
  shows "list_all plain_char (seal_bytes c nonce plain key)"
proof -
  obtain ct where "sl_encrypt c key nonce plain = Some ct" using assms unfolding sealing_laws_def by blast
  then have "list_all b64_char (seal_bytes c nonce plain key)"
    using assms by (simp add: seal_bytes_def sealing_laws_def)
  then show ?thesis
    by (rule list.pred_mono_strong)
      (auto simp: b64_char_def plain_char_def is_ascii_alphanumeric_def is_ascii_alphabetic_def
        is_ascii_uppercase_def is_ascii_lowercase_def is_ascii_digit_def code_def)
qed

text \<open>C16: a session cookie comes back as it was sealed.  When the browser returns it among any other
  cookies of its jar, the server finds it and opens it to the same token set, except for the ID and
  access tokens, which are never stored in the browser; the set forwarded between replicas comes back
  whole.\<close>

theorem session_cookie_round_trip:
  assumes "sealing_laws c" and "length nonce = 12" and "from_unix_timestamp (tk_expires_at t) = Some x"
    and "prints c (session_json (session_payload t))" and "prints c (forwarded_json (forwarded_payload t))"
    and "plain_cookies (before @ after)" and "map_of before SESSION_COOKIE = None"
    and "map_of hs ''cookie'' = Some (jar (before @ (SESSION_COOKIE, seal_session c nonce t key) # after))"
  shows "Option.bind (cookie_value hs SESSION_COOKIE) (\<lambda>v. open_session c v key) =
      Some (t\<lparr>tk_id_token := [], tk_access_token := []\<rparr>)
    \<and> open_forwarded_tokens c (seal_forwarded_tokens c nonce t key) key = Some t"
proof -
  let ?cs = "before @ (SESSION_COOKIE, seal_session c nonce t key) # after"
  have "list_all plain_char SESSION_COOKIE"
    by (simp add: SESSION_COOKIE_def plain_char_def code_def)
  with assms(6) have "plain_cookies ?cs"
    by (simp add: plain_cookies_def seal_session_def seal_bytes_plain[OF assms(1)])
  from cookie_value_jar[OF this assms(8)] assms(7)
  have "cookie_value hs SESSION_COOKIE = Some (seal_session c nonce t key)"
    by (simp add: map_add_def del: map_of_eq_None_iff)
  then show ?thesis
    by (simp add: open_session_seal[OF assms(1,2,4,3)] open_forwarded_seal[OF assms(1,2,5,3)])
qed

text \<open>A sealing to evaluate with: a cipher that only appends a tag, hexadecimal text, and the two
  documents of one token set.\<close>

definition bob :: tokens where
  "bob = \<lparr>tk_id_token = ''jwt'', tk_access_token = ''at'', tk_refresh_token = Some ''rt'', tk_expires_at = 1000,
     tk_identity = \<lparr>id_subject = ''bob'', id_email = None, id_name = None, id_groups = [''ops'']\<rparr>\<rparr>"

definition text_sealing :: "(string \<times> json) list \<Rightarrow> sealing" where
  "text_sealing docs = \<lparr>sl_encrypt = (\<lambda>_ _ p. Some (p @ replicate 16 (CHR 0x00))),
     sl_decrypt = (\<lambda>_ _ ct. Some (take (length ct - 16) ct)),
     sl_encode = hex_text, sl_decode = (\<lambda>s. Some (hex_bytes s)),
     sl_print = (\<lambda>j. case List.find (\<lambda>(_, d). d = j) docs of Some (n, _) \<Rightarrow> n | None \<Rightarrow> ''?''),
     sl_parse = map_of docs\<rparr>"

definition bob_docs :: "(string \<times> json) list" where
  "bob_docs = [(''s'', session_json (session_payload bob)), (''f'', forwarded_json (forwarded_payload bob))]"

lemma text_sealing_laws: "sealing_laws (text_sealing docs)"
proof -
  have "list_all b64_char (hex_text b)" for b
    using hex_text_digits[of b] by (rule list.pred_mono_strong) (rule hexdigit_b64)
  then show ?thesis by (simp add: sealing_laws_def text_sealing_def)
qed

lemma bob_docs_print:
  "prints (text_sealing bob_docs) (session_json (session_payload bob))"
  "prints (text_sealing bob_docs) (forwarded_json (forwarded_payload bob))"
  by (simp_all add: prints_def text_sealing_def bob_docs_def session_json_def forwarded_json_def)

theorem session_cookie_round_trip_witness:
  "Option.bind (cookie_value [(''cookie'', jar [(''theme'', ''dark''), (SESSION_COOKIE,
      seal_session (text_sealing bob_docs) ''0123456789ab'' bob ''k'')])] SESSION_COOKIE)
     (\<lambda>v. open_session (text_sealing bob_docs) v ''k'') = Some (bob\<lparr>tk_id_token := [], tk_access_token := []\<rparr>)"
  by (rule session_cookie_round_trip[where before = "[(''theme'', ''dark'')]" and after = "[]" and x = 1000,
        OF text_sealing_laws _ _ bob_docs_print, THEN conjunct1])
    (simp_all add: bob_def from_unix_timestamp_def plain_cookies_def plain_char_def code_def SESSION_COOKIE_def)

text \<open>What is sealed for one purpose opens for no other: a login cookie is not a session, a session
  cookie is not a forwarded token set, and neither of the token sets is a login in progress.\<close>

theorem sealed_for_one_purpose:
  assumes "sealing_laws c" and "length nonce = 12"
    and "prints c (pending_json (pending_payload (now + ttl) p))"
    and "prints c (session_json (session_payload t))" and "prints c (forwarded_json (forwarded_payload t))"
  shows "open_session c (seal_pending c nonce now p key ttl) key = None
    \<and> open_forwarded_tokens c (seal_pending c nonce now p key ttl) key = None
    \<and> open_forwarded_tokens c (seal_session c nonce t key) key = None
    \<and> open_pending c later (seal_session c nonce t key) key = None
    \<and> open_pending c later (seal_forwarded_tokens c nonce t key) key = None"
  using assms
  by (simp add: open_session_def open_forwarded_tokens_def open_pending_def seal_pending_def seal_session_def
      seal_forwarded_tokens_def open_seal prints_def not_a_session not_a_pending not_forwarded)

definition alice_login :: pending_login where
  "alice_login = \<lparr>pl_csrf_state = ''s'', pl_nonce = ''n'', pl_pkce_verifier = ''v''\<rparr>"

definition all_docs :: "(string \<times> json) list" where
  "all_docs = (''p'', pending_json (pending_payload 700 alice_login)) # bob_docs"

lemma all_docs_print:
  "prints (text_sealing all_docs) (pending_json (pending_payload 700 alice_login))"
  "prints (text_sealing all_docs) (session_json (session_payload bob))"
  "prints (text_sealing all_docs) (forwarded_json (forwarded_payload bob))"
  by (simp_all add: prints_def text_sealing_def all_docs_def bob_docs_def session_json_def forwarded_json_def
      pending_json_def)

theorem sealed_for_one_purpose_witness:
  "open_session (text_sealing all_docs) (seal_pending (text_sealing all_docs) ''0123456789ab'' 100 alice_login ''k'' 600)
     ''k'' = None"
  using sealed_for_one_purpose[OF text_sealing_laws, of "''0123456789ab''" all_docs 100 600 alice_login bob] all_docs_print
  by simp

text \<open>The state of a login is recovered exactly until it expires, on any replica.\<close>

theorem login_state_until_expiry:
  assumes "sealing_laws c" and "length nonce = 12" and "prints c (pending_json (pending_payload (now + ttl) p))"
    and "- (2 ^ 63) \<le> now + ttl" and "now + ttl < 2 ^ 63"
  shows "open_pending c later (seal_pending c nonce now p key ttl) key = (if later \<le> now + ttl then Some p else None)"
  using open_pending_seal[OF assms] by simp

theorem login_state_until_expiry_witness:
  "open_pending (text_sealing all_docs) 701
     (seal_pending (text_sealing all_docs) ''0123456789ab'' 100 alice_login ''k'' 600) ''k'' = None"
  by (subst login_state_until_expiry[OF text_sealing_laws]) (simp_all add: all_docs_print)

end
