(* ===== verification/WebProps.thy ===== *)
theory WebProps
  imports Web BackendProps SessionProps
begin

text \<open>What the guards in front of the handlers and the login endpoints guarantee.\<close>

section \<open>Running a guarded handler\<close>

text \<open>How a request may run when authentication is required: refused without reaching the handler, or
  served with the registry's own backend for the subject of the session cookie.\<close>

definition refused :: "request \<Rightarrow> response \<Rightarrow> bool" where
  "refused rq r \<longleftrightarrow> rs_set_cookies r = [] \<and>
     (if starts_with (rq_path rq) ''/api/'' then rs_status r = 401
      else rs_status r = 303 \<and> rs_location r = Some ''/auth/login'')"

definition served_as_owner ::
  "server \<Rightarrow> string \<Rightarrow> (nat \<Rightarrow> identity \<Rightarrow> ('w backend_st, response) state) \<Rightarrow> request
     \<Rightarrow> tokens \<Rightarrow> response \<Rightarrow> 'w backend_st \<Rightarrow> bool" where
  "served_as_owner sv key handler rq t r s' \<longleftrightarrow>
     (\<exists>s1 e resp. hm_get (bs_map s1) (id_subject (tk_identity t)) = Some e
        \<and> id_subject (tk_identity (be_tokens e)) = id_subject (tk_identity t)
        \<and> run_state (handler (be_backend e) (tk_identity (be_tokens e))) s1 = (resp, s')
        \<and> rs_status r = rs_status resp \<and> rs_body r = rs_body resp \<and> registry_inv (bs_map s1))"

lemma reject_refused: "refused rq (reject rq)"
  by (simp add: refused_def reject_def status_response_def redirect_to_def)

lemma reseal_same: "rs_status (reseal sv nonce key t resp) = rs_status resp"
  "rs_body (reseal sv nonce key t resp) = rs_body resp"
  by (simp_all add: reseal_def split: option.split)

lemma forwarded_same_subject:
  "id_subject (tk_identity (forwarded_tokens c key hs t)) = id_subject (tk_identity t)"
  by (simp add: forwarded_tokens_def split: option.split)

lemma resolve_cached:
  assumes "env_sound env" "registry_inv (bs_map s)" "refresh_keeps_subject env t"
    and "run_state (resolve env t) s = (Some rb, s1)"
  shows "\<exists>e. hm_get (bs_map s1) (id_subject (tk_identity t)) = Some e \<and> be_backend e = rb_backend rb
    \<and> be_tokens e = rb_tokens rb \<and> registry_inv (bs_map s1)
    \<and> id_subject (tk_identity (be_tokens e)) = id_subject (tk_identity t)"
proof -
  have "resolved_post (id_subject (tk_identity t)) (Some rb) s1"
    by (rule wp_run[OF resolve_post[OF assms(1-3)] assms(4)])
  then show ?thesis by (auto simp: resolved_post_def cached_def registry_ok_def simp del: map_of_eq_Some_iff)
qed

lemma require_auth_cases:
  assumes "\<not> cf_dev_mode (sv_config sv)" "cf_session_key (sv_config sv) = Some key"
    and "run_state (require_auth sv env nonce handler rq) s = (r, s')"
  obtains (out) "r = reject rq"
  | (through) t rb s1 resp where "presented_tokens (sv_sealing sv) key (rq_headers rq) = Some t"
      "run_state (resolve env t) s = (Some rb, s1)"
      "run_state (handler (rb_backend rb) (tk_identity (rb_tokens rb))) s1 = (resp, s')"
      "r = reseal sv nonce key (rb_tokens rb) resp"
  using assms by (auto simp: require_auth_def split: option.splits prod.splits)

lemma require_auth_serves_owner:
  assumes "\<not> cf_dev_mode (sv_config sv)" and "cf_session_key (sv_config sv) = Some key"
    and "env_sound env" and "registry_inv (bs_map s)" and "\<And>t. presented_tokens (sv_sealing sv) key (rq_headers rq) = Some t \<Longrightarrow> refresh_keeps_subject env t"
    and "run_state (require_auth sv env nonce handler rq) s = (r, s')"
  shows "refused rq r \<or> (\<exists>cookie t. cookie_value (rq_headers rq) SESSION_COOKIE = Some cookie
    \<and> open_session (sv_sealing sv) cookie key = Some t \<and> served_as_owner sv key handler rq t r s')"
  using assms(1,2,6)
proof (cases rule: require_auth_cases)
  case (through t rb s1 resp)
  from through(1) obtain cookie t0 where c: "cookie_value (rq_headers rq) SESSION_COOKIE = Some cookie"
    "open_session (sv_sealing sv) cookie key = Some t0" "t = forwarded_tokens (sv_sealing sv) key (rq_headers rq) t0"
    by (auto simp: presented_tokens_def split: bind_splits)
  have "served_as_owner sv key handler rq t0 r s'"
    unfolding served_as_owner_def
    using resolve_cached[OF assms(3,4) assms(5)[OF through(1)] through(2)] through(3,4) reseal_same
    by (metis c(3) forwarded_same_subject)
  with c show ?thesis by blast
qed (simp add: reject_refused)

section \<open>Properties\<close>

text \<open>C14: on the public listener a request runs only as the owner of its session cookie.  A request that
  claims to be an internal hop is refused unseen; any other one is refused without reaching the
  handler, or its cookie opens with the server's key and the handler runs on the backend the registry
  holds for that cookie's subject, with an identity of that subject.\<close>

theorem served_only_as_cookie_owner:
  assumes "\<not> cf_dev_mode (sv_config sv)" and "cf_session_key (sv_config sv) = Some key"
    and "env_sound env" and "registry_inv (bs_map s)"
    and "\<forall>t. presented_tokens (sv_sealing sv) key (rq_headers rq) = Some t \<longrightarrow> refresh_keeps_subject env t"
    and "run_state (public_listener sv env nonce handler rq) s = (r, s')"
  shows "(rs_status r = 400 \<and> s' = s) \<or> refused rq r
    \<or> (map_of (rq_headers rq) INTERNAL_HEADER = None
       \<and> (\<exists>cookie t. cookie_value (rq_headers rq) SESSION_COOKIE = Some cookie
            \<and> open_session (sv_sealing sv) cookie key = Some t \<and> served_as_owner sv key handler rq t r s'))"
proof (cases "map_of (rq_headers rq) INTERNAL_HEADER \<noteq> None \<or> map_of (rq_headers rq) FORWARDED_AUTH_HEADER \<noteq> None")
  case True
  then have "r = status_response 400 [] \<and> s' = s"
    using assms(6) by (auto simp: public_listener_def reject_peer_headers_def)
  then show ?thesis by (simp add: status_response_def)
next
  case False
  then have "run_state (require_auth sv env nonce handler rq) s = (r, s')"
    using assms(6) by (simp add: public_listener_def reject_peer_headers_def del: not_None_eq)
  from require_auth_serves_owner[OF assms(1-4) _ this] assms(5) False show ?thesis by blast
qed

definition test_server :: server where
  "test_server = \<lparr>sv_config = (base_config \<lparr>dc_b64_standard = (\<lambda>_. None), dc_b64_url = (\<lambda>_. None),
       dc_parse_json = (\<lambda>_. None)\<rparr> (\<lambda>_. None))\<lparr>cf_session_key := Some ''k''\<rparr>,
     sv_provider = None, sv_sealing = text_sealing all_docs, sv_dev_backend = None\<rparr>"

text \<open>A request with the cookie of \<open>bob\<close>, who then gets the backend built for him.\<close>

definition bob_request :: request where
  "bob_request = \<lparr>rq_path = ''/api/me'', rq_headers = [(''cookie'',
     jar [(SESSION_COOKIE, seal_session (text_sealing all_docs) ''0123456789ab'' bob ''k'')])]\<rparr>"

definition refresh_env :: "nat backend_env" where
  "refresh_env = quiet_env\<lparr>be_refresh := (\<lambda>rt w. (if rt = ''rt'' then Some bob else None, w))\<rparr>"

lemma bob_presents: "presented_tokens (text_sealing all_docs) ''k'' (rq_headers bob_request) =
    Some (bob\<lparr>tk_id_token := [], tk_access_token := []\<rparr>)"
proof -
  have "list_all plain_char SESSION_COOKIE"
    by (simp add: SESSION_COOKIE_def plain_char_def code_def)
  then have "plain_cookies [(SESSION_COOKIE, seal_session (text_sealing all_docs) ''0123456789ab'' bob ''k'')]"
    by (simp add: plain_cookies_def seal_session_def seal_bytes_plain[OF text_sealing_laws])
  from cookie_value_jar[OF this, of "rq_headers bob_request" SESSION_COOKIE]
  have "cookie_value (rq_headers bob_request) SESSION_COOKIE =
      Some (seal_session (text_sealing all_docs) ''0123456789ab'' bob ''k'')" by (simp add: bob_request_def)
  moreover have "open_session (text_sealing all_docs) (seal_session (text_sealing all_docs) ''0123456789ab'' bob ''k'')
      ''k'' = Some (bob\<lparr>tk_id_token := [], tk_access_token := []\<rparr>)"
    by (rule open_session_seal[OF text_sealing_laws _ all_docs_print(2), where x = 1000])
      (simp_all add: bob_def from_unix_timestamp_def)
  ultimately show ?thesis
    by (simp add: presented_tokens_def forwarded_tokens_def bob_request_def INTERNAL_HEADER_def)
qed

definition bob_run :: "response \<times> nat backend_st" where
  "bob_run = run_state (public_listener test_server refresh_env ''n'' (\<lambda>b i. ret (status_response 200 (id_subject i)))
     bob_request) \<lparr>bs_world = 0, bs_map = []\<rparr>"

lemma bob_run_served: "rs_status (fst bob_run) = 200"
proof -
  have key: "cf_session_key (sv_config test_server) = Some ''k''" "\<not> cf_dev_mode (sv_config test_server)"
    "sv_sealing test_server = text_sealing all_docs"
    by (simp_all add: test_server_def base_config_def env_bool_def)
  have hs: "map_of (rq_headers bob_request) INTERNAL_HEADER = None"
    "map_of (rq_headers bob_request) FORWARDED_AUTH_HEADER = None"
    by (simp_all add: bob_request_def INTERNAL_HEADER_def FORWARDED_AUTH_HEADER_def)
  show ?thesis
    by (simp add: bob_run_def public_listener_def reject_peer_headers_def require_auth_def key hs bob_presents
        resolve_def warm_def refresh_or_build_def mint_tokens_def update_or_build_def insert_entry_def read_map_def
        env_do_def read_world_def write_map_def refresh_env_def quiet_env_def needs_refresh_def Let_def bob_def
        reseal_same status_response_def)
qed

theorem served_only_as_cookie_owner_witness:
  "rs_status (fst bob_run) = 200 \<and> (refused bob_request (fst bob_run)
     \<or> (\<exists>t. served_as_owner test_server ''k'' (\<lambda>b i. ret (status_response 200 (id_subject i))) bob_request t
              (fst bob_run) (snd bob_run)))"
proof -
  have "env_sound refresh_env" "\<not> cf_dev_mode (sv_config test_server)"
    "cf_session_key (sv_config test_server) = Some ''k''"
    by (simp_all add: env_sound_def refresh_env_def quiet_env_def test_server_def base_config_def env_bool_def)
  moreover have "\<forall>t. presented_tokens (sv_sealing test_server) ''k'' (rq_headers bob_request) = Some t
      \<longrightarrow> refresh_keeps_subject refresh_env t"
    using bob_presents
    by (auto simp: test_server_def refresh_keeps_subject_def refresh_env_def quiet_env_def bob_def)
  moreover have "run_state (public_listener test_server refresh_env ''n'' (\<lambda>b i. ret (status_response 200 (id_subject i)))
      bob_request) \<lparr>bs_world = 0, bs_map = []\<rparr> = (fst bob_run, snd bob_run)" by (simp add: bob_run_def)
  ultimately have "(rs_status (fst bob_run) = 400 \<and> snd bob_run = \<lparr>bs_world = 0, bs_map = []\<rparr>) \<or> refused bob_request (fst bob_run)
    \<or> (map_of (rq_headers bob_request) INTERNAL_HEADER = None
       \<and> (\<exists>cookie t. cookie_value (rq_headers bob_request) SESSION_COOKIE = Some cookie
            \<and> open_session (sv_sealing test_server) cookie ''k'' = Some t
            \<and> served_as_owner test_server ''k'' (\<lambda>b i. ret (status_response 200 (id_subject i))) bob_request t
                (fst bob_run) (snd bob_run)))"
    by (intro served_only_as_cookie_owner) (auto simp: registry_ok_def)
  with bob_run_served show ?thesis by force
qed

lemma exchange_code_verified:
  assumes "exchange_code lib p auth_code verifier nonce = Inr t"
  shows "(\<exists>cl. ol_claims lib (tk_id_token t) (Some nonce) = Inr cl \<and> id_subject (tk_identity t) = cl_subject cl)
    \<and> (op_allowed_groups p = [] \<or> (\<exists>g\<in>set (id_groups (tk_identity t)). g \<in> set (op_allowed_groups p)))"
  using assms
  by (auto simp: exchange_code_def tokens_from_response_def verified_tokens_def assemble_def Let_def list_ex_iff
      split: sum.splits option.splits if_splits)

text \<open>C15: a browser is given a session only after a complete login.  If the callback sets any cookie, the
  login cookie of this browser opened to a login that has not expired, the returned state is that
  login's, the ID token was verified against that login's nonce, its subject is in an allowed group
  when groups are required, and the cookies are the session of exactly those tokens and the removal
  of the login cookie.\<close>

theorem session_only_after_login:
  assumes "run_state (callback sv env nonce now hs params) s = (r, s')" and "rs_set_cookies r \<noteq> []"
  shows "\<exists>lib p key login_cookie pending t cl. sv_provider sv = Some (lib, p)
    \<and> cf_session_key (sv_config sv) = Some key
    \<and> cookie_value hs LOGIN_COOKIE = Some login_cookie
    \<and> open_pending (sv_sealing sv) now login_cookie key = Some pending
    \<and> cb_state params = Some (pl_csrf_state pending)
    \<and> ol_claims lib (tk_id_token t) (Some (pl_nonce pending)) = Inr cl
    \<and> id_subject (tk_identity t) = cl_subject cl \<and> cl_subject cl \<noteq> []
    \<and> (op_allowed_groups p = [] \<or> (\<exists>g\<in>set (id_groups (tk_identity t)). g \<in> set (op_allowed_groups p)))
    \<and> rs_set_cookies r = [set_cookie SESSION_COOKIE (seal_session (sv_sealing sv) nonce t key)
        (secure_cookies (sv_config sv)) 604800, set_cookie LOGIN_COOKIE [] (secure_cookies (sv_config sv)) 0]"
proof -
  obtain lib p key login_cookie pending auth_code t where run:
    "sv_provider sv = Some (lib, p)" "cf_session_key (sv_config sv) = Some key"
    "cookie_value hs LOGIN_COOKIE = Some login_cookie"
    "open_pending (sv_sealing sv) now login_cookie key = Some pending"
    "cb_state params = Some (pl_csrf_state pending)"
    "exchange_code lib p auth_code (pl_pkce_verifier pending) (pl_nonce pending) = Inr t"
    "run_state (finish_login sv env nonce key t) s = (r, s')"
    using assms
    by (auto simp: callback_def status_response_def redirect_to_def auth_failure_def
        split: option.splits sum.splits if_splits auth_error.splits)
  obtain u s1 where "run_state (resolve_login env t) s = (u, s1)" by force
  then have "id_subject (tk_identity t) \<noteq> []"
    and "rs_set_cookies r = rs_set_cookies (callback_success_response (sv_sealing sv) nonce t key (secure_cookies (sv_config sv)))"
    using run(7) assms(2)
    by (auto simp: finish_login_def resolve_login_def status_response_def Let_def split: option.splits if_splits)
  moreover obtain cl where cl: "ol_claims lib (tk_id_token t) (Some (pl_nonce pending)) = Inr cl"
    "id_subject (tk_identity t) = cl_subject cl"
    "op_allowed_groups p = [] \<or> (\<exists>g\<in>set (id_groups (tk_identity t)). g \<in> set (op_allowed_groups p))"
    using exchange_code_verified[OF run(6)] by blast
  moreover have "rs_set_cookies (callback_success_response (sv_sealing sv) nonce t key (secure_cookies (sv_config sv))) =
      [set_cookie SESSION_COOKIE (seal_session (sv_sealing sv) nonce t key) (secure_cookies (sv_config sv)) 604800,
       set_cookie LOGIN_COOKIE [] (secure_cookies (sv_config sv)) 0]"
    by (simp add: callback_success_response_def redirect_to_def)
  ultimately have "rs_set_cookies r = [set_cookie SESSION_COOKIE (seal_session (sv_sealing sv) nonce t key)
        (secure_cookies (sv_config sv)) 604800, set_cookie LOGIN_COOKIE [] (secure_cookies (sv_config sv)) 0]
      \<and> cl_subject cl \<noteq> []" by simp
  then show ?thesis
    by (intro exI[of _ lib] exI[of _ p] exI[of _ key] exI[of _ login_cookie] exI[of _ pending] exI[of _ t]
        exI[of _ cl] conjI run(1-5) cl) simp_all
qed

definition test_lib :: oidc_lib where
  "test_lib = \<lparr>ol_exchange = (\<lambda>c _. if c = ''code'' then Inr \<lparr>tr_id_token = Some ''jwt'', tr_access_token = ''at'',
        tr_refresh_token = Some ''rt''\<rparr> else Inl ''invalid_grant''),
     ol_refresh = (\<lambda>_. Inl ''invalid_grant''),
     ol_claims = (\<lambda>_ nonce. if nonce = Some ''n'' then Inr \<lparr>cl_subject = ''alice'', cl_email = None, cl_name = None,
        cl_expiration = 1000\<rparr> else Inl ''nonce''),
     ol_b64_url = (\<lambda>_. None), ol_parse_json = (\<lambda>_. None), ol_now = 0\<rparr>"

definition login_server :: server where
  "login_server = test_server\<lparr>sv_provider := Some (test_lib, \<lparr>op_allowed_groups = [], op_groups_claim = ''groups''\<rparr>)\<rparr>"

definition alice_callback :: "response \<times> nat backend_st" where
  "alice_callback = run_state (callback login_server quiet_env ''0123456789ab'' 200
     [(''cookie'', jar [(LOGIN_COOKIE, seal_pending (text_sealing all_docs) ''0123456789ab'' 100 alice_login ''k'' 600)])]
     \<lparr>cb_code = Some ''code'', cb_state = Some ''s'', cb_error = None, cb_error_description = None\<rparr>)
     \<lparr>bs_world = 0, bs_map = []\<rparr>"

lemma alice_callback_cookies: "rs_set_cookies (fst alice_callback) \<noteq> []"
proof -
  have "list_all plain_char LOGIN_COOKIE"
    by (simp add: LOGIN_COOKIE_def plain_char_def code_def)
  then have "plain_cookies [(LOGIN_COOKIE, seal_pending (text_sealing all_docs) ''0123456789ab'' 100 alice_login ''k'' 600)]"
    by (simp add: plain_cookies_def seal_pending_def seal_bytes_plain[OF text_sealing_laws])
  from cookie_value_jar[OF this]
  have "cookie_value [(''cookie'', jar [(LOGIN_COOKIE, seal_pending (text_sealing all_docs) ''0123456789ab'' 100
      alice_login ''k'' 600)])] LOGIN_COOKIE =
      Some (seal_pending (text_sealing all_docs) ''0123456789ab'' 100 alice_login ''k'' 600)" by simp
  moreover have "open_pending (text_sealing all_docs) 200 (seal_pending (text_sealing all_docs) ''0123456789ab'' 100
      alice_login ''k'' 600) ''k'' = Some alice_login"
    by (subst open_pending_seal[OF text_sealing_laws]) (simp_all add: all_docs_print)
  ultimately show ?thesis
    by (simp add: alice_callback_def callback_def login_server_def test_server_def alice_login_def exchange_code_def
        test_lib_def tokens_from_response_def verified_tokens_def assemble_def extract_groups_def from_unix_timestamp_def
        finish_login_def resolve_login_def replace_login_def update_or_build_def insert_entry_def read_map_def env_do_def
        read_world_def write_map_def quiet_env_def Let_def callback_success_response_def redirect_to_def)
qed

theorem session_only_after_login_witness:
  "\<exists>lib p key login_cookie pending (t :: tokens) (cl :: claims). sv_provider login_server = Some (lib, p)
     \<and> open_pending (sv_sealing login_server) 200 login_cookie key = Some pending
     \<and> ol_claims lib (tk_id_token t) (Some (pl_nonce pending)) = Inr cl"
proof -
  have "alice_callback = (fst alice_callback, snd alice_callback)" by simp
  from session_only_after_login[OF this[unfolded alice_callback_def] alice_callback_cookies[unfolded alice_callback_def]]
  show ?thesis by blast
qed

text \<open>Outside development mode a configuration always authenticates: it has a 32 byte session key
  and OIDC settings and marks its cookies secure.  Without its switch in the environment no privileged
  operation is allowed to any group, and with it only to members of the configured groups.\<close>

theorem production_is_authenticated:
  assumes "from_env d env = Inr cf"
  shows "(cf_dev_mode cf \<or> secure_cookies cf \<and> cf_oidc cf \<noteq> None
      \<and> (\<exists>key. cf_session_key cf = Some key \<and> length key = 32))
    \<and> (env ''RODER_TALOS_ACTIONS_ENABLED'' = None \<longrightarrow> \<not> can_operate_talos cf gs)
    \<and> (env ''RODER_TALOS_CONFIG_ENABLED'' = None \<longrightarrow> \<not> can_read_talos_config cf gs)
    \<and> (env ''RODER_ALERTS_ACTIONS_ENABLED'' = None \<longrightarrow> \<not> can_silence_alerts cf gs)
    \<and> (can_operate_talos cf gs \<longrightarrow> cf_dev_mode cf
        \<or> (\<exists>g\<in>set gs. g \<in> set (env_groups d env ''RODER_TALOS_OPERATOR_GROUPS'')))
    \<and> (can_silence_alerts cf gs \<longrightarrow> cf_dev_mode cf
        \<or> (\<exists>g\<in>set gs. g \<in> set (env_groups d env ''RODER_ALERTS_OPERATOR_GROUPS'')))"
proof -
  have "cf_dev_mode cf \<or> secure_cookies cf \<and> cf_oidc cf \<noteq> None \<and> (\<exists>key. cf_session_key cf = Some key \<and> length key = 32)"
    using assms by (auto simp: from_env_def Let_def secure_cookies_def parse_session_key_def
        split: if_splits sum.splits option.splits)
  moreover have "cf = base_config d env \<or> (\<exists>x y. cf = (base_config d env)\<lparr>cf_oidc := x, cf_session_key := y\<rparr>)"
    using assms by (auto simp: from_env_def Let_def split: if_splits sum.splits)
  then have fields: "cf_talos_actions_enabled cf = env_bool env ''RODER_TALOS_ACTIONS_ENABLED''"
    "cf_talos_config_enabled cf = env_bool env ''RODER_TALOS_CONFIG_ENABLED''"
    "cf_alerts_actions_enabled cf = env_bool env ''RODER_ALERTS_ACTIONS_ENABLED''"
    "cf_talos_operator_groups cf = env_groups d env ''RODER_TALOS_OPERATOR_GROUPS''"
    "cf_alerts_operator_groups cf = env_groups d env ''RODER_ALERTS_OPERATOR_GROUPS''"
    by (auto simp: base_config_def)
  ultimately show ?thesis
    by (auto simp: fields can_operate_talos_def can_read_talos_config_def can_silence_alerts_def env_bool_def
        has_any_group_def list_ex_iff)
qed

theorem production_is_authenticated_witness:
  "\<not> can_operate_talos (base_config \<lparr>dc_b64_standard = (\<lambda>_. None), dc_b64_url = (\<lambda>_. None), dc_parse_json = (\<lambda>_. None)\<rparr>
     [''RODER_DEV_MODE'' \<mapsto> ''1'']) [''ops'']"
proof -
  let ?d = "\<lparr>dc_b64_standard = (\<lambda>_. None), dc_b64_url = (\<lambda>_. None), dc_parse_json = (\<lambda>_. None)\<rparr>"
  have "from_env ?d [''RODER_DEV_MODE'' \<mapsto> ''1''] = Inr (base_config ?d [''RODER_DEV_MODE'' \<mapsto> ''1''])"
    by (simp add: from_env_def base_config_def env_bool_def)
  from production_is_authenticated[OF this, of "[''ops'']"] show ?thesis by simp
qed

text \<open>A session key given as 64 hexadecimal digits is exactly those 32 bytes, white space around it
  ignored, whatever base64 would make of it.\<close>

theorem hex_session_key:
  assumes "length key = 32" and "pre = [] \<or> pre = '' ''"
  shows "parse_session_key d (pre @ hex_text key) = Inr key"
proof -
  have "list_all plain_char (hex_text key)"
    using hex_text_digits[of key]
    by (rule list.pred_mono_strong) (auto simp: is_ascii_hexdigit_def plain_char_def is_ascii_digit_def code_def)
  from trim_plain[OF this assms(2)] show ?thesis
    using assms(1) by (simp add: parse_session_key_def hex_text_digits hex_text_length)
qed

theorem hex_session_key_witness:
  "parse_session_key \<lparr>dc_b64_standard = (\<lambda>_. None), dc_b64_url = (\<lambda>_. None), dc_parse_json = (\<lambda>_. None)\<rparr>
     (hex_text (replicate 32 CHR ''k'')) = Inr (replicate 32 CHR ''k'')"
  using hex_session_key[of "replicate 32 CHR ''k''" "[]"] by simp

end
