(* ===== verification/Ha.thy ===== *)
theory Ha
  imports Web Lease Drain
begin

text \<open>
  \<open>src/src/server/ha.rs\<close>: routing between the replicas of the server.  Listing the replicas,
  reading a subject's tokens from the registry, drawing a nonce and sending a request to a peer
  are state transformers of an environment; \<open>he_parse_job\<close> is the JSON of a peer's answer.
  The sealed tokens are base64 text, so that turning them into a header value (an \<open>unwrap\<close>
  of the code) cannot fail.
\<close>

record peer_request =
  pq_method :: string
  pq_url :: string
  pq_headers :: headers
  pq_body :: string

record peer_response =
  pr_status :: nat
  pr_content_type :: "string option"
  pr_set_cookies :: "string list"
  pr_body :: string

record ha_state =
  ha_pod_name :: string
  ha_peer_port :: nat

record 's ha_env =
  he_pods :: "('s, string + roder_pod list) state"
  he_pod :: "string \<Rightarrow> ('s, string + roder_pod option) state"
  he_tokens :: "string \<Rightarrow> ('s, tokens option) state"
  he_nonce :: "('s, string) state"
  he_send :: "peer_request \<Rightarrow> ('s, string + peer_response) state"
  he_parse_job :: "string \<Rightarrow> active_drain_job option option"

definition DEFAULT_PEER_PORT :: nat where "DEFAULT_PEER_PORT = 8443"

definition api_url :: "ha_state \<Rightarrow> string \<Rightarrow> string \<Rightarrow> string" where
  "api_url ha ip path = ''https://'' @ ip @ '':'' @ show_nat (ha_peer_port ha) @ path"

definition coordination_error :: "string \<Rightarrow> response" where
  "coordination_error e = status_response 503 (''Roder HA coordination is unavailable: '' @ e)"

definition peer_url :: "'s ha_env \<Rightarrow> ha_state \<Rightarrow> string \<Rightarrow> string \<Rightarrow> ('s, response + string) state" where
  "peer_url env ha executor path = do {
     p \<leftarrow> he_pod env executor;
     ret (case p of
        Inl e \<Rightarrow> Inl (coordination_error e)
      | Inr None \<Rightarrow> Inl (status_response 410 ''operation executor is no longer available'')
      | Inr (Some peer) \<Rightarrow> Inr (api_url ha (rp_ip peer) path)) }"

section \<open>Trusted fingerprints\<close>

definition well_formed_fingerprint :: "string \<Rightarrow> bool" where
  "well_formed_fingerprint f \<longleftrightarrow> length f = 64 \<and> list_all is_ascii_hexdigit f"

definition pin_of :: "roder_pod \<Rightarrow> (string \<times> string) option" where
  "pin_of p = (if \<not> rp_ready p then None
     else case rp_tls_fingerprint p of
            None \<Rightarrow> None
          | Some f \<Rightarrow> if well_formed_fingerprint f then Some (rp_ip p, str_ascii_lower f) else None)"

definition refresh_fingerprints :: "roder_pod list \<Rightarrow> (string, string) hmap" where
  "refresh_fingerprints pods = fold (\<lambda>(ip, f). hm_insert ip f) (List.map_filter pin_of pods) []"

section \<open>Forwarding\<close>

definition forwarding_cookie :: "'s ha_env \<Rightarrow> server \<Rightarrow> identity \<Rightarrow> ('s, string option) state" where
  "forwarding_cookie env sv who =
     (if cf_dev_mode (sv_config sv) then ret None
      else do {
        t \<leftarrow> he_tokens env (id_subject who);
        case t of
          None \<Rightarrow> ret None
        | Some tokens \<Rightarrow> (case cf_session_key (sv_config sv) of
            None \<Rightarrow> ret None
          | Some key \<Rightarrow> do {
              nonce \<leftarrow> he_nonce env;
              ret (Some (SESSION_COOKIE @ ''='' @ seal_session (sv_sealing sv) nonce tokens key)) }) })"

definition forwarded_auth :: "'s ha_env \<Rightarrow> server \<Rightarrow> identity \<Rightarrow> ('s, string option) state" where
  "forwarded_auth env sv who = do {
     t \<leftarrow> he_tokens env (id_subject who);
     case t of
       None \<Rightarrow> ret None
     | Some tokens \<Rightarrow> (case cf_session_key (sv_config sv) of
         None \<Rightarrow> ret None
       | Some key \<Rightarrow> do {
           nonce \<leftarrow> he_nonce env;
           ret (Some (seal_forwarded_tokens (sv_sealing sv) nonce tokens key)) }) }"

text \<open>A header that is set only if there is a value and it is a legal header value.\<close>

definition opt_header :: "string \<Rightarrow> string option \<Rightarrow> headers" where
  "opt_header name v = (case Option.bind v header_str of None \<Rightarrow> [] | Some x \<Rightarrow> [(name, x)])"

definition proxy_response :: "peer_response \<Rightarrow> response" where
  "proxy_response r = \<lparr>rs_status = (if 100 \<le> pr_status r \<and> pr_status r < 1000 then pr_status r else 502),
     rs_location = None, rs_set_cookies = pr_set_cookies r, rs_body = pr_body r\<rparr>"

definition peer_answer :: "string \<Rightarrow> string + peer_response \<Rightarrow> response" where
  "peer_answer what r = (case r of Inr resp \<Rightarrow> proxy_response resp | Inl e \<Rightarrow> status_response 502 (what @ e))"

text \<open>\<open>min_by\<close> on the name: the first of the least.\<close>

fun min_by_name :: "roder_pod list \<Rightarrow> roder_pod option" where
  "min_by_name [] = None"
| "min_by_name (p # ps) = Some (foldl (\<lambda>a b. if rp_name b < rp_name a then b else a) p ps)"

definition off_target :: "string \<Rightarrow> string \<Rightarrow> roder_pod \<Rightarrow> bool" where
  "off_target target me peer \<longleftrightarrow> rp_ready peer \<and> rp_node peer \<noteq> target \<and> rp_name peer \<noteq> me"

definition no_executor :: response where
  "no_executor = status_response 409 ''no off-target Roder executor is available''"

definition forward_to ::
  "'s ha_env \<Rightarrow> server \<Rightarrow> ha_state \<Rightarrow> identity \<Rightarrow> roder_pod \<Rightarrow> string + string \<Rightarrow> ('s, response) state" where
  "forward_to env sv ha who peer body = do {
     cookie \<leftarrow> forwarding_cookie env sv who;
     case body of
       Inl e \<Rightarrow> ret (status_response 500 (''failed to encode forwarded action: '' @ e))
     | Inr payload \<Rightarrow> do {
         auth \<leftarrow> forwarded_auth env sv who;
         r \<leftarrow> he_send env \<lparr>pq_method = ''POST'', pq_url = api_url ha (rp_ip peer) ''/api/action'',
           pq_headers = [(INTERNAL_HEADER, ''1''), (''content-type'', ''application/json'')]
             @ opt_header FORWARDED_AUTH_HEADER auth @ opt_header ''cookie'' cookie,
           pq_body = payload\<rparr>;
         ret (peer_answer ''failed to reach executor: '' r) } }"

text \<open>\<open>None\<close>: the action is not about this replica's own node and goes on here.\<close>

definition forward_action_from_target ::
  "'s ha_env \<Rightarrow> server \<Rightarrow> ha_state option \<Rightarrow> headers \<Rightarrow> identity \<Rightarrow> string \<Rightarrow> string + string
     \<Rightarrow> ('s, response option) state" where
  "forward_action_from_target env sv ha_opt hs who target body =
     (case ha_opt of
        None \<Rightarrow> ret None
      | Some ha \<Rightarrow>
          if cf_pod_node_name (sv_config sv) \<noteq> Some target then ret None
          else if map_of hs INTERNAL_HEADER \<noteq> None then ret (Some no_executor)
          else do {
            peers \<leftarrow> he_pods env;
            case peers of
              Inl e \<Rightarrow> ret (Some (coordination_error e))
            | Inr ps \<Rightarrow> (case min_by_name (filter (off_target target (ha_pod_name ha)) ps) of
                None \<Rightarrow> ret (Some no_executor)
              | Some peer \<Rightarrow> do {
                  r \<leftarrow> forward_to env sv ha who peer body;
                  ret (Some r) }) })"

definition proxy_to_executor ::
  "'s ha_env \<Rightarrow> server \<Rightarrow> ha_state option \<Rightarrow> identity \<Rightarrow> string option \<Rightarrow> string \<Rightarrow> string
     \<Rightarrow> (string + string) option \<Rightarrow> ('s, response option) state" where
  "proxy_to_executor env sv ha_opt who executor http_method path body =
     (case (ha_opt, executor) of
        (Some ha, Some ex) \<Rightarrow>
          if ex = ha_pod_name ha then ret None
          else do {
            url \<leftarrow> peer_url env ha ex path;
            case url of
              Inl r \<Rightarrow> ret (Some r)
            | Inr u \<Rightarrow> do {
                cookie \<leftarrow> forwarding_cookie env sv who;
                case body of
                  Some (Inl e) \<Rightarrow> ret (Some (status_response 500 (''failed to encode forwarded action: '' @ e)))
                | Some (Inr payload) \<Rightarrow> do {
                    auth \<leftarrow> forwarded_auth env sv who;
                    r \<leftarrow> he_send env \<lparr>pq_method = http_method, pq_url = u,
                      pq_headers = [(INTERNAL_HEADER, ''1''), (''content-type'', ''application/json'')]
                        @ opt_header FORWARDED_AUTH_HEADER auth @ opt_header ''cookie'' cookie,
                      pq_body = payload\<rparr>;
                    ret (Some (peer_answer ''operation executor is unavailable: '' r)) }
                | None \<Rightarrow> do {
                    r \<leftarrow> he_send env \<lparr>pq_method = http_method, pq_url = u,
                      pq_headers = [(INTERNAL_HEADER, ''1'')] @ opt_header ''cookie'' cookie, pq_body = []\<rparr>;
                    ret (Some (peer_answer ''operation executor is unavailable: '' r)) } } }
      | _ \<Rightarrow> ret None)"

section \<open>Jobs on the other replicas\<close>

definition job_of_answer :: "'s ha_env \<Rightarrow> string + peer_response \<Rightarrow> active_drain_job list" where
  "job_of_answer env r = (case r of
     Inl _ \<Rightarrow> []
   | Inr resp \<Rightarrow>
       if pr_status resp < 200 \<or> 300 \<le> pr_status resp then []
       else (case he_parse_job env (pr_body resp) of Some (Some job) \<Rightarrow> [job] | _ \<Rightarrow> []))"

fun probe_peers ::
  "'s ha_env \<Rightarrow> ha_state \<Rightarrow> string option \<Rightarrow> roder_pod list \<Rightarrow> ('s, active_drain_job list) state" where
  "probe_peers env ha cookie [] = ret []"
| "probe_peers env ha cookie (p # ps) = do {
     r \<leftarrow> he_send env \<lparr>pq_method = ''GET'', pq_url = api_url ha (rp_ip p) ''/api/drain-active'',
       pq_headers = [(INTERNAL_HEADER, ''1'')] @ opt_header ''cookie'' cookie, pq_body = []\<rparr>;
     rest \<leftarrow> probe_peers env ha cookie ps;
     ret (job_of_answer env r @ rest) }"

definition active_jobs ::
  "'s ha_env \<Rightarrow> server \<Rightarrow> ha_state option \<Rightarrow> headers \<Rightarrow> identity
     \<Rightarrow> ('s, response + active_drain_job list) state" where
  "active_jobs env sv ha_opt hs who =
     (case ha_opt of
        None \<Rightarrow> ret (Inr [])
      | Some ha \<Rightarrow>
          if map_of hs INTERNAL_HEADER \<noteq> None then ret (Inr [])
          else do {
            cookie \<leftarrow> forwarding_cookie env sv who;
            peers \<leftarrow> he_pods env;
            case peers of
              Inl e \<Rightarrow> ret (Inl (coordination_error e))
            | Inr ps \<Rightarrow> do {
                jobs \<leftarrow> probe_peers env ha cookie (filter (\<lambda>p. rp_name p \<noteq> ha_pod_name ha) ps);
                ret (Inr jobs) } })"

text \<open>\<open>GET /api/drain-active\<close> (\<open>api/drain.rs\<close>): the latest started of the caller's jobs, here or elsewhere;
  \<open>max_by_key\<close> takes the last of the greatest.\<close>

fun latest_job :: "active_drain_job list \<Rightarrow> active_drain_job option" where
  "latest_job [] = None"
| "latest_job (j # js) = Some (foldl (\<lambda>a b. if aj_started_at a \<le> aj_started_at b then b else a) j js)"

definition active_drain ::
  "'s ha_env \<Rightarrow> server \<Rightarrow> ha_state option \<Rightarrow> headers \<Rightarrow> identity \<Rightarrow> active_drain_job option
     \<Rightarrow> ('s, response + active_drain_job option) state" where
  "active_drain env sv ha_opt hs who local_job =
     (case request_caller_of who of
        None \<Rightarrow> ret (Inl (status_response 401 []))
      | Some caller \<Rightarrow> do {
          remote \<leftarrow> active_jobs env sv ha_opt hs who;
          ret (case remote of
             Inl r \<Rightarrow> Inl r
           | Inr jobs \<Rightarrow> Inr (latest_job ((case local_job of None \<Rightarrow> [] | Some j \<Rightarrow> [j]) @ jobs))) })"

end
