(* ===== verification/HaProps.thy ===== *)
theory HaProps
  imports Ha WebProps
begin

text \<open>
  What the routing between replicas guarantees.  The environment of the properties answers from
  given replicas, tokens and peers, and its state is the list of the requests sent.
\<close>

section \<open>The chosen replica\<close>

lemma foldl_min_name:
  "foldl (\<lambda>a b. if rp_name b < rp_name a then b else a) p ps \<in> set (p # ps)
   \<and> (\<forall>q\<in>set (p # ps). rp_name (foldl (\<lambda>a b. if rp_name b < rp_name a then b else a) p ps) \<le> rp_name q)"
proof (induction ps arbitrary: p)
  case (Cons q ps)
  let ?m = "if rp_name q < rp_name p then q else p"
  have "rp_name ?m \<le> rp_name p" "rp_name ?m \<le> rp_name q" by auto
  with Cons[of ?m] show ?case by (auto intro: order_trans)
qed simp

lemma min_by_name_Some:
  "min_by_name ps = Some p \<Longrightarrow> p \<in> set ps \<and> (\<forall>q\<in>set ps. rp_name p \<le> rp_name q)"
  using foldl_min_name by (cases ps) fastforce+

lemma min_by_name_None: "min_by_name ps = None \<longleftrightarrow> ps = []"
  by (cases ps) simp_all

text \<open>Replicas have distinct names, so the choice does not depend on the order of the listing.\<close>

lemma min_by_name_unique:
  assumes "inj_on rp_name (set ps)" "set qs = set ps"
  shows "min_by_name qs = min_by_name ps"
proof (cases "min_by_name ps")
  case None
  then show ?thesis using assms(2) by (simp add: min_by_name_None)
next
  case (Some p)
  with assms(2) min_by_name_None[of qs] min_by_name_None[of ps] obtain q where q: "min_by_name qs = Some q"
    by (metis not_Some_eq set_empty)
  have "rp_name p = rp_name q"
    using min_by_name_Some[OF Some] min_by_name_Some[OF q] assms(2) by (metis antisym)
  then show ?thesis
    using Some q min_by_name_Some[OF Some] min_by_name_Some[OF q] assms by (metis inj_onD)
qed

definition sending_env ::
  "string + roder_pod list \<Rightarrow> (string \<Rightarrow> tokens option) \<Rightarrow> string \<Rightarrow> (peer_request \<Rightarrow> string + peer_response)
     \<Rightarrow> peer_request list ha_env" where
  "sending_env pods toks nonce answer = \<lparr>
     he_pods = ret pods,
     he_pod = (\<lambda>name. ret (case pods of Inl e \<Rightarrow> Inl e | Inr ps \<Rightarrow> Inr (List.find (\<lambda>p. rp_name p = name) ps))),
     he_tokens = (\<lambda>who. ret (toks who)),
     he_nonce = ret nonce,
     he_send = (\<lambda>rq. State (\<lambda>sent. (answer rq, sent @ [rq]))),
     he_parse_job = (\<lambda>_. None)\<rparr>"

definition may_execute :: "string \<Rightarrow> string \<Rightarrow> roder_pod \<Rightarrow> bool" where
  "may_execute own me p \<longleftrightarrow> rp_ready p \<and> rp_node p \<noteq> own \<and> rp_name p \<noteq> me"

lemma off_target_iff: "off_target own me p \<longleftrightarrow> may_execute own me p"
  by (simp add: off_target_def may_execute_def)

definition chosen :: "string \<Rightarrow> string \<Rightarrow> roder_pod list \<Rightarrow> roder_pod \<Rightarrow> bool" where
  "chosen target me ps peer \<longleftrightarrow> peer \<in> set ps \<and> may_execute target me peer
     \<and> (\<forall>q\<in>set ps. may_execute target me q \<longrightarrow> rp_name peer \<le> rp_name q)"

lemma forwarding_silent:
  "\<exists>c. run_state (forwarding_cookie (sending_env pods toks nonce answer) sv who) sent = (c, sent)"
  "\<exists>c. run_state (forwarded_auth (sending_env pods toks nonce answer) sv who) sent = (c, sent)"
  by (simp_all add: forwarding_cookie_def forwarded_auth_def sending_env_def split: option.split)

lemma he_send_run: "run_state (he_send (sending_env pods toks nonce answer) rq) sent = (answer rq, sent @ [rq])"
  by (simp add: sending_env_def)

lemma forward_to_sends:
  "\<exists>r extra. run_state (forward_to (sending_env pods toks nonce answer) sv ha who peer body) [] = (r, extra)
     \<and> (case body of Inl _ \<Rightarrow> extra = []
        | Inr payload \<Rightarrow> (\<exists>rq. extra = [rq] \<and> pq_url rq = api_url ha (rp_ip peer) ''/api/action''
            \<and> map_of (pq_headers rq) INTERNAL_HEADER = Some ''1'' \<and> pq_body rq = payload
            \<and> r = peer_answer ''failed to reach executor: '' (answer rq)))"
proof -
  obtain c where "run_state (forwarding_cookie (sending_env pods toks nonce answer) sv who) [] = (c, [])"
    using forwarding_silent(1) by blast
  moreover obtain f where "run_state (forwarded_auth (sending_env pods toks nonce answer) sv who) [] = (f, [])"
    using forwarding_silent(2) by blast
  ultimately show ?thesis by (cases body) (simp_all add: forward_to_def he_send_run)
qed

section \<open>Properties\<close>

text \<open>C17: an action on the node this replica runs on is carried out by exactly one other replica.  An
  action on any other node stays here.  Otherwise an action that already came from a replica is
  refused, so an action takes one hop at most; and a fresh one is sent, marked as an internal hop,
  to one replica, which is ready, runs on another node, and is the same whichever order the replicas
  are listed in; with no such replica it is refused and nothing is sent.\<close>

theorem action_leaves_its_target:
  assumes "cf_pod_node_name (sv_config sv) = Some own" and "inj_on rp_name (set ps)" and "set qs = set ps"
    and "run = run_state (forward_action_from_target (sending_env (Inr qs) toks nonce answer) sv (Some ha) hs who
      target (Inr payload)) []"
  shows "if target \<noteq> own then run = (None, [])
    else if map_of hs INTERNAL_HEADER \<noteq> None \<or> \<not> (\<exists>p\<in>set ps. may_execute own (ha_pod_name ha) p)
      then run = (Some no_executor, [])
    else \<exists>p rq. chosen own (ha_pod_name ha) ps p
      \<and> run = (Some (peer_answer ''failed to reach executor: '' (answer rq)), [rq])
      \<and> pq_url rq = api_url ha (rp_ip p) ''/api/action'' \<and> map_of (pq_headers rq) INTERNAL_HEADER = Some ''1''
      \<and> pq_body rq = payload"
proof -
  let ?ok = "off_target own (ha_pod_name ha)"
  have same: "min_by_name (filter ?ok qs) = min_by_name (filter ?ok ps)"
    using assms(2,3) by (intro min_by_name_unique) (auto simp: inj_on_def)
  have run: "run = (if target \<noteq> own then (None, [])
      else if map_of hs INTERNAL_HEADER \<noteq> None then (Some no_executor, [])
      else case min_by_name (filter ?ok ps) of None \<Rightarrow> (Some no_executor, [])
        | Some p \<Rightarrow> (case run_state (forward_to (sending_env (Inr qs) toks nonce answer) sv ha who p (Inr payload)) [] of
            (r, s) \<Rightarrow> (Some r, s)))"
    using assms(1) same
    by (simp add: assms(4) forward_action_from_target_def del: not_None_eq split: option.split)
      (simp add: sending_env_def)
  show ?thesis
  proof (cases "min_by_name (filter ?ok ps)")
    case None
    then show ?thesis using run by (auto simp: min_by_name_None filter_empty_conv off_target_iff)
  next
    case (Some p)
    have p: "chosen own (ha_pod_name ha) ps p"
      using min_by_name_Some[OF Some] by (auto simp: chosen_def off_target_iff)
    with Some run forward_to_sends[of "Inr qs" toks nonce answer sv ha who p "Inr payload"] show ?thesis
      by (auto simp: chosen_def)
  qed
qed

definition replica :: "string \<Rightarrow> string \<Rightarrow> roder_pod" where
  "replica name node = \<lparr>rp_name = name, rp_uid = name, rp_node = node, rp_ip = name, rp_ready = True,
     rp_tls_fingerprint = None\<rparr>"

definition node_server :: server where
  "node_server = test_server\<lparr>sv_config := (sv_config test_server)\<lparr>cf_pod_node_name := Some ''n1''\<rparr>\<rparr>"

theorem action_leaves_its_target_witness:
  "\<exists>r rq. run_state (forward_action_from_target (sending_env (Inr [replica ''b'' ''n2'', replica ''a'' ''n3'', replica ''me'' ''n1''])
      (\<lambda>_. None) ''n'' (\<lambda>_. Inl ''down'')) node_server (Some \<lparr>ha_pod_name = ''me'', ha_peer_port = 8443\<rparr>) [] dev_identity
      ''n1'' (Inr ''{}'')) [] = (Some r, [rq])
    \<and> pq_url rq = api_url \<lparr>ha_pod_name = ''me'', ha_peer_port = 8443\<rparr> ''a'' ''/api/action''"
proof -
  let ?ps = "[replica ''b'' ''n2'', replica ''a'' ''n3'', replica ''me'' ''n1'']"
  have "\<not> (''b''::string) \<le> ''a''" by (simp add: less_eq_char_def)
  then have least: "chosen ''n1'' ''me'' ?ps p \<Longrightarrow> p = replica ''a'' ''n3''" for p
    by (auto simp: chosen_def may_execute_def replica_def)
  have ip: "rp_ip (replica ''a'' ''n3'') = ''a''" by (simp add: replica_def)
  have some: "may_execute ''n1'' ''me'' (replica ''b'' ''n2'')" by (simp add: may_execute_def replica_def)
  have "cf_pod_node_name (sv_config node_server) = Some ''n1''" "inj_on rp_name (set ?ps)"
    by (simp_all add: node_server_def replica_def)
  from action_leaves_its_target[OF this refl refl, where toks = "\<lambda>_. None" and nonce = "''n''"
      and answer = "\<lambda>_. Inl ''down''" and ha = "\<lparr>ha_pod_name = ''me'', ha_peer_port = 8443\<rparr>" and hs = "[]"
      and who = dev_identity and target = "''n1''" and payload = "''{}''"]
  show ?thesis using some by (auto dest!: least simp: ip split: if_splits)
qed

end
