(* ===== verification/Action.thy ===== *)
theory Action
  imports Ha DrainJobs Permissions
begin

text \<open>
  \<open>src/src/server/api/action.rs\<close> and the mutations of \<open>api/talos.rs\<close>: the one endpoint that
  changes the cluster.  What other components answer (the catalog, the permission reviews, the
  backend's calls, the Talos client, the lease, the reboot wait) comes from an environment on a world;
  everything asked of them is logged.  The job registry is the model's own.
\<close>

section \<open>Vocabulary\<close>

datatype delete_propagation = Orphan | Background | Foreground

record sweep_options =
  sw_terminal_pods :: bool
  sw_stuck_pods :: bool
  sw_restarted_pods :: bool
  sw_completed_jobs :: bool
  sw_failed_jobs :: bool

datatype sanitize_action = Preview | Execute

definition default_sweep :: sweep_options where
  "default_sweep = \<lparr>sw_terminal_pods = True, sw_stuck_pods = True, sw_restarted_pods = False,
     sw_completed_jobs = True, sw_failed_jobs = True\<rparr>"

record action_request =
  aq_action :: string
  aq_key :: "string option"
  aq_namespace :: "string option"
  aq_name :: "string option"
  aq_replicas :: "int option"
  aq_yaml :: "string option"
  aq_force :: "bool option"
  aq_propagation :: "delete_propagation option"
  aq_reset :: "bool option"
  aq_service :: "string option"
  aq_drain :: "bool option"
  aq_options :: "drain_options option"
  aq_sweep_options :: "sweep_options option"
  aq_job :: "nat option"
  aq_executor :: "string option"

datatype talos_error =
    TalosIo string
  | TalosConfig string
  | TalosTransport string
  | TalosStatus nat string
  | TalosTimeout string
  | TalosUpstream string

text \<open>The gRPC codes: 14 is Unavailable, 4 is DeadlineExceeded.\<close>

definition is_unavailable :: "talos_error \<Rightarrow> bool" where
  "is_unavailable e = (case e of TalosStatus c _ \<Rightarrow> c = 14 | _ \<Rightarrow> False)"

definition is_timeout :: "talos_error \<Rightarrow> bool" where
  "is_timeout e = (case e of TalosTimeout _ \<Rightarrow> True | TalosStatus c _ \<Rightarrow> c = 4 | _ \<Rightarrow> False)"

fun talos_error_text :: "talos_error \<Rightarrow> string" where
  "talos_error_text (TalosIo e) = ''failed to read Talos in-cluster config: '' @ e"
| "talos_error_text (TalosConfig e) = ''invalid Talos in-cluster config: '' @ e"
| "talos_error_text (TalosTransport e) = ''Talos API transport error: '' @ e"
| "talos_error_text (TalosStatus _ e) = ''Talos API request failed: '' @ e"
| "talos_error_text (TalosTimeout e) = ''Talos API request timed out: '' @ e"
| "talos_error_text (TalosUpstream e) = ''Talos API upstream request failed: '' @ e"

definition talos_error_response :: "talos_error \<Rightarrow> response" where
  "talos_error_response e =
     (if is_timeout e then status_response 504 (talos_error_text e)
      else if is_unavailable e then status_response 503 (talos_error_text e)
      else status_response 502 (talos_error_text e))"

text \<open>A call that changes the cluster, by the backend's method.\<close>

datatype mutation =
    ApplyYaml string
  | SanitizePreview "string option" sweep_options
  | Sanitize "string option" sweep_options
  | FluxReconcileAll "string option"
  | DeleteObject string "string option" string bool "delete_propagation option"
  | EvictPod string string
  | ScaleTo string "string option" string int
  | RolloutRestart string "string option" string
  | FluxSuspendTo string "string option" string bool
  | CordonTo string string bool
  | FluxReconcileOne string "string option" string bool bool
  | FluxReconcileSource string "string option" string bool bool
  | FluxForceOne string "string option" string
  | FluxResetOne string "string option" string
  | EsoRefresh string "string option" string
  | CertificateRenewOne string "string option" string
  | CronjobTriggerOne string "string option" string
  | JobRerunOne string "string option" string
  | KopiurSnapshot string "string option" string
  | CnpgBackupOne string "string option" string
  | CnpgSuspendTo string "string option" string bool

datatype talos_call =
    ServiceAction string string string
  | PowerAction string string
  | EtcdDefragment string

datatype call =
    Permitted resource_action string "string option" string "drain_options option"
  | PermittedSweep "string option" sweep_options sanitize_action
  | Mutated mutation
  | LockedTalos
  | Seen string bool
  | Acquired string
  | Spawned string string drain_options "string option"
  | Talos talos_call
  | Released

record 'w act_st =
  ac_world :: 'w
  ac_jobs :: drain_jobs
  ac_calls :: "call list"

record 'w act_env =
  ae_server :: server
  ae_ha_state :: "ha_state option"
  ae_ha :: "'w act_st ha_env"
  ae_talos :: bool
  ae_now_ms :: nat
  ae_encode :: "action_request \<Rightarrow> string + string"
  ae_kind :: "string \<Rightarrow> string + resource_kind"
  ae_node_key :: "string option"
  ae_can_action :: "resource_action \<Rightarrow> string \<Rightarrow> string option \<Rightarrow> string \<Rightarrow> drain_options option \<Rightarrow> 'w \<Rightarrow> bool \<times> 'w"
  ae_can_sanitize :: "string option \<Rightarrow> sweep_options \<Rightarrow> sanitize_action \<Rightarrow> 'w \<Rightarrow> bool \<times> 'w"
  ae_mutate :: "mutation \<Rightarrow> 'w \<Rightarrow> (string + string) \<times> 'w"
  ae_detail :: "string \<Rightarrow> string \<Rightarrow> 'w \<Rightarrow> json option \<times> 'w"
  ae_try_lock :: "'w \<Rightarrow> bool \<times> 'w"
  ae_acquire :: "string \<Rightarrow> 'w \<Rightarrow> (string + unit) \<times> 'w"
  ae_talos_do :: "talos_call \<Rightarrow> 'w \<Rightarrow> (talos_error + unit) \<times> 'w"
  ae_wait_reboot :: "string \<Rightarrow> string option \<Rightarrow> 'w \<Rightarrow> (string + unit) \<times> 'w"

definition ask :: "('w \<Rightarrow> 'a \<times> 'w) \<Rightarrow> ('w act_st, 'a) state" where
  "ask f = State (\<lambda>s. case f (ac_world s) of (a, w) \<Rightarrow> (a, s\<lparr>ac_world := w\<rparr>))"

definition note_call :: "call \<Rightarrow> ('w act_st, unit) state" where
  "note_call c = State (\<lambda>s. ((), s\<lparr>ac_calls := ac_calls s @ [c]\<rparr>))"

text \<open>An early return: \<open>let Ok(x) = m else return r\<close>.\<close>

definition or_return :: "('s, 'r + 'a) state \<Rightarrow> ('a \<Rightarrow> ('s, 'r) state) \<Rightarrow> ('s, 'r) state" where
  "or_return m k = do { r \<leftarrow> m; case r of Inl e \<Rightarrow> ret e | Inr a \<Rightarrow> k a }"

definition bad_gateway :: "string \<Rightarrow> response" where
  "bad_gateway e = status_response 502 e"

definition bad_request :: "string \<Rightarrow> response" where
  "bad_request e = status_response 400 e"

definition default_drain_options :: drain_options where
  "default_drain_options = \<lparr>force = False, delete_emptydir_data = False, ignore_daemonsets = False,
     disable_eviction = False, grace_period = None, timeout_secs = 0\<rparr>"

definition drain_options_of :: "action_request \<Rightarrow> drain_options" where
  "drain_options_of req = (case aq_options req of Some opts \<Rightarrow> opts | None \<Rightarrow> default_drain_options)"

definition flag :: "bool option \<Rightarrow> bool" where
  "flag b = (case b of Some True \<Rightarrow> True | _ \<Rightarrow> False)"

section \<open>Permission and mutation\<close>

definition can_action ::
  "'w act_env \<Rightarrow> resource_action \<Rightarrow> string \<Rightarrow> string option \<Rightarrow> string \<Rightarrow> drain_options option
     \<Rightarrow> ('w act_st, bool) state" where
  "can_action env a key ns name opts = do {
     ok \<leftarrow> ask (ae_can_action env a key ns name opts);
     (if ok then note_call (Permitted a key ns name opts) else ret ());
     ret ok }"

definition can_sanitize ::
  "'w act_env \<Rightarrow> string option \<Rightarrow> sweep_options \<Rightarrow> sanitize_action \<Rightarrow> ('w act_st, bool) state" where
  "can_sanitize env ns opts a = do {
     ok \<leftarrow> ask (ae_can_sanitize env ns opts a);
     (if ok then note_call (PermittedSweep ns opts a) else ret ());
     ret ok }"

definition mutate :: "'w act_env \<Rightarrow> mutation \<Rightarrow> ('w act_st, string + string) state" where
  "mutate env m = do { note_call (Mutated m); ask (ae_mutate env m) }"

text \<open>\<open>Ok(())\<close> is answered with \<open>ok\<close>, a summary with its JSON.\<close>

definition respond :: "('w act_st, string + string) state \<Rightarrow> ('w act_st, response) state" where
  "respond m = do {
     r \<leftarrow> m;
     ret (case r of Inr _ \<Rightarrow> status_response 200 ''ok'' | Inl e \<Rightarrow> bad_gateway e) }"

definition respond_summary :: "('w act_st, string + string) state \<Rightarrow> ('w act_st, response) state" where
  "respond_summary m = do {
     r \<leftarrow> m;
     ret (case r of Inr body \<Rightarrow> status_response 200 body | Inl e \<Rightarrow> bad_gateway e) }"

definition validate_resource_action :: "string \<Rightarrow> resource_kind \<Rightarrow> string + unit" where
  "validate_resource_action action kind =
     (case from_api_name action of
        None \<Rightarrow> Inr ()
      | Some a \<Rightarrow> if kind_supports kind a then Inr ()
                 else Inl (''action '' @ action @ '' is not supported for '' @ rk_key kind))"

definition validate_flux_options :: "action_request \<Rightarrow> resource_kind \<Rightarrow> string + unit" where
  "validate_flux_options req kind =
     (if aq_action req \<noteq> ''flux-reconcile'' \<and> aq_action req \<noteq> ''flux-reconcile-with-source'' then Inr ()
      else if flag (aq_force req) \<and> \<not> kind_supports kind FluxForce
        then Inl ''force is only supported for HelmRelease reconciliation''
      else if flag (aq_reset req) \<and> \<not> kind_supports kind FluxReset
        then Inl ''reset is only supported for HelmRelease reconciliation''
      else Inr ())"

text \<open>The checks of a named resource action: a key, a known kind that offers the action and its options.\<close>

definition check_kind :: "'w act_env \<Rightarrow> action_request \<Rightarrow> response + unit" where
  "check_kind env req =
     (if from_api_name (aq_action req) = None then Inr ()
      else case aq_key req of
        None \<Rightarrow> Inl (bad_request ''missing key'')
      | Some key \<Rightarrow> (case ae_kind env key of
          Inl e \<Rightarrow> Inl (bad_request e)
        | Inr kind \<Rightarrow> (case validate_resource_action (aq_action req) kind of
            Inl e \<Rightarrow> Inl (bad_request e)
          | Inr _ \<Rightarrow> (case validate_flux_options req kind of
              Inl e \<Rightarrow> Inl (bad_request e)
            | Inr _ \<Rightarrow> Inr ()))))"

section \<open>Node work\<close>

text \<open>The lease of a node, when replicas coordinate; \<open>True\<close> when one is held.\<close>

definition acquire_lease :: "'w act_env \<Rightarrow> string \<Rightarrow> ('w act_st, response + bool) state" where
  "acquire_lease env node =
     (if ae_ha_state env = None then ret (Inr False)
      else do {
        r \<leftarrow> ask (ae_acquire env node);
        case r of
          Inl e \<Rightarrow> ret (Inl (status_response 409 e))
        | Inr _ \<Rightarrow> do { note_call (Acquired node); ret (Inr True) } })"

definition release_lease :: "bool \<Rightarrow> ('w act_st, unit) state" where
  "release_lease held = (if held then note_call Released else ret ())"

text \<open>Registering a drain job; its task then runs beside the request.\<close>

definition spawn_job ::
  "'w act_env \<Rightarrow> string \<Rightarrow> string \<Rightarrow> string \<Rightarrow> drain_options \<Rightarrow> string option \<Rightarrow> ('w act_st, response) state" where
  "spawn_job env owner key node opts pwr = State (\<lambda>s.
     case create_for owner key node pwr (ae_now_ms env) (ac_jobs s) of
       (Inl _, j) \<Rightarrow> (status_response 409 ''a drain is already active for this node'', s\<lparr>ac_jobs := j\<rparr>)
     | (Inr jid, j) \<Rightarrow> (status_response 200 (sl_print (sv_sealing (ae_server env)) (JObject
           [(''job'', json_int (int jid)), (''executor'', json_opt (map_option ha_pod_name (ae_ha_state env)))])),
         s\<lparr>ac_jobs := j, ac_calls := ac_calls s @ [Spawned owner node opts pwr]\<rparr>))"

definition start_drain ::
  "'w act_env \<Rightarrow> string \<Rightarrow> string \<Rightarrow> string \<Rightarrow> drain_options \<Rightarrow> string option \<Rightarrow> ('w act_st, response) state" where
  "start_drain env owner key node opts pwr =
     or_return (acquire_lease env node) (\<lambda>_. spawn_job env owner key node opts pwr)"

section \<open>Talos actions\<close>

record talos_capabilities =
  tc_read :: bool
  tc_actions :: bool
  tc_config :: bool

definition talos_capabilities_of :: "server_config \<Rightarrow> bool \<Rightarrow> identity \<Rightarrow> talos_capabilities" where
  "talos_capabilities_of cf has_talos who =
     (if \<not> has_talos then \<lparr>tc_read = False, tc_actions = False, tc_config = False\<rparr>
      else let actions = can_operate_talos cf (id_groups who);
               config = can_read_talos_config cf (id_groups who)
           in \<lparr>tc_read = actions \<or> config \<or> can_read_talos cf (id_groups who),
              tc_actions = actions, tc_config = config\<rparr>)"

definition visible_node :: "'w act_env \<Rightarrow> string \<Rightarrow> ('w act_st, response + string \<times> json) state" where
  "visible_node env node =
     (case ae_node_key env of
        None \<Rightarrow> ret (Inl (status_response 404 ''Node resource unavailable''))
      | Some key \<Rightarrow> do {
          d \<leftarrow> ask (ae_detail env key node);
          ret (case d of None \<Rightarrow> Inl (status_response 404 ''node is unavailable'') | Some j \<Rightarrow> Inr (key, j)) })"

definition is_control_plane :: "json \<Rightarrow> bool" where
  "is_control_plane detail =
     (case Option.bind (jpointer detail [''metadata'', ''labels'']) as_object of
        None \<Rightarrow> False
      | Some labels \<Rightarrow> map_of labels ''node-role.kubernetes.io/control-plane'' \<noteq> None
                     \<or> map_of labels ''node-role.kubernetes.io/master'' \<noteq> None)"

definition talos_actions :: "string list" where
  "talos_actions = [''talos-service-start'', ''talos-service-stop'', ''talos-service-restart'',
     ''talos-etcd-defrag'', ''talos-reboot'', ''talos-shutdown'']"

definition power_action_name :: "string \<Rightarrow> bool" where
  "power_action_name a \<longleftrightarrow> a = ''talos-reboot'' \<or> a = ''talos-shutdown''"

definition service_action_name :: "string \<Rightarrow> bool" where
  "service_action_name a \<longleftrightarrow>
     a = ''talos-service-start'' \<or> a = ''talos-service-stop'' \<or> a = ''talos-service-restart''"

definition talos_lock_conflict :: response where
  "talos_lock_conflict = status_response 409 ''another Talos operation is already in progress''"

definition lock_talos :: "'w act_env \<Rightarrow> ('w act_st, response + unit) state" where
  "lock_talos env = do {
     ok \<leftarrow> ask (ae_try_lock env);
     (if ok then do { note_call LockedTalos; ret (Inr ()) } else ret (Inl talos_lock_conflict)) }"

definition talos_call_of :: "action_request \<Rightarrow> string \<Rightarrow> talos_call" where
  "talos_call_of req node =
     (let a = aq_action req in
      if service_action_name a
        then ServiceAction node (case aq_service req of Some sv \<Rightarrow> sv | None \<Rightarrow> []) (drop (length ''talos-service-'') a)
      else if a = ''talos-reboot'' then PowerAction node ''reboot''
      else if a = ''talos-shutdown'' then PowerAction node ''shutdown''
      else EtcdDefragment node)"

text \<open>The action itself, under the lock and the lease; the lease is given back on every way out.\<close>

definition talos_run ::
  "'w act_env \<Rightarrow> action_request \<Rightarrow> string \<Rightarrow> string option \<Rightarrow> bool \<Rightarrow> ('w act_st, response) state" where
  "talos_run env req node previous_boot_id held = do {
     note_call (Talos (talos_call_of req node));
     result \<leftarrow> ask (ae_talos_do env (talos_call_of req node));
     case result of
       Inl e \<Rightarrow> do { release_lease held; ret (talos_error_response e) }
     | Inr _ \<Rightarrow>
         if aq_action req = ''talos-reboot'' then do {
           w \<leftarrow> ask (ae_wait_reboot env node previous_boot_id);
           release_lease held;
           ret (case w of
             Inl e \<Rightarrow> status_response 504 e
           | Inr _ \<Rightarrow> status_response 200 (sl_print (sv_sealing (ae_server env))
               (JObject [(''status'', JString ''ready'')]))) }
         else do {
           release_lease held;
           ret (status_response 200 (sl_print (sv_sealing (ae_server env))
             (JObject [(''status'', JString ''requested'')]))) } }"

definition talos_direct ::
  "'w act_env \<Rightarrow> action_request \<Rightarrow> string \<Rightarrow> string option \<Rightarrow> ('w act_st, response) state" where
  "talos_direct env req node previous_boot_id =
     or_return (lock_talos env) (\<lambda>_.
     or_return (acquire_lease env node) (talos_run env req node previous_boot_id))"

definition talos_drain ::
  "'w act_env \<Rightarrow> string \<Rightarrow> string \<Rightarrow> string \<Rightarrow> action_request \<Rightarrow> ('w act_st, response) state" where
  "talos_drain env owner key node req =
     or_return (lock_talos env) (\<lambda>_.
       start_drain env owner key node (drain_options_of req) (Some (drop (length ''talos-'') (aq_action req))))"

text \<open>After the static checks and with the node in view: the action fits it, and another replica does what a replica
  cannot do to its own node.\<close>

definition talos_on_seen ::
  "'w act_env \<Rightarrow> headers \<Rightarrow> identity \<Rightarrow> string \<Rightarrow> action_request \<Rightarrow> string \<Rightarrow> string \<Rightarrow> json \<Rightarrow> ('w act_st, response) state" where
  "talos_on_seen env hs who owner req node key detail =
     (if aq_action req = ''talos-etcd-defrag'' \<and> \<not> is_control_plane detail
        then ret (bad_request ''etcd defrag requires a control-plane node'')
      else do {
        fwd \<leftarrow> (if power_action_name (aq_action req)
               then forward_action_from_target (ae_ha env) (ae_server env) (ae_ha_state env) hs who node
                      (ae_encode env req)
               else ret None);
        case fwd of
          Some r \<Rightarrow> ret r
        | None \<Rightarrow>
            if power_action_name (aq_action req) \<and> cf_pod_node_name (sv_config (ae_server env)) = Some node
              then ret (status_response 409 ''refusing to power off the node hosting this Roder instance'')
            else if service_action_name (aq_action req) \<and> aq_service req = None
              then ret (bad_request ''missing service'')
            else if power_action_name (aq_action req) \<and> flag (aq_drain req)
              then talos_drain env owner key node req
            else talos_direct env req node
              (Option.bind (jpointer detail [''status'', ''nodeInfo'', ''bootID'']) as_str) })"

text \<open>The log notes that the caller can see the node, and whether it is of the control plane.\<close>

definition talos_on_node ::
  "'w act_env \<Rightarrow> headers \<Rightarrow> identity \<Rightarrow> string \<Rightarrow> action_request \<Rightarrow> string \<Rightarrow> ('w act_st, response) state" where
  "talos_on_node env hs who owner req node =
     or_return (visible_node env node) (\<lambda>(key, detail). do {
       note_call (Seen node (is_control_plane detail));
       talos_on_seen env hs who owner req node key detail })"

text \<open>\<open>None\<close>: not a Talos action.\<close>

definition talos_mutation ::
  "'w act_env \<Rightarrow> headers \<Rightarrow> identity \<Rightarrow> string \<Rightarrow> action_request \<Rightarrow> ('w act_st, response option) state" where
  "talos_mutation env hs who owner req =
     (if aq_action req \<notin> set talos_actions then ret None
      else if \<not> tc_actions (talos_capabilities_of (sv_config (ae_server env)) (ae_talos env) who)
        then ret (Some (status_response 403 []))
      else if \<not> ae_talos env then ret (Some (status_response 404 []))
      else case aq_name req of
        None \<Rightarrow> ret (Some (bad_request ''missing node name''))
      | Some node \<Rightarrow>
          (case (if power_action_name (aq_action req) \<and> flag (aq_drain req)
                 then drain_validate (drain_options_of req) else Inr ()) of
             Inl e \<Rightarrow> ret (Some (bad_request e))
           | Inr _ \<Rightarrow> do { r \<leftarrow> talos_on_node env hs who owner req node; ret (Some r) }))"

section \<open>The endpoint\<close>

definition drain_cancel ::
  "'w act_env \<Rightarrow> identity \<Rightarrow> string \<Rightarrow> action_request \<Rightarrow> ('w act_st, response) state" where
  "drain_cancel env who owner req = do {
     proxied \<leftarrow> proxy_to_executor (ae_ha env) (ae_server env) (ae_ha_state env) who (aq_executor req) ''POST''
       ''/api/action'' (Some (ae_encode env req));
     case proxied of
       Some r \<Rightarrow> ret r
     | None \<Rightarrow> (case aq_job req of
         None \<Rightarrow> ret (bad_request ''missing job'')
       | Some jid \<Rightarrow> State (\<lambda>s. case cancel owner jid (ac_jobs s) of (r, j) \<Rightarrow>
           ((case r of
               Accepted \<Rightarrow> status_response 200 ''ok''
             | CancelNotFound \<Rightarrow> status_response 404 ''unknown job''
             | NotCancellable \<Rightarrow> status_response 409 ''job is no longer cancellable''), s\<lparr>ac_jobs := j\<rparr>))) }"

definition sweep ::
  "'w act_env \<Rightarrow> string option \<Rightarrow> sanitize_action \<Rightarrow> action_request \<Rightarrow> ('w act_st, response) state" where
  "sweep env ns a req =
     (let opts = (case aq_sweep_options req of Some opts \<Rightarrow> opts | None \<Rightarrow> default_sweep) in do {
      ok \<leftarrow> can_sanitize env ns opts a;
      if \<not> ok then ret (status_response 403 (case a of
          Preview \<Rightarrow> ''sweep preview is not permitted'' | Execute \<Rightarrow> ''sweep is not permitted''))
      else respond_summary (mutate env (case a of Preview \<Rightarrow> SanitizePreview ns opts | Execute \<Rightarrow> Sanitize ns opts)) })"

definition drain_action ::
  "'w act_env \<Rightarrow> headers \<Rightarrow> identity \<Rightarrow> string \<Rightarrow> action_request \<Rightarrow> ('w act_st, response) state" where
  "drain_action env hs who owner req =
     (case (aq_key req, aq_name req) of
        (Some key, Some name) \<Rightarrow> do {
          ok \<leftarrow> can_action env Drain key None name (Some (drain_options_of req));
          if \<not> ok then ret (status_response 403 ''drain is not permitted'')
          else do {
            fwd \<leftarrow> forward_action_from_target (ae_ha env) (ae_server env) (ae_ha_state env) hs who name
                     (ae_encode env req);
            case fwd of
              Some r \<Rightarrow> ret r
            | None \<Rightarrow> start_drain env owner key name (drain_options_of req) None } }
      | _ \<Rightarrow> ret (bad_request ''missing key or name''))"

text \<open>The call a named action makes; an \<open>Inl\<close> is the early return of the match arm.\<close>

definition mutation_of :: "action_request \<Rightarrow> string \<Rightarrow> string option \<Rightarrow> string \<Rightarrow> response + mutation" where
  "mutation_of req key ns name =
     (let a = aq_action req in
      if a = ''delete'' then Inr (DeleteObject key ns name (flag (aq_force req)) (aq_propagation req))
      else if a = ''evict'' then (case ns of
          None \<Rightarrow> Inl (bad_request ''missing namespace'') | Some n \<Rightarrow> Inr (EvictPod n name))
      else if a = ''scale'' then (case aq_replicas req of
          None \<Rightarrow> Inl (bad_request ''missing replicas'') | Some r \<Rightarrow> Inr (ScaleTo key ns name r))
      else if a = ''restart'' then Inr (RolloutRestart key ns name)
      else if a = ''flux-suspend'' then Inr (FluxSuspendTo key ns name True)
      else if a = ''flux-resume'' then Inr (FluxSuspendTo key ns name False)
      else if a = ''cordon'' then Inr (CordonTo key name True)
      else if a = ''uncordon'' then Inr (CordonTo key name False)
      else if a = ''flux-reconcile''
        then Inr (FluxReconcileOne key ns name (flag (aq_force req)) (flag (aq_reset req)))
      else if a = ''flux-reconcile-with-source''
        then Inr (FluxReconcileSource key ns name (flag (aq_force req)) (flag (aq_reset req)))
      else if a = ''flux-force'' then Inr (FluxForceOne key ns name)
      else if a = ''flux-reset'' then Inr (FluxResetOne key ns name)
      else if a = ''eso-refresh'' then Inr (EsoRefresh key ns name)
      else if a = ''certificate-renew'' then Inr (CertificateRenewOne key ns name)
      else if a = ''cronjob-trigger'' then Inr (CronjobTriggerOne key ns name)
      else if a = ''job-rerun'' then Inr (JobRerunOne key ns name)
      else if a = ''kopiur-snapshot-now'' then Inr (KopiurSnapshot key ns name)
      else if a = ''cnpg-backup'' then Inr (CnpgBackupOne key ns name)
      else if a = ''cnpg-suspend'' then Inr (CnpgSuspendTo key ns name True)
      else if a = ''cnpg-resume'' then Inr (CnpgSuspendTo key ns name False)
      else Inl (bad_request (''unknown action: '' @ a)))"

definition named_action :: "'w act_env \<Rightarrow> string option \<Rightarrow> action_request \<Rightarrow> ('w act_st, response) state" where
  "named_action env ns req =
     (case (aq_key req, aq_name req) of
        (Some key, Some name) \<Rightarrow> do {
          ok \<leftarrow> (case from_api_name (aq_action req) of
                   None \<Rightarrow> ret True
                 | Some a \<Rightarrow> can_action env a key ns name None);
          if \<not> ok then ret (status_response 403 (''action '' @ aq_action req @ '' is not permitted''))
          else (case mutation_of req key ns name of
                  Inl r \<Rightarrow> ret r
                | Inr m \<Rightarrow> respond (mutate env m)) }
      | _ \<Rightarrow> ret (bad_request ''missing key or name''))"

definition dispatch ::
  "'w act_env \<Rightarrow> headers \<Rightarrow> identity \<Rightarrow> string \<Rightarrow> action_request \<Rightarrow> ('w act_st, response) state" where
  "dispatch env hs who owner req =
     (let ns = ns_filter (aq_namespace req); a = aq_action req in
      case check_kind env req of
        Inl r \<Rightarrow> ret r
      | Inr _ \<Rightarrow>
          if a = ''apply'' then (case aq_yaml req of
              None \<Rightarrow> ret (bad_request ''missing yaml'') | Some y \<Rightarrow> respond (mutate env (ApplyYaml y)))
          else if a = ''sanitize-preview'' then sweep env ns Preview req
          else if a = ''sanitize'' then sweep env ns Execute req
          else if a = ''flux-reconcile-all'' then respond_summary (mutate env (FluxReconcileAll ns))
          else if a = ''drain'' then drain_action env hs who owner req
          else named_action env ns req)"

definition action :: "'w act_env \<Rightarrow> headers \<Rightarrow> identity \<Rightarrow> action_request \<Rightarrow> ('w act_st, response) state" where
  "action env hs who req =
     (case request_caller_of who of
        None \<Rightarrow> ret (status_response 401 [])
      | Some caller \<Rightarrow>
          if aq_action req = ''drain-cancel'' then drain_cancel env who (rc_owner caller) req
          else (case (if aq_action req = ''drain'' then drain_validate (drain_options_of req) else Inr ()) of
            Inl e \<Rightarrow> ret (bad_request e)
          | Inr _ \<Rightarrow>
              if aq_action req = ''scale'' \<and> aq_replicas req = None
                then ret (bad_request ''missing replicas'')
              else do {
                t \<leftarrow> talos_mutation env hs who (rc_owner caller) req;
                case t of
                  Some r \<Rightarrow> ret r
                | None \<Rightarrow> dispatch env hs who (rc_owner caller) req }))"

end
