(* ===== verification/ActionProps.thy ===== *)
theory ActionProps
  imports Action WebProps
begin

text \<open>
  What the mutation endpoint guarantees: every call that changes something is preceded, in the log
  of the request, by what licenses it.
\<close>

section \<open>Rules for the endpoint's steps\<close>

named_theorems steps "rules that run one step of the endpoint"

lemma wp_ask [steps]: "(\<And>a w. Q a (s\<lparr>ac_world := w\<rparr>)) \<Longrightarrow> wp (ask f) Q s"
  by (simp add: ask_def wp_def split: prod.split)

lemma wp_note [steps]: "Q () (s\<lparr>ac_calls := ac_calls s @ [c]\<rparr>) \<Longrightarrow> wp (note_call c) Q s"
  by (simp add: note_call_def wp_def)

lemma wp_step_bind [steps]: "wp m (\<lambda>a. wp (f a) Q) s \<Longrightarrow> wp (State_Monad.bind m f) Q s"
  by (simp add: wp_bind)

lemma wp_step_ret [steps]: "Q a s \<Longrightarrow> wp (ret a) Q s"
  by simp

lemma wp_or_return [steps]:
  "wp m (\<lambda>r t. case r of Inl e \<Rightarrow> Q e t | Inr a \<Rightarrow> wp (k a) Q t) s \<Longrightarrow> wp (or_return m k) Q s"
  unfolding or_return_def wp_bind by (erule wp_mono) (simp split: sum.splits)

lemma wp_step_if [steps]: "(c \<Longrightarrow> wp m Q s) \<Longrightarrow> (\<not> c \<Longrightarrow> wp n Q s) \<Longrightarrow> wp (if c then m else n) Q s"
  by simp

lemma wp_step_option [steps]:
  "(r = None \<Longrightarrow> wp f Q s) \<Longrightarrow> (\<And>x. r = Some x \<Longrightarrow> wp (g x) Q s) \<Longrightarrow>
   wp (case r of None \<Rightarrow> f | Some x \<Rightarrow> g x) Q s"
  by (cases r) simp_all

lemma wp_step_sum [steps]:
  "(\<And>x. r = Inl x \<Longrightarrow> wp (f x) Q s) \<Longrightarrow> (\<And>y. r = Inr y \<Longrightarrow> wp (g y) Q s) \<Longrightarrow>
   wp (case r of Inl x \<Rightarrow> f x | Inr y \<Rightarrow> g y) Q s"
  by (cases r) simp_all

lemma step_case_sum [steps]:
  "(\<And>x. r = Inl x \<Longrightarrow> Q x s) \<Longrightarrow> (\<And>y. r = Inr y \<Longrightarrow> wp (k y) Q s) \<Longrightarrow>
   (case r of Inl x \<Rightarrow> Q x s | Inr y \<Rightarrow> wp (k y) Q s)"
  by (cases r) simp_all

section \<open>Steps that change nothing\<close>

definition quiet :: "('w act_st, 'a) state \<Rightarrow> bool" where
  "quiet m \<longleftrightarrow> (\<forall>s. ac_calls (snd (run_state m s)) = ac_calls s \<and> ac_jobs (snd (run_state m s)) = ac_jobs s)"

named_theorems quiet_intros "steps that leave the log and the jobs alone"

lemma quiet_ret [quiet_intros]: "quiet (ret a)"
  by (simp add: quiet_def)

lemma quiet_bind [quiet_intros]: "quiet m \<Longrightarrow> (\<And>a. quiet (f a)) \<Longrightarrow> quiet (State_Monad.bind m f)"
  by (simp add: quiet_def split: prod.split) (metis prod.collapse snd_conv)

lemma quiet_if [quiet_intros]: "quiet m \<Longrightarrow> quiet n \<Longrightarrow> quiet (if c then m else n)"
  by simp

lemma quiet_option [quiet_intros]: "quiet f \<Longrightarrow> (\<And>x. quiet (g x)) \<Longrightarrow> quiet (case r of None \<Rightarrow> f | Some x \<Rightarrow> g x)"
  by (cases r) simp_all

lemma quiet_sum [quiet_intros]:
  "(\<And>x. quiet (f x)) \<Longrightarrow> (\<And>y. quiet (g y)) \<Longrightarrow> quiet (case r of Inl x \<Rightarrow> f x | Inr y \<Rightarrow> g y)"
  by (cases r) simp_all

lemma wp_quiet: "quiet m \<Longrightarrow> (\<And>a t. ac_calls t = ac_calls s \<Longrightarrow> ac_jobs t = ac_jobs s \<Longrightarrow> Q a t) \<Longrightarrow> wp m Q s"
  by (auto simp: quiet_def wp_def split: prod.split) (metis snd_conv)

text \<open>Talking to the other replicas neither changes the cluster nor the registry of jobs.\<close>

definition ha_quiet :: "'w act_st ha_env \<Rightarrow> bool" where
  "ha_quiet ha \<longleftrightarrow> quiet (he_pods ha) \<and> (\<forall>p. quiet (he_pod ha p)) \<and> (\<forall>u. quiet (he_tokens ha u))
     \<and> quiet (he_nonce ha) \<and> (\<forall>rq. quiet (he_send ha rq))"

lemma ha_quiet_parts [quiet_intros]:
  "ha_quiet ha \<Longrightarrow> quiet (he_pods ha)" "ha_quiet ha \<Longrightarrow> quiet (he_pod ha p)"
  "ha_quiet ha \<Longrightarrow> quiet (he_tokens ha u)" "ha_quiet ha \<Longrightarrow> quiet (he_nonce ha)"
  "ha_quiet ha \<Longrightarrow> quiet (he_send ha rq)"
  by (simp_all add: ha_quiet_def)

lemma forwarding_quiet [quiet_intros]:
  "ha_quiet ha \<Longrightarrow> quiet (forwarding_cookie ha sv who)" "ha_quiet ha \<Longrightarrow> quiet (forwarded_auth ha sv who)"
  unfolding forwarding_cookie_def forwarded_auth_def by (intro quiet_intros; assumption)+

lemma forward_action_quiet: "ha_quiet ha \<Longrightarrow> quiet (forward_action_from_target ha sv h hs who target body)"
  unfolding forward_action_from_target_def forward_to_def by (intro quiet_intros)

lemma proxy_quiet: "ha_quiet ha \<Longrightarrow> quiet (proxy_to_executor ha sv h who ex mt path body)"
  unfolding proxy_to_executor_def peer_url_def
  by (auto split: option.split intro!: quiet_intros)

section \<open>What licenses a call\<close>

text \<open>The permission a mutation of a named object needs, with the object it names.  A pod eviction and a
  node's cordon carry no key or namespace of their own.\<close>

fun required :: "mutation \<Rightarrow> (resource_action \<times> string option \<times> string option option \<times> string) option" where
  "required (ApplyYaml _) = None"
| "required (SanitizePreview _ _) = None"
| "required (Sanitize _ _) = None"
| "required (FluxReconcileAll _) = None"
| "required (DeleteObject k ns n _ _) = Some (Delete, Some k, Some ns, n)"
| "required (EvictPod ns n) = Some (Evict, None, Some (Some ns), n)"
| "required (ScaleTo k ns n _) = Some (Scale, Some k, Some ns, n)"
| "required (RolloutRestart k ns n) = Some (Restart, Some k, Some ns, n)"
| "required (FluxSuspendTo k ns n _) = Some (FluxSuspend, Some k, Some ns, n)"
| "required (CordonTo k n _) = Some (Cordon, Some k, None, n)"
| "required (FluxReconcileOne k ns n _ _) = Some (FluxReconcile, Some k, Some ns, n)"
| "required (FluxReconcileSource k ns n _ _) = Some (FluxReconcileWithSource, Some k, Some ns, n)"
| "required (FluxForceOne k ns n) = Some (FluxForce, Some k, Some ns, n)"
| "required (FluxResetOne k ns n) = Some (FluxReset, Some k, Some ns, n)"
| "required (EsoRefresh k ns n) = Some (ExternalSecretsRefresh, Some k, Some ns, n)"
| "required (CertificateRenewOne k ns n) = Some (CertificateRenew, Some k, Some ns, n)"
| "required (CronjobTriggerOne k ns n) = Some (CronJobTrigger, Some k, Some ns, n)"
| "required (JobRerunOne k ns n) = Some (JobRerun, Some k, Some ns, n)"
| "required (KopiurSnapshot k ns n) = Some (KopiurSnapshotNow, Some k, Some ns, n)"
| "required (CnpgBackupOne k ns n) = Some (CnpgBackup, Some k, Some ns, n)"
| "required (CnpgSuspendTo k ns n _) = Some (CnpgSuspend, Some k, Some ns, n)"

text \<open>The name of the action that asks for a mutation, the arguments of the request it must carry, and the actions
  its options amount to.\<close>

fun asked_as :: "mutation \<Rightarrow> string" where
  "asked_as (ApplyYaml _) = ''apply''"
| "asked_as (SanitizePreview _ _) = ''sanitize-preview''"
| "asked_as (Sanitize _ _) = ''sanitize''"
| "asked_as (FluxReconcileAll _) = ''flux-reconcile-all''"
| "asked_as (DeleteObject _ _ _ _ _) = ''delete''"
| "asked_as (EvictPod _ _) = ''evict''"
| "asked_as (ScaleTo _ _ _ _) = ''scale''"
| "asked_as (RolloutRestart _ _ _) = ''restart''"
| "asked_as (FluxSuspendTo _ _ _ on) = (if on then ''flux-suspend'' else ''flux-resume'')"
| "asked_as (CordonTo _ _ on) = (if on then ''cordon'' else ''uncordon'')"
| "asked_as (FluxReconcileOne _ _ _ _ _) = ''flux-reconcile''"
| "asked_as (FluxReconcileSource _ _ _ _ _) = ''flux-reconcile-with-source''"
| "asked_as (FluxForceOne _ _ _) = ''flux-force''"
| "asked_as (FluxResetOne _ _ _) = ''flux-reset''"
| "asked_as (EsoRefresh _ _ _) = ''eso-refresh''"
| "asked_as (CertificateRenewOne _ _ _) = ''certificate-renew''"
| "asked_as (CronjobTriggerOne _ _ _) = ''cronjob-trigger''"
| "asked_as (JobRerunOne _ _ _) = ''job-rerun''"
| "asked_as (KopiurSnapshot _ _ _) = ''kopiur-snapshot-now''"
| "asked_as (CnpgBackupOne _ _ _) = ''cnpg-backup''"
| "asked_as (CnpgSuspendTo _ _ _ on) = (if on then ''cnpg-suspend'' else ''cnpg-resume'')"

fun carries :: "action_request \<Rightarrow> mutation \<Rightarrow> bool" where
  "carries req (ApplyYaml y) = (aq_yaml req = Some y)"
| "carries req (DeleteObject _ _ _ f p) = (f = flag (aq_force req) \<and> p = aq_propagation req)"
| "carries req (ScaleTo _ _ _ n) = (aq_replicas req = Some n)"
| "carries req (FluxReconcileAll ns) = (ns = ns_filter (aq_namespace req))"
| "carries req (SanitizePreview ns opts) = (ns = ns_filter (aq_namespace req) \<and> opts = unwrap_or default_sweep (aq_sweep_options req))"
| "carries req (Sanitize ns opts) = (ns = ns_filter (aq_namespace req) \<and> opts = unwrap_or default_sweep (aq_sweep_options req))"
| "carries req (FluxReconcileOne _ _ _ f r) = (f = flag (aq_force req) \<and> r = flag (aq_reset req))"
| "carries req (FluxReconcileSource _ _ _ f r) = (f = flag (aq_force req) \<and> r = flag (aq_reset req))"
| "carries req _ = True"

fun amounts_to :: "mutation \<Rightarrow> resource_action set" where
  "amounts_to (FluxReconcileOne _ _ _ f r) = (if f then {FluxForce} else {}) \<union> (if r then {FluxReset} else {})"
| "amounts_to (FluxReconcileSource _ _ _ f r) = (if f then {FluxForce} else {}) \<union> (if r then {FluxReset} else {})"
| "amounts_to _ = {}"

text \<open>The object is the one of the request, its kind offers the action and what the options amount to, and the
  caller was found permitted to do exactly that to it.\<close>

definition granted ::
  "'w act_env \<Rightarrow> action_request \<Rightarrow> call list \<Rightarrow> mutation \<Rightarrow> resource_action \<times> string option \<times> string option option \<times> string \<Rightarrow> bool" where
  "granted env req before m need = (case need of (a, ko, nso, n) \<Rightarrow>
     \<exists>k kind. aq_key req = Some k \<and> aq_name req = Some n \<and> ae_kind env k = Inr kind \<and> kind_supports kind a
       \<and> (\<forall>b\<in>amounts_to m. kind_supports kind b)
       \<and> Permitted a k (ns_filter (aq_namespace req)) n None \<in> set before
       \<and> (ko = None \<or> ko = Some k) \<and> (nso = None \<or> nso = Some (ns_filter (aq_namespace req))))"

definition may_operate_node :: "'w act_env \<Rightarrow> identity \<Rightarrow> call list \<Rightarrow> bool" where
  "may_operate_node env who before \<longleftrightarrow>
     ae_talos env \<and> can_operate_talos (sv_config (ae_server env)) (id_groups who) \<and> LockedTalos \<in> set before"

definition coordinated :: "'w act_env \<Rightarrow> call list \<Rightarrow> string \<Rightarrow> bool" where
  "coordinated env before node \<longleftrightarrow> ae_ha_state env = None \<or> Acquired node \<in> set before"

definition not_own_node :: "'w act_env \<Rightarrow> string \<Rightarrow> bool" where
  "not_own_node env node \<longleftrightarrow> cf_pod_node_name (sv_config (ae_server env)) \<noteq> Some node"

fun talos_target :: "talos_call \<Rightarrow> string" where
  "talos_target (ServiceAction n _ _) = n"
| "talos_target (PowerAction n _) = n"
| "talos_target (EtcdDefragment n) = n"

text \<open>A Talos call is the one of the request; the members of etcd run on the control plane.\<close>

fun talos_asked :: "action_request \<Rightarrow> call list \<Rightarrow> talos_call \<Rightarrow> bool" where
  "talos_asked req before (ServiceAction _ service op) \<longleftrightarrow> op \<in> {''start'', ''stop'', ''restart''}
     \<and> aq_action req = ''talos-service-'' @ op \<and> aq_service req = Some service"
| "talos_asked req before (PowerAction _ op) \<longleftrightarrow> op \<in> {''reboot'', ''shutdown''} \<and> aq_action req = ''talos-'' @ op
     \<and> \<not> flag (aq_drain req)"
| "talos_asked req before (EtcdDefragment n) \<longleftrightarrow> aq_action req = ''talos-etcd-defrag'' \<and> Seen n True \<in> set before"

definition licensed :: "'w act_env \<Rightarrow> identity \<Rightarrow> action_request \<Rightarrow> call list \<Rightarrow> call \<Rightarrow> bool" where
  "licensed env who req before c = (case c of
     Mutated m \<Rightarrow> aq_action req = asked_as m \<and> carries req m \<and> (case required m of
         Some need \<Rightarrow> granted env req before m need
       | None \<Rightarrow> (case m of
           Sanitize ns opts \<Rightarrow> PermittedSweep ns opts Execute \<in> set before
         | SanitizePreview ns opts \<Rightarrow> PermittedSweep ns opts Preview \<in> set before
         | _ \<Rightarrow> True))
   | Talos tc \<Rightarrow> may_operate_node env who before \<and> coordinated env before (talos_target tc)
       \<and> aq_name req = Some (talos_target tc) \<and> (\<exists>cp. Seen (talos_target tc) cp \<in> set before) \<and> talos_asked req before tc
       \<and> (\<forall>n a. tc = PowerAction n a \<longrightarrow> not_own_node env n)
   | Spawned owner node opts pwr \<Rightarrow> owner = id_subject who \<and> opts = drain_options_of req \<and> drain_validate opts = Inr ()
       \<and> aq_name req = Some node \<and> coordinated env before node
       \<and> (case pwr of
            None \<Rightarrow> aq_action req = ''drain'' \<and> (\<exists>key kind. aq_key req = Some key \<and> ae_kind env key = Inr kind
              \<and> kind_supports kind Drain \<and> Permitted Drain key None node (Some opts) \<in> set before)
          | Some op \<Rightarrow> op \<in> {''reboot'', ''shutdown''} \<and> aq_action req = ''talos-'' @ op \<and> flag (aq_drain req)
              \<and> (\<exists>cp. Seen node cp \<in> set before) \<and> may_operate_node env who before \<and> not_own_node env node)
   | Released \<Rightarrow> \<exists>node. aq_name req = Some node \<and> Acquired node \<in> set before
   | _ \<Rightarrow> True)"

definition lawful :: "'w act_env \<Rightarrow> identity \<Rightarrow> action_request \<Rightarrow> call list \<Rightarrow> bool" where
  "lawful env who req calls \<longleftrightarrow> (\<forall>before c after. calls = before @ c # after \<longrightarrow> licensed env who req before c)"

lemma lawful_Nil [simp]: "lawful env who req []"
  by (simp add: lawful_def)

lemma lawful_snoc: "lawful env who req (cs @ [c]) \<longleftrightarrow> lawful env who req cs \<and> licensed env who req cs c"
proof
  assume l: "lawful env who req (cs @ [c])"
  have "licensed env who req before d" if "cs = before @ d # after" for before d after
    using l that unfolding lawful_def by (metis append_Cons append_assoc)
  with l show "lawful env who req cs \<and> licensed env who req cs c" by (auto simp: lawful_def)
next
  assume l: "lawful env who req cs \<and> licensed env who req cs c"
  show "lawful env who req (cs @ [c])"
    unfolding lawful_def
  proof (intro allI impI)
    fix before d after
    assume eq: "cs @ [c] = before @ d # after"
    show "licensed env who req before d"
    proof (cases after rule: rev_cases)
      case Nil
      with eq l show ?thesis by simp
    next
      case (snoc as a)
      with eq have "cs = before @ d # as" by simp
      with l show ?thesis by (simp add: lawful_def)
    qed
  qed
qed

lemma licensed_free [simp]:
  "licensed env who req cs (Permitted a k ns n opts)" "licensed env who req cs (PermittedSweep ns so sa)"
  "licensed env who req cs LockedTalos" "licensed env who req cs (Acquired node)" "licensed env who req cs (Seen node cp)"
  by (simp_all add: licensed_def)

section \<open>Every step keeps the log lawful\<close>

abbreviation ok_log :: "'w act_env \<Rightarrow> identity \<Rightarrow> action_request \<Rightarrow> 'w act_st \<Rightarrow> bool" where
  "ok_log env who req s \<equiv> lawful env who req (ac_calls s)"

lemma can_action_ok:
  assumes "ok_log env who req s"
    and "\<And>t. ok_log env who req t \<Longrightarrow> Permitted a k ns n opts \<in> set (ac_calls t) \<Longrightarrow> Q True t"
    and "\<And>t. ok_log env who req t \<Longrightarrow> Q False t"
  shows "wp (can_action env a k ns n opts) Q s"
  unfolding can_action_def
  by (intro steps) (use assms in \<open>auto simp: lawful_snoc intro!: steps\<close>)

lemma can_sanitize_ok:
  assumes "ok_log env who req s"
    and "\<And>t. ok_log env who req t \<Longrightarrow> PermittedSweep ns opts a \<in> set (ac_calls t) \<Longrightarrow> Q True t"
    and "\<And>t. ok_log env who req t \<Longrightarrow> Q False t"
  shows "wp (can_sanitize env ns opts a) Q s"
  unfolding can_sanitize_def
  by (intro steps) (use assms in \<open>auto simp: lawful_snoc intro!: steps\<close>)

lemma mutate_ok:
  assumes "ok_log env who req s" and "licensed env who req (ac_calls s) (Mutated m)"
    and "\<And>a t. ok_log env who req t \<Longrightarrow> Q a t"
  shows "wp (mutate env m) Q s"
  unfolding mutate_def
  by (intro steps) (use assms in \<open>simp add: lawful_snoc\<close>)

lemma respond_ok:
  "wp m (\<lambda>r t. \<forall>x. Q x t) s \<Longrightarrow> wp (respond m) Q s" "wp m (\<lambda>r t. \<forall>x. Q x t) s \<Longrightarrow> wp (respond_summary m) Q s"
  unfolding respond_def respond_summary_def by (intro steps; erule wp_mono; simp)+

lemma acquire_ok:
  assumes "ok_log env who req s"
    and "\<And>t h. ok_log env who req t \<Longrightarrow> set (ac_calls s) \<subseteq> set (ac_calls t) \<Longrightarrow> coordinated env (ac_calls t) node \<Longrightarrow>
           (h \<Longrightarrow> Acquired node \<in> set (ac_calls t)) \<Longrightarrow> Q (Inr h) t"
    and "\<And>t e. ok_log env who req t \<Longrightarrow> Q (Inl e) t"
  shows "wp (acquire_lease env node) Q s"
  unfolding acquire_lease_def
  by (intro steps assms(2,3)) (use assms(1) in \<open>auto simp: lawful_snoc coordinated_def\<close>)

lemma lock_ok:
  assumes "ok_log env who req s"
    and "\<And>t. ok_log env who req t \<Longrightarrow> set (ac_calls s) \<subseteq> set (ac_calls t) \<Longrightarrow> LockedTalos \<in> set (ac_calls t) \<Longrightarrow> Q (Inr ()) t"
    and "\<And>t e. ok_log env who req t \<Longrightarrow> Q (Inl e) t"
  shows "wp (lock_talos env) Q s"
  unfolding lock_talos_def
  by (intro steps assms(2,3)) (use assms(1) in \<open>auto simp: lawful_snoc\<close>)

lemma spawn_ok:
  assumes "ok_log env who req s" and "licensed env who req (ac_calls s) (Spawned owner node opts pwr)"
  shows "wp (spawn_job env owner key node opts pwr) (\<lambda>_. ok_log env who req) s"
  using assms by (simp add: spawn_job_def wp_def lawful_snoc split: prod.split sum.split)


lemma start_drain_ok:
  assumes "ok_log env who req s" and "owner = id_subject who" and "opts = drain_options_of req" "drain_validate opts = Inr ()"
    and "aq_name req = Some node"
    and "case pwr of None \<Rightarrow> aq_action req = ''drain'' \<and> (\<exists>k kind. aq_key req = Some k \<and> ae_kind env k = Inr kind
          \<and> kind_supports kind Drain \<and> Permitted Drain k None node (Some opts) \<in> set (ac_calls s))
      | Some op \<Rightarrow> op \<in> {''reboot'', ''shutdown''} \<and> aq_action req = ''talos-'' @ op \<and> flag (aq_drain req)
          \<and> (\<exists>cp. Seen node cp \<in> set (ac_calls s)) \<and> may_operate_node env who (ac_calls s) \<and> not_own_node env node"
  shows "wp (start_drain env owner key node opts pwr) (\<lambda>_. ok_log env who req) s"
  unfolding start_drain_def
proof (intro steps acquire_ok spawn_ok)
  fix t h y assume "Inr h = Inr y" "ok_log env who req t" "set (ac_calls s) \<subseteq> set (ac_calls t)"
    "coordinated env (ac_calls t) node"
  then show "licensed env who req (ac_calls t) (Spawned owner node opts pwr)"
    using assms(2-6) by (cases pwr) (auto simp: licensed_def may_operate_node_def)
qed (use assms(1) in auto)

lemma release_ok:
  assumes "ok_log env who req s" and "aq_name req = Some node" and "h \<Longrightarrow> Acquired node \<in> set (ac_calls s)"
    and "\<And>t. ok_log env who req t \<Longrightarrow> Q () t"
  shows "wp (release_lease h) Q s"
  unfolding release_lease_def
  by (intro steps assms(4)) (use assms(1-3) in \<open>auto simp: lawful_snoc licensed_def\<close>)

lemma talos_run_ok:
  assumes "ok_log env who req s" and "licensed env who req (ac_calls s) (Talos (talos_call_of req node))"
    and "aq_name req = Some node"
    and "h \<Longrightarrow> Acquired node \<in> set (ac_calls s)"
  shows "wp (talos_run env req node boot h) (\<lambda>_. ok_log env who req) s"
  unfolding talos_run_def
  by (intro steps release_ok[where node = node]) (use assms in \<open>auto simp: lawful_snoc\<close>)

lemma talos_direct_ok:
  assumes "ok_log env who req s" and "ae_talos env" and "can_operate_talos (sv_config (ae_server env)) (id_groups who)"
    and "power_action_name (aq_action req) \<Longrightarrow> not_own_node env node" and "aq_name req = Some node"
    and "Seen node cp \<in> set (ac_calls s)" and "aq_action req \<in> set talos_actions"
    and "power_action_name (aq_action req) \<Longrightarrow> \<not> flag (aq_drain req)"
    and "service_action_name (aq_action req) \<Longrightarrow> aq_service req \<noteq> None"
    and "aq_action req = ''talos-etcd-defrag'' \<Longrightarrow> cp"
  shows "wp (talos_direct env req node boot) (\<lambda>_. ok_log env who req) s"
  unfolding talos_direct_def
proof (intro steps lock_ok acquire_ok talos_run_ok)
  fix t h u y z
  assume kept: "set (ac_calls s) \<subseteq> set (ac_calls t)"
    and "LockedTalos \<in> set (ac_calls t)" "set (ac_calls t) \<subseteq> set (ac_calls u)" "coordinated env (ac_calls u) node"
  moreover have "talos_target (talos_call_of req node) = node"
    "\<forall>n a. talos_call_of req node = PowerAction n a \<longrightarrow> n = node \<and> power_action_name (aq_action req)"
    by (auto simp: talos_call_of_def power_action_name_def Let_def)
  moreover have "talos_asked req (ac_calls u) (talos_call_of req node)"
    using assms(6-10) calculation(3) kept
    by (auto simp: talos_call_of_def talos_actions_def service_action_name_def power_action_name_def)
  ultimately show "licensed env who req (ac_calls u) (Talos (talos_call_of req node))"
    using assms(2-6) by (auto simp: licensed_def may_operate_node_def)
qed (use assms(1,5) in auto)

lemma talos_drain_ok:
  assumes "ok_log env who req s" and "ae_talos env" and "can_operate_talos (sv_config (ae_server env)) (id_groups who)"
    and "not_own_node env node" and "drain_validate (drain_options_of req) = Inr ()" and "owner = id_subject who"
    and "aq_name req = Some node" and "Seen node cp \<in> set (ac_calls s)" and "power_action_name (aq_action req)"
    and "flag (aq_drain req)"
  shows "wp (talos_drain env owner key node req) (\<lambda>_. ok_log env who req) s"
  unfolding talos_drain_def
  by (intro steps lock_ok start_drain_ok) (use assms in \<open>auto simp: may_operate_node_def power_action_name_def\<close>)

lemma visible_node_ok:
  "ok_log env who req s \<Longrightarrow> (\<And>t r. ok_log env who req t \<Longrightarrow> Q r t) \<Longrightarrow> wp (visible_node env node) Q s"
  unfolding visible_node_def by (intro steps) auto

lemma seen_ok:
  "ok_log env who req s \<Longrightarrow> (\<And>t. ok_log env who req t \<Longrightarrow> Seen node cp \<in> set (ac_calls t) \<Longrightarrow> Q () t) \<Longrightarrow>
   wp (note_call (Seen node cp)) Q s"
  by (intro steps) (simp add: lawful_snoc)

lemma talos_on_seen_ok:
  assumes "ok_log env who req s" and "ha_quiet (ae_ha env)" and "ae_talos env"
    and "can_operate_talos (sv_config (ae_server env)) (id_groups who)" and "owner = id_subject who"
    and "power_action_name (aq_action req) \<Longrightarrow> flag (aq_drain req) \<Longrightarrow> drain_validate (drain_options_of req) = Inr ()"
    and "aq_name req = Some node" and "aq_action req \<in> set talos_actions"
    and "Seen node (is_control_plane detail) \<in> set (ac_calls s)"
  shows "wp (talos_on_seen env hs who owner req node key detail) (\<lambda>_. ok_log env who req) s"
proof -
  have fwd: "quiet (if power_action_name (aq_action req)
      then forward_action_from_target (ae_ha env) (ae_server env) (ae_ha_state env) hs who node (ae_encode env req)
      else ret None)"
    by (intro quiet_intros forward_action_quiet assms(2))
  show ?thesis
    unfolding talos_on_seen_def
    by (intro steps wp_quiet[OF fwd] talos_drain_ok[where cp = "is_control_plane detail"]
        talos_direct_ok[where cp = "is_control_plane detail"])
      (use assms in \<open>auto simp: not_own_node_def\<close>)
qed

lemma talos_on_node_ok:
  assumes "ok_log env who req s" and "ha_quiet (ae_ha env)" and "ae_talos env"
    and "can_operate_talos (sv_config (ae_server env)) (id_groups who)" and "owner = id_subject who"
    and "power_action_name (aq_action req) \<Longrightarrow> flag (aq_drain req) \<Longrightarrow> drain_validate (drain_options_of req) = Inr ()"
    and "aq_name req = Some node" and "aq_action req \<in> set talos_actions"
  shows "wp (talos_on_node env hs who owner req node) (\<lambda>_. ok_log env who req) s"
  unfolding talos_on_node_def
  by (rule wp_or_return, rule visible_node_ok[OF assms(1)])
    (use assms(2-8) in \<open>auto simp: wp_bind split: sum.split intro!: seen_ok talos_on_seen_ok\<close>)

lemma talos_mutation_ok:
  assumes "ok_log env who req s" and "ha_quiet (ae_ha env)" and "owner = id_subject who"
  shows "wp (talos_mutation env hs who owner req) (\<lambda>_. ok_log env who req) s"
proof -
  have "can_operate_talos (sv_config (ae_server env)) (id_groups who)"
    if "tc_actions (talos_capabilities_of (sv_config (ae_server env)) (ae_talos env) who)"
    using that by (simp add: talos_capabilities_of_def Let_def split: if_splits)
  then show ?thesis
    unfolding talos_mutation_def
    by (intro steps talos_on_node_ok[THEN wp_mono]) (use assms in auto)
qed

lemma mutation_needs:
  assumes "mutation_of req key ns name = Inr m"
  shows "\<exists>a ko nso. from_api_name (aq_action req) = Some a \<and> required m = Some (a, ko, nso, name)
    \<and> (ko = None \<or> ko = Some key) \<and> (nso = None \<or> nso = Some ns) \<and> aq_action req = asked_as m \<and> carries req m"
proof -
  let ?ok = "\<lambda>a. (case a of Inl _ \<Rightarrow> True | Inr m \<Rightarrow> \<exists>b ko nso. from_api_name (aq_action req) = Some b
    \<and> required m = Some (b, ko, nso, name) \<and> (ko = None \<or> ko = Some key) \<and> (nso = None \<or> nso = Some ns)
    \<and> aq_action req = asked_as m \<and> carries req m)"
  have "?ok (mutation_of req key ns name)"
    unfolding mutation_of_def Let_def
    by (simp add: from_api_name_def split: option.split)
  with assms show ?thesis by simp
qed

lemma check_kind_ok:
  assumes "check_kind env req = Inr u" "from_api_name (aq_action req) = Some a"
  shows "\<exists>key kind. aq_key req = Some key \<and> ae_kind env key = Inr kind \<and> kind_supports kind a
    \<and> validate_flux_options req kind = Inr ()"
  using assms
  by (auto simp: check_kind_def validate_resource_action_def split: option.splits sum.splits if_splits)

lemma amounts_supported:
  assumes "validate_flux_options req kind = Inr ()" and "aq_action req = asked_as m" and "carries req m"
  shows "\<forall>b\<in>amounts_to m. kind_supports kind b"
  using assms by (cases m) (auto simp: validate_flux_options_def split: if_splits)

lemma named_call_ok:
  assumes "ok_log env who req t" and "check_kind env req = Inr u" and "mutation_of req key ns name = Inr m"
    and "aq_key req = Some key" and "aq_name req = Some name" and "ns = ns_filter (aq_namespace req)"
    and "\<And>a. from_api_name (aq_action req) = Some a \<Longrightarrow> Permitted a key ns name None \<in> set (ac_calls t)"
  shows "wp (respond (mutate env m)) (\<lambda>_. ok_log env who req) t"
proof (intro respond_ok mutate_ok)
  from mutation_needs[OF assms(3)] obtain a ko nso where need: "from_api_name (aq_action req) = Some a"
    "required m = Some (a, ko, nso, name)" "ko = None \<or> ko = Some key" "nso = None \<or> nso = Some ns"
    "aq_action req = asked_as m" "carries req m" by blast
  from check_kind_ok[OF assms(2) need(1)] assms(4) obtain kind where "ae_kind env key = Inr kind" "kind_supports kind a"
    "\<forall>b\<in>amounts_to m. kind_supports kind b" using amounts_supported[OF _ need(5,6)] by auto
  with need assms(4-7) show "licensed env who req (ac_calls t) (Mutated m)"
    by (simp add: licensed_def granted_def)
qed (use assms(1) in auto)

lemma named_action_ok:
  assumes "ok_log env who req s" and "check_kind env req = Inr u" and "ns = ns_filter (aq_namespace req)"
  shows "wp (named_action env ns req) (\<lambda>_. ok_log env who req) s"
  unfolding named_action_def prod.case
  by (intro steps can_action_ok named_call_ok[OF _ assms(2)]) (use assms(1,3) in auto)

lemma sweep_ok:
  assumes "ok_log env who req s" and "ns = ns_filter (aq_namespace req)"
    and "aq_action req = (case a of Preview \<Rightarrow> ''sanitize-preview'' | Execute \<Rightarrow> ''sanitize'')"
  shows "wp (sweep env ns a req) (\<lambda>_. ok_log env who req) s"
  unfolding sweep_def Let_def
  by (intro steps can_sanitize_ok respond_ok mutate_ok)
    (use assms in \<open>auto simp: licensed_def unwrap_or_def split: sanitize_action.splits option.splits\<close>)

lemma drain_action_ok:
  assumes "ok_log env who req s" and "ha_quiet (ae_ha env)" and "owner = id_subject who"
    and "drain_validate (drain_options_of req) = Inr ()" and "check_kind env req = Inr u" and "aq_action req = ''drain''"
  shows "wp (drain_action env hs who owner req) (\<lambda>_. ok_log env who req) s"
proof -
  have "from_api_name (aq_action req) = Some Drain" by (simp add: assms(6) from_api_name_def)
  from check_kind_ok[OF assms(5) this] show ?thesis
    unfolding drain_action_def prod.case
    by (intro steps can_action_ok wp_quiet[OF forward_action_quiet[OF assms(2)]] start_drain_ok)
      (use assms in auto)
qed

lemma dispatch_ok:
  assumes "ok_log env who req s" and "ha_quiet (ae_ha env)" and "owner = id_subject who"
    and "aq_action req = ''drain'' \<Longrightarrow> drain_validate (drain_options_of req) = Inr ()"
  shows "wp (dispatch env hs who owner req) (\<lambda>_. ok_log env who req) s"
  unfolding dispatch_def Let_def
  by (intro steps respond_ok mutate_ok sweep_ok drain_action_ok named_action_ok)
    (use assms in \<open>auto simp: licensed_def\<close>)

text \<open>A cancellation calls nothing.\<close>

lemma drain_cancel_ok:
  assumes "ok_log env who req s" and "ha_quiet (ae_ha env)"
  shows "wp (drain_cancel env who owner req) (\<lambda>_. ok_log env who req) s"
  unfolding drain_cancel_def
  by (intro steps wp_quiet[OF proxy_quiet[OF assms(2)]])
    (use assms(1) in \<open>auto simp: wp_def split: prod.split\<close>)

section \<open>A refusal changes nothing\<close>

text \<open>A call that leaves a trace outside the request: a mutation, a Talos call, a drain job, a lease taken or given back.\<close>

definition changes :: "call \<Rightarrow> bool" where
  "changes c = (case c of Mutated _ \<Rightarrow> True | Talos _ \<Rightarrow> True | Spawned _ _ _ _ \<Rightarrow> True | Acquired _ \<Rightarrow> True
     | Released \<Rightarrow> True | _ \<Rightarrow> False)"

definition refusal :: "response \<Rightarrow> bool" where
  "refusal r \<longleftrightarrow> 400 \<le> rs_status r \<and> rs_status r < 500"

definition no_change :: "drain_jobs \<Rightarrow> 'w act_st \<Rightarrow> bool" where
  "no_change jobs s \<longleftrightarrow> filter changes (ac_calls s) = [] \<and> ac_jobs s = jobs"

text \<open>The only trace a refusal may leave: the lease of a node that was taken just before its job turned out to be active.\<close>

definition lease_left :: "'w act_env \<Rightarrow> drain_jobs \<Rightarrow> response \<Rightarrow> 'w act_st \<Rightarrow> bool" where
  "lease_left env jobs r s \<longleftrightarrow> rs_status r = 409 \<and> ae_ha_state env \<noteq> None \<and> ac_jobs s = jobs
     \<and> (\<exists>node. filter changes (ac_calls s) = [Acquired node] \<and> target_busy node jobs)"

abbreviation refused_clean :: "'w act_env \<Rightarrow> drain_jobs \<Rightarrow> response \<Rightarrow> 'w act_st \<Rightarrow> bool" where
  "refused_clean env jobs r s \<equiv> refusal r \<longrightarrow> no_change jobs s \<or> lease_left env jobs r s"

lemma no_change_snoc [simp]:
  "no_change jobs (s\<lparr>ac_calls := ac_calls s @ [c]\<rparr>) \<longleftrightarrow> no_change jobs s \<and> \<not> changes c"
  "no_change jobs (s\<lparr>ac_world := w\<rparr>) = no_change jobs s"
  "no_change jobs (s\<lparr>ac_world := w, ac_calls := ac_calls s @ [c]\<rparr>) \<longleftrightarrow> no_change jobs s \<and> \<not> changes c"
  by (auto simp: no_change_def)

lemma harmless_steps:
  assumes "no_change jobs s" and "\<And>b t. no_change jobs t \<Longrightarrow> Q b t"
  shows "wp (can_action env a k ns n opts) Q s" and "wp (can_sanitize env ns so sa) Q s"
  unfolding can_action_def can_sanitize_def
  by (intro steps assms(2); use assms(1) in \<open>simp add: changes_def\<close>)+

lemma harmless_returns:
  assumes "no_change jobs s" and "\<And>b t. no_change jobs t \<Longrightarrow> Q b t"
  shows "wp (lock_talos env) (Q :: response + unit \<Rightarrow> _) s"
  unfolding lock_talos_def
  by (intro steps assms(2)) (use assms(1) in \<open>simp_all add: changes_def\<close>)

lemma acquiring:
  assumes "no_change jobs s" and "\<And>e t. no_change jobs t \<Longrightarrow> Q (Inl e) t"
    and "\<And>h t. ac_jobs t = jobs \<Longrightarrow>
      filter changes (ac_calls t) = (if ae_ha_state env = None then [] else [Acquired node]) \<Longrightarrow> Q (Inr h) t"
  shows "wp (acquire_lease env node) Q s"
  unfolding acquire_lease_def
  by (intro steps assms(2,3)) (use assms(1) in \<open>simp_all add: changes_def no_change_def\<close>)

lemma harmless_node:
  assumes "no_change jobs s" and "\<And>b t. no_change jobs t \<Longrightarrow> Q b t"
  shows "wp (visible_node env node) Q s"
  unfolding visible_node_def by (intro steps assms(2)) (use assms(1) in simp_all)

lemma harmless_note:
  "no_change jobs s \<Longrightarrow> (\<And>t. no_change jobs t \<Longrightarrow> Q () t) \<Longrightarrow> wp (note_call (Seen node cp)) Q s"
  by (intro steps) (simp add: changes_def)

lemma quiet_clean: "quiet m \<Longrightarrow> no_change jobs s \<Longrightarrow> (\<And>a t. no_change jobs t \<Longrightarrow> Q a t) \<Longrightarrow> wp m Q s"
  by (erule wp_quiet) (simp add: no_change_def)

lemma mutating_answer:
  assumes "\<And>r t. \<not> refusal r \<Longrightarrow> Q r t"
  shows "wp (respond (mutate env m)) Q s" and "wp (respond_summary (mutate env m)) Q s"
  unfolding respond_def respond_summary_def mutate_def
  by (intro steps assms; simp add: refusal_def status_response_def bad_gateway_def split: sum.split)+

lemma spawn_clean:
  assumes "ac_jobs s = jobs"
    and "filter changes (ac_calls s) = (if ae_ha_state env = None then [] else [Acquired node])"
  shows "wp (spawn_job env owner key node opts pwr) (refused_clean env jobs) s"
  using assms
  by (auto simp: spawn_job_def wp_def refusal_def status_response_def no_change_def lease_left_def create_for_def Let_def
      split: prod.split sum.split if_splits)

lemma start_drain_clean:
  "no_change jobs s \<Longrightarrow> wp (start_drain env owner key node opts pwr) (refused_clean env jobs) s"
  unfolding start_drain_def by (intro steps acquiring spawn_clean) auto

lemma talos_run_clean: "wp (talos_run env req node boot h) (refused_clean env jobs) s"
  unfolding talos_run_def release_lease_def
  by (intro steps) (auto simp: refusal_def status_response_def talos_error_response_def split: sum.split)

lemma talos_on_seen_clean:
  assumes "no_change jobs s" and "ha_quiet (ae_ha env)"
  shows "wp (talos_on_seen env hs who owner req node key detail) (refused_clean env jobs) s"
proof -
  have fwd: "quiet (if power_action_name (aq_action req)
      then forward_action_from_target (ae_ha env) (ae_server env) (ae_ha_state env) hs who node (ae_encode env req)
      else ret None)"
    by (intro quiet_intros forward_action_quiet assms(2))
  show ?thesis
    unfolding talos_on_seen_def talos_drain_def talos_direct_def
    by (intro steps quiet_clean[OF fwd assms(1)] harmless_returns acquiring start_drain_clean talos_run_clean)
      (use assms(1) in auto)
qed

lemma talos_on_node_clean:
  assumes "no_change jobs s" and "ha_quiet (ae_ha env)"
  shows "wp (talos_on_node env hs who owner req node) (refused_clean env jobs) s"
  unfolding talos_on_node_def
  by (rule wp_or_return, rule harmless_node[OF assms(1)])
    (use assms(2) in \<open>auto simp: wp_bind split: sum.split intro!: harmless_note talos_on_seen_clean\<close>)

lemma talos_mutation_clean:
  assumes "no_change jobs s" and "ha_quiet (ae_ha env)"
  shows "wp (talos_mutation env hs who owner req)
    (\<lambda>o_r t. case o_r of None \<Rightarrow> no_change jobs t | Some r \<Rightarrow> refused_clean env jobs r t) s"
  unfolding talos_mutation_def
  by (intro steps talos_on_node_clean[THEN wp_mono]) (use assms in auto)

lemma dispatch_clean:
  assumes "no_change jobs s" and "ha_quiet (ae_ha env)"
  shows "wp (dispatch env hs who owner req) (refused_clean env jobs) s"
  unfolding dispatch_def Let_def sweep_def drain_action_def named_action_def prod.case
  by (intro steps harmless_steps quiet_clean[OF forward_action_quiet[OF assms(2)]] mutating_answer start_drain_clean)
    (use assms(1) in auto)

lemma cancel_clean: "cancel owner jid j = (r, j') \<Longrightarrow> r \<noteq> Accepted \<Longrightarrow> j' = j"
  by (auto simp: cancel_def split: option.splits if_splits)

lemma drain_cancel_clean:
  assumes "no_change jobs s" and "ha_quiet (ae_ha env)"
  shows "wp (drain_cancel env who owner req) (refused_clean env jobs) s"
  unfolding drain_cancel_def
  by (intro steps quiet_clean[OF proxy_quiet[OF assms(2)]])
    (use assms(1) in \<open>auto simp: wp_def no_change_def refusal_def status_response_def dest: cancel_clean
      split: prod.split cancel_result.splits\<close>)

section \<open>Properties\<close>

text \<open>C18: nothing is changed without a licence.  Whatever a request asks for, in the log of the calls made for it
  every call is the one the request asks for, with the request's own arguments, and is licensed by the ones before it: a mutation
  of a named object by the caller's granted permission for exactly that action on that object, of a kind that offers
  the action and the special actions its options amount to (forcing or resetting a reconciliation); a sweep by the
  permission for the same options; a Talos call by the operator's authorization, the node being visible (and of the control plane, for
  etcd), the one lock and, where replicas coordinate, the lease of that node, and a power call never concerns the node this
  replica runs on; a drain job belongs to the caller, has valid options and is permitted.  Applying a manifest and
  reconciling all Flux objects have no check here besides: what they may write is the API server's decision.\<close>

theorem every_change_is_licensed:
  assumes "ac_calls s = []" and "ha_quiet (ae_ha env)"
    and "run_state (action env hs who req) s = (r, s')"
  shows "lawful env who req (ac_calls s')"
proof -
  have "wp (action env hs who req) (\<lambda>_. ok_log env who req) s"
    unfolding action_def
    by (intro steps drain_cancel_ok talos_mutation_ok[THEN wp_mono] dispatch_ok)
      (use assms(1,2) in \<open>auto simp: request_caller_of_def split: if_splits\<close>)
  from wp_run[OF this assms(3)] show ?thesis .
qed

definition lone_ha :: "unit act_st ha_env" where
  "lone_ha = \<lparr>he_pods = ret (Inr []), he_pod = (\<lambda>_. ret (Inr None)), he_tokens = (\<lambda>_. ret None), he_nonce = ret [],
     he_send = (\<lambda>_. ret (Inl [])), he_parse_job = (\<lambda>_. None)\<rparr>"

definition deployment :: resource_kind where
  "deployment = \<lparr>rk_key = ''apps/v1/Deployment'', rk_group = ''apps'', rk_version = ''v1'', rk_kind = ''Deployment'',
     rk_plural = ''deployments'', rk_namespaced = True, rk_category = Workloads\<rparr>"

definition small_env :: "bool \<Rightarrow> unit act_env" where
  "small_env allow = \<lparr>ae_server = test_server, ae_ha_state = None, ae_ha = lone_ha, ae_talos = False, ae_now_ms = 0,
     ae_encode = (\<lambda>_. Inr []), ae_kind = (\<lambda>_. Inr deployment), ae_node_key = None,
     ae_can_action = (\<lambda>_ _ _ _ _ w. (allow, w)), ae_can_sanitize = (\<lambda>_ _ _ w. (allow, w)),
     ae_mutate = (\<lambda>_ w. (Inr [], w)), ae_detail = (\<lambda>_ _ w. (None, w)), ae_try_lock = (\<lambda>w. (True, w)),
     ae_acquire = (\<lambda>_ w. (Inr (), w)), ae_talos_do = (\<lambda>_ w. (Inr (), w)), ae_wait_reboot = (\<lambda>_ _ w. (Inr (), w))\<rparr>"

definition restart_request :: action_request where
  "restart_request = \<lparr>aq_action = ''restart'', aq_key = Some ''apps/v1/Deployment'', aq_namespace = Some ''web'',
     aq_name = Some ''front'', aq_replicas = None, aq_yaml = None, aq_force = None, aq_propagation = None,
     aq_reset = None, aq_service = None, aq_drain = None, aq_options = None, aq_sweep_options = None,
     aq_job = None, aq_executor = None\<rparr>"

definition fresh_state :: "unit act_st" where
  "fresh_state = \<lparr>ac_world = (), ac_jobs = jobs_new None, ac_calls = []\<rparr>"

lemma small_env_quiet: "ha_quiet (ae_ha (small_env allow))"
  by (simp add: small_env_def lone_ha_def ha_quiet_def quiet_ret)

lemma restart_runs:
  "run_state (action (small_env allow) [] dev_identity restart_request) fresh_state =
    (if allow then (status_response 200 ''ok'', fresh_state\<lparr>ac_calls :=
        [Permitted Restart ''apps/v1/Deployment'' (Some ''web'') ''front'' None,
         Mutated (RolloutRestart ''apps/v1/Deployment'' (Some ''web'') ''front'')]\<rparr>)
     else (status_response 403 ''action restart is not permitted'', fresh_state))"
proof -
  have "kind_supports deployment Restart"
    by (simp add: kind_supports_def capabilities_def deployment_def supports_for_gvk)
  then have "check_kind (small_env allow) restart_request = Inr ()"
    by (simp add: check_kind_def restart_request_def from_api_name_def small_env_def validate_resource_action_def
        validate_flux_options_def)
  then show ?thesis
    by (simp add: action_def request_caller_of_def dev_identity_def restart_request_def talos_mutation_def talos_actions_def
        dispatch_def named_action_def from_api_name_def can_action_def small_env_def ask_def note_call_def
        mutation_of_def respond_def mutate_def fresh_state_def ns_filter_def Let_def)
qed

theorem every_change_is_licensed_witness:
  "lawful (small_env True) dev_identity restart_request
    [Permitted Restart ''apps/v1/Deployment'' (Some ''web'') ''front'' None,
     Mutated (RolloutRestart ''apps/v1/Deployment'' (Some ''web'') ''front'')]"
  using every_change_is_licensed[OF _ small_env_quiet restart_runs[of True, simplified]]
  by (simp add: fresh_state_def)


text \<open>Someone else's job: the cancellation is refused and the flag stays as it is.\<close>

definition busy_state :: "unit act_st" where
  "busy_state = fresh_state\<lparr>ac_jobs := snd (create_for ''alice'' [] ''node-a'' None 0 (jobs_new None))\<rparr>"

definition cancel_request :: action_request where
  "cancel_request = restart_request\<lparr>aq_action := ''drain-cancel'', aq_job := Some 0\<rparr>"

lemma busy_jobs: "map (en_cancel \<circ> snd) (dj_entries (ac_jobs busy_state)) = [False]"
  by (simp add: busy_state_def create_for_def target_busy_def jobs_new_def hm_any_def Let_def)

lemma cancel_runs:
  "run_state (action (small_env True) [] dev_identity cancel_request) busy_state = (status_response 404 ''unknown job'', busy_state)"
  by (simp add: action_def request_caller_of_def dev_identity_def cancel_request_def restart_request_def drain_cancel_def
      proxy_to_executor_def small_env_def busy_state_def fresh_state_def create_for_def target_busy_def jobs_new_def
      hm_any_def cancel_def Let_def)


end
