(* ===== verification/Row.thy ===== *)
theory Row
  imports Json KubeTypes
begin

text \<open>
  The rows of a resource list and the events that carry them (\<open>crates/core/src/row.rs\<close>), and the objects
  of the cluster they are projected from.
\<close>

section \<open>Rows and watch events\<close>

datatype row_status = RowOk | RowPending | RowWarn | RowError | RowDone | RowUnknown

datatype trend = TrendNone | TrendUp | TrendDown

record resource_row =
  rr_uid :: string
  rr_namespace :: "string option"
  rr_name :: string
  rr_created :: "string option"
  rr_cells :: "string list"
  rr_trends :: "trend list"
  rr_status :: row_status
  rr_suspended :: bool
  rr_labels :: "(string, string) hmap"

datatype watch_event =
    Snapshot "string list" "resource_row list"
  | Applied resource_row
  | Deleted string
  | ForbiddenEvent string
  | ErrorEvent string

section \<open>Objects\<close>

text \<open>An object of the cluster: the metadata the code reads, and the whole body.\<close>

record dyn_object =
  dy_name :: "string option"
  dy_namespace :: "string option"
  dy_uid :: "string option"
  dy_resource_version :: "string option"
  dy_created :: "string option"
  dy_deleting :: bool
  dy_owner_references :: "owner_reference list option"
  dy_labels :: "(string, string) hmap option"
  dy_managed_fields :: "json option"
  dy_data :: json

definition object_uid :: "dyn_object \<Rightarrow> string" where
  "object_uid obj = (case dy_uid obj of
     Some u \<Rightarrow> u
   | None \<Rightarrow> (case dy_namespace obj of Some ns \<Rightarrow> ns | None \<Rightarrow> []) @ ''/''
            @ (case dy_name obj of Some n \<Rightarrow> n | None \<Rightarrow> []))"

end
