(* ===== verification/Metrics.thy ===== *)
theory Metrics
  imports Row
begin

text \<open>
  Usage of pods and volumes: the quantities and responses of \<open>crates/k8s/src/metrics.rs\<close>, and of
  \<open>crates/k8s/src/informers.rs\<close> the entries with a previous sample and the two scrape loops that keep
  the shared caches and the metrics history.

  An \<open>f64\<close> is its 64 bits; the operations on it are those of the hardware and of the standard library,
  the argument \<open>fo\<close>.
\<close>

type_synonym f64 = "64 word"

record f64_ops =
  fo_lit :: "string \<Rightarrow> f64"
  fo_parse :: "string \<Rightarrow> f64 option"
  fo_add :: "f64 \<Rightarrow> f64 \<Rightarrow> f64"
  fo_sub :: "f64 \<Rightarrow> f64 \<Rightarrow> f64"
  fo_mul :: "f64 \<Rightarrow> f64 \<Rightarrow> f64"
  fo_div :: "f64 \<Rightarrow> f64 \<Rightarrow> f64"
  fo_less :: "f64 \<Rightarrow> f64 \<Rightarrow> bool"
  fo_finite :: "f64 \<Rightarrow> bool"
  fo_round_i64 :: "f64 \<Rightarrow> int"
  fo_as_u64 :: "f64 \<Rightarrow> nat"
  fo_fixed :: "nat \<Rightarrow> f64 \<Rightarrow> string"

section \<open>Quantities\<close>

definition strip_suffix :: "string \<Rightarrow> string \<Rightarrow> string option" where
  "strip_suffix s p = (if ends_with s p then Some (take (length s - length p) s) else None)"

definition number_or_zero :: "f64_ops \<Rightarrow> string \<Rightarrow> f64" where
  "number_or_zero fo s = (case fo_parse fo s of Some x \<Rightarrow> x | None \<Rightarrow> fo_lit fo ''0.0'')"

definition parse_cpu :: "f64_ops \<Rightarrow> string \<Rightarrow> f64" where
  "parse_cpu fo s =
     (case strip_suffix s ''n'' of Some n \<Rightarrow> fo_div fo (number_or_zero fo n) (fo_lit fo ''1e9'')
      | None \<Rightarrow> (case strip_suffix s ''u'' of Some u \<Rightarrow> fo_div fo (number_or_zero fo u) (fo_lit fo ''1e6'')
      | None \<Rightarrow> (case strip_suffix s ''m'' of Some m \<Rightarrow> fo_div fo (number_or_zero fo m) (fo_lit fo ''1e3'')
      | None \<Rightarrow> number_or_zero fo s)))"

definition kibi :: "f64_ops \<Rightarrow> f64" where
  "kibi fo = fo_lit fo ''1024.0''"

definition mem_suffixes :: "f64_ops \<Rightarrow> (string \<times> f64) list" where
  "mem_suffixes fo =
     (let k = kibi fo; m = fo_mul fo k k; g = fo_mul fo m k; t = fo_mul fo g k in
      [(''Ki'', k), (''Mi'', m), (''Gi'', g), (''Ti'', t), (''K'', fo_lit fo ''1e3''), (''M'', fo_lit fo ''1e6''),
       (''G'', fo_lit fo ''1e9''), (''T'', fo_lit fo ''1e12''), (''k'', fo_lit fo ''1e3'')])"

definition parse_mem :: "f64_ops \<Rightarrow> string \<Rightarrow> f64" where
  "parse_mem fo s =
     (case find_map (\<lambda>(suffix, mult). map_option (\<lambda>n. fo_mul fo (number_or_zero fo n) mult) (strip_suffix s suffix))
            (mem_suffixes fo) of
        Some x \<Rightarrow> x
      | None \<Rightarrow> number_or_zero fo s)"

section \<open>Responses\<close>

record metric_usage =
  mu_cpu :: string
  mu_memory :: string

record node_metric =
  nm_name :: string
  nm_usage :: metric_usage

record pod_metric =
  pm_name :: string
  pm_namespace :: string
  pm_containers :: "metric_usage list"

text \<open>\<open>None\<close> is a failed request: without a metrics server there is no usage.\<close>

definition node_usage :: "f64_ops \<Rightarrow> node_metric list option \<Rightarrow> (string, f64 \<times> f64) hmap" where
  "node_usage fo resp = (case resp of None \<Rightarrow> [] | Some items \<Rightarrow>
     fold (\<lambda>i out. if nm_name i = [] then out
        else hm_insert (nm_name i) (parse_cpu fo (mu_cpu (nm_usage i)), parse_mem fo (mu_memory (nm_usage i))) out) items [])"

definition pod_usage :: "f64_ops \<Rightarrow> pod_metric list option \<Rightarrow> (string, f64 \<times> f64) hmap" where
  "pod_usage fo resp = (case resp of None \<Rightarrow> [] | Some items \<Rightarrow>
     fold (\<lambda>i out. if pm_name i = [] then out
        else hm_insert (pm_namespace i @ ''/'' @ pm_name i)
          (fold (\<lambda>c (cpu, mem). (fo_add fo cpu (parse_cpu fo (mu_cpu c)), fo_add fo mem (parse_mem fo (mu_memory c))))
             (pm_containers i) (fo_lit fo ''0.0'', fo_lit fo ''0.0'')) out) items [])"

record pvc_usage =
  pu_used :: f64

record volume_stats =
  vs_pvc :: "(string \<times> string) option"
  vs_used_bytes :: f64

text \<open>The volumes of one node's pods that have a claim, as (namespace/name, usage); then all nodes' in
  the order in which the nodes answered.\<close>

definition node_pvc_usage :: "volume_stats list list option \<Rightarrow> (string \<times> pvc_usage) list" where
  "node_pvc_usage summary = (case summary of None \<Rightarrow> [] | Some pods \<Rightarrow>
     List.map_filter (\<lambda>v. case vs_pvc v of
         None \<Rightarrow> None
       | Some (ns, nm) \<Rightarrow> if nm = [] then None else Some (ns @ ''/'' @ nm, \<lparr>pu_used = vs_used_bytes v\<rparr>)) (concat pods))"

definition pvc_usage_of :: "volume_stats list list option list \<Rightarrow> (string, pvc_usage) hmap" where
  "pvc_usage_of answers = fold (\<lambda>(k, u). hm_insert k u) (concat (map node_pvc_usage answers)) []"

section \<open>Usage entries\<close>

record usage_entry =
  ue_cpu :: f64
  ue_mem :: f64
  ue_prev_cpu :: "f64 option"
  ue_prev_mem :: "f64 option"
  ue_misses :: nat

definition new_entry :: "f64_ops \<Rightarrow> usage_entry" where
  "new_entry fo = \<lparr>ue_cpu = fo_lit fo ''0.0'', ue_mem = fo_lit fo ''0.0'', ue_prev_cpu = None, ue_prev_mem = None, ue_misses = 0\<rparr>"

definition trend_against :: "f64_ops \<Rightarrow> f64 option \<Rightarrow> f64 \<Rightarrow> f64 \<Rightarrow> trend" where
  "trend_against fo prev now margin = (case prev of
     None \<Rightarrow> TrendNone
   | Some p \<Rightarrow> if fo_less fo (fo_add fo p margin) now then TrendUp
       else if fo_less fo now (fo_sub fo p margin) then TrendDown else TrendNone)"

definition trend_cpu :: "f64_ops \<Rightarrow> usage_entry \<Rightarrow> trend" where
  "trend_cpu fo e = trend_against fo (ue_prev_cpu e) (ue_cpu e) (fo_lit fo ''0.001'')"

definition trend_mem :: "f64_ops \<Rightarrow> usage_entry \<Rightarrow> trend" where
  "trend_mem fo e = trend_against fo (ue_prev_mem e) (ue_mem e) (fo_mul fo (kibi fo) (kibi fo))"

definition has_prev :: "usage_entry \<Rightarrow> bool" where
  "has_prev e \<longleftrightarrow> ue_prev_cpu e \<noteq> None \<and> ue_prev_mem e \<noteq> None"

section \<open>The scrape loops\<close>

record metrics_point =
  mp_timestamp :: nat
  mp_cpu :: f64
  mp_mem :: f64

record metrics_caches =
  mc_usage :: "(string, usage_entry) hmap"
  mc_history :: "(string, metrics_point list) hmap"

definition MAX_HISTORY_POINTS :: nat where
  "MAX_HISTORY_POINTS = 240"

definition age_entry :: "usage_entry \<Rightarrow> usage_entry" where
  "age_entry e = e\<lparr>ue_misses := min (ue_misses e + 1) 255, ue_prev_cpu := Some (ue_cpu e), ue_prev_mem := Some (ue_mem e)\<rparr>"

definition seen_entry :: "f64 \<Rightarrow> f64 \<Rightarrow> usage_entry \<Rightarrow> usage_entry" where
  "seen_entry cpu mem e =
     (let e' = e\<lparr>ue_misses := 0, ue_cpu := cpu, ue_mem := mem\<rparr> in
      if has_prev e' then e' else e'\<lparr>ue_prev_cpu := Some cpu, ue_prev_mem := Some mem\<rparr>)"

definition keep_last :: "nat \<Rightarrow> 'a list \<Rightarrow> 'a list" where
  "keep_last n xs = drop (length xs - n) xs"

definition record_sample :: "f64_ops \<Rightarrow> nat \<Rightarrow> string \<times> f64 \<times> f64 \<Rightarrow> metrics_caches \<Rightarrow> metrics_caches" where
  "record_sample fo timestamp sample mc = (case sample of (k, cpu, mem) \<Rightarrow>
     let entry = (case hm_get (mc_usage mc) k of Some e \<Rightarrow> e | None \<Rightarrow> new_entry fo);
         history = (case hm_get (mc_history mc) k of Some h \<Rightarrow> h | None \<Rightarrow> []);
         point = \<lparr>mp_timestamp = timestamp, mp_cpu = cpu, mp_mem = mem\<rparr>
     in mc\<lparr>mc_usage := hm_insert k (seen_entry cpu mem entry) (mc_usage mc),
           mc_history := hm_insert k (keep_last MAX_HISTORY_POINTS (history @ [point])) (mc_history mc)\<rparr>)"

definition scrape_metrics :: "f64_ops \<Rightarrow> nat \<Rightarrow> (string, f64 \<times> f64) hmap \<Rightarrow> metrics_caches \<Rightarrow> metrics_caches" where
  "scrape_metrics fo timestamp fresh mc =
     (if fresh = [] then mc
      else let aged = mc\<lparr>mc_usage := map (\<lambda>(k, e). (k, age_entry e)) (mc_usage mc)\<rparr>;
               seen = fold (record_sample fo timestamp) fresh aged;
               kept = hm_retain (\<lambda>_ e. ue_misses e \<le> 3) (mc_usage seen)
           in seen\<lparr>mc_usage := kept, mc_history := hm_retain (\<lambda>k _. hm_get kept k \<noteq> None) (mc_history seen)\<rparr>)"

definition pod_metrics_history :: "metrics_caches \<Rightarrow> string \<Rightarrow> string \<Rightarrow> metrics_point list option" where
  "pod_metrics_history mc ns nm = hm_get (mc_history mc) (ns @ ''/'' @ nm)"

text \<open>The scan of the kubelets is authoritative: it replaces the cache.\<close>

definition scrape_pvc_usage :: "(string, pvc_usage) hmap \<Rightarrow> (string, pvc_usage) hmap \<Rightarrow> (string, pvc_usage) hmap" where
  "scrape_pvc_usage fresh cache = fresh"

end
