(* ===== verification/Project.thy ===== *)
theory Project
  imports Metrics Resource "HOL-Library.List_Lexorder" "HOL-Library.Char_ord"
begin

text \<open>
  What the projectors of \<open>crates/k8s/src/project\<close> share: reading values out of an object
  (\<open>accessors.rs\<close>), conditions and statuses (\<open>status.rs\<close>) and the shaping of values
  (\<open>format.rs\<close>).  Clock, time libraries and \<open>f64\<close> are the environment \<open>pe\<close>; an instant is its
  nanoseconds since the epoch, a parsed time an instant and the offset it was written with.
\<close>

record project_env =
  pe_f64 :: f64_ops
  pe_now :: int
  pe_parse_rfc3339 :: "string \<Rightarrow> (int \<times> int) option"
  pe_format_rfc3339 :: "int \<times> int \<Rightarrow> string"
  pe_cron_valid :: "string \<Rightarrow> bool"
  pe_timezone_valid :: "string \<Rightarrow> bool"
  pe_parse_datetime :: "string \<Rightarrow> int option"
  pe_next_occurrence :: "string \<Rightarrow> string \<Rightarrow> int \<Rightarrow> int option"
  pe_add_seconds :: "int \<Rightarrow> int \<Rightarrow> int option"
  pe_print_json :: "json \<Rightarrow> string"
  pe_to_value :: "dyn_object \<Rightarrow> json option"

definition show_bool :: "bool \<Rightarrow> string" where
  "show_bool b = (if b then ''true'' else ''false'')"

definition newline :: string where
  "newline = [CHR 10]"

section \<open>Accessors\<close>

definition str_at :: "json \<Rightarrow> string list \<Rightarrow> string option" where
  "str_at v path = Option.bind (jpointer v path) as_str"

definition int_at :: "json \<Rightarrow> string list \<Rightarrow> int option" where
  "int_at v path = Option.bind (jpointer v path) as_i64"

definition bool_at :: "json \<Rightarrow> string list \<Rightarrow> bool" where
  "bool_at v path = unwrap_or False (Option.bind (jpointer v path) as_bool)"

definition array_at :: "json \<Rightarrow> string list \<Rightarrow> json list option" where
  "array_at v path = Option.bind (jpointer v path) as_array"

abbreviation text_at :: "json \<Rightarrow> string list \<Rightarrow> string" where
  "text_at v path \<equiv> unwrap_or [] (str_at v path)"

definition show_number :: "json_number \<Rightarrow> string" where
  "show_number n = (case n of NumInt i \<Rightarrow> show_int i | NumFloat literal \<Rightarrow> literal)"

definition intstr_at :: "json \<Rightarrow> string list \<Rightarrow> string option" where
  "intstr_at v path = (case jpointer v path of
     Some (JString s) \<Rightarrow> Some s
   | Some (JNumber n) \<Rightarrow> Some (show_number n)
   | _ \<Rightarrow> None)"

definition data_count :: "json \<Rightarrow> string list \<Rightarrow> nat" where
  "data_count data keys =
     sum_list (List.map_filter (\<lambda>f. map_option length (Option.bind (jget data f) as_object)) keys)"

definition names_in :: "json \<Rightarrow> string list \<Rightarrow> string \<Rightarrow> string list" where
  "names_in data path key = List.map_filter (\<lambda>x. Option.bind (jget x key) as_str) (unwrap_or [] (array_at data path))"

section \<open>Conditions and statuses\<close>

definition condition_status :: "json \<Rightarrow> string \<Rightarrow> string option" where
  "condition_status data ty = Option.bind (Option.bind (current_condition data ty) (\<lambda>c. jget c ''status'')) as_str"

definition nonempty :: "string option \<Rightarrow> string option" where
  "nonempty s = (case s of Some (c # cs) \<Rightarrow> Some (c # cs) | _ \<Rightarrow> None)"

definition condition_reason :: "json \<Rightarrow> string \<Rightarrow> string option" where
  "condition_reason data ty =
     nonempty (Option.bind (Option.bind (current_condition data ty) (\<lambda>c. jget c ''reason'')) as_str)"

definition condition_message :: "json \<Rightarrow> string \<Rightarrow> string option" where
  "condition_message data ty =
     nonempty (Option.bind (Option.bind (current_condition data ty) (\<lambda>c. jget c ''message'')) as_str)"

definition cond_to_status :: "string option \<Rightarrow> row_status" where
  "cond_to_status s = (case s of
     None \<Rightarrow> RowUnknown
   | Some v \<Rightarrow> if v = ''True'' then RowOk else if v = ''False'' then RowError else RowPending)"

definition ready_label :: "string option \<Rightarrow> string" where
  "ready_label s = unwrap_or ''-'' s"

definition ready_reason :: "json \<Rightarrow> string" where
  "ready_reason data = unwrap_or (ready_label (condition_status data ''Ready'')) (condition_reason data ''Ready'')"

definition phase_row_status :: "string \<Rightarrow> row_status" where
  "phase_row_status state =
     (if state \<in> {''running'', ''active'', ''bound'', ''ready'', ''healthy'', ''available'', ''established'', ''applied'',
          ''synced'', ''valid''} then RowOk
      else if state \<in> {''pending'', ''progressing'', ''reconciling'', ''creating'', ''initializing'', ''updating'',
          ''upgrading'', ''restoring'', ''provisioning'', ''terminating''} then RowPending
      else if state \<in> {''degraded'', ''warning'', ''paused'', ''suspended''} then RowWarn
      else if state \<in> {''succeeded'', ''complete'', ''completed'', ''finished''} then RowDone
      else if state \<in> {''failed'', ''failure'', ''error'', ''errored'', ''lost'', ''invalid''} then RowError
      else RowUnknown)"

abbreviation any_condition :: "json \<Rightarrow> string list \<Rightarrow> bool" where
  "any_condition data tys \<equiv> list_ex (\<lambda>ty. condition_is data ty ''True'') tys"

definition generic_status :: "json \<Rightarrow> row_status" where
  "generic_status data =
     (if status_generation_is_stale data then RowPending
      else if any_condition data [''Stalled'', ''Failed'', ''Failure'', ''Error''] then RowError
      else if any_condition data [''Complete'', ''Completed'', ''Succeeded''] then RowDone
      else if condition_is data ''Degraded'' ''True'' then RowWarn
      else if any_condition data [''Paused'', ''Suspended''] then RowWarn
      else if any_condition data [''Progressing'', ''Reconciling''] then RowPending
      else case find_map (condition_status data) [''Ready'', ''Healthy'', ''Available'', ''Applied'', ''Synced''] of
          Some status \<Rightarrow> cond_to_status (Some status)
        | None \<Rightarrow>
           (case find_map (\<lambda>field. Option.bind (jpointer data [''status'', field]) as_bool) [''applied'', ''synced''] of
              Some value \<Rightarrow> if value then RowOk else RowError
            | None \<Rightarrow> phase_row_status (str_ascii_lower (unwrap_or []
                (or_else (str_at data [''status'', ''phase'']) (str_at data [''status'', ''state'']))))))"

section \<open>Shaping values\<close>

definition human_bytes :: "f64_ops \<Rightarrow> f64 \<Rightarrow> string" where
  "human_bytes fo b =
     (let k = kibi fo; m = fo_mul fo k k; g = fo_mul fo m k; t = fo_mul fo g k in
      if \<not> fo_finite fo b \<or> fo_less fo b k then show_nat (fo_as_u64 fo b) @ ''B''
      else case List.find (\<lambda>(_, mult). fo_less fo b (fo_mul fo mult k)) [(''Ki'', k), (''Mi'', m), (''Gi'', g), (''Ti'', t)] of
          Some (suffix, mult) \<Rightarrow> fo_fixed fo 1 (fo_div fo b mult) @ suffix
        | None \<Rightarrow> fo_fixed fo 1 (fo_div fo b (fo_mul fo t k)) @ ''Pi'')"

definition short_access_mode :: "string \<Rightarrow> string" where
  "short_access_mode m =
     (if m = ''ReadWriteOnce'' then ''RWO'' else if m = ''ReadOnlyMany'' then ''ROX''
      else if m = ''ReadWriteMany'' then ''RWX'' else if m = ''ReadWriteOncePod'' then ''RWOP'' else m)"

definition ports_of :: "json \<Rightarrow> int list" where
  "ports_of v = List.map_filter (\<lambda>p. Option.bind (jget p ''port'') as_i64) (unwrap_or [] (array_at v [''ports'']))"

definition subset_endpoints :: "json \<Rightarrow> string list" where
  "subset_endpoints ss = concat (map (\<lambda>ip. if ports_of ss = [] then [ip]
       else map (\<lambda>p. ip @ '':'' @ show_int p) (ports_of ss)) (names_in ss [''addresses''] ''ip''))"

definition endpoints_summary :: "json \<Rightarrow> string" where
  "endpoints_summary data = join_with newline (concat (map subset_endpoints (unwrap_or [] (array_at data [''subsets'']))))"

definition hpa_value :: "json \<Rightarrow> string option" where
  "hpa_value v = or_else (map_option (\<lambda>x. show_int x @ ''%'') (int_at v [''averageUtilization'']))
     (str_at v [''averageValue''])"

definition hpa_metric_str :: "json \<Rightarrow> json option \<Rightarrow> string" where
  "hpa_metric_str spec now =
     (let ty = text_at spec [''type''] in
      if ty \<noteq> ''Resource'' then ty
      else text_at spec [''resource'', ''name''] @ '': ''
         @ unwrap_or ''<unknown>'' (Option.bind (Option.bind now (\<lambda>c. jpointer c [''resource'', ''current''])) hpa_value)
         @ ''/'' @ unwrap_or [] (Option.bind (jpointer spec [''resource'', ''target'']) hpa_value))"

definition hpa_targets :: "json \<Rightarrow> string" where
  "hpa_targets data =
     (case array_at data [''spec'', ''metrics''] of
        None \<Rightarrow>
          (case int_at data [''spec'', ''targetCPUUtilizationPercentage''] of
             None \<Rightarrow> []
           | Some target \<Rightarrow> ''cpu: ''
               @ unwrap_or ''<unknown>'' (map_option (\<lambda>c. show_int c @ ''%'')
                   (int_at data [''status'', ''currentCPUUtilizationPercentage'']))
               @ ''/'' @ show_int target @ ''%'')
      | Some specs \<Rightarrow>
          (let curs = array_at data [''status'', ''currentMetrics''] in
           join_with '', '' (map (\<lambda>(i, m). hpa_metric_str m
             (Option.bind curs (\<lambda>c. if i < length c then Some (c ! i) else None))) (List.enumerate 0 specs))))"

end
