(* ===== verification/ProjectCore.thy ===== *)
theory ProjectCore
  imports Project
begin

text \<open>
  The projectors of built-in kinds: \<open>core.rs\<close>, \<open>workloads.rs\<close> and \<open>rbac.rs\<close> of
  \<open>crates/k8s/src/project\<close>.  Each gives the cells of a kind's own columns and the row's status.
\<close>

type_synonym cells_of = "string list \<times> row_status"

section \<open>Core, storage and networking\<close>

definition namespace_cells :: "json \<Rightarrow> cells_of" where
  "namespace_cells data =
     (let phase = text_at data [''status'', ''phase''] in ([phase], if phase = ''Active'' then RowOk else RowWarn))"

text \<open>The claim's size is what was provisioned or requested, and a claim is mounted when a kubelet reports it.\<close>

definition middle_dot :: string where
  "middle_dot = [CHR 0xC2, CHR 0xB7]"

definition clamp :: "f64_ops \<Rightarrow> f64 \<Rightarrow> f64 \<Rightarrow> f64 \<Rightarrow> f64" where
  "clamp fo lo hi x = (if fo_less fo x lo then lo else if fo_less fo hi x then hi else x)"

definition pvc_cells :: "f64_ops \<Rightarrow> json \<Rightarrow> pvc_usage option \<Rightarrow> cells_of" where
  "pvc_cells fo data usage =
     (let phase = text_at data [''status'', ''phase''];
          total_str = unwrap_or [] (or_else (str_at data [''status'', ''capacity'', ''storage''])
             (str_at data [''spec'', ''resources'', ''requests'', ''storage'']));
          total_bytes = parse_mem fo total_str;
          zero = fo_lit fo ''0.0'';
          (capacity_cell, pct_cell) = (case usage of
             None \<Rightarrow> (total_str, [])
           | Some u \<Rightarrow> if fo_less fo zero total_bytes \<and> fo_less fo zero (pu_used u)
               then (human_bytes fo (pu_used u) @ '' / '' @ total_str,
                     fo_fixed fo 0 (clamp fo zero (fo_lit fo ''999.0'')
                       (fo_mul fo (fo_div fo (pu_used u) total_bytes) (fo_lit fo ''100.0''))) @ ''%'')
               else (total_str, middle_dot));
          mount_cell = show_bool (usage \<noteq> None);
          st = (if phase = ''Bound'' then RowOk else if phase = ''Pending'' \<or> phase = [] then RowPending
                else if phase = ''Lost'' then RowError else RowUnknown)
      in ([phase, capacity_cell, pct_cell, mount_cell], st))"

definition secret_cells :: "json \<Rightarrow> cells_of" where
  "secret_cells data =
     ([unwrap_or ''Opaque'' (str_at data [''type'']), show_nat (data_count data [''data'', ''stringData''])], RowOk)"

definition configmap_cells :: "json \<Rightarrow> cells_of" where
  "configmap_cells data = ([show_nat (data_count data [''data'', ''binaryData''])], RowOk)"

definition event_cells :: "json \<Rightarrow> cells_of" where
  "event_cells data =
     (let last_seen = unwrap_or [] (or_else (str_at data [''eventTime''])
            (or_else (str_at data [''series'', ''lastObservedTime'']) (or_else (str_at data [''lastTimestamp''])
            (or_else (str_at data [''firstTimestamp'']) (str_at data [''metadata'', ''creationTimestamp''])))));
          ty = text_at data [''type''];
          reason = text_at data [''reason''];
          kind = text_at data [''involvedObject'', ''kind''];
          nm = text_at data [''involvedObject'', ''name''];
          obj = (if nm = [] then [] else if kind = [] then nm else kind @ ''/'' @ nm);
          message = text_at data [''message''];
          status = (if ty = ''Normal'' then RowOk else if ty = ''Warning'' then RowWarn else RowUnknown)
      in ([last_seen, ty, reason, obj, message], status))"

definition endpoints_cells :: "json \<Rightarrow> cells_of" where
  "endpoints_cells data =
     (let summary = endpoints_summary data in ([summary], if summary = [] then RowError else RowOk))"

definition load_balancer_addresses :: "json \<Rightarrow> string list" where
  "load_balancer_addresses data =
     List.map_filter (\<lambda>x. nonempty (or_else (str_at x [''ip'']) (str_at x [''hostname''])))
       (unwrap_or [] (array_at data [''status'', ''loadBalancer'', ''ingress'']))"

definition service_cells :: "json \<Rightarrow> cells_of" where
  "service_cells data =
     (let ty = unwrap_or ''ClusterIP'' (str_at data [''spec'', ''type'']);
          cluster_ip = text_at data [''spec'', ''clusterIP'']
      in ([ty, cluster_ip],
          if ty = ''LoadBalancer'' \<and> load_balancer_addresses data = [] then RowPending else RowOk))"

definition node_cells :: "json \<Rightarrow> cells_of" where
  "node_cells data =
     (let is_ready = condition_status data ''Ready'';
          version = text_at data [''status'', ''nodeInfo'', ''kubeletVersion''];
          cordoned = bool_at data [''spec'', ''unschedulable''];
          label = (if is_ready = Some ''True'' then ''Ready'' else ''NotReady'')
            @ (if cordoned then '',SchedulingDisabled'' else [])
      in ([label, version], if cordoned then RowWarn else cond_to_status is_ready))"

definition pv_cells :: "json \<Rightarrow> cells_of" where
  "pv_cells data =
     (let cap = text_at data [''spec'', ''capacity'', ''storage''];
          modes = join_with '','' (map short_access_mode
             (List.map_filter as_str (unwrap_or [] (array_at data [''spec'', ''accessModes'']))));
          reclaim = text_at data [''spec'', ''persistentVolumeReclaimPolicy''];
          phase = text_at data [''status'', ''phase''];
          claim = (case (str_at data [''spec'', ''claimRef'', ''namespace''], str_at data [''spec'', ''claimRef'', ''name'']) of
             (Some ns, Some n) \<Rightarrow> ns @ ''/'' @ n | (None, Some n) \<Rightarrow> n | _ \<Rightarrow> []);
          sc = text_at data [''spec'', ''storageClassName''];
          st = (if phase = ''Bound'' then RowOk else if phase = ''Available'' then RowPending
                else if phase = ''Released'' then RowWarn else if phase = ''Failed'' then RowError else RowUnknown)
      in ([cap, modes, reclaim, phase, claim, sc], st))"

definition storageclass_cells :: "json \<Rightarrow> cells_of" where
  "storageclass_cells data =
     ([text_at data [''provisioner''], unwrap_or ''Delete'' (str_at data [''reclaimPolicy'']),
       unwrap_or ''Immediate'' (str_at data [''volumeBindingMode'']), show_bool (bool_at data [''allowVolumeExpansion''])], RowOk)"

definition volumeattachment_cells :: "json \<Rightarrow> cells_of" where
  "volumeattachment_cells data =
     (let attached = bool_at data [''status'', ''attached''];
          has_error = list_ex (\<lambda>e. case jpointer data [''status'', e] of None \<Rightarrow> False | Some v \<Rightarrow> v \<noteq> JNull)
             [''attachError'', ''detachError'']
      in ([text_at data [''spec'', ''attacher''], text_at data [''spec'', ''source'', ''persistentVolumeName''],
           text_at data [''spec'', ''nodeName''], show_bool attached, text_at data [''status'', ''attachError'', ''message''],
           text_at data [''status'', ''detachError'', ''message'']],
          if has_error then RowError else if attached then RowOk else RowPending))"

definition endpoint_ready :: "json \<Rightarrow> bool" where
  "endpoint_ready e \<longleftrightarrow> (case array_at e [''addresses''] of Some (a # as) \<Rightarrow> True | _ \<Rightarrow> False)
     \<and> unwrap_or True (Option.bind (jpointer e [''conditions'', ''ready'']) as_bool)"

definition endpointslice_cells :: "json \<Rightarrow> cells_of" where
  "endpointslice_cells data =
     (let values = unwrap_or [] (array_at data [''endpoints'']);
          endpoints = join_with newline
            (concat (map (\<lambda>e. List.map_filter as_str (unwrap_or [] (array_at e [''addresses'']))) values));
          ports = join_with newline (map show_int (ports_of data))
      in ([text_at data [''addressType''], endpoints, ports], if list_ex endpoint_ready values then RowOk else RowError))"

definition ingress_cells :: "json \<Rightarrow> cells_of" where
  "ingress_cells data =
     (let addresses = load_balancer_addresses data
      in ([text_at data [''spec'', ''ingressClassName''],
           join_with newline (names_in data [''spec'', ''rules''] ''host''), join_with newline addresses],
          if addresses = [] then RowPending else RowOk))"

section \<open>Autoscaling, policy and access\<close>

definition hpa_cells :: "json \<Rightarrow> cells_of" where
  "hpa_cells data =
     (let kind = text_at data [''spec'', ''scaleTargetRef'', ''kind''];
          nm = text_at data [''spec'', ''scaleTargetRef'', ''name''];
          reference = (if kind = [] then nm else kind @ ''/'' @ nm);
          lo = unwrap_or 1 (int_at data [''spec'', ''minReplicas'']);
          hi = unwrap_or 0 (int_at data [''spec'', ''maxReplicas'']);
          current = unwrap_or 0 (int_at data [''status'', ''currentReplicas'']);
          able = condition_status data ''AbleToScale'';
          active = condition_status data ''ScalingActive'';
          limited = condition_status data ''ScalingLimited'';
          st = (if status_generation_is_stale data then RowPending
                else if able = Some ''False'' \<or> active = Some ''False'' then RowError
                else if able = Some ''True'' \<and> active = Some ''True'' \<and> limited = Some ''True'' then RowWarn
                else if able = Some ''True'' \<and> active = Some ''True'' \<and> limited = Some ''False'' then RowOk
                else RowPending)
      in ([reference, hpa_targets data, show_int lo, show_int hi, show_int current], st))"

definition pdb_cells :: "json \<Rightarrow> cells_of" where
  "pdb_cells data =
     (let lo = unwrap_or ''N/A'' (intstr_at data [''spec'', ''minAvailable'']);
          hi = unwrap_or ''N/A'' (intstr_at data [''spec'', ''maxUnavailable'']);
          allowed = int_at data [''status'', ''disruptionsAllowed''];
          current = int_at data [''status'', ''currentHealthy''];
          desired = int_at data [''status'', ''desiredHealthy''];
          condition = condition_status data ''DisruptionAllowed'';
          known = (current \<noteq> None \<and> desired \<noteq> None);
          st = (if status_generation_is_stale data then RowPending
                else if condition_reason data ''DisruptionAllowed'' = Some ''SyncFailed''
                  \<or> (case (current, desired) of (Some c, Some d) \<Rightarrow> c < d | _ \<Rightarrow> False) then RowError
                else if condition = Some ''True'' \<and> (case allowed of Some a \<Rightarrow> a > 0 | None \<Rightarrow> False) then RowOk
                else if (condition = Some ''True'' \<or> condition = Some ''False'') \<and> allowed = Some 0 \<and> known then RowWarn
                else if condition = None \<and> (case allowed of Some a \<Rightarrow> a > 0 | None \<Rightarrow> False) \<and> known then RowOk
                else RowPending)
      in ([lo, hi, show_int (unwrap_or 0 allowed)], st))"

definition rolebinding_cells :: "json \<Rightarrow> cells_of" where
  "rolebinding_cells data =
     (let kind = text_at data [''roleRef'', ''kind'']; nm = text_at data [''roleRef'', ''name'']
      in ([if kind = [] then nm else kind @ ''/'' @ nm], RowOk))"

section \<open>Workloads\<close>

definition desired_replicas :: "json \<Rightarrow> int" where
  "desired_replicas data = max (unwrap_or 1 (int_at data [''spec'', ''replicas''])) 0"

definition workload_generation_is_current :: "json \<Rightarrow> bool" where
  "workload_generation_is_current data = (case int_at data [''metadata'', ''generation''] of
     None \<Rightarrow> True
   | Some generation \<Rightarrow> (case int_at data [''status'', ''observedGeneration''] of
       None \<Rightarrow> False | Some observed \<Rightarrow> generation \<le> observed))"

abbreviation status_count :: "json \<Rightarrow> string \<Rightarrow> int" where
  "status_count data field \<equiv> unwrap_or 0 (int_at data [''status'', field])"

definition ratio :: "int \<Rightarrow> int \<Rightarrow> string" where
  "ratio a b = show_int a @ ''/'' @ show_int b"

definition replicaset_cells :: "json \<Rightarrow> cells_of" where
  "replicaset_cells data =
     (let desired = desired_replicas data; ready_n = status_count data ''readyReplicas'';
          status = (if \<not> workload_generation_is_current data then RowPending
             else if condition_is data ''ReplicaFailure'' ''True'' then RowError
             else if list_all (\<lambda>count. count = desired) [status_count data ''replicas'',
                 status_count data ''fullyLabeledReplicas'', ready_n, status_count data ''availableReplicas''] then RowOk
             else RowPending)
      in ([ratio ready_n desired], status))"

definition deployment_cells :: "json \<Rightarrow> cells_of" where
  "deployment_cells data =
     (let desired = desired_replicas data; replicas = status_count data ''replicas'';
          updated = status_count data ''updatedReplicas''; ready_n = status_count data ''readyReplicas'';
          available = status_count data ''availableReplicas'';
          deadline_exceeded = (condition_is data ''Progressing'' ''False''
            \<and> condition_reason data ''Progressing'' = Some ''ProgressDeadlineExceeded'');
          status = (if \<not> workload_generation_is_current data then RowPending
             else if condition_is data ''ReplicaFailure'' ''True'' \<or> deadline_exceeded then RowError
             else if bool_at data [''spec'', ''paused''] then RowWarn
             else if replicas = desired \<and> updated = desired \<and> desired \<le> available then RowOk
             else RowPending)
      in ([ratio ready_n desired, show_int available], status))"

definition statefulset_cells :: "json \<Rightarrow> cells_of" where
  "statefulset_cells data =
     (let desired = desired_replicas data; replicas = status_count data ''replicas'';
          ready_n = status_count data ''readyReplicas''; available = status_count data ''availableReplicas'';
          updated = status_count data ''updatedReplicas'';
          base_ready = (replicas = desired \<and> ready_n = desired \<and> available = desired);
          strategy = unwrap_or ''RollingUpdate'' (str_at data [''spec'', ''updateStrategy'', ''type'']);
          current = text_at data [''status'', ''currentRevision''];
          update = text_at data [''status'', ''updateRevision''];
          partition = min (max (unwrap_or 0 (int_at data [''spec'', ''updateStrategy'', ''rollingUpdate'', ''partition''])) 0) desired;
          revisions_converged = (partition > 0 \<or> desired = 0 \<or> update \<noteq> [] \<and> current = update);
          status = (if \<not> workload_generation_is_current data then RowPending
             else if condition_is data ''ReplicaFailure'' ''True'' then RowError
             else if \<not> base_ready then RowPending
             else if strategy = ''OnDelete'' then (if update \<noteq> [] \<and> current \<noteq> update then RowWarn else RowOk)
             else if updated = desired - partition \<and> revisions_converged then RowOk
             else RowPending)
      in ([ratio ready_n desired, show_int available], status))"

definition daemonset_cells :: "json \<Rightarrow> cells_of" where
  "daemonset_cells data =
     (let desired = status_count data ''desiredNumberScheduled''; current = status_count data ''currentNumberScheduled'';
          updated = status_count data ''updatedNumberScheduled''; ready_n = status_count data ''numberReady'';
          available = status_count data ''numberAvailable''; misscheduled = status_count data ''numberMisscheduled'';
          base_ready = (current = desired \<and> ready_n = desired \<and> available = desired \<and> misscheduled = 0);
          strategy = unwrap_or ''RollingUpdate'' (str_at data [''spec'', ''updateStrategy'', ''type'']);
          status = (if \<not> workload_generation_is_current data then RowPending
             else if condition_is data ''ReplicaFailure'' ''True'' then RowError
             else if \<not> base_ready then RowPending
             else if updated = desired then RowOk
             else if strategy = ''OnDelete'' then RowWarn
             else RowPending)
      in ([ratio ready_n desired, show_int available], status))"

definition job_cells :: "json \<Rightarrow> cells_of" where
  "job_cells data =
     (let succeeded = status_count data ''succeeded'';
          (status, phase) = (case job_lifecycle_of data of
             Failed \<Rightarrow> (RowError, ''Failed'') | Failing \<Rightarrow> (RowError, ''Failed'') | Complete \<Rightarrow> (RowDone, ''Complete'')
           | Suspended \<Rightarrow> (RowWarn, ''Suspended'') | Completing \<Rightarrow> (RowPending, ''Completing'')
           | Running \<Rightarrow> (RowPending, ''Running''));
          completions = (case int_at data [''spec'', ''completions''] of
             None \<Rightarrow> show_int succeeded | Some desired \<Rightarrow> ratio succeeded desired)
      in ([completions, phase], status))"

datatype schedule_state = ScheduleCurrent | ScheduleMissed | ScheduleInvalid

definition cronjob_schedule_state :: "project_env \<Rightarrow> json \<Rightarrow> string \<Rightarrow> schedule_state" where
  "cronjob_schedule_state pe data schedule =
     (if \<not> pe_cron_valid pe schedule then ScheduleInvalid
      else case str_at data [''spec'', ''timeZone''] of
        None \<Rightarrow> ScheduleCurrent
      | Some tz \<Rightarrow>
          if \<not> pe_timezone_valid pe tz then ScheduleInvalid
          else case Option.bind (or_else (str_at data [''status'', ''lastScheduleTime''])
              (str_at data [''metadata'', ''creationTimestamp''])) (pe_parse_datetime pe) of
            None \<Rightarrow> ScheduleCurrent
          | Some baseline \<Rightarrow>
              (case pe_next_occurrence pe schedule tz baseline of
                 None \<Rightarrow> ScheduleInvalid
               | Some next_run \<Rightarrow>
                   (case pe_add_seconds pe next_run (max (unwrap_or 60 (int_at data [''spec'', ''startingDeadlineSeconds''])) 0) of
                      None \<Rightarrow> ScheduleCurrent
                    | Some deadline \<Rightarrow> if deadline < pe_now pe then ScheduleMissed else ScheduleCurrent)))"

text \<open>The active jobs come from a sorted set.\<close>

definition cronjob_cells :: "project_env \<Rightarrow> json \<Rightarrow> cells_of" where
  "cronjob_cells pe data =
     (let schedule = text_at data [''spec'', ''schedule''];
          suspended = bool_at data [''spec'', ''suspend''];
          active = join_with newline (sort (remdups (filter (\<lambda>n. n \<noteq> []) (names_in data [''status'', ''active''] ''name''))));
          last_schedule = text_at data [''status'', ''lastScheduleTime''];
          last_success = text_at data [''status'', ''lastSuccessfulTime''];
          schedule_state = cronjob_schedule_state pe data schedule;
          (label, status) =
            (if schedule_state = ScheduleInvalid then (''Invalid schedule'', RowError)
             else if suspended then (''Suspended'', RowWarn)
             else if schedule_state = ScheduleMissed then (''Missed schedule'', RowWarn)
             else if active \<noteq> [] then (''Active'', RowOk)
             else (''Scheduled'', RowOk))
      in ([schedule, show_bool suspended, active, last_schedule, last_success, label], status))"

end
