(* ===== verification/ProjectCrd.thy ===== *)
theory ProjectCrd
  imports ProjectCore
begin

text \<open>
  The projectors of custom resources: \<open>flux.rs\<close>, \<open>eso.rs\<close>, \<open>certmanager.rs\<close>, \<open>rook.rs\<close>,
  \<open>cnpg.rs\<close>, \<open>kopiur.rs\<close>, \<open>prometheus.rs\<close> and \<open>gateway.rs\<close> of \<open>crates/k8s/src/project\<close>.
\<close>

section \<open>Flux and External Secrets\<close>

definition ready_message_cells :: "json \<Rightarrow> cells_of" where
  "ready_message_cells data =
     (let is_ready = condition_status data ''Ready'';
          message = unwrap_or [] (condition_message data ''Ready'');
          suspended = bool_at data [''spec'', ''suspend''];
          status = (if suspended then RowWarn else cond_to_status is_ready);
          reason = (if suspended then ''Suspended'' else ready_reason data)
      in ([ready_label is_ready, reason, message], status))"

definition external_secret_cells :: "json \<Rightarrow> cells_of" where
  "external_secret_cells data =
     (let is_ready = condition_status data ''Ready''
      in ([text_at data [''spec'', ''secretStoreRef'', ''kind''], text_at data [''spec'', ''secretStoreRef'', ''name''],
           text_at data [''spec'', ''refreshInterval''], ready_reason data, ready_label is_ready,
           text_at data [''status'', ''refreshTime'']], cond_to_status is_ready))"

definition eso_generic_cells :: "json \<Rightarrow> cells_of" where
  "eso_generic_cells data =
     (let is_ready = condition_status data ''Ready''
      in ([ready_label is_ready, ready_reason data], cond_to_status is_ready))"

definition cluster_external_secret_cells :: "json \<Rightarrow> cells_of" where
  "cluster_external_secret_cells data =
     (case eso_generic_cells data of (cells, status) \<Rightarrow>
        (cells @ [text_at data [''spec'', ''externalSecretSpec'', ''secretStoreRef'', ''name'']], status))"

section \<open>cert-manager\<close>

definition compact_date :: "string option \<Rightarrow> string" where
  "compact_date value = (case Option.bind value (split_once CHR ''T'') of None \<Rightarrow> [] | Some (date, _) \<Rightarrow> date)"

definition certificate_cells :: "project_env \<Rightarrow> json \<Rightarrow> cells_of" where
  "certificate_cells pe data =
     (let is_ready = condition_status data ''Ready'';
          issuing = (condition_status data ''Issuing'' = Some ''True'');
          not_after = str_at data [''status'', ''notAfter''];
          renewal_time = str_at data [''status'', ''renewalTime''];
          expired = (case Option.bind not_after (pe_parse_rfc3339 pe) of None \<Rightarrow> False | Some (expiry, _) \<Rightarrow> expiry \<le> pe_now pe);
          status = (if issuing then RowPending else if expired then RowError else cond_to_status is_ready);
          state = (if issuing then unwrap_or ''Renewing'' (condition_reason data ''Issuing'')
                   else if expired then ''Expired'' else ready_reason data);
          revision = unwrap_or [] (map_option show_int (int_at data [''status'', ''revision'']));
          secret = text_at data [''spec'', ''secretName'']
      in ([ready_label is_ready, state, compact_date not_after, compact_date renewal_time, revision, secret], status))"

definition issuer_cells :: "json \<Rightarrow> cells_of" where
  "issuer_cells data =
     (let is_ready = condition_status data ''Ready''
      in ([ready_label is_ready, ready_reason data], cond_to_status is_ready))"

definition certrequest_cells :: "json \<Rightarrow> cells_of" where
  "certrequest_cells data =
     (let approved = condition_status data ''Approved'';
          denied = condition_status data ''Denied'';
          is_ready = condition_status data ''Ready'';
          issuer = text_at data [''spec'', ''issuerRef'', ''name''];
          status = (if denied = Some ''True'' then RowError else cond_to_status is_ready)
      in ([ready_label approved, ready_label is_ready, issuer], status))"

definition acme_state_cells :: "json \<Rightarrow> cells_of" where
  "acme_state_cells data =
     (let state = text_at data [''status'', ''state''];
          reason = text_at data [''status'', ''reason''];
          st = (if state = ''valid'' then RowOk
                else if state \<in> {''ready'', ''pending'', ''processing''} then RowPending
                else if state \<in> {''invalid'', ''expired'', ''errored''} then RowError
                else RowUnknown)
      in ([state, reason], st))"

section \<open>Rook\<close>

definition phase_status :: "string \<Rightarrow> row_status" where
  "phase_status phase =
     (let p = str_ascii_lower phase in
      if p \<in> {''ready'', ''created'', ''connected'', ''bound''} then RowOk
      else if p \<in> {''creating'', ''connecting'', ''progressing'', ''reconciling''} then RowPending
      else if p = ''degraded'' then RowWarn
      else if p \<in> {''error'', ''failed'', ''failure''} then RowError
      else RowUnknown)"

definition phase_or_state :: "json \<Rightarrow> string" where
  "phase_or_state data = unwrap_or [] (or_else (str_at data [''status'', ''phase'']) (str_at data [''status'', ''state'']))"

definition ceph_cluster_cells :: "json \<Rightarrow> cells_of" where
  "ceph_cluster_cells data =
     (let phase = phase_or_state data;
          health = text_at data [''status'', ''ceph'', ''health''];
          version = unwrap_or [] (or_else (str_at data [''status'', ''version'', ''version''])
             (str_at data [''status'', ''version'', ''image'']));
          message = text_at data [''status'', ''message''];
          status = (if health = ''HEALTH_OK'' then RowOk else if health = ''HEALTH_WARN'' then RowWarn
             else if health = ''HEALTH_ERR'' then RowError else phase_status phase)
      in ([phase, health, version, message], status))"

definition ceph_resource_cells :: "json \<Rightarrow> cells_of" where
  "ceph_resource_cells data =
     (let phase = phase_or_state data in ([phase, text_at data [''status'', ''message'']], phase_status phase))"

definition object_bucket_claim_cells :: "json \<Rightarrow> cells_of" where
  "object_bucket_claim_cells data =
     (let phase = text_at data [''status'', ''phase''];
          storage_class = text_at data [''spec'', ''storageClassName''];
          bucket = unwrap_or [] (or_else (str_at data [''spec'', ''bucketName'']) (str_at data [''status'', ''bucketName'']))
      in ([phase, storage_class, bucket], phase_status phase))"

section \<open>CloudNativePG\<close>

definition replica_status :: "int \<Rightarrow> int \<Rightarrow> row_status" where
  "replica_status ready_n instances = (if instances > 0 \<and> instances \<le> ready_n then RowOk else RowPending)"

definition cluster_phase_status :: "string \<Rightarrow> int \<Rightarrow> int \<Rightarrow> row_status" where
  "cluster_phase_status phase ready_n instances =
     (let p = str_ascii_lower phase in
      if list_ex (str_contains p) [''unrecoverable'', ''invalid'', ''unable to create'', ''plugin rollout failed'', ''unknown state'']
        then RowError
      else if list_ex (str_contains p) [''degraded'', ''upgrade delayed'', ''waiting for user action''] then RowWarn
      else if str_contains p ''healthy'' then replica_status ready_n instances
      else if p = [] then RowUnknown
      else RowPending)"

definition cluster_cells :: "json \<Rightarrow> cells_of" where
  "cluster_cells data =
     (let instances = unwrap_or 1 (or_else (int_at data [''status'', ''instances'']) (int_at data [''spec'', ''instances'']));
          ready_n = status_count data ''readyInstances'';
          primary = text_at data [''status'', ''currentPrimary''];
          phase = text_at data [''status'', ''phase''];
          image = unwrap_or [] (or_else (str_at data [''status'', ''image'']) (str_at data [''spec'', ''imageName'']))
      in ([show_int instances, ratio ready_n instances, primary, phase, image], cluster_phase_status phase ready_n instances))"

definition backup_phase_status :: "string \<Rightarrow> row_status" where
  "backup_phase_status phase =
     (let p = str_ascii_lower phase in
      if p \<in> {''completed'', ''succeeded''} then RowDone
      else if p \<in> {''pending'', ''running'', ''started'', ''finalizing''} then RowPending
      else if p \<in> {''failed'', ''error'', ''walarchivingfailing'', ''invalid backup definition''} then RowError
      else RowUnknown)"

definition backup_cells :: "json \<Rightarrow> cells_of" where
  "backup_cells data =
     (let how = unwrap_or ''barmanObjectStore'' (or_else (str_at data [''status'', ''method'']) (str_at data [''spec'', ''method'']));
          phase = text_at data [''status'', ''phase'']
      in ([text_at data [''spec'', ''cluster'', ''name''], how, phase, text_at data [''status'', ''startedAt''],
           text_at data [''status'', ''stoppedAt'']], backup_phase_status phase))"

definition scheduled_backup_cells :: "project_env \<Rightarrow> json \<Rightarrow> cells_of" where
  "scheduled_backup_cells pe data =
     (let suspended = bool_at data [''spec'', ''suspend''];
          last_schedule = text_at data [''status'', ''lastScheduleTime''];
          next_schedule = text_at data [''status'', ''nextScheduleTime''];
          error = text_at data [''status'', ''error''];
          missed = (case pe_parse_rfc3339 pe next_schedule of None \<Rightarrow> False | Some (t, _) \<Rightarrow> t < pe_now pe);
          status = (if error \<noteq> [] then RowError else if suspended \<or> missed then RowWarn
             else if last_schedule = [] \<and> next_schedule = [] then RowPending else RowOk)
      in ([text_at data [''spec'', ''cluster'', ''name''], text_at data [''spec'', ''schedule''], show_bool suspended,
           last_schedule, next_schedule, error], status))"

definition pooler_cells :: "json \<Rightarrow> cells_of" where
  "pooler_cells data =
     (let desired = unwrap_or 1 (int_at data [''spec'', ''instances'']);
          reported = int_at data [''status'', ''instances''];
          phase = text_at data [''status'', ''phase''];
          reason = unwrap_or [] (or_else (str_at data [''status'', ''phaseReason'']) (str_at data [''status'', ''error'']));
          p = str_ascii_lower phase;
          status = (if p = ''active'' then (case reported of Some r \<Rightarrow> if r < desired then RowPending else RowOk | None \<Rightarrow> RowOk)
             else if p = ''paused'' then RowWarn else if p = ''inactive'' then RowPending
             else if p = ''failed'' then RowError else RowUnknown)
      in ([text_at data [''spec'', ''cluster'', ''name''], text_at data [''spec'', ''type''],
           show_int (unwrap_or desired reported), phase, reason], status))"

section \<open>Kopiur\<close>

record row_health =
  he_status :: row_status
  he_state :: string
  he_message :: string

definition row_health_of :: "row_status \<Rightarrow> string \<Rightarrow> string \<Rightarrow> row_health" where
  "row_health_of status state message = \<lparr>he_status = status, he_state = state, he_message = message\<rparr>"

text \<open>The last condition of a type, whatever generation it was observed at.\<close>

definition raw_condition :: "json \<Rightarrow> string \<Rightarrow> json option" where
  "raw_condition data ty =
     Option.bind (array_at data [''status'', ''conditions'']) (\<lambda>cs. List.find (has_type ty) (rev cs))"

definition condition_health :: "json \<Rightarrow> string \<Rightarrow> row_status \<Rightarrow> row_health" where
  "condition_health data ty status =
     row_health_of status (unwrap_or ty (condition_reason data ty)) (unwrap_or [] (condition_message data ty))"

definition raw_condition_health :: "json \<Rightarrow> string \<Rightarrow> row_status \<Rightarrow> row_health" where
  "raw_condition_health data ty status =
     (let c = raw_condition data ty in
      row_health_of status (unwrap_or ty (Option.bind c (\<lambda>v. str_at v [''reason''])))
        (unwrap_or [] (Option.bind c (\<lambda>v. str_at v [''message'']))))"

definition verification_enabled :: "json \<Rightarrow> bool" where
  "verification_enabled data =
     list_ex (\<lambda>path. case jpointer data path of None \<Rightarrow> False | Some v \<Rightarrow> v \<noteq> JNull)
       [[''spec'', ''verification'', ''quick'', ''schedule''], [''spec'', ''verification'', ''deep'']]"

definition recorded_verification_failed :: "json \<Rightarrow> bool" where
  "recorded_verification_failed data \<longleftrightarrow>
     Option.bind (raw_condition data ''Verified'') (\<lambda>c. str_at c [''status'']) = Some ''False''"

definition ready_health :: "json \<Rightarrow> row_health" where
  "ready_health data =
     (let status = (case condition_status data ''Ready'' of
            Some v \<Rightarrow> if v = ''True'' then RowOk else if v = ''False'' then RowError else RowPending
          | None \<Rightarrow> generic_status data);
          state = unwrap_or (unwrap_or (phase_or_state data) (condition_status data ''Ready'')) (condition_reason data ''Ready'')
      in row_health_of status state (unwrap_or [] (condition_message data ''Ready'')))"

definition policy_health :: "json \<Rightarrow> bool \<Rightarrow> bool \<Rightarrow> row_health" where
  "policy_health data suspended never_verified =
     (if status_generation_is_stale data then row_health_of RowPending ''Reconciling'' ''Status is stale''
      else if condition_is data ''Stalled'' ''True'' then condition_health data ''Stalled'' RowError
      else if condition_is data ''RepositoriesReady'' ''False'' then condition_health data ''RepositoriesReady'' RowWarn
      else if condition_is data ''ScratchStorageClassIgnored'' ''True''
        then condition_health data ''ScratchStorageClassIgnored'' RowWarn
      else if verification_enabled data \<and> recorded_verification_failed data then raw_condition_health data ''Verified'' RowWarn
      else if suspended then row_health_of RowWarn ''Suspended'' ''Backup policy is suspended''
      else if condition_is data ''Reconciling'' ''True'' then condition_health data ''Reconciling'' RowPending
      else if verification_enabled data \<and> never_verified \<and> condition_status data ''Ready'' = Some ''True''
        then row_health_of RowPending ''AwaitingVerification'' ''No successful verification recorded''
      else ready_health data)"

definition schedule_health :: "json \<Rightarrow> bool \<Rightarrow> row_health" where
  "schedule_health data suspended =
     (if status_generation_is_stale data then row_health_of RowPending ''Reconciling'' ''Status is stale''
      else if condition_is data ''Stalled'' ''True'' then condition_health data ''Stalled'' RowError
      else if condition_is data ''ScheduleRunnable'' ''False'' then condition_health data ''ScheduleRunnable'' RowError
      else if condition_is data ''FanoutCapped'' ''True'' then condition_health data ''FanoutCapped'' RowError
      else if suspended then row_health_of RowWarn ''Suspended'' ''Backup schedule is suspended''
      else if condition_is data ''TimezoneDefaultAmbiguous'' ''True''
        then condition_health data ''TimezoneDefaultAmbiguous'' RowWarn
      else if condition_is data ''ReplacementHeld'' ''True'' then condition_health data ''ReplacementHeld'' RowPending
      else if condition_is data ''Reconciling'' ''True'' then condition_health data ''Reconciling'' RowPending
      else ready_health data)"

definition snapshot_health :: "json \<Rightarrow> string \<Rightarrow> row_health" where
  "snapshot_health data phase =
     (if status_generation_is_stale data then row_health_of RowPending phase ''Status is stale''
      else case List.find (\<lambda>ty. condition_is data ty ''True'') [''Stalled'', ''Failed'', ''Failure'', ''Error''] of
        Some ty \<Rightarrow> condition_health data ty RowError
      | None \<Rightarrow>
          if str_ascii_lower phase = ''failed''
             \<or> (case jpointer data [''status'', ''failure''] of None \<Rightarrow> False | Some v \<Rightarrow> v \<noteq> JNull)
            then row_health_of RowError phase (text_at data [''status'', ''failure'', ''message''])
          else if unwrap_or 0 (int_at data [''status'', ''stats'', ''filesFailed'']) > 0
            then row_health_of RowWarn phase ''Snapshot completed with unreadable files''
          else if condition_is data ''SecurityContextCompatible'' ''False''
            then condition_health data ''SecurityContextCompatible'' RowWarn
          else if condition_is data ''Degraded'' ''True'' then condition_health data ''Degraded'' RowWarn
          else let p = str_ascii_lower phase;
                   status = (if p \<in> {''succeeded'', ''discovered'', ''unchanged''} then RowDone
                      else if p \<in> {''pending'', ''running'', ''deleting''} then RowPending
                      else if p = ''failed'' then RowError
                      else if p = [] then generic_status data else RowPending)
               in row_health_of status phase (unwrap_or [] (condition_message data ''Reconciling'')))"

definition repository_names :: "json \<Rightarrow> string" where
  "repository_names data = join_with '', '' (names_in data [''spec'', ''repositories''] ''name'')"

definition snapshot_policy_cells :: "json \<Rightarrow> cells_of" where
  "snapshot_policy_cells data =
     (let last_verified = text_at data [''status'', ''lastVerified''];
          suspended = bool_at data [''spec'', ''suspend''];
          health = policy_health data suspended (last_verified = [])
      in ([text_at data [''spec'', ''repository'', ''name''],
           unwrap_or (repository_names data) (str_at data [''status'', ''repositorySummary'']),
           text_at data [''status'', ''lastSuccessfulSnapshot''], last_verified, show_bool suspended,
           he_state health, he_message health], he_status health))"

definition snapshot_schedule_cells :: "json \<Rightarrow> cells_of" where
  "snapshot_schedule_cells data =
     (let suspended = bool_at data [''spec'', ''schedule'', ''suspend''];
          health = schedule_health data suspended
      in ([unwrap_or ''selector'' (str_at data [''spec'', ''policyRef'', ''name'']),
           text_at data [''spec'', ''schedule'', ''cron''], show_bool suspended,
           text_at data [''status'', ''lastSchedule'', ''at''], text_at data [''status'', ''lastSuccessfulSchedule'', ''at''],
           text_at data [''status'', ''nextSchedule'', ''at''], he_state health, he_message health], he_status health))"

definition snapshot_cells :: "json \<Rightarrow> cells_of" where
  "snapshot_cells data =
     (let phase = text_at data [''status'', ''phase''];
          health = snapshot_health data phase
      in ([phase, text_at data [''status'', ''origin''], text_at data [''status'', ''snapshot'', ''kopiaSnapshotID''],
           text_at data [''spec'', ''source'', ''target'', ''pvc'', ''name''], text_at data [''status'', ''timing'', ''endTime''],
           he_message health], he_status health))"

section \<open>Prometheus\<close>

definition i64_max :: int where
  "i64_max = 2 ^ 63 - 1"

definition readiness_desired :: "json \<Rightarrow> bool \<Rightarrow> int" where
  "readiness_desired data sharded =
     (if sharded \<and> str_at data [''spec'', ''mode''] = Some ''DaemonSet'' then max (status_count data ''replicas'') 0
      else let replicas = max (unwrap_or 1 (int_at data [''spec'', ''replicas''])) 0;
               shards = (if sharded then max (unwrap_or 1 (int_at data [''spec'', ''shards''])) 0 else 1)
           in min (replicas * shards) i64_max)"

definition condition_value :: "json \<Rightarrow> string \<Rightarrow> string" where
  "condition_value data ty = unwrap_or ''-'' (condition_status data ty)"

definition has_stale_condition :: "json \<Rightarrow> string \<Rightarrow> bool" where
  "has_stale_condition data ty \<longleftrightarrow> current_condition data ty = None
     \<and> list_ex (has_type ty) (unwrap_or [] (array_at data [''status'', ''conditions'']))"

definition readiness_status :: "json \<Rightarrow> int \<Rightarrow> int \<Rightarrow> int option \<Rightarrow> int option \<Rightarrow> bool \<Rightarrow> row_status" where
  "readiness_status data desired ready_n replicas updated paused =
     (let reconciled = condition_value data ''Reconciled''; available = condition_value data ''Available'' in
      if paused then RowWarn
      else if status_generation_is_stale data \<or> has_stale_condition data ''Reconciled''
        \<or> has_stale_condition data ''Available'' then RowPending
      else if reconciled = ''False'' then RowError
      else if reconciled = ''Unknown'' then RowPending
      else if available = ''False'' then RowError
      else if available = ''Degraded'' then RowWarn
      else if available = ''Unknown'' then RowPending
      else if (case Option.bind (jget data ''status'') as_object of Some (e # es) \<Rightarrow> False | _ \<Rightarrow> True) then RowUnknown
      else if ready_n = desired \<and> unwrap_or desired replicas = desired \<and> unwrap_or desired updated = desired then RowOk
      else RowPending)"

definition readiness_cells :: "json \<Rightarrow> bool \<Rightarrow> cells_of" where
  "readiness_cells data sharded =
     (let desired = readiness_desired data sharded;
          ready_n = status_count data ''availableReplicas'';
          paused = unwrap_or False (or_else (Option.bind (jpointer data [''status'', ''paused'']) as_bool)
             (Option.bind (jpointer data [''spec'', ''paused'']) as_bool))
      in ([text_at data [''spec'', ''version''], show_int desired, ratio ready_n desired, condition_value data ''Reconciled'',
           condition_value data ''Available'', show_bool paused],
          readiness_status data desired ready_n (int_at data [''status'', ''replicas''])
            (int_at data [''status'', ''updatedReplicas'']) paused))"

definition prometheus_cells :: "json \<Rightarrow> cells_of" where
  "prometheus_cells data = readiness_cells data True"

definition prometheus_agent_cells :: "json \<Rightarrow> cells_of" where
  "prometheus_agent_cells data = readiness_cells data True"

definition alertmanager_cells :: "json \<Rightarrow> cells_of" where
  "alertmanager_cells data = readiness_cells data False"

definition thanos_ruler_cells :: "json \<Rightarrow> cells_of" where
  "thanos_ruler_cells data = readiness_cells data False"

section \<open>Gateway API\<close>

text \<open>The two conditions of one parent in turn, then the next parent; \<open>accepted\<close> is whether one was
  accepted so far.  The first that does not hold decides.\<close>

fun route_conditions :: "json list \<Rightarrow> int option \<Rightarrow> string list \<Rightarrow> bool \<Rightarrow> (string \<times> row_status) + bool" where
  "route_conditions conditions generation [] accepted = Inr accepted"
| "route_conditions conditions generation (ty # tys) accepted =
     (case current_condition_from conditions generation ty of
        None \<Rightarrow> route_conditions conditions generation tys accepted
      | Some c \<Rightarrow>
          let status = text_at c [''status'']; message = text_at c [''message''] in
          if status \<noteq> ''True'' then Inl (message, if status = ''False'' then RowError else RowPending)
          else route_conditions conditions generation tys (accepted \<or> ty = ''Accepted''))"

fun route_parents :: "json list \<Rightarrow> int option \<Rightarrow> bool \<Rightarrow> string \<times> row_status" where
  "route_parents [] generation accepted = (if accepted then (''Accepted'', RowOk) else ([], RowUnknown))"
| "route_parents (p # ps) generation accepted =
     (case array_at p [''conditions''] of
        None \<Rightarrow> route_parents ps generation accepted
      | Some conditions \<Rightarrow>
          (case route_conditions conditions generation [''Accepted'', ''ResolvedRefs''] accepted of
             Inl verdict \<Rightarrow> verdict
           | Inr accepted' \<Rightarrow> route_parents ps generation accepted'))"

definition httproute_status :: "json \<Rightarrow> string \<times> row_status" where
  "httproute_status data = (case array_at data [''status'', ''parents''] of
     None \<Rightarrow> ([], RowUnknown)
   | Some parents \<Rightarrow> route_parents parents (int_at data [''metadata'', ''generation'']) False)"

definition httproute_cells :: "json \<Rightarrow> cells_of" where
  "httproute_cells data =
     (let hostnames = join_with newline
            (sort (List.map_filter as_str (unwrap_or [] (array_at data [''spec'', ''hostnames'']))));
          gateways = join_with newline (names_in data [''spec'', ''parentRefs''] ''name'')
      in case httproute_status data of (msg, st) \<Rightarrow> ([hostnames, gateways, msg], st))"

definition parent_route_cells :: "json \<Rightarrow> cells_of" where
  "parent_route_cells data = (case httproute_cells data of (cells, status) \<Rightarrow> (drop 1 cells, status))"

definition gateway_cells :: "json \<Rightarrow> cells_of" where
  "gateway_cells data =
     (let programmed = condition_status data ''Programmed''
      in ([text_at data [''spec'', ''gatewayClassName''],
           join_with newline (names_in data [''status'', ''addresses''] ''value''), ready_label programmed],
          cond_to_status programmed))"

definition gatewayclass_cells :: "json \<Rightarrow> cells_of" where
  "gatewayclass_cells data =
     (let accepted = condition_status data ''Accepted''
      in ([text_at data [''spec'', ''controllerName''], ready_label accepted], cond_to_status accepted))"

end
