(* ===== verification/ProjectPods.thy ===== *)
theory ProjectPods
  imports ProjectCore
begin

text \<open>
  The projector of pods, \<open>crates/k8s/src/project/pods.rs\<close>: readiness, the status kubectl would show,
  restarts, and live usage against requests and limits.
\<close>

section \<open>Resources\<close>

definition container_quantity :: "f64_ops \<Rightarrow> (f64_ops \<Rightarrow> string \<Rightarrow> f64) \<Rightarrow> json \<Rightarrow> string \<Rightarrow> string \<Rightarrow> f64" where
  "container_quantity fo parse c which key =
     (case str_at c [''resources'', which, key] of Some s \<Rightarrow> parse fo s | None \<Rightarrow> fo_lit fo ''0.0'')"

definition add_container :: "f64_ops \<Rightarrow> json \<Rightarrow> (f64 \<times> f64) \<times> (f64 \<times> f64) \<Rightarrow> (f64 \<times> f64) \<times> (f64 \<times> f64)" where
  "add_container fo c acc = (case acc of ((cr, cl), (mr, ml)) \<Rightarrow>
     ((fo_add fo cr (container_quantity fo parse_cpu c ''requests'' ''cpu''),
       fo_add fo cl (container_quantity fo parse_cpu c ''limits'' ''cpu'')),
      (fo_add fo mr (container_quantity fo parse_mem c ''requests'' ''memory''),
       fo_add fo ml (container_quantity fo parse_mem c ''limits'' ''memory''))))"

definition pod_resources :: "f64_ops \<Rightarrow> json \<Rightarrow> (f64 \<times> f64) \<times> (f64 \<times> f64)" where
  "pod_resources fo data =
     (let zero = fo_lit fo ''0.0'' in
      fold (add_container fo) (unwrap_or [] (array_at data [''spec'', ''containers''])) ((zero, zero), (zero, zero)))"

section \<open>Init containers\<close>

definition is_restartable_init :: "json \<Rightarrow> json \<Rightarrow> bool" where
  "is_restartable_init data status = (case str_at status [''name''] of
     None \<Rightarrow> False
   | Some nm \<Rightarrow> list_ex (\<lambda>c. str_at c [''name''] = Some nm \<and> str_at c [''restartPolicy''] = Some ''Always'')
       (unwrap_or [] (array_at data [''spec'', ''initContainers''])))"

definition started :: "json \<Rightarrow> bool" where
  "started status \<longleftrightarrow> Option.bind (jget status ''started'') as_bool = Some True"

fun init_loop :: "json \<Rightarrow> nat \<Rightarrow> nat \<Rightarrow> json list \<Rightarrow> string option" where
  "init_loop data n i [] = None"
| "init_loop data n i (c # cs) =
     (case jpointer c [''state'', ''terminated''] of
        Some t \<Rightarrow>
          (let exit_code = unwrap_or 0 (int_at t [''exitCode'']);
               reason = text_at t [''reason''];
               signal = unwrap_or 0 (int_at t [''signal''])
           in if exit_code = 0 then init_loop data n (Suc i) cs
              else if reason \<noteq> [] then Some (''Init:'' @ reason)
              else Some (if signal \<noteq> 0 then ''Init:Signal:'' @ show_int signal else ''Init:ExitCode:'' @ show_int exit_code))
      | None \<Rightarrow>
          (let waiting = (case jpointer c [''state'', ''waiting''] of None \<Rightarrow> [] | Some w \<Rightarrow> text_at w [''reason''])
           in if waiting \<noteq> [] \<and> waiting \<noteq> ''PodInitializing'' then Some (''Init:'' @ waiting)
              else if is_restartable_init data c \<and> started c then init_loop data n (Suc i) cs
              else Some (''Init:'' @ show_nat i @ ''/'' @ show_nat n)))"

definition init_status :: "json \<Rightarrow> string option" where
  "init_status data = (case array_at data [''status'', ''initContainerStatuses''] of
     None \<Rightarrow> None
   | Some inits \<Rightarrow> init_loop data
       (unwrap_or (length inits) (map_option length (array_at data [''spec'', ''initContainers'']))) 0 inits)"

definition initialized :: "json \<Rightarrow> bool" where
  "initialized data = condition_is data ''Initialized'' ''True''"

definition init_container_complete :: "json \<Rightarrow> json \<Rightarrow> bool" where
  "init_container_complete data status \<longleftrightarrow>
     int_at status [''state'', ''terminated'', ''exitCode''] = Some 0
     \<or> is_restartable_init data status \<and> started status"

section \<open>Restarts\<close>

definition i64_wrap :: "int \<Rightarrow> int" where
  "i64_wrap n = (n + 2 ^ 63) mod 2 ^ 64 - 2 ^ 63"

fun upto_incomplete :: "json \<Rightarrow> json list \<Rightarrow> json list" where
  "upto_incomplete data [] = []"
| "upto_incomplete data (c # cs) = (if init_container_complete data c then c # upto_incomplete data cs else [c])"

definition add_restarts :: "project_env \<Rightarrow> json \<Rightarrow> int \<times> (int \<times> int) option \<Rightarrow> int \<times> (int \<times> int) option" where
  "add_restarts pe status acc = (case acc of (count, latest) \<Rightarrow>
     let restarts = unwrap_or 0 (int_at status [''restartCount'']);
         finished = Option.bind (str_at status [''lastState'', ''terminated'', ''finishedAt'']) (pe_parse_rfc3339 pe)
     in (i64_wrap (count + restarts),
         if restarts = 0 then latest
         else case finished of
             None \<Rightarrow> latest
           | Some t \<Rightarrow> (case latest of None \<Rightarrow> Some t | Some now \<Rightarrow> if fst now < fst t then Some t else latest)))"

definition restart_info :: "project_env \<Rightarrow> json \<Rightarrow> int \<times> (int \<times> int) option" where
  "restart_info pe data =
     (let containers = unwrap_or [] (array_at data [''status'', ''containerStatuses'']);
          inits = unwrap_or [] (array_at data [''status'', ''initContainerStatuses'']);
          statuses = (if init_status data \<noteq> None \<and> \<not> initialized data then upto_incomplete data inits
                      else filter (is_restartable_init data) inits @ containers)
      in fold (add_restarts pe) statuses (0, None))"

section \<open>Status\<close>

definition terminated_reason :: "json \<Rightarrow> string" where
  "terminated_reason t =
     (let reason = text_at t [''reason'']; signal = unwrap_or 0 (int_at t [''signal'']);
          exit_code = unwrap_or 0 (int_at t [''exitCode''])
      in if reason \<noteq> [] then reason else if signal \<noteq> 0 then ''Signal:'' @ show_int signal
         else if exit_code = 0 then ''Completed'' else ''Error'')"

definition is_ready_container :: "json \<Rightarrow> bool" where
  "is_ready_container c \<longleftrightarrow> Option.bind (jget c ''ready'') as_bool = Some True"

definition container_reason :: "json \<Rightarrow> string \<Rightarrow> string" where
  "container_reason c reason =
     (case jpointer c [''state'', ''waiting''] of
        Some w \<Rightarrow> (let r = text_at w [''reason''] in if r \<noteq> [] then r else reason)
      | None \<Rightarrow>
          (case jpointer c [''state'', ''terminated''] of
             Some t \<Rightarrow> terminated_reason t
           | None \<Rightarrow>
               if \<not> is_ready_container c
               then (case jpointer c [''lastState'', ''terminated''] of
                       Some lt \<Rightarrow> if unwrap_or 0 (int_at lt [''exitCode'']) \<noteq> 0 then terminated_reason lt else reason
                     | None \<Rightarrow> reason)
               else reason))"

definition pod_reason :: "json \<Rightarrow> bool \<Rightarrow> string" where
  "pod_reason data deleting =
     (if deleting then ''Terminating''
      else case init_status data of
        Some init \<Rightarrow> init
      | None \<Rightarrow> fold container_reason (unwrap_or [] (array_at data [''status'', ''containerStatuses'']))
          (unwrap_or (text_at data [''status'', ''phase'']) (nonempty (str_at data [''status'', ''reason'']))))"

definition red_reasons :: "string list" where
  "red_reasons = [''Error'', ''Failed'', ''CrashLoopBackOff'', ''ImagePullBackOff'', ''ErrImagePull'', ''ImageInspectError'',
     ''InvalidImageName'', ''CreateContainerError'', ''CreateContainerConfigError'', ''RunContainerError'', ''OOMKilled'',
     ''ContainerStatusUnknown'', ''NodeLost'', ''Evicted'', ''DeadlineExceeded'']"

definition pod_row_status :: "string \<Rightarrow> string \<Rightarrow> nat \<Rightarrow> nat \<Rightarrow> bool \<Rightarrow> row_status" where
  "pod_row_status reason phase ready_n n deleting =
     (let bare = unwrap_or reason (strip_prefix ''Init:'' reason) in
      if deleting then RowWarn
      else if bare \<in> set red_reasons \<or> starts_with bare ''Signal:'' \<or> starts_with bare ''ExitCode:'' then RowError
      else if reason = ''Completed'' \<or> phase = ''Succeeded'' then RowDone
      else if (reason = ''Running'' \<or> phase = ''Running'') \<and> n > 0 \<and> ready_n = n then RowOk
      else RowWarn)"

section \<open>Cells\<close>

definition pod_totals :: "json \<Rightarrow> nat \<times> nat" where
  "pod_totals data =
     (let statuses = array_at data [''status'', ''containerStatuses''];
          sidecars = filter (is_restartable_init data) (unwrap_or [] (array_at data [''status'', ''initContainerStatuses'']));
          regular = (case array_at data [''spec'', ''containers''] of
             Some cs \<Rightarrow> length cs | None \<Rightarrow> (case statuses of Some ss \<Rightarrow> length ss | None \<Rightarrow> 0));
          sidecar = length (filter (\<lambda>c. str_at c [''restartPolicy''] = Some ''Always'')
             (unwrap_or [] (array_at data [''spec'', ''initContainers''])));
          ready_n = length (filter is_ready_container (unwrap_or [] statuses))
             + length (filter (\<lambda>c. started c \<and> is_ready_container c) sidecars)
      in (ready_n, regular + sidecar))"

definition unit_separator :: string where
  "unit_separator = [CHR 0x1F]"

definition restarts_cell :: "project_env \<Rightarrow> json \<Rightarrow> string" where
  "restarts_cell pe data = (case restart_info pe data of (restarts, latest) \<Rightarrow>
     if restarts > 0 then (case latest of
        Some t \<Rightarrow> show_int restarts @ unit_separator @ pe_format_rfc3339 pe t
      | None \<Rightarrow> show_int restarts)
     else ''0'')"

definition percent_cell :: "f64_ops \<Rightarrow> f64 option \<Rightarrow> f64 \<Rightarrow> string" where
  "percent_cell fo used base = (case used of
     Some u \<Rightarrow> if fo_less fo (fo_lit fo ''0.0'') base
        then show_int (fo_round_i64 fo (fo_mul fo (fo_div fo u base) (fo_lit fo ''100.0''))) else ''n/a''
   | None \<Rightarrow> ''n/a'')"

definition trend_of_usage :: "(usage_entry \<Rightarrow> trend) \<Rightarrow> usage_entry option \<Rightarrow> trend" where
  "trend_of_usage f usage = (case usage of None \<Rightarrow> TrendNone | Some e \<Rightarrow> if has_prev e then f e else TrendNone)"

definition pod_cells :: "project_env \<Rightarrow> json \<Rightarrow> bool \<Rightarrow> usage_entry option \<Rightarrow> string list \<times> trend list \<times> row_status" where
  "pod_cells pe data deleting usage =
     (let fo = pe_f64 pe;
          zero = fo_lit fo ''0.0'';
          (ready_n, n) = pod_totals data;
          phase = text_at data [''status'', ''phase''];
          reason = pod_reason data deleting;
          ((cpu_r, cpu_l), (mem_r, mem_l)) = pod_resources fo data;
          cpu_trend = trend_of_usage (trend_cpu fo) usage;
          mem_trend = trend_of_usage (trend_mem fo) usage;
          cpu_used = map_option ue_cpu usage;
          mem_used = map_option ue_mem usage;
          cpu_cell = unwrap_or ''n/a'' (map_option (\<lambda>c. show_int (fo_round_i64 fo (fo_mul fo c (fo_lit fo ''1000.0'')))) cpu_used);
          mem_cell = unwrap_or ''n/a''
             (map_option (\<lambda>m. show_int (fo_round_i64 fo (fo_div fo m (fo_mul fo (kibi fo) (kibi fo))))) mem_used);
          when = (\<lambda>base t. if fo_less fo zero base then t else TrendNone)
      in ([show_nat ready_n @ ''/'' @ show_nat n, reason, restarts_cell pe data, cpu_cell, percent_cell fo cpu_used cpu_r,
           percent_cell fo cpu_used cpu_l, mem_cell, percent_cell fo mem_used mem_r, percent_cell fo mem_used mem_l,
           text_at data [''status'', ''podIP''], text_at data [''spec'', ''nodeName'']],
          [TrendNone, TrendNone, TrendNone, cpu_trend, when cpu_r cpu_trend, when cpu_l cpu_trend, mem_trend,
           when mem_r mem_trend, when mem_l mem_trend, TrendNone, TrendNone],
          pod_row_status reason phase ready_n n deleting))"

end
