(* ===== verification/Table.thy ===== *)
theory Table
  imports ProjectCrd ProjectPods
begin

text \<open>
  The Table responses of \<open>crates/k8s/src/table.rs\<close>, and \<open>crates/k8s/src/project/mod.rs\<close>: the view of
  each kind, the layout that merges the API server's columns with the server's own, the projection of a
  row and its reprojection when usage or time changes.
\<close>

section \<open>Table responses\<close>

record column_definition =
  cd_name :: string
  cd_priority :: int

record table_row =
  tr_cells :: "json list"
  tr_object :: "dyn_object option"

record table =
  tb_kind :: string
  tb_resource_version :: string
  tb_continue :: string
  tb_columns :: "column_definition list"
  tb_rows :: "table_row list"

record table_status =
  ts_message :: string
  ts_code :: nat

datatype table_watch_event =
    TAdded table
  | TModified table
  | TDeleted table
  | TBookmark table
  | TError table_status

text \<open>\<open>Table::resource_version\<close>.\<close>

definition table_version :: "table \<Rightarrow> string option" where
  "table_version t = (if tb_resource_version t \<noteq> [] then Some (tb_resource_version t)
     else find_map dy_resource_version (List.map_filter tr_object (tb_rows t)))"

text \<open>A request error, with the texts of its source chain.\<close>

datatype table_error =
    TeBuild "string list"
  | TeUri "string list"
  | TeApi nat "string list"
  | TeClient "string list"
  | TeIo "string list"
  | TeJson "string list"

fun te_chain :: "table_error \<Rightarrow> string list" where
  "te_chain (TeBuild c) = c" | "te_chain (TeUri c) = c" | "te_chain (TeApi _ c) = c"
| "te_chain (TeClient c) = c" | "te_chain (TeIo c) = c" | "te_chain (TeJson c) = c"

fun te_text :: "table_error \<Rightarrow> string" where
  "te_text e = (case te_chain e of [] \<Rightarrow> [] | m # _ \<Rightarrow> m)"

fun te_status_code :: "table_error \<Rightarrow> nat option" where
  "te_status_code (TeApi c _) = Some c"
| "te_status_code _ = None"

definition te_is_permanent :: "table_error \<Rightarrow> bool" where
  "te_is_permanent e \<longleftrightarrow>
     (case e of TeBuild _ \<Rightarrow> True | TeUri _ \<Rightarrow> True | TeJson _ \<Rightarrow> True | _ \<Rightarrow> False)
     \<or> (case te_status_code e of None \<Rightarrow> False | Some c \<Rightarrow> 400 \<le> c \<and> c < 500 \<and> c \<noteq> 401 \<and> c \<noteq> 403)"

section \<open>The server's own columns\<close>

text \<open>The view of a kind: the headers of its own columns, how their cells are projected, and whether they take
  the place of the columns of a custom resource.  The arms of \<open>explicit_view\<close> are in three parts: first the
  workloads to the object buckets, then the operators' kinds, then storage, networking and policy.\<close>

datatype projector =
    Plain "project_env \<Rightarrow> json \<Rightarrow> cells_of"
  | PodProject
  | PvcProject

record kind_view =
  kv_headers :: "string list"
  kv_project :: projector
  kv_custom :: bool

definition view_of :: "string list \<Rightarrow> projector \<Rightarrow> kind_view" where
  "view_of headers project = \<lparr>kv_headers = headers, kv_project = project, kv_custom = False\<rparr>"

definition custom_view_of :: "string list \<Rightarrow> projector \<Rightarrow> kind_view" where
  "custom_view_of headers project = \<lparr>kv_headers = headers, kv_project = project, kv_custom = True\<rparr>"

definition other_view :: "string \<Rightarrow> string \<Rightarrow> kind_view option" where
  "other_view grp kind =
     (if grp = [] \<and> kind = ''PersistentVolume''
        then Some (view_of [''Capacity'', ''Access'', ''Reclaim'', ''Status'', ''Claim'', ''StorageClass'']
            (Plain (\<lambda>_. pv_cells)))
      else if grp = ''storage.k8s.io'' \<and> kind = ''StorageClass''
        then Some (view_of [''Provisioner'', ''Reclaim'', ''Binding Mode'', ''Expandable''] (Plain (\<lambda>_.
            storageclass_cells)))
      else if grp = ''storage.k8s.io'' \<and> kind = ''VolumeAttachment''
        then Some (view_of [''Attacher'', ''PV'', ''Node'', ''Attached'', ''Attach Error'', ''Detach Error'']
            (Plain (\<lambda>_. volumeattachment_cells)))
      else if grp = [] \<and> kind = ''Secret''
        then Some (view_of [''Type'', ''Data''] (Plain (\<lambda>_. secret_cells)))
      else if grp = [] \<and> kind = ''ConfigMap''
        then Some (view_of [''Data''] (Plain (\<lambda>_. configmap_cells)))
      else if grp = [] \<and> kind = ''Event''
        then Some (view_of [''Last Seen'', ''Type'', ''Reason'', ''Object'', ''Message''] (Plain (\<lambda>_.
            event_cells)))
      else if grp = [] \<and> kind = ''Endpoints''
        then Some (view_of [''Endpoints''] (Plain (\<lambda>_. endpoints_cells)))
      else if grp = ''discovery.k8s.io'' \<and> kind = ''EndpointSlice''
        then Some (view_of [''Address Type'', ''Endpoints'', ''Ports''] (Plain (\<lambda>_.
            endpointslice_cells)))
      else if grp = ''networking.k8s.io'' \<and> kind = ''Ingress''
        then Some (view_of [''Class'', ''Hosts'', ''Address''] (Plain (\<lambda>_. ingress_cells)))
      else if grp = ''autoscaling'' \<and> kind = ''HorizontalPodAutoscaler''
        then Some (view_of [''Reference'', ''Targets'', ''Min'', ''Max'', ''Replicas''] (Plain (\<lambda>_.
            hpa_cells)))
      else if grp = ''policy'' \<and> kind = ''PodDisruptionBudget''
        then Some (view_of [''Min Available'', ''Max Unavailable'', ''Allowed''] (Plain (\<lambda>_.
            pdb_cells)))
      else if grp = ''rbac.authorization.k8s.io'' \<and> kind = ''RoleBinding'' \<or> grp =
          ''rbac.authorization.k8s.io'' \<and> kind = ''ClusterRoleBinding''
        then Some (view_of [''Role''] (Plain (\<lambda>_. rolebinding_cells)))
      else None)"

definition operator_view :: "string \<Rightarrow> string \<Rightarrow> kind_view option" where
  "operator_view grp kind =
     (if grp = ''postgresql.cnpg.io'' \<and> kind = ''Cluster''
        then Some (custom_view_of [''Instances'', ''Ready'', ''Primary'', ''Phase'', ''Image''] (Plain
            (\<lambda>_. cluster_cells)))
      else if grp = ''postgresql.cnpg.io'' \<and> kind = ''Backup''
        then Some (custom_view_of [''Cluster'', ''Method'', ''Phase'', ''Started'', ''Completed''] (Plain
            (\<lambda>_. backup_cells)))
      else if grp = ''postgresql.cnpg.io'' \<and> kind = ''ScheduledBackup''
        then Some (custom_view_of [''Cluster'', ''Schedule'', ''Suspended'', ''Last Schedule'',
            ''Next Schedule'', ''Error''] (Plain scheduled_backup_cells))
      else if grp = ''postgresql.cnpg.io'' \<and> kind = ''Pooler''
        then Some (custom_view_of [''Cluster'', ''Type'', ''Instances'', ''Phase'', ''Reason''] (Plain
            (\<lambda>_. pooler_cells)))
      else if grp = ''kopiur.home-operations.com'' \<and> kind = ''SnapshotPolicy''
        then Some (custom_view_of [''Repository'', ''Repositories'', ''Last Snapshot'', ''Last Verified'',
            ''Suspended'', ''Status'', ''Message''] (Plain (\<lambda>_. snapshot_policy_cells)))
      else if grp = ''kopiur.home-operations.com'' \<and> kind = ''SnapshotSchedule''
        then Some (custom_view_of [''Config'', ''Schedule'', ''Suspended'', ''Last Schedule'',
            ''Last Success'', ''Next Schedule'', ''Status'', ''Message''] (Plain (\<lambda>_.
            snapshot_schedule_cells)))
      else if grp = ''kopiur.home-operations.com'' \<and> kind = ''Snapshot''
        then Some (custom_view_of [''Phase'', ''Origin'', ''Snapshot'', ''Source'', ''Completed'', ''Message'']
            (Plain (\<lambda>_. snapshot_cells)))
      else if grp = ''monitoring.coreos.com'' \<and> kind = ''Prometheus''
        then Some (custom_view_of [''Version'', ''Desired'', ''Ready'', ''Reconciled'', ''Available'',
            ''Paused''] (Plain (\<lambda>_. prometheus_cells)))
      else if grp = ''monitoring.coreos.com'' \<and> kind = ''PrometheusAgent''
        then Some (custom_view_of [''Version'', ''Desired'', ''Ready'', ''Reconciled'', ''Available'',
            ''Paused''] (Plain (\<lambda>_. prometheus_agent_cells)))
      else if grp = ''monitoring.coreos.com'' \<and> kind = ''Alertmanager''
        then Some (custom_view_of [''Version'', ''Replicas'', ''Ready'', ''Reconciled'', ''Available'',
            ''Paused''] (Plain (\<lambda>_. alertmanager_cells)))
      else if grp = ''monitoring.coreos.com'' \<and> kind = ''ThanosRuler''
        then Some (custom_view_of [''Version'', ''Replicas'', ''Ready'', ''Reconciled'', ''Available'',
            ''Paused''] (Plain (\<lambda>_. thanos_ruler_cells)))
      else if grp = ''gateway.networking.k8s.io'' \<and> kind = ''HTTPRoute'' \<or> grp =
          ''gateway.networking.k8s.io'' \<and> kind = ''GRPCRoute'' \<or> grp = ''gateway.networking.k8s.io''
          \<and> kind = ''TLSRoute''
        then Some (custom_view_of [''Hostnames'', ''Gateways'', ''Status''] (Plain (\<lambda>_.
            httproute_cells)))
      else if grp = ''gateway.networking.k8s.io'' \<and> kind = ''TCPRoute'' \<or> grp =
          ''gateway.networking.k8s.io'' \<and> kind = ''UDPRoute''
        then Some (custom_view_of [''Gateways'', ''Status''] (Plain (\<lambda>_. parent_route_cells)))
      else if grp = ''gateway.networking.k8s.io'' \<and> kind = ''Gateway''
        then Some (custom_view_of [''Class'', ''Address'', ''Programmed''] (Plain (\<lambda>_. gateway_cells)))
      else if grp = ''gateway.networking.k8s.io'' \<and> kind = ''GatewayClass''
        then Some (custom_view_of [''Controller'', ''Accepted''] (Plain (\<lambda>_. gatewayclass_cells)))
      else other_view grp kind)"

definition explicit_view :: "string \<Rightarrow> string \<Rightarrow> kind_view option" where
  "explicit_view grp kind =
     (if grp = [] \<and> kind = ''Pod''
        then Some (view_of [''Ready'', ''Status'', ''Restarts'', ''CPU'', ''%CPU/R'', ''%CPU/L'', ''MEM'',
            ''%MEM/R'', ''%MEM/L'', ''IP'', ''Node''] PodProject)
      else if grp = ''apps'' \<and> kind = ''Deployment''
        then Some (view_of [''Ready'', ''Available''] (Plain (\<lambda>_. deployment_cells)))
      else if grp = ''apps'' \<and> kind = ''StatefulSet''
        then Some (view_of [''Ready'', ''Available''] (Plain (\<lambda>_. statefulset_cells)))
      else if grp = ''apps'' \<and> kind = ''DaemonSet''
        then Some (view_of [''Ready'', ''Available''] (Plain (\<lambda>_. daemonset_cells)))
      else if grp = ''apps'' \<and> kind = ''ReplicaSet''
        then Some (view_of [''Ready''] (Plain (\<lambda>_. replicaset_cells)))
      else if grp = ''batch'' \<and> kind = ''Job''
        then Some (view_of [''Completions'', ''Status''] (Plain (\<lambda>_. job_cells)))
      else if grp = ''batch'' \<and> kind = ''CronJob''
        then Some (view_of [''Schedule'', ''Suspend'', ''Active'', ''Last Schedule'', ''Last Success'',
            ''Status''] (Plain cronjob_cells))
      else if grp = [] \<and> kind = ''Service''
        then Some (view_of [''Type'', ''ClusterIP''] (Plain (\<lambda>_. service_cells)))
      else if grp = [] \<and> kind = ''Node''
        then Some (view_of [''Status'', ''Version''] (Plain (\<lambda>_. node_cells)))
      else if grp = [] \<and> kind = ''Namespace''
        then Some (view_of [''Phase''] (Plain (\<lambda>_. namespace_cells)))
      else if grp = [] \<and> kind = ''PersistentVolumeClaim''
        then Some (view_of [''Phase'', ''Capacity'', ''Usage'', ''Mount''] PvcProject)
      else if ends_with grp ''fluxcd.io''
        then Some (custom_view_of [''Ready'', ''Status'', ''Message''] (Plain (\<lambda>_.
            ready_message_cells)))
      else if grp = ''external-secrets.io'' \<and> kind = ''ExternalSecret''
        then Some (custom_view_of [''Store Type'', ''Store'', ''Refresh Interval'', ''Status'', ''Ready'',
            ''Last Sync''] (Plain (\<lambda>_. external_secret_cells)))
      else if grp = ''external-secrets.io'' \<and> kind = ''ClusterExternalSecret''
        then Some (custom_view_of [''Ready'', ''Status'', ''Store''] (Plain (\<lambda>_.
            cluster_external_secret_cells)))
      else if grp = ''external-secrets.io''
        then Some (custom_view_of [''Ready'', ''Status''] (Plain (\<lambda>_. eso_generic_cells)))
      else if grp = ''cert-manager.io'' \<and> kind = ''Certificate''
        then Some (custom_view_of [''Ready'', ''Status'', ''Expires'', ''Renews'', ''Revision'', ''Secret'']
            (Plain certificate_cells))
      else if grp = ''cert-manager.io'' \<and> kind = ''ClusterIssuer'' \<or> grp = ''cert-manager.io'' \<and>
          kind = ''Issuer''
        then Some (custom_view_of [''Ready'', ''Status''] (Plain (\<lambda>_. issuer_cells)))
      else if grp = ''cert-manager.io'' \<and> kind = ''CertificateRequest''
        then Some (custom_view_of [''Approved'', ''Ready'', ''Issuer''] (Plain (\<lambda>_.
            certrequest_cells)))
      else if grp = ''acme.cert-manager.io'' \<and> kind = ''Order'' \<or> grp = ''acme.cert-manager.io'' \<and>
          kind = ''Challenge''
        then Some (custom_view_of [''State'', ''Reason''] (Plain (\<lambda>_. acme_state_cells)))
      else if grp = ''ceph.rook.io'' \<and> kind = ''CephCluster''
        then Some (custom_view_of [''Phase'', ''Health'', ''Version'', ''Message''] (Plain (\<lambda>_.
            ceph_cluster_cells)))
      else if grp = ''ceph.rook.io'' \<and> kind = ''CephBlockPool'' \<or> grp = ''ceph.rook.io'' \<and> kind =
          ''CephFilesystem'' \<or> grp = ''ceph.rook.io'' \<and> kind = ''CephNFS'' \<or> grp = ''ceph.rook.io''
          \<and> kind = ''CephObjectStore''
        then Some (custom_view_of [''Phase'', ''Message''] (Plain (\<lambda>_. ceph_resource_cells)))
      else if grp = ''objectbucket.io'' \<and> kind = ''ObjectBucketClaim''
        then Some (custom_view_of [''Phase'', ''Storage Class'', ''Bucket''] (Plain (\<lambda>_.
            object_bucket_claim_cells)))
      else operator_view grp kind)"

definition enhancement_headers :: "string \<Rightarrow> string \<Rightarrow> string list" where
  "enhancement_headers grp kind =
     (if grp = [] \<and> kind = ''Pod''
        then [''Restarts'', ''CPU'', ''%CPU/R'', ''%CPU/L'', ''MEM'', ''%MEM/R'', ''%MEM/L'', ''IP'', ''Node'']
      else if grp = [] \<and> kind = ''PersistentVolumeClaim'' then [''Usage'', ''Mount'']
      else if grp = [] \<and> kind = ''Event'' \<or> grp = ''batch'' \<and> kind = ''CronJob''
           \<or> grp = ''storage.k8s.io'' \<and> kind = ''VolumeAttachment''
        then (case explicit_view grp kind of None \<Rightarrow> [] | Some v \<Rightarrow> kv_headers v)
      else (case explicit_view grp kind of
          Some v \<Rightarrow> if kv_custom v then kv_headers v else [] | None \<Rightarrow> []))"

text \<open>The cells of those columns, their trends and the status of the row.\<close>

definition is_custom :: "string \<Rightarrow> string \<Rightarrow> bool" where
  "is_custom grp kind \<longleftrightarrow> (case explicit_view grp kind of Some v \<Rightarrow> kv_custom v | None \<Rightarrow> False)"

definition enhancement_values :: "project_env \<Rightarrow> string \<Rightarrow> string \<Rightarrow> json \<Rightarrow> bool \<Rightarrow> usage_entry option
     \<Rightarrow> pvc_usage option \<Rightarrow> string list \<times> trend list \<times> row_status" where
  "enhancement_values pe grp kind data deleting usage pvc =
     (if grp = [] \<and> kind = ''Pod''
        then (case pod_cells pe data deleting usage of (cells, trends, status) \<Rightarrow> (drop 2 cells, drop 2 trends, status))
      else if grp = [] \<and> kind = ''PersistentVolumeClaim''
        then (case pvc_cells (pe_f64 pe) data pvc of (cells, status) \<Rightarrow> ([cells ! 2, cells ! 3], [], status))
      else if grp = [] \<and> kind = ''Event''
        then (case event_cells data of (cells, status) \<Rightarrow> (cells, [], status))
      else if grp = ''batch'' \<and> kind = ''CronJob''
        then (case cronjob_cells pe data of (cells, status) \<Rightarrow> (cells, [], status))
      else if grp = ''storage.k8s.io'' \<and> kind = ''VolumeAttachment''
        then (case volumeattachment_cells data of (cells, status) \<Rightarrow> (cells, [], status))
      else case explicit_view grp kind of
          None \<Rightarrow> ([], [], generic_status data)
        | Some v \<Rightarrow>
            (case kv_project v of
               Plain project \<Rightarrow> (case project pe data of (cells, status) \<Rightarrow> (if kv_custom v then cells else [], [], status))
             | PodProject \<Rightarrow> ([], [], snd (snd (pod_cells pe data deleting usage)))
             | PvcProject \<Rightarrow> ([], [], snd (pvc_cells (pe_f64 pe) data pvc))))"

text \<open>An object as the projectors read it; the whole of it where it can be serialised.\<close>

definition projection_data :: "project_env \<Rightarrow> dyn_object \<Rightarrow> json" where
  "projection_data pe obj = unwrap_or (dy_data obj) (pe_to_value pe obj)"

definition enhance :: "project_env \<Rightarrow> string \<Rightarrow> string \<Rightarrow> dyn_object \<Rightarrow> usage_entry option \<Rightarrow> pvc_usage option
     \<Rightarrow> string list \<times> trend list \<times> row_status" where
  "enhance pe grp kind obj usage pvc =
     (case enhancement_values pe grp kind (projection_data pe obj) (dy_deleting obj) usage pvc of
        (cells, trends, status) \<Rightarrow> (cells, trends, if dy_deleting obj then RowWarn else status))"

definition resource_status :: "project_env \<Rightarrow> string \<Rightarrow> string \<Rightarrow> dyn_object \<Rightarrow> row_status" where
  "resource_status pe grp kind obj =
     snd (snd (enhancement_values pe grp kind (projection_data pe obj) (dy_deleting obj) None None))"

text \<open>Column names are compared by their ASCII letters and digits, without case.\<close>

definition normalize_column :: "string \<Rightarrow> string" where
  "normalize_column s = map to_ascii_lower (filter is_ascii_alphanumeric s)"

definition same_column :: "string \<Rightarrow> string \<Rightarrow> bool" where
  "same_column left right \<longleftrightarrow> normalize_column left = normalize_column right"

definition matches_identity_column :: "string \<Rightarrow> bool" where
  "matches_identity_column column \<longleftrightarrow>
     list_ex (same_column column) [''Namespace'', ''Name'', ''Age'']"

section \<open>The layout\<close>

datatype cell_source =
    CellNamespace
  | CellServer nat
  | CellEnhancement nat
  | CellAge "nat option"

record table_layout =
  tl_columns :: "string list"
  tl_sources :: "cell_source list"

definition insert_at :: "nat \<Rightarrow> 'a \<Rightarrow> 'a list \<Rightarrow> 'a list" where
  "insert_at i x xs = take i xs @ x # drop i xs"

text \<open>Each header takes over the column of its name, or goes before the first column that a later header
  names, or at the end.\<close>

fun place_headers :: "nat \<Rightarrow> string list \<Rightarrow> table_layout \<Rightarrow> table_layout" where
  "place_headers i [] l = l"
| "place_headers i (h # hs) l =
     (case position (\<lambda>c. same_column c h) (tl_columns l) of
        Some p \<Rightarrow> place_headers (Suc i) hs (l\<lparr>tl_sources := (tl_sources l)[p := CellEnhancement i]\<rparr>)
      | None \<Rightarrow>
          let at = (case find_map (\<lambda>later. position (\<lambda>c. same_column c later) (tl_columns l)) hs of
                      Some p \<Rightarrow> p | None \<Rightarrow> length (tl_columns l))
          in place_headers (Suc i) hs \<lparr>tl_columns = insert_at at h (tl_columns l),
               tl_sources = insert_at at (CellEnhancement i) (tl_sources l)\<rparr>)"

definition push_column :: "string \<Rightarrow> cell_source \<Rightarrow> table_layout \<Rightarrow> table_layout" where
  "push_column c s l = \<lparr>tl_columns = tl_columns l @ [c], tl_sources = tl_sources l @ [s]\<rparr>"

definition push_server :: "(nat \<times> column_definition \<Rightarrow> bool) \<Rightarrow> (nat \<times> column_definition) list
     \<Rightarrow> table_layout \<Rightarrow> table_layout" where
  "push_server P visible l =
     fold (\<lambda>(i, d). push_column (cd_name d) (CellServer i)) (filter P visible) l"

definition push_headers :: "string list \<Rightarrow> table_layout \<Rightarrow> table_layout" where
  "push_headers headers l = fold (\<lambda>(i, h). push_column h (CellEnhancement i)) (List.enumerate 0 headers) l"

definition table_layout_of :: "string \<Rightarrow> string \<Rightarrow> bool \<Rightarrow> column_definition list \<Rightarrow> table_layout" where
  "table_layout_of grp kind all_namespaces definitions =
     (let handled_crd = is_custom grp kind;
          visible = filter (\<lambda>(_, d). handled_crd \<or> cd_priority d = 0) (List.enumerate 0 definitions);
          headers = enhancement_headers grp kind;
          start = (if all_namespaces then push_column ''Namespace'' CellNamespace \<lparr>tl_columns = [], tl_sources = []\<rparr>
                   else \<lparr>tl_columns = [], tl_sources = []\<rparr>);
          named = push_server (\<lambda>(_, d). same_column (cd_name d) ''Name'') visible start;
          body = (if handled_crd
             then push_server (\<lambda>(_, d). \<not> matches_identity_column (cd_name d)
                    \<and> \<not> list_ex (\<lambda>h. same_column (cd_name d) h) headers) visible (push_headers headers named)
             else place_headers 0 headers
                    (push_server (\<lambda>(_, d). \<not> matches_identity_column (cd_name d)) visible named));
          server_age = map_option fst (List.find (\<lambda>(_, d). same_column (cd_name d) ''Age'') visible)
      in if handled_crd \<or> server_age \<noteq> None then push_column ''Age'' (CellAge server_age) body else body)"

section \<open>Projecting a row\<close>

definition should_hide :: "string \<Rightarrow> string \<Rightarrow> dyn_object \<Rightarrow> bool" where
  "should_hide grp kind obj \<longleftrightarrow> grp = [] \<and> kind = ''Secret''
     \<and> (case Option.bind (jget (dy_data obj) ''type'') as_str of None \<Rightarrow> [] | Some t \<Rightarrow> t) = ''helm.sh/release.v1''"

definition resource_suspended :: "string \<Rightarrow> string \<Rightarrow> json \<Rightarrow> bool" where
  "resource_suspended grp kind data \<longleftrightarrow>
     (grp = ''kopiur.home-operations.com'' \<and> kind = ''SnapshotSchedule''
       \<and> Option.bind (jpointer data [''spec'', ''schedule'', ''suspend'']) as_bool = Some True)
     \<or> Option.bind (jpointer data [''spec'', ''suspend'']) as_bool = Some True"

definition row_suspended :: "string \<Rightarrow> string \<Rightarrow> json \<Rightarrow> bool" where
  "row_suspended grp kind data \<longleftrightarrow>
     (ends_with grp ''fluxcd.io'' \<or> grp = ''kopiur.home-operations.com''
       \<or> grp = ''postgresql.cnpg.io'' \<and> kind = ''ScheduledBackup'')
     \<and> resource_suspended grp kind data"

definition nth_or :: "'a \<Rightarrow> 'a list \<Rightarrow> nat \<Rightarrow> 'a" where
  "nth_or d xs i = (if i < length xs then xs ! i else d)"

text \<open>\<open>print\<close> is the JSON text of arrays and objects.\<close>

fun format_table_cell :: "(json \<Rightarrow> string) \<Rightarrow> json \<Rightarrow> string" where
  "format_table_cell print JNull = ''<none>''"
| "format_table_cell print (JString s) = s"
| "format_table_cell print (JBool b) = show_bool b"
| "format_table_cell print (JNumber n) = show_number n"
| "format_table_cell print v = print v"

definition cell_of :: "(json \<Rightarrow> string) \<Rightarrow> dyn_object \<Rightarrow> table_row \<Rightarrow> string list \<Rightarrow> cell_source \<Rightarrow> string" where
  "cell_of print obj row enh_cells src =
     (case src of
        CellNamespace \<Rightarrow> (case dy_namespace obj of Some ns \<Rightarrow> ns | None \<Rightarrow> [])
      | CellServer i \<Rightarrow> nth_or ''<none>'' (map (format_table_cell print) (tr_cells row)) i
      | CellEnhancement i \<Rightarrow> nth_or [] enh_cells i
      | CellAge age \<Rightarrow> (case dy_created obj of
            Some c \<Rightarrow> c
          | None \<Rightarrow> (case age of None \<Rightarrow> [] | Some i \<Rightarrow> nth_or [] (map (format_table_cell print) (tr_cells row)) i)))"

definition trend_of :: "trend list \<Rightarrow> cell_source \<Rightarrow> trend" where
  "trend_of enh_trends src = (case src of CellEnhancement i \<Rightarrow> nth_or TrendNone enh_trends i | _ \<Rightarrow> TrendNone)"

definition project_table_row ::
  "project_env \<Rightarrow> string \<Rightarrow> string \<Rightarrow> table_layout \<Rightarrow> table_row \<Rightarrow> usage_entry option \<Rightarrow> pvc_usage option
     \<Rightarrow> (resource_row \<times> dyn_object) option" where
  "project_table_row pe grp kind layout row usage pvc =
     (case tr_object row of
        None \<Rightarrow> None
      | Some full \<Rightarrow>
          let obj = full\<lparr>dy_managed_fields := None\<rparr> in
          if should_hide grp kind obj then None
          else case enhance pe grp kind obj usage pvc of (cells, trends, status) \<Rightarrow>
            Some (\<lparr>rr_uid = object_uid obj, rr_namespace = dy_namespace obj,
              rr_name = (case dy_name obj of Some n \<Rightarrow> n | None \<Rightarrow> []), rr_created = dy_created obj,
              rr_cells = map (cell_of (pe_print_json pe) obj row cells) (tl_sources layout),
              rr_trends = map (trend_of trends) (tl_sources layout),
              rr_status = status,
              rr_suspended = row_suspended grp kind (dy_data obj),
              rr_labels = (case dy_labels obj of Some ls \<Rightarrow> ls | None \<Rightarrow> [])\<rparr>, obj))"

text \<open>Only the cells of the server's own columns are computed anew.\<close>

definition update_cells :: "(nat \<Rightarrow> 'a) \<Rightarrow> cell_source list \<Rightarrow> 'a list \<Rightarrow> 'a list" where
  "update_cells f sources xs = map (\<lambda>(i, x).
     if i < length sources then (case sources ! i of CellEnhancement e \<Rightarrow> f e | _ \<Rightarrow> x) else x) (List.enumerate 0 xs)"

definition reproject_table_row ::
  "project_env \<Rightarrow> string \<Rightarrow> string \<Rightarrow> table_layout \<Rightarrow> dyn_object \<Rightarrow> resource_row \<Rightarrow> usage_entry option
     \<Rightarrow> pvc_usage option \<Rightarrow> resource_row" where
  "reproject_table_row pe grp kind layout obj current usage pvc =
     (case enhance pe grp kind obj usage pvc of (cells, trends, status) \<Rightarrow>
        current\<lparr>rr_cells := update_cells (nth_or [] cells) (tl_sources layout) (rr_cells current),
          rr_trends := update_cells (nth_or TrendNone trends) (tl_sources layout) (rr_trends current),
          rr_status := status,
          rr_suspended := row_suspended grp kind (dy_data obj)\<rparr>)"

end
