(* ===== verification/Informer.thy ===== *)
theory Informer
  imports Table
begin

text \<open>
  A shared informer, \<open>crates/k8s/src/informers.rs\<close>: the task that lists and watches one kind
  and keeps its rows, the periodic reprojection of cached rows, and one subscriber of its broadcast,
  as \<open>src/server/api/watch.rs\<close> feeds it to a browser.

  The task is a state machine over what it waits for.  What it does between two waits is a list of
  operations, \<open>in_todo\<close>, taken one at a time, since the task gives up its thread at every lock and
  the reprojection, a subscriber or a scrape may run there.  A commit holds the schema lock, which
  subscribers and the reprojection take first, so it is one operation, and so is a reprojection,
  which holds the write lock on the rows from its first row to its last.  The broadcast is the log of
  what was ever sent, a receiver a position in it; at most the last \<open>CHANNEL_CAP\<close> events are kept.
  Projecting a row reads the caches of usage and the clock, which the environment changes at any time.
\<close>

section \<open>Errors of the Table API\<close>

definition matches_status_str :: "string \<Rightarrow> string list \<Rightarrow> bool" where
  "matches_status_str s needles = list_ex (str_contains s) needles"

definition matches_status :: "table_error \<Rightarrow> string list \<Rightarrow> bool" where
  "matches_status e needles = list_ex (\<lambda>s. matches_status_str s needles) (te_chain e)"

definition is_auth_error :: "table_error \<Rightarrow> bool" where
  "is_auth_error e = matches_status e [''Unauthorized'', ''401'']"

definition is_forbidden_error :: "table_error \<Rightarrow> bool" where
  "is_forbidden_error e = matches_status e [''Forbidden'', ''403'']"

text \<open>The delay before the next attempt, in milliseconds; the jitter is the clock's milliseconds.\<close>

definition rebuild_backoff :: "nat \<Rightarrow> nat \<Rightarrow> nat" where
  "rebuild_backoff attempt subsec_millis = min (2 ^ min attempt 5) 30 * 1000 + subsec_millis"

section \<open>State\<close>

type_synonym index_key = "string option \<times> string"

definition name_key :: "dyn_object \<Rightarrow> index_key" where
  "name_key obj = (dy_namespace obj, case dy_name obj of Some n \<Rightarrow> n | None \<Rightarrow> [])"

record informer_cfg =
  ic_group :: string
  ic_kind :: string
  ic_namespaced :: bool
  ic_namespace :: "string option"
  ic_env :: project_env

abbreviation is_pod :: "informer_cfg \<Rightarrow> bool" where
  "is_pod cf \<equiv> ic_group cf = [] \<and> ic_kind cf = ''Pod''"

abbreviation is_pvc :: "informer_cfg \<Rightarrow> bool" where
  "is_pvc cf \<equiv> ic_group cf = [] \<and> ic_kind cf = ''PersistentVolumeClaim''"

definition cache_objects :: "informer_cfg \<Rightarrow> bool" where
  "cache_objects cf \<longleftrightarrow> is_pod cf \<or> is_pvc cf \<or> ic_group cf = ''batch'' \<and> ic_kind cf = ''CronJob''"

datatype after_sleep = ToRelist | ToReconnect

datatype task_phase =
    Listing
  | Connecting table_layout
  | Streaming table_layout
  | Sleeping nat after_sleep table_layout
  | Stopped

datatype task_op =
    OpBuild table_layout table_row
  | OpPage table
  | OpRow table_layout table_row
  | OpGone table_row
  | OpName index_key string
  | OpObject string dyn_object
  | OpPut string resource_row
  | OpTake dyn_object
  | OpRemove string dyn_object
  | OpUnobject string
  | OpUnname index_key
  | OpSettled
  | OpTerminal watch_event
  | OpSend watch_event

record listing =
  ls_rows :: "(string, resource_row) hmap"
  ls_objects :: "(string, dyn_object) hmap"
  ls_continue :: string
  ls_layout :: "table_layout option"

definition new_listing :: listing where
  "new_listing = \<lparr>ls_rows = [], ls_objects = [], ls_continue = [], ls_layout = None\<rparr>"

record informer =
  in_rows :: "(string, resource_row) hmap"
  in_objects :: "(string, dyn_object) hmap"
  in_by_name :: "(index_key, string) hmap"
  in_layout :: "table_layout option"
  in_headers :: "string list"
  in_terminal :: "watch_event option"
  in_log :: "watch_event list"
  in_notified :: bool
  in_pod_usage :: "(string, usage_entry) hmap"
  in_pvc_usage :: "(string, pvc_usage) hmap"
  in_now :: int
  in_phase :: task_phase
  in_todo :: "task_op list"
  in_listing :: listing
  in_version :: string
  in_attempt :: nat

definition start_informer :: "int \<Rightarrow> (string, usage_entry) hmap \<Rightarrow> (string, pvc_usage) hmap \<Rightarrow> informer" where
  "start_informer now pods pvcs =
     \<lparr>in_rows = [], in_objects = [], in_by_name = [], in_layout = None, in_headers = [], in_terminal = None,
      in_log = [], in_notified = False, in_pod_usage = pods, in_pvc_usage = pvcs, in_now = now, in_phase = Listing,
      in_todo = [], in_listing = new_listing, in_version = [], in_attempt = 0\<rparr>"

section \<open>Usage of an object\<close>

definition usage_for :: "dyn_object \<Rightarrow> (string, usage_entry) hmap \<Rightarrow> usage_entry option" where
  "usage_for obj cache = (case dy_name obj of
     None \<Rightarrow> None
   | Some n \<Rightarrow> hm_get cache ((case dy_namespace obj of Some ns \<Rightarrow> ns | None \<Rightarrow> []) @ ''/'' @ n))"

definition pvc_usage_for :: "dyn_object \<Rightarrow> (string, pvc_usage) hmap \<Rightarrow> pvc_usage option" where
  "pvc_usage_for obj cache = (case dy_namespace obj of
     None \<Rightarrow> None
   | Some ns \<Rightarrow> (case dy_name obj of None \<Rightarrow> None | Some n \<Rightarrow> hm_get cache (ns @ ''/'' @ n)))"

definition enrichments :: "dyn_object \<Rightarrow> bool \<Rightarrow> bool \<Rightarrow> (string, usage_entry) hmap \<Rightarrow> (string, pvc_usage) hmap
     \<Rightarrow> usage_entry option \<times> pvc_usage option" where
  "enrichments obj pod pvc pod_cache pvc_cache =
     (if pod then usage_for obj pod_cache else None, if pvc then pvc_usage_for obj pvc_cache else None)"

definition env_now :: "informer_cfg \<Rightarrow> informer \<Rightarrow> project_env" where
  "env_now cf s = (ic_env cf)\<lparr>pe_now := in_now s\<rparr>"

definition project_row :: "informer_cfg \<Rightarrow> informer \<Rightarrow> table_layout \<Rightarrow> table_row \<Rightarrow> dyn_object
     \<Rightarrow> (resource_row \<times> dyn_object) option" where
  "project_row cf s layout row obj =
     (case enrichments obj (is_pod cf) (is_pvc cf) (in_pod_usage s) (in_pvc_usage s) of
        (u, p) \<Rightarrow> project_table_row (env_now cf s) (ic_group cf) (ic_kind cf) layout row u p)"

section \<open>The task\<close>

definition publish :: "watch_event \<Rightarrow> informer \<Rightarrow> informer" where
  "publish ev s = s\<lparr>in_phase := Stopped, in_todo := [OpTerminal ev, OpSend ev]\<rparr>"

definition relist :: "informer \<Rightarrow> informer" where
  "relist s = s\<lparr>in_phase := Listing, in_todo := [], in_listing := new_listing, in_version := []\<rparr>"

definition sleep_then :: "after_sleep \<Rightarrow> table_layout \<Rightarrow> informer \<Rightarrow> informer" where
  "sleep_then after layout s = s\<lparr>in_phase := Sleeping (in_attempt s) after layout, in_todo := [],
     in_attempt := min (in_attempt s + 1) (2 ^ 32 - 1)\<rparr>"

definition no_layout :: table_layout where
  "no_layout = \<lparr>tl_columns = [], tl_sources = []\<rparr>"

definition request_failed :: "after_sleep \<Rightarrow> table_layout \<Rightarrow> table_error \<Rightarrow> informer \<Rightarrow> informer" where
  "request_failed otherwise layout e s =
     (if is_forbidden_error e then publish (ForbiddenEvent (te_text e)) s
      else if is_auth_error e then sleep_then ToRelist layout s
      else if te_is_permanent e then publish (ErrorEvent (te_text e)) s
      else sleep_then otherwise layout s)"

definition row_missing :: "string \<Rightarrow> informer_cfg \<Rightarrow> watch_event" where
  "row_missing what cf = ErrorEvent (what @ ic_group cf @ ''/'' @ ic_kind cf @ '' omitted its object'')"

text \<open>A page of the list.\<close>

definition got_page :: "informer_cfg \<Rightarrow> table \<Rightarrow> informer \<Rightarrow> informer" where
  "got_page cf t s =
     (if tb_kind t \<noteq> ''Table'' then publish (ErrorEvent (''expected Kubernetes Table, got '' @ tb_kind t)) s
      else let layout = (case ls_layout (in_listing s) of
               Some l \<Rightarrow> l
             | None \<Rightarrow> table_layout_of (ic_group cf) (ic_kind cf) (ic_namespaced cf \<and> ic_namespace cf = None)
                 (tb_columns t))
           in s\<lparr>in_listing := (in_listing s)\<lparr>ls_layout := Some layout\<rparr>,
                in_todo := map (OpBuild layout) (tb_rows t) @ [OpPage t]\<rparr>)"

definition got_list :: "informer_cfg \<Rightarrow> table_error + table \<Rightarrow> informer \<Rightarrow> informer" where
  "got_list cf r s = (case r of
     Inl e \<Rightarrow> request_failed ToRelist no_layout e s
   | Inr t \<Rightarrow> got_page cf t s)"

definition build_row :: "informer_cfg \<Rightarrow> table_layout \<Rightarrow> table_row \<Rightarrow> informer \<Rightarrow> informer" where
  "build_row cf layout row s =
     (case tr_object row of
        None \<Rightarrow> publish (row_missing ''Table row for '' cf) s
      | Some obj \<Rightarrow>
          (case project_row cf s layout row obj of
             None \<Rightarrow> s
           | Some (r, kept) \<Rightarrow> s\<lparr>in_listing := (in_listing s)\<lparr>
               ls_objects := (if cache_objects cf then hm_insert (rr_uid r) kept (ls_objects (in_listing s))
                              else ls_objects (in_listing s)),
               ls_rows := hm_insert (rr_uid r) r (ls_rows (in_listing s))\<rparr>\<rparr>))"

definition index_names :: "informer_cfg \<Rightarrow> (string, dyn_object) hmap \<Rightarrow> (index_key, string) hmap" where
  "index_names cf objs =
     (if cache_objects cf then fold (\<lambda>(uid, obj). hm_insert (name_key obj) uid) objs [] else [])"

definition commit_list :: "informer_cfg \<Rightarrow> table_layout \<Rightarrow> informer \<Rightarrow> informer" where
  "commit_list cf layout s =
     (let l = in_listing s in
      s\<lparr>in_headers := tl_columns layout, in_layout := Some layout, in_rows := ls_rows l,
        in_objects := ls_objects l, in_by_name := index_names cf (ls_objects l),
        in_log := in_log s @ [Snapshot (tl_columns layout) (map snd (ls_rows l))],
        in_listing := new_listing, in_attempt := 0, in_phase := Connecting layout\<rparr>)"

definition end_page :: "informer_cfg \<Rightarrow> table \<Rightarrow> informer \<Rightarrow> informer" where
  "end_page cf t s =
     (let s' = s\<lparr>in_version := (if in_version s = [] then tb_resource_version t else in_version s),
                in_listing := (in_listing s)\<lparr>ls_continue := tb_continue t\<rparr>\<rparr> in
      if tb_continue t \<noteq> [] then s'
      else case ls_layout (in_listing s) of None \<Rightarrow> relist s' | Some layout \<Rightarrow> commit_list cf layout s')"

text \<open>What the task waits for while it watches.\<close>

definition got_watch :: "table_layout \<Rightarrow> table_error option \<Rightarrow> informer \<Rightarrow> informer" where
  "got_watch layout r s = (case r of
     Some e \<Rightarrow> request_failed ToReconnect layout e s
   | None \<Rightarrow> s\<lparr>in_phase := Streaming layout\<rparr>)"

definition seen_version :: "table \<Rightarrow> informer \<Rightarrow> informer" where
  "seen_version t s = s\<lparr>in_version := (case table_version t of Some v \<Rightarrow> v | None \<Rightarrow> in_version s)\<rparr>"

definition got_rows :: "table_layout \<Rightarrow> table \<Rightarrow> informer \<Rightarrow> informer" where
  "got_rows layout t s = (seen_version t s)\<lparr>in_todo := map (OpRow layout) (tb_rows t) @ [OpSettled]\<rparr>"

definition got_status :: "table_layout \<Rightarrow> table_status \<Rightarrow> informer \<Rightarrow> informer" where
  "got_status layout st s =
     (if ts_code st = 410 then relist s
      else if ts_code st = 401 then sleep_then ToRelist layout s
      else if ts_code st = 403 then publish (ForbiddenEvent (ts_message st)) s
      else if 400 \<le> ts_code st \<and> ts_code st < 500 then publish (ErrorEvent (ts_message st)) s
      else sleep_then ToReconnect layout s)"

fun got_event :: "table_layout \<Rightarrow> table_watch_event \<Rightarrow> informer \<Rightarrow> informer" where
  "got_event layout (TAdded t) s = got_rows layout t s"
| "got_event layout (TModified t) s = got_rows layout t s"
| "got_event layout (TDeleted t) s = (seen_version t s)\<lparr>in_todo := map OpGone (tb_rows t)\<rparr>"
| "got_event layout (TBookmark t) s = seen_version t s"
| "got_event layout (TError st) s = got_status layout st s"

definition got_item :: "table_layout \<Rightarrow> (table_error + table_watch_event) option \<Rightarrow> informer
     \<Rightarrow> informer" where
  "got_item layout item s = (case item of
     None \<Rightarrow> sleep_then ToReconnect layout s
   | Some (Inl e) \<Rightarrow> request_failed ToReconnect layout e s
   | Some (Inr ev) \<Rightarrow> got_event layout ev s)"

text \<open>One operation of the task; \<open>ops\<close> are those that follow it.\<close>

definition push_ops :: "task_op list \<Rightarrow> informer \<Rightarrow> informer" where
  "push_ops ops s = s\<lparr>in_todo := ops @ in_todo s\<rparr>"

definition send :: "watch_event \<Rightarrow> informer \<Rightarrow> informer" where
  "send ev s = s\<lparr>in_log := in_log s @ [ev]\<rparr>"

definition watch_row :: "informer_cfg \<Rightarrow> table_layout \<Rightarrow> table_row \<Rightarrow> informer \<Rightarrow> informer" where
  "watch_row cf layout row s =
     (case tr_object row of
        None \<Rightarrow> publish (row_missing ''Table watch row for '' cf) s
      | Some obj \<Rightarrow>
          (case project_row cf s layout row obj of
             Some (r, kept) \<Rightarrow>
               push_ops ((if cache_objects cf then [OpName (name_key kept) (rr_uid r), OpObject (rr_uid r) kept] else [])
                  @ [OpPut (rr_uid r) r]) s
           | None \<Rightarrow> push_ops [OpTake obj] s))"

definition take_row :: "dyn_object \<Rightarrow> informer \<Rightarrow> informer" where
  "take_row obj s =
     (let uid = object_uid obj in
      if hm_get (in_rows s) uid \<noteq> None
      then push_ops [OpUnobject uid, OpUnname (name_key obj), OpSend (Deleted uid)]
             (s\<lparr>in_rows := hm_remove uid (in_rows s)\<rparr>)
      else s)"

definition gone_row :: "table_row \<Rightarrow> informer \<Rightarrow> informer" where
  "gone_row row s = (case tr_object row of
     None \<Rightarrow> s
   | Some obj \<Rightarrow> push_ops [OpRemove (object_uid obj) obj] s)"

definition remove_row :: "informer_cfg \<Rightarrow> string \<Rightarrow> dyn_object \<Rightarrow> informer \<Rightarrow> informer" where
  "remove_row cf uid obj s =
     push_ops ((if cache_objects cf then [OpUnobject uid, OpUnname (name_key obj)] else []) @ [OpSend (Deleted uid)])
       (s\<lparr>in_rows := hm_remove uid (in_rows s)\<rparr>)"

fun run_op :: "informer_cfg \<Rightarrow> task_op \<Rightarrow> informer \<Rightarrow> informer" where
  "run_op cf (OpBuild layout row) s = build_row cf layout row s"
| "run_op cf (OpPage t) s = end_page cf t s"
| "run_op cf (OpRow layout row) s = watch_row cf layout row s"
| "run_op cf (OpGone row) s = gone_row row s"
| "run_op cf (OpName k uid) s = s\<lparr>in_by_name := hm_insert k uid (in_by_name s)\<rparr>"
| "run_op cf (OpObject uid obj) s = s\<lparr>in_objects := hm_insert uid obj (in_objects s)\<rparr>"
| "run_op cf (OpPut uid r) s = push_ops [OpSend (Applied r)] (s\<lparr>in_rows := hm_insert uid r (in_rows s)\<rparr>)"
| "run_op cf (OpTake obj) s = take_row obj s"
| "run_op cf (OpRemove uid obj) s = remove_row cf uid obj s"
| "run_op cf (OpUnobject uid) s = s\<lparr>in_objects := hm_remove uid (in_objects s)\<rparr>"
| "run_op cf (OpUnname k) s = s\<lparr>in_by_name := hm_remove k (in_by_name s)\<rparr>"
| "run_op cf OpSettled s = s\<lparr>in_attempt := 0\<rparr>"
| "run_op cf (OpTerminal ev) s = s\<lparr>in_terminal := Some ev\<rparr>"
| "run_op cf (OpSend ev) s = send ev s"

definition task_step :: "informer_cfg \<Rightarrow> informer \<Rightarrow> informer" where
  "task_step cf s = (case in_todo s of [] \<Rightarrow> s | op # ops \<Rightarrow> run_op cf op (s\<lparr>in_todo := ops\<rparr>))"

section \<open>Reprojection\<close>

definition reproject_row :: "informer_cfg \<Rightarrow> table_layout \<Rightarrow> informer \<Rightarrow> dyn_object \<Rightarrow> resource_row
     \<Rightarrow> resource_row" where
  "reproject_row cf layout s obj current =
     reproject_table_row (env_now cf s) (ic_group cf) (ic_kind cf) layout obj current
       (if is_pod cf then usage_for obj (in_pod_usage s) else None)
       (if is_pvc cf then pvc_usage_for obj (in_pvc_usage s) else None)"

definition reproject_one :: "(dyn_object \<Rightarrow> resource_row \<Rightarrow> resource_row) \<Rightarrow> string \<times> dyn_object
     \<Rightarrow> informer \<Rightarrow> informer" where
  "reproject_one project entry s = (case entry of (uid, obj) \<Rightarrow>
     case hm_get (in_rows s) uid of
       None \<Rightarrow> s
     | Some current \<Rightarrow>
         let new_row = project obj current in
         if current = new_row then s
         else send (Applied new_row) (s\<lparr>in_rows := hm_insert uid new_row (in_rows s)\<rparr>))"

definition reproject_entry :: "(dyn_object \<Rightarrow> resource_row \<Rightarrow> resource_row) \<Rightarrow> informer \<Rightarrow> informer" where
  "reproject_entry project s = fold (reproject_one project) (in_objects s) s"

text \<open>Only kinds whose cells change with usage or time, and only while somebody listens.\<close>

definition reproject_once :: "informer_cfg \<Rightarrow> nat \<Rightarrow> informer \<Rightarrow> informer" where
  "reproject_once cf receivers s =
     (if cache_objects cf \<and> receivers > 0
      then case in_layout s of None \<Rightarrow> s | Some layout \<Rightarrow> reproject_entry (reproject_row cf layout s) s
      else s)"

section \<open>Interleavings\<close>

datatype informer_act =
    GotList "table_error + table"
  | GotWatch "table_error option"
  | GotItem "(table_error + table_watch_event) option"
  | TakeNotice
  | Woke
  | TaskOp
  | RefreshSchema
  | Scraped "(string, usage_entry) hmap" "(string, pvc_usage) hmap"
  | Clock int
  | Reproject nat

definition woke :: "informer \<Rightarrow> informer" where
  "woke s = (case in_phase s of
     Sleeping _ ToRelist _ \<Rightarrow> relist s
   | Sleeping _ ToReconnect layout \<Rightarrow> s\<lparr>in_phase := Connecting layout\<rparr>
   | _ \<Rightarrow> s)"

definition waits_for_answer :: "informer \<Rightarrow> bool" where
  "waits_for_answer s \<longleftrightarrow> in_todo s = []
     \<and> (case in_phase s of Listing \<Rightarrow> True | Connecting _ \<Rightarrow> True | Streaming _ \<Rightarrow> True | _ \<Rightarrow> False)"

text \<open>An action that the state does not allow changes nothing.\<close>

fun informer_step :: "informer_cfg \<Rightarrow> informer_act \<Rightarrow> informer \<Rightarrow> informer" where
  "informer_step cf (GotList r) s = (if in_todo s = [] \<and> in_phase s = Listing then got_list cf r s else s)"
| "informer_step cf (GotWatch r) s = (if in_todo s = []
     then case in_phase s of Connecting layout \<Rightarrow> got_watch layout r s | _ \<Rightarrow> s else s)"
| "informer_step cf (GotItem item) s = (if in_todo s = []
     then case in_phase s of Streaming layout \<Rightarrow> got_item layout item s | _ \<Rightarrow> s else s)"
| "informer_step cf TakeNotice s =
     (if waits_for_answer s \<and> in_notified s then relist (s\<lparr>in_notified := False\<rparr>) else s)"
| "informer_step cf Woke s = (if in_todo s = [] then woke s else s)"
| "informer_step cf TaskOp s = task_step cf s"
| "informer_step cf RefreshSchema s = s\<lparr>in_notified := True\<rparr>"
| "informer_step cf (Scraped pods pvcs) s = s\<lparr>in_pod_usage := pods, in_pvc_usage := pvcs\<rparr>"
| "informer_step cf (Clock now) s = s\<lparr>in_now := now\<rparr>"
| "informer_step cf (Reproject receivers) s = reproject_once cf receivers s"

section \<open>Cached objects\<close>

text \<open>The object of a name, from the first informer of the registry that may hold it.\<close>

definition covers :: "string \<Rightarrow> string option \<Rightarrow> string \<times> string option \<times> informer \<Rightarrow> bool" where
  "covers key ns entry = (case entry of (k, scope, _) \<Rightarrow>
     k = key \<and> (case (scope, ns) of (Some en, Some want) \<Rightarrow> en = want | _ \<Rightarrow> True))"

definition cached_object :: "(string \<times> string option \<times> informer) list \<Rightarrow> string \<Rightarrow> string option \<Rightarrow> string
     \<Rightarrow> dyn_object option" where
  "cached_object active key ns nm = (case List.find (covers key ns) active of
     None \<Rightarrow> None
   | Some (_, _, s) \<Rightarrow>
       (case hm_get (in_by_name s) (ns, nm) of
          None \<Rightarrow> None
        | Some uid \<Rightarrow> hm_get (in_objects s) uid))"

section \<open>A subscriber\<close>

definition CHANNEL_CAP :: nat where
  "CHANNEL_CAP = 512"

text \<open>The columns and rows a browser shows (\<open>views/workspace.rs\<close>).\<close>

type_synonym pane = "string list \<times> (string, resource_row) hmap"

definition rows_by_uid :: "resource_row list \<Rightarrow> (string, resource_row) hmap" where
  "rows_by_uid rs = fold (\<lambda>r. hm_insert (rr_uid r) r) rs []"

fun apply_pane :: "watch_event \<Rightarrow> pane \<Rightarrow> pane" where
  "apply_pane (Snapshot cols rs) (c, m) = (cols, rows_by_uid rs)"
| "apply_pane (Applied r) (c, m) = (c, hm_insert (rr_uid r) r m)"
| "apply_pane (Deleted uid) (c, m) = (c, hm_remove uid m)"
| "apply_pane (ForbiddenEvent msg) (c, m) = (c, m)"
| "apply_pane (ErrorEvent msg) (c, m) = (c, m)"

datatype sub_phase = Attached | Snapped | Live | Lagging

record subscriber =
  sb_phase :: sub_phase
  sb_pos :: nat
  sb_own :: "watch_event option"
  sb_got :: "watch_event list"
  sb_pane :: pane

definition deliver :: "watch_event \<Rightarrow> subscriber \<Rightarrow> subscriber" where
  "deliver ev c = c\<lparr>sb_got := sb_got c @ [ev], sb_pane := apply_pane ev (sb_pane c)\<rparr>"

text \<open>\<open>subscribe\<close> attaches a receiver, then reads rows and headers under the schema lock, then
  looks for a retained terminal event, which takes the place of the receiver.\<close>

definition attach :: "informer \<Rightarrow> subscriber" where
  "attach s = \<lparr>sb_phase = Attached, sb_pos = length (in_log s), sb_own = None, sb_got = [], sb_pane = ([], [])\<rparr>"

definition current_snapshot :: "informer \<Rightarrow> watch_event" where
  "current_snapshot s = Snapshot (in_headers s) (map snd (in_rows s))"

definition snap :: "informer \<Rightarrow> subscriber \<Rightarrow> subscriber" where
  "snap s c = (if sb_phase c = Attached then (deliver (current_snapshot s) c)\<lparr>sb_phase := Snapped\<rparr> else c)"

definition check_terminal :: "informer \<Rightarrow> subscriber \<Rightarrow> subscriber" where
  "check_terminal s c = (if sb_phase c = Snapped
     then (case in_terminal s of
             None \<Rightarrow> c\<lparr>sb_phase := Live\<rparr>
           | Some ev \<Rightarrow> (deliver ev c)\<lparr>sb_phase := Live, sb_own := Some ev\<rparr>)
     else c)"

text \<open>A receiver that fell more than the capacity behind goes on with the oldest event kept, after a
  new snapshot.\<close>

definition receive :: "informer \<Rightarrow> subscriber \<Rightarrow> subscriber" where
  "receive s c =
     (if sb_phase c = Live \<and> sb_own c = None \<and> sb_pos c < length (in_log s)
      then if length (in_log s) - sb_pos c \<le> CHANNEL_CAP
           then (deliver (in_log s ! sb_pos c) c)\<lparr>sb_pos := sb_pos c + 1\<rparr>
           else c\<lparr>sb_phase := Lagging, sb_pos := length (in_log s) - CHANNEL_CAP\<rparr>
      else c)"

definition resync :: "informer \<Rightarrow> subscriber \<Rightarrow> subscriber" where
  "resync s c = (if sb_phase c = Lagging then (deliver (current_snapshot s) c)\<lparr>sb_phase := Live\<rparr> else c)"

datatype watch_act =
    Inform "informer_act"
  | Subscribe
  | TakeSnapshot
  | CheckTerminal
  | Receive
  | Resync

text \<open>An informer and the subscriber, once there is one.\<close>

type_synonym watched = "informer \<times> subscriber option"

fun watch_step :: "informer_cfg \<Rightarrow> watch_act \<Rightarrow> watched \<Rightarrow> watched" where
  "watch_step cf (Inform a) (s, c) = (informer_step cf a s, c)"
| "watch_step cf Subscribe (s, c) = (s, case c of None \<Rightarrow> Some (attach s) | Some x \<Rightarrow> Some x)"
| "watch_step cf TakeSnapshot (s, c) = (s, map_option (snap s) c)"
| "watch_step cf CheckTerminal (s, c) = (s, map_option (check_terminal s) c)"
| "watch_step cf Receive (s, c) = (s, map_option (receive s) c)"
| "watch_step cf Resync (s, c) = (s, map_option (resync s) c)"

definition watch_run :: "informer_cfg \<Rightarrow> watch_act list \<Rightarrow> watched \<Rightarrow> watched" where
  "watch_run cf acts w = fold (watch_step cf) acts w"

end
