(* ===== verification/Replica.thy ===== *)
theory Replica
  imports Informer
begin

text \<open>
  What a watcher sees of an informer.  \<open>apply_rows\<close> is the abstract meaning of a watch event on
  columns and a map from uid to row.  \<open>replicated_log\<close> is the argument, for any such meaning, that a
  reader of the log that starts from a later snapshot ends up where the writer is; \<open>viewer\<close> is the
  contract of the three browser views that keep rows from events: the workspace pane, the resource
  table of \<open>src/app/events.rs\<close> and the merged search results of \<open>src/app/search_state.rs\<close>.
\<close>

section \<open>The abstract meaning of events\<close>

type_synonym listing_view = "string list \<times> (string \<rightharpoonup> resource_row)"

fun apply_rows :: "watch_event \<Rightarrow> listing_view \<Rightarrow> listing_view" where
  "apply_rows (Snapshot cols rs) (c, m) = (cols, hm_get (rows_by_uid rs))"
| "apply_rows (Applied r) (c, m) = (c, m(rr_uid r \<mapsto> r))"
| "apply_rows (Deleted uid) (c, m) = (c, m(uid := None))"
| "apply_rows (ForbiddenEvent msg) (c, m) = (c, m)"
| "apply_rows (ErrorEvent msg) (c, m) = (c, m)"

text \<open>Every event overwrites: some keys get a value that does not depend on the view.\<close>

definition overwrite :: "('k \<Rightarrow> 'v option) \<Rightarrow> ('k \<Rightarrow> 'v) \<Rightarrow> 'k \<Rightarrow> 'v" where
  "overwrite w m = (\<lambda>k. case w k of None \<Rightarrow> m k | Some v \<Rightarrow> v)"

lemma overwrite_twice: "overwrite w2 (overwrite w1 m) = overwrite (\<lambda>k. case w2 k of None \<Rightarrow> w1 k | v \<Rightarrow> v) m"
  by (rule ext) (simp add: overwrite_def split: option.split)

lemma overwrite_idem: "overwrite w (overwrite w m) = overwrite w m"
  by (rule ext) (simp add: overwrite_def split: option.split)

definition new_columns :: "watch_event \<Rightarrow> string list option" where
  "new_columns ev = (case ev of Snapshot cols _ \<Rightarrow> Some cols | _ \<Rightarrow> None)"

definition new_row :: "watch_event \<Rightarrow> string \<Rightarrow> resource_row option option" where
  "new_row ev uid = (case ev of
     Snapshot _ rs \<Rightarrow> Some (hm_get (rows_by_uid rs) uid)
   | Applied r \<Rightarrow> if uid = rr_uid r then Some (Some r) else None
   | Deleted u \<Rightarrow> if uid = u then Some None else None
   | _ \<Rightarrow> None)"

lemma apply_rows_overwrites:
  "apply_rows ev (c, m) = (case new_columns ev of None \<Rightarrow> c | Some c' \<Rightarrow> c', overwrite (new_row ev) m)"
  by (cases ev) (auto simp: new_columns_def new_row_def overwrite_def fun_eq_iff)

lemma replay_overwrites:
  "\<exists>c' w. \<forall>c m. fold apply_rows es (c, m) = (case c' of None \<Rightarrow> c | Some x \<Rightarrow> x, overwrite w m)"
proof (induction es)
  case Nil
  have "\<forall>c m. fold apply_rows [] (c, m) = (case None of None \<Rightarrow> c | Some x \<Rightarrow> x, overwrite (\<lambda>_. None) m)"
    by (simp add: overwrite_def)
  then show ?case by blast
next
  case (Cons e es)
  then obtain c' w where IH: "\<And>c m. fold apply_rows es (c, m) = (case c' of None \<Rightarrow> c | Some x \<Rightarrow> x, overwrite w m)"
    by blast
  let ?c = "case c' of None \<Rightarrow> new_columns e | x \<Rightarrow> x"
  let ?w = "\<lambda>k. case w k of None \<Rightarrow> new_row e k | v \<Rightarrow> v"
  have "fold apply_rows (e # es) (c, m) = (case ?c of None \<Rightarrow> c | Some x \<Rightarrow> x, overwrite ?w m)" for c m
    by (simp add: apply_rows_overwrites IH overwrite_twice split: option.split)
  then show ?case by blast
qed

lemma replay_idem: "fold apply_rows es (fold apply_rows es v) = fold apply_rows es v"
proof -
  obtain c' w where "\<And>c m. fold apply_rows es (c, m) = (case c' of None \<Rightarrow> c | Some x \<Rightarrow> x, overwrite w m)"
    using replay_overwrites[of es] by blast
  then show ?thesis
    by (cases v) (simp add: overwrite_idem split: option.split)
qed

section \<open>Readers of a log\<close>

text \<open>A writer keeps a state and a log of events; \<open>pending\<close> are the events whose effect the state has
  and the log has not yet.  A reader at position \<open>pos\<close> is in sync when the rest of the log and the
  pending events take its view to the state.\<close>

locale replicated_log =
  fixes meaning :: "'e \<Rightarrow> 'm \<Rightarrow> 'm"
  assumes replay_twice: "fold meaning es (fold meaning es v) = fold meaning es v"
begin

definition in_sync :: "nat \<Rightarrow> 'e list \<Rightarrow> 'e list \<Rightarrow> 'm \<Rightarrow> 'm \<Rightarrow> bool" where
  "in_sync pos log pending cur view \<longleftrightarrow> pos \<le> length log \<and> fold meaning (drop pos log @ pending) view = cur"

definition syncable :: "nat \<Rightarrow> 'e list \<Rightarrow> 'e list \<Rightarrow> 'm \<Rightarrow> bool" where
  "syncable pos log pending cur \<longleftrightarrow> (\<exists>view. in_sync pos log pending cur view)"

text \<open>A step of the writer: what it adds to the log accounts for the change of its state.\<close>

definition advances :: "'e list \<times> 'e list \<times> 'm \<Rightarrow> 'e list \<times> 'e list \<times> 'm \<Rightarrow> bool" where
  "advances w w' \<longleftrightarrow> (case (w, w') of ((log, pending, cur), (log', pending', cur')) \<Rightarrow>
     \<exists>es. log' = log @ es \<and>
       (\<forall>v. fold meaning pending v = cur \<longrightarrow> fold meaning (es @ pending') v = cur'))"

lemma advances_refl: "advances w w"
  by (cases w) (auto simp: advances_def)

lemma advances_trans [trans]: "advances w w' \<Longrightarrow> advances w' w'' \<Longrightarrow> advances w w''"
  by (cases w; cases w'; cases w'') (force simp: advances_def)

lemma advances_write:
  assumes "cur' = meaning e cur"
  shows "advances (log, [], cur) (log, [e], cur')"
  using assms by (auto simp: advances_def)

lemma advances_flush: "advances (log, e # pending, cur) (log @ [e], pending, cur)"
  by (auto simp: advances_def)

lemma advances_emit:
  assumes "cur' = meaning e cur"
  shows "advances (log, [], cur) (log @ [e], [], cur')"
  using assms by (auto simp: advances_def)

lemma in_sync_advances:
  assumes "in_sync pos log pending cur view" and "advances (log, pending, cur) (log', pending', cur')"
  shows "in_sync pos log' pending' cur' view"
  using assms by (auto simp: in_sync_def advances_def)

lemma syncable_advances:
  "syncable pos log pending cur \<Longrightarrow> advances (log, pending, cur) (log', pending', cur')
   \<Longrightarrow> syncable pos log' pending' cur'"
  unfolding syncable_def by (blast intro: in_sync_advances)

lemma in_sync_syncable: "in_sync pos log pending cur view \<Longrightarrow> syncable pos log pending cur"
  by (auto simp: syncable_def)

lemma in_sync_receive:
  assumes "in_sync pos log pending cur view" and "pos < length log"
  shows "in_sync (pos + 1) log pending cur (meaning (log ! pos) view)"
  using assms by (auto simp: in_sync_def Cons_nth_drop_Suc[symmetric])

text \<open>A snapshot may be taken later than the position: the events in between do no harm.\<close>

lemma in_sync_snapshot: "syncable pos log pending cur \<Longrightarrow> in_sync pos log pending cur cur"
  unfolding syncable_def in_sync_def using replay_twice by blast

lemma syncable_skip:
  assumes "syncable pos log pending cur" and "pos \<le> pos'" and "pos' \<le> length log"
  shows "syncable pos' log pending cur"
proof -
  obtain v where v: "fold meaning (drop pos log @ pending) v = cur"
    using assms(1) by (auto simp: syncable_def in_sync_def)
  have "drop pos log = take (pos' - pos) (drop pos log) @ drop pos' log"
    using assms(2,3) append_take_drop_id[of "pos' - pos" "drop pos log"] by simp
  with v have "fold meaning (drop pos' log @ pending) (fold meaning (take (pos' - pos) (drop pos log)) v) = cur"
    by (metis append.assoc fold_append comp_apply)
  with assms(3) show ?thesis
    by (auto simp: syncable_def in_sync_def)
qed

lemma in_sync_done: "in_sync (length log) log [] cur view \<Longrightarrow> view = cur"
  by (simp add: in_sync_def)

end

interpretation watch_log: replicated_log apply_rows
  by unfold_locales (rule replay_idem)

section \<open>Views\<close>

locale viewer =
  fixes apply_view :: "watch_event \<Rightarrow> 's \<Rightarrow> 's"
    and shown :: "'s \<Rightarrow> listing_view"
  assumes apply_shown: "shown (apply_view ev v) = apply_rows ev (shown v)"
begin

lemma replay_shown: "shown (fold apply_view es v) = fold apply_rows es (shown v)"
  by (induction es arbitrary: v) (simp_all add: apply_shown)

text \<open>What the events show after a snapshot does not depend on what was shown before.\<close>

lemma replay_from_snapshot:
  "shown (fold apply_view (Snapshot cols rs # es) v) = fold apply_rows es (cols, hm_get (rows_by_uid rs))"
  by (cases "shown v") (simp add: replay_shown apply_shown)

end

subsection \<open>The workspace pane\<close>

definition pane_shown :: "pane \<Rightarrow> listing_view" where
  "pane_shown p = (case p of (c, m) \<Rightarrow> (c, hm_get m))"

interpretation pane: viewer apply_pane pane_shown
proof
  show "pane_shown (apply_pane ev v) = apply_rows ev (pane_shown v)" for ev v
    by (cases ev; cases v) (auto simp: pane_shown_def fun_eq_iff)
qed

subsection \<open>The resource table\<close>

text \<open>A deleted row stays until its collapse has been drawn: its uid is in \<open>tv_removing\<close>, and a timer or
  the end of the transition unmounts it.\<close>

record table_view =
  tv_columns :: "string list"
  tv_rows :: "(string, resource_row) hmap"
  tv_entering :: "string set"
  tv_removing :: "string set"

fun apply_event :: "watch_event \<Rightarrow> table_view \<Rightarrow> table_view" where
  "apply_event (Snapshot cols rs) v =
     v\<lparr>tv_columns := cols, tv_entering := {}, tv_removing := {}, tv_rows := rows_by_uid rs\<rparr>"
| "apply_event (Applied r) v =
     (let uid = rr_uid r; is_new = (hm_get (tv_rows v) uid = None) in
      v\<lparr>tv_rows := hm_insert uid r (tv_rows v), tv_removing := tv_removing v - {uid},
        tv_entering := (if is_new then insert uid (tv_entering v) else tv_entering v)\<rparr>)"
| "apply_event (Deleted uid) v = v\<lparr>tv_removing := insert uid (tv_removing v)\<rparr>"
| "apply_event (ForbiddenEvent msg) v = v"
| "apply_event (ErrorEvent msg) v = v"

text \<open>The timers an event starts, 280 and 500 milliseconds after it.\<close>

definition entered :: "string \<Rightarrow> table_view \<Rightarrow> table_view" where
  "entered uid v = v\<lparr>tv_entering := tv_entering v - {uid}\<rparr>"

definition collapsed :: "string \<Rightarrow> table_view \<Rightarrow> table_view" where
  "collapsed uid v = (if uid \<in> tv_removing v
     then v\<lparr>tv_rows := hm_remove uid (tv_rows v), tv_removing := tv_removing v - {uid}\<rparr> else v)"

definition table_shown :: "table_view \<Rightarrow> listing_view" where
  "table_shown v = (tv_columns v, \<lambda>uid. if uid \<in> tv_removing v then None else hm_get (tv_rows v) uid)"

interpretation table_view: viewer apply_event table_shown
proof
  show "table_shown (apply_event ev v) = apply_rows ev (table_shown v)" for ev v
    by (cases ev) (auto simp: table_shown_def fun_eq_iff Let_def)
qed

text \<open>A timer changes nothing of what is shown, however late it comes.\<close>

lemma timers_shown: "table_shown (entered uid v) = table_shown v" "table_shown (collapsed uid v) = table_shown v"
  by (auto simp: table_shown_def entered_def collapsed_def fun_eq_iff)

subsection \<open>Merged search results\<close>

text \<open>Rows of many kinds in one map, under the kind's key and the uid.\<close>

record merged_view =
  mv_columns :: "(string, string list) hmap"
  mv_rows :: "(string, string \<times> resource_row) hmap"
  mv_entering :: "string set"
  mv_removing :: "string set"

definition merged_key :: "string \<Rightarrow> string \<Rightarrow> string" where
  "merged_key kind_key uid = kind_key @ ''/'' @ uid"

fun reduce_columns :: "string \<Rightarrow> watch_event \<Rightarrow> merged_view \<Rightarrow> merged_view" where
  "reduce_columns k (Snapshot cols rs) v = v\<lparr>mv_columns := hm_insert k cols (mv_columns v)\<rparr>"
| "reduce_columns k _ v = v"

fun reduce_event :: "string \<Rightarrow> watch_event \<Rightarrow> merged_view \<Rightarrow> merged_view" where
  "reduce_event k (Snapshot cols rs) v =
     (let outside = (\<lambda>key. \<not> starts_with key (k @ ''/'')) in
      v\<lparr>mv_rows := fold (\<lambda>r. hm_insert (merged_key k (rr_uid r)) (k, r)) rs (hm_retain (\<lambda>key _. outside key) (mv_rows v)),
        mv_entering := {key \<in> mv_entering v. outside key}, mv_removing := {key \<in> mv_removing v. outside key}\<rparr>)"
| "reduce_event k (Applied r) v =
     (let key = merged_key k (rr_uid r); is_new = (hm_get (mv_rows v) key = None) in
      v\<lparr>mv_rows := hm_insert key (k, r) (mv_rows v), mv_removing := mv_removing v - {key},
        mv_entering := (if is_new then insert key (mv_entering v) else mv_entering v)\<rparr>)"
| "reduce_event k (Deleted uid) v =
     (let key = merged_key k uid in
      if hm_get (mv_rows v) key \<noteq> None then v\<lparr>mv_removing := insert key (mv_removing v)\<rparr> else v)"
| "reduce_event k (ForbiddenEvent msg) v = v"
| "reduce_event k (ErrorEvent msg) v = v"

definition merged_apply_event :: "string \<Rightarrow> watch_event \<Rightarrow> merged_view \<Rightarrow> merged_view" where
  "merged_apply_event k ev v = reduce_event k ev (reduce_columns k ev v)"

definition finish_removal_values :: "string \<Rightarrow> merged_view \<Rightarrow> merged_view" where
  "finish_removal_values key v = (if key \<in> mv_removing v
     then v\<lparr>mv_rows := hm_remove key (mv_rows v), mv_removing := mv_removing v - {key}\<rparr> else v)"

text \<open>What is shown of one kind.\<close>

definition merged_shown :: "string \<Rightarrow> merged_view \<Rightarrow> listing_view" where
  "merged_shown k v =
     (case hm_get (mv_columns v) k of None \<Rightarrow> [] | Some c \<Rightarrow> c,
      \<lambda>uid. let key = merged_key k uid in
        if key \<in> mv_removing v then None else map_option snd (hm_get (mv_rows v) key))"

lemma merged_key_inj [simp]: "merged_key k u = merged_key k u' \<longleftrightarrow> u = u'"
  by (simp add: merged_key_def)

lemma merged_key_prefix [simp]: "starts_with (merged_key k u) (k @ ''/'')"
  unfolding starts_with_iff merged_key_def by simp

lemma retain_get [simp]: "hm_get (hm_retain (\<lambda>key _. P key) m) k = (if P k then hm_get m k else None)"
  by (induction m) (auto simp: hm_retain_def)

lemma merged_snapshot_rows:
  "map_option snd (hm_get (fold (\<lambda>r. hm_insert (merged_key k (rr_uid r)) (k, r)) rs m) (merged_key k uid)) =
   hm_get (fold (\<lambda>r. hm_insert (rr_uid r) r) rs m') uid"
  if "map_option snd (hm_get m (merged_key k uid)) = hm_get m' uid"
  using that by (induction rs arbitrary: m m') auto

interpretation merged_view: viewer "merged_apply_event k" "merged_shown k" for k
proof
  show "merged_shown k (merged_apply_event k ev v) = apply_rows ev (merged_shown k v)" for ev v
  proof (cases ev)
    case (Snapshot cols rs)
    have "map_option snd (hm_get (fold (\<lambda>r. hm_insert (merged_key k (rr_uid r)) (k, r)) rs
        (hm_retain (\<lambda>key _. \<not> starts_with key (k @ ''/'')) (mv_rows v))) (merged_key k uid)) =
        hm_get (rows_by_uid rs) uid" for uid
      unfolding rows_by_uid_def by (rule merged_snapshot_rows) simp
    with Snapshot show ?thesis
      by (simp add: merged_shown_def merged_apply_event_def Let_def fun_eq_iff)
  next
    case (Deleted uid)
    then show ?thesis
      by (cases "hm_get (mv_rows v) (merged_key k uid)")
        (auto simp: merged_shown_def merged_apply_event_def Let_def fun_eq_iff)
  qed (auto simp: merged_shown_def merged_apply_event_def Let_def fun_eq_iff)
qed

lemma merged_timer_shown: "merged_shown k (finish_removal_values key v) = merged_shown k v"
  by (auto simp: merged_shown_def finish_removal_values_def Let_def fun_eq_iff)

end
