(* ===== verification/TableProps.thy ===== *)
theory TableProps
  imports Table
begin

text \<open>
  Properties of tables: every projector gives a cell for each of its headers, a layout takes each cell
  from where its column says, and reprojecting a row is projecting it anew.
\<close>

section \<open>One cell per header\<close>

lemmas cells_defs =
  namespace_cells_def pvc_cells_def secret_cells_def configmap_cells_def event_cells_def endpoints_cells_def service_cells_def
  node_cells_def pv_cells_def storageclass_cells_def volumeattachment_cells_def endpointslice_cells_def ingress_cells_def
  hpa_cells_def pdb_cells_def rolebinding_cells_def replicaset_cells_def deployment_cells_def statefulset_cells_def
  daemonset_cells_def job_cells_def cronjob_cells_def ready_message_cells_def external_secret_cells_def eso_generic_cells_def
  cluster_external_secret_cells_def certificate_cells_def issuer_cells_def certrequest_cells_def acme_state_cells_def
  ceph_cluster_cells_def ceph_resource_cells_def object_bucket_claim_cells_def cluster_cells_def backup_cells_def
  scheduled_backup_cells_def pooler_cells_def snapshot_policy_cells_def snapshot_schedule_cells_def snapshot_cells_def
  prometheus_cells_def prometheus_agent_cells_def alertmanager_cells_def thanos_ruler_cells_def readiness_cells_def
  httproute_cells_def parent_route_cells_def gateway_cells_def gatewayclass_cells_def

lemma length_pvc_cells: "length (fst (pvc_cells fo data u)) = 4"
  by (simp add: pvc_cells_def Let_def split: prod.split)

lemma length_pod_cells:
  "length (fst (pod_cells pe data deleting u)) = 11" "length (fst (snd (pod_cells pe data deleting u))) = 11"
  by (simp_all add: pod_cells_def Let_def split: prod.split)

lemma length_cells:
  "length (fst (namespace_cells data)) = 1" "length (fst (secret_cells data)) = 2" "length (fst (configmap_cells data)) = 1"
  "length (fst (event_cells data)) = 5" "length (fst (endpoints_cells data)) = 1" "length (fst (service_cells data)) = 2"
  "length (fst (node_cells data)) = 2" "length (fst (pv_cells data)) = 6" "length (fst (storageclass_cells data)) = 4"
  "length (fst (volumeattachment_cells data)) = 6" "length (fst (endpointslice_cells data)) = 3"
  "length (fst (ingress_cells data)) = 3" "length (fst (hpa_cells data)) = 5" "length (fst (pdb_cells data)) = 3"
  "length (fst (rolebinding_cells data)) = 1" "length (fst (replicaset_cells data)) = 1"
  "length (fst (deployment_cells data)) = 2" "length (fst (statefulset_cells data)) = 2"
  "length (fst (daemonset_cells data)) = 2" "length (fst (job_cells data)) = 2" "length (fst (cronjob_cells pe data)) = 6"
  "length (fst (ready_message_cells data)) = 3" "length (fst (external_secret_cells data)) = 6"
  "length (fst (eso_generic_cells data)) = 2" "length (fst (cluster_external_secret_cells data)) = 3"
  "length (fst (certificate_cells pe data)) = 6" "length (fst (issuer_cells data)) = 2"
  "length (fst (certrequest_cells data)) = 3" "length (fst (acme_state_cells data)) = 2"
  "length (fst (ceph_cluster_cells data)) = 4" "length (fst (ceph_resource_cells data)) = 2"
  "length (fst (object_bucket_claim_cells data)) = 3" "length (fst (cluster_cells data)) = 5"
  "length (fst (backup_cells data)) = 5" "length (fst (scheduled_backup_cells pe data)) = 6"
  "length (fst (pooler_cells data)) = 5" "length (fst (snapshot_policy_cells data)) = 7"
  "length (fst (snapshot_schedule_cells data)) = 8" "length (fst (snapshot_cells data)) = 6"
  "length (fst (prometheus_cells data)) = 6" "length (fst (prometheus_agent_cells data)) = 6"
  "length (fst (alertmanager_cells data)) = 6" "length (fst (thanos_ruler_cells data)) = 6"
  "length (fst (httproute_cells data)) = 3" "length (fst (parent_route_cells data)) = 2"
  "length (fst (gateway_cells data)) = 3" "length (fst (gatewayclass_cells data)) = 2"
  by (simp_all add: cells_defs Let_def split: prod.split)

definition view_fits :: "kind_view \<Rightarrow> bool" where
  "view_fits v = (case kv_project v of
     Plain project \<Rightarrow> (\<forall>pe data. length (fst (project pe data)) = length (kv_headers v))
   | PodProject \<Rightarrow> \<not> kv_custom v
   | PvcProject \<Rightarrow> \<not> kv_custom v)"

lemma fits_if: "view_fits v \<Longrightarrow> pred_option view_fits x \<Longrightarrow> pred_option view_fits (if b then Some v else x)"
  by simp

lemma fits_None: "pred_option view_fits None"
  by simp

lemma other_view_fits: "pred_option view_fits (other_view grp kind)"
  unfolding other_view_def
  by (intro fits_if fits_None) (simp_all add: view_fits_def view_of_def custom_view_of_def length_cells)

lemma operator_view_fits: "pred_option view_fits (operator_view grp kind)"
  unfolding operator_view_def
  by (intro fits_if other_view_fits) (simp_all add: view_fits_def view_of_def custom_view_of_def length_cells)

lemma explicit_view_fits: "pred_option view_fits (explicit_view grp kind)"
  unfolding explicit_view_def
  by (intro fits_if operator_view_fits) (simp_all add: view_fits_def view_of_def custom_view_of_def length_cells)

lemma custom_view_fits:
  "explicit_view grp kind = Some v \<Longrightarrow> view_fits v"
  using explicit_view_fits[of grp kind] by simp

text \<open>So the values of a kind's own columns are as many as their headers.\<close>

lemma pod_headers: "length (enhancement_headers [] ''Pod'') = 9"
  by (simp add: enhancement_headers_def)

lemma values_fit_headers:
  "length (fst (enhancement_values pe grp kind data deleting u p)) = length (enhancement_headers grp kind)"
proof -
  have event: "explicit_view [] ''Event'' = Some (view_of [''Last Seen'', ''Type'', ''Reason'', ''Object'', ''Message''] (Plain (\<lambda>_. event_cells)))"
    and cron: "explicit_view ''batch'' ''CronJob'' = Some (view_of [''Schedule'', ''Suspend'', ''Active'', ''Last Schedule'',
       ''Last Success'', ''Status''] (Plain cronjob_cells))"
    and attachment: "explicit_view ''storage.k8s.io'' ''VolumeAttachment'' = Some (view_of [''Attacher'', ''PV'', ''Node'',
       ''Attached'', ''Attach Error'', ''Detach Error''] (Plain (\<lambda>_. volumeattachment_cells)))"
    by (simp_all add: explicit_view_def operator_view_def other_view_def ends_with_def)
  consider "grp = []" "kind = ''Pod''" | "grp = []" "kind = ''PersistentVolumeClaim''" | "grp = []" "kind = ''Event''"
    | "grp = ''batch''" "kind = ''CronJob''" | "grp = ''storage.k8s.io''" "kind = ''VolumeAttachment''"
    | (other) "\<not> (grp = [] \<and> kind = ''Pod'')" "\<not> (grp = [] \<and> kind = ''PersistentVolumeClaim'')"
       "\<not> (grp = [] \<and> kind = ''Event'')" "\<not> (grp = ''batch'' \<and> kind = ''CronJob'')"
       "\<not> (grp = ''storage.k8s.io'' \<and> kind = ''VolumeAttachment'')"
    by blast
  then show ?thesis
  proof cases
    case other
    show ?thesis
    proof (cases "explicit_view grp kind")
      case (Some v)
      from custom_view_fits[OF this] other Some show ?thesis
        by (cases "kv_project v")
          (auto simp: enhancement_values_def enhancement_headers_def view_fits_def case_prod_unfold)
    qed (use other in \<open>auto simp: enhancement_values_def enhancement_headers_def\<close>)
  qed (simp_all add: enhancement_values_def enhancement_headers_def event cron attachment view_of_def case_prod_unfold
      length_pod_cells length_pvc_cells length_cells)
qed

section \<open>Layouts\<close>

text \<open>A column and the source of its cells belong together.\<close>

definition source_fits :: "string list \<Rightarrow> column_definition list \<Rightarrow> string \<Rightarrow> cell_source \<Rightarrow> bool" where
  "source_fits headers defs column src = (case src of
     CellNamespace \<Rightarrow> column = ''Namespace''
   | CellServer i \<Rightarrow> i < length defs \<and> column = cd_name (defs ! i)
   | CellEnhancement i \<Rightarrow> i < length headers \<and> same_column column (headers ! i)
   | CellAge age \<Rightarrow> column = ''Age'' \<and> (case age of None \<Rightarrow> True | Some i \<Rightarrow> i < length defs \<and> same_column (cd_name (defs ! i)) ''Age''))"

definition layout_fits :: "string list \<Rightarrow> column_definition list \<Rightarrow> table_layout \<Rightarrow> bool" where
  "layout_fits headers defs l \<longleftrightarrow> list_all2 (source_fits headers defs) (tl_columns l) (tl_sources l)"

lemma same_column_refl [simp]: "same_column c c"
  by (simp add: same_column_def)

lemma fits_push: "layout_fits hs ds l \<Longrightarrow> source_fits hs ds c s \<Longrightarrow> layout_fits hs ds (push_column c s l)"
  by (simp add: layout_fits_def push_column_def list_all2_appendI)

lemma fits_push_server:
  assumes "layout_fits hs ds l" "\<forall>(i, d)\<in>set visible. i < length ds \<and> ds ! i = d"
  shows "layout_fits hs ds (push_server P visible l)"
proof -
  have "layout_fits hs ds (fold (\<lambda>(i, d). push_column (cd_name d) (CellServer i)) vs l)"
    if "\<forall>(i, d)\<in>set vs. i < length ds \<and> ds ! i = d" for vs
    using assms(1) that
  proof (induction vs arbitrary: l)
    case (Cons v vs)
    obtain i d where v: "v = (i, d)" by (cases v)
    with Cons.prems show ?case
      by (auto intro!: Cons.IH fits_push simp: source_fits_def)
  qed simp
  with assms(2) show ?thesis by (auto simp: push_server_def)
qed

lemma fits_push_headers:
  assumes "layout_fits hs ds l"
  shows "layout_fits hs ds (push_headers hs l)"
proof -
  have "layout_fits hs ds (fold (\<lambda>(i, h). push_column h (CellEnhancement i)) vs l)"
    if "\<forall>(i, h)\<in>set vs. i < length hs \<and> hs ! i = h" for vs
    using assms that
  proof (induction vs arbitrary: l)
    case (Cons v vs)
    obtain i h where v: "v = (i, h)" by (cases v)
    with Cons.prems show ?case
      by (auto intro!: Cons.IH fits_push simp: source_fits_def)
  qed simp
  moreover have "\<forall>(i, h)\<in>set (List.enumerate 0 hs). i < length hs \<and> hs ! i = h"
    by (auto simp: in_set_enumerate_eq)
  ultimately show ?thesis by (simp add: push_headers_def)
qed

lemma fits_insert:
  "layout_fits hs ds l \<Longrightarrow> source_fits hs ds c s
   \<Longrightarrow> layout_fits hs ds \<lparr>tl_columns = insert_at i c (tl_columns l), tl_sources = insert_at i s (tl_sources l)\<rparr>"
  by (simp add: layout_fits_def insert_at_def list_all2_appendI list_all2_takeI list_all2_dropI)

lemma fits_replace:
  assumes "layout_fits hs ds l" "i < length (tl_columns l)" "source_fits hs ds (tl_columns l ! i) s"
  shows "layout_fits hs ds (l\<lparr>tl_sources := (tl_sources l)[i := s]\<rparr>)"
proof -
  have "list_all2 (source_fits hs ds) ((tl_columns l)[i := tl_columns l ! i]) ((tl_sources l)[i := s])"
    using assms by (intro list_all2_update_cong) (auto simp: layout_fits_def)
  then show ?thesis by (simp add: layout_fits_def)
qed

lemma fits_place:
  assumes "layout_fits hs ds l" "drop i hs = rest" "i \<le> length hs"
  shows "layout_fits hs ds (place_headers i rest l)"
  using assms
proof (induction i rest l rule: place_headers.induct)
  case (2 i h rest l)
  then have "drop i hs = h # rest" by simp
  then have h: "i < length hs" "hs ! i = h" "drop (Suc i) hs = rest"
    by (metis drop_all list.distinct(1) linorder_not_le, rule nth_via_drop, simp add: drop_Suc drop_tl)
  show ?case
  proof (cases "position (\<lambda>c. same_column c h) (tl_columns l)")
    case None
    let ?at = "case find_map (\<lambda>later. position (\<lambda>c. same_column c later) (tl_columns l)) rest of Some p \<Rightarrow> p | None \<Rightarrow> length (tl_columns l)"
    have "layout_fits hs ds \<lparr>tl_columns = insert_at ?at h (tl_columns l), tl_sources = insert_at ?at (CellEnhancement i) (tl_sources l)\<rparr>"
      using 2(3) h by (intro fits_insert) (auto simp: source_fits_def)
    with 2(1)[OF None refl] None h show ?thesis by (simp add: Let_def)
  next
    case (Some p)
    with position_Some[OF this] 2(3) h have "layout_fits hs ds (l\<lparr>tl_sources := (tl_sources l)[p := CellEnhancement i]\<rparr>)"
      by (intro fits_replace) (auto simp: source_fits_def)
    with 2(2)[OF Some] Some h show ?thesis by simp
  qed
qed simp

text \<open>A header keeps the column it was given, since no later header has its name.\<close>

lemma place_keeps:
  assumes "layout_fits hs ds l" "drop i hs = rest" "CellEnhancement k \<in> set (tl_sources l)"
    and "\<forall>h\<in>set rest. \<not> same_column h (hs ! k)"
  shows "CellEnhancement k \<in> set (tl_sources (place_headers i rest l))"
  using assms
proof (induction i rest l rule: place_headers.induct)
  case (2 i h rest l)
  then have d: "drop i hs = h # rest" by simp
  then have h: "i < length hs" "hs ! i = h" "drop (Suc i) hs = rest"
    by (metis drop_all list.distinct(1) linorder_not_le, rule nth_via_drop, simp add: drop_Suc drop_tl)
  from 2(5) obtain q where q: "q < length (tl_sources l)" "tl_sources l ! q = CellEnhancement k"
    by (auto simp: in_set_conv_nth)
  have len: "length (tl_columns l) = length (tl_sources l)" using 2(3) by (auto simp: layout_fits_def dest: list_all2_lengthD)
  show ?case
  proof (cases "position (\<lambda>c. same_column c h) (tl_columns l)")
    case None
    let ?at = "case find_map (\<lambda>later. position (\<lambda>c. same_column c later) (tl_columns l)) rest of Some p \<Rightarrow> p | None \<Rightarrow> length (tl_columns l)"
    let ?l = "\<lparr>tl_columns = insert_at ?at h (tl_columns l), tl_sources = insert_at ?at (CellEnhancement i) (tl_sources l)\<rparr>"
    have "layout_fits hs ds ?l"
      using 2(3) h by (intro fits_insert) (auto simp: source_fits_def)
    moreover have "CellEnhancement k \<in> set (tl_sources ?l)"
      using 2(5) by (simp add: insert_at_def) (metis UnE append_take_drop_id set_append)
    ultimately show ?thesis using 2(1)[OF None refl] None h(3) 2(6) by (simp add: Let_def)
  next
    case (Some p)
    note p = position_Some[OF Some]
    have "source_fits hs ds (tl_columns l ! q) (tl_sources l ! q)"
      using list_all2_nthD2[OF 2(3)[unfolded layout_fits_def] q(1)] .
    then have "same_column (tl_columns l ! q) (hs ! k)" by (simp add: source_fits_def q(2))
    with p 2(6) have "p \<noteq> q" by (auto simp: same_column_def)
    with q have "CellEnhancement k \<in> set ((tl_sources l)[p := CellEnhancement i])"
      by (metis length_list_update nth_list_update_neq nth_mem)
    moreover have "layout_fits hs ds (l\<lparr>tl_sources := (tl_sources l)[p := CellEnhancement i]\<rparr>)"
      using p 2(3) h by (intro fits_replace) (auto simp: source_fits_def)
    ultimately show ?thesis using 2(2)[OF Some] Some h(3) 2(6) by simp
  qed
qed simp

lemma place_all:
  assumes "layout_fits hs ds l" "drop i hs = rest" "distinct (map normalize_column hs)" "i \<le> k" "k < length hs"
  shows "CellEnhancement k \<in> set (tl_sources (place_headers i rest l))"
  using assms
proof (induction i rest l rule: place_headers.induct)
  case (2 i h rest l)
  then have d: "drop i hs = h # rest" by simp
  then have h: "i < length hs" "hs ! i = h" "drop (Suc i) hs = rest"
    by (metis drop_all list.distinct(1) linorder_not_le, rule nth_via_drop, simp add: drop_Suc drop_tl)
  have later: "\<forall>h'\<in>set rest. \<not> same_column h' (hs ! i)"
  proof
    fix h' assume "h' \<in> set rest"
    then obtain j where "j < length rest" "h' = rest ! j" by (auto simp: in_set_conv_nth)
    then have j: "Suc i + j < length hs" "h' = hs ! (Suc i + j)" unfolding h(3)[symmetric] by simp_all
    then have "map normalize_column hs ! (Suc i + j) \<noteq> map normalize_column hs ! i"
      using 2(5) h(1) by (subst nth_eq_iff_index_eq) auto
    with j h(1) show "\<not> same_column h' (hs ! i)" by (simp add: same_column_def)
  qed
  have step: "CellEnhancement k \<in> set (tl_sources (place_headers (Suc i) rest l'))"
    if "layout_fits hs ds l'" "CellEnhancement i \<in> set (tl_sources l')"
      "Suc i \<le> k \<Longrightarrow> CellEnhancement k \<in> set (tl_sources (place_headers (Suc i) rest l'))" for l'
    using that place_keeps[OF that(1) h(3) that(2) later] 2(6) by (cases "k = i") auto
  show ?case
  proof (cases "position (\<lambda>c. same_column c h) (tl_columns l)")
    case None
    let ?at = "case find_map (\<lambda>later. position (\<lambda>c. same_column c later) (tl_columns l)) rest of Some p \<Rightarrow> p | None \<Rightarrow> length (tl_columns l)"
    let ?l = "\<lparr>tl_columns = insert_at ?at h (tl_columns l), tl_sources = insert_at ?at (CellEnhancement i) (tl_sources l)\<rparr>"
    have fit: "layout_fits hs ds ?l"
      using 2(3) h by (intro fits_insert) (auto simp: source_fits_def)
    have "CellEnhancement k \<in> set (tl_sources (place_headers (Suc i) rest ?l))"
      by (rule step[OF fit]) (use 2(1)[OF None refl fit h(3) 2(5) _ 2(7)] in \<open>simp_all add: insert_at_def\<close>)
    with None show ?thesis by (simp add: Let_def)
  next
    case (Some p)
    note p = position_Some[OF Some]
    have len: "length (tl_columns l) = length (tl_sources l)" using 2(3) by (auto simp: layout_fits_def dest: list_all2_lengthD)
    have fit: "layout_fits hs ds (l\<lparr>tl_sources := (tl_sources l)[p := CellEnhancement i]\<rparr>)"
      using p 2(3) h by (intro fits_replace) (auto simp: source_fits_def)
    have "CellEnhancement k \<in> set (tl_sources (place_headers (Suc i) rest (l\<lparr>tl_sources := (tl_sources l)[p := CellEnhancement i]\<rparr>)))"
      by (rule step[OF fit]) (use 2(2)[OF Some fit h(3) 2(5) _ 2(7)] p len in \<open>simp_all add: set_update_memI\<close>)
    with Some show ?thesis by simp
  qed
qed simp

lemma placed_headers_distinct: "\<not> is_custom grp kind \<Longrightarrow> distinct (map normalize_column (enhancement_headers grp kind))"
proof -
  assume plain: "\<not> is_custom grp kind"
  have lists: "distinct (map normalize_column [''Restarts'', ''CPU'', ''%CPU/R'', ''%CPU/L'', ''MEM'', ''%MEM/R'', ''%MEM/L'', ''IP'', ''Node''])"
    "distinct (map normalize_column [''Usage'', ''Mount''])"
    "distinct (map normalize_column [''Last Seen'', ''Type'', ''Reason'', ''Object'', ''Message''])"
    "distinct (map normalize_column [''Schedule'', ''Suspend'', ''Active'', ''Last Schedule'', ''Last Success'', ''Status''])"
    "distinct (map normalize_column [''Attacher'', ''PV'', ''Node'', ''Attached'', ''Attach Error'', ''Detach Error''])"
    by (simp_all add: normalize_column_def is_ascii_alphanumeric_def is_ascii_alphabetic_def is_ascii_digit_def
        is_ascii_uppercase_def is_ascii_lowercase_def to_ascii_lower_def code_def)
  have views: "explicit_view [] ''Event'' = Some (view_of [''Last Seen'', ''Type'', ''Reason'', ''Object'', ''Message''] (Plain (\<lambda>_. event_cells)))"
    "explicit_view ''batch'' ''CronJob'' = Some (view_of [''Schedule'', ''Suspend'', ''Active'', ''Last Schedule'',
       ''Last Success'', ''Status''] (Plain cronjob_cells))"
    "explicit_view ''storage.k8s.io'' ''VolumeAttachment'' = Some (view_of [''Attacher'', ''PV'', ''Node'',
       ''Attached'', ''Attach Error'', ''Detach Error''] (Plain (\<lambda>_. volumeattachment_cells)))"
    by (simp_all add: explicit_view_def operator_view_def other_view_def ends_with_def)
  have others: "enhancement_headers grp kind = []"
    if "\<not> (grp = [] \<and> kind = ''Pod'')" "\<not> (grp = [] \<and> kind = ''PersistentVolumeClaim'')"
      "\<not> (grp = [] \<and> kind = ''Event'')" "\<not> (grp = ''batch'' \<and> kind = ''CronJob'')"
      "\<not> (grp = ''storage.k8s.io'' \<and> kind = ''VolumeAttachment'')"
    unfolding enhancement_headers_def using plain
    by (simp only: that if_False simp_thms) (simp add: is_custom_def split: option.split_asm option.split)
  consider (pod) "grp = [] \<and> kind = ''Pod''" | (pvc) "grp = [] \<and> kind = ''PersistentVolumeClaim''"
    | (event) "grp = [] \<and> kind = ''Event''" | (cron) "grp = ''batch'' \<and> kind = ''CronJob''"
    | (attachment) "grp = ''storage.k8s.io'' \<and> kind = ''VolumeAttachment''"
    | (other) "enhancement_headers grp kind = []"
    using others by blast
  then show ?thesis
  proof cases
    case pod
    with lists(1) show ?thesis by (simp add: enhancement_headers_def)
  next
    case pvc
    with lists(2) show ?thesis by (simp add: enhancement_headers_def)
  next
    case event
    with lists(3) show ?thesis by (simp add: enhancement_headers_def views view_of_def)
  next
    case cron
    with lists(4) show ?thesis by (simp add: enhancement_headers_def views view_of_def)
  next
    case attachment
    with lists(5) show ?thesis by (simp add: enhancement_headers_def views view_of_def)
  qed simp
qed

lemma table_layout_fits: "layout_fits (enhancement_headers grp kind) defs (table_layout_of grp kind all_ns defs)"
proof -
  define hs where "hs = enhancement_headers grp kind"
  define visible where "visible = filter (\<lambda>(_, d). is_custom grp kind \<or> cd_priority d = 0) (List.enumerate 0 defs)"
  have vis: "\<forall>(i, d)\<in>set visible. i < length defs \<and> defs ! i = d"
    by (auto simp: visible_def in_set_enumerate_eq)
  have start: "layout_fits hs defs (if all_ns then push_column ''Namespace'' CellNamespace \<lparr>tl_columns = [], tl_sources = []\<rparr>
      else \<lparr>tl_columns = [], tl_sources = []\<rparr>)"
    by (simp add: layout_fits_def push_column_def source_fits_def)
  have age: "source_fits hs defs ''Age'' (CellAge (map_option fst (List.find (\<lambda>(_, d). same_column (cd_name d) ''Age'') visible)))"
  proof (cases "List.find (\<lambda>(_, d). same_column (cd_name d) ''Age'') visible")
    case (Some x)
    with vis show ?thesis by (cases x) (auto simp: source_fits_def dest!: find_Some_in_set)
  qed (simp add: source_fits_def)
  show ?thesis
    unfolding table_layout_of_def Let_def visible_def[symmetric] hs_def[symmetric]
    using start vis age fits_place[of hs defs _ 0 hs]
    by (simp add: fits_push fits_push_server fits_push_headers)
qed

section \<open>Rows\<close>

lemma update_cells_map:
  assumes "\<And>src. (case src of CellEnhancement e \<Rightarrow> f e | _ \<Rightarrow> g src) = h src"
  shows "update_cells f sources (map g sources) = map h sources"
proof (rule nth_equalityI)
  fix i assume "i < length (update_cells f sources (map g sources))"
  then have i: "i < length sources" by (simp add: update_cells_def)
  then show "update_cells f sources (map g sources) ! i = map h sources ! i"
    by (simp add: update_cells_def nth_enumerate_eq assms[symmetric])
qed (simp add: update_cells_def)

lemma project_table_row_Some:
  assumes "project_table_row pe grp kind l row u p = Some (r, obj)"
  obtains full where "tr_object row = Some full" "obj = full\<lparr>dy_managed_fields := None\<rparr>" "\<not> should_hide grp kind obj"
    "rr_cells r = map (cell_of (pe_print_json pe) obj row (fst (enhance pe grp kind obj u p))) (tl_sources l)"
    "rr_trends r = map (trend_of (fst (snd (enhance pe grp kind obj u p)))) (tl_sources l)"
  using assms by (auto simp: project_table_row_def Let_def split: option.splits if_splits prod.splits)

lemma length_enhance: "length (fst (enhance pe grp kind obj u p)) = length (enhancement_headers grp kind)"
  by (simp add: enhance_def values_fit_headers case_prod_unfold)

text \<open>A claim and a page of one claim, to see the properties at work.\<close>

definition claim_ops :: f64_ops where
  "claim_ops = \<lparr>fo_lit = (\<lambda>_. 0), fo_parse = (\<lambda>_. None), fo_add = (+), fo_sub = (-), fo_mul = (*), fo_div = (\<lambda>x _. x),
     fo_less = (<), fo_finite = (\<lambda>_. True), fo_round_i64 = (\<lambda>_. 0), fo_as_u64 = (\<lambda>_. 0), fo_fixed = (\<lambda>_ _. [])\<rparr>"

definition claim_env :: project_env where
  "claim_env = \<lparr>pe_f64 = claim_ops, pe_now = 0, pe_parse_rfc3339 = (\<lambda>_. None), pe_format_rfc3339 = (\<lambda>_. []),
     pe_cron_valid = (\<lambda>_. True), pe_timezone_valid = (\<lambda>_. True), pe_parse_datetime = (\<lambda>_. None),
     pe_next_occurrence = (\<lambda>_ _ _. None), pe_add_seconds = (\<lambda>_ _. None), pe_print_json = (\<lambda>_. []),
     pe_to_value = (\<lambda>_. None)\<rparr>"

definition demo_table :: "string \<Rightarrow> table" where
  "demo_table nm = \<lparr>tb_kind = ''Table'', tb_resource_version = ''7'', tb_continue = [],
     tb_columns = [\<lparr>cd_name = ''Name'', cd_priority = 0\<rparr>],
     tb_rows = [\<lparr>tr_cells = [JString nm], tr_object = Some \<lparr>dy_name = Some nm, dy_namespace = Some ''n'', dy_uid = Some nm,
       dy_resource_version = None, dy_created = None, dy_deleting = False, dy_owner_references = None, dy_labels = None, dy_managed_fields = None,
       dy_data = JNull\<rparr>\<rparr>]\<rparr>"

definition demo_layout :: table_layout where
  "demo_layout = table_layout_of [] ''PersistentVolumeClaim'' False (tb_columns (demo_table ''a''))"

definition demo_projected :: "pvc_usage option \<Rightarrow> (resource_row \<times> dyn_object) option" where
  "demo_projected usage = project_table_row claim_env [] ''PersistentVolumeClaim'' demo_layout (hd (tb_rows (demo_table ''a''))) None usage"

lemma demo_projected_cells:
  "map_option (\<lambda>(r, _). rr_cells r) (demo_projected None) = Some [''a'', [], ''false'']"
  "map_option (\<lambda>(r, _). rr_cells r) (demo_projected (Some \<lparr>pu_used = 0\<rparr>)) = Some [''a'', middle_dot, ''true'']"
  by code_simp+

text \<open>The cells a view projects, whatever its projector.\<close>

definition projected_cells :: "project_env \<Rightarrow> kind_view \<Rightarrow> json \<Rightarrow> bool \<Rightarrow> usage_entry option \<Rightarrow> pvc_usage option \<Rightarrow> string list" where
  "projected_cells pe v data deleting u p = (case kv_project v of
     Plain project \<Rightarrow> fst (project pe data)
   | PodProject \<Rightarrow> fst (pod_cells pe data deleting u)
   | PvcProject \<Rightarrow> fst (pvc_cells (pe_f64 pe) data p))"

lemma special_views:
  "explicit_view grp kind = Some v \<Longrightarrow> kv_project v = PodProject \<Longrightarrow> length (kv_headers v) = 11"
  "explicit_view grp kind = Some v \<Longrightarrow> kv_project v = PvcProject \<Longrightarrow> length (kv_headers v) = 4"
proof -
  let ?P = "\<lambda>v. (kv_project v = PodProject \<longrightarrow> length (kv_headers v) = 11) \<and> (kv_project v = PvcProject \<longrightarrow> length (kv_headers v) = 4)"
  have if_P: "pred_option ?P x \<Longrightarrow> ?P v \<Longrightarrow> pred_option ?P (if b then Some v else x)" for v x b by simp
  have "pred_option ?P (other_view grp kind)"
    unfolding other_view_def by (intro if_P) (simp_all add: view_of_def custom_view_of_def)
  then have "pred_option ?P (operator_view grp kind)"
    unfolding operator_view_def by (intro if_P) (simp_all add: view_of_def custom_view_of_def)
  then have "pred_option ?P (explicit_view grp kind)"
    unfolding explicit_view_def by (intro if_P) (simp_all add: view_of_def custom_view_of_def)
  then show "explicit_view grp kind = Some v \<Longrightarrow> kv_project v = PodProject \<Longrightarrow> length (kv_headers v) = 11"
    "explicit_view grp kind = Some v \<Longrightarrow> kv_project v = PvcProject \<Longrightarrow> length (kv_headers v) = 4"
    by simp_all
qed

lemma projected_fit:
  assumes "explicit_view grp kind = Some v"
  shows "length (projected_cells pe v data deleting u p) = length (kv_headers v)"
  using custom_view_fits[OF assms] special_views[OF assms]
  by (cases "kv_project v") (simp_all add: projected_cells_def view_fits_def length_pod_cells length_pvc_cells)

lemma headers_are_columns:
  assumes "k < length (enhancement_headers grp kind)"
  shows "CellEnhancement k \<in> set (tl_sources (table_layout_of grp kind all_ns defs))"
proof -
  let ?hs = "enhancement_headers grp kind"
  have push: "CellEnhancement k \<in> set (tl_sources l) \<Longrightarrow> CellEnhancement k \<in> set (tl_sources (push_column c s l))" for c s l
    by (simp add: push_column_def)
  have fold_push: "CellEnhancement k \<in> set (tl_sources l) \<Longrightarrow> CellEnhancement k \<in> set (tl_sources (push_server P vs l))" for P vs l
  proof -
    have "CellEnhancement k \<in> set (tl_sources (fold (\<lambda>(i, d). push_column (cd_name d) (CellServer i)) ws l))"
      if "CellEnhancement k \<in> set (tl_sources l)" for ws
      using that by (induction ws arbitrary: l) (auto simp: push_column_def)
    then show "CellEnhancement k \<in> set (tl_sources l) \<Longrightarrow> CellEnhancement k \<in> set (tl_sources (push_server P vs l))"
      by (simp add: push_server_def)
  qed
  have pushed: "CellEnhancement k \<in> set (tl_sources (push_headers ?hs l))" for l
  proof -
    have "set (tl_sources (fold (\<lambda>(i, h). push_column h (CellEnhancement i)) ws l)) = set (tl_sources l) \<union> (CellEnhancement \<circ> fst) ` set ws" for ws
      by (induction ws arbitrary: l) (auto simp: push_column_def)
    then show ?thesis
      using assms by (auto simp: push_headers_def in_set_enumerate_eq intro!: image_eqI[of _ _ "(k, ?hs ! k)"])
  qed
  define visible where "visible = filter (\<lambda>(_, d). is_custom grp kind \<or> cd_priority d = 0) (List.enumerate 0 defs)"
  have vis: "\<forall>(i, d)\<in>set visible. i < length defs \<and> defs ! i = d"
    by (auto simp: visible_def in_set_enumerate_eq)
  have placed: "CellEnhancement k \<in> set (tl_sources (place_headers 0 ?hs l))" if "layout_fits ?hs defs l" "\<not> is_custom grp kind" for l
    by (rule place_all[OF that(1)]) (use assms placed_headers_distinct[OF that(2)] in simp_all)
  have start: "layout_fits ?hs defs (if all_ns then push_column ''Namespace'' CellNamespace \<lparr>tl_columns = [], tl_sources = []\<rparr>
      else \<lparr>tl_columns = [], tl_sources = []\<rparr>)"
    by (simp add: layout_fits_def push_column_def source_fits_def)
  show ?thesis
    unfolding table_layout_of_def Let_def visible_def[symmetric]
    using start vis by (auto intro!: push fold_push pushed placed fits_push_server)
qed

text \<open>C10: rows fit their table.  Every projector gives one cell for each header of its kind, whatever the object.  In every
  layout the server derives, each of its own headers has a column; every
  projected row has one cell and one trend for each column, and they come from where the column says: the namespace or
  the creation time of the object, the cell of the API server's column of that name, or the cell and the trend that were projected
  for the header of that name.\<close>

theorem rows_fit_their_table:
  assumes row: "project_table_row pe grp kind (table_layout_of grp kind all_ns defs) row u p = Some (r, obj)"
  shows "(\<forall>v. explicit_view grp kind = Some v \<longrightarrow>
        length (projected_cells pe v data deleting u p) = length (kv_headers v))
    \<and> length (fst (enhance pe grp kind obj u p)) = length (enhancement_headers grp kind)
    \<and> (\<forall>i<length (enhancement_headers grp kind). CellEnhancement i \<in> set (tl_sources (table_layout_of grp kind all_ns defs)))
    \<and> length (rr_cells r) = length (tl_columns (table_layout_of grp kind all_ns defs))
    \<and> length (rr_trends r) = length (tl_columns (table_layout_of grp kind all_ns defs))
    \<and> (\<forall>q<length (rr_cells r).
        let column = tl_columns (table_layout_of grp kind all_ns defs) ! q in
        case tl_sources (table_layout_of grp kind all_ns defs) ! q of
          CellEnhancement i \<Rightarrow> i < length (enhancement_headers grp kind)
            \<and> same_column column (enhancement_headers grp kind ! i) \<and> rr_cells r ! q = fst (enhance pe grp kind obj u p) ! i
            \<and> rr_trends r ! q = nth_or TrendNone (fst (snd (enhance pe grp kind obj u p))) i
        | CellServer i \<Rightarrow> i < length defs \<and> column = cd_name (defs ! i)
            \<and> rr_cells r ! q = nth_or ''<none>'' (map (format_table_cell (pe_print_json pe)) (tr_cells row)) i
            \<and> rr_trends r ! q = TrendNone
        | CellNamespace \<Rightarrow> column = ''Namespace'' \<and> rr_cells r ! q = (case dy_namespace obj of Some ns \<Rightarrow> ns | None \<Rightarrow> [])
            \<and> rr_trends r ! q = TrendNone
        | CellAge age \<Rightarrow> column = ''Age'' \<and> (\<forall>c. dy_created obj = Some c \<longrightarrow> rr_cells r ! q = c)
            \<and> (\<forall>i. age = Some i \<longrightarrow> i < length defs \<and> same_column (cd_name (defs ! i)) ''Age'')
            \<and> rr_trends r ! q = TrendNone)"
proof -
  let ?l = "table_layout_of grp kind all_ns defs"
  from project_table_row_Some[OF row] obtain full where r:
    "rr_cells r = map (cell_of (pe_print_json pe) obj row (fst (enhance pe grp kind obj u p))) (tl_sources ?l)"
    "rr_trends r = map (trend_of (fst (snd (enhance pe grp kind obj u p)))) (tl_sources ?l)"
    by blast
  have fits: "list_all2 (source_fits (enhancement_headers grp kind) defs) (tl_columns ?l) (tl_sources ?l)"
    using table_layout_fits by (simp add: layout_fits_def)
  have len: "length (tl_columns ?l) = length (tl_sources ?l)" using fits by (rule list_all2_lengthD)
  have "case tl_sources ?l ! q of
          CellEnhancement i \<Rightarrow> i < length (enhancement_headers grp kind)
            \<and> same_column (tl_columns ?l ! q) (enhancement_headers grp kind ! i) \<and> rr_cells r ! q = fst (enhance pe grp kind obj u p) ! i
            \<and> rr_trends r ! q = nth_or TrendNone (fst (snd (enhance pe grp kind obj u p))) i
        | CellServer i \<Rightarrow> i < length defs \<and> tl_columns ?l ! q = cd_name (defs ! i)
            \<and> rr_cells r ! q = nth_or ''<none>'' (map (format_table_cell (pe_print_json pe)) (tr_cells row)) i
            \<and> rr_trends r ! q = TrendNone
        | CellNamespace \<Rightarrow> tl_columns ?l ! q = ''Namespace'' \<and> rr_cells r ! q = (case dy_namespace obj of Some ns \<Rightarrow> ns | None \<Rightarrow> [])
            \<and> rr_trends r ! q = TrendNone
        | CellAge age \<Rightarrow> tl_columns ?l ! q = ''Age'' \<and> (\<forall>c. dy_created obj = Some c \<longrightarrow> rr_cells r ! q = c)
            \<and> (\<forall>i. age = Some i \<longrightarrow> i < length defs \<and> same_column (cd_name (defs ! i)) ''Age'')
            \<and> rr_trends r ! q = TrendNone" if q: "q < length (rr_cells r)" for q
  proof -
    have fit: "source_fits (enhancement_headers grp kind) defs (tl_columns ?l ! q) (tl_sources ?l ! q)"
      using list_all2_nthD2[OF fits, of q] q by (simp add: r)
    show ?thesis
      using fit q
      by (cases "tl_sources ?l ! q"; cases "dy_namespace obj")
        (simp_all add: r source_fits_def cell_of_def trend_of_def nth_or_def length_enhance split: option.splits)
  qed
  with len r show ?thesis by (simp add: Let_def projected_fit length_enhance headers_are_columns)
qed

theorem rows_fit_their_table_witness:
  "\<exists>r obj. demo_projected None = Some (r, obj) \<and> length (rr_cells r) = 3 \<and> length (tl_columns demo_layout) = 3"
proof -
  obtain r obj where r: "demo_projected None = Some (r, obj)" "rr_cells r = [''a'', [], ''false'']"
    using demo_projected_cells(1) by (cases "demo_projected None") auto
  have "length (rr_cells r) = length (tl_columns demo_layout)"
    using rows_fit_their_table[OF r(1)[unfolded demo_projected_def demo_layout_def]] unfolding demo_layout_def by blast
  with r show ?thesis by simp
qed

text \<open>C11: reprojecting a row for new usage or a later time is projecting its object anew: a subscriber cannot
  tell the two apart.\<close>

theorem reprojection_is_projection:
  assumes row: "project_table_row pe grp kind l row u p = Some (r, obj)"
  shows "project_table_row (pe\<lparr>pe_now := now\<rparr>) grp kind l row u' p'
    = Some (reproject_table_row (pe\<lparr>pe_now := now\<rparr>) grp kind l obj r u' p', obj)"
proof -
  let ?pe = "pe\<lparr>pe_now := now\<rparr>"
  obtain full where full: "tr_object row = Some full" "obj = full\<lparr>dy_managed_fields := None\<rparr>" "\<not> should_hide grp kind obj"
    and cells: "rr_cells r = map (cell_of (pe_print_json pe) obj row (fst (enhance pe grp kind obj u p))) (tl_sources l)"
      "rr_trends r = map (trend_of (fst (snd (enhance pe grp kind obj u p)))) (tl_sources l)"
    using row by (rule project_table_row_Some)
  have "update_cells (nth_or [] cs) (tl_sources l) (rr_cells r) = map (cell_of (pe_print_json pe) obj row cs) (tl_sources l)" for cs
    unfolding cells by (rule update_cells_map) (simp add: cell_of_def split: cell_source.split)
  moreover have "update_cells (nth_or TrendNone ts) (tl_sources l) (rr_trends r) = map (trend_of ts) (tl_sources l)" for ts
    unfolding cells by (rule update_cells_map) (simp add: trend_of_def split: cell_source.split)
  ultimately show ?thesis
    using row full
    by (auto simp: project_table_row_def reproject_table_row_def Let_def split: option.splits if_splits prod.splits)
qed

theorem reprojection_is_projection_witness:
  "\<exists>r obj. demo_projected None = Some (r, obj)
     \<and> rr_cells (reproject_table_row (claim_env\<lparr>pe_now := 7\<rparr>) [] ''PersistentVolumeClaim'' demo_layout obj r None
          (Some \<lparr>pu_used = 0\<rparr>)) = [''a'', middle_dot, ''true'']"
proof -
  obtain r obj where r: "demo_projected None = Some (r, obj)"
    using demo_projected_cells(1) by (cases "demo_projected None") auto
  have later: "map_option (\<lambda>(r, _). rr_cells r) (project_table_row (claim_env\<lparr>pe_now := 7\<rparr>) [] ''PersistentVolumeClaim'' demo_layout
      (hd (tb_rows (demo_table ''a''))) None (Some \<lparr>pu_used = 0\<rparr>)) = Some [''a'', middle_dot, ''true'']"
    by code_simp
  from reprojection_is_projection[OF r[unfolded demo_projected_def], of 7 None "Some \<lparr>pu_used = 0\<rparr>"] later r show ?thesis
    by simp
qed

end
