(* ===== verification/InformerProps.thy ===== *)
theory InformerProps
  imports Replica TableProps
begin

text \<open>
  Lemmas and properties of the informer: a subscriber that has caught up shows the rows of the
  informer, whichever of the three views it feeds; an informer goes on listening unless an answer
  says that retrying is useless, and then leaves a terminal event for everyone.
\<close>

section \<open>What an informer keeps\<close>

definition keyed :: "(string, resource_row) hmap \<Rightarrow> bool" where
  "keyed m \<longleftrightarrow> hm_ok m \<and> (\<forall>(k, r)\<in>set m. rr_uid r = k)"

lemma keyed_Nil [simp]: "keyed []"
  by (simp add: keyed_def)

lemma keyed_get: "keyed m \<Longrightarrow> hm_get m k = Some r \<Longrightarrow> rr_uid r = k"
  unfolding keyed_def by (blast dest: map_of_SomeD)

lemma set_hm_insert: "set (hm_insert k v m) \<subseteq> insert (k, v) (set m)"
  by (induction m) auto

lemma keyed_insert [simp]: "keyed m \<Longrightarrow> rr_uid r = k \<Longrightarrow> keyed (hm_insert k r m)"
  unfolding keyed_def using set_hm_insert[of k r m] by auto

lemma keyed_remove [simp]: "keyed m \<Longrightarrow> keyed (hm_remove k m)"
  unfolding keyed_def using hm_ok_remove[of m k] by (auto simp: AList.delete_eq)

lemma rows_by_uid_values:
  assumes "keyed m"
  shows "hm_get (rows_by_uid (map snd m)) = hm_get m"
proof -
  have "hm_get (fold (\<lambda>r. hm_insert (rr_uid r) r) (map snd m) m0) = hm_get m0 ++ hm_get m" for m0
    using assms
  proof (induction m arbitrary: m0)
    case (Cons e m)
    obtain k r where e: "e = (k, r)" by (cases e)
    with Cons.prems have k: "rr_uid r = k" "k \<notin> fst ` set m" "keyed m" by (auto simp: keyed_def)
    then have "hm_get (fold (\<lambda>r. hm_insert (rr_uid r) r) (map snd m) (hm_insert k r m0))
        = hm_get (hm_insert k r m0) ++ hm_get m" by (intro Cons.IH)
    moreover have "hm_get m k = None" using k by (simp add: map_of_eq_None_iff)
    ultimately show ?case
      by (auto simp: e k map_add_def fun_eq_iff split: option.splits)
  qed (simp add: map_add_def)
  from this[of "[]"] show ?thesis by (simp add: rows_by_uid_def)
qed

definition cur :: "informer \<Rightarrow> listing_view" where
  "cur s = (in_headers s, hm_get (in_rows s))"

fun sends :: "task_op list \<Rightarrow> watch_event list" where
  "sends [] = []"
| "sends (op # ops) = (case op of OpSend ev \<Rightarrow> ev # sends ops | _ \<Rightarrow> sends ops)"

lemma sends_append [simp]: "sends (xs @ ys) = sends xs @ sends ys"
  by (induction xs) (auto split: task_op.split)

lemma sends_map [simp]:
  "sends (map (OpBuild layout) rows) = []" "sends (map (OpRow layout) rows) = []" "sends (map OpGone rows) = []"
  by (induction rows) auto

definition writes_row :: "task_op \<Rightarrow> bool" where
  "writes_row op \<longleftrightarrow> (case op of OpName _ _ \<Rightarrow> False | OpObject _ _ \<Rightarrow> False | OpUnobject _ \<Rightarrow> False | OpUnname _ \<Rightarrow> False
     | OpSettled \<Rightarrow> False | OpTerminal _ \<Rightarrow> False | OpSend _ \<Rightarrow> False | _ \<Rightarrow> True)"

text \<open>An event is sent before the next row is written.\<close>

fun ordered :: "task_op list \<Rightarrow> bool" where
  "ordered [] = True"
| "ordered (op # ops) = ((writes_row op \<longrightarrow> sends ops = []) \<and> ordered ops)"

lemma ordered_no_sends: "sends ops = [] \<Longrightarrow> ordered ops"
  by (induction ops) (auto split: task_op.splits)

lemma ordered_append: "sends ys = [] \<Longrightarrow> ordered xs \<Longrightarrow> ordered (xs @ ys)"
  by (induction xs) (auto intro: ordered_no_sends)

definition op_ok :: "task_op \<Rightarrow> bool" where
  "op_ok op = (case op of OpPut uid r \<Rightarrow> rr_uid r = uid | _ \<Rightarrow> True)"

lemma op_ok_map [simp]:
  "list_all op_ok (map (OpBuild layout) rows)" "list_all op_ok (map (OpRow layout) rows)"
  "list_all op_ok (map OpGone rows)"
  by (induction rows) (auto simp: op_ok_def)

definition informer_ok :: "informer \<Rightarrow> bool" where
  "informer_ok s \<longleftrightarrow> keyed (in_rows s) \<and> keyed (ls_rows (in_listing s)) \<and> ordered (in_todo s)
     \<and> list_all op_ok (in_todo s)"

abbreviation source :: "informer \<Rightarrow> watch_event list \<times> watch_event list \<times> listing_view" where
  "source s \<equiv> (in_log s, sends (in_todo s), cur s)"

text \<open>A step keeps the invariant and accounts in the log for what it changes.\<close>

definition sound :: "informer \<Rightarrow> informer \<Rightarrow> bool" where
  "sound s s' \<longleftrightarrow> informer_ok s' \<and> watch_log.advances (source s) (source s')"

lemma soundI: "informer_ok s' \<Longrightarrow> watch_log.advances (source s) (source s') \<Longrightarrow> sound s s'"
  by (simp add: sound_def)

lemma sound_same:
  "informer_ok s' \<Longrightarrow> in_log s' = in_log s \<Longrightarrow> sends (in_todo s') = sends (in_todo s)
   \<Longrightarrow> cur s' = cur s \<Longrightarrow> sound s s'"
  unfolding sound_def using watch_log.advances_refl[of "source s"] by simp

lemma sound_write:
  assumes "informer_ok s'" "in_log s' = in_log s" "sends (in_todo s) = []" "sends (in_todo s') = [ev]"
    "cur s' = apply_rows ev (cur s)"
  shows "sound s s'"
  using assms watch_log.advances_write[of "cur s'" ev "cur s" "in_log s"] by (simp add: sound_def)

lemma sound_emit:
  assumes "informer_ok s'" "in_log s' = in_log s @ [ev]" "sends (in_todo s) = []" "sends (in_todo s') = []"
    "cur s' = apply_rows ev (cur s)"
  shows "sound s s'"
  using assms watch_log.advances_emit[of "cur s'" ev "cur s" "in_log s"] by (simp add: sound_def)

lemma sound_refl: "informer_ok s \<Longrightarrow> sound s s"
  by (rule sound_same) auto

lemma sound_trans: "sound s s' \<Longrightarrow> sound s' s'' \<Longrightarrow> sound s s''"
  unfolding sound_def using watch_log.advances_trans by blast

lemma sound_ok: "sound s s' \<Longrightarrow> informer_ok s'"
  by (simp add: sound_def)

section \<open>Steps of the task\<close>

lemma apply_rows_message [simp]: "apply_rows (ErrorEvent m) v = v" "apply_rows (ForbiddenEvent m) v = v"
  by (cases v; simp)+

lemma new_listing_rows [simp]: "ls_rows new_listing = []"
  by (simp add: new_listing_def)

lemmas informer_defs = informer_ok_def cur_def op_ok_def writes_row_def publish_def relist_def sleep_then_def push_ops_def
  send_def

lemma publish_sound:
  assumes "informer_ok s" "sends (in_todo s) = []" "ev = ErrorEvent m \<or> ev = ForbiddenEvent m"
  shows "sound s (publish ev s)"
  by (rule sound_write[of _ _ ev]) (use assms in \<open>auto simp: informer_defs\<close>)

lemma request_failed_sound:
  assumes "informer_ok s" "in_todo s = []"
  shows "sound s (request_failed after layout e s)"
proof -
  have "sound s (sleep_then a layout s)" for a
    by (rule sound_same) (use assms in \<open>auto simp: informer_defs\<close>)
  moreover have "sound s (publish (ForbiddenEvent m) s)" "sound s (publish (ErrorEvent m) s)" for m
    using assms by (auto intro: publish_sound[where m = m])
  ultimately show ?thesis by (simp add: request_failed_def)
qed

lemma got_list_sound:
  assumes "informer_ok s" "in_todo s = []"
  shows "sound s (got_list cf r s)"
proof (cases r)
  case (Inl e)
  with assms show ?thesis by (simp add: got_list_def request_failed_sound)
next
  case (Inr t)
  have "sound s (got_page cf t s)"
  proof (cases "tb_kind t = ''Table''")
    case True
    with True assms show ?thesis
      by (intro sound_same) (auto simp: got_page_def Let_def informer_ok_def cur_def op_ok_def writes_row_def
          intro: ordered_no_sends)
  next
    case False
    with assms show ?thesis by (auto simp: got_page_def intro: publish_sound)
  qed
  with Inr show ?thesis by (simp add: got_list_def)
qed

lemma got_watch_sound:
  assumes "informer_ok s" "in_todo s = []"
  shows "sound s (got_watch layout r s)"
proof (cases r)
  case None
  with assms show ?thesis by (intro sound_same) (auto simp: got_watch_def informer_ok_def cur_def)
next
  case (Some e)
  with assms show ?thesis by (simp add: got_watch_def request_failed_sound)
qed

lemma seen_version_simps [simp]:
  "in_log (seen_version t s) = in_log s" "in_todo (seen_version t s) = in_todo s" "in_rows (seen_version t s) = in_rows s"
  "in_headers (seen_version t s) = in_headers s" "in_listing (seen_version t s) = in_listing s"
  "in_phase (seen_version t s) = in_phase s" "in_terminal (seen_version t s) = in_terminal s"
  by (simp_all add: seen_version_def)

lemma got_rows_sound: "informer_ok s \<Longrightarrow> in_todo s = [] \<Longrightarrow> sound s (got_rows layout t s)"
  by (rule sound_same) (auto simp: got_rows_def informer_ok_def cur_def op_ok_def
      intro: ordered_no_sends)

lemma got_event_sound:
  assumes "informer_ok s" "in_todo s = []"
  shows "sound s (got_event layout ev s)"
proof (cases ev)
  case (TDeleted t)
  with assms show ?thesis
    by (intro sound_same) (auto simp: informer_ok_def cur_def op_ok_def
        intro: ordered_no_sends)
next
  case (TBookmark t)
  with assms show ?thesis by (intro sound_same) (auto simp: informer_ok_def cur_def)
next
  case (TError st)
  have "sound s (relist s)" "sound s (sleep_then after layout s)" for after
    using assms by (auto intro!: sound_same simp: informer_defs)
  moreover have "sound s (publish (ForbiddenEvent m) s)" "sound s (publish (ErrorEvent m) s)" for m
    using assms by (auto intro: publish_sound[where m = m])
  ultimately show ?thesis by (simp add: TError got_status_def)
qed (use assms in \<open>simp_all add: got_rows_sound\<close>)

lemma got_item_sound:
  assumes "informer_ok s" "in_todo s = []"
  shows "sound s (got_item layout item s)"
proof -
  have "sound s (sleep_then ToReconnect layout s)"
    using assms by (auto intro!: sound_same simp: informer_defs)
  with assms show ?thesis
    by (auto simp: got_item_def got_event_sound request_failed_sound split: option.split sum.split)
qed

lemma build_row_sound:
  assumes "informer_ok s" "sends (in_todo s) = []"
  shows "sound s (build_row cf layout row s)"
proof (cases "tr_object row")
  case None
  with assms show ?thesis by (auto simp: build_row_def row_missing_def intro: publish_sound)
next
  case (Some obj)
  with assms show ?thesis
    by (intro sound_same) (auto simp: build_row_def informer_ok_def cur_def split: option.split)
qed

lemma commit_list_sound:
  assumes "informer_ok s" "sends (in_todo s) = []"
  shows "sound s (commit_list cf layout s)"
proof (rule sound_emit)
  show "in_log (commit_list cf layout s) = in_log s @ [Snapshot (tl_columns layout) (map snd (ls_rows (in_listing s)))]"
    by (simp add: commit_list_def Let_def)
  show "cur (commit_list cf layout s) = apply_rows (Snapshot (tl_columns layout) (map snd (ls_rows (in_listing s)))) (cur s)"
    using assms by (simp add: commit_list_def Let_def cur_def rows_by_uid_values informer_ok_def)
qed (use assms in \<open>auto simp: commit_list_def Let_def informer_ok_def\<close>)

lemma end_page_sound:
  assumes "informer_ok s" "sends (in_todo s) = []"
  shows "sound s (end_page cf t s)"
proof -
  let ?s = "s\<lparr>in_version := (if in_version s = [] then tb_resource_version t else in_version s),
              in_listing := (in_listing s)\<lparr>ls_continue := tb_continue t\<rparr>\<rparr>"
  have s: "sound s ?s" by (rule sound_same) (use assms in \<open>auto simp: informer_ok_def cur_def\<close>)
  moreover have "sound ?s (relist ?s)"
    by (rule sound_same) (use assms in \<open>auto simp: informer_defs\<close>)
  moreover have "sound ?s (commit_list cf layout ?s)" for layout
    using sound_ok[OF s] assms(2) by (intro commit_list_sound) simp_all
  ultimately show ?thesis
    by (auto simp: end_page_def Let_def split: option.split intro: sound_trans)
qed

lemma watch_row_sound:
  assumes "informer_ok s" "sends (in_todo s) = []"
  shows "sound s (watch_row cf layout row s)"
proof (cases "tr_object row")
  case None
  with assms show ?thesis by (auto simp: watch_row_def row_missing_def intro: publish_sound)
next
  case (Some obj)
  with assms show ?thesis
    by (intro sound_same) (auto simp: watch_row_def informer_ok_def cur_def push_ops_def op_ok_def split: option.split
        intro: ordered_no_sends)
qed

lemma removal_sound:
  assumes "informer_ok s" "sends (in_todo s) = []" "sends ops = []" "list_all op_ok ops" "\<not> list_ex writes_row ops"
  shows "sound s (push_ops (ops @ [OpSend (Deleted uid)]) (s\<lparr>in_rows := hm_remove uid (in_rows s)\<rparr>))"
proof (rule sound_write)
  have "ordered (ops @ OpSend (Deleted uid) # in_todo s)"
    using assms(5) ordered_no_sends[OF assms(2)] by (induction ops) (auto simp: writes_row_def)
  then show "informer_ok (push_ops (ops @ [OpSend (Deleted uid)]) (s\<lparr>in_rows := hm_remove uid (in_rows s)\<rparr>))"
    using assms by (auto simp: informer_ok_def push_ops_def op_ok_def)
qed (use assms in \<open>auto simp: push_ops_def cur_def fun_eq_iff\<close>)

lemma take_row_sound:
  assumes "informer_ok s" "sends (in_todo s) = []"
  shows "sound s (take_row obj s)"
  using removal_sound[OF assms, of "[OpUnobject (object_uid obj), OpUnname (name_key obj)]" "object_uid obj"]
    sound_refl[OF assms(1)]
  by (simp add: take_row_def Let_def op_ok_def writes_row_def)

lemma remove_row_sound:
  assumes "informer_ok s" "sends (in_todo s) = []"
  shows "sound s (remove_row cf uid obj s)"
  using removal_sound[OF assms, of "if cache_objects cf then [OpUnobject uid, OpUnname (name_key obj)] else []" uid]
  by (simp add: remove_row_def op_ok_def writes_row_def)

lemma gone_row_sound: "informer_ok s \<Longrightarrow> sends (in_todo s) = [] \<Longrightarrow> sound s (gone_row row s)"
  by (intro sound_same) (auto simp: gone_row_def informer_ok_def cur_def push_ops_def op_ok_def writes_row_def
      split: option.split)

lemma put_sound:
  assumes "informer_ok s" "sends (in_todo s) = []" "rr_uid r = uid"
  shows "sound s (run_op cf (OpPut uid r) s)"
proof (rule sound_write)
  show "cur (run_op cf (OpPut uid r) s) = apply_rows (Applied r) (cur s)"
    using assms(3) by (auto simp: cur_def push_ops_def fun_eq_iff)
qed (use assms in \<open>auto simp: informer_ok_def push_ops_def op_ok_def writes_row_def\<close>)

lemma task_step_sound:
  assumes "informer_ok s"
  shows "sound s (task_step cf s)"
proof (cases "in_todo s")
  case Nil
  with assms show ?thesis by (simp add: task_step_def sound_refl)
next
  case (Cons op ops)
  let ?s = "s\<lparr>in_todo := ops\<rparr>"
  from assms Cons have ok: "informer_ok ?s" "op_ok op" and w: "writes_row op \<Longrightarrow> sends ops = []"
    by (auto simp: informer_ok_def)
  have frame: "sound s ?s" if "sends (op # ops) = sends ops"
    by (rule sound_same) (use ok that Cons in \<open>auto simp: cur_def\<close>)
  have "sound s (run_op cf op ?s)"
  proof (cases "writes_row op")
    case True
    with w have none: "sends (in_todo ?s) = []" by simp
    have "sends (op # ops) = sends ops" using True by (auto simp: writes_row_def split: task_op.splits)
    moreover have "sound ?s (run_op cf op ?s)"
      using True ok(2) build_row_sound[OF ok(1) none] end_page_sound[OF ok(1) none] watch_row_sound[OF ok(1) none]
        gone_row_sound[OF ok(1) none] put_sound[OF ok(1) none] take_row_sound[OF ok(1) none]
        remove_row_sound[OF ok(1) none]
      by (cases op) (auto simp: writes_row_def op_ok_def simp del: run_op.simps(7))
    ultimately show ?thesis using frame sound_trans by blast
  next
    case False
    show ?thesis
    proof (cases op)
      case (OpSend ev)
      have "informer_ok (send ev ?s)" using ok by (auto simp: informer_ok_def send_def)
      moreover have "source s = (in_log s, ev # sends ops, cur s)" "source (send ev ?s) = (in_log s @ [ev], sends ops, cur s)"
        using Cons OpSend by (auto simp: send_def cur_def)
      ultimately show ?thesis using OpSend watch_log.advances_flush by (simp add: sound_def)
    qed (use False ok Cons in \<open>auto simp: writes_row_def informer_ok_def cur_def intro!: sound_same\<close>)
  qed
  with Cons show ?thesis by (simp add: task_step_def)
qed

section \<open>Reprojection\<close>

lemma reproject_uid [simp]: "rr_uid (reproject_table_row enh grp kind layout obj r u p) = rr_uid r"
  by (simp add: reproject_table_row_def split: prod.split)

lemma reproject_one_sound:
  assumes "informer_ok s" "sends (in_todo s) = []" "\<And>obj r. rr_uid (project obj r) = rr_uid r"
  shows "sound s (reproject_one project entry s) \<and> in_todo (reproject_one project entry s) = in_todo s"
proof -
  obtain uid obj where e: "entry = (uid, obj)" by (cases entry)
  show ?thesis
  proof (cases "hm_get (in_rows s) uid")
    case (Some r)
    have uid: "rr_uid r = uid" using Some assms(1) by (auto simp: informer_ok_def intro: keyed_get)
    have "sound s (send (Applied (project obj r)) (s\<lparr>in_rows := hm_insert uid (project obj r) (in_rows s)\<rparr>))"
      by (rule sound_emit[of _ _ "Applied (project obj r)"])
        (use assms uid in \<open>auto simp: informer_ok_def send_def cur_def fun_eq_iff\<close>)
    with assms(1) Some show ?thesis by (simp add: reproject_one_def e Let_def sound_refl send_def)
  qed (use assms(1) in \<open>simp add: reproject_one_def e sound_refl\<close>)
qed

lemma reproject_fold_sound:
  assumes "informer_ok s" "sends (in_todo s) = []" "\<And>obj r. rr_uid (project obj r) = rr_uid r"
  shows "sound s (fold (reproject_one project) es s)"
  using assms
proof (induction es arbitrary: s)
  case (Cons e es)
  have one: "sound s (reproject_one project e s)" "in_todo (reproject_one project e s) = in_todo s"
    using reproject_one_sound[OF Cons.prems(1,2), of project e] Cons.prems(3) by simp_all
  have "sound (reproject_one project e s) (fold (reproject_one project) es (reproject_one project e s))"
    using one Cons.prems by (intro Cons.IH) (auto dest: sound_ok)
  with one show ?case by (auto intro: sound_trans)
qed (simp add: sound_refl)

lemma reproject_once_sound:
  assumes "informer_ok s" "sends (in_todo s) = []"
  shows "sound s (reproject_once cf n s)"
  using assms reproject_fold_sound[OF assms, of "reproject_row cf layout s" for layout]
  by (auto simp: reproject_once_def reproject_entry_def reproject_row_def sound_refl split: option.split)

lemma woke_sound: "informer_ok s \<Longrightarrow> in_todo s = [] \<Longrightarrow> sound s (woke s)"
  by (intro sound_same) (auto simp: woke_def informer_defs split: task_phase.split after_sleep.split)

lemma informer_step_sound:
  assumes "informer_ok s" "case a of Reproject _ \<Rightarrow> sends (in_todo s) = [] | _ \<Rightarrow> True"
  shows "sound s (informer_step cf a s)"
proof (cases a)
  case (Reproject n)
  with assms show ?thesis by (simp add: reproject_once_sound)
next
  case TakeNotice
  have "sound s (relist (s\<lparr>in_notified := False\<rparr>))" if "in_todo s = []"
    by (rule sound_same) (use assms that in \<open>auto simp: informer_defs\<close>)
  with TakeNotice assms show ?thesis by (auto simp: sound_refl waits_for_answer_def)
next
  case RefreshSchema
  with assms show ?thesis by (auto simp: informer_ok_def cur_def intro: sound_same)
next
  case (Scraped pods pvcs)
  with assms show ?thesis by (auto simp: informer_ok_def cur_def intro: sound_same)
next
  case (Clock now)
  with assms show ?thesis by (auto simp: informer_ok_def cur_def intro: sound_same)
qed (use assms in \<open>auto simp: sound_refl got_list_sound got_watch_sound got_item_sound woke_sound task_step_sound
       split: task_phase.split\<close>)

section \<open>Subscribers\<close>

text \<open>A reprojection does not come between the writing of a row and the sending of its event.\<close>

fun timely :: "informer_cfg \<Rightarrow> watch_act list \<Rightarrow> watched \<Rightarrow> bool" where
  "timely cf [] w = True"
| "timely cf (a # as) w =
     ((case a of Inform (Reproject _) \<Rightarrow> sends (in_todo (fst w)) = [] | _ \<Rightarrow> True) \<and> timely cf as (watch_step cf a w))"

text \<open>What a subscriber has been sent starts with a snapshot.\<close>

definition sent_ok :: "subscriber \<Rightarrow> bool" where
  "sent_ok c \<longleftrightarrow> (\<exists>cols rs es. sb_got c = Snapshot cols rs # es
     \<and> pane_shown (sb_pane c) = fold apply_rows es (cols, hm_get (rows_by_uid rs)))"

definition sub_ok :: "informer \<Rightarrow> subscriber \<Rightarrow> bool" where
  "sub_ok s c \<longleftrightarrow>
     (if sb_phase c = Attached then sb_got c = [] else sent_ok c)
     \<and> (sb_own c \<noteq> None \<longrightarrow> sb_phase c = Live)
     \<and> (sb_own c = None \<longrightarrow>
         (if sb_phase c = Attached \<or> sb_phase c = Lagging
          then watch_log.syncable (sb_pos c) (in_log s) (sends (in_todo s)) (cur s)
          else watch_log.in_sync (sb_pos c) (in_log s) (sends (in_todo s)) (cur s) (pane_shown (sb_pane c))))"

lemma sent_ok_deliver: "sent_ok c \<Longrightarrow> sent_ok (deliver ev c)"
  unfolding sent_ok_def deliver_def by (auto simp: pane.apply_shown)

lemma sent_ok_snapshot: "sb_got c = [] \<Longrightarrow> sent_ok (deliver (Snapshot cols rs) c)"
  unfolding sent_ok_def deliver_def by (cases "sb_pane c") (auto simp: pane_shown_def)

lemma sent_ok_update [simp]:
  "sent_ok (c\<lparr>sb_phase := p\<rparr>) = sent_ok c" "sent_ok (c\<lparr>sb_pos := i\<rparr>) = sent_ok c" "sent_ok (c\<lparr>sb_own := ev\<rparr>) = sent_ok c"
  by (simp_all add: sent_ok_def)

lemma deliver_simps [simp]:
  "sb_phase (deliver ev c) = sb_phase c" "sb_pos (deliver ev c) = sb_pos c" "sb_own (deliver ev c) = sb_own c"
  "sb_pane (deliver ev c) = apply_pane ev (sb_pane c)"
  by (simp_all add: deliver_def)

lemma current_snapshot_shown:
  "keyed (in_rows s) \<Longrightarrow> apply_rows (current_snapshot s) v = cur s"
  by (cases v) (simp add: current_snapshot_def cur_def rows_by_uid_values)

lemma sub_ok_sound: "sub_ok s c \<Longrightarrow> sound s s' \<Longrightarrow> sub_ok s' c"
  unfolding sub_ok_def sound_def
  by (auto intro: watch_log.in_sync_advances watch_log.syncable_advances split: if_splits)

text \<open>The writer itself is in sync with what it has sent and is about to send.\<close>

definition writer_ok :: "informer \<Rightarrow> bool" where
  "writer_ok s \<longleftrightarrow> informer_ok s \<and> watch_log.syncable (length (in_log s)) (in_log s) (sends (in_todo s)) (cur s)"

lemma writer_ok_sound:
  assumes "writer_ok s" "sound s s'"
  shows "writer_ok s'"
proof -
  have "watch_log.syncable (length (in_log s)) (in_log s') (sends (in_todo s')) (cur s')"
    using assms by (auto simp: writer_ok_def sound_def intro: watch_log.syncable_advances)
  moreover have "length (in_log s) \<le> length (in_log s')"
    using assms(2) by (auto simp: sound_def watch_log.advances_def)
  ultimately show ?thesis
    using assms(2) by (auto simp: writer_ok_def sound_def intro: watch_log.syncable_skip)
qed

lemma attach_ok: "writer_ok s \<Longrightarrow> sub_ok s (attach s)"
  by (simp add: sub_ok_def attach_def writer_ok_def)

lemma snapshot_in_sync:
  assumes "writer_ok s" "watch_log.syncable i (in_log s) (sends (in_todo s)) (cur s)"
  shows "watch_log.in_sync i (in_log s) (sends (in_todo s)) (cur s) (pane_shown (apply_pane (current_snapshot s) p))"
  using assms by (simp add: pane.apply_shown current_snapshot_shown writer_ok_def informer_ok_def
      watch_log.in_sync_snapshot)

lemma snap_ok: "writer_ok s \<Longrightarrow> sub_ok s c \<Longrightarrow> sub_ok s (snap s c)"
  by (auto simp: snap_def sub_ok_def snapshot_in_sync[unfolded current_snapshot_def] current_snapshot_def
      intro: sent_ok_snapshot simp del: apply_pane.simps)

lemma check_terminal_ok: "sub_ok s c \<Longrightarrow> sub_ok s (check_terminal s c)"
  by (auto simp: check_terminal_def sub_ok_def sent_ok_deliver split: option.split)

lemma resync_ok: "writer_ok s \<Longrightarrow> sub_ok s c \<Longrightarrow> sub_ok s (resync s c)"
  by (auto simp: resync_def sub_ok_def snapshot_in_sync sent_ok_deliver)

lemma receive_ok:
  assumes "sub_ok s c"
  shows "sub_ok s (receive s c)"
proof (cases "sb_phase c = Live \<and> sb_own c = None \<and> sb_pos c < length (in_log s)")
  case True
  with assms have sync: "watch_log.in_sync (sb_pos c) (in_log s) (sends (in_todo s)) (cur s) (pane_shown (sb_pane c))"
    and sent: "sent_ok c"
    by (auto simp: sub_ok_def)
  have "watch_log.syncable (length (in_log s) - CHANNEL_CAP) (in_log s) (sends (in_todo s)) (cur s)"
    if "CHANNEL_CAP < length (in_log s) - sb_pos c"
    by (rule watch_log.syncable_skip[OF watch_log.in_sync_syncable[OF sync]]) (use that in auto)
  with True sent watch_log.in_sync_receive[OF sync] show ?thesis
    by (auto simp: receive_def sub_ok_def sent_ok_deliver pane.apply_shown)
next
  case False
  with assms show ?thesis by (auto simp: receive_def)
qed

lemma watch_step_ok:
  assumes "writer_ok s" "\<And>x. c = Some x \<Longrightarrow> sub_ok s x" "watch_step cf a (s, c) = (s', c')"
    "case a of Inform (Reproject _) \<Rightarrow> sends (in_todo s) = [] | _ \<Rightarrow> True"
  shows "writer_ok s' \<and> (\<forall>x. c' = Some x \<longrightarrow> sub_ok s' x)"
proof (cases a)
  case (Inform b)
  have "sound s (informer_step cf b s)"
    by (rule informer_step_sound) (use assms(1,4) Inform in \<open>auto simp: writer_ok_def split: informer_act.splits\<close>)
  with assms Inform show ?thesis by (auto intro: writer_ok_sound sub_ok_sound)
qed (use assms in \<open>auto simp: attach_ok snap_ok check_terminal_ok receive_ok resync_ok split: option.splits\<close>)

lemma watch_run_ok:
  assumes "writer_ok (fst w)" "\<And>x. snd w = Some x \<Longrightarrow> sub_ok (fst w) x" "timely cf acts w"
  shows "writer_ok (fst (watch_run cf acts w)) \<and> (\<forall>x. snd (watch_run cf acts w) = Some x \<longrightarrow> sub_ok (fst (watch_run cf acts w)) x)"
  using assms
proof (induction acts arbitrary: w)
  case (Cons a acts)
  obtain s c where w: "w = (s, c)" by (cases w)
  obtain s' c' where w': "watch_step cf a w = (s', c')" by (cases "watch_step cf a w")
  have "writer_ok s' \<and> (\<forall>x. c' = Some x \<longrightarrow> sub_ok s' x)"
    by (rule watch_step_ok[of s c cf a]) (use Cons.prems w w' in \<open>auto split: watch_act.splits informer_act.splits\<close>)
  with Cons.IH[of "(s', c')"] Cons.prems(3) w' show ?case by (simp add: watch_run_def)
qed (simp add: watch_run_def)

lemma start_ok: "writer_ok (start_informer now pods pvcs)"
  by (simp add: writer_ok_def informer_ok_def start_informer_def watch_log.syncable_def watch_log.in_sync_def)

text \<open>C8: a subscriber that has taken everything the informer sent shows exactly the informer's columns
  and rows, in the workspace pane, in the resource table and in the merged search results alike,
  however the task, the scrapes, schema changes and the steps of the subscription interleave, and also
  when the subscriber fell behind the channel and was given a new snapshot; provided that no
  reprojection came between a row's write and its event.\<close>

theorem caught_up_shows_the_rows:
  assumes run: "watch_run cf acts (start_informer now pods pvcs, None) = (s, Some c)"
    and "timely cf acts (start_informer now pods pvcs, None)"
    and live: "sb_phase c = Live" "sb_own c = None"
    and caught_up: "sb_pos c = length (in_log s)" "sends (in_todo s) = []"
  shows "pane_shown (fold apply_pane (sb_got c) p) = (in_headers s, hm_get (in_rows s))
    \<and> table_shown (fold apply_event (sb_got c) v) = (in_headers s, hm_get (in_rows s))
    \<and> merged_shown k (fold (merged_apply_event k) (sb_got c) m) = (in_headers s, hm_get (in_rows s))"
proof -
  have "sub_ok s c"
    using watch_run_ok[of "(start_informer now pods pvcs, None)" cf acts] assms(1,2) start_ok by auto
  with live caught_up have "watch_log.in_sync (length (in_log s)) (in_log s) [] (cur s) (pane_shown (sb_pane c))"
    and "sent_ok c"
    by (auto simp: sub_ok_def)
  moreover from this(1) have "pane_shown (sb_pane c) = cur s" by (rule watch_log.in_sync_done)
  ultimately obtain cols rs es where got: "sb_got c = Snapshot cols rs # es"
    "fold apply_rows es (cols, hm_get (rows_by_uid rs)) = cur s"
    by (auto simp: sent_ok_def)
  show ?thesis
    unfolding got(1)
    by (simp only: pane.replay_from_snapshot table_view.replay_from_snapshot merged_view.replay_from_snapshot got(2) cur_def)
qed

text \<open>Claims with a usage column: one is listed, a second one arrives while a browser watches.\<close>

definition demo_cfg :: informer_cfg where
  "demo_cfg = \<lparr>ic_group = [], ic_kind = ''PersistentVolumeClaim'', ic_namespaced = True, ic_namespace = Some ''n'',
     ic_env = claim_env\<rparr>"

definition demo_acts :: "watch_act list" where
  "demo_acts = [Inform (GotList (Inr (demo_table ''a''))), Inform TaskOp, Inform TaskOp, Subscribe, Inform (GotWatch None),
     Inform (GotItem (Some (Inr (TAdded (demo_table ''b''))))), Inform TaskOp, Inform TaskOp, Inform TaskOp, Inform TaskOp,
     TakeSnapshot, CheckTerminal, Inform TaskOp, Inform TaskOp, Receive]"

definition demo_start :: "watched" where
  "demo_start = (start_informer 0 [] [], None)"

definition demo_run :: "watched" where
  "demo_run = watch_run demo_cfg demo_acts demo_start"

lemma demo_timely: "timely demo_cfg demo_acts demo_start"
  by code_simp

lemma demo_caught_up:
  "case demo_run of (s, Some c) \<Rightarrow> sb_phase c = Live \<and> sb_own c = None \<and> sb_pos c = length (in_log s)
     \<and> sends (in_todo s) = [] \<and> map fst (in_rows s) = [''a'', ''b''] \<and> length (sb_got c) = 2 | _ \<Rightarrow> False"
  by code_simp

theorem caught_up_shows_the_rows_witness:
  "\<exists>s c. demo_run = (s, Some c) \<and> map fst (in_rows s) = [''a'', ''b''] \<and> length (sb_got c) = 2
     \<and> pane_shown (fold apply_pane (sb_got c) ([], [])) = (in_headers s, hm_get (in_rows s))"
proof -
  obtain s c where run: "demo_run = (s, Some c)"
    using demo_caught_up by (auto split: prod.splits option.splits)
  note c = demo_caught_up[unfolded run, simplified]
  from caught_up_shows_the_rows[OF run[unfolded demo_run_def demo_start_def] demo_timely[unfolded demo_start_def]]
  have "pane_shown (fold apply_pane (sb_got c) ([], [])) = (in_headers s, hm_get (in_rows s))" using c by blast
  with run c show ?thesis by (intro exI[of _ s] exI[of _ c]) simp
qed

text \<open>Without the proviso it fails: when the usage of a claim is scraped and its row reprojected after the task
  has written the row and before it has sent it, the older row is sent last and stays in the browser.\<close>

definition untimely_acts :: "watch_act list" where
  "untimely_acts = [Inform (GotList (Inr (demo_table ''a''))), Inform TaskOp, Inform TaskOp, Subscribe, TakeSnapshot,
     CheckTerminal, Inform (GotWatch None), Inform (GotItem (Some (Inr (TAdded (demo_table ''b''))))), Inform TaskOp,
     Inform TaskOp, Inform TaskOp, Inform TaskOp, Inform (Scraped [] [(''n/b'', \<lparr>pu_used = 0\<rparr>)]), Inform (Reproject 1), Inform TaskOp,
     Inform TaskOp, Receive, Receive]"

lemma stale_row_after_untimely_reproject:
  "case watch_run demo_cfg untimely_acts demo_start of (s, Some c) \<Rightarrow>
       sb_phase c = Live \<and> sb_own c = None \<and> sb_pos c = length (in_log s) \<and> in_todo s = []
       \<and> map_option rr_cells (hm_get (in_rows s) ''b'') \<noteq> map_option rr_cells (snd (pane_shown (sb_pane c)) ''b'')
   | _ \<Rightarrow> False"
  by code_simp

section \<open>Stopping\<close>

text \<open>The answers that retrying cannot change.\<close>

definition fatal_error :: "table_error \<Rightarrow> bool" where
  "fatal_error e \<longleftrightarrow> is_forbidden_error e \<or> \<not> is_auth_error e \<and> te_is_permanent e"

definition rowless :: "table \<Rightarrow> bool" where
  "rowless t \<longleftrightarrow> (\<exists>row\<in>set (tb_rows t). tr_object row = None)"

fun fatal :: "informer_act \<Rightarrow> bool" where
  "fatal (GotList (Inl e)) = fatal_error e"
| "fatal (GotList (Inr t)) = (tb_kind t \<noteq> ''Table'' \<or> rowless t)"
| "fatal (GotWatch (Some e)) = fatal_error e"
| "fatal (GotItem (Some (Inl e))) = fatal_error e"
| "fatal (GotItem (Some (Inr (TAdded t)))) = rowless t"
| "fatal (GotItem (Some (Inr (TModified t)))) = rowless t"
| "fatal (GotItem (Some (Inr (TError st)))) = (400 \<le> ts_code st \<and> ts_code st < 500 \<and> ts_code st \<notin> {401, 410})"
| "fatal _ = False"

definition is_final :: "watch_event \<Rightarrow> bool" where
  "is_final ev \<longleftrightarrow> (case ev of ForbiddenEvent _ \<Rightarrow> True | ErrorEvent _ \<Rightarrow> True | _ \<Rightarrow> False)"

definition op_rowless :: "task_op \<Rightarrow> bool" where
  "op_rowless op \<longleftrightarrow> (case op of OpBuild _ row \<Rightarrow> tr_object row = None | OpRow _ row \<Rightarrow> tr_object row = None | _ \<Rightarrow> False)"

text \<open>\<open>f\<close> tells whether there was a fatal answer.  A stopped informer is about to retain and send its last
  event, or has done so.\<close>

definition stop_ok :: "bool \<Rightarrow> informer \<Rightarrow> bool" where
  "stop_ok f s \<longleftrightarrow>
     (if in_phase s = Stopped
      then f \<and> (\<exists>ev. is_final ev \<and> (in_todo s = [OpTerminal ev, OpSend ev]
         \<or> in_terminal s = Some ev \<and> (in_todo s = [OpSend ev] \<or> in_todo s = [] \<and> ev \<in> set (in_log s))))
      else \<forall>op\<in>set (in_todo s). op_rowless op \<longrightarrow> f)"

lemma stop_ok_publish: "f \<Longrightarrow> is_final ev \<Longrightarrow> stop_ok f (publish ev s)"
  by (auto simp: stop_ok_def publish_def)

lemma stop_ok_frame:
  "stop_ok f s \<Longrightarrow> in_phase s' = in_phase s \<Longrightarrow> in_todo s' = in_todo s \<Longrightarrow> in_terminal s' = in_terminal s
   \<Longrightarrow> set (in_log s) \<subseteq> set (in_log s') \<Longrightarrow> stop_ok f s'"
  unfolding stop_ok_def by (auto split: if_splits)

lemma stop_ok_mono: "stop_ok f s \<Longrightarrow> (f \<Longrightarrow> f') \<Longrightarrow> stop_ok f' s"
  unfolding stop_ok_def by (auto split: if_splits)

lemma is_final_simps [simp]: "is_final (ErrorEvent m)" "is_final (ForbiddenEvent m)"
  by (simp_all add: is_final_def)

lemma stop_ok_going [simp]: "stop_ok f (relist s)" "stop_ok f (sleep_then after layout s)"
  by (simp_all add: stop_ok_def relist_def sleep_then_def)

lemma stop_ok_request: "(fatal_error e \<Longrightarrow> f) \<Longrightarrow> stop_ok f (request_failed after layout e s)"
  by (auto simp: request_failed_def fatal_error_def intro: stop_ok_publish)

lemma stop_ok_list:
  assumes "in_phase s = Listing" "fatal (GotList r) \<Longrightarrow> f"
  shows "stop_ok f (got_list cf r s)"
proof (cases r)
  case (Inl e)
  with assms show ?thesis by (auto simp: got_list_def intro: stop_ok_request)
next
  case (Inr t)
  with assms show ?thesis
    by (auto simp: got_list_def got_page_def Let_def stop_ok_def op_rowless_def rowless_def publish_def)
qed

lemma stop_ok_item:
  assumes "in_phase s = Streaming layout" "in_todo s = []" "fatal (GotItem item) \<Longrightarrow> f"
  shows "stop_ok f (got_item layout item s)"
proof -
  have "stop_ok f (got_rows layout t s)" if "rowless t \<Longrightarrow> f" for t
    using assms(1) that by (auto simp: got_rows_def stop_ok_def op_rowless_def rowless_def)
  moreover have "stop_ok f (seen_version t s\<lparr>in_todo := map OpGone (tb_rows t)\<rparr>)" "stop_ok f (seen_version t s)" for t
    using assms(1,2) by (auto simp: stop_ok_def op_rowless_def)
  moreover have "stop_ok f (got_status layout st s)"
    if "400 \<le> ts_code st \<and> ts_code st < 500 \<and> ts_code st \<notin> {401, 410} \<Longrightarrow> f" for st
    using that by (auto simp: got_status_def intro: stop_ok_publish)
  ultimately have "stop_ok f (got_event layout ev s)" if "fatal (GotItem (Some (Inr ev))) \<Longrightarrow> f" for ev
    using that by (cases ev) auto
  with assms(3) show ?thesis
    by (auto simp: got_item_def intro: stop_ok_request split: option.split sum.split)
qed

lemma stop_ok_running_op:
  assumes "in_phase s \<noteq> Stopped" "\<forall>op\<in>set (in_todo s). op_rowless op \<longrightarrow> f" "op_rowless op \<longrightarrow> f"
  shows "stop_ok f (run_op cf op s)"
proof (cases op)
  case (OpBuild layout row)
  with assms show ?thesis
    by (auto simp: build_row_def row_missing_def op_rowless_def stop_ok_publish split: option.split)
      (auto simp: stop_ok_def op_rowless_def)
next
  case (OpPage t)
  with assms show ?thesis
    by (auto simp: end_page_def Let_def split: option.split)
      (auto simp: stop_ok_def commit_list_def Let_def)
next
  case (OpRow layout row)
  with assms show ?thesis
    by (auto simp: watch_row_def row_missing_def op_rowless_def stop_ok_publish split: option.split)
      (auto simp: stop_ok_def op_rowless_def push_ops_def)
qed (use assms in \<open>auto simp: stop_ok_def op_rowless_def push_ops_def gone_row_def take_row_def remove_row_def Let_def
      send_def split: option.split\<close>)

lemma stop_ok_task:
  assumes "stop_ok f s"
  shows "stop_ok f (task_step cf s)"
proof (cases "in_todo s")
  case Nil
  with assms show ?thesis by (simp add: task_step_def)
next
  case (Cons op ops)
  show ?thesis
  proof (cases "in_phase s = Stopped")
    case True
    with assms Cons show ?thesis by (auto simp: stop_ok_def task_step_def send_def)
  next
    case False
    with assms Cons have "stop_ok f (run_op cf op (s\<lparr>in_todo := ops\<rparr>))"
      by (intro stop_ok_running_op) (auto simp: stop_ok_def)
    with Cons show ?thesis by (simp add: task_step_def)
  qed
qed

lemma reproject_frame:
  "in_phase (reproject_once cf n s) = in_phase s \<and> in_todo (reproject_once cf n s) = in_todo s
   \<and> in_terminal (reproject_once cf n s) = in_terminal s \<and> set (in_log s) \<subseteq> set (in_log (reproject_once cf n s))"
proof -
  have "in_phase (fold (reproject_one project) es s) = in_phase s \<and> in_todo (fold (reproject_one project) es s) = in_todo s
   \<and> in_terminal (fold (reproject_one project) es s) = in_terminal s \<and> set (in_log s) \<subseteq> set (in_log (fold (reproject_one project) es s))"
    for project es
  proof (induction es arbitrary: s)
    case (Cons e es)
    have "in_phase (reproject_one project e s) = in_phase s \<and> in_todo (reproject_one project e s) = in_todo s
      \<and> in_terminal (reproject_one project e s) = in_terminal s \<and> set (in_log s) \<subseteq> set (in_log (reproject_one project e s))"
      by (auto simp: reproject_one_def Let_def send_def split: prod.split option.split)
    with Cons.IH[of "reproject_one project e s"] show ?case by auto
  qed simp
  then show ?thesis by (auto simp: reproject_once_def reproject_entry_def split: option.split)
qed

lemma stop_ok_step:
  assumes "stop_ok f s"
  shows "stop_ok (f \<or> fatal a) (informer_step cf a s)"
proof (cases a)
  case (GotList r)
  with assms show ?thesis by (auto intro: stop_ok_list stop_ok_mono)
next
  case (GotWatch r)
  have "stop_ok (f \<or> fatal a) (got_watch layout r s)" if "in_todo s = []" for layout
    using GotWatch that by (auto simp: got_watch_def intro!: stop_ok_request split: option.split) (auto simp: stop_ok_def)
  with GotWatch stop_ok_mono[OF assms] show ?thesis by (auto split: task_phase.split)
next
  case (GotItem item)
  with stop_ok_mono[OF assms] show ?thesis by (auto intro!: stop_ok_item split: task_phase.split)
next
  case TakeNotice
  with assms show ?thesis by (auto intro: stop_ok_mono)
next
  case Woke
  with assms show ?thesis by (auto simp: woke_def relist_def stop_ok_def split: task_phase.split after_sleep.split)
next
  case TaskOp
  with stop_ok_task[OF assms] show ?thesis by (auto intro: stop_ok_mono)
next
  case (Reproject n)
  with assms reproject_frame[of cf n s] show ?thesis by (auto intro: stop_ok_frame)
qed (use assms in \<open>auto intro: stop_ok_frame\<close>)

lemma stop_ok_run: "stop_ok f s \<Longrightarrow> stop_ok (f \<or> (\<exists>a\<in>set acts. fatal a)) (fold (informer_step cf) acts s)"
proof (induction acts arbitrary: f s)
  case (Cons a acts)
  from Cons.IH[OF stop_ok_step[OF Cons.prems, of a cf]] show ?case by (simp add: disj_assoc)
qed simp

section \<open>Progress\<close>

definition op_work :: "task_op \<Rightarrow> nat" where
  "op_work op = (case op of OpBuild _ _ \<Rightarrow> 3 | OpRow _ _ \<Rightarrow> 5 | OpGone _ \<Rightarrow> 5 | OpPut _ _ \<Rightarrow> 2 | OpTake _ \<Rightarrow> 4
     | OpRemove _ _ \<Rightarrow> 4 | _ \<Rightarrow> 1)"

definition work :: "informer \<Rightarrow> nat" where
  "work s = sum_list (map op_work (in_todo s))"

lemma task_step_work: "in_todo s \<noteq> [] \<Longrightarrow> work (task_step cf s) < work s"
  by (cases "in_todo s"; cases "hd (in_todo s)")
    (auto simp: task_step_def work_def op_work_def build_row_def publish_def end_page_def Let_def relist_def commit_list_def
      watch_row_def push_ops_def gone_row_def take_row_def remove_row_def send_def split: option.split)

lemma task_drains: "\<exists>n. in_todo ((task_step cf ^^ n) s) = []"
proof (induction "work s" arbitrary: s rule: less_induct)
  case less
  show ?case
  proof (cases "in_todo s = []")
    case True
    then have "in_todo ((task_step cf ^^ 0) s) = []" by simp
    then show ?thesis by blast
  next
    case False
    from less[OF task_step_work[OF False, of cf]] obtain n where "in_todo ((task_step cf ^^ n) (task_step cf s)) = []" by blast
    then have "in_todo ((task_step cf ^^ Suc n) s) = []" by (simp add: funpow_Suc_right del: funpow.simps)
    then show ?thesis by blast
  qed
qed

text \<open>C9: an informer is never silently dead.  Whatever has happened, after finitely many operations and
  the end of a backoff its task waits for the API server again, or it has stopped: then some answer was
  fatal, and a terminal event that says why is retained for later subscribers and was sent to those
  there are.\<close>

theorem informer_never_silent:
  "\<exists>n. let s = fold (informer_step cf) acts (start_informer now pods pvcs); s' = (task_step cf ^^ n) s in
     in_todo s' = [] \<and>
     (if in_phase s' = Stopped
      then (\<exists>a\<in>set acts. fatal a)
        \<and> (\<exists>ev. in_terminal s' = Some ev \<and> ev \<in> set (in_log s') \<and> is_final ev)
      else waits_for_answer (woke s'))"
proof -
  let ?s = "fold (informer_step cf) acts (start_informer now pods pvcs)"
  have "stop_ok False (start_informer now pods pvcs)" by (simp add: stop_ok_def start_informer_def)
  from stop_ok_run[OF this] have "stop_ok (\<exists>a\<in>set acts. fatal a) ?s" by simp
  then have ok: "stop_ok (\<exists>a\<in>set acts. fatal a) ((task_step cf ^^ n) ?s)" for n
    by (induction n) (simp_all add: stop_ok_task)
  obtain n where n: "in_todo ((task_step cf ^^ n) ?s) = []" using task_drains by blast
  have "waits_for_answer (woke s)" if "in_phase s \<noteq> Stopped" "in_todo s = []" for s :: "informer"
    using that by (auto simp: waits_for_answer_def woke_def relist_def split: task_phase.split after_sleep.split)
  with n ok[of n] show ?thesis
    by (intro exI[of _ n]) (auto simp: Let_def stop_ok_def)
qed

text \<open>Throttling counts as fatal: a list answered with status 429 stops the informer for good.\<close>

lemma throttled_list_stops:
  "let s = informer_step cf (GotList (Inl (TeApi 429 [''too many requests'']))) (start_informer now pods pvcs) in
   in_phase s = Stopped \<and> in_terminal (task_step cf s) = Some (ErrorEvent ''too many requests'')"
proof -
  have "\<not> is_forbidden_error (TeApi 429 [''too many requests''])" by code_simp
  moreover have "\<not> is_auth_error (TeApi 429 [''too many requests''])" by code_simp
  ultimately show ?thesis
    by (simp add: Let_def start_informer_def got_list_def request_failed_def te_is_permanent_def publish_def task_step_def)
qed

end
