(* ===== verification/MetricsProps.thy ===== *)
theory MetricsProps
  imports Metrics
begin

text \<open>
  The caches of the metrics scrape stay bounded: a pod is kept as long as it was in one of the last
  four answers, with at most the last 240 points.
\<close>

declare map_of_eq_Some_iff [simp del] Some_eq_map_of_iff [simp del]

definition scrapes :: "f64_ops \<Rightarrow> (nat \<times> (string, f64 \<times> f64) hmap) list \<Rightarrow> metrics_caches" where
  "scrapes fo rounds = fold (\<lambda>(t, fresh). scrape_metrics fo t fresh) rounds \<lparr>mc_usage = [], mc_history = []\<rparr>"

definition answered :: "(nat \<times> (string, f64 \<times> f64) hmap) list \<Rightarrow> (string, f64 \<times> f64) hmap list" where
  "answered rounds = filter (\<lambda>fresh. fresh \<noteq> []) (map snd rounds)"

definition caches_ok :: "metrics_caches \<Rightarrow> bool" where
  "caches_ok mc \<longleftrightarrow> hm_ok (mc_usage mc) \<and> hm_ok (mc_history mc)
     \<and> (\<forall>k. hm_get (mc_usage mc) k = None \<longleftrightarrow> hm_get (mc_history mc) k = None)
     \<and> (\<forall>k. pred_option (\<lambda>h. h \<noteq> [] \<and> length h \<le> MAX_HISTORY_POINTS) (hm_get (mc_history mc) k))"

lemma seen_entry_misses [simp]: "ue_misses (seen_entry cpu mem e) = 0"
  by (simp add: seen_entry_def Let_def)

lemma keep_last_bounds: "0 < n \<Longrightarrow> xs \<noteq> [] \<Longrightarrow> keep_last n xs \<noteq> [] \<and> length (keep_last n xs) \<le> n"
  by (cases xs) (auto simp: keep_last_def)

lemma record_sample_ok: "caches_ok mc \<Longrightarrow> caches_ok (record_sample fo t x mc)"
  using keep_last_bounds[of MAX_HISTORY_POINTS]
  by (auto simp: caches_ok_def record_sample_def Let_def MAX_HISTORY_POINTS_def split: prod.split)

lemma record_samples_ok: "caches_ok mc \<Longrightarrow> caches_ok (fold (record_sample fo t) xs mc)"
  by (induction xs arbitrary: mc) (simp_all add: record_sample_ok)

text \<open>After the samples: a pod among them has no misses, the others are as they were.\<close>

lemma record_samples_usage:
  "map_option ue_misses (hm_get (mc_usage (fold (record_sample fo t) xs mc)) k)
   = (if k \<in> fst ` set xs then Some 0 else map_option ue_misses (hm_get (mc_usage mc) k))"
proof (induction xs arbitrary: mc)
  case (Cons x xs)
  have "map_option ue_misses (hm_get (mc_usage (record_sample fo t x mc)) k)
      = (if k = fst x then Some 0 else map_option ue_misses (hm_get (mc_usage mc) k))"
    by (auto simp: record_sample_def Let_def split: prod.split)
  with Cons.IH[of "record_sample fo t x mc"] show ?case by auto
qed simp

lemma get_map_values: "hm_get (map (\<lambda>(k, e). (k, f e)) m) k = map_option f (hm_get m k)"
  by (induction m) auto

lemma fst_map_values [simp]: "fst \<circ> (\<lambda>(k, e). (k, f e)) = fst"
  by auto

definition aged :: "metrics_caches \<Rightarrow> metrics_caches" where
  "aged mc = mc\<lparr>mc_usage := map (\<lambda>(k, e). (k, age_entry e)) (mc_usage mc)\<rparr>"

lemma aged_ok: "caches_ok mc \<Longrightarrow> caches_ok (aged mc)"
  by (simp add: caches_ok_def aged_def get_map_values)

lemma scrape_unfold:
  "fresh \<noteq> [] \<Longrightarrow> scrape_metrics fo t fresh mc =
     (let seen = fold (record_sample fo t) fresh (aged mc); kept = hm_retain (\<lambda>_ e. ue_misses e \<le> 3) (mc_usage seen)
      in seen\<lparr>mc_usage := kept, mc_history := hm_retain (\<lambda>k _. hm_get kept k \<noteq> None) (mc_history seen)\<rparr>)"
  by (simp add: scrape_metrics_def aged_def Let_def)

lemma evict_ok:
  assumes "caches_ok mc" and kept: "kept = hm_retain (\<lambda>_ e. ue_misses e \<le> 3) (mc_usage mc)"
  shows "caches_ok (mc\<lparr>mc_usage := kept, mc_history := hm_retain (\<lambda>k _. hm_get kept k \<noteq> None) (mc_history mc)\<rparr>)"
proof -
  have ok: "hm_ok (mc_usage mc)" "hm_ok (mc_history mc)" using assms(1) by (simp_all add: caches_ok_def)
  have same: "hm_get (mc_usage mc) k = None \<longleftrightarrow> hm_get (mc_history mc) k = None"
    and pts: "pred_option (\<lambda>h. h \<noteq> [] \<and> length h \<le> MAX_HISTORY_POINTS) (hm_get (mc_history mc) k)" for k
    using assms(1) by (simp_all add: caches_ok_def)
  define h where "h = hm_retain (\<lambda>k _. hm_get kept k \<noteq> None) (mc_history mc)"
  have get: "hm_get h k = (if hm_get kept k \<noteq> None then hm_get (mc_history mc) k else None)" for k
    using ok(2) by (simp add: h_def hm_get_retain split: option.split)
  have "hm_get kept k = None \<longleftrightarrow> hm_get h k = None" for k
    using same[of k] ok(1) unfolding get by (auto simp: kept hm_get_retain split: option.splits)
  moreover have "pred_option (\<lambda>h. h \<noteq> [] \<and> length h \<le> MAX_HISTORY_POINTS) (hm_get h k)" for k
    using pts[of k] unfolding get by simp
  moreover have "hm_ok kept" "hm_ok h" using ok by (simp_all add: kept h_def)
  ultimately show ?thesis unfolding h_def[symmetric] caches_ok_def by simp
qed

lemma scrape_ok:
  assumes "caches_ok mc"
  shows "caches_ok (scrape_metrics fo t fresh mc)"
proof (cases "fresh = []")
  case True
  with assms show ?thesis by (simp add: scrape_metrics_def)
next
  case False
  have "caches_ok (fold (record_sample fo t) fresh (aged mc))"
    by (rule record_samples_ok[OF aged_ok[OF assms]])
  from evict_ok[OF this refl] False show ?thesis by (simp add: scrape_unfold Let_def)
qed

lemma scrape_misses:
  assumes "caches_ok mc" "fresh \<noteq> []"
  shows "map_option ue_misses (hm_get (mc_usage (scrape_metrics fo t fresh mc)) k)
    = (if k \<in> fst ` set fresh then Some 0
       else case hm_get (mc_usage mc) k of None \<Rightarrow> None
         | Some e \<Rightarrow> if ue_misses e < 3 then Some (Suc (ue_misses e)) else None)"
proof -
  let ?seen = "fold (record_sample fo t) fresh (aged mc)"
  have ok: "hm_ok (mc_usage ?seen)"
    using record_samples_ok[OF aged_ok[OF assms(1)]] by (auto simp: caches_ok_def)
  have "map_option ue_misses (hm_get (mc_usage ?seen) k) = (if k \<in> fst ` set fresh then Some 0
       else map_option (\<lambda>e. min (ue_misses e + 1) 255) (hm_get (mc_usage mc) k))"
    by (simp add: record_samples_usage aged_def get_map_values option.map_comp comp_def age_entry_def)
  with ok assms(2) show ?thesis
    by (auto simp: scrape_unfold Let_def hm_get_retain split: option.splits if_splits)
qed

lemma scrapes_snoc: "scrapes fo (rounds @ [(t, fresh)]) = scrape_metrics fo t fresh (scrapes fo rounds)"
  by (simp add: scrapes_def)

lemma scrapes_ok: "caches_ok (scrapes fo rounds)"
proof (induction rounds rule: rev_induct)
  case (snoc r rounds)
  then show ?case by (cases r) (simp add: scrapes_snoc scrape_ok)
qed (simp add: scrapes_def caches_ok_def)

text \<open>The misses of a pod count the answers since its last one, newest first.\<close>

fun misses_in :: "string \<Rightarrow> (string, f64 \<times> f64) hmap list \<Rightarrow> nat option" where
  "misses_in k [] = None"
| "misses_in k (fresh # older) = (if k \<in> fst ` set fresh then Some 0
     else case misses_in k older of None \<Rightarrow> None | Some n \<Rightarrow> if n < 3 then Some (Suc n) else None)"

lemma misses_bound: "misses_in k rs = Some n \<Longrightarrow> n \<le> 3"
  by (induction rs arbitrary: n) (auto split: if_splits option.splits)

lemma misses_among_last:
  "misses_in k rs = Some n \<Longrightarrow> n < length rs \<and> k \<in> fst ` set (rs ! n) \<and> (\<forall>i<n. k \<notin> fst ` set (rs ! i))"
proof (induction rs arbitrary: n)
  case (Cons r rs)
  show ?case
  proof (cases "k \<in> fst ` set r")
    case False
    with Cons.prems obtain m where m: "misses_in k rs = Some m" "n = Suc m" by (auto split: option.splits if_splits)
    from Cons.IH[OF m(1)] False m(2) show ?thesis by (simp add: All_less_Suc2)
  qed (use Cons.prems in simp)
qed simp

lemma misses_complete: "i < length rs \<Longrightarrow> i \<le> 3 \<Longrightarrow> k \<in> fst ` set (rs ! i) \<Longrightarrow> \<exists>n\<le>i. misses_in k rs = Some n"
proof (induction rs arbitrary: i)
  case (Cons r rs)
  show ?case
  proof (cases "k \<in> fst ` set r")
    case False
    with Cons.prems obtain j where i: "i = Suc j" by (cases i) auto
    with Cons.IH[of j] Cons.prems False obtain n where "n \<le> j" "misses_in k rs = Some n" by auto
    with i False Cons.prems show ?thesis by auto
  qed auto
qed simp

lemma misses_known: "misses_in k rs \<noteq> None \<longleftrightarrow> (\<exists>r\<in>set (take 4 rs). k \<in> fst ` set r)"
proof
  assume "misses_in k rs \<noteq> None"
  then obtain n where "misses_in k rs = Some n" by blast
  with misses_bound[OF this] misses_among_last[OF this] show "\<exists>r\<in>set (take 4 rs). k \<in> fst ` set r"
    by (intro bexI[of _ "rs ! n"]) (auto simp: in_set_conv_nth intro!: exI[of _ n])
next
  assume "\<exists>r\<in>set (take 4 rs). k \<in> fst ` set r"
  then obtain r where r: "r \<in> set (take 4 rs)" "k \<in> fst ` set r" by blast
  from r(1) obtain i where "i < length rs" "i \<le> 3" "r = rs ! i"
    by (auto simp: in_set_conv_nth)
  with r(2) have "i < length rs" "i \<le> 3" "k \<in> fst ` set (rs ! i)" by simp_all
  from misses_complete[OF this] show "misses_in k rs \<noteq> None" by auto
qed

lemma usage_misses:
  "map_option ue_misses (hm_get (mc_usage (scrapes fo rounds)) k) = misses_in k (rev (answered rounds))"
proof (induction rounds rule: rev_induct)
  case (snoc r rounds)
  obtain t fresh where r: "r = (t, fresh)" by (cases r)
  show ?case
  proof (cases "fresh = []")
    case True
    with snoc r show ?thesis by (simp add: scrapes_snoc scrape_metrics_def answered_def)
  next
    case False
    have "(case hm_get (mc_usage (scrapes fo rounds)) k of None \<Rightarrow> None
        | Some e \<Rightarrow> if ue_misses e < 3 then Some (Suc (ue_misses e)) else None)
      = (case misses_in k (rev (answered rounds)) of None \<Rightarrow> None | Some n \<Rightarrow> if n < 3 then Some (Suc n) else None)"
      unfolding snoc[symmetric] by (cases "hm_get (mc_usage (scrapes fo rounds)) k") simp_all
    with False r show ?thesis by (simp add: scrapes_snoc scrape_misses[OF scrapes_ok] answered_def)
  qed
qed (simp add: scrapes_def answered_def)

text \<open>The caches of the scrape are bounded by what the cluster runs now: after any sequence of answers
  a pod has a usage entry and a history exactly when one of the last four answers that were not empty
  had it, its history is not empty and has at most 240 points, and an entry has missed at most three
  answers.\<close>

theorem scrape_caches_bounded:
  "(hm_get (mc_usage (scrapes fo rounds)) k \<noteq> None
      \<longleftrightarrow> (\<exists>fresh\<in>set (take 4 (rev (answered rounds))). k \<in> fst ` set fresh))
   \<and> (hm_get (mc_history (scrapes fo rounds)) k \<noteq> None \<longleftrightarrow> hm_get (mc_usage (scrapes fo rounds)) k \<noteq> None)
   \<and> (case hm_get (mc_history (scrapes fo rounds)) k of None \<Rightarrow> True | Some h \<Rightarrow> h \<noteq> [] \<and> length h \<le> MAX_HISTORY_POINTS)
   \<and> (case hm_get (mc_usage (scrapes fo rounds)) k of None \<Rightarrow> True | Some e \<Rightarrow> ue_misses e \<le> 3)"
proof -
  have "hm_get (mc_usage (scrapes fo rounds)) k \<noteq> None \<longleftrightarrow> misses_in k (rev (answered rounds)) \<noteq> None"
    using usage_misses[of fo rounds k, symmetric] by simp
  moreover have "ue_misses e \<le> 3" if "hm_get (mc_usage (scrapes fo rounds)) k = Some e" for e
    using usage_misses[of fo rounds k, symmetric] that by (auto intro: misses_bound)
  moreover have "hm_get (mc_history (scrapes fo rounds)) k \<noteq> None \<longleftrightarrow> hm_get (mc_usage (scrapes fo rounds)) k \<noteq> None"
    "pred_option (\<lambda>h. h \<noteq> [] \<and> length h \<le> MAX_HISTORY_POINTS) (hm_get (mc_history (scrapes fo rounds)) k)"
    using scrapes_ok[of fo rounds] unfolding caches_ok_def by simp_all
  ultimately show ?thesis
    unfolding misses_known by (simp add: option.pred_set split: option.split)
qed

end
