(* ===== verification/Registry.thy ===== *)
theory Registry
  imports Informer
begin

text \<open>
  The registry of shared informers (\<open>InformerRegistry\<close> of \<open>crates/k8s/src/informers.rs\<close>): one informer
  per resource, namespace and selector, the idle reaper; and the panes a workspace asks for
  (\<open>parse_pane_specs\<close> of \<open>src/server/api/watch.rs\<close>).  Time is in seconds.
\<close>

section \<open>The registry\<close>

record watch_key =
  wk_resource :: string
  wk_namespace :: "string option"
  wk_selector :: "string option"

record active_watch =
  aw_informer :: informer
  aw_cfg :: informer_cfg
  aw_resource :: string
  aw_namespace :: "string option"
  aw_receivers :: nat
  aw_idle_since :: "nat option"

type_synonym registry = "(watch_key, active_watch) hmap"

definition IDLE_GRACE :: nat where
  "IDLE_GRACE = 600"

definition resource_key_of :: "string \<Rightarrow> string \<Rightarrow> string \<Rightarrow> string" where
  "resource_key_of grp version kind = grp @ ''/'' @ version @ ''/'' @ kind"

definition watch_key_of :: "string \<Rightarrow> string \<Rightarrow> string \<Rightarrow> bool \<Rightarrow> string option \<Rightarrow> string option \<Rightarrow> watch_key" where
  "watch_key_of grp version kind namespaced ns selector =
     \<lparr>wk_resource = resource_key_of grp version kind, wk_namespace = (if namespaced then ns else None),
      wk_selector = nonempty selector\<rparr>"

definition new_watch :: "project_env \<Rightarrow> string \<Rightarrow> string \<Rightarrow> string \<Rightarrow> bool \<Rightarrow> string option
     \<Rightarrow> (string, usage_entry) hmap \<Rightarrow> (string, pvc_usage) hmap \<Rightarrow> active_watch" where
  "new_watch pe grp version kind namespaced ns pods pvcs =
     \<lparr>aw_informer = start_informer (pe_now pe) pods pvcs,
      aw_cfg = \<lparr>ic_group = grp, ic_kind = kind, ic_namespaced = namespaced, ic_namespace = ns, ic_env = pe\<rparr>,
      aw_resource = resource_key_of grp version kind, aw_namespace = ns, aw_receivers = 0, aw_idle_since = None\<rparr>"

text \<open>A subscription starts the informer unless there is one; its receiver is attached and the eviction clock
  stopped before the lock on the registry is given up.\<close>

definition subscribe_watch :: "project_env \<Rightarrow> string \<Rightarrow> string \<Rightarrow> string \<Rightarrow> bool \<Rightarrow> string option \<Rightarrow> string option
     \<Rightarrow> (string, usage_entry) hmap \<Rightarrow> (string, pvc_usage) hmap \<Rightarrow> registry \<Rightarrow> registry \<times> subscriber" where
  "subscribe_watch pe grp version kind namespaced ns selector pods pvcs reg =
     (let key = watch_key_of grp version kind namespaced ns selector;
          entry = (case hm_get reg key of
             Some e \<Rightarrow> e
           | None \<Rightarrow> new_watch pe grp version kind namespaced (wk_namespace key) pods pvcs)
      in (hm_insert key (entry\<lparr>aw_receivers := aw_receivers entry + 1, aw_idle_since := None\<rparr>) reg,
          attach (aw_informer entry)))"

definition refresh_schema :: "registry \<Rightarrow> registry" where
  "refresh_schema reg =
     map (\<lambda>(k, e). (k, e\<lparr>aw_informer := informer_step (aw_cfg e) RefreshSchema (aw_informer e)\<rparr>)) reg"

definition has_active_subscribers :: "registry \<Rightarrow> bool" where
  "has_active_subscribers reg = hm_any (\<lambda>e. aw_receivers e > 0) reg"

definition registry_cached_object :: "registry \<Rightarrow> string \<Rightarrow> string option \<Rightarrow> string \<Rightarrow> dyn_object option" where
  "registry_cached_object reg key ns nm =
     cached_object (map (\<lambda>(_, e). (aw_resource e, aw_namespace e, aw_informer e)) reg) key ns nm"

section \<open>The reaper\<close>

text \<open>It looks at the receivers, then marks, then removes under the lock what is still unwatched; a subscriber
  may come before each phase.\<close>

definition observe_receivers :: "registry \<Rightarrow> (watch_key \<times> nat) list" where
  "observe_receivers reg = map (\<lambda>(k, e). (k, aw_receivers e)) reg"

definition mark_idle :: "nat \<Rightarrow> watch_key \<times> nat \<Rightarrow> watch_key list \<times> registry \<Rightarrow> watch_key list \<times> registry" where
  "mark_idle now observed acc = (case (observed, acc) of ((key, receivers), (to_remove, reg)) \<Rightarrow>
     case hm_get reg key of
       None \<Rightarrow> (to_remove, reg)
     | Some e \<Rightarrow>
         if receivers = 0
         then (case aw_idle_since e of
             Some since \<Rightarrow> (if now - since \<ge> IDLE_GRACE then to_remove @ [key] else to_remove, reg)
           | None \<Rightarrow> (to_remove, hm_insert key (e\<lparr>aw_idle_since := Some now\<rparr>) reg))
         else (to_remove, hm_insert key (e\<lparr>aw_idle_since := None\<rparr>) reg))"

definition remove_idle :: "watch_key list \<Rightarrow> registry \<Rightarrow> registry" where
  "remove_idle keys reg = fold (\<lambda>key reg. case hm_get reg key of
     None \<Rightarrow> reg | Some e \<Rightarrow> if aw_receivers e = 0 then hm_remove key reg else reg) keys reg"

text \<open>One tick, with what others do to the registry between its phases.\<close>

definition reap_tick :: "nat \<Rightarrow> (registry \<Rightarrow> registry) \<Rightarrow> (registry \<Rightarrow> registry) \<Rightarrow> registry \<Rightarrow> registry" where
  "reap_tick now others1 others2 reg =
     (case fold (mark_idle now) (observe_receivers reg) ([], others1 reg) of
        (to_remove, marked) \<Rightarrow> remove_idle to_remove (others2 marked))"

lemma remove_idle_spares:
  "hm_get reg key = Some e \<Longrightarrow> aw_receivers e > 0 \<Longrightarrow> hm_get (remove_idle keys reg) key = Some e"
  unfolding remove_idle_def
proof (induction keys arbitrary: reg)
  case (Cons a keys)
  then show ?case by (cases "hm_get reg a") (auto intro!: Cons.IH)
qed simp

text \<open>However the subscribers come and go during a tick, a watched informer is not evicted.\<close>

lemma reaper_spares_watched:
  assumes "\<And>r. case hm_get (others2 r) key of Some e \<Rightarrow> aw_receivers e > 0 | None \<Rightarrow> False"
  shows "hm_get (reap_tick now others1 others2 reg) key \<noteq> None"
proof -
  obtain keys marked where m: "fold (mark_idle now) (observe_receivers reg) ([], others1 reg) = (keys, marked)"
    by (cases "fold (mark_idle now) (observe_receivers reg) ([], others1 reg)")
  obtain e where "hm_get (others2 marked) key = Some e" "aw_receivers e > 0"
    using assms[of marked] by (cases "hm_get (others2 marked) key") auto
  from remove_idle_spares[OF this] show ?thesis by (simp add: reap_tick_def m)
qed

section \<open>Panes\<close>

definition MAX_MULTI_WATCH_PANES :: nat where
  "MAX_MULTI_WATCH_PANES = 16"

definition parse_pane :: "string \<Rightarrow> (string \<times> string option) option" where
  "parse_pane spec =
     (if spec = [] \<or> trim spec \<noteq> spec then None
      else case split_on CHR '':'' spec of
          [key] \<Rightarrow> if key = [] then None else Some (key, None)
        | [key, ns] \<Rightarrow> if key = [] \<or> trim ns \<noteq> ns then None else Some (key, nonempty (Some ns))
        | _ \<Rightarrow> None)"

fun collect_panes :: "(string \<times> string option) list \<Rightarrow> string list \<Rightarrow> string + (string \<times> string option) list" where
  "collect_panes specs [] = Inr specs"
| "collect_panes specs (s # ss) =
     (case parse_pane s of
        None \<Rightarrow> Inl ''malformed pane specification''
      | Some p \<Rightarrow>
          if p \<in> set specs then collect_panes specs ss
          else if length specs + 1 > MAX_MULTI_WATCH_PANES then Inl ''too many panes specified''
          else collect_panes (specs @ [p]) ss)"

definition parse_pane_specs :: "string \<Rightarrow> string + (string \<times> string option) list" where
  "parse_pane_specs panes =
     (if panes = [] then Inl ''no panes specified'' else collect_panes [] (split_on CHR '','' panes))"

lemma collect_panes_bounds:
  "collect_panes specs ss = Inr ps \<Longrightarrow> distinct specs \<Longrightarrow> length specs \<le> MAX_MULTI_WATCH_PANES
   \<Longrightarrow> distinct ps \<and> length ps \<le> MAX_MULTI_WATCH_PANES"
  by (induction specs ss rule: collect_panes.induct) (auto split: option.splits if_splits)

text \<open>A workspace opens at most sixteen streams, and none twice.\<close>

lemma panes_bounded:
  "parse_pane_specs panes = Inr ps \<Longrightarrow> distinct ps \<and> length ps \<le> MAX_MULTI_WATCH_PANES"
  using collect_panes_bounds[of "[]"] by (auto simp: parse_pane_specs_def split: if_splits)

end
