(* ===== verification/Logs.thy ===== *)
theory Logs
  imports Project
begin

text \<open>
  Label selectors and the choice of container logs (\<open>crates/k8s/src/backend/logs.rs\<close>).  A stream of
  log lines is the list of its lines; what the API server answers is an environment.
\<close>

section \<open>Label selectors\<close>

definition label_requirement :: "string \<Rightarrow> string \<times> json \<Rightarrow> string + string" where
  "label_requirement subject entry = (case entry of (key, j) \<Rightarrow>
     and_then (ok_or (subject @ '' selector label '' @ key @ '' is not a string'') (as_str j))
       (\<lambda>label. Inr (key @ ''='' @ label)))"

definition expression_requirement :: "string \<Rightarrow> json \<Rightarrow> string + string" where
  "expression_requirement subject expression =
     and_then (ok_or (subject @ '' selector expression is missing key'') (Option.bind (jget expression ''key'') as_str)) (\<lambda>key.
     and_then (ok_or (subject @ '' selector expression for '' @ key @ '' is missing operator'')
       (Option.bind (jget expression ''operator'') as_str)) (\<lambda>operator.
     and_then (case Option.bind (jget expression ''values'') as_array of
         None \<Rightarrow> Inr []
       | Some vs \<Rightarrow> collect_results (\<lambda>v. ok_or (subject @ '' selector expression for '' @ key @ '' has a non-string value'')
           (as_str v)) vs) (\<lambda>choices.
     if operator \<in> {''In'', ''NotIn''} \<and> choices = [] then
       Inl (subject @ '' selector expression '' @ operator @ '' for '' @ key @ '' has no values'')
     else if operator = ''In'' then Inr (key @ '' in ('' @ join_with '','' choices @ '')'')
     else if operator = ''NotIn'' then Inr (key @ '' notin ('' @ join_with '','' choices @ '')'')
     else if operator = ''Exists'' then Inr key
     else if operator = ''DoesNotExist'' then Inr (''!'' @ key)
     else Inl (subject @ '' selector expression for '' @ key @ '' has unsupported operator '' @ operator))))"

definition label_selector :: "json \<Rightarrow> bool \<Rightarrow> string \<Rightarrow> string + string" where
  "label_selector selector allow_empty subject =
     and_then (case Option.bind (jget selector ''matchLabels'') as_object of
         None \<Rightarrow> Inr []
       | Some labels \<Rightarrow> collect_results (label_requirement subject) labels) (\<lambda>labels.
     and_then (case Option.bind (jget selector ''matchExpressions'') as_array of
         None \<Rightarrow> Inr []
       | Some expressions \<Rightarrow> collect_results (expression_requirement subject) expressions) (\<lambda>expressions.
     let requirements = sort (labels @ expressions) in
     if requirements = [] \<and> \<not> allow_empty then Inl (subject @ '' label selector is empty'')
     else Inr (join_with '','' requirements)))"

definition workload_label_selector :: "json \<Rightarrow> string + string" where
  "workload_label_selector data =
     and_then (ok_or ''workload has no label selector'' (Option.bind (jget data ''spec'') (\<lambda>spec. jget spec ''selector'')))
       (\<lambda>selector. label_selector selector False ''workload'')"

section \<open>Which containers to stream\<close>

datatype log_plan = LogSkip | LogLive | LogStatic bool string

definition pod_container_names :: "json \<Rightarrow> string list" where
  "pod_container_names data = concat (map (\<lambda>f.
     List.map_filter (\<lambda>c. Option.bind (jget c ''name'') as_str)
       (unwrap_or [] (Option.bind (Option.bind (jget data ''spec'') (\<lambda>spec. jget spec f)) as_array)))
     [''initContainers'', ''containers''])"

definition attempt_signature :: "json \<Rightarrow> string" where
  "attempt_signature terminated =
     show_int (unwrap_or (-1) (Option.bind (jget terminated ''exitCode'') as_i64)) @ ''@''
       @ unwrap_or [] (Option.bind (jget terminated ''finishedAt'') as_str)"

definition container_status :: "json \<Rightarrow> string \<Rightarrow> json option" where
  "container_status data name = find_map (\<lambda>f.
     Option.bind (Option.bind (Option.bind (jget data ''status'') (\<lambda>s. jget s f)) as_array)
       (find (\<lambda>c. Option.bind (jget c ''name'') as_str = Some name)))
     [''initContainerStatuses'', ''containerStatuses'']"

definition container_log_plan :: "json \<Rightarrow> string \<Rightarrow> log_plan" where
  "container_log_plan data name = (case container_status data name of
     None \<Rightarrow> LogSkip
   | Some status \<Rightarrow>
       (let state = jget status ''state'' in
        if Option.bind state (\<lambda>s. jget s ''running'') \<noteq> None then LogLive
        else case Option.bind state (\<lambda>s. jget s ''terminated'') of
            Some terminated \<Rightarrow> LogStatic False (attempt_signature terminated)
          | None \<Rightarrow> (case Option.bind (jget status ''lastState'') (\<lambda>s. jget s ''terminated'') of
                Some terminated \<Rightarrow> LogStatic True (attempt_signature terminated)
              | None \<Rightarrow> LogSkip)))"

text \<open>What was reported last for a container of a pod.\<close>

type_synonym log_seen = "(string \<times> string \<times> string, string) hmap"

definition already_reported :: "string \<times> string \<times> string \<Rightarrow> string \<Rightarrow> log_seen \<Rightarrow> bool \<times> log_seen" where
  "already_reported key signature seen =
     (if hm_get seen key = Some signature then (True, seen) else (False, hm_insert key signature seen))"

fun plan_containers :: "string \<Rightarrow> string \<Rightarrow> json \<Rightarrow> string list \<Rightarrow> log_seen \<Rightarrow> (string \<times> bool) list \<times> log_seen" where
  "plan_containers ns pod data [] seen = ([], seen)"
| "plan_containers ns pod data (name # names) seen =
     (case container_log_plan data name of
        LogSkip \<Rightarrow> plan_containers ns pod data names seen
      | LogLive \<Rightarrow> (case plan_containers ns pod data names seen of (out, seen') \<Rightarrow> ((name, False) # out, seen'))
      | LogStatic previous signature \<Rightarrow>
          (case already_reported (ns, pod, name) signature seen of
             (True, seen') \<Rightarrow> plan_containers ns pod data names seen'
           | (False, seen') \<Rightarrow> (case plan_containers ns pod data names seen' of
                 (out, seen'') \<Rightarrow> ((name, previous) # out, seen''))))"

record log_params =
  lp_follow :: bool
  lp_tail_lines :: nat
  lp_container :: "string option"
  lp_previous :: bool

text \<open>The cache of pods, the pods, the log of a container and the pods of a workload as the API server answers.\<close>

record log_env =
  lg_cached_pod :: "string \<Rightarrow> string \<Rightarrow> dyn_object option"
  lg_get_pod :: "string \<Rightarrow> string \<Rightarrow> json option"
  lg_stream :: "string \<Rightarrow> string \<Rightarrow> log_params \<Rightarrow> string + string list"
  lg_get_workload :: "string \<Rightarrow> string \<Rightarrow> string \<Rightarrow> k8s_error + json"
  lg_list_pods :: "string \<Rightarrow> string \<Rightarrow> string + (string option \<times> string list) list"

definition pod_active :: "log_env \<Rightarrow> string \<Rightarrow> string \<Rightarrow> bool" where
  "pod_active env ns name = (case lg_cached_pod env ns name of
     None \<Rightarrow> True
   | Some obj \<Rightarrow> Option.bind (Option.bind (jget (dy_data obj) ''status'') (\<lambda>s. jget s ''phase'')) as_str
       \<notin> {Some ''Succeeded'', Some ''Failed''})"

definition pod_json :: "log_env \<Rightarrow> string \<Rightarrow> string \<Rightarrow> json option" where
  "pod_json env ns pod = (case lg_cached_pod env ns pod of
     Some obj \<Rightarrow> Some (dy_data obj)
   | None \<Rightarrow> lg_get_pod env ns pod)"

definition pod_log_containers ::
  "log_env \<Rightarrow> string \<Rightarrow> string \<Rightarrow> log_seen \<Rightarrow> (string \<times> bool) list \<times> bool \<times> log_seen" where
  "pod_log_containers env ns pod seen = (case pod_json env ns pod of
     None \<Rightarrow> ([], False, seen)
   | Some data \<Rightarrow>
       (let names = pod_container_names data in
        case plan_containers ns pod data names seen of (out, seen') \<Rightarrow> (out, length names > 1, seen')))"

definition line_bar :: string where
  "line_bar = '' '' @ map char_of [226, 148, 130 :: nat] @ '' ''"

definition open_container_log ::
  "log_env \<Rightarrow> string \<Rightarrow> string \<Rightarrow> bool \<Rightarrow> string \<Rightarrow> string \<times> bool \<Rightarrow> log_seen \<Rightarrow> string list \<times> log_seen" where
  "open_container_log env ns pod follow prefix container seen = (case container of (name, previous) \<Rightarrow>
     (case lg_stream env ns pod \<lparr>lp_follow = follow, lp_tail_lines = 500, lp_container = Some name, lp_previous = previous\<rparr> of
        Inr ls \<Rightarrow> (map (\<lambda>l. prefix @ l) ls, seen)
      | Inl msg \<Rightarrow> (case already_reported (ns, pod, name) msg seen of
            (True, seen') \<Rightarrow> ([], seen')
          | (False, seen') \<Rightarrow> ([prefix @ ''[roder] failed to stream logs: '' @ msg], seen'))))"

fun open_container_logs ::
  "log_env \<Rightarrow> string \<Rightarrow> string \<Rightarrow> bool \<Rightarrow> bool \<Rightarrow> (string \<times> bool) list \<Rightarrow> log_seen \<Rightarrow> string list list \<times> log_seen" where
  "open_container_logs env ns pod follow prefixed [] seen = ([], seen)"
| "open_container_logs env ns pod follow prefixed (c # cs) seen =
     (case open_container_log env ns pod follow (if prefixed then fst c @ line_bar else []) c seen of
        (s, seen') \<Rightarrow> (case open_container_logs env ns pod follow prefixed cs seen' of (ss, seen'') \<Rightarrow> (s # ss, seen'')))"

text \<open>The streams that \<open>select_all\<close> merges into one.\<close>

definition logs ::
  "log_env \<Rightarrow> string \<Rightarrow> string \<Rightarrow> string option \<Rightarrow> bool \<Rightarrow> log_seen \<Rightarrow> (k8s_error + string list list) \<times> log_seen" where
  "logs env ns pod container follow seen = (case container of
     Some name \<Rightarrow>
       (let previous = (case pod_json env ns pod of
            Some data \<Rightarrow> (case container_log_plan data name of LogStatic p _ \<Rightarrow> p | _ \<Rightarrow> False)
          | None \<Rightarrow> False) in
        (case lg_stream env ns pod \<lparr>lp_follow = follow, lp_tail_lines = 500, lp_container = Some name, lp_previous = previous\<rparr> of
           Inl e \<Rightarrow> Inl (K8sApi e)
         | Inr ls \<Rightarrow> Inr [ls], seen))
   | None \<Rightarrow> (case pod_log_containers env ns pod seen of (containers, prefixed, seen') \<Rightarrow>
       if containers = [] then (Inr [], seen')
       else (case open_container_logs env ns pod follow prefixed containers seen' of (ss, seen'') \<Rightarrow> (Inr ss, seen''))))"

definition pod_log_of_workload :: "log_env \<Rightarrow> string \<Rightarrow> bool \<Rightarrow> string option \<times> string list \<Rightarrow> string list" where
  "pod_log_of_workload env ns follow p =
     (let pod = unwrap_or [] (fst p);
          container = (if length (snd p) > 1 then Some (hd (snd p)) else None) in
      case lg_stream env ns pod \<lparr>lp_follow = follow, lp_tail_lines = 200, lp_container = container, lp_previous = False\<rparr> of
        Inr ls \<Rightarrow> map (\<lambda>l. pod @ line_bar @ l) ls
      | Inl e \<Rightarrow> [pod @ line_bar @ ''[roder] failed to stream logs: '' @ e])"

definition logs_workload ::
  "log_env \<Rightarrow> string \<Rightarrow> string \<Rightarrow> string \<Rightarrow> bool \<Rightarrow> k8s_error + string list list" where
  "logs_workload env key ns name follow =
     and_then (lg_get_workload env key ns name) (\<lambda>data.
     case workload_label_selector data of
       Inl e \<Rightarrow> Inl (K8sApi e)
     | Inr selector \<Rightarrow> (case lg_list_pods env ns selector of
           Inl e \<Rightarrow> Inl (K8sApi e)
         | Inr pods \<Rightarrow> Inr (map (pod_log_of_workload env ns follow) pods)))"

section \<open>A finished attempt is reported once\<close>

lemma already_reported_seen: "already_reported key signature seen = (b, seen') \<Longrightarrow> hm_get seen' key = Some signature"
  by (auto simp: already_reported_def split: if_splits)

lemma already_reported_other:
  "already_reported key signature seen = (b, seen') \<Longrightarrow> k \<noteq> key \<Longrightarrow> hm_get seen' k = hm_get seen k"
  by (auto simp: already_reported_def split: if_splits)

lemma plan_containers_other:
  "plan_containers ns pod data names seen = (out, seen') \<Longrightarrow> k \<notin> set names \<Longrightarrow>
   hm_get seen' (ns, pod, k) = hm_get seen (ns, pod, k)"
proof (induction names arbitrary: seen out)
  case (Cons name names)
  from Cons.prems(2) have k: "(ns, pod, k) \<noteq> (ns, pod, name)" "k \<notin> set names" by auto
  show ?case
    using Cons.prems(1) Cons.IH[OF _ k(2)] already_reported_other[OF _ k(1)]
    by (fastforce split: log_plan.splits prod.splits bool.splits)
qed simp

lemma plan_containers_seen:
  "plan_containers ns pod data names seen = (out, seen') \<Longrightarrow> distinct names \<Longrightarrow> k \<in> set names \<Longrightarrow>
   container_log_plan data k = LogStatic previous signature \<Longrightarrow> hm_get seen' (ns, pod, k) = Some signature"
proof (induction names arbitrary: seen out)
  case (Cons name names)
  show ?case
  proof (cases "name = k")
    case True
    then show ?thesis
      using Cons.prems plan_containers_other[of ns pod data names _ _ seen' k] already_reported_seen
      by (fastforce split: prod.splits bool.splits)
  next
    case False
    then show ?thesis
      using Cons.prems Cons.IH by (auto split: log_plan.splits prod.splits bool.splits)
  qed
qed simp

lemma plan_containers_silent:
  "(\<And>k p g. k \<in> set names \<Longrightarrow> container_log_plan data k = LogStatic p g \<Longrightarrow> hm_get seen (ns, pod, k) = Some g) \<Longrightarrow>
   plan_containers ns pod data names seen =
     (map (\<lambda>k. (k, False)) (filter (\<lambda>k. container_log_plan data k = LogLive) names), seen)"
  by (induction names) (auto simp: already_reported_def split: log_plan.splits)

lemma plan_containers_new:
  "plan_containers ns pod data names seen = (out, seen') \<Longrightarrow> distinct names \<Longrightarrow> k \<in> set names \<Longrightarrow>
   container_log_plan data k = LogStatic previous signature \<Longrightarrow> hm_get seen (ns, pod, k) \<noteq> Some signature \<Longrightarrow>
   (k, previous) \<in> set out"
proof (induction names arbitrary: seen out)
  case (Cons name names)
  show ?case
  proof (cases "name = k")
    case True
    then show ?thesis using Cons.prems by (auto simp: already_reported_def split: prod.splits)
  next
    case False
    then have other: "already_reported (ns, pod, name) g seen = (b, seen1) \<Longrightarrow> hm_get seen1 (ns, pod, k) \<noteq> Some signature" for g b seen1
      using already_reported_other[of "(ns, pod, name)" g seen b seen1 "(ns, pod, k)"] Cons.prems(5) by simp
    show ?thesis
      using Cons.prems False Cons.IH other by (fastforce split: log_plan.splits prod.splits bool.splits)
  qed
qed simp

text \<open>The log of a finished attempt of a container is streamed once.  While a pod stays as it is, the
  first request streams every attempt not reported before, and each later one only the running containers.\<close>

theorem attempt_reported_once:
  assumes "pod_json env ns pod = Some data" "distinct (pod_container_names data)"
    and "pod_log_containers env ns pod seen = (out, prefixed, seen')"
  shows "(\<forall>k previous signature. k \<in> set (pod_container_names data) \<and> container_log_plan data k = LogStatic previous signature
        \<and> hm_get seen (ns, pod, k) \<noteq> Some signature \<longrightarrow> (k, previous) \<in> set out)
    \<and> pod_log_containers env ns pod seen' =
        (map (\<lambda>k. (k, False)) (filter (\<lambda>k. container_log_plan data k = LogLive) (pod_container_names data)), prefixed, seen')"
proof -
  let ?names = "pod_container_names data"
  from assms(1,3) have p: "plan_containers ns pod data ?names seen = (out, seen')" and x: "prefixed = (length ?names > 1)"
    by (auto simp: pod_log_containers_def Let_def split: prod.splits)
  have "plan_containers ns pod data ?names seen' =
      (map (\<lambda>k. (k, False)) (filter (\<lambda>k. container_log_plan data k = LogLive) ?names), seen')"
    by (rule plan_containers_silent) (use plan_containers_seen[OF p assms(2)] in blast)
  with assms(1) x plan_containers_new[OF p assms(2)] show ?thesis
    by (simp add: pod_log_containers_def Let_def)
qed

definition ended_pod :: json where
  "ended_pod = JObject [(''spec'', JObject [(''containers'', JArray [JObject [(''name'', JString ''c'')]])]),
     (''status'', JObject [(''containerStatuses'', JArray [JObject [(''name'', JString ''c''),
        (''state'', JObject [(''terminated'', JObject [(''exitCode'', JNumber (NumInt 1)), (''finishedAt'', JString ''t'')])])]])])]"

theorem attempt_reported_once_witness:
  "\<exists>env seen'. pod_log_containers env ''n'' ''p'' [] = ([(''c'', False)], False, seen')
     \<and> pod_log_containers env ''n'' ''p'' seen' = ([], False, seen')"
proof -
  define env where "env = \<lparr>lg_cached_pod = (\<lambda>_ _. None), lg_get_pod = (\<lambda>_ _. Some ended_pod),
     lg_stream = (\<lambda>_ _ _. Inl ''gone''), lg_get_workload = (\<lambda>_ _ _. Inl (K8sApi ''gone'')), lg_list_pods = (\<lambda>_ _. Inl ''gone'')\<rparr>"
  have names: "pod_container_names ended_pod = [''c'']" and plan: "container_log_plan ended_pod ''c'' = LogStatic False ''1@t''"
    by code_simp+
  have j: "pod_json env ''n'' ''p'' = Some ended_pod" by (simp add: pod_json_def env_def)
  obtain seen' where first: "pod_log_containers env ''n'' ''p'' [] = ([(''c'', False)], False, seen')"
    by (simp add: pod_log_containers_def j names plan already_reported_def)
  show ?thesis using attempt_reported_once[OF j _ first] first by (fastforce simp: names plan)
qed

end
