(* ===== verification/Catalog.thy ===== *)
theory Catalog
  imports Permissions KubeTypes "HOL-Library.Product_Lexorder"
begin

text \<open>
  The catalog of kinds (\<open>crates/k8s/src/discovery.rs\<close>, its index in \<open>shared.rs\<close> and the scope of a request in
  \<open>client.rs\<close>).  What discovery returns is a list of API resources with their operations.
\<close>

section \<open>Classification\<close>

text \<open>\<open>rsplit_once\<close> on an ASCII separator.\<close>

definition rsplit_once :: "char \<Rightarrow> string \<Rightarrow> (string \<times> string) option" where
  "rsplit_once d s = map_option (\<lambda>(a, b). (rev b, rev a)) (split_once d (rev s))"

definition group_base_domain :: "string \<Rightarrow> string" where
  "group_base_domain grp = (case rsplit_once (CHR ''.'') grp of
     None \<Rightarrow> grp
   | Some (prefix, last_part) \<Rightarrow> (case rsplit_once (CHR ''.'') prefix of
       None \<Rightarrow> grp
     | Some (_, second) \<Rightarrow> second @ ''.'' @ last_part))"

definition classify :: "string \<Rightarrow> string \<Rightarrow> category" where
  "classify grp kind =
     (if ends_with grp ''fluxcd.io'' then Flux
      else if grp = ''external-secrets.io'' \<or> ends_with grp ''.external-secrets.io'' then ExternalSecrets
      else if grp = ''cert-manager.io'' \<or> ends_with grp ''.cert-manager.io'' \<or> grp = ''acme.cert-manager.io'' then CertManager
      else if grp = ''ceph.rook.io'' \<or> ends_with grp ''.rook.io'' \<or> grp = ''objectbucket.io''
        \<or> ends_with grp ''.objectbucket.io'' \<or> ends_with grp ''.ceph.io'' then Rook
      else if grp = ''cnpg.io'' \<or> ends_with grp ''.cnpg.io'' then CloudNativePg
      else if grp = ''monitoring.coreos.com'' then PrometheusOperator
      else if grp = ''rbac.authorization.k8s.io'' then Rbac
      else if grp = ''storage.k8s.io'' then Storage
      else if grp = ''networking.k8s.io'' \<or> grp = ''gateway.networking.k8s.io'' then Network
      else if grp = ''apps'' \<or> grp = ''batch'' then Workloads
      else if grp = [] then
        (if kind \<in> {''Pod'', ''ReplicationController''} then Workloads
         else if kind \<in> {''ConfigMap'', ''Secret'', ''ResourceQuota'', ''LimitRange''} then Config
         else if kind = ''ServiceAccount'' then Rbac
         else if kind \<in> {''Service'', ''Endpoints''} then Network
         else if kind \<in> {''PersistentVolumeClaim'', ''PersistentVolume''} then Storage
         else Cluster)
      else Custom (group_base_domain grp))"

section \<open>The catalog\<close>

record discovered =
  dc_group :: string
  dc_version :: string
  dc_kind :: string
  dc_plural :: string
  dc_namespaced :: bool
  dc_operations :: "string list"

definition catalog_kind :: "discovered \<Rightarrow> resource_kind" where
  "catalog_kind d = \<lparr>rk_key = make_key (dc_group d) (dc_version d) (dc_kind d), rk_group = dc_group d,
     rk_version = dc_version d, rk_kind = dc_kind d, rk_plural = dc_plural d, rk_namespaced = dc_namespaced d,
     rk_category = classify (dc_group d) (dc_kind d)\<rparr>"

definition catalog_order :: "resource_kind \<Rightarrow> nat \<times> string \<times> string" where
  "catalog_order e = (category_order (rk_category e), category_label (rk_category e), rk_kind e)"

definition build_catalog :: "string + discovered list \<Rightarrow> k8s_error + resource_kind list" where
  "build_catalog discovery = (case discovery of
     Inl e \<Rightarrow> Inl (K8sApi (''discovery failed: '' @ e))
   | Inr ds \<Rightarrow> Inr (sort_key catalog_order (map catalog_kind
       (filter (\<lambda>d. ''list'' \<in> set (dc_operations d) \<and> ''watch'' \<in> set (dc_operations d)) ds))))"

text \<open>The index by key keeps the last entry of a key.\<close>

definition catalog_by_key :: "resource_kind list \<Rightarrow> string \<Rightarrow> resource_kind option" where
  "catalog_by_key es key = find (\<lambda>e. rk_key e = key) (rev es)"

definition cluster_entry :: "resource_kind list \<Rightarrow> string \<Rightarrow> k8s_error + resource_kind" where
  "cluster_entry es key = ok_or (K8sApi (''unknown resource kind: '' @ key)) (catalog_by_key es key)"

definition entry_by_kind :: "resource_kind list \<Rightarrow> string \<Rightarrow> k8s_error + resource_kind" where
  "entry_by_kind es kind = ok_or (K8sApi (''no Flux source kind found: '' @ kind))
     (find (\<lambda>e. ends_with (rk_group e) ''fluxcd.io'' \<and> rk_kind e = kind) es)"

definition api_scope :: "resource_kind \<Rightarrow> string option \<Rightarrow> string option" where
  "api_scope e ns = (if rk_namespaced e then ns else None)"

section \<open>Lemmas\<close>

lemma catalog_by_key_Some: "catalog_by_key es key = Some e \<Longrightarrow> e \<in> set es \<and> rk_key e = key"
  unfolding catalog_by_key_def by (auto dest: find_Some_in_set)

lemma cluster_entry_Inr: "cluster_entry es key = Inr e \<Longrightarrow> e \<in> set es \<and> rk_key e = key"
  unfolding cluster_entry_def by (auto simp: result_iff dest: catalog_by_key_Some)

end
