(* ===== verification/TreeRefs.thy ===== *)
theory TreeRefs
  imports Logs Table Catalog "HOL-Library.Product_Lexorder" "HOL-Library.Option_ord"
begin

text \<open>
  The references between resources that the relationship tree follows: the pure half of
  \<open>crates/k8s/src/backend/tree.rs\<close>, the relations of \<open>crates/core/src/tree.rs\<close>, and the manifest of a Helm release
  (\<open>crates/k8s/src/backend/helm_release.rs\<close>).
\<close>

section \<open>Relations and resources\<close>

datatype tree_relation =
    Owner | OwnedResource | ScaleTarget | SelectedPod | EndpointSlice | FluxInventory | HelmManifest
  | ReferencedResource | ClusterResource | GeneratedResource | StorageBackend | VolumeAttachment

fun relation_label :: "tree_relation \<Rightarrow> string" where
  "relation_label Owner = ''Owner''"
| "relation_label OwnedResource = ''Owned resource''"
| "relation_label ScaleTarget = ''Scale target''"
| "relation_label SelectedPod = ''Selected pod''"
| "relation_label EndpointSlice = ''Endpoint slice''"
| "relation_label FluxInventory = ''Flux inventory''"
| "relation_label HelmManifest = ''Helm manifest''"
| "relation_label ReferencedResource = ''Referenced resource''"
| "relation_label ClusterResource = ''Cluster resource''"
| "relation_label GeneratedResource = ''Generated resource''"
| "relation_label StorageBackend = ''Storage backend''"
| "relation_label VolumeAttachment = ''Volume attachment''"

record resource_ref =
  rf_group :: string
  rf_version :: string
  rf_kind :: string
  rf_name :: string
  rf_namespace :: "string option"
  rf_key :: "string option"
  rf_category :: "category option"
  rf_relation :: "tree_relation option"
  rf_expandable :: bool

definition ref_identity :: "resource_ref \<Rightarrow> string" where
  "ref_identity r = rf_group r @ ''/'' @ rf_version r @ ''/'' @ rf_kind r @ ''/'' @ unwrap_or [] (rf_namespace r)
     @ ''/'' @ rf_name r"

text \<open>A node of the tree: what is shown of it, and its children.\<close>

record tree_info =
  ti_kind :: string
  ti_group :: string
  ti_name :: string
  ti_namespace :: "string option"
  ti_key :: "string option"
  ti_category :: "category option"
  ti_status :: "row_status option"
  ti_relation :: "tree_relation option"
  ti_expandable :: bool
  ti_error :: "string option"

datatype tree_node = TreeNode (tn_info: tree_info) (tn_children: "tree_node list")

definition leaf_info :: "resource_ref \<Rightarrow> tree_info" where
  "leaf_info r = \<lparr>ti_kind = rf_kind r, ti_group = rf_group r, ti_name = rf_name r, ti_namespace = rf_namespace r,
     ti_key = rf_key r, ti_category = rf_category r, ti_status = None, ti_relation = rf_relation r,
     ti_expandable = False, ti_error = None\<rparr>"

definition error_info :: "resource_ref \<Rightarrow> string \<Rightarrow> tree_info" where
  "error_info r message = \<lparr>ti_kind = rf_kind r, ti_group = rf_group r, ti_name = rf_name r,
     ti_namespace = rf_namespace r, ti_key = rf_key r, ti_category = rf_category r, ti_status = None,
     ti_relation = rf_relation r, ti_expandable = rf_expandable r, ti_error = Some message\<rparr>"

section \<open>Providers\<close>

datatype relationship_provider =
    FluxKustomization | FluxHelmRelease | FluxReferences | OwnedChildren | WorkloadPods | HpaScaleTarget
  | ServiceTargets | EndpointSliceService | CnpgCluster | CnpgClusterReference | CnpgScheduledBackup
  | KubernetesStorage | VolumeAttachments | RookStorageClass | RookCephCluster | ObjectBucketClaim
  | Certificate | CertificateRequest | CertManagerOrder | ExternalSecret | ClusterExternalSecret
  | KopiurPolicy | TupprUpgrade | GatewayRoute | EnvoyPolicy | ReferenceGrant | NetworkPolicyPods

text \<open>A registration is a group, a version that must match if there is one, a kind and a provider.\<close>

type_synonym provider_registration = "string \<times> string option \<times> string \<times> relationship_provider"

definition flux_and_workload_providers :: "provider_registration list" where
  "flux_and_workload_providers =
     [(''kustomize.toolkit.fluxcd.io'', None, ''Kustomization'', FluxKustomization),
      (''kustomize.toolkit.fluxcd.io'', None, ''Kustomization'', FluxReferences),
      (''helm.toolkit.fluxcd.io'', None, ''HelmRelease'', FluxHelmRelease),
      (''helm.toolkit.fluxcd.io'', None, ''HelmRelease'', FluxReferences),
      (''apps'', Some ''v1'', ''Deployment'', OwnedChildren),
      (''apps'', Some ''v1'', ''Deployment'', WorkloadPods),
      (''apps'', Some ''v1'', ''ReplicaSet'', OwnedChildren),
      (''apps'', Some ''v1'', ''ReplicaSet'', WorkloadPods),
      (''apps'', Some ''v1'', ''StatefulSet'', OwnedChildren),
      (''apps'', Some ''v1'', ''StatefulSet'', WorkloadPods),
      (''apps'', Some ''v1'', ''DaemonSet'', OwnedChildren),
      (''apps'', Some ''v1'', ''DaemonSet'', WorkloadPods),
      (''batch'', Some ''v1'', ''CronJob'', OwnedChildren),
      (''batch'', Some ''v1'', ''Job'', OwnedChildren),
      (''batch'', Some ''v1'', ''Job'', WorkloadPods),
      (''autoscaling'', None, ''HorizontalPodAutoscaler'', HpaScaleTarget),
      ([], Some ''v1'', ''Service'', ServiceTargets),
      (''discovery.k8s.io'', Some ''v1'', ''EndpointSlice'', EndpointSliceService)]"

definition storage_providers :: "provider_registration list" where
  "storage_providers =
     [(''postgresql.cnpg.io'', None, ''Cluster'', CnpgCluster),
      (''postgresql.cnpg.io'', None, ''Backup'', CnpgClusterReference),
      (''postgresql.cnpg.io'', None, ''Database'', CnpgClusterReference),
      (''postgresql.cnpg.io'', None, ''DatabaseRole'', CnpgClusterReference),
      (''postgresql.cnpg.io'', None, ''Pooler'', CnpgClusterReference),
      (''postgresql.cnpg.io'', None, ''ScheduledBackup'', CnpgClusterReference),
      (''postgresql.cnpg.io'', None, ''ScheduledBackup'', CnpgScheduledBackup),
      ([], Some ''v1'', ''Pod'', KubernetesStorage),
      ([], Some ''v1'', ''PersistentVolumeClaim'', KubernetesStorage),
      ([], Some ''v1'', ''PersistentVolume'', KubernetesStorage),
      ([], Some ''v1'', ''PersistentVolume'', VolumeAttachments),
      ([], Some ''v1'', ''Node'', VolumeAttachments),
      (''storage.k8s.io'', Some ''v1'', ''VolumeAttachment'', KubernetesStorage),
      (''storage.k8s.io'', Some ''v1'', ''StorageClass'', RookStorageClass),
      (''ceph.rook.io'', None, ''CephCluster'', RookCephCluster),
      (''objectbucket.io'', None, ''ObjectBucketClaim'', ObjectBucketClaim)]"

definition operator_providers :: "provider_registration list" where
  "operator_providers =
     [(''cert-manager.io'', None, ''Certificate'', Certificate),
      (''cert-manager.io'', None, ''CertificateRequest'', CertificateRequest),
      (''acme.cert-manager.io'', None, ''Order'', CertManagerOrder),
      (''external-secrets.io'', None, ''ExternalSecret'', ExternalSecret),
      (''external-secrets.io'', None, ''ClusterExternalSecret'', ClusterExternalSecret),
      (''kopiur.home-operations.com'', None, ''SnapshotPolicy'', KopiurPolicy),
      (''tuppr.home-operations.com'', None, ''KubernetesUpgrade'', TupprUpgrade),
      (''tuppr.home-operations.com'', None, ''TalosUpgrade'', TupprUpgrade),
      (''gateway.networking.k8s.io'', None, ''HTTPRoute'', GatewayRoute),
      (''gateway.networking.k8s.io'', None, ''GRPCRoute'', GatewayRoute),
      (''gateway.networking.k8s.io'', None, ''TLSRoute'', GatewayRoute),
      (''gateway.networking.k8s.io'', None, ''TCPRoute'', GatewayRoute),
      (''gateway.networking.k8s.io'', None, ''UDPRoute'', GatewayRoute),
      (''gateway.networking.k8s.io'', None, ''ReferenceGrant'', ReferenceGrant),
      (''networking.k8s.io'', Some ''v1'', ''NetworkPolicy'', NetworkPolicyPods),
      (''gateway.envoyproxy.io'', None, ''BackendTrafficPolicy'', EnvoyPolicy),
      (''gateway.envoyproxy.io'', None, ''ClientTrafficPolicy'', EnvoyPolicy),
      (''gateway.envoyproxy.io'', None, ''SecurityPolicy'', EnvoyPolicy),
      (''gateway.envoyproxy.io'', None, ''EnvoyPatchPolicy'', EnvoyPolicy),
      (''gateway.envoyproxy.io'', None, ''EnvoyExtensionPolicy'', EnvoyPolicy)]"

definition RELATIONSHIP_PROVIDERS :: "provider_registration list" where
  "RELATIONSHIP_PROVIDERS = flux_and_workload_providers @ storage_providers @ operator_providers"

definition relationship_providers :: "resource_ref \<Rightarrow> relationship_provider list" where
  "relationship_providers r = map (\<lambda>(_, _, _, p). p) (filter (\<lambda>(grp, version, kind, _).
     grp = rf_group r \<and> kind = rf_kind r \<and> (case version of None \<Rightarrow> True | Some v \<Rightarrow> v = rf_version r))
     RELATIONSHIP_PROVIDERS)"

section \<open>Named references\<close>

record named_ref =
  nr_group :: string
  nr_kind :: string
  nr_name :: string
  nr_namespace :: "string option"

abbreviation nonempty_str :: "json option \<Rightarrow> string option" where
  "nonempty_str j \<equiv> nonempty (Option.bind j as_str)"

abbreviation nonempty_at :: "json \<Rightarrow> string list \<Rightarrow> string option" where
  "nonempty_at data path \<equiv> nonempty_str (jpointer data path)"

abbreviation items_at :: "json \<Rightarrow> string list \<Rightarrow> json list" where
  "items_at data path \<equiv> unwrap_or [] (array_at data path)"

definition split_api_version :: "string \<Rightarrow> string \<times> string" where
  "split_api_version v = (case split_once (CHR ''/'') v of None \<Rightarrow> ([], v) | Some (grp, version) \<Rightarrow> (grp, version))"

definition named_reference :: "json \<Rightarrow> string \<Rightarrow> string \<Rightarrow> string option \<Rightarrow> named_ref option" where
  "named_reference j default_group default_kind default_namespace =
     map_option (\<lambda>name. \<lparr>nr_group = unwrap_or default_group (Option.bind (jget j ''group'') as_str),
       nr_kind = unwrap_or default_kind (nonempty_str (jget j ''kind'')), nr_name = name,
       nr_namespace = or_else (nonempty_str (jget j ''namespace'')) default_namespace\<rparr>)
     (nonempty_str (jget j ''name''))"

definition object_bucket_claim_references :: "resource_ref \<Rightarrow> json \<Rightarrow> named_ref list" where
  "object_bucket_claim_references r data =
     map (\<lambda>kind. \<lparr>nr_group = [], nr_kind = kind, nr_name = rf_name r, nr_namespace = rf_namespace r\<rparr>) [''Secret'', ''ConfigMap'']
     @ (case nonempty_at data [''spec'', ''objectBucketName''] of
          None \<Rightarrow> []
        | Some name \<Rightarrow> [\<lparr>nr_group = ''objectbucket.io'', nr_kind = ''ObjectBucket'', nr_name = name, nr_namespace = None\<rparr>])"

definition cluster_scoped :: "string \<Rightarrow> named_ref \<Rightarrow> named_ref" where
  "cluster_scoped kind ref = (if nr_kind ref = kind then ref\<lparr>nr_namespace := None\<rparr> else ref)"

definition issuer_reference :: "resource_ref \<Rightarrow> json \<Rightarrow> named_ref option" where
  "issuer_reference r data = map_option (cluster_scoped ''ClusterIssuer'')
     (Option.bind (jpointer data [''spec'', ''issuerRef''])
        (\<lambda>j. named_reference j ''cert-manager.io'' ''Issuer'' (rf_namespace r)))"

definition certificate_references :: "resource_ref \<Rightarrow> json \<Rightarrow> named_ref list" where
  "certificate_references r data =
     (case issuer_reference r data of None \<Rightarrow> [] | Some ref \<Rightarrow> [ref])
     @ (case nonempty_at data [''spec'', ''secretName''] of
          None \<Rightarrow> []
        | Some name \<Rightarrow> [\<lparr>nr_group = [], nr_kind = ''Secret'', nr_name = name, nr_namespace = rf_namespace r\<rparr>])"

definition external_secret_references :: "resource_ref \<Rightarrow> json \<Rightarrow> (named_ref \<times> tree_relation) list" where
  "external_secret_references r data =
     (case Option.bind (jpointer data [''spec'', ''secretStoreRef''])
             (\<lambda>j. named_reference j ''external-secrets.io'' ''SecretStore'' (rf_namespace r)) of
        None \<Rightarrow> []
      | Some store \<Rightarrow> [(cluster_scoped ''ClusterSecretStore'' store, ReferencedResource)])
     @ [(\<lparr>nr_group = [], nr_kind = ''Secret'',
          nr_name = unwrap_or (rf_name r) (nonempty_at data [''spec'', ''target'', ''name'']),
          nr_namespace = rf_namespace r\<rparr>, GeneratedResource)]"

definition cluster_external_secret_references :: "resource_ref \<Rightarrow> json \<Rightarrow> named_ref list" where
  "cluster_external_secret_references r data =
     (let name = unwrap_or (rf_name r) (nonempty_str
            (or_else (jpointer data [''status'', ''externalSecretName'']) (jpointer data [''spec'', ''externalSecretName'']))) in
      map (\<lambda>ns. \<lparr>nr_group = ''external-secrets.io'', nr_kind = ''ExternalSecret'', nr_name = name, nr_namespace = Some ns\<rparr>)
        (List.map_filter (\<lambda>j. nonempty (as_str j)) (items_at data [''status'', ''provisionedNamespaces''])))"

definition flux_group :: "string \<Rightarrow> string" where
  "flux_group kind =
     (if kind = ''Kustomization'' then ''kustomize.toolkit.fluxcd.io''
      else if kind = ''HelmRelease'' then ''helm.toolkit.fluxcd.io''
      else if kind \<in> {''ImageRepository'', ''ImagePolicy'', ''ImageUpdateAutomation''} then ''image.toolkit.fluxcd.io''
      else if kind \<in> {''Alert'', ''Provider'', ''Receiver''} then ''notification.toolkit.fluxcd.io''
      else ''source.toolkit.fluxcd.io'')"

definition flux_references :: "resource_ref \<Rightarrow> json \<Rightarrow> named_ref list" where
  "flux_references r data =
     List.map_filter (\<lambda>j. Option.bind (Option.bind (jget j ''kind'') as_str)
         (\<lambda>kind. named_reference j (flux_group kind) kind (rf_namespace r)))
       (List.map_filter (jpointer data)
          [[''spec'', ''sourceRef''], [''spec'', ''chart'', ''spec'', ''sourceRef''], [''spec'', ''chartRef'']])
     @ List.map_filter (\<lambda>j. named_reference j (rf_group r) (rf_kind r) (rf_namespace r)) (items_at data [''spec'', ''dependsOn''])"

abbreviation optional_item :: "json option \<Rightarrow> json list" where
  "optional_item j \<equiv> (case j of None \<Rightarrow> [] | Some x \<Rightarrow> [x])"

definition kopiur_repository_references :: "resource_ref \<Rightarrow> json \<Rightarrow> named_ref list" where
  "kopiur_repository_references r data =
     List.map_filter (\<lambda>j. map_option (cluster_scoped ''ClusterRepository'')
         (named_reference j ''kopiur.home-operations.com'' ''Repository'' (rf_namespace r)))
       (optional_item (jpointer data [''spec'', ''repository'']) @ items_at data [''spec'', ''repositories''])"

definition expression_matches :: "(string, string) hmap \<Rightarrow> json \<Rightarrow> bool" where
  "expression_matches labels expression = (case Option.bind (jget expression ''key'') as_str of
     None \<Rightarrow> False
   | Some key \<Rightarrow>
       (let choices = List.map_filter as_str (unwrap_or [] (Option.bind (jget expression ''values'') as_array)) in
        case Option.bind (jget expression ''operator'') as_str of
          None \<Rightarrow> False
        | Some operator \<Rightarrow>
            if operator = ''In'' then (case hm_get labels key of None \<Rightarrow> False | Some v \<Rightarrow> v \<in> set choices)
            else if operator = ''NotIn'' then (case hm_get labels key of None \<Rightarrow> True | Some v \<Rightarrow> v \<notin> set choices)
            else if operator = ''Exists'' then hm_get labels key \<noteq> None
            else if operator = ''DoesNotExist'' then hm_get labels key = None
            else False))"

definition label_selector_matches :: "json \<Rightarrow> (string, string) hmap \<Rightarrow> bool" where
  "label_selector_matches selector labels =
     ((case Option.bind (jget selector ''matchLabels'') as_object of
         None \<Rightarrow> True
       | Some required \<Rightarrow> list_all (\<lambda>(key, j). case as_str j of None \<Rightarrow> False | Some v \<Rightarrow> hm_get labels key = Some v) required)
      \<and> (case Option.bind (jget selector ''matchExpressions'') as_array of
         None \<Rightarrow> True
       | Some expressions \<Rightarrow> list_all (expression_matches labels) expressions))"

definition kopiur_child_matches_policy :: "string \<Rightarrow> string \<Rightarrow> (string, string) hmap \<Rightarrow> dyn_object \<Rightarrow> bool" where
  "kopiur_child_matches_policy kind policy_name policy_labels child =
     (if kind = ''SnapshotSchedule'' then
        str_at (dy_data child) [''spec'', ''policyRef'', ''name''] = Some policy_name
        \<or> (case jpointer (dy_data child) [''spec'', ''policySelector''] of
             None \<Rightarrow> False
           | Some selector \<Rightarrow> label_selector_matches selector policy_labels)
      else if kind = ''Snapshot'' then
        str_at (dy_data child) [''spec'', ''policyRef'', ''name''] = Some policy_name
        \<or> Option.bind (dy_labels child) (\<lambda>m. hm_get m ''kopiur.home-operations.com/config'') = Some policy_name
      else if kind = ''Restore'' then
        str_at (dy_data child) [''spec'', ''source'', ''fromPolicy'', ''name''] = Some policy_name
      else False)"

text \<open>\<open>retain\<close>, \<open>sort\<close> and \<open>dedup\<close> of a list of names.\<close>

definition tuppr_node_names :: "string \<Rightarrow> json \<Rightarrow> string list" where
  "tuppr_node_names kind data =
     (let strings = (\<lambda>path. List.map_filter as_str (items_at data path));
          node_names = (\<lambda>path. List.map_filter (\<lambda>j. Option.bind (jget j ''nodeName'') as_str) (items_at data path));
          names = (if kind = ''KubernetesUpgrade'' then
              (case str_at data [''status'', ''controllerNode''] of None \<Rightarrow> [] | Some name \<Rightarrow> [name])
            else (case str_at data [''status'', ''currentNode''] of None \<Rightarrow> [] | Some name \<Rightarrow> [name])
              @ concat (map strings [[''status'', ''currentNodes''], [''status'', ''completedNodes'']])
              @ concat (map node_names [[''status'', ''failedNodes''], [''status'', ''prePulledNodes''], [''status'', ''rebootingNodes'']]))
      in remdups_adj (sort (filter (\<lambda>name. name \<noteq> []) names)))"

definition gateway_route_references :: "resource_ref \<Rightarrow> json \<Rightarrow> named_ref list" where
  "gateway_route_references r data =
     List.map_filter (\<lambda>j. named_reference j ''gateway.networking.k8s.io'' ''Gateway'' (rf_namespace r))
       (items_at data [''spec'', ''parentRefs''])
     @ List.map_filter (\<lambda>j. named_reference j [] ''Service'' (rf_namespace r))
       (concat (map (\<lambda>rule. unwrap_or [] (Option.bind (jget rule ''backendRefs'') as_array)) (items_at data [''spec'', ''rules''])))"

definition envoy_policy_references :: "resource_ref \<Rightarrow> json \<Rightarrow> named_ref list" where
  "envoy_policy_references r data =
     List.map_filter (\<lambda>j. named_reference j ''gateway.networking.k8s.io'' ''Gateway'' (rf_namespace r))
       (optional_item (jpointer data [''spec'', ''targetRef'']) @ items_at data [''spec'', ''targetRefs''])"

section \<open>Reference grants\<close>

definition reference_grant_named_targets :: "resource_ref \<Rightarrow> json \<Rightarrow> named_ref list" where
  "reference_grant_named_targets r data =
     List.map_filter (\<lambda>j. named_reference j [] ''Service'' (rf_namespace r))
       (filter (\<lambda>j. jget j ''name'' \<noteq> None) (items_at data [''spec'', ''to'']))"

definition reference_grant_list_targets :: "resource_ref \<Rightarrow> json \<Rightarrow> (string \<times> string \<times> string option) list" where
  "reference_grant_list_targets r data =
     List.map_filter (\<lambda>j. Option.bind (Option.bind (jget j ''group'') as_str) (\<lambda>grp.
         map_option (\<lambda>kind. (grp, kind, rf_namespace r)) (Option.bind (jget j ''kind'') as_str)))
       (filter (\<lambda>j. jget j ''name'' = None) (items_at data [''spec'', ''to'']))"

definition reference_grant_sources :: "json \<Rightarrow> (string \<times> string \<times> string option) list" where
  "reference_grant_sources data =
     List.map_filter (\<lambda>j. Option.bind (Option.bind (jget j ''group'') as_str) (\<lambda>grp.
         Option.bind (Option.bind (jget j ''kind'') as_str) (\<lambda>kind.
         map_option (\<lambda>ns. (grp, kind, Some ns)) (Option.bind (jget j ''namespace'') as_str))))
       (items_at data [''spec'', ''from''])"

record grant_target =
  gt_group :: string
  gt_kind :: string
  gt_name :: "string option"

definition reference_grant_targets :: "json \<Rightarrow> grant_target list" where
  "reference_grant_targets data =
     List.map_filter (\<lambda>j. Option.bind (Option.bind (jget j ''group'') as_str) (\<lambda>grp.
         map_option (\<lambda>kind. \<lparr>gt_group = grp, gt_kind = kind, gt_name = Option.bind (jget j ''name'') as_str\<rparr>)
           (Option.bind (jget j ''kind'') as_str)))
       (items_at data [''spec'', ''to''])"

definition entry_matches_grant :: "(string \<times> json) list \<Rightarrow> string \<Rightarrow> grant_target list \<Rightarrow> bool" where
  "entry_matches_grant es target_namespace targets =
     (Option.bind (hm_get es ''namespace'') as_str = Some target_namespace
      \<and> (case Option.bind (hm_get es ''name'') as_str of
           None \<Rightarrow> False
         | Some name \<Rightarrow>
             (let grp = unwrap_or [] (Option.bind (hm_get es ''group'') as_str);
                  kind = unwrap_or ''Service'' (Option.bind (hm_get es ''kind'') as_str) in
              list_ex (\<lambda>t. gt_group t = grp \<and> gt_kind t = kind
                \<and> (case gt_name t of None \<Rightarrow> True | Some target \<Rightarrow> target = name)) targets)))"

fun references_grant_target :: "string \<Rightarrow> grant_target list \<Rightarrow> json \<Rightarrow> bool" where
  "references_grant_target ns targets (JArray js) = list_ex (references_grant_target ns targets) js"
| "references_grant_target ns targets (JObject es) =
     (entry_matches_grant es ns targets \<or> list_ex (\<lambda>(_, j). references_grant_target ns targets j) es)"
| "references_grant_target ns targets JNull = False"
| "references_grant_target ns targets (JBool _) = False"
| "references_grant_target ns targets (JNumber _) = False"
| "references_grant_target ns targets (JString _) = False"

definition reference_grant_source_matches :: "dyn_object \<Rightarrow> string option \<Rightarrow> grant_target list \<Rightarrow> bool" where
  "reference_grant_source_matches source target_namespace targets = (case target_namespace of
     None \<Rightarrow> False
   | Some ns \<Rightarrow> (case jget (dy_data source) ''spec'' of
         None \<Rightarrow> False
       | Some spec \<Rightarrow> references_grant_target ns targets spec))"

section \<open>Kinds\<close>

definition child_namespace :: "dyn_object \<Rightarrow> string option \<Rightarrow> bool \<Rightarrow> string option" where
  "child_namespace obj fallback namespaced = (if namespaced then or_else (dy_namespace obj) fallback else None)"

definition is_flux_owner :: "string \<Rightarrow> string \<Rightarrow> bool" where
  "is_flux_owner grp kind \<longleftrightarrow> grp = ''kustomize.toolkit.fluxcd.io'' \<and> kind = ''Kustomization''
     \<or> grp = ''helm.toolkit.fluxcd.io'' \<and> kind = ''HelmRelease''"

definition is_workload :: "string \<Rightarrow> string \<Rightarrow> bool" where
  "is_workload grp kind \<longleftrightarrow> grp = ''apps'' \<and> kind \<in> {''Deployment'', ''StatefulSet'', ''DaemonSet'', ''ReplicaSet''}
     \<or> grp = ''batch'' \<and> kind = ''Job''"

definition is_expandable_kind :: "string \<Rightarrow> string \<Rightarrow> bool" where
  "is_expandable_kind grp kind \<longleftrightarrow> is_flux_owner grp kind \<or> is_workload grp kind
     \<or> grp = ''batch'' \<and> kind = ''CronJob''
     \<or> grp = [] \<and> kind = ''Service''
     \<or> grp = ''acme.cert-manager.io'' \<and> kind = ''Order''
     \<or> grp = ''external-secrets.io'' \<and> kind = ''ExternalSecret''
     \<or> grp = ''gateway.networking.k8s.io'' \<and> kind \<in> {''HTTPRoute'', ''GRPCRoute'', ''TLSRoute'', ''TCPRoute'', ''UDPRoute''}"

definition reference_is_expandable :: "tree_relation option \<Rightarrow> string \<Rightarrow> string \<Rightarrow> bool" where
  "reference_is_expandable relation grp kind \<longleftrightarrow> relation = Some Owner
     \<or> is_flux_owner grp kind
     \<or> relation \<noteq> None \<and> relation \<noteq> Some FluxInventory \<and> is_expandable_kind grp kind
     \<or> relation = Some ReferencedResource \<and> grp = [] \<and> kind \<in> {''PersistentVolumeClaim'', ''PersistentVolume''}
     \<or> grp = [] \<and> kind = ''Pod'' \<and> relation \<noteq> None"

definition owned_child_kind :: "string \<Rightarrow> string \<Rightarrow> (string \<times> string) option" where
  "owned_child_kind grp kind =
     (if grp = ''apps'' \<and> kind = ''Deployment'' then Some (''apps'', ''ReplicaSet'')
      else if grp = ''apps'' \<and> kind \<in> {''ReplicaSet'', ''StatefulSet'', ''DaemonSet''} then Some ([], ''Pod'')
      else if grp = ''batch'' \<and> kind = ''CronJob'' then Some (''batch'', ''Job'')
      else if grp = ''batch'' \<and> kind = ''Job'' then Some ([], ''Pod'')
      else None)"

section \<open>Storage, services, scaling\<close>

record storage_ref =
  sr_group :: string
  sr_version :: string
  sr_kind :: string
  sr_name :: string
  sr_namespace :: "string option"

abbreviation core_ref :: "string \<Rightarrow> string \<Rightarrow> string option \<Rightarrow> storage_ref" where
  "core_ref kind name ns \<equiv> \<lparr>sr_group = [], sr_version = ''v1'', sr_kind = kind, sr_name = name, sr_namespace = ns\<rparr>"

abbreviation option_list :: "'a option \<Rightarrow> 'a list" where
  "option_list x \<equiv> (case x of None \<Rightarrow> [] | Some y \<Rightarrow> [y])"

definition storage_class_reference :: "json \<Rightarrow> storage_ref option" where
  "storage_class_reference data =
     map_option (\<lambda>name. \<lparr>sr_group = ''storage.k8s.io'', sr_version = ''v1'', sr_kind = ''StorageClass'', sr_name = name,
       sr_namespace = None\<rparr>) (nonempty_at data [''spec'', ''storageClassName''])"

definition volume_claim :: "resource_ref \<Rightarrow> json \<Rightarrow> storage_ref option" where
  "volume_claim r j = map_option (\<lambda>claim. core_ref ''PersistentVolumeClaim'' claim (rf_namespace r))
     (or_else (nonempty_at j [''persistentVolumeClaim'', ''claimName''])
        (if jget j ''ephemeral'' = None then None
         else Option.bind (Option.bind (jget j ''name'') as_str) (\<lambda>volume_name.
           if rf_name r \<noteq> [] \<and> volume_name \<noteq> [] then Some (rf_name r @ ''-'' @ volume_name) else None)))"

definition storage_reference_targets :: "resource_ref \<Rightarrow> json \<Rightarrow> storage_ref list" where
  "storage_reference_targets r data =
     (if rf_group r = [] \<and> rf_kind r = ''Pod'' then
        List.map_filter (volume_claim r) (items_at data [''spec'', ''volumes''])
      else if rf_group r = [] \<and> rf_kind r = ''PersistentVolumeClaim'' then
        (case nonempty_at data [''spec'', ''volumeName''] of
           Some name \<Rightarrow> [core_ref ''PersistentVolume'' name None]
         | None \<Rightarrow> option_list (storage_class_reference data))
      else if rf_group r = [] \<and> rf_kind r = ''PersistentVolume'' then option_list (storage_class_reference data)
      else if rf_group r = ''storage.k8s.io'' \<and> rf_kind r = ''VolumeAttachment'' then
        map (\<lambda>name. core_ref ''PersistentVolume'' name None)
          (option_list (nonempty_at data [''spec'', ''source'', ''persistentVolumeName'']))
        @ map (\<lambda>name. core_ref ''Node'' name None) (option_list (nonempty_at data [''spec'', ''nodeName'']))
      else [])"

definition volume_attachment_matches :: "resource_ref \<Rightarrow> dyn_object \<Rightarrow> bool" where
  "volume_attachment_matches r attachment =
     (if rf_group r = [] \<and> rf_kind r = ''PersistentVolume'' then
        str_at (dy_data attachment) [''spec'', ''source'', ''persistentVolumeName''] = Some (rf_name r)
      else if rf_group r = [] \<and> rf_kind r = ''Node'' then
        str_at (dy_data attachment) [''spec'', ''nodeName''] = Some (rf_name r)
      else False)"

definition service_selector :: "json \<Rightarrow> string option" where
  "service_selector data = Option.bind (Option.bind (jpointer data [''spec'', ''selector'']) as_object) (\<lambda>labels.
     let requirements = sort (List.map_filter (\<lambda>(key, j). map_option (\<lambda>v. key @ ''='' @ v) (as_str j)) labels) in
     if requirements = [] then None else Some (join_with '','' requirements))"

definition endpoint_slice_service_name :: "json \<Rightarrow> string option" where
  "endpoint_slice_service_name data = nonempty_at data [''metadata'', ''labels'', ''kubernetes.io/service-name'']"

definition hpa_scale_target :: "json \<Rightarrow> (string \<times> string \<times> string \<times> string) option" where
  "hpa_scale_target data =
     Option.bind (nonempty_at data [''spec'', ''scaleTargetRef'', ''apiVersion'']) (\<lambda>api_version.
     Option.bind (nonempty_at data [''spec'', ''scaleTargetRef'', ''kind'']) (\<lambda>kind.
     map_option (\<lambda>name. case split_api_version api_version of (grp, version) \<Rightarrow> (grp, version, kind, name))
       (nonempty_at data [''spec'', ''scaleTargetRef'', ''name''])))"

definition parse_inventory_id :: "string \<Rightarrow> (string option \<times> string \<times> string \<times> string) option" where
  "parse_inventory_id iid = (case splitn 4 (CHR ''_'') iid of
     [ns, name, grp, kind] \<Rightarrow>
       if name = [] \<or> kind = [] then None
       else Some (if ns = [] then None else Some ns, name, grp, kind)
   | _ \<Rightarrow> None)"

section \<open>The manifest of a Helm release\<close>

record manifest_ref =
  mr_group :: string
  mr_version :: string
  mr_kind :: string
  mr_name :: string
  mr_namespace :: "string option"

text \<open>A parsed document: its API version and kind, if it has them, and what the code reads of its metadata.\<close>

record manifest_doc =
  md_types :: "(string \<times> string) option"
  md_name :: "string option"
  md_namespace :: "string option"

text \<open>The secret of a release, base64, gunzip (at most so many bytes of the output), JSON and YAML.\<close>

record helm_env =
  hl_release :: "string \<Rightarrow> string \<Rightarrow> string + string option"
  hl_base64 :: "string \<Rightarrow> string + string"
  hl_gunzip :: "nat \<Rightarrow> string \<Rightarrow> string + string"
  hl_json :: "string \<Rightarrow> string + json"
  hl_yaml :: "string \<Rightarrow> manifest_doc option"

definition MAX_HELM_RELEASE_BYTES :: nat where
  "MAX_HELM_RELEASE_BYTES = 32 * 1024 * 1024"

definition decompress_helm_release :: "helm_env \<Rightarrow> string \<Rightarrow> nat \<Rightarrow> string + string" where
  "decompress_helm_release env gz limit =
     and_then (map_err (\<lambda>e. ''failed to decompress Helm release secret: '' @ e) (hl_gunzip env (limit + 1) gz)) (\<lambda>bytes.
     if length bytes > limit then Inl (''decompressed Helm release exceeds '' @ show_nat limit @ '' byte limit'')
     else Inr bytes)"

definition decode_helm_manifest :: "helm_env \<Rightarrow> string \<Rightarrow> string + string" where
  "decode_helm_manifest env raw =
     and_then (map_err (\<lambda>e. ''invalid Helm release secret encoding: '' @ e) (hl_base64 env raw)) (\<lambda>gz.
     and_then (decompress_helm_release env gz MAX_HELM_RELEASE_BYTES) (\<lambda>json_bytes.
     and_then (map_err (\<lambda>e. ''invalid Helm release JSON: '' @ e) (hl_json env json_bytes)) (\<lambda>release.
     ok_or ''Helm release has no manifest'' (Option.bind (jget release ''manifest'') as_str))))"

text \<open>\<open>str::lines\<close>: a final line ending does not start a line, and a carriage return before it is dropped.\<close>

definition str_lines :: "string \<Rightarrow> string list" where
  "str_lines s =
     (let pieces = split_on (CHR 10) s;
          kept = (if last pieces = [] then butlast pieces else pieces)
      in map (\<lambda>(i, l). if i + 1 < length pieces \<and> l \<noteq> [] \<and> last l = CHR 13 then butlast l else l) (List.enumerate 0 kept))"

fun split_yaml_lines :: "string list \<Rightarrow> string \<Rightarrow> string list" where
  "split_yaml_lines [] current = (if trim current = [] then [] else [current])"
| "split_yaml_lines (line # ls) current =
     (if trim_end line = ''---'' then (if trim current = [] then [] else [current]) @ split_yaml_lines ls []
      else split_yaml_lines ls (current @ line @ newline))"

definition split_yaml_docs :: "string \<Rightarrow> string list" where
  "split_yaml_docs manifest = split_yaml_lines (str_lines manifest) []"

definition manifest_ref_of :: "string \<Rightarrow> manifest_doc \<Rightarrow> manifest_ref option" where
  "manifest_ref_of release_namespace doc =
     Option.bind (md_types doc) (\<lambda>(api_version, kind). map_option (\<lambda>name.
       case split_api_version api_version of (grp, version) \<Rightarrow>
         \<lparr>mr_group = grp, mr_version = version, mr_kind = kind, mr_name = name,
          mr_namespace = or_else (md_namespace doc) (Some release_namespace)\<rparr>) (md_name doc))"

definition parse_helm_manifest :: "helm_env \<Rightarrow> string \<Rightarrow> string \<Rightarrow> manifest_ref list" where
  "parse_helm_manifest env manifest release_namespace =
     List.map_filter (manifest_ref_of release_namespace) (List.map_filter (hl_yaml env) (split_yaml_docs manifest))"

definition helm_release_children :: "helm_env \<Rightarrow> json \<Rightarrow> string + manifest_ref list" where
  "helm_release_children env hr =
     and_then (ok_or ''HelmRelease has no deployed revision yet''
       (Option.bind (Option.bind (Option.bind (jget hr ''status'') (\<lambda>s. jget s ''history'')) as_array)
          (find (\<lambda>h. Option.bind (jget h ''status'') as_str = Some ''deployed'')))) (\<lambda>deployed.
     and_then (ok_or ''Helm release history entry missing name'' (Option.bind (jget deployed ''name'') as_str)) (\<lambda>rel_name.
     and_then (ok_or ''Helm release history entry missing namespace'' (Option.bind (jget deployed ''namespace'') as_str)) (\<lambda>rel_ns.
     and_then (ok_or ''Helm release history entry missing version'' (Option.bind (jget deployed ''version'') as_i64)) (\<lambda>revision.
     let secret_name = ''sh.helm.release.v1.'' @ rel_name @ ''.v'' @ show_int revision in
     and_then (map_err (\<lambda>e. ''could not read Helm storage secret '' @ secret_name @ '': '' @ e)
       (hl_release env rel_ns secret_name)) (\<lambda>release.
     and_then (ok_or (''Helm storage secret '' @ secret_name @ '' has no 'release' key'') release) (\<lambda>raw.
     and_then (decode_helm_manifest env raw) (\<lambda>manifest.
     Inr (parse_helm_manifest env manifest rel_ns))))))))"

section \<open>Order and duplicates\<close>

definition ref_order :: "resource_ref \<Rightarrow> string option \<times> string \<times> string option \<times> string" where
  "ref_order r = (map_option relation_label (rf_relation r), rf_kind r, rf_namespace r, rf_name r)"

definition ref_mark :: "resource_ref \<Rightarrow> tree_relation option \<times> string" where
  "ref_mark r = (rf_relation r, ref_identity r)"

fun retain_unseen :: "('a \<Rightarrow> 'b) \<Rightarrow> 'b list \<Rightarrow> 'a list \<Rightarrow> 'a list" where
  "retain_unseen f seen [] = []"
| "retain_unseen f seen (x # xs) =
     (if f x \<in> set seen then retain_unseen f seen xs else x # retain_unseen f (f x # seen) xs)"

definition deduplicate_and_sort :: "resource_ref list \<Rightarrow> resource_ref list" where
  "deduplicate_and_sort rs = retain_unseen ref_mark [] (sort_key ref_order rs)"

lemma set_retain_unseen: "set (retain_unseen f seen xs) \<subseteq> set xs"
  by (induction f seen xs rule: retain_unseen.induct) auto

lemma retain_unseen_distinct: "distinct (map f (retain_unseen f seen xs)) \<and> f ` set (retain_unseen f seen xs) \<inter> set seen = {}"
  by (induction f seen xs rule: retain_unseen.induct) auto

lemma retain_unseen_complete: "f ` set xs \<subseteq> f ` set (retain_unseen f seen xs) \<union> set seen"
proof (induction f seen xs rule: retain_unseen.induct)
  case (2 f seen x xs)
  then show ?case by (cases "f x \<in> set seen") auto
qed simp

lemma set_deduplicate_and_sort: "set (deduplicate_and_sort rs) \<subseteq> set rs"
  using set_retain_unseen unfolding deduplicate_and_sort_def by fastforce

lemma distinct_deduplicate_and_sort: "distinct (map ref_mark (deduplicate_and_sort rs))"
  using retain_unseen_distinct unfolding deduplicate_and_sort_def by blast

lemma deduplicate_and_sort_complete: "ref_mark ` set (deduplicate_and_sort rs) = ref_mark ` set rs"
  using retain_unseen_complete[of ref_mark "sort_key ref_order rs" "[]"] set_deduplicate_and_sort[of rs]
  unfolding deduplicate_and_sort_def by auto

lemma sorted_retain_unseen: "sorted (map g xs) \<Longrightarrow> sorted (map g (retain_unseen f seen xs))"
  by (induction f seen xs rule: retain_unseen.induct) (auto dest: set_retain_unseen[THEN subsetD])

lemma sorted_deduplicate_and_sort: "sorted (map ref_order (deduplicate_and_sort rs))"
  unfolding deduplicate_and_sort_def by (rule sorted_retain_unseen) simp

end
