(* ===== verification/Tree.thy ===== *)
theory Tree
  imports TreeRefs
begin

text \<open>
  The relationship tree of a resource (\<open>Backend::resource_tree\<close> of \<open>crates/k8s/src/backend/tree.rs\<close>).

  The children of a node are built concurrently and share one counter of nodes.  A node under
  construction is a \<open>build\<close>: not started, its object fetched and the capacity looked at, or waiting for its
  children.  Between two of these points the code awaits answers of the API server, so each is one step that may happen at any time relative to
  those of other nodes, and every step has an environment of its own: what the cluster and the catalog
  say may change at any time.  The semaphore only limits how many requests run at once.
\<close>

section \<open>The cluster\<close>

record tree_env =
  te_project :: project_env
  te_catalog :: "resource_kind list"
  te_cached :: "string \<Rightarrow> string option \<Rightarrow> string \<Rightarrow> dyn_object option"
  te_get :: "string \<Rightarrow> string option \<Rightarrow> string \<Rightarrow> string + dyn_object"
  te_list :: "string \<Rightarrow> string option \<Rightarrow> string option \<Rightarrow> string + dyn_object list"
  te_helm :: helm_env

definition catalog_entry :: "tree_env \<Rightarrow> string \<Rightarrow> string option \<Rightarrow> string \<Rightarrow> resource_kind option" where
  "catalog_entry env grp version kind =
     or_else (Option.bind version (\<lambda>v. catalog_by_key (te_catalog env) (make_key grp v kind)))
       (find (\<lambda>e. rk_group e = grp \<and> rk_kind e = kind) (te_catalog env))"

definition resolve_resource ::
  "tree_env \<Rightarrow> string \<Rightarrow> string \<Rightarrow> string \<Rightarrow> string \<Rightarrow> string option \<Rightarrow> tree_relation option \<Rightarrow> resource_ref" where
  "resolve_resource env grp version kind name ns relation =
     (let entry = catalog_entry env grp (if version = [] then None else Some version) kind in
      \<lparr>rf_group = grp, rf_version = version, rf_kind = kind, rf_name = name,
       rf_namespace = (case entry of Some e \<Rightarrow> if rk_namespaced e then ns else None | None \<Rightarrow> ns),
       rf_key = map_option rk_key entry, rf_category = map_option rk_category entry, rf_relation = relation,
       rf_expandable = reference_is_expandable relation grp kind\<rparr>)"

definition resolve_named_reference :: "tree_env \<Rightarrow> tree_relation \<Rightarrow> named_ref \<Rightarrow> resource_ref" where
  "resolve_named_reference env relation ref =
     resolve_resource env (nr_group ref) [] (nr_kind ref) (nr_name ref) (nr_namespace ref) (Some relation)"

section \<open>Lists of related objects\<close>

definition listed_ref :: "resource_kind \<Rightarrow> string option \<Rightarrow> tree_relation \<Rightarrow> bool \<Rightarrow> dyn_object \<Rightarrow> resource_ref option" where
  "listed_ref e ns relation expandable obj = map_option (\<lambda>name.
     \<lparr>rf_group = rk_group e, rf_version = rk_version e, rf_kind = rk_kind e, rf_name = name,
      rf_namespace = child_namespace obj ns (rk_namespaced e), rf_key = Some (rk_key e),
      rf_category = Some (rk_category e), rf_relation = Some relation, rf_expandable = expandable\<rparr>) (dy_name obj)"

definition list_objects :: "tree_env \<Rightarrow> resource_kind \<Rightarrow> string option \<Rightarrow> string option \<Rightarrow> k8s_error + dyn_object list" where
  "list_objects env e ns selector =
     and_then (cluster_entry (te_catalog env) (rk_key e)) (\<lambda>api.
     map_err K8sApi (te_list env (rk_key api) (api_scope api ns) selector))"

definition is_owned_by :: "string \<Rightarrow> dyn_object \<Rightarrow> bool" where
  "is_owned_by uid child = list_ex (\<lambda>owner. or_uid owner = uid) (unwrap_or [] (dy_owner_references child))"

definition list_owned_kind :: "tree_env \<Rightarrow> resource_ref \<Rightarrow> dyn_object \<Rightarrow> string \<Rightarrow> string \<Rightarrow> k8s_error + resource_ref list" where
  "list_owned_kind env parent obj grp kind =
     (let uid = unwrap_or [] (dy_uid obj) in
      if uid = [] then Inr []
      else case catalog_entry env grp None kind of
          None \<Rightarrow> Inr []
        | Some e \<Rightarrow> and_then (list_objects env e (rf_namespace parent) None) (\<lambda>items.
            Inr (List.map_filter (listed_ref e (rf_namespace parent) OwnedResource (is_expandable_kind (rk_group e) (rk_kind e)))
              (filter (is_owned_by uid) items))))"

definition list_selected ::
  "tree_env \<Rightarrow> string \<Rightarrow> string \<Rightarrow> string option \<Rightarrow> string \<Rightarrow> tree_relation \<Rightarrow> k8s_error + resource_ref list" where
  "list_selected env grp kind ns selector relation =
     (case catalog_entry env grp None kind of
        None \<Rightarrow> Inr []
      | Some e \<Rightarrow> and_then (list_objects env e ns (Some selector)) (\<lambda>items.
          Inr (List.map_filter (listed_ref e ns relation (reference_is_expandable (Some relation) grp kind)) items)))"

definition list_matching ::
  "tree_env \<Rightarrow> string \<Rightarrow> string \<Rightarrow> string option \<Rightarrow> tree_relation \<Rightarrow> (dyn_object \<Rightarrow> bool) \<Rightarrow> k8s_error + resource_ref list" where
  "list_matching env grp kind ns relation matches =
     (case catalog_entry env grp None kind of
        None \<Rightarrow> Inr []
      | Some e \<Rightarrow> and_then (list_objects env e ns None) (\<lambda>items.
          Inr (List.map_filter (listed_ref e ns relation (reference_is_expandable (Some relation) grp kind))
            (filter matches items))))"

section \<open>Relationships\<close>

text \<open>References found and errors met; an error of a list is reported under a heading.\<close>

type_synonym relationships = "resource_ref list \<times> string list"

abbreviation no_relationships :: relationships where
  "no_relationships \<equiv> ([], [])"

definition both :: "relationships \<Rightarrow> relationships \<Rightarrow> relationships" where
  "both x y = (fst x @ fst y, snd x @ snd y)"

definition all_of :: "relationships list \<Rightarrow> relationships" where
  "all_of xs = (concat (map fst xs), concat (map snd xs))"

definition listed :: "string \<Rightarrow> k8s_error + resource_ref list \<Rightarrow> relationships" where
  "listed heading r = (case r of
     Inr refs \<Rightarrow> (refs, [])
   | Inl e \<Rightarrow> ([], [heading @ '': '' @ k8s_error_to_string e]))"

definition owner_relationships :: "tree_env \<Rightarrow> dyn_object \<Rightarrow> resource_ref \<Rightarrow> resource_ref list" where
  "owner_relationships env obj child = map (\<lambda>owner.
     case split_api_version (or_api_version owner) of (grp, version) \<Rightarrow>
       resolve_resource env grp version (or_kind owner) (or_name owner) (rf_namespace child) (Some Owner))
     (unwrap_or [] (dy_owner_references obj))"

definition kustomization_children :: "tree_env \<Rightarrow> json \<Rightarrow> string + resource_ref list" where
  "kustomization_children env data =
     and_then (ok_or ''Kustomization has no inventory yet'' (array_at data [''status'', ''inventory'', ''entries''])) (\<lambda>entries.
     Inr (map (\<lambda>(ns, name, grp, kind). resolve_resource env grp [] kind name ns (Some FluxInventory))
       (List.map_filter parse_inventory_id (List.map_filter (\<lambda>e. Option.bind (jget e ''id'') as_str) entries))))"

definition service_relationships :: "tree_env \<Rightarrow> resource_ref \<Rightarrow> json \<Rightarrow> relationships" where
  "service_relationships env r data =
     both (case service_selector data of
             None \<Rightarrow> no_relationships
           | Some selector \<Rightarrow> listed ''selected pods'' (list_selected env [] ''Pod'' (rf_namespace r) selector SelectedPod))
       (listed ''endpoint slices'' (list_selected env ''discovery.k8s.io'' ''EndpointSlice'' (rf_namespace r)
          (''kubernetes.io/service-name='' @ rf_name r) EndpointSlice))"

definition cnpg_cluster_relationships :: "tree_env \<Rightarrow> resource_ref \<Rightarrow> relationships" where
  "cnpg_cluster_relationships env r =
     both (all_of (map (\<lambda>kind. listed (kind @ '' resources'')
             (list_selected env [] kind (rf_namespace r) (''cnpg.io/cluster='' @ rf_name r) ClusterResource))
             [''Pod'', ''PersistentVolumeClaim'', ''Service'']))
       (all_of (map (\<lambda>kind. listed (kind @ '' resources'')
             (list_matching env ''postgresql.cnpg.io'' kind (rf_namespace r) ClusterResource
                (\<lambda>obj. str_at (dy_data obj) [''spec'', ''cluster'', ''name''] = Some (rf_name r))))
             [''Backup'', ''Database'', ''DatabaseRole'', ''Pooler'']))"

definition list_generated_cnpg_backups :: "tree_env \<Rightarrow> resource_ref \<Rightarrow> dyn_object \<Rightarrow> k8s_error + resource_ref list" where
  "list_generated_cnpg_backups env r obj =
     (let uid = unwrap_or [] (dy_uid obj) in
      list_matching env ''postgresql.cnpg.io'' ''Backup'' (rf_namespace r) GeneratedResource
        (\<lambda>backup. uid \<noteq> [] \<and> is_owned_by uid backup
           \<or> Option.bind (dy_labels backup) (\<lambda>m. hm_get m ''cnpg.io/scheduled-backup'') = Some (rf_name r)))"

definition rook_storage_relationships :: "tree_env \<Rightarrow> json \<Rightarrow> relationships" where
  "rook_storage_relationships env data =
     (let provisioner = text_at data [''provisioner''] in
      if \<not> str_contains provisioner ''rook-ceph'' \<and> \<not> ends_with provisioner ''.ceph.com'' then no_relationships
      else case nonempty_at data [''parameters'', ''clusterID''] of
          None \<Rightarrow> no_relationships
        | Some ns \<Rightarrow>
            both (map (\<lambda>pool. resolve_resource env ''ceph.rook.io'' [] ''CephBlockPool'' pool (Some ns) (Some StorageBackend))
                    (option_list (nonempty_at data [''parameters'', ''pool'']))
                @ map (\<lambda>fs. resolve_resource env ''ceph.rook.io'' [] ''CephFilesystem'' fs (Some ns) (Some StorageBackend))
                    (option_list (nonempty_at data [''parameters'', ''fsName''])), [])
              (listed ''CephCluster resources''
                 (list_matching env ''ceph.rook.io'' ''CephCluster'' (Some ns) StorageBackend (\<lambda>_. True))))"

definition rook_cluster_relationships :: "tree_env \<Rightarrow> resource_ref \<Rightarrow> relationships" where
  "rook_cluster_relationships env r =
     (let selector = ''rook_cluster='' @ unwrap_or [] (rf_namespace r) in
      both (all_of (map (\<lambda>kind. listed (kind @ '' resources'')
              (list_matching env ''ceph.rook.io'' kind (rf_namespace r) ClusterResource (\<lambda>_. True)))
              [''CephBlockPool'', ''CephFilesystem'', ''CephObjectStore'']))
        (all_of (map (\<lambda>(kind, s). listed (''Rook '' @ kind @ '' resources'')
              (list_selected env ''apps'' kind (rf_namespace r) s ClusterResource))
              [(''Deployment'', selector), (''StatefulSet'', selector), (''DaemonSet'', selector),
               (''Deployment'', ''app=rook-ceph-operator'')])))"

definition kopiur_policy_relationships :: "tree_env \<Rightarrow> resource_ref \<Rightarrow> dyn_object \<Rightarrow> json \<Rightarrow> relationships" where
  "kopiur_policy_relationships env r obj data =
     both (map (resolve_named_reference env ReferencedResource) (kopiur_repository_references r data), [])
       (all_of (map (\<lambda>kind. listed (kind @ '' resources'')
          (list_matching env ''kopiur.home-operations.com'' kind (rf_namespace r) GeneratedResource
             (kopiur_child_matches_policy kind (rf_name r) (unwrap_or [] (dy_labels obj)))))
          [''SnapshotSchedule'', ''Snapshot'', ''Restore'']))"

definition tuppr_upgrade_relationships :: "tree_env \<Rightarrow> resource_ref \<Rightarrow> json \<Rightarrow> relationships" where
  "tuppr_upgrade_relationships env r data =
     both (map (\<lambda>name. resolve_resource env [] ''v1'' ''Node'' name None (Some ClusterResource))
             (tuppr_node_names (rf_kind r) data), [])
       (if rf_kind r = ''KubernetesUpgrade'' then
          listed ''affected Nodes'' (list_matching env [] ''Node'' None ClusterResource (\<lambda>_. True))
        else if rf_kind r = ''TalosUpgrade'' then
          (case label_selector (unwrap_or JNull (jpointer data [''spec'', ''nodeSelector''])) True ''Tuppr node'' of
             Inl e \<Rightarrow> ([], [e])
           | Inr selector \<Rightarrow> listed ''affected Nodes'' (list_selected env [] ''Node'' None selector ClusterResource))
        else no_relationships)"

definition reference_grant_relationships :: "tree_env \<Rightarrow> resource_ref \<Rightarrow> json \<Rightarrow> relationships" where
  "reference_grant_relationships env r data =
     both (map (resolve_named_reference env ReferencedResource) (reference_grant_named_targets r data), [])
     (both (all_of (map (\<lambda>(grp, kind, ns). listed (''permitted '' @ kind @ '' resources'')
              (list_matching env grp kind ns ReferencedResource (\<lambda>_. True))) (reference_grant_list_targets r data)))
       (all_of (map (\<lambda>(grp, kind, ns). listed (''permitted '' @ kind @ '' sources'')
              (list_matching env grp kind ns ReferencedResource
                 (\<lambda>source. reference_grant_source_matches source (rf_namespace r) (reference_grant_targets data))))
              (reference_grant_sources data))))"

section \<open>The providers\<close>

abbreviation named_refs :: "tree_env \<Rightarrow> tree_relation \<Rightarrow> named_ref list \<Rightarrow> relationships" where
  "named_refs env relation refs \<equiv> (map (resolve_named_reference env relation) refs, [])"

definition selected_pods :: "tree_env \<Rightarrow> resource_ref \<Rightarrow> string + string \<Rightarrow> relationships" where
  "selected_pods env r selector = (case selector of
     Inl e \<Rightarrow> ([], [e])
   | Inr s \<Rightarrow> listed ''selected pods'' (list_selected env [] ''Pod'' (rf_namespace r) s SelectedPod))"

definition operator_relationships ::
  "tree_env \<Rightarrow> resource_ref \<Rightarrow> dyn_object \<Rightarrow> json \<Rightarrow> relationship_provider \<Rightarrow> relationships" where
  "operator_relationships env r obj data p = (case p of
     Certificate \<Rightarrow> named_refs env ReferencedResource (certificate_references r data)
   | CertificateRequest \<Rightarrow>
       both (named_refs env ReferencedResource (option_list (issuer_reference r data)))
         (listed ''owned Orders'' (list_owned_kind env r obj ''acme.cert-manager.io'' ''Order''))
   | CertManagerOrder \<Rightarrow> listed ''owned Challenges'' (list_owned_kind env r obj ''acme.cert-manager.io'' ''Challenge'')
   | ExternalSecret \<Rightarrow>
       (map (\<lambda>(ref, relation). resolve_named_reference env relation ref) (external_secret_references r data), [])
   | ClusterExternalSecret \<Rightarrow>
       both (named_refs env GeneratedResource (cluster_external_secret_references r data))
         (case listed ''generated ExternalSecrets'' (list_owned_kind env r obj ''external-secrets.io'' ''ExternalSecret'') of
            (refs, errors) \<Rightarrow> (map (\<lambda>ref. ref\<lparr>rf_relation := Some GeneratedResource\<rparr>) refs, errors))
   | KopiurPolicy \<Rightarrow> kopiur_policy_relationships env r obj data
   | TupprUpgrade \<Rightarrow> tuppr_upgrade_relationships env r data
   | GatewayRoute \<Rightarrow> named_refs env ReferencedResource (gateway_route_references r data)
   | EnvoyPolicy \<Rightarrow> named_refs env ReferencedResource (envoy_policy_references r data)
   | ReferenceGrant \<Rightarrow> reference_grant_relationships env r data
   | NetworkPolicyPods \<Rightarrow>
       selected_pods env r (label_selector (unwrap_or JNull (jpointer data [''spec'', ''podSelector''])) True ''NetworkPolicy'')
   | _ \<Rightarrow> no_relationships)"

definition storage_relationships ::
  "tree_env \<Rightarrow> resource_ref \<Rightarrow> dyn_object \<Rightarrow> json \<Rightarrow> relationship_provider \<Rightarrow> relationships" where
  "storage_relationships env r obj data p = (case p of
     CnpgCluster \<Rightarrow> cnpg_cluster_relationships env r
   | CnpgClusterReference \<Rightarrow>
       (map (\<lambda>cluster. resolve_resource env ''postgresql.cnpg.io'' [] ''Cluster'' cluster (rf_namespace r) (Some ReferencedResource))
          (option_list (str_at data [''spec'', ''cluster'', ''name''])), [])
   | CnpgScheduledBackup \<Rightarrow> listed ''generated backups'' (list_generated_cnpg_backups env r obj)
   | KubernetesStorage \<Rightarrow>
       (let attachment = (rf_group r = ''storage.k8s.io'' \<and> rf_kind r = ''VolumeAttachment'') in
        (map (\<lambda>t. let child = resolve_resource env (sr_group t) (sr_version t) (sr_kind t) (sr_name t) (sr_namespace t)
                     (Some ReferencedResource) in
              if attachment then child\<lparr>rf_expandable := False\<rparr> else child)
           (storage_reference_targets r data), []))
   | VolumeAttachments \<Rightarrow>
       listed ''volume attachments'' (list_matching env ''storage.k8s.io'' ''VolumeAttachment'' None VolumeAttachment
         (volume_attachment_matches r))
   | RookStorageClass \<Rightarrow> rook_storage_relationships env data
   | RookCephCluster \<Rightarrow> rook_cluster_relationships env r
   | ObjectBucketClaim \<Rightarrow> named_refs env GeneratedResource (object_bucket_claim_references r data)
   | _ \<Rightarrow> operator_relationships env r obj data p)"

definition provider_relationships ::
  "tree_env \<Rightarrow> resource_ref \<Rightarrow> dyn_object \<Rightarrow> json \<Rightarrow> relationship_provider \<Rightarrow> relationships" where
  "provider_relationships env r obj data p = (case p of
     FluxKustomization \<Rightarrow> (case kustomization_children env data of Inr refs \<Rightarrow> (refs, []) | Inl e \<Rightarrow> ([], [e]))
   | FluxHelmRelease \<Rightarrow> (case helm_release_children (te_helm env) data of
         Inr refs \<Rightarrow> (map (\<lambda>c. resolve_resource env (mr_group c) (mr_version c) (mr_kind c) (mr_name c) (mr_namespace c)
                             (Some HelmManifest)) refs, [])
       | Inl e \<Rightarrow> ([], [e]))
   | FluxReferences \<Rightarrow> named_refs env ReferencedResource (flux_references r data)
   | OwnedChildren \<Rightarrow> (case owned_child_kind (rf_group r) (rf_kind r) of
         None \<Rightarrow> no_relationships
       | Some (grp, kind) \<Rightarrow> listed ''owned resources'' (list_owned_kind env r obj grp kind))
   | WorkloadPods \<Rightarrow> selected_pods env r (workload_label_selector data)
   | HpaScaleTarget \<Rightarrow> (case hpa_scale_target data of
         None \<Rightarrow> no_relationships
       | Some (grp, version, kind, name) \<Rightarrow>
           ([resolve_resource env grp version kind name (rf_namespace r) (Some ScaleTarget)], []))
   | ServiceTargets \<Rightarrow> service_relationships env r data
   | EndpointSliceService \<Rightarrow>
       (map (\<lambda>service. (resolve_resource env [] ''v1'' ''Service'' service (rf_namespace r) (Some ReferencedResource))
                \<lparr>rf_expandable := False\<rparr>) (option_list (endpoint_slice_service_name data)), [])
   | _ \<Rightarrow> storage_relationships env r obj data p)"

definition descendant_relationships :: "tree_env \<Rightarrow> resource_ref \<Rightarrow> dyn_object \<Rightarrow> json \<Rightarrow> relationships" where
  "descendant_relationships env r obj data =
     all_of (map (provider_relationships env r obj data) (relationship_providers r))"

section \<open>Building the tree\<close>

definition MAX_DEPTH :: nat where
  "MAX_DEPTH = 12"

definition MAX_NODES :: nat where
  "MAX_NODES = 500"

datatype direction = DirAll | DirOwners | DirDescendants

datatype build =
    Waiting resource_ref direction nat "string list"
  | Fetched resource_ref direction nat "string list" dyn_object json row_status "resource_ref list" bool
  | Joining resource_ref row_status "string list" "build list"
  | Ready tree_info

definition reserve_node_slots :: "nat \<Rightarrow> nat \<Rightarrow> nat \<times> nat" where
  "reserve_node_slots count requested =
     (let granted = min requested (MAX_NODES - count) in (granted, count + granted))"

definition descendant_capacity_available :: "nat \<Rightarrow> bool" where
  "descendant_capacity_available count \<longleftrightarrow> count < MAX_NODES"

definition limit_message :: string where
  "limit_message = ''relationship tree limited to '' @ show_nat MAX_NODES @ '' resources''"

text \<open>From the start of a node to the answer with its object, and what is read of the counter then.\<close>

definition fetched_node ::
  "tree_env \<Rightarrow> nat \<Rightarrow> resource_ref \<Rightarrow> direction \<Rightarrow> nat \<Rightarrow> string list \<Rightarrow> dyn_object \<Rightarrow> build" where
  "fetched_node env count r dir depth ancestry obj =
     Fetched r dir depth ancestry obj (unwrap_or JNull (pe_to_value (te_project env) obj))
       (resource_status (te_project env) (rf_group r) (rf_kind r) obj)
       (if dir \<in> {DirAll, DirOwners} then owner_relationships env obj r else [])
       (descendant_capacity_available count)"

definition fetch_node :: "tree_env \<Rightarrow> nat \<Rightarrow> resource_ref \<Rightarrow> direction \<Rightarrow> nat \<Rightarrow> string list \<Rightarrow> build" where
  "fetch_node env count r dir depth ancestry =
     (if ref_identity r \<in> set ancestry then Ready (error_info r ''relationship cycle detected'')
      else if depth \<ge> MAX_DEPTH then
        Ready (error_info r (''maximum relationship depth ('' @ show_nat MAX_DEPTH @ '') reached''))
      else case rf_key r of
          None \<Rightarrow> Ready (error_info r ''kind not found in this cluster's catalog'')
        | Some key \<Rightarrow> (case te_cached env key (rf_namespace r) (rf_name r) of
              Some obj \<Rightarrow> fetched_node env count r dir depth (ancestry @ [ref_identity r]) obj
            | None \<Rightarrow> (case cluster_entry (te_catalog env) key of
                  Inl e \<Rightarrow> Ready (error_info r (k8s_error_to_string e))
                | Inr api \<Rightarrow> (case te_get env (rk_key api) (api_scope api (rf_namespace r)) (rf_name r) of
                      Inl e \<Rightarrow> Ready (error_info r (''could not fetch resource: '' @ e))
                    | Inr obj \<Rightarrow> fetched_node env count r dir depth (ancestry @ [ref_identity r]) obj))))"

definition start_child :: "nat \<Rightarrow> string list \<Rightarrow> resource_ref \<Rightarrow> build" where
  "start_child depth ancestry child =
     (if \<not> rf_expandable child then Ready (leaf_info child)
      else Waiting child (if rf_relation child = Some Owner then DirOwners else DirDescendants) depth ancestry)"

text \<open>From there to the start of the children, and the counter after it.\<close>

definition expand_node ::
  "tree_env \<Rightarrow> nat \<Rightarrow> resource_ref \<Rightarrow> direction \<Rightarrow> nat \<Rightarrow> string list \<Rightarrow> dyn_object \<Rightarrow> json \<Rightarrow> row_status \<Rightarrow> resource_ref list
     \<Rightarrow> bool \<Rightarrow> build \<times> nat" where
  "expand_node env count r dir depth ancestry obj data status owners capacity =
     (let (descendants, errors) =
            (if dir \<in> {DirAll, DirDescendants} then
               (if capacity then descendant_relationships env r obj data else ([], [limit_message]))
             else no_relationships);
          relationships = deduplicate_and_sort (owners @ descendants);
          (granted, count') = reserve_node_slots count (length relationships)
      in (Joining r status (errors @ (if granted < length relationships then [limit_message] else []))
            (map (start_child (depth + 1) ancestry) (take granted relationships)), count'))"

text \<open>The finished tree, once every child is.\<close>

definition node_info :: "resource_ref \<Rightarrow> row_status \<Rightarrow> string list \<Rightarrow> tree_info" where
  "node_info r status errors = \<lparr>ti_kind = rf_kind r, ti_group = rf_group r, ti_name = rf_name r,
     ti_namespace = rf_namespace r, ti_key = rf_key r, ti_category = rf_category r, ti_status = Some status,
     ti_relation = rf_relation r, ti_expandable = True,
     ti_error = (if errors = [] then None else Some (join_with ''; '' errors))\<rparr>"

fun built :: "build \<Rightarrow> tree_node option" where
  "built (Waiting r dir depth ancestry) = None"
| "built (Fetched r dir depth ancestry obj data status owners capacity) = None"
| "built (Joining r status errors children) =
     map_option (TreeNode (node_info r status errors)) (those (map built children))"
| "built (Ready info) = Some (TreeNode info [])"

definition tree_root :: "resource_kind \<Rightarrow> string \<Rightarrow> string option \<Rightarrow> string \<Rightarrow> resource_ref" where
  "tree_root e key ns name = \<lparr>rf_group = rk_group e, rf_version = rk_version e, rf_kind = rk_kind e, rf_name = name,
     rf_namespace = ns, rf_key = Some key, rf_category = Some (rk_category e), rf_relation = None, rf_expandable = True\<rparr>"

text \<open>The start of \<open>resource_tree\<close>: the root, and the counter that counts it.\<close>

definition resource_tree :: "resource_kind list \<Rightarrow> string \<Rightarrow> string option \<Rightarrow> string \<Rightarrow> k8s_error + build \<times> nat" where
  "resource_tree catalog key ns name =
     and_then (cluster_entry catalog key) (\<lambda>e. Inr (Waiting (tree_root e key ns name) DirAll 0 [], 1))"

inductive tree_step :: "build \<times> nat \<Rightarrow> build \<times> nat \<Rightarrow> bool" where
  step_fetch: "tree_step (Waiting r dir depth ancestry, n) (fetch_node env n r dir depth ancestry, n)"
| step_expand: "tree_step (Fetched r dir depth ancestry obj data status owners capacity, n)
    (expand_node env n r dir depth ancestry obj data status owners capacity)"
| step_child: "i < length cs \<Longrightarrow> tree_step (cs ! i, n) (c, n')
    \<Longrightarrow> tree_step (Joining r status errors cs, n) (Joining r status errors (cs[i := c]), n')"

text \<open>One schedule: the first node that can go on does.\<close>

fun first_step :: "tree_env \<Rightarrow> nat \<Rightarrow> build \<Rightarrow> (build \<times> nat) option"
  and first_child :: "tree_env \<Rightarrow> nat \<Rightarrow> build list \<Rightarrow> (build list \<times> nat) option" where
  "first_step env n (Waiting r dir depth ancestry) = Some (fetch_node env n r dir depth ancestry, n)"
| "first_step env n (Fetched r dir depth ancestry obj data status owners capacity) =
     Some (expand_node env n r dir depth ancestry obj data status owners capacity)"
| "first_step env n (Joining r status errors cs) =
     map_option (\<lambda>(cs', n'). (Joining r status errors cs', n')) (first_child env n cs)"
| "first_step env n (Ready info) = None"
| "first_child env n [] = None"
| "first_child env n (c # cs) = (case first_step env n c of
     Some (c', n') \<Rightarrow> Some (c' # cs, n')
   | None \<Rightarrow> map_option (\<lambda>(cs', n'). (c # cs', n')) (first_child env n cs))"

fun run_tree :: "tree_env \<Rightarrow> nat \<Rightarrow> build \<times> nat \<Rightarrow> build \<times> nat" where
  "run_tree env 0 s = s"
| "run_tree env (Suc fuel) (b, n) = (case first_step env n b of None \<Rightarrow> (b, n) | Some s \<Rightarrow> run_tree env fuel s)"

end
