(* ===== verification/TreeProps.thy ===== *)
theory TreeProps
  imports Tree
begin

text \<open>
  The relationship tree is bounded in size and depth whatever the cluster answers and however its
  branches interleave, never expands a resource beneath itself, follows owners only upwards, says where
  it was cut, and is finished after at most a thousand steps.
\<close>

section \<open>The budget of nodes\<close>

text \<open>What the builder of a tree relies on when it reserves nodes.\<close>

locale node_budget =
  fixes limit :: nat and reserve :: "nat \<Rightarrow> nat \<Rightarrow> nat \<times> nat"
  assumes reserve_counts: "reserve n k = (g, n') \<Longrightarrow> n' = n + g"
    and reserve_modest: "reserve n k = (g, n') \<Longrightarrow> g \<le> k"
    and reserve_within: "reserve n k = (g, n') \<Longrightarrow> n \<le> limit \<Longrightarrow> n' \<le> limit"
    and reserve_generous: "reserve n k = (g, n') \<Longrightarrow> g < k \<Longrightarrow> limit \<le> n'"
begin

lemma refused_at_limit: "reserve n k = (g, n') \<Longrightarrow> g < k \<Longrightarrow> n \<le> limit \<Longrightarrow> n' = limit"
  using reserve_within[of n k g n'] reserve_generous[of n k g n'] by linarith

lemma granted_all: "reserve n k = (g, n') \<Longrightarrow> n + k \<le> limit \<Longrightarrow> g = k"
  using reserve_counts[of n k g n'] reserve_modest[of n k g n'] reserve_generous[of n k g n'] by linarith

end

interpretation budget: node_budget MAX_NODES reserve_node_slots
  by unfold_locales (auto simp: reserve_node_slots_def Let_def)

section \<open>Relations of what the providers find\<close>

lemma resolve_relation [simp]:
  "rf_relation (resolve_resource env grp version kind name ns relation) = relation"
  "rf_relation (resolve_named_reference env rel ref) = Some rel"
  by (simp_all add: resolve_resource_def resolve_named_reference_def Let_def)

definition unowned :: "relationships \<Rightarrow> bool" where
  "unowned rs \<longleftrightarrow> (\<forall>r\<in>set (fst rs). rf_relation r \<noteq> Some Owner)"

lemma unowned_simps [simp]:
  "unowned ([], es)"
  "unowned (r # rs, es) \<longleftrightarrow> rf_relation r \<noteq> Some Owner \<and> unowned (rs, es)"
  "unowned (rs @ qs, es) \<longleftrightarrow> unowned (rs, es) \<and> unowned (qs, es)"
  "unowned (map f xs, es) \<longleftrightarrow> (\<forall>x\<in>set xs. rf_relation (f x) \<noteq> Some Owner)"
  by (auto simp: unowned_def)

lemma unowned_both [simp]: "unowned (both x y) \<longleftrightarrow> unowned x \<and> unowned y"
  by (auto simp: unowned_def both_def)

lemma unowned_all_of [simp]: "unowned (all_of xs) \<longleftrightarrow> (\<forall>x\<in>set xs. unowned x)"
  by (auto simp: unowned_def all_of_def)


lemma set_map_filter: "y \<in> set (List.map_filter f xs) \<longleftrightarrow> (\<exists>x\<in>set xs. f x = Some y)"
  by (force simp: List.map_filter_def)

lemma listed_ref_relation: "listed_ref e ns relation b obj = Some r \<Longrightarrow> rf_relation r = Some relation"
  by (auto simp: listed_ref_def)

lemma list_relation:
  "list_owned_kind env parent obj grp kind = Inr rs \<Longrightarrow> r \<in> set rs \<Longrightarrow> rf_relation r = Some OwnedResource"
  "list_selected env grp kind ns selector relation = Inr rs \<Longrightarrow> r \<in> set rs \<Longrightarrow> rf_relation r = Some relation"
  "list_matching env grp kind ns relation P = Inr rs \<Longrightarrow> r \<in> set rs \<Longrightarrow> rf_relation r = Some relation"
  by (auto simp: list_owned_kind_def list_selected_def list_matching_def and_then_Inr set_map_filter Let_def
      dest: listed_ref_relation split: if_splits option.splits)

lemma unowned_listed:
  "relation \<noteq> Owner \<Longrightarrow> unowned (listed heading (list_selected env grp kind ns selector relation))"
  "relation \<noteq> Owner \<Longrightarrow> unowned (listed heading (list_matching env grp kind ns relation P))"
  "unowned (listed heading (list_owned_kind env parent obj grp kind))"
  by (auto simp: listed_def unowned_def dest: list_relation split: sum.splits)

lemmas provider_unowned = unowned_listed service_relationships_def cnpg_cluster_relationships_def
  list_generated_cnpg_backups_def rook_storage_relationships_def rook_cluster_relationships_def
  kopiur_policy_relationships_def tuppr_upgrade_relationships_def reference_grant_relationships_def
  selected_pods_def

lemma unowned_external_secret: "(ref, relation) \<in> set (external_secret_references r data) \<Longrightarrow> relation \<noteq> Owner"
  by (auto simp: external_secret_references_def split: option.splits)

lemma unowned_relabelled: "relation \<noteq> Owner \<Longrightarrow> unowned (case x of (refs, es) \<Rightarrow> (map (\<lambda>r. r\<lparr>rf_relation := Some relation\<rparr>) refs, es))"
  by (cases x) simp

lemma unowned_operator: "unowned (operator_relationships env r obj data p)"
  by (cases p) (auto simp: operator_relationships_def provider_unowned unowned_relabelled Let_def
      dest: unowned_external_secret split: option.splits sum.splits)

lemma unowned_storage: "unowned (storage_relationships env r obj data p)"
  by (cases p) (auto simp: storage_relationships_def provider_unowned unowned_operator Let_def
      split: option.splits sum.splits)

lemma kustomization_relation: "kustomization_children env data = Inr rs \<Longrightarrow> r \<in> set rs \<Longrightarrow> rf_relation r = Some FluxInventory"
  by (auto simp: kustomization_children_def and_then_Inr)

lemma unowned_provider: "unowned (provider_relationships env r obj data p)"
proof (cases p)
  case FluxKustomization
  then show ?thesis
    by (auto simp: provider_relationships_def unowned_def dest: kustomization_relation split: sum.splits)
qed (auto simp: provider_relationships_def provider_unowned unowned_storage Let_def split: option.splits sum.splits)

lemma unowned_descendants: "unowned (descendant_relationships env r obj data)"
  by (simp add: descendant_relationships_def unowned_provider)

section \<open>Counting\<close>

fun nodes :: "build \<Rightarrow> nat" where
  "nodes (Joining r status errors cs) = Suc (sum_list (map nodes cs))"
| "nodes b = 1"

fun tree_size :: "tree_node \<Rightarrow> nat" where
  "tree_size (TreeNode info ts) = Suc (sum_list (map tree_size ts))"

text \<open>Steps a build still has to make itself.\<close>

fun pending :: "build \<Rightarrow> nat" where
  "pending (Waiting r dir depth ancestry) = 2"
| "pending (Fetched r dir depth ancestry obj data status owners capacity) = 1"
| "pending (Joining r status errors cs) = sum_list (map pending cs)"
| "pending (Ready info) = 0"

lemma fetch_node_shape:
  "fetch_node env n r dir depth ancestry \<in> range (\<lambda>message. Ready (error_info r message))
     \<union> (if ref_identity r \<notin> set ancestry \<and> depth < MAX_DEPTH
        then range (fetched_node env n r dir depth (ancestry @ [ref_identity r])) else {})"
  unfolding fetch_node_def by (auto simp: not_le split: option.split sum.split)

lemma fetch_node_cases:
  obtains (error) message where "fetch_node env n r dir depth ancestry = Ready (error_info r message)"
  | (ok) obj where "fetch_node env n r dir depth ancestry = fetched_node env n r dir depth (ancestry @ [ref_identity r]) obj"
      "ref_identity r \<notin> set ancestry" "depth < MAX_DEPTH"
  using fetch_node_shape[of env n r dir depth ancestry] by (auto split: if_splits)

lemma nodes_fetch: "nodes (fetch_node env n r dir depth ancestry) = 1" "pending (fetch_node env n r dir depth ancestry) \<le> 1"
  by (cases rule: fetch_node_cases[of env n r dir depth ancestry]; simp add: fetched_node_def)+

lemma start_child_nodes [simp]: "nodes (start_child depth ancestry c) = 1"
  by (simp add: start_child_def)

lemma start_child_pending: "pending (start_child depth ancestry c) \<le> 2"
  by (simp add: start_child_def)

text \<open>What an expansion does, as its callers need it.\<close>

definition expansion ::
  "tree_env \<Rightarrow> resource_ref \<Rightarrow> direction \<Rightarrow> dyn_object \<Rightarrow> json \<Rightarrow> resource_ref list \<Rightarrow> bool \<Rightarrow> resource_ref list" where
  "expansion env r dir obj data owners capacity = deduplicate_and_sort (owners @
     (if dir \<in> {DirAll, DirDescendants} \<and> capacity then fst (descendant_relationships env r obj data) else []))"

lemma expand_node_cases:
  obtains errors g n' where
    "expand_node env n r dir depth ancestry obj data status owners capacity =
       (Joining r status (errors @ (if g < length (expansion env r dir obj data owners capacity) then [limit_message] else []))
          (map (start_child (depth + 1) ancestry) (take g (expansion env r dir obj data owners capacity))), n')"
    "reserve_node_slots n (length (expansion env r dir obj data owners capacity)) = (g, n')"
proof -
  obtain ds es where d: "(if dir \<in> {DirAll, DirDescendants} then
      (if capacity then descendant_relationships env r obj data else ([], [limit_message])) else no_relationships) = (ds, es)"
    by fastforce
  then have rels: "expansion env r dir obj data owners capacity = deduplicate_and_sort (owners @ ds)"
    by (auto simp: expansion_def split: if_splits)
  obtain g n' where g: "reserve_node_slots n (length (deduplicate_and_sort (owners @ ds))) = (g, n')" by fastforce
  show thesis
    by (rule that[of es g n'], unfold rels expand_node_def d) (simp_all add: g)
qed

lemma nodes_expand:
  assumes "expand_node env n r dir depth ancestry obj data status owners capacity = (b, n')"
  shows "nodes b + n = 1 + n'" "n \<le> MAX_NODES \<Longrightarrow> n' \<le> MAX_NODES" "pending b \<le> 2 * (n' - n)" "n \<le> n'"
proof -
  define rels where "rels = expansion env r dir obj data owners capacity"
  obtain es g where b: "b = Joining r status es (map (start_child (depth + 1) ancestry) (take g rels))"
    and g: "reserve_node_slots n (length rels) = (g, n')"
    using assms by (cases rule: expand_node_cases[of env n r dir depth ancestry obj data status owners capacity])
      (auto simp: rels_def)
  have n': "n' = n + g" "g \<le> length rels" using budget.reserve_counts[OF g] budget.reserve_modest[OF g] by auto
  have "sum_list (map pending (map (start_child (depth + 1) ancestry) rs)) \<le> 2 * length rs" for rs
  proof (induction rs)
    case (Cons a rs)
    then show ?case using start_child_pending[of "depth + 1" ancestry a] by simp
  qed simp
  from this[of "take g rels"] show "pending b \<le> 2 * (n' - n)" using n' by (simp add: b)
  show "nodes b + n = 1 + n'" using n' by (simp add: b comp_def sum_list_triv)
  show "n \<le> MAX_NODES \<Longrightarrow> n' \<le> MAX_NODES" using budget.reserve_within[OF g] .
  show "n \<le> n'" using n' by simp
qed

lemma sum_list_swap:
  fixes f :: "'a \<Rightarrow> nat"
  shows "i < length xs \<Longrightarrow> sum_list (map f (xs[i := x])) + f (xs ! i) = sum_list (map f xs) + f x"
proof (induction xs arbitrary: i)
  case (Cons y ys)
  then show ?case by (cases i) (auto simp: add.commute add.left_commute)
qed simp

lemma tree_step_counts:
  assumes "tree_step s s'" "snd s \<le> MAX_NODES"
  shows "nodes (fst s') + snd s = nodes (fst s) + snd s' \<and> snd s' \<le> MAX_NODES \<and> snd s \<le> snd s'
    \<and> pending (fst s') + 2 * (MAX_NODES - snd s') < pending (fst s) + 2 * (MAX_NODES - snd s)"
  using assms
proof (induction rule: tree_step.induct)
  case (step_fetch r dir depth ancestry n env)
  then show ?case using nodes_fetch[of env n r dir depth ancestry] by simp
next
  case (step_expand r dir depth ancestry obj data status owners capacity n env)
  obtain b n' where e: "expand_node env n r dir depth ancestry obj data status owners capacity = (b, n')" by fastforce
  show ?case using nodes_expand[OF e] step_expand by (auto simp: e)
next
  case (step_child i cs n c n' r status errors)
  then show ?case
    using sum_list_swap[of i cs nodes c] sum_list_swap[of i cs pending c] by auto
qed

section \<open>Shape\<close>

fun build_relation :: "build \<Rightarrow> tree_relation option" where
  "build_relation (Waiting r dir depth ancestry) = rf_relation r"
| "build_relation (Fetched r dir depth ancestry obj data status owners capacity) = rf_relation r"
| "build_relation (Joining r status errors cs) = rf_relation r"
| "build_relation (Ready info) = ti_relation info"

definition child_direction :: "tree_relation option \<Rightarrow> direction" where
  "child_direction relation = (if relation = Some Owner then DirOwners else DirDescendants)"

text \<open>The relations a node of a direction may have children of.\<close>

definition admits :: "direction \<Rightarrow> tree_relation option \<Rightarrow> bool" where
  "admits dir relation \<longleftrightarrow> (if relation = Some Owner then dir \<noteq> DirDescendants else dir \<noteq> DirOwners)"

text \<open>A build below the resources of \<open>ancestry\<close>.\<close>

fun sound :: "string list \<Rightarrow> direction \<Rightarrow> build \<Rightarrow> bool" where
  "sound ancestry dir (Waiting r dir' depth ancestry') \<longleftrightarrow>
     ancestry' = ancestry \<and> dir' = dir \<and> depth = length ancestry"
| "sound ancestry dir (Fetched r dir' depth ancestry' obj data status owners capacity) \<longleftrightarrow>
     ancestry' = ancestry @ [ref_identity r] \<and> dir' = dir \<and> depth = length ancestry
     \<and> ref_identity r \<notin> set ancestry \<and> depth < MAX_DEPTH
     \<and> (\<forall>ow\<in>set owners. rf_relation ow = Some Owner) \<and> (dir = DirDescendants \<longrightarrow> owners = [])"
| "sound ancestry dir (Joining r status errors cs) \<longleftrightarrow>
     ref_identity r \<notin> set ancestry \<and> length ancestry < MAX_DEPTH
     \<and> (\<forall>c\<in>set cs. admits dir (build_relation c)
          \<and> sound (ancestry @ [ref_identity r]) (child_direction (build_relation c)) c)"
| "sound ancestry dir (Ready info) \<longleftrightarrow> True"

lemma fetch_relation [simp]: "build_relation (fetch_node env n r dir depth ancestry) = rf_relation r"
  by (cases rule: fetch_node_cases[of env n r dir depth ancestry])
    (simp_all add: fetched_node_def error_info_def)

lemma expand_relation:
  "expand_node env n r dir depth ancestry obj data status owners capacity = (b, n') \<Longrightarrow> build_relation b = rf_relation r"
  by (cases rule: expand_node_cases[of env n r dir depth ancestry obj data status owners capacity]) auto

lemma tree_step_relation: "tree_step s s' \<Longrightarrow> build_relation (fst s') = build_relation (fst s)"
  by (induction rule: tree_step.induct) (auto, metis expand_relation prod.collapse)

lemma start_child_relation [simp]: "build_relation (start_child depth ancestry c) = rf_relation c"
  by (simp add: start_child_def leaf_info_def)

lemma sound_start_child:
  "depth = length ancestry \<Longrightarrow> sound ancestry (child_direction (rf_relation c)) (start_child depth ancestry c)"
  by (simp add: start_child_def child_direction_def)

lemma owner_relationships_owner: "x \<in> set (owner_relationships env obj r) \<Longrightarrow> rf_relation x = Some Owner"
  by (auto simp: owner_relationships_def split: prod.splits)

lemma sound_fetch:
  assumes "depth = length ancestry"
  shows "sound ancestry dir (fetch_node env n r dir depth ancestry)"
  using assms
  by (cases rule: fetch_node_cases[of env n r dir depth ancestry])
    (auto simp: fetched_node_def dest: owner_relationships_owner)

lemma expansion_admitted:
  assumes "\<forall>ow\<in>set owners. rf_relation ow = Some Owner" "dir = DirDescendants \<longrightarrow> owners = []"
    and "c \<in> set (expansion env r dir obj data owners capacity)"
  shows "admits dir (rf_relation c)"
proof -
  have "c \<in> set owners \<or> dir \<noteq> DirOwners \<and> c \<in> set (fst (descendant_relationships env r obj data))"
    using set_deduplicate_and_sort assms(3) by (fastforce simp: expansion_def split: if_splits)
  then show ?thesis
    using assms(1,2) unowned_descendants[of env r obj data] by (auto simp: admits_def unowned_def)
qed

lemma sound_expand:
  assumes "sound ancestry dir (Fetched r dir' depth ancestry' obj data status owners capacity)"
    and "expand_node env n r dir' depth ancestry' obj data status owners capacity = (b, n')"
  shows "sound ancestry dir b"
proof -
  have adm: "c \<in> set (expansion env r dir obj data owners capacity) \<Longrightarrow> admits dir (rf_relation c)" for c
    using assms(1) by (intro expansion_admitted[of owners dir c]) auto
  show ?thesis
    using assms
    by (cases rule: expand_node_cases[of env n r dir' depth ancestry' obj data status owners capacity])
      (auto intro!: adm sound_start_child dest!: in_set_takeD)
qed

lemma sound_step:
  assumes "tree_step s s'" "sound ancestry dir (fst s)"
  shows "sound ancestry dir (fst s')"
  using assms
proof (induction arbitrary: ancestry dir rule: tree_step.induct)
  case (step_fetch r dir' depth ancestry' n env)
  then show ?case by (simp add: sound_fetch)
next
  case (step_expand r dir' depth ancestry' obj data status owners capacity n env)
  then show ?case by (metis fst_conv sound_expand surj_pair)
next
  case (step_child i cs n c n' r status errors)
  have "cs ! i \<in> set cs" using step_child.hyps(1) by simp
  moreover have "build_relation c = build_relation (cs ! i)" using tree_step_relation[OF step_child.hyps(2)] by simp
  ultimately show ?case
    using step_child.prems step_child.IH by (auto dest!: set_update_subset_insert[THEN subsetD])
qed

section \<open>Reachable builds\<close>

lemma tree_steps_ok:
  assumes "tree_step\<^sup>*\<^sup>* s s'" "sound ancestry dir (fst s)" "nodes (fst s) = snd s" "snd s \<le> MAX_NODES"
  shows "sound ancestry dir (fst s') \<and> nodes (fst s') = snd s' \<and> snd s' \<le> MAX_NODES"
  using assms
proof (induction rule: rtranclp_induct)
  case (step s' s'')
  then show ?case using tree_step_counts[of s' s''] sound_step[of s' s''] by auto
qed simp

lemma resource_tree_Inr:
  assumes "resource_tree catalog key ns name = Inr s"
  obtains e where "s = (Waiting (tree_root e key ns name) DirAll 0 [], 1)"
  using assms by (auto simp: resource_tree_def and_then_Inr)

lemma resource_tree_ok:
  assumes "resource_tree catalog key ns name = Inr s" "tree_step\<^sup>*\<^sup>* s (b, n)"
  shows "sound [] DirAll b" "nodes b = n" "n \<le> MAX_NODES"
proof -
  obtain e where "s = (Waiting (tree_root e key ns name) DirAll 0 [], 1)" using resource_tree_Inr[OF assms(1)] .
  then have "sound [] DirAll (fst s)" "nodes (fst s) = snd s" "snd s \<le> MAX_NODES" by (simp_all add: MAX_NODES_def)
  from tree_steps_ok[OF assms(2) this] show "sound [] DirAll b" "nodes b = n" "n \<le> MAX_NODES" by auto
qed

lemma those_Some: "those xs = Some ys \<longleftrightarrow> xs = map Some ys"
proof (induction xs arbitrary: ys)
  case Nil
  then show ?case by auto
next
  case (Cons x xs)
  then show ?case by (cases ys) (auto split: option.splits)
qed

lemma built_size: "built b = Some t \<Longrightarrow> tree_size t = nodes b"
proof (induction b arbitrary: t)
  case (Joining r status errors cs)
  then obtain ts where ts: "map built cs = map Some ts" "t = TreeNode (node_info r status errors) ts"
    by (auto simp: those_Some)
  have "map tree_size ts = map nodes cs"
  proof (rule nth_equalityI)
    show len: "length (map tree_size ts) = length (map nodes cs)" using ts(1) by (metis length_map)
    fix i assume "i < length (map tree_size ts)"
    with len have i: "i < length cs" "i < length ts" by auto
    then have "built (cs ! i) = Some (ts ! i)" using ts(1) by (metis nth_map)
    with Joining.IH[of "cs ! i"] i show "map tree_size ts ! i = map nodes cs ! i" by simp
  qed
  then show ?case by (simp add: ts(2))
qed auto

text \<open>The paths of resources that are expanded, from the root down, and the edges of a tree by their relations.\<close>

fun expanded_paths :: "build \<Rightarrow> string list list" where
  "expanded_paths (Joining r status errors cs) =
     [ref_identity r] # map (\<lambda>p. ref_identity r # p) (concat (map expanded_paths cs))"
| "expanded_paths b = []"

fun relation_edges :: "tree_node \<Rightarrow> (tree_relation option \<times> tree_relation option) list" where
  "relation_edges (TreeNode info ts) =
     concat (map (\<lambda>t. (ti_relation info, ti_relation (tn_info t)) # relation_edges t) ts)"

lemma sound_paths:
  "sound ancestry dir b \<Longrightarrow> p \<in> set (expanded_paths b) \<Longrightarrow> distinct ancestry \<Longrightarrow>
   distinct (ancestry @ p) \<and> length (ancestry @ p) \<le> MAX_DEPTH"
proof (induction b arbitrary: ancestry dir p)
  case (Joining r status errors cs)
  show ?case
  proof (cases "p = [ref_identity r]")
    case False
    with Joining.prems(2) obtain c q where c: "c \<in> set cs" "q \<in> set (expanded_paths c)" "p = ref_identity r # q" by auto
    with Joining.prems Joining.IH[of c "ancestry @ [ref_identity r]" "child_direction (build_relation c)" q]
    show ?thesis by auto
  qed (use Joining.prems in auto)
qed auto

lemma built_relation: "built b = Some t \<Longrightarrow> ti_relation (tn_info t) = build_relation b"
  by (cases b) (auto simp: node_info_def)

lemma built_children:
  assumes "built (Joining r status errors cs) = Some t"
  obtains ts where "t = TreeNode (node_info r status errors) ts" "\<And>t'. t' \<in> set ts \<Longrightarrow> \<exists>c\<in>set cs. built c = Some t'"
proof -
  from assms obtain ts where ts: "map built cs = map Some ts" "t = TreeNode (node_info r status errors) ts"
    by (auto simp: those_Some)
  have "\<exists>c\<in>set cs. built c = Some t'" if "t' \<in> set ts" for t'
  proof -
    from that have "Some t' \<in> set (map Some ts)" by simp
    then show ?thesis unfolding ts(1)[symmetric] by auto
  qed
  with ts(2) show thesis by (rule that)
qed

lemma sound_edges:
  "sound ancestry (child_direction (build_relation b)) b \<Longrightarrow> built b = Some t \<Longrightarrow> (p, c) \<in> set (relation_edges t) \<Longrightarrow>
   p = Some Owner \<longleftrightarrow> c = Some Owner"
proof (induction b arbitrary: ancestry t)
  case (Joining r status errors cs)
  from Joining.prems(2) obtain ts where t: "t = TreeNode (node_info r status errors) ts"
    and ts: "\<And>t'. t' \<in> set ts \<Longrightarrow> \<exists>c\<in>set cs. built c = Some t'" by (rule built_children) blast
  from Joining.prems(3) obtain t' where t': "t' \<in> set ts"
      "(p, c) = (rf_relation r, ti_relation (tn_info t')) \<or> (p, c) \<in> set (relation_edges t')"
    by (auto simp: t node_info_def)
  from ts[OF t'(1)] obtain d where d: "d \<in> set cs" "built d = Some t'" by blast
  have s: "admits (child_direction (rf_relation r)) (build_relation d)"
    "sound (ancestry @ [ref_identity r]) (child_direction (build_relation d)) d"
    using Joining.prems(1) d(1) by auto
  from t'(2) show ?case
  proof
    assume "(p, c) = (rf_relation r, ti_relation (tn_info t'))"
    then show ?case using s(1) built_relation[OF d(2)]
      by (auto simp: admits_def child_direction_def split: if_splits)
  qed (use Joining.IH[OF d(1) s(2) d(2)] in blast)
qed auto

lemma root_edges:
  assumes "sound ancestry DirAll b" "built b = Some t" "(p, c) \<in> set (relation_edges t)"
  shows "p = build_relation b \<or> (p = Some Owner \<longleftrightarrow> c = Some Owner)"
proof (cases b)
  case (Joining r status errors cs)
  from assms(2) obtain ts where t: "t = TreeNode (node_info r status errors) ts"
    and ts: "\<And>t'. t' \<in> set ts \<Longrightarrow> \<exists>c\<in>set cs. built c = Some t'"
    unfolding Joining by (rule built_children) blast
  from assms(3) show ?thesis
    using assms(1) ts sound_edges by (fastforce simp: t node_info_def Joining)
qed (use assms in auto)

section \<open>Progress\<close>

lemma first_step_sound:
  "first_step env n b = Some s' \<Longrightarrow> tree_step (b, n) s'"
  "first_child env n cs = Some (cs', n') \<Longrightarrow> \<exists>i c. i < length cs \<and> tree_step (cs ! i, n) (c, n') \<and> cs' = cs[i := c]"
proof (induction env n b and env n cs arbitrary: s' and cs' n' rule: first_step_first_child.induct)
  case (3 env n r status errors cs)
  then show ?case by (auto intro: step_child)
next
  case (6 env n c cs)
  show ?case
  proof (cases "first_step env n c")
    case None
    then obtain ds where d: "first_child env n cs = Some (ds, n')" "cs' = c # ds" using "6.prems" by auto
    from "6.IH"(2)[OF None d(1)] obtain i e where "i < length cs" "tree_step (cs ! i, n) (e, n')" "ds = cs[i := e]" by blast
    then show ?thesis using d(2) by (intro exI[of _ "Suc i"] exI[of _ e]) simp
  next
    case (Some s)
    then show ?thesis using "6.prems" "6.IH"(1) by (intro exI[of _ 0]) (auto split: prod.splits)
  qed
qed (auto intro: tree_step.intros)

lemma first_step_None:
  "first_step env n b = None \<Longrightarrow> built b \<noteq> None"
  "first_child env n cs = None \<Longrightarrow> those (map built cs) \<noteq> None"
  by (induction env n b and env n cs rule: first_step_first_child.induct) (auto split: option.splits prod.splits)

lemma run_tree_steps: "tree_step\<^sup>*\<^sup>* s (run_tree env fuel s)"
proof (induction env fuel s rule: run_tree.induct)
  case (2 env fuel b n)
  then show ?case
    by (auto split: option.split dest: first_step_sound(1) intro: converse_rtranclp_into_rtranclp)
qed simp

definition steps_left :: "build \<times> nat \<Rightarrow> nat" where
  "steps_left s = pending (fst s) + 2 * (MAX_NODES - snd s)"

lemma run_tree_built:
  "steps_left s \<le> fuel \<Longrightarrow> snd s \<le> MAX_NODES \<Longrightarrow> built (fst (run_tree env fuel s)) \<noteq> None"
proof (induction fuel arbitrary: s)
  case 0
  obtain b n where s: "s = (b, n)" by fastforce
  have "first_step env n b = None"
  proof (rule ccontr)
    assume "first_step env n b \<noteq> None"
    then obtain s' where "tree_step (b, n) s'" using first_step_sound(1) by blast
    from tree_step_counts[OF this] 0 show False by (simp add: s steps_left_def)
  qed
  then show ?case using first_step_None(1) by (simp add: s)
next
  case (Suc fuel)
  obtain b n where s: "s = (b, n)" by fastforce
  show ?case
  proof (cases "first_step env n b")
    case None
    then show ?thesis using first_step_None(1) by (simp add: s)
  next
    case (Some s')
    from tree_step_counts[OF first_step_sound(1)[OF Some]] Suc.prems
    have "steps_left s' \<le> fuel" "snd s' \<le> MAX_NODES" by (simp_all add: s steps_left_def)
    from Suc.IH[OF this] Some show ?thesis by (simp add: s)
  qed
qed

lemma steps_left_decreases:
  "(tree_step ^^ k) s s' \<Longrightarrow> snd s \<le> MAX_NODES \<Longrightarrow> steps_left s' + k \<le> steps_left s \<and> snd s' \<le> MAX_NODES"
proof (induction k arbitrary: s')
  case (Suc k)
  then obtain u where u: "(tree_step ^^ k) s u" "tree_step u s'" by auto
  from Suc.IH[OF u(1) Suc.prems(2)] tree_step_counts[OF u(2)] show ?case by (auto simp: steps_left_def)
qed simp

section \<open>Properties\<close>

text \<open>C20: the tree of a resource is bounded.  In every interleaving of its branches, whatever the cluster
  answers, the nodes built so far are exactly those counted and never more than five hundred, and
  along every branch the expanded resources are pairwise different and at most twelve.\<close>

theorem tree_is_bounded:
  assumes "resource_tree catalog key ns name = Inr s" and "tree_step\<^sup>*\<^sup>* s (b, n)"
  shows "nodes b = n \<and> n \<le> 500 \<and> (\<forall>p\<in>set (expanded_paths b). distinct p \<and> length p \<le> 12)
    \<and> (case built b of None \<Rightarrow> True | Some t \<Rightarrow> tree_size t = n)"
proof -
  note ok = resource_tree_ok[OF assms]
  have "distinct p \<and> length p \<le> 12" if "p \<in> set (expanded_paths b)" for p
    using sound_paths[OF ok(1) that] by (simp add: MAX_DEPTH_def)
  then show ?thesis using ok(2,3) built_size by (auto simp: MAX_NODES_def split: option.split)
qed

definition thing_kind :: resource_kind where
  "thing_kind = \<lparr>rk_key = ''x/v1/Thing'', rk_group = ''x'', rk_version = ''v1'', rk_kind = ''Thing'', rk_plural = ''things'',
     rk_namespaced = True, rk_category = Cluster\<rparr>"

definition thing_start :: "build \<times> nat" where
  "thing_start = (Waiting (tree_root thing_kind ''x/v1/Thing'' (Some ''n'') ''a'') DirAll 0 [], 1)"

text \<open>A cluster in which every thing is owned by the thing named by its name with a letter more.\<close>

definition thing_env :: "project_env \<Rightarrow> helm_env \<Rightarrow> tree_env" where
  "thing_env pe hl = \<lparr>te_project = pe, te_catalog = [thing_kind], te_cached = (\<lambda>_ _ _. None),
     te_get = (\<lambda>_ _ name. Inr \<lparr>dy_name = Some name, dy_namespace = Some ''n'', dy_uid = Some name, dy_resource_version = None,
       dy_created = None, dy_deleting = False,
       dy_owner_references = Some [\<lparr>or_api_version = ''x/v1'', or_kind = ''Thing'', or_name = CHR ''a'' # name, or_uid = name\<rparr>],
       dy_labels = None, dy_managed_fields = None, dy_data = JObject []\<rparr>),
     te_list = (\<lambda>_ _ _. Inr []), te_helm = hl\<rparr>"

lemma thing_started: "resource_tree [thing_kind] ''x/v1/Thing'' (Some ''n'') ''a'' = Inr thing_start"
  by (simp add: resource_tree_def cluster_entry_def catalog_by_key_def thing_kind_def thing_start_def and_then_def ok_or_def)

lemma thing_start_left: "steps_left thing_start = 1000" "snd thing_start \<le> MAX_NODES"
  by (simp_all add: steps_left_def thing_start_def MAX_NODES_def)

theorem tree_is_bounded_witness:
  "\<forall>pe hl. \<exists>t. built (fst (run_tree (thing_env pe hl) 1000 thing_start)) = Some t \<and> tree_size t \<le> 500"
proof (intro allI)
  fix pe hl
  obtain b n where run: "run_tree (thing_env pe hl) 1000 thing_start = (b, n)" by fastforce
  have "built b \<noteq> None" using run_tree_built[of thing_start 1000 "thing_env pe hl"] thing_start_left by (simp add: run)
  moreover have "tree_step\<^sup>*\<^sup>* thing_start (b, n)" using run_tree_steps[of thing_start "thing_env pe hl" 1000] by (simp add: run)
  from tree_is_bounded[OF thing_started this] have "case built b of None \<Rightarrow> True | Some t \<Rightarrow> tree_size t \<le> 500"
    by (auto split: option.splits)
  ultimately show "\<exists>t. built (fst (run_tree (thing_env pe hl) 1000 thing_start)) = Some t \<and> tree_size t \<le> 500" by (auto simp: run)
qed

text \<open>C21: the tree gets built.  Whatever the cluster answers and in whichever order the branches go
  on, there are at most a thousand steps; before the tree is complete there is always a next one; and a
  schedule that always takes the first completes it.\<close>

theorem tree_gets_built:
  assumes "resource_tree catalog key ns name = Inr s" and "(tree_step ^^ k) s (b, n)"
  shows "k \<le> 1000 \<and> (built b = None \<longrightarrow> (\<exists>s'. tree_step (b, n) s'))
    \<and> built (fst (run_tree env (1000 - k) (b, n))) \<noteq> None"
proof -
  obtain e where s: "s = (Waiting (tree_root e key ns name) DirAll 0 [], 1)" using resource_tree_Inr[OF assms(1)] .
  then have left: "steps_left s = 1000" "snd s \<le> MAX_NODES" by (simp_all add: steps_left_def MAX_NODES_def)
  from steps_left_decreases[OF assms(2) left(2)] left(1)
  have k: "steps_left (b, n) + k \<le> 1000" "n \<le> MAX_NODES" by simp_all
  moreover have "\<exists>s'. tree_step (b, n) s'" if "built b = None"
    by (cases "first_step env n b") (use that first_step_sound(1)[of env n b] first_step_None(1)[of env n b] in blast)+
  ultimately show ?thesis using run_tree_built[of "(b, n)" "1000 - k" env] by auto
qed

theorem tree_gets_built_witness: "\<forall>pe hl. built (fst (run_tree (thing_env pe hl) 1000 thing_start)) \<noteq> None"
  using tree_gets_built[OF thing_started, of 0 "fst thing_start" "snd thing_start"] by simp

text \<open>From the resource asked for the tree goes up along owners and down along everything else, and
  never turns: below the root, the child of an owner is an owner and no other node has an owner as its child.\<close>

theorem tree_never_turns:
  assumes "resource_tree catalog key ns name = Inr s" and "tree_step\<^sup>*\<^sup>* s (b, n)" and "built b = Some t"
    and "(p, c) \<in> set (relation_edges t)" "p \<noteq> ti_relation (tn_info t)"
  shows "p = Some Owner \<longleftrightarrow> c = Some Owner"
  using root_edges[OF resource_tree_ok(1)[OF assms(1,2)] assms(3,4)] built_relation[OF assms(3)] assms(5) by auto

text \<open>A thing, its owner, and the owner's owner, which is gone when it is asked for.\<close>

definition gone_env :: "project_env \<Rightarrow> helm_env \<Rightarrow> tree_env" where
  "gone_env pe hl = (thing_env pe hl)\<lparr>te_get := (\<lambda>_ _ _. Inl ''gone'')\<rparr>"

definition owned_ref :: "string \<Rightarrow> resource_ref" where
  "owned_ref name = \<lparr>rf_group = ''x'', rf_version = ''v1'', rf_kind = ''Thing'', rf_name = name, rf_namespace = Some ''n'',
     rf_key = Some ''x/v1/Thing'', rf_category = Some Cluster, rf_relation = Some Owner, rf_expandable = True\<rparr>"

definition thing_root :: resource_ref where
  "thing_root = tree_root thing_kind ''x/v1/Thing'' (Some ''n'') ''a''"

lemma thing_entry:
  "rf_key thing_root = Some ''x/v1/Thing''" "rf_key (owned_ref name) = Some ''x/v1/Thing''"
  "cluster_entry [thing_kind] ''x/v1/Thing'' = Inr thing_kind" "te_catalog (thing_env pe hl) = [thing_kind]"
  by (simp_all add: thing_root_def tree_root_def owned_ref_def cluster_entry_def catalog_by_key_def thing_kind_def
      ok_or_def thing_env_def)

lemma thing_owners:
  "rf_namespace r = Some ''n'' \<Longrightarrow> te_get (thing_env pe hl) key ns name = Inr obj \<Longrightarrow>
   owner_relationships (thing_env pe hl) obj r = [owned_ref (CHR ''a'' # name)]"
  by (auto simp: owner_relationships_def thing_env_def split_api_version_def resolve_resource_def catalog_entry_def
      catalog_by_key_def make_key_def thing_kind_def owned_ref_def reference_is_expandable_def or_else_def unwrap_or_def)

lemma thing_fetch:
  assumes "rf_key r = Some ''x/v1/Thing''" "rf_namespace r = Some ''n''" "ref_identity r \<notin> set ancestry" "depth < MAX_DEPTH"
    "dir \<noteq> DirDescendants"
  obtains obj data status where "fetch_node (thing_env pe hl) n r dir depth ancestry =
    Fetched r dir depth (ancestry @ [ref_identity r]) obj data status [owned_ref (CHR ''a'' # rf_name r)] (n < MAX_NODES)"
proof -
  obtain obj where obj: "te_get (thing_env pe hl) ''x/v1/Thing'' (Some ''n'') (rf_name r) = Inr obj"
    by (simp add: thing_env_def)
  have "api_scope thing_kind (Some ''n'') = Some ''n''" "rk_key thing_kind = ''x/v1/Thing''"
    "te_cached (thing_env pe hl) key ns name = None" for key ns name
    by (simp_all add: api_scope_def thing_kind_def thing_env_def)
  then have "fetch_node (thing_env pe hl) n r dir depth ancestry =
      fetched_node (thing_env pe hl) n r dir depth (ancestry @ [ref_identity r]) obj"
    using assms obj by (simp add: fetch_node_def thing_entry)
  then show thesis
    using thing_owners[OF assms(2) obj] assms(5) that
    by (cases dir) (auto simp: fetched_node_def descendant_capacity_available_def)
qed

lemma thing_no_providers: "relationship_providers thing_root = []"
  by (simp add: relationship_providers_def RELATIONSHIP_PROVIDERS_def flux_and_workload_providers_def
      storage_providers_def operator_providers_def thing_root_def tree_root_def thing_kind_def)

lemma thing_expand:
  assumes "dir = DirOwners \<or> dir = DirAll \<and> r = thing_root" "n < MAX_NODES"
  shows "expand_node (thing_env pe hl) n r dir depth ancestry obj data status [owned_ref name] True =
    (Joining r status [] [Waiting (owned_ref name) DirOwners (depth + 1) ancestry], n + 1)"
proof -
  have "deduplicate_and_sort [owned_ref name] = [owned_ref name]" by (simp add: deduplicate_and_sort_def)
  moreover have "start_child d a (owned_ref name) = Waiting (owned_ref name) DirOwners d a" for d a
    by (simp add: start_child_def owned_ref_def)
  ultimately show ?thesis
    using assms by (auto simp: expand_node_def descendant_relationships_def thing_no_providers all_of_def
        reserve_node_slots_def Let_def)
qed

lemma gone_fetch: "ref_identity (owned_ref name) \<notin> set ancestry \<Longrightarrow> depth < MAX_DEPTH \<Longrightarrow>
    fetch_node (gone_env pe hl) n (owned_ref name) dir depth ancestry =
    Ready (error_info (owned_ref name) ''could not fetch resource: gone'')"
  using thing_entry(2,3) by (simp add: fetch_node_def gone_env_def thing_env_def)

lemma thing_identities:
  "ref_identity thing_root = ''x/v1/Thing/n/a''" "ref_identity (owned_ref name) = ''x/v1/Thing/n/'' @ name"
  "rf_namespace thing_root = Some ''n''" "rf_namespace (owned_ref name) = Some ''n''" "rf_name (owned_ref name) = name"
  "rf_name thing_root = ''a''" "rf_relation thing_root = None" "rf_relation (owned_ref name) = Some Owner"
  by (simp_all add: thing_root_def tree_root_def thing_kind_def owned_ref_def ref_identity_def unwrap_or_def)

lemma step_only_child: "tree_step (c, n) (c', n') \<Longrightarrow> tree_step (Joining r st es [c], n) (Joining r st es [c'], n')"
  using step_child[of 0 "[c]" n c' n' r st es] by simp

lemma thing_tree:
  obtains st st' where "tree_step\<^sup>*\<^sup>* thing_start (Joining thing_root st [] [Joining (owned_ref ''aa'') st' []
      [Ready (error_info (owned_ref ''aaa'') ''could not fetch resource: gone'')]], 3)"
proof -
  note one = r_into_rtranclp[where r = tree_step] and snoc = rtranclp.rtrancl_into_rtrancl[where r = tree_step]
  have few: "0 < MAX_DEPTH" "1 < MAX_DEPTH" "2 < MAX_DEPTH" "1 < MAX_NODES" "2 < MAX_NODES"
    by (simp_all add: MAX_DEPTH_def MAX_NODES_def)
  let ?r = "ref_identity thing_root" and ?o = "ref_identity (owned_ref ''aa'')"
  obtain obj data st where 1: "fetch_node (thing_env pe hl) 1 thing_root DirAll 0 [] =
      Fetched thing_root DirAll 0 [?r] obj data st [owned_ref ''aa''] True"
    using thing_fetch[of thing_root "[]" 0 DirAll pe hl 1] few by (auto simp: thing_entry thing_identities)
  obtain obj' data' st' where 2: "fetch_node (thing_env pe hl) 2 (owned_ref ''aa'') DirOwners 1 [?r] =
      Fetched (owned_ref ''aa'') DirOwners 1 [?r, ?o] obj' data' st' [owned_ref ''aaa''] True"
    using thing_fetch[of "owned_ref ''aa''" "[?r]" 1 DirOwners pe hl 2] few by (auto simp: thing_entry thing_identities)
  have "thing_start = (Waiting thing_root DirAll 0 [], 1)" by (simp add: thing_start_def thing_root_def)
  then have s1: "tree_step thing_start (Fetched thing_root DirAll 0 [?r] obj data st [owned_ref ''aa''] True, 1)"
    using step_fetch[of thing_root DirAll 0 "[]" 1 "thing_env pe hl"] unfolding 1 by simp
  have s2: "tree_step (Fetched thing_root DirAll 0 [?r] obj data st [owned_ref ''aa''] True, 1)
      (Joining thing_root st [] [Waiting (owned_ref ''aa'') DirOwners 1 [?r]], 2)"
    using step_expand[of thing_root DirAll 0 "[?r]" obj data st "[owned_ref ''aa'']" True 1 "thing_env pe hl"]
      thing_expand[of DirAll thing_root 1] few by (simp add: numeral_2_eq_2)
  have s3: "tree_step (Joining thing_root st [] [Waiting (owned_ref ''aa'') DirOwners 1 [?r]], 2)
      (Joining thing_root st [] [Fetched (owned_ref ''aa'') DirOwners 1 [?r, ?o] obj' data' st' [owned_ref ''aaa''] True], 2)"
    using step_fetch[of "owned_ref ''aa''" DirOwners 1 "[?r]" 2 "thing_env pe hl"] unfolding 2 by (rule step_only_child)
  have s4: "tree_step
      (Joining thing_root st [] [Fetched (owned_ref ''aa'') DirOwners 1 [?r, ?o] obj' data' st' [owned_ref ''aaa''] True], 2)
      (Joining thing_root st [] [Joining (owned_ref ''aa'') st' [] [Waiting (owned_ref ''aaa'') DirOwners 2 [?r, ?o]]], 3)"
    using step_expand[of "owned_ref ''aa''" DirOwners 1 "[?r, ?o]" obj' data' st' "[owned_ref ''aaa'']" True 2 "thing_env pe hl"]
      thing_expand[of DirOwners "owned_ref ''aa''" 2] few by (intro step_only_child) (simp add: eval_nat_numeral)
  have s5: "tree_step
      (Joining thing_root st [] [Joining (owned_ref ''aa'') st' [] [Waiting (owned_ref ''aaa'') DirOwners 2 [?r, ?o]]], 3)
      (Joining thing_root st [] [Joining (owned_ref ''aa'') st' [] [Ready (error_info (owned_ref ''aaa'') ''could not fetch resource: gone'')]], 3)"
    using step_fetch[of "owned_ref ''aaa''" DirOwners 2 "[?r, ?o]" 3 "gone_env pe hl"]
      gone_fetch[of "''aaa''" "[?r, ?o]" 2] few by (intro step_only_child) (simp add: thing_identities)
  show thesis
    by (rule that, rule snoc[OF snoc[OF snoc[OF snoc[OF one[OF s1] s2] s3] s4] s5])
qed

theorem tree_never_turns_witness:
  "\<exists>s b n t. tree_step\<^sup>*\<^sup>* s (b, n) \<and> built b = Some t \<and> (Some Owner, Some Owner) \<in> set (relation_edges t)"
proof -
  obtain st st' where run: "tree_step\<^sup>*\<^sup>* thing_start (Joining thing_root st [] [Joining (owned_ref ''aa'') st' []
      [Ready (error_info (owned_ref ''aaa'') ''could not fetch resource: gone'')]], 3)" (is "tree_step\<^sup>*\<^sup>* _ (?b, _)")
    by (rule thing_tree)
  obtain t where t: "built ?b = Some t" by simp
  then have e: "(Some Owner, ti_relation (error_info (owned_ref ''aaa'') ''could not fetch resource: gone'')) \<in> set (relation_edges t)"
    and r: "Some Owner \<noteq> ti_relation (tn_info t)"
    by (auto simp: node_info_def thing_identities)
  from tree_never_turns[OF thing_started run t e r]
  have "ti_relation (error_info (owned_ref ''aaa'') ''could not fetch resource: gone'') = Some Owner" by simp
  with e have "(Some Owner, Some Owner) \<in> set (relation_edges t)" by metis
  with run t show ?thesis by blast
qed

text \<open>A node shows what it is related to, or says that it does not.  Its children are pairwise different
  as relations, in the order of their labels, kinds, namespaces and names, and they are all the
  resources its direction asks for unless its errors name the limit of the tree.\<close>

theorem tree_cut_is_reported:
  assumes "expand_node env n r dir depth ancestry obj data status owners capacity = (Joining r' status' errors cs, n')"
  shows "\<exists>kept. cs = map (start_child (depth + 1) ancestry) kept
    \<and> sorted (map ref_order kept) \<and> distinct (map ref_mark kept)
    \<and> (limit_message \<in> set errors \<or> ref_mark ` set kept = ref_mark ` set (owners @
         (if dir = DirOwners then [] else fst (descendant_relationships env r obj data))))"
proof -
  obtain ds es where d: "(if dir \<in> {DirAll, DirDescendants} then
      (if capacity then descendant_relationships env r obj data else ([], [limit_message])) else no_relationships) = (ds, es)"
    by fastforce
  define rels where "rels = deduplicate_and_sort (owners @ ds)"
  obtain g m where g: "reserve_node_slots n (length rels) = (g, m)" by fastforce
  have e: "cs = map (start_child (depth + 1) ancestry) (take g rels)"
    "errors = es @ (if g < length rels then [limit_message] else [])"
    using assms unfolding expand_node_def d by (auto simp: rels_def[symmetric] g)
  have "sorted (map ref_order (take g rels))" "distinct (map ref_mark (take g rels))"
    using sorted_deduplicate_and_sort distinct_deduplicate_and_sort
    by (simp_all add: rels_def take_map[symmetric] sorted_wrt_take del: take_map)
  moreover have "limit_message \<in> set errors \<or> ref_mark ` set (take g rels) = ref_mark ` set (owners @
      (if dir = DirOwners then [] else fst (descendant_relationships env r obj data)))"
  proof (cases "limit_message \<in> set errors")
    case False
    then have "take g rels = rels" "ds = (if dir = DirOwners then [] else fst (descendant_relationships env r obj data))"
      using e(2) d by (cases dir; auto split: if_splits)+
    then show ?thesis using deduplicate_and_sort_complete[of "owners @ ds"] by (simp add: rels_def)
  qed simp
  ultimately show ?thesis using e(1) by blast
qed

theorem tree_cut_is_reported_witness:
  "\<forall>pe hl obj data. (\<exists>errors cs n' kept. expand_node (thing_env pe hl) 500 thing_root DirAll 0 [] obj data RowOk [owned_ref ''aa''] True =
      (Joining thing_root RowOk errors cs, n') \<and> cs = map (start_child 1 []) kept \<and> sorted (map ref_order kept))"
proof (intro allI)
  fix pe hl obj data
  obtain b n' where e: "expand_node (thing_env pe hl) 500 thing_root DirAll 0 [] obj data RowOk [owned_ref ''aa''] True = (b, n')"
    by fastforce
  then obtain errors cs where b: "b = Joining thing_root RowOk errors cs"
    by (cases rule: expand_node_cases[of "thing_env pe hl" 500 thing_root DirAll 0 "[]" obj data RowOk "[owned_ref ''aa'']" True]) auto
  from tree_cut_is_reported[OF e[unfolded b]] obtain kept where "cs = map (start_child (0 + 1) []) kept" "sorted (map ref_order kept)"
    by blast
  with e b show "\<exists>errors cs n' kept. expand_node (thing_env pe hl) 500 thing_root DirAll 0 [] obj data RowOk [owned_ref ''aa''] True =
      (Joining thing_root RowOk errors cs, n') \<and> cs = map (start_child 1 []) kept \<and> sorted (map ref_order kept)" by simp blast
qed

end
