(* ===== verification/Mutations.thy ===== *)
theory Mutations
  imports Action Catalog Project
begin

text \<open>
  How the backend carries out the mutations of the action endpoint: \<open>crates/k8s/src/backend/mutations.rs\<close>,
  \<open>flux.rs\<close>, \<open>cnpg.rs\<close>, \<open>kopiur.rs\<close> and \<open>sanitize.rs\<close>.  The API server answers from a world that every request
  may change; each write is logged.  JSON objects list their keys in order, as the maps of \<open>serde_json\<close> do.
\<close>

section \<open>Requests\<close>

datatype api_write =
    WDelete string "string option" string "nat option" "delete_propagation option"
  | WEvict string string
  | WMerge string "string option" string json
  | WApply string "string option" string json
  | WCreate string "string option" json
  | WStatus string "string option" string json

text \<open>A pod as the sweep reads it: the reasons its containers wait or terminated for, if they do.\<close>

record sweep_container =
  sc_restarts :: int
  sc_waiting :: "string option option"
  sc_terminated :: "string option option"

record sweep_pod =
  sp_name :: "string option"
  sp_namespace :: "string option"
  sp_deleting :: bool
  sp_reason :: "string option"
  sp_phase :: "string option"
  sp_containers :: "sweep_container list"
  sp_init_containers :: "sweep_container list"

text \<open>A parsed YAML document.\<close>

record yaml_object =
  yo_types :: "(string \<times> string) option"
  yo_name :: "string option"
  yo_namespace :: "string option"
  yo_body :: json

record 'w kube_env =
  kn_catalog :: "resource_kind list"
  kn_get :: "string \<Rightarrow> string option \<Rightarrow> string \<Rightarrow> 'w \<Rightarrow> (kube_error + json) \<times> 'w"
  kn_list :: "string \<Rightarrow> string option \<Rightarrow> 'w \<Rightarrow> (kube_error + json list) \<times> 'w"
  kn_list_pods :: "string option \<Rightarrow> 'w \<Rightarrow> (kube_error + sweep_pod list) \<times> 'w"
  kn_list_jobs :: "string option \<Rightarrow> 'w \<Rightarrow> (kube_error + json list) \<times> 'w"
  kn_write :: "api_write \<Rightarrow> 'w \<Rightarrow> (kube_error + unit) \<times> 'w"
  kn_now :: string
  kn_timestamp :: int
  kn_from_value :: "json \<Rightarrow> string + json"
  kn_yaml :: "string \<Rightarrow> string + yaml_object"

record 'w kube_st =
  kt_world :: 'w
  kt_writes :: "api_write list"

type_synonym ('w, 'a) kube = "('w kube_st, k8s_error + 'a) state"

text \<open>\<open>?\<close> after a request, and after a computation without requests.\<close>

definition attempt :: "('w kube_st, 'e + 'a) state \<Rightarrow> ('a \<Rightarrow> ('w kube_st, 'e + 'b) state) \<Rightarrow> ('w kube_st, 'e + 'b) state" where
  "attempt m f = do { r \<leftarrow> m; case r of Inl e \<Rightarrow> ret (Inl e) | Inr x \<Rightarrow> f x }"

definition given :: "'e + 'a \<Rightarrow> ('a \<Rightarrow> ('w kube_st, 'e + 'b) state) \<Rightarrow> ('w kube_st, 'e + 'b) state" where
  "given r f = (case r of Inl e \<Rightarrow> ret (Inl e) | Inr x \<Rightarrow> f x)"

definition reading :: "('w \<Rightarrow> 'a \<times> 'w) \<Rightarrow> ('w kube_st, 'a) state" where
  "reading f = State (\<lambda>s. case f (kt_world s) of (r, w) \<Rightarrow> (r, s\<lparr>kt_world := w\<rparr>))"

definition request :: "('w \<Rightarrow> (kube_error + 'a) \<times> 'w) \<Rightarrow> ('w, 'a) kube" where
  "request f = do { r \<leftarrow> reading f; ret (map_err api_err r) }"

definition write_raw :: "'w kube_env \<Rightarrow> api_write \<Rightarrow> ('w kube_st, kube_error + unit) state" where
  "write_raw env wr = State (\<lambda>s. case kn_write env wr (kt_world s) of
     (r, w) \<Rightarrow> (r, s\<lparr>kt_world := w, kt_writes := kt_writes s @ [wr]\<rparr>))"

definition write_object :: "'w kube_env \<Rightarrow> api_write \<Rightarrow> ('w, unit) kube" where
  "write_object env wr = do { r \<leftarrow> write_raw env wr; ret (map_err api_err r) }"

definition dyn_api :: "'w kube_env \<Rightarrow> string \<Rightarrow> string option \<Rightarrow> k8s_error + string \<times> string option" where
  "dyn_api env key ns = and_then (cluster_entry (kn_catalog env) key) (\<lambda>e. Inr (rk_key e, api_scope e ns))"

definition merge_patch :: "'w kube_env \<Rightarrow> string \<Rightarrow> string option \<Rightarrow> string \<Rightarrow> json \<Rightarrow> ('w, unit) kube" where
  "merge_patch env key ns name patch =
     given (dyn_api env key ns) (\<lambda>(k, scope). write_object env (WMerge k scope name patch))"

definition from_value :: "'w kube_env \<Rightarrow> json \<Rightarrow> k8s_error + json" where
  "from_value env j = map_err K8sApi (kn_from_value env j)"

section \<open>Single objects\<close>

definition delete_object ::
  "'w kube_env \<Rightarrow> string \<Rightarrow> string option \<Rightarrow> string \<Rightarrow> bool \<Rightarrow> delete_propagation option \<Rightarrow> ('w, unit) kube" where
  "delete_object env key ns name forced propagation =
     given (dyn_api env key ns) (\<lambda>(k, scope).
       write_object env (WDelete k scope name (if forced then Some 0 else None) propagation))"

definition evict_one :: "'w kube_env \<Rightarrow> string \<Rightarrow> string \<Rightarrow> ('w, unit) kube" where
  "evict_one env ns name = write_object env (WEvict ns name)"

definition scale :: "'w kube_env \<Rightarrow> string \<Rightarrow> string option \<Rightarrow> string \<Rightarrow> int \<Rightarrow> ('w, unit) kube" where
  "scale env key ns name replicas =
     merge_patch env key ns name (JObject [(''spec'', JObject [(''replicas'', JNumber (NumInt replicas))])])"

definition cordon_object :: "'w kube_env \<Rightarrow> string \<Rightarrow> string \<Rightarrow> bool \<Rightarrow> ('w, unit) kube" where
  "cordon_object env key name unschedulable =
     merge_patch env key None name (JObject [(''spec'', JObject [(''unschedulable'', JBool unschedulable)])])"

definition rollout_restart :: "'w kube_env \<Rightarrow> string \<Rightarrow> string option \<Rightarrow> string \<Rightarrow> ('w, unit) kube" where
  "rollout_restart env key ns name =
     merge_patch env key ns name (JObject [(''spec'', JObject [(''template'', JObject [(''metadata'', JObject [(''annotations'',
       JObject [(''kubectl.kubernetes.io/restartedAt'', JString (kn_now env))])])])])])"

definition annotate :: "(string \<times> json) list \<Rightarrow> json" where
  "annotate annotations = JObject [(''metadata'', JObject [(''annotations'', JObject annotations)])]"

definition eso_refresh :: "'w kube_env \<Rightarrow> string \<Rightarrow> string option \<Rightarrow> string \<Rightarrow> ('w, unit) kube" where
  "eso_refresh env key ns name = given (cluster_entry (kn_catalog env) key) (\<lambda>kind.
     if rk_kind kind = ''ExternalSecret'' then merge_patch env key ns name (annotate [(''force-sync'', JString (kn_now env))])
     else if rk_kind kind = ''ClusterExternalSecret''
       then merge_patch env key ns name (annotate [(''external-secrets.io/force-sync'', JString (kn_now env))])
     else ret (Inl (K8sApi ''refresh requires an ExternalSecret or ClusterExternalSecret'')))"

text \<open>Insertion into an ordered object; \<open>entry(..).or_insert(..)\<close>.\<close>

fun json_insert :: "string \<Rightarrow> json \<Rightarrow> (string \<times> json) list \<Rightarrow> (string \<times> json) list" where
  "json_insert k v [] = [(k, v)]"
| "json_insert k v ((k', v') # es) =
     (if k = k' then (k, v) # es else if k < k' then (k, v) # (k', v') # es else (k', v') # json_insert k v es)"

definition json_or_insert :: "string \<Rightarrow> json \<Rightarrow> (string \<times> json) list \<Rightarrow> (string \<times> json) list" where
  "json_or_insert k v es = (if hm_get es k = None then json_insert k v es else es)"

definition issuing_condition :: "int \<Rightarrow> string \<Rightarrow> json" where
  "issuing_condition generation transition_time = JObject
     [(''lastTransitionTime'', JString transition_time),
      (''message'', JString ''Certificate re-issuance manually triggered''),
      (''observedGeneration'', JNumber (NumInt generation)), (''reason'', JString ''ManuallyTriggered''),
      (''status'', JString ''True''), (''type'', JString ''Issuing'')]"

abbreviation is_issuing :: "json \<Rightarrow> bool" where
  "is_issuing c \<equiv> Option.bind (jget c ''type'') as_str = Some ''Issuing''"

definition put_issuing :: "json \<Rightarrow> json list \<Rightarrow> json list" where
  "put_issuing manual conditions = (case position is_issuing conditions of
     Some i \<Rightarrow> conditions[i := manual]
   | None \<Rightarrow> conditions @ [manual])"

definition mark_certificate_for_renewal :: "json \<Rightarrow> string \<Rightarrow> k8s_error + json" where
  "mark_certificate_for_renewal certificate transition_time =
     (let generation = unwrap_or 0 (Option.bind (jpointer certificate [''metadata'', ''generation'']) as_i64) in
      and_then (ok_or (K8sApi ''Certificate is not an object'') (as_object certificate)) (\<lambda>root.
      and_then (ok_or (K8sApi ''Certificate status is not an object'')
        (as_object (unwrap_or (JObject []) (hm_get root ''status'')))) (\<lambda>status.
      and_then (ok_or (K8sApi ''Certificate status.conditions is not an array'')
        (as_array (unwrap_or (JArray []) (hm_get status ''conditions'')))) (\<lambda>conditions.
      Inr (JObject (json_insert ''status'' (JObject (json_insert ''conditions''
        (JArray (put_issuing (issuing_condition generation transition_time) conditions)) status)) root))))))"

definition certificate_renew :: "'w kube_env \<Rightarrow> string \<Rightarrow> string option \<Rightarrow> string \<Rightarrow> ('w, unit) kube" where
  "certificate_renew env key ns name = given (cluster_entry (kn_catalog env) key) (\<lambda>e.
     if rk_group e \<noteq> ''cert-manager.io'' \<or> rk_kind e \<noteq> ''Certificate''
       then ret (Inl (K8sApi ''renewal requires a cert-manager.io Certificate''))
     else given (ok_or (K8sApi ''Certificate namespace is required'') (nonempty ns)) (\<lambda>namespace.
     given (dyn_api env key (Some namespace)) (\<lambda>(k, scope).
     attempt (request (kn_get env k scope name)) (\<lambda>data.
     given (mark_certificate_for_renewal data (kn_now env)) (\<lambda>marked.
     given (from_value env marked) (\<lambda>certificate.
     write_object env (WStatus k scope name certificate)))))))"

text \<open>A name for a generated object: lower-case letters, digits and inner hyphens.\<close>

definition name_base :: "nat \<Rightarrow> string \<Rightarrow> string \<Rightarrow> string" where
  "name_base n fallback name =
     (let base = trim_matches (\<lambda>c. c = CHR ''-'')
            (take n (filter (\<lambda>c. is_ascii_alphanumeric c \<or> c = CHR ''-'') (str_ascii_lower name)))
      in if base = [] then fallback else base)"

abbreviation json_option :: "string option \<Rightarrow> json" where
  "json_option s \<equiv> (case s of None \<Rightarrow> JNull | Some x \<Rightarrow> JString x)"

definition trigger_job :: "json \<Rightarrow> string \<Rightarrow> string option \<Rightarrow> int \<Rightarrow> json \<Rightarrow> json" where
  "trigger_job job_spec name ns ts data = JObject
     [(''apiVersion'', JString ''batch/v1''), (''kind'', JString ''Job''),
      (''metadata'', JObject
        [(''annotations'', JObject [(''cronjob.kubernetes.io/instantiate'', JString ''manual'')]),
         (''name'', JString (name_base 40 ''job'' name @ ''-manual-'' @ show_int ts)), (''namespace'', json_option ns),
         (''ownerReferences'', JArray [JObject
           [(''apiVersion'', JString ''batch/v1''), (''blockOwnerDeletion'', JBool True), (''controller'', JBool False),
            (''kind'', JString ''CronJob''), (''name'', JString name),
            (''uid'', JString (unwrap_or [] (Option.bind (Option.bind (jget data ''metadata'') (\<lambda>m. jget m ''uid'')) as_str)))]])]),
      (''spec'', job_spec)]"

definition cronjob_trigger :: "'w kube_env \<Rightarrow> string \<Rightarrow> string option \<Rightarrow> string \<Rightarrow> ('w, unit) kube" where
  "cronjob_trigger env key ns name = given (dyn_api env key ns) (\<lambda>(k, scope).
     attempt (request (kn_get env k scope name)) (\<lambda>data.
     given (ok_or (K8sApi ''CronJob has no spec.jobTemplate'')
       (Option.bind (jget data ''spec'') (\<lambda>s. jget s ''jobTemplate''))) (\<lambda>tmpl.
     given (from_value env (trigger_job (unwrap_or (JObject []) (jget tmpl ''spec'')) name ns (kn_timestamp env) data)) (\<lambda>job.
     given (dyn_api env ''batch/v1/Job'' ns) (\<lambda>(jk, jscope).
     write_object env (WCreate jk jscope job))))))"

text \<open>\<open>Map::remove\<close>, and a change of the value of a key when it is there.\<close>

definition json_modify :: "string \<Rightarrow> (json \<Rightarrow> json) \<Rightarrow> json \<Rightarrow> json" where
  "json_modify k f j = (case j of
     JObject es \<Rightarrow> JObject (map (\<lambda>(k', v). (k', if k' = k then f v else v)) es)
   | _ \<Rightarrow> j)"

definition json_remove :: "string list \<Rightarrow> json \<Rightarrow> json" where
  "json_remove ks j = (case j of JObject es \<Rightarrow> JObject (filter (\<lambda>(k, _). k \<notin> set ks) es) | _ \<Rightarrow> j)"

definition generated_labels :: "string list" where
  "generated_labels = [''batch.kubernetes.io/controller-uid'', ''batch.kubernetes.io/job-name'', ''controller-uid'', ''job-name'']"

definition rerun_spec :: "json \<Rightarrow> json" where
  "rerun_spec spec = json_modify ''template'' (json_modify ''metadata'' (json_modify ''labels'' (json_remove generated_labels)))
     (json_remove [''selector'', ''manualSelector''] spec)"

definition build_rerun_job :: "'w kube_env \<Rightarrow> json \<Rightarrow> string \<Rightarrow> string \<Rightarrow> k8s_error + json" where
  "build_rerun_job env data namespace source_name =
     (if \<not> lifecycle_is_terminal (job_lifecycle_of data)
        then Inl (K8sApi ''only completed or failed Jobs can be re-run'')
      else and_then (ok_or (K8sApi ''Job has no spec'') (jget data ''spec'')) (\<lambda>spec.
      and_then (ok_or (K8sApi ''Job spec is not an object'') (as_object spec)) (\<lambda>_.
      from_value env (JObject
        [(''apiVersion'', JString ''batch/v1''), (''kind'', JString ''Job''),
         (''metadata'', JObject [(''generateName'', JString (name_base 48 ''job'' source_name @ ''-rerun-'')),
           (''namespace'', JString namespace)]),
         (''spec'', rerun_spec spec)]))))"

definition job_rerun :: "'w kube_env \<Rightarrow> string \<Rightarrow> string option \<Rightarrow> string \<Rightarrow> ('w, unit) kube" where
  "job_rerun env key ns name =
     (if key \<noteq> ''batch/v1/Job'' then ret (Inl (K8sApi ''re-run requires a batch/v1 Job''))
      else given (ok_or (K8sApi ''Job namespace is required'') ns) (\<lambda>namespace.
      given (dyn_api env key (Some namespace)) (\<lambda>(k, scope).
      attempt (request (kn_get env k scope name)) (\<lambda>source.
      given (build_rerun_job env source namespace name) (\<lambda>job.
      write_object env (WCreate k scope job))))))"

definition apply_yaml :: "'w kube_env \<Rightarrow> string \<Rightarrow> ('w, unit) kube" where
  "apply_yaml env yaml = given (map_err (\<lambda>e. K8sApi (''invalid YAML: '' @ e)) (kn_yaml env yaml)) (\<lambda>obj.
     given (ok_or (K8sApi ''document is missing apiVersion/kind'') (yo_types obj)) (\<lambda>(api_version, kind).
     given (ok_or (K8sApi ''document is missing metadata.name'') (yo_name obj)) (\<lambda>name.
     case (case split_once (CHR ''/'') api_version of Some gv \<Rightarrow> gv | None \<Rightarrow> ([], api_version)) of (grp, version) \<Rightarrow>
       given (dyn_api env (make_key grp version kind) (yo_namespace obj)) (\<lambda>(k, scope).
       write_object env (WApply k scope name (yo_body obj))))))"

section \<open>Flux\<close>

definition flux_suspend :: "'w kube_env \<Rightarrow> string \<Rightarrow> string option \<Rightarrow> string \<Rightarrow> bool \<Rightarrow> ('w, unit) kube" where
  "flux_suspend env key ns name suspend =
     merge_patch env key ns name (JObject [(''spec'', JObject [(''suspend'', JBool suspend)])])"

definition reconcile_patch :: "string \<Rightarrow> bool \<Rightarrow> bool \<Rightarrow> json" where
  "reconcile_patch ts forced reset =
     annotate ((if reset then json_insert ''reconcile.fluxcd.io/resetAt'' (JString ts) else (\<lambda>es. es))
       ((if forced then json_insert ''reconcile.fluxcd.io/forceAt'' (JString ts) else (\<lambda>es. es))
         [(''reconcile.fluxcd.io/requestedAt'', JString ts)]))"

definition flux_reconcile ::
  "'w kube_env \<Rightarrow> string \<Rightarrow> string option \<Rightarrow> string \<Rightarrow> bool \<Rightarrow> bool \<Rightarrow> ('w, unit) kube" where
  "flux_reconcile env key ns name forced reset =
     merge_patch env key ns name (reconcile_patch (kn_now env) forced reset)"

definition flux_force :: "'w kube_env \<Rightarrow> string \<Rightarrow> string option \<Rightarrow> string \<Rightarrow> ('w, unit) kube" where
  "flux_force env key ns name = flux_reconcile env key ns name True False"

definition flux_reset :: "'w kube_env \<Rightarrow> string \<Rightarrow> string option \<Rightarrow> string \<Rightarrow> ('w, unit) kube" where
  "flux_reset env key ns name = flux_reconcile env key ns name False True"

record source_ref =
  so_kind :: string
  so_name :: string
  so_namespace :: "string option"

definition source_ref_at :: "json \<Rightarrow> string list \<Rightarrow> source_ref option" where
  "source_ref_at spec path = Option.bind (jpointer spec path) (\<lambda>cur.
     Option.bind (Option.bind (jget cur ''kind'') as_str) (\<lambda>kind.
     map_option (\<lambda>name. \<lparr>so_kind = kind, so_name = name, so_namespace = Option.bind (jget cur ''namespace'') as_str\<rparr>)
       (Option.bind (jget cur ''name'') as_str)))"

definition extract_source_ref :: "json \<Rightarrow> source_ref option" where
  "extract_source_ref spec =
     find_map (source_ref_at spec) [[''sourceRef''], [''chart'', ''spec'', ''sourceRef''], [''chartRef'']]"

record flux_source_target =
  fs_key :: string
  fs_namespace :: "string option"
  fs_name :: string

definition flux_source_target_of ::
  "'w kube_env \<Rightarrow> string \<Rightarrow> string option \<Rightarrow> string \<Rightarrow> ('w, flux_source_target) kube" where
  "flux_source_target_of env key ns name = given (dyn_api env key ns) (\<lambda>(k, scope).
     attempt (request (kn_get env k scope name)) (\<lambda>data.
     given (ok_or (K8sApi ''resource has no spec'') (jget data ''spec'')) (\<lambda>spec.
     given (ok_or (K8sApi ''resource has no sourceRef to reconcile'') (extract_source_ref spec)) (\<lambda>source.
     given (entry_by_kind (kn_catalog env) (so_kind source)) (\<lambda>e.
     ret (Inr \<lparr>fs_key = rk_key e, fs_namespace = or_else (so_namespace source) ns, fs_name = so_name source\<rparr>))))))"

definition flux_reconcile_with_source ::
  "'w kube_env \<Rightarrow> string \<Rightarrow> string option \<Rightarrow> string \<Rightarrow> bool \<Rightarrow> bool \<Rightarrow> ('w, unit) kube" where
  "flux_reconcile_with_source env key ns name forced reset =
     attempt (flux_source_target_of env key ns name) (\<lambda>source.
     attempt (flux_reconcile env (fs_key source) (fs_namespace source) (fs_name source) False False) (\<lambda>_.
     flux_reconcile env key ns name forced reset))"

definition summary_zero :: action_summary where
  "summary_zero = \<lparr>attempted = 0, succeeded = 0, forbidden = 0, failed_count = 0\<rparr>"

definition summary_for_error :: "kube_error \<Rightarrow> action_summary" where
  "summary_for_error e = (let denied = (case e of ErrApi c _ \<Rightarrow> if c = 403 then 1 else 0 | _ \<Rightarrow> 0) in
     \<lparr>attempted = 1, succeeded = 0, forbidden = denied, failed_count = 1 - denied\<rparr>)"

text \<open>The concurrent requests of \<open>flux_reconcile_all\<close> one after the other; only their results are summed.\<close>

fun reconcile_items :: "'w kube_env \<Rightarrow> resource_kind \<Rightarrow> json list \<Rightarrow> action_summary \<Rightarrow> ('w kube_st, action_summary) state" where
  "reconcile_items env e [] acc = ret acc"
| "reconcile_items env e (obj # objs) acc =
     (case Option.bind (jpointer obj [''metadata'', ''name'']) as_str of
        None \<Rightarrow> reconcile_items env e objs acc
      | Some name \<Rightarrow> do {
          r \<leftarrow> write_raw env (WMerge (rk_key e)
                (api_scope e (Option.bind (jpointer obj [''metadata'', ''namespace'']) as_str)) name
                (reconcile_patch (kn_now env) False False));
          reconcile_items env e objs (summary_merge acc (case r of
              Inr _ \<Rightarrow> \<lparr>attempted = 1, succeeded = 1, forbidden = 0, failed_count = 0\<rparr>
            | Inl err \<Rightarrow> summary_for_error err)) })"

fun reconcile_kinds ::
  "'w kube_env \<Rightarrow> string option \<Rightarrow> resource_kind list \<Rightarrow> action_summary \<Rightarrow> ('w kube_st, action_summary) state" where
  "reconcile_kinds env ns [] acc = ret acc"
| "reconcile_kinds env ns (e # es) acc = do {
     listed \<leftarrow> reading (kn_list env (rk_key e) (api_scope e ns));
     case listed of
       Inl err \<Rightarrow> reconcile_kinds env ns es (summary_merge acc (summary_for_error err))
     | Inr objs \<Rightarrow> do {
         part \<leftarrow> reconcile_items env e objs summary_zero;
         reconcile_kinds env ns es (summary_merge acc part) } }"

definition flux_reconcile_all :: "'w kube_env \<Rightarrow> string option \<Rightarrow> ('w, action_summary) kube" where
  "flux_reconcile_all env ns = do {
     summed \<leftarrow> reconcile_kinds env ns (filter (\<lambda>e. kind_supports e FluxReconcile) (kn_catalog env)) summary_zero;
     ret (Inr summed) }"

section \<open>CloudNativePG and kopiur\<close>

record backup_template =
  bt_spec :: "(string \<times> json) list"
  bt_annotations :: "(string \<times> json) list"

definition backup_target :: "json \<Rightarrow> (string \<times> json) list \<Rightarrow> json" where
  "backup_target cluster source = unwrap_or (JString ''prefer-standby'')
     (or_else (hm_get source ''target'') (jpointer cluster [''spec'', ''backup'', ''target'']))"

definition online_configuration :: "json \<Rightarrow> (string \<times> json) list \<Rightarrow> (string \<times> json) list" where
  "online_configuration cluster source =
     json_or_insert ''immediateCheckpoint'' (JBool False) (json_or_insert ''waitForArchive'' (JBool True)
       (unwrap_or [] (or_else (Option.bind (hm_get source ''onlineConfiguration'') as_object)
         (Option.bind (jpointer cluster [''spec'', ''backup'', ''volumeSnapshot'', ''onlineConfiguration'']) as_object))))"

definition schedule_annotations :: "json \<Rightarrow> (string \<times> json) list" where
  "schedule_annotations schedule = filter (\<lambda>(k, _). starts_with k ''backup.cnpg.io/'')
     (unwrap_or [] (Option.bind (jpointer schedule [''metadata'', ''annotations'']) as_object))"

definition backup_template_from_schedule :: "string \<Rightarrow> json \<Rightarrow> json \<Rightarrow> k8s_error + backup_template" where
  "backup_template_from_schedule cluster_name cluster schedule =
     and_then (ok_or (K8sApi ''CNPG ScheduledBackup has no specification'') (Option.bind (jget schedule ''spec'') as_object)) (\<lambda>source.
     let backup_method = unwrap_or ''barmanObjectStore'' (Option.bind (hm_get source ''method'') as_str) in
     if backup_method = ''plugin'' \<and> hm_get source ''pluginConfiguration'' = None
       then Inl (K8sApi ''CNPG plugin ScheduledBackup has no plugin configuration'')
     else
       let spec = [(''cluster'', JObject [(''name'', JString cluster_name)]), (''method'', JString backup_method),
                   (''target'', backup_target cluster source)];
           with_plugin = (case hm_get source ''pluginConfiguration'' of None \<Rightarrow> spec
             | Some v \<Rightarrow> json_insert ''pluginConfiguration'' v spec);
           annotations = schedule_annotations schedule in
       if backup_method = ''volumeSnapshot'' then Inr
         \<lparr>bt_spec = json_insert ''onlineConfiguration'' (JObject (online_configuration cluster source))
            (json_insert ''online'' (unwrap_or (JBool True) (or_else (hm_get source ''online'')
               (jpointer cluster [''spec'', ''backup'', ''volumeSnapshot'', ''online'']))) with_plugin),
          bt_annotations = json_or_insert ''backup.cnpg.io/volumeSnapshotDeadline'' (JString ''10'') annotations\<rparr>
       else Inr \<lparr>bt_spec = with_plugin, bt_annotations = annotations\<rparr>)"

text \<open>\<open>push\<close> unless \<open>contains\<close>.\<close>

definition push_new :: "'a \<Rightarrow> 'a list \<Rightarrow> 'a list" where
  "push_new x xs = (if x \<in> set xs then xs else xs @ [x])"

definition backup_template_of :: "string \<Rightarrow> json \<Rightarrow> json list \<Rightarrow> k8s_error + backup_template" where
  "backup_template_of cluster_name cluster schedules =
     and_then (collect_results (backup_template_from_schedule cluster_name cluster)
       (filter (\<lambda>s. str_at s [''spec'', ''cluster'', ''name''] = Some cluster_name) schedules)) (\<lambda>found.
     case fold push_new found [] of
       [t] \<Rightarrow> Inr t
     | _ # _ \<Rightarrow> Inl (K8sApi ''CNPG Cluster has ScheduledBackups with different backup configurations'')
     | [] \<Rightarrow>
         let barman = (jpointer cluster [''spec'', ''backup'', ''barmanObjectStore''] \<noteq> None);
             snapshots = (jpointer cluster [''spec'', ''backup'', ''volumeSnapshot''] \<noteq> None);
             template = (\<lambda>m. \<lparr>bt_spec = [(''cluster'', JObject [(''name'', JString cluster_name)]), (''method'', JString m)],
               bt_annotations = []\<rparr>) in
         if barman \<and> \<not> snapshots then Inr (template ''barmanObjectStore'')
         else if \<not> barman \<and> snapshots then Inr (template ''volumeSnapshot'')
         else if barman then Inl (K8sApi ''CNPG Cluster has multiple backup methods and no ScheduledBackup selects one'')
         else Inl (K8sApi ''CNPG Cluster has no ScheduledBackup or configured backup method''))"

definition build_backup :: "string \<Rightarrow> string \<Rightarrow> string \<Rightarrow> string \<Rightarrow> json \<Rightarrow> json list \<Rightarrow> k8s_error + json" where
  "build_backup grp version namespace cluster_name cluster schedules =
     and_then (backup_template_of cluster_name cluster schedules) (\<lambda>t.
     let generated = [(''generateName'', JString (name_base 48 ''cluster'' cluster_name @ ''-manual-'')), (''namespace'', JString namespace)];
         metadata = (if bt_annotations t = [] then generated
           else json_insert ''annotations'' (JObject (bt_annotations t)) generated) in
     Inr (JObject [(''apiVersion'', JString (grp @ ''/'' @ version)), (''kind'', JString ''Backup''),
       (''metadata'', JObject metadata), (''spec'', JObject (bt_spec t))]))"

definition cnpg_backup :: "'w kube_env \<Rightarrow> string \<Rightarrow> string option \<Rightarrow> string \<Rightarrow> ('w, unit) kube" where
  "cnpg_backup env key ns name = given (cluster_entry (kn_catalog env) key) (\<lambda>e.
     if rk_group e \<noteq> ''postgresql.cnpg.io'' \<or> rk_kind e \<noteq> ''Cluster''
       then ret (Inl (K8sApi ''CNPG backups require a Cluster target''))
     else given (ok_or (K8sApi ''CNPG Cluster backup requires a namespace'') (nonempty ns)) (\<lambda>namespace.
     given (dyn_api env key (Some namespace)) (\<lambda>(k, scope).
     attempt (request (kn_get env k scope name)) (\<lambda>cluster.
     given (dyn_api env (make_key (rk_group e) (rk_version e) ''ScheduledBackup'') (Some namespace)) (\<lambda>(sk, sscope).
     attempt (request (kn_list env sk sscope)) (\<lambda>schedules.
     given (build_backup (rk_group e) (rk_version e) namespace name cluster schedules) (\<lambda>backup.
     given (from_value env backup) (\<lambda>obj.
     given (dyn_api env (make_key (rk_group e) (rk_version e) ''Backup'') (Some namespace)) (\<lambda>(bk, bscope).
     write_object env (WCreate bk bscope obj))))))))))"

definition cnpg_suspend :: "'w kube_env \<Rightarrow> string \<Rightarrow> string option \<Rightarrow> string \<Rightarrow> bool \<Rightarrow> ('w, unit) kube" where
  "cnpg_suspend env key ns name suspend = given (cluster_entry (kn_catalog env) key) (\<lambda>e.
     if rk_group e \<noteq> ''postgresql.cnpg.io'' \<or> rk_kind e \<noteq> ''ScheduledBackup''
       then ret (Inl (K8sApi ''CNPG suspend requires a ScheduledBackup target''))
     else given (ok_or (K8sApi ''CNPG ScheduledBackup requires a namespace'') (nonempty ns)) (\<lambda>namespace.
     merge_patch env key (Some namespace) name (JObject [(''spec'', JObject [(''suspend'', JBool suspend)])])))"

definition snapshot_object :: "resource_kind \<Rightarrow> string option \<Rightarrow> string \<Rightarrow> int \<Rightarrow> json" where
  "snapshot_object policy ns name ts = JObject
     [(''apiVersion'', JString (rk_group policy @ ''/'' @ rk_version policy)), (''kind'', JString ''Snapshot''),
      (''metadata'', JObject
        [(''labels'', JObject [(''kopiur.home-operations.com/config'', JString name),
           (''kopiur.home-operations.com/origin'', JString ''manual'')]),
         (''name'', JString (name @ ''-manual-'' @ show_int ts)), (''namespace'', json_option ns)]),
      (''spec'', JObject [(''policyRef'', JObject [(''name'', JString name)])])]"

definition kopiur_snapshot_now :: "'w kube_env \<Rightarrow> string \<Rightarrow> string option \<Rightarrow> string \<Rightarrow> ('w, unit) kube" where
  "kopiur_snapshot_now env key ns name = given (cluster_entry (kn_catalog env) key) (\<lambda>policy.
     given (from_value env (snapshot_object policy ns name (kn_timestamp env))) (\<lambda>obj.
     given (dyn_api env (make_key (rk_group policy) (rk_version policy) ''Snapshot'') ns) (\<lambda>(k, scope).
     write_object env (WCreate k scope obj))))"

section \<open>The sweep\<close>

definition includes_pods :: "sweep_options \<Rightarrow> bool" where
  "includes_pods o1 \<longleftrightarrow> sw_terminal_pods o1 \<or> sw_stuck_pods o1 \<or> sw_restarted_pods o1"

definition includes_jobs :: "sweep_options \<Rightarrow> bool" where
  "includes_jobs o1 \<longleftrightarrow> sw_completed_jobs o1 \<or> sw_failed_jobs o1"

definition container_stuck :: "sweep_container \<Rightarrow> bool" where
  "container_stuck c = (case sc_waiting c of
     Some reason \<Rightarrow> reason \<in> Some ` {''CrashLoopBackOff'', ''Error'', ''ImagePullBackOff'', ''ErrImagePull'', ''ContainerStatusUnknown''}
   | None \<Rightarrow> (case sc_terminated c of
         Some reason \<Rightarrow> reason = Some ''OOMKilled''
       | None \<Rightarrow> False))"

definition should_sweep_pod :: "sweep_options \<Rightarrow> sweep_pod \<Rightarrow> bool" where
  "should_sweep_pod opts p =
     (let ended = (sp_reason p = Some ''Evicted'' \<or> sp_phase p \<in> {Some ''Succeeded'', Some ''Failed''});
          containers = sp_containers p @ sp_init_containers p in
      if sp_deleting p then False
      else if sw_terminal_pods opts \<and> ended then True
      else if sw_restarted_pods opts \<and> list_ex (\<lambda>c. sc_restarts c > 0) containers then True
      else sw_stuck_pods opts \<and> list_ex container_stuck containers)"

definition should_sweep_job :: "sweep_options \<Rightarrow> json \<Rightarrow> bool" where
  "should_sweep_job opts data = (case job_lifecycle_of data of
     Complete \<Rightarrow> sw_completed_jobs opts
   | Failed \<Rightarrow> sw_failed_jobs opts
   | _ \<Rightarrow> False)"

definition sweep_candidates ::
  "'w kube_env \<Rightarrow> string option \<Rightarrow> sweep_options \<Rightarrow> ('w, sweep_pod list \<times> json list) kube" where
  "sweep_candidates env ns opts =
     attempt (if includes_pods opts then request (kn_list_pods env ns) else ret (Inr [])) (\<lambda>pods.
     attempt (if includes_jobs opts then request (kn_list_jobs env ns) else ret (Inr [])) (\<lambda>jobs.
     ret (Inr (filter (should_sweep_pod opts) pods, filter (should_sweep_job opts) jobs))))"

definition sanitize_preview :: "'w kube_env \<Rightarrow> string option \<Rightarrow> sweep_options \<Rightarrow> ('w, nat \<times> nat) kube" where
  "sanitize_preview env ns opts =
     attempt (sweep_candidates env ns opts) (\<lambda>(pods, jobs). ret (Inr (length pods, length jobs)))"

record cleanup_summary =
  cs_pods_deleted :: nat
  cs_jobs_deleted :: nat
  cs_forbidden :: "string list"
  cs_failed :: "string list"

definition record_delete_error :: "string \<Rightarrow> string \<Rightarrow> string \<Rightarrow> kube_error \<Rightarrow> cleanup_summary \<Rightarrow> cleanup_summary" where
  "record_delete_error kind ns name e summary =
     (let message = kind @ '' '' @ ns @ ''/'' @ name @ '': '' @ kube_error_to_string e;
          denied = (case e of ErrApi c _ \<Rightarrow> c = 403 | _ \<Rightarrow> False) in
      if denied then summary\<lparr>cs_forbidden := cs_forbidden summary @ [message]\<rparr>
      else summary\<lparr>cs_failed := cs_failed summary @ [message]\<rparr>)"

fun delete_pods :: "'w kube_env \<Rightarrow> sweep_pod list \<Rightarrow> cleanup_summary \<Rightarrow> ('w kube_st, cleanup_summary) state" where
  "delete_pods env [] summary = ret summary"
| "delete_pods env (p # ps) summary =
     (let name = unwrap_or [] (sp_name p); ns = unwrap_or [] (sp_namespace p) in do {
      r \<leftarrow> write_raw env (WDelete ''/v1/Pod'' (Some ns) name None None);
      delete_pods env ps (case r of
          Inr _ \<Rightarrow> summary\<lparr>cs_pods_deleted := cs_pods_deleted summary + 1\<rparr>
        | Inl e \<Rightarrow> record_delete_error ''Pod'' ns name e summary) })"

abbreviation meta_text :: "json \<Rightarrow> string \<Rightarrow> string" where
  "meta_text j k \<equiv> unwrap_or [] (Option.bind (jpointer j [''metadata'', k]) as_str)"

fun delete_jobs :: "'w kube_env \<Rightarrow> json list \<Rightarrow> cleanup_summary \<Rightarrow> ('w kube_st, cleanup_summary) state" where
  "delete_jobs env [] summary = ret summary"
| "delete_jobs env (j # js) summary =
     (let name = meta_text j ''name''; ns = meta_text j ''namespace'' in do {
      r \<leftarrow> write_raw env (WDelete ''batch/v1/Job'' (Some ns) name None None);
      delete_jobs env js (case r of
          Inr _ \<Rightarrow> summary\<lparr>cs_jobs_deleted := cs_jobs_deleted summary + 1\<rparr>
        | Inl e \<Rightarrow> record_delete_error ''Job'' ns name e summary) })"

definition sanitize :: "'w kube_env \<Rightarrow> string option \<Rightarrow> sweep_options \<Rightarrow> ('w, cleanup_summary) kube" where
  "sanitize env ns opts =
     attempt (sweep_candidates env ns opts) (\<lambda>(pods, jobs). do {
       after_pods \<leftarrow> delete_pods env pods \<lparr>cs_pods_deleted = 0, cs_jobs_deleted = 0, cs_forbidden = [], cs_failed = []\<rparr>;
       after_jobs \<leftarrow> delete_jobs env jobs after_pods;
       ret (Inr after_jobs) })"

section \<open>The backend's side of a mutation\<close>

datatype mutation_result =
    MutationDone
  | MutationCounts nat nat
  | MutationCleanup cleanup_summary
  | MutationSummary action_summary

definition giving :: "('a \<Rightarrow> 'b) \<Rightarrow> ('w, 'a) kube \<Rightarrow> ('w, 'b) kube" where
  "giving f m = attempt m (\<lambda>x. ret (Inr (f x)))"

abbreviation finished :: "('w, unit) kube \<Rightarrow> ('w, mutation_result) kube" where
  "finished m \<equiv> giving (\<lambda>_. MutationDone) m"

fun run_mutation :: "'w kube_env \<Rightarrow> mutation \<Rightarrow> ('w, mutation_result) kube" where
  "run_mutation env (ApplyYaml y) = finished (apply_yaml env y)"
| "run_mutation env (SanitizePreview ns opts) = giving (\<lambda>(p, j). MutationCounts p j) (sanitize_preview env ns opts)"
| "run_mutation env (Sanitize ns opts) = giving MutationCleanup (sanitize env ns opts)"
| "run_mutation env (FluxReconcileAll ns) = giving MutationSummary (flux_reconcile_all env ns)"
| "run_mutation env (DeleteObject key ns name forced prop) = finished (delete_object env key ns name forced prop)"
| "run_mutation env (EvictPod ns name) = finished (evict_one env ns name)"
| "run_mutation env (ScaleTo key ns name r) = finished (scale env key ns name r)"
| "run_mutation env (RolloutRestart key ns name) = finished (rollout_restart env key ns name)"
| "run_mutation env (FluxSuspendTo key ns name b) = finished (flux_suspend env key ns name b)"
| "run_mutation env (CordonTo key name b) = finished (cordon_object env key name b)"
| "run_mutation env (FluxReconcileOne key ns name f r) = finished (flux_reconcile env key ns name f r)"
| "run_mutation env (FluxReconcileSource key ns name f r) = finished (flux_reconcile_with_source env key ns name f r)"
| "run_mutation env (FluxForceOne key ns name) = finished (flux_force env key ns name)"
| "run_mutation env (FluxResetOne key ns name) = finished (flux_reset env key ns name)"
| "run_mutation env (EsoRefresh key ns name) = finished (eso_refresh env key ns name)"
| "run_mutation env (CertificateRenewOne key ns name) = finished (certificate_renew env key ns name)"
| "run_mutation env (CronjobTriggerOne key ns name) = finished (cronjob_trigger env key ns name)"
| "run_mutation env (JobRerunOne key ns name) = finished (job_rerun env key ns name)"
| "run_mutation env (KopiurSnapshot key ns name) = finished (kopiur_snapshot_now env key ns name)"
| "run_mutation env (CnpgBackupOne key ns name) = finished (cnpg_backup env key ns name)"
| "run_mutation env (CnpgSuspendTo key ns name b) = finished (cnpg_suspend env key ns name b)"

end
