(* ===== verification/MutationProps.thy ===== *)
theory MutationProps
  imports Mutations
begin

text \<open>
  What the backend writes when it carries out a mutation: one request to the object the mutation
  names, deletions of exactly what a sweep previews, valid names for generated objects, and copies that
  keep what they should.
\<close>

section \<open>The writes of a computation\<close>

definition writes :: "('w kube_st, 'a) state \<Rightarrow> ('a \<Rightarrow> api_write list \<Rightarrow> bool) \<Rightarrow> bool" where
  "writes m Q \<longleftrightarrow> (\<forall>s. case run_state m s of (r, s') \<Rightarrow> \<exists>ws. kt_writes s' = kt_writes s @ ws \<and> Q r ws)"

lemma writes_ret [intro]: "Q a [] \<Longrightarrow> writes (ret a) Q"
  by (simp add: writes_def)

lemma writes_mono: "writes m P \<Longrightarrow> (\<And>r ws. P r ws \<Longrightarrow> Q r ws) \<Longrightarrow> writes m Q"
  unfolding writes_def by (fastforce split: prod.splits)

lemma writes_bind:
  assumes "writes m (\<lambda>r ws. writes (f r) (\<lambda>r' ws'. Q r' (ws @ ws')))"
  shows "writes (State_Monad.bind m f) Q"
  unfolding writes_def
proof
  fix s
  obtain r s1 where 1: "run_state m s = (r, s1)" by fastforce
  obtain r' s2 where 2: "run_state (f r) s1 = (r', s2)" by fastforce
  from assms[unfolded writes_def, rule_format, of s] 1 obtain ws where
    ws: "kt_writes s1 = kt_writes s @ ws" "writes (f r) (\<lambda>r' ws'. Q r' (ws @ ws'))" by (auto simp: writes_def)
  from ws(2)[unfolded writes_def, rule_format, of s1] 2 obtain ws' where
    "kt_writes s2 = kt_writes s1 @ ws'" "Q r' (ws @ ws')" by auto
  with 1 2 ws(1) show "case run_state (State_Monad.bind m f) s of (r, s') \<Rightarrow> \<exists>ws. kt_writes s' = kt_writes s @ ws \<and> Q r ws"
    by auto
qed

lemma writes_reading: "(\<And>r. Q r []) \<Longrightarrow> writes (reading f) Q"
  by (simp add: writes_def reading_def split: prod.splits)

lemma writes_write_raw: "(\<And>r. Q r [wr]) \<Longrightarrow> writes (write_raw env wr) Q"
  by (simp add: writes_def write_raw_def split: prod.splits)

lemma writes_request: "(\<And>r. Q r []) \<Longrightarrow> writes (request f) Q"
  unfolding request_def by (rule writes_bind, rule writes_reading, rule writes_ret) simp

lemma writes_write_object: "(\<And>r. Q r [wr]) \<Longrightarrow> writes (write_object env wr) Q"
  unfolding write_object_def by (rule writes_bind, rule writes_write_raw, rule writes_ret) simp

lemma writes_attempt:
  assumes "writes m (\<lambda>r ws. case r of Inl e \<Rightarrow> Q (Inl e) ws | Inr x \<Rightarrow> writes (f x) (\<lambda>r' ws'. Q r' (ws @ ws')))"
  shows "writes (attempt m f) Q"
  unfolding attempt_def
  by (rule writes_bind, rule writes_mono[OF assms]) (auto split: sum.splits)

lemma writes_given:
  "(\<And>e. r = Inl e \<Longrightarrow> Q (Inl e) []) \<Longrightarrow> (\<And>x. r = Inr x \<Longrightarrow> writes (f x) Q) \<Longrightarrow> writes (given r f) Q"
  by (cases r) (auto simp: given_def)

lemma writes_run: "writes m Q \<Longrightarrow> run_state m s = (r, t) \<Longrightarrow> \<exists>ws. kt_writes t = kt_writes s @ ws \<and> Q r ws"
  unfolding writes_def by (auto dest: spec[of _ s])

section \<open>Where a mutation aims\<close>

text \<open>The write a mutation of one object may make: to the object it names, in its namespace or in none
  when its kind has none; or the creation of the object it stands for.\<close>

fun aims_at :: "'w kube_env \<Rightarrow> mutation \<Rightarrow> api_write \<Rightarrow> bool" where
  "aims_at env (ApplyYaml y) wr \<longleftrightarrow> (\<exists>obj api kind name scope key. kn_yaml env y = Inr obj
     \<and> yo_types obj = Some (api, kind) \<and> yo_name obj = Some name \<and> scope \<in> {yo_namespace obj, None}
     \<and> wr = WApply key scope name (yo_body obj) \<and> ends_with key (''/'' @ kind))"
| "aims_at env (DeleteObject key ns name forced prop) wr \<longleftrightarrow>
     (\<exists>scope\<in>{ns, None}. wr = WDelete key scope name (if forced then Some 0 else None) prop)"
| "aims_at env (EvictPod ns name) wr \<longleftrightarrow> wr = WEvict ns name"
| "aims_at env (CordonTo key name b) wr \<longleftrightarrow>
     wr = WMerge key None name (JObject [(''spec'', JObject [(''unschedulable'', JBool b)])])"
| "aims_at env (ScaleTo key ns name r) wr \<longleftrightarrow>
     (\<exists>scope\<in>{ns, None}. wr = WMerge key scope name (JObject [(''spec'', JObject [(''replicas'', JNumber (NumInt r))])]))"
| "aims_at env (FluxSuspendTo key ns name b) wr \<longleftrightarrow>
     (\<exists>scope\<in>{ns, None}. wr = WMerge key scope name (JObject [(''spec'', JObject [(''suspend'', JBool b)])]))"
| "aims_at env (CnpgSuspendTo key ns name b) wr \<longleftrightarrow>
     (\<exists>scope\<in>{ns, None}. wr = WMerge key scope name (JObject [(''spec'', JObject [(''suspend'', JBool b)])]))"
| "aims_at env (RolloutRestart key ns name) wr \<longleftrightarrow> (\<exists>scope\<in>{ns, None}. \<exists>patch. wr = WMerge key scope name patch)"
| "aims_at env (FluxReconcileOne key ns name f r) wr \<longleftrightarrow>
     (\<exists>scope\<in>{ns, None}. wr = WMerge key scope name (reconcile_patch (kn_now env) f r))"
| "aims_at env (FluxForceOne key ns name) wr \<longleftrightarrow>
     (\<exists>scope\<in>{ns, None}. wr = WMerge key scope name (reconcile_patch (kn_now env) True False))"
| "aims_at env (FluxResetOne key ns name) wr \<longleftrightarrow>
     (\<exists>scope\<in>{ns, None}. wr = WMerge key scope name (reconcile_patch (kn_now env) False True))"
| "aims_at env (EsoRefresh key ns name) wr \<longleftrightarrow> (\<exists>scope\<in>{ns, None}. \<exists>patch. wr = WMerge key scope name patch)"
| "aims_at env (CertificateRenewOne key ns name) wr \<longleftrightarrow> (\<exists>scope\<in>{ns, None}. \<exists>body. wr = WStatus key scope name body)"
| "aims_at env (CronjobTriggerOne key ns name) wr \<longleftrightarrow> (\<exists>scope\<in>{ns, None}. \<exists>body. wr = WCreate ''batch/v1/Job'' scope body)"
| "aims_at env (JobRerunOne key ns name) wr \<longleftrightarrow> (\<exists>scope\<in>{ns, None}. \<exists>body. wr = WCreate ''batch/v1/Job'' scope body)"
| "aims_at env (KopiurSnapshot key ns name) wr \<longleftrightarrow>
     (\<exists>scope\<in>{ns, None}. \<exists>body k. wr = WCreate k scope body \<and> ends_with k ''/Snapshot'')"
| "aims_at env (CnpgBackupOne key ns name) wr \<longleftrightarrow>
     (\<exists>scope\<in>{ns, None}. \<exists>body k. wr = WCreate k scope body \<and> ends_with k ''/Backup'')"
| "aims_at env m wr \<longleftrightarrow> False"

lemma dyn_api_Inr: "dyn_api env key ns = Inr (k, scope) \<Longrightarrow> k = key \<and> scope \<in> {ns, None}"
  unfolding dyn_api_def by (auto simp: result_iff api_scope_def dest!: cluster_entry_Inr split: if_splits)

text \<open>Nothing after an error, one write after success.\<close>

definition one_write :: "(api_write \<Rightarrow> bool) \<Rightarrow> 'e + 'a \<Rightarrow> api_write list \<Rightarrow> bool" where
  "one_write P r ws \<longleftrightarrow> (case ws of [] \<Rightarrow> \<exists>e. r = Inl e | [wr] \<Rightarrow> P wr | _ \<Rightarrow> False)"

lemma one_write_simps [simp]: "one_write P (Inl e) []" "one_write P r [wr] \<longleftrightarrow> P wr"
  by (simp_all add: one_write_def)

lemma writes_giving: "writes m (one_write P) \<Longrightarrow> writes (giving f m) (one_write P)"
  unfolding giving_def
  by (rule writes_attempt, erule writes_mono)
    (auto simp: one_write_def split: sum.splits list.splits intro!: writes_ret)

lemma merge_patch_writes:
  assumes "\<And>scope. scope \<in> {ns, None} \<Longrightarrow> P (WMerge key scope name patch)"
  shows "writes (merge_patch env key ns name patch) (one_write P)"
  unfolding merge_patch_def using assms
  by (intro writes_given) (auto intro!: writes_write_object dest!: dyn_api_Inr)

lemma ends_with_append [simp]: "ends_with (a @ b) b"
  by (simp add: ends_with_def)

lemma make_key_ends: "ends_with (make_key grp version kind) (''/'' @ kind)"
  using ends_with_append[of "grp @ ''/'' @ version" "''/'' @ kind"] by (simp add: make_key_def)

lemma make_key_kind: "make_key grp version kind = k \<Longrightarrow> ends_with k (''/'' @ kind)"
  using make_key_ends by blast

lemmas writes_rules = writes_given writes_attempt writes_request writes_write_object

lemma delete_writes: "writes (delete_object env key ns name forced prop) (one_write (aims_at env (DeleteObject key ns name forced prop)))"
  unfolding delete_object_def by (intro writes_given) (auto intro!: writes_write_object dest!: dyn_api_Inr)

lemma nonempty_Some: "nonempty s = Some x \<Longrightarrow> s = Some x"
  by (auto simp: nonempty_def split: option.splits list.splits)

lemma certificate_writes: "writes (certificate_renew env key ns name) (one_write (aims_at env (CertificateRenewOne key ns name)))"
  unfolding certificate_renew_def
  by (intro writes_given)
    (auto intro!: writes_given writes_attempt writes_request writes_write_object dest!: dyn_api_Inr nonempty_Some
      simp: result_iff split: sum.splits)

lemma eso_writes: "writes (eso_refresh env key ns name) (one_write (aims_at env (EsoRefresh key ns name)))"
  unfolding eso_refresh_def by (intro writes_given) (auto intro!: merge_patch_writes)

lemma trigger_writes: "writes (cronjob_trigger env key ns name) (one_write (aims_at env (CronjobTriggerOne key ns name)))"
  unfolding cronjob_trigger_def
  by (intro writes_given)
    (auto intro!: writes_given writes_attempt writes_request writes_write_object dest!: dyn_api_Inr split: sum.splits)

lemma rerun_writes: "writes (job_rerun env key ns name) (one_write (aims_at env (JobRerunOne key ns name)))"
proof (cases "key = ''batch/v1/Job''")
  case True
  then show ?thesis
    unfolding job_rerun_def
    by (auto intro!: writes_given writes_attempt writes_request writes_write_object dest!: dyn_api_Inr
        simp: result_iff split: sum.splits)
qed (auto simp: job_rerun_def)

lemma apply_writes: "writes (apply_yaml env y) (one_write (aims_at env (ApplyYaml y)))"
  unfolding apply_yaml_def
  by (intro writes_given)
    (auto intro!: writes_given writes_write_object dest!: dyn_api_Inr simp: result_iff make_key_ends[simplified]
      split: prod.splits)

lemma kopiur_writes: "writes (kopiur_snapshot_now env key ns name) (one_write (aims_at env (KopiurSnapshot key ns name)))"
  unfolding kopiur_snapshot_now_def
  by (intro writes_given) (auto intro!: writes_given writes_write_object dest!: dyn_api_Inr
      simp: make_key_ends[where kind = "''Snapshot''", simplified])

lemma backup_writes: "writes (cnpg_backup env key ns name) (one_write (aims_at env (CnpgBackupOne key ns name)))"
  unfolding cnpg_backup_def
  by (intro writes_given)
    (auto intro!: writes_given writes_attempt writes_request writes_write_object dest!: dyn_api_Inr nonempty_Some
      simp: result_iff make_key_ends[where kind = "''Backup''", simplified] split: sum.splits)

lemma cnpg_suspend_writes: "writes (cnpg_suspend env key ns name b) (one_write (aims_at env (CnpgSuspendTo key ns name b)))"
  unfolding cnpg_suspend_def
  by (intro writes_given) (auto intro!: writes_given merge_patch_writes dest!: nonempty_Some simp: result_iff)

text \<open>The mutations that are one request of one object.\<close>

fun names_one_object :: "mutation \<Rightarrow> bool" where
  "names_one_object (SanitizePreview ns opts) = False"
| "names_one_object (Sanitize ns opts) = False"
| "names_one_object (FluxReconcileAll ns) = False"
| "names_one_object (FluxReconcileSource key ns name f r) = False"
| "names_one_object m = True"

lemma run_mutation_writes: "names_one_object m \<Longrightarrow> writes (run_mutation env m) (one_write (aims_at env m))"
  by (cases m) (auto intro!: writes_giving delete_writes certificate_writes eso_writes trigger_writes rerun_writes
      apply_writes kopiur_writes backup_writes cnpg_suspend_writes merge_patch_writes writes_write_object
      simp: scale_def cordon_object_def rollout_restart_def flux_suspend_def flux_reconcile_def flux_force_def
        flux_reset_def evict_one_def)

lemma flux_source_writes: "writes (flux_source_target_of env key ns name) (\<lambda>r ws. ws = [])"
  unfolding flux_source_target_of_def
  by (intro writes_given) (auto intro!: writes_given writes_attempt writes_request split: sum.splits)

lemma writes_optional: "(\<And>r. Q r []) \<Longrightarrow> writes (if b then request f else ret x) Q"
  by (simp add: writes_request writes_ret)

lemma sweep_candidates_writes: "writes (sweep_candidates env ns opts) (\<lambda>r ws. ws = [])"
  unfolding sweep_candidates_def
  by (intro writes_attempt writes_optional) (auto intro!: writes_attempt writes_request writes_ret split: sum.splits)

section \<open>Sweeps\<close>

definition tried :: "cleanup_summary \<Rightarrow> nat" where
  "tried S = cs_pods_deleted S + cs_jobs_deleted S + length (cs_forbidden S) + length (cs_failed S)"

definition pod_delete :: "sweep_pod \<Rightarrow> api_write" where
  "pod_delete p = WDelete ''/v1/Pod'' (Some (unwrap_or [] (sp_namespace p))) (unwrap_or [] (sp_name p)) None None"

definition job_delete :: "json \<Rightarrow> api_write" where
  "job_delete j = WDelete ''batch/v1/Job'' (Some (meta_text j ''namespace'')) (meta_text j ''name'') None None"

lemma tried_record [simp]: "tried (record_delete_error kind ns name e S) = Suc (tried S)"
  by (simp add: tried_def record_delete_error_def Let_def)

lemma delete_pods_writes: "writes (delete_pods env ps S) (\<lambda>S' ws. ws = map pod_delete ps \<and> tried S' = tried S + length ps)"
proof (induction ps arbitrary: S)
  case (Cons p ps)
  show ?case
    unfolding delete_pods.simps Let_def
    by (rule writes_bind, rule writes_write_raw, rule writes_mono[OF Cons.IH])
      (auto simp: pod_delete_def tried_def record_delete_error_def Let_def split: sum.splits)
qed auto

lemma delete_jobs_writes: "writes (delete_jobs env js S) (\<lambda>S' ws. ws = map job_delete js \<and> tried S' = tried S + length js)"
proof (induction js arbitrary: S)
  case (Cons j js)
  show ?case
    unfolding delete_jobs.simps Let_def
    by (rule writes_bind, rule writes_write_raw, rule writes_mono[OF Cons.IH])
      (auto simp: job_delete_def tried_def record_delete_error_def Let_def split: sum.splits)
qed auto

lemma run_attempt:
  "run_state (attempt m f) s = (case run_state m s of (Inl e, s') \<Rightarrow> (Inl e, s') | (Inr x, s') \<Rightarrow> run_state (f x) s')"
  by (simp add: attempt_def split: prod.split sum.split)

lemma sweep_candidates_match:
  assumes "run_state (sweep_candidates env ns opts) s = (Inr (pods, jobs), s')"
  shows "\<forall>p\<in>set pods. should_sweep_pod opts p" "\<forall>j\<in>set jobs. should_sweep_job opts j"
  using assms by (auto simp: sweep_candidates_def run_attempt split: prod.splits sum.splits)

section \<open>Generated names\<close>

definition label_char :: "char \<Rightarrow> bool" where
  "label_char c \<longleftrightarrow> is_ascii_lowercase c \<or> is_ascii_digit c \<or> c = CHR ''-''"

definition dns_label :: "string \<Rightarrow> bool" where
  "dns_label s \<longleftrightarrow> s \<noteq> [] \<and> length s \<le> 63 \<and> list_all label_char s \<and> hd s \<noteq> CHR ''-'' \<and> last s \<noteq> CHR ''-''"

lemma code_char_of: "n < 256 \<Longrightarrow> code (char_of n) = n"
  by (simp add: code_def)

lemma lower_label_char:
  "is_ascii_alphanumeric (to_ascii_lower c) \<or> to_ascii_lower c = CHR ''-'' \<Longrightarrow> label_char (to_ascii_lower c)"
proof -
  have up: "is_ascii_uppercase c \<Longrightarrow> code (to_ascii_lower c) = code c + 32"
    by (simp add: to_ascii_lower_def is_ascii_uppercase_def code_char_of)
  assume "is_ascii_alphanumeric (to_ascii_lower c) \<or> to_ascii_lower c = CHR ''-''"
  then show ?thesis
    using up by (cases "is_ascii_uppercase c")
      (auto simp: label_char_def is_ascii_alphanumeric_def is_ascii_alphabetic_def is_ascii_uppercase_def
        is_ascii_lowercase_def is_ascii_digit_def to_ascii_lower_def)
qed

lemma dropWhile_hd: "dropWhile P xs \<noteq> [] \<Longrightarrow> \<not> P (hd (dropWhile P xs))"
  by (induction xs) auto

lemma trim_matches_ends:
  assumes "trim_matches P s \<noteq> []"
  shows "\<not> P (hd (trim_matches P s))" "\<not> P (last (trim_matches P s))"
proof -
  let ?a = "dropWhile P s"
  have t: "trim_matches P s = rev (dropWhile P (rev ?a))"
    by (simp add: trim_matches_def trim_end_matches_def trim_start_matches_def)
  show "\<not> P (last (trim_matches P s))" using assms dropWhile_hd[of P "rev ?a"] by (simp add: t last_rev)
  obtain ys where "rev ?a = ys @ dropWhile P (rev ?a)" by (metis takeWhile_dropWhile_id)
  then have "?a = trim_matches P s @ rev ys" by (metis rev_append rev_rev_ident t)
  then have "hd ?a = hd (trim_matches P s)" "?a \<noteq> []" using assms by (metis hd_append2, simp)
  then show "\<not> P (hd (trim_matches P s))" using dropWhile_hd[of P s] by simp
qed

lemma trim_matches_subset: "set (trim_matches P s) \<subseteq> set s" "length (trim_matches P s) \<le> length s"
proof -
  show "set (trim_matches P s) \<subseteq> set s"
    by (auto simp: trim_matches_def trim_end_matches_def trim_start_matches_def dest!: set_dropWhileD)
  show "length (trim_matches P s) \<le> length s"
    using length_dropWhile_le[of P s] length_dropWhile_le[of P "rev (dropWhile P s)"]
    by (simp add: trim_matches_def trim_end_matches_def trim_start_matches_def)
qed

lemma name_base_valid:
  assumes "fallback \<in> {''job'', ''cluster''}" "7 \<le> n"
  shows "name_base n fallback name \<noteq> []" "length (name_base n fallback name) \<le> n"
    "list_all label_char (name_base n fallback name)" "hd (name_base n fallback name) \<noteq> CHR ''-''"
    "last (name_base n fallback name) \<noteq> CHR ''-''"
proof -
  let ?s = "take n (filter (\<lambda>c. is_ascii_alphanumeric c \<or> c = CHR ''-'') (str_ascii_lower name))"
  let ?b = "trim_matches (\<lambda>c. c = CHR ''-'') ?s"
  have n: "name_base n fallback name = (if ?b = [] then fallback else ?b)" by (simp add: name_base_def Let_def)
  have "list_all label_char ?s"
    using lower_label_char by (fastforce simp: list_all_iff str_ascii_lower_def dest!: in_set_takeD)
  then have b: "list_all label_char ?b" using trim_matches_subset(1) by (fastforce simp: list_all_iff)
  have l: "length ?b \<le> n" using trim_matches_subset(2)[of "\<lambda>c. c = CHR ''-''" ?s] by simp
  have f: "fallback \<noteq> []" "length fallback \<le> n" "list_all label_char fallback" "hd fallback \<noteq> CHR ''-''" "last fallback \<noteq> CHR ''-''"
    using assms by (auto simp: label_char_def is_ascii_lowercase_def code_def)
  show "name_base n fallback name \<noteq> []" "length (name_base n fallback name) \<le> n"
    "list_all label_char (name_base n fallback name)" "hd (name_base n fallback name) \<noteq> CHR ''-''"
    "last (name_base n fallback name) \<noteq> CHR ''-''"
    using f b l trim_matches_ends[of "\<lambda>c. c = CHR ''-''" ?s] by (simp_all add: n)
qed

lemma show_nat_length: "k < 10 ^ m \<Longrightarrow> 0 < m \<Longrightarrow> length (show_nat k) \<le> m"
proof (induction m arbitrary: k)
  case (Suc m)
  show ?case
  proof (cases "k < 10")
    case False
    then have "k div 10 < 10 ^ m" "0 < m" using Suc.prems by (auto simp: less_mult_imp_div_less mult.commute intro: Nat.gr0I)
    then show ?thesis using Suc.IH[of "k div 10"] False by (simp add: show_nat.simps[of k])
  qed (simp add: show_nat.simps[of k])
qed simp

lemma show_int_digits:
  assumes "0 \<le> n" "n < 10 ^ m" "0 < m"
  shows "list_all is_ascii_digit (show_int n)" "show_int n \<noteq> []" "length (show_int n) \<le> m"
proof -
  have s: "show_int n = show_nat (nat n)" using assms(1) by (simp add: show_int_def)
  have "nat n < 10 ^ m" using assms(1,2) by (simp add: nat_less_iff)
  then show "length (show_int n) \<le> m" using show_nat_length assms(3) by (simp add: s)
  show "list_all is_ascii_digit (show_int n)" "show_int n \<noteq> []" using show_nat_digits by (simp_all add: s)
qed

lemma digit_label: "is_ascii_digit c \<Longrightarrow> label_char c \<and> c \<noteq> CHR ''-''"
  by (auto simp: label_char_def is_ascii_digit_def code_def)

text \<open>A generated prefix becomes a name by five random letters and digits; the API server keeps 58 bytes of it.\<close>

definition name_prefix :: "string \<Rightarrow> bool" where
  "name_prefix s \<longleftrightarrow> s \<noteq> [] \<and> length s \<le> 58 \<and> list_all label_char s \<and> hd s \<noteq> CHR ''-''"

lemma job_prefix: "name_prefix (name_base 48 ''job'' name @ ''-rerun-'')"
  using name_base_valid[of "''job''" 48 name]
  by (auto simp: name_prefix_def label_char_def is_ascii_lowercase_def code_def)

lemma cluster_prefix: "name_prefix (name_base 48 ''cluster'' name @ ''-manual-'')"
  using name_base_valid[of "''cluster''" 48 name]
  by (auto simp: name_prefix_def label_char_def is_ascii_lowercase_def code_def)

lemma manual_label:
  assumes "0 \<le> ts" "ts < 10 ^ 15"
  shows "dns_label (name_base 40 ''job'' name @ ''-manual-'' @ show_int ts)"
proof -
  note d = show_int_digits[OF assms, simplified]
  have l: "list_all label_char (show_int ts)" using d(1) digit_label by (auto simp: list_all_iff)
  have "\<not> last (show_int ts) = CHR ''-''" using d(1,2) digit_label by (auto simp: list_all_iff)
  then show ?thesis using name_base_valid[of "''job''" 40 name] d l
    by (auto simp: dns_label_def label_char_def is_ascii_lowercase_def code_def)
qed

section \<open>Copies of objects\<close>

lemma hm_get_json_insert: "hm_get (json_insert k v es) k' = (if k' = k then Some v else hm_get es k')"
  by (induction k v es rule: json_insert.induct) auto

lemma map_of_filter_keys: "map_of (filter (\<lambda>(k, _). P k) es) k = (if P k then map_of es k else None)"
  by (induction es) auto

lemma map_of_modify: "map_of (map (\<lambda>(k', v). (k', if k' = k then f v else v)) es) k'' =
    map_option (\<lambda>v. if k'' = k then f v else v) (map_of es k'')"
  by (induction es) auto

lemma jget_modify: "jget (json_modify k f j) k' = map_option (\<lambda>v. if k' = k then f v else v) (jget j k')"
  by (cases j) (simp_all add: json_modify_def map_of_modify)

lemma jget_removed: "jget (json_remove ks j) k = (if k \<in> set ks then None else jget j k)"
  by (cases j) (simp_all add: json_remove_def map_of_filter_keys)

lemma put_issuing_others: "filter (\<lambda>c. \<not> is_issuing c) (put_issuing (issuing_condition g t) cs) = filter (\<lambda>c. \<not> is_issuing c) cs"
proof (cases "position is_issuing cs")
  case (Some i)
  have i: "i < length cs" "is_issuing (cs ! i)" using position_Some[OF Some] by simp_all
  have "filter (\<lambda>c. \<not> is_issuing c) (take i cs @ cs ! i # drop (Suc i) cs) =
      filter (\<lambda>c. \<not> is_issuing c) (take i cs @ drop (Suc i) cs)" using i(2) by simp
  then have "filter (\<lambda>c. \<not> is_issuing c) cs = filter (\<lambda>c. \<not> is_issuing c) (take i cs @ drop (Suc i) cs)"
    by (simp only: id_take_nth_drop[OF i(1), symmetric])
  then show ?thesis using Some i(1) by (simp add: put_issuing_def upd_conv_take_nth_drop issuing_condition_def)
qed (simp add: put_issuing_def issuing_condition_def)

lemma put_issuing_member: "issuing_condition g t \<in> set (put_issuing (issuing_condition g t) cs)"
  by (auto simp: put_issuing_def set_update_memI dest: position_Some split: option.splits)

section \<open>Properties\<close>


definition one_kind_env :: "unit kube_env" where
  "one_kind_env = \<lparr>kn_catalog = [\<lparr>rk_key = ''apps/v1/Deployment'', rk_group = ''apps'', rk_version = ''v1'', rk_kind = ''Deployment'',
       rk_plural = ''deployments'', rk_namespaced = True, rk_category = Workloads\<rparr>],
     kn_get = (\<lambda>_ _ _ w. (Inl (ErrApi 404 ''not found''), w)), kn_list = (\<lambda>_ _ w. (Inr [], w)),
     kn_list_pods = (\<lambda>_ w. (Inr [\<lparr>sp_name = Some ''a'', sp_namespace = Some ''n'', sp_deleting = False, sp_reason = None,
       sp_phase = Some ''Failed'', sp_containers = [], sp_init_containers = []\<rparr>], w)),
     kn_list_jobs = (\<lambda>_ w. (Inr [], w)), kn_write = (\<lambda>_ w. (Inr (), w)), kn_now = ''now'', kn_timestamp = 7,
     kn_from_value = Inr, kn_yaml = (\<lambda>_. Inl ''no document'')\<rparr>"

abbreviation fresh_kube :: "unit kube_st" where
  "fresh_kube \<equiv> \<lparr>kt_world = (), kt_writes = []\<rparr>"




text \<open>A manual renewal only marks the certificate for issuance: the conditions then hold \<open>Issuing\<close> for
  the current generation and every condition of another type as it was, in order; the rest of the status and
  of the object is unchanged.\<close>

theorem renewal_only_marks_issuing:
  assumes "mark_certificate_for_renewal c now = Inr c'"
  shows "\<exists>cs cs'. cs = unwrap_or [] (Option.bind (jpointer c [''status'', ''conditions'']) as_array)
    \<and> jpointer c' [''status'', ''conditions''] = Some (JArray cs')
    \<and> issuing_condition (unwrap_or 0 (Option.bind (jpointer c [''metadata'', ''generation'']) as_i64)) now \<in> set cs'
    \<and> filter (\<lambda>x. \<not> is_issuing x) cs' = filter (\<lambda>x. \<not> is_issuing x) cs
    \<and> (\<forall>k. jpointer c' [''status'', k] = (if k = ''conditions'' then Some (JArray cs') else jpointer c [''status'', k]))
    \<and> (\<forall>k. jget c' k = (if k = ''status'' then jget c' k else jget c k))"
proof -
  let ?g = "unwrap_or 0 (Option.bind (jpointer c [''metadata'', ''generation'']) as_i64)"
  from assms obtain root status conditions where root: "as_object c = Some root"
    and status: "as_object (unwrap_or (JObject []) (hm_get root ''status'')) = Some status"
    and conditions: "as_array (unwrap_or (JArray []) (hm_get status ''conditions'')) = Some conditions"
    and c': "c' = JObject (json_insert ''status'' (JObject (json_insert ''conditions''
        (JArray (put_issuing (issuing_condition ?g now) conditions)) status)) root)"
    by (auto simp: mark_certificate_for_renewal_def result_iff Let_def)
  have c: "c = JObject root" using root by (cases c) (simp_all add: as_object_def)
  have st: "hm_get root ''status'' = Some (JObject status) \<or> hm_get root ''status'' = None \<and> status = []"
    using status by (auto simp: as_object_def unwrap_or_def split: option.splits json.splits)
  have co: "hm_get status ''conditions'' = Some (JArray conditions) \<or> hm_get status ''conditions'' = None \<and> conditions = []"
    using conditions by (auto simp: as_array_def unwrap_or_def split: option.splits json.splits)
  have old: "unwrap_or [] (Option.bind (jpointer c [''status'', ''conditions'']) as_array) = conditions"
    using st co by (auto simp: c as_array_def unwrap_or_def)
  have new: "jpointer c' [''status'', k] =
      (if k = ''conditions'' then Some (JArray (put_issuing (issuing_condition ?g now) conditions)) else hm_get status k)" for k
    by (simp add: c' hm_get_json_insert split: option.split)
  have same: "jpointer c [''status'', k] = hm_get status k" for k using st by (auto simp: c split: option.split)
  show ?thesis unfolding old
    by (rule exI[of _ conditions], rule exI[of _ "put_issuing (issuing_condition ?g now) conditions"])
      (simp add: new same put_issuing_others put_issuing_member del: jpointer.simps, simp add: c' c hm_get_json_insert)
qed

theorem renewal_only_marks_issuing_witness:
  "\<exists>c' cs'. mark_certificate_for_renewal (JObject [(''kind'', JString ''Certificate''), (''status'', JObject [(''conditions'',
       JArray [JObject [(''type'', JString ''Ready'')], JObject [(''type'', JString ''Issuing'')]])])]) ''now'' = Inr c'
     \<and> jpointer c' [''status'', ''conditions''] = Some (JArray cs') \<and> issuing_condition 0 ''now'' \<in> set cs'"
proof -
  let ?c = "JObject [(''kind'', JString ''Certificate''), (''status'', JObject [(''conditions'',
       JArray [JObject [(''type'', JString ''Ready'')], JObject [(''type'', JString ''Issuing'')]])])]"
  obtain c' where m: "mark_certificate_for_renewal ?c ''now'' = Inr c'"
    by (simp add: mark_certificate_for_renewal_def as_object_def as_array_def unwrap_or_def and_then_def ok_or_def)
  from renewal_only_marks_issuing[OF m] m show ?thesis by (fastforce simp: unwrap_or_def)
qed

text \<open>A re-run is a clean copy of an ended Job: it gets a generated name, and its specification is that
  of the source without the selector and without the labels the Job controller generated for the source's pods.\<close>

theorem rerun_is_a_clean_copy:
  assumes "build_rerun_job env data ns name = Inr job" and "\<And>j. kn_from_value env j = Inr j"
  shows "lifecycle_is_terminal (job_lifecycle_of data)
    \<and> (\<exists>p. jpointer job [''metadata'', ''generateName''] = Some (JString p) \<and> name_prefix p)
    \<and> jpointer job [''metadata'', ''namespace''] = Some (JString ns)
    \<and> jpointer job [''spec'', ''selector''] = None \<and> jpointer job [''spec'', ''manualSelector''] = None
    \<and> (\<forall>k. k \<notin> {''selector'', ''manualSelector'', ''template''} \<longrightarrow> jpointer job [''spec'', k] = jpointer data [''spec'', k])
    \<and> (\<forall>l. jpointer job [''spec'', ''template'', ''metadata'', ''labels'', l] =
         (if l \<in> set generated_labels then None else jpointer data [''spec'', ''template'', ''metadata'', ''labels'', l]))
    \<and> (\<forall>k. k \<noteq> ''metadata'' \<longrightarrow> jpointer job [''spec'', ''template'', k] = jpointer data [''spec'', ''template'', k])"
proof -
  from assms obtain spec where t: "lifecycle_is_terminal (job_lifecycle_of data)" and s: "jget data ''spec'' = Some spec"
    and job: "job = JObject [(''apiVersion'', JString ''batch/v1''), (''kind'', JString ''Job''),
         (''metadata'', JObject [(''generateName'', JString (name_base 48 ''job'' name @ ''-rerun-'')),
           (''namespace'', JString ns)]), (''spec'', rerun_spec spec)]"
    by (auto simp: build_rerun_job_def result_iff from_value_def split: if_splits)
  show ?thesis using t s job_prefix[of name]
    by (simp add: job rerun_spec_def jget_modify jget_removed split: option.split)
qed

theorem rerun_is_a_clean_copy_witness:
  "\<exists>job p. build_rerun_job one_kind_env (JObject [(''spec'', JObject [(''selector'', JNull)]),
       (''status'', JObject [(''conditions'', JArray [JObject [(''type'', JString ''Complete''), (''status'', JString ''True'')]])])])
       ''n'' ''Batch'' = Inr job
     \<and> jpointer job [''metadata'', ''generateName''] = Some (JString p) \<and> name_prefix p \<and> jpointer job [''spec'', ''selector''] = None"
proof -
  let ?data = "JObject [(''spec'', JObject [(''selector'', JNull)]),
       (''status'', JObject [(''conditions'', JArray [JObject [(''type'', JString ''Complete''), (''status'', JString ''True'')]])])]"
  have t: "lifecycle_is_terminal (job_lifecycle_of ?data)" by code_simp
  obtain job where j: "build_rerun_job one_kind_env ?data ''n'' ''Batch'' = Inr job"
    using t by (simp add: build_rerun_job_def from_value_def one_kind_env_def as_object_def and_then_def ok_or_def)
  have v: "\<And>j. kn_from_value one_kind_env j = Inr j" by (simp add: one_kind_env_def)
  from rerun_is_a_clean_copy[OF j v] j show ?thesis by blast
qed

text \<open>The names given to generated objects are valid: a triggered Job is named by a DNS label at any time
  of the next thirty thousand years, and the name of a Backup starts with a valid prefix the API server completes.\<close>

theorem generated_names_are_valid:
  assumes "0 \<le> ts" "ts < 10 ^ 15" and "build_backup grp version ns cluster data schedules = Inr backup"
  shows "\<exists>n p. jpointer (trigger_job spec name cns ts cronjob) [''metadata'', ''name''] = Some (JString n) \<and> dns_label n
    \<and> jpointer backup [''metadata'', ''generateName''] = Some (JString p) \<and> name_prefix p"
proof -
  obtain t where t: "backup_template_of cluster data schedules = Inr t"
    using assms(3) by (auto simp: build_backup_def result_iff)
  have b: "backup = JObject [(''apiVersion'', JString (grp @ ''/'' @ version)), (''kind'', JString ''Backup''),
       (''metadata'', JObject (if bt_annotations t = []
           then [(''generateName'', JString (name_base 48 ''cluster'' cluster @ ''-manual-'')), (''namespace'', JString ns)]
           else json_insert ''annotations'' (JObject (bt_annotations t))
             [(''generateName'', JString (name_base 48 ''cluster'' cluster @ ''-manual-'')), (''namespace'', JString ns)])),
       (''spec'', JObject (bt_spec t))]"
    using assms(3) by (simp add: build_backup_def t Let_def)
  show ?thesis using manual_label[OF assms(1,2)] cluster_prefix[of cluster]
    by (simp add: b trigger_job_def hm_get_json_insert)
qed

theorem generated_names_are_valid_witness:
  "\<exists>n. jpointer (trigger_job JNull ''Nightly_Build'' None 1700000000 JNull) [''metadata'', ''name''] = Some (JString n) \<and> dns_label n"
proof -
  obtain b where b: "build_backup ''postgresql.cnpg.io'' ''v1'' ''n'' ''db''
      (JObject [(''spec'', JObject [(''backup'', JObject [(''barmanObjectStore'', JObject [])])])]) [] = Inr b"
    by (simp add: build_backup_def backup_template_of_def and_then_def Let_def)
  show ?thesis using generated_names_are_valid[OF _ _ b, of 1700000000 JNull "''Nightly_Build''" None JNull] by auto
qed

end
