(* ===== verification/Ansi.thy ===== *)
theory Ansi
  imports RustStr
begin

text \<open>
  ANSI escape sequences in log lines, as HTML and removed (\<open>src/app/util/format/ansi.rs\<close>).  Every character
  the code looks at is ASCII, so a line is read byte by byte.
\<close>

section \<open>Rendering\<close>

abbreviation escape_char :: char where
  "escape_char \<equiv> CHR 0x1B"

text \<open>The bytes that end a CSI sequence.\<close>

definition csi_final :: "char \<Rightarrow> bool" where
  "csi_final c \<longleftrightarrow> 64 \<le> code c \<and> code c \<le> 126"

fun take_csi :: "string \<Rightarrow> (string \<times> char \<times> string) option" where
  "take_csi [] = None"
| "take_csi (c # s) =
     (if csi_final c then Some ([], c, s)
      else map_option (\<lambda>(params, final, rest). (c # params, final, rest)) (take_csi s))"

lemma take_csi_Some: "take_csi s = Some (params, final, rest) \<Longrightarrow>
    s = params @ final # rest \<and> csi_final final \<and> list_all (\<lambda>c. \<not> csi_final c) params"
  by (induction s arbitrary: params) (auto split: if_splits)

lemma take_csi_None: "take_csi s = None \<longleftrightarrow> list_all (\<lambda>c. \<not> csi_final c) s"
  by (induction s) auto

lemma take_csi_shorter: "take_csi (tl s) = Some (params, final, rest) \<Longrightarrow> length rest < Suc (length s)"
  by (cases s) (auto dest!: take_csi_Some)

lemma starts_with_bracket: "starts_with s [c] \<longleftrightarrow> (\<exists>r. s = c # r)"
  by (auto simp: starts_with_iff)

definition ansi_color :: "nat \<Rightarrow> string" where
  "ansi_color n = ''ansi-'' @ show_nat n"

definition html_char :: "char \<Rightarrow> string" where
  "html_char c = (if c = CHR ''&'' then ''&amp;'' else if c = CHR ''<'' then ''&lt;'' else if c = CHR ''>'' then ''&gt;''
     else if c = CHR 0x22 then ''&quot;'' else [c])"

definition quoted_class :: "string \<Rightarrow> string" where
  "quoted_class c = ''<span class='' @ CHR 0x22 # c @ CHR 0x22 # ''>''"

definition span_end :: string where
  "span_end = ''</span>''"

definition close_if_any :: "bool \<Rightarrow> string option \<Rightarrow> string" where
  "close_if_any bold fg = (if fg \<noteq> None then span_end else []) @ (if bold then span_end else [])"

definition open_if_any :: "bool \<Rightarrow> string option \<Rightarrow> string" where
  "open_if_any bold fg = (if bold then quoted_class ''ansi-bold'' else [])
     @ (case fg of None \<Rightarrow> [] | Some c \<Rightarrow> quoted_class c)"

text \<open>The loop over the codes of one sequence: what it writes, and the state after it.\<close>

abbreviation switch_to :: "bool \<Rightarrow> string option \<Rightarrow> bool \<Rightarrow> string option \<Rightarrow> string" where
  "switch_to bold fg bold' fg' \<equiv> close_if_any bold fg @ open_if_any bold' fg'"

text \<open>One code \<open>n\<close> with those after it: what is written, the state, and how many of them it takes along.\<close>

definition sgr_code :: "nat \<Rightarrow> nat list \<Rightarrow> bool \<Rightarrow> string option \<Rightarrow> string \<times> bool \<times> string option \<times> nat" where
  "sgr_code n codes bold fg =
     (let colored = (\<lambda>c skip. (switch_to bold fg bold (Some c), bold, Some c, skip)) in
      if n = 0 then (close_if_any bold fg, False, None, 0)
      else if n = 1 \<and> \<not> bold then (switch_to bold fg True fg, True, fg, 0)
      else if n = 22 \<and> bold then (close_if_any bold fg, False, fg, 0)
      else if 30 \<le> n \<and> n \<le> 37 then colored (ansi_color (n - 30)) 0
      else if n = 38 then
        (if length codes > 1 \<and> codes ! 0 = 5
           then colored (if codes ! 1 < 16 then ansi_color (codes ! 1) else ''ansi-ext'') 2
         else if length codes > 3 \<and> codes ! 0 = 2 then colored ''ansi-ext'' 4
         else ([], bold, fg, 0))
      else if n = 39 then (switch_to bold fg bold None, bold, None, 0)
      else if 90 \<le> n \<and> n \<le> 97 then colored (ansi_color (n - 90 + 8)) 0
      else ([], bold, fg, 0))"

function sgr_codes :: "nat list \<Rightarrow> bool \<Rightarrow> string option \<Rightarrow> string \<times> bool \<times> string option" where
  "sgr_codes [] bold fg = ([], bold, fg)"
| "sgr_codes (n # codes) bold fg = (case sgr_code n codes bold fg of (out, bold', fg', skip) \<Rightarrow>
     (case sgr_codes (drop skip codes) bold' fg' of (out', st) \<Rightarrow> (out @ out', st)))"
  by pat_completeness auto
termination
  by (relation "measure (\<lambda>(codes, _, _). length codes)") auto

definition sgr :: "string \<Rightarrow> bool \<Rightarrow> string option \<Rightarrow> string \<times> bool \<times> string option" where
  "sgr params bold fg =
     (let given = trim_end_matches (\<lambda>c. c = CHR '';'') params in
      if given = [] \<or> given = ''0'' then (close_if_any bold fg, False, None)
      else sgr_codes (List.map_filter parse_u32 (split_on (CHR '';'') given)) bold fg)"

function (sequential) ansi_loop :: "string \<Rightarrow> bool \<Rightarrow> string option \<Rightarrow> string" where
  "ansi_loop [] bold fg = close_if_any bold fg"
| "ansi_loop (c # s) bold fg =
     (if c \<noteq> escape_char then html_char c @ ansi_loop s bold fg
      else if \<not> starts_with s ''['' then c # ansi_loop s bold fg
      else (case take_csi (tl s) of
          None \<Rightarrow> (c # s) @ close_if_any bold fg
        | Some (params, final, rest) \<Rightarrow>
            if final \<noteq> CHR ''m'' then ansi_loop rest bold fg
            else (case sgr params bold fg of (out, bold', fg') \<Rightarrow> out @ ansi_loop rest bold' fg')))"
  by pat_completeness auto
termination
  by (relation "measure (\<lambda>(s, _, _). length s)") (auto dest!: take_csi_shorter)

definition ansi_to_html :: "string \<Rightarrow> string" where
  "ansi_to_html raw = ansi_loop raw False None"

function (sequential) strip_ansi :: "string \<Rightarrow> string" where
  "strip_ansi [] = []"
| "strip_ansi (c # s) =
     (if c \<noteq> escape_char then c # strip_ansi s
      else if \<not> starts_with s ''['' then c # strip_ansi s
      else (case take_csi (tl s) of None \<Rightarrow> [] | Some (_, _, rest) \<Rightarrow> strip_ansi rest))"
  by pat_completeness auto
termination
  by (relation "measure length") (auto dest!: take_csi_shorter)

section \<open>The parts of a line\<close>

text \<open>A byte of text, a sequence with its parameters and its final byte, or the sequence the line ends in.\<close>

datatype ansi_token = Text char | Csi string char | Unfinished string

function (sequential) ansi_tokens :: "string \<Rightarrow> ansi_token list" where
  "ansi_tokens [] = []"
| "ansi_tokens (c # s) =
     (if c \<noteq> escape_char then Text c # ansi_tokens s
      else if \<not> starts_with s ''['' then Text c # ansi_tokens s
      else (case take_csi (tl s) of
          None \<Rightarrow> [Unfinished (tl s)]
        | Some (params, final, rest) \<Rightarrow> Csi params final # ansi_tokens rest))"
  by pat_completeness auto
termination
  by (relation "measure length") (auto dest!: take_csi_shorter)

text \<open>Rendering and stripping, over the parts.\<close>

fun render :: "ansi_token list \<Rightarrow> bool \<Rightarrow> string option \<Rightarrow> string" where
  "render [] bold fg = close_if_any bold fg"
| "render (Text c # ts) bold fg = (if c = escape_char then [c] else html_char c) @ render ts bold fg"
| "render (Unfinished s # ts) bold fg = escape_char # CHR ''['' # s @ close_if_any bold fg"
| "render (Csi params final # ts) bold fg =
     (if final \<noteq> CHR ''m'' then render ts bold fg
      else (case sgr params bold fg of (out, bold', fg') \<Rightarrow> out @ render ts bold' fg'))"

lemma ansi_loop_render: "ansi_loop raw bold fg = render (ansi_tokens raw) bold fg"
  by (induction raw bold fg rule: ansi_loop.induct)
    (auto simp: starts_with_bracket split: option.splits prod.splits)

fun plain_text :: "ansi_token list \<Rightarrow> string" where
  "plain_text [] = []"
| "plain_text (Text c # ts) = c # plain_text ts"
| "plain_text (Csi params final # ts) = plain_text ts"
| "plain_text (Unfinished s # ts) = plain_text ts"

lemma strip_ansi_text: "strip_ansi raw = plain_text (ansi_tokens raw)"
  by (induction raw rule: strip_ansi.induct)
    (auto simp: starts_with_bracket split: option.splits prod.splits)

lemma unfinished_tail: "Unfinished t \<in> set (ansi_tokens raw) \<Longrightarrow> list_all (\<lambda>c. \<not> csi_final c) t"
  by (induction raw rule: ansi_tokens.induct) (auto simp: take_csi_None split: if_splits option.splits prod.splits)

section \<open>Tags\<close>

definition ansi_colors :: "string list" where
  "ansi_colors = ''ansi-ext'' # map ansi_color [0..<16]"

definition ansi_tags :: "string list" where
  "ansi_tags = span_end # map quoted_class (''ansi-bold'' # ansi_colors)"

definition color_ok :: "string option \<Rightarrow> bool" where
  "color_ok fg \<longleftrightarrow> (case fg of None \<Rightarrow> True | Some c \<Rightarrow> c \<in> set ansi_colors)"

lemma color_ok_simps [simp]: "color_ok None" "color_ok (Some c) \<longleftrightarrow> c \<in> set ansi_colors"
  by (simp_all add: color_ok_def)

lemma ansi_color_ok: "n < 16 \<Longrightarrow> ansi_color n \<in> set ansi_colors"
  by (simp add: ansi_colors_def)

text \<open>What a piece of markup adds to the depth of the open spans.\<close>

inductive markup :: "nat \<Rightarrow> string \<Rightarrow> nat \<Rightarrow> bool" where
  markup_nil: "markup n [] n"
| markup_open: "c \<in> set (''ansi-bold'' # ansi_colors) \<Longrightarrow> markup (Suc n) s m \<Longrightarrow> markup n (quoted_class c @ s) m"
| markup_close: "markup n s m \<Longrightarrow> markup (Suc n) (span_end @ s) m"

lemma markup_append: "markup n s m \<Longrightarrow> markup m t k \<Longrightarrow> markup n (s @ t) k"
  by (induction rule: markup.induct) (simp_all add: markup.intros)

text \<open>The spans a state has open.\<close>

definition opened :: "bool \<Rightarrow> string option \<Rightarrow> nat" where
  "opened bold fg = (if bold then 1 else 0) + (if fg \<noteq> None then 1 else 0)"

lemma markup_closes: "markup (opened bold fg) (close_if_any bold fg) 0"
  using markup_close[OF markup_nil[of 0]] markup_close[OF markup_close[OF markup_nil[of 0]]]
  by (auto simp: opened_def close_if_any_def markup_nil)

lemma markup_opens: "color_ok fg \<Longrightarrow> markup 0 (open_if_any bold fg) (opened bold fg)"
  using markup_open[of _ 0 "[]" "Suc 0", OF _ markup_nil]
    markup_open[of "''ansi-bold''" 0 _ "Suc (Suc 0)"] markup_open[of _ "Suc 0" "[]" "Suc (Suc 0)", OF _ markup_nil] markup_nil
  by (auto simp: opened_def open_if_any_def color_ok_def split: option.splits)

lemma markup_switch: "color_ok fg' \<Longrightarrow> markup (opened bold fg) (switch_to bold fg bold' fg') (opened bold' fg')"
  by (rule markup_append[OF markup_closes markup_opens])

lemma sgr_code_color: "sgr_code n codes bold fg = (out, bold', fg', skip) \<Longrightarrow> color_ok fg \<Longrightarrow> color_ok fg'"
  by (auto simp: sgr_code_def Let_def ansi_color_ok ansi_colors_def split: if_splits)

text \<open>Every code keeps the account of open spans, but the one that ends bold while a colour is on.\<close>

lemma sgr_code_markup:
  "sgr_code n codes bold fg = (out, bold', fg', skip) \<Longrightarrow> color_ok fg \<Longrightarrow> n \<noteq> 22 \<or> fg = None \<Longrightarrow>
   markup (opened bold fg) out (opened bold' fg')"
  using sgr_code_color[of n codes bold fg out bold' fg' skip] markup_closes[of bold fg] markup_switch[of fg' bold fg bold']
  by (auto simp: sgr_code_def Let_def opened_def markup_nil split: if_splits)

lemma sgr_codes_markup:
  "sgr_codes codes bold fg = (out, bold', fg') \<Longrightarrow> color_ok fg \<Longrightarrow>
   color_ok fg' \<and> (22 \<notin> set codes \<longrightarrow> markup (opened bold fg) out (opened bold' fg'))"
proof (induction codes bold fg arbitrary: out bold' fg' rule: sgr_codes.induct)
  case (2 n codes bold fg)
  obtain out1 bold1 fg1 skip where 1: "sgr_code n codes bold fg = (out1, bold1, fg1, skip)" by (metis prod_cases4)
  obtain out2 where 2: "sgr_codes (drop skip codes) bold1 fg1 = (out2, bold', fg')" "out = out1 @ out2"
    using "2.prems"(1) 1 by (auto split: prod.splits)
  have "set (drop skip codes) \<subseteq> set codes" by (rule set_drop_subset)
  with "2.IH"[OF 1[symmetric] refl refl 2(1)] sgr_code_color[OF 1 "2.prems"(2)] sgr_code_markup[OF 1 "2.prems"(2)]
  show ?case by (auto simp: 2(2) intro: markup_append)
qed (auto simp: markup_nil)

text \<open>The numbers of a sequence.\<close>

definition sgr_numbers :: "string \<Rightarrow> nat list" where
  "sgr_numbers params = List.map_filter parse_u32 (split_on (CHR '';'') (trim_end_matches (\<lambda>c. c = CHR '';'') params))"

lemma sgr_markup:
  "sgr params bold fg = (out, bold', fg') \<Longrightarrow> color_ok fg \<Longrightarrow>
   color_ok fg' \<and> (22 \<notin> set (sgr_numbers params) \<longrightarrow> markup (opened bold fg) out (opened bold' fg'))"
  using markup_closes[of bold fg] sgr_codes_markup[of "sgr_numbers params" bold fg out bold' fg']
  by (auto simp: sgr_def sgr_numbers_def Let_def opened_def split: if_splits)

section \<open>Reading the markup\<close>

text \<open>The depth of open spans along a string, if it never closes one that is not open.\<close>

fun spans :: "string \<Rightarrow> nat \<Rightarrow> nat option" where
  "spans [] n = Some n"
| "spans (c # s) n =
     (if starts_with (c # s) ''<span '' then spans s (Suc n)
      else if starts_with (c # s) span_end then (case n of 0 \<Rightarrow> None | Suc m \<Rightarrow> spans s m)
      else spans s n)"

text \<open>A browser starts an element at a \<open><\<close> before a letter, and ends one at \<open></\<close> before a letter.\<close>

definition tag_start :: "string \<Rightarrow> bool" where
  "tag_start s \<longleftrightarrow> (case s of
     CHR ''<'' # c # r \<Rightarrow> is_ascii_alphabetic c \<or> (c = CHR ''/'' \<and> (case r of d # _ \<Rightarrow> is_ascii_alphabetic d | [] \<Rightarrow> False))
   | _ \<Rightarrow> False)"

definition only_own_tags :: "string \<Rightarrow> bool" where
  "only_own_tags s \<longleftrightarrow> (\<forall>a b. s = a @ b \<and> tag_start b \<longrightarrow> list_ex (starts_with b) ansi_tags)"

lemma append_split: "CHR ''<'' \<notin> set x \<Longrightarrow> x @ s = a @ CHR ''<'' # b \<Longrightarrow> \<exists>a'. a = x @ a' \<and> s = a' @ CHR ''<'' # b"
  by (auto simp: append_eq_append_conv2 append_eq_Cons_conv)

lemma tag_start_Cons: "tag_start b \<Longrightarrow> \<exists>r. b = CHR ''<'' # r"
  by (auto simp: tag_start_def split: list.splits char.splits bool.splits if_splits)

lemma own_tags_plain: "CHR ''<'' \<notin> set x \<Longrightarrow> only_own_tags s \<Longrightarrow> only_own_tags (x @ s)"
  unfolding only_own_tags_def by (metis append_split tag_start_Cons)

lemma own_tags_tag:
  assumes "t \<in> set ansi_tags" "t = CHR ''<'' # x" "CHR ''<'' \<notin> set x" "only_own_tags s"
  shows "only_own_tags (t @ s)"
  unfolding only_own_tags_def
proof (intro allI impI)
  fix a b
  assume ab: "t @ s = a @ b \<and> tag_start b"
  show "list_ex (starts_with b) ansi_tags"
  proof (cases a)
    case Nil
    with ab have "starts_with b t" by (auto simp: starts_with_iff)
    then show ?thesis using assms(1) by (auto simp: list_ex_iff)
  next
    case (Cons c a')
    with ab assms(2) have "x @ s = a' @ b" by simp
    then show ?thesis using own_tags_plain[OF assms(3,4)] ab by (auto simp: only_own_tags_def)
  qed
qed

lemma show_nat_alnum: "c \<in> set (show_nat n) \<Longrightarrow> is_ascii_digit c"
  using show_nat_digits[of n] by (simp add: list_all_iff)

lemma color_plain: "c \<in> set (''ansi-bold'' # ansi_colors) \<Longrightarrow> CHR ''<'' \<notin> set c"
  by (auto simp: ansi_colors_def ansi_color_def is_ascii_digit_def code_def dest!: show_nat_alnum)

lemma quoted_class_tag:
  assumes "c \<in> set (''ansi-bold'' # ansi_colors)"
  shows "quoted_class c \<in> set ansi_tags \<and> (\<exists>x. quoted_class c = CHR ''<'' # x \<and> CHR ''<'' \<notin> set x)"
  using assms color_plain[OF assms] by (auto simp: ansi_tags_def quoted_class_def)

lemma markup_own_tags: "markup n t m \<Longrightarrow> only_own_tags s \<Longrightarrow> only_own_tags (t @ s)"
proof (induction rule: markup.induct)
  case (markup_open c n t m)
  then show ?case using quoted_class_tag[OF markup_open.hyps(1)] own_tags_tag by (metis append_assoc)
next
  case (markup_close n t m)
  then show ?case using own_tags_tag[of span_end "tl span_end" "t @ s"] by (simp add: ansi_tags_def span_end_def)
qed simp

lemma markup_shift: "markup n s m \<Longrightarrow> markup (n + k) s (m + k)"
  by (induction rule: markup.induct) (simp_all add: markup.intros)

definition tagged :: "string \<Rightarrow> bool" where
  "tagged s \<longleftrightarrow> (\<exists>n m. markup n s m)"

lemma tagged_append: "tagged s \<Longrightarrow> tagged t \<Longrightarrow> tagged (s @ t)"
  unfolding tagged_def by (metis markup_append markup_shift add.commute)

lemma tagged_markup: "markup n s m \<Longrightarrow> tagged s"
  by (auto simp: tagged_def)

lemmas tagged_basics = tagged_markup[OF markup_nil] tagged_markup[OF markup_closes] tagged_markup[OF markup_switch]

lemma sgr_code_tagged: "sgr_code n codes bold fg = (out, bold', fg', skip) \<Longrightarrow> color_ok fg \<Longrightarrow> tagged out"
proof (cases "n = 22")
  case True
  moreover assume "sgr_code n codes bold fg = (out, bold', fg', skip)"
  ultimately show ?thesis by (auto simp: sgr_code_def tagged_basics split: if_splits)
next
  case False
  assume "sgr_code n codes bold fg = (out, bold', fg', skip)" "color_ok fg"
  from sgr_code_markup[OF this] False show ?thesis by (auto intro: tagged_markup)
qed

lemma sgr_codes_tagged: "sgr_codes codes bold fg = (out, bold', fg') \<Longrightarrow> color_ok fg \<Longrightarrow> tagged out"
proof (induction codes bold fg arbitrary: out bold' fg' rule: sgr_codes.induct)
  case (2 n codes bold fg)
  obtain out1 bold1 fg1 skip where 1: "sgr_code n codes bold fg = (out1, bold1, fg1, skip)" by (metis prod_cases4)
  obtain out2 where 2: "sgr_codes (drop skip codes) bold1 fg1 = (out2, bold', fg')" "out = out1 @ out2"
    using "2.prems"(1) 1 by (auto split: prod.splits)
  show ?case
    unfolding 2(2) using "2.IH"[OF 1[symmetric] refl refl 2(1)] sgr_code_color[OF 1 "2.prems"(2)] sgr_code_tagged[OF 1 "2.prems"(2)]
    by (simp add: tagged_append)
qed (auto simp: tagged_basics)

lemma sgr_tagged: "sgr params bold fg = (out, bold', fg') \<Longrightarrow> color_ok fg \<Longrightarrow> tagged out"
  by (auto simp: sgr_def Let_def tagged_basics sgr_codes_tagged split: if_splits)

lemma own_tags_tagged: "tagged t \<Longrightarrow> only_own_tags s \<Longrightarrow> only_own_tags (t @ s)"
  by (auto simp: tagged_def markup_own_tags)

lemma own_tags_Nil [simp]: "only_own_tags []"
  by (simp add: only_own_tags_def tag_start_def)

lemma own_tags_Cons: "only_own_tags (c # s) \<longleftrightarrow> (tag_start (c # s) \<longrightarrow> list_ex (starts_with (c # s)) ansi_tags) \<and> only_own_tags s"
  unfolding only_own_tags_def by (metis append_Cons append_Nil neq_Nil_conv list.inject)

text \<open>The tail of an unfinished sequence contains no letter, so it starts no tag.\<close>

lemma letterless: "\<not> csi_final c \<Longrightarrow> \<not> is_ascii_alphabetic c"
  by (auto simp: csi_final_def is_ascii_alphabetic_def is_ascii_uppercase_def is_ascii_lowercase_def)

lemma own_tags_letterless:
  assumes "list_all (\<lambda>c. \<not> csi_final c) x" "only_own_tags s" "s = [] \<or> hd s = CHR ''<''"
  shows "only_own_tags (x @ s)"
  using assms(1)
proof (induction x)
  case (Cons c x)
  have h: "s = CHR ''<'' # r \<Longrightarrow> \<not> is_ascii_alphabetic (CHR ''<'')" for r
    by (simp add: is_ascii_alphabetic_def is_ascii_uppercase_def is_ascii_lowercase_def code_def)
  have "\<not> tag_start (c # x @ s)"
  proof
    assume "tag_start (c # x @ s)"
    then obtain d r where d: "x @ s = d # r" "is_ascii_alphabetic d \<or> d = CHR ''/'' \<and> (case r of e # _ \<Rightarrow> is_ascii_alphabetic e | [] \<Rightarrow> False)"
      by (auto simp: tag_start_def split: list.splits char.splits bool.splits)
    show False
    proof (cases x)
      case Nil
      with d assms(3) h show False by (cases s) auto
    next
      case (Cons e x')
      with d Cons.prems letterless have "d = CHR ''/''" "x' @ s = r" "case r of e # _ \<Rightarrow> is_ascii_alphabetic e | [] \<Rightarrow> False" by auto
      then show False
        using \<open>x = e # x'\<close> Cons.prems assms(3) h letterless by (cases x'; cases s) auto
    qed
  qed
  with Cons show ?case by (simp add: own_tags_Cons)
qed (simp add: assms(2))

lemma close_head: "close_if_any bold fg = [] \<or> hd (close_if_any bold fg) = CHR ''<''"
  by (auto simp: close_if_any_def span_end_def)

lemma render_own_tags:
  "color_ok fg \<Longrightarrow> (\<And>t. Unfinished t \<in> set ts \<Longrightarrow> list_all (\<lambda>c. \<not> csi_final c) t) \<Longrightarrow> only_own_tags (render ts bold fg)"
proof (induction ts bold fg rule: render.induct)
  case (1 bold fg)
  then show ?case using own_tags_tagged[OF tagged_basics(2) own_tags_Nil] by simp
next
  case (2 c ts bold fg)
  then show ?case by (simp add: own_tags_plain html_char_def)
next
  case (3 t ts bold fg)
  have "only_own_tags (t @ close_if_any bold fg)"
    using 3 own_tags_tagged[OF tagged_basics(2) own_tags_Nil] close_head by (intro own_tags_letterless) auto
  then show ?case using own_tags_plain[of "[escape_char, CHR ''['']"] by simp
next
  case (4 params final ts bold fg)
  then show ?case using sgr_tagged sgr_markup by (fastforce intro: own_tags_tagged split: prod.splits)
qed

lemma spans_plain: "CHR ''<'' \<notin> set x \<Longrightarrow> spans (x @ s) n = spans s n"
  by (induction x) (auto simp: span_end_def)

lemma spans_class: "c \<in> set (''ansi-bold'' # ansi_colors) \<Longrightarrow> spans (quoted_class c @ s) n = spans s (Suc n)"
  using spans_plain[of "''span class='' @ CHR 0x22 # c @ CHR 0x22 # ''>''"] color_plain[of c]
  by (simp add: quoted_class_def)

lemma spans_end: "spans (span_end @ s) (Suc n) = spans s n"
  using spans_plain[of "tl span_end"] by (simp add: span_end_def)

lemma spans_markup: "markup n t m \<Longrightarrow> spans (t @ s) n = spans s m"
  by (induction rule: markup.induct) (simp_all add: spans_class spans_end)

lemma spans_closes: "spans (close_if_any bold fg) (opened bold fg) = Some 0"
  using spans_markup[OF markup_closes, of bold fg "[]"] by simp

lemma spans_letterless:
  "list_all (\<lambda>c. \<not> csi_final c) x \<Longrightarrow> spans (x @ close_if_any bold fg) n = spans (close_if_any bold fg) n"
proof (induction x)
  case (Cons c x)
  have "\<not> starts_with (c # x @ close_if_any bold fg) t" if "t = ''<span '' \<or> t = span_end" for t
    using that Cons.prems close_head[of bold fg]
    by (cases x; cases "tl x"; cases "close_if_any bold fg") (auto simp: span_end_def csi_final_def code_def)
  from this[of "''<span ''"] this[of span_end] Cons show ?case by (simp del: starts_with_Cons)
qed simp

lemma render_spans:
  "color_ok fg \<Longrightarrow> (\<And>t. Unfinished t \<in> set ts \<Longrightarrow> list_all (\<lambda>c. \<not> csi_final c) t) \<Longrightarrow>
   (\<And>params. Csi params (CHR ''m'') \<in> set ts \<Longrightarrow> 22 \<notin> set (sgr_numbers params)) \<Longrightarrow>
   spans (render ts bold fg) (opened bold fg) = Some 0"
proof (induction ts bold fg rule: render.induct)
  case (1 bold fg)
  then show ?case by (simp add: spans_closes)
next
  case (2 c ts bold fg)
  then show ?case by (simp add: spans_plain html_char_def span_end_def)
next
  case (3 t ts bold fg)
  then have "spans (t @ close_if_any bold fg) (opened bold fg) = Some 0" by (simp add: spans_letterless spans_closes)
  then show ?case by (simp add: span_end_def)
next
  case (4 params final ts bold fg)
  show ?case
  proof (cases "final = CHR ''m''")
    case True
    obtain out bold' fg' where g: "sgr params bold fg = (out, bold', fg')" by (metis prod_cases3)
    from sgr_markup[OF g 4(3)] 4(5) True have "color_ok fg'" "markup (opened bold fg) out (opened bold' fg')" by auto
    with 4(2)[OF _ g[symmetric] refl] 4(4,5) True g show ?thesis by (simp add: spans_markup)
  qed (use 4 in simp)
qed

section \<open>What is displayed\<close>

text \<open>The text of a piece of HTML: tags dropped, the four entities decoded.\<close>

function (sequential) html_text :: "string \<Rightarrow> string" where
  "html_text [] = []"
| "html_text (c # s) =
     (if c = CHR ''<'' then html_text (tl (dropWhile (\<lambda>x. x \<noteq> CHR ''>'') s))
      else if starts_with (c # s) ''&amp;'' then CHR ''&'' # html_text (drop 4 s)
      else if starts_with (c # s) ''&lt;'' then CHR ''<'' # html_text (drop 3 s)
      else if starts_with (c # s) ''&gt;'' then CHR ''>'' # html_text (drop 3 s)
      else if starts_with (c # s) ''&quot;'' then CHR 0x22 # html_text (drop 5 s)
      else c # html_text s)"
  by pat_completeness auto
termination
  by (relation "measure length") (auto simp: less_Suc_eq_le intro: le_trans[OF diff_le_self length_dropWhile_le])

lemma html_text_char: "html_text (html_char c @ s) = c # html_text s"
  by (simp add: html_char_def)

lemma html_text_tag: "CHR ''>'' \<notin> set x \<Longrightarrow> html_text (CHR ''<'' # x @ CHR ''>'' # s) = html_text s"
proof -
  assume "CHR ''>'' \<notin> set x"
  then have "dropWhile (\<lambda>c. c \<noteq> CHR ''>'') (x @ CHR ''>'' # s) = CHR ''>'' # s" by (induction x) auto
  then show ?thesis by simp
qed

lemma html_text_class: "c \<in> set (''ansi-bold'' # ansi_colors) \<Longrightarrow> html_text (quoted_class c @ s) = html_text s"
proof -
  assume "c \<in> set (''ansi-bold'' # ansi_colors)"
  then have "CHR ''>'' \<notin> set (''span class='' @ CHR 0x22 # c @ [CHR 0x22])"
    by (auto simp: ansi_colors_def ansi_color_def is_ascii_digit_def code_def dest!: show_nat_alnum)
  from html_text_tag[OF this, of s] show ?thesis by (simp add: quoted_class_def)
qed

lemma html_text_markup: "markup n t m \<Longrightarrow> html_text (t @ s) = html_text s"
  by (induction rule: markup.induct) (simp_all add: html_text_class html_text_tag[of "''/span''", simplified] span_end_def)

lemma html_text_tagged: "tagged t \<Longrightarrow> html_text (t @ s) = html_text s"
  by (auto simp: tagged_def html_text_markup)

lemma render_text:
  "color_ok fg \<Longrightarrow> (\<And>t. Unfinished t \<notin> set ts) \<Longrightarrow> html_text (render ts bold fg) = plain_text ts"
proof (induction ts bold fg rule: render.induct)
  case (1 bold fg)
  then show ?case using html_text_tagged[OF tagged_basics(2), of bold fg "[]"] by simp
next
  case (2 c ts bold fg)
  then show ?case by (auto simp: html_text_char)
next
  case (4 params final ts bold fg)
  then show ?case using sgr_tagged sgr_markup by (fastforce simp: html_text_tagged split: prod.splits)
qed auto

section \<open>Properties\<close>


lemma witness_numbers:
  "parse_u32 ''31'' = Some 31" "parse_u32 ''1'' = Some 1" "parse_u32 ''0'' = Some 0" "parse_u32 ''22'' = Some 22"
  by (simp_all add: parse_u32_def parse_unsigned_def digits_value_def is_ascii_digit_def code_def)

lemma witness_finals:
  "csi_final (CHR ''m'')" "\<not> csi_final (CHR ''0'')" "\<not> csi_final (CHR ''1'')" "\<not> csi_final (CHR ''2'')" "\<not> csi_final (CHR ''3'')"
  by (simp_all add: csi_final_def code_def)

lemmas rendering = ansi_to_html_def html_char_def sgr_def trim_end_matches_def sgr_code_def close_if_any_def
  open_if_any_def map_filter_simps witness_numbers witness_finals


text \<open>A rendered line shows the text of the line.  When the line does not end inside a sequence, the text of
  its HTML is the line without its sequences.\<close>

theorem ansi_html_shows_the_text:
  assumes "\<And>t. Unfinished t \<notin> set (ansi_tokens raw)"
  shows "html_text (ansi_to_html raw) = strip_ansi raw"
  using render_text[of None "ansi_tokens raw" False] assms
  by (simp add: ansi_to_html_def ansi_loop_render strip_ansi_text)

theorem ansi_html_shows_the_text_witness:
  "html_text (ansi_to_html ([escape_char] @ ''[31ma<b'' @ [escape_char] @ ''[0m'')) = ''a<b''"
proof -
  let ?raw = "[escape_char] @ ''[31ma<b'' @ [escape_char] @ ''[0m''"
  have t: "ansi_tokens ?raw = [Csi ''31'' CHR ''m'', Text CHR ''a'', Text CHR ''<'', Text CHR ''b'', Csi ''0'' CHR ''m'']"
    by (simp add: witness_finals)
  have "strip_ansi ?raw = ''a<b''" by (simp add: witness_finals)
  with ansi_html_shows_the_text[of ?raw] t show ?thesis by simp
qed

text \<open>The spans of a rendered line are balanced, as long as no sequence ends bold text.\<close>

theorem ansi_spans_are_balanced:
  assumes "\<And>params. Csi params (CHR ''m'') \<in> set (ansi_tokens raw) \<Longrightarrow> 22 \<notin> set (sgr_numbers params)"
  shows "spans (ansi_to_html raw) 0 = Some 0"
  using render_spans[of None "ansi_tokens raw" False, OF color_ok_simps(1) unfinished_tail] assms
  by (simp add: ansi_to_html_def ansi_loop_render opened_def)

theorem ansi_spans_are_balanced_witness:
  "spans (ansi_to_html ([escape_char] @ ''[31ma<b'' @ [escape_char] @ ''[1mc'')) 0 = Some 0"
proof -
  let ?raw = "[escape_char] @ ''[31ma<b'' @ [escape_char] @ ''[1mc''"
  have t: "ansi_tokens ?raw = [Csi ''31'' CHR ''m'', Text CHR ''a'', Text CHR ''<'', Text CHR ''b'', Csi ''1'' CHR ''m'', Text CHR ''c'']"
    by (simp add: witness_finals)
  have n: "sgr_numbers ''31'' = [31]" "sgr_numbers ''1'' = [1]"
    by (simp_all add: sgr_numbers_def trim_end_matches_def map_filter_simps witness_numbers)
  have "22 \<notin> set (sgr_numbers params)" if "Csi params (CHR ''m'') \<in> set (ansi_tokens ?raw)" for params
    using that unfolding t by (auto simp: n)
  then show ?thesis by (rule ansi_spans_are_balanced)
qed

text \<open>Ending bold text while a colour is on closes the span of the colour without opening it again: the rest of the
  coloured text has no colour, and the reset after it closes a span that is not open.\<close>

lemma ending_bold_unbalances:
  "spans (ansi_to_html ([escape_char] @ ''[31m'' @ [escape_char] @ ''[1ma'' @ [escape_char] @ ''[22mb'' @ [escape_char] @ ''[0m'')) 0 = None"
  by (simp add: rendering ansi_color_def show_nat.simps digit_char_def quoted_class_def span_end_def)

end
