(* ===== verification/LogLine.thy ===== *)
theory LogLine
  imports Ansi Json
begin

text \<open>
  Parsing of log lines (\<open>src/app/util/format/log_line.rs\<close>): JSON, logfmt, Zap's console lines and the two
  syslog formats, with a severity.  A line is its UTF-8 bytes; the JSON text and the printing of floats are
  parameters.  A slice out of bounds, which panics, is \<open>None\<close>.
\<close>

record log_line_env =
  le_parse :: "string \<Rightarrow> json option"
  le_print :: "json \<Rightarrow> string"
  le_seconds :: "json_number \<Rightarrow> string"

record parsed_log =
  pg_display :: string
  pg_caller :: "string option"
  pg_timestamp :: "string option"
  pg_level :: string
  pg_details :: "json option"
  pg_structured :: bool

section \<open>Severity\<close>

definition level_word :: "string \<Rightarrow> string option" where
  "level_word s =
     (let word = str_ascii_lower (takeWhile is_ascii_alphabetic s) in
      if word \<in> {''error'', ''fatal'', ''panic'', ''crit'', ''critical''} then Some ''error''
      else if word \<in> {''warn'', ''warning''} then Some ''warn''
      else if word = ''info'' then Some ''info''
      else if word \<in> {''debug'', ''trace'', ''dbg''} then Some ''debug''
      else None)"

definition numeric_level :: "nat \<Rightarrow> string option" where
  "numeric_level level = (if level \<ge> 50 then Some ''error'' else if level \<ge> 40 then Some ''warn''
     else if level \<ge> 30 then Some ''info'' else Some ''debug'')"

definition syslog_priority :: "string \<Rightarrow> (nat \<times> string) option" where
  "syslog_priority t = Option.bind (strip_prefix ''<'' t) (\<lambda>inner.
     Option.bind (split_once (CHR ''>'') inner) (\<lambda>(number, rest).
     map_option (\<lambda>priority. (priority mod 8, rest)) (parse_u32 number)))"

definition syslog_severity_to_level :: "nat \<Rightarrow> string" where
  "syslog_severity_to_level sev = (if sev \<le> 3 then ''error'' else if sev = 4 then ''warn''
     else if sev = 5 \<or> sev = 6 then ''info'' else if sev = 7 then ''debug'' else ''plain'')"

definition is_blank :: "char \<Rightarrow> bool" where
  "is_blank c \<longleftrightarrow> c = CHR '' '' \<or> c = CHR 0x09"

text \<open>The search of \<open>logfmt_key_pos\<close> from the byte \<open>base\<close> on.\<close>

lemma str_find_less: "str_find s p = Some i \<Longrightarrow> p \<noteq> [] \<Longrightarrow> i < length s"
  by (induction s arbitrary: i) (auto split: if_splits)

function logfmt_key_pos :: "string \<Rightarrow> string \<Rightarrow> nat \<Rightarrow> nat option" where
  "logfmt_key_pos t key base =
     (if key = [] then None
      else case str_find (drop base t) key of
        None \<Rightarrow> None
      | Some i \<Rightarrow>
          (let at = base + i in
           if (at = 0 \<or> is_blank (t ! (at - 1))) \<and> length (filter (\<lambda>c. c = CHR 0x22) (take at t)) mod 2 = 0
           then Some at else logfmt_key_pos t key (at + 1)))"
  by pat_completeness auto
termination
  by (relation "measure (\<lambda>(t, _, base). Suc (length t) - base)") (auto dest!: str_find_less)

declare logfmt_key_pos.simps [simp del]

definition logfmt_level :: "string \<Rightarrow> string \<Rightarrow> string option" where
  "logfmt_level t key = Option.bind (logfmt_key_pos t key 0) (\<lambda>pos.
     level_word (trim_start_matches (\<lambda>c. c = CHR 0x22) (drop (pos + length key) t)))"

definition klog_level :: "string \<Rightarrow> string option" where
  "klog_level t = (case t of
     a # b # _ \<Rightarrow>
       if \<not> is_ascii_digit b then None
       else if a = CHR ''E'' \<or> a = CHR ''F'' then Some ''error'' else if a = CHR ''W'' then Some ''warn''
       else if a = CHR ''I'' then Some ''info'' else if a = CHR ''D'' then Some ''debug'' else None
   | _ \<Rightarrow> None)"

definition json_level :: "(string \<times> json) list \<Rightarrow> string option" where
  "json_level obj = or_else
     (find_map (\<lambda>key. Option.bind (map_of obj key) (\<lambda>v.
        or_else (Option.bind (as_str v) level_word) (Option.bind (as_u64 v) numeric_level)))
       [''level'', ''severity'', ''lvl'', ''severity_text'', ''severityText'', ''level_name''])
     (Option.bind (Option.bind (Option.bind (Option.bind (map_of obj ''fields'') as_object)
        (\<lambda>parts. or_else (map_of parts ''level'') (map_of parts ''severity''))) as_str) level_word)"

definition bracket_level :: "string \<Rightarrow> string option" where
  "bracket_level t = Option.bind (strip_prefix ''['' t) (\<lambda>inner.
     Option.bind (split_once (CHR '']'') inner) (\<lambda>(word, _). level_word word))"

definition first_word_level :: "string \<Rightarrow> string option" where
  "first_word_level t =
     (let word = takeWhile (\<lambda>c. \<not> (is_blank c \<or> c \<in> set '':-|'')) t in
      if length word \<le> 8 then level_word word else None)"

definition classify_level :: "log_line_env \<Rightarrow> string \<Rightarrow> string" where
  "classify_level env t = (case klog_level t of Some l \<Rightarrow> l | None \<Rightarrow>
     if starts_with t ''{'' then
       (case le_parse env t of Some (JObject obj) \<Rightarrow> unwrap_or ''plain'' (json_level obj) | _ \<Rightarrow> ''plain'')
     else (case find_map (logfmt_level t) [''level='', ''lvl='', ''severity=''] of Some l \<Rightarrow> l | None \<Rightarrow>
       (case (if starts_with t ''<'' then syslog_priority t else None) of
          Some (severity, _) \<Rightarrow> syslog_severity_to_level severity
        | None \<Rightarrow> unwrap_or ''plain'' (or_else (bracket_level t) (first_word_level t)))))"

section \<open>Prefixes\<close>

definition strip_level_prefix :: "string \<Rightarrow> string option" where
  "strip_level_prefix t = (case strip_prefix ''['' t of
     Some inner \<Rightarrow> Option.bind (split_once (CHR '']'') inner) (\<lambda>(word, rest).
       map_option (\<lambda>_. trim_start (trim_start_matches (\<lambda>c. c \<in> set '':-'') (trim_start rest))) (level_word word))
   | None \<Rightarrow>
       map_option (\<lambda>_. trim_start (trim_start_matches (\<lambda>c. c \<in> set '':-|'') (trim_start (dropWhile is_ascii_alphabetic t))))
         (level_word (takeWhile is_ascii_alphabetic t)))"

definition skip_char :: "(char \<Rightarrow> bool) \<Rightarrow> string \<Rightarrow> string" where
  "skip_char P s = (if s \<noteq> [] \<and> P (hd s) then tl s else s)"

text \<open>What follows a date and time: a fraction and a zone.\<close>

definition after_seconds :: "string \<Rightarrow> string" where
  "after_seconds s =
     (let fraction = (if s \<noteq> [] \<and> hd s \<in> set ''.,'' then dropWhile is_ascii_digit (tl s) else s) in
      if fraction \<noteq> [] \<and> hd fraction = CHR ''Z'' then tl fraction
      else if fraction \<noteq> [] \<and> hd fraction \<in> set ''+-'' then dropWhile (\<lambda>c. is_ascii_digit c \<or> c = CHR '':'') (tl fraction)
      else fraction)"

definition date_shape :: "string \<Rightarrow> bool" where
  "date_shape u \<longleftrightarrow> length u \<ge> 19 \<and> u ! 4 = CHR ''-'' \<and> u ! 7 = CHR ''-'' \<and> (u ! 10 = CHR ''T'' \<or> u ! 10 = CHR '' '')
     \<and> u ! 13 = CHR '':'' \<and> u ! 16 = CHR '':'' \<and> list_all (\<lambda>c. code c < 128) (take 19 u)"

definition split_timestamp_prefix :: "string \<Rightarrow> (string \<times> string) option" where
  "split_timestamp_prefix t =
     (let bracketed = starts_with t ''['';
          u = (if bracketed then tl t else t) in
      if \<not> date_shape u then None
      else
        let rest = after_seconds (drop 19 u);
            timestamp = take (length u - length rest) u;
            closed = (if bracketed then strip_prefix '']'' rest else Some rest) in
        Option.bind closed (\<lambda>rest.
          if rest = [] \<or> \<not> is_ascii_whitespace (hd rest) then None
          else
            let plain = trim_start rest in
            Some (timestamp, case or_else (strip_prefix ''stdout '' plain) (strip_prefix ''stderr '' plain) of
                Some stream \<Rightarrow> unwrap_or stream (or_else (strip_prefix ''F '' stream) (strip_prefix ''P '' stream))
              | None \<Rightarrow> plain)))"

definition shorten_caller :: "string \<Rightarrow> string" where
  "shorten_caller s = last (split_on (CHR ''/'') s)"

section \<open>JSON\<close>

definition json_message_display :: "log_line_env \<Rightarrow> json \<Rightarrow> string" where
  "json_message_display env v = unwrap_or (le_print env v) (as_str v)"

definition json_val_display :: "log_line_env \<Rightarrow> json \<Rightarrow> string" where
  "json_val_display env v = (case v of
     JString s \<Rightarrow> if CHR '' '' \<in> set s then CHR 0x22 # s @ [CHR 0x22] else s
   | _ \<Rightarrow> le_print env v)"

definition bar :: string where
  "bar = '' | ''"

definition counted_items :: "(string \<times> json) list \<Rightarrow> (string \<times> string \<times> string) list \<Rightarrow> string list" where
  "counted_items obj names = List.map_filter (\<lambda>(key, singular, plural).
     map_option (\<lambda>items. show_nat (length items) @ '' '' @ (if length items = 1 then singular else plural))
       (Option.bind (map_of obj key) as_array)) names"

definition server_label :: "(string \<times> json) list \<Rightarrow> string option" where
  "server_label obj = Option.bind (Option.bind (Option.bind (Option.bind (map_of obj ''_meta'') as_object)
       (\<lambda>meta. map_of meta ''io.modelcontextprotocol/serverInfo'')) as_object) (\<lambda>server.
     map_option (\<lambda>name. case Option.bind (map_of server ''version'') as_str of
         Some version \<Rightarrow> name @ '' '' @ version
       | None \<Rightarrow> name)
     (Option.bind (map_of server ''name'') as_str))"

definition json_rpc_result_summary :: "log_line_env \<Rightarrow> json \<Rightarrow> string" where
  "json_rpc_result_summary env result = (case result of
     JObject obj \<Rightarrow>
       (let parts = (case server_label obj of None \<Rightarrow> [] | Some label \<Rightarrow> [label])
          @ counted_items obj [(''tools'', ''tool'', ''tools''), (''resources'', ''resource'', ''resources''),
              (''resourceTemplates'', ''resource template'', ''resource templates''), (''prompts'', ''prompt'', ''prompts''),
              (''content'', ''content item'', ''content items'')]
          @ (case Option.bind (map_of obj ''resultType'') as_str of None \<Rightarrow> [] | Some t \<Rightarrow> [t]) in
        join_with bar (''response'' # (if parts = [] then [show_nat (length obj) @ '' fields''] else parts)))
   | JArray items \<Rightarrow> ''response | '' @ show_nat (length items) @ '' items''
   | v \<Rightarrow> ''response | '' @ json_val_display env v)"

definition parse_json_rpc :: "log_line_env \<Rightarrow> (string \<times> json) list \<Rightarrow> string option \<Rightarrow> string \<Rightarrow> parsed_log option" where
  "parse_json_rpc env obj timestamp level =
     (if Option.bind (map_of obj ''jsonrpc'') as_str \<noteq> Some ''2.0'' then None
      else
        let (display, shown) = (case Option.bind (map_of obj ''method'') as_str of
            Some name \<Rightarrow>
              (''request | '' @ name @ (case Option.bind (Option.bind (Option.bind (map_of obj ''params'') as_object)
                   (\<lambda>params. map_of params ''name'')) as_str of Some n \<Rightarrow> bar @ n | None \<Rightarrow> []), level)
          | None \<Rightarrow> (case map_of obj ''error'' of
              Some e \<Rightarrow> (''error | '' @ unwrap_or ''request failed'' (Option.bind (jget e ''message'') as_str), ''error'')
            | None \<Rightarrow> (case map_of obj ''result'' of
                Some result \<Rightarrow> (json_rpc_result_summary env result, level)
              | None \<Rightarrow> (''response'', level))))
        in Some \<lparr>pg_display = display, pg_caller = Some ''jsonrpc'', pg_timestamp = timestamp, pg_level = shown,
             pg_details = Some (JObject obj), pg_structured = True\<rparr>)"

definition json_meta :: "string list" where
  "json_meta = [''msg'', ''message'', ''event'', ''body'', ''MESSAGE'', ''caller'', ''source'', ''logger'', ''target'', ''name'', ''ts'',
     ''time'', ''timestamp'', ''@timestamp'', ''level'', ''severity'', ''lvl'', ''severity_text'', ''severityText'', ''level_name'',
     ''v'', ''pid'', ''hostname'', ''fields'']"

definition with_extras :: "string \<Rightarrow> string list \<Rightarrow> string" where
  "with_extras msg extras = (if extras = [] then msg else msg @ '' '' @ join_with '' '' extras)"

definition json_fields :: "(string \<times> json) list \<Rightarrow> (string \<times> json) list option" where
  "json_fields obj = Option.bind (map_of obj ''fields'') as_object"

definition parse_json_log :: "log_line_env \<Rightarrow> (string \<times> json) list \<Rightarrow> string option \<Rightarrow> string \<Rightarrow> parsed_log option" where
  "parse_json_log env obj timestamp level =
     (let shown = (\<lambda>entry. \<lambda>k. map_option (json_message_display env) (map_of entry k)) in
      map_option (\<lambda>msg.
        \<lparr>pg_display = with_extras msg
           (map (\<lambda>(k, v). k @ ''='' @ json_val_display env v) (filter (\<lambda>(k, _). k \<notin> set json_meta) obj)
            @ map (\<lambda>(k, v). k @ ''='' @ json_val_display env v)
                (filter (\<lambda>(k, _). k \<noteq> ''message'' \<and> k \<noteq> ''msg'') (unwrap_or [] (json_fields obj)))),
         pg_caller = find_map (\<lambda>k. map_option shorten_caller (Option.bind (map_of obj k) as_str))
           [''caller'', ''source'', ''logger'', ''target'', ''name''],
         pg_timestamp = or_else timestamp (find_map (\<lambda>k. Option.bind (map_of obj k) (\<lambda>v. case v of
             JString s \<Rightarrow> Some s
           | JNumber n \<Rightarrow> Some (le_seconds env n)
           | _ \<Rightarrow> None)) [''ts'', ''time'', ''timestamp'', ''@timestamp'']),
         pg_level = level, pg_details = None, pg_structured = True\<rparr>)
      (or_else (find_map (shown obj) [''msg'', ''message'', ''event'', ''body'', ''MESSAGE''])
        (Option.bind (json_fields obj) (\<lambda>parts. find_map (shown parts) [''message'', ''msg'', ''event'']))))"

section \<open>Logfmt\<close>

text \<open>A quoted value after its opening quote, and what follows it; the flag says that an escape is open.\<close>

fun unquote :: "string \<Rightarrow> bool \<Rightarrow> string \<times> string" where
  "unquote [] esc = ([], [])"
| "unquote (c # s) esc =
     (let continue = (\<lambda>out esc'. case unquote s esc' of (val, rest) \<Rightarrow> (out @ val, rest)) in
      if esc then
        continue (if c = CHR 0x22 then [CHR 0x22] else if c = CHR ''n'' then [CHR 0x0A] else if c = CHR ''t'' then [CHR 0x09]
          else if c = CHR 0x5C then [CHR 0x5C] else [CHR 0x5C, c]) False
      else if c = CHR 0x5C then continue [] True
      else if c = CHR 0x22 then ([], s)
      else continue [c] False)"

lemma unquote_shorter: "unquote s esc = (val, rest) \<Longrightarrow> length rest \<le> length s"
  by (induction s esc arbitrary: val rest rule: unquote.induct) (fastforce simp: Let_def split: if_splits prod.splits)+

definition logfmt_value :: "string \<Rightarrow> string \<times> string" where
  "logfmt_value s = (if s \<noteq> [] \<and> hd s = CHR 0x22 then unquote (tl s) False
     else (takeWhile (\<lambda>c. \<not> is_blank c) s, dropWhile (\<lambda>c. \<not> is_blank c) s))"

lemma logfmt_value_shorter: "logfmt_value s = (val, rest) \<Longrightarrow> length rest \<le> length s"
  using unquote_shorter[of "tl s" False val rest] length_dropWhile_le[of "\<lambda>c. \<not> is_blank c" s]
  by (auto simp: logfmt_value_def split: if_splits)

definition logfmt_key_char :: "char \<Rightarrow> bool" where
  "logfmt_key_char c \<longleftrightarrow> c \<noteq> CHR ''='' \<and> \<not> is_blank c"

function logfmt_tokenize :: "string \<Rightarrow> (string \<times> string) list" where
  "logfmt_tokenize t =
     (let s = dropWhile is_blank t;
          key = takeWhile logfmt_key_char s;
          after = dropWhile logfmt_key_char s in
      if s = [] then []
      else if after = [] then []
      else if hd after \<noteq> CHR ''='' then logfmt_tokenize after
      else (case logfmt_value (tl after) of
        (val, rest) \<Rightarrow> (if key \<noteq> [] then [(key, val)] else []) @ logfmt_tokenize rest))"
  by pat_completeness auto

lemma blank_not_key: "is_blank c \<Longrightarrow> \<not> logfmt_key_char c"
  by (simp add: logfmt_key_char_def)

lemma logfmt_word_shorter:
  assumes "dropWhile is_blank t \<noteq> []" "dropWhile logfmt_key_char (dropWhile is_blank t) = c # s" "c \<noteq> CHR ''=''"
  shows "length s < length t" "Suc (length s) < length t"
proof -
  let ?s = "dropWhile is_blank t"
  have "\<not> is_blank (hd ?s)" using hd_dropWhile[OF assms(1)] .
  moreover have "\<not> logfmt_key_char c" using hd_dropWhile[of logfmt_key_char ?s] assms(2) by simp
  with assms(3) have "is_blank c" by (simp add: logfmt_key_char_def)
  ultimately have "dropWhile logfmt_key_char ?s \<noteq> ?s" using assms(2) by (metis list.sel(1))
  then have "takeWhile logfmt_key_char ?s \<noteq> []" by (metis append_Nil takeWhile_dropWhile_id)
  then have "length (dropWhile logfmt_key_char ?s) < length ?s"
    using takeWhile_dropWhile_id[of logfmt_key_char ?s] by (metis add_diff_cancel_left' length_append length_greater_0_conv less_add_same_cancel2)
  then show "Suc (length s) < length t" using length_dropWhile_le[of is_blank t] assms(2) by simp
  then show "length s < length t" by simp
qed

termination logfmt_tokenize
proof (relation "measure length")
  fix t s key after
  assume h: "s = dropWhile is_blank t" "after = dropWhile logfmt_key_char s" "s \<noteq> []" "after \<noteq> []"
  obtain c r where c: "after = c # r" using h(4) by (cases after) auto
  have le: "length after \<le> length t" using h(1,2) length_dropWhile_le le_trans by metis
  have e: "dropWhile is_blank t \<noteq> []" "dropWhile logfmt_key_char (dropWhile is_blank t) = c # r"
    using h(1,2,3) c by simp_all
  { assume "hd after \<noteq> CHR ''=''"
    then show "(after, t) \<in> measure length" using logfmt_word_shorter(2)[OF e] c by simp }
  fix val rest
  assume "(val, rest) = logfmt_value (tl after)"
  from logfmt_value_shorter[OF this[symmetric]] show "(rest, t) \<in> measure length" using le c by simp
qed simp

declare logfmt_tokenize.simps [simp del]

definition logfmt_meta :: "string list" where
  "logfmt_meta = [''msg'', ''message'', ''event'', ''caller'', ''source'', ''ts'', ''time'', ''timestamp'', ''level'', ''lvl'', ''severity'']"

definition first_of :: "string list \<Rightarrow> (string \<times> string) list \<Rightarrow> string option" where
  "first_of keys pairs = map_option snd (find (\<lambda>(k, _). k \<in> set keys) pairs)"

definition parse_logfmt :: "string \<Rightarrow> string option \<Rightarrow> string \<Rightarrow> parsed_log option" where
  "parse_logfmt t timestamp level =
     (let pairs = logfmt_tokenize t in
      map_option (\<lambda>msg.
        \<lparr>pg_display = with_extras msg (map (\<lambda>(k, v).
             if CHR '' '' \<in> set v \<or> v = [] then k @ ''='' @ CHR 0x22 # v @ [CHR 0x22] else k @ ''='' @ v)
             (filter (\<lambda>(k, _). k \<notin> set logfmt_meta) pairs)),
         pg_caller = map_option shorten_caller (first_of [''caller'', ''source''] pairs),
         pg_timestamp = or_else timestamp (first_of [''ts'', ''time'', ''timestamp''] pairs),
         pg_level = level, pg_details = None, pg_structured = True\<rparr>)
      (first_of [''msg'', ''message'', ''event''] pairs))"

section \<open>Zap's console lines and syslog\<close>

definition parse_zap_console :: "string \<Rightarrow> string option \<Rightarrow> string \<Rightarrow> parsed_log option" where
  "parse_zap_console t timestamp level =
     (if timestamp = None \<or> CHR 0x09 \<notin> set t then None
      else case split_on (CHR 0x09) t of
        [] \<Rightarrow> None
      | word # parts \<Rightarrow>
          if level_word word = None then None
          else
            let (caller, message) = (case parts of
                [] \<Rightarrow> (None, [])
              | [m] \<Rightarrow> (None, m)
              | f # rest \<Rightarrow>
                  if length rest = 1 \<and> starts_with (trim_start (hd rest)) ''{'' then (None, f @ CHR 0x09 # hd rest)
                  else (Some (shorten_caller f), join_with [CHR 0x09] rest))
            in Some \<lparr>pg_display = message, pg_caller = caller, pg_timestamp = timestamp, pg_level = level,
                 pg_details = None, pg_structured = True\<rparr>)"

definition months :: "string list" where
  "months = [''Jan'', ''Feb'', ''Mar'', ''Apr'', ''May'', ''Jun'', ''Jul'', ''Aug'', ''Sep'', ''Oct'', ''Nov'', ''Dec'']"

definition parse_syslog_3164_body :: "string \<Rightarrow> parsed_log option" where
  "parse_syslog_3164_body t =
     (if \<not> list_ex (starts_with t) months then None
      else case filter (\<lambda>s. s \<noteq> []) (splitn 5 (CHR '' '') t) of
        month # day # time # hostname # remainder \<Rightarrow>
          (let rest = trim (case remainder of [] \<Rightarrow> [] | r # _ \<Rightarrow> r);
               (caller, msg) = (case str_find rest '': '' of
                   Some pos \<Rightarrow> (Some (takeWhile (\<lambda>c. c \<noteq> CHR ''['') (take pos rest)), drop (pos + 2) rest)
                 | None \<Rightarrow> (None, rest)) in
           if msg = [] \<and> caller = None then None
           else Some \<lparr>pg_display = (if msg = [] then rest else msg), pg_caller = caller,
                  pg_timestamp = Some (month @ '' '' @ day @ '' '' @ time), pg_level = ''plain'', pg_details = None,
                  pg_structured = True\<rparr>)
      | _ \<Rightarrow> None)"

text \<open>The walk over the structured data: the rest of the line after it, or a slice beyond its end.\<close>

fun after_structured_data :: "string \<Rightarrow> bool \<Rightarrow> string option" where
  "after_structured_data [] in_quotes = Some []"
| "after_structured_data (c # s) in_quotes =
     (if c = CHR 0x5C \<and> in_quotes then (case s of [] \<Rightarrow> None | _ # s' \<Rightarrow> after_structured_data s' in_quotes)
      else if c = CHR 0x22 then after_structured_data s (\<not> in_quotes)
      else if c = CHR '']'' \<and> \<not> in_quotes then (if starts_with s ''['' then after_structured_data s in_quotes else Some s)
      else after_structured_data s in_quotes)"

definition rfc5424_message :: "string \<Rightarrow> string option" where
  "rfc5424_message field =
     (let s = trim_start field in
      case strip_prefix ''- '' s of
        Some rest \<Rightarrow> Some (trim_start rest)
      | None \<Rightarrow>
          if s = ''-'' then Some []
          else if \<not> starts_with s ''['' then Some s
          else map_option trim_start (after_structured_data s False))"

definition nil_value :: "string option \<Rightarrow> string option" where
  "nil_value f = (case f of Some s \<Rightarrow> if s = ''-'' then None else Some s | None \<Rightarrow> None)"

text \<open>\<open>Some None\<close> when the line has no message in this format.\<close>

definition parse_syslog_5424 :: "string \<Rightarrow> string option \<Rightarrow> string \<Rightarrow> parsed_log option option" where
  "parse_syslog_5424 rest timestamp level =
     (if rest = [] \<or> \<not> is_ascii_digit (hd rest) then Some None
      else
        let parts = splitn 7 (CHR '' '') rest;
            field = (\<lambda>i. if i < length parts then Some (parts ! i) else None) in
        map_option (\<lambda>msg. if msg = [] then None
          else Some \<lparr>pg_display = msg, pg_caller = nil_value (field 3),
            pg_timestamp = or_else timestamp (nil_value (field 1)), pg_level = level, pg_details = None, pg_structured = True\<rparr>)
          (rfc5424_message (unwrap_or [] (field 6))))"

section \<open>A line\<close>

definition syslog_3164 :: "string \<Rightarrow> string option \<Rightarrow> string \<Rightarrow> parsed_log \<Rightarrow> parsed_log" where
  "syslog_3164 t timestamp level fallback = (case parse_syslog_3164_body t of
     Some p \<Rightarrow> p\<lparr>pg_level := level, pg_timestamp := or_else timestamp (pg_timestamp p)\<rparr>
   | None \<Rightarrow> fallback)"

definition parse_log_line :: "log_line_env \<Rightarrow> string \<Rightarrow> parsed_log option" where
  "parse_log_line env line =
     (let trimmed = trim_start line;
          (outer, t) = (case split_timestamp_prefix trimmed of Some (ts, rest) \<Rightarrow> (Some ts, rest) | None \<Rightarrow> (None, trimmed));
          coloured = escape_char \<in> set t;
          level = classify_level env (if coloured then strip_ansi t else t);
          raw = \<lparr>pg_display = (if outer \<noteq> None then unwrap_or t (strip_level_prefix t) else t), pg_caller = None,
            pg_timestamp = outer, pg_level = level, pg_details = None, pg_structured = (outer \<noteq> None)\<rparr> in
      if coloured then Some raw
      else if starts_with t ''{'' then Some (case le_parse env t of
          Some (JObject obj) \<Rightarrow> unwrap_or raw (or_else (parse_json_rpc env obj outer level) (parse_json_log env obj outer level))
        | _ \<Rightarrow> raw)
      else case or_else (parse_logfmt t outer level) (parse_zap_console t outer level) of
        Some p \<Rightarrow> Some p
      | None \<Rightarrow> (case (if starts_with t ''<'' then syslog_priority t else None) of
            Some (_, after) \<Rightarrow>
              (let rest = trim_start after in
               map_option (\<lambda>parsed. case parsed of
                   Some p \<Rightarrow> p
                 | None \<Rightarrow> syslog_3164 rest outer level (syslog_3164 t outer level raw))
                 (parse_syslog_5424 rest outer level))
          | None \<Rightarrow> Some (syslog_3164 t outer level raw)))"

end
