(* ===== verification/LogLineProps.thy ===== *)
theory LogLineProps
  imports LogLine "HOL-Library.Sublist"
begin

text \<open>
  What the parser of log lines guarantees: the one way it can panic, the severities it gives, and that
  it reads back what a logfmt logger writes.
\<close>

section \<open>Suffixes\<close>

lemma trim_start_suffix: "suffix (trim_start s) s"
proof -
  have "code_points s = takeWhile is_white_space (code_points s) @ dropWhile is_white_space (code_points s)" by simp
  then have "s = concat (takeWhile is_white_space (code_points s)) @ trim_start s"
    unfolding trim_start_def by (metis concat_append concat_code_points)
  then show ?thesis by (rule suffixI)
qed

lemma strip_prefix_suffix: "strip_prefix p s = Some r \<Longrightarrow> suffix r s"
  by (auto simp: strip_prefix_def suffix_drop split: if_splits)

lemma split_once_suffix: "split_once d s = Some (a, r) \<Longrightarrow> suffix r s"
  by (auto simp: split_once_Some suffix_def intro!: exI[of _ "a @ [d]"])

lemma splitn_suffix: "n < length (splitn (Suc n) d s) \<Longrightarrow> suffix (splitn (Suc n) d s ! n) s"
proof (induction n arbitrary: s)
  case (Suc n)
  then obtain a b where ab: "split_once d s = Some (a, b)" by (auto split: option.splits)
  with Suc show ?case using split_once_suffix[OF ab] by (auto intro: suffix_order.trans)
qed simp

lemma syslog_priority_suffix: "syslog_priority t = Some (p, r) \<Longrightarrow> suffix r t"
  by (auto simp: syslog_priority_def bind_eq_Some_conv dest!: strip_prefix_suffix split_once_suffix intro: suffix_order.trans)

lemma suffix_dropWhile_tl: "suffix (dropWhile P (tl x)) x"
  using suffix_dropWhile[of P "tl x"] suffix_tl[of x] by (rule suffix_order.trans)

lemma after_seconds_suffix: "suffix (after_seconds s) s"
proof -
  let ?f = "if s \<noteq> [] \<and> hd s \<in> set ''.,'' then dropWhile is_ascii_digit (tl s) else s"
  have "suffix (after_seconds s) ?f"
    unfolding after_seconds_def Let_def using suffix_dropWhile_tl[of _ ?f] suffix_tl[of ?f] by auto
  moreover have "suffix ?f s" using suffix_dropWhile_tl[of is_ascii_digit s] by simp
  ultimately show ?thesis by (rule suffix_order.trans)
qed

lemma or_else_Some: "or_else x y = Some z \<longleftrightarrow> x = Some z \<or> x = None \<and> y = Some z"
  by (auto simp: or_else_def split: option.splits)

lemma unwrap_or_suffix: "(\<And>x. s = Some x \<Longrightarrow> suffix x t) \<Longrightarrow> suffix d t \<Longrightarrow> suffix (unwrap_or d s) t"
  by (auto simp: unwrap_or_def split: option.splits)

lemma split_timestamp_suffix: "split_timestamp_prefix t = Some (ts, rest) \<Longrightarrow> suffix rest t"
proof -
  assume a: "split_timestamp_prefix t = Some (ts, rest)"
  let ?u = "if starts_with t ''['' then tl t else t"
  let ?r = "after_seconds (drop 19 ?u)"
  have "suffix ?u t" using suffix_tl[of t] by simp
  then have "suffix ?r t"
    using after_seconds_suffix[of "drop 19 ?u"] suffix_drop[of 19 ?u] by (meson suffix_order.trans)
  then have r: "(if starts_with t ''['' then strip_prefix '']'' ?r else Some ?r) = Some x \<Longrightarrow> suffix x t" for x
    using strip_prefix_suffix[of "'']''" ?r x] by (auto intro: suffix_order.trans split: if_splits)
  from a obtain x where x: "(if starts_with t ''['' then strip_prefix '']'' ?r else Some ?r) = Some x"
    and rest: "rest = (case or_else (strip_prefix ''stdout '' (trim_start x)) (strip_prefix ''stderr '' (trim_start x)) of
                Some stream \<Rightarrow> unwrap_or stream (or_else (strip_prefix ''F '' stream) (strip_prefix ''P '' stream))
              | None \<Rightarrow> trim_start x)"
    by (auto simp: split_timestamp_prefix_def Let_def bind_eq_Some_conv split: if_splits)
  have "suffix rest (trim_start x)"
    unfolding rest
    by (auto simp: or_else_Some split: option.splits intro!: unwrap_or_suffix
        dest!: strip_prefix_suffix intro: suffix_order.trans)
  then show ?thesis using trim_start_suffix[of x] r[OF x] by (meson suffix_order.trans)
qed

lemma suffix_last: "suffix s t \<Longrightarrow> s \<noteq> [] \<Longrightarrow> t \<noteq> [] \<and> last t = last s"
  by (auto simp: suffix_def)

section \<open>The slice that can panic\<close>

lemma cut_escape: "after_structured_data s in_quotes = None \<Longrightarrow> s \<noteq> [] \<and> last s = CHR 0x5C"
  by (induction s in_quotes rule: after_structured_data.induct) (auto split: if_splits list.splits)

lemma rfc5424_None: "rfc5424_message f = None \<Longrightarrow> f \<noteq> [] \<and> last f = CHR 0x5C"
proof -
  assume "rfc5424_message f = None"
  then have "after_structured_data (trim_start f) False = None"
    by (auto simp: rfc5424_message_def Let_def split: option.splits if_splits)
  from cut_escape[OF this] suffix_last[OF trim_start_suffix[of f]] show ?thesis by simp
qed

lemma syslog_5424_None: "parse_syslog_5424 rest ts l = None \<Longrightarrow> rest \<noteq> [] \<and> last rest = CHR 0x5C"
proof -
  assume a: "parse_syslog_5424 rest ts l = None"
  let ?fs = "splitn 7 (CHR '' '') rest"
  from a have n: "rfc5424_message (unwrap_or [] (if 6 < length ?fs then Some (?fs ! 6) else None)) = None"
    by (auto simp: parse_syslog_5424_def Let_def split: if_splits)
  show ?thesis
  proof (cases "6 < length ?fs")
    case True
    with rfc5424_None[OF n] have "?fs ! 6 \<noteq> [] \<and> last (?fs ! 6) = CHR 0x5C" by (simp add: unwrap_or_def)
    moreover have "suffix (?fs ! 6) rest" using splitn_suffix[of 6 "CHR '' ''" rest] True by simp
    ultimately show ?thesis using suffix_last by metis
  next
    case False
    with rfc5424_None[OF n] show ?thesis by (simp add: unwrap_or_def)
  qed
qed

text \<open>The parser of log lines panics only on a syslog line that ends in a backslash.\<close>

theorem only_a_cut_escape_panics:
  assumes "parse_log_line env line = None"
  shows "\<exists>start. line = start @ [CHR 0x5C] \<and> CHR ''<'' \<in> set start"
proof -
  define t where "t = (case split_timestamp_prefix (trim_start line) of Some (ts, rest) \<Rightarrow> rest | None \<Rightarrow> trim_start line)"
  define outer where "outer = (case split_timestamp_prefix (trim_start line) of Some (ts, rest) \<Rightarrow> Some ts | None \<Rightarrow> None)"
  have suf: "suffix t line"
    using trim_start_suffix[of line] split_timestamp_suffix
    by (auto simp: t_def split: option.splits prod.splits intro: suffix_order.trans)
  from assms obtain p after l where pr: "starts_with t ''<''" "syslog_priority t = Some (p, after)"
    and n: "parse_syslog_5424 (trim_start after) outer l = None"
    by (auto simp: parse_log_line_def Let_def t_def outer_def split: option.splits prod.splits if_splits)
  obtain r where r: "t = CHR ''<'' # r" using pr(1) by (auto simp: starts_with_iff)
  have "suffix (trim_start after) t"
    using trim_start_suffix syslog_priority_suffix[OF pr(2)] by (rule suffix_order.trans)
  with syslog_5424_None[OF n] have "last t = CHR 0x5C" using suffix_last by metis
  with r have "r \<noteq> []" "last r = CHR 0x5C" by (auto split: if_splits)
  then obtain r' where "r = r' @ [CHR 0x5C]" by (metis append_butlast_last_id)
  with suf r show ?thesis by (auto simp: suffix_def intro: exI[of _ "_ @ CHR ''<'' # r'"])
qed

lemma panics_in_syslog:
  assumes "trim_start line = line" "split_timestamp_prefix line = None" "escape_char \<notin> set line"
    and "first_of [''msg'', ''message'', ''event''] (logfmt_tokenize line) = None"
    and "starts_with line ''<''" "syslog_priority line = Some (p, rest)"
    and "\<And>l. parse_syslog_5424 (trim_start rest) None l = None"
  shows "parse_log_line env line = None"
proof -
  have "\<not> starts_with line ''{''" using assms(5) by (auto simp: starts_with_iff)
  with assms show ?thesis
    by (simp add: parse_log_line_def parse_logfmt_def parse_zap_console_def or_else_def)
qed

definition quoted_text :: "string \<Rightarrow> string" where
  "quoted_text s = CHR 0x22 # s"

definition plain_env :: log_line_env where
  "plain_env = \<lparr>le_parse = (\<lambda>_. None), le_print = (\<lambda>_. []), le_seconds = (\<lambda>_. [])\<rparr>"

theorem only_a_cut_escape_panics_witness:
  "\<exists>start. parse_log_line plain_env (start @ [CHR 0x5C]) = None \<and> CHR ''<'' \<in> set start"
proof -
  let ?rest = "''1 - - - - - [a b='' @ quoted_text ''c'' @ [CHR 0x5C]"
  let ?line = "''<34>'' @ ?rest"
  have trims: "trim_start ?line = ?line" "trim_start ?rest = ?rest" by code_simp+
  have no_time: "split_timestamp_prefix ?line = None" by code_simp
  have no_logfmt: "first_of [''msg'', ''message'', ''event''] (logfmt_tokenize ?line) = None" by code_simp
  have priority: "syslog_priority ?line = Some (2, ?rest)"
    by (simp add: syslog_priority_def strip_prefix_def parse_u32_def parse_unsigned_def digits_value_def is_ascii_digit_def code_def)
  have pieces: "splitn 7 (CHR '' '') ?rest = [''1'', ''-'', ''-'', ''-'', ''-'', ''-'', ''[a b='' @ quoted_text ''c'' @ [CHR 0x5C]]"
    by code_simp
  have cut: "rfc5424_message (''[a b='' @ quoted_text ''c'' @ [CHR 0x5C]) = None" by code_simp
  have "parse_syslog_5424 ?rest None l = None" for l
    by (simp only: parse_syslog_5424_def pieces Let_def) (use cut in \<open>simp add: is_ascii_digit_def code_def unwrap_or_def\<close>)
  then have n: "\<And>l. parse_syslog_5424 (trim_start ?rest) None l = None" by (simp only: trims(2))
  have "escape_char \<notin> set ?line" "starts_with ?line ''<''" by (simp_all add: quoted_text_def)
  from panics_in_syslog[OF trims(1) no_time this(1) no_logfmt this(2) priority n]
  have panics: "parse_log_line plain_env ?line = None" .
  from only_a_cut_escape_panics[OF this] obtain start where "?line = start @ [CHR 0x5C]" "CHR ''<'' \<in> set start" by blast
  with panics show ?thesis by metis
qed

section \<open>Severities\<close>

definition log_levels :: "string list" where
  "log_levels = [''error'', ''warn'', ''info'', ''debug'', ''plain'']"

lemma level_word_ok: "level_word s = Some l \<Longrightarrow> l \<in> set log_levels"
  by (auto simp: level_word_def Let_def log_levels_def split: if_splits)

lemma numeric_level_ok: "numeric_level n = Some l \<Longrightarrow> l \<in> set log_levels"
  by (auto simp: numeric_level_def log_levels_def split: if_splits)

lemma find_map_ok: "find_map f xs = Some y \<Longrightarrow> (\<And>x y. f x = Some y \<Longrightarrow> P y) \<Longrightarrow> P y"
  by (induction xs) (auto split: option.splits)

lemma json_level_ok: "json_level obj = Some l \<Longrightarrow> l \<in> set log_levels"
  unfolding json_level_def or_else_Some
  by (elim disjE conjE; (elim find_map_ok)?)
    (auto simp: bind_eq_Some_conv or_else_Some dest: level_word_ok numeric_level_ok)

lemma unwrap_or_ok: "(\<And>x. s = Some x \<Longrightarrow> P x) \<Longrightarrow> P d \<Longrightarrow> P (unwrap_or d s)"
  by (auto simp: unwrap_or_def split: option.splits)

lemma klog_level_ok: "klog_level t = Some l \<Longrightarrow> l \<in> set log_levels"
  by (auto simp: klog_level_def log_levels_def split: list.splits if_splits)

lemma logfmt_level_ok: "logfmt_level t k = Some l \<Longrightarrow> l \<in> set log_levels"
  by (auto simp: logfmt_level_def bind_eq_Some_conv dest: level_word_ok)

lemma plain_ok [simp]: "''plain'' \<in> set log_levels" "''error'' \<in> set log_levels"
  by (simp_all add: log_levels_def)

lemma severity_ok: "syslog_severity_to_level n \<in> set log_levels"
  by (simp add: syslog_severity_to_level_def log_levels_def)

lemma word_levels_ok: "or_else (bracket_level t) (first_word_level t) = Some l \<Longrightarrow> l \<in> set log_levels"
  by (auto simp: or_else_Some bracket_level_def first_word_level_def Let_def bind_eq_Some_conv
      split: if_splits dest: level_word_ok)

lemma logfmt_levels_ok: "find_map (logfmt_level t) ks = Some l \<Longrightarrow> l \<in> set log_levels"
  by (erule find_map_ok) (rule logfmt_level_ok)

lemma classify_level_ok: "classify_level env t \<in> set log_levels"
proof -
  have j: "unwrap_or ''plain'' (json_level obj) \<in> set log_levels" for obj
    by (rule unwrap_or_ok) (auto dest: json_level_ok)
  have w: "unwrap_or ''plain'' (or_else (bracket_level t) (first_word_level t)) \<in> set log_levels"
    by (rule unwrap_or_ok) (auto dest: word_levels_ok)
  show ?thesis
    unfolding classify_level_def
    by (auto split: option.splits json.splits prod.splits simp: j w severity_ok 
        dest: klog_level_ok logfmt_levels_ok simp del: find_map.simps)
qed

lemma syslog_3164_level: "pg_level (syslog_3164 t ts l p) = (if parse_syslog_3164_body t = None then pg_level p else l)"
  by (simp add: syslog_3164_def split: option.split)

lemma json_rpc_level: "parse_json_rpc env obj ts l = Some p \<Longrightarrow> pg_level p = l \<or> pg_level p = ''error''"
  by (auto simp: parse_json_rpc_def Let_def split: if_splits option.splits)

lemma json_log_level: "parse_json_log env obj ts l = Some p \<Longrightarrow> pg_level p = l"
  by (auto simp: parse_json_log_def Let_def)

lemma logfmt_log_level: "parse_logfmt t ts l = Some p \<Longrightarrow> pg_level p = l"
  by (auto simp: parse_logfmt_def Let_def)

lemma zap_level: "parse_zap_console t ts l = Some p \<Longrightarrow> pg_level p = l"
  unfolding parse_zap_console_def by (simp split: if_splits list.splits prod.splits) force+

lemma syslog_5424_level: "parse_syslog_5424 t ts l = Some (Some p) \<Longrightarrow> pg_level p = l"
  by (auto simp: parse_syslog_5424_def Let_def split: if_splits)

lemmas parsed_levels = json_rpc_level json_log_level logfmt_log_level zap_level syslog_5424_level

text \<open>Every line has one of five severities, the one of its classification or, for a JSON-RPC error, \<open>error\<close>.\<close>

theorem log_levels_are_known:
  assumes "parse_log_line env line = Some p"
  shows "pg_level p \<in> set log_levels"
proof -
  obtain outer t where ot: "(case split_timestamp_prefix (trim_start line) of
      Some (ts, rest) \<Rightarrow> (Some ts, rest) | None \<Rightarrow> (None, trim_start line)) = (outer, t)" by fastforce
  define l where "l = classify_level env (if escape_char \<in> set t then strip_ansi t else t)"
  define raw where "raw = \<lparr>pg_display = (if outer \<noteq> None then unwrap_or t (strip_level_prefix t) else t), pg_caller = None,
            pg_timestamp = outer, pg_level = l, pg_details = None, pg_structured = (outer \<noteq> None)\<rparr>"
  note body = assms[unfolded parse_log_line_def, simplified Let_def ot prod.case, folded l_def, folded raw_def]
  have raw: "pg_level raw = l" by (simp add: raw_def)
  consider "escape_char \<in> set t" | "escape_char \<notin> set t" "starts_with t ''{''"
    | q where "escape_char \<notin> set t" "\<not> starts_with t ''{''" "or_else (parse_logfmt t outer l) (parse_zap_console t outer l) = Some q"
    | "escape_char \<notin> set t" "\<not> starts_with t ''{''" "or_else (parse_logfmt t outer l) (parse_zap_console t outer l) = None"
    by fastforce
  then have "pg_level p = l \<or> pg_level p = ''error''"
  proof cases
    case 1
    with body raw show ?thesis by simp
  next
    case 2
    with body raw show ?thesis
      by (auto simp: unwrap_or_def or_else_Some split: option.splits json.splits dest: parsed_levels)
  next
    case 3
    with body show ?thesis by (auto simp: or_else_Some dest: parsed_levels)
  next
    case 4
    with body raw show ?thesis
      by (auto simp: syslog_3164_level Let_def split: option.splits prod.splits if_splits dest: parsed_levels)
  qed
  then show ?thesis using classify_level_ok by (auto simp: l_def)
qed

section \<open>Reading logfmt back\<close>

text \<open>A pair as a logfmt logger writes it.\<close>

definition escape :: "char \<Rightarrow> string" where
  "escape c = (if c = CHR 0x22 then [CHR 0x5C, CHR 0x22] else if c = CHR 0x5C then [CHR 0x5C, CHR 0x5C]
     else if c = CHR 0x0A then [CHR 0x5C, CHR ''n''] else if c = CHR 0x09 then [CHR 0x5C, CHR ''t''] else [c])"

definition write_pair :: "string \<times> string \<Rightarrow> string" where
  "write_pair p = fst p @ ''='' @ CHR 0x22 # concat (map escape (snd p)) @ [CHR 0x22]"

lemma unquote_escaped: "unquote (concat (map escape v) @ CHR 0x22 # rest) False = (v, rest)"
  by (induction v) (auto simp: escape_def)

lemma tokenize_blank: "is_blank c \<Longrightarrow> logfmt_tokenize (c # t) = logfmt_tokenize t"
  by (simp add: logfmt_tokenize.simps[of "c # t"] logfmt_tokenize.simps[of t])

lemma tokenize_pair:
  assumes "k \<noteq> []" "list_all logfmt_key_char k"
  shows "logfmt_tokenize (write_pair (k, v) @ rest) = (k, v) # logfmt_tokenize rest"
proof -
  let ?t = "write_pair (k, v) @ rest"
  have hd: "\<not> is_blank (hd k)" using assms by (cases k) (auto simp: logfmt_key_char_def)
  have t: "?t = k @ CHR ''='' # CHR 0x22 # concat (map escape v) @ CHR 0x22 # rest" by (simp add: write_pair_def)
  have d: "dropWhile is_blank ?t = ?t" using hd assms(1) unfolding t by (cases k) auto
  have e: "\<not> logfmt_key_char (CHR ''='')" by (simp add: logfmt_key_char_def)
  have w: "takeWhile logfmt_key_char ?t = k" "dropWhile logfmt_key_char ?t = CHR ''='' # CHR 0x22 # concat (map escape v) @ CHR 0x22 # rest"
    unfolding t using assms(2) e by (simp_all add: list_all_iff takeWhile_append dropWhile_append)
  have "?t \<noteq> []" by (simp add: write_pair_def)
  with assms(1) unquote_escaped[of v rest] show ?thesis
    unfolding logfmt_tokenize.simps[of ?t] Let_def d w by (simp add: logfmt_value_def)
qed

text \<open>What a logfmt logger writes is read back: pairs with quoted values in any order and number, whatever
  the values contain.\<close>

theorem logfmt_round_trip:
  assumes "\<And>k v. (k, v) \<in> set pairs \<Longrightarrow> k \<noteq> [] \<and> list_all logfmt_key_char k"
  shows "logfmt_tokenize (join_with '' '' (map write_pair pairs)) = pairs"
  using assms
proof (induction pairs)
  case Nil
  then show ?case by (simp add: logfmt_tokenize.simps)
next
  case (Cons p pairs)
  obtain k v where p: "p = (k, v)" by fastforce
  have k: "k \<noteq> []" "list_all logfmt_key_char k" using Cons.prems[of k v] by (simp_all add: p)
  have "logfmt_tokenize (join_with '' '' (map write_pair pairs)) = pairs" using Cons by auto
  then show ?case
    using tokenize_pair[OF k, of v "[]"] tokenize_pair[OF k, of v "CHR '' '' # join_with '' '' (map write_pair pairs)"]
      tokenize_blank[of "CHR '' ''"]
    by (cases pairs) (auto simp: p is_blank_def logfmt_tokenize.simps[of "[]"])
qed

theorem logfmt_round_trip_witness:
  "logfmt_tokenize (join_with '' '' (map write_pair [(''msg'', ''a='' @ [CHR 0x22]), (''k'', [])])) = [(''msg'', ''a='' @ [CHR 0x22]), (''k'', [])]"
  by (rule logfmt_round_trip) (auto simp: logfmt_key_char_def is_blank_def)

section \<open>Padded days\<close>

lemma split_once_word: "CHR '' '' \<notin> set w \<Longrightarrow> split_once (CHR '' '') (w @ CHR '' '' # s) = Some (w, s)"
  by (simp add: split_once_Some)

text \<open>RFC 3164 pads a day of one digit with a space.  The empty piece between the two spaces counts for the
  five pieces of the split, so the message of such a line ends up in the host name and the line is not read.\<close>

theorem padded_day_is_not_read:
  assumes "CHR '' '' \<notin> set day" "CHR '' '' \<notin> set time" "day \<noteq> []" "time \<noteq> []"
  shows "parse_syslog_3164_body (''Jan'' @ ''  '' @ day @ '' '' @ time @ '' '' @ message) = None"
proof -
  have five: "(5 :: nat) = Suc (Suc (Suc (Suc (Suc 0))))" by simp
  let ?t = "''Jan'' @ CHR '' '' # [] @ CHR '' '' # day @ CHR '' '' # time @ CHR '' '' # message"
  have "splitn 5 (CHR '' '') ?t = [''Jan'', [], day, time, message]"
    using assms(1,2) split_once_word[of "''Jan''"] split_once_word[of "[]"] split_once_word[of day] split_once_word[of time]
    unfolding five by simp
  then show ?thesis using assms(3,4) by (cases "message = []") (simp_all add: parse_syslog_3164_body_def trim_def trim_start_def trim_end_def)
qed

end
