(* ===== verification/Prom.thy ===== *)
theory Prom
  imports Metrics
begin

text \<open>
  The Prometheus client (\<open>crates/k8s/src/promql.rs\<close>): construction of queries and the classification of
  answers.  The HTTP client, JSON, UTF-8 and the texts of their errors are parameters; an answer is its status
  and the chunks of its body.
\<close>

section \<open>Where it is\<close>

definition direct_prometheus_url :: "(string \<Rightarrow> string + string) \<Rightarrow> string \<Rightarrow> string + string" where
  "direct_prometheus_url url_scheme url =
     and_then (map_err (\<lambda>e. ''invalid RODER_PROMETHEUS_URL: '' @ e) (url_scheme url)) (\<lambda>scheme.
     if scheme \<notin> {''http'', ''https''} then Inl ''RODER_PROMETHEUS_URL must use http or https''
     else Inr (trim_end_matches (\<lambda>c. c = CHR ''/'') url))"

datatype env_var = VarSet string | VarNotPresent | VarInvalid string

definition prometheus_url :: "(string \<Rightarrow> string + string) \<Rightarrow> env_var \<Rightarrow> string + string option" where
  "prometheus_url url_scheme var = (case var of
     VarSet url \<Rightarrow> and_then (direct_prometheus_url url_scheme url) (\<lambda>u. Inr (Some u))
   | VarNotPresent \<Rightarrow> Inr None
   | VarInvalid e \<Rightarrow> Inl (''invalid RODER_PROMETHEUS_URL: '' @ e))"

section \<open>Writing queries\<close>

definition escape_label_char :: "char \<Rightarrow> string" where
  "escape_label_char c = (if c = CHR 0x5C then [CHR 0x5C, CHR 0x5C] else if c = CHR 0x22 then [CHR 0x5C, CHR 0x22]
     else if c = CHR 0x0A then [CHR 0x5C, CHR ''n''] else [c])"

definition escape_label_value :: "string \<Rightarrow> string" where
  "escape_label_value s = concat (map escape_label_char s)"

definition regex_meta :: "char list" where
  "regex_meta = CHR 0x5C # ''.+*?()|[]{}^$''"

definition escape_regex :: "string \<Rightarrow> string" where
  "escape_regex s = concat (map (\<lambda>c. if c \<in> set regex_meta then [CHR 0x5C, c] else [c]) s)"

definition promql_duration :: "nat \<Rightarrow> string" where
  "promql_duration secs = (if secs = 0 then ''0s''
     else if secs mod 3600 = 0 then show_nat (secs div 3600) @ ''h''
     else if secs mod 60 = 0 then show_nat (secs div 60) @ ''m''
     else show_nat secs @ ''s'')"

section \<open>Answers\<close>

datatype prom_error =
    PromRequest string
  | PromResponse string
  | PromApi string string
  | PromTooLarge nat
  | PromResultType string string

record sample =
  sm_labels :: "(string, string) hmap"
  sm_timestamp :: f64
  sm_value :: f64

record range_series =
  rr_labels :: "(string, string) hmap"
  rr_values :: "(f64 \<times> f64) list"

record raw_series =
  sr_metric :: "(string, string) hmap"
  sr_value :: "(f64 \<times> string) option"
  sr_values :: "(f64 \<times> string) list"

record envelope_data =
  ed_result_type :: string
  ed_result :: "raw_series list"

record envelope =
  ev_status :: string
  ev_data :: "envelope_data option"
  ev_error_type :: "string option"
  ev_error :: "string option"

record prom_env =
  pv_send :: "string \<Rightarrow> (string \<times> string) list \<Rightarrow> string + string \<times> (string + string) list"
  pv_utf8 :: "string \<Rightarrow> string + string"
  pv_parse :: "string \<Rightarrow> string + envelope"
  pv_float :: "string \<Rightarrow> string + f64"
  pv_now :: string

record prom_client =
  pc_base_url :: string
  pc_max_response_bytes :: nat
  pc_timeout :: nat

definition new_client :: "string \<Rightarrow> prom_client" where
  "new_client url = \<lparr>pc_base_url = url, pc_max_response_bytes = 16 * 1024 * 1024, pc_timeout = 120\<rparr>"

text \<open>The chunks read so far are the argument \<open>bytes\<close>.\<close>

fun read_body :: "nat \<Rightarrow> (string + string) list \<Rightarrow> string \<Rightarrow> prom_error + string" where
  "read_body bound [] bytes = Inr bytes"
| "read_body bound (c # cs) bytes = (case c of
     Inl e \<Rightarrow> Inl (PromResponse e)
   | Inr chunk \<Rightarrow> if length bytes + length chunk > bound then Inl (PromTooLarge bound)
       else read_body bound cs (bytes @ chunk))"

definition prom_post :: "prom_env \<Rightarrow> prom_client \<Rightarrow> string \<Rightarrow> (string \<times> string) list \<Rightarrow> prom_error + envelope_data" where
  "prom_post env client path params =
     (case pv_send env (pc_base_url client @ path) params of
        Inl e \<Rightarrow> Inl (PromRequest e)
      | Inr (status, chunks) \<Rightarrow>
          and_then (read_body (pc_max_response_bytes client) chunks []) (\<lambda>bytes.
          and_then (map_err (\<lambda>e. PromResponse (''not UTF-8: '' @ e)) (pv_utf8 env bytes)) (\<lambda>body.
          and_then (map_err (\<lambda>e. PromResponse (''json: '' @ e)) (pv_parse env body)) (\<lambda>envelope.
          if ev_status envelope \<noteq> ''success'' then
            Inl (PromApi (unwrap_or status (ev_error_type envelope)) (unwrap_or ''no error detail'' (ev_error envelope)))
          else ok_or (PromResponse ''successful response has no data'') (ev_data envelope)))))"

definition parse_sample_value :: "prom_env \<Rightarrow> string \<Rightarrow> prom_error + f64" where
  "parse_sample_value env raw = map_err PromResponse (pv_float env raw)"

definition sample_of :: "prom_env \<Rightarrow> raw_series \<Rightarrow> prom_error + sample" where
  "sample_of env series =
     and_then (ok_or (PromResponse ''vector series is missing its value'') (sr_value series)) (\<lambda>(timestamp, raw).
     and_then (parse_sample_value env raw) (\<lambda>v.
     Inr \<lparr>sm_labels = sr_metric series, sm_timestamp = timestamp, sm_value = v\<rparr>))"

definition expect_type :: "string \<Rightarrow> envelope_data \<Rightarrow> prom_error + raw_series list" where
  "expect_type want data = (if ed_result_type data \<noteq> want then Inl (PromResultType want (ed_result_type data))
     else Inr (ed_result data))"

definition query_at :: "prom_env \<Rightarrow> prom_client \<Rightarrow> string \<Rightarrow> string \<Rightarrow> prom_error + sample list" where
  "query_at env client query at =
     and_then (prom_post env client ''/api/v1/query''
       [(''query'', query), (''time'', at), (''timeout'', promql_duration (pc_timeout client))]) (\<lambda>data.
     and_then (expect_type ''vector'' data) (collect_results (sample_of env)))"

definition prom_query :: "prom_env \<Rightarrow> prom_client \<Rightarrow> string \<Rightarrow> prom_error + sample list" where
  "prom_query env client query = query_at env client query (pv_now env)"

definition range_series_of :: "prom_env \<Rightarrow> raw_series \<Rightarrow> prom_error + range_series" where
  "range_series_of env series =
     and_then (collect_results (\<lambda>(timestamp, raw). and_then (parse_sample_value env raw) (\<lambda>v. Inr (timestamp, v)))
       (sr_values series)) (\<lambda>vs. Inr \<lparr>rr_labels = sr_metric series, rr_values = vs\<rparr>)"

definition query_range :: "prom_env \<Rightarrow> prom_client \<Rightarrow> string \<Rightarrow> string \<Rightarrow> string \<Rightarrow> nat \<Rightarrow> prom_error + range_series list" where
  "query_range env client query start end_at step =
     and_then (prom_post env client ''/api/v1/query_range''
       [(''query'', query), (''start'', start), (''end'', end_at), (''step'', promql_duration step),
        (''timeout'', promql_duration (pc_timeout client))]) (\<lambda>data.
     and_then (expect_type ''matrix'' data) (collect_results (range_series_of env)))"

section \<open>Reading a query back\<close>

text \<open>A double-quoted string of PromQL after its opening quote: its value, and what follows it.\<close>

fun prom_string :: "string \<Rightarrow> (string \<times> string) option" where
  "prom_string [] = None"
| "prom_string (c # s) =
     (if c = CHR 0x22 then Some ([], s)
      else if c = CHR 0x0A then None
      else if c = CHR 0x5C then (case s of
          d # s' \<Rightarrow> (if d = CHR ''n'' then map_option (\<lambda>(v, rest). (CHR 0x0A # v, rest)) (prom_string s')
            else if d = CHR 0x22 \<or> d = CHR 0x5C then map_option (\<lambda>(v, rest). (d # v, rest)) (prom_string s')
            else None)
        | [] \<Rightarrow> None)
      else map_option (\<lambda>(v, rest). (c # v, rest)) (prom_string s))"

lemma prom_string_escaped: "prom_string (escape_label_value v @ CHR 0x22 # rest) = Some (v, rest)"
  by (induction v) (auto simp: escape_label_value_def escape_label_char_def)

lemma prom_string_shorter: "prom_string s = Some (v, rest) \<Longrightarrow> length rest < length s"
  by (induction s arbitrary: v rule: prom_string.induct) (fastforce split: if_splits list.splits)+

text \<open>A query without the values of its strings, and these values.\<close>

function prom_lex :: "string \<Rightarrow> string \<times> string list" where
  "prom_lex s = (case s of
     [] \<Rightarrow> ([], [])
   | c # r \<Rightarrow>
       if c = CHR 0x22 then (case prom_string r of
           Some (v, rest) \<Rightarrow> (case prom_lex rest of (outside, strings) \<Rightarrow> (CHR 0x22 # CHR 0x22 # outside, v # strings))
         | None \<Rightarrow> (s, []))
       else (case prom_lex r of (outside, strings) \<Rightarrow> (c # outside, strings)))"
  by pat_completeness auto
termination
  by (relation "measure length") (auto dest: prom_string_shorter)

declare prom_lex.simps [simp del]

lemma prom_lex_code:
  "prom_lex [] = ([], [])"
  "c \<noteq> CHR 0x22 \<Longrightarrow> prom_lex (c # r) = map_prod ((#) c) id (prom_lex r)"
  by (simp_all add: prom_lex.simps split: prod.split)

lemma prom_lex_string:
  "prom_lex (CHR 0x22 # escape_label_value v @ CHR 0x22 # rest) =
     map_prod ((@) [CHR 0x22, CHR 0x22]) ((#) v) (prom_lex rest)"
  by (simp add: prom_lex.simps[of "CHR 0x22 # _"] prom_string_escaped split: prod.split)

lemma prom_lex_append: "CHR 0x22 \<notin> set a \<Longrightarrow> prom_lex (a @ s) = map_prod ((@) a) id (prom_lex s)"
  by (induction a) (auto simp: prom_lex_code prod.map_comp o_def prod.map_id0[unfolded id_def] map_prod_def split_beta)

text \<open>The alternatives of a regular expression of escaped literals, if it is one.\<close>

definition extend_first :: "char \<Rightarrow> string list \<Rightarrow> string list" where
  "extend_first d alts = (d # hd alts) # tl alts"

fun regex_alternatives :: "string \<Rightarrow> string list option" where
  "regex_alternatives [] = Some [[]]"
| "regex_alternatives (c # s) =
     (if c = CHR 0x5C then (case s of
         d # s' \<Rightarrow> if d \<in> set regex_meta then map_option (extend_first d) (regex_alternatives s') else None
       | [] \<Rightarrow> None)
      else if c = CHR ''|'' then map_option (\<lambda>alts. [] # alts) (regex_alternatives s)
      else if c \<in> set regex_meta then None
      else map_option (extend_first c) (regex_alternatives s))"

lemma alternatives_literal:
  "regex_alternatives s = Some (a # alts) \<Longrightarrow> regex_alternatives (escape_regex v @ s) = Some ((v @ a) # alts)"
  by (induction v) (auto simp: escape_regex_def extend_first_def regex_meta_def)

lemma alternatives_join:
  "vs \<noteq> [] \<Longrightarrow> regex_alternatives (join_with ''|'' (map escape_regex vs)) = Some vs"
proof (induction vs)
  case (Cons v vs)
  show ?case
  proof (cases vs)
    case Nil
    then show ?thesis using alternatives_literal[of "[]" "[]" "[]" v] by simp
  next
    case (Cons w ws)
    then have "regex_alternatives (CHR ''|'' # join_with ''|'' (map escape_regex vs)) = Some ([] # vs)"
      using Cons.IH by simp
    from alternatives_literal[OF this, of v] Cons show ?thesis by simp
  qed
qed simp

end
