(* ===== verification/Recommend.thy ===== *)
theory Recommend
  imports Prom Catalog
begin

text \<open>
  Recommendations of resource requests from the usage history (\<open>crates/core/src/recommend.rs\<close>,
  \<open>crates/k8s/src/recommend.rs\<close>, \<open>backend/recommend.rs\<close> and \<open>server/api/recommend.rs\<close>).  What Prometheus
  and the API server answer is an environment, and so is \<open>f64\<close> arithmetic.
\<close>

section \<open>Advice\<close>

datatype workload_kind = WkDeployment | WkStatefulSet | WkDaemonSet | WkJob | WkCronJob | WkPod

fun workload_label :: "workload_kind \<Rightarrow> string" where
  "workload_label WkDeployment = ''Deployment''"
| "workload_label WkStatefulSet = ''StatefulSet''"
| "workload_label WkDaemonSet = ''DaemonSet''"
| "workload_label WkJob = ''Job''"
| "workload_label WkCronJob = ''CronJob''"
| "workload_label WkPod = ''Pod''"

record container_resources =
  cr_cpu_request :: "f64 option"
  cr_cpu_limit :: "f64 option"
  cr_memory_request :: "f64 option"
  cr_memory_limit :: "f64 option"

definition no_resources :: container_resources where
  "no_resources = \<lparr>cr_cpu_request = None, cr_cpu_limit = None, cr_memory_request = None, cr_memory_limit = None\<rparr>"

datatype advice_severity = SevUnknown | SevGood | SevOk | SevWarning | SevCritical

fun severity_rank :: "advice_severity \<Rightarrow> nat" where
  "severity_rank SevUnknown = 0"
| "severity_rank SevGood = 1"
| "severity_rank SevOk = 2"
| "severity_rank SevWarning = 3"
| "severity_rank SevCritical = 4"

fun dot_class :: "advice_severity \<Rightarrow> string" where
  "dot_class SevCritical = ''sev-critical''"
| "dot_class SevWarning = ''sev-warning''"
| "dot_class SevOk = ''sev-info''"
| "dot_class SevGood = ''sev-info''"
| "dot_class SevUnknown = ''sev-''"

fun advice_label :: "advice_severity \<Rightarrow> string" where
  "advice_label SevCritical = ''Critical''"
| "advice_label SevWarning = ''Warning''"
| "advice_label SevOk = ''Ok''"
| "advice_label SevGood = ''Good''"
| "advice_label SevUnknown = ''Unknown''"

lemma severity_rank_inject: "severity_rank a = severity_rank b \<Longrightarrow> a = b"
  by (cases a; cases b) simp_all

text \<open>The derived order: by the position of the constructor.\<close>

instantiation advice_severity :: linorder
begin

definition less_eq_advice_severity :: "advice_severity \<Rightarrow> advice_severity \<Rightarrow> bool" where
  "less_eq_advice_severity a b \<longleftrightarrow> severity_rank a \<le> severity_rank b"

definition less_advice_severity :: "advice_severity \<Rightarrow> advice_severity \<Rightarrow> bool" where
  "less_advice_severity a b \<longleftrightarrow> severity_rank a < severity_rank b"

instance
  by standard (auto simp: less_eq_advice_severity_def less_advice_severity_def dest: severity_rank_inject)

end

lemma severity_rank_le: "a \<le> b \<longleftrightarrow> severity_rank a \<le> severity_rank b"
  by (simp add: less_eq_advice_severity_def)

record resource_advice =
  ra_namespace :: string
  ra_workload :: string
  ra_workload_kind :: workload_kind
  ra_container :: string
  ra_current :: container_resources
  ra_recommended :: container_resources
  ra_cpu_severity :: advice_severity
  ra_memory_severity :: advice_severity
  ra_info :: "string option"

definition advice_severity_of :: "resource_advice \<Rightarrow> advice_severity" where
  "advice_severity_of r = max (ra_cpu_severity r) (ra_memory_severity r)"

definition missing_requests :: "resource_advice \<Rightarrow> bool" where
  "missing_requests r \<longleftrightarrow> cr_cpu_request (ra_current r) = None \<or> cr_memory_request (ra_current r) = None"

text \<open>A stable sort, the worst first.\<close>

definition advice_key :: "resource_advice \<Rightarrow> nat \<times> string \<times> string \<times> string" where
  "advice_key r = (4 - severity_rank (advice_severity_of r), ra_namespace r, ra_workload r, ra_container r)"

definition sort_advice :: "resource_advice list \<Rightarrow> resource_advice list" where
  "sort_advice rows = sort_key advice_key rows"

record scan_failure =
  fl_namespace :: string
  fl_workload :: string
  fl_error :: prom_error

record resource_scan_result =
  rn_rows :: "resource_advice list"
  rn_history_hours :: f64
  rn_cpu_percentile :: f64
  rn_scanned_workloads :: nat
  rn_failures :: "scan_failure list"

record scan_totals =
  tt_cpu_current :: f64
  tt_cpu_recommended :: f64
  tt_memory_current :: f64
  tt_memory_recommended :: f64
  tt_counts :: "advice_severity \<Rightarrow> nat"
  tt_unset :: nat
  tt_droppable_cpu_limits :: nat

definition add_pair :: "f64_ops \<Rightarrow> f64 option \<Rightarrow> f64 option \<Rightarrow> f64 \<times> f64 \<Rightarrow> f64 \<times> f64" where
  "add_pair fo current recommended acc = (case (current, recommended, acc) of
     (Some c, Some r, a, b) \<Rightarrow> (fo_add fo a c, fo_add fo b r)
   | _ \<Rightarrow> acc)"

definition total_row :: "f64_ops \<Rightarrow> resource_advice \<Rightarrow> scan_totals \<Rightarrow> scan_totals" where
  "total_row fo r t =
     (let sev = advice_severity_of r;
          (cpu_current, cpu_recommended) = add_pair fo (cr_cpu_request (ra_current r)) (cr_cpu_request (ra_recommended r))
            (tt_cpu_current t, tt_cpu_recommended t);
          (memory_current, memory_recommended) = add_pair fo (cr_memory_request (ra_current r))
            (cr_memory_request (ra_recommended r)) (tt_memory_current t, tt_memory_recommended t) in
      t\<lparr>tt_cpu_current := cpu_current, tt_cpu_recommended := cpu_recommended, tt_memory_current := memory_current,
        tt_memory_recommended := memory_recommended, tt_counts := (tt_counts t)(sev := tt_counts t sev + 1),
        tt_unset := tt_unset t + (if missing_requests r then 1 else 0),
        tt_droppable_cpu_limits := tt_droppable_cpu_limits t
          + (if cr_cpu_limit (ra_current r) \<noteq> None \<and> cr_cpu_limit (ra_recommended r) = None then 1 else 0)\<rparr>)"

definition cpu_delta :: "f64_ops \<Rightarrow> scan_totals \<Rightarrow> f64" where
  "cpu_delta fo t = fo_sub fo (tt_cpu_current t) (tt_cpu_recommended t)"

definition memory_delta :: "f64_ops \<Rightarrow> scan_totals \<Rightarrow> f64" where
  "memory_delta fo t = fo_sub fo (tt_memory_current t) (tt_memory_recommended t)"

definition no_totals :: "f64_ops \<Rightarrow> scan_totals" where
  "no_totals fo = (let z = fo_lit fo ''0.0'' in \<lparr>tt_cpu_current = z, tt_cpu_recommended = z, tt_memory_current = z,
     tt_memory_recommended = z, tt_counts = (\<lambda>_. 0), tt_unset = 0, tt_droppable_cpu_limits = 0\<rparr>)"

definition scan_totals_of :: "f64_ops \<Rightarrow> resource_advice list \<Rightarrow> scan_totals" where
  "scan_totals_of fo rows = fold (total_row fo) rows (no_totals fo)"

section \<open>Settings and inputs\<close>

record scan_settings =
  st_history :: nat
  st_history_hours :: f64
  st_step :: nat
  st_cpu_percentile :: f64
  st_memory_buffer :: f64
  st_oom_buffer :: f64
  st_points_required :: f64

text \<open>The operations on \<open>f64\<close> beyond those of \<open>Metrics\<close>; the last two are \<open>Duration::from_secs_f64\<close> with \<open>as_secs\<close>, and
  with \<open>as_secs_f64\<close> in hours.\<close>

record scan_ops =
  sq_f64 :: f64_ops
  sq_ge :: "f64 \<Rightarrow> f64 \<Rightarrow> bool"
  sq_max :: "f64 \<Rightarrow> f64 \<Rightarrow> f64"
  sq_abs :: "f64 \<Rightarrow> f64"
  sq_display :: "f64 \<Rightarrow> string"
  sq_whole_seconds :: "f64 \<Rightarrow> nat"
  sq_hours :: "f64 \<Rightarrow> f64"

definition default_settings :: "f64_ops \<Rightarrow> scan_settings" where
  "default_settings fo = \<lparr>st_history = 24 * 7 * 2 * 3600, st_history_hours = fo_lit fo ''336.0'', st_step = 75, st_cpu_percentile = fo_lit fo ''95.0'',
     st_memory_buffer = fo_lit fo ''15.0'', st_oom_buffer = fo_lit fo ''25.0'', st_points_required = fo_lit fo ''100.0''\<rparr>"

text \<open>The window of the query parameter \<open>history_hours\<close>, between an hour and a month.\<close>

definition scan_settings_of :: "scan_ops \<Rightarrow> f64 option \<Rightarrow> scan_settings option" where
  "scan_settings_of so history_hours = (let fo = sq_f64 so in case history_hours of
     None \<Rightarrow> Some (default_settings fo)
   | Some hours \<Rightarrow>
       if \<not> fo_finite fo hours \<or> \<not> (sq_ge so hours (fo_lit fo ''1.0'')
           \<and> sq_ge so (fo_mul fo (fo_lit fo ''24.0'') (fo_lit fo ''31.0'')) hours) then None
       else (let seconds = fo_mul fo hours (fo_lit fo ''3600.0'') in
         Some ((default_settings fo)\<lparr>st_history := sq_whole_seconds so seconds, st_history_hours := sq_hours so seconds\<rparr>)))"

record workload_ref =
  wr_namespace :: string
  wr_kind :: workload_kind
  wr_name :: string

record container_spec =
  cn_name :: string
  cn_current :: container_resources

record scan_request =
  sr_workload :: workload_ref
  sr_containers :: "container_spec list"
  sr_has_hpa :: bool

section \<open>Severity\<close>

definition severity :: "scan_ops \<Rightarrow> f64 option \<Rightarrow> f64 option \<Rightarrow> f64 \<times> f64 \<times> f64 \<Rightarrow> advice_severity" where
  "severity so current recommended thresholds = (case thresholds of (critical, warning, fine) \<Rightarrow>
     (case (current, recommended) of
        (None, None) \<Rightarrow> SevGood
      | (Some c, Some r) \<Rightarrow>
          (let difference = sq_abs so (fo_sub (sq_f64 so) c r) in
           if sq_ge so difference critical then SevCritical
           else if sq_ge so difference warning then SevWarning
           else if sq_ge so difference fine then SevOk
           else SevGood)
      | _ \<Rightarrow> SevWarning))"

definition cpu_thresholds :: "f64_ops \<Rightarrow> f64 \<times> f64 \<times> f64" where
  "cpu_thresholds fo = (fo_lit fo ''0.5'', fo_lit fo ''0.25'', fo_lit fo ''0.1'')"

definition memory_thresholds :: "f64_ops \<Rightarrow> f64 \<times> f64 \<times> f64" where
  "memory_thresholds fo = (let mb = fo_lit fo ''1_000_000.0'' in
     (fo_mul fo (fo_lit fo ''500.0'') mb, fo_mul fo (fo_lit fo ''250.0'') mb, fo_mul fo (fo_lit fo ''100.0'') mb))"

definition undefined_row :: "scan_request \<Rightarrow> string \<Rightarrow> container_spec \<Rightarrow> resource_advice" where
  "undefined_row rq info c = \<lparr>ra_namespace = wr_namespace (sr_workload rq), ra_workload = wr_name (sr_workload rq),
     ra_workload_kind = wr_kind (sr_workload rq), ra_container = cn_name c, ra_current = cn_current c,
     ra_recommended = no_resources, ra_cpu_severity = SevUnknown, ra_memory_severity = SevUnknown, ra_info = Some info\<rparr>"

section \<open>Queries\<close>

definition pod_selector :: "string list \<Rightarrow> string" where
  "pod_selector pods = escape_label_value (join_with ''|'' (map escape_regex pods))"

abbreviation quote :: string where
  "quote \<equiv> [CHR 0x22]"

text \<open>\<open>name="..."\<close>; the argument is what stands between the quotes.\<close>

definition matcher :: "string \<Rightarrow> string \<Rightarrow> string" where
  "matcher label inner = label @ ''='' @ quote @ inner @ quote"

definition regex_matcher :: "string \<Rightarrow> string \<Rightarrow> string" where
  "regex_matcher label inner = label @ ''=~'' @ quote @ inner @ quote"

definition owner_query :: "string \<Rightarrow> string \<Rightarrow> string \<Rightarrow> string \<Rightarrow> nat \<Rightarrow> string" where
  "owner_query metric namespace owner_kind owner_name history =
     ''last_over_time('' @ metric @ ''{'' @ matcher ''namespace'' (escape_label_value namespace)
       @ '', '' @ matcher ''owner_kind'' owner_kind @ '', '' @ matcher ''owner_name'' (escape_label_value owner_name)
       @ ''}['' @ promql_duration history @ ''])''"

definition pod_owner_query :: "string \<Rightarrow> string \<Rightarrow> string list \<Rightarrow> nat \<Rightarrow> string" where
  "pod_owner_query namespace owner_kind owner_names history =
     ''last_over_time(kube_pod_owner{'' @ matcher ''namespace'' (escape_label_value namespace)
       @ '', '' @ matcher ''owner_kind'' owner_kind @ '', '' @ regex_matcher ''owner_name'' (pod_selector owner_names)
       @ ''}['' @ promql_duration history @ ''])''"

definition namespace_and_pods :: "string \<Rightarrow> string list \<Rightarrow> string" where
  "namespace_and_pods namespace pods = matcher ''namespace'' (escape_label_value namespace)
     @ '', '' @ regex_matcher ''pod'' (pod_selector pods)"

definition any_container :: string where
  "any_container = '', container!='' @ quote @ quote @ ''}''"

definition window :: "scan_settings \<Rightarrow> string" where
  "window st = ''['' @ promql_duration (st_history st) @ '':'' @ promql_duration (st_step st) @ ''])''"

definition cpu_percentile_query :: "scan_ops \<Rightarrow> string \<Rightarrow> string list \<Rightarrow> scan_settings \<Rightarrow> string" where
  "cpu_percentile_query so namespace pods st =
     ''quantile_over_time('' @ sq_display so (fo_div (sq_f64 so) (st_cpu_percentile st) (fo_lit (sq_f64 so) ''100.0''))
       @ '', max(rate(container_cpu_usage_seconds_total{'' @ namespace_and_pods namespace pods @ any_container
       @ ''['' @ promql_duration (st_step st) @ ''])) by (container, pod, job)'' @ window st"

definition memory_max_query :: "string \<Rightarrow> string list \<Rightarrow> scan_settings \<Rightarrow> string" where
  "memory_max_query namespace pods st =
     ''max_over_time(max(container_memory_working_set_bytes{'' @ namespace_and_pods namespace pods @ any_container
       @ '') by (container, pod, job)'' @ window st"

definition point_count_query :: "string \<Rightarrow> string list \<Rightarrow> scan_settings \<Rightarrow> string" where
  "point_count_query namespace pods st =
     ''count_over_time(max(container_memory_working_set_bytes{'' @ namespace_and_pods namespace pods @ any_container
       @ '') by (container, pod, job)'' @ window st"

definition oomkill_query :: "string \<Rightarrow> string list \<Rightarrow> scan_settings \<Rightarrow> string" where
  "oomkill_query namespace pods st =
     ''max_over_time(max(max(kube_pod_container_resource_limits{'' @ matcher ''resource'' ''memory'' @ '', ''
       @ namespace_and_pods namespace pods @ ''}) by (pod, container, job) * on(pod, container, job) group_left(reason) ''
       @ ''max(kube_pod_container_status_last_terminated_reason{'' @ matcher ''reason'' ''OOMKilled'' @ '', ''
       @ namespace_and_pods namespace pods @ ''}) by (pod, container, job, reason)) by (container, pod, job)'' @ window st"

section \<open>The scanner\<close>

definition by_container :: "f64_ops \<Rightarrow> (f64 \<Rightarrow> f64 option \<Rightarrow> f64) \<Rightarrow> sample list \<Rightarrow> (string, f64) hmap" where
  "by_container fo combine samples = fold (\<lambda>s out. case hm_get (sm_labels s) ''container'' of
       None \<Rightarrow> out
     | Some container \<Rightarrow>
         if \<not> fo_finite fo (sm_value s) then out
         else hm_insert container (combine (sm_value s) (hm_get out container)) out) samples []"

definition max_by_container :: "scan_ops \<Rightarrow> sample list \<Rightarrow> (string, f64) hmap" where
  "max_by_container so samples = by_container (sq_f64 so)
     (\<lambda>v old. case old of None \<Rightarrow> v | Some current \<Rightarrow> sq_max so current v) samples"

definition sum_by_container :: "f64_ops \<Rightarrow> sample list \<Rightarrow> (string, f64) hmap" where
  "sum_by_container fo samples = by_container fo
     (\<lambda>v old. fo_add fo (unwrap_or (fo_lit fo ''0.0'') old) v) samples"

text \<open>\<open>sort_unstable\<close> and \<open>dedup\<close> on strings.\<close>

definition distinct_values :: "string list \<Rightarrow> string list" where
  "distinct_values xs = sorted_list_of_set (set xs)"

type_synonym querier = "string \<Rightarrow> prom_error + sample list"

definition label_values :: "querier \<Rightarrow> string \<Rightarrow> string \<Rightarrow> prom_error + string list" where
  "label_values q query label = and_then (q query) (\<lambda>samples.
     Inr (distinct_values (List.map_filter (\<lambda>s. hm_get (sm_labels s) label) samples)))"

definition pods_owned_by :: "querier \<Rightarrow> string \<Rightarrow> string \<Rightarrow> string list \<Rightarrow> nat \<Rightarrow> prom_error + string list" where
  "pods_owned_by q namespace owner_kind owner_names history =
     label_values q (pod_owner_query namespace owner_kind owner_names history) ''pod''"

definition MAX_PODS_IN_SELECTOR :: nat where
  "MAX_PODS_IN_SELECTOR = 500"

definition truncate_pods :: "string list \<Rightarrow> string list" where
  "truncate_pods pods = (if length pods > MAX_PODS_IN_SELECTOR then drop (length pods - MAX_PODS_IN_SELECTOR) pods else pods)"

text \<open>The pods of a workload one owner away.\<close>

definition pods_through :: "querier \<Rightarrow> workload_ref \<Rightarrow> nat \<Rightarrow> string \<Rightarrow> string \<Rightarrow> string \<Rightarrow> prom_error + string list" where
  "pods_through q w history metric label owner_kind =
     and_then (label_values q (owner_query metric (wr_namespace w) (workload_label (wr_kind w)) (wr_name w) history) label) (\<lambda>owners.
     if owners = [] then Inr []
     else and_then (pods_owned_by q (wr_namespace w) owner_kind owners history) (\<lambda>pods. Inr (truncate_pods pods)))"

definition resolve_pods :: "querier \<Rightarrow> scan_settings \<Rightarrow> workload_ref \<Rightarrow> prom_error + string list" where
  "resolve_pods q st w = (case wr_kind w of
     WkDeployment \<Rightarrow> pods_through q w (st_history st) ''kube_replicaset_owner'' ''replicaset'' ''ReplicaSet''
   | WkCronJob \<Rightarrow> pods_through q w (st_history st) ''kube_job_owner'' ''job_name'' ''Job''
   | WkPod \<Rightarrow> Inr (truncate_pods [wr_name w])
   | kind \<Rightarrow> and_then (pods_owned_by q (wr_namespace w) (workload_label kind) [wr_name w] (st_history st))
       (\<lambda>pods. Inr (truncate_pods pods)))"

definition with_percent :: "f64_ops \<Rightarrow> f64 \<Rightarrow> f64 \<Rightarrow> f64" where
  "with_percent fo x p = fo_mul fo x (fo_add fo (fo_lit fo ''1.0'') (fo_div fo p (fo_lit fo ''100.0'')))"

definition recommended_memory :: "scan_ops \<Rightarrow> scan_settings \<Rightarrow> f64 \<Rightarrow> f64 option \<Rightarrow> f64" where
  "recommended_memory so st peak oom =
     (let with_headroom = with_percent (sq_f64 so) peak (st_memory_buffer st) in
      case oom of Some limit \<Rightarrow> sq_max so with_headroom (with_percent (sq_f64 so) limit (st_oom_buffer st))
      | None \<Rightarrow> with_headroom)"

record container_usage =
  cg_cpu :: "(string, f64) hmap"
  cg_memory :: "(string, f64) hmap"
  cg_points :: "(string, f64) hmap"
  cg_oom :: "(string, f64) hmap"

definition recommend :: "scan_ops \<Rightarrow> scan_settings \<Rightarrow> scan_request \<Rightarrow> container_usage \<Rightarrow> container_spec \<Rightarrow> resource_advice" where
  "recommend so st rq usage c = (let fo = sq_f64 so in
     if fo_less fo (unwrap_or (fo_lit fo ''0.0'') (hm_get (cg_points usage) (cn_name c))) (st_points_required st)
       then undefined_row rq ''Not enough data'' c
     else
       let memory = map_option (\<lambda>peak. recommended_memory so st peak (hm_get (cg_oom usage) (cn_name c)))
             (hm_get (cg_memory usage) (cn_name c));
           recommended = \<lparr>cr_cpu_request = hm_get (cg_cpu usage) (cn_name c), cr_cpu_limit = None,
             cr_memory_request = memory, cr_memory_limit = memory\<rparr> in
       \<lparr>ra_namespace = wr_namespace (sr_workload rq), ra_workload = wr_name (sr_workload rq),
         ra_workload_kind = wr_kind (sr_workload rq), ra_container = cn_name c, ra_current = cn_current c,
         ra_recommended = recommended,
         ra_cpu_severity = severity so (cr_cpu_request (cn_current c)) (cr_cpu_request recommended) (cpu_thresholds fo),
         ra_memory_severity = severity so (cr_memory_request (cn_current c)) (cr_memory_request recommended) (memory_thresholds fo),
         ra_info = None\<rparr>)"

text \<open>The first error of the four concurrent queries: one of those that failed.\<close>

definition try_join :: "(prom_error + 'a) \<Rightarrow> (prom_error + 'a) \<Rightarrow> (prom_error + 'a) \<Rightarrow> (prom_error + 'a)
    \<Rightarrow> (prom_error list \<Rightarrow> prom_error) \<Rightarrow> prom_error + 'a \<times> 'a \<times> 'a \<times> 'a" where
  "try_join a b c d earliest = (case (a, b, c, d) of
     (Inr w, Inr x, Inr y, Inr z) \<Rightarrow> Inr (w, x, y, z)
   | _ \<Rightarrow> Inl (earliest (concat (map (\<lambda>r. case r of Inl e \<Rightarrow> [e] | Inr _ \<Rightarrow> []) [a, b, c, d]))))"

definition scan :: "scan_ops \<Rightarrow> querier \<Rightarrow> (prom_error list \<Rightarrow> prom_error) \<Rightarrow> scan_settings \<Rightarrow> scan_request
    \<Rightarrow> prom_error + resource_advice list" where
  "scan so q earliest st rq =
     (if sr_has_hpa rq then Inr (map (undefined_row rq ''HPA detected'') (sr_containers rq))
      else and_then (resolve_pods q st (sr_workload rq)) (\<lambda>pods.
        if pods = [] then Inr (map (undefined_row rq ''No pod history'') (sr_containers rq))
        else
          let ns = wr_namespace (sr_workload rq) in
          and_then (try_join (q (cpu_percentile_query so ns pods st)) (q (memory_max_query ns pods st))
              (q (point_count_query ns pods st)) (q (oomkill_query ns pods st)) earliest) (\<lambda>(cpu, memory, points, oom).
          let usage = \<lparr>cg_cpu = max_by_container so cpu, cg_memory = max_by_container so memory,
                cg_points = sum_by_container (sq_f64 so) points, cg_oom = max_by_container so oom\<rparr> in
          Inr (map (recommend so st rq usage) (sr_containers rq)))))"

section \<open>The scan of a cluster\<close>

type_synonym scanned_kind = "string \<times> string \<times> workload_kind \<times> string list"

definition SCANNED :: "scanned_kind list" where
  "SCANNED = [(''apps'', ''Deployment'', WkDeployment, [''spec'', ''template'', ''spec'']),
     (''apps'', ''StatefulSet'', WkStatefulSet, [''spec'', ''template'', ''spec'']),
     (''apps'', ''DaemonSet'', WkDaemonSet, [''spec'', ''template'', ''spec'']),
     (''batch'', ''CronJob'', WkCronJob, [''spec'', ''jobTemplate'', ''spec'', ''template'', ''spec''])]"

record scan_env =
  sc_ops :: scan_ops
  sc_catalog :: "resource_kind list"
  sc_list :: "string \<Rightarrow> string option \<Rightarrow> (string + dyn_object list)"
  sc_to_value :: "dyn_object \<Rightarrow> json option"
  sc_query :: querier
  sc_earliest :: "prom_error list \<Rightarrow> prom_error"
  sc_completed :: "scan_request list \<Rightarrow> scan_request list"

definition quantity_at :: "json \<Rightarrow> string \<Rightarrow> string \<Rightarrow> (string \<Rightarrow> f64) \<Rightarrow> f64 option" where
  "quantity_at container kind key parse =
     map_option parse (Option.bind (jpointer container [''resources'', kind, key]) as_str)"

definition container_resources_of :: "f64_ops \<Rightarrow> json \<Rightarrow> container_resources" where
  "container_resources_of fo c = \<lparr>cr_cpu_request = quantity_at c ''requests'' ''cpu'' (parse_cpu fo),
     cr_cpu_limit = quantity_at c ''limits'' ''cpu'' (parse_cpu fo),
     cr_memory_request = quantity_at c ''requests'' ''memory'' (parse_mem fo),
     cr_memory_limit = quantity_at c ''limits'' ''memory'' (parse_mem fo)\<rparr>"

definition template_containers :: "f64_ops \<Rightarrow> json \<Rightarrow> string list \<Rightarrow> container_spec list" where
  "template_containers fo data template =
     List.map_filter (\<lambda>c. map_option (\<lambda>name. \<lparr>cn_name = name, cn_current = container_resources_of fo c\<rparr>)
         (Option.bind (jget c ''name'') as_str))
       (unwrap_or [] (Option.bind (Option.bind (jpointer data template) (\<lambda>spec. jget spec ''containers'')) as_array))"

definition scan_request_of :: "scan_env \<Rightarrow> (string \<times> string \<times> string) list \<Rightarrow> workload_kind \<Rightarrow> string list \<Rightarrow> dyn_object
    \<Rightarrow> scan_request option" where
  "scan_request_of env autoscaled kind template obj =
     Option.bind (dy_name obj) (\<lambda>name. Option.bind (sc_to_value env obj) (\<lambda>data.
       (let namespace = unwrap_or [] (dy_namespace obj);
            containers = template_containers (sq_f64 (sc_ops env)) data template in
        if containers = [] then None
        else Some \<lparr>sr_workload = \<lparr>wr_namespace = namespace, wr_kind = kind, wr_name = name\<rparr>, sr_containers = containers,
          sr_has_hpa = list_ex (\<lambda>t. t = (namespace, workload_label kind, name)) autoscaled\<rparr>)))"

definition find_kind :: "resource_kind list \<Rightarrow> string \<Rightarrow> string \<Rightarrow> resource_kind option" where
  "find_kind catalog grp kind = find (\<lambda>e. rk_group e = grp \<and> rk_kind e = kind) catalog"

text \<open>What can be listed of a kind; nothing when it is unknown or the list fails.\<close>

definition list_kind :: "scan_env \<Rightarrow> string option \<Rightarrow> string \<Rightarrow> string \<Rightarrow> dyn_object list" where
  "list_kind env namespace grp kind = (case find_kind (sc_catalog env) grp kind of
     None \<Rightarrow> []
   | Some entry \<Rightarrow> (case cluster_entry (sc_catalog env) (rk_key entry) of
       Inl _ \<Rightarrow> []
     | Inr api \<Rightarrow> (case sc_list env (rk_key api) (api_scope api namespace) of Inl _ \<Rightarrow> [] | Inr objs \<Rightarrow> objs)))"

definition autoscaled_workloads :: "scan_env \<Rightarrow> string option \<Rightarrow> (string \<times> string \<times> string) list" where
  "autoscaled_workloads env namespace =
     List.map_filter (\<lambda>hpa. Option.bind (sc_to_value env hpa) (\<lambda>data.
         Option.bind (jpointer data [''spec'', ''scaleTargetRef'']) (\<lambda>target.
         Option.bind (Option.bind (jget target ''kind'') as_str) (\<lambda>kind.
         map_option (\<lambda>name. (unwrap_or [] (dy_namespace hpa), kind, name)) (Option.bind (jget target ''name'') as_str)))))
       (list_kind env namespace ''autoscaling'' ''HorizontalPodAutoscaler'')"

definition scan_requests :: "scan_env \<Rightarrow> string option \<Rightarrow> (string \<times> string \<times> string) list \<Rightarrow> scan_request list" where
  "scan_requests env namespace autoscaled = concat (map (\<lambda>(grp, kind, workload_kind, template).
     List.map_filter (scan_request_of env autoscaled workload_kind template) (list_kind env namespace grp kind)) SCANNED)"

text \<open>At most six requests are scanned at a time; \<open>sc_completed\<close> is the order in which they complete.\<close>

definition resource_scan :: "scan_env \<Rightarrow> scan_settings \<Rightarrow> string option \<Rightarrow> resource_scan_result" where
  "resource_scan env st namespace =
     (let requests = scan_requests env namespace (autoscaled_workloads env namespace);
          results = map (\<lambda>rq. (rq, scan (sc_ops env) (sc_query env) (sc_earliest env) st rq)) (sc_completed env requests) in
      \<lparr>rn_rows = sort_advice (concat (map (\<lambda>(_, r). case r of Inr advice \<Rightarrow> advice | Inl _ \<Rightarrow> []) results)),
       rn_history_hours = st_history_hours st, rn_cpu_percentile = st_cpu_percentile st,
       rn_scanned_workloads = length requests,
       rn_failures = List.map_filter (\<lambda>(rq, r). case r of Inr _ \<Rightarrow> None
         | Inl e \<Rightarrow> Some \<lparr>fl_namespace = wr_namespace (sr_workload rq), fl_workload = wr_name (sr_workload rq), fl_error = e\<rparr>)
         results\<rparr>)"

section \<open>The endpoint\<close>

datatype scan_answer = ScanUnavailable | ScanBadWindow | ScanReport resource_scan_result

definition recommendations :: "scan_env option \<Rightarrow> scan_ops \<Rightarrow> string option \<Rightarrow> f64 option \<Rightarrow> scan_answer" where
  "recommendations prometheus so namespace history_hours = (case prometheus of
     None \<Rightarrow> ScanUnavailable
   | Some env \<Rightarrow> (case scan_settings_of so history_hours of
       None \<Rightarrow> ScanBadWindow
     | Some st \<Rightarrow> ScanReport (resource_scan env st namespace)))"

section \<open>Queries name exactly what they are about\<close>

lemma pod_selector_string: "prom_lex (CHR 0x22 # pod_selector pods @ CHR 0x22 # rest) =
    map_prod ((@) [CHR 0x22, CHR 0x22]) ((#) (join_with ''|'' (map escape_regex pods))) (prom_lex rest)"
  by (simp add: pod_selector_def prom_lex_string)

lemma show_nat_no_quote: "CHR 0x22 \<notin> set (show_nat n)"
  using show_nat_digits[of n] by (auto simp: list_all_iff is_ascii_digit_def code_def)

lemma duration_no_quote: "CHR 0x22 \<notin> set (promql_duration secs)"
  by (simp add: promql_duration_def show_nat_no_quote)

lemma window_lex: "prom_lex (window st) = (window st, [])"
  using prom_lex_append[of "window st" "[]"] by (simp add: window_def duration_no_quote prom_lex_code)

end
