(* ===== verification/RecommendProps.thy ===== *)
theory RecommendProps
  imports Recommend "HOL-Library.Multiset"
begin

text \<open>
  The recommendations: queries that say exactly what they are about, a row for every container, and a
  report that accounts for every workload.
\<close>

section \<open>Queries\<close>

lemma append_partial: "(@) (a @ b) = (\<lambda>x. a @ b @ x)" "(@) (c # b) = (\<lambda>x. c # b @ x)" "(@) [] = (\<lambda>x. x)"
  by (rule ext, simp)+

definition names_pattern :: "string list \<Rightarrow> string" where
  "names_pattern names = join_with ''|'' (map escape_regex names)"

lemma matcher_lex: "CHR 0x22 \<notin> set l \<Longrightarrow> prom_lex (matcher l (escape_label_value v) @ s) =
    map_prod ((@) (matcher l [])) ((#) v) (prom_lex s)"
  using prom_lex_append[of "l @ ''=''"] by (simp add: matcher_def prom_lex_string prod.map_comp o_def append_partial)

lemma selector_lex: "CHR 0x22 \<notin> set l \<Longrightarrow> prom_lex (regex_matcher l (pod_selector v) @ s) =
    map_prod ((@) (regex_matcher l [])) ((#) (names_pattern v)) (prom_lex s)"
  using prom_lex_append[of "l @ ''=~''"]
  by (simp add: regex_matcher_def pod_selector_string names_pattern_def prod.map_comp o_def append_partial)

lemma empty_values: "escape_label_value [] = []" "pod_selector [] = []"
  by (simp_all add: escape_label_value_def pod_selector_def)

lemma plain_lex: "escape_label_value v = v \<Longrightarrow> CHR 0x22 \<notin> set l \<Longrightarrow> prom_lex (matcher l v @ s) =
    map_prod ((@) (matcher l [])) ((#) v) (prom_lex s)"
  using matcher_lex[of l v s] by simp

lemma any_container_lex: "prom_lex (any_container @ s) = map_prod ((@) any_container) ((#) []) (prom_lex s)"
  using prom_lex_append[of "'', container!=''"] prom_lex_string[of "[]"] prom_lex_append[of "''}''"]
  by (simp add: any_container_def empty_values prod.map_comp o_def append_partial)

lemma namespace_and_pods_lex: "prom_lex (namespace_and_pods ns pods @ s) =
    map_prod ((@) (namespace_and_pods [] [])) (\<lambda>ls. ns # names_pattern pods # ls) (prom_lex s)"
  using prom_lex_append[of "'', ''"]
  by (simp add: namespace_and_pods_def matcher_lex selector_lex empty_values prod.map_comp o_def append_partial)

lemmas query_lex = matcher_lex selector_lex plain_lex namespace_and_pods_lex any_container_lex window_lex
  prom_lex_append[OF duration_no_quote] prom_lex_code prod.map_comp o_def append_partial

lemma pod_owner_lex:
  "escape_label_value kind = kind \<Longrightarrow> prom_lex (pod_owner_query ns kind names h) =
    (pod_owner_query [] [] [] h, [ns, kind, names_pattern names])"
  by (simp add: pod_owner_query_def query_lex empty_values)

lemma memory_lex: "prom_lex (memory_max_query ns pods st) = (memory_max_query [] [] st, [ns, names_pattern pods, []])"
  by (simp add: memory_max_query_def query_lex)

lemma points_lex: "prom_lex (point_count_query ns pods st) = (point_count_query [] [] st, [ns, names_pattern pods, []])"
  by (simp add: point_count_query_def query_lex)

lemma cpu_lex:
  assumes "CHR 0x22 \<notin> set (sq_display so (fo_div (sq_f64 so) (st_cpu_percentile st) (fo_lit (sq_f64 so) ''100.0'')))"
  shows "prom_lex (cpu_percentile_query so ns pods st) = (cpu_percentile_query so [] [] st, [ns, names_pattern pods, []])"
  by (simp add: cpu_percentile_query_def query_lex prom_lex_append[OF assms])

lemma oomkill_lex:
  "prom_lex (oomkill_query ns pods st) = (fst (prom_lex (oomkill_query [] [] st)),
     [''memory'', ns, names_pattern pods, ''OOMKilled'', ns, names_pattern pods])"
  by (simp add: oomkill_query_def query_lex escape_label_value_def escape_label_char_def)

lemma owner_lex:
  "CHR 0x22 \<notin> set metric \<Longrightarrow> escape_label_value kind = kind \<Longrightarrow> prom_lex (owner_query metric ns kind name h) =
    (owner_query metric [] [] [] h, [ns, kind, name])"
  by (simp add: owner_query_def query_lex prom_lex_append[of metric] empty_values)

text \<open>C24: a query asks about its workload and nothing else.  Read as PromQL, the code of a query is the same for
  all names, and its strings are the namespace and a regular expression whose alternatives are, literally, the
  names of the pods or owners.\<close>

theorem queries_are_about_their_workload:
  assumes "names \<noteq> []" "escape_label_value kind = kind" "CHR 0x22 \<notin> set metric"
    and "CHR 0x22 \<notin> set (sq_display so (fo_div (sq_f64 so) (st_cpu_percentile st) (fo_lit (sq_f64 so) ''100.0'')))"
  shows "\<exists>re. regex_alternatives re = Some names
    \<and> prom_lex (owner_query metric ns kind name h) = (owner_query metric [] [] [] h, [ns, kind, name])
    \<and> prom_lex (pod_owner_query ns kind names h) = (pod_owner_query [] [] [] h, [ns, kind, re])
    \<and> prom_lex (cpu_percentile_query so ns names st) = (cpu_percentile_query so [] [] st, [ns, re, []])
    \<and> prom_lex (memory_max_query ns names st) = (memory_max_query [] [] st, [ns, re, []])
    \<and> prom_lex (point_count_query ns names st) = (point_count_query [] [] st, [ns, re, []])
    \<and> prom_lex (oomkill_query ns names st) =
        (fst (prom_lex (oomkill_query [] [] st)), [''memory'', ns, re, ''OOMKilled'', ns, re])"
  by (intro exI[of _ "names_pattern names"] conjI alternatives_join[OF assms(1), folded names_pattern_def]
      owner_lex[OF assms(3,2)] pod_owner_lex[OF assms(2)] cpu_lex[OF assms(4)] memory_lex points_lex oomkill_lex)

text \<open>Operations that are enough to run the definitions: bit patterns compared and added as numbers.\<close>

definition plain_f64 :: f64_ops where
  "plain_f64 = \<lparr>fo_lit = (\<lambda>s. of_nat (length s)), fo_parse = (\<lambda>s. Some (of_nat (length s))), fo_add = (+), fo_sub = (-),
     fo_mul = (*), fo_div = (div), fo_less = (<), fo_finite = (\<lambda>_. True), fo_round_i64 = uint, fo_as_u64 = unat,
     fo_fixed = (\<lambda>_ x. show_nat (unat x))\<rparr>"

definition plain_ops :: scan_ops where
  "plain_ops = \<lparr>sq_f64 = plain_f64, sq_ge = (\<ge>), sq_max = max, sq_abs = (\<lambda>x. x), sq_display = (\<lambda>x. show_nat (unat x)),
     sq_whole_seconds = unat, sq_hours = (\<lambda>x. x div 3600)\<rparr>"

theorem queries_are_about_their_workload_witness:
  "\<exists>re. regex_alternatives re = Some [''a.b'', CHR 0x22 # ''}''] \<and>
     prom_lex (pod_owner_query ''n'' ''Job'' [''a.b'', CHR 0x22 # ''}''] 60) = (pod_owner_query [] [] [] 60, [''n'', ''Job'', re])"
proof -
  have k: "escape_label_value ''Job'' = ''Job''" by (simp add: escape_label_value_def escape_label_char_def)
  have d: "CHR 0x22 \<notin> set (sq_display plain_ops x)" for x by (simp add: plain_ops_def show_nat_no_quote)
  from queries_are_about_their_workload[where names = "[''a.b'', CHR 0x22 # ''}'']" and metric = "''m''" and ns = "''n''"
      and h = 60 and st = "default_settings plain_f64", OF _ k _ d] show ?thesis by auto
qed

section \<open>The report\<close>

lemma row_container:
  "ra_container (undefined_row rq info c) = cn_name c" "ra_container (recommend so st rq u c) = cn_name c"
  by (simp_all add: undefined_row_def recommend_def Let_def)

lemma row_workload:
  "ra_namespace (undefined_row rq info c) = wr_namespace (sr_workload rq)"
  "ra_workload (undefined_row rq info c) = wr_name (sr_workload rq)"
  "ra_namespace (recommend so st rq u c) = wr_namespace (sr_workload rq)"
  "ra_workload (recommend so st rq u c) = wr_name (sr_workload rq)"
  by (simp_all add: undefined_row_def recommend_def Let_def)

lemma row_explained:
  "ra_info (undefined_row rq info c) \<noteq> None" "cr_cpu_limit (ra_recommended (undefined_row rq info c)) = None"
  "cr_cpu_limit (ra_recommended (recommend so st rq u c)) = None"
  "ra_info (recommend so st rq u c) = None \<or> ra_recommended (recommend so st rq u c) = no_resources"
  by (simp_all add: undefined_row_def recommend_def Let_def no_resources_def)

text \<open>What a scan of one workload gives: a row per container, each with a recommendation or the reason for none.\<close>

definition has_every_row :: "scan_request \<Rightarrow> resource_advice list \<Rightarrow> bool" where
  "has_every_row rq rows \<longleftrightarrow> map ra_container rows = map cn_name (sr_containers rq)
     \<and> (\<forall>r\<in>set rows. ra_namespace r = wr_namespace (sr_workload rq) \<and> ra_workload r = wr_name (sr_workload rq)
         \<and> (ra_info r = None \<or> ra_recommended r = no_resources) \<and> cr_cpu_limit (ra_recommended r) = None)"

lemma covers_map:
  "has_every_row rq (map (undefined_row rq info) (sr_containers rq))" "has_every_row rq (map (recommend so st rq u) (sr_containers rq))"
  using row_explained(4) by (auto simp: has_every_row_def o_def row_container row_workload row_explained undefined_row_def no_resources_def)

lemma scan_covers: "scan so q earliest st rq = Inr rows \<Longrightarrow> has_every_row rq rows"
  by (auto simp: scan_def result_iff Let_def covers_map split: if_splits prod.splits)

definition failed :: "(scan_request \<Rightarrow> prom_error + resource_advice list) \<Rightarrow> scan_request list \<Rightarrow> nat" where
  "failed f rqs = length (filter (\<lambda>rq. case f rq of Inl _ \<Rightarrow> True | Inr _ \<Rightarrow> False) rqs)"

definition advised :: "(scan_request \<Rightarrow> prom_error + resource_advice list) \<Rightarrow> scan_request list \<Rightarrow> resource_advice list" where
  "advised f rqs = concat (map (\<lambda>rq. case f rq of Inl _ \<Rightarrow> [] | Inr rows \<Rightarrow> rows) rqs)"

lemma failed_mset: "mset a = mset b \<Longrightarrow> failed f a = failed f b"
  unfolding failed_def by (metis mset_filter size_mset)

lemma advised_mset: "mset a = mset b \<Longrightarrow> mset (advised f a) = mset (advised f b)"
  by (simp add: advised_def mset_concat) (metis mset_map sum_mset_sum_list)

lemma length_failures: "length (List.map_filter (\<lambda>(rq, r). case r of Inr _ \<Rightarrow> None | Inl e \<Rightarrow> Some (g rq e)) (map (\<lambda>rq. (rq, f rq)) rqs)) =
    failed f rqs"
  by (induction rqs) (auto simp: map_filter_simps failed_def split: sum.splits)

text \<open>The report of a scan accounts for every workload, in whatever order the scans complete.  The workloads
  scanned are those that failed and those with rows; a workload that did not fail has a row for each of its
  containers; and the rows are all the rows of the workloads, sorted from the worst severity on.\<close>

theorem scan_report_is_complete:
  assumes "mset (sc_completed env rqs) = mset rqs" and "rqs = scan_requests env ns (autoscaled_workloads env ns)"
  shows "let run = scan (sc_ops env) (sc_query env) (sc_earliest env) st; R = resource_scan env st ns in
    rn_scanned_workloads R = length rqs \<and> length (rn_failures R) = failed run rqs
    \<and> mset (rn_rows R) = mset (advised run rqs) \<and> sorted (map advice_key (rn_rows R))
    \<and> (\<forall>rq rows. run rq = Inr rows \<longrightarrow> has_every_row rq rows)"
proof -
  let ?run = "scan (sc_ops env) (sc_query env) (sc_earliest env) st"
  let ?done = "sc_completed env rqs"
  have r: "rn_rows (resource_scan env st ns) = sort_advice (advised ?run ?done)"
    unfolding resource_scan_def Let_def assms(2)[symmetric] by (simp add: advised_def o_def)
  have f: "length (rn_failures (resource_scan env st ns)) = failed ?run ?done"
    unfolding resource_scan_def Let_def assms(2)[symmetric] by (simp add: length_failures)
  have "rn_scanned_workloads (resource_scan env st ns) = length rqs"
    by (simp add: resource_scan_def Let_def assms(2))
  moreover have "mset (rn_rows (resource_scan env st ns)) = mset (advised ?run rqs)"
    using advised_mset[OF assms(1)] by (simp add: r sort_advice_def)
  moreover have "sorted (map advice_key (rn_rows (resource_scan env st ns)))" by (simp add: r sort_advice_def)
  ultimately show ?thesis using f failed_mset[OF assms(1)] scan_covers by (auto simp: Let_def)
qed

definition web_deployment :: dyn_object where
  "web_deployment = \<lparr>dy_name = Some ''web'', dy_namespace = Some ''n'', dy_uid = None, dy_resource_version = None, dy_created = None,
     dy_deleting = False, dy_owner_references = None, dy_labels = None, dy_managed_fields = None,
     dy_data = JObject [(''spec'', JObject [(''template'', JObject [(''spec'', JObject [(''containers'',
       JArray [JObject [(''name'', JString ''c'')]])])])])]\<rparr>"

definition web_env :: scan_env where
  "web_env = \<lparr>sc_ops = plain_ops, sc_catalog = [\<lparr>rk_key = ''apps/v1/Deployment'', rk_group = ''apps'', rk_version = ''v1'',
       rk_kind = ''Deployment'', rk_plural = ''deployments'', rk_namespaced = True, rk_category = Workloads\<rparr>],
     sc_list = (\<lambda>_ _. Inr [web_deployment]), sc_to_value = (\<lambda>obj. Some (dy_data obj)), sc_query = (\<lambda>_. Inr []),
     sc_earliest = hd, sc_completed = rev\<rparr>"

abbreviation web_request :: scan_request where
  "web_request \<equiv> \<lparr>sr_workload = \<lparr>wr_namespace = ''n'', wr_kind = WkDeployment, wr_name = ''web''\<rparr>,
     sr_containers = [\<lparr>cn_name = ''c'', cn_current = no_resources\<rparr>], sr_has_hpa = False\<rparr>"

lemma web_requests: "scan_requests web_env None (autoscaled_workloads web_env None) = [web_request]"
  by (simp add: scan_requests_def autoscaled_workloads_def SCANNED_def list_kind_def find_kind_def web_env_def cluster_entry_def
      catalog_by_key_def scan_request_of_def template_containers_def container_resources_of_def quantity_at_def no_resources_def
      web_deployment_def map_filter_simps unwrap_or_def as_array_def)

theorem scan_report_is_complete_witness:
  "\<exists>r. rn_rows (resource_scan web_env (default_settings plain_f64) None) = [r] \<and> ra_container r = ''c''"
proof -
  let ?run = "scan (sc_ops web_env) (sc_query web_env) (sc_earliest web_env) (default_settings plain_f64)"
  have row: "?run web_request = Inr [undefined_row web_request ''No pod history'' \<lparr>cn_name = ''c'', cn_current = no_resources\<rparr>]"
    by (simp add: scan_def resolve_pods_def pods_through_def label_values_def web_env_def distinct_values_def map_filter_simps)
  have "mset (sc_completed web_env [web_request]) = mset [web_request]" by (simp add: web_env_def)
  from scan_report_is_complete[OF this web_requests[symmetric], of "default_settings plain_f64"]
  have "mset (rn_rows (resource_scan web_env (default_settings plain_f64) None)) = mset (advised ?run [web_request])"
    by (simp only: Let_def)
  then show ?thesis using row by (simp add: advised_def row_container)
qed

end
