(* ===== verification/Alerts.thy ===== *)
theory Alerts
  imports Action Catalog Row Prom "HOL-Library.Option_ord"
begin

text \<open>
  Firing alerts and silences: the cache of \<open>crates/k8s/src/alertmanager.rs\<close>, the enrichment of
  \<open>backend/alerts.rs\<close>, the endpoints of \<open>server/api/misc.rs\<close> and the order of \<open>src/app/alert_utils.rs\<close>.
  The world answers for Alertmanager and the clocks; JSON, UTF-8 and the printing of times are parameters.
\<close>

section \<open>Alerts\<close>

text \<open>A resource to open from an alert.  Its order is derived: by the fields in their order.\<close>

datatype alert_target = AlertTarget (at_key: string) (at_kind: string) (at_namespace: "string option") (at_name: string)

definition target_fields :: "alert_target \<Rightarrow> string \<times> string \<times> string option \<times> string" where
  "target_fields t = (at_key t, at_kind t, at_namespace t, at_name t)"

lemma target_fields_inject: "target_fields a = target_fields b \<longleftrightarrow> a = b"
  by (auto simp: target_fields_def alert_target.expand)

instantiation alert_target :: linorder
begin

definition less_eq_alert_target :: "alert_target \<Rightarrow> alert_target \<Rightarrow> bool" where
  "less_eq_alert_target a b \<longleftrightarrow> target_fields a \<le> target_fields b"

definition less_alert_target :: "alert_target \<Rightarrow> alert_target \<Rightarrow> bool" where
  "less_alert_target a b \<longleftrightarrow> target_fields a < target_fields b"

instance
  by standard (auto simp: less_eq_alert_target_def less_alert_target_def target_fields_inject dest: order_antisym)

end

type_synonym labels = "(string, string) hmap"

record firing_alert =
  fa_fingerprint :: string
  fa_name :: string
  fa_severity :: string
  fa_summary :: string
  fa_description :: string
  fa_starts_at :: string
  fa_labels :: labels
  fa_silenced :: bool
  fa_targets :: "alert_target list"
  fa_defining_rules :: "alert_target list"

datatype alert_silence_duration = SilenceFinite nat | SilenceForever

record silence_alert_request =
  sl_fingerprint :: string
  sl_duration :: alert_silence_duration
  sl_matcher_labels :: "string list"

definition MIN_ALERT_SILENCE_SECS :: nat where
  "MIN_ALERT_SILENCE_SECS = 60"

definition MAX_ALERT_SILENCE_SECS :: nat where
  "MAX_ALERT_SILENCE_SECS = 365 * 24 * 60 * 60"

record am_alert =
  am_fingerprint :: string
  am_labels :: labels
  am_annotations :: labels
  am_starts_at :: string
  am_silenced_by :: "string list"

definition into_firing :: "am_alert \<Rightarrow> firing_alert" where
  "into_firing a = \<lparr>fa_fingerprint = am_fingerprint a, fa_name = unwrap_or [] (hm_get (am_labels a) ''alertname''),
     fa_severity = unwrap_or [] (hm_get (am_labels a) ''severity''),
     fa_summary = unwrap_or [] (hm_get (am_annotations a) ''summary''),
     fa_description = unwrap_or [] (hm_get (am_annotations a) ''description''), fa_starts_at = am_starts_at a,
     fa_labels = am_labels a, fa_silenced = (am_silenced_by a \<noteq> []), fa_targets = [], fa_defining_rules = []\<rparr>"

definition direct_alertmanager_url :: "(string \<Rightarrow> string + string) \<Rightarrow> string \<Rightarrow> string + string" where
  "direct_alertmanager_url url_scheme url =
     and_then (map_err (\<lambda>e. ''invalid RODER_ALERTMANAGER_URL: '' @ e) (url_scheme url)) (\<lambda>scheme.
     if scheme \<notin> {''http'', ''https''} then Inl ''RODER_ALERTMANAGER_URL must use http or https''
     else Inr (trim_end_matches (\<lambda>c. c = CHR ''/'') url))"

definition alertmanager_url :: "(string \<Rightarrow> string + string) \<Rightarrow> env_var \<Rightarrow> string + string option" where
  "alertmanager_url url_scheme var = (case var of
     VarSet url \<Rightarrow> and_then (direct_alertmanager_url url_scheme url) (\<lambda>u. Inr (Some u))
   | VarNotPresent \<Rightarrow> Inr None
   | VarInvalid e \<Rightarrow> Inl (''invalid RODER_ALERTMANAGER_URL: '' @ e))"

section \<open>Silences\<close>

record silence_matcher =
  mt_name :: string
  mt_value :: string
  mt_is_regex :: bool
  mt_is_equal :: bool

record silence_request =
  sq_matchers :: "silence_matcher list"
  sq_starts_at :: string
  sq_ends_at :: string
  sq_created_by :: string
  sq_comment :: string

datatype silence_error =
    SilenceNotFound
  | SilenceAlreadySilenced
  | SilenceInvalidMatchers string
  | SilenceUpstream string

text \<open>The instants are in milliseconds, the wall clock in seconds.\<close>

record 'w alert_env =
  an_now :: "'w \<Rightarrow> nat \<times> 'w"
  an_wall :: "'w \<Rightarrow> int \<times> 'w"
  an_get :: "'w \<Rightarrow> (string + string + (string + string) list) \<times> 'w"
  an_post :: "silence_request \<Rightarrow> 'w \<Rightarrow> (string + string + (string + string) list) \<times> 'w"
  an_rfc3339 :: "int \<Rightarrow> string + string"
  an_utf8 :: "string \<Rightarrow> string + string"
  an_parse_alerts :: "string \<Rightarrow> string + am_alert list"
  an_parse_silence :: "string \<Rightarrow> string + string"

record 'w alert_st =
  al_world :: 'w
  al_cache :: "(firing_alert list \<times> nat) option"
  al_posted :: "silence_request list"

type_synonym ('w, 'a) alerting = "('w alert_st, 'a) state"

text \<open>The Debug form of a string: quotes, backslashes and control characters are escaped; the characters beyond ASCII
  are kept here, of which the library escapes those that do not print.\<close>

definition hex_lower :: "nat \<Rightarrow> string" where
  "hex_lower n = (if n < 16 then [''0123456789abcdef'' ! n] else [''0123456789abcdef'' ! (n div 16), ''0123456789abcdef'' ! (n mod 16)])"

definition debug_char :: "char \<Rightarrow> string" where
  "debug_char c = (let n = of_char c :: nat; bs = CHR 0x5C in
     if c = CHR 0x22 \<or> c = bs then [bs, c] else if n = 10 then [bs, CHR ''n''] else if n = 13 then [bs, CHR ''r'']
     else if n = 9 then [bs, CHR ''t''] else if n = 0 then [bs, CHR ''0'']
     else if n < 32 \<or> n = 127 then [bs] @ ''u{'' @ hex_lower n @ ''}'' else [c])"

definition debug_form :: "string \<Rightarrow> string" where
  "debug_form s = CHR 0x22 # concat (map debug_char s) @ [CHR 0x22]"

definition equal_matcher :: "labels \<Rightarrow> string \<Rightarrow> string + silence_matcher" where
  "equal_matcher ls name = ok_or (''alert has no '' @ debug_form name @ '' label'')
     (map_option (\<lambda>v. \<lparr>mt_name = name, mt_value = v, mt_is_regex = False, mt_is_equal = True\<rparr>) (hm_get ls name))"

definition silence_request_of ::
  "'w alert_env \<Rightarrow> labels \<Rightarrow> string list \<Rightarrow> nat option \<Rightarrow> string \<Rightarrow> int \<Rightarrow> string + silence_request" where
  "silence_request_of env ls matcher_labels duration created_by now =
     (if matcher_labels = [] then Inl ''silence requires at least one matcher''
      else and_then (case duration of
          Some secs \<Rightarrow>
            if secs \<ge> 2 ^ 63 then Inl ''silence duration is too large''
            else map_err (\<lambda>e. ''format silence end: '' @ e) (an_rfc3339 env (now + int secs))
        | None \<Rightarrow> Inr ''9999-12-31T23:59:59Z'') (\<lambda>ends_at.
      and_then (collect_results (equal_matcher ls) matcher_labels) (\<lambda>matchers.
      and_then (map_err (\<lambda>e. ''format silence start: '' @ e) (an_rfc3339 env now)) (\<lambda>starts_at.
      Inr \<lparr>sq_matchers = matchers, sq_starts_at = starts_at, sq_ends_at = ends_at, sq_created_by = created_by,
        sq_comment = ''Silenced from Roder''\<rparr>))))"

definition CACHE_TTL :: nat where
  "CACHE_TTL = 30000"

definition MAX_RESPONSE_BYTES :: nat where
  "MAX_RESPONSE_BYTES = 4 * 1024 * 1024"

text \<open>Reading a body of at most that many bytes; \<open>what\<close> is the subject of the errors.\<close>

fun read_limited :: "string \<Rightarrow> (string + string) list \<Rightarrow> string \<Rightarrow> string + string" where
  "read_limited what [] bytes = Inr bytes"
| "read_limited what (c # cs) bytes = (case c of
     Inl e \<Rightarrow> Inl (what @ '': '' @ e)
   | Inr chunk \<Rightarrow>
       if length bytes + length chunk > MAX_RESPONSE_BYTES
         then Inl (what @ '' exceeds '' @ show_nat MAX_RESPONSE_BYTES @ '' byte limit'')
       else read_limited what cs (bytes @ chunk))"

definition read_answer ::
  "'w alert_env \<Rightarrow> string \<Rightarrow> string \<Rightarrow> string + string + (string + string) list \<Rightarrow> string + string" where
  "read_answer env sending what answer = (case answer of
     Inl e \<Rightarrow> Inl (sending @ '': '' @ e)
   | Inr (Inl e) \<Rightarrow> Inl (what @ '': '' @ e)
   | Inr (Inr chunks) \<Rightarrow> and_then (read_limited what chunks []) (\<lambda>bytes.
       map_err (\<lambda>e. what @ '' is not UTF-8: '' @ e) (an_utf8 env bytes)))"

definition of_world :: "('w \<Rightarrow> 'a \<times> 'w) \<Rightarrow> ('w, 'a) alerting" where
  "of_world f = State (\<lambda>s. case f (al_world s) of (r, w) \<Rightarrow> (r, s\<lparr>al_world := w\<rparr>))"

definition read_cache :: "('w, (firing_alert list \<times> nat) option) alerting" where
  "read_cache = State (\<lambda>s. (al_cache s, s))"

definition write_cache :: "(firing_alert list \<times> nat) option \<Rightarrow> ('w, unit) alerting" where
  "write_cache c = State (\<lambda>s. ((), s\<lparr>al_cache := c\<rparr>))"

definition post_silence :: "'w alert_env \<Rightarrow> silence_request \<Rightarrow> ('w, string + string + (string + string) list) alerting" where
  "post_silence env rq = State (\<lambda>s. case an_post env rq (al_world s) of
     (r, w) \<Rightarrow> (r, s\<lparr>al_world := w, al_posted := al_posted s @ [rq]\<rparr>))"

definition cached_alerts :: "'w alert_env \<Rightarrow> nat option \<Rightarrow> ('w, firing_alert list option) alerting" where
  "cached_alerts env requested_at = do {
     c \<leftarrow> read_cache;
     case c of
       None \<Rightarrow> ret None
     | Some (data, timestamp) \<Rightarrow> (case requested_at of
         Some t \<Rightarrow> ret (if timestamp \<ge> t then Some data else None)
       | None \<Rightarrow> do {
           now \<leftarrow> of_world (an_now env);
           ret (if now - timestamp < CACHE_TTL then Some data else None) }) }"

definition has_severity :: "am_alert \<Rightarrow> bool" where
  "has_severity a \<longleftrightarrow> unwrap_or [] (hm_get (am_labels a) ''severity'') \<notin> {[], ''none''}"

text \<open>A refresh: the cache is looked up again under the refresh lock.\<close>

definition load_alerts :: "'w alert_env \<Rightarrow> nat option \<Rightarrow> ('w, string + firing_alert list) alerting" where
  "load_alerts env requested_at = do {
     before \<leftarrow> cached_alerts env requested_at;
     case before of Some data \<Rightarrow> ret (Inr data) | None \<Rightarrow> do {
     locked \<leftarrow> cached_alerts env requested_at;
     case locked of Some data \<Rightarrow> ret (Inr data) | None \<Rightarrow> do {
     answer \<leftarrow> of_world (an_get env);
     case and_then (read_answer env ''alertmanager request'' ''alertmanager response'' answer) (\<lambda>body.
         map_err (\<lambda>e. ''alertmanager json: '' @ e) (an_parse_alerts env body)) of
       Inl e \<Rightarrow> ret (Inl e)
     | Inr raw \<Rightarrow> do {
         now \<leftarrow> of_world (an_now env);
         write_cache (Some (map into_firing (filter has_severity raw), now));
         ret (Inr (map into_firing (filter has_severity raw))) } } } }"

definition get_alerts :: "'w alert_env \<Rightarrow> ('w, string + firing_alert list) alerting" where
  "get_alerts env = load_alerts env None"

definition refresh_alerts :: "'w alert_env \<Rightarrow> ('w, string + firing_alert list) alerting" where
  "refresh_alerts env = do { now \<leftarrow> of_world (an_now env); load_alerts env (Some now) }"

text \<open>An alert agrees with another on the labels of a silence.\<close>

definition agrees :: "string list \<Rightarrow> labels \<Rightarrow> firing_alert \<Rightarrow> bool" where
  "agrees matcher_labels ls a \<longleftrightarrow> list_all (\<lambda>name. hm_get (fa_labels a) name = hm_get ls name) matcher_labels"

definition mark_silenced :: "string list \<Rightarrow> labels \<Rightarrow> firing_alert list \<Rightarrow> firing_alert list" where
  "mark_silenced matcher_labels ls alerts =
     map (\<lambda>a. if agrees matcher_labels ls a then a\<lparr>fa_silenced := True\<rparr> else a) alerts"

definition create_silence ::
  "'w alert_env \<Rightarrow> labels \<Rightarrow> string list \<Rightarrow> nat option \<Rightarrow> string \<Rightarrow> ('w, string + string) alerting" where
  "create_silence env ls matcher_labels duration created_by = do {
     wall \<leftarrow> of_world (an_wall env);
     case silence_request_of env ls matcher_labels duration created_by wall of
       Inl e \<Rightarrow> ret (Inl e)
     | Inr payload \<Rightarrow> do {
         answer \<leftarrow> post_silence env payload;
         case and_then (read_answer env ''alertmanager silence request'' ''alertmanager silence response'' answer) (\<lambda>body.
             map_err (\<lambda>e. ''alertmanager silence response: '' @ e) (an_parse_silence env body)) of
           Inl e \<Rightarrow> ret (Inl e)
         | Inr silence_id \<Rightarrow> do {
             c \<leftarrow> read_cache;
             case c of
               None \<Rightarrow> ret (Inr silence_id)
             | Some (alerts, _) \<Rightarrow> do {
                 now \<leftarrow> of_world (an_now env);
                 write_cache (Some (mark_silenced matcher_labels ls alerts, now));
                 ret (Inr silence_id) } } } }"

definition silence_alert ::
  "'w alert_env \<Rightarrow> string \<Rightarrow> nat option \<Rightarrow> string \<Rightarrow> string list \<Rightarrow> ('w, silence_error + string) alerting" where
  "silence_alert env fingerprint duration created_by matcher_labels = do {
     alerts \<leftarrow> get_alerts env;
     case map_err SilenceUpstream alerts of
       Inl e \<Rightarrow> ret (Inl e)
     | Inr alerts \<Rightarrow> (case find (\<lambda>a. fa_fingerprint a = fingerprint) alerts of
         None \<Rightarrow> ret (Inl SilenceNotFound)
       | Some a \<Rightarrow>
           if fa_silenced a then ret (Inl SilenceAlreadySilenced)
           else if matcher_labels = [] \<or> list_ex (\<lambda>name. hm_get (fa_labels a) name = None) matcher_labels
             then ret (Inl (SilenceInvalidMatchers ''select at least one valid alert label''))
           else do {
             r \<leftarrow> create_silence env (fa_labels a) matcher_labels duration created_by;
             ret (map_err SilenceUpstream r) }) }"

text \<open>The longest prefix of at most that many bytes that ends at a character.\<close>

fun boundary_from :: "string \<Rightarrow> nat \<Rightarrow> nat" where
  "boundary_from s 0 = 0"
| "boundary_from s (Suc n) =
     (if Suc n < length s \<and> is_continuation (s ! Suc n) then boundary_from s n else Suc n)"

definition utf8_prefix :: "string \<Rightarrow> nat \<Rightarrow> string" where
  "utf8_prefix s max_bytes = take (boundary_from s (min (length s) max_bytes)) s"

section \<open>What an alert is about\<close>

definition STANDARD_TARGET_LABELS :: "(string \<times> string \<times> string) list" where
  "STANDARD_TARGET_LABELS = [(''pod'', [], ''Pod''), (''service'', [], ''Service''), (''node'', [], ''Node''),
     (''persistentvolumeclaim'', [], ''PersistentVolumeClaim''), (''deployment'', ''apps'', ''Deployment''),
     (''statefulset'', ''apps'', ''StatefulSet''), (''daemonset'', ''apps'', ''DaemonSet''),
     (''replicaset'', ''apps'', ''ReplicaSet''), (''replicationcontroller'', [], ''ReplicationController''),
     (''cronjob'', ''batch'', ''CronJob''), (''job_name'', ''batch'', ''Job'')]"

definition nonempty_label :: "labels \<Rightarrow> string \<Rightarrow> string option" where
  "nonempty_label ls name = (case hm_get ls name of Some v \<Rightarrow> if v = [] then None else Some v | None \<Rightarrow> None)"

text \<open>The kind of that version if there is one, else the first of the kind; a namespaced one needs the label.\<close>

definition target_for ::
  "resource_kind list \<Rightarrow> string \<Rightarrow> string option \<Rightarrow> string \<Rightarrow> string \<Rightarrow> labels \<Rightarrow> alert_target option" where
  "target_for kinds grp version kind name ls =
     (let matching = filter (\<lambda>k. rk_group k = grp \<and> rk_kind k = kind) kinds in
      case or_else (Option.bind version (\<lambda>v. find (\<lambda>k. rk_version k = v) matching)) (find (\<lambda>_. True) matching) of
        None \<Rightarrow> None
      | Some k \<Rightarrow>
          if rk_namespaced k then
            map_option (\<lambda>ns. AlertTarget (rk_key k) (rk_kind k) (Some ns) name) (nonempty_label ls ''namespace'')
          else Some (AlertTarget (rk_key k) (rk_kind k) None name))"

definition workload_gvk :: "string \<Rightarrow> (string \<times> string) option" where
  "workload_gvk kind =
     map_of [(''pod'', ([], ''Pod'')), (''deployment'', (''apps'', ''Deployment'')),
       (''statefulset'', (''apps'', ''StatefulSet'')), (''daemonset'', (''apps'', ''DaemonSet'')),
       (''replicaset'', (''apps'', ''ReplicaSet'')), (''replicationcontroller'', ([], ''ReplicationController'')),
       (''cronjob'', (''batch'', ''CronJob'')), (''job'', (''batch'', ''Job''))]
       (str_ascii_lower (filter is_ascii_alphanumeric kind))"

definition standard_targets :: "labels \<Rightarrow> resource_kind list \<Rightarrow> alert_target list" where
  "standard_targets ls kinds = List.map_filter (\<lambda>(label, grp, kind).
     Option.bind (nonempty_label ls label) (\<lambda>name. target_for kinds grp None kind name ls)) STANDARD_TARGET_LABELS"

definition workload_target :: "labels \<Rightarrow> resource_kind list \<Rightarrow> alert_target option" where
  "workload_target ls kinds =
     (case (nonempty_label ls ''workload'',
            or_else (nonempty_label ls ''workload_type'') (nonempty_label ls ''workload_kind'')) of
        (Some name, Some kind) \<Rightarrow>
          Option.bind (workload_gvk kind) (\<lambda>(grp, kind). target_for kinds grp None kind name ls)
      | _ \<Rightarrow> None)"

definition custom_target :: "labels \<Rightarrow> resource_kind list \<Rightarrow> alert_target option" where
  "custom_target ls kinds =
     (case (nonempty_label ls ''customresource_group'', nonempty_label ls ''customresource_version'',
            nonempty_label ls ''customresource_kind'',
            or_else (nonempty_label ls ''customresource'')
              (or_else (nonempty_label ls ''customresource_name'') (nonempty_label ls ''name''))) of
        (Some grp, Some version, Some kind, Some name) \<Rightarrow> target_for kinds grp (Some version) kind name ls
      | _ \<Rightarrow> None)"

text \<open>A \<open>BTreeSet\<close> of targets is read in order.\<close>

definition in_order :: "alert_target list \<Rightarrow> alert_target list" where
  "in_order ts = sort (remdups ts)"

definition resolve_targets :: "labels \<Rightarrow> resource_kind list \<Rightarrow> alert_target list" where
  "resolve_targets ls kinds =
     in_order (standard_targets ls kinds @ List.map_filter id [workload_target ls kinds, custom_target ls kinds])"

section \<open>The rules that define an alert\<close>

record rule_definition =
  rd_alert_name :: string
  rd_target :: alert_target
  rd_labels :: labels

definition rule_of :: "alert_target \<Rightarrow> json \<Rightarrow> rule_definition option" where
  "rule_of target r = map_option (\<lambda>alert_name. \<lparr>rd_alert_name = alert_name, rd_target = target,
     rd_labels = List.map_filter (\<lambda>(name, v). map_option (Pair name) (as_str v))
       (unwrap_or [] (Option.bind (jget r ''labels'') as_object))\<rparr>) (Option.bind (jget r ''alert'') as_str)"

definition rules_of_object :: "resource_kind \<Rightarrow> dyn_object \<Rightarrow> rule_definition list" where
  "rules_of_object rule_kind obj = (case (dy_name obj, dy_namespace obj) of
     (Some name, Some ns) \<Rightarrow> (case Option.bind (jpointer (dy_data obj) [''spec'', ''groups'']) as_array of
         None \<Rightarrow> []
       | Some groups \<Rightarrow> List.map_filter (rule_of (AlertTarget (rk_key rule_kind) (rk_kind rule_kind) (Some ns) name))
           (concat (List.map_filter (\<lambda>g. Option.bind (jget g ''rules'') as_array) groups)))
   | _ \<Rightarrow> [])"

definition rule_definitions :: "dyn_object list \<Rightarrow> resource_kind \<Rightarrow> rule_definition list" where
  "rule_definitions objects rule_kind = concat (map (rules_of_object rule_kind) objects)"

text \<open>The score of a rule: how many of its labels the alert has; \<open>None\<close> if it lacks one that is no template.\<close>

definition literal_labels :: "rule_definition \<Rightarrow> labels" where
  "literal_labels d = filter (\<lambda>(_, v). \<not> str_contains v ''{{'') (rd_labels d)"

definition rule_score :: "firing_alert \<Rightarrow> rule_definition \<Rightarrow> nat option" where
  "rule_score a d = fold (\<lambda>(name, v) score. Option.bind score (\<lambda>n.
     if hm_get (fa_labels a) name = Some v then Some (n + 1) else None)) (literal_labels d) (Some 0)"

definition matching_rule_targets :: "firing_alert \<Rightarrow> rule_definition list \<Rightarrow> alert_target list" where
  "matching_rule_targets a definitions =
     (let candidates = filter (\<lambda>d. rd_alert_name d = fa_name a) definitions;
          compatible = List.map_filter (\<lambda>d. map_option (Pair d) (rule_score a d)) candidates;
          selected = (if compatible = [] then candidates
            else map fst (filter (\<lambda>(_, score). score = Max (snd ` set compatible)) compatible))
      in in_order (map rd_target selected))"

text \<open>Listing the rules fails, times out (\<open>None\<close>) or answers.\<close>

definition enrich_alerts ::
  "resource_kind list \<Rightarrow> (resource_kind \<Rightarrow> (string + dyn_object list) option) \<Rightarrow> firing_alert list \<Rightarrow> firing_alert list" where
  "enrich_alerts kinds list_rules alerts =
     (let alerts = map (\<lambda>a. a\<lparr>fa_targets := resolve_targets (fa_labels a) kinds, fa_defining_rules := []\<rparr>) alerts in
      if alerts = [] then alerts
      else case find (\<lambda>k. rk_group k = ''monitoring.coreos.com'' \<and> rk_kind k = ''PrometheusRule'') kinds of
        None \<Rightarrow> alerts
      | Some rule_kind \<Rightarrow> (case cluster_entry kinds (rk_key rule_kind) of
          Inl _ \<Rightarrow> alerts
        | Inr entry \<Rightarrow> (case list_rules entry of
            Some (Inr objects) \<Rightarrow> map (\<lambda>a. a\<lparr>fa_defining_rules :=
                matching_rule_targets a (rule_definitions objects rule_kind)\<rparr>) alerts
          | _ \<Rightarrow> alerts)))"

section \<open>The endpoints\<close>

definition silence_duration :: "alert_silence_duration \<Rightarrow> unit + nat option" where
  "silence_duration d = (case d of
     SilenceForever \<Rightarrow> Inr None
   | SilenceFinite secs \<Rightarrow>
       if MIN_ALERT_SILENCE_SECS \<le> secs \<and> secs \<le> MAX_ALERT_SILENCE_SECS then Inr (Some secs) else Inl ())"

text \<open>The cache is there when an Alertmanager is configured; \<open>json\<close> prints the body of the answer.\<close>

definition alerts_endpoint ::
  "server_config \<Rightarrow> 'w alert_env option \<Rightarrow> (firing_alert list \<Rightarrow> string) \<Rightarrow> resource_kind list
     \<Rightarrow> (resource_kind \<Rightarrow> (string + dyn_object list) option) \<Rightarrow> identity \<Rightarrow> bool \<Rightarrow> ('w, response) alerting" where
  "alerts_endpoint cf cache json kinds list_rules who refresh =
     (if \<not> can_read_alerts cf (id_groups who) then ret (status_response 403 [])
      else case cache of
        None \<Rightarrow> ret (status_response 503 [])
      | Some env \<Rightarrow> do {
          r \<leftarrow> if refresh then refresh_alerts env else get_alerts env;
          ret (case r of
            Inr alerts \<Rightarrow> status_response 200 (json (enrich_alerts kinds list_rules alerts))
          | Inl e \<Rightarrow> bad_gateway e) })"

definition silence_endpoint ::
  "server_config \<Rightarrow> 'w alert_env option \<Rightarrow> (string \<Rightarrow> string) \<Rightarrow> identity \<Rightarrow> silence_alert_request \<Rightarrow> ('w, response) alerting" where
  "silence_endpoint cf cache json who rq =
     (if \<not> can_read_alerts cf (id_groups who) \<or> \<not> can_silence_alerts cf (id_groups who)
        then ret (status_response 403 [])
      else case request_caller_of who of
        None \<Rightarrow> ret (status_response 401 [])
      | Some caller \<Rightarrow> (case silence_duration (sl_duration rq) of
          Inl _ \<Rightarrow> ret (status_response 400 ''unsupported silence duration'')
        | Inr duration \<Rightarrow> (case cache of
            None \<Rightarrow> ret (status_response 503 [])
          | Some env \<Rightarrow> do {
              r \<leftarrow> silence_alert env (sl_fingerprint rq) duration (rc_audit caller) (sl_matcher_labels rq);
              ret (case r of
                Inr silence_id \<Rightarrow> status_response 200 (json silence_id)
              | Inl SilenceNotFound \<Rightarrow> status_response 404 []
              | Inl SilenceAlreadySilenced \<Rightarrow> status_response 409 ''alert is already silenced''
              | Inl (SilenceInvalidMatchers e) \<Rightarrow> status_response 400 e
              | Inl (SilenceUpstream e) \<Rightarrow> bad_gateway e) })))"

text \<open>What the browser is offered: the use of Talos, and the optional integrations.\<close>

record offered_features =
  of_talos :: talos_capabilities
  of_alertmanager :: bool
  of_alertmanager_silences :: bool
  of_recommendations :: bool
  of_debug_image :: string

definition offered_features_of :: "server_config \<Rightarrow> bool \<Rightarrow> bool \<Rightarrow> bool \<Rightarrow> string \<Rightarrow> identity \<Rightarrow> offered_features" where
  "offered_features_of cf talos alerts prometheus debug_image who =
     (let alertmanager = alerts \<and> can_read_alerts cf (id_groups who) in
      \<lparr>of_talos = talos_capabilities_of cf talos who, of_alertmanager = alertmanager,
       of_alertmanager_silences = (alertmanager \<and> can_silence_alerts cf (id_groups who)),
       of_recommendations = prometheus, of_debug_image = debug_image\<rparr>)"

section \<open>The order on the page\<close>

definition severity_order :: "string \<Rightarrow> nat" where
  "severity_order severity = (if severity = ''critical'' then 0 else if severity = ''warning'' then 1
     else if severity = ''info'' then 2 else 3)"

definition sort_alerts :: "firing_alert list \<Rightarrow> firing_alert list" where
  "sort_alerts alerts = sort_key (\<lambda>a. (severity_order (fa_severity a), fa_name a, fa_fingerprint a)) alerts"

end
