(* ===== verification/AlertProps.thy ===== *)
theory AlertProps
  imports Alerts
begin

text \<open>
  Alerts: a silence says exactly what its author saw, the body read of an answer is bounded, and an alert
  is shown with real resources and the rules that define it.
\<close>

section \<open>Reading an answer\<close>

lemma read_limited_chunks:
  "length bytes \<le> MAX_RESPONSE_BYTES \<Longrightarrow> read_limited what (map Inr cs) bytes =
    (if length (bytes @ concat cs) \<le> MAX_RESPONSE_BYTES then Inr (bytes @ concat cs)
     else Inl (what @ '' exceeds '' @ show_nat MAX_RESPONSE_BYTES @ '' byte limit''))"
  by (induction cs arbitrary: bytes) auto

lemma read_limited_bounded:
  "read_limited what cs bytes = Inr b \<Longrightarrow> length bytes \<le> MAX_RESPONSE_BYTES \<Longrightarrow> length b \<le> MAX_RESPONSE_BYTES"
  by (induction cs arbitrary: bytes) (auto split: sum.splits if_splits)

section \<open>The cache\<close>

lemmas alert_steps = of_world_def read_cache_def write_cache_def post_silence_def wp_rules

lemma wp_cached:
  "wp (cached_alerts env t) (\<lambda>r s'. al_cache s' = al_cache s \<and> al_posted s' = al_posted s
     \<and> (\<forall>d. r = Some d \<longrightarrow> (\<exists>t. al_cache s = Some (d, t)))) s"
  by (auto simp: cached_alerts_def alert_steps split: option.split prod.split)

lemma cached_alerts_run:
  assumes "run_state (cached_alerts env t) s = (r, s')"
  shows "al_cache s' = al_cache s \<and> al_posted s' = al_posted s \<and> (\<forall>d. r = Some d \<longrightarrow> (\<exists>t. al_cache s' = Some (d, t)))"
  using wp_run[OF wp_cached assms] by simp

definition fetched :: "'w alert_st \<Rightarrow> string + firing_alert list \<Rightarrow> 'w alert_st \<Rightarrow> bool" where
  "fetched s r s' \<longleftrightarrow> al_posted s' = al_posted s \<and> (\<forall>alerts. r = Inr alerts \<longrightarrow> (\<exists>t. al_cache s' = Some (alerts, t)))"

lemma fetched_world: "al_posted s1 = al_posted s \<Longrightarrow> fetched s1 r s' \<Longrightarrow> fetched s r s'"
  by (simp add: fetched_def)

lemma wp_load: "wp (load_alerts env t) (fetched s) s"
  unfolding load_alerts_def wp_bind
  apply (rule wp_cases, drule cached_alerts_run)
  apply (simp add: wp_rules split: option.split, intro conjI impI allI)
   apply (rule wp_cases, drule cached_alerts_run)
   apply (auto simp: alert_steps fetched_def dest!: sym [of "Some a" for a] split: option.split sum.split prod.split)
  done

lemma load_run: "run_state (load_alerts env t) s = (r, s') \<Longrightarrow> fetched s r s'"
  using wp_load by (rule wp_run)

lemma get_alerts_run: "run_state (get_alerts env) s = (r, s') \<Longrightarrow> fetched s r s'"
  unfolding get_alerts_def by (rule load_run)

section \<open>Silences\<close>

text \<open>The matchers of a request select an alert when it carries every label with exactly that value.\<close>

definition exact_match :: "silence_matcher \<Rightarrow> labels \<Rightarrow> bool" where
  "exact_match m ls \<longleftrightarrow> mt_is_equal m \<and> \<not> mt_is_regex m \<and> hm_get ls (mt_name m) = Some (mt_value m)"

definition selects :: "silence_request \<Rightarrow> firing_alert \<Rightarrow> bool" where
  "selects p b \<longleftrightarrow> list_all (\<lambda>m. exact_match m (fa_labels b)) (sq_matchers p)"

lemma equal_matcher_exact:
  "equal_matcher ls n = Inr m \<Longrightarrow> mt_name m = n \<and> exact_match m ls \<and> (\<forall>b. exact_match m b = (hm_get b n = hm_get ls n))"
  by (auto simp: equal_matcher_def exact_match_def ok_or_def split: option.splits)

lemma equal_matchers:
  "collect_results (equal_matcher ls) names = Inr ms \<Longrightarrow>
    map mt_name ms = names \<and> list_all (\<lambda>m. exact_match m ls) ms
    \<and> (\<forall>b. list_all (\<lambda>m. exact_match m b) ms = list_all (\<lambda>n. hm_get b n = hm_get ls n) names)"
  by (induction names arbitrary: ms) (auto split: sum.splits dest!: equal_matcher_exact)

text \<open>What a request for a silence of that alert may post at that time of the wall clock.\<close>

definition right_silence ::
  "'w alert_env \<Rightarrow> firing_alert \<Rightarrow> string list \<Rightarrow> nat option \<Rightarrow> string \<Rightarrow> int \<Rightarrow> silence_request \<Rightarrow> bool" where
  "right_silence env a names duration author now p \<longleftrightarrow>
     names \<noteq> [] \<and> map mt_name (sq_matchers p) = names \<and> selects p a \<and> sq_created_by p = author
     \<and> an_rfc3339 env now = Inr (sq_starts_at p)
     \<and> (case duration of None \<Rightarrow> sq_ends_at p = ''9999-12-31T23:59:59Z''
        | Some secs \<Rightarrow> an_rfc3339 env (now + int secs) = Inr (sq_ends_at p))"

lemma request_parts:
  assumes "silence_request_of env ls names duration author now = Inr p"
  shows "names \<noteq> [] \<and> collect_results (equal_matcher ls) names = Inr (sq_matchers p) \<and> sq_created_by p = author
    \<and> an_rfc3339 env now = Inr (sq_starts_at p)
    \<and> (case duration of None \<Rightarrow> sq_ends_at p = ''9999-12-31T23:59:59Z''
       | Some secs \<Rightarrow> an_rfc3339 env (now + int secs) = Inr (sq_ends_at p))"
  using assms by (cases "names = []") (auto simp: silence_request_of_def and_then_Inr map_err_Inr split: option.splits if_splits)

lemma request_right:
  assumes "silence_request_of env (fa_labels a) names duration author now = Inr p"
  shows "right_silence env a names duration author now p" and "selects p b = agrees names (fa_labels a) b"
  using request_parts[OF assms] equal_matchers[of "fa_labels a" names "sq_matchers p"]
  by (simp_all add: right_silence_def selects_def agrees_def)

text \<open>A silence that cannot be asked for: no label, a missing one, or a time that cannot be written.\<close>

definition cannot_ask :: "'w alert_env \<Rightarrow> labels \<Rightarrow> string list \<Rightarrow> nat option \<Rightarrow> int \<Rightarrow> bool" where
  "cannot_ask env ls names duration now \<longleftrightarrow>
     names = [] \<or> list_ex (\<lambda>n. hm_get ls n = None) names \<or> (\<exists>e. an_rfc3339 env now = Inl e)
     \<or> (\<exists>secs. duration = Some secs \<and> (2 ^ 63 \<le> secs \<or> (\<exists>e. an_rfc3339 env (now + int secs) = Inl e)))"

lemma unmatched_label:
  "collect_results (equal_matcher ls) names = Inl e \<Longrightarrow> list_ex (\<lambda>n. hm_get ls n = None) names"
  by (induction names arbitrary: e) (auto simp: equal_matcher_def ok_or_def split: sum.splits option.splits)

lemma request_refused: "silence_request_of env ls names duration author now = Inl e \<Longrightarrow> cannot_ask env ls names duration now"
  by (auto simp: silence_request_of_def cannot_ask_def and_then_def map_err_def dest: unmatched_label
      split: if_splits sum.splits option.splits)

definition posts_one ::
  "'w alert_env \<Rightarrow> firing_alert \<Rightarrow> string list \<Rightarrow> nat option \<Rightarrow> string \<Rightarrow> 'w alert_st \<Rightarrow> string + string \<Rightarrow> 'w alert_st \<Rightarrow> bool" where
  "posts_one env a names duration author s r s' \<longleftrightarrow>
     (al_posted s' = al_posted s \<and> al_cache s' = al_cache s \<and> (\<exists>e. r = Inl e)
       \<and> cannot_ask env (fa_labels a) names duration (fst (an_wall env (al_world s))))
   \<or> (\<exists>p. al_posted s' = al_posted s @ [p] \<and> right_silence env a names duration author (fst (an_wall env (al_world s))) p
        \<and> (case r of Inl _ \<Rightarrow> al_cache s' = al_cache s
           | Inr _ \<Rightarrow> map_option fst (al_cache s') = map_option (map (\<lambda>b. if selects p b then b\<lparr>fa_silenced := True\<rparr> else b) \<circ> fst)
               (al_cache s)))"

lemma wp_create_silence:
  "wp (create_silence env (fa_labels a) names duration author) (posts_one env a names duration author s) s"
  by (auto simp: create_silence_def alert_steps posts_one_def mark_silenced_def request_right dest: request_refused
      split: option.split sum.split prod.split)

lemma create_silence_run:
  "run_state (create_silence env (fa_labels a) names duration author) s = (r, s') \<Longrightarrow> posts_one env a names duration author s r s'"
  using wp_create_silence by (rule wp_run)

text \<open>A silence was posted for the alert the page shows under that fingerprint, at the time of the wall clock then.\<close>

definition silenced ::
  "'w alert_env \<Rightarrow> string \<Rightarrow> string list \<Rightarrow> nat option \<Rightarrow> string \<Rightarrow> 'w alert_st \<Rightarrow> 'w alert_st \<Rightarrow> bool \<Rightarrow> bool" where
  "silenced env fingerprint names duration author s s' ok \<longleftrightarrow> (\<exists>alerts s1 a p.
     run_state (get_alerts env) s = (Inr alerts, s1) \<and> find (\<lambda>b. fa_fingerprint b = fingerprint) alerts = Some a
     \<and> \<not> fa_silenced a \<and> al_posted s' = al_posted s @ [p]
     \<and> right_silence env a names duration author (fst (an_wall env (al_world s1))) p
     \<and> (ok \<longrightarrow> map_option fst (al_cache s') = Some (map (\<lambda>b. if selects p b then b\<lparr>fa_silenced := True\<rparr> else b) alerts)))"

text \<open>Why none was: the alerts cannot be read, none has the fingerprint, it is silenced, or the silence cannot be asked for.\<close>

definition not_silenced ::
  "'w alert_env \<Rightarrow> string \<Rightarrow> string list \<Rightarrow> nat option \<Rightarrow> 'w alert_st \<Rightarrow> silence_error \<Rightarrow> bool" where
  "not_silenced env fingerprint names duration s e \<longleftrightarrow> (case run_state (get_alerts env) s of
     (Inl x, _) \<Rightarrow> e = SilenceUpstream x
   | (Inr alerts, s1) \<Rightarrow> (case find (\<lambda>b. fa_fingerprint b = fingerprint) alerts of
       None \<Rightarrow> e = SilenceNotFound
     | Some a \<Rightarrow> if fa_silenced a then e = SilenceAlreadySilenced
         else if names = [] \<or> list_ex (\<lambda>n. hm_get (fa_labels a) n = None) names then (\<exists>x. e = SilenceInvalidMatchers x)
         else (\<exists>x. e = SilenceUpstream x) \<and> cannot_ask env (fa_labels a) names duration (fst (an_wall env (al_world s1)))))"

lemma silenced_here:
  assumes got: "run_state (get_alerts env) s = (Inr alerts, s1)"
    and a: "find (\<lambda>b. fa_fingerprint b = fingerprint) alerts = Some a" "\<not> fa_silenced a"
    and one: "posts_one env a names duration author s1 q s'"
    and names: "\<not> (names = [] \<or> list_ex (\<lambda>n. hm_get (fa_labels a) n = None) names)"
  shows "(\<exists>x. q = Inl x \<and> al_posted s' = al_posted s \<and> not_silenced env fingerprint names duration s (SilenceUpstream x))
    \<or> silenced env fingerprint names duration author s s' (\<exists>i. q = Inr i)"
proof -
  from get_alerts_run[OF got] obtain t where before: "al_posted s1 = al_posted s" "al_cache s1 = Some (alerts, t)"
    by (auto simp: fetched_def)
  from one consider (no) x where "al_posted s' = al_posted s1" "q = Inl x"
      "cannot_ask env (fa_labels a) names duration (fst (an_wall env (al_world s1)))"
    | (yes) p where "al_posted s' = al_posted s1 @ [p]"
      "right_silence env a names duration author (fst (an_wall env (al_world s1))) p"
      "(\<exists>i. q = Inr i) \<longrightarrow> map_option fst (al_cache s') = Some (map (\<lambda>b. if selects p b then b\<lparr>fa_silenced := True\<rparr> else b) alerts)"
    using before by (cases q) (auto simp: posts_one_def)
  then show ?thesis
  proof cases
    case no
    with got a names before show ?thesis by (auto simp: not_silenced_def)
  next
    case yes
    with got a before have "silenced env fingerprint names duration author s s' (\<exists>i. q = Inr i)"
      unfolding silenced_def by auto
    then show ?thesis ..
  qed
qed

text \<open>The status of the answer to a silence that was not made.\<close>

definition silence_status :: "silence_error \<Rightarrow> nat" where
  "silence_status e = (case e of SilenceNotFound \<Rightarrow> 404 | SilenceAlreadySilenced \<Rightarrow> 409 | SilenceInvalidMatchers _ \<Rightarrow> 400
     | SilenceUpstream _ \<Rightarrow> 502)"

lemma silence_alert_run:
  assumes "run_state (silence_alert env fingerprint duration author names) s = (r, s')"
  shows "(\<exists>e. r = Inl e \<and> al_posted s' = al_posted s \<and> not_silenced env fingerprint names duration s e)
    \<or> silenced env fingerprint names duration author s s' (\<exists>i. r = Inr i) \<and> (\<forall>e. r = Inl e \<longrightarrow> silence_status e = 502)"
proof (cases "run_state (get_alerts env) s")
  case (Pair got s1)
  have kept: "al_posted s1 = al_posted s" using get_alerts_run[OF Pair] by (simp add: fetched_def)
  show ?thesis
  proof (cases "\<exists>alerts a. got = Inr alerts \<and> find (\<lambda>b. fa_fingerprint b = fingerprint) alerts = Some a \<and> \<not> fa_silenced a
      \<and> \<not> (names = [] \<or> list_ex (\<lambda>n. hm_get (fa_labels a) n = None) names)")
    case True
    then obtain alerts a where found: "got = Inr alerts" "find (\<lambda>b. fa_fingerprint b = fingerprint) alerts = Some a"
      "\<not> fa_silenced a" "\<not> (names = [] \<or> list_ex (\<lambda>n. hm_get (fa_labels a) n = None) names)" by blast
    obtain q where made: "run_state (create_silence env (fa_labels a) names duration author) s1 = (q, s')"
      and r: "r = map_err SilenceUpstream q"
      using assms Pair found by (auto simp: silence_alert_def State_Monad.bind_def map_err_def split: prod.splits)
    from silenced_here[OF _ found(2,3) create_silence_run[OF made] found(4), of s] Pair found(1) r
    show ?thesis by (auto simp: map_err_def silence_status_def split: sum.splits)
  next
    case False
    with assms Pair kept show ?thesis
      by (auto simp: silence_alert_def not_silenced_def State_Monad.bind_def map_err_def
          split: sum.splits option.splits if_splits)
  qed
qed

text \<open>The status of the answer to a request that is not tried.\<close>

definition silence_gate :: "server_config \<Rightarrow> bool \<Rightarrow> identity \<Rightarrow> silence_alert_request \<Rightarrow> nat option" where
  "silence_gate cf configured who rq =
     (if \<not> (can_read_alerts cf (id_groups who) \<and> can_silence_alerts cf (id_groups who)) then Some 403
      else if request_caller_of who = None then Some 401
      else if (\<exists>secs. sl_duration rq = SilenceFinite secs \<and> secs \<notin> {MIN_ALERT_SILENCE_SECS..MAX_ALERT_SILENCE_SECS}) then Some 400
      else if \<not> configured then Some 503 else None)"

lemma silence_status_failed [simp]: "silence_status e \<noteq> 200"
  by (simp add: silence_status_def split: silence_error.split)

definition asked_for :: "alert_silence_duration \<Rightarrow> nat option" where
  "asked_for d = (case d of SilenceForever \<Rightarrow> None | SilenceFinite secs \<Rightarrow> Some secs)"

lemma duration_asked_for:
  "silence_duration d = Inr n \<longleftrightarrow> n = asked_for d \<and> (\<forall>secs. d = SilenceFinite secs \<longrightarrow> secs \<in> {MIN_ALERT_SILENCE_SECS..MAX_ALERT_SILENCE_SECS})"
  by (auto simp: silence_duration_def asked_for_def split: alert_silence_duration.splits)

lemma open_gate:
  "silence_gate cf (cache \<noteq> None) who rq = None \<longleftrightarrow> (\<exists>env caller. cache = Some env \<and> request_caller_of who = Some caller
     \<and> can_read_alerts cf (id_groups who) \<and> can_silence_alerts cf (id_groups who)
     \<and> silence_duration (sl_duration rq) = Inr (asked_for (sl_duration rq)))"
  by (auto simp: silence_gate_def duration_asked_for)

lemma closed_gate:
  "silence_gate cf (cache \<noteq> None) who rq = Some n \<Longrightarrow>
    \<exists>body. silence_endpoint cf cache json who rq = State_Monad.return (status_response n body)"
  by (auto simp: silence_gate_def silence_endpoint_def silence_duration_def split: if_splits option.splits
      alert_silence_duration.splits)

text \<open>C25: a silence says what its author saw, and nothing else.  The endpoint answers without a request when the caller
  may not read and silence alerts, is nobody, asks for a duration out of bounds, or no Alertmanager is configured, each
  with its status; it answers without posting when the alerts cannot be read, none has the fingerprint, it is
  silenced already, a label is not the alert's, or a time cannot be written.  Otherwise it posts exactly one silence: for
  the alert of that fingerprint that was firing unsilenced, with exact matchers, one per selected label with the alert's
  own value, so that they select that alert, from the time of the wall clock to that time and the duration asked for (or to the end
  of 9999), in the name of the caller; and after a success the cache marks exactly the alerts the silence selects.\<close>

theorem silence_says_what_was_seen:
  assumes run: "run_state (silence_endpoint cf cache json who rq) s = (r, s')"
  shows "case silence_gate cf (cache \<noteq> None) who rq of
      Some status \<Rightarrow> s' = s \<and> rs_status r = status
    | None \<Rightarrow> \<exists>env caller. cache = Some env \<and> request_caller_of who = Some caller \<and>
        ((\<exists>e. al_posted s' = al_posted s \<and> rs_status r = silence_status e
            \<and> not_silenced env (sl_fingerprint rq) (sl_matcher_labels rq) (asked_for (sl_duration rq)) s e)
         \<or> rs_status r \<in> {200, 502} \<and> silenced env (sl_fingerprint rq) (sl_matcher_labels rq) (asked_for (sl_duration rq)) (rc_audit caller)
             s s' (rs_status r = 200))"
proof (cases "silence_gate cf (cache \<noteq> None) who rq")
  case (Some n)
  from closed_gate[OF Some, of json] obtain body where
    "silence_endpoint cf cache json who rq = State_Monad.return (status_response n body)" ..
  with run Some show ?thesis by (auto simp: status_response_def)
next
  case None
  from None[unfolded open_gate] obtain env caller where ok: "cache = Some env" "request_caller_of who = Some caller"
    "can_read_alerts cf (id_groups who)" "can_silence_alerts cf (id_groups who)"
    "silence_duration (sl_duration rq) = Inr (asked_for (sl_duration rq))" by blast
  then obtain q where
    made: "run_state (silence_alert env (sl_fingerprint rq) (asked_for (sl_duration rq)) (rc_audit caller) (sl_matcher_labels rq)) s
      = (q, s')" and r: "rs_status r = (case q of Inl e \<Rightarrow> silence_status e | Inr _ \<Rightarrow> 200)"
    using run by (auto simp: silence_endpoint_def status_response_def bad_gateway_def silence_status_def
      split: prod.splits sum.splits silence_error.splits)
  have "(\<exists>e. al_posted s' = al_posted s \<and> rs_status r = silence_status e
        \<and> not_silenced env (sl_fingerprint rq) (sl_matcher_labels rq) (asked_for (sl_duration rq)) s e)
      \<or> rs_status r \<in> {200, 502} \<and> silenced env (sl_fingerprint rq) (sl_matcher_labels rq) (asked_for (sl_duration rq))
          (rc_audit caller) s s' (rs_status r = 200)"
  proof (cases q)
    case (Inl e)
    then have "rs_status r = 502 \<Longrightarrow> (rs_status r = 200) = (\<exists>i. q = Inr i)" by simp
    with silence_alert_run[OF made] Inl r show ?thesis by auto
  next
    case (Inr i)
    with silence_alert_run[OF made] r show ?thesis by simp
  qed
  with ok show ?thesis unfolding None option.case by (intro exI[of _ env] exI[of _ caller] conjI) simp_all
qed

definition silence_env :: "unit alert_env" where
  "silence_env = \<lparr>an_now = (\<lambda>w. (0, w)), an_wall = (\<lambda>w. (0, w)), an_get = (\<lambda>w. (Inl ''down'', w)),
     an_post = (\<lambda>_ w. (Inr (Inr [Inr ''{}'']), w)), an_rfc3339 = (\<lambda>t. Inr (if t = 3600 then ''01:00'' else ''00:00'')), an_utf8 = Inr,
     an_parse_alerts = (\<lambda>_. Inl ''none''), an_parse_silence = (\<lambda>_. Inr ''s1'')\<rparr>"

definition watchdog :: firing_alert where
  "watchdog = into_firing \<lparr>am_fingerprint = ''f'', am_labels = [(''alertname'', ''Watchdog''), (''pod'', ''a'')],
     am_annotations = [], am_starts_at = [], am_silenced_by = []\<rparr>"

definition silencing_config :: server_config where
  "silencing_config = (base_config \<lparr>dc_b64_standard = (\<lambda>_. None), dc_b64_url = (\<lambda>_. None), dc_parse_json = (\<lambda>_. None)\<rparr>
     (\<lambda>_. None))\<lparr>cf_dev_mode := True, cf_alerts_actions_enabled := True\<rparr>"

definition watchdog_request :: silence_alert_request where
  "watchdog_request = \<lparr>sl_fingerprint = ''f'', sl_duration = SilenceFinite 3600, sl_matcher_labels = [''alertname'']\<rparr>"

definition before_silence :: "unit alert_st" where
  "before_silence = \<lparr>al_world = (), al_cache = Some ([watchdog], 0), al_posted = []\<rparr>"

abbreviation silence_watchdog :: "response \<times> unit alert_st" where
  "silence_watchdog \<equiv> run_state (silence_endpoint silencing_config (Some silence_env) id dev_identity watchdog_request) before_silence"

lemmas watchdog_steps = silence_endpoint_def silencing_config_def base_config_def can_read_alerts_def can_silence_alerts_def
  request_caller_of_def dev_identity_def watchdog_request_def silence_duration_def silence_alert_def get_alerts_def
  load_alerts_def cached_alerts_def alert_steps silence_env_def CACHE_TTL_def watchdog_def into_firing_def create_silence_def
  silence_request_of_def and_then_def equal_matcher_def ok_or_def read_answer_def MAX_RESPONSE_BYTES_def
  status_response_def before_silence_def MIN_ALERT_SILENCE_SECS_def MAX_ALERT_SILENCE_SECS_def

lemma watchdog_silenced: "rs_status (fst silence_watchdog) = 200"
  by (simp add: watchdog_steps)

lemma watchdog_gate: "silence_gate silencing_config True dev_identity watchdog_request = None"
  by (simp add: silence_gate_def watchdog_steps)

lemma watchdog_clock: "fst (an_wall silence_env w) = 0" "an_rfc3339 silence_env 3600 = Inr ''01:00''"
  by (simp_all add: silence_env_def)

theorem silence_says_what_was_seen_witness:
  "map sq_ends_at (al_posted (snd silence_watchdog)) = [''01:00'']"
  using silence_says_what_was_seen[of silencing_config "Some silence_env" id dev_identity watchdog_request before_silence,
      OF prod.collapse[symmetric]] watchdog_silenced watchdog_gate
  by (auto simp: silenced_def watchdog_clock right_silence_def before_silence_def watchdog_request_def asked_for_def)

section \<open>What an alert is shown with\<close>

lemma in_order [simp]: "set (in_order ts) = set ts" "sorted (in_order ts)" "distinct (in_order ts)"
  by (simp_all add: in_order_def)

lemma nonempty_label_Some: "nonempty_label ls n = Some v \<longleftrightarrow> hm_get ls n = Some v \<and> v \<noteq> []"
  by (auto simp: nonempty_label_def split: option.split)

text \<open>A target that can be opened: its kind is served, its name is a label, and a namespaced one has its namespace.\<close>

definition real_target :: "resource_kind list \<Rightarrow> labels \<Rightarrow> alert_target \<Rightarrow> bool" where
  "real_target kinds ls t \<longleftrightarrow> (\<exists>k\<in>set kinds. at_key t = rk_key k \<and> at_kind t = rk_kind k
     \<and> at_namespace t = (if rk_namespaced k then nonempty_label ls ''namespace'' else None)
     \<and> (rk_namespaced k \<longrightarrow> at_namespace t \<noteq> None)) \<and> at_name t \<noteq> [] \<and> (\<exists>n. hm_get ls n = Some (at_name t))"

lemma target_for_Some:
  assumes "target_for kinds grp version kind name ls = Some t"
  obtains k where "k \<in> set kinds"
    and "map_option (\<lambda>ns. AlertTarget (rk_key k) (rk_kind k) ns name)
      (if rk_namespaced k then map_option Some (nonempty_label ls ''namespace'') else Some None) = Some t"
  using assms by (auto simp: target_for_def or_else_def Let_def bind_eq_Some_conv
      split: option.splits if_splits dest!: find_Some_in_set)

lemma target_for_real:
  assumes "nonempty_label ls n = Some name" and "target_for kinds grp version kind name ls = Some t"
  shows "real_target kinds ls t"
proof -
  have "hm_get ls n = Some name" "name \<noteq> []" using assms(1) by (simp_all add: nonempty_label_Some)
  then show ?thesis
    by (rule_tac target_for_Some[OF assms(2)]) (auto simp: real_target_def split: if_splits intro!: bexI)
qed

lemma standard_real: "t \<in> set (standard_targets ls kinds) \<Longrightarrow> real_target kinds ls t"
  by (fastforce simp: standard_targets_def map_filter_def bind_eq_Some_conv intro: target_for_real)

lemma workload_real: "workload_target ls kinds = Some t \<Longrightarrow> real_target kinds ls t"
  by (auto simp: workload_target_def bind_eq_Some_conv split: option.splits dest: target_for_real)

lemma custom_real: "custom_target ls kinds = Some t \<Longrightarrow> real_target kinds ls t"
  by (auto simp: custom_target_def or_else_def split: option.splits dest: target_for_real)

lemma targets_real: "t \<in> set (resolve_targets ls kinds) \<Longrightarrow> real_target kinds ls t"
  by (auto simp: resolve_targets_def map_filter_def dest: standard_real workload_real custom_real split: if_splits)

section \<open>The defining rules\<close>

definition fits :: "firing_alert \<Rightarrow> rule_definition \<Rightarrow> bool" where
  "fits a d \<longleftrightarrow> list_all (\<lambda>(name, v). hm_get (fa_labels a) name = Some v) (literal_labels d)"

lemma score_None: "fold (\<lambda>(name, v) score. Option.bind score (\<lambda>n. if P name v then Some (n + 1) else None)) ls None = None"
  by (induction ls) auto

lemma score_from:
  "fold (\<lambda>(name, v) score. Option.bind score (\<lambda>n. if P name v then Some (n + 1) else None)) ls (Some k) =
    (if list_all (\<lambda>(name, v). P name v) ls then Some (k + length ls) else None)"
  by (induction ls arbitrary: k) (auto simp: score_None)

lemma rule_score: "rule_score a d = (if fits a d then Some (length (literal_labels d)) else None)"
  by (simp add: rule_score_def fits_def score_from)

text \<open>The rules that define an alert: those of its name that fit it with the most labels, or all if none fits.\<close>

definition is_defined_by :: "firing_alert \<Rightarrow> rule_definition list \<Rightarrow> rule_definition \<Rightarrow> bool" where
  "is_defined_by a ds d \<longleftrightarrow> d \<in> set ds \<and> rd_alert_name d = fa_name a
     \<and> (\<forall>e\<in>set ds. rd_alert_name e = fa_name a \<and> fits a e \<longrightarrow>
          fits a d \<and> length (literal_labels e) \<le> length (literal_labels d))"

lemma compatible_rules:
  "List.map_filter (\<lambda>d. map_option (Pair d) (rule_score a d)) ds =
    map (\<lambda>d. (d, length (literal_labels d))) (filter (fits a) ds)"
  by (induction ds) (auto simp: rule_score)

lemma max_iff: "finite A \<Longrightarrow> x \<in> A \<Longrightarrow> x = Max A \<longleftrightarrow> (\<forall>y\<in>A. y \<le> (x::nat))"
  by (metis Max_ge Max_in empty_iff le_antisym)

lemma defining_rules:
  "set (matching_rule_targets a ds) = rd_target ` {d. is_defined_by a ds d}"
proof (cases "\<exists>e\<in>set ds. rd_alert_name e = fa_name a \<and> fits a e")
  case True
  let ?fitting = "filter (fits a) (filter (\<lambda>d. rd_alert_name d = fa_name a) ds)"
  have "set (matching_rule_targets a ds) = rd_target ` {d \<in> set ?fitting. length (literal_labels d) =
      Max ((\<lambda>d. length (literal_labels d)) ` set ?fitting)}"
    using True by (auto simp: matching_rule_targets_def compatible_rules Let_def image_image filter_empty_conv
        filter_map o_def)
  also have "{d \<in> set ?fitting. length (literal_labels d) = Max ((\<lambda>d. length (literal_labels d)) ` set ?fitting)} =
      {d. is_defined_by a ds d}"
    using True by (auto simp: is_defined_by_def max_iff)
  finally show ?thesis .
next
  case False
  then have "filter (fits a) (filter (\<lambda>d. rd_alert_name d = fa_name a) ds) = []"
    by (auto simp: filter_empty_conv)
  then have "set (matching_rule_targets a ds) = rd_target ` {d \<in> set ds. rd_alert_name d = fa_name a}"
    by (auto simp: matching_rule_targets_def compatible_rules Let_def)
  also have "{d \<in> set ds. rd_alert_name d = fa_name a} = {d. is_defined_by a ds d}"
    using False by (auto simp: is_defined_by_def)
  finally show ?thesis .
qed

text \<open>Enrichment only adds links that open: an alert keeps everything else, its targets are in order, without
  duplicates, and each is a served kind under a name the alert carries, in the alert's namespace where the kind has one;
  its defining rules are the objects of the most specific rules of its name among those the cluster answered with, or none.\<close>

theorem enrichment_adds_real_links:
  assumes "i < length alerts"
  shows "length (enrich_alerts kinds list_rules alerts) = length alerts
    \<and> (\<exists>targets rules. enrich_alerts kinds list_rules alerts ! i =
          (alerts ! i)\<lparr>fa_targets := targets, fa_defining_rules := rules\<rparr>
        \<and> sorted targets \<and> distinct targets \<and> list_all (real_target kinds (fa_labels (alerts ! i))) targets
        \<and> sorted rules \<and> distinct rules
        \<and> (rules = [] \<or> (\<exists>k objects. k \<in> set kinds \<and> rk_kind k = ''PrometheusRule''
             \<and> set rules = rd_target ` {d. is_defined_by (alerts ! i) (rule_definitions objects k) d})))"
proof -
  let ?a = "alerts ! i"
  let ?targets = "resolve_targets (fa_labels ?a) kinds"
  have targets: "sorted ?targets \<and> distinct ?targets \<and> list_all (real_target kinds (fa_labels ?a)) ?targets"
    by (auto simp: list_all_iff targets_real) (simp_all add: resolve_targets_def)
  have rules: "sorted (matching_rule_targets a ds) \<and> distinct (matching_rule_targets a ds)" for a ds
    by (simp add: matching_rule_targets_def Let_def)
  have untouched: "is_defined_by (?a\<lparr>fa_targets := x, fa_defining_rules := y\<rparr>) = is_defined_by ?a" for x y
    by (simp add: is_defined_by_def fits_def fun_eq_iff)
  have len: "length (enrich_alerts kinds list_rules alerts) = length alerts"
    by (auto simp: enrich_alerts_def Let_def split: option.split sum.split)
  let ?b = "?a\<lparr>fa_targets := ?targets, fa_defining_rules := []\<rparr>"
  have "enrich_alerts kinds list_rules alerts ! i = ?b \<or> (\<exists>k objects. k \<in> set kinds \<and> rk_kind k = ''PrometheusRule''
      \<and> enrich_alerts kinds list_rules alerts ! i =
          ?a\<lparr>fa_targets := ?targets, fa_defining_rules := matching_rule_targets ?b (rule_definitions objects k)\<rparr>)"
    using assms by (auto simp: enrich_alerts_def Let_def split: option.split sum.split dest!: find_Some_in_set)
  then consider (none) "enrich_alerts kinds list_rules alerts ! i = ?b"
    | (some) k objects where "k \<in> set kinds" "rk_kind k = ''PrometheusRule''"
        "enrich_alerts kinds list_rules alerts ! i =
          ?a\<lparr>fa_targets := ?targets, fa_defining_rules := matching_rule_targets ?b (rule_definitions objects k)\<rparr>"
    by blast
  then show ?thesis
  proof cases
    case none
    show ?thesis by (rule conjI[OF len], intro exI[of _ ?targets] exI[of _ "[]"]) (simp add: none targets)
  next
    case some
    show ?thesis
      by (rule conjI[OF len], intro exI[of _ ?targets] exI[of _ "matching_rule_targets ?b (rule_definitions objects k)"] conjI
          disjI2 exI[of _ k] exI[of _ objects])
        (simp_all add: some targets rules defining_rules untouched)
  qed
qed

theorem enrichment_adds_real_links_witness:
  "length (enrich_alerts [] (\<lambda>_. None) [watchdog]) = 1 \<and> sorted (fa_targets (enrich_alerts [] (\<lambda>_. None) [watchdog] ! 0))
    \<and> fa_fingerprint (enrich_alerts [] (\<lambda>_. None) [watchdog] ! 0) = ''f''"
  using enrichment_adds_real_links[of 0 "[watchdog]" "[]" "\<lambda>_. None"] by (auto simp: watchdog_def into_firing_def)

end
