(* ===== verification/Access.thy ===== *)
theory Access
  imports Mutations
begin

text \<open>
  \<open>crates/k8s/src/backend/permissions.rs\<close>: what a login may do, asked of the API server as access reviews
  that are cached for half a minute.  The world answers the reviews and the reads; the clock of the
  process is monotonic: a reading of it says how many milliseconds have passed since the last one.
\<close>

section \<open>Reviews\<close>

text \<open>What is asked, as the cache keys it: the verb, the key of the kind, the namespace, the name and the subresource.\<close>

datatype access = Access (ac_verb: string) (ac_key: string) (ac_namespace: "string option")
  (ac_name: "string option") (ac_subresource: "string option")

record resource_attributes =
  ra_verb :: string
  ra_group :: string
  ra_resource :: string
  ra_name :: "string option"
  ra_subresource :: "string option"
  ra_namespace :: "string option"

text \<open>The status of an answered review is optional.\<close>

record 'w access_env =
  pe_kube :: "'w kube_env"
  pe_tick :: "'w \<Rightarrow> nat \<times> 'w"
  pe_review :: "resource_attributes \<Rightarrow> 'w \<Rightarrow> (string + bool option) \<times> 'w"

record 'w access_st =
  pm_world :: 'w
  pm_now :: nat
  pm_cache :: "(access, nat \<times> bool) hmap"
  pm_answers :: "(resource_attributes \<times> bool \<times> nat) list"
  pm_sources :: "flux_source_target list"

type_synonym ('w, 'a) accessing = "('w access_st, 'a) state"

definition REVIEW_TTL :: nat where
  "REVIEW_TTL = 30000"

definition instant :: "'w access_env \<Rightarrow> ('w, nat) accessing" where
  "instant env = State (\<lambda>s. case pe_tick env (pm_world s) of
     (d, w) \<Rightarrow> (pm_now s + d, s\<lparr>pm_world := w, pm_now := pm_now s + d\<rparr>))"

definition look_up :: "access \<Rightarrow> ('w, (nat \<times> bool) option) accessing" where
  "look_up k = State (\<lambda>s. (hm_get (pm_cache s) k, s))"

text \<open>The answers are also kept as a history, with the time each was stamped.\<close>

definition remember :: "nat \<Rightarrow> resource_attributes \<Rightarrow> access \<Rightarrow> bool \<Rightarrow> ('w, unit) accessing" where
  "remember now attrs k allowed = State (\<lambda>s. ((), s\<lparr>
     pm_cache := hm_insert k (now, allowed) (hm_retain (\<lambda>_ (at, _). now - at < REVIEW_TTL * 10) (pm_cache s)),
     pm_answers := pm_answers s @ [(attrs, allowed, now)]\<rparr>))"

definition review :: "'w access_env \<Rightarrow> resource_attributes \<Rightarrow> ('w, string + bool) accessing" where
  "review env attrs = State (\<lambda>s. case pe_review env attrs (pm_world s) of
     (r, w) \<Rightarrow> (map_sum id (unwrap_or False) r, s\<lparr>pm_world := w\<rparr>))"

definition attributes_of :: "resource_kind \<Rightarrow> access \<Rightarrow> resource_attributes" where
  "attributes_of e k = \<lparr>ra_verb = ac_verb k, ra_group = rk_group e, ra_resource = rk_plural e, ra_name = ac_name k,
     ra_subresource = ac_subresource k, ra_namespace = ac_namespace k\<rparr>"

definition fresh_answer :: "'w access_env \<Rightarrow> access \<Rightarrow> ('w, bool option) accessing" where
  "fresh_answer env k = do {
     c \<leftarrow> look_up k;
     case c of
       None \<Rightarrow> ret None
     | Some (at, allowed) \<Rightarrow> do {
         now \<leftarrow> instant env;
         ret (if now - at < REVIEW_TTL then Some allowed else None) } }"

definition can_resource ::
  "'w access_env \<Rightarrow> string \<Rightarrow> string \<Rightarrow> string option \<Rightarrow> string option \<Rightarrow> string option \<Rightarrow> ('w, bool) accessing" where
  "can_resource env verb key ns name subresource =
     (case cluster_entry (kn_catalog (pe_kube env)) key of
        Inl _ \<Rightarrow> ret False
      | Inr e \<Rightarrow> let k = Access verb key (if rk_namespaced e then ns else None) name subresource in do {
          hit \<leftarrow> fresh_answer env k;
          case hit of
            Some allowed \<Rightarrow> ret allowed
          | None \<Rightarrow> do {
              r \<leftarrow> review env (attributes_of e k);
              case r of
                Inl _ \<Rightarrow> ret False
              | Inr allowed \<Rightarrow> do {
                  now \<leftarrow> instant env;
                  remember now (attributes_of e k) k allowed;
                  ret allowed } } })"

definition can_of :: "'w access_env \<Rightarrow> access \<Rightarrow> ('w, bool) accessing" where
  "can_of env k = can_resource env (ac_verb k) (ac_key k) (ac_namespace k) (ac_name k) (ac_subresource k)"

definition can_verb :: "'w access_env \<Rightarrow> string \<Rightarrow> string \<Rightarrow> string option \<Rightarrow> ('w, bool) accessing" where
  "can_verb env verb key ns = can_resource env verb key ns None None"

definition can_named :: "'w access_env \<Rightarrow> string \<Rightarrow> string \<Rightarrow> string option \<Rightarrow> string \<Rightarrow> ('w, bool) accessing" where
  "can_named env verb key ns name = can_resource env verb key ns (Some name) None"

definition can_subresource ::
  "'w access_env \<Rightarrow> string \<Rightarrow> string \<Rightarrow> string option \<Rightarrow> string \<Rightarrow> ('w, bool) accessing" where
  "can_subresource env verb key ns sub = can_resource env verb key ns None (Some sub)"

definition can_named_subresource ::
  "'w access_env \<Rightarrow> string \<Rightarrow> string \<Rightarrow> string option \<Rightarrow> string \<Rightarrow> string \<Rightarrow> ('w, bool) accessing" where
  "can_named_subresource env verb key ns name sub = can_resource env verb key ns (Some name) (Some sub)"

section \<open>Actions\<close>

text \<open>\<open>a && b\<close>: the second is asked only if the first holds.\<close>

definition and_also :: "('s, bool) state \<Rightarrow> ('s, bool) state \<Rightarrow> ('s, bool) state" where
  "and_also m n = do { b \<leftarrow> m; if b then n else ret False }"

definition NODE_SHELL_NAMESPACE :: string where
  "NODE_SHELL_NAMESPACE = ''default''"

abbreviation pod_key :: string where
  "pod_key \<equiv> make_key [] ''v1'' ''Pod''"

definition target :: "'w access_env \<Rightarrow> string \<Rightarrow> string option \<Rightarrow> string option \<Rightarrow> string \<Rightarrow> ('w, bool) accessing" where
  "target env key ns name verb = (case name of
     Some n \<Rightarrow> can_named env verb key ns n | None \<Rightarrow> can_verb env verb key ns)"

definition target_subresource ::
  "'w access_env \<Rightarrow> string \<Rightarrow> string option \<Rightarrow> string option \<Rightarrow> string \<Rightarrow> string \<Rightarrow> ('w, bool) accessing" where
  "target_subresource env key ns name verb sub = (case name of
     Some n \<Rightarrow> can_named_subresource env verb key ns n sub | None \<Rightarrow> can_subresource env verb key ns sub)"

definition can_logs :: "'w access_env \<Rightarrow> resource_kind \<Rightarrow> string \<Rightarrow> string option \<Rightarrow> string option \<Rightarrow> ('w, bool) accessing" where
  "can_logs env kind key ns name =
     (if rk_group kind = [] \<and> rk_kind kind = ''Pod'' then
        and_also (target env key ns name ''get'') (target_subresource env key ns name ''get'' ''log'')
      else and_also (target env key ns name ''get'')
        (and_also (can_verb env ''list'' pod_key ns) (can_subresource env ''get'' pod_key ns ''log'')))"

text \<open>The read of a Flux source goes through the same client; the sources read are kept as a history.\<close>

definition source_of ::
  "'w access_env \<Rightarrow> string \<Rightarrow> string option \<Rightarrow> string \<Rightarrow> ('w, k8s_error + flux_source_target) accessing" where
  "source_of env key ns name = State (\<lambda>s.
     case run_state (flux_source_target_of (pe_kube env) key ns name) \<lparr>kt_world = pm_world s, kt_writes = []\<rparr> of
       (r, t) \<Rightarrow> (r, s\<lparr>pm_world := kt_world t,
         pm_sources := pm_sources s @ (case r of Inr source \<Rightarrow> [source] | Inl _ \<Rightarrow> [])\<rparr>))"

definition can_reconcile_source :: "'w access_env \<Rightarrow> string \<Rightarrow> string option \<Rightarrow> string \<Rightarrow> ('w, bool) accessing" where
  "can_reconcile_source env key ns name = do {
     r \<leftarrow> source_of env key ns name;
     case r of
       Inl _ \<Rightarrow> ret False
     | Inr source \<Rightarrow> can_named env ''patch'' (fs_key source) (fs_namespace source) (fs_name source) }"

definition can_drain ::
  "'w access_env \<Rightarrow> string \<Rightarrow> string option \<Rightarrow> drain_options option \<Rightarrow> ('w, bool) accessing" where
  "can_drain env key name opts = do {
     pod_action \<leftarrow> if (case opts of Some op \<Rightarrow> disable_eviction op | None \<Rightarrow> False)
       then can_verb env ''delete'' pod_key None else can_subresource env ''create'' pod_key None ''eviction'';
     and_also (target env key None name ''patch'')
       (and_also (can_verb env ''list'' pod_key None) (ret pod_action)) }"

definition can_action_of ::
  "'w access_env \<Rightarrow> resource_action \<Rightarrow> resource_kind \<Rightarrow> string \<Rightarrow> string option \<Rightarrow> string option \<Rightarrow> drain_options option
     \<Rightarrow> ('w, bool) accessing" where
  "can_action_of env act kind key ns name opts =
     (let target = target env key ns name; sub = target_subresource env key ns name;
          jobs = make_key ''batch'' ''v1'' ''Job'' in
      case act of
        Delete \<Rightarrow> target ''delete''
      | Evict \<Rightarrow> sub ''create'' ''eviction''
      | Drain \<Rightarrow> can_drain env key name opts
      | Logs \<Rightarrow> can_logs env kind key ns name
      | Exec \<Rightarrow> sub ''create'' ''exec''
      | DebugExec \<Rightarrow> and_also (target ''get'')
          (and_also (sub ''patch'' ''ephemeralcontainers'') (sub ''create'' ''exec''))
      | NodeShell \<Rightarrow> and_also (target ''get'')
          (and_also (can_verb env ''create'' pod_key (Some NODE_SHELL_NAMESPACE))
          (and_also (can_verb env ''get'' pod_key (Some NODE_SHELL_NAMESPACE))
          (and_also (can_verb env ''delete'' pod_key (Some NODE_SHELL_NAMESPACE))
            (can_subresource env ''create'' pod_key (Some NODE_SHELL_NAMESPACE) ''exec''))))
      | FluxReconcileWithSource \<Rightarrow> and_also (target ''get'') (and_also (target ''patch'')
          (case name of None \<Rightarrow> ret False | Some n \<Rightarrow> can_reconcile_source env key ns n))
      | CertificateRenew \<Rightarrow> and_also (target ''get'') (sub ''update'' ''status'')
      | CronJobTrigger \<Rightarrow> and_also (target ''get'') (can_verb env ''create'' jobs ns)
      | JobRerun \<Rightarrow> and_also (target ''get'') (can_verb env ''create'' jobs ns)
      | KopiurSnapshotNow \<Rightarrow> can_verb env ''create'' (make_key (rk_group kind) (rk_version kind) ''Snapshot'') ns
      | CnpgBackup \<Rightarrow> and_also (target ''get'')
          (and_also (can_verb env ''create'' (make_key (rk_group kind) (rk_version kind) ''Backup'') ns)
            (can_verb env ''list'' (make_key (rk_group kind) (rk_version kind) ''ScheduledBackup'') ns))
      | _ \<Rightarrow> target ''patch'')"

definition backend_can_action ::
  "'w access_env \<Rightarrow> resource_action \<Rightarrow> string \<Rightarrow> string option \<Rightarrow> string option \<Rightarrow> drain_options option
     \<Rightarrow> ('w, bool) accessing" where
  "backend_can_action env act key ns name opts =
     (case cluster_entry (kn_catalog (pe_kube env)) key of
        Inl _ \<Rightarrow> ret False
      | Inr kind \<Rightarrow>
          if \<not> kind_supports kind act then ret False
          else can_action_of env act kind key ns name opts)"

section \<open>The sweep, the permissions of an object and the access review\<close>

definition can_sweep_kind :: "'w access_env \<Rightarrow> string option \<Rightarrow> sanitize_action \<Rightarrow> string \<Rightarrow> ('w, bool) accessing" where
  "can_sweep_kind env ns a key = and_also (can_verb env ''list'' key ns)
     (if a = Preview then ret True else can_verb env ''delete'' key ns)"

definition backend_can_sanitize ::
  "'w access_env \<Rightarrow> string option \<Rightarrow> sweep_options \<Rightarrow> sanitize_action \<Rightarrow> ('w, bool) accessing" where
  "backend_can_sanitize env ns opts a =
     and_also (if includes_pods opts then can_sweep_kind env ns a pod_key else ret True)
       (if includes_jobs opts then can_sweep_kind env ns a (make_key ''batch'' ''v1'' ''Job'') else ret True)"

fun action_answers ::
  "'w access_env \<Rightarrow> resource_kind \<Rightarrow> string \<Rightarrow> string option \<Rightarrow> string option \<Rightarrow> resource_action list
     \<Rightarrow> ('w, (string, bool) hmap) accessing" where
  "action_answers env kind key ns name [] = ret []"
| "action_answers env kind key ns name (a # as) =
     (if kind_supports kind a then do {
        ok \<leftarrow> backend_can_action env a key ns name None;
        rest \<leftarrow> action_answers env kind key ns name as;
        ret ((api_name a, ok) # rest) }
      else action_answers env kind key ns name as)"

definition action_permissions_of ::
  "'w access_env \<Rightarrow> string \<Rightarrow> string option \<Rightarrow> string option \<Rightarrow> ('w, action_permissions) accessing" where
  "action_permissions_of env key ns name =
     (case cluster_entry (kn_catalog (pe_kube env)) key of
        Inl _ \<Rightarrow> ret \<lparr>ap_apply = False, ap_actions = []\<rparr>
      | Inr kind \<Rightarrow> do {
          actions \<leftarrow> action_answers env kind key ns name all_actions;
          apply \<leftarrow> can_verb env ''patch'' key ns;
          ret \<lparr>ap_apply = apply, ap_actions = actions\<rparr> })"

definition ACCESS_REVIEW_OPERATIONS :: "string list" where
  "ACCESS_REVIEW_OPERATIONS = [''get'', ''list'', ''watch'', ''create'', ''patch'', ''delete'', ''status'', ''logs'', ''exec'',
     ''evict'', ''deps'']"

record access_row =
  ar_kind :: string
  ar_group :: string
  ar_namespaced :: bool
  ar_category :: category
  ar_operations :: "(string \<times> bool option) list"

definition review_verb :: "'w access_env \<Rightarrow> resource_kind \<Rightarrow> string option \<Rightarrow> string \<Rightarrow> ('w, string \<times> bool option) accessing" where
  "review_verb env k ns verb = do { ok \<leftarrow> can_verb env verb (rk_key k) ns; ret (verb, Some ok) }"

definition review_action ::
  "'w access_env \<Rightarrow> resource_kind \<Rightarrow> string option \<Rightarrow> string \<times> resource_action \<Rightarrow> ('w, string \<times> bool option) accessing" where
  "review_action env k ns = (\<lambda>(label, a).
     if kind_supports k a then do {
       ok \<leftarrow> backend_can_action env a (rk_key k) ns None None; ret (label, Some ok) }
     else ret (label, None))"

definition dependent_actions :: "resource_action list" where
  "dependent_actions = [Drain, CronJobTrigger, JobRerun, KopiurSnapshotNow, CnpgBackup]"

text \<open>Every dependent action is asked, even after one was refused.\<close>

definition review_dependencies :: "'w access_env \<Rightarrow> resource_kind \<Rightarrow> string option \<Rightarrow> ('w, string \<times> bool option) accessing" where
  "review_dependencies env k ns =
     (let as = filter (kind_supports k) dependent_actions in do {
        oks \<leftarrow> map_state (\<lambda>a. backend_can_action env a (rk_key k) ns None None) as;
        ret (''deps'', if as = [] then None else Some (list_all id oks)) })"

definition review_kind :: "'w access_env \<Rightarrow> string option \<Rightarrow> resource_kind \<Rightarrow> ('w, access_row) accessing" where
  "review_kind env ns k = do {
     verbs \<leftarrow> map_state (review_verb env k ns) [''get'', ''list'', ''watch'', ''create'', ''patch'', ''delete''];
     status \<leftarrow> can_subresource env ''update'' (rk_key k) ns ''status'';
     actions \<leftarrow> map_state (review_action env k ns) [(''logs'', Logs), (''exec'', Exec), (''evict'', Evict)];
     deps \<leftarrow> review_dependencies env k ns;
     ret \<lparr>ar_kind = rk_kind k, ar_group = rk_group k, ar_namespaced = rk_namespaced k, ar_category = rk_category k,
       ar_operations = verbs @ [(''status'', Some status)] @ actions @ [deps]\<rparr> }"

text \<open>The kinds are reviewed concurrently in the code; here one after the other.\<close>

definition access_row_order :: "access_row \<Rightarrow> nat \<times> string \<times> string \<times> string" where
  "access_row_order r = (category_order (ar_category r), category_label (ar_category r), ar_kind r, ar_group r)"

definition access_review :: "'w access_env \<Rightarrow> string option \<Rightarrow> ('w, access_row list) accessing" where
  "access_review env ns = do {
     rows \<leftarrow> map_state (review_kind env ns) (kn_catalog (pe_kube env));
     ret (sort_key access_row_order rows) }"

end
