(* ===== verification/Files.thy ===== *)
theory Files
  imports Access
begin

text \<open>
  Files of a container: \<open>crates/k8s/src/backend/files.rs\<close>, the probing of shells of \<open>backend/exec.rs\<close> and the
  endpoints of \<open>server/api/files.rs\<close>.  A command runs a fixed script with its arguments; the world answers it.
  The scripts are shell code and stand for themselves.
\<close>

section \<open>Paths\<close>

fun path_parts :: "string list \<Rightarrow> string list \<Rightarrow> string list" where
  "path_parts [] parts = parts"
| "path_parts (p # ps) parts =
     (if p = [] \<or> p = ''.'' then path_parts ps parts
      else if p = ''..'' then path_parts ps (butlast parts)
      else path_parts ps (parts @ [p]))"

definition normalize_file_path :: "string \<Rightarrow> k8s_error + string" where
  "normalize_file_path path =
     (if \<not> starts_with path ''/'' \<or> CHR 0x00 \<in> set path \<or> length path > 4096
        then Inl (K8sApi ''path must be an absolute path up to 4096 bytes'')
      else let parts = path_parts (split_on (CHR ''/'') path) [] in
        Inr (if parts = [] then ''/'' else CHR ''/'' # join_with ''/'' parts))"

definition normalize_mutation_path :: "string \<Rightarrow> k8s_error + string" where
  "normalize_mutation_path path = and_then (normalize_file_path path) (\<lambda>path.
     if path = ''/'' then Inl (K8sApi ''the container root cannot be modified'') else Inr path)"

section \<open>Commands\<close>

datatype file_script = LIST_SCRIPT | READ_SCRIPT | DOWNLOAD_SCRIPT | WRITE_SCRIPT | UPLOAD_SCRIPT | CREATE_SCRIPT | DELETE_SCRIPT

datatype command_word = Word string | Script file_script

record exec_call =
  xc_namespace :: string
  xc_pod :: string
  xc_container :: "string option"
  xc_command :: "command_word list"
  xc_stdin :: "string option"

record remote_status =
  rm_status :: "string option"
  rm_message :: "string option"
  rm_reason :: "string option"

text \<open>What the five concurrent halves of a command ended with.\<close>

record exec_joined =
  ej_stdin :: "string + unit"
  ej_stdout :: "string + string"
  ej_stderr :: "string + string"
  ej_status :: "remote_status option"
  ej_join :: "string + unit"

text \<open>A started process with the channels it provides; \<open>None\<close> if it does not end in time.\<close>

record exec_process =
  ep_status :: bool
  ep_stdin :: bool
  ep_stdout :: bool
  ep_stderr :: bool
  ep_joined :: "exec_joined option"

record 'w file_env =
  fe_access :: "'w access_env"
  fe_probe :: "exec_call \<Rightarrow> 'w \<Rightarrow> bool \<times> 'w"
  fe_exec :: "exec_call \<Rightarrow> 'w \<Rightarrow> (string + exec_process) \<times> 'w"
  fe_lossy :: "string \<Rightarrow> string"
  fe_lowercase :: "string \<Rightarrow> string"
  fe_base64 :: "string \<Rightarrow> string option"

record 'w file_st =
  ft_access :: "'w access_st"
  ft_calls :: "exec_call list"

type_synonym ('w, 'a) filing = "('w file_st, 'a) state"

definition call_world :: "exec_call \<Rightarrow> ('w \<Rightarrow> 'a \<times> 'w) \<Rightarrow> ('w, 'a) filing" where
  "call_world c f = State (\<lambda>s. case f (pm_world (ft_access s)) of
     (r, w) \<Rightarrow> (r, s\<lparr>ft_access := (ft_access s)\<lparr>pm_world := w\<rparr>, ft_calls := ft_calls s @ [c]\<rparr>))"

definition with_access :: "('w, 'a) accessing \<Rightarrow> ('w, 'a) filing" where
  "with_access m = State (\<lambda>s. case run_state m (ft_access s) of (r, t) \<Rightarrow> (r, s\<lparr>ft_access := t\<rparr>))"

definition shells :: "string list" where
  "shells = [''/bin/bash'', ''/bin/ash'', ''/bin/zsh'', ''/bin/sh'']"

fun probe_shells :: "'w file_env \<Rightarrow> string \<Rightarrow> string \<Rightarrow> string option \<Rightarrow> string list \<Rightarrow> ('w, string) filing" where
  "probe_shells env ns pod container [] = ret ''/bin/sh''"
| "probe_shells env ns pod container (sh # rest) =
     (let c = \<lparr>xc_namespace = ns, xc_pod = pod, xc_container = container, xc_command = [Word sh], xc_stdin = None\<rparr> in do {
        ok \<leftarrow> call_world c (fe_probe env c);
        if ok then ret sh else probe_shells env ns pod container rest })"

definition detect_shell :: "'w file_env \<Rightarrow> string \<Rightarrow> string \<Rightarrow> string option \<Rightarrow> ('w, string) filing" where
  "detect_shell env ns pod container = probe_shells env ns pod container shells"

text \<open>How a finished command is judged, in the order of the code.\<close>

definition judge :: "'w file_env \<Rightarrow> nat \<Rightarrow> exec_joined \<Rightarrow> k8s_error + string" where
  "judge env limit j =
     and_then (map_err K8sApi (ej_stdin j)) (\<lambda>_.
     and_then (map_err K8sApi (ej_stdout j)) (\<lambda>out.
     and_then (map_err K8sApi (ej_stderr j)) (\<lambda>err.
     and_then (map_err K8sApi (ej_join j)) (\<lambda>_.
     and_then (ok_or (K8sApi ''container command returned no status'') (ej_status j)) (\<lambda>status.
       let output = take (limit + 1) out; errors = take (64 * 1024) err in
       if rm_status status \<noteq> Some ''Success'' then
         Inl (K8sContainer (if errors = []
           then unwrap_or ''container command failed'' (or_else (rm_message status) (rm_reason status))
           else trim (fe_lossy env errors)))
       else if errors \<noteq> [] then Inl (K8sContainer (trim (fe_lossy env errors)))
       else if length output > limit then Inl (K8sApi ''container command output limit exceeded'')
       else Inr output)))))"

definition finish_command :: "'w file_env \<Rightarrow> nat \<Rightarrow> string option \<Rightarrow> exec_process \<Rightarrow> k8s_error + string" where
  "finish_command env limit input p =
     (if \<not> ep_status p then Inl (K8sApi ''container exec did not provide an exit status'')
      else if input \<noteq> None \<and> \<not> ep_stdin p then Inl (K8sApi ''container exec did not provide stdin'')
      else if \<not> ep_stdout p then Inl (K8sApi ''container exec did not provide stdout'')
      else if \<not> ep_stderr p then Inl (K8sApi ''container exec did not provide stderr'')
      else case ep_joined p of
        None \<Rightarrow> Inl (K8sApi ''container command timed out'')
      | Some j \<Rightarrow> judge env limit j)"

text \<open>The callers all start their command with \<open>/bin/sh\<close>, which stands for the shell that was found.\<close>

definition run_container_command ::
  "'w file_env \<Rightarrow> string \<Rightarrow> string \<Rightarrow> string \<Rightarrow> command_word list \<Rightarrow> string option \<Rightarrow> nat \<Rightarrow> ('w, k8s_error + string) filing" where
  "run_container_command env ns pod container command input limit = do {
     command \<leftarrow> if command \<noteq> [] \<and> hd command = Word ''/bin/sh''
       then do { shell \<leftarrow> detect_shell env ns pod (Some container); ret (command[0 := Word shell]) }
       else ret command;
     let c = \<lparr>xc_namespace = ns, xc_pod = pod, xc_container = Some container, xc_command = command, xc_stdin = input\<rparr> in do {
       r \<leftarrow> call_world c (fe_exec env c);
       ret (case r of Inl e \<Rightarrow> Inl (K8sApi e) | Inr p \<Rightarrow> finish_command env limit input p) } }"

definition script_command :: "file_script \<Rightarrow> string list \<Rightarrow> command_word list" where
  "script_command script args = [Word ''/bin/sh'', Word ''-c'', Script script, Word ''roder-files''] @ map Word args"

section \<open>Operations\<close>

definition DIRECTORY_OUTPUT_LIMIT :: nat where
  "DIRECTORY_OUTPUT_LIMIT = 4 * 1024 * 1024"

definition FILE_PREVIEW_LIMIT :: nat where
  "FILE_PREVIEW_LIMIT = 1024 * 1024"

definition FILE_TRANSFER_LIMIT :: nat where
  "FILE_TRANSFER_LIMIT = 16 * 1024 * 1024"

definition MAX_ENTRIES :: nat where
  "MAX_ENTRIES = 10000"

datatype file_kind = Directory | RegularFile | Symlink | OtherFile

record file_entry =
  fi_name :: string
  fi_kind :: file_kind
  fi_size :: nat

record container_directory =
  cd_path :: string
  cd_entries :: "file_entry list"

record file_content =
  fc_path :: string
  fc_content :: string
  fc_truncated :: bool
  fc_binary :: bool

definition file_kind_of :: "string \<Rightarrow> file_kind option" where
  "file_kind_of k = map_of [(''d'', Directory), (''f'', RegularFile), (''l'', Symlink), (''o'', OtherFile)] k"

text \<open>The listing: kind, size and name of each entry, up to an empty kind.\<close>

fun read_entries :: "'w file_env \<Rightarrow> string list \<Rightarrow> file_entry list \<Rightarrow> k8s_error + file_entry list" where
  "read_entries env (kind # sz # name # rest) entries =
     (if kind = [] then Inr entries
      else if length entries = MAX_ENTRIES
        then Inl (K8sApi (''directory contains more than '' @ show_nat MAX_ENTRIES @ '' entries''))
      else case file_kind_of kind of
        None \<Rightarrow> Inl (K8sApi ''invalid file type in directory response'')
      | Some k \<Rightarrow> read_entries env rest (entries @ [\<lparr>fi_name = fe_lossy env name, fi_kind = k,
            fi_size = unwrap_or 0 (parse_u64 (trim (fe_lossy env sz)))\<rparr>]))"
| "read_entries env [] entries = Inr entries"
| "read_entries env [kind] entries = (if kind = [] then Inr entries else Inl (K8sApi ''invalid directory response''))"
| "read_entries env [kind, sz] entries = (if kind = [] then Inr entries else Inl (K8sApi ''invalid directory response''))"

text \<open>Directories first, then by name in lower case.\<close>

definition entry_order :: "'w file_env \<Rightarrow> file_entry \<Rightarrow> nat \<times> string" where
  "entry_order env e = (if fi_kind e = Directory then 0 else 1, fe_lowercase env (fi_name e))"

definition list_container_directory ::
  "'w file_env \<Rightarrow> string \<Rightarrow> string \<Rightarrow> string \<Rightarrow> string \<Rightarrow> ('w, k8s_error + container_directory) filing" where
  "list_container_directory env ns pod container path = (case normalize_file_path path of
     Inl e \<Rightarrow> ret (Inl e)
   | Inr path \<Rightarrow> do {
       r \<leftarrow> run_container_command env ns pod container (script_command LIST_SCRIPT [path]) None DIRECTORY_OUTPUT_LIMIT;
       ret (and_then r (\<lambda>output.
         and_then (read_entries env (split_on (CHR 0x00) output) []) (\<lambda>entries.
           Inr \<lparr>cd_path = path, cd_entries = sort_key (entry_order env) entries\<rparr>))) })"

definition read_container_file ::
  "'w file_env \<Rightarrow> string \<Rightarrow> string \<Rightarrow> string \<Rightarrow> string \<Rightarrow> ('w, k8s_error + file_content) filing" where
  "read_container_file env ns pod container path = (case normalize_file_path path of
     Inl e \<Rightarrow> ret (Inl e)
   | Inr path \<Rightarrow> do {
       r \<leftarrow> run_container_command env ns pod container (script_command READ_SCRIPT [path]) None (FILE_PREVIEW_LIMIT + 4096);
       ret (and_then r (\<lambda>output.
         let shown = take FILE_PREVIEW_LIMIT output; binary = CHR 0x00 \<in> set shown in
         Inr \<lparr>fc_path = path, fc_content = (if binary then [] else fe_lossy env shown),
           fc_truncated = length output > FILE_PREVIEW_LIMIT, fc_binary = binary\<rparr>)) })"

definition transfer_too_large :: k8s_error where
  "transfer_too_large = K8sApi ''file content exceeds the 16 MiB transfer limit''"

definition run_mutation_script ::
  "'w file_env \<Rightarrow> string \<Rightarrow> string \<Rightarrow> string \<Rightarrow> string \<Rightarrow> file_script \<Rightarrow> string list \<Rightarrow> string option
     \<Rightarrow> ('w, k8s_error + unit) filing" where
  "run_mutation_script env ns pod container path script args input = (case normalize_mutation_path path of
     Inl e \<Rightarrow> ret (Inl e)
   | Inr path \<Rightarrow> do {
       r \<leftarrow> run_container_command env ns pod container (script_command script (args @ [path])) input (64 * 1024);
       ret (and_then r (\<lambda>_. Inr ())) })"

definition write_container_file ::
  "'w file_env \<Rightarrow> string \<Rightarrow> string \<Rightarrow> string \<Rightarrow> string \<Rightarrow> string \<Rightarrow> ('w, k8s_error + unit) filing" where
  "write_container_file env ns pod container path content =
     (if length content > FILE_TRANSFER_LIMIT then ret (Inl transfer_too_large)
      else run_mutation_script env ns pod container path WRITE_SCRIPT [] (Some content))"

definition download_container_file ::
  "'w file_env \<Rightarrow> string \<Rightarrow> string \<Rightarrow> string \<Rightarrow> string \<Rightarrow> ('w, k8s_error + string) filing" where
  "download_container_file env ns pod container path = (case normalize_file_path path of
     Inl e \<Rightarrow> ret (Inl e)
   | Inr path \<Rightarrow>
       run_container_command env ns pod container (script_command DOWNLOAD_SCRIPT [path]) None FILE_TRANSFER_LIMIT)"

definition upload_container_file ::
  "'w file_env \<Rightarrow> string \<Rightarrow> string \<Rightarrow> string \<Rightarrow> string \<Rightarrow> string \<Rightarrow> ('w, k8s_error + unit) filing" where
  "upload_container_file env ns pod container path content =
     (if length content > FILE_TRANSFER_LIMIT then ret (Inl transfer_too_large)
      else run_mutation_script env ns pod container path UPLOAD_SCRIPT [] (Some content))"

definition create_container_entry ::
  "'w file_env \<Rightarrow> string \<Rightarrow> string \<Rightarrow> string \<Rightarrow> string \<Rightarrow> bool \<Rightarrow> ('w, k8s_error + unit) filing" where
  "create_container_entry env ns pod container path directory =
     run_mutation_script env ns pod container path CREATE_SCRIPT [if directory then ''directory'' else ''file''] None"

definition delete_container_entry ::
  "'w file_env \<Rightarrow> string \<Rightarrow> string \<Rightarrow> string \<Rightarrow> string \<Rightarrow> ('w, k8s_error + unit) filing" where
  "delete_container_entry env ns pod container path = run_mutation_script env ns pod container path DELETE_SCRIPT [] None"

section \<open>Endpoints\<close>

text \<open>A response, with the disposition of a download.\<close>

record file_response =
  fr_status :: nat
  fr_disposition :: "string option"
  fr_body :: string

definition file_reply :: "nat \<Rightarrow> string \<Rightarrow> file_response" where
  "file_reply st body = \<lparr>fr_status = st, fr_disposition = None, fr_body = body\<rparr>"

definition file_error :: "k8s_error \<Rightarrow> file_response" where
  "file_error e = file_reply (case e of K8sContainer _ \<Rightarrow> 422 | _ \<Rightarrow> 502) (k8s_error_to_string e)"

record file_target =
  fq_namespace :: string
  fq_pod :: string
  fq_container :: string
  fq_path :: string

definition validate_target :: "file_target \<Rightarrow> (nat \<times> string) + unit" where
  "validate_target q =
     (if fq_namespace q = [] \<or> fq_pod q = [] \<or> fq_container q = []
        then Inl (400, ''namespace, pod, and container are required'')
      else case normalize_file_path (fq_path q) of
        Inl e \<Rightarrow> Inl (400, k8s_error_to_string e) | Inr _ \<Rightarrow> Inr ())"

definition validate_mutation_target :: "file_target \<Rightarrow> (nat \<times> string) + unit" where
  "validate_mutation_target q = and_then (validate_target q) (\<lambda>_.
     if normalize_file_path (fq_path q) = Inr ''/'' then Inl (400, ''the container root cannot be modified'') else Inr ())"

definition can_access_files :: "'w file_env \<Rightarrow> file_target \<Rightarrow> ('w, bool) filing" where
  "can_access_files env q =
     with_access (backend_can_action (fe_access env) Exec pod_key (Some (fq_namespace q)) (Some (fq_pod q)) None)"

text \<open>What every endpoint does first: it validates its target, then asks for the right to execute in the pod.\<close>

definition guarded ::
  "'w file_env \<Rightarrow> (nat \<times> string) + unit \<Rightarrow> file_target \<Rightarrow> ('w, file_response) filing \<Rightarrow> ('w, file_response) filing" where
  "guarded env valid q m = (case valid of
     Inl (st, e) \<Rightarrow> ret (file_reply st e)
   | Inr _ \<Rightarrow> do { ok \<leftarrow> can_access_files env q; if \<not> ok then ret (file_reply 403 []) else m })"

definition answer_files :: "('a \<Rightarrow> file_response) \<Rightarrow> ('w, k8s_error + 'a) filing \<Rightarrow> ('w, file_response) filing" where
  "answer_files f m = do { r \<leftarrow> m; ret (case r of Inr x \<Rightarrow> f x | Inl e \<Rightarrow> file_error e) }"

definition ok_body :: string where
  "ok_body = ''{'' @ CHR 0x22 # ''ok'' @ CHR 0x22 # '':true}''"

definition list_files :: "'w file_env \<Rightarrow> (container_directory \<Rightarrow> string) \<Rightarrow> file_target \<Rightarrow> ('w, file_response) filing" where
  "list_files env json q = guarded env (validate_target q) q (answer_files (\<lambda>d. file_reply 200 (json d))
     (list_container_directory env (fq_namespace q) (fq_pod q) (fq_container q) (fq_path q)))"

definition read_file :: "'w file_env \<Rightarrow> (file_content \<Rightarrow> string) \<Rightarrow> file_target \<Rightarrow> ('w, file_response) filing" where
  "read_file env json q = guarded env (validate_target q) q (answer_files (\<lambda>c. file_reply 200 (json c))
     (read_container_file env (fq_namespace q) (fq_pod q) (fq_container q) (fq_path q)))"

definition safe_name_char :: "char \<Rightarrow> bool" where
  "safe_name_char c \<longleftrightarrow> is_ascii_alphanumeric c \<or> c \<in> {CHR ''.'', CHR ''-'', CHR ''_''}"

text \<open>A character that is not safe, of however many bytes, becomes one underscore.\<close>

definition sanitize_name :: "string \<Rightarrow> string" where
  "sanitize_name name = map (\<lambda>c. if safe_name_char c then c else CHR ''_'') (filter (\<lambda>c. \<not> is_continuation c) name)"

definition download_filename :: "string \<Rightarrow> string" where
  "download_filename path =
     (let name = last (split_on (CHR ''/'') path);
          sanitized = sanitize_name (if name = [] then ''download'' else name) in
      if sanitized = [] then ''download'' else sanitized)"

definition download_disposition :: "string \<Rightarrow> string" where
  "download_disposition path = ''attachment; filename='' @ CHR 0x22 # download_filename path @ [CHR 0x22]"

text \<open>A header value of visible ASCII characters and spaces is always accepted.\<close>

definition download_file :: "'w file_env \<Rightarrow> file_target \<Rightarrow> ('w, file_response) filing" where
  "download_file env q = guarded env (validate_target q) q (answer_files
     (\<lambda>content. \<lparr>fr_status = 200, fr_disposition = Some (download_disposition (fq_path q)), fr_body = content\<rparr>)
     (download_container_file env (fq_namespace q) (fq_pod q) (fq_container q) (fq_path q)))"

definition upload_file :: "'w file_env \<Rightarrow> file_target \<Rightarrow> string \<Rightarrow> ('w, file_response) filing" where
  "upload_file env q encoded = guarded env (validate_mutation_target q) q
     (if length encoded * 3 div 4 > FILE_TRANSFER_LIMIT then ret (file_reply 413 ''file exceeds the 16 MiB upload limit'')
      else case fe_base64 env encoded of
        None \<Rightarrow> ret (file_reply 400 ''invalid base64 file content'')
      | Some content \<Rightarrow>
          if length content > FILE_TRANSFER_LIMIT then ret (file_reply 413 ''file exceeds the 16 MiB upload limit'')
          else answer_files (\<lambda>_. file_reply 200 ok_body)
            (upload_container_file env (fq_namespace q) (fq_pod q) (fq_container q) (fq_path q) content))"

definition write_file :: "'w file_env \<Rightarrow> file_target \<Rightarrow> string \<Rightarrow> ('w, file_response) filing" where
  "write_file env q content = guarded env (validate_mutation_target q) q
     (if length content > 1024 * 1024 then ret (file_reply 413 ''file content exceeds 1 MiB'')
      else answer_files (\<lambda>_. file_reply 200 ok_body)
        (write_container_file env (fq_namespace q) (fq_pod q) (fq_container q) (fq_path q) content))"

definition create_file :: "'w file_env \<Rightarrow> file_target \<Rightarrow> bool \<Rightarrow> ('w, file_response) filing" where
  "create_file env q directory = guarded env (validate_mutation_target q) q (answer_files (\<lambda>_. file_reply 200 ok_body)
     (create_container_entry env (fq_namespace q) (fq_pod q) (fq_container q) (fq_path q) directory))"

definition delete_file :: "'w file_env \<Rightarrow> file_target \<Rightarrow> ('w, file_response) filing" where
  "delete_file env q = guarded env (validate_mutation_target q) q (answer_files (\<lambda>_. file_reply 200 ok_body)
     (delete_container_entry env (fq_namespace q) (fq_pod q) (fq_container q) (fq_path q)))"

end
