(* ===== verification/Shell.thy ===== *)
theory Shell
  imports Files
begin

text \<open>
  Interactive shells: \<open>crates/k8s/src/backend/exec.rs\<close> and \<open>server/api/exec.rs\<close>.  The world answers the requests and
  keeps the clock, in milliseconds; the writes are logged.  A loop that polls takes fuel and returns \<open>None\<close> without it.
\<close>

section \<open>The debug image\<close>

definition rsplit_once_str :: "string \<Rightarrow> string \<Rightarrow> (string \<times> string) option" where
  "rsplit_once_str p s = map_option (\<lambda>i. (take i s, drop (i + length p) s))
     (find (\<lambda>i. starts_with (drop i s) p) (rev [0..<Suc (length s)]))"

definition DEFAULT_DEBUG_IMAGE :: string where
  "DEFAULT_DEBUG_IMAGE = ''ghcr.io/nicolaka/netshoot:v0.16@sha256:b09d9b21381f47a79b3cbcb30da25266dc17186ea00ae65e99fdc51396f48e70''"

definition not_pinned :: k8s_error where
  "not_pinned = K8sApi ''RODER_DEBUG_IMAGE must be pinned as <image>@sha256:<64 hex characters>''"

definition validate_debug_image :: "string \<Rightarrow> k8s_error + unit" where
  "validate_debug_image img = (case rsplit_once_str ''@sha256:'' img of
     None \<Rightarrow> Inl not_pinned
   | Some (repository, digest) \<Rightarrow>
       if repository = [] \<or> CHR ''@'' \<in> set repository \<or> length digest \<noteq> 64 \<or> \<not> list_all is_ascii_hexdigit digest
         then Inl not_pinned else Inr ())"

text \<open>The variable, if it is set to Unicode text.\<close>

definition debug_image :: "string option \<Rightarrow> k8s_error + string" where
  "debug_image var = (let img = unwrap_or DEFAULT_DEBUG_IMAGE var in
     and_then (validate_debug_image img) (\<lambda>_. Inr img))"

definition shown_debug_image :: "string option \<Rightarrow> string" where
  "shown_debug_image var = (case debug_image var of Inr img \<Rightarrow> img | Inl _ \<Rightarrow> [])"

section \<open>The world\<close>

record container_state =
  ct_name :: string
  ct_running :: bool
  ct_terminated :: bool

text \<open>A pod as the polls read it; the ephemeral containers as JSON.\<close>

record polled_pod =
  pp_phase :: "string option"
  pp_containers :: "container_state list"
  pp_ephemeral :: "json list"
  pp_ephemeral_states :: "container_state list"

datatype shell_write =
    PatchEphemeral string string "json list"
  | CreatePod string string json
  | DeletePod string string

record 'w shell_env =
  sh_image :: "string option"
  sh_unix_ms :: "'w \<Rightarrow> nat \<times> 'w"
  sh_tick :: "'w \<Rightarrow> nat \<times> 'w"
  sh_get :: "string \<Rightarrow> string \<Rightarrow> 'w \<Rightarrow> (kube_error + polled_pod) \<times> 'w"
  sh_write :: "shell_write \<Rightarrow> 'w \<Rightarrow> (kube_error + unit) \<times> 'w"

record 'w shell_st =
  ss_world :: 'w
  ss_now :: nat
  ss_writes :: "shell_write list"

type_synonym ('w, 'a) shelling = "('w shell_st, 'a) state"

definition shell_read :: "('w \<Rightarrow> 'a \<times> 'w) \<Rightarrow> ('w, 'a) shelling" where
  "shell_read f = State (\<lambda>s. case f (ss_world s) of (r, w) \<Rightarrow> (r, s\<lparr>ss_world := w\<rparr>))"

definition shell_send :: "'w shell_env \<Rightarrow> shell_write \<Rightarrow> ('w, kube_error + unit) shelling" where
  "shell_send env wr = State (\<lambda>s. case sh_write env wr (ss_world s) of
     (r, w) \<Rightarrow> (r, s\<lparr>ss_world := w, ss_writes := ss_writes s @ [wr]\<rparr>))"

definition shell_instant :: "'w shell_env \<Rightarrow> ('w, nat) shelling" where
  "shell_instant env = State (\<lambda>s. case sh_tick env (ss_world s) of
     (d, w) \<Rightarrow> (ss_now s + d, s\<lparr>ss_world := w, ss_now := ss_now s + d\<rparr>))"

text \<open>A sleep lasts at least as long as asked; what it takes longer is part of the next reading of the clock.\<close>

definition shell_sleep :: "nat \<Rightarrow> ('w, unit) shelling" where
  "shell_sleep ms = State (\<lambda>s. ((), s\<lparr>ss_now := ss_now s + ms\<rparr>))"

section \<open>Names\<close>

text \<open>The low 24 bits of the time as six digits.\<close>

definition hex6 :: "nat \<Rightarrow> string" where
  "hex6 ts = map (\<lambda>i. hex_digit (ts div 16 ^ i mod 16)) [5, 4, 3, 2, 1, 0]"

definition debug_name :: "nat \<Rightarrow> nat \<Rightarrow> string" where
  "debug_name ts i = ''debug-'' @ hex6 ts @ (if i = 0 then [] else CHR ''-'' # show_nat i)"

text \<open>The first name that is free; one of as many names as are taken, and one more, is.\<close>

definition free_debug_name :: "nat \<Rightarrow> string list \<Rightarrow> string option" where
  "free_debug_name ts taken = find (\<lambda>n. n \<notin> set taken) (map (debug_name ts) [0..<Suc (length taken)])"

section \<open>A debug container\<close>

definition debug_container :: "string \<Rightarrow> string \<Rightarrow> json" where
  "debug_container name img = JObject [(''name'', JString name), (''image'', JString img), (''stdin'', JBool True),
     (''tty'', JBool True), (''terminationMessagePolicy'', JString ''File'')]"

definition names_running :: "string \<Rightarrow> container_state list \<Rightarrow> bool" where
  "names_running name cs \<longleftrightarrow> list_ex (\<lambda>c. ct_name c = name \<and> ct_running c) cs"

fun await_debug ::
  "nat \<Rightarrow> 'w shell_env \<Rightarrow> string \<Rightarrow> string \<Rightarrow> nat \<Rightarrow> string \<Rightarrow> string
     \<Rightarrow> ('w, (k8s_error + string \<times> string) option) shelling" where
  "await_debug 0 env ns pod deadline name img = ret None"
| "await_debug (Suc fuel) env ns pod deadline name img = do {
     now \<leftarrow> shell_instant env;
     if now > deadline
       then ret (Some (Inl (K8sApi (''debug container '' @ name @ '' did not start within 60s''))))
     else do {
       shell_sleep 500;
       r \<leftarrow> shell_read (sh_get env ns pod);
       case r of
         Inr p \<Rightarrow> if names_running name (pp_ephemeral_states p) then ret (Some (Inr (name, img)))
                  else await_debug fuel env ns pod deadline name img
       | Inl _ \<Rightarrow> await_debug fuel env ns pod deadline name img } }"

definition container_names :: "json list \<Rightarrow> string list" where
  "container_names cs = List.map_filter (\<lambda>c. Option.bind (jget c ''name'') as_str) cs"

definition add_debug_container ::
  "nat \<Rightarrow> 'w shell_env \<Rightarrow> string \<Rightarrow> string \<Rightarrow> string \<Rightarrow> json list
     \<Rightarrow> ('w, (k8s_error + string \<times> string) option) shelling" where
  "add_debug_container fuel env ns pod img containers = do {
     ts \<leftarrow> shell_read (sh_unix_ms env);
     case free_debug_name ts (container_names containers) of
       None \<Rightarrow> ret None
     | Some name \<Rightarrow> do {
         w \<leftarrow> shell_send env (PatchEphemeral ns pod (containers @ [debug_container name img]));
         case w of
           Inl e \<Rightarrow> ret (Some (Inl (api_err e)))
         | Inr _ \<Rightarrow> do {
             now \<leftarrow> shell_instant env;
             await_debug fuel env ns pod (now + 60000) name img } } }"

definition inject_debug_container ::
  "nat \<Rightarrow> 'w shell_env \<Rightarrow> string \<Rightarrow> string \<Rightarrow> ('w, (k8s_error + string \<times> string) option) shelling" where
  "inject_debug_container fuel env ns pod = (case debug_image (sh_image env) of
     Inl e \<Rightarrow> ret (Some (Inl e))
   | Inr img \<Rightarrow> do {
       r \<leftarrow> shell_read (sh_get env ns pod);
       case r of
         Inl e \<Rightarrow> ret (Some (Inl (api_err e)))
       | Inr p \<Rightarrow> add_debug_container fuel env ns pod img (pp_ephemeral p) })"

section \<open>A shell on a node\<close>

definition node_shell_pod :: "string \<Rightarrow> string \<Rightarrow> string \<Rightarrow> json" where
  "node_shell_pod name img node = JObject [
     (''apiVersion'', JString ''v1''), (''kind'', JString ''Pod''),
     (''metadata'', JObject [(''name'', JString name), (''namespace'', JString NODE_SHELL_NAMESPACE),
        (''labels'', JObject [(''app.kubernetes.io/managed-by'', JString ''roder'')])]),
     (''spec'', JObject [(''nodeName'', JString node), (''hostPID'', JBool True), (''hostNetwork'', JBool True),
        (''hostIPC'', JBool True), (''restartPolicy'', JString ''Never''),
        (''automountServiceAccountToken'', JBool False),
        (''tolerations'', JArray [JObject [(''operator'', JString ''Exists'')]]),
        (''activeDeadlineSeconds'', JNumber (NumInt 3600)),
        (''containers'', JArray [JObject [(''name'', JString ''shell''), (''image'', JString img),
           (''command'', JArray [JString ''sleep'', JString ''infinity'']), (''stdin'', JBool True), (''tty'', JBool True),
           (''securityContext'', JObject [(''privileged'', JBool True)])]])])]"

text \<open>A failure to delete is only logged by the code.\<close>

definition cleanup_node_shell :: "'w shell_env \<Rightarrow> string \<Rightarrow> string \<Rightarrow> ('w, k8s_error) shelling" where
  "cleanup_node_shell env name message = do {
     shell_send env (DeletePod NODE_SHELL_NAMESPACE name);
     ret (K8sApi message) }"

definition shell_terminal :: "polled_pod \<Rightarrow> bool" where
  "shell_terminal p \<longleftrightarrow> pp_phase p \<in> {Some ''Failed'', Some ''Succeeded''}
     \<or> list_ex (\<lambda>c. ct_name c = ''shell'' \<and> ct_terminated c) (pp_containers p)"

fun await_node_shell ::
  "nat \<Rightarrow> 'w shell_env \<Rightarrow> nat \<Rightarrow> string \<Rightarrow> string \<Rightarrow> ('w, (k8s_error + string \<times> string \<times> string) option) shelling" where
  "await_node_shell 0 env deadline name img = ret None"
| "await_node_shell (Suc fuel) env deadline name img = do {
     now \<leftarrow> shell_instant env;
     if now > deadline then do {
       e \<leftarrow> cleanup_node_shell env name (''node-shell pod '' @ name @ '' did not start within 60s'');
       ret (Some (Inl e)) }
     else do {
       shell_sleep 500;
       r \<leftarrow> shell_read (sh_get env NODE_SHELL_NAMESPACE name);
       case r of
         Inr p \<Rightarrow>
           if shell_terminal p then do {
             e \<leftarrow> cleanup_node_shell env name (''node-shell pod '' @ name @ '' terminated before becoming ready'');
             ret (Some (Inl e)) }
           else if names_running ''shell'' (pp_containers p) then ret (Some (Inr (NODE_SHELL_NAMESPACE, name, img)))
           else await_node_shell fuel env deadline name img
       | Inl err \<Rightarrow>
           if classify_kube_error err = Retryable then await_node_shell fuel env deadline name img
           else do {
             e \<leftarrow> cleanup_node_shell env name (kube_error_to_string err);
             ret (Some (Inl e)) } } }"

definition create_node_shell ::
  "nat \<Rightarrow> 'w shell_env \<Rightarrow> string \<Rightarrow> ('w, (k8s_error + string \<times> string \<times> string) option) shelling" where
  "create_node_shell fuel env node = (case debug_image (sh_image env) of
     Inl e \<Rightarrow> ret (Some (Inl e))
   | Inr img \<Rightarrow> do {
       ts \<leftarrow> shell_read (sh_unix_ms env);
       let name = ''roder-node-shell-'' @ hex6 ts in do {
         w \<leftarrow> shell_send env (CreatePod NODE_SHELL_NAMESPACE name (node_shell_pod name img node));
         case w of
           Inl e \<Rightarrow> ret (Some (Inl (api_err e)))
         | Inr _ \<Rightarrow> do {
             now \<leftarrow> shell_instant env;
             await_node_shell fuel env (now + 60000) name img } } })"

definition delete_node_shell_pod :: "'w shell_env \<Rightarrow> string \<Rightarrow> string \<Rightarrow> ('w, k8s_error + unit) shelling" where
  "delete_node_shell_pod env ns pod = do { r \<leftarrow> shell_send env (DeletePod ns pod); ret (map_err api_err r) }"

section \<open>Sessions\<close>

record exec_query =
  xq_namespace :: string
  xq_pod :: string
  xq_container :: "string option"
  xq_node_shell :: bool

text \<open>An attached process provides its input and its output or not; the session itself is a stream of the world's.\<close>

record 'w term_env =
  tv_files :: "'w file_env"
  tv_shell :: "'w shell_env"
  tv_attach :: "exec_call \<Rightarrow> 'w \<Rightarrow> (string + bool \<times> bool) \<times> 'w"
  tv_session :: "'w \<Rightarrow> unit \<times> 'w"
  tv_origin :: "string \<Rightarrow> (string \<times> string \<times> nat) option"

record 'w term_st =
  tm_access :: "'w access_st"
  tm_calls :: "exec_call list"
  tm_writes :: "shell_write list"

type_synonym ('w, 'a) terming = "('w term_st, 'a) state"

definition as_filing :: "('w, 'a) filing \<Rightarrow> ('w, 'a) terming" where
  "as_filing m = State (\<lambda>s. case run_state m \<lparr>ft_access = tm_access s, ft_calls = tm_calls s\<rparr> of
     (r, t) \<Rightarrow> (r, s\<lparr>tm_access := ft_access t, tm_calls := ft_calls t\<rparr>))"

definition as_shelling :: "('w, 'a) shelling \<Rightarrow> ('w, 'a) terming" where
  "as_shelling m = State (\<lambda>s.
     case run_state m \<lparr>ss_world = pm_world (tm_access s), ss_now = pm_now (tm_access s), ss_writes = tm_writes s\<rparr> of
       (r, t) \<Rightarrow> (r, s\<lparr>tm_access := (tm_access s)\<lparr>pm_world := ss_world t, pm_now := ss_now t\<rparr>, tm_writes := ss_writes t\<rparr>))"

definition may :: "'w term_env \<Rightarrow> resource_action \<Rightarrow> string \<Rightarrow> string option \<Rightarrow> string \<Rightarrow> ('w, bool) terming" where
  "may env act key ns name = as_filing (with_access (backend_can_action (fe_access (tv_files env)) act key ns (Some name) None))"

definition terminal_call :: "string \<Rightarrow> string \<Rightarrow> string option \<Rightarrow> string list \<Rightarrow> exec_call" where
  "terminal_call ns pod container command = \<lparr>xc_namespace = ns, xc_pod = pod, xc_container = container,
     xc_command = map Word command, xc_stdin = None\<rparr>"

definition attach_exec :: "'w term_env \<Rightarrow> exec_call \<Rightarrow> ('w, k8s_error + bool \<times> bool) terming" where
  "attach_exec env c = as_filing (do { r \<leftarrow> call_world c (tv_attach env c); ret (map_err K8sApi r) })"

definition exec_shell ::
  "'w term_env \<Rightarrow> string \<Rightarrow> string \<Rightarrow> string option \<Rightarrow> ('w, k8s_error + bool \<times> bool) terming" where
  "exec_shell env ns pod container = do {
     shell \<leftarrow> as_filing (detect_shell (tv_files env) ns pod container);
     attach_exec env (terminal_call ns pod container [shell]) }"

definition exec_node_shell :: "'w term_env \<Rightarrow> string \<Rightarrow> string \<Rightarrow> ('w, k8s_error + bool \<times> bool) terming" where
  "exec_node_shell env ns pod = attach_exec env (terminal_call ns pod (Some ''shell'')
     [''nsenter'', ''--target'', ''1'', ''--uts'', ''--ipc'', ''--net'', ''--pid'', ''--'', ''bash'', ''-l''])"

definition end_node_shell :: "'w term_env \<Rightarrow> exec_query \<Rightarrow> ('w, unit) terming" where
  "end_node_shell env q = (if xq_node_shell q
     then do { as_shelling (delete_node_shell_pod (tv_shell env) (xq_namespace q) (xq_pod q)); ret () } else ret ())"

definition exec_session :: "'w term_env \<Rightarrow> exec_query \<Rightarrow> ('w, unit) terming" where
  "exec_session env q = do {
     r \<leftarrow> if xq_node_shell q then exec_node_shell env (xq_namespace q) (xq_pod q)
       else exec_shell env (xq_namespace q) (xq_pod q) (case xq_container q of Some c \<Rightarrow> if c = [] then None else Some c | None \<Rightarrow> None);
     case r of
       Inr (True, True) \<Rightarrow> do { as_shelling (shell_read (tv_session env)); end_node_shell env q }
     | _ \<Rightarrow> end_node_shell env q }"

text \<open>Without an origin the client is no browser; a header that is not text is \<open>Some None\<close>.\<close>

definition origin_allowed :: "(string \<Rightarrow> (string \<times> string \<times> nat) option) \<Rightarrow> string option option \<Rightarrow> string \<Rightarrow> bool" where
  "origin_allowed origin_of header base_url = (case header of
     None \<Rightarrow> True
   | Some None \<Rightarrow> False
   | Some (Some h) \<Rightarrow> (case (origin_of h, origin_of base_url) of
       (Some a, Some b) \<Rightarrow> a = b | _ \<Rightarrow> False))"

text \<open>The upgrade of a connection answers 101 and the session runs.\<close>

definition exec_ws :: "'w term_env \<Rightarrow> server_config \<Rightarrow> string option option \<Rightarrow> exec_query \<Rightarrow> ('w, nat) terming" where
  "exec_ws env cf origin q =
     (if \<not> origin_allowed (tv_origin env) origin (cf_base_url cf) then ret 403
      else do {
        ok \<leftarrow> may env Exec pod_key (Some (xq_namespace q)) (xq_pod q);
        if \<not> ok then ret 403 else do { exec_session env q; ret 101 } })"

definition debug_shell ::
  "nat \<Rightarrow> 'w term_env \<Rightarrow> string \<Rightarrow> string \<Rightarrow> ('w, (nat \<times> (k8s_error + string \<times> string)) option) terming" where
  "debug_shell fuel env ns pod = do {
     ok \<leftarrow> may env DebugExec pod_key (Some ns) pod;
     if \<not> ok then ret (Some (403, Inl (K8sApi [])))
     else do {
       r \<leftarrow> as_shelling (inject_debug_container fuel (tv_shell env) ns pod);
       ret (map_option (\<lambda>r. (case r of Inr _ \<Rightarrow> 200 | Inl _ \<Rightarrow> 500, r)) r) } }"

definition node_shell_create ::
  "nat \<Rightarrow> 'w term_env \<Rightarrow> string \<Rightarrow> ('w, (nat \<times> (k8s_error + string \<times> string \<times> string)) option) terming" where
  "node_shell_create fuel env node = do {
     ok \<leftarrow> may env NodeShell (make_key [] ''v1'' ''Node'') None node;
     if \<not> ok then ret (Some (403, Inl (K8sApi [])))
     else do {
       r \<leftarrow> as_shelling (create_node_shell fuel (tv_shell env) node);
       ret (map_option (\<lambda>r. (case r of Inr _ \<Rightarrow> 200 | Inl _ \<Rightarrow> 502, r)) r) } }"

section \<open>What the browser sends\<close>

datatype client_message = Binary string | TextMessage string | CloseMessage | OtherMessage

datatype terminal_effect = WriteInput string | Resize "16 word" "16 word" | EndInput | Ignored

definition client_effect :: "(string \<Rightarrow> json option) \<Rightarrow> client_message \<Rightarrow> terminal_effect" where
  "client_effect parse m = (case m of
     Binary data \<Rightarrow> WriteInput data
   | TextMessage t \<Rightarrow> (case parse t of
       None \<Rightarrow> Ignored
     | Some v \<Rightarrow>
         if Option.bind (jget v ''type'') as_str \<noteq> Some ''resize'' then Ignored
         else case (Option.bind (jget v ''rows'') as_u64, Option.bind (jget v ''cols'') as_u64) of
           (Some r, Some c) \<Rightarrow> Resize (of_nat r) (of_nat c)
         | _ \<Rightarrow> Ignored)
   | CloseMessage \<Rightarrow> EndInput
   | OtherMessage \<Rightarrow> Ignored)"

end
