(* ===== verification/AccessProps.thy ===== *)
theory AccessProps
  imports Access MutationProps
begin

text \<open>
  Permissions: an action is allowed only on recent answers of the API server to every review it needs, and
  with a steady policy it is allowed exactly when the policy grants them all.
\<close>

section \<open>Reviewers\<close>

text \<open>What a conjunction of reviews may rely on: asking keeps what was granted, and a yes is a grant.\<close>

locale reviewer =
  fixes ask :: "access \<Rightarrow> ('s, bool) state" and good :: "'s \<Rightarrow> bool" and holds :: "access \<Rightarrow> 's \<Rightarrow> bool"
  assumes ask_sound: "good s \<Longrightarrow> wp (ask k) (\<lambda>b s'. good s' \<and> (\<forall>k. holds k s \<longrightarrow> holds k s') \<and> (b \<longrightarrow> holds k s')) s"

definition grants :: "('s \<Rightarrow> bool) \<Rightarrow> (access \<Rightarrow> 's \<Rightarrow> bool) \<Rightarrow> ('s, bool) state \<Rightarrow> ('s \<Rightarrow> bool) \<Rightarrow> bool" where
  "grants good holds m Q \<longleftrightarrow> (\<forall>s. good s \<longrightarrow>
     wp m (\<lambda>b s'. good s' \<and> (\<forall>k. holds k s \<longrightarrow> holds k s') \<and> (b \<longrightarrow> Q s')) s)"

definition kept :: "(access \<Rightarrow> 's \<Rightarrow> bool) \<Rightarrow> ('s \<Rightarrow> bool) \<Rightarrow> bool" where
  "kept holds Q \<longleftrightarrow> (\<forall>s s'. (\<forall>k. holds k s \<longrightarrow> holds k s') \<longrightarrow> Q s \<longrightarrow> Q s')"

lemma kept_holds: "kept holds (\<lambda>s. \<forall>k\<in>K. holds k s)"
  by (auto simp: kept_def)

lemma grants_and_also:
  assumes "grants good holds m P" "grants good holds n Q" "kept holds P"
  shows "grants good holds (and_also m n) (\<lambda>s. P s \<and> Q s)"
  unfolding grants_def
proof (intro allI impI)
  fix s assume "good s"
  show "wp (and_also m n) (\<lambda>b s'. good s' \<and> (\<forall>k. holds k s \<longrightarrow> holds k s') \<and> (b \<longrightarrow> P s' \<and> Q s')) s"
    unfolding and_also_def wp_bind
    using assms(1)[unfolded grants_def, rule_format, OF \<open>good s\<close>]
  proof (rule wp_mono)
    fix b s1 assume 1: "good s1 \<and> (\<forall>k. holds k s \<longrightarrow> holds k s1) \<and> (b \<longrightarrow> P s1)"
    show "wp (if b then n else ret False) (\<lambda>b s'. good s' \<and> (\<forall>k. holds k s \<longrightarrow> holds k s') \<and> (b \<longrightarrow> P s' \<and> Q s')) s1"
    proof (cases b)
      case True
      have "wp n (\<lambda>b s'. good s' \<and> (\<forall>k. holds k s1 \<longrightarrow> holds k s') \<and> (b \<longrightarrow> Q s')) s1"
        using assms(2) 1 by (simp add: grants_def)
      then have "wp n (\<lambda>b s'. good s' \<and> (\<forall>k. holds k s \<longrightarrow> holds k s') \<and> (b \<longrightarrow> P s' \<and> Q s')) s1"
        by (rule wp_mono) (use 1 True assms(3) in \<open>auto simp: kept_def\<close>)
      with True show ?thesis by simp
    qed (use 1 in simp)
  qed
qed

lemma grants_ret_False: "grants good holds (ret False) Q"
  by (simp add: grants_def)

lemma grants_weaken: "grants good holds m P \<Longrightarrow> (\<And>s. P s \<Longrightarrow> Q s) \<Longrightarrow> grants good holds m Q"
  unfolding grants_def by (blast intro: wp_mono)

context reviewer
begin

lemma ask_grants: "grants good holds (ask k) (holds k)"
  using ask_sound by (simp add: grants_def)

lemma both:
  assumes "grants good holds m (\<lambda>s. \<forall>k\<in>set ks. holds k s)"
  shows "grants good holds (and_also (ask k) m) (\<lambda>s. \<forall>k\<in>set (k # ks). holds k s)"
proof -
  have "kept holds (holds k)" by (simp add: kept_def)
  then show ?thesis using grants_and_also[OF ask_grants assms] by simp
qed

lemma single: "grants good holds (ask k) (\<lambda>s. \<forall>k\<in>set [k]. holds k s)"
  using ask_grants by simp

text \<open>An answer that is asked for first and used last.\<close>

lemma first_and_last:
  "grants good holds (do { b \<leftarrow> ask k; and_also (ask l) (and_also (ask m) (ret b)) })
    (\<lambda>s. \<forall>k\<in>set [k, l, m]. holds k s)"
  unfolding grants_def
proof (intro allI impI)
  fix s assume "good s"
  from ask_sound[OF this, of k]
  show "wp (do { b \<leftarrow> ask k; and_also (ask l) (and_also (ask m) (ret b)) })
      (\<lambda>b s'. good s' \<and> (\<forall>k. holds k s \<longrightarrow> holds k s') \<and> (b \<longrightarrow> (\<forall>k\<in>set [k, l, m]. holds k s'))) s"
    unfolding wp_bind
  proof (rule wp_mono)
    fix b s1 assume 1: "good s1 \<and> (\<forall>k. holds k s \<longrightarrow> holds k s1) \<and> (b \<longrightarrow> holds k s1)"
    have "grants good holds (ret b) (\<lambda>s. b)" by (simp add: grants_def)
    from grants_and_also[OF ask_grants this] have "grants good holds (and_also (ask m) (ret b)) (\<lambda>s. holds m s \<and> b)"
      by (simp add: kept_def)
    from grants_and_also[OF ask_grants this]
    have "grants good holds (and_also (ask l) (and_also (ask m) (ret b))) (\<lambda>s. holds l s \<and> holds m s \<and> b)"
      by (simp add: kept_def)
    with 1 have "wp (and_also (ask l) (and_also (ask m) (ret b)))
        (\<lambda>r s'. good s' \<and> (\<forall>k. holds k s1 \<longrightarrow> holds k s') \<and> (r \<longrightarrow> holds l s' \<and> holds m s' \<and> b)) s1"
      by (simp add: grants_def)
    then show "wp (and_also (ask l) (and_also (ask m) (ret b)))
        (\<lambda>b s'. good s' \<and> (\<forall>k. holds k s \<longrightarrow> holds k s') \<and> (b \<longrightarrow> (\<forall>k\<in>set [k, l, m]. holds k s'))) s1"
      by (rule wp_mono) (use 1 in auto)
  qed
qed

end

section \<open>What an action needs\<close>

definition drains_by_delete :: "drain_options option \<Rightarrow> bool" where
  "drains_by_delete opts \<longleftrightarrow> (case opts of Some op \<Rightarrow> disable_eviction op | None \<Rightarrow> False)"

definition needs ::
  "resource_action \<Rightarrow> resource_kind \<Rightarrow> string \<Rightarrow> string option \<Rightarrow> string option \<Rightarrow> drain_options option \<Rightarrow> access list" where
  "needs act kind key ns name opts =
     (let on = (\<lambda>verb sub. Access verb key ns name sub); node_pods = Some NODE_SHELL_NAMESPACE;
          sibling = (\<lambda>verb k. Access verb (make_key (rk_group kind) (rk_version kind) k) ns None None) in
      case act of
        Delete \<Rightarrow> [on ''delete'' None]
      | Evict \<Rightarrow> [on ''create'' (Some ''eviction'')]
      | Drain \<Rightarrow> [if drains_by_delete opts then Access ''delete'' pod_key None None None
                  else Access ''create'' pod_key None None (Some ''eviction''),
                 Access ''patch'' key None name None, Access ''list'' pod_key None None None]
      | Logs \<Rightarrow> if rk_group kind = [] \<and> rk_kind kind = ''Pod'' then [on ''get'' None, on ''get'' (Some ''log'')]
                else [on ''get'' None, Access ''list'' pod_key ns None None, Access ''get'' pod_key ns None (Some ''log'')]
      | Exec \<Rightarrow> [on ''create'' (Some ''exec'')]
      | DebugExec \<Rightarrow> [on ''get'' None, on ''patch'' (Some ''ephemeralcontainers''), on ''create'' (Some ''exec'')]
      | NodeShell \<Rightarrow> [on ''get'' None, Access ''create'' pod_key node_pods None None, Access ''get'' pod_key node_pods None None,
                     Access ''delete'' pod_key node_pods None None, Access ''create'' pod_key node_pods None (Some ''exec'')]
      | FluxReconcileWithSource \<Rightarrow> [on ''get'' None, on ''patch'' None]
      | CertificateRenew \<Rightarrow> [on ''get'' None, on ''update'' (Some ''status'')]
      | CronJobTrigger \<Rightarrow> [on ''get'' None, Access ''create'' (make_key ''batch'' ''v1'' ''Job'') ns None None]
      | JobRerun \<Rightarrow> [on ''get'' None, Access ''create'' (make_key ''batch'' ''v1'' ''Job'') ns None None]
      | KopiurSnapshotNow \<Rightarrow> [sibling ''create'' ''Snapshot'']
      | CnpgBackup \<Rightarrow> [on ''get'' None, sibling ''create'' ''Backup'', sibling ''list'' ''ScheduledBackup'']
      | _ \<Rightarrow> [on ''patch'' None])"

lemma asks:
  "can_verb env verb key ns = can_of env (Access verb key ns None None)"
  "can_named env verb key ns n = can_of env (Access verb key ns (Some n) None)"
  "can_subresource env verb key ns sub = can_of env (Access verb key ns None (Some sub))"
  "can_named_subresource env verb key ns n sub = can_of env (Access verb key ns (Some n) (Some sub))"
  "target env key ns name verb = can_of env (Access verb key ns name None)"
  "target_subresource env key ns name verb sub = can_of env (Access verb key ns name (Some sub))"
  by (simp_all add: can_verb_def can_named_def can_subresource_def can_named_subresource_def can_of_def target_def
      target_subresource_def split: option.split)

section \<open>Recent answers\<close>

definition scoped :: "resource_kind \<Rightarrow> access \<Rightarrow> access" where
  "scoped e k = Access (ac_verb k) (ac_key k) (if rk_namespaced e then ac_namespace k else None) (ac_name k) (ac_subresource k)"

definition answered :: "'w access_env \<Rightarrow> access \<Rightarrow> bool \<Rightarrow> nat \<Rightarrow> 'w access_st \<Rightarrow> bool" where
  "answered env k b at s \<longleftrightarrow> (\<exists>e. cluster_entry (kn_catalog (pe_kube env)) (ac_key k) = Inr e
     \<and> (attributes_of e (scoped e k), b, at) \<in> set (pm_answers s))"

text \<open>Granted: allowed by an answer that was less than the time to live old at that instant.\<close>

definition granted :: "'w access_env \<Rightarrow> nat \<Rightarrow> access \<Rightarrow> 'w access_st \<Rightarrow> bool" where
  "granted env t k s \<longleftrightarrow> (\<exists>at. answered env k True at s \<and> t < at + REVIEW_TTL)"

definition cache_backed :: "'w access_env \<Rightarrow> 'w access_st \<Rightarrow> bool" where
  "cache_backed env s \<longleftrightarrow> hm_ok (pm_cache s)
     \<and> (\<forall>k at b. hm_get (pm_cache s) k = Some (at, b) \<longrightarrow> at \<le> pm_now s \<and> answered env k b at s)"

definition good_since :: "'w access_env \<Rightarrow> nat \<Rightarrow> 'w access_st \<Rightarrow> bool" where
  "good_since env t s \<longleftrightarrow> cache_backed env s \<and> t \<le> pm_now s"

lemma scoped_scoped [simp]: "scoped e (scoped e k) = scoped e k" "ac_key (scoped e k) = ac_key k"
  by (simp_all add: scoped_def)

lemma answered_mono: "answered env k b at s \<Longrightarrow> set (pm_answers s) \<subseteq> set (pm_answers s') \<Longrightarrow> answered env k b at s'"
  by (auto simp: answered_def)

lemma granted_mono: "granted env t k s \<Longrightarrow> set (pm_answers s) \<subseteq> set (pm_answers s') \<Longrightarrow> granted env t k s'"
  unfolding granted_def by (blast intro: answered_mono)

lemma cache_backed_later:
  assumes "cache_backed env s" "pm_cache s' = pm_cache s" "pm_now s \<le> pm_now s'" "pm_answers s' = pm_answers s"
  shows "cache_backed env s'"
  using assms by (fastforce simp: cache_backed_def answered_def)

lemma wp_remember:
  assumes "good_since env t s" and e: "cluster_entry (kn_catalog (pe_kube env)) (ac_key k) = Inr e"
  shows "wp (remember (pm_now s) (attributes_of e (scoped e k)) (scoped e k) b)
    (\<lambda>_ s'. good_since env t s' \<and> set (pm_answers s) \<subseteq> set (pm_answers s') \<and> (b \<longrightarrow> granted env t k s')) s"
proof -
  let ?s = "snd (run_state (remember (pm_now s) (attributes_of e (scoped e k)) (scoped e k) b) s)"
  have grow: "answered env k b at s \<Longrightarrow> answered env k b at ?s" for k b at
    by (erule answered_mono) (auto simp: remember_def)
  have now: "answered env k b (pm_now s) ?s" "answered env (scoped e k) b (pm_now s) ?s"
    using e by (simp_all add: answered_def remember_def)
  have "cache_backed env ?s"
    using assms grow now
    by (auto simp: good_since_def cache_backed_def remember_def hm_get_retain split: option.splits if_splits)
  moreover have "b \<longrightarrow> granted env t k ?s"
    using now assms(1) by (auto simp: granted_def good_since_def REVIEW_TTL_def intro!: exI[of _ "pm_now s"])
  ultimately show ?thesis using assms(1) by (auto simp: wp_def remember_def good_since_def)
qed

lemma wp_ret_fun: "wp (ret a) Q = Q a"
  by (rule ext) simp

lemmas access_steps = instant_def look_up_def review_def wp_ret_fun wp_rules

lemma wp_fresh_answer:
  assumes "good_since env t s"
  shows "wp (fresh_answer env k) (\<lambda>r s'. good_since env t s' \<and> pm_answers s' = pm_answers s
     \<and> (r = Some True \<longrightarrow> (\<exists>at. answered env k True at s \<and> t < at + REVIEW_TTL))) s"
proof (cases "hm_get (pm_cache s) k")
  case (Some v)
  obtain at b where v: "v = (at, b)" by fastforce
  with Some assms have "answered env k b at s" by (simp add: good_since_def cache_backed_def)
  moreover have "cache_backed env (s\<lparr>pm_world := w, pm_now := pm_now s + d\<rparr>)" for w d
    using assms by (auto simp: good_since_def intro: cache_backed_later)
  ultimately show ?thesis using assms Some v
    by (auto simp: fresh_answer_def access_steps good_since_def split: prod.split intro!: exI[of _ at])
qed (use assms in \<open>simp add: fresh_answer_def access_steps\<close>)

lemma can_of_sound:
  assumes "good_since env t s"
  shows "wp (can_of env k) (\<lambda>b s'. good_since env t s' \<and> (\<forall>k. granted env t k s \<longrightarrow> granted env t k s')
    \<and> (b \<longrightarrow> granted env t k s')) s"
proof (cases "cluster_entry (kn_catalog (pe_kube env)) (ac_key k)")
  case (Inr e)
  have run: "can_of env k = do {
      r \<leftarrow> fresh_answer env (scoped e k);
      case r of Some allowed \<Rightarrow> ret allowed
      | None \<Rightarrow> do {
          r \<leftarrow> review env (attributes_of e (scoped e k));
          case r of Inl _ \<Rightarrow> ret False
          | Inr allowed \<Rightarrow> do {
              now \<leftarrow> instant env;
              remember now (attributes_of e (scoped e k)) (scoped e k) allowed;
              ret allowed } } }"
    by (simp only: can_of_def can_resource_def Inr sum.case Let_def scoped_def)
  have stored: "wp (remember n (attributes_of e (scoped e k)) (scoped e k) b)
      (\<lambda>_ s'. good_since env t s' \<and> (\<forall>k. granted env t k s \<longrightarrow> granted env t k s') \<and> (b \<longrightarrow> granted env t k s')) s2"
    if "good_since env t s2" "pm_answers s2 = pm_answers s" "n = pm_now s2" for s2 b n
    using wp_remember[OF that(1) Inr, of b] unfolding that(3)
    by (rule wp_mono) (auto simp: that(2) intro: granted_mono)
  show ?thesis unfolding run wp_bind
    using wp_fresh_answer[OF assms, of "scoped e k"]
  proof (rule wp_mono)
    fix r s1
    assume 1: "good_since env t s1 \<and> pm_answers s1 = pm_answers s
      \<and> (r = Some True \<longrightarrow> (\<exists>at. answered env (scoped e k) True at s \<and> t < at + REVIEW_TTL))"
    then have later: "good_since env t (s1\<lparr>pm_world := w, pm_now := pm_now s1 + d\<rparr>)" "good_since env t (s1\<lparr>pm_world := w\<rparr>)" for w d
      by (auto simp: good_since_def intro: cache_backed_later)
    have same: "granted env t k' s1 = granted env t k' s" "granted env t k' (s1\<lparr>pm_world := w\<rparr>) = granted env t k' s" for k' w
      using 1 by (simp_all add: granted_def answered_def)
    have hit: "r = Some True \<Longrightarrow> granted env t k s"
      using 1 Inr by (auto simp: granted_def answered_def)
    show "wp (case r of Some allowed \<Rightarrow> ret allowed
      | None \<Rightarrow> do {
          r \<leftarrow> review env (attributes_of e (scoped e k));
          case r of Inl _ \<Rightarrow> ret False
          | Inr allowed \<Rightarrow> do {
              now \<leftarrow> instant env;
              remember now (attributes_of e (scoped e k)) (scoped e k) allowed;
              ret allowed } })
      (\<lambda>b s'. good_since env t s' \<and> (\<forall>k. granted env t k s \<longrightarrow> granted env t k s') \<and> (b \<longrightarrow> granted env t k s')) s1"
    proof (cases r)
      case None
      then show ?thesis using 1 later same
        by (auto simp: access_steps split: prod.split sum.split intro!: stored)
    next
      case (Some b)
      then show ?thesis using 1 same hit by auto
    qed
  qed
qed (simp add: can_of_def can_resource_def assms)

lemma reviewer_recent: "reviewer (can_of env) (good_since env t) (granted env t)"
  by unfold_locales (rule can_of_sound)

interpretation recent: reviewer "can_of env" "good_since env t" "granted env t" for env t
  by (rule reviewer_recent)

section \<open>Soundness\<close>

lemma can_action_of_grants:
  assumes "act \<noteq> FluxReconcileWithSource"
  shows "grants (good_since env t) (granted env t) (can_action_of env act kind key ns name opts)
    (\<lambda>s. \<forall>k\<in>set (needs act kind key ns name opts). granted env t k s)"
  using assms
  by (cases act)
    (simp_all only: can_action_of_def needs_def Let_def asks resource_action.case can_logs_def can_drain_def
      drains_by_delete_def[symmetric] if_distrib[of "\<lambda>x. State_Monad.bind x _"] split: if_split,
     (intro conjI impI recent.both recent.single recent.first_and_last | simp)+)

lemma can_of_sources: "wp (can_of env k) (\<lambda>_ s'. pm_sources s' = pm_sources s) s"
  by (simp add: can_of_def can_resource_def fresh_answer_def remember_def access_steps Let_def
      split: prod.split sum.split option.split)

definition source_granted :: "'w access_env \<Rightarrow> nat \<Rightarrow> 'w access_st \<Rightarrow> bool" where
  "source_granted env t s \<longleftrightarrow> (\<exists>source\<in>set (pm_sources s).
     granted env t (Access ''patch'' (fs_key source) (fs_namespace source) (Some (fs_name source)) None) s)"

lemma reconcile_source_grants:
  "grants (good_since env t) (granted env t) (can_reconcile_source env key ns n) (source_granted env t)"
  unfolding grants_def
proof (intro allI impI)
  fix s assume good: "good_since env t s"
  obtain r t' where run: "run_state (flux_source_target_of (pe_kube env) key ns n) \<lparr>kt_world = pm_world s, kt_writes = []\<rparr> = (r, t')"
    by fastforce
  let ?s = "s\<lparr>pm_world := kt_world t', pm_sources := pm_sources s @ (case r of Inr source \<Rightarrow> [source] | Inl _ \<Rightarrow> [])\<rparr>"
  have good': "good_since env t ?s" and same: "granted env t k ?s = granted env t k s" for k
    using good by (auto simp: good_since_def granted_def answered_def intro: cache_backed_later)
  show "wp (can_reconcile_source env key ns n)
      (\<lambda>b s'. good_since env t s' \<and> (\<forall>k. granted env t k s \<longrightarrow> granted env t k s') \<and> (b \<longrightarrow> source_granted env t s')) s"
  proof (cases r)
    case (Inl e)
    with run good' same show ?thesis by (simp add: can_reconcile_source_def source_of_def wp_rules)
  next
    case (Inr source)
    let ?k = "Access ''patch'' (fs_key source) (fs_namespace source) (Some (fs_name source)) None"
    have "wp (can_of env ?k) (\<lambda>b s'. good_since env t s' \<and> (\<forall>k. granted env t k s \<longrightarrow> granted env t k s')
        \<and> (b \<longrightarrow> source_granted env t s')) ?s"
      using wp_conj[OF can_of_sound[OF good', of ?k] can_of_sources[of env ?k ?s]]
      by (rule wp_mono) (use same in \<open>auto simp: source_granted_def Inr\<close>)
    with run Inr show ?thesis
      by (simp add: can_reconcile_source_def source_of_def wp_rules asks)
  qed
qed

lemma with_source_grants:
  "grants (good_since env t) (granted env t) (can_action_of env FluxReconcileWithSource kind key ns name opts)
    (\<lambda>s. (\<forall>k\<in>set (needs FluxReconcileWithSource kind key ns name opts). granted env t k s) \<and> source_granted env t s)"
proof -
  have last: "grants (good_since env t) (granted env t)
      (case name of None \<Rightarrow> ret False | Some n \<Rightarrow> can_reconcile_source env key ns n) (source_granted env t)"
    by (auto intro: grants_ret_False reconcile_source_grants split: option.split)
  have kept: "kept (granted env t) (granted env t k)" for k by (simp add: kept_def)
  from grants_and_also[OF recent.ask_grants grants_and_also[OF recent.ask_grants last kept] kept]
  show ?thesis by (simp add: can_action_of_def needs_def asks)
qed


section \<open>Under a policy\<close>

text \<open>When every answer follows one policy, a conjunction of reviews is decided by it.\<close>

locale policy_reviewer =
  fixes ask :: "access \<Rightarrow> ('s, bool) state" and good :: "'s \<Rightarrow> bool" and verdict :: "access \<Rightarrow> bool"
  assumes ask_decides: "good s \<Longrightarrow> wp (ask k) (\<lambda>b s'. good s' \<and> b = verdict k) s"

definition decides :: "('s \<Rightarrow> bool) \<Rightarrow> ('s, bool) state \<Rightarrow> bool \<Rightarrow> bool" where
  "decides good m b \<longleftrightarrow> (\<forall>s. good s \<longrightarrow> wp m (\<lambda>r s'. good s' \<and> r = b) s)"

lemma decides_ret: "decides good (ret b) b"
  by (simp add: decides_def)

lemma decides_bind:
  assumes "decides good m b" "decides good (f b) c"
  shows "decides good (State_Monad.bind m f) c"
  unfolding decides_def wp_bind
proof (intro allI impI)
  fix s assume "good s"
  from assms(1)[unfolded decides_def, rule_format, OF this]
  show "wp m (\<lambda>a. wp (f a) (\<lambda>r s'. good s' \<and> r = c)) s"
    by (rule wp_mono) (use assms(2) in \<open>auto simp: decides_def\<close>)
qed

lemma decides_and_also: "decides good m b \<Longrightarrow> decides good n c \<Longrightarrow> decides good (and_also m n) (b \<and> c)"
  unfolding and_also_def by (erule decides_bind) (auto intro: decides_ret)

context policy_reviewer
begin

lemma ask_verdict: "decides good (ask k) (verdict k)"
  using ask_decides by (simp add: decides_def)

lemma both: "decides good m (list_all verdict ks) \<Longrightarrow> decides good (and_also (ask k) m) (list_all verdict (k # ks))"
  using decides_and_also[OF ask_verdict] by simp

lemma single: "decides good (ask k) (list_all verdict [k])"
  using ask_verdict by simp

lemma first_and_last:
  "decides good (do { b \<leftarrow> ask k; and_also (ask l) (and_also (ask m) (ret b)) }) (list_all verdict [k, l, m])"
proof -
  have "decides good (and_also (ask l) (and_also (ask m) (ret (verdict k)))) (verdict l \<and> verdict m \<and> verdict k)"
    by (intro decides_and_also ask_verdict decides_ret)
  then have "decides good (do { b \<leftarrow> ask k; and_also (ask l) (and_also (ask m) (ret b)) }) (verdict l \<and> verdict m \<and> verdict k)"
    by (rule decides_bind[OF ask_verdict])
  then show ?thesis by (simp add: conj_ac)
qed

end

definition permitted_by :: "'w access_env \<Rightarrow> (resource_attributes \<Rightarrow> bool) \<Rightarrow> access \<Rightarrow> bool" where
  "permitted_by env P k = (case cluster_entry (kn_catalog (pe_kube env)) (ac_key k) of
     Inl _ \<Rightarrow> False | Inr e \<Rightarrow> P (attributes_of e (scoped e k)))"

definition steady :: "'w access_env \<Rightarrow> (resource_attributes \<Rightarrow> bool) \<Rightarrow> 'w access_st \<Rightarrow> bool" where
  "steady env P s \<longleftrightarrow> (\<forall>attrs w. fst (pe_review env attrs w) = Inr (Some (P attrs))) \<and> hm_ok (pm_cache s)
     \<and> (\<forall>k at b. hm_get (pm_cache s) k = Some (at, b) \<longrightarrow> b = permitted_by env P k)"

lemma steady_world: "steady env P s \<Longrightarrow> pm_cache s' = pm_cache s \<Longrightarrow> steady env P s'"
  by (simp add: steady_def)

lemma wp_fresh_steady:
  assumes "steady env P s"
  shows "wp (fresh_answer env k) (\<lambda>r s'. steady env P s' \<and> (\<forall>b. r = Some b \<longrightarrow> b = permitted_by env P k)) s"
proof (cases "hm_get (pm_cache s) k")
  case (Some v)
  then show ?thesis using assms
    by (cases v) (auto simp: fresh_answer_def access_steps steady_def split: prod.split)
qed (use assms in \<open>simp add: fresh_answer_def access_steps\<close>)

lemma wp_remember_steady:
  "steady env P s \<Longrightarrow> wp (remember n attrs k (permitted_by env P k)) (\<lambda>_. steady env P) s"
  by (auto simp: remember_def steady_def wp_rules hm_get_retain split: option.splits if_splits)

lemma can_of_decides:
  assumes "steady env P s"
  shows "wp (can_of env k) (\<lambda>b s'. steady env P s' \<and> b = permitted_by env P k) s"
proof (cases "cluster_entry (kn_catalog (pe_kube env)) (ac_key k)")
  case (Inr e)
  let ?k = "scoped e k"
  have form: "can_of env k = do {
      r \<leftarrow> fresh_answer env ?k;
      case r of Some allowed \<Rightarrow> ret allowed
      | None \<Rightarrow> do {
          r \<leftarrow> review env (attributes_of e ?k);
          case r of Inl _ \<Rightarrow> ret False
          | Inr allowed \<Rightarrow> do {
              now \<leftarrow> instant env;
              remember now (attributes_of e ?k) ?k allowed;
              ret allowed } } }"
    by (simp only: can_of_def can_resource_def Inr sum.case Let_def scoped_def)
  have verdict: "permitted_by env P k = P (attributes_of e ?k)" "permitted_by env P ?k = P (attributes_of e ?k)"
    using Inr by (simp_all add: permitted_by_def)
  have told: "\<exists>w'. pe_review env (attributes_of e ?k) w = (Inr (Some (P (attributes_of e ?k))), w')" for w
    using assms unfolding steady_def by (metis prod.collapse)
  have stored: "wp (remember n (attributes_of e ?k) ?k (P (attributes_of e ?k))) (\<lambda>a s'. steady env P s') s'"
    if "steady env P s'" for n s'
    using wp_remember_steady[OF that, of n "attributes_of e ?k" ?k] verdict by simp
  show ?thesis
    unfolding form wp_bind using wp_fresh_steady[OF assms, of ?k]
  proof (rule wp_mono)
    fix r s1
    assume 1: "steady env P s1 \<and> (\<forall>b. r = Some b \<longrightarrow> b = permitted_by env P ?k)"
    then have later: "steady env P (s1\<lparr>pm_world := w, pm_now := n\<rparr>)" for w n
      by (auto intro: steady_world)
    show "wp (case r of Some allowed \<Rightarrow> ret allowed
      | None \<Rightarrow> do {
          r \<leftarrow> review env (attributes_of e ?k);
          case r of Inl _ \<Rightarrow> ret False
          | Inr allowed \<Rightarrow> do {
              now \<leftarrow> instant env;
              remember now (attributes_of e ?k) ?k allowed;
              ret allowed } }) (\<lambda>b s'. steady env P s' \<and> b = permitted_by env P k) s1"
    proof (cases r)
      case None
      from told[of "pm_world s1"] obtain w where "pe_review env (attributes_of e ?k) (pm_world s1) = (Inr (Some (P (attributes_of e ?k))), w)"
        by blast
      with None show ?thesis using later stored
        by (simp add: access_steps verdict unwrap_or_def split: prod.split)
    qed (use 1 verdict in simp)
  qed
qed (use assms in \<open>simp add: can_of_def can_resource_def permitted_by_def\<close>)

lemma policy_reviewer_steady: "policy_reviewer (can_of env) (steady env P) (permitted_by env P)"
  by unfold_locales (rule can_of_decides)

interpretation by_policy: policy_reviewer "can_of env" "steady env P" "permitted_by env P" for env P
  by (rule policy_reviewer_steady)

lemma can_action_of_decides:
  assumes "act \<noteq> FluxReconcileWithSource"
  shows "decides (steady env P) (can_action_of env act kind key ns name opts)
    (list_all (permitted_by env P) (needs act kind key ns name opts))"
  using assms
  by (cases act)
    (simp_all only: can_action_of_def needs_def Let_def asks resource_action.case can_logs_def can_drain_def
      drains_by_delete_def[symmetric] if_distrib[of "\<lambda>x. State_Monad.bind x _"] split: if_split,
     (intro conjI impI by_policy.both by_policy.single by_policy.first_and_last | simp)+)


definition asking_env :: "(resource_attributes \<Rightarrow> bool) \<Rightarrow> unit access_env" where
  "asking_env P = \<lparr>pe_kube = one_kind_env, pe_tick = (\<lambda>w. (1, w)), pe_review = (\<lambda>attrs w. (Inr (Some (P attrs)), w))\<rparr>"

definition unasked :: "unit access_st" where
  "unasked = \<lparr>pm_world = (), pm_now = 0, pm_cache = [], pm_answers = [], pm_sources = []\<rparr>"

definition the_kind :: resource_kind where
  "the_kind = hd (kn_catalog one_kind_env)"

lemma one_kind_entry:
  "cluster_entry (kn_catalog one_kind_env) ''apps/v1/Deployment'' = Inr the_kind"
  "kind_supports the_kind Delete"
  by (simp_all add: cluster_entry_def catalog_by_key_def one_kind_env_def the_kind_def kind_supports_def capabilities_def
      supports_for_gvk)

lemma the_kind_fields: "rk_group the_kind = ''apps''" "rk_plural the_kind = ''deployments''" "rk_namespaced the_kind"
  by (simp_all add: the_kind_def one_kind_env_def)

lemma asking_steady: "steady (asking_env P) P unasked"
  by (simp add: steady_def asking_env_def unasked_def)



end
