(* ===== verification/FileProps.thy ===== *)
theory FileProps
  imports Files AccessProps SessionProps
begin

text \<open>
  Files of a container: normalisation keeps what a path names, a listing is read back as it was written, and
  a command only runs in the pod the caller was granted, as a fixed script with a normalised path.
\<close>

section \<open>Paths\<close>

definition plain_part :: "string \<Rightarrow> bool" where
  "plain_part p \<longleftrightarrow> p \<noteq> [] \<and> p \<noteq> ''.'' \<and> p \<noteq> ''..'' \<and> CHR ''/'' \<notin> set p"

definition path_of_parts :: "string list \<Rightarrow> string" where
  "path_of_parts parts = (if parts = [] then ''/'' else CHR ''/'' # join_with ''/'' parts)"

lemma plain_butlast: "list_all plain_part parts \<Longrightarrow> list_all plain_part (butlast parts)"
  by (auto simp: list_all_iff dest: in_set_butlastD)

lemma plain_parts:
  "list_all (\<lambda>p. CHR ''/'' \<notin> set p) ps \<Longrightarrow> list_all plain_part parts \<Longrightarrow> list_all plain_part (path_parts ps parts)"
proof (induction ps parts rule: path_parts.induct)
  case (2 p ps parts)
  then have rest: "list_all (\<lambda>p. CHR ''/'' \<notin> set p) ps" by simp
  consider "p = [] \<or> p = ''.''" | "p = ''..''" | "\<not> (p = [] \<or> p = ''.'')" "p \<noteq> ''..''" by blast
  then show ?case
  proof cases
    case 1
    with "2.IH"(1) rest "2.prems"(2) show ?thesis by simp
  next
    case up: 2
    with "2.IH"(2) rest plain_butlast "2.prems"(2) show ?thesis by simp
  next
    case 3
    have "plain_part p" using 3 "2.prems"(1) by (simp add: plain_part_def)
    then have "list_all plain_part (parts @ [p])" using "2.prems"(2) by simp
    with "2.IH"(3) rest 3 show ?thesis by simp
  qed
qed simp

lemma split_parts: "list_all plain_part parts \<Longrightarrow> path_parts (split_on (CHR ''/'') (path_of_parts parts)) [] = parts"
proof -
  assume plain: "list_all plain_part parts"
  have walk: "list_all plain_part qs \<Longrightarrow> path_parts qs ps = ps @ qs" for qs ps
    by (induction qs arbitrary: ps) (auto simp: plain_part_def)
  show ?thesis
  proof (cases "parts = []")
    case False
    have "split_on (CHR ''/'') (CHR ''/'' # join_with ''/'' parts) = [] # parts"
      using plain False by (simp add: split_on_joined list_all_iff plain_part_def)
    with False plain walk show ?thesis by (simp add: path_of_parts_def)
  qed (simp add: path_of_parts_def)
qed

lemma normalize_Inr:
  "normalize_file_path p = Inr q \<longleftrightarrow> starts_with p ''/'' \<and> CHR 0x00 \<notin> set p \<and> length p \<le> 4096
     \<and> q = path_of_parts (path_parts (split_on (CHR ''/'') p) [])"
  by (auto simp: normalize_file_path_def path_of_parts_def Let_def)

lemma split_plain: "list_all (\<lambda>w. CHR ''/'' \<notin> set w) (split_on (CHR ''/'') p)"
  by (auto simp: list_all_iff dest: split_on_no_sep)

text \<open>A tree of files, and how a path leads through it from the root: the node it names with those above it.
  A name without an entry leads nowhere, and the parent of the root is the root.\<close>

datatype file_tree = Leaf | Tree "(string \<times> file_tree) list"

fun child :: "file_tree \<Rightarrow> string \<Rightarrow> file_tree option" where
  "child Leaf name = None"
| "child (Tree es) name = map_of es name"

fun follow :: "file_tree list \<Rightarrow> string list \<Rightarrow> file_tree list option" where
  "follow nodes [] = Some nodes"
| "follow nodes (p # ps) =
     (if p = [] \<or> p = ''.'' then follow nodes ps
      else if p = ''..'' then follow (if tl nodes = [] then nodes else tl nodes) ps
      else case child (hd nodes) p of None \<Rightarrow> None | Some n \<Rightarrow> follow (n # nodes) ps)"

definition names_node :: "file_tree \<Rightarrow> string \<Rightarrow> file_tree option" where
  "names_node root path = map_option hd (follow [root] (split_on (CHR ''/'') path))"

lemma follow_append: "follow ns (ps @ qs) = Option.bind (follow ns ps) (\<lambda>ms. follow ms qs)"
  by (induction ns ps rule: follow.induct) (auto split: option.split)

lemma follow_plain_length: "follow ns ps = Some ms \<Longrightarrow> list_all plain_part ps \<Longrightarrow> length ms = length ps + length ns"
  by (induction ns ps rule: follow.induct) (auto simp: plain_part_def split: option.splits if_splits)

lemma follow_butlast:
  assumes "follow [root] parts = Some ns" "list_all plain_part parts"
  shows "follow [root] (butlast parts) = Some (if tl ns = [] then ns else tl ns)"
proof (cases parts rule: rev_cases)
  case (snoc ps p)
  from assms(1) snoc obtain ms where ms: "follow [root] ps = Some ms" "follow ms [p] = Some ns"
    by (auto simp: follow_append bind_eq_Some_conv)
  with assms(2) snoc have "ns = hd ns # ms" by (auto simp: plain_part_def split: option.splits)
  moreover have "ms \<noteq> []" using follow_plain_length[OF ms(1)] assms(2) snoc by auto
  ultimately show ?thesis using ms(1) snoc by (cases ns) auto
qed (use assms in auto)

lemma follow_parts:
  assumes "follow [root] parts = Some ns" "list_all plain_part parts" "list_all (\<lambda>p. CHR ''/'' \<notin> set p) ps"
    and "follow ns ps = Some ms"
  shows "follow [root] (path_parts ps parts) = Some ms"
  using assms
proof (induction ps parts arbitrary: ns rule: path_parts.induct)
  case (2 p ps parts)
  consider "p = [] \<or> p = ''.''" | "p = ''..''" | "plain_part p" using "2.prems"(3) by (auto simp: plain_part_def)
  then show ?case
  proof cases
    case 1
    then show ?thesis using 2 by auto
  next
    case up: 2
    have "list_all plain_part (butlast parts)" using "2.prems"(2) by (auto simp: list_all_iff dest: in_set_butlastD)
    with "2.IH"(2)[OF _ _ follow_butlast[OF "2.prems"(1,2)]] up 2 show ?thesis by auto
  next
    case 3
    then obtain n where n: "child (hd ns) p = Some n" "follow (n # ns) ps = Some ms"
      using "2.prems"(4) by (auto simp: plain_part_def split: option.splits)
    have "follow [root] (parts @ [p]) = Some (n # ns)"
      using "2.prems"(1) 3 n(1) by (auto simp: follow_append plain_part_def)
    with "2.IH"(3)[of "n # ns"] 3 2 n(2) show ?thesis by (auto simp: plain_part_def)
  qed
qed simp

lemma normalized_canonical:
  assumes "normalize_file_path p = Inr q"
  shows "\<exists>parts. q = path_of_parts parts \<and> list_all plain_part parts"
  using assms plain_parts[OF split_plain, of "[]"] by (auto simp: normalize_Inr)



section \<open>Listings\<close>

text \<open>What the listing script prints: the letter of the kind, the size and the name of each entry, each ended by a NUL.\<close>

definition kind_letter :: "file_kind \<Rightarrow> string" where
  "kind_letter k = (case k of Directory \<Rightarrow> ''d'' | RegularFile \<Rightarrow> ''f'' | Symlink \<Rightarrow> ''l'' | OtherFile \<Rightarrow> ''o'')"

definition listing_text :: "file_entry list \<Rightarrow> string" where
  "listing_text es = concat (map (\<lambda>e. kind_letter (fi_kind e) @ CHR 0x00 # show_nat (fi_size e) @ CHR 0x00 # fi_name e @ [CHR 0x00]) es)"

lemma kind_letter [simp]: "file_kind_of (kind_letter k) = Some k" "kind_letter k \<noteq> []" "CHR 0x00 \<notin> set (kind_letter k)"
  by (cases k; simp add: kind_letter_def file_kind_of_def)+

lemma show_nat_no_nul: "CHR 0x00 \<notin> set (show_nat n)"
  using show_nat_digits[of n] by (auto simp: list_all_iff is_ascii_digit_def code_def)

lemma trim_show_nat: "trim (show_nat n) = show_nat n"
proof -
  have "list_all plain_char (show_nat n)"
    using show_nat_digits[of n]
    by (rule list.pred_mono_strong) (auto simp: plain_char_def is_ascii_digit_def is_white_space_def code_def)
  from trim_plain[OF this, of "[]"] show ?thesis by simp
qed

lemma split_entry:
  assumes "CHR 0x00 \<notin> set (fi_name e)"
  shows "split_on (CHR 0x00) (kind_letter (fi_kind e) @ CHR 0x00 # show_nat (fi_size e) @ CHR 0x00 # fi_name e @ CHR 0x00 # s) =
    kind_letter (fi_kind e) # show_nat (fi_size e) # fi_name e # split_on (CHR 0x00) s"
  using assms by (simp add: split_on_append show_nat_no_nul)

definition listable :: "'w file_env \<Rightarrow> file_entry \<Rightarrow> bool" where
  "listable env e \<longleftrightarrow> CHR 0x00 \<notin> set (fi_name e) \<and> fe_lossy env (fi_name e) = fi_name e
     \<and> fe_lossy env (show_nat (fi_size e)) = show_nat (fi_size e) \<and> fi_size e < 2 ^ 64"

lemma read_listing:
  assumes "list_all (listable env) es" "length seen \<le> MAX_ENTRIES"
  shows "read_entries env (split_on (CHR 0x00) (listing_text es)) seen =
    (if length seen + length es \<le> MAX_ENTRIES then Inr (seen @ es)
     else Inl (K8sApi (''directory contains more than '' @ show_nat MAX_ENTRIES @ '' entries'')))"
  using assms
proof (induction es arbitrary: seen)
  case (Cons e es)
  have e: "listable env e" and es: "list_all (listable env) es" using Cons.prems(1) by simp_all
  have parse: "parse_u64 (show_nat (fi_size e)) = Some (fi_size e)"
    using e unfolding parse_u64_def by (intro parse_show_nat) (simp add: listable_def)
  have split: "split_on (CHR 0x00) (listing_text (e # es)) =
      kind_letter (fi_kind e) # show_nat (fi_size e) # fi_name e # split_on (CHR 0x00) (listing_text es)"
    using split_entry[of e "listing_text es"] e by (simp add: listing_text_def listable_def)
  show ?case
  proof (cases "length seen = MAX_ENTRIES")
    case False
    then have "length (seen @ [e]) \<le> MAX_ENTRIES" using Cons.prems(2) by simp
    have same: "\<lparr>fi_name = fi_name e, fi_kind = fi_kind e, fi_size = fi_size e\<rparr> = e" by (cases e) simp
    from Cons.IH[OF es \<open>length (seen @ [e]) \<le> MAX_ENTRIES\<close>] False e show ?thesis
      by (simp add: same split listable_def trim_show_nat parse unwrap_or_def)
  qed (simp add: split)
qed (simp add: listing_text_def)

text \<open>A listing is read back as it was printed.  Whatever the entries of a directory, with names of any bytes but
  NUL that are UTF-8, what the script prints for them is read as exactly these entries, up to the limit of entries, and
  is an error above it.\<close>

theorem listing_round_trip:
  assumes "list_all (listable env) es"
  shows "read_entries env (split_on (CHR 0x00) (listing_text es)) [] =
    (if length es \<le> MAX_ENTRIES then Inr es
     else Inl (K8sApi (''directory contains more than '' @ show_nat MAX_ENTRIES @ '' entries'')))"
  using read_listing[OF assms, of "[]"] by simp

section \<open>Commands\<close>

definition commands :: "('w, 'a) filing \<Rightarrow> (exec_call \<Rightarrow> bool) \<Rightarrow> bool" where
  "commands m P \<longleftrightarrow> (\<forall>s. wp m (\<lambda>_ s'. \<exists>cs. ft_calls s' = ft_calls s @ cs \<and> list_all P cs
     \<and> pm_answers (ft_access s') = pm_answers (ft_access s)) s)"

lemma commands_ret: "commands (ret r) P"
  by (simp add: commands_def)

lemma commands_bind:
  fixes m :: "('w, 'a) filing" and f :: "'a \<Rightarrow> ('w, 'b) filing"
  assumes "commands m P" "\<And>a. commands (f a) P"
  shows "commands (State_Monad.bind m f) P"
  unfolding commands_def wp_bind
proof
  fix s :: "'w file_st"
  let ?Q = "\<lambda>s (_::'b) s'. \<exists>cs. ft_calls s' = ft_calls s @ cs \<and> list_all P cs \<and> pm_answers (ft_access s') = pm_answers (ft_access s)"
  show "wp m (\<lambda>a. wp (f a) (?Q s)) s"
    using assms(1)[unfolded commands_def, rule_format, of s]
  proof (rule wp_mono)
    fix a and s1 :: "'w file_st"
    assume "\<exists>cs. ft_calls s1 = ft_calls s @ cs \<and> list_all P cs \<and> pm_answers (ft_access s1) = pm_answers (ft_access s)"
    then obtain cs where 1: "ft_calls s1 = ft_calls s @ cs" "list_all P cs" "pm_answers (ft_access s1) = pm_answers (ft_access s)"
      by blast
    show "wp (f a) (?Q s) s1"
      using assms(2)[unfolded commands_def, rule_format, of a s1]
      by (rule wp_mono) (use 1 in auto)
  qed
qed

lemma commands_call: "P c \<Longrightarrow> commands (call_world c f) P"
  by (auto simp: commands_def call_world_def wp_rules split: prod.split)

lemma commands_mono: "commands m P \<Longrightarrow> (\<And>c. P c \<Longrightarrow> Q c) \<Longrightarrow> commands m Q"
  unfolding commands_def by (blast intro: wp_mono list.pred_mono_strong)

text \<open>The only calls: probes of shells, and the command itself under one of them.\<close>

definition probe_call :: "string \<Rightarrow> string \<Rightarrow> string \<Rightarrow> exec_call \<Rightarrow> bool" where
  "probe_call ns pod container c \<longleftrightarrow> (\<exists>sh\<in>set shells. c =
     \<lparr>xc_namespace = ns, xc_pod = pod, xc_container = Some container, xc_command = [Word sh], xc_stdin = None\<rparr>)"

definition script_call :: "string \<Rightarrow> string \<Rightarrow> string \<Rightarrow> file_script \<Rightarrow> string list \<Rightarrow> string option \<Rightarrow> exec_call \<Rightarrow> bool" where
  "script_call ns pod container script args input c \<longleftrightarrow> (\<exists>sh\<in>set shells. c =
     \<lparr>xc_namespace = ns, xc_pod = pod, xc_container = Some container,
      xc_command = [Word sh, Word ''-c'', Script script, Word ''roder-files''] @ map Word args, xc_stdin = input\<rparr>)"

lemma probe_commands:
  "set shs \<subseteq> set shells \<Longrightarrow> commands (probe_shells env ns pod (Some container) shs) (probe_call ns pod container)"
  by (induction shs) (auto simp: Let_def probe_call_def intro!: commands_bind commands_call commands_ret)

lemma probe_result: "set shs \<subseteq> set shells \<Longrightarrow> wp (probe_shells env ns pod c shs) (\<lambda>r _. r \<in> set shells) s"
  by (induction shs arbitrary: s) (auto simp: Let_def call_world_def wp_rules shells_def split: prod.split)

lemma detect_bind:
  fixes f :: "string \<Rightarrow> ('w, 'a) filing"
  assumes "\<And>sh. sh \<in> set shells \<Longrightarrow> commands (f sh) P" and probe: "\<And>c. probe_call ns pod container c \<Longrightarrow> P c"
  shows "commands (State_Monad.bind (detect_shell env ns pod (Some container)) f) P"
  unfolding commands_def wp_bind
proof
  fix s :: "'w file_st"
  have "commands (detect_shell env ns pod (Some container)) P"
    unfolding detect_shell_def by (rule commands_mono[OF probe_commands]) (auto intro: probe)
  from wp_conj[OF this[unfolded commands_def, rule_format, of s], of "\<lambda>r _. r \<in> set shells"]
  have "wp (detect_shell env ns pod (Some container)) (\<lambda>a s'. (\<exists>cs. ft_calls s' = ft_calls s @ cs \<and> list_all P cs
      \<and> pm_answers (ft_access s') = pm_answers (ft_access s)) \<and> a \<in> set shells) s"
    using probe_result[of shells env ns pod "Some container" s] by (simp add: detect_shell_def)
  then show "wp (detect_shell env ns pod (Some container)) (\<lambda>a. wp (f a) (\<lambda>_ s'. \<exists>cs. ft_calls s' = ft_calls s @ cs
      \<and> list_all P cs \<and> pm_answers (ft_access s') = pm_answers (ft_access s))) s"
  proof (rule wp_mono)
    fix a and s1 :: "'w file_st"
    assume "(\<exists>cs. ft_calls s1 = ft_calls s @ cs \<and> list_all P cs \<and> pm_answers (ft_access s1) = pm_answers (ft_access s)) \<and> a \<in> set shells"
    then obtain cs where 1: "ft_calls s1 = ft_calls s @ cs" "list_all P cs" "pm_answers (ft_access s1) = pm_answers (ft_access s)"
      and a: "a \<in> set shells" by blast
    show "wp (f a) (\<lambda>_ s'. \<exists>cs. ft_calls s' = ft_calls s @ cs \<and> list_all P cs
        \<and> pm_answers (ft_access s') = pm_answers (ft_access s)) s1"
      using assms(1)[OF a, unfolded commands_def, rule_format, of s1] by (rule wp_mono) (use 1 in auto)
  qed
qed

definition ours :: "string \<Rightarrow> string \<Rightarrow> string \<Rightarrow> file_script \<Rightarrow> string list \<Rightarrow> string option \<Rightarrow> exec_call \<Rightarrow> bool" where
  "ours ns pod container script args input c \<longleftrightarrow>
     probe_call ns pod container c \<or> script_call ns pod container script args input c"

lemma run_as_shell:
  "run_container_command env ns pod container (script_command script args) input limit =
    State_Monad.bind (detect_shell env ns pod (Some container)) (\<lambda>sh.
      let c = \<lparr>xc_namespace = ns, xc_pod = pod, xc_container = Some container,
        xc_command = [Word sh, Word ''-c'', Script script, Word ''roder-files''] @ map Word args, xc_stdin = input\<rparr> in do {
      r \<leftarrow> call_world c (fe_exec env c);
      ret (case r of Inl e \<Rightarrow> Inl (K8sApi e) | Inr p \<Rightarrow> finish_command env limit input p) })"
  by (simp add: run_container_command_def script_command_def)

lemma run_commands:
  "commands (run_container_command env ns pod container (script_command script args) input limit)
    (ours ns pod container script args input)"
  unfolding run_as_shell Let_def
  by (rule detect_bind) (auto simp: ours_def script_call_def intro!: commands_ret commands_bind commands_call)

text \<open>The requests of the file browser, and the script and arguments each runs.\<close>

datatype file_action = ListFiles | ReadFile | DownloadFile | UploadFile string | WriteFile string | CreateFile bool | DeleteFile

fun handle_file ::
  "'w file_env \<Rightarrow> (container_directory \<Rightarrow> string) \<Rightarrow> (file_content \<Rightarrow> string) \<Rightarrow> file_action \<Rightarrow> file_target
     \<Rightarrow> ('w, file_response) filing" where
  "handle_file env dj cj ListFiles q = list_files env dj q"
| "handle_file env dj cj ReadFile q = read_file env cj q"
| "handle_file env dj cj DownloadFile q = download_file env q"
| "handle_file env dj cj (UploadFile encoded) q = upload_file env q encoded"
| "handle_file env dj cj (WriteFile content) q = write_file env q content"
| "handle_file env dj cj (CreateFile directory) q = create_file env q directory"
| "handle_file env dj cj DeleteFile q = delete_file env q"

fun runs_script :: "'w file_env \<Rightarrow> file_action \<Rightarrow> file_script \<Rightarrow> string list \<Rightarrow> string option \<Rightarrow> bool" where
  "runs_script env ListFiles script args input \<longleftrightarrow> script = LIST_SCRIPT \<and> args = [] \<and> input = None"
| "runs_script env ReadFile script args input \<longleftrightarrow> script = READ_SCRIPT \<and> args = [] \<and> input = None"
| "runs_script env DownloadFile script args input \<longleftrightarrow> script = DOWNLOAD_SCRIPT \<and> args = [] \<and> input = None"
| "runs_script env (UploadFile encoded) script args input \<longleftrightarrow> script = UPLOAD_SCRIPT \<and> args = []
     \<and> (\<exists>content. fe_base64 env encoded = Some content \<and> input = Some content \<and> length content \<le> FILE_TRANSFER_LIMIT)"
| "runs_script env (WriteFile content) script args input \<longleftrightarrow> script = WRITE_SCRIPT \<and> args = []
     \<and> input = Some content \<and> length content \<le> 1024 * 1024"
| "runs_script env (CreateFile directory) script args input \<longleftrightarrow>
     script = CREATE_SCRIPT \<and> args = [if directory then ''directory'' else ''file''] \<and> input = None"
| "runs_script env DeleteFile script args input \<longleftrightarrow> script = DELETE_SCRIPT \<and> args = [] \<and> input = None"

definition modifies :: "file_action \<Rightarrow> bool" where
  "modifies act \<longleftrightarrow> act \<notin> {ListFiles, ReadFile, DownloadFile}"

definition licensed_call :: "'w file_env \<Rightarrow> file_action \<Rightarrow> file_target \<Rightarrow> exec_call \<Rightarrow> bool" where
  "licensed_call env act q c \<longleftrightarrow> (\<exists>path script args input. normalize_file_path (fq_path q) = Inr path \<and> (modifies act \<longrightarrow> path \<noteq> ''/'')
     \<and> runs_script env act script args input
     \<and> ours (fq_namespace q) (fq_pod q) (fq_container q) script (args @ [path]) input c)"

lemma commands_answer: "commands m P \<Longrightarrow> commands (answer_files f m) P"
  unfolding answer_files_def by (auto intro!: commands_bind commands_ret)

lemma mutation_commands:
  assumes "modifies act" "runs_script env act script args input"
  shows "commands (run_mutation_script env (fq_namespace q) (fq_pod q) (fq_container q) (fq_path q) script args input)
    (licensed_call env act q)"
proof (cases "normalize_mutation_path (fq_path q)")
  case (Inr path)
  then have path: "normalize_file_path (fq_path q) = Inr path" "path \<noteq> ''/''"
    by (auto simp: normalize_mutation_path_def and_then_Inr split: if_splits)
  have "commands (run_container_command env (fq_namespace q) (fq_pod q) (fq_container q) (script_command script (args @ [path])) input
      (64 * 1024)) (licensed_call env act q)"
    by (rule commands_mono[OF run_commands]) (use path assms in \<open>unfold licensed_call_def, blast\<close>)
  with Inr show ?thesis by (auto simp: run_mutation_script_def intro!: commands_bind commands_ret)
qed (simp add: run_mutation_script_def commands_ret)

lemma reading_commands:
  assumes "\<not> modifies act" "runs_script env act script [] None" "normalize_file_path (fq_path q) = Inr path"
  shows "commands (run_container_command env (fq_namespace q) (fq_pod q) (fq_container q) (script_command script [path]) None limit)
    (licensed_call env act q)"
  by (rule commands_mono[OF run_commands]) (use assms in \<open>unfold licensed_call_def, force\<close>)

lemma handled:
  obtains valid m where "handle_file env dj cj act q = guarded env valid q m" "commands m (licensed_call env act q)"
proof -
  have reading: "commands (case normalize_file_path (fq_path q) of Inl e \<Rightarrow> ret (Inl e) | Inr path \<Rightarrow> f path) P"
    if "\<And>path. normalize_file_path (fq_path q) = Inr path \<Longrightarrow> commands (f path) P" for f :: "string \<Rightarrow> ('a, k8s_error + 'b) filing" and P
    using that by (auto intro: commands_ret split: sum.split)
  have lists: "commands (list_container_directory env (fq_namespace q) (fq_pod q) (fq_container q) (fq_path q)) (licensed_call env ListFiles q)"
    unfolding list_container_directory_def
    by (auto intro!: commands_bind commands_ret reading_commands simp: modifies_def split: sum.split)
  have reads: "commands (read_container_file env (fq_namespace q) (fq_pod q) (fq_container q) (fq_path q)) (licensed_call env ReadFile q)"
    unfolding read_container_file_def
    by (auto intro!: commands_bind commands_ret reading_commands simp: modifies_def split: sum.split)
  have downloads: "commands (download_container_file env (fq_namespace q) (fq_pod q) (fq_container q) (fq_path q)) (licensed_call env DownloadFile q)"
    unfolding download_container_file_def
    by (auto intro!: commands_ret reading_commands simp: modifies_def split: sum.split)
  have small: "length content \<le> FILE_TRANSFER_LIMIT" if "length content \<le> 1024 * 1024" for content :: string
    using that by (simp add: FILE_TRANSFER_LIMIT_def)
  show ?thesis
  proof (cases act)
    case (UploadFile encoded)
    show ?thesis
      by (rule that, simp only: UploadFile handle_file.simps upload_file_def, unfold upload_container_file_def)
        (auto simp: UploadFile modifies_def intro!: commands_ret commands_answer mutation_commands split: option.split)
  next
    case (WriteFile content)
    show ?thesis
      by (rule that, simp only: WriteFile handle_file.simps write_file_def, unfold write_container_file_def)
        (auto simp: WriteFile modifies_def intro!: commands_ret commands_answer mutation_commands)
  next
    case (CreateFile directory)
    show ?thesis
      by (rule that, simp only: CreateFile handle_file.simps create_file_def, unfold create_container_entry_def)
        (auto simp: CreateFile modifies_def intro!: commands_answer mutation_commands)
  next
    case DeleteFile
    show ?thesis
      by (rule that, simp only: DeleteFile handle_file.simps delete_file_def, unfold delete_container_entry_def)
        (auto simp: DeleteFile modifies_def intro!: commands_answer mutation_commands)
  qed (rule that, simp_all only: handle_file.simps list_files_def read_file_def download_file_def,
      intro commands_answer, (rule lists reads downloads)+)+
qed

lemma exec_granted:
  assumes "cache_backed (fe_access env) (ft_access s)"
  shows "wp (can_access_files env q) (\<lambda>b s'. ft_calls s' = ft_calls s \<and> (b \<longrightarrow> granted (fe_access env) (pm_now (ft_access s))
    (Access ''create'' pod_key (Some (fq_namespace q)) (Some (fq_pod q)) (Some ''exec'')) (ft_access s'))) s"
proof -
  let ?ask = "backend_can_action (fe_access env) Exec pod_key (Some (fq_namespace q)) (Some (fq_pod q)) None"
  obtain b t where run: "run_state ?ask (ft_access s) = (b, t)" by fastforce
  have "granted (fe_access env) (pm_now (ft_access s))
      (Access ''create'' pod_key (Some (fq_namespace q)) (Some (fq_pod q)) (Some ''exec'')) t" if b
  proof -
    from run \<open>b\<close> obtain kind where
      "run_state (can_action_of (fe_access env) Exec kind pod_key (Some (fq_namespace q)) (Some (fq_pod q)) None) (ft_access s) = (b, t)"
      by (auto simp: backend_can_action_def split: sum.splits if_splits)
    from can_action_of_grants[unfolded grants_def, rule_format, OF _ _, THEN wp_run, OF _ _ this, of "pm_now (ft_access s)"]
      assms \<open>b\<close>
    show ?thesis by (auto simp: good_since_def needs_def)
  qed
  then show ?thesis by (simp add: can_access_files_def with_access_def wp_rules run)
qed

text \<open>C30: a command only runs where the caller may execute, as the fixed script of the request.  Every call an endpoint of
  the file browser makes goes to the pod and container of the request, and is either a probe of one of four shells or one
  of them running the script of that request with its normalised path as an argument, never the root where it modifies,
  and with at most the content that was sent; none is made unless the API server recently granted executing in that pod.\<close>

theorem file_commands_are_licensed:
  assumes "cache_backed (fe_access env) (ft_access s)" and "run_state (handle_file env dj cj act q) s = (r, s')"
  shows "\<exists>cs. ft_calls s' = ft_calls s @ cs \<and> list_all (licensed_call env act q) cs
    \<and> (cs \<noteq> [] \<longrightarrow> granted (fe_access env) (pm_now (ft_access s))
        (Access ''create'' pod_key (Some (fq_namespace q)) (Some (fq_pod q)) (Some ''exec'')) (ft_access s'))"
proof -
  obtain valid m where form: "handle_file env dj cj act q = guarded env valid q m" and m: "commands m (licensed_call env act q)"
    by (rule handled)
  obtain ok s1 where ask: "run_state (can_access_files env q) s = (ok, s1)" by fastforce
  with wp_run[OF exec_granted[OF assms(1)]] have calls: "ft_calls s1 = ft_calls s"
    and grant: "ok \<Longrightarrow> granted (fe_access env) (pm_now (ft_access s))
        (Access ''create'' pod_key (Some (fq_namespace q)) (Some (fq_pod q)) (Some ''exec'')) (ft_access s1)" by blast+
  show ?thesis
  proof (cases "(\<exists>u. valid = Inr u) \<and> ok")
    case True
    with assms(2) ask have "run_state m s1 = (r, s')" by (auto simp: form guarded_def)
    from wp_run[OF m[unfolded commands_def, rule_format] this] calls grant True show ?thesis
      by (auto simp: granted_def answered_def)
  next
    case False
    with assms(2) ask calls show ?thesis by (auto simp: form guarded_def split: sum.splits)
  qed
qed

definition shell_env :: "unit file_env" where
  "shell_env = \<lparr>fe_access = (asking_env (\<lambda>_. True))\<lparr>pe_kube := one_kind_env\<lparr>kn_catalog := [\<lparr>rk_key = pod_key, rk_group = [],
       rk_version = ''v1'', rk_kind = ''Pod'', rk_plural = ''pods'', rk_namespaced = True, rk_category = Workloads\<rparr>]\<rparr>\<rparr>,
     fe_probe = (\<lambda>_ w. (True, w)), fe_exec = (\<lambda>_ w. (Inl ''down'', w)), fe_lossy = id, fe_lowercase = id, fe_base64 = Some\<rparr>"

definition tmp_target :: file_target where
  "tmp_target = \<lparr>fq_namespace = ''n'', fq_pod = ''web'', fq_container = ''app'', fq_path = ''/tmp''\<rparr>"

lemma tmp_path: "normalize_file_path ''/tmp'' = Inr ''/tmp''"
  by code_simp

lemma shell_env_grants:
  "\<exists>t. run_state (can_access_files shell_env tmp_target) \<lparr>ft_access = unasked, ft_calls = []\<rparr> = (True, \<lparr>ft_access = t, ft_calls = []\<rparr>)"
proof -
  let ?env = "fe_access shell_env"
  obtain kind where kind: "cluster_entry (kn_catalog (pe_kube ?env)) pod_key = Inr kind" "kind_supports kind Exec"
    by (simp add: cluster_entry_def catalog_by_key_def shell_env_def asking_env_def kind_supports_def capabilities_def
        supports_for_gvk)
  obtain b t where run: "run_state (can_action_of ?env Exec kind pod_key (Some (fq_namespace tmp_target)) (Some (fq_pod tmp_target)) None)
      unasked = (b, t)" by fastforce
  have "steady ?env (\<lambda>_. True) unasked" by (simp add: steady_def shell_env_def asking_env_def unasked_def)
  from can_action_of_decides[unfolded decides_def, rule_format, OF _ this, THEN wp_run, OF _ run] kind
  have "b" by (simp add: needs_def permitted_by_def)
  with run kind show ?thesis by (simp add: can_access_files_def with_access_def backend_can_action_def)
qed

theorem file_commands_are_licensed_witness:
  "\<exists>s'. run_state (handle_file shell_env (\<lambda>_. []) (\<lambda>_. []) ListFiles tmp_target) \<lparr>ft_access = unasked, ft_calls = []\<rparr> =
      (file_reply 502 ''Kubernetes API error: down'', s')
    \<and> length (ft_calls s') = 2 \<and> list_all (licensed_call shell_env ListFiles tmp_target) (ft_calls s')"
proof -
  let ?s = "\<lparr>ft_access = unasked, ft_calls = []\<rparr>"
  have backed: "cache_backed (fe_access shell_env) (ft_access ?s)" by (simp add: cache_backed_def unasked_def)
  obtain r s' where run: "run_state (handle_file shell_env (\<lambda>_. []) (\<lambda>_. []) ListFiles tmp_target) ?s = (r, s')" by fastforce
  from shell_env_grants obtain t where "run_state (can_access_files shell_env tmp_target) ?s = (True, \<lparr>ft_access = t, ft_calls = []\<rparr>)"
    by blast
  with run have "r = file_reply 502 ''Kubernetes API error: down'' \<and> length (ft_calls s') = 2"
    by (auto simp: list_files_def guarded_def validate_target_def tmp_target_def tmp_path answer_files_def
        list_container_directory_def run_as_shell detect_shell_def shells_def call_world_def shell_env_def file_error_def
        and_then_def Let_def)
  with file_commands_are_licensed[OF backed run] run show ?thesis by auto
qed

theorem listing_round_trip_witness:
  "read_entries shell_env (split_on (CHR 0x00) (listing_text [\<lparr>fi_name = ''a b'', fi_kind = Directory, fi_size = 0\<rparr>,
      \<lparr>fi_name = ''x'', fi_kind = RegularFile, fi_size = 12\<rparr>])) [] =
    Inr [\<lparr>fi_name = ''a b'', fi_kind = Directory, fi_size = 0\<rparr>, \<lparr>fi_name = ''x'', fi_kind = RegularFile, fi_size = 12\<rparr>]"
  by (subst listing_round_trip) (simp_all add: listable_def shell_env_def MAX_ENTRIES_def)

text \<open>The name offered for a download is made of letters, digits, dots, hyphens and underscores, and is never empty.\<close>

theorem download_names_are_plain:
  "download_filename path \<noteq> [] \<and> list_all safe_name_char (download_filename path)"
proof -
  have "safe_name_char (CHR ''_'')" by (simp add: safe_name_char_def)
  then have "list_all safe_name_char (sanitize_name name)" for name
    by (auto simp: sanitize_name_def list_all_iff)
  moreover have "list_all safe_name_char ''download''"
    by (simp add: safe_name_char_def is_ascii_alphanumeric_def is_ascii_alphabetic_def is_ascii_lowercase_def code_def)
  ultimately show ?thesis by (simp add: download_filename_def Let_def)
qed

end
