(* ===== verification/ShellProps.thy ===== *)
theory ShellProps
  imports Shell FileProps
begin

text \<open>
  Shells: a debug image is always pinned by its digest, a node shell that did not start is deleted again and one
  that was used is deleted with its session, and a debug container is added to the ones that are there.
\<close>

section \<open>Images\<close>

lemma rsplit_once_str_Some:
  assumes "rsplit_once_str p s = Some (a, b)"
  shows "s = a @ p @ b"
proof -
  from assms obtain i where i: "find (\<lambda>i. starts_with (drop i s) p) (rev [0..<Suc (length s)]) = Some i"
    and ab: "a = take i s" "b = drop (i + length p) s"
    by (auto simp: rsplit_once_str_def simp del: upt_Suc)
  from find_Some_in_set[OF i] have "drop i s = p @ drop (length p) (drop i s)"
    by (metis append_take_drop_id starts_with_def)
  with ab show ?thesis by (metis append_take_drop_id drop_drop add.commute)
qed

definition pinned :: "string \<Rightarrow> bool" where
  "pinned img \<longleftrightarrow> (\<exists>repository digest. img = repository @ ''@sha256:'' @ digest \<and> repository \<noteq> []
     \<and> CHR ''@'' \<notin> set repository \<and> length digest = 64 \<and> list_all is_ascii_hexdigit digest)"

lemma find_append: "find P (xs @ ys) = (case find P xs of None \<Rightarrow> find P ys | Some x \<Rightarrow> Some x)"
  by (induction xs) auto

lemma starts_with_head: "starts_with s (c # q) \<Longrightarrow> c \<in> set s"
  by (cases s) (auto simp: starts_with_def)

lemma rsplit_last:
  assumes "c \<notin> set q" "c \<notin> set b"
  shows "rsplit_once_str (c # q) (a @ (c # q) @ b) = Some (a, b)"
proof -
  let ?n = "length a" and ?s = "a @ (c # q) @ b"
  have later: "\<not> starts_with (drop i ?s) (c # q)" if "?n < i" for i
  proof
    assume "starts_with (drop i ?s) (c # q)"
    then have "c \<in> set (drop i ?s)" by (rule starts_with_head)
    moreover from that obtain k where "i = ?n + Suc k" using less_imp_add_positive by (metis Suc_pred)
    then have "drop i ?s = drop k (q @ b)" by simp
    ultimately have "c \<in> set (q @ b)" by (metis in_set_dropD)
    with assms show False by simp
  qed
  have around: "[0..<m] = [0..<n] @ n # [Suc n..<m]" if "n < m" for n m :: nat
    using upt_add_eq_append[of 0 n "m - n"] that by (simp add: upt_conv_Cons)
  have "[0..<Suc (length ?s)] = [0..<?n] @ ?n # [Suc ?n..<Suc (length ?s)]" by (rule around) simp
  then have "rev [0..<Suc (length ?s)] = rev [Suc ?n..<Suc (length ?s)] @ ?n # rev [0..<?n]" by simp
  moreover have "find (\<lambda>i. starts_with (drop i ?s) (c # q)) (rev [Suc ?n..<Suc (length ?s)]) = None"
    unfolding find_None_iff set_rev set_upt using later by (metis Suc_le_eq atLeastLessThan_iff)
  moreover have "starts_with (drop ?n ?s) (c # q)" by (simp add: starts_with_def)
  ultimately have "find (\<lambda>i. starts_with (drop i ?s) (c # q)) (rev [0..<Suc (length ?s)]) = Some ?n"
    by (simp only: find_append option.case find.simps if_True)
  then show ?thesis by (simp only: rsplit_once_str_def) simp
qed

lemma validate_debug_image_iff: "validate_debug_image img = Inr () \<longleftrightarrow> pinned img"
proof
  assume ok: "validate_debug_image img = Inr ()"
  then obtain a b where split: "rsplit_once_str ''@sha256:'' img = Some (a, b)"
    by (auto simp: validate_debug_image_def split: option.splits)
  from ok have "a \<noteq> []" "CHR ''@'' \<notin> set a" "length b = 64" "list_all is_ascii_hexdigit b"
    by (simp_all only: validate_debug_image_def split option.case prod.case split: if_splits) simp_all
  with rsplit_once_str_Some[OF split] show "pinned img" unfolding pinned_def by blast
next
  assume "pinned img"
  then obtain a b where img: "img = a @ ''@sha256:'' @ b" "a \<noteq> []" "CHR ''@'' \<notin> set a" "length b = 64" "list_all is_ascii_hexdigit b"
    unfolding pinned_def by blast
  have "CHR ''@'' \<notin> set b"
  proof
    assume "CHR ''@'' \<in> set b"
    with img(5) have "is_ascii_hexdigit (CHR ''@'')" by (auto simp: list_all_iff)
    then show False by (simp add: is_ascii_hexdigit_def is_ascii_digit_def code_def)
  qed
  with rsplit_last[of "CHR ''@''" "''sha256:''" b a] img(1)
  have "rsplit_once_str ''@sha256:'' img = Some (a, b)" by simp
  with img show "validate_debug_image img = Inr ()" by (simp add: validate_debug_image_def)
qed

section \<open>A debug container\<close>

lemma debug_name_inject: "debug_name ts i = debug_name ts j \<longleftrightarrow> i = j"
  by (auto simp: debug_name_def show_nat_inject)

text \<open>A free name is always found: there are more candidates than names taken.\<close>

lemma free_debug_name_Some:
  obtains n where "free_debug_name ts taken = Some n" and "n \<notin> set taken"
proof -
  let ?names = "map (debug_name ts) [0..<Suc (length taken)]"
  have "distinct ?names" by (simp add: distinct_map inj_on_def debug_name_inject del: upt_Suc)
  from distinct_card[OF this] have "card (set ?names) = Suc (length taken)" by (simp only: length_map length_upt)
  moreover have "card (set taken) \<le> length taken" by (rule card_length)
  ultimately have "\<not> set ?names \<subseteq> set taken" using card_mono[of "set taken" "set ?names"] by auto
  then obtain n where "find (\<lambda>n. n \<notin> set taken) ?names = Some n"
    by (cases "find (\<lambda>n. n \<notin> set taken) ?names") (auto simp: find_None_iff)
  then show ?thesis using that find_Some_in_set unfolding free_debug_name_def by fastforce
qed

text \<open>A poll keeps the writes and ends when the deadline has passed.\<close>

lemmas shell_steps = shell_instant_def shell_sleep_def shell_read_def shell_send_def wp_rules

lemma await_debug_run:
  assumes "deadline < ss_now s + 500 * fuel"
  shows "wp (await_debug (Suc fuel) env ns pod deadline name img) (\<lambda>r s'. ss_writes s' = ss_writes s
    \<and> (\<exists>x. r = Some x \<and> (case x of Inl _ \<Rightarrow> True | Inr y \<Rightarrow> y = (name, img)))) s"
  using assms
proof (induction fuel arbitrary: s)
  case (Suc fuel)
  note IH = Suc.IH
  show ?case
    unfolding await_debug.simps(2)[of "Suc fuel"]
    using Suc.prems by (auto simp: shell_steps simp del: await_debug.simps split: prod.split sum.split intro!: wp_mono[OF IH])
qed (auto simp: shell_steps split: prod.split)

lemma await_node_shell_run:
  assumes "deadline < ss_now s + 500 * fuel"
  shows "wp (await_node_shell (Suc fuel) env deadline name img) (\<lambda>r s'.
    (\<exists>e. r = Some (Inl e) \<and> ss_writes s' = ss_writes s @ [DeletePod NODE_SHELL_NAMESPACE name])
    \<or> (r = Some (Inr (NODE_SHELL_NAMESPACE, name, img)) \<and> ss_writes s' = ss_writes s)) s"
  using assms
proof (induction fuel arbitrary: s)
  case (Suc fuel)
  note IH = Suc.IH
  show ?case
    unfolding await_node_shell.simps(2)[of "Suc fuel"]
    using Suc.prems
    by (auto simp: shell_steps cleanup_node_shell_def simp del: await_node_shell.simps split: prod.split sum.split
        intro!: wp_mono[OF IH])
qed (auto simp: shell_steps cleanup_node_shell_def split: prod.split)

lemma debug_image_pinned: "debug_image var = Inr img \<Longrightarrow> pinned img"
  by (auto simp: debug_image_def Let_def and_then_Inr validate_debug_image_iff)

lemma await_debug_minute:
  assumes "122 \<le> fuel"
  shows "wp (await_debug fuel env ns pod (ss_now s + 60000) name img) (\<lambda>r s'. ss_writes s' = ss_writes s
    \<and> (\<exists>x. r = Some x \<and> (case x of Inl _ \<Rightarrow> True | Inr y \<Rightarrow> y = (name, img)))) s"
  using assms await_debug_run[of "ss_now s + 60000" s "fuel - 1" env ns pod name img] by (cases fuel) auto

text \<open>One write, which only extends the list by a container with a free name.\<close>

definition debug_added :: "string \<Rightarrow> string \<Rightarrow> json list \<Rightarrow> string \<Rightarrow> 'w shell_st \<Rightarrow> (k8s_error + string \<times> string) option
    \<Rightarrow> 'w shell_st \<Rightarrow> bool" where
  "debug_added ns pod containers img s r s' \<longleftrightarrow> (\<exists>x name. r = Some x \<and> name \<notin> set (container_names containers)
     \<and> ss_writes s' = ss_writes s @ [PatchEphemeral ns pod (containers @ [debug_container name img])]
     \<and> (case x of Inl _ \<Rightarrow> True | Inr y \<Rightarrow> y = (name, img)))"

lemma add_debug_container_run:
  assumes "122 \<le> fuel"
  shows "wp (add_debug_container fuel env ns pod img containers) (debug_added ns pod containers img s) s"
proof -
  have named: "wp (case free_debug_name ts (container_names containers) of
       None \<Rightarrow> ret None
     | Some name \<Rightarrow> do {
         w \<leftarrow> shell_send env (PatchEphemeral ns pod (containers @ [debug_container name img]));
         case w of
           Inl e \<Rightarrow> ret (Some (Inl (api_err e)))
         | Inr _ \<Rightarrow> do {
             now \<leftarrow> shell_instant env;
             await_debug fuel env ns pod (now + 60000) name img } }) (debug_added ns pod containers img s) t"
    if "ss_writes t = ss_writes s" for ts t
  proof -
    obtain name where name: "free_debug_name ts (container_names containers) = Some name" "name \<notin> set (container_names containers)"
      by (rule free_debug_name_Some)
    have polled: "wp (await_debug fuel env ns pod (ss_now t' + 60000) name img) (debug_added ns pod containers img s) t'"
      if "ss_writes t' = ss_writes s @ [PatchEphemeral ns pod (containers @ [debug_container name img])]" for t'
      by (rule wp_mono[OF await_debug_minute[OF assms]]) (use that name(2) in \<open>auto simp: debug_added_def\<close>)
    have later: "wp (await_debug fuel env ns pod (n + 60000) name img) (debug_added ns pod containers img s)
        (t\<lparr>ss_writes := ss_writes t @ [PatchEphemeral ns pod (containers @ [debug_container name img])], ss_world := w, ss_now := n\<rparr>)" for w n
      using polled[of "t\<lparr>ss_writes := ss_writes t @ [PatchEphemeral ns pod (containers @ [debug_container name img])], ss_world := w, ss_now := n\<rparr>"]
        that by simp
    show ?thesis unfolding name(1) option.case using later that name(2)
      by (auto simp: shell_steps debug_added_def[of ns pod containers img s "Some (Inl _)"] split: prod.split sum.split)
  qed
  show ?thesis unfolding add_debug_container_def using named by (auto simp: shell_read_def wp_rules split: prod.split)
qed

text \<open>A debug container is added beside the ones that are there.  With fuel for its minute the call ends; it writes
  at most once, to the ephemeral containers of the pod, whose list it only extends: by a container whose name none of the
  others has and whose image is pinned by a digest.  It succeeds only after that write, with that name and image.\<close>

theorem debug_container_is_added:
  assumes "122 \<le> fuel" and "run_state (inject_debug_container fuel env ns pod) s = (r, s')"
  shows "(ss_writes s' = ss_writes s \<and> (\<exists>e. r = Some (Inl e)))
    \<or> (\<exists>p w img. fst (sh_get env ns pod w) = Inr p \<and> pinned img \<and> debug_added ns pod (pp_ephemeral p) img s r s')"
proof -
  have "wp (inject_debug_container fuel env ns pod) (\<lambda>r s'. (ss_writes s' = ss_writes s \<and> (\<exists>e. r = Some (Inl e)))
    \<or> (\<exists>p w img. fst (sh_get env ns pod w) = Inr p \<and> pinned img \<and> debug_added ns pod (pp_ephemeral p) img s r s')) s"
  proof (cases "debug_image (sh_image env)")
    case (Inr img)
    obtain got w where got: "sh_get env ns pod (ss_world s) = (got, w)" by fastforce
    show ?thesis
    proof (cases got)
      case Inr': (Inr p)
      have "wp (add_debug_container fuel env ns pod img (pp_ephemeral p)) (\<lambda>r s'. (ss_writes s' = ss_writes s \<and> (\<exists>e. r = Some (Inl e)))
        \<or> (\<exists>p w img. fst (sh_get env ns pod w) = Inr p \<and> pinned img \<and> debug_added ns pod (pp_ephemeral p) img s r s')) (s\<lparr>ss_world := w\<rparr>)"
        by (rule wp_mono[OF add_debug_container_run[OF assms(1)]], rule disjI2, rule exI[of _ p], rule exI[of _ "ss_world s"],
            rule exI[of _ img]) (use got Inr' debug_image_pinned[OF Inr] in \<open>simp add: debug_added_def\<close>)
      then show ?thesis using Inr Inr' got by (simp add: inject_debug_container_def shell_read_def wp_rules)
    qed (use Inr got in \<open>simp add: inject_debug_container_def shell_read_def wp_rules\<close>)
  qed (simp add: inject_debug_container_def)
  from wp_run[OF this assms(2)] show ?thesis .
qed

section \<open>A shell on a node\<close>

lemma await_node_shell_minute:
  assumes "122 \<le> fuel"
  shows "wp (await_node_shell fuel env (ss_now s + 60000) name img) (\<lambda>r s'.
    (\<exists>e. r = Some (Inl e) \<and> ss_writes s' = ss_writes s @ [DeletePod NODE_SHELL_NAMESPACE name])
    \<or> (r = Some (Inr (NODE_SHELL_NAMESPACE, name, img)) \<and> ss_writes s' = ss_writes s)) s"
  using assms await_node_shell_run[of "ss_now s + 60000" s "fuel - 1" env name img] by (cases fuel) auto

text \<open>The only ways to end: nothing was asked for, the creation was refused, the pod was deleted again, or it runs.\<close>

inductive shell_outcome :: "'w shell_env \<Rightarrow> string \<Rightarrow> (k8s_error + string \<times> string \<times> string) option \<Rightarrow> shell_write list \<Rightarrow> bool"
  for env node where
    unasked: "shell_outcome env node (Some (Inl e)) []"
  | refused: "fst (sh_write env (CreatePod NODE_SHELL_NAMESPACE name (node_shell_pod name img node)) w) = Inl err \<Longrightarrow>
      shell_outcome env node (Some (Inl e)) [CreatePod NODE_SHELL_NAMESPACE name (node_shell_pod name img node)]"
  | cleaned: "shell_outcome env node (Some (Inl e))
      [CreatePod NODE_SHELL_NAMESPACE name (node_shell_pod name img node), DeletePod NODE_SHELL_NAMESPACE name]"
  | started: "pinned img \<Longrightarrow> shell_outcome env node (Some (Inr (NODE_SHELL_NAMESPACE, name, img)))
      [CreatePod NODE_SHELL_NAMESPACE name (node_shell_pod name img node)]"

inductive_cases shell_outcome_Inl: "shell_outcome env node (Some (Inl e)) ws"
inductive_cases shell_outcome_Inr: "shell_outcome env node (Some (Inr x)) ws"
inductive_simps shell_outcome_None [simp]: "shell_outcome env node None ws"

lemma create_node_shell_run:
  assumes "122 \<le> fuel"
  shows "wp (create_node_shell fuel env node) (\<lambda>r s'. \<exists>ws. ss_writes s' = ss_writes s @ ws \<and> shell_outcome env node r ws) s"
proof (cases "debug_image (sh_image env)")
  case (Inr img)
  let ?Q = "\<lambda>r s'. \<exists>ws. ss_writes s' = ss_writes s @ ws \<and> shell_outcome env node r ws"
  obtain ts w1 where ts: "sh_unix_ms env (ss_world s) = (ts, w1)" by fastforce
  let ?name = "''roder-node-shell-'' @ hex6 ts"
  let ?create = "CreatePod NODE_SHELL_NAMESPACE ?name (node_shell_pod ?name img node)"
  obtain wr w2 where wr: "sh_write env ?create w1 = (wr, w2)" by fastforce
  obtain d w3 where tick: "sh_tick env w2 = (d, w3)" by fastforce
  let ?t = "s\<lparr>ss_writes := ss_writes s @ [?create], ss_world := w3, ss_now := ss_now s + d\<rparr>"
  have "wp (await_node_shell fuel env (ss_now ?t + 60000) ?name img) ?Q ?t"
    by (rule wp_mono[OF await_node_shell_minute[OF assms]])
      (use debug_image_pinned[OF Inr] in \<open>auto intro: shell_outcome.intros\<close>)
  moreover have "?Q (Some (Inl (api_err e))) (s\<lparr>ss_world := w2, ss_writes := ss_writes s @ [?create]\<rparr>)" if "wr = Inl e" for e
    by (rule exI[of _ "[?create]"], intro conjI, simp, rule shell_outcome.refused[of env ?name img node w1 e])
      (simp only: wr that fst_conv)
  ultimately show ?thesis using Inr ts wr tick
    by (cases wr) (simp_all add: create_node_shell_def shell_steps Let_def)
qed (auto simp: create_node_shell_def intro: shell_outcome.intros)


definition slow_env :: "unit shell_env" where
  "slow_env = \<lparr>sh_image = Some (''img@sha256:'' @ replicate 64 (CHR ''a'')), sh_unix_ms = (\<lambda>w. (255, w)),
     sh_tick = (\<lambda>w. (70000, w)), sh_get = (\<lambda>_ _ w. (Inr \<lparr>pp_phase = None, pp_containers = [],
       pp_ephemeral = [JObject [(''name'', JString ''debug-0000ff'')]], pp_ephemeral_states = []\<rparr>, w)),
     sh_write = (\<lambda>_ w. (Inr (), w))\<rparr>"

abbreviation fresh_shell :: "unit shell_st" where
  "fresh_shell \<equiv> \<lparr>ss_world = (), ss_now = 0, ss_writes = []\<rparr>"

lemma slow_env_image: "debug_image (sh_image slow_env) = Inr (''img@sha256:'' @ replicate 64 (CHR ''a''))"
proof -
  let ?img = "''img@sha256:'' @ replicate 64 (CHR ''a'')"
  have "pinned ?img"
    unfolding pinned_def
    by (rule exI[of _ "''img''"], rule exI[of _ "replicate 64 (CHR ''a'')"])
      (simp add: list_all_iff is_ascii_hexdigit_def is_ascii_digit_def code_def)
  then have "validate_debug_image ?img = Inr ()" by (simp only: validate_debug_image_iff)
  then show ?thesis by (simp only: debug_image_def slow_env_def shell_env.simps unwrap_or_def option.case Let_def and_then_def sum.case)
qed


theorem debug_container_is_added_witness:
  "\<exists>c. ss_writes (snd (run_state (inject_debug_container 122 slow_env ''n'' ''web'') fresh_shell)) =
      [PatchEphemeral ''n'' ''web'' [JObject [(''name'', JString ''debug-0000ff'')], c]]"
proof -
  obtain r s' where run: "run_state (inject_debug_container 122 slow_env ''n'' ''web'') fresh_shell = (r, s')" by fastforce
  note once = await_debug.simps(2)[of 121, simplified]
  obtain name where name: "free_debug_name 255 [''debug-0000ff''] = Some name" by (rule free_debug_name_Some)
  have "ss_writes s' \<noteq> []"
    using run unfolding inject_debug_container_def slow_env_image sum.case once add_debug_container_def
    by (auto simp: slow_env_def shell_steps container_names_def map_filter_def name)
  moreover have "p = \<lparr>pp_phase = None, pp_containers = [], pp_ephemeral = [JObject [(''name'', JString ''debug-0000ff'')]], pp_ephemeral_states = []\<rparr>"
    if "fst (sh_get slow_env ''n'' ''web'' w) = Inr p" for p w
    using that by (simp add: slow_env_def)
  ultimately show ?thesis using debug_container_is_added[OF _ run] run by (fastforce simp: debug_added_def)
qed

section \<open>Sessions\<close>

lemma may_run:
  assumes "cache_backed (fe_access (tv_files env)) (tm_access s)" and "act \<noteq> FluxReconcileWithSource"
  shows "wp (may env act key ns name) (\<lambda>b s'. tm_writes s' = tm_writes s \<and> tm_calls s' = tm_calls s
    \<and> (b \<longrightarrow> (\<exists>kind. \<forall>k\<in>set (needs act kind key ns (Some name) None).
         granted (fe_access (tv_files env)) (pm_now (tm_access s)) k (tm_access s')))) s"
proof -
  let ?a = "fe_access (tv_files env)"
  obtain b t where run: "run_state (backend_can_action ?a act key ns (Some name) None) (tm_access s) = (b, t)" by fastforce
  have "\<exists>kind. \<forall>k\<in>set (needs act kind key ns (Some name) None). granted ?a (pm_now (tm_access s)) k t" if b
  proof -
    from run \<open>b\<close> obtain kind where "run_state (can_action_of ?a act kind key ns (Some name) None) (tm_access s) = (b, t)"
      by (auto simp: backend_can_action_def split: sum.splits if_splits)
    from can_action_of_grants[OF assms(2), unfolded grants_def, rule_format, OF _, THEN wp_run, OF _ this, of "pm_now (tm_access s)"]
      assms(1) \<open>b\<close>
    show ?thesis by (auto simp: good_since_def)
  qed
  then show ?thesis by (simp add: may_def as_filing_def with_access_def wp_rules run)
qed

lemma filing_writes: "wp (as_filing m) (\<lambda>_ s'. tm_writes s' = tm_writes s) s"
  by (simp add: as_filing_def wp_rules split: prod.split)

lemma end_node_shell_run:
  "wp (end_node_shell env q) (\<lambda>_ s'. tm_writes s' = tm_writes s @ (if xq_node_shell q
     then [DeletePod (xq_namespace q) (xq_pod q)] else [])) s"
  by (simp add: end_node_shell_def as_shelling_def delete_node_shell_pod_def shell_send_def wp_rules split: prod.split)

lemma exec_session_run:
  "wp (exec_session env q) (\<lambda>_ s'. tm_writes s' = tm_writes s @ (if xq_node_shell q
     then [DeletePod (xq_namespace q) (xq_pod q)] else [])) s"
proof -
  define ws where "ws = (if xq_node_shell q then [DeletePod (xq_namespace q) (xq_pod q)] else [])"
  have ended: "wp (end_node_shell env q) (\<lambda>_ s'. tm_writes s' = tm_writes s @ ws) t" if "tm_writes t = tm_writes s" for t
    using end_node_shell_run[of env q t] that by (simp add: ws_def)
  have attached: "wp (case r of Inr (True, True) \<Rightarrow> do { as_shelling (shell_read (tv_session env)); end_node_shell env q }
      | _ \<Rightarrow> end_node_shell env q) (\<lambda>_ s'. tm_writes s' = tm_writes s @ ws) t" if "tm_writes t = tm_writes s" for r t
    using ended that
    by (auto simp: as_shelling_def shell_read_def wp_rules split: sum.split prod.split bool.split)
  have calls: "wp (attach_exec env c) (\<lambda>_ s'. tm_writes s' = tm_writes t) t" for c t
    unfolding attach_exec_def by (rule filing_writes)
  have shells: "wp (exec_shell env ns pod container) (\<lambda>_ s'. tm_writes s' = tm_writes t) t" for ns pod container t
    unfolding exec_shell_def wp_bind
    by (rule wp_mono[OF filing_writes]) (metis (mono_tags, lifting) calls wp_mono)
  show ?thesis
    unfolding exec_session_def wp_bind exec_node_shell_def ws_def[symmetric]
    by (cases "xq_node_shell q") (simp_all only: if_True if_False, (rule wp_mono[OF calls] wp_mono[OF shells], erule attached)+)
qed

text \<open>A session deletes its node shell, and nothing else.  A connection is only upgraded for an allowed origin and a
  caller who was recently granted executing in the pod; then, however the session ends and whether it began or not, the pod
  of a node shell is deleted, once, and no other write is made; a refused connection makes no call and no write.\<close>

theorem session_deletes_its_node_shell:
  assumes "cache_backed (fe_access (tv_files env)) (tm_access s)" and "run_state (exec_ws env cf origin q) s = (st, s')"
  shows "(st = 403 \<and> tm_writes s' = tm_writes s \<and> tm_calls s' = tm_calls s)
    \<or> (st = 101 \<and> origin_allowed (tv_origin env) origin (cf_base_url cf)
       \<and> tm_writes s' = tm_writes s @ (if xq_node_shell q then [DeletePod (xq_namespace q) (xq_pod q)] else [])
       \<and> (\<exists>t. granted (fe_access (tv_files env)) (pm_now (tm_access s))
            (Access ''create'' pod_key (Some (xq_namespace q)) (Some (xq_pod q)) (Some ''exec'')) t))"
proof (cases "origin_allowed (tv_origin env) origin (cf_base_url cf)")
  case True
  obtain ok s1 where ask: "run_state (may env Exec pod_key (Some (xq_namespace q)) (xq_pod q)) s = (ok, s1)" by fastforce
  from wp_run[OF may_run[OF assms(1), of Exec] ask] have kept: "tm_writes s1 = tm_writes s" "tm_calls s1 = tm_calls s"
    and grant: "ok \<Longrightarrow> granted (fe_access (tv_files env)) (pm_now (tm_access s))
      (Access ''create'' pod_key (Some (xq_namespace q)) (Some (xq_pod q)) (Some ''exec'')) (tm_access s1)"
    by (auto simp: needs_def)
  show ?thesis
  proof (cases ok)
    case ok: True
    obtain s2 where run: "run_state (exec_session env q) s1 = ((), s2)" by (cases "run_state (exec_session env q) s1") auto
    from wp_run[OF exec_session_run run] kept(1) run ask ok True assms(2) grant show ?thesis
      by (auto simp: exec_ws_def)
  qed (use assms(2) ask kept True in \<open>simp add: exec_ws_def\<close>)
qed (use assms(2) in \<open>simp add: exec_ws_def\<close>)

definition node_session :: exec_query where
  "node_session = \<lparr>xq_namespace = ''n'', xq_pod = ''web'', xq_container = None, xq_node_shell = True\<rparr>"

definition session_env :: "unit term_env" where
  "session_env = \<lparr>tv_files = shell_env, tv_shell = slow_env, tv_attach = (\<lambda>_ w. (Inl ''gone'', w)), tv_session = (\<lambda>w. ((), w)),
     tv_origin = (\<lambda>_. None)\<rparr>"

theorem session_deletes_its_node_shell_witness:
  "\<forall>cf. tm_writes (snd (run_state (exec_ws session_env cf None node_session) \<lparr>tm_access = unasked, tm_calls = [], tm_writes = []\<rparr>)) =
    [DeletePod ''n'' ''web'']"
proof
  fix cf
  let ?s = "\<lparr>tm_access = unasked, tm_calls = [], tm_writes = []\<rparr>"
  obtain st s' where run: "run_state (exec_ws session_env cf None node_session) ?s = (st, s')" by fastforce
  have backed: "cache_backed (fe_access (tv_files session_env)) (tm_access ?s)" by (simp add: cache_backed_def unasked_def)
  have "\<exists>t. run_state (may session_env Exec pod_key (Some ''n'') ''web'') ?s = (True, t)"
    using shell_env_grants
    by (auto simp: may_def as_filing_def session_env_def can_access_files_def tmp_target_def split: prod.splits)
  with run have "st = 101"
    by (auto simp: exec_ws_def origin_allowed_def node_session_def split: prod.splits)
  with session_deletes_its_node_shell[OF backed run] run
  show "tm_writes (snd (run_state (exec_ws session_env cf None node_session) ?s)) = [DeletePod ''n'' ''web'']"
    by (simp add: node_session_def)
qed

end
