(* ===== verification/Overview.thy ===== *)
theory Overview
  imports Table Catalog Effects "HOL-Library.Option_ord"
begin

text \<open>
  The dashboard: \<open>crates/k8s/src/backend/overview.rs\<close> gathers the overview of a cluster from a handful of lists
  and keeps it for eight seconds behind a refresh lock; \<open>src/app/overview.rs\<close> judges it in the browser.
  The lists of one overview are read one after the other (the code joins the lists of the controllers), each
  answer is kept as a history; counters are 32-bit words.
\<close>

section \<open>Vocabulary\<close>

record health_rollup =
  hr_total :: "32 word"
  hr_ready :: "32 word"
  hr_reconciling :: "32 word"
  hr_suspended :: "32 word"
  hr_warning :: "32 word"
  hr_failing :: "32 word"
  hr_unknown :: "32 word"
  hr_unreported :: "32 word"

definition new_rollup :: health_rollup where
  "new_rollup = \<lparr>hr_total = 0, hr_ready = 0, hr_reconciling = 0, hr_suspended = 0, hr_warning = 0, hr_failing = 0,
     hr_unknown = 0, hr_unreported = 0\<rparr>"

record resource_health_rollup =
  rh_key :: string
  rh_kind :: string
  rh_health :: health_rollup
  rh_error :: "string option"

record health_signal =
  hs_label :: string
  hs_value :: string
  hs_status :: row_status
  hs_timestamp :: "string option"
  hs_message :: string

record health_group =
  hg_name :: string
  hg_resources :: "resource_health_rollup list"
  hg_signals :: "health_signal list"

record node_summary =
  nd_name :: string
  nd_ready :: bool
  nd_cpu_cores :: "f64 option"
  nd_cpu_used :: "f64 option"
  nd_mem_bytes :: "f64 option"
  nd_mem_used :: "f64 option"
  nd_kubelet_version :: "string option"
  nd_os_image :: "string option"

record overview_warning =
  ow_event_name :: string
  ow_namespace :: "string option"
  ow_involved_kind :: string
  ow_involved_name :: string
  ow_reason :: string
  ow_message :: string
  ow_source :: string
  ow_timestamp :: "string option"
  ow_count :: "32 word"

record cluster_overview =
  co_kubernetes_version :: string
  co_nodes :: "node_summary list"
  co_namespace_count :: "32 word"
  co_pod_total :: "32 word"
  co_pod_running :: "32 word"
  co_pod_pending :: "32 word"
  co_pod_failed :: "32 word"
  co_warnings :: "overview_warning list"
  co_controller_groups :: "health_group list"

text \<open>What the overview reads of a node and of an event.  A time is the text it serialises to.\<close>

record overview_node =
  on_name :: "string option"
  on_conditions :: "kube_condition list option"
  on_capacity :: "(string, string) hmap option"
  on_info :: "(string \<times> string) option"

record warning_event =
  we_name :: "string option"
  we_namespace :: "string option"
  we_involved_kind :: "string option"
  we_involved_name :: "string option"
  we_involved_namespace :: "string option"
  we_reason :: "string option"
  we_message :: "string option"
  we_reporting_component :: "string option"
  we_source :: "string option option"
  we_series :: "(string option \<times> int option) option"
  we_event_time :: "string option"
  we_last_timestamp :: "string option"
  we_count :: "int option"

section \<open>Counting the objects of a kind\<close>

definition status_is_reported :: "dyn_object \<Rightarrow> bool" where
  "status_is_reported obj = (case jget (dy_data obj) ''status'' of
     Some (JObject es) \<Rightarrow> es \<noteq> [] | Some JNull \<Rightarrow> False | None \<Rightarrow> False | Some _ \<Rightarrow> True)"

definition record_status :: "project_env \<Rightarrow> resource_kind \<Rightarrow> dyn_object \<Rightarrow> health_rollup \<Rightarrow> health_rollup" where
  "record_status pe k obj h =
     (let h = h\<lparr>hr_total := hr_total h + 1\<rparr> in
      if resource_suspended (rk_group k) (rk_kind k) (dy_data obj) then h\<lparr>hr_suspended := hr_suspended h + 1\<rparr>
      else (case resource_status pe (rk_group k) (rk_kind k) obj of
          RowOk \<Rightarrow> h\<lparr>hr_ready := hr_ready h + 1\<rparr>
        | RowDone \<Rightarrow> h\<lparr>hr_ready := hr_ready h + 1\<rparr>
        | RowPending \<Rightarrow> h\<lparr>hr_reconciling := hr_reconciling h + 1\<rparr>
        | RowWarn \<Rightarrow> h\<lparr>hr_warning := hr_warning h + 1\<rparr>
        | RowError \<Rightarrow> h\<lparr>hr_failing := hr_failing h + 1\<rparr>
        | RowUnknown \<Rightarrow>
            if status_is_reported obj then h\<lparr>hr_unknown := hr_unknown h + 1\<rparr>
            else h\<lparr>hr_unreported := hr_unreported h + 1\<rparr>))"

definition summarize_resources ::
  "project_env \<Rightarrow> resource_kind \<times> (string + dyn_object list) \<Rightarrow> resource_health_rollup" where
  "summarize_resources pe kr = (case kr of (k, r) \<Rightarrow>
     \<lparr>rh_key = rk_key k, rh_kind = rk_kind k,
      rh_health = (case r of Inr objs \<Rightarrow> fold (record_status pe k) objs new_rollup | Inl _ \<Rightarrow> new_rollup),
      rh_error = (case r of Inr _ \<Rightarrow> None | Inl e \<Rightarrow> Some e)\<rparr>)"

definition shown_rollup :: "resource_health_rollup \<Rightarrow> bool" where
  "shown_rollup r \<longleftrightarrow> 0 < hr_total (rh_health r) \<or> rh_error r \<noteq> None"

definition summarize_all ::
  "project_env \<Rightarrow> (resource_kind \<times> (string + dyn_object list)) list \<Rightarrow> resource_health_rollup list" where
  "summarize_all pe snapshots = filter shown_rollup (map (summarize_resources pe) snapshots)"

definition snapshot_objects :: "(resource_kind \<times> (string + dyn_object list)) list \<Rightarrow> string \<Rightarrow> dyn_object list" where
  "snapshot_objects snapshots kind = (case find (\<lambda>(k, _). rk_kind k = kind) snapshots of
     Some (_, Inr objs) \<Rightarrow> objs | _ \<Rightarrow> [])"

section \<open>Signals of CloudNativePG\<close>

abbreviation own_name :: "dyn_object \<Rightarrow> string" where
  "own_name obj \<equiv> unwrap_or [] (dy_name obj)"

abbreviation own_namespace :: "dyn_object \<Rightarrow> string" where
  "own_namespace obj \<equiv> unwrap_or [] (dy_namespace obj)"

definition parse_timestamp :: "project_env \<Rightarrow> string \<Rightarrow> int option" where
  "parse_timestamp pe s = map_option fst (pe_parse_rfc3339 pe s)"

text \<open>The cluster a completed backup is of, when it stopped, and how that was written.\<close>

definition completed_backup :: "project_env \<Rightarrow> dyn_object \<Rightarrow> ((string \<times> string) \<times> int \<times> string) option" where
  "completed_backup pe b =
     (if str_ascii_lower (text_at (dy_data b) [''status'', ''phase'']) \<notin> {''completed'', ''succeeded''} then None
      else case str_at (dy_data b) [''spec'', ''cluster'', ''name''] of
        None \<Rightarrow> None
      | Some cluster \<Rightarrow> (case str_at (dy_data b) [''status'', ''stoppedAt''] of
          None \<Rightarrow> None
        | Some timestamp \<Rightarrow> (case parse_timestamp pe timestamp of
            None \<Rightarrow> None
          | Some parsed \<Rightarrow> Some ((own_namespace b, cluster), parsed, timestamp))))"

definition latest_backups :: "project_env \<Rightarrow> dyn_object list \<Rightarrow> (string \<times> string, int \<times> string) hmap" where
  "latest_backups pe bs = fold (\<lambda>b m. case completed_backup pe b of
       None \<Rightarrow> m
     | Some (k, parsed, timestamp) \<Rightarrow>
         (case hm_get m k of
            Some (current, _) \<Rightarrow> if current < parsed then hm_insert k (parsed, timestamp) m else m
          | None \<Rightarrow> hm_insert k (parsed, timestamp) m)) bs []"

definition scheduled_run :: "project_env \<Rightarrow> dyn_object \<Rightarrow> ((string \<times> string) \<times> int) option" where
  "scheduled_run pe s = (case str_at (dy_data s) [''spec'', ''cluster'', ''name''] of
     None \<Rightarrow> None
   | Some cluster \<Rightarrow> (case Option.bind (str_at (dy_data s) [''status'', ''lastScheduleTime'']) (parse_timestamp pe) of
       None \<Rightarrow> None
     | Some timestamp \<Rightarrow> Some ((own_namespace s, cluster), timestamp)))"

definition latest_schedules :: "project_env \<Rightarrow> dyn_object list \<Rightarrow> (string \<times> string, int) hmap" where
  "latest_schedules pe ss = fold (\<lambda>s m. case scheduled_run pe s of
       None \<Rightarrow> m
     | Some (k, timestamp) \<Rightarrow>
         (case hm_get m k of
            Some current \<Rightarrow> hm_insert k (max current timestamp) m
          | None \<Rightarrow> hm_insert k timestamp m)) ss []"

definition archival_signal :: "project_env \<Rightarrow> dyn_object \<Rightarrow> health_signal list" where
  "archival_signal pe cluster =
     (case current_condition (projection_data pe cluster) ''ContinuousArchiving'' of
        None \<Rightarrow> []
      | Some archival \<Rightarrow>
          let status = (case Option.bind (jget archival ''status'') as_str of
                Some v \<Rightarrow> if v = ''True'' then RowOk else if v = ''False'' then RowError else RowPending
              | None \<Rightarrow> RowPending) in
          [\<lparr>hs_label = own_name cluster @ '' archival'',
            hs_value = (case status of RowOk \<Rightarrow> ''Healthy'' | RowError \<Rightarrow> ''Failing'' | _ \<Rightarrow> ''Pending''),
            hs_status = status, hs_timestamp = None,
            hs_message = unwrap_or [] (Option.bind (jget archival ''message'') as_str)\<rparr>])"

definition recovery_signal ::
  "(string \<times> string, int \<times> string) hmap \<Rightarrow> (string \<times> string, int) hmap \<Rightarrow> dyn_object \<Rightarrow> health_signal list" where
  "recovery_signal backups schedules cluster =
     (let key = (own_namespace cluster, own_name cluster);
          signal = (\<lambda>value status timestamp message. [\<lparr>hs_label = own_name cluster @ '' backup RPO'', hs_value = value,
            hs_status = status, hs_timestamp = timestamp, hs_message = message\<rparr>])
      in case (hm_get backups key, hm_get schedules key) of
           (None, None) \<Rightarrow> []
         | (None, Some _) \<Rightarrow>
             signal ''No recovery point'' RowError None ''No successful backup after a scheduled run''
         | (Some (completed, timestamp), Some last_run) \<Rightarrow>
             if completed < last_run
             then signal ''Recovery point age'' RowWarn (Some timestamp) ''The latest scheduled run has no completed backup''
             else signal ''Recovery point age'' RowOk (Some timestamp) ''Latest successful recovery point''
         | (Some (_, timestamp), None) \<Rightarrow>
             signal ''Recovery point age'' RowOk (Some timestamp) ''Latest successful recovery point'')"

definition summarize_cnpg_signals ::
  "project_env \<Rightarrow> dyn_object list \<Rightarrow> dyn_object list \<Rightarrow> dyn_object list \<Rightarrow> health_signal list" where
  "summarize_cnpg_signals pe clusters backups schedules =
     sort_key hs_label (concat (map (\<lambda>cluster.
        archival_signal pe cluster
        @ recovery_signal (latest_backups pe backups) (latest_schedules pe schedules) cluster) clusters))"

section \<open>Signals of Kopiur\<close>

definition verification_signal :: "dyn_object \<Rightarrow> health_signal option" where
  "verification_signal policy =
     (let data = dy_data policy;
          suspended = resource_suspended ''kopiur.home-operations.com'' ''SnapshotPolicy'' data;
          verified = str_at data [''status'', ''lastVerified''];
          failed = recorded_verification_failed data
      in if \<not> verification_enabled data then None
         else Some \<lparr>hs_label = own_name policy @ '' verification'',
           hs_value = (if verified \<noteq> None then ''Last verified'' else ''Never verified''),
           hs_status = (if failed \<or> suspended then RowWarn else if verified \<noteq> None then RowOk else RowPending),
           hs_timestamp = verified,
           hs_message =
             (if failed then ''The latest recorded verification attempt failed''
              else if suspended then ''Policy is suspended; verification age will keep increasing''
              else if verified \<noteq> None then ''Most recent successful verification''
              else ''No successful verification recorded'')\<rparr>)"

definition summarize_kopiur_signals :: "dyn_object list \<Rightarrow> health_signal list" where
  "summarize_kopiur_signals policies = sort_key hs_label (List.map_filter verification_signal policies)"

section \<open>Nodes, pods and events\<close>

definition node_summary_of :: "f64_ops \<Rightarrow> (string, f64 \<times> f64) hmap \<Rightarrow> overview_node \<Rightarrow> node_summary" where
  "node_summary_of fo usage n =
     (let name = unwrap_or [] (on_name n); cap = (\<lambda>k. Option.bind (on_capacity n) (\<lambda>m. hm_get m k)) in
      \<lparr>nd_name = name,
       nd_ready = (case on_conditions n of None \<Rightarrow> False
         | Some cs \<Rightarrow> list_ex (\<lambda>c. kc_type c = ''Ready'' \<and> kc_status c = ''True'') cs),
       nd_cpu_cores = map_option (parse_cpu fo) (cap ''cpu''),
       nd_cpu_used = map_option fst (hm_get usage name),
       nd_mem_bytes = map_option (parse_mem fo) (cap ''memory''),
       nd_mem_used = map_option snd (hm_get usage name),
       nd_kubelet_version = nonempty (map_option fst (on_info n)),
       nd_os_image = nonempty (map_option snd (on_info n))\<rparr>)"

definition in_phase :: "string \<Rightarrow> string option \<Rightarrow> bool" where
  "in_phase phase p \<longleftrightarrow> p = Some phase"

definition count_phase :: "string \<Rightarrow> string option list \<Rightarrow> 32 word" where
  "count_phase phase ps = fold (\<lambda>p n. if in_phase phase p then n + 1 else n) ps 0"

definition overview_warning_of :: "warning_event \<Rightarrow> overview_warning" where
  "overview_warning_of e =
     \<lparr>ow_event_name = unwrap_or [] (we_name e),
      ow_namespace = or_else (we_namespace e) (we_involved_namespace e),
      ow_involved_kind = unwrap_or [] (we_involved_kind e),
      ow_involved_name = unwrap_or [] (we_involved_name e),
      ow_reason = unwrap_or [] (we_reason e),
      ow_message = unwrap_or [] (we_message e),
      ow_source = unwrap_or [] (or_else (we_reporting_component e) (Option.bind (we_source e) id)),
      ow_timestamp = or_else (or_else (Option.bind (we_series e) fst) (we_event_time e)) (we_last_timestamp e),
      ow_count = word_of_int (max (unwrap_or 1 (or_else (Option.bind (we_series e) snd) (we_count e))) 1)\<rparr>"

text \<open>A stable sort with the greatest key first.\<close>

definition sort_descending :: "('a \<Rightarrow> 'k::linorder) \<Rightarrow> 'a list \<Rightarrow> 'a list" where
  "sort_descending key xs = rev (sort_key key (rev xs))"

definition latest_warnings :: "warning_event list \<Rightarrow> overview_warning list" where
  "latest_warnings es = take 8 (sort_descending ow_timestamp (map overview_warning_of es))"

section \<open>The overview\<close>

datatype overview_answer =
    NodesListed "overview_node list"
  | PodsListed "string option list"
  | EventsListed "kube_error + warning_event list"
  | ObjectsListed resource_kind "string + dyn_object list"

text \<open>The requests of one overview: the version, the node metrics and the lists; a pod is its phase.\<close>

record 'w overview_env =
  oe_project :: project_env
  oe_catalog :: "resource_kind list"
  oe_probe :: "'w \<Rightarrow> (k8s_error + string) \<times> 'w"
  oe_node_metrics :: "'w \<Rightarrow> node_metric list option \<times> 'w"
  oe_nodes :: "'w \<Rightarrow> (kube_error + overview_node list) \<times> 'w"
  oe_pods :: "'w \<Rightarrow> (kube_error + string option list) \<times> 'w"
  oe_namespaces :: "'w \<Rightarrow> (kube_error + string list) \<times> 'w"
  oe_events :: "string \<Rightarrow> 'w \<Rightarrow> (kube_error + warning_event list) \<times> 'w"
  oe_objects :: "resource_kind \<Rightarrow> 'w \<Rightarrow> (string + dyn_object list) \<times> 'w"

record 'w overview_st =
  ov_world :: 'w
  ov_listed :: "overview_answer list"

type_synonym ('w, 'a) overviewing = "('w overview_st, 'a) state"

definition ask_world :: "('w \<Rightarrow> 'a \<times> 'w) \<Rightarrow> ('w, 'a) overviewing" where
  "ask_world f = State (\<lambda>s. case f (ov_world s) of (a, w) \<Rightarrow> (a, s\<lparr>ov_world := w\<rparr>))"

definition note_answer :: "overview_answer \<Rightarrow> ('w, unit) overviewing" where
  "note_answer a = State (\<lambda>s. ((), s\<lparr>ov_listed := ov_listed s @ [a]\<rparr>))"

definition recent_warnings :: "'w overview_env \<Rightarrow> ('w, k8s_error + overview_warning list) overviewing" where
  "recent_warnings env = do {
     r \<leftarrow> ask_world (oe_events env ''type=Warning'');
     note_answer (EventsListed r);
     ret (map_sum api_err latest_warnings r) }"

definition resource_snapshot ::
  "'w overview_env \<Rightarrow> resource_kind \<Rightarrow> ('w, resource_kind \<times> (string + dyn_object list)) overviewing" where
  "resource_snapshot env k = do {
     r \<leftarrow> ask_world (oe_objects env k);
     note_answer (ObjectsListed k r);
     ret (k, r) }"

definition snapshots_of ::
  "'w overview_env \<Rightarrow> (resource_kind \<Rightarrow> bool) \<Rightarrow> ('w, (resource_kind \<times> (string + dyn_object list)) list) overviewing" where
  "snapshots_of env wanted = map_state (resource_snapshot env) (filter wanted (oe_catalog env))"

definition in_category :: "category \<Rightarrow> string option \<Rightarrow> resource_kind \<Rightarrow> bool" where
  "in_category c grp k \<longleftrightarrow> rk_category k = c \<and> (case grp of None \<Rightarrow> True | Some g \<Rightarrow> rk_group k = g)"

definition resource_rollups ::
  "'w overview_env \<Rightarrow> category \<Rightarrow> string option \<Rightarrow> ('w, resource_health_rollup list) overviewing" where
  "resource_rollups env c grp = do {
     snapshots \<leftarrow> snapshots_of env (in_category c grp);
     ret (summarize_all (oe_project env) snapshots) }"

definition plain_group :: "'w overview_env \<Rightarrow> string \<times> category \<times> string option \<Rightarrow> ('w, health_group) overviewing" where
  "plain_group env g = (case g of (name, c, grp) \<Rightarrow> do {
     resources \<leftarrow> resource_rollups env c grp;
     ret \<lparr>hg_name = name, hg_resources = resources, hg_signals = []\<rparr> })"

definition cnpg_group :: "'w overview_env \<Rightarrow> ('w, health_group) overviewing" where
  "cnpg_group env = do {
     snapshots \<leftarrow> snapshots_of env (in_category CloudNativePg None);
     ret \<lparr>hg_name = ''CloudNativePG'', hg_resources = summarize_all (oe_project env) snapshots,
       hg_signals = summarize_cnpg_signals (oe_project env) (snapshot_objects snapshots ''Cluster'')
         (snapshot_objects snapshots ''Backup'') (snapshot_objects snapshots ''ScheduledBackup'')\<rparr> }"

definition prometheus_kind :: "resource_kind \<Rightarrow> bool" where
  "prometheus_kind k \<longleftrightarrow> rk_group k = ''monitoring.coreos.com''
     \<and> rk_kind k \<in> {''Prometheus'', ''PrometheusAgent'', ''Alertmanager'', ''ThanosRuler''}"

definition prometheus_group :: "'w overview_env \<Rightarrow> ('w, health_group) overviewing" where
  "prometheus_group env = do {
     snapshots \<leftarrow> snapshots_of env prometheus_kind;
     ret \<lparr>hg_name = ''Prometheus Operator'', hg_resources = summarize_all (oe_project env) snapshots, hg_signals = []\<rparr> }"

definition kopiur_group :: "'w overview_env \<Rightarrow> ('w, health_group) overviewing" where
  "kopiur_group env = do {
     snapshots \<leftarrow> snapshots_of env
       (in_category (Custom ''home-operations.com'') (Some ''kopiur.home-operations.com''));
     ret \<lparr>hg_name = ''Kopiur'', hg_resources = summarize_all (oe_project env) snapshots,
       hg_signals = summarize_kopiur_signals (snapshot_objects snapshots ''SnapshotPolicy'')\<rparr> }"

definition plain_groups :: "(string \<times> category \<times> string option) list" where
  "plain_groups = [(''Flux'', Flux, None), (''External Secrets'', ExternalSecrets, None), (''cert-manager'', CertManager, None),
     (''Rook Ceph'', Rook, None),
     (''Tuppr'', Custom ''home-operations.com'', Some ''tuppr.home-operations.com'')]"

definition insert_at :: "nat \<Rightarrow> 'a \<Rightarrow> 'a list \<Rightarrow> 'a list" where
  "insert_at i x xs = take i xs @ x # drop i xs"

definition controller_groups :: "'w overview_env \<Rightarrow> ('w, health_group list) overviewing" where
  "controller_groups env = do {
     groups \<leftarrow> map_state (plain_group env) plain_groups;
     cnpg \<leftarrow> cnpg_group env;
     prometheus \<leftarrow> prometheus_group env;
     kopiur \<leftarrow> kopiur_group env;
     ret (filter (\<lambda>g. hg_resources g \<noteq> [] \<or> hg_signals g \<noteq> [])
       (insert_at 6 kopiur (insert_at 5 prometheus (insert_at 4 cnpg groups)))) }"

definition compute_overview :: "'w overview_env \<Rightarrow> ('w, k8s_error + cluster_overview) overviewing" where
  "compute_overview env = do {
     version \<leftarrow> ask_world (oe_probe env);
     metrics \<leftarrow> ask_world (oe_node_metrics env);
     nodes \<leftarrow> ask_world (oe_nodes env);
     case nodes of
       Inl e \<Rightarrow> ret (Inl (api_err e))
     | Inr ns \<Rightarrow> do {
         note_answer (NodesListed ns);
         pods \<leftarrow> ask_world (oe_pods env);
         case pods of
           Inl e \<Rightarrow> ret (Inl (api_err e))
         | Inr ps \<Rightarrow> do {
             note_answer (PodsListed ps);
             namespaces \<leftarrow> ask_world (oe_namespaces env);
             warnings \<leftarrow> recent_warnings env;
             groups \<leftarrow> controller_groups env;
             ret (Inr \<lparr>co_kubernetes_version = (case version of Inr v \<Rightarrow> v | Inl _ \<Rightarrow> []),
               co_nodes = map (node_summary_of (pe_f64 (oe_project env)) (node_usage (pe_f64 (oe_project env)) metrics)) ns,
               co_namespace_count = (case namespaces of Inr l \<Rightarrow> word_of_nat (length l) | Inl _ \<Rightarrow> 0),
               co_pod_total = word_of_nat (length ps),
               co_pod_running = count_phase ''Running'' ps,
               co_pod_pending = count_phase ''Pending'' ps,
               co_pod_failed = count_phase ''Failed'' ps,
               co_warnings = (case warnings of Inr l \<Rightarrow> l | Inl _ \<Rightarrow> []),
               co_controller_groups = groups\<rparr>) } } }"

section \<open>The cache\<close>

text \<open>
  A caller of \<open>Backend::overview\<close> between its awaits.  It is dropped when its client goes away, wherever it
  waits, and the refresh lock with it.
\<close>

datatype overview_phase =
    Arriving
  | Queued
  | Locked
  | Computing nat
  | Storing nat nat cluster_overview
  | Answered "k8s_error + cluster_overview"
  | Dropped

fun answered :: "overview_phase \<Rightarrow> bool" where
  "answered (Answered r) \<longleftrightarrow> True"
| "answered _ \<longleftrightarrow> False"

record overview_refresh = rf_start :: nat  rf_end :: nat

record overview_sys =
  os_now :: nat
  os_cache :: "(nat \<times> cluster_overview) option"
  os_lock :: "nat option"
  os_phase :: "nat \<Rightarrow> overview_phase"
  os_refreshes :: "overview_refresh list"
  os_answers :: "(nat \<times> cluster_overview) list"

definition OVERVIEW_TTL :: nat where
  "OVERVIEW_TTL = 8000"

definition cached_overview :: "overview_sys \<Rightarrow> cluster_overview option" where
  "cached_overview s = (case os_cache s of
     None \<Rightarrow> None
   | Some (at, ov) \<Rightarrow> if os_now s - at < OVERVIEW_TTL then Some ov else None)"

definition at_phase :: "nat \<Rightarrow> overview_phase \<Rightarrow> overview_sys \<Rightarrow> overview_sys" where
  "at_phase c p s = s\<lparr>os_phase := (os_phase s)(c := p)\<rparr>"

definition release_refresh :: "nat \<Rightarrow> overview_sys \<Rightarrow> overview_sys" where
  "release_refresh c s = (if os_lock s = Some c then s\<lparr>os_lock := None\<rparr> else s)"

definition answer_cached :: "nat \<Rightarrow> cluster_overview \<Rightarrow> overview_sys \<Rightarrow> overview_sys" where
  "answer_cached c ov s = (at_phase c (Answered (Inr ov)) s)\<lparr>os_answers := os_answers s @ [(os_now s, ov)]\<rparr>"

text \<open>The first look at the cache, getting the lock, and the second look.\<close>

definition first_look :: "nat \<Rightarrow> overview_sys \<Rightarrow> overview_sys" where
  "first_look c s = (case cached_overview s of Some ov \<Rightarrow> answer_cached c ov s | None \<Rightarrow> at_phase c Queued s)"

definition take_lock :: "nat \<Rightarrow> overview_sys \<Rightarrow> overview_sys" where
  "take_lock c s = (at_phase c Locked s)\<lparr>os_lock := Some c\<rparr>"

definition second_look :: "nat \<Rightarrow> overview_sys \<Rightarrow> overview_sys" where
  "second_look c s = (case cached_overview s of
     Some ov \<Rightarrow> release_refresh c (answer_cached c ov s)
   | None \<Rightarrow> at_phase c (Computing (os_now s)) s)"

definition computed :: "nat \<Rightarrow> nat \<Rightarrow> k8s_error + cluster_overview \<Rightarrow> overview_sys \<Rightarrow> overview_sys" where
  "computed c start r s = (case r of
     Inl e \<Rightarrow> release_refresh c (at_phase c (Answered (Inl e)) s)
   | Inr ov \<Rightarrow> at_phase c (Storing start (os_now s) ov) s)"

definition store_overview :: "nat \<Rightarrow> nat \<Rightarrow> nat \<Rightarrow> cluster_overview \<Rightarrow> overview_sys \<Rightarrow> overview_sys" where
  "store_overview c start at ov s = release_refresh c ((at_phase c (Answered (Inr ov)) s)\<lparr>
     os_cache := Some (at, ov), os_refreshes := os_refreshes s @ [\<lparr>rf_start = start, rf_end = at\<rparr>],
     os_answers := os_answers s @ [(os_now s, ov)]\<rparr>)"

inductive overview_step :: "'w overview_env \<Rightarrow> overview_sys \<Rightarrow> overview_sys \<Rightarrow> bool" for env where
  wait: "overview_step env s (s\<lparr>os_now := os_now s + d\<rparr>)"
| look: "os_phase s c = Arriving \<Longrightarrow> overview_step env s (first_look c s)"
| lock: "os_phase s c = Queued \<Longrightarrow> os_lock s = None \<Longrightarrow> overview_step env s (take_lock c s)"
| relook: "os_phase s c = Locked \<Longrightarrow> overview_step env s (second_look c s)"
| compute: "os_phase s c = Computing start \<Longrightarrow> run_state (compute_overview env) w = (r, w')
    \<Longrightarrow> overview_step env s (computed c start r s)"
| store: "os_phase s c = Storing start at ov \<Longrightarrow> overview_step env s (store_overview c start at ov s)"
| drop: "\<not> answered (os_phase s c) \<Longrightarrow> overview_step env s (release_refresh c (at_phase c Dropped s))"

definition new_overviews :: overview_sys where
  "new_overviews = \<lparr>os_now = 0, os_cache = None, os_lock = None, os_phase = (\<lambda>_. Arriving), os_refreshes = [], os_answers = []\<rparr>"

section \<open>What the browser makes of it\<close>

datatype health_state = HealthOk | HealthWarning | HealthError

record cluster_health_summary =
  chs_state :: health_state
  chs_label :: string
  chs_summary :: string
  chs_ready_nodes :: nat
  chs_failing :: nat
  chs_caution :: nat

abbreviation all_resources :: "cluster_overview \<Rightarrow> resource_health_rollup list" where
  "all_resources ov \<equiv> concat (map hg_resources (co_controller_groups ov))"

abbreviation all_signals :: "cluster_overview \<Rightarrow> health_signal list" where
  "all_signals ov \<equiv> concat (map hg_signals (co_controller_groups ov))"

definition failing_signals :: "cluster_overview \<Rightarrow> nat" where
  "failing_signals ov =
     unat (co_pod_failed ov)
     + (sum_list (map (\<lambda>r. unat (hr_failing (rh_health r))) (all_resources ov))
        + length (filter (\<lambda>s. hs_status s = RowError) (all_signals ov)))
     + length (filter (\<lambda>r. rh_error r \<noteq> None) (all_resources ov))
     + (length (co_nodes ov) - length (filter nd_ready (co_nodes ov)))"

definition caution_signals :: "cluster_overview \<Rightarrow> nat" where
  "caution_signals ov =
     unat (co_pod_pending ov)
     + sum_list (map (\<lambda>r. unat (hr_suspended (rh_health r))) (all_resources ov))
     + (sum_list (map (\<lambda>r. unat (hr_warning (rh_health r) + hr_unknown (rh_health r))) (all_resources ov))
        + length (filter (\<lambda>s. hs_status s = RowPending \<or> hs_status s = RowWarn) (all_signals ov)))
     + length (co_warnings ov)"

definition plural_s :: "nat \<Rightarrow> string" where
  "plural_s n = (if n = 1 then [] else ''s'')"

definition cluster_health :: "cluster_overview \<Rightarrow> cluster_health_summary" where
  "cluster_health ov =
     (let failing = failing_signals ov; caution = caution_signals ov;
          verdict = (if 0 < failing then (HealthError, ''Attention needed'',
              show_nat failing @ '' failing signal'' @ plural_s failing @ '' across the cluster'')
            else if 0 < caution then (HealthWarning, ''Review recommended'',
              show_nat caution @ '' warning signal'' @ plural_s caution @ '' to review'')
            else (HealthOk, ''Cluster healthy'', ''All tracked systems are operating normally''))
      in \<lparr>chs_state = fst verdict, chs_label = fst (snd verdict), chs_summary = snd (snd verdict),
          chs_ready_nodes = length (filter nd_ready (co_nodes ov)), chs_failing = failing, chs_caution = caution\<rparr>)"

datatype controller_state = CtrlOk | CtrlNeutral | CtrlWarning | CtrlPending | CtrlError

record controller_summary =
  cr_state :: controller_state
  cr_label :: string
  cr_target :: string
  cr_unreadable :: bool
  cr_only_unclassified :: bool

text \<open>Labels of kinds, which are ASCII.\<close>

fun camel_rest :: "char \<Rightarrow> string \<Rightarrow> string" where
  "camel_rest p [] = []"
| "camel_rest p (c # cs) =
     (if is_ascii_uppercase c
        \<and> (is_ascii_lowercase p \<or> is_ascii_digit p \<or> (is_ascii_uppercase p \<and> cs \<noteq> [] \<and> is_ascii_lowercase (hd cs)))
      then [CHR '' ''] else []) @ c # camel_rest c cs"

definition to_ascii_upper :: "char \<Rightarrow> char" where
  "to_ascii_upper c = (if is_ascii_lowercase c then char_of (code c - 32) else c)"

fun camel_label :: "string \<Rightarrow> string" where
  "camel_label [] = []"
| "camel_label (c # cs) = to_ascii_upper c # camel_rest c cs"

definition resource_plural_label :: "string \<Rightarrow> string" where
  "resource_plural_label kind =
     (let label = camel_label kind in
      if kind = ''Prometheus'' then ''Prometheus Instances''
      else case strip_suffix label ''Policy'' of Some stem \<Rightarrow> stem @ ''Policies''
      | None \<Rightarrow> (case strip_suffix label ''Repository'' of Some stem \<Rightarrow> stem @ ''Repositories''
      | None \<Rightarrow> (case strip_suffix label ''Class'' of Some stem \<Rightarrow> stem @ ''Classes''
      | None \<Rightarrow> label @ ''s'')))"

definition controller_rollup :: "resource_health_rollup \<Rightarrow> controller_summary" where
  "controller_rollup r =
     (let h = rh_health r; unreadable = rh_error r \<noteq> None in
      \<lparr>cr_state =
         (if unreadable \<or> 0 < hr_failing h then CtrlError
          else if 0 < hr_reconciling h then CtrlPending
          else if 0 < hr_suspended h \<or> 0 < hr_warning h \<or> 0 < hr_unknown h then CtrlWarning
          else if 0 < hr_unreported h then CtrlNeutral
          else CtrlOk),
       cr_label = resource_plural_label (rh_kind r),
       cr_target = (if rh_key r = [] then rh_kind r else rh_key r),
       cr_unreadable = unreadable,
       cr_only_unclassified = (0 < hr_total h \<and> hr_unknown h + hr_unreported h = hr_total h)\<rparr>)"

definition controller_signal_state :: "row_status \<Rightarrow> controller_state" where
  "controller_signal_state st = (case st of
     RowError \<Rightarrow> CtrlError | RowPending \<Rightarrow> CtrlPending | RowWarn \<Rightarrow> CtrlWarning | RowUnknown \<Rightarrow> CtrlWarning
   | RowOk \<Rightarrow> CtrlOk | RowDone \<Rightarrow> CtrlOk)"

definition kind_for_target :: "resource_kind list \<Rightarrow> string \<Rightarrow> resource_kind option" where
  "kind_for_target catalog key_or_kind = find (\<lambda>k. rk_key k = key_or_kind \<or> rk_kind k = key_or_kind) catalog"

definition core_kind :: "resource_kind list \<Rightarrow> string \<Rightarrow> resource_kind option" where
  "core_kind catalog kind = find (\<lambda>k. rk_group k = [] \<and> rk_kind k = kind) catalog"

end
