(* ===== verification/OverviewProps.thy ===== *)
theory OverviewProps
  imports Overview
begin

text \<open>
  What the dashboard may be trusted with: the counters of a kind partition its objects, a green dashboard means
  that nothing that was listed is wrong, a recovery point is the latest completed backup, and however the
  callers interleave, overviews are computed one at a time and at most every eight seconds.
\<close>

section \<open>Counters\<close>

definition suspended_object :: "resource_kind \<Rightarrow> dyn_object \<Rightarrow> bool" where
  "suspended_object k obj \<longleftrightarrow> resource_suspended (rk_group k) (rk_kind k) (dy_data obj)"

text \<open>The standing of an object: \<open>None\<close> is suspended.\<close>

definition standing :: "project_env \<Rightarrow> resource_kind \<Rightarrow> dyn_object \<Rightarrow> row_status option" where
  "standing pe k obj = (if suspended_object k obj then None else Some (resource_status pe (rk_group k) (rk_kind k) obj))"

definition counted :: "('a \<Rightarrow> bool) \<Rightarrow> 'a list \<Rightarrow> 32 word" where
  "counted P xs = word_of_nat (length (filter P xs))"

lemma counted_simps [simp]:
  "counted P [] = 0" "counted P (x # xs) = (if P x then counted P xs + 1 else counted P xs)"
  by (simp_all add: counted_def algebra_simps)

lemma unat_counted: "length xs < 2 ^ 32 \<Longrightarrow> unat (counted P xs) = length (filter P xs)"
  unfolding counted_def
  using order_le_less_trans[OF length_filter_le[of P xs]] by (simp add: unat_of_nat)

abbreviation has_standing :: "project_env \<Rightarrow> resource_kind \<Rightarrow> row_status set \<Rightarrow> dyn_object \<Rightarrow> bool" where
  "has_standing pe k S obj \<equiv> (case standing pe k obj of None \<Rightarrow> False | Some st \<Rightarrow> st \<in> S)"

lemma fold_record_status:
  "fold (record_status pe k) objs h =
     \<lparr>hr_total = hr_total h + word_of_nat (length objs),
      hr_ready = hr_ready h + counted (has_standing pe k {RowOk, RowDone}) objs,
      hr_reconciling = hr_reconciling h + counted (has_standing pe k {RowPending}) objs,
      hr_suspended = hr_suspended h + counted (suspended_object k) objs,
      hr_warning = hr_warning h + counted (has_standing pe k {RowWarn}) objs,
      hr_failing = hr_failing h + counted (has_standing pe k {RowError}) objs,
      hr_unknown = hr_unknown h + counted (\<lambda>obj. has_standing pe k {RowUnknown} obj \<and> status_is_reported obj) objs,
      hr_unreported = hr_unreported h
        + counted (\<lambda>obj. has_standing pe k {RowUnknown} obj \<and> \<not> status_is_reported obj) objs\<rparr>"
proof (induction objs arbitrary: h)
  case (Cons obj objs)
  show ?case
    unfolding fold.simps comp_def Cons
    by (auto simp: record_status_def standing_def[of pe k obj] suspended_object_def[of k obj] Let_def algebra_simps
        split: row_status.splits)
qed simp

lemmas rollup_counts = fold_record_status[where h = new_rollup, unfolded new_rollup_def, simplified]

lemma partition_length:
  "length (filter (has_standing pe k {RowOk, RowDone}) objs) + length (filter (has_standing pe k {RowPending}) objs)
   + length (filter (suspended_object k) objs) + length (filter (has_standing pe k {RowWarn}) objs)
   + length (filter (has_standing pe k {RowError}) objs)
   + length (filter (\<lambda>obj. has_standing pe k {RowUnknown} obj \<and> status_is_reported obj) objs)
   + length (filter (\<lambda>obj. has_standing pe k {RowUnknown} obj \<and> \<not> status_is_reported obj) objs) = length objs"
proof (induction objs)
  case (Cons obj objs)
  then show ?case
    by (cases "resource_status pe (rk_group k) (rk_kind k) obj") (auto simp: standing_def)
qed simp

text \<open>The counters of a kind partition its objects.  For a list of less than \<open>2^32\<close> objects the total is
  their number, every other counter is the number of the objects with that standing (ready, reconciling,
  suspended, warning, failing, or an unknown status that is or is not reported), and the others add up to the
  total; a list that failed counts nothing and keeps its error.\<close>
theorem rollup_partitions_the_objects:
  assumes "length objs < 2 ^ 32"
  shows "(let h = rh_health (summarize_resources pe (k, Inr objs)) in
      unat (hr_total h) = length objs
    \<and> unat (hr_ready h) = length (filter (has_standing pe k {RowOk, RowDone}) objs)
    \<and> unat (hr_reconciling h) = length (filter (has_standing pe k {RowPending}) objs)
    \<and> unat (hr_suspended h) = length (filter (suspended_object k) objs)
    \<and> unat (hr_warning h) = length (filter (has_standing pe k {RowWarn}) objs)
    \<and> unat (hr_failing h) = length (filter (has_standing pe k {RowError}) objs)
    \<and> unat (hr_total h) = unat (hr_ready h) + unat (hr_reconciling h) + unat (hr_suspended h) + unat (hr_warning h)
        + unat (hr_failing h) + unat (hr_unknown h) + unat (hr_unreported h))
    \<and> rh_error (summarize_resources pe (k, Inr objs)) = None
    \<and> rh_health (summarize_resources pe (k, Inl e)) = new_rollup
    \<and> rh_error (summarize_resources pe (k, Inl e)) = Some e"
  using partition_length[of pe k objs] assms
  by (simp add: summarize_resources_def rollup_counts new_rollup_def unat_counted unat_of_nat Let_def)

section \<open>Recovery points\<close>

lemma latest_backups_snoc:
  "latest_backups pe (bs @ [b]) = (case completed_backup pe b of
       None \<Rightarrow> latest_backups pe bs
     | Some (k, parsed, timestamp) \<Rightarrow>
         (case hm_get (latest_backups pe bs) k of
            Some (current, _) \<Rightarrow> if current < parsed then hm_insert k (parsed, timestamp) (latest_backups pe bs)
              else latest_backups pe bs
          | None \<Rightarrow> hm_insert k (parsed, timestamp) (latest_backups pe bs)))"
  unfolding latest_backups_def fold_append by simp

lemma latest_backups_None:
  "hm_get (latest_backups pe bs) key = None \<longleftrightarrow> (\<forall>b\<in>set bs. \<forall>t w. completed_backup pe b \<noteq> Some (key, t, w))"
proof (induction bs rule: rev_induct)
  case (snoc b bs)
  show ?case
    by (cases "completed_backup pe b") (auto simp: latest_backups_snoc snoc split: option.splits if_splits)
qed (simp add: latest_backups_def)

lemma latest_backups_Some:
  "hm_get (latest_backups pe bs) key = Some (t, w) \<Longrightarrow>
     (\<exists>b\<in>set bs. completed_backup pe b = Some (key, t, w))
     \<and> (\<forall>b\<in>set bs. \<forall>t' w'. completed_backup pe b = Some (key, t', w') \<longrightarrow> t' \<le> t)"
proof (induction bs arbitrary: t w rule: rev_induct)
  case (snoc b bs)
  have unchanged: "\<nexists>t' w'. completed_backup pe b = Some (key, t', w') \<Longrightarrow> ?case"
    using snoc.prems snoc.IH[of t w] by (auto simp: latest_backups_snoc split: option.splits if_splits prod.splits)
  show ?case
  proof (cases "\<exists>t' w'. completed_backup pe b = Some (key, t', w')")
    case True
    then obtain p w' where b: "completed_backup pe b = Some (key, p, w')" by blast
    show ?thesis
    proof (cases "hm_get (latest_backups pe bs) key")
      case None
      with b snoc.prems show ?thesis
        by (auto simp: latest_backups_snoc latest_backups_None)
    next
      case (Some c)
      with snoc.IH[of "fst c" "snd c"]
      have "\<exists>b\<in>set bs. completed_backup pe b = Some (key, c)"
        and "\<And>b t' w'. b \<in> set bs \<Longrightarrow> completed_backup pe b = Some (key, t', w') \<Longrightarrow> t' \<le> fst c"
        by auto
      moreover have "(if fst c < p then (p, w') else c) = (t, w)"
        using b Some snoc.prems by (cases c) (auto simp: latest_backups_snoc split: if_splits)
      ultimately show ?thesis
        using b by (cases "fst c < p") (fastforce dest: order_trans[OF _ less_imp_le])+
    qed
  qed (rule unchanged)
qed (simp add: latest_backups_def)

lemma latest_schedules_snoc:
  "latest_schedules pe (ss @ [x]) = (case scheduled_run pe x of
       None \<Rightarrow> latest_schedules pe ss
     | Some (k, timestamp) \<Rightarrow>
         (case hm_get (latest_schedules pe ss) k of
            Some current \<Rightarrow> hm_insert k (max current timestamp) (latest_schedules pe ss)
          | None \<Rightarrow> hm_insert k timestamp (latest_schedules pe ss)))"
  unfolding latest_schedules_def fold_append by simp

lemma latest_schedules_None:
  "hm_get (latest_schedules pe ss) key = None \<longleftrightarrow> (\<forall>x\<in>set ss. \<forall>t. scheduled_run pe x \<noteq> Some (key, t))"
proof (induction ss rule: rev_induct)
  case (snoc x ss)
  show ?case
    by (cases "scheduled_run pe x") (auto simp: latest_schedules_snoc snoc split: option.splits if_splits)
qed (simp add: latest_schedules_def)

lemma latest_schedules_Some:
  "hm_get (latest_schedules pe ss) key = Some t \<Longrightarrow>
     (\<exists>x\<in>set ss. scheduled_run pe x = Some (key, t))
     \<and> (\<forall>x\<in>set ss. \<forall>t'. scheduled_run pe x = Some (key, t') \<longrightarrow> t' \<le> t)"
proof (induction ss arbitrary: t rule: rev_induct)
  case (snoc x ss)
  have unchanged: "\<nexists>t'. scheduled_run pe x = Some (key, t') \<Longrightarrow> ?case"
    using snoc.prems snoc.IH[of t] by (auto simp: latest_schedules_snoc split: option.splits if_splits prod.splits)
  show ?case
  proof (cases "\<exists>t'. scheduled_run pe x = Some (key, t')")
    case True
    then obtain r where x: "scheduled_run pe x = Some (key, r)" by blast
    show ?thesis
    proof (cases "hm_get (latest_schedules pe ss) key")
      case None
      with x snoc.prems show ?thesis
        by (auto simp: latest_schedules_snoc latest_schedules_None)
    next
      case (Some c)
      with x snoc.prems have "t = max c r" by (simp add: latest_schedules_snoc)
      with x Some snoc.IH[of c] show ?thesis
        by (cases "c \<le> r") (auto simp: max_def intro: order_trans)
    qed
  qed (rule unchanged)
qed (simp add: latest_schedules_def)

abbreviation cluster_key :: "dyn_object \<Rightarrow> string \<times> string" where
  "cluster_key c \<equiv> (own_namespace c, own_name c)"

definition completed_at :: "project_env \<Rightarrow> dyn_object list \<Rightarrow> dyn_object \<Rightarrow> int \<Rightarrow> bool" where
  "completed_at pe backups c t \<longleftrightarrow> (\<exists>b\<in>set backups. \<exists>w. completed_backup pe b = Some (cluster_key c, t, w))"

definition ran_at :: "project_env \<Rightarrow> dyn_object list \<Rightarrow> dyn_object \<Rightarrow> int \<Rightarrow> bool" where
  "ran_at pe schedules c t \<longleftrightarrow> (\<exists>x\<in>set schedules. scheduled_run pe x = Some (cluster_key c, t))"

lemma recovery_signal_status:
  assumes "sg \<in> set (recovery_signal (latest_backups pe bs) (latest_schedules pe ss) c)"
  shows "hs_label sg = own_name c @ '' backup RPO''
    \<and> (hs_status sg = RowError \<longleftrightarrow> (\<forall>t. \<not> completed_at pe bs c t) \<and> (\<exists>t. ran_at pe ss c t))
    \<and> (hs_status sg = RowWarn \<longleftrightarrow> (\<exists>t. completed_at pe bs c t)
        \<and> (\<exists>run. ran_at pe ss c run \<and> (\<forall>t. completed_at pe bs c t \<longrightarrow> t < run)))
    \<and> hs_status sg \<in> {RowOk, RowWarn, RowError}"
proof (cases "hm_get (latest_backups pe bs) (cluster_key c)")
  case None
  then have none: "\<not> completed_at pe bs c t" for t
    by (simp add: latest_backups_None completed_at_def)
  from None assms obtain r where "hm_get (latest_schedules pe ss) (cluster_key c) = Some r"
    by (cases "hm_get (latest_schedules pe ss) (cluster_key c)") (auto simp: recovery_signal_def Let_def)
  from this latest_schedules_Some[OF this] none None assms show ?thesis
    by (auto simp: recovery_signal_def ran_at_def)
next
  case (Some tw)
  then obtain t w where tw: "hm_get (latest_backups pe bs) (cluster_key c) = Some (t, w)" by (cases tw) auto
  from latest_backups_Some[OF this] have last: "completed_at pe bs c t" "completed_at pe bs c t' \<Longrightarrow> t' \<le> t" for t'
    by (auto simp: completed_at_def)
  show ?thesis
  proof (cases "hm_get (latest_schedules pe ss) (cluster_key c)")
    case None
    then have "\<not> ran_at pe ss c r" for r
      by (simp add: latest_schedules_None ran_at_def)
    with None tw assms last show ?thesis
      by (auto simp: recovery_signal_def)
  next
    case (Some r)
    from latest_schedules_Some[OF this] have "ran_at pe ss c r" "ran_at pe ss c r' \<Longrightarrow> r' \<le> r" for r'
      by (auto simp: ran_at_def)
    with Some tw assms last show ?thesis
      by (auto simp: recovery_signal_def split: if_splits) (meson not_less order_trans leD)+
  qed
qed

text \<open>A recovery point is the latest completed backup.  Whatever the lists hold, every cluster that has a completed
  backup or a scheduled run has a recovery signal under its name: an error exactly when a run was scheduled and no
  backup ever completed, a warning exactly when a run is younger than every completed backup, and well otherwise;
  and the signals are ordered by their labels.\<close>
theorem recovery_point_is_the_latest:
  assumes "c \<in> set clusters"
    and "(\<exists>t. completed_at pe backups c t) \<or> (\<exists>t. ran_at pe schedules c t)"
  shows "(\<exists>sg \<in> set (summarize_cnpg_signals pe clusters backups schedules).
       hs_label sg = own_name c @ '' backup RPO''
     \<and> (hs_status sg = RowError \<longleftrightarrow> (\<forall>t. \<not> completed_at pe backups c t) \<and> (\<exists>t. ran_at pe schedules c t))
     \<and> (hs_status sg = RowWarn \<longleftrightarrow> (\<exists>t. completed_at pe backups c t)
         \<and> (\<exists>run. ran_at pe schedules c run \<and> (\<forall>t. completed_at pe backups c t \<longrightarrow> t < run)))
     \<and> hs_status sg \<in> {RowOk, RowWarn, RowError})
   \<and> sorted (map hs_label (summarize_cnpg_signals pe clusters backups schedules))"
  (is "(\<exists>sg \<in> _. ?P sg) \<and> _")
proof -
  let ?R = "recovery_signal (latest_backups pe backups) (latest_schedules pe schedules) c"
  have "hm_get (latest_backups pe backups) (cluster_key c) \<noteq> None
      \<or> hm_get (latest_schedules pe schedules) (cluster_key c) \<noteq> None"
    using assms(2) by (auto simp: latest_backups_None latest_schedules_None completed_at_def ran_at_def simp del: not_None_eq)
  then have "?R \<noteq> []"
    by (cases "hm_get (latest_backups pe backups) (cluster_key c)";
        cases "hm_get (latest_schedules pe schedules) (cluster_key c)") (auto simp: recovery_signal_def Let_def split: if_splits)
  then obtain sg where sg: "sg \<in> set ?R"
    by (cases ?R) auto
  then have "sg \<in> set (summarize_cnpg_signals pe clusters backups schedules)"
    using assms(1) by (auto simp: summarize_cnpg_signals_def)
  with recovery_signal_status[OF sg] have "\<exists>sg \<in> set (summarize_cnpg_signals pe clusters backups schedules). ?P sg"
    by (rule bexI[of _ sg])
  then show ?thesis
    by (simp only: summarize_cnpg_signals_def) simp
qed

section \<open>A green dashboard\<close>

abbreviation listed_objects :: "(resource_kind \<times> (string + dyn_object list)) list \<Rightarrow> overview_answer list" where
  "listed_objects sn \<equiv> map (\<lambda>(k, r). ObjectsListed k r) sn"

text \<open>The environment lists fewer than \<open>2^32\<close> objects at a time.\<close>

definition small :: "'e + 'a list \<Rightarrow> bool" where
  "small r \<longleftrightarrow> (case r of Inl _ \<Rightarrow> True | Inr xs \<Rightarrow> length xs < 2 ^ 32)"

definition bounded_lists :: "'w overview_env \<Rightarrow> bool" where
  "bounded_lists env \<longleftrightarrow>
     (\<forall>k w. small (fst (oe_objects env k w))) \<and> (\<forall>w. small (fst (oe_pods env w)))"

text \<open>From \<open>s\<close> to \<open>s'\<close> the kinds \<open>K\<close> have been listed, and what was listed is among \<open>rs\<close> unless there is nothing to show.\<close>

definition gathers ::
  "project_env \<Rightarrow> resource_kind set \<Rightarrow> resource_health_rollup set \<Rightarrow> 'w overview_st \<Rightarrow> 'w overview_st \<Rightarrow> bool" where
  "gathers pe K rs s s' \<longleftrightarrow> (\<exists>sn. ov_listed s' = ov_listed s @ listed_objects sn
     \<and> K \<subseteq> fst ` set sn
     \<and> (\<forall>x\<in>set sn. small (snd x))
     \<and> (\<forall>x\<in>set sn. shown_rollup (summarize_resources pe x) \<longrightarrow> summarize_resources pe x \<in> rs))"

lemma gathers_trans:
  assumes "gathers pe K rs s s'" "gathers pe K' rs' s' s''"
  shows "gathers pe (K \<union> K') (rs \<union> rs') s s''"
proof -
  from assms obtain sn sn' where "ov_listed s' = ov_listed s @ listed_objects sn" "K \<subseteq> fst ` set sn"
      "\<forall>x\<in>set sn. small (snd x)"
      "\<forall>x\<in>set sn. shown_rollup (summarize_resources pe x) \<longrightarrow> summarize_resources pe x \<in> rs"
    and "ov_listed s'' = ov_listed s' @ listed_objects sn'" "K' \<subseteq> fst ` set sn'"
      "\<forall>x\<in>set sn'. small (snd x)"
      "\<forall>x\<in>set sn'. shown_rollup (summarize_resources pe x) \<longrightarrow> summarize_resources pe x \<in> rs'"
    unfolding gathers_def by blast
  then show ?thesis
    unfolding gathers_def
    by (intro exI[of _ "sn @ sn'"]) (simp add: ball_Un image_Un, blast)
qed

lemma gathers_refl: "gathers pe {} {} s s"
  unfolding gathers_def by (intro exI[of _ "[]"]) simp

lemma gathers_mono: "gathers pe K rs s s' \<Longrightarrow> rs \<subseteq> rs' \<Longrightarrow> K' \<subseteq> K \<Longrightarrow> gathers pe K' rs' s s'"
  unfolding gathers_def by blast

lemma resource_snapshot_ok:
  assumes "bounded_lists env"
  shows "wp (resource_snapshot env k) (\<lambda>x s'. fst x = k \<and> gathers pe {k} {summarize_resources pe x} s s') s"
proof -
  obtain r w where r: "oe_objects env k (ov_world s) = (r, w)" by (cases "oe_objects env k (ov_world s)")
  with assms have "small r"
    unfolding bounded_lists_def by (metis fst_conv)
  then have "gathers pe {k} {summarize_resources pe (k, r)} s
      (s\<lparr>ov_world := w, ov_listed := ov_listed s @ [ObjectsListed k r]\<rparr>)"
    unfolding gathers_def by (intro exI[of _ "[(k, r)]"]) simp
  with r show ?thesis
    by (simp add: resource_snapshot_def ask_world_def note_answer_def wp_rules)
qed

lemma snapshots_ok:
  assumes "bounded_lists env"
  shows "wp (map_state (resource_snapshot env) ks)
    (\<lambda>sn s'. gathers pe (set ks) (set (map (summarize_resources pe) sn)) s s') s"
proof (induction ks arbitrary: s)
  case (Cons k ks)
  show ?case
    unfolding map_state.simps wp_bind
    by (rule wp_mono[OF resource_snapshot_ok[OF assms, where pe = pe]], rule wp_mono[OF Cons])
      (auto dest: gathers_trans)
qed (simp add: gathers_refl)

lemma gathers_shown:
  "gathers pe K (set (map (summarize_resources pe) sn)) s s' \<Longrightarrow> gathers pe K (set (summarize_all pe sn)) s s'"
  unfolding gathers_def summarize_all_def by auto

definition wanted_of :: "'w overview_env \<Rightarrow> (resource_kind \<Rightarrow> bool) \<Rightarrow> resource_kind set" where
  "wanted_of env P = {k \<in> set (oe_catalog env). P k}"

lemma snapshots_of_ok:
  assumes "bounded_lists env"
  shows "wp (snapshots_of env P)
    (\<lambda>sn s'. gathers pe (wanted_of env P) (set (summarize_all pe sn)) s s') s"
  unfolding snapshots_of_def
  by (rule wp_mono[OF snapshots_ok[OF assms, where pe = pe]])
    (simp add: wanted_of_def gathers_shown flip: set_map)

abbreviation group_gathers ::
  "'w overview_env \<Rightarrow> (resource_kind \<Rightarrow> bool) \<Rightarrow> 'w overview_st \<Rightarrow> health_group \<Rightarrow> 'w overview_st \<Rightarrow> bool" where
  "group_gathers env P s \<equiv> (\<lambda>g s'. gathers (oe_project env) (wanted_of env P) (set (hg_resources g)) s s')"

lemma groups_ok:
  assumes "bounded_lists env"
  shows "wp (plain_group env g) (group_gathers env (in_category (fst (snd g)) (snd (snd g))) s) s"
    and "wp (cnpg_group env) (group_gathers env (in_category CloudNativePg None) s) s"
    and "wp (prometheus_group env) (group_gathers env prometheus_kind s) s"
    and "wp (kopiur_group env) (group_gathers env
       (in_category (Custom ''home-operations.com'') (Some ''kopiur.home-operations.com'')) s) s"
  by (auto simp: plain_group_def resource_rollups_def cnpg_group_def prometheus_group_def kopiur_group_def wp_bind
      split: prod.splits intro!: wp_mono[OF snapshots_of_ok[OF assms]])

lemma plain_groups_ok:
  assumes "bounded_lists env"
  shows "wp (map_state (plain_group env) gs)
    (\<lambda>Gs s'. gathers (oe_project env) (\<Union>g\<in>set gs. wanted_of env (in_category (fst (snd g)) (snd (snd g))))
       (set (concat (map hg_resources Gs))) s s') s"
proof (induction gs arbitrary: s)
  case (Cons g gs)
  show ?case
    unfolding map_state.simps wp_bind
    by (rule wp_mono[OF groups_ok(1)[OF assms]], rule wp_mono[OF Cons]) (auto dest: gathers_trans)
qed (simp add: gathers_refl)

lemma kept_groups:
  "set (concat (map hg_resources (filter (\<lambda>g. hg_resources g \<noteq> [] \<or> hg_signals g \<noteq> []) gs))) =
     set (concat (map hg_resources gs))"
  by (induction gs) auto

text \<open>The kinds the dashboard watches over.\<close>

definition dashboard_kind :: "resource_kind \<Rightarrow> bool" where
  "dashboard_kind k \<longleftrightarrow> rk_category k \<in> {Flux, ExternalSecrets, CertManager, Rook, CloudNativePg}
     \<or> prometheus_kind k
     \<or> rk_category k = Custom ''home-operations.com''
       \<and> rk_group k \<in> {''tuppr.home-operations.com'', ''kopiur.home-operations.com''}"

lemma set_insert_at [simp]: "set (insert_at i x xs) = insert x (set xs)"
  unfolding insert_at_def by (metis append_take_drop_id Un_insert_right list.simps(15) set_append)

lemma controller_groups_ok:
  assumes "bounded_lists env"
  shows "wp (controller_groups env)
    (\<lambda>gs s'. gathers (oe_project env) {k \<in> set (oe_catalog env). dashboard_kind k}
       (set (concat (map hg_resources gs))) s s') s"
  unfolding controller_groups_def wp_bind
proof (rule wp_mono[OF plain_groups_ok[OF assms]], rule wp_mono[OF groups_ok(2)[OF assms]],
    rule wp_mono[OF groups_ok(3)[OF assms]], rule wp_mono[OF groups_ok(4)[OF assms]], goal_cases)
  case (1 gs s1 c s2 p s3 k s4)
  from gathers_trans[OF gathers_trans[OF gathers_trans[OF 1(1) 1(2)] 1(3)] 1(4)]
  show ?case
    unfolding wp_return kept_groups
  proof (rule gathers_mono)
    show "{k \<in> set (oe_catalog env). dashboard_kind k} \<subseteq>
        (\<Union>g\<in>set plain_groups. wanted_of env (in_category (fst (snd g)) (snd (snd g))))
        \<union> wanted_of env (in_category CloudNativePg None) \<union> wanted_of env prometheus_kind
        \<union> wanted_of env (in_category (Custom ''home-operations.com'') (Some ''kopiur.home-operations.com''))"
      by (auto simp: plain_groups_def wanted_of_def in_category_def dashboard_kind_def)
  qed auto
qed

lemma counted_zero: "length xs < 2 ^ 32 \<Longrightarrow> counted P xs = 0 \<longleftrightarrow> (\<forall>x\<in>set xs. \<not> P x)"
  using unat_counted[of xs P] by (auto simp: unat_eq_0 filter_empty_conv)

lemma counted_either:
  "(\<And>x. x \<in> set xs \<Longrightarrow> \<not> (P x \<and> Q x)) \<Longrightarrow> counted P xs + counted Q xs = counted (\<lambda>x. P x \<or> Q x) xs"
  by (induction xs) auto

lemma count_phase_counted: "count_phase phase ps = counted (in_phase phase) ps"
proof -
  have "fold (\<lambda>p n. if in_phase phase p then n + 1 else n) ps n = n + counted (in_phase phase) ps" for n
    by (induction ps arbitrary: n) (simp_all add: algebra_simps)
  then show ?thesis by (simp add: count_phase_def)
qed

text \<open>An object that gives no reason to look at it: neither suspended nor failing nor warning, and its status known
  or not yet reported.\<close>

definition quiet_object :: "project_env \<Rightarrow> resource_kind \<Rightarrow> dyn_object \<Rightarrow> bool" where
  "quiet_object pe k obj \<longleftrightarrow> \<not> suspended_object k obj
     \<and> (resource_status pe (rk_group k) (rk_kind k) obj \<in> {RowOk, RowDone, RowPending}
        \<or> resource_status pe (rk_group k) (rk_kind k) obj = RowUnknown \<and> \<not> status_is_reported obj)"

definition quiet_rollup :: "resource_health_rollup \<Rightarrow> bool" where
  "quiet_rollup r \<longleftrightarrow> rh_error r = None \<and> hr_failing (rh_health r) = 0 \<and> hr_suspended (rh_health r) = 0
     \<and> hr_warning (rh_health r) + hr_unknown (rh_health r) = 0"

lemma quiet_objects:
  assumes "small r" and "shown_rollup (summarize_resources pe (k, r)) \<Longrightarrow> quiet_rollup (summarize_resources pe (k, r))"
  shows "\<exists>objs. r = Inr objs \<and> (\<forall>obj\<in>set objs. quiet_object pe k obj)"
proof (cases r)
  case (Inl e)
  with assms(2) show ?thesis
    by (simp add: summarize_resources_def shown_rollup_def quiet_rollup_def)
next
  case (Inr objs)
  with assms(1) have small: "length objs < 2 ^ 32" by (simp add: small_def)
  show ?thesis
  proof (cases "shown_rollup (summarize_resources pe (k, r))")
    case False
    with Inr have "word_of_nat (length objs) = (0 :: 32 word)"
      by (simp add: summarize_resources_def shown_rollup_def rollup_counts new_rollup_def word_gt_0)
    then have "unat (word_of_nat (length objs) :: 32 word) = 0" by simp
    with small have "objs = []"
      by (simp add: unat_of_nat)
    with Inr show ?thesis by simp
  next
    case True
    from assms(2)[OF True] Inr
    have zero: "counted (has_standing pe k {RowError}) objs = 0" "counted (suspended_object k) objs = 0"
      "counted (has_standing pe k {RowWarn}) objs
        + counted (\<lambda>obj. has_standing pe k {RowUnknown} obj \<and> status_is_reported obj) objs = 0"
      by (simp_all add: quiet_rollup_def summarize_resources_def rollup_counts new_rollup_def)
    from zero(3) have "counted (\<lambda>obj. has_standing pe k {RowWarn} obj
        \<or> has_standing pe k {RowUnknown} obj \<and> status_is_reported obj) objs = 0"
      by (subst counted_either[symmetric]) (auto split: option.splits)
    with zero(1,2) have "quiet_object pe k obj" if "obj \<in> set objs" for obj
      using that unfolding counted_zero[OF small]
      by (cases "resource_status pe (rk_group k) (rk_kind k) obj") (auto simp: quiet_object_def standing_def)
    with Inr show ?thesis by blast
  qed
qed

lemma length_minus_filter: "length xs - length (filter P xs) = 0 \<longleftrightarrow> (\<forall>x\<in>set xs. P x)"
proof -
  have "length xs - length (filter P xs) = length (filter (\<lambda>x. \<not> P x) xs)"
    using sum_length_filter_compl[of P xs] by linarith
  then show ?thesis by (simp add: filter_empty_conv)
qed

lemma green_counts:
  "chs_state (cluster_health ov) = HealthOk \<longleftrightarrow> failing_signals ov = 0 \<and> caution_signals ov = 0"
  unfolding cluster_health_def Let_def cluster_health_summary.simps fst_conv by (simp split: if_split)

lemma green_is_quiet:
  assumes "chs_state (cluster_health ov) = HealthOk"
  shows "co_pod_failed ov = 0" and "co_pod_pending ov = 0" and "co_warnings ov = []"
    and "\<forall>n\<in>set (co_nodes ov). nd_ready n"
    and "\<forall>r\<in>set (all_resources ov). quiet_rollup r"
    and "\<forall>sg\<in>set (all_signals ov). hs_status sg \<notin> {RowError, RowWarn, RowPending}"
proof -
  from assms have "failing_signals ov = 0" "caution_signals ov = 0"
    by (simp_all add: green_counts)
  note zero = this[unfolded failing_signals_def caution_signals_def add_is_0 sum_list_eq_0_iff set_map ball_simps
    unat_eq_0 length_0_conv filter_empty_conv length_minus_filter]
  from zero(1) show "co_pod_failed ov = 0" by (elim conjE)
  from zero(2) show "co_pod_pending ov = 0" by (elim conjE)
  from zero(2) show "co_warnings ov = []" by (elim conjE)
  from zero(1) show "\<forall>n\<in>set (co_nodes ov). nd_ready n" by (elim conjE)
  from zero show "\<forall>r\<in>set (all_resources ov). quiet_rollup r"
    unfolding quiet_rollup_def by (elim conjE) simp
  from zero show "\<forall>sg\<in>set (all_signals ov). hs_status sg \<notin> {RowError, RowWarn, RowPending}"
    by (elim conjE) simp
qed

lemma latest_warnings_empty: "latest_warnings es = [] \<longleftrightarrow> es = []"
  by (simp add: latest_warnings_def sort_descending_def take_eq_Nil)
    (metis length_0_conv length_map length_rev length_sort)

text \<open>What the lists of an overview say when its dashboard is green.\<close>

definition all_is_well ::
  "'w overview_env \<Rightarrow> overview_node list \<Rightarrow> string option list \<Rightarrow> kube_error + warning_event list
     \<Rightarrow> (resource_kind \<times> (string + dyn_object list)) list \<Rightarrow> bool" where
  "all_is_well env ns ps es sn \<longleftrightarrow>
     (\<forall>n\<in>set ns. \<exists>cs. on_conditions n = Some cs \<and> (\<exists>c\<in>set cs. kc_type c = ''Ready'' \<and> kc_status c = ''True''))
   \<and> Some ''Failed'' \<notin> set ps \<and> Some ''Pending'' \<notin> set ps
   \<and> (\<forall>l. es = Inr l \<longrightarrow> l = [])
   \<and> (\<forall>k\<in>set (oe_catalog env). dashboard_kind k \<longrightarrow> k \<in> fst ` set sn)
   \<and> (\<forall>(k, r)\<in>set sn. \<exists>objs. r = Inr objs \<and> (\<forall>obj\<in>set objs. quiet_object (oe_project env) k obj))"

lemma ready_nodes:
  assumes "\<forall>n\<in>set (map (node_summary_of fo usage) ns). nd_ready n" and "n \<in> set ns"
  shows "\<exists>cs. on_conditions n = Some cs \<and> (\<exists>c\<in>set cs. kc_type c = ''Ready'' \<and> kc_status c = ''True'')"
  using assms by (auto simp: node_summary_of_def Let_def list_ex_iff split: option.splits)

lemma absent_phase:
  assumes "small (Inr ps)" and "count_phase phase ps = 0"
  shows "Some phase \<notin> set ps"
  using assms counted_zero[of ps "in_phase phase"]
  by (auto simp: small_def count_phase_counted in_phase_def)

lemma gathered_is_quiet:
  assumes "gathers pe K (set rs) s s'" and "\<forall>r\<in>set rs. quiet_rollup r"
  obtains sn where "ov_listed s' = ov_listed s @ listed_objects sn" and "K \<subseteq> fst ` set sn"
    and "\<forall>(k, r)\<in>set sn. \<exists>objs. r = Inr objs \<and> (\<forall>obj\<in>set objs. quiet_object pe k obj)"
proof -
  from assms(1) obtain sn where sn: "ov_listed s' = ov_listed s @ listed_objects sn" "K \<subseteq> fst ` set sn"
    "\<forall>x\<in>set sn. small (snd x)"
    "\<forall>x\<in>set sn. shown_rollup (summarize_resources pe x) \<longrightarrow> summarize_resources pe x \<in> set rs"
    unfolding gathers_def by blast
  have "\<exists>objs. r = Inr objs \<and> (\<forall>obj\<in>set objs. quiet_object pe k obj)" if "(k, r) \<in> set sn" for k r
    by (rule quiet_objects) (use that sn(3,4) assms(2) in auto)
  with sn(1,2) that show thesis by blast
qed

lemma answers_well: "wp (ret (Inr x)) (\<lambda>r s. \<forall>y. r = Inr y \<longrightarrow> P y s) = P x"
  by (simp add: fun_eq_iff)

lemma groups_are_well:
  assumes "bounded_lists env" and "ov_listed s = [NodesListed ns, PodsListed ps, EventsListed es]"
    and "small (Inr ps :: kube_error + string option list)"
    and ov: "\<And>gs. co_controller_groups (ov gs) = gs" "\<And>gs. co_nodes (ov gs) = map (node_summary_of fo usage) ns"
      "\<And>gs. co_pod_pending (ov gs) = count_phase ''Pending'' ps" "\<And>gs. co_pod_failed (ov gs) = count_phase ''Failed'' ps"
      "\<And>gs. co_warnings (ov gs) = (case map_sum api_err latest_warnings es of Inr l \<Rightarrow> l | Inl _ \<Rightarrow> [])"
  shows "wp (controller_groups env) (\<lambda>gs s'. chs_state (cluster_health (ov gs)) = HealthOk \<longrightarrow>
     (\<exists>ns ps es sn. ov_listed s' = NodesListed ns # PodsListed ps # EventsListed es # listed_objects sn
        \<and> all_is_well env ns ps es sn)) s"
proof (rule wp_mono[OF controller_groups_ok[OF assms(1)]], rule impI)
  fix gs s'
  assume gathered: "gathers (oe_project env) {k \<in> set (oe_catalog env). dashboard_kind k} (set (concat (map hg_resources gs))) s s'"
    and green: "chs_state (cluster_health (ov gs)) = HealthOk"
  note quiet = green_is_quiet[OF green, unfolded ov]
  obtain sn where sn: "ov_listed s' = ov_listed s @ listed_objects sn"
      "{k \<in> set (oe_catalog env). dashboard_kind k} \<subseteq> fst ` set sn"
      "\<forall>(k, r)\<in>set sn. \<exists>objs. r = Inr objs \<and> (\<forall>obj\<in>set objs. quiet_object (oe_project env) k obj)"
    using gathered_is_quiet[OF gathered quiet(5)] by blast
  have "l = []" if "es = Inr l" for l
    using quiet(3) that by (simp add: latest_warnings_empty)
  moreover note absent_phase[OF assms(3) quiet(1)] absent_phase[OF assms(3) quiet(2)]
  ultimately have "all_is_well env ns ps es sn"
    unfolding all_is_well_def using ready_nodes[OF quiet(4)] sn(2,3) by blast
  with sn(1) assms(2) show "\<exists>ns ps es sn.
      ov_listed s' = NodesListed ns # PodsListed ps # EventsListed es # listed_objects sn \<and> all_is_well env ns ps es sn"
    by (metis append_Cons append_Nil)
qed

text \<open>C32: a green dashboard is an honest one.  When an overview could be computed and the browser judges it healthy,
  then every node that was listed is ready, no listed pod has failed or is pending, no warning event was listed,
  every kind of the catalog the dashboard watches over was listed without an error, and none of its objects is
  suspended, failing, in a warning state, or reports a status that is not understood.\<close>
theorem green_dashboard_means_well:
  assumes "bounded_lists env" and "ov_listed s0 = []"
  shows "wp (compute_overview env) (\<lambda>r s. \<forall>ov. r = Inr ov \<longrightarrow> chs_state (cluster_health ov) = HealthOk \<longrightarrow>
     (\<exists>ns ps es sn. ov_listed s = NodesListed ns # PodsListed ps # EventsListed es # listed_objects sn
        \<and> all_is_well env ns ps es sn)) s0"
proof -
  obtain version w1 where w1: "oe_probe env (ov_world s0) = (version, w1)" by fastforce
  obtain metrics w2 where w2: "oe_node_metrics env w1 = (metrics, w2)" by fastforce
  obtain nodes w3 where w3: "oe_nodes env w2 = (nodes, w3)" by fastforce
  obtain pods w4 where w4: "oe_pods env w3 = (pods, w4)" by fastforce
  obtain namespaces w5 where w5: "oe_namespaces env w4 = (namespaces, w5)" by fastforce
  obtain events w6 where w6: "oe_events env ''type=Warning'' w5 = (events, w6)" by fastforce
  have small: "small pods"
    using assms(1) w4 unfolding bounded_lists_def by (metis fst_conv)
  note run = ask_world_def note_answer_def wp_rules assms(2) w1 w2 w3 w4 w5 w6
  show ?thesis
  proof (cases nodes; cases pods)
    fix ns ps assume r: "nodes = Inr ns" "pods = Inr ps"
    show ?thesis
      unfolding compute_overview_def recent_warnings_def using small unfolding r
      apply (simp add: run r answers_well)
      apply (rule groups_are_well[OF assms(1)])
      apply simp_all
      done
  qed (simp_all add: compute_overview_def run)
qed

section \<open>One refresh at a time\<close>

fun refreshing :: "overview_phase \<Rightarrow> bool" where
  "refreshing Locked \<longleftrightarrow> True"
| "refreshing (Computing _) \<longleftrightarrow> True"
| "refreshing (Storing _ _ _) \<longleftrightarrow> True"
| "refreshing _ \<longleftrightarrow> False"

definition spaced :: "overview_refresh list \<Rightarrow> bool" where
  "spaced rs \<longleftrightarrow> sorted_wrt (\<lambda>a b. rf_end a + OVERVIEW_TTL \<le> rf_start b) rs \<and> (\<forall>r\<in>set rs. rf_start r \<le> rf_end r)"

definition due :: "overview_refresh list \<Rightarrow> nat \<Rightarrow> bool" where
  "due rs t \<longleftrightarrow> (\<forall>r\<in>set rs. rf_end r + OVERVIEW_TTL \<le> t)"

definition computed_overview :: "'w overview_env \<Rightarrow> cluster_overview \<Rightarrow> bool" where
  "computed_overview env ov \<longleftrightarrow> (\<exists>w w'. run_state (compute_overview env) w = (Inr ov, w'))"

text \<open>What a caller's phase says about the time and the refreshes so far.\<close>

fun phase_ok :: "'w overview_env \<Rightarrow> nat \<Rightarrow> overview_refresh list \<Rightarrow> overview_phase \<Rightarrow> bool" where
  "phase_ok env now rs (Computing t) \<longleftrightarrow> t \<le> now \<and> due rs t"
| "phase_ok env now rs (Storing t at ov) \<longleftrightarrow> t \<le> at \<and> at \<le> now \<and> due rs t \<and> computed_overview env ov"
| "phase_ok env now rs _ \<longleftrightarrow> True"

fun cache_ok :: "'w overview_env \<Rightarrow> nat \<Rightarrow> overview_refresh list \<Rightarrow> (nat \<times> cluster_overview) option \<Rightarrow> bool" where
  "cache_ok env now rs None \<longleftrightarrow> rs = []"
| "cache_ok env now rs (Some (at, ov)) \<longleftrightarrow>
     rs \<noteq> [] \<and> rf_end (last rs) = at \<and> at \<le> now \<and> computed_overview env ov"

definition overview_inv :: "'w overview_env \<Rightarrow> overview_sys \<Rightarrow> bool" where
  "overview_inv env s \<longleftrightarrow>
     (\<forall>c. refreshing (os_phase s c) \<longleftrightarrow> os_lock s = Some c)
   \<and> (\<forall>c. phase_ok env (os_now s) (os_refreshes s) (os_phase s c))
   \<and> spaced (os_refreshes s) \<and> cache_ok env (os_now s) (os_refreshes s) (os_cache s)
   \<and> (\<forall>a\<in>set (os_answers s). computed_overview env (snd a))"

lemma spaced_last: "spaced rs \<Longrightarrow> r \<in> set rs \<Longrightarrow> rf_end r \<le> rf_end (last rs)"
proof (induction rs rule: rev_induct)
  case (snoc x rs)
  then show ?case
    by (fastforce simp: spaced_def sorted_wrt_append)
qed simp

lemma stale_is_due:
  assumes "overview_inv env s" and "cached_overview s = None"
  shows "due (os_refreshes s) (os_now s)"
proof (cases "os_cache s")
  case None
  with assms(1) show ?thesis by (simp add: overview_inv_def due_def)
next
  case (Some c)
  then obtain at ov where c: "os_cache s = Some (at, ov)" by (cases c) auto
  with assms have "rf_end (last (os_refreshes s)) = at" "\<not> os_now s - at < OVERVIEW_TTL" "at \<le> os_now s"
    and spaced: "spaced (os_refreshes s)"
    by (auto simp: overview_inv_def cached_overview_def split: if_splits)
  with spaced_last[OF spaced] show ?thesis
    by (fastforce simp: due_def)
qed

lemma spaced_snoc:
  "spaced rs \<Longrightarrow> due rs (rf_start r) \<Longrightarrow> rf_start r \<le> rf_end r \<Longrightarrow> spaced (rs @ [r])"
  by (auto simp: spaced_def due_def sorted_wrt_append)

lemma cached_is_computed:
  "overview_inv env s \<Longrightarrow> cached_overview s = Some ov \<Longrightarrow> computed_overview env ov"
  by (auto simp: overview_inv_def cached_overview_def split: option.splits if_splits)

lemma new_overviews_inv: "overview_inv env new_overviews"
  by (simp add: overview_inv_def new_overviews_def spaced_def)

text \<open>Each step keeps the invariant.  Only the holder of the lock can be in a refreshing phase, so a stored overview
  finds nobody else computing.\<close>

lemma phase_ok_later: "phase_ok env now rs p \<Longrightarrow> now \<le> now' \<Longrightarrow> phase_ok env now' rs p"
  by (cases p) auto

lemma cache_ok_later: "cache_ok env now rs c \<Longrightarrow> now \<le> now' \<Longrightarrow> cache_ok env now' rs c"
  by (cases "(env, now, rs, c)" rule: cache_ok.cases) auto

lemma phase_ok_idle: "\<not> refreshing p \<Longrightarrow> phase_ok env now rs p"
  by (cases p) auto

lemma stay_inv:
  assumes "overview_inv env s" and "refreshing p \<longleftrightarrow> os_lock s = Some c"
    and "phase_ok env (os_now s) (os_refreshes s) p"
  shows "overview_inv env (at_phase c p s)"
  using assms by (simp add: overview_inv_def at_phase_def)

lemma leave_inv:
  assumes "overview_inv env s" and "\<not> refreshing p"
  shows "overview_inv env (release_refresh c (at_phase c p s))"
  using assms by (auto simp: overview_inv_def at_phase_def release_refresh_def phase_ok_idle)

lemma answer_inv:
  assumes "overview_inv env s" and "computed_overview env ov"
  shows "overview_inv env (s\<lparr>os_answers := os_answers s @ [(t, ov)]\<rparr>)"
  using assms by (simp add: overview_inv_def)

lemma answers_kept [simp]: "os_answers (release_refresh c (at_phase c p s)) = os_answers s"
  by (simp add: release_refresh_def at_phase_def)

lemma answer_release:
  "release_refresh c (answer_cached c ov s) =
     (release_refresh c (at_phase c (Answered (Inr ov)) s))\<lparr>os_answers := os_answers s @ [(os_now s, ov)]\<rparr>"
  by (simp add: answer_cached_def release_refresh_def at_phase_def)

lemma store_inv:
  assumes inv: "overview_inv env s" and "os_phase s c = Storing start at ov"
  shows "overview_inv env (store_overview c start at ov s)"
proof -
  have lock: "os_lock s = Some c"
    using inv assms(2) unfolding overview_inv_def by (metis refreshing.simps(3))
  have idle: "\<not> refreshing (os_phase s c')" if "c' \<noteq> c" for c'
    using inv lock that by (auto simp: overview_inv_def)
  have "phase_ok env (os_now s) (os_refreshes s) (Storing start at ov)"
    using inv assms(2) unfolding overview_inv_def by metis
  with inv lock idle show ?thesis
    by (auto simp: overview_inv_def store_overview_def release_refresh_def at_phase_def phase_ok_idle
        intro!: spaced_snoc)
qed

lemma overview_step_inv:
  assumes "overview_step env s s'" and inv: "overview_inv env s"
  shows "overview_inv env s'"
  using assms(1)
proof cases
  case (wait d)
  with inv show ?thesis
    by (auto simp: overview_inv_def intro: phase_ok_later cache_ok_later)
next
  case (look c)
  have free: "os_lock s \<noteq> Some c"
    using inv look(2) unfolding overview_inv_def by (metis refreshing.simps(4))
  show ?thesis
  proof (cases "cached_overview s")
    case None
    with look(1) stay_inv[OF inv, of Queued c] free show ?thesis by (simp add: first_look_def)
  next
    case (Some ov)
    from free stay_inv[OF inv, of "Answered (Inr ov)" c]
    have "overview_inv env (at_phase c (Answered (Inr ov)) s)" by simp
    from answer_inv[OF this cached_is_computed[OF inv Some], of "os_now s"] Some look(1) show ?thesis
      by (simp add: first_look_def answer_cached_def at_phase_def)
  qed
next
  case (lock c)
  with inv show ?thesis
    by (auto simp: overview_inv_def take_lock_def at_phase_def)
next
  case (relook c)
  show ?thesis
  proof (cases "cached_overview s")
    case None
    have "os_lock s = Some c"
      using inv relook(2) unfolding overview_inv_def by (metis refreshing.simps(1))
    with relook(1) None stay_inv[OF inv, of "Computing (os_now s)" c] stale_is_due[OF inv None] show ?thesis
      by (simp add: second_look_def)
  next
    case (Some ov)
    from answer_inv[OF leave_inv[OF inv, of "Answered (Inr ov)" c] cached_is_computed[OF inv Some], of "os_now s"]
      Some relook(1) show ?thesis
      by (simp add: second_look_def answer_release)
  qed
next
  case (compute c start w r w')
  show ?thesis
  proof (cases r)
    case (Inl e)
    with compute(1) leave_inv[OF inv, of "Answered (Inl e)" c] show ?thesis
      by (simp add: computed_def)
  next
    case (Inr ov)
    have "os_lock s = Some c" and "phase_ok env (os_now s) (os_refreshes s) (Computing start)"
      using inv compute(2) unfolding overview_inv_def by (metis refreshing.simps(2), metis)
    moreover have "computed_overview env ov"
      using compute(3) Inr unfolding computed_overview_def by blast
    ultimately show ?thesis
      using compute(1) Inr stay_inv[OF inv, of "Storing start (os_now s) ov" c] by (simp add: computed_def)
  qed
next
  case (store c start at ov)
  with store_inv[OF inv] show ?thesis by blast
next
  case (drop c)
  with leave_inv[OF inv, of Dropped c] show ?thesis by simp
qed


section \<open>Labels\<close>

text \<open>Words of a label keep their capitals, whatever the example beside \<open>camel_label\<close> says.\<close>

lemma camel_label_keeps_capitals:
  "camel_label ''readyReplicas'' = ''Ready Replicas'' \<and> camel_label ''hostIP'' = ''Host IP''"
  by code_simp

section \<open>Witnesses\<close>

definition flux_kind :: resource_kind where
  "flux_kind = \<lparr>rk_key = ''k'', rk_group = ''kustomize.toolkit.fluxcd.io'', rk_version = ''v1'', rk_kind = ''Kustomization'',
     rk_plural = ''kustomizations'', rk_namespaced = True, rk_category = Flux\<rparr>"

definition plain_object :: "string \<Rightarrow> json \<Rightarrow> dyn_object" where
  "plain_object name data = \<lparr>dy_name = Some name, dy_namespace = Some ''db'', dy_uid = None, dy_resource_version = None,
     dy_created = None, dy_deleting = False, dy_owner_references = None, dy_labels = None, dy_managed_fields = None,
     dy_data = data\<rparr>"

definition suspended_data :: json where
  "suspended_data = JObject [(''spec'', JObject [(''suspend'', JBool True)])]"

definition schedule_data :: json where
  "schedule_data = JObject [(''spec'', JObject [(''cluster'', JObject [(''name'', JString ''app'')])]),
     (''status'', JObject [(''lastScheduleTime'', JString ''t'')])]"

theorem rollup_partitions_the_objects_witness:
  "\<forall>pe. unat (hr_suspended (rh_health (summarize_resources pe
      (flux_kind, Inr [plain_object ''a'' suspended_data, plain_object ''b'' suspended_data])))) = 2"
proof
  fix pe
  have "suspended_object flux_kind (plain_object n suspended_data)" for n
    by (simp add: suspended_object_def resource_suspended_def plain_object_def suspended_data_def jget_def as_bool_def)
  with rollup_partitions_the_objects[of "[plain_object ''a'' suspended_data, plain_object ''b'' suspended_data]" pe flux_kind]
  show "unat (hr_suspended (rh_health (summarize_resources pe
      (flux_kind, Inr [plain_object ''a'' suspended_data, plain_object ''b'' suspended_data])))) = 2"
    by (simp add: Let_def)
qed

theorem recovery_point_is_the_latest_witness:
  "\<forall>pe. \<exists>sg \<in> set (summarize_cnpg_signals (pe\<lparr>pe_parse_rfc3339 := \<lambda>_. Some (0, 0)\<rparr>)
       [plain_object ''app'' JNull] [] [plain_object ''daily'' schedule_data]). hs_status sg = RowError"
proof
  fix pe :: project_env
  let ?pe = "pe\<lparr>pe_parse_rfc3339 := \<lambda>_. Some (0, 0)\<rparr>"
  have run: "ran_at ?pe [plain_object ''daily'' schedule_data] (plain_object ''app'' JNull) 0"
    by (simp add: ran_at_def scheduled_run_def plain_object_def schedule_data_def str_at_def jget_def as_str_def
        parse_timestamp_def unwrap_or_def)
  show "\<exists>sg \<in> set (summarize_cnpg_signals ?pe [plain_object ''app'' JNull] []
      [plain_object ''daily'' schedule_data]). hs_status sg = RowError"
    using recovery_point_is_the_latest[of "plain_object ''app'' JNull" "[plain_object ''app'' JNull]" ?pe "[]"
        "[plain_object ''daily'' schedule_data]"] run
    by (fastforce simp: completed_at_def)
qed

definition calm_env :: "project_env \<Rightarrow> unit overview_env" where
  "calm_env pe = \<lparr>oe_project = pe, oe_catalog = [flux_kind], oe_probe = Pair (Inr ''v1''), oe_node_metrics = Pair None,
     oe_nodes = Pair (Inr []), oe_pods = Pair (Inr [Some ''Running'']), oe_namespaces = Pair (Inr []),
     oe_events = (\<lambda>_. Pair (Inr [])), oe_objects = (\<lambda>_. Pair (Inr []))\<rparr>"

theorem green_dashboard_means_well_witness:
  "\<forall>pe. wp (compute_overview (calm_env pe)) (\<lambda>r s. \<forall>ov. r = Inr ov \<longrightarrow> chs_state (cluster_health ov) = HealthOk \<longrightarrow>
     (\<exists>ns ps es sn. ov_listed s = NodesListed ns # PodsListed ps # EventsListed es # listed_objects sn
        \<and> all_is_well (calm_env pe) ns ps es sn)) \<lparr>ov_world = (), ov_listed = []\<rparr>
   \<and> wp (compute_overview (calm_env pe)) (\<lambda>r s. \<exists>ov. r = Inr ov \<and> chs_state (cluster_health ov) = HealthOk)
       \<lparr>ov_world = (), ov_listed = []\<rparr>"
proof (intro allI conjI)
  fix pe
  show "wp (compute_overview (calm_env pe)) (\<lambda>r s. \<forall>ov. r = Inr ov \<longrightarrow> chs_state (cluster_health ov) = HealthOk \<longrightarrow>
     (\<exists>ns ps es sn. ov_listed s = NodesListed ns # PodsListed ps # EventsListed es # listed_objects sn
        \<and> all_is_well (calm_env pe) ns ps es sn)) \<lparr>ov_world = (), ov_listed = []\<rparr>"
    by (rule green_dashboard_means_well) (simp_all add: bounded_lists_def calm_env_def small_def)
  show "wp (compute_overview (calm_env pe)) (\<lambda>r s. \<exists>ov. r = Inr ov \<and> chs_state (cluster_health ov) = HealthOk)
       \<lparr>ov_world = (), ov_listed = []\<rparr>"
    by (simp add: green_counts failing_signals_def caution_signals_def compute_overview_def recent_warnings_def
        controller_groups_def plain_groups_def plain_group_def resource_rollups_def cnpg_group_def prometheus_group_def
        kopiur_group_def snapshots_of_def resource_snapshot_def calm_env_def flux_kind_def in_category_def
        prometheus_kind_def ask_world_def note_answer_def wp_rules summarize_all_def summarize_resources_def
        shown_rollup_def new_rollup_def insert_at_def summarize_cnpg_signals_def summarize_kopiur_signals_def
        snapshot_objects_def map_filter_simps latest_warnings_def sort_descending_def count_phase_def in_phase_def)
qed


end
