(* ===== verification/Peers.thy ===== *)
theory Peers
  imports Ha
begin

text \<open>
  Mutual TLS between the replicas: \<open>crates/mtls\<close> and the part of \<open>server/mod.rs\<close> and \<open>server/ha.rs\<close> that publishes
  and pins fingerprints.  Hashing, certificate generation and the check of a handshake signature are \<open>sha2\<close>,
  \<open>rcgen\<close> and \<open>rustls\<close>, the environment; a certificate is its DER bytes.
\<close>

section \<open>Certificates\<close>

datatype mtls_error = MtlsRcgen string | MtlsRustls string

datatype key_usage = DigitalSignature
datatype extended_key_usage = ServerAuth | ClientAuth

record certificate_params =
  cp_subject_alt_names :: "string list"
  cp_common_name :: string
  cp_not_before :: int
  cp_not_after :: int
  cp_key_usages :: "key_usage list"
  cp_extended_key_usages :: "extended_key_usage list"

record peer_cert =
  pc_der :: string
  pc_key :: string
  pc_fingerprint :: string

datatype signature_scheme = ED25519 | OtherScheme nat

record signed_struct =
  dss_scheme :: signature_scheme
  dss_signature :: string

datatype protocol_version = TLS12 | TLS13

text \<open>\<open>te_self_signed\<close> signs parameters with a key; \<open>te_accepts\<close> is what the configuration builder checks of the
  versions and of the own certificate and its key.\<close>

record tls_env =
  te_sha256 :: "string \<Rightarrow> 8 word list"
  te_params :: "string list \<Rightarrow> string option"
  te_self_signed :: "certificate_params \<Rightarrow> string \<Rightarrow> string + string"
  te_accepts :: "protocol_version list \<Rightarrow> string \<Rightarrow> string \<Rightarrow> string option"
  te_verify_tls13 :: "string \<Rightarrow> string \<Rightarrow> signed_struct \<Rightarrow> string + unit"

definition hex_byte :: "8 word \<Rightarrow> string" where
  "hex_byte b = [hex_digit (unat b div 16), hex_digit (unat b mod 16)]"

definition hex_sha256 :: "tls_env \<Rightarrow> string \<Rightarrow> string" where
  "hex_sha256 env bytes = concat (map hex_byte (te_sha256 env bytes))"

text \<open>Five minutes back, ten years ahead; \<open>generated\<close> is what the key generator answers.\<close>

definition mint :: "tls_env \<Rightarrow> int \<Rightarrow> int \<Rightarrow> string + string \<Rightarrow> string \<Rightarrow> mtls_error + peer_cert" where
  "mint env now1 now2 generated pod_name =
     (case te_params env [pod_name] of
        Some e \<Rightarrow> Inl (MtlsRcgen e)
      | None \<Rightarrow>
          let params = \<lparr>cp_subject_alt_names = [pod_name], cp_common_name = pod_name,
                cp_not_before = now1 - 5 * 60, cp_not_after = now2 + 3650 * 24 * 3600,
                cp_key_usages = [DigitalSignature], cp_extended_key_usages = [ServerAuth, ClientAuth]\<rparr>
          in case generated of
               Inl e \<Rightarrow> Inl (MtlsRcgen e)
             | Inr key \<Rightarrow> (case te_self_signed env params key of
                 Inl e \<Rightarrow> Inl (MtlsRcgen e)
               | Inr der \<Rightarrow> Inr \<lparr>pc_der = der, pc_key = key, pc_fingerprint = hex_sha256 env der\<rparr>))"

section \<open>The verifier\<close>

text \<open>The lock is poisoned when a holder panicked.\<close>

record pinned_verifier =
  pv_pins :: "(string, string) hmap"
  pv_poisoned :: bool

definition new_verifier :: pinned_verifier where
  "new_verifier = \<lparr>pv_pins = [], pv_poisoned = False\<rparr>"

text \<open>\<open>set\<close> panics on a poisoned lock (\<open>None\<close>).\<close>

definition set_pins :: "(string, string) hmap \<Rightarrow> pinned_verifier \<Rightarrow> pinned_verifier option" where
  "set_pins pins v = (if pv_poisoned v then None else Some (v\<lparr>pv_pins := pins\<rparr>))"

definition verify_fingerprint :: "tls_env \<Rightarrow> string \<Rightarrow> string \<Rightarrow> string + unit" where
  "verify_fingerprint env cert expected =
     (if hex_sha256 env cert = expected then Inr ()
      else Inl ''server certificate fingerprint does not match its Roder pod'')"

definition verify_pinned_server :: "tls_env \<Rightarrow> pinned_verifier \<Rightarrow> string \<Rightarrow> string \<Rightarrow> string + unit" where
  "verify_pinned_server env v cert server_name =
     (if pv_poisoned v then Inl ''peer fingerprint lock poisoned''
      else case hm_get (pv_pins v) server_name of
        None \<Rightarrow> Inl ''server is not a trusted Roder peer''
      | Some expected \<Rightarrow> verify_fingerprint env cert expected)"

definition verify_pinned_client :: "tls_env \<Rightarrow> pinned_verifier \<Rightarrow> string \<Rightarrow> string + unit" where
  "verify_pinned_client env v cert =
     (if pv_poisoned v then Inl ''peer fingerprint lock poisoned''
      else if hm_any (\<lambda>f. f = hex_sha256 env cert) (pv_pins v) then Inr ()
      else Inl ''client is not a trusted Roder peer'')"

definition verify_signature :: "tls_env \<Rightarrow> string \<Rightarrow> string \<Rightarrow> signed_struct \<Rightarrow> string + unit" where
  "verify_signature env message cert dss =
     (if dss_scheme dss \<noteq> ED25519 then Inl ''Roder peer certificate did not use Ed25519''
      else te_verify_tls13 env message cert dss)"

text \<open>The interface to \<open>rustls\<close>, the same for the server's and for the client's certificate but for the pin.\<close>

definition verify_server_cert :: "tls_env \<Rightarrow> pinned_verifier \<Rightarrow> string \<Rightarrow> string list \<Rightarrow> string \<Rightarrow> string + unit" where
  "verify_server_cert env v end_entity intermediates server_name = verify_pinned_server env v end_entity server_name"

definition verify_client_cert :: "tls_env \<Rightarrow> pinned_verifier \<Rightarrow> string \<Rightarrow> string list \<Rightarrow> string + unit" where
  "verify_client_cert env v end_entity intermediates = verify_pinned_client env v end_entity"

definition verify_tls12_signature :: "string \<Rightarrow> string \<Rightarrow> signed_struct \<Rightarrow> string + unit" where
  "verify_tls12_signature message cert dss = Inl ''TLS 1.2 not supported for peer mTLS''"

definition verify_tls13_signature :: "tls_env \<Rightarrow> string \<Rightarrow> string \<Rightarrow> signed_struct \<Rightarrow> string + unit" where
  "verify_tls13_signature env message cert dss = verify_signature env message cert dss"

definition supported_verify_schemes :: "signature_scheme list" where
  "supported_verify_schemes = [ED25519]"

text \<open>A handshake signature as the verifier judges it under the negotiated version.\<close>

definition signature_ok :: "tls_env \<Rightarrow> protocol_version \<Rightarrow> string \<Rightarrow> string \<Rightarrow> signed_struct \<Rightarrow> string + unit" where
  "signature_ok env version message cert dss = (case version of
     TLS12 \<Rightarrow> verify_tls12_signature message cert dss | TLS13 \<Rightarrow> verify_tls13_signature env message cert dss)"

section \<open>Configurations\<close>

record tls_config =
  tc_versions :: "protocol_version list"
  tc_chain :: "string list"
  tc_key :: string

definition tls_server_config :: "tls_env \<Rightarrow> peer_cert \<Rightarrow> mtls_error + tls_config" where
  "tls_server_config env cert = (case te_accepts env [TLS13] (pc_der cert) (pc_key cert) of
     Some e \<Rightarrow> Inl (MtlsRustls e)
   | None \<Rightarrow> Inr \<lparr>tc_versions = [TLS13], tc_chain = [pc_der cert], tc_key = pc_key cert\<rparr>)"

definition tls_client_config :: "tls_env \<Rightarrow> peer_cert \<Rightarrow> mtls_error + tls_config" where
  "tls_client_config env cert = (case te_accepts env [TLS13] (pc_der cert) (pc_key cert) of
     Some e \<Rightarrow> Inl (MtlsRustls e)
   | None \<Rightarrow> Inr \<lparr>tc_versions = [TLS13], tc_chain = [pc_der cert], tc_key = pc_key cert\<rparr>)"

section \<open>Publishing and refreshing\<close>

text \<open>The merge patch that publishes the fingerprint of this replica, and what it does to its pod.\<close>

definition fingerprint_patch :: "string \<Rightarrow> json" where
  "fingerprint_patch f = JObject [(''metadata'', JObject [(''annotations'',
     JObject [(TLS_FINGERPRINT_ANNOTATION, JString f)])])]"

text \<open>The state of trust over the run of a replica, with the listings that succeeded: a refresh that fails keeps the
  pins.  The first refresh happens at startup, and the start fails with it.\<close>

record trust =
  tr_verifier :: pinned_verifier
  tr_listings :: "roder_pod list list"

definition refresh_trust :: "string + roder_pod list \<Rightarrow> trust \<Rightarrow> trust" where
  "refresh_trust r t = (case r of
     Inl _ \<Rightarrow> t
   | Inr pods \<Rightarrow> (case set_pins (refresh_fingerprints pods) (tr_verifier t) of
       None \<Rightarrow> t
     | Some v \<Rightarrow> t\<lparr>tr_verifier := v, tr_listings := tr_listings t @ [pods]\<rparr>))"

definition start_trust :: "string + roder_pod list \<Rightarrow> string + trust" where
  "start_trust r = (case r of
     Inl e \<Rightarrow> Inl (''failed to load peer mTLS fingerprints: '' @ e)
   | Inr pods \<Rightarrow> Inr (refresh_trust (Inr pods) \<lparr>tr_verifier = new_verifier, tr_listings = []\<rparr>))"

inductive trusted :: "trust \<Rightarrow> bool" where
  start: "start_trust r = Inr t \<Longrightarrow> trusted t"
| again: "trusted t \<Longrightarrow> trusted (refresh_trust r t)"

section \<open>Properties\<close>

text \<open>
  Who a replica talks to: the server behind an address is the pod that was listed ready with it, a client is one
  of the pods that were listed ready, and a replica that publishes its fingerprint is trusted by the others.
\<close>

section \<open>Fingerprints\<close>

lemma hex_digit_props:
  assumes "d < 16"
  shows "is_ascii_hexdigit (hex_digit d)" and "to_ascii_lower (hex_digit d) = hex_digit d"
  using assms
  by (auto simp: hex_digit_def is_ascii_hexdigit_def is_ascii_digit_def is_ascii_uppercase_def to_ascii_lower_def code_def)

lemma hex_byte_props:
  "length (hex_byte b) = 2" "list_all is_ascii_hexdigit (hex_byte b)" "str_ascii_lower (hex_byte b) = hex_byte b"
proof -
  have "unat b < 2 ^ LENGTH(8)" by (rule unsigned_less)
  then have "unat b div 16 < 16" by simp
  then show "length (hex_byte b) = 2" "list_all is_ascii_hexdigit (hex_byte b)" "str_ascii_lower (hex_byte b) = hex_byte b"
    by (simp_all add: hex_byte_def hex_digit_props str_ascii_lower_def)
qed

lemma hex_sha256_well_formed:
  assumes "length (te_sha256 env bytes) = 32"
  shows "well_formed_fingerprint (hex_sha256 env bytes)" and "str_ascii_lower (hex_sha256 env bytes) = hex_sha256 env bytes"
proof -
  have "length (concat (map hex_byte bs)) = 2 * length bs" "list_all is_ascii_hexdigit (concat (map hex_byte bs))"
    "str_ascii_lower (concat (map hex_byte bs)) = concat (map hex_byte bs)" for bs
    by (induction bs) (simp_all add: hex_byte_props hex_byte_props(3)[unfolded str_ascii_lower_def] str_ascii_lower_def)
  with assms show "well_formed_fingerprint (hex_sha256 env bytes)" "str_ascii_lower (hex_sha256 env bytes) = hex_sha256 env bytes"
    by (simp_all add: well_formed_fingerprint_def hex_sha256_def)
qed

section \<open>Pins\<close>

text \<open>The pins are those of the ready pods with a well-formed annotation; of pods that share an address the last counts.\<close>

definition pins :: "roder_pod \<Rightarrow> string \<Rightarrow> string \<Rightarrow> bool" where
  "pins p ip f \<longleftrightarrow> rp_ready p \<and> rp_ip p = ip
     \<and> (\<exists>a. rp_tls_fingerprint p = Some a \<and> well_formed_fingerprint a \<and> str_ascii_lower a = f)"

lemma pin_of_iff: "pin_of p = Some (ip, f) \<longleftrightarrow> pins p ip f"
  by (auto simp: pin_of_def pins_def split: option.splits if_splits)

lemma refresh_snoc:
  "refresh_fingerprints (ps @ [p]) = (case pin_of p of
     None \<Rightarrow> refresh_fingerprints ps | Some (ip, f) \<Rightarrow> hm_insert ip f (refresh_fingerprints ps))"
  by (simp add: refresh_fingerprints_def map_filter_def split: option.splits)

lemma refresh_ok: "hm_ok (refresh_fingerprints ps)"
  by (induction ps rule: rev_induct) (auto simp: refresh_snoc refresh_fingerprints_def[of "[]"] map_filter_simps split: option.splits)

lemma refresh_get:
  "hm_get (refresh_fingerprints ps) ip = Some f \<longleftrightarrow>
     (\<exists>before p after. ps = before @ p # after \<and> pins p ip f \<and> (\<forall>q\<in>set after. \<forall>f'. \<not> pins q ip f'))"
proof (induction ps arbitrary: f rule: rev_induct)
  case (snoc x ps)
  have last: "(\<exists>before p after. ps @ [x] = before @ p # after \<and> pins p ip f \<and> (\<forall>q\<in>set after. \<forall>f'. \<not> pins q ip f')) \<longleftrightarrow>
     pins x ip f \<or> (\<forall>f'. \<not> pins x ip f')
       \<and> (\<exists>before p after. ps = before @ p # after \<and> pins p ip f \<and> (\<forall>q\<in>set after. \<forall>f'. \<not> pins q ip f'))"
    (is "?L \<longleftrightarrow> ?R")
  proof
    assume ?L
    then obtain b p a where pa: "ps @ [x] = b @ p # a" "pins p ip f" "\<forall>q\<in>set a. \<forall>f'. \<not> pins q ip f'" by blast
    then show ?R
      by (cases a rule: rev_cases) auto
  next
    assume ?R
    then show ?L
    proof
      assume "pins x ip f"
      then show ?L by (intro exI[of _ ps] exI[of _ x] exI[of _ "[]"]) simp
    next
      assume "(\<forall>f'. \<not> pins x ip f')
       \<and> (\<exists>before p after. ps = before @ p # after \<and> pins p ip f \<and> (\<forall>q\<in>set after. \<forall>f'. \<not> pins q ip f'))"
      then obtain b p a where "ps = b @ p # a" "pins p ip f" "\<forall>q\<in>set a. \<forall>f'. \<not> pins q ip f'" "\<forall>f'. \<not> pins x ip f'"
        by blast
      then show ?L by (intro exI[of _ b] exI[of _ p] exI[of _ "a @ [x]"]) auto
    qed
  qed
  show ?case
  proof (cases "pin_of x")
    case None
    then have "\<not> pins x ip' f'" for ip' f' by (metis pin_of_iff option.distinct(1))
    with None snoc show ?thesis by (simp add: refresh_snoc last)
  next
    case (Some c)
    then obtain ip' f' where c: "pin_of x = Some (ip', f')" by (cases c) auto
    then have "pins x i g \<longleftrightarrow> i = ip' \<and> g = f'" for i g by (metis pin_of_iff option.inject prod.inject)
    with c snoc show ?thesis by (auto simp: refresh_snoc last)
  qed
qed (simp add: refresh_fingerprints_def map_filter_simps)

lemma trusted_pins:
  "trusted t \<Longrightarrow> tr_listings t \<noteq> [] \<and> tr_verifier t = \<lparr>pv_pins = refresh_fingerprints (last (tr_listings t)), pv_poisoned = False\<rparr>"
proof (induction rule: trusted.induct)
  case (start r t)
  then show ?case
    by (auto simp: start_trust_def refresh_trust_def set_pins_def new_verifier_def split: sum.splits)
next
  case (again t r)
  then show ?case
    by (auto simp: refresh_trust_def set_pins_def split: sum.splits option.splits)
qed

section \<open>Who is trusted\<close>

text \<open>Of the pods of a listing, the last that pins the address.\<close>

definition pinned_by :: "roder_pod list \<Rightarrow> string \<Rightarrow> string \<Rightarrow> bool" where
  "pinned_by pods ip f \<longleftrightarrow>
     (\<exists>before p after. pods = before @ p # after \<and> pins p ip f \<and> (\<forall>q\<in>set after. \<forall>f'. \<not> pins q ip f'))"

lemma server_accepted:
  assumes "trusted t"
  shows "verify_server_cert env (tr_verifier t) cert chain ip = Inr () \<longleftrightarrow>
    pinned_by (last (tr_listings t)) ip (hex_sha256 env cert)"
  using trusted_pins[OF assms]
  by (auto simp: verify_server_cert_def verify_pinned_server_def verify_fingerprint_def pinned_by_def
      simp flip: refresh_get split: option.splits)

lemma client_accepted:
  assumes "trusted t"
  shows "verify_client_cert env (tr_verifier t) cert chain = Inr () \<longleftrightarrow>
    (\<exists>ip. pinned_by (last (tr_listings t)) ip (hex_sha256 env cert))"
  using trusted_pins[OF assms]
  by (auto simp: verify_client_cert_def verify_pinned_client_def hm_any_get[OF refresh_ok] pinned_by_def
      simp flip: refresh_get)

text \<open>C35: a replica only talks to replicas that were listed.  At any time of its run it holds the pins of the last listing
  that succeeded, and then: a server behind an address is accepted exactly when the last listed pod that is ready
  with that address and a well-formed annotation has this certificate's fingerprint; a client is accepted exactly
  when the fingerprint of its certificate is pinned for some pod of that listing; and a handshake counts only
  under TLS 1.3 with an Ed25519 signature that verifies.\<close>
theorem peers_are_listed_replicas:
  assumes "trusted t"
  shows "(verify_server_cert env (tr_verifier t) cert chain ip = Inr () \<longleftrightarrow>
      pinned_by (last (tr_listings t)) ip (hex_sha256 env cert))
    \<and> (verify_client_cert env (tr_verifier t) cert chain = Inr () \<longleftrightarrow>
      (\<exists>ip. pinned_by (last (tr_listings t)) ip (hex_sha256 env cert)))
    \<and> (signature_ok env version message cert dss = Inr () \<longleftrightarrow>
        version = TLS13 \<and> dss_scheme dss = ED25519 \<and> te_verify_tls13 env message cert dss = Inr ())"
  using server_accepted[OF assms] client_accepted[OF assms]
  by (cases version)
    (auto simp: signature_ok_def verify_tls12_signature_def verify_tls13_signature_def verify_signature_def)

text \<open>A published fingerprint is trusted.  When a replica minted its certificate, published its fingerprint on its pod,
  and the others' last listing has that pod ready under an address no other pod shares, then they accept its
  certificate both as the server behind that address and as a client.  SHA-256 has 32 bytes.\<close>
theorem published_fingerprint_is_trusted:
  assumes "mint env now1 now2 generated (rp_name p) = Inr cert"
    and "rp_tls_fingerprint p = Some (pc_fingerprint cert)"
    and "trusted t" and "p \<in> set (last (tr_listings t))" and "rp_ready p"
    and "\<And>q. q \<in> set (last (tr_listings t)) \<Longrightarrow> rp_ip q = rp_ip p \<Longrightarrow> q = p"
    and "length (te_sha256 env (pc_der cert)) = 32"
  shows "verify_server_cert env (tr_verifier t) (pc_der cert) [] (rp_ip p) = Inr ()
    \<and> verify_client_cert env (tr_verifier t) (pc_der cert) [] = Inr ()"
proof -
  have "pc_fingerprint cert = hex_sha256 env (pc_der cert)"
    using assms(1) by (auto simp: mint_def Let_def split: option.splits sum.splits)
  then have pinned: "pins p (rp_ip p) (hex_sha256 env (pc_der cert))"
    using assms(2,5,7) by (simp add: pins_def hex_sha256_well_formed)
  obtain before after where split: "last (tr_listings t) = before @ p # after" "p \<notin> set after"
    using split_list_last[OF assms(4)] by blast
  have "\<not> pins q (rp_ip p) f" if "q \<in> set after" for q f
    using that split assms(6)[of q] by (auto simp: pins_def)
  with split pinned have "pinned_by (last (tr_listings t)) (rp_ip p) (hex_sha256 env (pc_der cert))"
    unfolding pinned_by_def by blast
  then show ?thesis
    by (auto simp: server_accepted[OF assms(3)] client_accepted[OF assms(3)])
qed

section \<open>Witnesses\<close>

definition zero_env :: tls_env where
  "zero_env = \<lparr>te_sha256 = (\<lambda>_. replicate 32 0), te_params = (\<lambda>_. None), te_self_signed = (\<lambda>_ _. Inr ''der''),
     te_accepts = (\<lambda>_ _ _. None), te_verify_tls13 = (\<lambda>_ _ _. Inr ())\<rparr>"

definition zero_pod :: roder_pod where
  "zero_pod = \<lparr>rp_name = ''roder-0'', rp_uid = ''u'', rp_node = ''n'', rp_ip = ''10.0.0.1'', rp_ready = True,
     rp_tls_fingerprint = Some (hex_sha256 zero_env ''der'')\<rparr>"

definition zero_trust :: trust where
  "zero_trust = refresh_trust (Inl ''unreachable'')
     (refresh_trust (Inr [zero_pod]) \<lparr>tr_verifier = new_verifier, tr_listings = []\<rparr>)"

lemma zero_trusted: "trusted zero_trust" "tr_listings zero_trust = [[zero_pod]]"
proof -
  have "start_trust (Inr [zero_pod]) = Inr (refresh_trust (Inr [zero_pod]) \<lparr>tr_verifier = new_verifier, tr_listings = []\<rparr>)"
    by (simp add: start_trust_def)
  then show "trusted zero_trust"
    unfolding zero_trust_def by (intro trusted.again trusted.start)
  show "tr_listings zero_trust = [[zero_pod]]"
    by (simp add: zero_trust_def refresh_trust_def set_pins_def new_verifier_def)
qed

theorem peers_are_listed_replicas_witness:
  "trusted zero_trust \<and> verify_server_cert zero_env (tr_verifier zero_trust) ''der'' [] ''10.0.0.9'' \<noteq> Inr ()"
proof -
  have "\<not> pinned_by [zero_pod] ''10.0.0.9'' f" for f
    by (auto simp: pinned_by_def pins_def zero_pod_def Cons_eq_append_conv)
  with peers_are_listed_replicas[OF zero_trusted(1), of zero_env "''der''" "[]" "''10.0.0.9''"] zero_trusted(2)
    zero_trusted(1) show ?thesis by simp
qed

theorem published_fingerprint_is_trusted_witness:
  "verify_server_cert zero_env (tr_verifier zero_trust) ''der'' [] ''10.0.0.1'' = Inr ()"
  using published_fingerprint_is_trusted[of zero_env 0 0 "Inr ''key''" zero_pod
      "\<lparr>pc_der = ''der'', pc_key = ''key'', pc_fingerprint = hex_sha256 zero_env ''der''\<rparr>" zero_trust]
  by (simp add: zero_trusted mint_def zero_pod_def) (simp add: zero_env_def)

end
