(* ===== verification/Talos.thy ===== *)
theory Talos
  imports Action Peers Overview
begin

text \<open>
  Reading Talos nodes: \<open>crates/talos\<close> (the status of a node assembled from nine answers, the snapshot of its machine
  configuration without secrets, the lines of its kernel log) and the endpoints of \<open>server/api/talos.rs\<close> that
  serve them.  The gRPC answers are the environment's; the requests run one after the other.
\<close>

section \<open>Metadata of an answer\<close>

record talos_metadata =
  md_error :: string
  md_status_message :: "string option"

definition metadata_failure :: "talos_metadata option list \<Rightarrow> string option" where
  "metadata_failure items = find_map (\<lambda>m. case m of
       None \<Rightarrow> None
     | Some md \<Rightarrow> if md_error md \<noteq> [] then Some (md_error md)
         else Option.bind (md_status_message md) (\<lambda>s. if s \<noteq> [] then Some s else None)) items"

definition ensure_metadata :: "talos_metadata option list \<Rightarrow> talos_error + unit" where
  "ensure_metadata items = (case metadata_failure items of Some e \<Rightarrow> Inl (TalosUpstream e) | None \<Rightarrow> Inr ())"

text \<open>A protobuf timestamp, whose seconds and nanoseconds are signed; \<open>fmt\<close> is the RFC 3339 formatting of the library
  or the message of what failed in it.\<close>

definition protobuf_timestamp :: "(int \<Rightarrow> nat \<Rightarrow> string + string) \<Rightarrow> int \<times> int \<Rightarrow> talos_error + string" where
  "protobuf_timestamp fmt ts = (case ts of (seconds, nanos) \<Rightarrow>
     if nanos < 0 \<or> 1000000000 \<le> nanos then Inl (TalosUpstream ''invalid protobuf timestamp nanoseconds'')
     else map_err TalosUpstream (fmt seconds (nat nanos)))"

section \<open>The status of a node\<close>

record talos_service_event =
  te_state :: string
  te_message :: string
  te_timestamp :: "string option"

record talos_service =
  ts_id :: string
  ts_state :: string
  ts_healthy :: bool
  ts_message :: string
  ts_health_unknown :: bool
  ts_last_change :: "string option"
  ts_events :: "talos_service_event list"

record talos_mount =
  tm_filesystem :: string
  tm_mounted_on :: string
  tm_size :: nat
  tm_available :: nat

record talos_interface =
  ti_name :: string
  ti_addresses :: "string list"
  ti_link_up :: "bool option"
  ti_operational_state :: "string option"
  ti_hardware_address :: "string option"
  ti_mtu :: "nat option"
  ti_speed_mbps :: "nat option"
  ti_duplex :: "string option"
  ti_kind :: "string option"
  ti_rx_bytes :: nat
  ti_tx_bytes :: nat
  ti_rx_errors :: nat
  ti_tx_errors :: nat
  ti_rx_dropped :: nat
  ti_tx_dropped :: nat

record talos_disk =
  tk_name :: string
  tk_path :: string
  tk_size :: nat
  tk_model :: "string option"
  tk_serial :: "string option"
  tk_transport :: "string option"
  tk_wwid :: "string option"
  tk_rotational :: bool
  tk_readonly :: bool

record talos_volume =
  tv_name :: string
  tv_path :: string
  tv_parent_path :: "string option"
  tv_partition_index :: "nat option"
  tv_size :: nat
  tv_filesystem :: "string option"
  tv_phase :: string
  tv_encryption :: "string option"
  tv_used_bytes :: "nat option"
  tv_available_bytes :: "nat option"

record talos_disk_stat =
  td_name :: string
  td_read_bytes :: nat
  td_write_bytes :: nat
  td_reads :: nat
  td_writes :: nat
  td_io_in_progress :: nat
  td_io_time_ms :: nat

record talos_node_status =
  tn_node :: string
  tn_version :: string
  tn_control_plane :: bool
  tn_services :: "talos_service list"
  tn_mounts :: "talos_mount list"
  tn_interfaces :: "talos_interface list"
  tn_disk_inventory :: "talos_disk list"
  tn_volumes :: "talos_volume list"
  tn_disks :: "talos_disk_stat list"
  tn_config_fingerprint :: "string option"
  tn_errors :: "(string, string) hmap"

text \<open>The answers: messages with their metadata, and resources with a JSON specification.  A service has an optional health
  (healthy, last message, unknown, last change) and optional events; a disk statistic counts sectors.\<close>

record service_info =
  si_id :: string
  si_state :: string
  si_health :: "(bool \<times> string \<times> bool \<times> (int \<times> int) option) option"
  si_events :: "(string \<times> string \<times> (int \<times> int) option) list option"

record disk_info =
  di_name :: string
  di_read_sectors :: nat
  di_write_sectors :: nat
  di_reads :: nat
  di_writes :: nat
  di_io_in_progress :: nat
  di_io_time_ms :: nat

record cosi_resource =
  cr_id :: string
  cr_spec :: json

type_synonym 'a talos_messages = "talos_error + (talos_metadata option \<times> 'a) list"

record node_answers =
  na_version :: "string option talos_messages"
  na_services :: "service_info list talos_messages"
  na_mounts :: "talos_mount list talos_messages"
  na_network :: "talos_interface list talos_messages"
  na_disks :: "disk_info list talos_messages"
  na_inventory :: "talos_error + cosi_resource list"
  na_volumes :: "talos_error + cosi_resource list"
  na_links :: "talos_error + cosi_resource list"
  na_addresses :: "talos_error + cosi_resource list"

text \<open>Each section of the status is what was answered, or its error under its name and nothing.\<close>

definition grpc_section :: "'a talos_messages \<Rightarrow> string + 'a list" where
  "grpc_section r = (case r of
     Inl e \<Rightarrow> Inl (talos_error_text e)
   | Inr messages \<Rightarrow> (case metadata_failure (map fst messages) of
       Some e \<Rightarrow> Inl e | None \<Rightarrow> Inr (map snd messages)))"

definition cosi_section :: "talos_error + cosi_resource list \<Rightarrow> string + cosi_resource list" where
  "cosi_section r = map_err talos_error_text r"

definition section_value :: "'b \<Rightarrow> ('a \<Rightarrow> 'b) \<Rightarrow> string + 'a \<Rightarrow> 'b" where
  "section_value d f r = (case r of Inl _ \<Rightarrow> d | Inr x \<Rightarrow> f x)"

definition section_error :: "string \<Rightarrow> string + 'a \<Rightarrow> (string, string) hmap \<Rightarrow> (string, string) hmap" where
  "section_error name r errors = (case r of Inl e \<Rightarrow> hm_insert name e errors | Inr _ \<Rightarrow> errors)"

definition service_of :: "(int \<Rightarrow> nat \<Rightarrow> string + string) \<Rightarrow> service_info \<Rightarrow> talos_service" where
  "service_of fmt s =
     (let shown = (\<lambda>ts. case protobuf_timestamp fmt ts of Inr t \<Rightarrow> Some t | Inl _ \<Rightarrow> None) in
      \<lparr>ts_id = si_id s, ts_state = si_state s,
       ts_healthy = (case si_health s of Some (h, _) \<Rightarrow> h | None \<Rightarrow> False),
       ts_message = (case si_health s of Some (_, m, _) \<Rightarrow> m | None \<Rightarrow> []),
       ts_health_unknown = (case si_health s of Some (_, _, u, _) \<Rightarrow> u | None \<Rightarrow> True),
       ts_last_change = (case si_health s of Some (_, _, _, t) \<Rightarrow> Option.bind t shown | None \<Rightarrow> None),
       ts_events = map (\<lambda>(st, msg, t). \<lparr>te_state = st, te_message = msg, te_timestamp = Option.bind t shown\<rparr>)
         (unwrap_or [] (si_events s))\<rparr>)"

definition U64_MAX :: nat where
  "U64_MAX = 2 ^ 64 - 1"

definition disk_stat_of :: "disk_info \<Rightarrow> talos_disk_stat" where
  "disk_stat_of d = \<lparr>td_name = di_name d, td_read_bytes = min U64_MAX (di_read_sectors d * 512),
     td_write_bytes = min U64_MAX (di_write_sectors d * 512), td_reads = di_reads d, td_writes = di_writes d,
     td_io_in_progress = di_io_in_progress d, td_io_time_ms = di_io_time_ms d\<rparr>"

definition string_field :: "json \<Rightarrow> string \<Rightarrow> string" where
  "string_field v k = unwrap_or [] (Option.bind (jget v k) as_str)"

definition optional_string_field :: "json \<Rightarrow> string \<Rightarrow> string option" where
  "optional_string_field v k = (let s = string_field v k in if s \<noteq> [] then Some s else None)"

definition u64_field :: "json \<Rightarrow> string \<Rightarrow> nat" where
  "u64_field v k = unwrap_or 0 (Option.bind (jget v k) as_u64)"

definition u32_field :: "json \<Rightarrow> string \<Rightarrow> nat option" where
  "u32_field v k = Option.bind (Option.bind (jget v k) as_u64) (\<lambda>n. if n < 2 ^ 32 then Some n else None)"

definition bool_field :: "json \<Rightarrow> string \<Rightarrow> bool" where
  "bool_field v k = unwrap_or False (Option.bind (jget v k) as_bool)"

definition other_than :: "string \<Rightarrow> string option \<Rightarrow> string option" where
  "other_than bad s = Option.bind s (\<lambda>x. if x \<noteq> bad then Some x else None)"

definition disk_of :: "cosi_resource \<Rightarrow> talos_disk" where
  "disk_of r = \<lparr>tk_name = cr_id r, tk_path = string_field (cr_spec r) ''dev_path'', tk_size = u64_field (cr_spec r) ''size'',
     tk_model = optional_string_field (cr_spec r) ''model'', tk_serial = optional_string_field (cr_spec r) ''serial'',
     tk_transport = optional_string_field (cr_spec r) ''transport'', tk_wwid = optional_string_field (cr_spec r) ''wwid'',
     tk_rotational = bool_field (cr_spec r) ''rotational'', tk_readonly = bool_field (cr_spec r) ''readonly''\<rparr>"

definition real_disk :: "cosi_resource \<Rightarrow> bool" where
  "real_disk r \<longleftrightarrow> \<not> bool_field (cr_spec r) ''cdrom''
     \<and> (string_field (cr_spec r) ''model'' \<noteq> [] \<or> string_field (cr_spec r) ''transport'' \<noteq> [])"

definition volume_of :: "talos_mount list \<Rightarrow> cosi_resource \<Rightarrow> talos_volume" where
  "volume_of mounts r =
     (let spec = cr_spec r; path = string_field spec ''location'';
          target = unwrap_or [] (Option.bind (jpointer spec [''mountSpec'', ''targetPath'']) as_str);
          usage = find (\<lambda>m. tm_filesystem m = path \<or> target \<noteq> [] \<and> tm_mounted_on m = target) mounts
      in \<lparr>tv_name = cr_id r, tv_path = path, tv_parent_path = optional_string_field spec ''parentLocation'',
          tv_partition_index = u32_field spec ''partitionIndex'', tv_size = u64_field spec ''size'',
          tv_filesystem = other_than ''none'' (optional_string_field spec ''filesystem''),
          tv_phase = string_field spec ''phase'',
          tv_encryption = other_than ''none'' (optional_string_field spec ''encryptionProvider''),
          tv_used_bytes = map_option (\<lambda>m. tm_size m - tm_available m) usage,
          tv_available_bytes = map_option tm_available usage\<rparr>)"

definition empty_interface :: "string \<Rightarrow> talos_interface" where
  "empty_interface name = \<lparr>ti_name = name, ti_addresses = [], ti_link_up = None, ti_operational_state = None,
     ti_hardware_address = None, ti_mtu = None, ti_speed_mbps = None, ti_duplex = None, ti_kind = None,
     ti_rx_bytes = 0, ti_tx_bytes = 0, ti_rx_errors = 0, ti_tx_errors = 0, ti_rx_dropped = 0, ti_tx_dropped = 0\<rparr>"

definition entry_interface :: "(string, talos_interface) hmap \<Rightarrow> string \<Rightarrow> talos_interface" where
  "entry_interface m name = unwrap_or (empty_interface name) (hm_get m name)"

definition add_link :: "cosi_resource \<Rightarrow> (string, talos_interface) hmap \<Rightarrow> (string, talos_interface) hmap" where
  "add_link r m =
     (let spec = cr_spec r; i = entry_interface m (cr_id r) in
      hm_insert (cr_id r) (i\<lparr>ti_link_up := Some (bool_field spec ''linkState''),
        ti_operational_state := optional_string_field spec ''operationalState'',
        ti_hardware_address := optional_string_field spec ''hardwareAddr'',
        ti_mtu := u32_field spec ''mtu'',
        ti_speed_mbps := Option.bind (u32_field spec ''speedMbit'') (\<lambda>n. if n \<noteq> 2 ^ 32 - 1 \<and> 0 < n then Some n else None),
        ti_duplex := other_than ''Unknown'' (optional_string_field spec ''duplex''),
        ti_kind := optional_string_field spec ''kind''\<rparr>) m)"

definition add_address :: "cosi_resource \<Rightarrow> (string, talos_interface) hmap \<Rightarrow> (string, talos_interface) hmap" where
  "add_address r m =
     (let name = string_field (cr_spec r) ''linkName''; address = string_field (cr_spec r) ''address'';
          i = entry_interface m name
      in if name = [] \<or> address = [] then m
         else hm_insert name (i\<lparr>ti_addresses := ti_addresses i @ [address]\<rparr>) m)"

definition interesting_interface :: "talos_interface \<Rightarrow> bool" where
  "interesting_interface i \<longleftrightarrow>
     ti_name i \<noteq> ''lo''
     \<and> \<not> list_ex (starts_with (ti_name i)) [''cilium_'', ''lxc'', ''veth'', ''dummy'', ''ip6tnl'', ''tunl'']
     \<and> (ti_addresses i \<noteq> []
        \<or> (case ti_hardware_address i of Some a \<Rightarrow> a \<noteq> ''00:00:00:00:00:00'' | None \<Rightarrow> False)
        \<or> ti_kind i \<in> {Some ''bond'', Some ''bridge'', Some ''vlan''})"

definition interfaces_of ::
  "talos_interface list \<Rightarrow> cosi_resource list \<Rightarrow> cosi_resource list \<Rightarrow> talos_interface list" where
  "interfaces_of stats links addresses =
     (let m = fold (\<lambda>i. hm_insert (ti_name i) i) stats []
      in filter interesting_interface (map snd (sort_key fst (fold add_address addresses (fold add_link links m)))))"

definition talos_status :: "(int \<Rightarrow> nat \<Rightarrow> string + string) \<Rightarrow> string \<Rightarrow> node_answers \<Rightarrow> talos_error + talos_node_status" where
  "talos_status fmt node a =
     (let version = grpc_section (na_version a); services = grpc_section (na_services a);
          mounts = grpc_section (na_mounts a); network = grpc_section (na_network a); disks = grpc_section (na_disks a);
          inventory = cosi_section (na_inventory a); volumes = cosi_section (na_volumes a);
          links = cosi_section (na_links a); addresses = cosi_section (na_addresses a);
          errors = section_error ''network addresses'' addresses (section_error ''network links'' links
            (section_error ''volumes'' volumes (section_error ''disk inventory'' inventory
            (section_error ''disks'' disks (section_error ''network'' network (section_error ''mounts'' mounts
            (section_error ''services'' services (section_error ''version'' version []))))))));
          mounted = section_value [] concat mounts
      in if length errors = 9 then Inl (TalosUpstream ''all Talos status sections failed'')
         else Inr \<lparr>tn_node = node,
           tn_version = section_value [] (\<lambda>ms. case ms of Some v # _ \<Rightarrow> v | _ \<Rightarrow> []) version,
           tn_control_plane = False,
           tn_services = section_value [] (\<lambda>ms. map (service_of fmt) (concat ms)) services,
           tn_mounts = mounted,
           tn_interfaces = interfaces_of
             (section_value [] (\<lambda>ms. map (\<lambda>i. (empty_interface (ti_name i))\<lparr>ti_rx_bytes := ti_rx_bytes i,
                ti_tx_bytes := ti_tx_bytes i, ti_rx_errors := ti_rx_errors i, ti_tx_errors := ti_tx_errors i,
                ti_rx_dropped := ti_rx_dropped i, ti_tx_dropped := ti_tx_dropped i\<rparr>) (concat ms)) network)
             (section_value [] id links) (section_value [] id addresses),
           tn_disk_inventory = section_value [] (\<lambda>rs. map disk_of (filter real_disk rs)) inventory,
           tn_volumes = section_value [] (\<lambda>rs. map (volume_of mounted)
             (filter (\<lambda>r. string_field (cr_spec r) ''type'' = ''partition'') rs)) volumes,
           tn_disks = section_value [] (\<lambda>ms. map disk_stat_of (concat ms)) disks,
           tn_config_fingerprint = None,
           tn_errors = errors\<rparr>)"

section \<open>The machine configuration without its secrets\<close>

datatype config_field = Plain string | Sensitive string

record config_snapshot =
  cs_fingerprint :: string
  cs_fields :: "(string, config_field) hmap"

text \<open>SHA-256 and the JSON text of a value (empty when it cannot be written).\<close>

record digest_env =
  dg_sha256 :: "string \<Rightarrow> 8 word list"
  dg_json :: "json \<Rightarrow> string option"

definition hex_digest :: "digest_env \<Rightarrow> string \<Rightarrow> string" where
  "hex_digest env bytes = concat (map hex_byte (dg_sha256 env bytes))"

definition last_key :: "string \<Rightarrow> string" where
  "last_key path = last (split_on (CHR ''/'') path)"

definition sensitive_path :: "string \<Rightarrow> bool" where
  "sensitive_path path =
     (let key = str_ascii_lower (last_key path) in
      key = ''ca''
      \<or> list_ex (str_contains key) [''token'', ''secret'', ''password'', ''credential'', ''auth'', ''private'']
      \<or> key = ''psk'' \<or> ends_with key ''psk'' \<or> str_contains key ''certificate''
      \<or> ends_with key ''key'' \<or> ends_with key ''crt'')"

definition scalar_text :: "json \<Rightarrow> string" where
  "scalar_text v = (case v of
     JNull \<Rightarrow> ''null'' | JBool b \<Rightarrow> show_bool b | JNumber n \<Rightarrow> show_number n | JString s \<Rightarrow> s | _ \<Rightarrow> [])"

function (sequential) flatten_config ::
  "digest_env \<Rightarrow> string \<Rightarrow> json \<Rightarrow> (string, config_field) hmap \<Rightarrow> (string, config_field) hmap" where
  "flatten_config env path (JObject es) out =
     (if sensitive_path path then hm_insert path (Sensitive (hex_digest env (unwrap_or [] (dg_json env (JObject es))))) out
      else fold (\<lambda>(k, v). flatten_config env (path @ ''/'' @ k) v) es out)"
| "flatten_config env path (JArray vs) out =
     (if sensitive_path path then hm_insert path (Sensitive (hex_digest env (unwrap_or [] (dg_json env (JArray vs))))) out
      else fold (\<lambda>(i, v). flatten_config env (path @ ''/'' @ show_nat i) v) (enumerate 0 vs) out)"
| "flatten_config env path v out =
     (if sensitive_path path then hm_insert path (Sensitive (hex_digest env (unwrap_or [] (dg_json env v)))) out
      else hm_insert path (Plain (scalar_text v)) out)"
  by pat_completeness auto
termination
  by (relation "measure (\<lambda>(env, path, v, out). size v)")
    (auto simp: size_entry size_element dest!: in_set_enumerateD)

definition SAFE_ROOTS :: "string list list" where
  "SAFE_ROOTS = [[''machine'', ''type''], [''machine'', ''install''], [''machine'', ''network''], [''machine'', ''kubelet''],
     [''machine'', ''features''], [''machine'', ''sysctls''], [''machine'', ''kernel'', ''modules''],
     [''cluster'', ''clusterName''], [''cluster'', ''network''], [''cluster'', ''discovery''], [''cluster'', ''apiServer''],
     [''cluster'', ''controllerManager''], [''cluster'', ''scheduler''], [''cluster'', ''etcd'']]"

definition root_path :: "string list \<Rightarrow> string" where
  "root_path ks = concat (map (\<lambda>k. ''/'' @ k) ks)"

definition config_fields :: "digest_env \<Rightarrow> json \<Rightarrow> (string, config_field) hmap" where
  "config_fields env config = fold (\<lambda>root out. case jpointer config root of
       None \<Rightarrow> out | Some v \<Rightarrow> flatten_config env (root_path root) v out) SAFE_ROOTS []"

definition field_text :: "config_field \<Rightarrow> string" where
  "field_text f = (case f of Plain v \<Rightarrow> v | Sensitive v \<Rightarrow> v)"

definition config_snapshot_of :: "digest_env \<Rightarrow> json \<Rightarrow> config_snapshot" where
  "config_snapshot_of env config =
     (let out = config_fields env config in
      \<lparr>cs_fingerprint = hex_digest env (concat (map (\<lambda>(path, f). path @ CHR 0x00 # field_text f @ [CHR 0x00])
         (sort_key fst out))), cs_fields = out\<rparr>)"

definition machine_config_document :: "json \<Rightarrow> json option" where
  "machine_config_document spec =
     find (\<lambda>d. jget d ''machine'' \<noteq> None \<or> jget d ''cluster'' \<noteq> None) (unwrap_or [spec] (as_array spec))"

definition config_snapshot_answer :: "digest_env \<Rightarrow> talos_error + cosi_resource list \<Rightarrow> talos_error + config_snapshot" where
  "config_snapshot_answer env r = and_then r (\<lambda>rs. case rs of
     [] \<Rightarrow> Inl (TalosUpstream ''machine configuration resource is empty'')
   | c # _ \<Rightarrow> (case machine_config_document (cr_spec c) of
       None \<Rightarrow> Inl (TalosUpstream ''machine configuration document is missing'')
     | Some spec \<Rightarrow> Inr (config_snapshot_of env spec)))"

record config_difference =
  df_path :: string
  df_node_value :: "string option"
  df_peer_value :: "string option"
  df_sensitive :: bool

definition config_display_value :: "config_field option \<Rightarrow> string option" where
  "config_display_value v = map_option (\<lambda>f. case f of Plain x \<Rightarrow> x | Sensitive _ \<Rightarrow> ''<redacted>'') v"

definition is_sensitive :: "config_field option \<Rightarrow> bool" where
  "is_sensitive v \<longleftrightarrow> (case v of Some (Sensitive _) \<Rightarrow> True | _ \<Rightarrow> False)"

definition config_difference_at ::
  "(string, config_field) hmap \<Rightarrow> (string, config_field) hmap \<Rightarrow> string \<Rightarrow> config_difference option" where
  "config_difference_at selected peer path =
     (let l = hm_get selected path; r = hm_get peer path in
      if l = r then None
      else Some \<lparr>df_path = path, df_node_value = config_display_value l, df_peer_value = config_display_value r,
        df_sensitive = (is_sensitive l \<or> is_sensitive r)\<rparr>)"

definition config_differences ::
  "(string, config_field) hmap \<Rightarrow> (string, config_field) hmap \<Rightarrow> config_difference list" where
  "config_differences selected peer =
     List.map_filter (config_difference_at selected peer) (sort (remdups (map fst selected @ map fst peer)))"

section \<open>The kernel log\<close>

record dmesg_lines =
  dl_lines :: "string list"
  dl_retained :: nat
  dl_pending :: string
  dl_truncated :: bool
  dl_max_lines :: nat
  dl_max_bytes :: nat
  dl_max_line_bytes :: nat

definition new_dmesg :: "nat \<Rightarrow> nat \<Rightarrow> nat \<Rightarrow> dmesg_lines" where
  "new_dmesg max_lines max_bytes max_line_bytes = \<lparr>dl_lines = [], dl_retained = 0, dl_pending = [], dl_truncated = False,
     dl_max_lines = max_lines, dl_max_bytes = max_bytes, dl_max_line_bytes = max_line_bytes\<rparr>"

text \<open>The loop that drops lines from the front.\<close>

fun drop_oldest :: "nat \<Rightarrow> nat \<Rightarrow> string list \<Rightarrow> nat \<Rightarrow> string list \<times> nat" where
  "drop_oldest max_lines max_bytes [] retained = ([], retained)"
| "drop_oldest max_lines max_bytes (l # ls) retained =
     (if max_lines < length (l # ls) \<or> max_bytes < retained then drop_oldest max_lines max_bytes ls (retained - length l)
      else (l # ls, retained))"

definition drop_cr :: "string \<Rightarrow> string" where
  "drop_cr s = (if s \<noteq> [] \<and> last s = CHR 0x0D then butlast s else s)"

definition finish_pending :: "(string \<Rightarrow> string) \<Rightarrow> dmesg_lines \<Rightarrow> dmesg_lines" where
  "finish_pending lossy d =
     (if dl_pending d = [] \<and> \<not> dl_truncated d then d
      else let line = lossy (drop_cr (dl_pending d)) @ (if dl_truncated d then '' [line truncated]'' else []);
               kept = drop_oldest (dl_max_lines d) (dl_max_bytes d) (dl_lines d @ [line]) (dl_retained d + length line)
           in d\<lparr>dl_pending := [], dl_truncated := False, dl_lines := fst kept, dl_retained := snd kept\<rparr>)"

definition push_byte :: "(string \<Rightarrow> string) \<Rightarrow> char \<Rightarrow> dmesg_lines \<Rightarrow> dmesg_lines" where
  "push_byte lossy c d =
     (if c = CHR 0x0A then finish_pending lossy d
      else if length (dl_pending d) < dl_max_line_bytes d then d\<lparr>dl_pending := dl_pending d @ [c]\<rparr>
      else d\<lparr>dl_truncated := True\<rparr>)"

definition push_record :: "(string \<Rightarrow> string) \<Rightarrow> string \<Rightarrow> dmesg_lines \<Rightarrow> dmesg_lines" where
  "push_record lossy bytes d = finish_pending lossy (fold (push_byte lossy) bytes d)"

definition take_completed :: "dmesg_lines \<Rightarrow> string list \<times> dmesg_lines" where
  "take_completed d = (dl_lines d, d\<lparr>dl_lines := [], dl_retained := 0\<rparr>)"

definition dmesg_buffer :: dmesg_lines where
  "dmesg_buffer = new_dmesg 500 (2 * 1024 * 1024) (64 * 1024)"

text \<open>The messages of a stream, up to its end or its error.\<close>

type_synonym dmesg_message = "talos_error + talos_metadata option \<times> string"

fun read_snapshot :: "(string \<Rightarrow> string) \<Rightarrow> dmesg_message list \<Rightarrow> dmesg_lines \<Rightarrow> talos_error + string list" where
  "read_snapshot lossy [] d = Inr (fst (take_completed (finish_pending lossy d)))"
| "read_snapshot lossy (Inl e # ms) d = Inl e"
| "read_snapshot lossy (Inr (md, bytes) # ms) d = (case metadata_failure [md] of
     Some e \<Rightarrow> Inl (TalosUpstream e) | None \<Rightarrow> read_snapshot lossy ms (push_record lossy bytes d))"

fun follow_lines :: "(string \<Rightarrow> string) \<Rightarrow> dmesg_message list \<Rightarrow> dmesg_lines \<Rightarrow> (talos_error + string) list" where
  "follow_lines lossy [] d = map Inr (fst (take_completed (finish_pending lossy d)))"
| "follow_lines lossy (Inl e # ms) d = [Inl e]"
| "follow_lines lossy (Inr (md, bytes) # ms) d = (case metadata_failure [md] of
     Some e \<Rightarrow> [Inl (TalosUpstream e)]
   | None \<Rightarrow> (case take_completed (push_record lossy bytes d) of (ls, d) \<Rightarrow> map Inr ls @ follow_lines lossy ms d))"

text \<open>The snapshot is requested (and may fail at that) and read within fifteen seconds (\<open>None\<close>: not in time); then
  the log is followed.\<close>

definition dmesg_stream ::
  "(string \<Rightarrow> string) \<Rightarrow> talos_error + dmesg_message list option \<Rightarrow> talos_error + dmesg_message list
     \<Rightarrow> talos_error + (talos_error + string) list" where
  "dmesg_stream lossy snapshot live = and_then snapshot (\<lambda>r. case r of
     None \<Rightarrow> Inl (TalosTimeout ''dmesg snapshot'')
   | Some ms \<Rightarrow> and_then (read_snapshot lossy ms dmesg_buffer) (\<lambda>initial.
       Inr (map Inr initial @ (case live of
         Inl e \<Rightarrow> [Inl e] | Inr ms \<Rightarrow> follow_lines lossy ms dmesg_buffer))))"

section \<open>The endpoints\<close>

text \<open>What is read from a node is kept as a history, with the nodes the login was seen to be allowed to read.\<close>

datatype talos_read = ReadStatus string | ReadConfig string | ReadDmesg string

record 'w talos_st =
  tw_act :: "'w act_st"
  tw_seen :: "string list"
  tw_reads :: "talos_read list"

record 'w talos_env =
  tx_act :: "'w act_env"
  tx_answers :: "string \<Rightarrow> 'w \<Rightarrow> (talos_error + node_answers) \<times> 'w"
  tx_configs :: "string \<Rightarrow> 'w \<Rightarrow> (talos_error + cosi_resource list) \<times> 'w"
  tx_dmesg :: "string \<Rightarrow> 'w \<Rightarrow> (talos_error + dmesg_message list option) \<times> 'w"
  tx_follow :: "string \<Rightarrow> 'w \<Rightarrow> (talos_error + dmesg_message list) \<times> 'w"
  tx_overview :: "'w \<Rightarrow> (string + node_summary list) \<times> 'w"
  tx_format :: "int \<Rightarrow> nat \<Rightarrow> string + string"
  tx_digest :: digest_env
  tx_lossy :: "string \<Rightarrow> string"

type_synonym ('w, 'a) talking = "('w talos_st, 'a) state"

definition acting :: "('w act_st, 'a) state \<Rightarrow> ('w, 'a) talking" where
  "acting m = State (\<lambda>s. case run_state m (tw_act s) of (a, t) \<Rightarrow> (a, s\<lparr>tw_act := t\<rparr>))"

definition note_seen :: "string \<Rightarrow> ('w, unit) talking" where
  "note_seen node = State (\<lambda>s. ((), s\<lparr>tw_seen := tw_seen s @ [node]\<rparr>))"

definition note_read :: "talos_read \<Rightarrow> ('w, unit) talking" where
  "note_read r = State (\<lambda>s. ((), s\<lparr>tw_reads := tw_reads s @ [r]\<rparr>))"

definition see_node :: "'w talos_env \<Rightarrow> string \<Rightarrow> ('w, response + string \<times> json) talking" where
  "see_node env node = do {
     r \<leftarrow> acting (visible_node (tx_act env) node);
     case r of
       Inl e \<Rightarrow> ret (Inl e)
     | Inr d \<Rightarrow> do { note_seen node; ret (Inr d) } }"

definition read_status :: "'w talos_env \<Rightarrow> string \<Rightarrow> ('w, talos_error + talos_node_status) talking" where
  "read_status env node = do {
     note_read (ReadStatus node);
     r \<leftarrow> acting (ask (tx_answers env node));
     ret (and_then r (talos_status (tx_format env) node)) }"

definition read_config :: "'w talos_env \<Rightarrow> string \<Rightarrow> ('w, talos_error + config_snapshot) talking" where
  "read_config env node = do {
     note_read (ReadConfig node);
     r \<leftarrow> acting (ask (tx_configs env node));
     ret (config_snapshot_answer (tx_digest env) r) }"

definition read_dmesg :: "'w talos_env \<Rightarrow> string \<Rightarrow> ('w, talos_error + (talos_error + string) list) talking" where
  "read_dmesg env node = do {
     note_read (ReadDmesg node);
     r \<leftarrow> acting (ask (tx_dmesg env node));
     live \<leftarrow> acting (ask (tx_follow env node));
     ret (dmesg_stream (tx_lossy env) r live) }"

record config_peer_diff =
  pd_node :: string
  pd_fingerprint :: "string option"
  pd_matches :: "bool option"
  pd_differences :: "config_difference list"
  pd_error :: "string option"

datatype talos_answer =
    TalosRefused response
  | TalosStatusIs talos_node_status
  | TalosDiffIs string string "config_peer_diff list"
  | TalosLog "string list"

abbreviation talos_caps :: "'w talos_env \<Rightarrow> identity \<Rightarrow> talos_capabilities" where
  "talos_caps env who \<equiv> talos_capabilities_of (sv_config (ae_server (tx_act env))) (ae_talos (tx_act env)) who"

definition talos_node :: "'w talos_env \<Rightarrow> identity \<Rightarrow> string \<Rightarrow> ('w, talos_answer) talking" where
  "talos_node env who node =
     (if node = [] then ret (TalosRefused (status_response 400 ''missing node''))
      else if \<not> ae_talos (tx_act env) then ret (TalosRefused (status_response 404 []))
      else if \<not> tc_read (talos_caps env who) then ret (TalosRefused (status_response 403 []))
      else do {
        v \<leftarrow> see_node env node;
        case v of
          Inl e \<Rightarrow> ret (TalosRefused e)
        | Inr (key, detail) \<Rightarrow> do {
            r \<leftarrow> read_status env node;
            case r of
              Inl e \<Rightarrow> ret (TalosRefused (talos_error_response e))
            | Inr status \<Rightarrow>
                let status = status\<lparr>tn_control_plane := is_control_plane detail\<rparr> in
                if tc_config (talos_caps env who) then do {
                  c \<leftarrow> read_config env node;
                  ret (TalosStatusIs (case c of
                    Inr snapshot \<Rightarrow> status\<lparr>tn_config_fingerprint := Some (cs_fingerprint snapshot)\<rparr>
                  | Inl e \<Rightarrow> status\<lparr>tn_errors := hm_insert ''machine config'' (talos_error_text e) (tn_errors status)\<rparr>)) }
                else ret (TalosStatusIs status) } })"

definition talos_peer :: "string \<Rightarrow> node_summary \<Rightarrow> bool" where
  "talos_peer node n \<longleftrightarrow> nd_name n \<noteq> node
     \<and> (case nd_os_image n of Some img \<Rightarrow> starts_with img ''Talos'' | None \<Rightarrow> False)"

definition peer_diff :: "config_snapshot \<Rightarrow> string \<Rightarrow> talos_error + config_snapshot \<Rightarrow> config_peer_diff" where
  "peer_diff selected node r = (case r of
     Inr snapshot \<Rightarrow> \<lparr>pd_node = node, pd_fingerprint = Some (cs_fingerprint snapshot),
       pd_matches = Some (cs_fingerprint snapshot = cs_fingerprint selected),
       pd_differences = config_differences (cs_fields selected) (cs_fields snapshot), pd_error = None\<rparr>
   | Inl e \<Rightarrow> \<lparr>pd_node = node, pd_fingerprint = None, pd_matches = None, pd_differences = [],
       pd_error = Some (talos_error_text e)\<rparr>)"

text \<open>A peer the login cannot read is left out.\<close>

definition diff_peer :: "'w talos_env \<Rightarrow> config_snapshot \<Rightarrow> node_summary \<Rightarrow> ('w, config_peer_diff list) talking" where
  "diff_peer env selected n = do {
     v \<leftarrow> see_node env (nd_name n);
     case v of
       Inl _ \<Rightarrow> ret []
     | Inr _ \<Rightarrow> do {
         r \<leftarrow> read_config env (nd_name n);
         ret [peer_diff selected (nd_name n) r] } }"

definition talos_config_diff :: "'w talos_env \<Rightarrow> identity \<Rightarrow> string \<Rightarrow> ('w, talos_answer) talking" where
  "talos_config_diff env who node =
     (if node = [] then ret (TalosRefused (status_response 400 ''missing node''))
      else if \<not> tc_config (talos_caps env who) then ret (TalosRefused (status_response 403 []))
      else if \<not> ae_talos (tx_act env) then ret (TalosRefused (status_response 404 []))
      else do {
        v \<leftarrow> see_node env node;
        case v of
          Inl e \<Rightarrow> ret (TalosRefused e)
        | Inr _ \<Rightarrow> do {
            r \<leftarrow> read_config env node;
            case r of
              Inl e \<Rightarrow> ret (TalosRefused (talos_error_response e))
            | Inr selected \<Rightarrow> do {
                ov \<leftarrow> acting (ask (tx_overview env));
                case ov of
                  Inl e \<Rightarrow> ret (TalosRefused (bad_gateway e))
                | Inr nodes \<Rightarrow> do {
                    peers \<leftarrow> map_state (diff_peer env selected) (filter (talos_peer node) nodes);
                    ret (TalosDiffIs node (cs_fingerprint selected) (concat peers)) } } } })"

text \<open>The log as it is sent, with an error of the stream as a line of its own, and an end marker.\<close>

definition log_line :: "talos_error + string \<Rightarrow> string" where
  "log_line r = (case r of Inr l \<Rightarrow> l | Inl e \<Rightarrow> ''[roder] Talos log stream failed: '' @ talos_error_text e)"

definition talos_dmesg :: "'w talos_env \<Rightarrow> identity \<Rightarrow> string \<Rightarrow> ('w, talos_answer) talking" where
  "talos_dmesg env who node =
     (if node = [] then ret (TalosRefused (status_response 400 ''missing node''))
      else if \<not> ae_talos (tx_act env) then ret (TalosRefused (status_response 404 []))
      else if \<not> tc_read (talos_caps env who) then ret (TalosRefused (status_response 403 []))
      else do {
        v \<leftarrow> see_node env node;
        case v of
          Inl e \<Rightarrow> ret (TalosRefused e)
        | Inr _ \<Rightarrow> do {
            r \<leftarrow> read_dmesg env node;
            ret (TalosLog (map log_line (case r of Inr ls \<Rightarrow> ls | Inl e \<Rightarrow> [Inl e]))) } })"

end
