(* ===== verification/TalosProps.thy ===== *)
theory TalosProps
  imports Talos
begin

text \<open>
  Reading Talos nodes: nothing is read without the right group and a node the login can see, secrets of a machine
  configuration never reach the reader, the status survives the failure of its sections, and the kernel log
  keeps the last lines that fit.
\<close>

section \<open>Licensed reads\<close>

fun read_node :: "talos_read \<Rightarrow> string" where
  "read_node (ReadStatus n) = n" | "read_node (ReadConfig n) = n" | "read_node (ReadDmesg n) = n"

definition licensed_read :: "talos_capabilities \<Rightarrow> string list \<Rightarrow> talos_read \<Rightarrow> bool" where
  "licensed_read caps seen r \<longleftrightarrow> read_node r \<in> set seen \<and> (case r of ReadConfig _ \<Rightarrow> tc_config caps | _ \<Rightarrow> tc_read caps)"

definition licensed_reads :: "talos_capabilities \<Rightarrow> 'w talos_st \<Rightarrow> bool" where
  "licensed_reads caps s \<longleftrightarrow> (\<forall>r\<in>set (tw_reads s). licensed_read caps (tw_seen s) r)"

lemma acting_ok: "wp (acting m) (\<lambda>_ s'. tw_reads s' = tw_reads s \<and> tw_seen s' = tw_seen s) s"
  by (simp add: acting_def wp_def split: prod.splits)

lemma see_node_ok:
  "licensed_reads caps s \<Longrightarrow> wp (see_node env node)
     (\<lambda>r s'. licensed_reads caps s' \<and> set (tw_seen s) \<subseteq> set (tw_seen s') \<and> (\<forall>d. r = Inr d \<longrightarrow> node \<in> set (tw_seen s'))) s"
  unfolding see_node_def wp_bind
  by (rule wp_mono[OF acting_ok])
    (auto simp: note_seen_def wp_rules licensed_reads_def licensed_read_def split: sum.splits)

lemma read_ok:
  assumes "licensed_reads caps s" and "node \<in> set (tw_seen s)"
  shows "tc_read caps \<Longrightarrow> wp (read_status env node) (\<lambda>_ s'. licensed_reads caps s' \<and> tw_seen s' = tw_seen s) s"
    and "tc_config caps \<Longrightarrow> wp (read_config env node) (\<lambda>_ s'. licensed_reads caps s' \<and> tw_seen s' = tw_seen s) s"
    and "tc_read caps \<Longrightarrow> wp (read_dmesg env node) (\<lambda>_ s'. licensed_reads caps s' \<and> tw_seen s' = tw_seen s) s"
  using assms
  by (auto simp: read_status_def read_config_def read_dmesg_def note_read_def wp_rules licensed_reads_def licensed_read_def
      intro!: wp_mono[OF acting_ok])

lemma wp_fixed: "wp (ret x) (\<lambda>_ s'. P s') s = P s"
  by simp

lemma caps_config: "tc_config (talos_capabilities_of cf has who) \<Longrightarrow> tc_read (talos_capabilities_of cf has who)"
  by (auto simp: talos_capabilities_of_def Let_def split: if_splits)

lemma diff_peer_ok:
  assumes "licensed_reads caps s" and "tc_config caps"
  shows "wp (diff_peer env selected n) (\<lambda>_ s'. licensed_reads caps s') s"
  unfolding diff_peer_def wp_bind
proof (rule wp_mono[OF see_node_ok[OF assms(1)]], goal_cases)
  case (1 r s')
  show ?case
  proof (cases r)
    case (Inr d)
    with 1 have "wp (read_config env (nd_name n)) (\<lambda>_ s''. licensed_reads caps s'' \<and> tw_seen s'' = tw_seen s') s'"
      using assms(2) by (intro read_ok) auto
    then show ?thesis
      unfolding Inr sum.case wp_bind wp_fixed by (rule wp_mono) simp
  qed (use 1 in simp)
qed

lemma diff_peers_ok:
  assumes "licensed_reads caps s" and "tc_config caps"
  shows "wp (map_state (diff_peer env selected) ns) (\<lambda>_ s'. licensed_reads caps s') s"
proof (rule wp_mono)
  show "wp (map_state (diff_peer env selected) ns) (\<lambda>ys s'. list_all2 (\<lambda>_ _. True) ns ys \<and> licensed_reads caps s') s"
    using diff_peer_ok[OF _ assms(2)] by (intro wp_map_state assms(1)) (auto elim: wp_mono)
qed simp

text \<open>The step of an endpoint that looks at the node first.\<close>

lemma seen_then:
  assumes "licensed_reads caps s"
    and "\<And>d s'. licensed_reads caps s' \<Longrightarrow> node \<in> set (tw_seen s') \<Longrightarrow> wp (k d) (\<lambda>_ s'. licensed_reads caps s') s'"
  shows "wp (see_node env node \<bind> (\<lambda>v. case v of Inl e \<Rightarrow> ret (f e) | Inr d \<Rightarrow> k d)) (\<lambda>_ s'. licensed_reads caps s') s"
  unfolding wp_bind
  by (rule wp_mono[OF see_node_ok[OF assms(1)]]) (auto split: sum.splits intro: assms(2))

lemma talos_node_ok:
  assumes "licensed_reads (talos_caps env who) s"
  shows "wp (talos_node env who node) (\<lambda>_ s'. licensed_reads (talos_caps env who) s') s"
proof -
  obtain caps where caps: "talos_caps env who = caps" by blast
  note assms = assms[unfolded caps]
  have "wp (talos_node env who node) (\<lambda>_ s'. licensed_reads caps s') s"
    if read: "tc_read caps" and "node \<noteq> []" and "ae_talos (tx_act env)"
    unfolding talos_node_def caps
    apply (simp only: that if_True if_False simp_thms)
    apply (rule seen_then[OF assms])
    apply (clarsimp simp: wp_bind)
    apply (rule wp_mono[OF read_ok(1)[OF _ _ read]])
      apply assumption+
    apply (auto simp: Let_def wp_bind split: sum.splits intro!: wp_mono[OF read_ok(2)])
    done
  with assms show ?thesis
    unfolding talos_node_def caps by (auto simp only: if_True if_False simp_thms wp_fixed split: if_split)
qed

lemma talos_config_diff_ok:
  assumes "licensed_reads (talos_caps env who) s"
  shows "wp (talos_config_diff env who node) (\<lambda>_ s'. licensed_reads (talos_caps env who) s') s"
proof -
  obtain caps where caps: "talos_caps env who = caps" by blast
  note assms = assms[unfolded caps]
  have "wp (talos_config_diff env who node) (\<lambda>_ s'. licensed_reads caps s') s"
    if config: "tc_config caps" and "node \<noteq> []" and "ae_talos (tx_act env)"
    unfolding talos_config_diff_def caps
    apply (simp only: that if_True if_False simp_thms)
    apply (rule seen_then[OF assms])
    apply (simp only: wp_bind)
    apply (rule wp_mono[OF read_ok(2)[OF _ _ config]])
      apply assumption+
    apply (auto simp: wp_bind split: sum.splits intro!: wp_mono[OF acting_ok] wp_mono[OF diff_peers_ok[OF _ config]])
    apply (auto simp: licensed_reads_def)
    done
  with assms show ?thesis
    unfolding talos_config_diff_def caps by (auto simp only: if_True if_False simp_thms wp_fixed split: if_split)
qed

lemma talos_dmesg_ok:
  assumes "licensed_reads (talos_caps env who) s"
  shows "wp (talos_dmesg env who node) (\<lambda>_ s'. licensed_reads (talos_caps env who) s') s"
proof -
  obtain caps where caps: "talos_caps env who = caps" by blast
  note assms = assms[unfolded caps]
  have "wp (talos_dmesg env who node) (\<lambda>_ s'. licensed_reads caps s') s"
    if read: "tc_read caps" and "node \<noteq> []" and "ae_talos (tx_act env)"
    unfolding talos_dmesg_def caps
    apply (simp only: that if_True if_False simp_thms)
    apply (rule seen_then[OF assms])
    apply (simp only: wp_bind)
    apply (rule wp_mono[OF read_ok(3)[OF _ _ read]])
      apply assumption+
    apply simp
    done
  with assms show ?thesis
    unfolding talos_dmesg_def caps by (auto simp only: if_True if_False simp_thms wp_fixed split: if_split)
qed

text \<open>Talos is read only with a licence.  Whatever the endpoints for the status, the configuration differences and
  the kernel log of a node do, everything they read from a node is read for a login whose groups may read it (the
  configuration: may read configurations), and from a node the API server showed to that login before.\<close>
theorem talos_reads_are_licensed:
  assumes "tw_reads s = []"
  shows "wp (talos_node env who node) (\<lambda>_ s'. licensed_reads (talos_caps env who) s') s
    \<and> wp (talos_config_diff env who node) (\<lambda>_ s'. licensed_reads (talos_caps env who) s') s
    \<and> wp (talos_dmesg env who node) (\<lambda>_ s'. licensed_reads (talos_caps env who) s') s"
proof -
  have "licensed_reads (talos_caps env who) s"
    using assms by (simp add: licensed_reads_def)
  then show ?thesis
    by (intro conjI talos_node_ok talos_config_diff_ok talos_dmesg_ok)
qed

section \<open>Secrets\<close>

text \<open>Two values at a path that differ at most below keys that look like secrets.\<close>

inductive agree :: "string \<Rightarrow> json \<Rightarrow> json \<Rightarrow> bool" where
  secret: "sensitive_path p \<Longrightarrow> agree p v w"
| same: "agree p v v"
| object: "list_all2 (\<lambda>x y. fst x = fst y \<and> agree (p @ ''/'' @ fst x) (snd x) (snd y)) es fs \<Longrightarrow> agree p (JObject es) (JObject fs)"
| array: "list_all2 (\<lambda>x y. fst x = fst y \<and> agree (p @ ''/'' @ show_nat (fst x)) (snd x) (snd y)) (enumerate 0 vs) (enumerate 0 ws)
    \<Longrightarrow> agree p (JArray vs) (JArray ws)"

definition agree_config :: "json \<Rightarrow> json \<Rightarrow> bool" where
  "agree_config c c' \<longleftrightarrow> (\<forall>root\<in>set SAFE_ROOTS. rel_option (agree (root_path root)) (jpointer c root) (jpointer c' root))"

definition public :: "(string, config_field) hmap \<Rightarrow> string \<Rightarrow> string option" where
  "public m k = (case hm_get m k of Some (Plain x) \<Rightarrow> Some x | _ \<Rightarrow> None)"

definition well_redacted :: "(string, config_field) hmap \<Rightarrow> bool" where
  "well_redacted m \<longleftrightarrow> (\<forall>k f. hm_get m k = Some f \<longrightarrow> is_sensitive (Some f) = sensitive_path k)"

lemma public_insert [simp]:
  "public (hm_insert k (Sensitive h) m) = (public m)(k := None)"
  "public (hm_insert k (Plain x) m) = (public m)(k := Some x)"
  by (auto simp: public_def fun_eq_iff)

lemma flatten_sensitive: "sensitive_path p \<Longrightarrow> public (flatten_config env p v m) = (public m)(p := None)"
  by (cases v) simp_all

lemma fold_related:
  assumes "list_all2 R xs ys" and "\<And>x y a b. R x y \<Longrightarrow> P a b \<Longrightarrow> P (f x a) (g y b)" and "P a b"
  shows "P (fold f xs a) (fold g ys b)"
  using assms(1,3)
proof (induction xs ys arbitrary: a b rule: list_all2_induct)
  case (Cons x xs y ys)
  from Cons.IH[OF assms(2)[OF Cons.hyps(1) Cons.prems]] show ?case by simp
qed simp

lemma fold_keeps: "(\<And>x a. x \<in> set xs \<Longrightarrow> P a \<Longrightarrow> P (f x a)) \<Longrightarrow> P a \<Longrightarrow> P (fold f xs a)"
proof (induction xs arbitrary: a)
  case (Cons x xs)
  have "P (f x a)" by (rule Cons.prems(1)) (simp_all add: Cons.prems)
  with Cons show ?case by (simp add: Cons.IH)
qed simp

lemma public_fold:
  assumes "\<And>x a b. x \<in> set xs \<Longrightarrow> public a = public b \<Longrightarrow> public (f x a) = public (f x b)" and "public a = public b"
  shows "public (fold f xs a) = public (fold f xs b)"
proof (rule fold_related[where R = "\<lambda>x y. x = y \<and> x \<in> set xs" and P = "\<lambda>a b. public a = public b"])
  show "list_all2 (\<lambda>x y. x = y \<and> x \<in> set xs) xs xs" by (simp add: list_all2_same)
  show "public (f x a) = public (f y b)" if "x = y \<and> x \<in> set xs" and "public a = public b" for x y a b
    using that(1) assms(1)[of x a b, OF _ that(2)] by blast
qed (rule assms(2))

lemma public_flatten: "public a = public b \<Longrightarrow> public (flatten_config env p v a) = public (flatten_config env p v b)"
proof (induction env p v a arbitrary: b rule: flatten_config.induct)
  case (1 env p es a)
  have "public (fold (\<lambda>(k, v). flatten_config env (p @ ''/'' @ k) v) es a)
      = public (fold (\<lambda>(k, v). flatten_config env (p @ ''/'' @ k) v) es b)" if "\<not> sensitive_path p"
  proof (rule public_fold[OF _ "1.prems"], clarify)
    fix k v and a b :: "(string, config_field) hmap"
    assume "(k, v) \<in> set es" and "public a = public b"
    then show "public (flatten_config env (p @ ''/'' @ k) v a) = public (flatten_config env (p @ ''/'' @ k) v b)"
      by (intro "1.IH"[OF that _ refl])
  qed
  with "1.prems" show ?case by simp
next
  case (2 env p vs a)
  have "public (fold (\<lambda>(i, v). flatten_config env (p @ ''/'' @ show_nat i) v) (enumerate 0 vs) a)
      = public (fold (\<lambda>(i, v). flatten_config env (p @ ''/'' @ show_nat i) v) (enumerate 0 vs) b)" if "\<not> sensitive_path p"
  proof (rule public_fold[OF _ "2.prems"], clarify)
    fix i v and a b :: "(string, config_field) hmap"
    assume "(i, v) \<in> set (enumerate 0 vs)" and "public a = public b"
    then show "public (flatten_config env (p @ ''/'' @ show_nat i) v a)
        = public (flatten_config env (p @ ''/'' @ show_nat i) v b)"
      by (intro "2.IH"[OF that _ refl])
  qed
  with "2.prems" show ?case by simp
qed simp_all

lemma flatten_agree:
  "agree p v w \<Longrightarrow> public a = public b \<Longrightarrow> public (flatten_config env p v a) = public (flatten_config env p w b)"
proof (induction arbitrary: a b rule: agree.induct)
  case (secret p v w)
  then show ?case by (simp add: flatten_sensitive)
next
  case (same p v)
  then show ?case by (rule public_flatten)
next
  case (object p es fs)
  show ?case
  proof (cases "sensitive_path p")
    case False
    have "public (fold (\<lambda>(k, v). flatten_config env (p @ ''/'' @ k) v) es a)
        = public (fold (\<lambda>(k, v). flatten_config env (p @ ''/'' @ k) v) fs b)"
      by (rule fold_related[OF object.IH, where P = "\<lambda>a b. public a = public b"]) (auto simp: object.prems)
    with False show ?thesis by simp
  qed (simp add: object.prems flatten_sensitive)
next
  case (array p vs ws)
  show ?case
  proof (cases "sensitive_path p")
    case False
    have "public (fold (\<lambda>(i, v). flatten_config env (p @ ''/'' @ show_nat i) v) (enumerate 0 vs) a)
        = public (fold (\<lambda>(i, v). flatten_config env (p @ ''/'' @ show_nat i) v) (enumerate 0 ws) b)"
      by (rule fold_related[OF array.IH, where P = "\<lambda>a b. public a = public b"]) (auto simp: array.prems)
    with False show ?thesis by simp
  qed (simp add: array.prems flatten_sensitive)
qed

lemma well_redacted_insert:
  "well_redacted m \<Longrightarrow> sensitive_path k \<Longrightarrow> well_redacted (hm_insert k (Sensitive h) m)"
  "well_redacted m \<Longrightarrow> \<not> sensitive_path k \<Longrightarrow> well_redacted (hm_insert k (Plain x) m)"
  by (auto simp: well_redacted_def is_sensitive_def)

lemma well_redacted_flatten: "well_redacted m \<Longrightarrow> well_redacted (flatten_config env p v m)"
proof (induction env p v m rule: flatten_config.induct)
  case (1 env p es m)
  have "well_redacted (fold (\<lambda>(k, v). flatten_config env (p @ ''/'' @ k) v) es m)" if "\<not> sensitive_path p"
    by (rule fold_keeps[where P = well_redacted]) (use 1 that in auto)
  with 1 show ?case by (simp add: well_redacted_insert)
next
  case (2 env p vs m)
  have "well_redacted (fold (\<lambda>(i, v). flatten_config env (p @ ''/'' @ show_nat i) v) (enumerate 0 vs) m)"
    if "\<not> sensitive_path p"
    by (rule fold_keeps[where P = well_redacted]) (use 2 that in auto)
  with 2 show ?case by (simp add: well_redacted_insert)
qed (simp_all add: well_redacted_insert)

lemma well_redacted_config: "well_redacted (config_fields env c)"
  unfolding config_fields_def
proof (rule fold_keeps[where P = well_redacted])
  fix root and m :: "(string, config_field) hmap"
  assume "well_redacted m"
  then show "well_redacted (case jpointer c root of None \<Rightarrow> m | Some v \<Rightarrow> flatten_config env (root_path root) v m)"
    by (simp add: well_redacted_flatten split: option.split)
qed (simp add: well_redacted_def)

lemma public_config:
  assumes "agree_config c c'"
  shows "public (config_fields env c) = public (config_fields env c')"
proof -
  have "public (fold (\<lambda>root out. case jpointer c root of None \<Rightarrow> out | Some v \<Rightarrow> flatten_config env (root_path root) v out) roots a)
      = public (fold (\<lambda>root out. case jpointer c' root of None \<Rightarrow> out | Some v \<Rightarrow> flatten_config env (root_path root) v out) roots b)"
    if "set roots \<subseteq> set SAFE_ROOTS" "public a = public b" for roots a b
    using that
  proof (induction roots arbitrary: a b)
    case (Cons r roots)
    from Cons.prems(1) assms have rel: "rel_option (agree (root_path r)) (jpointer c r) (jpointer c' r)"
      by (simp add: agree_config_def)
    have "public (case jpointer c r of None \<Rightarrow> a | Some v \<Rightarrow> flatten_config env (root_path r) v a)
        = public (case jpointer c' r of None \<Rightarrow> b | Some v \<Rightarrow> flatten_config env (root_path r) v b)"
      using rel Cons.prems(2) by (cases rule: option.rel_cases) (simp_all add: flatten_agree)
    from Cons.IH[OF _ this] Cons.prems(1) show ?case by simp
  qed simp
  from this[of SAFE_ROOTS "[]" "[]"] show ?thesis by (simp add: config_fields_def)
qed

text \<open>Of two configurations, the paths that do not look like secrets, and what is shown of them.\<close>

lemma sort_remdups: "sort (remdups (xs :: string list)) = sorted_list_of_set (set xs)"
  by (rule sorted_distinct_set_unique) simp_all

lemma filter_sorted_set: "finite A \<Longrightarrow> filter P (sorted_list_of_set A) = sorted_list_of_set (A \<inter> Collect P)"
  by (rule sorted_distinct_set_unique) (auto intro: sorted_wrt_filter)

lemma filter_map_filter: "filter P (List.map_filter f xs) = List.map_filter (\<lambda>x. if map_option P (f x) = Some True then f x else None) xs"
  by (induction xs) (auto simp: map_filter_simps split: option.splits)

lemma map_filter_restrict:
  assumes "\<And>x. x \<in> set xs \<Longrightarrow> f x = (if Q x then g x else None)"
  shows "List.map_filter f xs = List.map_filter g (filter Q xs)"
  using assms by (induction xs) (auto simp: map_filter_simps split: option.splits)

definition shown_difference :: "(string \<Rightarrow> string option) \<Rightarrow> (string \<Rightarrow> string option) \<Rightarrow> string \<Rightarrow> config_difference option" where
  "shown_difference l r path = (if l path = r path then None
     else Some \<lparr>df_path = path, df_node_value = l path, df_peer_value = r path, df_sensitive = False\<rparr>)"

lemma public_get:
  assumes "well_redacted m" and "\<not> sensitive_path k"
  shows "hm_get m k = map_option Plain (public m k)"
proof (cases "hm_get m k")
  case (Some f)
  with assms have "\<not> is_sensitive (Some f)" by (auto simp: well_redacted_def)
  with Some show ?thesis by (cases f) (simp_all add: public_def is_sensitive_def)
qed (simp add: public_def)

lemma difference_at_public:
  assumes "well_redacted l" and "well_redacted r" and "\<not> sensitive_path k"
  shows "config_difference_at l r k = shown_difference (public l) (public r) k"
  using public_get[OF assms(1,3)] public_get[OF assms(2,3)]
  by (cases "public l k"; cases "public r k")
    (auto simp: config_difference_at_def shown_difference_def config_display_value_def is_sensitive_def)

lemma difference_at_secret:
  assumes "well_redacted l" and "well_redacted r" and "sensitive_path k" and "config_difference_at l r k = Some d"
  shows "df_sensitive d \<and> df_node_value d \<in> {None, Some ''<redacted>''} \<and> df_peer_value d \<in> {None, Some ''<redacted>''}"
proof -
  have "hm_get m k = None \<or> (\<exists>h. hm_get m k = Some (Sensitive h))" if "well_redacted m" for m
  proof (cases "hm_get m k")
    case (Some f)
    with that assms(3) have "is_sensitive (Some f)" unfolding well_redacted_def by blast
    with Some show ?thesis by (cases f) (simp_all add: is_sensitive_def)
  qed simp
  from this[OF assms(1)] this[OF assms(2)] assms(4) show ?thesis
    by (auto simp: config_difference_at_def config_display_value_def is_sensitive_def Let_def split: if_splits)
qed

lemma public_keys: "well_redacted m \<Longrightarrow> set (map fst m) \<inter> {k. \<not> sensitive_path k} = {k. \<not> sensitive_path k \<and> public m k \<noteq> None}"
proof (rule set_eqI)
  fix k assume "well_redacted m"
  with public_get[of m k] hm_get_None_iff[of m k]
  show "k \<in> set (map fst m) \<inter> {k. \<not> sensitive_path k} \<longleftrightarrow> k \<in> {k. \<not> sensitive_path k \<and> public m k \<noteq> None}"
    by (cases "sensitive_path k"; cases "public m k") auto
qed

lemma public_differences:
  assumes "well_redacted l" and "well_redacted r"
  shows "filter (\<lambda>d. \<not> df_sensitive d) (config_differences l r) =
    List.map_filter (shown_difference (public l) (public r))
      (sorted_list_of_set {k. \<not> sensitive_path k \<and> (public l k \<noteq> None \<or> public r k \<noteq> None)})"
proof -
  let ?keys = "sorted_list_of_set (set (map fst l @ map fst r))"
  have "filter (\<lambda>d. \<not> df_sensitive d) (config_differences l r) =
      List.map_filter (shown_difference (public l) (public r)) (filter (\<lambda>k. \<not> sensitive_path k) ?keys)"
    unfolding config_differences_def sort_remdups filter_map_filter
  proof (rule map_filter_restrict)
    fix k
    show "(if map_option (\<lambda>d. \<not> df_sensitive d) (config_difference_at l r k) = Some True then config_difference_at l r k else None)
        = (if \<not> sensitive_path k then shown_difference (public l) (public r) k else None)"
    proof (cases "sensitive_path k")
      case True
      then show ?thesis
        by (cases "config_difference_at l r k") (auto dest: difference_at_secret[OF assms True])
    next
      case False
      then show ?thesis
        unfolding difference_at_public[OF assms False] by (simp add: shown_difference_def)
    qed
  qed
  also have "filter (\<lambda>k. \<not> sensitive_path k) ?keys =
      sorted_list_of_set {k. \<not> sensitive_path k \<and> (public l k \<noteq> None \<or> public r k \<noteq> None)}"
    using public_keys[OF assms(1)] public_keys[OF assms(2)]
    by (subst filter_sorted_set) (auto simp del: not_None_eq intro!: arg_cong[where f = sorted_list_of_set])
  finally show ?thesis .
qed


section \<open>The kernel log\<close>

text \<open>The reference: the longest end of a list of lines that has at most so many lines and bytes.\<close>

fun longest_fit :: "nat \<Rightarrow> nat \<Rightarrow> string list \<Rightarrow> string list" where
  "longest_fit n b [] = []"
| "longest_fit n b (l # ls) =
     (if length (l # ls) \<le> n \<and> sum_list (map length (l # ls)) \<le> b then l # ls else longest_fit n b ls)"

definition rendered :: "(string \<Rightarrow> string) \<Rightarrow> nat \<Rightarrow> string \<Rightarrow> string list" where
  "rendered lossy m p = (if p = [] then []
     else [lossy (drop_cr (take m p)) @ (if m < length p then '' [line truncated]'' else [])])"

definition record_lines :: "(string \<Rightarrow> string) \<Rightarrow> nat \<Rightarrow> string \<Rightarrow> string list" where
  "record_lines lossy m bytes = concat (map (rendered lossy m) (split_on (CHR 0x0A) bytes))"

lemma longest_fit_append: "longest_fit n b (longest_fit n b xs @ ys) = longest_fit n b (xs @ ys)"
  by (induction xs) auto

lemma longest_fit_idem: "longest_fit n b (longest_fit n b xs) = longest_fit n b xs"
  using longest_fit_append[of n b xs "[]"] by simp

lemma drop_oldest_fit:
  "drop_oldest n b ls (sum_list (map length ls)) = (longest_fit n b ls, sum_list (map length (longest_fit n b ls)))"
  by (induction ls) auto

text \<open>A buffer between two records, in the middle of a line, and after more lines.\<close>

definition settled :: "dmesg_lines \<Rightarrow> bool" where
  "settled d \<longleftrightarrow> dl_pending d = [] \<and> \<not> dl_truncated d \<and> dl_retained d = sum_list (map length (dl_lines d))
     \<and> longest_fit (dl_max_lines d) (dl_max_bytes d) (dl_lines d) = dl_lines d"

definition mid_line :: "dmesg_lines \<Rightarrow> string \<Rightarrow> dmesg_lines" where
  "mid_line d p = d\<lparr>dl_pending := take (dl_max_line_bytes d) p, dl_truncated := (dl_max_line_bytes d < length p)\<rparr>"

definition add_lines :: "string list \<Rightarrow> dmesg_lines \<Rightarrow> dmesg_lines" where
  "add_lines ls d = d\<lparr>dl_lines := longest_fit (dl_max_lines d) (dl_max_bytes d) (dl_lines d @ ls),
     dl_retained := sum_list (map length (longest_fit (dl_max_lines d) (dl_max_bytes d) (dl_lines d @ ls)))\<rparr>"

lemma settled_add: "settled d \<Longrightarrow> settled (add_lines ls d)"
  by (simp add: settled_def add_lines_def longest_fit_idem)

lemma add_add: "add_lines ms (add_lines ls d) = add_lines (ls @ ms) d"
  by (simp add: add_lines_def longest_fit_append)

lemma add_nothing: "settled d \<Longrightarrow> add_lines [] d = d"
  by (simp add: add_lines_def settled_def)

lemma mid_nothing: "settled d \<Longrightarrow> mid_line d [] = d"
  by (simp add: mid_line_def settled_def)

lemma push_in_line: "c \<noteq> CHR 0x0A \<Longrightarrow> push_byte lossy c (mid_line d p) = mid_line d (p @ [c])"
  by (cases "length p < dl_max_line_bytes d") (simp_all add: push_byte_def mid_line_def)

lemma finish_mid: 
  assumes "settled d"
  shows "finish_pending lossy (mid_line d p) = add_lines (rendered lossy (dl_max_line_bytes d) p) d"
proof (cases "p = []")
  case True
  with assms show ?thesis
    by (simp add: mid_nothing rendered_def add_nothing) (simp add: finish_pending_def settled_def)
next
  case False
  with assms show ?thesis
    using drop_oldest_fit[of "dl_max_lines d" "dl_max_bytes d" "dl_lines d @ rendered lossy (dl_max_line_bytes d) p"]
    by (auto simp: finish_pending_def mid_line_def rendered_def add_lines_def settled_def Let_def)
qed

lemma add_keeps [simp]: "dl_max_line_bytes (add_lines ls d) = dl_max_line_bytes d"
  by (simp add: add_lines_def)

lemma push_bytes:
  "settled d \<Longrightarrow> finish_pending lossy (fold (push_byte lossy) bytes (mid_line d p)) =
     add_lines (concat (map (rendered lossy (dl_max_line_bytes d))
       (case split_on (CHR 0x0A) bytes of [] \<Rightarrow> [p] | w # ws \<Rightarrow> (p @ w) # ws))) d"
proof (induction bytes arbitrary: d p)
  case Nil
  then show ?case by (simp add: finish_mid)
next
  case (Cons c bytes)
  show ?case
  proof (cases "c = CHR 0x0A")
    case True
    let ?d = "add_lines (rendered lossy (dl_max_line_bytes d) p) d"
    have settled: "settled ?d" using Cons.prems by (rule settled_add)
    have "push_byte lossy c (mid_line d p) = mid_line ?d []"
      using True Cons.prems settled by (simp add: push_byte_def finish_mid mid_nothing)
    with True Cons.IH[OF settled, of "[]"] show ?thesis
      by (cases "split_on (CHR 0x0A) bytes") (auto simp: add_add rendered_def)
  next
    case False
    with Cons.IH[OF Cons.prems, of "p @ [c]"] show ?thesis
      by (cases "split_on (CHR 0x0A) bytes") (simp_all add: push_in_line)
  qed
qed

lemma split_on_nonempty: "split_on d s \<noteq> []"
  by (induction s) (auto split: list.splits)

lemma push_record_adds:
  "settled d \<Longrightarrow> push_record lossy bytes d = add_lines (record_lines lossy (dl_max_line_bytes d) bytes) d"
  using push_bytes[of d lossy bytes "[]"] split_on_nonempty[of "CHR 0x0A" bytes]
  by (auto simp: push_record_def mid_nothing record_lines_def split: list.splits)

lemma settled_new: "settled (new_dmesg n b m)"
  by (simp add: settled_def new_dmesg_def)

lemma read_snapshot_adds:
  "settled d \<Longrightarrow> read_snapshot lossy (map (\<lambda>b. Inr (None, b)) records) d =
     Inr (dl_lines (add_lines (concat (map (record_lines lossy (dl_max_line_bytes d)) records)) d))"
proof (induction records arbitrary: d)
  case Nil
  then show ?case
    using finish_mid[OF Nil.prems, of lossy "[]"]
    by (simp add: mid_nothing rendered_def add_nothing take_completed_def)
next
  case (Cons r records)
  then show ?case
    by (simp add: metadata_failure_def push_record_adds settled_add add_add)
qed

lemma follow_lines_are:
  "settled d \<Longrightarrow> dl_lines d = [] \<Longrightarrow> follow_lines lossy (map (\<lambda>b. Inr (None, b)) records) d =
     map Inr (concat (map (\<lambda>b. longest_fit (dl_max_lines d) (dl_max_bytes d) (record_lines lossy (dl_max_line_bytes d) b)) records))"
proof (induction records arbitrary: d)
  case Nil
  then show ?case
    using finish_mid[OF Nil.prems(1), of lossy "[]"]
    by (simp add: mid_nothing rendered_def add_nothing take_completed_def)
next
  case (Cons r records)
  let ?d = "snd (take_completed (push_record lossy r d))"
  have "settled ?d" and "dl_lines ?d = []" and "dl_max_lines ?d = dl_max_lines d" "dl_max_bytes ?d = dl_max_bytes d"
    "dl_max_line_bytes ?d = dl_max_line_bytes d"
    using Cons.prems(1) by (simp_all add: push_record_adds take_completed_def add_lines_def settled_def)
  with Cons.IH[of ?d] Cons.prems show ?case
    by (simp add: metadata_failure_def push_record_adds take_completed_def add_lines_def)
qed

text \<open>The kernel log keeps the last lines that fit.  The lines of a record are its non-empty pieces between newlines,
  cut at 64 KiB with a mark and without a trailing carriage return.  Whatever the records, the snapshot is the
  longest end of all their lines that has at most 500 lines and 2 MiB; and of the followed log every record gives
  its lines in order, bounded in the same way by itself.\<close>
theorem kernel_log_keeps_the_end:
  "read_snapshot lossy (map (\<lambda>b. Inr (None, b)) records) dmesg_buffer =
     Inr (longest_fit 500 (2 * 1024 * 1024) (concat (map (record_lines lossy (64 * 1024)) records)))
   \<and> follow_lines lossy (map (\<lambda>b. Inr (None, b)) records) dmesg_buffer =
     map Inr (concat (map (\<lambda>b. longest_fit 500 (2 * 1024 * 1024) (record_lines lossy (64 * 1024) b)) records))"
proof -
  have settled: "settled dmesg_buffer" unfolding dmesg_buffer_def by (rule settled_new)
  show ?thesis
    unfolding read_snapshot_adds[OF settled]
    by (subst follow_lines_are[OF settled]) (simp_all add: dmesg_buffer_def new_dmesg_def add_lines_def)
qed

section \<open>Sections that fail\<close>

definition error_of :: "string + 'a \<Rightarrow> string option" where
  "error_of r = (case r of Inl e \<Rightarrow> Some e | Inr _ \<Rightarrow> None)"

definition section_errors :: "node_answers \<Rightarrow> (string \<times> string option) list" where
  "section_errors a =
     [(''version'', error_of (grpc_section (na_version a))), (''services'', error_of (grpc_section (na_services a))),
      (''mounts'', error_of (grpc_section (na_mounts a))), (''network'', error_of (grpc_section (na_network a))),
      (''disks'', error_of (grpc_section (na_disks a))), (''disk inventory'', error_of (cosi_section (na_inventory a))),
      (''volumes'', error_of (cosi_section (na_volumes a))), (''network links'', error_of (cosi_section (na_links a))),
      (''network addresses'', error_of (cosi_section (na_addresses a)))]"

definition note_error :: "string \<times> string option \<Rightarrow> (string, string) hmap \<Rightarrow> (string, string) hmap" where
  "note_error x m = (case snd x of Some e \<Rightarrow> hm_insert (fst x) e m | None \<Rightarrow> m)"

lemma section_error_note: "section_error name r m = note_error (name, error_of r) m"
  by (cases r) (simp_all add: section_error_def note_error_def error_of_def)

lemma get_note: "hm_get (note_error x m) k = (if k = fst x \<and> snd x \<noteq> None then snd x else hm_get m k)"
  by (auto simp: note_error_def split: option.split)

lemma length_notes:
  "distinct (map fst xs) \<Longrightarrow> \<forall>x\<in>set xs. hm_get m (fst x) = None \<Longrightarrow>
     length (fold note_error xs m) = length m + length (filter (\<lambda>x. snd x \<noteq> None) xs)"
proof (induction xs arbitrary: m)
  case (Cons x xs)
  have "\<forall>y\<in>set xs. hm_get (note_error x m) (fst y) = None"
    using Cons.prems by (auto simp: get_note image_iff)
  moreover have "length (note_error x m) = length m + (if snd x \<noteq> None then 1 else 0)"
    using Cons.prems(2) by (auto simp: note_error_def hm_length_insert_fresh split: option.split)
  ultimately show ?case using Cons by simp
qed simp

lemma get_notes:
  "distinct (map fst xs) \<Longrightarrow> hm_get (fold note_error xs m) k = Some e \<longleftrightarrow>
     (k, Some e) \<in> set xs \<or> (\<forall>d. (k, Some d) \<notin> set xs) \<and> hm_get m k = Some e"
proof (induction xs arbitrary: m)
  case (Cons x xs)
  have fresh: "(fst x, d) \<notin> set xs" for d using Cons.prems imageI[of "(fst x, d)" "set xs" fst] by auto
  obtain n d where x: "x = (n, d)" by (cases x)
  have "hm_get (fold note_error xs (note_error x m)) k = Some e \<longleftrightarrow>
      (k, Some e) \<in> set xs \<or> (\<forall>d. (k, Some d) \<notin> set xs) \<and> hm_get (note_error x m) k = Some e"
    using Cons.prems by (intro Cons.IH) simp
  with fresh show ?case
    by (cases "k = n"; cases d) (auto simp: x get_note)
qed simp

lemma distinct_sections: "distinct (map fst (section_errors a))"
  by (simp add: section_errors_def)

text \<open>A status survives the failure of its sections.  It is refused exactly when all nine sections failed; otherwise
  its errors are those of the sections that failed, under their names, and the sections that were answered are
  shown: mounts as they are, and every volume is a partition with its own name.\<close>
theorem status_survives_failures:
  "(case talos_status fmt node a of
      Inl e \<Rightarrow> list_all (\<lambda>x. snd x \<noteq> None) (section_errors a) \<and> e = TalosUpstream ''all Talos status sections failed''
    | Inr st \<Rightarrow> \<not> list_all (\<lambda>x. snd x \<noteq> None) (section_errors a)
        \<and> (\<forall>name e. hm_get (tn_errors st) name = Some e \<longleftrightarrow> (name, Some e) \<in> set (section_errors a))
        \<and> (case grpc_section (na_mounts a) of Inl _ \<Rightarrow> tn_mounts st = [] | Inr ms \<Rightarrow> tn_mounts st = concat ms)
        \<and> (case cosi_section (na_volumes a) of Inl _ \<Rightarrow> tn_volumes st = []
            | Inr rs \<Rightarrow> map tv_name (tn_volumes st) = map cr_id (filter (\<lambda>r. string_field (cr_spec r) ''type'' = ''partition'') rs))
        \<and> tn_node st = node)"
proof -
  let ?errors = "fold note_error (section_errors a) []"
  have "length ?errors = length (filter (\<lambda>x. snd x \<noteq> None) (section_errors a))"
    by (subst length_notes[OF distinct_sections]) simp_all
  then have nine: "length ?errors = 9 \<longleftrightarrow> list_all (\<lambda>x. snd x \<noteq> None) (section_errors a)"
    using filter_id_conv[of "\<lambda>x. snd x \<noteq> None" "section_errors a"]
      length_filter_less[of _ "section_errors a" "\<lambda>x. snd x \<noteq> None"]
    by (auto simp: list_all_iff section_errors_def[of a, THEN arg_cong[where f = length], simplified] dest: length_filter_less)
  have get: "hm_get ?errors name = Some e \<longleftrightarrow> (name, Some e) \<in> set (section_errors a)" for name e
    by (simp add: get_notes[OF distinct_sections])
  have errors: "section_error ''network addresses'' (cosi_section (na_addresses a)) (section_error ''network links'' (cosi_section (na_links a))
            (section_error ''volumes'' (cosi_section (na_volumes a)) (section_error ''disk inventory'' (cosi_section (na_inventory a))
            (section_error ''disks'' (grpc_section (na_disks a)) (section_error ''network'' (grpc_section (na_network a))
            (section_error ''mounts'' (grpc_section (na_mounts a)) (section_error ''services'' (grpc_section (na_services a))
            (section_error ''version'' (grpc_section (na_version a)) [])))))))) = ?errors"
    by (simp only: section_error_note section_errors_def fold.simps comp_def id_def)
  show ?thesis
    unfolding talos_status_def Let_def errors nine
    by (simp add: get section_value_def volume_of_def Let_def comp_def split: sum.split)
qed

section \<open>Witnesses\<close>

theorem talos_reads_are_licensed_witness:
  "\<forall>env who act. wp (talos_dmesg env who ''n1'') (\<lambda>_ s'. licensed_reads (talos_caps env who) s')
     \<lparr>tw_act = act, tw_seen = [], tw_reads = []\<rparr>"
proof (intro allI)
  fix env :: "'a talos_env" and who act
  show "wp (talos_dmesg env who ''n1'') (\<lambda>_ s'. licensed_reads (talos_caps env who) s')
     \<lparr>tw_act = act, tw_seen = [], tw_reads = []\<rparr>"
    using talos_reads_are_licensed[of "\<lparr>tw_act = act, tw_seen = [], tw_reads = []\<rparr>" env who "''n1''"] by simp
qed

definition keyed_config :: "string \<Rightarrow> json" where
  "keyed_config key = JObject [(''machine'', JObject [(''network'',
     JObject [(''hostname'', JString ''node-1''), (''privateKey'', JString key)])])]"

lemma private_key_sensitive: "sensitive_path ''/machine/network/privateKey''"
  by code_simp

lemma keyed_configs_agree: "agree_config (keyed_config a) (keyed_config b)"
proof -
  have "agree ''/machine/network'' (JObject [(''hostname'', JString ''node-1''), (''privateKey'', JString a)])
      (JObject [(''hostname'', JString ''node-1''), (''privateKey'', JString b)])"
    by (rule agree.object) (simp add: agree.same agree.secret[OF private_key_sensitive])
  then show ?thesis
    by (simp add: agree_config_def SAFE_ROOTS_def keyed_config_def root_path_def)
qed


text \<open>A key that contains a slash is judged by what follows its last slash only.\<close>

lemma slashed_key_is_shown:
  "public (flatten_config env ''/machine/network'' (JObject [(''privateKey/wg0'', JString ''hunter2'')]) [])
     ''/machine/network/privateKey/wg0'' = Some ''hunter2''"
proof -
  have "\<not> sensitive_path ''/machine/network''" and "\<not> sensitive_path ''/machine/network/privateKey/wg0''"
    by code_simp+
  then show ?thesis by (simp add: public_def scalar_text_def)
qed

end
