(* ===== verification/Listing.thy ===== *)
theory Listing
  imports Row Metrics Permissions "HOL-Library.Option_ord"
begin

text \<open>
  The order of the rows and what is selected among them: \<open>src/app/table_logic.rs\<close>, \<open>columns.rs\<close>, the comparison of
  cells in \<open>components/table.rs\<close> and the targets of \<open>state.rs\<close>.  A \<open>BTreeSet\<close> of uids is a set; \<open>to_lowercase\<close>
  (Unicode tables) and the \<open>f64\<close> a text parses to are parameters.
\<close>

section \<open>Orderings\<close>

datatype ordering = Less | Equal | Greater

definition cmp_ord :: "'a::linorder \<Rightarrow> 'a \<Rightarrow> ordering" where
  "cmp_ord a b = (if a < b then Less else if a = b then Equal else Greater)"

definition then_with :: "ordering \<Rightarrow> ordering \<Rightarrow> ordering" where
  "then_with x y = (case x of Equal \<Rightarrow> y | _ \<Rightarrow> x)"

definition reverse_ord :: "ordering \<Rightarrow> ordering" where
  "reverse_ord x = (case x of Less \<Rightarrow> Greater | Equal \<Rightarrow> Equal | Greater \<Rightarrow> Less)"

text \<open>\<open>sort_by\<close>: a stable sort, which has one answer when the comparison is an order.\<close>

fun insert_by :: "('a \<Rightarrow> 'a \<Rightarrow> ordering) \<Rightarrow> 'a \<Rightarrow> 'a list \<Rightarrow> 'a list" where
  "insert_by c x [] = [x]"
| "insert_by c x (y # ys) = (if c x y = Greater then y # insert_by c x ys else x # y # ys)"

definition sort_by :: "('a \<Rightarrow> 'a \<Rightarrow> ordering) \<Rightarrow> 'a list \<Rightarrow> 'a list" where
  "sort_by c xs = foldr (insert_by c) xs []"

section \<open>Comparing names and cells\<close>

definition digit_run :: "string \<Rightarrow> nat" where
  "digit_run s = unwrap_or (length s) (find_byte (\<lambda>c. \<not> is_ascii_digit c) s)"

definition run_value :: "string \<Rightarrow> nat" where
  "run_value s = unwrap_or 0 (parse_u64 (take (digit_run s) s))"

definition first_char :: "string \<Rightarrow> string" where
  "first_char s = hd (code_points s)"

definition starts_with_digit :: "string \<Rightarrow> bool" where
  "starts_with_digit s \<longleftrightarrow> s \<noteq> [] \<and> is_ascii_digit (hd s)"

lemma digit_run_bounds: "digit_run s \<le> length s" "starts_with_digit s \<Longrightarrow> 0 < digit_run s"
proof -
  show "digit_run s \<le> length s"
    using find_byte_Some[of "\<lambda>c. \<not> is_ascii_digit c" s]
    by (cases "find_byte (\<lambda>c. \<not> is_ascii_digit c) s") (auto simp: digit_run_def unwrap_or_def)
  show "starts_with_digit s \<Longrightarrow> 0 < digit_run s"
    by (cases s) (auto simp: starts_with_digit_def digit_run_def unwrap_or_def split: option.splits)
qed

lemma first_char_not_Nil [simp]: "s \<noteq> [] \<Longrightarrow> first_char s \<noteq> []"
  by (cases s) (auto simp: first_char_def)

function nat_cmp :: "string \<Rightarrow> string \<Rightarrow> ordering" where
  "nat_cmp a b =
     (if a = [] \<and> b = [] then Equal
      else if a = [] then Less
      else if b = [] then Greater
      else if starts_with_digit a \<and> starts_with_digit b then
        (case cmp_ord (run_value a) (run_value b) of
           Equal \<Rightarrow> nat_cmp (drop (digit_run a) a) (drop (digit_run b) b)
         | ord \<Rightarrow> ord)
      else
        (case cmp_ord (first_char a) (first_char b) of
           Equal \<Rightarrow> nat_cmp (drop (length (first_char a)) a) (drop (length (first_char b)) b)
         | ord \<Rightarrow> ord))"
  by pat_completeness auto
termination
  by (relation "measure (\<lambda>(a, b). length a)") (auto simp: digit_run_bounds intro!: diff_less)

definition unit_separator :: char where
  "unit_separator = CHR 0x1F"

definition primary_value :: "string \<Rightarrow> string" where
  "primary_value v = (case split_once unit_separator v of None \<Rightarrow> v | Some (a, _) \<Rightarrow> a)"

text \<open>\<open>partial_cmp\<close> on \<open>f64\<close>; values that do not compare count as equal.\<close>

definition cmp_f64 :: "f64_ops \<Rightarrow> f64 \<Rightarrow> f64 \<Rightarrow> ordering" where
  "cmp_f64 fo x y = (if fo_less fo x y then Less else if fo_less fo y x then Greater else Equal)"

definition cmp_str :: "f64_ops \<Rightarrow> string \<Rightarrow> string \<Rightarrow> ordering" where
  "cmp_str fo a b =
     (let a_val = primary_value a; b_val = primary_value b in
      case (fo_parse fo a_val, fo_parse fo b_val) of
        (Some x, Some y) \<Rightarrow> cmp_f64 fo x y
      | _ \<Rightarrow> cmp_ord a_val b_val)"

definition cell_value_changed :: "string \<Rightarrow> string \<Rightarrow> bool" where
  "cell_value_changed current previous \<longleftrightarrow> primary_value current \<noteq> primary_value previous"

definition cmp_cell :: "f64_ops \<Rightarrow> string option \<Rightarrow> string option \<Rightarrow> ordering" where
  "cmp_cell fo a b = cmp_str fo (unwrap_or [] a) (unwrap_or [] b)"

section \<open>The rows shown\<close>

datatype sort_key = SortNamespace | SortName | SortCell nat | SortAge

definition get_cell :: "nat \<Rightarrow> resource_row \<Rightarrow> string option" where
  "get_cell i r = (if i < length (rr_cells r) then Some (rr_cells r ! i) else None)"

definition compare_rows :: "f64_ops \<Rightarrow> sort_key \<Rightarrow> resource_row \<Rightarrow> resource_row \<Rightarrow> ordering" where
  "compare_rows fo k a b = then_with
     (case k of
        SortNamespace \<Rightarrow> then_with (nat_cmp (unwrap_or [] (rr_namespace a)) (unwrap_or [] (rr_namespace b)))
          (nat_cmp (rr_name a) (rr_name b))
      | SortName \<Rightarrow> nat_cmp (rr_name a) (rr_name b)
      | SortAge \<Rightarrow> then_with (cmp_ord (rr_created a) (rr_created b)) (nat_cmp (rr_name a) (rr_name b))
      | SortCell i \<Rightarrow> then_with (cmp_cell fo (get_cell i a) (get_cell i b)) (nat_cmp (rr_name a) (rr_name b)))
     (cmp_ord (rr_uid a) (rr_uid b))"

text \<open>The three filters of a list: problems only, one status, and a part of the name.\<close>

record list_filter =
  lf_only_problems :: bool
  lf_status :: "row_status option"
  lf_text_lower :: string

definition passes :: "(string \<Rightarrow> string) \<Rightarrow> list_filter \<Rightarrow> resource_row \<Rightarrow> bool" where
  "passes lower f r \<longleftrightarrow>
     (\<not> lf_only_problems f \<or> rr_status r = RowError \<or> rr_status r = RowWarn)
     \<and> (case lf_status f of None \<Rightarrow> True | Some st \<Rightarrow> rr_status r = st)
     \<and> (lf_text_lower f = [] \<or> str_contains (lower (rr_name r)) (lf_text_lower f))"

definition directed :: "bool \<Rightarrow> ordering \<Rightarrow> ordering" where
  "directed asc ord = (if asc then ord else reverse_ord ord)"

definition shown_uids ::
  "f64_ops \<Rightarrow> (string \<Rightarrow> string) \<Rightarrow> resource_row list \<Rightarrow> sort_key \<Rightarrow> bool \<Rightarrow> list_filter \<Rightarrow> string list" where
  "shown_uids fo lower rows k asc f =
     map rr_uid (sort_by (\<lambda>a b. directed asc (compare_rows fo k a b)) (filter (passes lower f) rows))"

definition shown_row_keys ::
  "f64_ops \<Rightarrow> (string \<Rightarrow> string) \<Rightarrow> (string \<times> resource_row) list \<Rightarrow> sort_key \<Rightarrow> bool \<Rightarrow> list_filter \<Rightarrow> string list" where
  "shown_row_keys fo lower rows k asc f =
     map fst (sort_by (\<lambda>(a_key, a) (b_key, b).
         directed asc (then_with (compare_rows fo k a b) (cmp_ord a_key b_key)))
       (filter (\<lambda>(_, r). passes lower f r) rows))"

section \<open>The cursor\<close>

definition clamp :: "int \<Rightarrow> int \<Rightarrow> int \<Rightarrow> int" where
  "clamp lo hi x = max lo (min hi x)"

definition move_cursor :: "string list \<Rightarrow> string option \<Rightarrow> int \<Rightarrow> string option" where
  "move_cursor shown current delta =
     (if shown = [] then None
      else
        let last = int (length shown) - 1;
            from = (case Option.bind current (\<lambda>uid. position (\<lambda>u. u = uid) shown) of
                Some i \<Rightarrow> int i
              | None \<Rightarrow> if 0 \<le> delta then - 1 else int (length shown))
        in Some (shown ! nat (clamp 0 last (from + delta))))"

section \<open>Columns\<close>

datatype column_kind = ColName | ColNamespace | ColAge | ColStatus | ColBool | ColPercent | ColMetric | ColPlain

definition is_state :: "column_kind \<Rightarrow> bool" where
  "is_state c \<longleftrightarrow> c = ColStatus \<or> c = ColBool"

definition is_identity :: "column_kind \<Rightarrow> bool" where
  "is_identity c \<longleftrightarrow> c = ColName \<or> c = ColNamespace \<or> c = ColAge"

definition column_kind_of :: "string \<Rightarrow> column_kind" where
  "column_kind_of column =
     (if column = ''Name'' then ColName
      else if column = ''Namespace'' then ColNamespace
      else if column = ''Age'' then ColAge
      else if column \<in> {''Phase'', ''Status'', ''Ready''} then ColStatus
      else if column \<in> {''Mount'', ''Attached''} then ColBool
      else if column \<in> {''%CPU/R'', ''%CPU/L'', ''%MEM/R'', ''%MEM/L''} then ColPercent
      else if starts_with column ''CPU'' \<or> starts_with column ''MEM'' \<or> starts_with column ''%'' then ColMetric
      else ColPlain)"

definition bool_color :: "string \<Rightarrow> string" where
  "bool_color v = (if v = ''true'' then ''ok'' else if v = ''false'' then ''warn'' else ''unknown'')"

definition fill_slot :: "string list \<Rightarrow> nat list \<Rightarrow> nat \<Rightarrow> nat list" where
  "fill_slot columns idx i =
     (if 2 \<le> length idx then idx
      else if i \<notin> set idx \<and> \<not> is_identity (column_kind_of (columns ! i)) then idx @ [i] else idx)"

definition surfaced_indices :: "string list \<Rightarrow> nat list" where
  "surfaced_indices columns =
     foldl (fill_slot columns)
       (case position (\<lambda>c. is_state (column_kind_of c)) columns of Some i \<Rightarrow> [i] | None \<Rightarrow> [])
       [0..<length columns]"

definition surfaced_cells :: "string list \<Rightarrow> string list \<Rightarrow> (string \<times> string \<times> column_kind) list" where
  "surfaced_cells columns cells = map (\<lambda>i.
     (columns ! i, (if i < length cells then cells ! i else []), column_kind_of (columns ! i)))
     (surfaced_indices columns)"

section \<open>Targets of actions\<close>

record detail_target =
  dt_key :: string
  dt_namespace :: "string option"
  dt_name :: string

definition row_target :: "string \<Rightarrow> resource_row \<Rightarrow> detail_target" where
  "row_target key r = \<lparr>dt_key = key, dt_namespace = rr_namespace r, dt_name = rr_name r\<rparr>"

definition node_is_control_plane :: "resource_row \<Rightarrow> bool" where
  "node_is_control_plane r \<longleftrightarrow> hm_get (rr_labels r) ''node-role.kubernetes.io/control-plane'' \<noteq> None
     \<or> hm_get (rr_labels r) ''node-role.kubernetes.io/master'' \<noteq> None"

definition bulk_targets :: "string \<Rightarrow> (string, resource_row) hmap \<Rightarrow> string set \<Rightarrow> detail_target list" where
  "bulk_targets key rows uids = map (row_target key) (filter (\<lambda>r. rr_uid r \<in> uids) (map snd rows))"

record action_targets =
  at_uids :: "string list"
  at_targets :: "detail_target list"

definition resolve_action_targets ::
  "string \<Rightarrow> detail_target \<Rightarrow> string set option \<Rightarrow> (string, resource_row) hmap \<Rightarrow> (string, detail_target) hmap
   \<Rightarrow> action_targets" where
  "resolve_action_targets clicked_uid clicked selected rows row_targets =
     (let uids = (case selected of
            Some s \<Rightarrow> if 1 < card s \<and> clicked_uid \<in> s then sorted_list_of_set s else [clicked_uid]
          | None \<Rightarrow> [clicked_uid]);
          targets = List.map_filter (\<lambda>uid. or_else (hm_get row_targets uid)
            (map_option (row_target (dt_key clicked)) (hm_get rows uid))) uids
      in \<lparr>at_uids = uids, at_targets = (if targets = [] then [clicked] else targets)\<rparr>)"

definition parse_key :: "string \<Rightarrow> string \<times> string \<times> string" where
  "parse_key key = (case splitn 3 (CHR ''/'') key of
     [g, v, k] \<Rightarrow> (g, v, k) | _ \<Rightarrow> ([], [], key))"

definition key_supports :: "string \<Rightarrow> resource_action \<Rightarrow> bool" where
  "key_supports key action = (case parse_key key of (g, v, k) \<Rightarrow> supports (for_gvk g v k) action)"

definition pinned_in_catalog_order :: "resource_kind list \<Rightarrow> string set \<Rightarrow> resource_kind list" where
  "pinned_in_catalog_order catalog pinned = filter (\<lambda>k. rk_key k \<in> pinned) catalog"

declare nat_cmp.simps [simp del]

end
