(* ===== verification/Keys.thy ===== *)
theory Keys
  imports Listing Action
begin

text \<open>
  The keyboard of the browser: \<open>src/app/keys.rs\<close>, the overlays of \<open>contexts.rs\<close>, the permissions of a selection
  (\<open>controllers/detail.rs\<close>), the delete dialog and what it fires (\<open>ui/delete.rs\<close>, \<open>overlays/delete.rs\<close>,
  \<open>events.rs\<close>).  The signals a key press reads and writes are the fields of one state; scroll positions and pixel
  coordinates are left out, and a page is the number of rows that fit the view.
\<close>

section \<open>Signals\<close>

datatype layer = OverlayLayer | MenuLayer | TableLayer

record exec_target =
  xt_namespace :: string
  xt_pod :: string
  xt_container :: "string option"
  xt_pending :: bool
  xt_node_shell :: bool
  xt_image :: string

record drain_target =
  dg_key :: string
  dg_name :: string
  dg_power :: "string option"
  dg_control_plane :: bool
  dg_job :: "string option"

text \<open>The callback of a delete dialog is what it captured: the targets, and whether force is chosen already.\<close>

record delete_request =
  dr_message :: string
  dr_targets :: "detail_target list"
  dr_kill :: bool

text \<open>The payload of the two dialogs the keyboard only closes does not matter here: their message.\<close>

record overlays =
  ol_palette :: bool
  ol_ns_palette :: bool
  ol_shortcuts :: bool
  ol_alerts :: bool
  ol_recommend :: bool
  ol_access_review :: bool
  ol_exec :: "exec_target option"
  ol_file_browser :: "detail_target option"
  ol_tree :: "detail_target option"
  ol_drain :: "drain_target option"
  ol_pod_modal :: "detail_target option"
  ol_confirm :: "string option"
  ol_delete :: "delete_request option"
  ol_sweep :: "string option"

definition no_overlays :: overlays where
  "no_overlays = \<lparr>ol_palette = False, ol_ns_palette = False, ol_shortcuts = False, ol_alerts = False,
     ol_recommend = False, ol_access_review = False, ol_exec = None, ol_file_browser = None, ol_tree = None,
     ol_drain = None, ol_pod_modal = None, ol_confirm = None, ol_delete = None, ol_sweep = None\<rparr>"

definition any_open :: "overlays \<Rightarrow> bool" where
  "any_open v \<longleftrightarrow> ol_palette v \<or> ol_ns_palette v \<or> ol_shortcuts v \<or> ol_alerts v \<or> ol_recommend v
     \<or> ol_access_review v \<or> ol_exec v \<noteq> None \<or> ol_file_browser v \<noteq> None \<or> ol_tree v \<noteq> None
     \<or> ol_drain v \<noteq> None \<or> ol_pod_modal v \<noteq> None \<or> ol_confirm v \<noteq> None \<or> ol_delete v \<noteq> None
     \<or> ol_sweep v \<noteq> None"

record ctx_menu =
  cm_target :: detail_target
  cm_node :: "string option"
  cm_uid :: string

record log_target =
  lt_key :: string
  lt_namespace :: string
  lt_name :: string
  lt_aggregate :: bool

definition log_target_of :: "detail_target \<Rightarrow> bool \<Rightarrow> log_target" where
  "log_target_of t aggregate = \<lparr>lt_key = dt_key t, lt_namespace = unwrap_or [] (dt_namespace t), lt_name = dt_name t,
     lt_aggregate = aggregate\<rparr>"

definition open_logs :: "log_target \<Rightarrow> log_target list \<Rightarrow> log_target list" where
  "open_logs t v = (if t \<in> set v then v else v @ [t])"

datatype detail_tab = TabInfo | TabYaml | TabLogs | TabMetrics | TabTalos | TabJobs | TabInstances | TabBackups

text \<open>The table that owns the view, with the uids it shows in their order.\<close>

record key_table =
  tb_shown :: "string list"
  tb_kind_key :: string
  tb_columns :: "string list"
  tb_node_for :: "string \<Rightarrow> string option"
  tb_rows :: "(string, resource_row) hmap"
  tb_selected :: "string set"
  tb_cursor :: "string option"
  tb_last_clicked :: "string option"
  tb_sort :: "sort_key \<times> bool"
  tb_page :: int

section \<open>The count before a motion\<close>

definition MAX_COUNT :: nat where
  "MAX_COUNT = 9999"

definition repeat_count :: "nat \<Rightarrow> nat" where
  "repeat_count count = max count 1"

text \<open>\<open>None\<close>: the digit is no part of a count.\<close>

definition push_digit :: "nat \<Rightarrow> nat \<Rightarrow> nat option" where
  "push_digit count d =
     (if d = 0 \<and> count = 0 then None
      else Some (min (min (2 ^ 32 - 1) (min (2 ^ 32 - 1) (count * 10) + d)) MAX_COUNT))"

definition display_count :: "nat \<Rightarrow> string" where
  "display_count count = (if count = 0 then [] else show_nat count)"

text \<open>\<open>to_digit(10)\<close> of a key that is one byte.\<close>

definition digit_key :: "string \<Rightarrow> nat option" where
  "digit_key key = (case key of [c] \<Rightarrow> if is_ascii_digit c then Some (code c - 48) else None | _ \<Rightarrow> None)"

section \<open>What the keys do to the table\<close>

definition move_by :: "int \<Rightarrow> key_table \<Rightarrow> key_table" where
  "move_by delta h = (case move_cursor (tb_shown h) (tb_cursor h) delta of
     None \<Rightarrow> h | Some uid \<Rightarrow> h\<lparr>tb_cursor := Some uid\<rparr>)"

definition page_rows :: "key_table \<Rightarrow> int" where
  "page_rows h = max (tb_page h) 1"

definition goto_row :: "nat \<Rightarrow> key_table \<Rightarrow> key_table" where
  "goto_row count h =
     (let i = min (repeat_count count - 1) (length (tb_shown h) - 1) in
      if i < length (tb_shown h) then h\<lparr>tb_cursor := Some (tb_shown h ! i)\<rparr> else h)"

definition goto_last :: "key_table \<Rightarrow> key_table" where
  "goto_last h = (if tb_shown h = [] then h else h\<lparr>tb_cursor := Some (last (tb_shown h))\<rparr>)"

definition toggle_mark :: "string \<Rightarrow> string set \<Rightarrow> string set" where
  "toggle_mark uid s = (if uid \<in> s then s - {uid} else insert uid s)"

fun mark_run :: "nat \<Rightarrow> key_table \<Rightarrow> key_table" where
  "mark_run 0 h = h"
| "mark_run (Suc n) h = (case tb_cursor h of
     None \<Rightarrow> h
   | Some uid \<Rightarrow> mark_run n (move_by 1
       (h\<lparr>tb_selected := toggle_mark uid (tb_selected h), tb_last_clicked := Some uid\<rparr>)))"

definition action_uids :: "key_table \<Rightarrow> string set" where
  "action_uids h = (if tb_selected h \<noteq> {} then tb_selected h else set_option (tb_cursor h))"

definition targets_of :: "key_table \<Rightarrow> detail_target list" where
  "targets_of h = bulk_targets (tb_kind_key h) (tb_rows h) (action_uids h)"

definition sort_key_for_column :: "string list \<Rightarrow> nat \<Rightarrow> sort_key" where
  "sort_key_for_column columns i =
     (if i < length columns then
        (if columns ! i = ''Namespace'' then SortNamespace
         else if columns ! i = ''Name'' then SortName
         else if columns ! i = ''Age'' then SortAge
         else SortCell i)
      else SortCell i)"

definition sort_column_for_letter :: "string list \<Rightarrow> char \<Rightarrow> sort_key option" where
  "sort_column_for_letter columns letter =
     map_option (sort_key_for_column columns)
       (position (\<lambda>c. c \<noteq> [] \<and> to_ascii_lower (hd c) = to_ascii_lower letter) columns)"

definition sort_by_column :: "sort_key \<Rightarrow> key_table \<Rightarrow> key_table" where
  "sort_by_column next h =
     h\<lparr>tb_sort := (if fst (tb_sort h) = next then (fst (tb_sort h), \<not> snd (tb_sort h)) else (next, True))\<rparr>"

definition menu_at_cursor :: "key_table \<Rightarrow> ctx_menu option" where
  "menu_at_cursor h = (case tb_cursor h of
     None \<Rightarrow> None
   | Some uid \<Rightarrow> map_option (\<lambda>r. \<lparr>cm_target = row_target (tb_kind_key h) r, cm_node = tb_node_for h uid, cm_uid = uid\<rparr>)
       (hm_get (tb_rows h) uid))"

section \<open>The permissions of a selection\<close>

record selection_permissions =
  sl_selected :: nat
  sl_permitted :: "(string, nat) hmap"

definition count_permitted :: "action_permissions \<Rightarrow> (string, nat) hmap \<Rightarrow> (string, nat) hmap" where
  "count_permitted p m = fold (\<lambda>a m. if allows p a
       then hm_insert (api_name a) (unwrap_or 0 (hm_get m (api_name a)) + 1) m else m) all_actions m"

text \<open>What the server answers for the targets, one after the other; a failed request permits nothing.\<close>

definition selection_permissions_of :: "action_permissions list \<Rightarrow> selection_permissions" where
  "selection_permissions_of answers = \<lparr>sl_selected = length answers, sl_permitted = fold count_permitted answers []\<rparr>"

definition allows_all :: "selection_permissions \<Rightarrow> resource_action \<Rightarrow> bool" where
  "allows_all p a \<longleftrightarrow> 0 < sl_selected p \<and> hm_get (sl_permitted p) (api_name a) = Some (sl_selected p)"

definition permission_count :: "selection_permissions \<Rightarrow> resource_action \<Rightarrow> nat \<times> nat" where
  "permission_count p a = (unwrap_or 0 (hm_get (sl_permitted p) (api_name a)), sl_selected p)"

section \<open>The state of the browser\<close>

datatype toast_kind = ToastOk | ToastErr

text \<open>What happens to a deletion the keyboard asks for, in the order it happens.\<close>

datatype deletion_event =
    Pressed key_table bool
  | Reviewed "detail_target list" "action_permissions list"
  | Confirmed bool "delete_propagation option"
  | Fired "detail_target list" bool "delete_propagation option"

record ui =
  ui_overlays :: overlays
  ui_menu :: "ctx_menu option"
  ui_table :: "key_table option"
  ui_pending :: nat
  ui_timer :: bool
  ui_only_problems :: bool
  ui_filter_focus :: nat
  ui_catalog :: "resource_kind list"
  ui_pinned :: "string set"
  ui_selected_kind :: "resource_kind option"
  ui_log_pods :: "log_target list"
  ui_detail :: "detail_target option"
  ui_requested_tab :: "detail_tab option"
  ui_visited :: "string list"
  ui_clipboard :: "string list"
  ui_toasts :: "(string \<times> toast_kind) list"
  ui_fetches :: "(detail_target list \<times> bool) list"
  ui_history :: "deletion_event list"

definition active_layer :: "ui \<Rightarrow> layer" where
  "active_layer s = (if any_open (ui_overlays s) then OverlayLayer
     else if ui_menu s \<noteq> None then MenuLayer else TableLayer)"

record key_event =
  ke_key :: string
  ke_ctrl :: bool
  ke_text_focused :: bool
  ke_text_selected :: bool

definition typing :: "key_event \<Rightarrow> bool" where
  "typing e \<longleftrightarrow> ke_key e \<noteq> ''Escape'' \<and> ke_text_focused e"

definition arm :: "nat \<Rightarrow> ui \<Rightarrow> ui" where
  "arm next s = s\<lparr>ui_pending := next, ui_timer := (next \<noteq> 0)\<rparr>"

definition with_overlays :: "(overlays \<Rightarrow> overlays) \<Rightarrow> ui \<Rightarrow> ui" where
  "with_overlays f s = s\<lparr>ui_overlays := f (ui_overlays s)\<rparr>"

definition with_table :: "(key_table \<Rightarrow> key_table) \<Rightarrow> ui \<Rightarrow> ui" where
  "with_table f s = s\<lparr>ui_table := map_option f (ui_table s)\<rparr>"

definition toasted :: "string \<Rightarrow> toast_kind \<Rightarrow> ui \<Rightarrow> ui" where
  "toasted msg k s = s\<lparr>ui_toasts := ui_toasts s @ [(msg, k)]\<rparr>"

section \<open>Escape\<close>

definition close_overlays :: "overlays \<Rightarrow> overlays" where
  "close_overlays v = v\<lparr>ol_palette := False, ol_ns_palette := False, ol_shortcuts := False, ol_alerts := False,
     ol_access_review := False, ol_exec := None, ol_file_browser := None, ol_tree := None, ol_drain := None,
     ol_pod_modal := None, ol_confirm := None, ol_delete := None, ol_sweep := None\<rparr>"

definition escape :: "key_event \<Rightarrow> ui \<Rightarrow> ui" where
  "escape e s =
     (if ui_pending s \<noteq> 0 then arm 0 s
      else if active_layer s = OverlayLayer then with_overlays close_overlays s
      else if active_layer s = MenuLayer then s\<lparr>ui_menu := None\<rparr>
      else if ke_text_focused e then s
      else if (case ui_table s of Some h \<Rightarrow> tb_selected h \<noteq> {} | None \<Rightarrow> False)
        then with_table (\<lambda>h. h\<lparr>tb_selected := {}\<rparr>) s
      else if ui_log_pods s \<noteq> [] then s\<lparr>ui_log_pods := []\<rparr>
      else s\<lparr>ui_detail := None\<rparr>)"

section \<open>Keys with or without a table\<close>

text \<open>\<open>None\<close>: the key is left to the table.\<close>

definition global_key :: "key_event \<Rightarrow> ui \<Rightarrow> ui option" where
  "global_key e s =
     (if ke_key e = '':'' \<or> ke_key e = ''K'' then Some (with_overlays (\<lambda>v. v\<lparr>ol_palette := True\<rparr>) s)
      else if ke_key e = ''N'' then Some (with_overlays (\<lambda>v. v\<lparr>ol_ns_palette := True\<rparr>) s)
      else if ke_key e = ''w'' then Some (s\<lparr>ui_visited := ui_visited s @ [''/workspace'']\<rparr>)
      else if ke_key e = ''z'' \<and> ke_ctrl e then Some (s\<lparr>ui_only_problems := \<not> ui_only_problems s\<rparr>)
      else if ke_key e = ''E'' then Some (s\<lparr>ui_only_problems := \<not> ui_only_problems s\<rparr>)
      else if ke_key e = ''/'' then Some (s\<lparr>ui_filter_focus := (ui_filter_focus s + 1) mod 2 ^ 32\<rparr>)
      else if ke_key e = ''?'' then Some (with_overlays (\<lambda>v. v\<lparr>ol_shortcuts := \<not> ol_shortcuts v\<rparr>) s)
      else None)"

definition jump_to_favourite :: "nat \<Rightarrow> ui \<Rightarrow> ui" where
  "jump_to_favourite d s =
     (let slot = (if d = 0 then 9 else d - 1); pins = pinned_in_catalog_order (ui_catalog s) (ui_pinned s) in
      if slot < length pins then s\<lparr>ui_selected_kind := Some (pins ! slot)\<rparr> else s)"

section \<open>Keys of the table\<close>

definition describe_first :: "key_table \<Rightarrow> ui \<Rightarrow> ui" where
  "describe_first h s = (case targets_of h of [] \<Rightarrow> s | t # _ \<Rightarrow> s\<lparr>ui_detail := Some t\<rparr>)"

definition relate_first :: "key_table \<Rightarrow> ui \<Rightarrow> ui" where
  "relate_first h s = (case targets_of h of [] \<Rightarrow> s
     | t # _ \<Rightarrow> with_overlays (\<lambda>v. v\<lparr>ol_tree := Some t\<rparr>) s)"

definition open_target_logs :: "key_table \<Rightarrow> ui \<Rightarrow> ui" where
  "open_target_logs h s =
     (if key_supports (tb_kind_key h) Logs
      then s\<lparr>ui_log_pods := fold (\<lambda>t. open_logs (log_target_of t (\<not> key_supports (tb_kind_key h) Exec)))
        (targets_of h) (ui_log_pods s)\<rparr>
      else s)"

definition shell_first :: "key_table \<Rightarrow> ui \<Rightarrow> ui" where
  "shell_first h s =
     (if key_supports (tb_kind_key h) Exec then (case targets_of h of [] \<Rightarrow> s
        | t # _ \<Rightarrow> with_overlays (\<lambda>v. v\<lparr>ol_exec := Some \<lparr>xt_namespace = unwrap_or [] (dt_namespace t), xt_pod = dt_name t,
            xt_container = None, xt_pending = False, xt_node_shell = False, xt_image = []\<rparr>\<rparr>) s)
      else s)"

definition yaml_first :: "key_table \<Rightarrow> ui \<Rightarrow> ui" where
  "yaml_first h s = (case targets_of h of [] \<Rightarrow> s
     | t # _ \<Rightarrow> s\<lparr>ui_requested_tab := Some TabYaml, ui_detail := Some t\<rparr>)"

definition copy_names :: "key_table \<Rightarrow> ui \<Rightarrow> ui" where
  "copy_names h s = (let names = map dt_name (targets_of h) in
     if names = [] then s
     else toasted ''Copied to clipboard'' ToastOk (s\<lparr>ui_clipboard := ui_clipboard s @ [join_with [CHR 0x0A] names]\<rparr>))"

definition open_menu_at_cursor :: "key_table \<Rightarrow> ui \<Rightarrow> ui" where
  "open_menu_at_cursor h s = (case menu_at_cursor h of None \<Rightarrow> s | Some m \<Rightarrow> s\<lparr>ui_menu := Some m\<rparr>)"

text \<open>Deleting starts with a question to the server; its answer is a step of its own.\<close>

definition ask_permission :: "bool \<Rightarrow> key_table \<Rightarrow> ui \<Rightarrow> ui" where
  "ask_permission kill h s =
     (if targets_of h = [] then s
      else s\<lparr>ui_fetches := ui_fetches s @ [(targets_of h, kill)], ui_history := ui_history s @ [Pressed h kill]\<rparr>)"

definition sort_letter :: "char \<Rightarrow> key_table \<Rightarrow> ui \<Rightarrow> ui" where
  "sort_letter letter h s = (case sort_column_for_letter (tb_columns h) letter of
     None \<Rightarrow> s | Some next \<Rightarrow> with_table (sort_by_column next) s)"

definition uppercase_key :: "string \<Rightarrow> bool" where
  "uppercase_key key \<longleftrightarrow> (case key of [c] \<Rightarrow> is_ascii_uppercase c | _ \<Rightarrow> False)"

definition table_key :: "nat \<Rightarrow> key_event \<Rightarrow> key_table \<Rightarrow> ui \<Rightarrow> ui" where
  "table_key count e h =
     (let key = ke_key e; ctrl = ke_ctrl e; repeat = int (repeat_count count) in
      if key \<in> {''j'', ''ArrowDown''} \<and> \<not> ctrl then with_table (move_by repeat)
      else if key \<in> {''k'', ''ArrowUp''} \<and> \<not> ctrl then with_table (move_by (- repeat))
      else if key = ''g'' \<and> \<not> ctrl then with_table (goto_row count)
      else if key = ''G'' then with_table goto_last
      else if key = ''f'' \<and> ctrl then with_table (move_by (page_rows h))
      else if key = ''b'' \<and> ctrl then with_table (move_by (- page_rows h))
      else if key = ''PageDown'' then with_table (move_by (page_rows h))
      else if key = ''PageUp'' then with_table (move_by (- page_rows h))
      else if key = '' '' \<and> \<not> ctrl then with_table (mark_run (repeat_count count))
      else if key = [CHR 0x5C] \<and> ctrl then with_table (\<lambda>h. h\<lparr>tb_selected := {}\<rparr>)
      else if key = ''a'' \<and> ctrl then with_table (\<lambda>h. h\<lparr>tb_selected := set (tb_shown h)\<rparr>)
      else if key \<in> {''Enter'', ''d''} \<and> \<not> ctrl then describe_first h
      else if key = ''r'' then relate_first h
      else if key = ''l'' then open_target_logs h
      else if key = ''s'' then shell_first h
      else if key = ''y'' \<and> \<not> ctrl then yaml_first h
      else if key = ''c'' \<and> ctrl then copy_names h
      else if key = ''a'' \<and> \<not> ctrl then open_menu_at_cursor h
      else if key \<in> {''d'', ''k''} \<and> ctrl then ask_permission (key = ''k'') h
      else if \<not> ctrl \<and> uppercase_key key then sort_letter (hd key) h
      else id)"

section \<open>A key press\<close>

text \<open>What a key that is no part of a count does; \<open>count\<close> is what was typed before it.\<close>

definition bound_key :: "nat \<Rightarrow> key_event \<Rightarrow> ui \<Rightarrow> ui" where
  "bound_key count e s =
     (case (if ke_ctrl e then digit_key (ke_key e) else None) of
        Some d \<Rightarrow> jump_to_favourite d s
      | None \<Rightarrow> (case global_key e s of
          Some s' \<Rightarrow> s'
        | None \<Rightarrow> (case ui_table s of None \<Rightarrow> s | Some h \<Rightarrow> table_key count e h s)))"

definition press :: "key_event \<Rightarrow> ui \<Rightarrow> ui" where
  "press e s =
     (if ke_key e = ''Escape'' then escape e s
      else if ke_ctrl e \<and> str_ascii_lower (ke_key e) = ''c'' \<and> ke_text_selected e then s
      else if typing e then s
      else if active_layer s \<noteq> TableLayer then s
      else case (if ke_ctrl e then None else Option.bind (digit_key (ke_key e)) (push_digit (ui_pending s))) of
        Some next \<Rightarrow> arm next s
      | None \<Rightarrow> bound_key (ui_pending s) e (if ui_pending s \<noteq> 0 then arm 0 s else s))"

section \<open>What follows later\<close>

definition delete_message :: "bool \<Rightarrow> nat \<Rightarrow> string" where
  "delete_message kill n =
     (let verb = (if kill then ''Force delete'' else ''Delete'') in
      if n = 1 then verb @ '' this resource?'' else verb @ '' '' @ show_nat n @ '' resources?'')"

definition remove_nth :: "nat \<Rightarrow> 'a list \<Rightarrow> 'a list" where
  "remove_nth i xs = take i xs @ drop (Suc i) xs"

text \<open>The answers for the targets of one question have arrived.\<close>

definition permissions_arrive :: "nat \<Rightarrow> action_permissions list \<Rightarrow> ui \<Rightarrow> ui" where
  "permissions_arrive i answers s = (case ui_fetches s ! i of (targets, kill) \<Rightarrow>
     let p = selection_permissions_of answers;
         s = s\<lparr>ui_fetches := remove_nth i (ui_fetches s), ui_history := ui_history s @ [Reviewed targets answers]\<rparr>
     in if \<not> allows_all p Delete then
          (case permission_count p Delete of (allowed, all) \<Rightarrow>
             toasted (''Delete permitted for '' @ show_nat allowed @ '' of '' @ show_nat all @ '' resources'') ToastErr s)
        else with_overlays (\<lambda>v. v\<lparr>ol_delete := Some \<lparr>dr_message = delete_message kill (length targets),
               dr_targets = targets, dr_kill = kill\<rparr>\<rparr>) s)"

text \<open>The button of the delete dialog: it closes, one request per target is sent, and the marks of the table are
  cleared (the table in view stands for the one the key was pressed in).\<close>

definition confirm_delete :: "bool \<Rightarrow> delete_propagation option \<Rightarrow> ui \<Rightarrow> ui" where
  "confirm_delete force_chosen propagation s = (case ol_delete (ui_overlays s) of
     None \<Rightarrow> s
   | Some r \<Rightarrow> with_table (\<lambda>h. h\<lparr>tb_selected := {}\<rparr>) (with_overlays (\<lambda>v. v\<lparr>ol_delete := None\<rparr>)
       (s\<lparr>ui_history := ui_history s @ [Confirmed force_chosen propagation,
           Fired (dr_targets r) (force_chosen \<or> dr_kill r) propagation]\<rparr>)))"

definition count_expires :: "ui \<Rightarrow> ui" where
  "count_expires s = s\<lparr>ui_pending := 0, ui_timer := False\<rparr>"

text \<open>Rows stream in and the mouse does what it does; dialogs for deletions that other parts raise are not part
  of the state, so all that can happen to this one is that it is closed.\<close>

inductive ui_step :: "ui \<Rightarrow> ui \<Rightarrow> bool" where
  key: "ui_step s (press e s)"
| expire: "ui_timer s \<Longrightarrow> ui_step s (count_expires s)"
| answer: "i < length (ui_fetches s) \<Longrightarrow> length answers = length (fst (ui_fetches s ! i))
    \<Longrightarrow> ui_step s (permissions_arrive i answers s)"
| confirm: "ui_step s (confirm_delete force_chosen propagation s)"
| elsewhere: "ui_fetches s' = ui_fetches s \<Longrightarrow> ui_history s' = ui_history s
    \<Longrightarrow> ol_delete (ui_overlays s') \<in> {ol_delete (ui_overlays s), None} \<Longrightarrow> ui_step s s'"

end
