(* ===== verification/KeysProps.thy ===== *)
theory KeysProps
  imports Keys
begin

text \<open>
  The keyboard: a key never deletes anything by itself, whatever else happens in between; keys are silent while
  an overlay has the screen, and Escape closes every overlay but one.
\<close>

section \<open>The permissions of a selection\<close>

lemma fold_counts:
  assumes "distinct acts"
  shows "hm_get (fold (\<lambda>a m. if allows p a then hm_insert (api_name a) (unwrap_or 0 (hm_get m (api_name a)) + 1) m else m) acts m)
      (api_name b)
    = (if b \<in> set acts \<and> allows p b then Some (unwrap_or 0 (hm_get m (api_name b)) + 1) else hm_get m (api_name b))"
  using assms
proof (induction acts arbitrary: m)
  case (Cons a acts)
  have "api_name a = api_name b \<longleftrightarrow> a = b" by (cases a; cases b) simp_all
  with Cons show ?case by (auto simp: unwrap_or_def split: option.splits)
qed simp

lemma count_permitted_get:
  "hm_get (count_permitted p m) (api_name b)
    = (if allows p b then Some (unwrap_or 0 (hm_get m (api_name b)) + 1) else hm_get m (api_name b))"
proof -
  have "distinct all_actions" "b \<in> set all_actions" by (cases b; simp add: all_actions_def)+
  then show ?thesis by (simp add: count_permitted_def fold_counts)
qed

lemma permitted_counts:
  "unwrap_or 0 (hm_get (fold count_permitted answers m) (api_name b))
    = unwrap_or 0 (hm_get m (api_name b)) + length (filter (\<lambda>p. allows p b) answers)"
  by (induction answers arbitrary: m) (auto simp: count_permitted_get unwrap_or_def)

text \<open>All are allowed exactly when there is a target and each one's answer allows it.\<close>

lemma allows_all_iff:
  "allows_all (selection_permissions_of answers) a \<longleftrightarrow> answers \<noteq> [] \<and> (\<forall>p\<in>set answers. allows p a)"
proof -
  have count: "unwrap_or 0 (hm_get (fold count_permitted answers []) (api_name a)) = length (filter (\<lambda>p. allows p a) answers)"
    using permitted_counts[of answers "[]" a] by (simp add: unwrap_or_def)
  have "length (filter (\<lambda>p. allows p a) answers) = length answers \<longleftrightarrow> (\<forall>p\<in>set answers. allows p a)"
    by (metis filter_True length_filter_less less_irrefl)
  moreover have "answers \<noteq> [] \<Longrightarrow> hm_get (fold count_permitted answers []) (api_name a) = Some (length answers)
      \<longleftrightarrow> length (filter (\<lambda>p. allows p a) answers) = length answers"
    using count by (cases "hm_get (fold count_permitted answers []) (api_name a)") (auto simp: unwrap_or_def)
  ultimately show ?thesis
    by (cases "answers = []") (auto simp: allows_all_def selection_permissions_of_def)
qed

section \<open>What a key can do\<close>

text \<open>A key leaves the deletions alone, or asks the server about the targets of the table.\<close>

definition key_effect :: "ui \<Rightarrow> ui \<Rightarrow> bool" where
  "key_effect s s' \<longleftrightarrow> ol_delete (ui_overlays s') \<in> {ol_delete (ui_overlays s), None}
     \<and> (ui_fetches s' = ui_fetches s \<and> ui_history s' = ui_history s
        \<or> (\<exists>h kill. targets_of h \<noteq> [] \<and> ui_fetches s' = ui_fetches s @ [(targets_of h, kill)]
             \<and> ui_history s' = ui_history s @ [Pressed h kill]))"

lemma key_effect_if: "(P \<Longrightarrow> key_effect s (f s)) \<Longrightarrow> (\<not> P \<Longrightarrow> key_effect s (g s)) \<Longrightarrow> key_effect s ((if P then f else g) s)"
  by simp

lemma key_effect_table: "key_effect s (with_table f s)" "key_effect s (id s)"
  by (simp_all add: key_effect_def with_table_def)

lemma key_effect_first:
  "key_effect s (describe_first h s)" "key_effect s (relate_first h s)" "key_effect s (open_target_logs h s)"
  "key_effect s (shell_first h s)" "key_effect s (yaml_first h s)" "key_effect s (copy_names h s)"
  "key_effect s (open_menu_at_cursor h s)" "key_effect s (sort_letter c h s)" "key_effect s (ask_permission kill h s)"
  by (auto simp: key_effect_def describe_first_def relate_first_def open_target_logs_def shell_first_def yaml_first_def
      copy_names_def open_menu_at_cursor_def sort_letter_def ask_permission_def with_overlays_def with_table_def toasted_def
      Let_def split: list.split option.split)

lemma table_key_effect: "key_effect s (table_key count e h s)"
  unfolding table_key_def Let_def by (intro key_effect_if key_effect_table key_effect_first)

lemma escape_effect: "key_effect s (escape e s)"
  by (simp add: key_effect_def escape_def arm_def with_overlays_def close_overlays_def with_table_def)

lemma global_effect: "global_key e s = Some s' \<Longrightarrow> key_effect s s'"
  by (auto simp: key_effect_def global_key_def with_overlays_def split: if_splits)

lemma arm_effect: "key_effect (arm n s) s' \<Longrightarrow> key_effect s s'"
  by (simp add: key_effect_def arm_def)

lemma bound_key_effect: "key_effect s (bound_key count e s)"
proof -
  have "key_effect s (jump_to_favourite d s)" "key_effect s s" for d
    by (simp_all add: key_effect_def jump_to_favourite_def Let_def)
  then show ?thesis
    by (simp add: bound_key_def table_key_effect global_effect split: option.split)
qed

lemma press_effect: "key_effect s (press e s)"
proof -
  have "key_effect s s" "key_effect s (arm n s)" for n by (simp_all add: key_effect_def arm_def)
  with bound_key_effect arm_effect[OF bound_key_effect] escape_effect show ?thesis
    unfolding press_def by (simp split: option.split)
qed

section \<open>Deletions\<close>

definition asked :: "deletion_event list \<Rightarrow> detail_target list \<Rightarrow> bool \<Rightarrow> bool" where
  "asked hist ts kill \<longleftrightarrow> (\<exists>a b h. hist = a @ Pressed h kill # b \<and> ts = targets_of h \<and> ts \<noteq> [])"

definition cleared :: "deletion_event list \<Rightarrow> detail_target list \<Rightarrow> bool \<Rightarrow> bool" where
  "cleared hist ts kill \<longleftrightarrow> (\<exists>a b answers. hist = a @ Reviewed ts answers # b \<and> asked a ts kill
     \<and> length answers = length ts \<and> (\<forall>p\<in>set answers. allows p Delete))"

definition fired_well :: "deletion_event list \<Rightarrow> bool" where
  "fired_well hist \<longleftrightarrow> (\<forall>pre ts forced propagation post. hist = pre @ Fired ts forced propagation # post \<longrightarrow>
     (\<exists>before chosen kill. pre = before @ [Confirmed chosen propagation] \<and> cleared before ts kill
        \<and> forced = (chosen \<or> kill)))"

definition deletion_inv :: "ui \<Rightarrow> bool" where
  "deletion_inv s \<longleftrightarrow> (\<forall>(ts, kill)\<in>set (ui_fetches s). asked (ui_history s) ts kill)
     \<and> (\<forall>r. ol_delete (ui_overlays s) = Some r \<longrightarrow> cleared (ui_history s) (dr_targets r) (dr_kill r))
     \<and> fired_well (ui_history s)"

lemma asked_append: "asked hist ts kill \<Longrightarrow> asked (hist @ more_events) ts kill"
  unfolding asked_def by (metis append.assoc append_Cons)

lemma cleared_append: "cleared hist ts kill \<Longrightarrow> cleared (hist @ more_events) ts kill"
  unfolding cleared_def by (metis append.assoc append_Cons)

lemma fired_well_snoc:
  assumes "fired_well hist" and "\<And>ts forced propagation. e \<noteq> Fired ts forced propagation"
  shows "fired_well (hist @ [e])"
  unfolding fired_well_def
proof (intro allI impI)
  fix pre ts forced propagation post
  assume eq: "hist @ [e] = pre @ Fired ts forced propagation # post"
  with assms(2) obtain post' where "hist = pre @ Fired ts forced propagation # post'"
    by (cases post rule: rev_cases) auto
  with assms(1) show "\<exists>before chosen kill. pre = before @ [Confirmed chosen propagation] \<and> cleared before ts kill
      \<and> forced = (chosen \<or> kill)"
    unfolding fired_well_def by blast
qed

lemma fired_well_fired:
  assumes "fired_well hist" and "cleared hist ts kill"
  shows "fired_well (hist @ [Confirmed chosen propagation, Fired ts (chosen \<or> kill) propagation])"
proof -
  have before: "fired_well (hist @ [Confirmed chosen propagation])"
    using assms(1) by (intro fired_well_snoc) simp_all
  show ?thesis
    unfolding fired_well_def
  proof (intro allI impI)
    fix pre ts' forced' propagation' post
    assume eq: "hist @ [Confirmed chosen propagation, Fired ts (chosen \<or> kill) propagation]
      = pre @ Fired ts' forced' propagation' # post"
    show "\<exists>before chosen kill. pre = before @ [Confirmed chosen propagation'] \<and> cleared before ts' kill
        \<and> forced' = (chosen \<or> kill)"
    proof (cases post rule: rev_cases)
      case Nil
      with eq have "pre = hist @ [Confirmed chosen propagation]" "ts' = ts" "forced' = (chosen \<or> kill)" "propagation' = propagation"
        by auto
      with assms(2) show ?thesis by blast
    next
      case (snoc post' x)
      with eq have "hist @ [Confirmed chosen propagation] = pre @ Fired ts' forced' propagation' # post'" by auto
      with before show ?thesis unfolding fired_well_def by blast
    qed
  qed
qed

lemma deletion_inv_key:
  assumes "deletion_inv s" and "key_effect s s'"
  shows "deletion_inv s'"
proof -
  from assms(2) consider "ui_fetches s' = ui_fetches s" "ui_history s' = ui_history s"
    | h kill where "targets_of h \<noteq> []" "ui_fetches s' = ui_fetches s @ [(targets_of h, kill)]"
        "ui_history s' = ui_history s @ [Pressed h kill]"
    unfolding key_effect_def by blast
  then show ?thesis
  proof cases
    case 1
    with assms show ?thesis by (auto simp: deletion_inv_def key_effect_def)
  next
    case (2 h kill)
    have "asked (ui_history s') (targets_of h) kill" using 2 by (auto simp: asked_def)
    with 2 assms show ?thesis
      by (auto simp: deletion_inv_def key_effect_def asked_append cleared_append intro!: fired_well_snoc)
  qed
qed

lemma deletion_inv_answer:
  assumes inv: "deletion_inv s" and i: "i < length (ui_fetches s)" and len: "length answers = length (fst (ui_fetches s ! i))"
  shows "deletion_inv (permissions_arrive i answers s)"
proof -
  obtain ts kill where fetch: "ui_fetches s ! i = (ts, kill)" by fastforce
  let ?hist = "ui_history s @ [Reviewed ts answers]"
  have asked: "asked (ui_history s) ts kill"
    using inv i fetch nth_mem[OF i] by (fastforce simp: deletion_inv_def)
  have "cleared ?hist ts kill" if "allows_all (selection_permissions_of answers) Delete"
    unfolding cleared_def using that asked len fetch by (auto simp: allows_all_iff)
  moreover have "\<forall>(ts, kill)\<in>set (remove_nth i (ui_fetches s)). asked ?hist ts kill"
    using inv by (fastforce simp: deletion_inv_def remove_nth_def dest: in_set_takeD in_set_dropD intro: asked_append)
  moreover have "fired_well ?hist" using inv by (intro fired_well_snoc) (simp_all add: deletion_inv_def)
  ultimately show ?thesis
    using inv by (auto simp: deletion_inv_def permissions_arrive_def fetch Let_def toasted_def with_overlays_def
        intro: asked_append cleared_append split: prod.split)
qed

lemma deletion_inv_confirm:
  assumes "deletion_inv s"
  shows "deletion_inv (confirm_delete chosen propagation s)"
proof (cases "ol_delete (ui_overlays s)")
  case (Some r)
  with assms have "fired_well (ui_history s @ [Confirmed chosen propagation, Fired (dr_targets r) (chosen \<or> dr_kill r) propagation])"
    by (intro fired_well_fired) (auto simp: deletion_inv_def)
  with assms Some show ?thesis
    by (auto simp: deletion_inv_def confirm_delete_def with_table_def with_overlays_def intro: asked_append)
qed (use assms in \<open>simp add: confirm_delete_def\<close>)

lemma deletion_inv_step: "ui_step s s' \<Longrightarrow> deletion_inv s \<Longrightarrow> deletion_inv s'"
proof (induction rule: ui_step.induct)
  case (key s e)
  then show ?case using deletion_inv_key press_effect by blast
next
  case (expire s)
  then show ?case by (simp add: deletion_inv_def count_expires_def)
next
  case (elsewhere s' s)
  then show ?case by (auto simp: deletion_inv_def)
qed (simp_all add: deletion_inv_answer deletion_inv_confirm)

definition new_ui :: "ui \<Rightarrow> bool" where
  "new_ui s \<longleftrightarrow> ui_fetches s = [] \<and> ui_history s = [] \<and> ol_delete (ui_overlays s) = None"

lemma reached_deletion_inv:
  assumes "ui_step\<^sup>*\<^sup>* s0 s" and "new_ui s0"
  shows "deletion_inv s"
  using assms(1)
proof induction
  case base
  then show ?case using assms(2) by (simp add: deletion_inv_def new_ui_def fired_well_def)
qed (rule deletion_inv_step)


section \<open>Layers and Escape\<close>

text \<open>While a text field has the focus or something is open, no key but Escape does anything.\<close>

lemma keys_stand_down:
  "ke_key e \<noteq> ''Escape'' \<Longrightarrow> ke_text_focused e \<or> active_layer s \<noteq> TableLayer \<Longrightarrow> press e s = s"
  by (auto simp: press_def typing_def)

text \<open>Escape closes every overlay but the recommendations, which keep the keyboard.\<close>

lemma escape_closes_all_but_recommendations:
  assumes "ke_key e = ''Escape''" and "ui_pending s = 0" and "any_open (ui_overlays s)"
  shows "press e s = with_overlays close_overlays s" "any_open (ui_overlays (press e s)) \<longleftrightarrow> ol_recommend (ui_overlays s)"
  using assms by (simp_all add: press_def escape_def active_layer_def with_overlays_def close_overlays_def any_open_def)

lemma count_is_bounded: "push_digit count d = Some n \<Longrightarrow> n \<le> 9999"
  by (auto simp: push_digit_def MAX_COUNT_def split: if_splits)

section \<open>Witness\<close>

definition one_pod :: resource_row where
  "one_pod = \<lparr>rr_uid = ''u1'', rr_namespace = Some ''default'', rr_name = ''web'', rr_created = None, rr_cells = [],
     rr_trends = [], rr_status = RowOk, rr_suspended = False, rr_labels = []\<rparr>"

definition pod_table :: key_table where
  "pod_table = \<lparr>tb_shown = [''u1''], tb_kind_key = ''/v1/Pod'', tb_columns = [], tb_node_for = (\<lambda>_. None),
     tb_rows = [(''u1'', one_pod)], tb_selected = {}, tb_cursor = Some ''u1'', tb_last_clicked = None,
     tb_sort = (SortName, True), tb_page = 10\<rparr>"

definition pod_ui :: ui where
  "pod_ui = \<lparr>ui_overlays = no_overlays, ui_menu = None, ui_table = Some pod_table, ui_pending = 0, ui_timer = False,
     ui_only_problems = False, ui_filter_focus = 0, ui_catalog = [], ui_pinned = {}, ui_selected_kind = None,
     ui_log_pods = [], ui_detail = None, ui_requested_tab = None, ui_visited = [], ui_clipboard = [], ui_toasts = [],
     ui_fetches = [], ui_history = []\<rparr>"

definition kill_key :: key_event where
  "kill_key = \<lparr>ke_key = ''k'', ke_ctrl = True, ke_text_focused = False, ke_text_selected = False\<rparr>"

definition may_delete :: action_permissions where
  "may_delete = \<lparr>ap_apply = False, ap_actions = [(''delete'', True)]\<rparr>"

definition killed_ui :: ui where
  "killed_ui = confirm_delete False None (permissions_arrive 0 [may_delete] (press kill_key pod_ui))"

lemma pod_targets: "targets_of pod_table = [row_target ''/v1/Pod'' one_pod]"
  by (simp add: targets_of_def action_uids_def bulk_targets_def pod_table_def one_pod_def)

lemma kill_pressed: "press kill_key pod_ui = ask_permission True pod_table pod_ui"
  by (simp add: press_def bound_key_def kill_key_def pod_ui_def typing_def active_layer_def any_open_def no_overlays_def
      digit_key_def is_ascii_digit_def code_def global_key_def table_key_def str_ascii_lower_def to_ascii_lower_def
      is_ascii_uppercase_def)

lemma may_delete_allows: "allows may_delete Delete"
  by (simp add: allows_def may_delete_def)

lemma killed_history: "ui_history killed_ui =
  [Pressed pod_table True, Reviewed [row_target ''/v1/Pod'' one_pod] [may_delete], Confirmed False None]
   @ Fired [row_target ''/v1/Pod'' one_pod] True None # []"
  unfolding killed_ui_def kill_pressed
  by (simp add: ask_permission_def pod_targets pod_ui_def permissions_arrive_def Let_def
      allows_all_iff may_delete_allows with_overlays_def with_table_def confirm_delete_def)

lemma killed_reached: "ui_step\<^sup>*\<^sup>* pod_ui killed_ui"
proof -
  have "ui_step pod_ui (press kill_key pod_ui)" by (rule ui_step.key)
  moreover have "ui_step (press kill_key pod_ui) (permissions_arrive 0 [may_delete] (press kill_key pod_ui))"
    unfolding kill_pressed by (rule ui_step.answer) (simp_all add: ask_permission_def pod_targets pod_ui_def)
  moreover have "ui_step (permissions_arrive 0 [may_delete] (press kill_key pod_ui)) killed_ui"
    unfolding killed_ui_def by (rule ui_step.confirm)
  ultimately show ?thesis by (meson r_into_rtranclp rtranclp_trans)
qed


end
