(* ===== verification/ListingProps.thy ===== *)
theory ListingProps
  imports Listing "HOL-Library.Product_Lexorder" "HOL-Library.Multiset"
begin

text \<open>
  The order of a list is an order: the natural comparison of names compares their keys, so a list is shown in one
  order however its rows arrived; a column that mixes numbers with other texts has no order.  The cursor stays on
  the list, and an action hits what was selected.
\<close>

section \<open>Comparisons by a key\<close>

lemma cmp_ord_iff:
  "cmp_ord a b = Less \<longleftrightarrow> a < b" "cmp_ord a b = Equal \<longleftrightarrow> a = b" "cmp_ord a b = Greater \<longleftrightarrow> b < a"
  by (auto simp: cmp_ord_def)

lemma cmp_ord_same [simp]: "cmp_ord a a = Equal"
  by (simp add: cmp_ord_def)

lemma cmp_ord_Nil [simp]: "cmp_ord [] [] = Equal" "cmp_ord [] (y # ys) = Less" "cmp_ord (x # xs) [] = Greater"
  by (simp_all add: cmp_ord_def)

lemma cmp_ord_Cons [simp]: "cmp_ord (x # xs) (y # ys) = then_with (cmp_ord x y) (cmp_ord xs ys)"
  by (auto simp: cmp_ord_def then_with_def)

lemma cmp_ord_pair [simp]: "cmp_ord (a, b) (c, d) = then_with (cmp_ord a c) (cmp_ord b d)"
  by (auto simp: cmp_ord_def then_with_def)

lemma then_with_simps [simp]:
  "then_with Equal y = y" "then_with Less y = Less" "then_with Greater y = Greater"
  "then_with (then_with x y) z = then_with x (then_with y z)" "then_with x Equal = x"
  by (simp_all add: then_with_def split: ordering.split)

function nat_key :: "string \<Rightarrow> (nat \<times> nat \<times> string) list" where
  "nat_key s =
     (if s = [] then []
      else if starts_with_digit s then (1, run_value s, []) # nat_key (drop (digit_run s) s)
      else (if code (hd s) < 48 then 0 else 2, 0, first_char s) # nat_key (drop (length (first_char s)) s))"
  by pat_completeness auto
termination
  by (relation "measure length") (auto simp: digit_run_bounds intro!: diff_less)

declare nat_key.simps [simp del]

lemma first_char_Cons: "s \<noteq> [] \<Longrightarrow> \<exists>t. first_char s = hd s # t"
  by (cases s) (auto simp: first_char_def)

lemma char_less: "c < d \<longleftrightarrow> code c < code d"
  by (simp add: less_char_def code_def)

lemma code_inject: "code c = code d \<longleftrightarrow> c = d"
  by (simp add: code_def)

lemma starts_with_digit_hd: "s \<noteq> [] \<Longrightarrow> starts_with_digit s \<longleftrightarrow> 48 \<le> code (hd s) \<and> code (hd s) \<le> 57"
  by (simp add: starts_with_digit_def is_ascii_digit_def)

definition head_key :: "string \<Rightarrow> nat \<times> nat \<times> string" where
  "head_key s = (if starts_with_digit s then (1, run_value s, [])
     else (if code (hd s) < 48 then 0 else 2, 0, first_char s))"

definition tail_of :: "string \<Rightarrow> string" where
  "tail_of s = drop (if starts_with_digit s then digit_run s else length (first_char s)) s"

lemma nat_key_Nil [simp]: "nat_key [] = []"
  by (subst nat_key.simps) simp

lemma nat_key_step: "s \<noteq> [] \<Longrightarrow> nat_key s = head_key s # nat_key (tail_of s)"
  by (subst nat_key.simps) (simp add: head_key_def tail_of_def)

lemma cmp_char: "cmp_ord c d = cmp_ord (code c) (code d)"
  by (simp add: cmp_ord_def char_less code_inject)

lemma char_cmp_by_key:
  assumes "a \<noteq> []" and "b \<noteq> []" and "\<not> (starts_with_digit a \<and> starts_with_digit b)"
  shows "cmp_ord (first_char a) (first_char b) = cmp_ord (head_key a) (head_key b)"
proof -
  obtain s t where st: "first_char a = hd a # s" "first_char b = hd b # t"
    using first_char_Cons assms(1,2) by metis
  note digit = starts_with_digit_hd[OF assms(1)] starts_with_digit_hd[OF assms(2)]
  consider "starts_with_digit a" "\<not> starts_with_digit b" | "\<not> starts_with_digit a" "starts_with_digit b"
    | "\<not> starts_with_digit a" "\<not> starts_with_digit b"
    using assms(3) by blast
  then show ?thesis
  proof cases
    case 1
    with digit show ?thesis by (auto simp: st head_key_def cmp_char) (auto simp: cmp_ord_def)
  next
    case 2
    with digit show ?thesis by (auto simp: st head_key_def cmp_char) (auto simp: cmp_ord_def)
  next
    case 3
    with digit have "cmp_ord (code (hd a)) (code (hd b)) =
        then_with (cmp_ord (if code (hd a) < 48 then 0 else 2 :: nat) (if code (hd b) < 48 then 0 else 2))
          (cmp_ord (code (hd a)) (code (hd b)))"
      by (auto simp: cmp_ord_def)
    note split = this
    have "cmp_ord (first_char a) (first_char b) = then_with (cmp_ord (code (hd a)) (code (hd b))) (cmp_ord s t)"
      by (simp add: st cmp_char)
    moreover have "cmp_ord (head_key a) (head_key b) =
        then_with (cmp_ord (if code (hd a) < 48 then 0 else 2 :: nat) (if code (hd b) < 48 then 0 else 2))
          (then_with (cmp_ord (code (hd a)) (code (hd b))) (cmp_ord s t))"
      using 3 by (simp only: head_key_def if_False cmp_ord_pair cmp_ord_same then_with_simps(1) st cmp_ord_Cons cmp_char)
    ultimately show ?thesis
      by (subst (asm) split) (simp only: then_with_simps(4))
  qed
qed

lemma char_cmp_Equal:
  assumes "a \<noteq> []" and "b \<noteq> []" and "\<not> (starts_with_digit a \<and> starts_with_digit b)"
    and "cmp_ord (first_char a) (first_char b) = Equal"
  shows "\<not> starts_with_digit a" "\<not> starts_with_digit b"
proof -
  have "hd a = hd b"
    using assms(4) first_char_Cons[OF assms(1)] first_char_Cons[OF assms(2)] by (auto simp: cmp_ord_iff)
  with assms(1-3) show "\<not> starts_with_digit a" "\<not> starts_with_digit b"
    by (auto simp: starts_with_digit_def)
qed

lemma nat_cmp_step:
  assumes "a \<noteq> []" and "b \<noteq> []"
  shows "nat_cmp a b = then_with (cmp_ord (head_key a) (head_key b)) (nat_cmp (tail_of a) (tail_of b))"
proof (cases "starts_with_digit a \<and> starts_with_digit b")
  case True
  with assms show ?thesis
    by (subst nat_cmp.simps) (simp add: head_key_def tail_of_def then_with_def split: ordering.split)
next
  case False
  with assms have "nat_cmp a b = then_with (cmp_ord (first_char a) (first_char b))
      (nat_cmp (drop (length (first_char a)) a) (drop (length (first_char b)) b))"
    by (subst nat_cmp.simps) (auto simp: then_with_def split: ordering.split)
  with char_cmp_by_key[OF assms False] char_cmp_Equal[OF assms False] show ?thesis
    by (cases "cmp_ord (first_char a) (first_char b)") (simp_all add: tail_of_def)
qed

lemma tail_shorter: "s \<noteq> [] \<Longrightarrow> length (tail_of s) < length s"
  using digit_run_bounds(2)[of s] by (auto simp: tail_of_def intro!: diff_less)

lemma nat_cmp_by_key: "nat_cmp a b = cmp_ord (nat_key a) (nat_key b)"
proof (induction "length a" arbitrary: a b rule: less_induct)
  case less
  show ?case
  proof (cases "a = [] \<or> b = []")
    case True
    then show ?thesis by (subst nat_cmp.simps) (auto simp: nat_key_step)
  next
    case False
    with less[OF tail_shorter] show ?thesis by (simp add: nat_cmp_step nat_key_step)
  qed
qed

text \<open>So names are totally preordered, however long their numbers; runs beyond 64 bits count as zero.\<close>

lemma nat_cmp_order:
  "nat_cmp a a = Equal" "nat_cmp b a = reverse_ord (nat_cmp a b)"
  "nat_cmp a b \<noteq> Greater \<Longrightarrow> nat_cmp b c \<noteq> Greater \<Longrightarrow> nat_cmp a c \<noteq> Greater"
  unfolding nat_cmp_by_key by (auto simp: cmp_ord_iff cmp_ord_def reverse_ord_def split: if_splits)

section \<open>Sorting\<close>

lemma insert_by_key:
  "\<forall>y\<in>set ys. c x y = cmp_ord (f x) (f y) \<Longrightarrow> insert_by c x ys = insort_key f x ys"
  by (induction ys) (auto simp: cmp_ord_iff)

lemma set_insert_by [simp]: "set (insert_by c x ys) = insert x (set ys)"
  by (induction ys) auto

lemma mset_insert_by [simp]: "mset (insert_by c x ys) = add_mset x (mset ys)"
  by (induction ys) auto

lemma mset_sort_by [simp]: "mset (sort_by c xs) = mset xs"
  by (induction xs) (simp_all add: sort_by_def)

lemma set_sort_by [simp]: "set (sort_by c xs) = set xs"
  using mset_sort_by mset_eq_setD by metis

lemma sort_by_Cons: "sort_by c (x # xs) = insert_by c x (sort_by c xs)"
  by (simp add: sort_by_def)

lemma sort_by_key:
  "\<forall>x\<in>set xs. \<forall>y\<in>set xs. c x y = cmp_ord (f x) (f y) \<Longrightarrow> sort_by c xs = sort_key f xs"
proof (induction xs)
  case (Cons x xs)
  then have "insert_by c x (sort_by c xs) = insort_key f x (sort_by c xs)"
    by (intro insert_by_key) (metis list.set_intros set_sort_by)
  with Cons show ?case by (simp add: sort_by_Cons sort_key_simps(2))
qed (simp add: sort_by_def)

lemma insert_by_down:
  assumes "\<forall>y\<in>set ys. c x y = reverse_ord (cmp_ord (f x) (f y))" and "sorted_wrt (\<lambda>a b. f b \<le> f a) ys"
  shows "sorted_wrt (\<lambda>a b. f b \<le> f a) (insert_by c x ys)"
  using assms by (induction ys) (fastforce simp: reverse_ord_def cmp_ord_def split: if_splits)+

lemma sort_by_down:
  "\<forall>x\<in>set xs. \<forall>y\<in>set xs. c x y = reverse_ord (cmp_ord (f x) (f y)) \<Longrightarrow> sorted_wrt (\<lambda>a b. f b \<le> f a) (sort_by c xs)"
proof (induction xs)
  case (Cons x xs)
  then show ?case unfolding sort_by_Cons by (intro insert_by_down) (auto simp: sort_by_Cons)
qed (simp add: sort_by_def)

lemma sort_key_unique:
  assumes "mset ys = mset xs" and "inj_on f (set xs)" and "sorted (map f ys)"
  shows "sort_key f xs = ys"
proof -
  have "sort (map f xs) = map f ys"
    using assms(1,3) by (intro properties_for_sort) simp_all
  moreover have "sort (map f xs) = map f (sort_key f xs)"
    by (intro properties_for_sort) simp_all
  ultimately have "map f (sort_key f xs) = map f ys" by simp
  moreover have "set ys = set xs" using assms(1) mset_eq_setD by blast
  ultimately show ?thesis using assms(2) by (simp add: inj_on_map_eq_map)
qed

lemma sort_key_permuted:
  assumes "mset ys = mset xs" and "inj_on f (set xs)"
  shows "sort_key f ys = sort_key f xs"
  using sort_key_unique[of "sort_key f ys" xs f] assms by simp

lemma sort_key_strict:
  assumes "distinct xs" and "inj_on f (set xs)"
  shows "sorted_wrt (\<lambda>a b. f a < f b) (sort_key f xs)"
proof -
  have "distinct (map f (sort_key f xs))" using assms by (simp add: distinct_map)
  then have "sorted_wrt (<) (map f (sort_key f xs))" by (simp add: strict_sorted_iff)
  then show ?thesis by (simp add: sorted_wrt_map)
qed

lemma sort_by_reversed:
  assumes c: "\<forall>x\<in>set xs. \<forall>y\<in>set xs. c x y = cmp_ord (f x) (f y)" and inj: "inj_on f (set xs)"
  shows "sort_by (\<lambda>a b. reverse_ord (c a b)) xs = rev (sort_by c xs)"
proof -
  let ?down = "sort_by (\<lambda>a b. reverse_ord (c a b)) xs"
  have "sorted_wrt (\<lambda>a b. f b \<le> f a) ?down" using c by (intro sort_by_down) simp
  then have "sorted (map f (rev ?down))" by (simp add: sorted_wrt_map sorted_wrt_rev)
  moreover have "mset (rev ?down) = mset xs" "inj_on f (set (rev ?down))" using inj by simp_all
  ultimately have "sort_key f xs = rev ?down"
    using inj by (intro sort_key_unique) simp_all
  with sort_by_key[OF c] show ?thesis by (metis rev_rev_ident)
qed

section \<open>One order of the rows\<close>

definition cell_text :: "nat \<Rightarrow> resource_row \<Rightarrow> string" where
  "cell_text i r = primary_value (unwrap_or [] (get_cell i r))"

text \<open>A column has an order when none of its texts is a number, or all are, and the numbers compare like integers
  do: finite doubles do, a NaN does not.\<close>

definition ranked_column :: "f64_ops \<Rightarrow> (f64 \<Rightarrow> int) \<Rightarrow> nat \<Rightarrow> resource_row list \<Rightarrow> bool" where
  "ranked_column fo rank i rows \<longleftrightarrow> (\<forall>r\<in>set rows. \<exists>x. fo_parse fo (cell_text i r) = Some x)
     \<and> (\<forall>r\<in>set rows. \<forall>r'\<in>set rows. \<forall>x y. fo_parse fo (cell_text i r) = Some x \<longrightarrow> fo_parse fo (cell_text i r') = Some y
         \<longrightarrow> (fo_less fo x y \<longleftrightarrow> rank x < rank y))"

definition orderly :: "f64_ops \<Rightarrow> sort_key \<Rightarrow> resource_row list \<Rightarrow> bool" where
  "orderly fo k rows \<longleftrightarrow> (case k of
     SortCell i \<Rightarrow> (\<forall>r\<in>set rows. fo_parse fo (cell_text i r) = None) \<or> (\<exists>rank. ranked_column fo rank i rows)
   | _ \<Rightarrow> True)"

type_synonym row_key = "(nat \<times> nat \<times> string) list \<times> string option \<times> int \<times> string \<times> (nat \<times> nat \<times> string) list \<times> string"

definition row_key :: "(resource_row \<Rightarrow> int \<times> string) \<Rightarrow> sort_key \<Rightarrow> resource_row \<Rightarrow> row_key" where
  "row_key cell k r =
     ((case k of SortNamespace \<Rightarrow> nat_key (unwrap_or [] (rr_namespace r)) | _ \<Rightarrow> []),
      (case k of SortAge \<Rightarrow> rr_created r | _ \<Rightarrow> None),
      (case k of SortCell i \<Rightarrow> fst (cell r) | _ \<Rightarrow> 0), (case k of SortCell i \<Rightarrow> snd (cell r) | _ \<Rightarrow> []),
      nat_key (rr_name r), rr_uid r)"

lemma cmp_cell_texts:
  "cmp_cell fo (get_cell i a) (get_cell i b) =
     (case (fo_parse fo (cell_text i a), fo_parse fo (cell_text i b)) of
        (Some x, Some y) \<Rightarrow> cmp_f64 fo x y | _ \<Rightarrow> cmp_ord (cell_text i a) (cell_text i b))"
  unfolding cmp_cell_def cmp_str_def cell_text_def Let_def by simp

lemma cells_by_key:
  assumes "orderly fo (SortCell i) rows"
  shows "\<exists>cell :: resource_row \<Rightarrow> int \<times> string. \<forall>a\<in>set rows. \<forall>b\<in>set rows.
     cmp_cell fo (get_cell i a) (get_cell i b) = cmp_ord (cell a) (cell b)"
proof (cases "\<forall>r\<in>set rows. fo_parse fo (cell_text i r) = None")
  case True
  then have "\<forall>a\<in>set rows. \<forall>b\<in>set rows.
      cmp_cell fo (get_cell i a) (get_cell i b) = cmp_ord (0 :: int, cell_text i a) (0, cell_text i b)"
    by (simp add: cmp_cell_texts)
  then show ?thesis by (intro exI[of _ "\<lambda>r. (0, cell_text i r)"])
next
  case False
  with assms obtain rank where "ranked_column fo rank i rows" by (auto simp: orderly_def)
  note ranked = this[unfolded ranked_column_def]
  have "cmp_cell fo (get_cell i a) (get_cell i b)
      = cmp_ord (rank (the (fo_parse fo (cell_text i a))), []) (rank (the (fo_parse fo (cell_text i b))), [])"
    if "a \<in> set rows" "b \<in> set rows" for a b
  proof -
    from ranked that obtain x y where "fo_parse fo (cell_text i a) = Some x" "fo_parse fo (cell_text i b) = Some y"
      by blast
    with ranked that have "fo_less fo x y \<longleftrightarrow> rank x < rank y" "fo_less fo y x \<longleftrightarrow> rank y < rank x"
      by blast+
    with \<open>_ = Some x\<close> \<open>_ = Some y\<close> show ?thesis
      by (simp add: cmp_cell_texts cmp_f64_def cmp_ord_def)
  qed
  then show ?thesis by (intro exI[of _ "\<lambda>r. (rank (the (fo_parse fo (cell_text i r))), [])"]) blast
qed

lemma rows_by_key:
  assumes "orderly fo k rows"
  shows "\<exists>f :: resource_row \<Rightarrow> row_key. (\<forall>a\<in>set rows. \<forall>b\<in>set rows. compare_rows fo k a b = cmp_ord (f a) (f b))
     \<and> (\<forall>a b. f a = f b \<longrightarrow> rr_uid a = rr_uid b)"
proof -
  obtain cell :: "resource_row \<Rightarrow> int \<times> string" where cell: "\<And>i. k = SortCell i \<Longrightarrow>
      \<forall>a\<in>set rows. \<forall>b\<in>set rows. cmp_cell fo (get_cell i a) (get_cell i b) = cmp_ord (cell a) (cell b)"
  proof (cases k)
    case (SortCell i)
    with assms cells_by_key that show ?thesis by blast
  qed auto
  have "compare_rows fo k a b = cmp_ord (row_key cell k a) (row_key cell k b)" if "a \<in> set rows" "b \<in> set rows" for a b
  proof (cases k)
    case (SortCell i)
    with cell that have "cmp_cell fo (get_cell i a) (get_cell i b)
        = then_with (cmp_ord (fst (cell a)) (fst (cell b))) (cmp_ord (snd (cell a)) (snd (cell b)))"
      by (metis cmp_ord_pair prod.collapse)
    with SortCell show ?thesis by (simp add: compare_rows_def row_key_def nat_cmp_by_key)
  qed (simp_all add: compare_rows_def row_key_def nat_cmp_by_key)
  moreover have "\<forall>a b. row_key cell k a = row_key cell k b \<longrightarrow> rr_uid a = rr_uid b"
    by (simp add: row_key_def)
  ultimately show ?thesis by blast
qed

text \<open>Rows compared by a key that tells their uids apart are shown in the order of the key, or in its reverse.\<close>

lemma shown_by_key:
  fixes key :: "resource_row \<Rightarrow> row_key"
  assumes key: "\<forall>a\<in>set rows. \<forall>b\<in>set rows. compare_rows fo k a b = cmp_ord (key a) (key b)"
    and inj: "inj_on key (set rows)"
  shows "shown_uids fo lower rows k asc f =
    map rr_uid (if asc then sort_key key (filter (passes lower f) rows) else rev (sort_key key (filter (passes lower f) rows)))"
proof -
  let ?rows = "filter (passes lower f) rows"
  have "sort_by (compare_rows fo k) ?rows = sort_key key ?rows"
    using key by (intro sort_by_key) simp
  moreover have "sort_by (\<lambda>a b. reverse_ord (compare_rows fo k a b)) ?rows = rev (sort_by (compare_rows fo k) ?rows)"
  proof (rule sort_by_reversed[of _ _ key])
    show "\<forall>x\<in>set ?rows. \<forall>y\<in>set ?rows. compare_rows fo k x y = cmp_ord (key x) (key y)" using key by simp
    show "inj_on key (set ?rows)" using inj by (rule inj_on_subset) auto
  qed
  ultimately show ?thesis by (simp add: shown_uids_def directed_def)
qed

lemma shown_strictly:
  fixes key :: "resource_row \<Rightarrow> row_key"
  assumes key: "\<forall>a\<in>set rows. \<forall>b\<in>set rows. compare_rows fo k a b = cmp_ord (key a) (key b)"
    and rs: "sorted_wrt (\<lambda>a b. key a < key b) rs" "set rs \<subseteq> set rows"
  shows "sorted_wrt (\<lambda>a b. directed asc (compare_rows fo k a b) = Less) (if asc then rs else rev rs)"
proof -
  have "sorted_wrt (\<lambda>a b. compare_rows fo k a b = Less) rs" "sorted_wrt (\<lambda>a b. compare_rows fo k b a = Greater) rs"
    using key rs(2) by (auto simp: cmp_ord_iff subset_iff intro!: sorted_wrt_mono_rel[OF _ rs(1)])
  moreover have "reverse_ord x = Less \<longleftrightarrow> x = Greater" for x by (cases x) (simp_all add: reverse_ord_def)
  ultimately show ?thesis by (simp add: directed_def sorted_wrt_rev)
qed


text \<open>Numbers compare with numbers and texts with texts, so a column that has both runs in circles.\<close>

lemma mixed_column_runs_in_circles:
  assumes "fo_parse fo ''9'' = Some x" and "fo_parse fo ''10'' = Some y" and "fo_less fo x y" and "fo_parse fo ''1a'' = None"
  shows "cmp_cell fo (Some ''9'') (Some ''10'') = Less" "cmp_cell fo (Some ''10'') (Some ''1a'') = Less"
    "cmp_cell fo (Some ''1a'') (Some ''9'') = Less"
proof -
  have "primary_value ''9'' = ''9''" "primary_value ''10'' = ''10''" "primary_value ''1a'' = ''1a''"
    by (simp_all add: primary_value_def unit_separator_def)
  with assms show "cmp_cell fo (Some ''9'') (Some ''10'') = Less" "cmp_cell fo (Some ''10'') (Some ''1a'') = Less"
    "cmp_cell fo (Some ''1a'') (Some ''9'') = Less"
    by (simp_all add: cmp_cell_def cmp_str_def cmp_f64_def unwrap_or_def cmp_ord_def char_less code_def)
qed

section \<open>The cursor\<close>

text \<open>A motion lands on a row that is shown, as far from the row it left as asked or at the end of the list.\<close>

lemma cursor_stays_on_the_list:
  assumes "i < length shown" and "distinct shown"
  shows "move_cursor shown (Some (shown ! i)) delta
    = Some (shown ! nat (max 0 (min (int (length shown) - 1) (int i + delta))))"
proof -
  have "position (\<lambda>u. u = shown ! i) shown = Some i"
    using assms
  proof (induction shown arbitrary: i)
    case (Cons x xs)
    then show ?case by (cases i) auto
  qed simp
  with assms(1) show ?thesis by (auto simp: move_cursor_def Let_def clamp_def)
qed

lemma cursor_enters_at_the_end:
  assumes "shown \<noteq> []" and "u \<notin> set shown"
  shows "move_cursor shown (Some u) 1 = Some (hd shown)" "move_cursor shown (Some u) (- 1) = Some (last shown)"
    "move_cursor [] c delta = None"
proof -
  have "position (\<lambda>x. x = u) shown = None"
    using assms(2) by (induction shown) auto
  moreover have "nat (int (length shown) - 1) = length shown - Suc 0" by simp
  ultimately show "move_cursor shown (Some u) 1 = Some (hd shown)" "move_cursor shown (Some u) (- 1) = Some (last shown)"
    using assms(1) by (auto simp: move_cursor_def Let_def clamp_def hd_conv_nth last_conv_nth)
qed (simp add: move_cursor_def)

section \<open>Columns and targets\<close>

definition slots_ok :: "string list \<Rightarrow> nat list \<Rightarrow> bool" where
  "slots_ok columns idx \<longleftrightarrow> length idx \<le> 2 \<and> distinct idx
     \<and> (\<forall>i\<in>set idx. i < length columns \<and> \<not> is_identity (column_kind_of (columns ! i)))"

lemma fill_slot_ok: "slots_ok columns idx \<Longrightarrow> i < length columns \<Longrightarrow> slots_ok columns (fill_slot columns idx i)"
  by (simp add: slots_ok_def fill_slot_def)

lemma fill_slots_ok:
  "slots_ok columns idx \<Longrightarrow> \<forall>i\<in>set is. i < length columns \<Longrightarrow> slots_ok columns (foldl (fill_slot columns) idx is)"
  by (induction "is" arbitrary: idx) (simp_all add: fill_slot_ok)

lemma surfaced_ok: "slots_ok columns (surfaced_indices columns)"
  unfolding surfaced_indices_def
proof (rule fill_slots_ok)
  show "slots_ok columns (case position (\<lambda>c. is_state (column_kind_of c)) columns of Some i \<Rightarrow> [i] | None \<Rightarrow> [])"
    by (auto simp: slots_ok_def is_state_def is_identity_def split: option.split dest!: position_Some)
qed simp

text \<open>A card shows at most two columns, no column twice and none that the card shows anyway.\<close>

lemma card_shows_two_columns:
  "length (surfaced_cells columns cells) \<le> 2"
  "distinct (surfaced_indices columns)"
  "(c, v, kd) \<in> set (surfaced_cells columns cells) \<Longrightarrow> c \<in> set columns \<and> kd = column_kind_of c \<and> \<not> is_identity kd"
  using surfaced_ok[of columns] by (auto simp: surfaced_cells_def slots_ok_def)

text \<open>Bulk targets are the selected rows.\<close>

lemma bulk_targets_selected:
  "t \<in> set (bulk_targets key rows uids) \<longleftrightarrow> (\<exists>(u, r)\<in>set rows. rr_uid r \<in> uids \<and> t = row_target key r)"
  by (force simp: bulk_targets_def)

section \<open>Witness\<close>

definition plain_row :: "string \<Rightarrow> string \<Rightarrow> resource_row" where
  "plain_row uid name = \<lparr>rr_uid = uid, rr_namespace = None, rr_name = name, rr_created = None, rr_cells = [],
     rr_trends = [], rr_status = RowOk, rr_suspended = False, rr_labels = []\<rparr>"

definition no_filter :: list_filter where
  "no_filter = \<lparr>lf_only_problems = False, lf_status = None, lf_text_lower = []\<rparr>"

lemma osd_order: "nat_cmp ''osd-2'' ''osd-10'' = Less" "nat_cmp ''osd-10'' ''osd-2'' = Greater"
  by (simp_all add: nat_cmp.simps starts_with_digit_def is_ascii_digit_def code_def first_char_def is_continuation_def
      digit_run_def unwrap_or_def run_value_def parse_u64_def parse_unsigned_def digits_value_def cmp_ord_def)


end
