(* ===== verification/Menu.thy ===== *)
theory Menu
  imports Listing
begin

text \<open>
  The actions a selection is offered, \<open>src/app/resource_actions.rs\<close>: the menu of the desktop and of the mobile view
  is one list, filtered by what the kinds of all targets support, by their state and by what the user may do.
\<close>

section \<open>Vocabulary\<close>

definition available_actions :: "detail_target list \<Rightarrow> resource_action list" where
  "available_actions targets =
     filter (\<lambda>a. targets \<noteq> [] \<and> list_all (\<lambda>t. key_supports (dt_key t) a) targets) all_actions"

datatype action_surface = DesktopSurface | MobileSurface

datatype menu_action =
    OpenDetails | Relationships | MenuLogs | MenuShell | BrowseFiles | MenuDebugShell | MenuNodeShell | GoToNamespace
  | GoToNode | CopyNames | MenuRestart | MenuScale | MenuFluxReconcile | MenuFluxReconcileWithSource | MenuFluxForce
  | MenuFluxReset | MenuFluxSuspend | MenuFluxResume | MenuExternalSecretsRefresh | MenuCertificateRenew
  | MenuCronJobTrigger | MenuJobRerun | MenuKopiurSnapshotNow | MenuCnpgBackup | MenuCnpgSuspend | MenuCnpgResume
  | MenuCordon | MenuUncordon | MenuDrain | MenuTalosEtcdDefrag | MenuTalosReboot | MenuTalosShutdown | MenuEvict
  | MenuDelete

definition all_menu_actions :: "menu_action list" where
  "all_menu_actions =
     [OpenDetails, Relationships, MenuLogs, MenuShell, BrowseFiles, MenuDebugShell, MenuNodeShell, GoToNamespace,
      GoToNode, CopyNames, MenuRestart, MenuScale, MenuFluxReconcile, MenuFluxReconcileWithSource, MenuFluxForce,
      MenuFluxReset, MenuFluxSuspend, MenuFluxResume, MenuExternalSecretsRefresh, MenuCertificateRenew,
      MenuCronJobTrigger, MenuJobRerun, MenuKopiurSnapshotNow, MenuCnpgBackup, MenuCnpgSuspend, MenuCnpgResume,
      MenuCordon, MenuUncordon, MenuDrain, MenuTalosEtcdDefrag, MenuTalosReboot, MenuTalosShutdown, MenuEvict,
      MenuDelete]"

definition supported_on :: "menu_action \<Rightarrow> action_surface \<Rightarrow> bool" where
  "supported_on m surface = (case surface of
     DesktopSurface \<Rightarrow> True
   | MobileSurface \<Rightarrow> m \<notin> {MenuDebugShell, MenuNodeShell, MenuCordon, MenuUncordon, MenuDrain, MenuTalosEtcdDefrag,
       MenuTalosReboot, MenuTalosShutdown, MenuEvict})"

section \<open>The model of a selection\<close>

text \<open>What all the rows of the targets that are there have in common.\<close>

definition common_state ::
  "(string, resource_row) hmap option \<Rightarrow> string list \<Rightarrow> (resource_row \<Rightarrow> bool) \<Rightarrow> bool option" where
  "common_state rows uids read = (case rows of
     None \<Rightarrow> None
   | Some m \<Rightarrow> (case map read (List.map_filter (hm_get m) uids) of
       [] \<Rightarrow> None
     | st # states \<Rightarrow> if list_all (\<lambda>x. x = st) states then Some st else None))"

definition job_row_done :: "resource_row \<Rightarrow> bool" where
  "job_row_done r \<longleftrightarrow> rr_status r = RowOk \<or> rr_status r = RowError"

definition all_rows_done :: "(string, resource_row) hmap option \<Rightarrow> string list \<Rightarrow> bool" where
  "all_rows_done rows uids = (case rows of
     None \<Rightarrow> False
   | Some m \<Rightarrow> list_all (\<lambda>uid. case hm_get m uid of None \<Rightarrow> False | Some r \<Rightarrow> job_row_done r) uids)"

definition first_is_control_plane :: "(string, resource_row) hmap option \<Rightarrow> string list \<Rightarrow> bool" where
  "first_is_control_plane rows uids = (case rows of
     None \<Rightarrow> False
   | Some m \<Rightarrow> (case uids of [] \<Rightarrow> False
       | uid # _ \<Rightarrow> (case hm_get m uid of None \<Rightarrow> False | Some r \<Rightarrow> node_is_control_plane r)))"

record selection =
  se_targets :: "detail_target list"
  se_uids :: "string list"
  se_rows :: "(string, resource_row) hmap option"
  se_node :: "string option"
  se_talos_actions :: bool

definition eligible :: "(resource_action \<Rightarrow> bool) \<Rightarrow> selection \<Rightarrow> menu_action \<Rightarrow> bool" where
  "eligible permitted sel m =
     (let targets = se_targets sel;
          available = (\<lambda>a. a \<in> set (available_actions targets));
          is_bulk = 1 < length targets;
          is_pod = available Exec;
          is_node = available Cordon;
          suspended = common_state (se_rows sel) (se_uids sel) rr_suspended;
          cordoned = common_state (se_rows sel) (se_uids sel) (\<lambda>r. rr_status r = RowWarn);
          jobs_terminal = (available JobRerun \<and> all_rows_done (se_rows sel) (se_uids sel));
          control_plane = first_is_control_plane (se_rows sel) (se_uids sel);
          both = (\<lambda>a. available a \<and> permitted a)
      in case m of
           OpenDetails \<Rightarrow> \<not> is_bulk
         | Relationships \<Rightarrow> \<not> is_bulk
         | MenuLogs \<Rightarrow> both Logs
         | MenuShell \<Rightarrow> \<not> is_bulk \<and> is_pod \<and> permitted Exec
         | BrowseFiles \<Rightarrow> \<not> is_bulk \<and> is_pod \<and> permitted Exec
         | MenuDebugShell \<Rightarrow> \<not> is_bulk \<and> is_pod \<and> permitted DebugExec
         | MenuNodeShell \<Rightarrow> \<not> is_bulk \<and> is_node \<and> permitted NodeShell
         | GoToNamespace \<Rightarrow> \<not> is_bulk \<and> (case targets of [] \<Rightarrow> False | t # _ \<Rightarrow> dt_namespace t \<noteq> None)
         | GoToNode \<Rightarrow> \<not> is_bulk \<and> is_pod \<and> se_node sel \<noteq> None
         | CopyNames \<Rightarrow> True
         | MenuRestart \<Rightarrow> both Restart
         | MenuScale \<Rightarrow> \<not> is_bulk \<and> both Scale
         | MenuFluxReconcile \<Rightarrow> both FluxReconcile
         | MenuFluxReconcileWithSource \<Rightarrow> both FluxReconcileWithSource
         | MenuFluxForce \<Rightarrow> both FluxForce
         | MenuFluxReset \<Rightarrow> both FluxReset
         | MenuFluxSuspend \<Rightarrow> available FluxSuspend \<and> suspended \<noteq> Some True \<and> permitted FluxSuspend
         | MenuFluxResume \<Rightarrow> available FluxSuspend \<and> suspended \<noteq> Some False \<and> permitted FluxSuspend
         | MenuExternalSecretsRefresh \<Rightarrow> both ExternalSecretsRefresh
         | MenuCertificateRenew \<Rightarrow> both CertificateRenew
         | MenuCronJobTrigger \<Rightarrow> both CronJobTrigger
         | MenuJobRerun \<Rightarrow> jobs_terminal \<and> permitted JobRerun
         | MenuKopiurSnapshotNow \<Rightarrow> both KopiurSnapshotNow
         | MenuCnpgBackup \<Rightarrow> both CnpgBackup
         | MenuCnpgSuspend \<Rightarrow> available CnpgSuspend \<and> suspended \<noteq> Some True \<and> permitted CnpgSuspend
         | MenuCnpgResume \<Rightarrow> available CnpgSuspend \<and> suspended \<noteq> Some False \<and> permitted CnpgSuspend
         | MenuCordon \<Rightarrow> is_node \<and> cordoned \<noteq> Some True \<and> permitted Cordon
         | MenuUncordon \<Rightarrow> is_node \<and> cordoned \<noteq> Some False \<and> permitted Cordon
         | MenuDrain \<Rightarrow> \<not> is_bulk \<and> is_node \<and> permitted Drain
         | MenuTalosEtcdDefrag \<Rightarrow> \<not> is_bulk \<and> is_node \<and> se_talos_actions sel \<and> control_plane
         | MenuTalosReboot \<Rightarrow> \<not> is_bulk \<and> is_node \<and> se_talos_actions sel
         | MenuTalosShutdown \<Rightarrow> \<not> is_bulk \<and> is_node \<and> se_talos_actions sel
         | MenuEvict \<Rightarrow> is_pod \<and> permitted Evict
         | MenuDelete \<Rightarrow> permitted Delete)"

definition for_selection :: "action_surface \<Rightarrow> selection \<Rightarrow> (resource_action \<Rightarrow> bool) \<Rightarrow> menu_action list" where
  "for_selection surface sel permitted =
     filter (\<lambda>m. supported_on m surface \<and> eligible permitted sel m) all_menu_actions"

definition supports_any :: "menu_action list \<Rightarrow> menu_action list \<Rightarrow> bool" where
  "supports_any offered actions = list_ex (\<lambda>m. m \<in> set offered) actions"

section \<open>What is offered\<close>

text \<open>The action an entry of the menu needs, and the entries of a Talos node.\<close>

fun needs :: "menu_action \<Rightarrow> resource_action option" where
  "needs MenuLogs = Some Logs" | "needs MenuShell = Some Exec" | "needs BrowseFiles = Some Exec"
| "needs MenuDebugShell = Some DebugExec" | "needs MenuNodeShell = Some NodeShell" | "needs MenuRestart = Some Restart"
| "needs MenuScale = Some Scale" | "needs MenuFluxReconcile = Some FluxReconcile"
| "needs MenuFluxReconcileWithSource = Some FluxReconcileWithSource" | "needs MenuFluxForce = Some FluxForce"
| "needs MenuFluxReset = Some FluxReset" | "needs MenuFluxSuspend = Some FluxSuspend"
| "needs MenuFluxResume = Some FluxSuspend" | "needs MenuExternalSecretsRefresh = Some ExternalSecretsRefresh"
| "needs MenuCertificateRenew = Some CertificateRenew" | "needs MenuCronJobTrigger = Some CronJobTrigger"
| "needs MenuJobRerun = Some JobRerun" | "needs MenuKopiurSnapshotNow = Some KopiurSnapshotNow"
| "needs MenuCnpgBackup = Some CnpgBackup" | "needs MenuCnpgSuspend = Some CnpgSuspend"
| "needs MenuCnpgResume = Some CnpgSuspend" | "needs MenuCordon = Some Cordon" | "needs MenuUncordon = Some Cordon"
| "needs MenuDrain = Some Drain" | "needs MenuEvict = Some Evict" | "needs MenuDelete = Some Delete"
| "needs _ = None"

fun talos_entry :: "menu_action \<Rightarrow> bool" where
  "talos_entry MenuTalosEtcdDefrag = True" | "talos_entry MenuTalosReboot = True" | "talos_entry MenuTalosShutdown = True"
| "talos_entry _ = False"

text \<open>Pods and nodes are told by one action each, which brings the others with it.\<close>

definition target_offers :: "resource_action \<Rightarrow> detail_target \<Rightarrow> bool" where
  "target_offers a t \<longleftrightarrow> (case parse_key (dt_key t) of (g, v, k) \<Rightarrow> offers g k a)"

lemma key_supports_offers: "key_supports (dt_key t) a \<longleftrightarrow> target_offers a t"
  by (simp add: key_supports_def target_offers_def supports_for_gvk split: prod.split)

lemma available_iff: "a \<in> set (available_actions ts) \<longleftrightarrow> ts \<noteq> [] \<and> (\<forall>t\<in>set ts. target_offers a t)"
  by (auto simp: available_actions_def all_actions_complete list_all_iff key_supports_offers)

lemma pod_and_node_offers:
  "target_offers Exec t \<Longrightarrow> target_offers Evict t \<and> target_offers DebugExec t"
  "target_offers Cordon t \<Longrightarrow> target_offers Drain t \<and> target_offers NodeShell t"
  "target_offers Delete t"
  by (auto simp: target_offers_def split: prod.splits)

text \<open>C38: the menu offers what is allowed.  Every entry offered to a selection that needs an action
  needs one the user is permitted, and one that the kind of every target offers; the Talos entries are
  offered for one node, to those who may use them; and the remaining entries only look or copy.\<close>
theorem offered_entries_are_licensed:
  assumes "m \<in> set (for_selection surface sel permitted)"
  shows "(\<forall>a. needs m = Some a \<longrightarrow> permitted a \<and> (\<forall>t\<in>set (se_targets sel). target_offers a t))
    \<and> (talos_entry m \<longrightarrow> se_talos_actions sel \<and> (\<exists>t. se_targets sel = [t] \<and> target_offers Cordon t))
    \<and> (needs m = None \<and> \<not> talos_entry m \<longrightarrow> m \<in> {OpenDetails, Relationships, GoToNamespace, GoToNode, CopyNames})"
proof -
  have e: "eligible permitted sel m" using assms by (simp add: for_selection_def)
  have one: "ts \<noteq> [] \<and> \<not> 1 < length ts \<longleftrightarrow> (\<exists>t. ts = [t])" for ts :: "detail_target list"
    by (cases ts) auto
  show ?thesis
    using e one[of "se_targets sel"] pod_and_node_offers
    by (cases m) (auto simp: eligible_def Let_def available_iff)
qed

definition pod_selection :: selection where
  "pod_selection = \<lparr>se_targets = [\<lparr>dt_key = ''/v1/Pod'', dt_namespace = Some ''default'', dt_name = ''web''\<rparr>], se_uids = [''u''],
     se_rows = None, se_node = None, se_talos_actions = False\<rparr>"

lemma pod_key: "parse_key ''/v1/Pod'' = ([], ''v1'', ''Pod'')"
  by code_simp

lemma evict_offered: "MenuEvict \<in> set (for_selection DesktopSurface pod_selection (\<lambda>a. a = Evict))"
  by (simp add: for_selection_def all_menu_actions_def supported_on_def eligible_def available_iff pod_selection_def
      target_offers_def pod_key Let_def)

theorem offered_entries_are_licensed_witness:
  "MenuEvict \<in> set (for_selection DesktopSurface pod_selection (\<lambda>a. a = Evict))
   \<and> list_all (target_offers Evict) (se_targets pod_selection)"
  using evict_offered offered_entries_are_licensed[OF evict_offered] by (simp add: list_all_iff)

end
