(* ===== verification/Inspect.thy ===== *)
theory Inspect
  imports Overview Listing
begin

text \<open>
  What the detail views read of an object: \<open>src/app/util/json.rs\<close> (fields, conditions, owners, rules, data, images and
  environments), \<open>util/json_fields.rs\<close> (an object as rows and groups), the classes of \<open>util/format/mod.rs\<close> and the colours
  of \<open>util/color.rs\<close>.  A view is the tree of what it shows; base64, UTF-8 and the printing of JSON are parameters.
\<close>

section \<open>Fields as paths\<close>

record condition_view =
  cv_type :: string
  cv_status :: string
  cv_reason :: string
  cv_message :: string
  cv_last_transition :: "string option"
  cv_observed_generation :: "string option"

abbreviation text_of :: "json \<Rightarrow> string \<Rightarrow> string option" where
  "text_of v k \<equiv> Option.bind (jget v k) as_str"

definition condition_view_of :: "json \<Rightarrow> condition_view" where
  "condition_view_of c =
     \<lparr>cv_type = unwrap_or [] (text_of c ''type''), cv_status = unwrap_or [] (text_of c ''status''),
      cv_reason = unwrap_or [] (text_of c ''reason''), cv_message = unwrap_or [] (text_of c ''message''),
      cv_last_transition = text_of c ''lastTransitionTime'',
      cv_observed_generation = (case jget c ''observedGeneration'' of
        Some (JNumber n) \<Rightarrow> Some (show_number n) | Some (JString s) \<Rightarrow> Some s | _ \<Rightarrow> None)\<rparr>"

abbreviation elements :: "json option \<Rightarrow> json list" where
  "elements v \<equiv> unwrap_or [] (Option.bind v as_array)"

definition conditions_view :: "json \<Rightarrow> condition_view list" where
  "conditions_view v = map condition_view_of (elements (Option.bind (jget v ''status'') (\<lambda>s. jget s ''conditions'')))"

definition scalar_field :: "json \<Rightarrow> string" where
  "scalar_field v = (case v of
     JString s \<Rightarrow> if s = [] then ''(empty string)'' else s
   | JNumber n \<Rightarrow> show_number n
   | JBool b \<Rightarrow> show_bool b
   | _ \<Rightarrow> ''null'')"

function (sequential) flatten_value :: "json \<Rightarrow> string \<Rightarrow> (string \<times> string) list" where
  "flatten_value (JObject es) path =
     (if es = [] then [(path, ''(empty object)'')]
      else concat (map (\<lambda>(k, v). flatten_value v (if path = [] then k else path @ ''.'' @ k)) es))"
| "flatten_value (JArray vs) path =
     (if vs = [] then [(path, ''(empty list)'')]
      else concat (map (\<lambda>(i, v). flatten_value v (path @ ''['' @ show_nat i @ '']'')) (enumerate 0 vs)))"
| "flatten_value v path = [(path, scalar_field v)]"
  by pat_completeness auto
termination
  by (relation "measure (\<lambda>(v, path). size v)") (auto simp: size_entry size_element dest!: in_set_enumerateD)

definition flatten_fields :: "json \<Rightarrow> (string \<times> string) list" where
  "flatten_fields v = flatten_value v []"

definition flatten_fields_except :: "json \<Rightarrow> string list \<Rightarrow> (string \<times> string) list" where
  "flatten_fields_except v excluded = (case as_object v of
     Some es \<Rightarrow> concat (map (\<lambda>(k, v). flatten_value v k) (filter (\<lambda>(k, _). k \<notin> set excluded) es))
   | None \<Rightarrow> flatten_value v [])"

definition section_fields :: "json \<Rightarrow> string \<Rightarrow> (string \<times> string) list" where
  "section_fields v sec = (case jget v sec of None \<Rightarrow> [] | Some x \<Rightarrow> flatten_fields x)"

definition section_fields_except :: "json \<Rightarrow> string \<Rightarrow> string list \<Rightarrow> (string \<times> string) list" where
  "section_fields_except v sec excluded = (case jget v sec of None \<Rightarrow> [] | Some x \<Rightarrow> flatten_fields_except x excluded)"

definition top_level_fields_except :: "json \<Rightarrow> string list \<Rightarrow> (string \<times> string) list" where
  "top_level_fields_except v excluded = flatten_fields_except v excluded"

text \<open>A scalar that is worth a row of its own.\<close>

definition short_scalar :: "json \<Rightarrow> string option" where
  "short_scalar v = (case v of
     JString s \<Rightarrow> if s = [] then None else Some s
   | JNumber n \<Rightarrow> Some (show_number n)
   | JBool b \<Rightarrow> Some (show_bool b)
   | _ \<Rightarrow> None)"

definition section_scalars :: "json \<Rightarrow> string \<Rightarrow> (string \<times> string) list" where
  "section_scalars v sec = (case Option.bind (jget v sec) as_object of
     None \<Rightarrow> []
   | Some es \<Rightarrow> List.map_filter (\<lambda>(k, x). map_option (Pair k) (short_scalar x)) (filter (\<lambda>(k, _). k \<noteq> ''conditions'') es))"

definition status_scalars :: "json \<Rightarrow> (string \<times> string) list" where
  "status_scalars v = section_scalars v ''status''"

definition owner_refs :: "json \<Rightarrow> (string \<times> string) list" where
  "owner_refs v = List.map_filter
     (\<lambda>r. Option.bind (text_of r ''kind'') (\<lambda>k. map_option (Pair k) (text_of r ''name'')))
     (elements (Option.bind (jget v ''metadata'') (\<lambda>m. jget m ''ownerReferences'')))"

definition json_str :: "json \<Rightarrow> string list \<Rightarrow> string option" where
  "json_str v path = (case foldl (\<lambda>cur k. Option.bind cur (\<lambda>c. jget c k)) (Some v) path of
     Some (JString s) \<Rightarrow> Some s | Some (JNumber n) \<Rightarrow> Some (show_number n) | Some (JBool b) \<Rightarrow> Some (show_bool b) | _ \<Rightarrow> None)"

definition json_map :: "(json \<Rightarrow> string) \<Rightarrow> json \<Rightarrow> string list \<Rightarrow> (string \<times> string) list" where
  "json_map to_text v path = (case Option.bind (foldl (\<lambda>cur k. Option.bind cur (\<lambda>c. jget c k)) (Some v) path) as_object of
     None \<Rightarrow> []
   | Some es \<Rightarrow> map (\<lambda>(k, x). (k, case x of JString s \<Rightarrow> s | other \<Rightarrow> to_text other)) es)"

section \<open>Rules, data, images and environments\<close>

record policy_rule =
  pr_groups :: string
  pr_resources :: string
  pr_verbs :: string
  pr_names :: string

definition texts_at :: "json \<Rightarrow> string \<Rightarrow> string list" where
  "texts_at rule k = List.map_filter as_str (elements (jget rule k))"

definition policy_rule_of :: "json \<Rightarrow> policy_rule" where
  "policy_rule_of rule =
     (let join = (\<lambda>k. join_with '', '' (texts_at rule k));
          urls = join ''nonResourceURLs'';
          names = (if urls = [] then join ''resourceNames'' else urls);
          resources = join ''resources''
      in \<lparr>pr_groups = join_with '', '' (map (\<lambda>g. if g = [] then ''core'' else g) (texts_at rule ''apiGroups'')),
          pr_resources = (if resources = [] \<and> names \<noteq> [] then ''(non-resource)'' else resources),
          pr_verbs = join ''verbs'', pr_names = names\<rparr>)"

definition rbac_rules :: "json \<Rightarrow> policy_rule list" where
  "rbac_rules v = map policy_rule_of (elements (jget v ''rules''))"

text \<open>A value that is no base64 is shown as it is, and bytes that are no UTF-8 by their number.\<close>

record text_env =
  te_base64 :: "string \<Rightarrow> string option"
  te_is_utf8 :: "string \<Rightarrow> bool"

definition decode_secret :: "text_env \<Rightarrow> string \<Rightarrow> string" where
  "decode_secret env raw = (case te_base64 env raw of
     None \<Rightarrow> raw
   | Some bytes \<Rightarrow> if te_is_utf8 env bytes then bytes else ''('' @ show_nat (length bytes) @ '' bytes binary)'')"

abbreviation entries_at :: "json \<Rightarrow> string \<Rightarrow> (string \<times> json) list" where
  "entries_at v k \<equiv> unwrap_or [] (Option.bind (jget v k) as_object)"

definition data_entries :: "text_env \<Rightarrow> json \<Rightarrow> bool \<Rightarrow> (string \<times> string \<times> bool) list" where
  "data_entries env v is_secret = sort_key fst
     (map (\<lambda>(k, x). let raw = unwrap_or [] (as_str x) in (k, if is_secret then decode_secret env raw else raw, is_secret))
        (entries_at v ''data'')
      @ (if is_secret then [] else map (\<lambda>(k, _). (k, ''(binary data)'', False)) (entries_at v ''binaryData'')))"

definition pod_spec_of :: "json \<Rightarrow> json option" where
  "pod_spec_of v = or_else
     (Option.bind (jget v ''spec'') (\<lambda>s. Option.bind (jget s ''template'') (\<lambda>t. jget t ''spec''))) (jget v ''spec'')"

definition container_images :: "json \<Rightarrow> (string \<times> string) list" where
  "container_images v = (case pod_spec_of v of
     None \<Rightarrow> []
   | Some spec \<Rightarrow> concat (map (\<lambda>(key, label). map (\<lambda>c.
        (label @ unwrap_or ''?'' (text_of c ''name''), unwrap_or ''?'' (text_of c ''image''))) (elements (jget spec key)))
      [(''containers'', []), (''initContainers'', ''(init) '')]))"

definition env_reference :: "json \<Rightarrow> string" where
  "env_reference vf =
     (let of_ref = (\<lambda>r k. unwrap_or ''?'' (text_of r k)) in
      case jget vf ''secretKeyRef'' of Some r \<Rightarrow> ''secret:'' @ of_ref r ''name'' @ ''/'' @ of_ref r ''key''
      | None \<Rightarrow> (case jget vf ''configMapKeyRef'' of Some r \<Rightarrow> ''configMap:'' @ of_ref r ''name'' @ ''/'' @ of_ref r ''key''
      | None \<Rightarrow> (case jget vf ''fieldRef'' of Some r \<Rightarrow> ''field:'' @ of_ref r ''fieldPath''
      | None \<Rightarrow> (case jget vf ''resourceFieldRef'' of Some r \<Rightarrow> ''resource:'' @ of_ref r ''resource''
      | None \<Rightarrow> ''(ref)''))))"

definition env_entry :: "json \<Rightarrow> (string \<times> string) option" where
  "env_entry e = Option.bind (text_of e ''name'') (\<lambda>k.
     map_option (Pair k) (case text_of e ''value'' of
       Some x \<Rightarrow> Some x | None \<Rightarrow> map_option env_reference (jget e ''valueFrom'')))"

definition container_env :: "json \<Rightarrow> (string \<times> (string \<times> string) list) option" where
  "container_env c = (case Option.bind (jget c ''env'') as_array of
     None \<Rightarrow> None
   | Some es \<Rightarrow> (let entries = List.map_filter env_entry es in
       if entries = [] then None else Some (unwrap_or ''?'' (text_of c ''name''), entries)))"

definition container_envs :: "json \<Rightarrow> (string \<times> (string \<times> string) list) list" where
  "container_envs v = (case pod_spec_of v of
     None \<Rightarrow> []
   | Some spec \<Rightarrow> concat (map (\<lambda>key. List.map_filter container_env (elements (jget spec key)))
       [''containers'', ''initContainers'']))"

definition selector_from :: "json \<Rightarrow> string" where
  "selector_from v = join_with '','' (List.map_filter (\<lambda>(k, x). map_option (\<lambda>t. k @ ''='' @ t) (as_str x))
     (unwrap_or [] (Option.bind (jget v ''spec'') (\<lambda>s. Option.bind (jget s ''selector'')
       (\<lambda>sel. Option.bind (jget sel ''matchLabels'') as_object)))))"

section \<open>An object as rows and groups\<close>

text \<open>A row shows a key, its label and a text, or several; a group shows the fields of an object, a collection
  the items of a list with their titles and how many fields each has.\<close>

datatype field_view =
    ScalarRow string string string
  | SequenceRow string string "string list"
  | GroupView string string "field_view list"
  | CollectionView string string string "(string \<times> bool \<times> nat \<times> field_view list) list"

definition is_scalar :: "json \<Rightarrow> bool" where
  "is_scalar v = (case v of JObject _ \<Rightarrow> False | JArray _ \<Rightarrow> False | _ \<Rightarrow> True)"

fun value_count :: "json \<Rightarrow> nat" where
  "value_count (JObject es) = max 1 (sum_list (map (\<lambda>(k, v). value_count v) es))"
| "value_count (JArray vs) = max 1 (sum_list (map value_count vs))"
| "value_count v = 1"

definition counted :: "nat \<Rightarrow> string \<Rightarrow> string \<Rightarrow> string" where
  "counted n singular plural = show_nat n @ '' '' @ (if n = 1 then singular else plural)"

definition item_name :: "nat \<Rightarrow> string" where
  "item_name i = ''Item '' @ show_nat (i + 1)"

definition identity_keys :: "string list" where
  "identity_keys = [''name'', ''key'', ''path'', ''mountPath'', ''containerPort'', ''type'']"

definition item_title :: "json \<Rightarrow> nat \<Rightarrow> string \<times> string option" where
  "item_title v i = (case v of
     JObject es \<Rightarrow> (case find_map (\<lambda>k. map_option (\<lambda>t. (t, k)) (Option.bind (map_of es k) short_scalar)) identity_keys of
         Some (t, k) \<Rightarrow> (t, Some k)
       | None \<Rightarrow> (case es of [(k, _)] \<Rightarrow> (camel_label k, None) | _ \<Rightarrow> (item_name i, None)))
   | _ \<Rightarrow> (item_name i, None))"

definition scalar_view :: "string \<Rightarrow> string \<Rightarrow> field_view" where
  "scalar_view key t = ScalarRow key (camel_label key) t"

definition without_identity :: "string option \<Rightarrow> (string \<times> json) list \<Rightarrow> (string \<times> json) list" where
  "without_identity identity es = (case identity of None \<Rightarrow> es | Some k \<Rightarrow> filter (\<lambda>(k', _). k' \<noteq> k) es)"

lemma size_item_entry:
  "JObject es \<in> set vs \<Longrightarrow> (k, v) \<in> set es \<Longrightarrow> size (v :: json) < Suc (size_list size vs)"
  using size_element[of "JObject es" vs] size_entry[of k v es] by simp

function (sequential) field_view_of :: "string \<Rightarrow> json \<Rightarrow> field_view" where
  "field_view_of key (JObject es) =
     (if es = [] then scalar_view key ''(empty object)''
      else GroupView key (camel_label key) (map (\<lambda>(k, v). field_view_of k v) es))"
| "field_view_of key (JArray vs) =
     (if vs = [] then scalar_view key ''(empty list)''
      else if list_all is_scalar vs then SequenceRow key (camel_label key) (map scalar_field vs)
      else CollectionView key (camel_label key) (counted (length vs) ''item'' ''items'')
        (map (\<lambda>(i, v). (fst (item_title v i), snd (item_title v i) \<noteq> None, value_count v,
           case v of
             JObject es \<Rightarrow>
               if es = [] then [scalar_view ''Value'' ''(empty object)'']
               else map (\<lambda>(k, x). field_view_of k x) (without_identity (snd (item_title (JObject es) i)) es)
           | v \<Rightarrow> [field_view_of (item_name i) v])) (enumerate 0 vs)))"
| "field_view_of key v = scalar_view key (scalar_field v)"
  by pat_completeness auto
termination
proof (relation "measure (\<lambda>(key, v). size v)", goal_cases)
  case 1
  then show ?case by simp
qed (auto simp: size_entry size_item_entry without_identity_def dest!: in_set_enumerateD dest: size_element
    split: option.splits)

definition json_fields_except :: "json \<Rightarrow> string list \<Rightarrow> field_view list" where
  "json_fields_except v excluded = (case v of
     JObject es \<Rightarrow> map (\<lambda>(k, x). field_view_of k x) (filter (\<lambda>(k, _). k \<notin> set excluded) es)
   | v \<Rightarrow> [field_view_of ''Value'' v])"

definition json_fields :: "json \<Rightarrow> field_view list" where
  "json_fields v = json_fields_except v []"

section \<open>Classes and colours\<close>

definition condition_class :: "string \<Rightarrow> string \<Rightarrow> string" where
  "condition_class condition_type status =
     (let ty = str_ascii_lower condition_type;
          negative = list_ex (str_contains ty) [''degraded'', ''failed'', ''error'', ''stalled'', ''unhealthy''];
          positive = list_ex (str_contains ty) [''ready'', ''available'', ''healthy'', ''succeeded'', ''established'',
            ''accepted'', ''programmed'', ''resolved'', ''valid''];
          changing = list_ex (str_contains ty) [''reconciling'', ''progressing'', ''issuing'']
      in if status = ''True'' \<and> negative \<or> status = ''False'' \<and> positive then ''error''
         else if status = ''False'' \<and> negative \<or> status = ''True'' \<and> positive then ''ok''
         else if status = ''True'' \<and> changing \<or> status = ''Unknown'' then ''pending''
         else ''neutral'')"

definition talos_version :: "string \<Rightarrow> string option" where
  "talos_version os_image =
     (case (find_byte (\<lambda>c. c = CHR ''('') os_image, find_byte (\<lambda>c. c = CHR '')'') os_image) of
        (Some a, Some b) \<Rightarrow>
          if a + 1 < b then Some (take (b - (a + 1)) (drop (a + 1) os_image))
          else nonempty (map_option trim (strip_prefix os_image ''Talos''))
      | _ \<Rightarrow> nonempty (map_option trim (strip_prefix os_image ''Talos'')))"

definition name_color :: "row_status \<Rightarrow> string" where
  "name_color st = (case st of RowError \<Rightarrow> ''color:var(--error)'' | RowDone \<Rightarrow> ''color:var(--unknown)'' | _ \<Rightarrow> [])"

definition hue_of :: "string \<Rightarrow> 32 word" where
  "hue_of s = foldl (\<lambda>h c. h * 33 + of_nat (code c)) 5381 s mod 360"

definition row_dot_class :: "row_status \<Rightarrow> string" where
  "row_dot_class st = (case st of
     RowOk \<Rightarrow> ''ok'' | RowPending \<Rightarrow> ''pending'' | RowWarn \<Rightarrow> ''warn'' | RowError \<Rightarrow> ''error''
   | RowDone \<Rightarrow> ''unknown'' | RowUnknown \<Rightarrow> ''unknown'')"

section \<open>Summaries\<close>

text \<open>
  The summaries of the detail view, \<open>src/app/controllers/detail.rs\<close>: PostgreSQL clusters, backups and schedules of
  CloudNativePG, certificates of cert-manager, and the instances of a cluster.  The clock of the browser is a parameter.
\<close>

section \<open>Vocabulary\<close>

record cnpg_cluster_summary =
  ps_phase :: string
  ps_phase_class :: string
  ps_phase_reason :: string
  ps_topology :: string
  ps_topology_note :: string
  ps_primary :: string
  ps_primary_note :: string
  ps_image :: string
  ps_storage :: string
  ps_storage_note :: string
  ps_replication :: string
  ps_replication_note :: string

record cnpg_backup_summary =
  pb_phase :: string
  pb_phase_class :: string
  pb_error :: string
  pb_cluster :: string
  pb_method :: string
  pb_started :: string
  pb_started_raw :: string
  pb_completed :: string
  pb_completed_raw :: string

record cnpg_scheduled_backup_summary =
  sb_state :: string
  sb_state_class :: string
  sb_error :: string
  sb_cluster :: string
  sb_schedule :: string
  sb_method :: string
  sb_last_schedule :: string
  sb_last_schedule_raw :: string
  sb_next_schedule :: string
  sb_next_schedule_raw :: string

record certificate_summary =
  ct_state :: string
  ct_state_class :: string
  ct_not_before :: string
  ct_not_before_raw :: string
  ct_not_after :: string
  ct_not_after_raw :: string
  ct_renewal_time :: string
  ct_renewal_time_raw :: string
  ct_revision :: string
  ct_secret :: string

definition display_time :: "string \<Rightarrow> string" where
  "display_time v = (if v = [] then ''-''
     else map (\<lambda>c. if c = CHR ''T'' then CHR '' '' else c) (unwrap_or v (strip_suffix v ''Z'')))"

definition short_fingerprint :: "string \<Rightarrow> string" where
  "short_fingerprint fingerprint = concat (take 12 (code_points fingerprint))"

definition is_cnpg_instance :: "resource_row \<Rightarrow> bool" where
  "is_cnpg_instance r \<longleftrightarrow> hm_get (rr_labels r) ''cnpg.io/podRole'' = Some ''instance''"

text \<open>The pods of a detail view, by their names.\<close>

definition watched_pods :: "bool \<Rightarrow> resource_row list \<Rightarrow> string list" where
  "watched_pods cnpg_instances_only rows =
     map rr_uid (sort_key rr_name (filter (\<lambda>r. \<not> cnpg_instances_only \<or> is_cnpg_instance r) rows))"

definition is_cnpg_kind :: "json \<Rightarrow> string \<Rightarrow> bool" where
  "is_cnpg_kind v kind \<longleftrightarrow> (case json_str v [''apiVersion''] of
      Some api \<Rightarrow> hd (split_on (CHR ''/'') api) = ''postgresql.cnpg.io'' | None \<Rightarrow> False)
    \<and> json_str v [''kind''] = Some kind"

section \<open>PostgreSQL\<close>

definition cnpg_phase_class :: "string \<Rightarrow> string \<Rightarrow> string \<Rightarrow> string" where
  "cnpg_phase_class phase ready desired =
     (let p = str_ascii_lower phase in
      if list_ex (str_contains p) [''unrecoverable'', ''invalid'', ''unable to create'', ''plugin rollout failed'',
           ''unknown state'', ''cannot proceed'', ''unknown plugin'', ''missing architecture'', ''interaction failed'']
        then ''error''
      else if list_ex (str_contains p) [''degraded'', ''upgrade delayed'', ''waiting for user action''] then ''warning''
      else if str_contains p ''healthy'' \<and> ready = desired then ''ok''
      else ''pending'')"

definition cnpg_storage :: "json \<Rightarrow> string \<times> string" where
  "cnpg_storage v =
     (let get = (\<lambda>path other. or_else (json_str v (''spec'' # path)) (json_str v (''spec'' # other)));
          storage = unwrap_or ''-'' (get [''storage'', ''size'']
            [''storage'', ''pvcTemplate'', ''resources'', ''requests'', ''storage'']);
          storage_class = get [''storage'', ''storageClass''] [''storage'', ''pvcTemplate'', ''storageClassName''];
          wal_size = get [''walStorage'', ''size''] [''walStorage'', ''pvcTemplate'', ''resources'', ''requests'', ''storage''];
          wal_class = get [''walStorage'', ''storageClass''] [''walStorage'', ''pvcTemplate'', ''storageClassName''];
          notes = (case storage_class of Some c \<Rightarrow> [c @ '' storage class''] | None \<Rightarrow> [])
            @ (if wal_size \<noteq> None \<or> wal_class \<noteq> None
               then [''WAL '' @ unwrap_or ''storage'' wal_size @ (case wal_class of Some c \<Rightarrow> '' on '' @ c | None \<Rightarrow> [])]
               else [])
      in if Option.bind (jget v ''spec'') (\<lambda>s. jget s ''ephemeralVolumeSource'') \<noteq> None
         then (''Ephemeral'', ''data is not persisted'')
         else (storage, join_with ''; '' notes))"

definition instances_in :: "json \<Rightarrow> string \<Rightarrow> nat" where
  "instances_in v name =
     (case Option.bind (jpointer v [''status'', ''instancesStatus'', name]) as_array of None \<Rightarrow> 0 | Some xs \<Rightarrow> length xs)"

definition conditions_at :: "json \<Rightarrow> json list" where
  "conditions_at v = unwrap_or [] (Option.bind (jpointer v [''status'', ''conditions'']) as_array)"

definition cnpg_replication :: "json \<Rightarrow> string \<Rightarrow> string \<Rightarrow> string \<times> string" where
  "cnpg_replication v ready desired =
     (let standbys = unwrap_or 1 (parse_unsigned (2 ^ 32 - 1) desired) - 1;
          replicating = instances_in v ''replicating'';
          failed = instances_in v ''failed'';
          reported = (case Option.bind (jpointer v [''status'', ''instancesStatus'']) as_object of
            Some es \<Rightarrow> es \<noteq> [] | None \<Rightarrow> False);
          sync = find (\<lambda>c. text_of c ''type'' = Some ''SyncReplicationTopologySatisfied'') (rev (conditions_at v));
          count = show_nat replicating @ ''/'' @ show_nat standbys
      in if 0 < failed then (show_nat failed @ '' failed'', count @ '' standbys replicating'')
         else if reported then (count @ '' replicating'',
           (case Option.bind sync (\<lambda>c. text_of c ''status'') of
              Some st \<Rightarrow> if st = ''False'' then ''synchronous topology is not satisfied''
                else if st = ''True'' then ''synchronous topology satisfied''
                else ''streaming status reported by the operator''
            | None \<Rightarrow> ''streaming status reported by the operator''))
         else (''Not reported'', ready @ ''/'' @ desired @ '' instances ready''))"

definition cnpg_cluster_summary_of :: "json \<Rightarrow> cnpg_cluster_summary option" where
  "cnpg_cluster_summary_of v =
     (if \<not> is_cnpg_kind v ''Cluster'' then None
      else
        let desired = unwrap_or ''1'' (or_else (json_str v [''spec'', ''instances'']) (json_str v [''status'', ''instances'']));
            ready = unwrap_or ''0'' (json_str v [''status'', ''readyInstances'']);
            phase = unwrap_or ''Not reported'' (json_str v [''status'', ''phase'']);
            nodes = json_str v [''status'', ''topology'', ''nodesUsed''];
            current_primary = json_str v [''status'', ''currentPrimary''];
            target_primary = (case json_str v [''status'', ''targetPrimary''] of
              Some t \<Rightarrow> if Some t = current_primary then None else Some t | None \<Rightarrow> None)
        in Some \<lparr>ps_phase = phase, ps_phase_class = cnpg_phase_class phase ready desired,
             ps_phase_reason = unwrap_or [] (json_str v [''status'', ''phaseReason'']),
             ps_topology = desired @ '' instances'',
             ps_topology_note = (case nodes of Some n \<Rightarrow> ''across '' @ n @ '' nodes'' | None \<Rightarrow> []),
             ps_primary = unwrap_or ''-'' current_primary,
             ps_primary_note = (case target_primary of Some t \<Rightarrow> ''switching to '' @ t | None \<Rightarrow> []),
             ps_image = unwrap_or ''-'' (or_else (json_str v [''status'', ''image'']) (json_str v [''spec'', ''imageName''])),
             ps_storage = fst (cnpg_storage v), ps_storage_note = snd (cnpg_storage v),
             ps_replication = fst (cnpg_replication v ready desired),
             ps_replication_note = snd (cnpg_replication v ready desired)\<rparr>)"

definition cnpg_backup_phase_class :: "string \<Rightarrow> string" where
  "cnpg_backup_phase_class phase =
     (let p = str_ascii_lower phase in
      if p \<in> {''completed'', ''succeeded''} then ''ok''
      else if p \<in> {''failed'', ''error'', ''walarchivingfailing'', ''invalid backup definition''} then ''error''
      else ''pending'')"

definition cnpg_backup_summary_of :: "json \<Rightarrow> cnpg_backup_summary option" where
  "cnpg_backup_summary_of v =
     (if \<not> is_cnpg_kind v ''Backup'' then None
      else
        let phase = unwrap_or ''Pending'' (json_str v [''status'', ''phase'']);
            started = unwrap_or [] (json_str v [''status'', ''startedAt'']);
            completed = unwrap_or [] (json_str v [''status'', ''stoppedAt''])
        in Some \<lparr>pb_phase = phase, pb_phase_class = cnpg_backup_phase_class phase,
             pb_error = unwrap_or [] (json_str v [''status'', ''error'']),
             pb_cluster = unwrap_or ''-'' (json_str v [''spec'', ''cluster'', ''name'']),
             pb_method = unwrap_or ''barmanObjectStore''
               (or_else (json_str v [''status'', ''method'']) (json_str v [''spec'', ''method''])),
             pb_started = display_time started, pb_started_raw = started,
             pb_completed = display_time completed, pb_completed_raw = completed\<rparr>)"

definition cnpg_scheduled_backup_summary_of :: "(string \<Rightarrow> bool) \<Rightarrow> json \<Rightarrow> cnpg_scheduled_backup_summary option" where
  "cnpg_scheduled_backup_summary_of is_past v =
     (if \<not> is_cnpg_kind v ''ScheduledBackup'' then None
      else
        let suspended = unwrap_or False (Option.bind (jpointer v [''spec'', ''suspend'']) as_bool);
            error = unwrap_or [] (json_str v [''status'', ''error'']);
            last_raw = unwrap_or [] (json_str v [''status'', ''lastScheduleTime'']);
            next_raw = unwrap_or [] (json_str v [''status'', ''nextScheduleTime'']);
            (st, cls) =
              (if error \<noteq> [] then (''Error'', ''error'')
               else if suspended then (''Suspended'', ''warning'')
               else if is_past next_raw then (''Overdue'', ''warning'')
               else if last_raw = [] \<and> next_raw = [] then (''Waiting'', ''pending'')
               else (''Active'', ''ok''))
        in Some \<lparr>sb_state = st, sb_state_class = cls, sb_error = error,
             sb_cluster = unwrap_or ''-'' (json_str v [''spec'', ''cluster'', ''name'']),
             sb_schedule = unwrap_or ''-'' (json_str v [''spec'', ''schedule'']),
             sb_method = unwrap_or ''barmanObjectStore'' (json_str v [''spec'', ''method'']),
             sb_last_schedule = display_time last_raw, sb_last_schedule_raw = last_raw,
             sb_next_schedule = display_time next_raw, sb_next_schedule_raw = next_raw\<rparr>)"

section \<open>Certificates\<close>

definition certificate_state :: "json \<Rightarrow> string \<times> string" where
  "certificate_state v =
     (let condition = (\<lambda>ty. find (\<lambda>c. text_of c ''type'' = Some ty) (conditions_at v));
          issuing = (Option.bind (condition ''Issuing'') (\<lambda>c. text_of c ''status'') = Some ''True'');
          ready_status = Option.bind (condition ''Ready'') (\<lambda>c. text_of c ''status'');
          ready_reason = Option.bind (condition ''Ready'') (\<lambda>c. text_of c ''reason'')
      in if issuing then (''Renewing'', ''pending'')
         else if (case ready_reason of Some r \<Rightarrow> str_ascii_lower r = ''expired'' | None \<Rightarrow> False) then (''Expired'', ''error'')
         else if ready_status = Some ''True'' then (''Valid'', ''ok'')
         else if ready_status = Some ''False'' then (unwrap_or ''Failed'' ready_reason, ''error'')
         else (''Pending'', ''pending''))"

definition certificate_summary_of :: "json \<Rightarrow> certificate_summary" where
  "certificate_summary_of v =
     (let before = unwrap_or [] (json_str v [''status'', ''notBefore'']);
          after = unwrap_or [] (json_str v [''status'', ''notAfter'']);
          renewal = unwrap_or [] (json_str v [''status'', ''renewalTime''])
      in \<lparr>ct_state = fst (certificate_state v), ct_state_class = snd (certificate_state v),
          ct_not_before = display_time before, ct_not_before_raw = before,
          ct_not_after = display_time after, ct_not_after_raw = after,
          ct_renewal_time = display_time renewal, ct_renewal_time_raw = renewal,
          ct_revision = unwrap_or ''-'' (json_str v [''status'', ''revision'']),
          ct_secret = unwrap_or ''-'' (json_str v [''spec'', ''secretName''])\<rparr>)"

section \<open>Green is deserved\<close>

text \<open>A summary is green only on good evidence: a cluster whose phase says healthy, with all instances ready; a
  backup that completed; a schedule without an error that is neither suspended nor overdue; a certificate that is
  ready, not being renewed and not expired.\<close>

lemma green_cluster:
  assumes "cnpg_cluster_summary_of v = Some s" and "ps_phase_class s = ''ok''"
  shows "str_contains (str_ascii_lower (ps_phase s)) ''healthy''"
    "\<not> str_contains (str_ascii_lower (ps_phase s)) ''degraded''"
    "unwrap_or ''0'' (json_str v [''status'', ''readyInstances''])
      = unwrap_or ''1'' (or_else (json_str v [''spec'', ''instances'']) (json_str v [''status'', ''instances'']))"
  using assms by (auto simp: cnpg_cluster_summary_of_def cnpg_phase_class_def Let_def split: if_splits)

lemma green_backup:
  "cnpg_backup_summary_of v = Some s \<Longrightarrow> pb_phase_class s = ''ok'' \<Longrightarrow> str_ascii_lower (pb_phase s) \<in> {''completed'', ''succeeded''}"
  by (auto simp: cnpg_backup_summary_of_def cnpg_backup_phase_class_def Let_def split: if_splits)

lemma green_schedule:
  assumes "cnpg_scheduled_backup_summary_of is_past v = Some s" and "sb_state_class s = ''ok''"
  shows "sb_error s = []" "\<not> is_past (sb_next_schedule_raw s)"
    "Option.bind (jpointer v [''spec'', ''suspend'']) as_bool \<noteq> Some True"
  using assms by (auto simp: cnpg_scheduled_backup_summary_of_def Let_def unwrap_or_def split: if_splits)

lemma green_certificate:
  assumes "ct_state_class (certificate_summary_of v) = ''ok''"
  shows "\<exists>c. find (\<lambda>c. text_of c ''type'' = Some ''Ready'') (conditions_at v) = Some c \<and> text_of c ''status'' = Some ''True''"
  using assms by (auto simp: certificate_summary_of_def certificate_state_def Let_def bind_eq_Some_conv split: if_splits)

end
