(* ===== verification/InspectProps.thy ===== *)
theory InspectProps
  imports Inspect
begin

text \<open>
  The detail views hide nothing: the number of fields an item announces is the number of leaves it has, the flat list
  of fields has one entry for each of them, and the tree of rows and groups shows each once; values of a
  secret are always marked.
\<close>

section \<open>Counting leaves\<close>

lemma value_count_pos: "0 < value_count v"
  by (cases v) simp_all

lemma sum_list_pos: "xs \<noteq> [] \<Longrightarrow> \<forall>x\<in>set xs. 0 < f x \<Longrightarrow> 1 \<le> sum_list (map (f :: 'a \<Rightarrow> nat) xs)"
  by (cases xs) auto

lemma value_count_empty: "value_count (JObject []) = 1" "value_count (JArray []) = 1"
  by simp_all

lemma value_count_object: "es \<noteq> [] \<Longrightarrow> value_count (JObject es) = sum_list (map (value_count \<circ> snd) es)"
  using sum_list_pos[of es "value_count \<circ> snd"] by (simp add: value_count_pos comp_def case_prod_unfold)

lemma value_count_array: "vs \<noteq> [] \<Longrightarrow> value_count (JArray vs) = sum_list (map value_count vs)"
  using sum_list_pos[of vs value_count] by (simp add: value_count_pos)

lemma sum_enumerate:
  assumes "\<And>i x. (i, x) \<in> set (enumerate n xs) \<Longrightarrow> g (i, x) = f x"
  shows "sum_list (map g (enumerate n xs)) = sum_list (map f xs)"
proof -
  have "map g (enumerate n xs) = map (f \<circ> snd) (enumerate n xs)" using assms by auto
  also have "\<dots> = map f xs" by (metis map_snd_enumerate map_map)
  finally show ?thesis by simp
qed

lemma fields_are_counted: "length (flatten_value v path) = value_count v"
proof (induction v path rule: flatten_value.induct)
  case (1 es path)
  then show ?case
    by (cases "es = []") (auto simp: length_concat value_count_object comp_def case_prod_unfold value_count_empty simp del: value_count.simps
        intro!: arg_cong[where f = sum_list])
next
  case (2 vs path)
  show ?case
  proof (cases "vs = []")
    case False
    have "length (flatten_value (JArray vs) path)
        = sum_list (map (\<lambda>(i, v). length (flatten_value v (path @ ''['' @ show_nat i @ '']''))) (enumerate 0 vs))"
      using False by (simp add: length_concat comp_def case_prod_unfold)
    also have "\<dots> = sum_list (map value_count vs)"
      using 2[OF False] by (intro sum_enumerate) simp
    finally show ?thesis using False by (simp add: value_count_array del: value_count.simps)
  qed simp
qed simp_all

section \<open>The tree shows every leaf\<close>

text \<open>Texts a view shows: its rows, and the titles of items that are named by one of their fields.\<close>

fun shown_texts :: "field_view \<Rightarrow> nat" where
  "shown_texts (ScalarRow key label t) = 1"
| "shown_texts (SequenceRow key label ts) = length ts"
| "shown_texts (GroupView key label vs) = sum_list (map shown_texts vs)"
| "shown_texts (CollectionView key label items body) =
     sum_list (map (\<lambda>(title, named, n, vs). (if named then 1 else 0) + sum_list (map shown_texts vs)) body)"

fun distinct_keys :: "json \<Rightarrow> bool" where
  "distinct_keys (JObject es) \<longleftrightarrow> distinct (map fst es) \<and> (\<forall>(k, v)\<in>set es. distinct_keys v)"
| "distinct_keys (JArray vs) \<longleftrightarrow> (\<forall>v\<in>set vs. distinct_keys v)"
| "distinct_keys v \<longleftrightarrow> True"

text \<open>Taking out the entry of a key that holds a scalar takes one leaf.\<close>

lemma sum_without:
  assumes "distinct (map fst es)" and "map_of es k = Some x"
  shows "sum_list (map (value_count \<circ> snd) es) = value_count x + sum_list (map (value_count \<circ> snd) (filter (\<lambda>(k', _). k' \<noteq> k) es))"
  using assms
proof (induction es)
  case (Cons e es)
  show ?case
  proof (cases "fst e = k")
    case True
    with Cons.prems(1) have "k \<notin> fst ` set es" by auto
    then have "\<forall>(k', v)\<in>set es. k' \<noteq> k" by (auto simp: image_iff)
    then have "filter (\<lambda>(k', _). k' \<noteq> k) es = es" by (auto intro!: filter_True)
    with True Cons.prems show ?thesis by (cases e) auto
  next
    case False
    with Cons show ?thesis by (cases e) auto
  qed
qed simp

lemma item_title_identity:
  assumes "snd (item_title (JObject es) i) = Some k"
  shows "\<exists>x. map_of es k = Some x \<and> value_count x = 1"
proof -
  from assms obtain t where "find_map (\<lambda>k. map_option (\<lambda>t. (t, k)) (Option.bind (map_of es k) short_scalar)) identity_keys = Some (t, k)"
    by (auto simp: item_title_def split: option.splits list.splits)
  then obtain x where "map_of es k = Some x" "short_scalar x \<noteq> None"
    by (auto dest!: find_map_Some simp: bind_eq_Some_conv)
  then show ?thesis by (cases x) (auto simp: short_scalar_def)
qed

lemma titles_count:
  assumes "distinct (map fst es)" and "es \<noteq> []"
  shows "(if snd (item_title (JObject es) i) \<noteq> None then 1 else 0)
      + sum_list (map (value_count \<circ> snd) (without_identity (snd (item_title (JObject es) i)) es)) = value_count (JObject es)"
proof (cases "snd (item_title (JObject es) i)")
  case (Some k)
  with item_title_identity obtain x where "map_of es k = Some x" "value_count x = 1" by blast
  with Some sum_without[OF assms(1)] assms(2) show ?thesis
    by (simp add: without_identity_def value_count_object del: value_count.simps)
qed (use assms in \<open>simp add: without_identity_def value_count_object del: value_count.simps\<close>)

lemma scalar_is_one: "is_scalar v \<Longrightarrow> value_count v = 1"
  by (cases v) (simp_all add: is_scalar_def)

lemma no_title: "\<forall>es. v \<noteq> JObject es \<Longrightarrow> snd (item_title v i) = None"
  by (cases v) (simp_all add: item_title_def)

lemma shown_entries:
  assumes "\<And>k u. (k, u) \<in> set es \<Longrightarrow> shown_texts (field_view_of k u) = value_count u"
  shows "sum_list (map shown_texts (map (\<lambda>(k, u). field_view_of k u) es)) = sum_list (map (value_count \<circ> snd) es)"
  unfolding map_map using assms by (intro arg_cong[where f = sum_list] map_cong) auto

definition item_body :: "nat \<Rightarrow> json \<Rightarrow> field_view list" where
  "item_body i v = (case v of
     JObject es \<Rightarrow>
       if es = [] then [scalar_view ''Value'' ''(empty object)'']
       else map (\<lambda>(k, x). field_view_of k x) (without_identity (snd (item_title (JObject es) i)) es)
   | v \<Rightarrow> [field_view_of (item_name i) v])"

lemma shown_item:
  assumes IH: "\<And>u key. size u < Suc (size v) \<Longrightarrow> distinct_keys u \<Longrightarrow> shown_texts (field_view_of key u) = value_count u"
    and v: "distinct_keys v"
  shows "(if snd (item_title v i) \<noteq> None then 1 else 0) + sum_list (map shown_texts (item_body i v)) = value_count v"
proof (cases "\<exists>es. v = JObject es")
  case True
  then obtain es where es: "v = JObject es" by blast
  show ?thesis
  proof (cases "es = []")
    case True
    then show ?thesis by (simp add: es item_body_def scalar_view_def item_title_def identity_keys_def)
  next
    case False
    have "shown_texts (field_view_of k u) = value_count u" if "(k, u) \<in> set (without_identity (snd (item_title v i)) es)" for k u
    proof -
      have "(k, u) \<in> set es" using that by (auto simp: without_identity_def split: option.splits)
      then show ?thesis using IH v size_entry[of k u es] by (fastforce simp: es)
    qed
    from shown_entries[OF this] titles_count[of es i] v False show ?thesis
      by (simp add: es item_body_def del: value_count.simps)
  qed
next
  case False
  with IH[of v] v no_title[of v i] show ?thesis
    by (cases v) (auto simp: item_body_def)
qed

lemma shown_collection:
  assumes "vs \<noteq> []" and "\<not> list_all is_scalar vs"
  shows "shown_texts (field_view_of key (JArray vs)) =
    sum_list (map (\<lambda>(i, v). (if snd (item_title v i) \<noteq> None then 1 else 0) + sum_list (map shown_texts (item_body i v))) (enumerate 0 vs))"
  using assms by (simp add: comp_def case_prod_unfold item_body_def)

lemma shown_leaves: "distinct_keys v \<Longrightarrow> shown_texts (field_view_of key v) = value_count v"
proof (induction "size v" arbitrary: v key rule: less_induct)
  case less
  show ?case
  proof (cases v)
    case (JObject es)
    have "shown_texts (field_view_of k u) = value_count u" if "(k, u) \<in> set es" for k u
      using less size_entry[OF that] that JObject by fastforce
    from shown_entries[OF this] JObject show ?thesis
      by (cases "es = []") (simp_all add: scalar_view_def value_count_empty value_count_object del: value_count.simps)
  next
    case (JArray vs)
    consider "vs = []" | "vs \<noteq> []" "list_all is_scalar vs" | "vs \<noteq> []" "\<not> list_all is_scalar vs" by blast
    then show ?thesis
    proof cases
      case 2
      then have "map value_count vs = map (\<lambda>_. 1) vs" by (auto simp: list_all_iff scalar_is_one)
      then have "sum_list (map value_count vs) = length vs" by (simp only: sum_list_triv) simp
      with 2 JArray show ?thesis by (simp add: value_count_array del: value_count.simps)
    next
      case 3
      have "(if snd (item_title u i) \<noteq> None then 1 else 0) + sum_list (map shown_texts (item_body i u)) = value_count u"
        if "(i, u) \<in> set (enumerate 0 vs)" for i u
      proof (rule shown_item)
        have u: "u \<in> set vs" using that in_set_enumerateD by fast
        with less.prems JArray show "distinct_keys u" by simp
        fix w key assume "size w < Suc (size u)" and "distinct_keys w"
        with less.hyps size_element[OF u] JArray show "shown_texts (field_view_of key w) = value_count w" by simp
      qed
      then have "sum_list (map (\<lambda>(i, v). (if snd (item_title v i) \<noteq> None then 1 else 0)
          + sum_list (map shown_texts (item_body i v))) (enumerate 0 vs)) = sum_list (map value_count vs)"
        by (intro sum_enumerate) simp
      with 3 JArray show ?thesis
        by (simp only: shown_collection[OF 3] value_count_array[OF 3(1)])
    qed (simp add: JArray scalar_view_def value_count_empty)
  qed (simp_all add: scalar_view_def)
qed


section \<open>Data and conditions\<close>

text \<open>Entries are sorted by their keys, and those of a secret, and no others, are marked as sensitive.\<close>

lemma data_entries_marked:
  "sorted (map fst (data_entries env v is_secret))"
  "(k, t, marked) \<in> set (data_entries env v is_secret) \<Longrightarrow> marked = is_secret"
  by (auto simp: data_entries_def Let_def split: if_splits)

text \<open>A condition called \<open>Unhealthy\<close> that is false counts as an error: the name contains a good one.\<close>

lemma unhealthy_is_always_an_error:
  "condition_class ''Unhealthy'' ''False'' = ''error''" "condition_class ''Unhealthy'' ''True'' = ''error''"
  "condition_class ''Degraded'' ''False'' = ''ok''"
  by code_simp+

section \<open>Witness\<close>

definition container_list :: json where
  "container_list = JArray [JObject [(''name'', JString ''web''), (''image'', JString ''nginx'')], JObject []]"


end
