(* ===== verification/DrainView.thy ===== *)
theory DrainView
  imports DrainStream Action
begin

text \<open>
  The browser's end of a drain, \<open>src/app/controllers/drain.rs\<close>: the options of the dialog, the request that starts a
  drain, the subscription that drops what it has seen, and the progress shown.  An \<open>EventSource\<close> reconnects by itself,
  and every connection is a response of its own, so what arrives is the concatenation of responses.  The browser is
  32 bits wide.
\<close>

section \<open>The dialog\<close>

definition DRAIN_TIMEOUT_MIN_SECS :: nat where
  "DRAIN_TIMEOUT_MIN_SECS = 0"

definition parse_options :: "bool \<Rightarrow> bool \<Rightarrow> bool \<Rightarrow> bool \<Rightarrow> string \<Rightarrow> string \<Rightarrow> drain_options" where
  "parse_options f d i e grace timeout =
     \<lparr>force = f, delete_emptydir_data = d, ignore_daemonsets = i, disable_eviction = e,
      grace_period = map_option (\<lambda>v. min v DRAIN_GRACE_PERIOD_MAX_SECS) (parse_u32 (trim grace)),
      timeout_secs = max DRAIN_TIMEOUT_MIN_SECS (min DRAIN_TIMEOUT_MAX_SECS
        (unwrap_or (timeout_secs default_drain_options) (parse_u64 (trim timeout))))\<rparr>"

record drain_view_target =
  dv_key :: string
  dv_name :: string
  dv_power :: "string option"

definition plain_request :: "string \<Rightarrow> string \<Rightarrow> drain_options \<Rightarrow> action_request" where
  "plain_request a name opts = \<lparr>aq_action = a, aq_key = None, aq_namespace = None, aq_name = Some name, aq_replicas = None,
     aq_yaml = None, aq_force = None, aq_propagation = None, aq_reset = None, aq_service = None, aq_drain = None,
     aq_options = Some opts, aq_sweep_options = None, aq_job = None, aq_executor = None\<rparr>"

text \<open>The request that starts a drain, as the server reads the payload.\<close>

definition start_payload :: "drain_view_target \<Rightarrow> drain_options \<Rightarrow> action_request" where
  "start_payload t opts = (case dv_power t of
     None \<Rightarrow> (plain_request ''drain'' (dv_name t) opts)\<lparr>aq_key := Some (dv_key t)\<rparr>
   | Some pwr \<Rightarrow> (plain_request (''talos-'' @ pwr) (dv_name t) opts)\<lparr>aq_drain := Some True\<rparr>)"

section \<open>The subscription\<close>

text \<open>An event is dropped unless it is newer than the newest seen.\<close>

fun receive_events :: "nat option \<Rightarrow> drain_event list \<Rightarrow> drain_event list" where
  "receive_events seen [] = []"
| "receive_events seen (ev # evs) =
     (if seq_covered seen ev then receive_events seen evs
      else ev # receive_events (Some (de_seq ev)) evs)"

section \<open>Progress\<close>

record drain_progress_state =
  pg_log :: "string list"
  pg_evicted :: nat
  pg_total :: nat
  pg_finished :: bool
  pg_successful :: bool
  pg_power_requested :: bool
  pg_node_ready :: bool
  pg_retry_options :: "string list"

definition no_progress :: drain_progress_state where
  "no_progress = \<lparr>pg_log = [], pg_evicted = 0, pg_total = 0, pg_finished = False, pg_successful = False,
     pg_power_requested = False, pg_node_ready = False, pg_retry_options = []\<rparr>"

definition push_log :: "string \<Rightarrow> drain_progress_state \<Rightarrow> drain_progress_state" where
  "push_log l s = s\<lparr>pg_log := pg_log s @ [l]\<rparr>"

fun first_seen :: "string list \<Rightarrow> string list \<Rightarrow> string list" where
  "first_seen seen [] = []"
| "first_seen seen (x # xs) = (if x \<in> set seen then first_seen seen xs else x # first_seen (x # seen) xs)"

definition distinct_clearable_by :: "drain_blocker list \<Rightarrow> string list" where
  "distinct_clearable_by bs = first_seen [] (map db_clearable_by bs)"

definition waiting_message :: "string list \<Rightarrow> string" where
  "waiting_message pods = ''waiting for '' @ show_nat (length pods) @ '' ''
     @ (if length pods = 1 then ''pod'' else ''pods'') @ '' to terminate: '' @ join_with '', '' pods"

fun apply_progress :: "drain_event_kind \<Rightarrow> drain_progress_state \<Rightarrow> drain_progress_state" where
  "apply_progress Cordoned s = push_log ''node cordoned'' s"
| "apply_progress (Started n) s = push_log (''evicting '' @ show_nat n @ '' pods'') (s\<lparr>pg_total := n\<rparr>)"
| "apply_progress (Evicted pod n rest) s = push_log (''evicted '' @ pod) (s\<lparr>pg_evicted := n\<rparr>)"
| "apply_progress (EvictFailed pod reason) s = push_log (''FAILED '' @ pod @ '': '' @ reason) s"
| "apply_progress (Blocked bs) s =
     (fold (\<lambda>b. push_log (''blocked by '' @ db_pod b @ '': '' @ db_reason b)) bs s)
       \<lparr>pg_retry_options := distinct_clearable_by bs, pg_finished := True\<rparr>"
| "apply_progress (WaitingTermination pods) s = push_log (waiting_message pods) s"
| "apply_progress (PowerRequested a) s = push_log (a @ '' requested'') (s\<lparr>pg_power_requested := True\<rparr>)"
| "apply_progress NodeReady s = push_log ''node returned Ready'' (s\<lparr>pg_node_ready := True\<rparr>)"
| "apply_progress (Done summary) s =
     fold (\<lambda>reason. push_log (''FAILED: '' @ reason)) (ds_failed summary)
       (push_log (''done: evicted '' @ show_nat (ds_evicted summary) @ '', skipped '' @ show_nat (ds_skipped summary)
          @ '', '' @ show_nat (length (ds_failed summary)) @ '' failed'')
         (s\<lparr>pg_successful := (ds_failed summary = []), pg_finished := True\<rparr>))"
| "apply_progress (DrainError m) s = push_log (''ERROR: '' @ m) (s\<lparr>pg_finished := True\<rparr>)"
| "apply_progress Cancelled s = push_log ''cancelled - node remains cordoned'' (s\<lparr>pg_finished := True\<rparr>)"

definition progress_of :: "drain_event list \<Rightarrow> drain_progress_state" where
  "progress_of evs = fold (\<lambda>ev. apply_progress (de_kind ev)) evs no_progress"

definition saturated :: "nat \<Rightarrow> nat" where
  "saturated n = min n (2 ^ 32 - 1)"

definition progress_percent :: "drain_progress_state \<Rightarrow> string option \<Rightarrow> nat" where
  "progress_percent s pwr =
     (if pg_successful s then 100
      else
        let milestones = (if pwr = Some ''reboot'' then 3 else if pwr = Some ''shutdown'' then 2 else 0);
            complete = min (pg_evicted s) (pg_total s) + of_bool (pg_power_requested s) + of_bool (pg_node_ready s)
        in saturated (complete * 100) div max (saturated (pg_total s + milestones)) 1)"

definition option_label :: "string \<Rightarrow> string" where
  "option_label opt =
     (if opt = ''force'' then ''Force''
      else if opt = ''delete_emptydir_data'' then ''Delete emptyDir data''
      else if opt = ''ignore_daemonsets'' then ''Ignore DaemonSets''
      else ''Unknown option'')"

definition progress_url :: "nat \<Rightarrow> string option \<Rightarrow> string" where
  "progress_url job executor = (case executor of
     Some e \<Rightarrow> ''/api/drain-progress?id='' @ show_nat job @ ''&executor='' @ e
   | None \<Rightarrow> ''/api/drain-progress?id='' @ show_nat job)"

section \<open>The dialog asks for what the server accepts\<close>

lemma dialog_options_are_valid: "drain_validate (parse_options f d i e grace timeout) = Inr ()"
  by (auto simp: drain_validate_ok parse_options_def DRAIN_GRACE_PERIOD_MAX_SECS_def DRAIN_TIMEOUT_MAX_SECS_def
      DRAIN_TIMEOUT_MIN_SECS_def)

section \<open>The view follows the job\<close>

definition numbered :: "drain_event list \<Rightarrow> bool" where
  "numbered evs \<longleftrightarrow> map de_seq evs = [0..<length evs]"

lemma numbered_nth: "numbered evs \<Longrightarrow> i < length evs \<Longrightarrow> de_seq (evs ! i) = i"
  by (metis numbered_def nth_map nth_upt add_0 diff_zero)

definition seen_after :: "nat \<Rightarrow> nat option" where
  "seen_after n = (if n = 0 then None else Some (n - 1))"

lemma covered_iff: "seq_covered (seen_after n) ev \<longleftrightarrow> de_seq ev < n"
  by (auto simp: seq_covered_def seen_after_def)

text \<open>From a client that has the first \<open>n\<close> events, a part of the log from \<open>k \<le> n\<close> on brings what is new in it.\<close>

lemma receive_part:
  assumes "numbered evs" and "k \<le> n" and "n \<le> length evs" and "m \<le> length evs"
  shows "receive_events (seen_after n) (take (m - k) (drop k evs) @ rest)
    = take (m - n) (drop n evs) @ receive_events (seen_after (max n m)) rest"
  using assms
proof (induction "m - k" arbitrary: k n)
  case 0
  then show ?case by (simp add: max_absorb1)
next
  case (Suc d)
  then have k: "k < m" "k < length evs" by auto
  then have step: "take (m - k) (drop k evs) = evs ! k # take (m - Suc k) (drop (Suc k) evs)"
    by (metis Cons_nth_drop_Suc Suc_diff_Suc take_Suc_Cons)
  have seq: "de_seq (evs ! k) = k" using Suc.prems(1) k(2) by (rule numbered_nth)
  have d: "d = m - Suc k" using Suc.hyps(2) by simp
  show ?case
  proof (cases "k < n")
    case True
    with Suc.hyps(1)[OF d Suc.prems(1), of n] Suc.prems show ?thesis
      by (simp add: step covered_iff seq)
  next
    case False
    with Suc.prems(2) have kn: "k = n" by simp
    have new: "seen_after (Suc n) = Some n" by (simp add: seen_after_def)
    from Suc.hyps(1)[OF d Suc.prems(1), of "Suc n"] Suc.prems k
    have "receive_events (Some n) (take (m - Suc n) (drop (Suc n) evs) @ rest)
        = take (m - Suc n) (drop (Suc n) evs) @ receive_events (seen_after (max (Suc n) m)) rest"
      by (simp add: kn new)
    with k show ?thesis
      by (simp add: step[unfolded kn] kn covered_iff seq[unfolded kn] max_absorb2)
  qed
qed

lemma receive_prefixes:
  assumes "numbered evs" and "\<forall>body\<in>set bodies. body = take (length body) evs" and "n \<le> length evs"
  shows "\<exists>n'. n \<le> n' \<and> n' \<le> length evs \<and> (\<forall>body\<in>set bodies. length body \<le> n')
    \<and> (n' = n \<or> (\<exists>body\<in>set bodies. length body = n'))
    \<and> receive_events (seen_after n) (concat bodies) = take (n' - n) (drop n evs)"
  using assms(2,3)
proof (induction bodies arbitrary: n)
  case (Cons body bodies)
  let ?m = "length body"
  have body: "body = take ?m evs" "?m \<le> length evs"
    using Cons.prems(1) by (auto dest: arg_cong[where f = length])
  from Cons.IH[of "max n ?m"] Cons.prems body(2) obtain n' where n': "max n ?m \<le> n'" "n' \<le> length evs"
    "\<forall>b\<in>set bodies. length b \<le> n'" "n' = max n ?m \<or> (\<exists>b\<in>set bodies. length b = n')"
    "receive_events (seen_after (max n ?m)) (concat bodies) = take (n' - max n ?m) (drop (max n ?m) evs)"
    by auto
  have "receive_events (seen_after n) (body @ concat bodies)
      = take (?m - n) (drop n evs) @ take (n' - max n ?m) (drop (max n ?m) evs)"
    using receive_part[OF assms(1), of 0 n ?m "concat bodies"] Cons.prems(2) body n'(5) by simp
  also have "\<dots> = take (n' - n) (drop n evs)"
  proof (cases "?m \<le> n")
    case False
    with n'(1) have "n' - n = (?m - n) + (n' - ?m)" "max n ?m = ?m" "?m = n + (?m - n)" by auto
    then show ?thesis by (metis drop_drop take_add add.commute)
  qed (simp add: max_absorb1)
  finally show ?case using n' by (intro exI[of _ n']) (auto simp: max_def split: if_splits)
qed simp

lemma fold_log [simp]:
  "pg_successful (fold (\<lambda>b. push_log (f b)) bs s) = pg_successful s"
  "pg_finished (fold (\<lambda>b. push_log (f b)) bs s) = pg_finished s"
  by (induction bs arbitrary: s) (simp_all add: push_log_def)

lemma successful_after:
  "pg_successful (apply_progress k s) = (case k of Done summary \<Rightarrow> ds_failed summary = [] | _ \<Rightarrow> pg_successful s)"
  by (cases k) (simp_all add: push_log_def)

lemma progress_snoc: "progress_of (evs @ [ev]) = apply_progress (de_kind ev) (progress_of evs)"
  by (simp add: progress_of_def)

lemma not_successful_yet: "\<forall>ev\<in>set evs. \<not> is_terminal_kind (de_kind ev) \<Longrightarrow> \<not> pg_successful (progress_of evs)"
proof (induction evs rule: rev_induct)
  case Nil
  then show ?case by (simp add: progress_of_def no_progress_def)
next
  case (snoc ev evs)
  then show ?case by (cases "de_kind ev") (simp_all add: progress_snoc successful_after del: apply_progress.simps)
qed

lemma successful_iff:
  assumes "entry_ok e" and "n \<le> length (en_events e)"
  shows "pg_successful (progress_of (take n (en_events e))) \<longleftrightarrow>
    (\<exists>evs ev summary. en_events e = evs @ [ev] \<and> n = length (en_events e) \<and> de_kind ev = Done summary \<and> ds_failed summary = [])"
proof (cases "n = length (en_events e) \<and> en_events e \<noteq> []")
  case True
  then obtain evs ev where events: "en_events e = evs @ [ev]" by (metis rev_exhaust)
  with assms(1) have "\<not> pg_successful (progress_of evs)"
    by (intro not_successful_yet) (simp add: entry_ok_def)
  with events True show ?thesis
    by (cases "de_kind ev") (simp_all add: progress_snoc successful_after del: apply_progress.simps)
next
  case False
  have "set (take n (en_events e)) \<subseteq> set (butlast (en_events e))"
  proof -
    have "take n (en_events e) = take n (butlast (en_events e))"
      using False assms(2) by (cases "n = length (en_events e)") (auto simp: take_butlast)
    then show ?thesis by (metis set_take_subset)
  qed
  with assms(1) have "\<not> pg_successful (progress_of (take n (en_events e)))"
    by (intro not_successful_yet) (auto simp: entry_ok_def)
  with False show ?thesis by auto
qed

text \<open>One connection of the browser: the response to a subscription of the owner while the job \<open>e\<close> was under way.\<close>

definition connection :: "entry \<Rightarrow> nat \<Rightarrow> drain_event list \<times> stream_end \<Rightarrow> bool" where
  "connection e jid c \<longleftrightarrow> (\<exists>m j fin input. m \<le> length (en_events e)
     \<and> hm_get (dj_entries j) jid = Some (e\<lparr>en_events := take m (en_events e), en_sent := take m (en_events e),
          en_done := (en_done e \<and> m = length (en_events e))\<rparr>)
     \<and> feed e jid m m fin input \<and> drain_progress (en_owner e) jid j input = Some c)"

lemma connection_prefix:
  assumes "entry_ok e" and "connection e jid (body, st)"
  shows "body = take (length body) (en_events e)" "st = StoppedAtTerminal \<Longrightarrow> length body = length (en_events e)"
  using assms(2) response_is_prefix[OF assms(1)] unfolding connection_def by metis+

text \<open>C36: the browser follows the drain through every reconnect.  However often the connection breaks and whenever the
  browser connects again, what its view is built from is an initial part of the job's events, each once and in order:
  as much as the longest response held, and everything once a response ended with the job; and the view calls
  the drain successful exactly when it has seen the whole job and that ended without failures.\<close>
theorem browser_follows_the_drain:
  assumes "entry_ok e" and "\<forall>c\<in>set conns. connection e jid c"
  shows "\<exists>n. n \<le> length (en_events e)
    \<and> receive_events None (concat (map fst conns)) = take n (en_events e)
    \<and> (\<forall>(body, st)\<in>set conns. length body \<le> n \<and> (st = StoppedAtTerminal \<longrightarrow> n = length (en_events e)))
    \<and> (n = 0 \<or> (\<exists>(body, st)\<in>set conns. length body = n))
    \<and> (pg_successful (progress_of (receive_events None (concat (map fst conns)))) \<longleftrightarrow>
        (\<exists>evs ev summary. en_events e = evs @ [ev] \<and> n = length (en_events e)
           \<and> de_kind ev = Done summary \<and> ds_failed summary = []))"
proof -
  have numbered: "numbered (en_events e)" using assms(1) by (simp add: entry_ok_def numbered_def)
  have "\<forall>body\<in>set (map fst conns). body = take (length body) (en_events e)"
    using assms(2) connection_prefix(1)[OF assms(1)] by fastforce
  from receive_prefixes[OF numbered this, of 0] obtain n where raw: "n \<le> length (en_events e)"
    "\<forall>body\<in>set (map fst conns). length body \<le> n" "n = 0 \<or> (\<exists>body\<in>set (map fst conns). length body = n)"
    "receive_events (seen_after 0) (concat (map fst conns)) = take (n - 0) (drop 0 (en_events e))"
    by auto
  then have n: "n \<le> length (en_events e)" "\<forall>(body, st)\<in>set conns. length body \<le> n"
    "n = 0 \<or> (\<exists>(body, st)\<in>set conns. length body = n)"
    "receive_events None (concat (map fst conns)) = take n (en_events e)"
    by (fastforce simp: seen_after_def)+
  moreover have "n = length (en_events e)" if "(body, StoppedAtTerminal) \<in> set conns" for body
  proof -
    have "length body = length (en_events e)" "length body \<le> n"
      using that assms(2) connection_prefix(2)[OF assms(1)] n(2) by auto
    with n(1) show ?thesis by simp
  qed
  ultimately show ?thesis using successful_iff[OF assms(1)] by (intro exI[of _ n]) auto
qed

text \<open>A break after the first event, then a response that lagged and recovered.\<close>

theorem browser_follows_the_drain_witness:
  "receive_events None (concat (map fst [([\<lparr>de_seq = 0, de_kind = Cordoned\<rparr>], StreamPending), (en_events demo_entry, StoppedAtTerminal)]))
    = en_events demo_entry"
proof -
  let ?conns = "[([\<lparr>de_seq = 0, de_kind = Cordoned\<rparr>], StreamPending), (en_events demo_entry, StoppedAtTerminal)]"
  have ok: "entry_ok demo_entry" by (simp add: entry_ok_def demo_entry_def upt_rec)
  have at1: "hm_get (dj_entries (with_events 1)) 0 = Some (demo_entry\<lparr>en_events := take 1 (en_events demo_entry),
      en_sent := take 1 (en_events demo_entry), en_done := (en_done demo_entry \<and> 1 = length (en_events demo_entry))\<rparr>)"
    by (simp add: with_events_def demo_entry_def)
  have one: "1 \<le> length (en_events demo_entry)" by (simp add: demo_entry_def)
  have feeds: "feed demo_entry 0 1 1 1 []" "feed demo_entry 0 1 1 3 [(RecvLagged, with_events 3)]"
    by (simp add: demo_entry_def)
      (rule feed_lagged[where pos' = 3 and n' = 3], simp_all add: demo_entry_def holds_prefix_def with_events_def)
  have runs: "drain_progress (en_owner demo_entry) 0 (with_events 1) [] = Some ([\<lparr>de_seq = 0, de_kind = Cordoned\<rparr>], StreamPending)"
    "drain_progress (en_owner demo_entry) 0 (with_events 1) [(RecvLagged, with_events 3)]
      = Some (en_events demo_entry, StoppedAtTerminal)"
    by (simp_all add: drain_progress_def subscribe_def with_events_def demo_entry_def replay_after_def
        buf.last_number_def newer_def)
  have "connection demo_entry 0 ([\<lparr>de_seq = 0, de_kind = Cordoned\<rparr>], StreamPending)"
    unfolding connection_def using one at1 feeds(1) runs(1) by blast
  moreover have "connection demo_entry 0 (en_events demo_entry, StoppedAtTerminal)"
    unfolding connection_def using one at1 feeds(2) runs(2) by blast
  ultimately have "\<forall>c\<in>set ?conns. connection demo_entry 0 c" by simp
  from browser_follows_the_drain[OF ok this] show ?thesis by auto
qed

end
