(* ===== verification/PodLogs.thy ===== *)
theory PodLogs
  imports AccessProps Logs Metrics
begin

text \<open>
  The endpoints for the logs and the usage history of a pod (\<open>src/server/api/logs.rs\<close>) over the permission check of
  \<open>Access\<close> and the log streams of \<open>Logs\<close>.  A response is a status with its body, or a stream of events; the merged
  streams of several containers stay a list of streams.
\<close>

section \<open>Logs\<close>

record log_query =
  lq_namespace :: string
  lq_pod :: "string option"
  lq_container :: "string option"
  lq_key :: "string option"
  lq_name :: "string option"

text \<open>A stream ends with \<open>eof\<close>, or not at all.\<close>

datatype log_response =
    LogStatus nat string
  | LogEvents "string list list" bool

definition log_lines :: "(k8s_error \<Rightarrow> string) \<Rightarrow> k8s_error + string list list \<Rightarrow> string list list" where
  "log_lines show_error r = (case r of Inr ss \<Rightarrow> ss | Inl e \<Rightarrow> [[''[roder] failed to get logs: '' @ show_error e]])"

definition logs_endpoint ::
  "(k8s_error \<Rightarrow> string) \<Rightarrow> 'w access_env \<Rightarrow> log_env \<Rightarrow> log_seen \<Rightarrow> log_query \<Rightarrow> ('w, log_response) accessing" where
  "logs_endpoint show_error env lg seen q = (case lq_pod q of
     Some pod \<Rightarrow> do {
       ok \<leftarrow> backend_can_action env Logs ''/v1/Pod'' (Some (lq_namespace q)) (Some pod) None;
       ret (if \<not> ok then LogStatus 403 []
            else let follow = pod_active lg (lq_namespace q) pod in
              LogEvents (log_lines show_error (fst (logs lg (lq_namespace q) pod (lq_container q) follow seen))) (\<not> follow)) }
   | None \<Rightarrow> (case (lq_key q, lq_name q) of
       (Some key, Some name) \<Rightarrow> do {
         ok \<leftarrow> backend_can_action env Logs key (Some (lq_namespace q)) (Some name) None;
         ret (if \<not> ok then LogStatus 403 []
              else LogEvents (log_lines show_error (logs_workload lg key (lq_namespace q) name True)) False) }
     | _ \<Rightarrow> ret (LogStatus 400 ''logs: need pod, or key+name'')))"

section \<open>The history of usage\<close>

datatype history_response =
    HistoryStatus nat string
  | HistoryPoints "metrics_point list"

definition backend_pod_metrics_history :: "metrics_caches \<Rightarrow> string \<Rightarrow> string \<Rightarrow> k8s_error + metrics_point list" where
  "backend_pod_metrics_history mc ns name = Inr (unwrap_or [] (pod_metrics_history mc ns name))"

definition metrics_history_endpoint ::
  "(k8s_error \<Rightarrow> string) \<Rightarrow> 'w access_env \<Rightarrow> metrics_caches \<Rightarrow> string \<Rightarrow> string \<Rightarrow> ('w, history_response) accessing" where
  "metrics_history_endpoint show_error env mc ns name = do {
     ok \<leftarrow> can_named env ''get'' ''/v1/Pod'' (Some ns) name;
     ret (if \<not> ok then HistoryStatus 403 []
          else (case backend_pod_metrics_history mc ns name of
            Inr points \<Rightarrow> HistoryPoints points | Inl e \<Rightarrow> HistoryStatus 502 (show_error e))) }"

section \<open>What they give away\<close>

text \<open>Lines are only sent to who may read the logs of what was asked for, and the stream says that it is over exactly
  when the pod that was asked for had ended.\<close>

lemma logs_need_the_right:
  assumes "run_state (logs_endpoint show_error env lg seen q) s = (LogEvents ss eof, s')"
  shows "(\<exists>pod. lq_pod q = Some pod \<and> eof = (\<not> pod_active lg (lq_namespace q) pod)
      \<and> run_state (backend_can_action env Logs ''/v1/Pod'' (Some (lq_namespace q)) (Some pod) None) s = (True, s'))
    \<or> (\<exists>key name. lq_pod q = None \<and> lq_key q = Some key \<and> lq_name q = Some name \<and> \<not> eof
      \<and> run_state (backend_can_action env Logs key (Some (lq_namespace q)) (Some name) None) s = (True, s'))"
  using assms
  by (auto simp: logs_endpoint_def Let_def split: option.splits prod.splits if_splits)

lemma history_needs_the_right:
  assumes "run_state (metrics_history_endpoint show_error env mc ns name) s = (HistoryPoints points, s')"
  shows "run_state (can_named env ''get'' ''/v1/Pod'' (Some ns) name) s = (True, s')
    \<and> points = unwrap_or [] (hm_get (mc_history mc) (ns @ ''/'' @ name))"
  using assms
  by (auto simp: metrics_history_endpoint_def backend_pod_metrics_history_def pod_metrics_history_def
      split: prod.splits if_splits)

end
